(* ===== verification/Prelude.thy ===== *)
theory Prelude
  imports Main "HOL-Library.AList" "HOL-Library.Sublist" "HOL-Library.Char_ord" "HOL-Library.Code_Target_Numeral"
begin

text \<open>
  Shared vocabulary of the development: database tables as lists of rows with the
  operations the ORM calls of \<^verbatim>\<open>backend/open_webui/models\<close> amount to, the SQL
  \<open>ILIKE\<close> match, the string functions of Python the code calls, and the interface
  (locale \<open>keyed_store\<close>) of a table that is used through its primary key.

  Strings are lists of characters; a character is read as a Unicode code point below 256.
  A row list is one physical order of the table's rows. No theorem fixes that order: the
  tables of every statement are arbitrary lists.
\<close>

named_theorems row_simps \<open>rewriting of table operations\<close>
named_theorems str_simps \<open>rewriting of string operations\<close>

type_synonym id = string
type_synonym time = int

section \<open>Results of fallible code\<close>

abbreviation Raise :: "'e \<Rightarrow> 'e + 'a" where "Raise \<equiv> Inl"
abbreviation Return :: "'a \<Rightarrow> 'e + 'a" where "Return \<equiv> Inr"

definition and_then :: "'e + 'a \<Rightarrow> ('a \<Rightarrow> 'e + 'b) \<Rightarrow> 'e + 'b" where
  "and_then r f = (case r of Inl e \<Rightarrow> Inl e | Inr x \<Rightarrow> f x)"

lemma and_then_simps [simp]:
  "and_then (Inl e) f = Inl e"
  "and_then (Inr x) f = f x"
  by (simp_all add: and_then_def)

lemma and_then_Inr_iff: "and_then r f = Inr y \<longleftrightarrow> (\<exists>x. r = Inr x \<and> f x = Inr y)"
  by (cases r) auto

lemma and_then_Inl_iff:
  "and_then r f = Inl e \<longleftrightarrow> r = Inl e \<or> (\<exists>x. r = Inr x \<and> f x = Inl e)"
  by (cases r) auto

text \<open>A list comprehension whose element may raise.\<close>

fun each :: "('a \<Rightarrow> 'e + 'b) \<Rightarrow> 'a list \<Rightarrow> 'e + 'b list" where
  "each f [] = Inr []"
| "each f (x # xs) = and_then (f x) (\<lambda>y. and_then (each f xs) (\<lambda>ys. Inr (y # ys)))"

lemma each_Inr: "(\<And>x. x \<in> set xs \<Longrightarrow> f x = Inr (g x)) \<Longrightarrow> each f xs = Inr (map g xs)"
  by (induction xs) auto

lemma each_Inr_length: "each f xs = Inr ys \<Longrightarrow> length ys = length xs"
  by (induction xs arbitrary: ys) (auto simp: and_then_Inr_iff)

section \<open>Tables\<close>

text \<open>\<open>query.filter(p).first()\<close>, \<open>.filter(p).all()\<close>, \<open>.filter(p).update(f)\<close> and
  \<open>.filter(p).delete()\<close>.\<close>

definition first_row :: "('r \<Rightarrow> bool) \<Rightarrow> 'r list \<Rightarrow> 'r option" where
  "first_row p rs = find p rs"

definition all_rows :: "('r \<Rightarrow> bool) \<Rightarrow> 'r list \<Rightarrow> 'r list" where
  "all_rows p rs = filter p rs"

definition upd_rows :: "('r \<Rightarrow> bool) \<Rightarrow> ('r \<Rightarrow> 'r) \<Rightarrow> 'r list \<Rightarrow> 'r list" where
  "upd_rows p f rs = map (\<lambda>r. if p r then f r else r) rs"

definition del_rows :: "('r \<Rightarrow> bool) \<Rightarrow> 'r list \<Rightarrow> 'r list" where
  "del_rows p rs = filter (\<lambda>r. \<not> p r) rs"

text \<open>\<open>db.add(row); db.commit()\<close>: the insert of a row whose primary (or unique) key is
  already there fails, and the transaction is undone.\<close>

definition add_row :: "('r \<Rightarrow> 'k) \<Rightarrow> 'r \<Rightarrow> 'r list \<Rightarrow> 'r list option" where
  "add_row key r rs = (if key r \<in> key ` set rs then None else Some (rs @ [r]))"

definition unique_key :: "('r \<Rightarrow> 'k) \<Rightarrow> 'r list \<Rightarrow> bool" where
  "unique_key key rs \<longleftrightarrow> distinct (map key rs)"

text \<open>\<open>ORDER BY key DESC\<close>, then \<open>OFFSET\<close> and \<open>LIMIT\<close>.\<close>

definition order_desc :: "('r \<Rightarrow> int) \<Rightarrow> 'r list \<Rightarrow> 'r list" where
  "order_desc key rs = sort_key (\<lambda>r. - key r) rs"

definition page :: "nat \<Rightarrow> nat \<Rightarrow> 'r list \<Rightarrow> 'r list" where
  "page skip limit rs = take limit (drop skip rs)"

lemma first_row_simps [row_simps, simp]:
  "first_row p [] = None"
  "first_row p (r # rs) = (if p r then Some r else first_row p rs)"
  by (simp_all add: first_row_def)

lemma first_row_SomeD: "first_row p rs = Some r \<Longrightarrow> r \<in> set rs \<and> p r"
  by (induction rs) (auto split: if_splits)

lemma first_row_None_iff: "first_row p rs = None \<longleftrightarrow> (\<forall>r \<in> set rs. \<not> p r)"
  by (induction rs) auto

lemma first_row_append:
  "first_row p (rs @ qs) = (case first_row p rs of None \<Rightarrow> first_row p qs | Some r \<Rightarrow> Some r)"
  by (induction rs) auto

lemma first_row_cong: "(\<And>r. r \<in> set rs \<Longrightarrow> p r = q r) \<Longrightarrow> first_row p rs = first_row q rs"
  by (induction rs) auto

lemma set_all_rows [row_simps, simp]: "set (all_rows p rs) = {r \<in> set rs. p r}"
  by (simp add: all_rows_def)

lemma set_del_rows [row_simps, simp]: "set (del_rows p rs) = {r \<in> set rs. \<not> p r}"
  by (simp add: del_rows_def)

lemma set_upd_rows [row_simps]: "set (upd_rows p f rs) = (\<lambda>r. if p r then f r else r) ` set rs"
  by (simp add: upd_rows_def)

lemma upd_rows_simps [row_simps, simp]:
  "upd_rows p f [] = []"
  "upd_rows p f (r # rs) = (if p r then f r else r) # upd_rows p f rs"
  by (simp_all add: upd_rows_def)

lemma del_rows_simps [row_simps, simp]:
  "del_rows p [] = []"
  "del_rows p (r # rs) = (if p r then del_rows p rs else r # del_rows p rs)"
  by (simp_all add: del_rows_def)

lemma del_rows_append [row_simps, simp]: "del_rows p (rs @ qs) = del_rows p rs @ del_rows p qs"
  by (simp add: del_rows_def)

lemma upd_rows_append [row_simps, simp]: "upd_rows p f (rs @ qs) = upd_rows p f rs @ upd_rows p f qs"
  by (simp add: upd_rows_def)

lemma all_rows_simps [row_simps, simp]:
  "all_rows p [] = []"
  "all_rows p (r # rs) = (if p r then r # all_rows p rs else all_rows p rs)"
  "all_rows p (rs @ qs) = all_rows p rs @ all_rows p qs"
  by (simp_all add: all_rows_def)

lemma length_upd_rows [row_simps, simp]: "length (upd_rows p f rs) = length rs"
  by (simp add: upd_rows_def)

lemma del_rows_idle: "(\<And>r. r \<in> set rs \<Longrightarrow> \<not> p r) \<Longrightarrow> del_rows p rs = rs"
  by (simp add: del_rows_def)

lemma first_row_del_rows:
  "first_row p (del_rows q rs) = first_row (\<lambda>r. p r \<and> \<not> q r) rs"
  by (induction rs) auto

lemma map_key_upd_rows:
  "(\<And>r. key (f r) = key r) \<Longrightarrow> map key (upd_rows p f rs) = map key rs"
  by (simp add: upd_rows_def)

lemma unique_key_simps [row_simps, simp]:
  "unique_key key []"
  "unique_key key (r # rs) \<longleftrightarrow> key r \<notin> key ` set rs \<and> unique_key key rs"
  by (auto simp: unique_key_def)

lemma unique_key_append:
  "unique_key key (rs @ qs) \<longleftrightarrow>
     unique_key key rs \<and> unique_key key qs \<and> key ` set rs \<inter> key ` set qs = {}"
  by (simp add: unique_key_def)

lemma unique_key_del_rows [intro]: "unique_key key rs \<Longrightarrow> unique_key key (del_rows p rs)"
  by (simp add: unique_key_def del_rows_def distinct_map_filter)

lemma unique_key_upd_rows:
  "(\<And>r. key (f r) = key r) \<Longrightarrow> unique_key key (upd_rows p f rs) = unique_key key rs"
  by (simp add: unique_key_def map_key_upd_rows)

lemma unique_keyD: "unique_key key rs \<Longrightarrow> r \<in> set rs \<Longrightarrow> q \<in> set rs \<Longrightarrow> key r = key q \<Longrightarrow> r = q"
  by (auto simp: unique_key_def distinct_map dest: inj_onD)

lemma first_row_unique:
  "unique_key key rs \<Longrightarrow> r \<in> set rs \<Longrightarrow> first_row (\<lambda>q. key q = key r) rs = Some r"
  by (induction rs) auto

lemma first_row_key_iff:
  "unique_key key rs \<Longrightarrow> first_row (\<lambda>q. key q = k) rs = Some r \<longleftrightarrow> r \<in> set rs \<and> key r = k"
  using first_row_unique[of key rs r] first_row_SomeD[of "\<lambda>q. key q = k" rs r] by auto

lemma unique_key_add_row:
  "add_row key r rs = Some rs' \<Longrightarrow> unique_key key rs \<Longrightarrow> unique_key key rs'"
  by (auto simp: add_row_def unique_key_append split: if_splits)

lemma add_row_Some_iff: "add_row key r rs = Some rs' \<longleftrightarrow> key r \<notin> key ` set rs \<and> rs' = rs @ [r]"
  by (auto simp: add_row_def)

lemma disjoint_image_neq: "f ` A \<inter> f ` B = {} \<Longrightarrow> x \<in> A \<Longrightarrow> y \<in> B \<Longrightarrow> f x \<noteq> f y"
  by blast

lemma set_order_desc [row_simps, simp]: "set (order_desc key rs) = set rs"
  by (simp add: order_desc_def)

lemma length_order_desc [row_simps, simp]: "length (order_desc key rs) = length rs"
  by (simp add: order_desc_def)

lemma sorted_order_desc: "sorted_wrt (\<lambda>r q. key q \<le> key r) (order_desc key rs)"
proof -
  have "sorted (map (\<lambda>r. - key r) (order_desc key rs))"
    by (simp add: order_desc_def)
  then show ?thesis
    by (simp add: sorted_map)
qed

lemma distinct_order_desc [row_simps, simp]: "distinct (order_desc key rs) = distinct rs"
  by (simp add: order_desc_def)

lemma set_page_subset: "set (page skip limit rs) \<subseteq> set rs"
  by (auto simp: page_def dest: in_set_takeD in_set_dropD)

lemma length_page: "length (page skip limit rs) \<le> limit"
  by (simp add: page_def)

end
