(* ===== verification/Keyed_Store.thy ===== *)
theory Keyed_Store
  imports Prelude
begin

text \<open>
  The interface through which handlers use a table: a look-up by primary key, an insert
  that fails on a taken key, and a delete by key. \<open>keyed_store\<close> states the laws; its
  lemmas hold for every table of the model that is shown to satisfy them. The abstract
  view of such a table is a partial map, and every run of inserts and deletes refines the
  same run on the map (\<open>run_refines\<close>).
\<close>

datatype ('k, 'v) store_op = Ins 'v | Del 'k

fun map_op :: "('v \<Rightarrow> 'k) \<Rightarrow> ('k, 'v) store_op \<Rightarrow> ('k \<rightharpoonup> 'v) \<Rightarrow> ('k \<rightharpoonup> 'v)" where
  "map_op key (Ins v) m = (if m (key v) = None then m(key v \<mapsto> v) else m)"
| "map_op key (Del k) m = m(k := None)"

fun map_run :: "('v \<Rightarrow> 'k) \<Rightarrow> ('k, 'v) store_op list \<Rightarrow> ('k \<rightharpoonup> 'v) \<Rightarrow> ('k \<rightharpoonup> 'v)" where
  "map_run key [] m = m"
| "map_run key (x # xs) m = map_run key xs (map_op key x m)"

fun store_op_run ::
  "('v \<Rightarrow> 's \<Rightarrow> 's option) \<Rightarrow> ('k \<Rightarrow> 's \<Rightarrow> 's) \<Rightarrow> ('k, 'v) store_op \<Rightarrow> 's \<Rightarrow> 's" where
  "store_op_run ins del (Ins v) s = (case ins v s of None \<Rightarrow> s | Some s' \<Rightarrow> s')"
| "store_op_run ins del (Del k) s = del k s"

fun store_run ::
  "('v \<Rightarrow> 's \<Rightarrow> 's option) \<Rightarrow> ('k \<Rightarrow> 's \<Rightarrow> 's) \<Rightarrow> ('k, 'v) store_op list \<Rightarrow> 's \<Rightarrow> 's" where
  "store_run ins del [] s = s"
| "store_run ins del (x # xs) s = store_run ins del xs (store_op_run ins del x s)"

locale keyed_store =
  fixes key :: "'v \<Rightarrow> 'k"
    and get :: "'k \<Rightarrow> 's \<Rightarrow> 'v option"
    and ins :: "'v \<Rightarrow> 's \<Rightarrow> 's option"
    and del :: "'k \<Rightarrow> 's \<Rightarrow> 's"
    and ok :: "'s \<Rightarrow> bool"
  assumes ins_None: "ok s \<Longrightarrow> ins v s = None \<longleftrightarrow> get (key v) s \<noteq> None"
    and get_ins: "ok s \<Longrightarrow> ins v s = Some s' \<Longrightarrow> get j s' = (if j = key v then Some v else get j s)"
    and get_del: "ok s \<Longrightarrow> get j (del k s) = (if j = k then None else get j s)"
    and ok_ins: "ok s \<Longrightarrow> ins v s = Some s' \<Longrightarrow> ok s'"
    and ok_del: "ok s \<Longrightarrow> ok (del k s)"
begin

lemmas laws = ins_None get_ins get_del ok_ins ok_del

lemma ins_then_get: "ok s \<Longrightarrow> ins v s = Some s' \<Longrightarrow> get (key v) s' = Some v"
  by (simp add: get_ins)

lemma del_then_get: "ok s \<Longrightarrow> get k (del k s) = None"
  by (simp add: get_del)

lemma ins_fresh: "ok s \<Longrightarrow> get (key v) s = None \<Longrightarrow> \<exists>s'. ins v s = Some s'"
  using ins_None[of s v] by auto

lemma ins_del_restores:
  "ok s \<Longrightarrow> ins v s = Some s' \<Longrightarrow> get j (del (key v) s') = get j s"
  using ins_None[of s v] by (auto simp: get_del get_ins ok_ins)

lemma ok_run: "ok s \<Longrightarrow> ok (store_run ins del xs s)"
proof (induction xs arbitrary: s)
  case (Cons x xs)
  then have "ok (store_op_run ins del x s)"
    by (cases x) (auto simp: ok_del ok_ins split: option.splits)
  then show ?case by (simp add: Cons.IH)
qed simp

lemma op_refines:
  "ok s \<Longrightarrow> (\<lambda>j. get j (store_op_run ins del x s)) = map_op key x (\<lambda>j. get j s)"
proof (cases x)
  case (Ins v)
  assume "ok s"
  then show ?thesis
    using Ins ins_None[of s v] get_ins[of s v]
    by (auto split: option.splits)
next
  case (Del k)
  assume "ok s"
  then show ?thesis using Del by (auto simp: get_del)
qed

lemma run_refines:
  "ok s \<Longrightarrow> (\<lambda>j. get j (store_run ins del xs s)) = map_run key xs (\<lambda>j. get j s)"
proof (induction xs arbitrary: s)
  case (Cons x xs)
  have "ok (store_op_run ins del x s)"
    using ok_run[OF Cons.prems, of "[x]"] by simp
  then show ?case
    by (simp add: Cons.IH op_refines[OF Cons.prems])
qed simp

end

text \<open>A table whose rows carry their own key satisfies the laws.\<close>

definition row_get :: "('r \<Rightarrow> 'k) \<Rightarrow> 'k \<Rightarrow> 'r list \<Rightarrow> 'r option" where
  "row_get key k rs = first_row (\<lambda>r. key r = k) rs"

definition row_del :: "('r \<Rightarrow> 'k) \<Rightarrow> 'k \<Rightarrow> 'r list \<Rightarrow> 'r list" where
  "row_del key k rs = del_rows (\<lambda>r. key r = k) rs"

lemma row_get_None_iff: "row_get key k rs = None \<longleftrightarrow> k \<notin> key ` set rs"
  by (auto simp: row_get_def first_row_None_iff)

lemma row_get_SomeD: "row_get key k rs = Some r \<Longrightarrow> r \<in> set rs \<and> key r = k"
  unfolding row_get_def by (drule first_row_SomeD) simp

lemma row_get_add:
  assumes "add_row key r rs = Some rs'"
  shows "row_get key j rs' = (if j = key r then Some r else row_get key j rs)"
proof -
  from assms have rs': "rs' = rs @ [r]" and "row_get key (key r) rs = None"
    by (auto simp: add_row_Some_iff row_get_None_iff)
  then show ?thesis
    by (auto simp: row_get_def first_row_append split: option.split)
qed

lemma row_get_del: "row_get key j (row_del key k rs) = (if j = k then None else row_get key j rs)"
  by (auto simp: row_get_def row_del_def first_row_del_rows first_row_None_iff
      intro: first_row_cong)

lemma row_get_upd:
  assumes "\<And>r. key (f r) = key r"
  shows "row_get key j (upd_rows p f rs) =
    map_option (\<lambda>r. if p r then f r else r) (row_get key j rs)"
  using assms by (induction rs) (auto simp: row_get_def)

lemma row_get_Nil [simp]: "row_get key j [] = None"
  by (simp add: row_get_def)

lemma row_get_append: "row_get key j (rs @ qs) = (case row_get key j rs of None \<Rightarrow> row_get key j qs | Some r \<Rightarrow> Some r)"
  by (simp add: row_get_def first_row_append split: option.split)

lemma row_get_Cons: "row_get key j (r # rs) = (if key r = j then Some r else row_get key j rs)"
  by (simp add: row_get_def)

lemma row_get_single: "row_get key j [r] = (if key r = j then Some r else None)"
  by (simp add: row_get_def)

lemma row_get_upd_key:
  assumes "\<And>r. key (f r) = key r"
  shows "row_get key j (upd_rows (\<lambda>r. key r = k) f rs) = (if j = k then map_option f (row_get key j rs) else row_get key j rs)"
  using assms by (induction rs) (auto simp: row_get_def)

lemma row_get_set_key:
  "key v = k \<Longrightarrow> row_get key j (upd_rows (\<lambda>r. key r = k) (\<lambda>_. v) rs) = (if j = k then map_option (\<lambda>_. v) (row_get key j rs) else row_get key j rs)"
  by (induction rs) (auto simp: row_get_def)

lemma add_row_None_iff: "add_row key r rs = None \<longleftrightarrow> row_get key (key r) rs \<noteq> None"
  unfolding row_get_None_iff by (simp add: add_row_def)

lemma unique_key_row_del: "unique_key key rs \<Longrightarrow> unique_key key (row_del key k rs)"
  by (auto simp: row_del_def)

text \<open>A state with such a table as one of its components is a store.\<close>

lemma table_keyed_store:
  assumes "\<And>s t. tab (put t s) = t"
  shows "keyed_store key (\<lambda>k s. row_get key k (tab s)) (\<lambda>v s. map_option (\<lambda>t. put t s) (add_row key v (tab s)))
    (\<lambda>k s. put (row_del key k (tab s)) s) (\<lambda>s. unique_key key (tab s))"
  by unfold_locales
    (auto simp: assms add_row_None_iff row_get_add row_get_del unique_key_add_row unique_key_row_del)

end
