(* ===== verification/Python.thy ===== *)
theory Python
  imports Prelude
begin

text \<open>
  What the code uses of Python: strings (characters are code points below 256), \<open>int()\<close>,
  the exceptions, JSON-like values and dictionaries. A dictionary is an association list
  in insertion order, as Python keeps it; assigning to a present key keeps its place.
  A float is carried as its \<open>repr\<close>. The last part is SQL's \<open>ILIKE\<close>.
\<close>

section \<open>Strings\<close>

abbreviation code :: "char \<Rightarrow> nat" where "code c \<equiv> of_char c"

definition lower_char :: "char \<Rightarrow> char" where
  "lower_char c = (let n = code c in
     if (65 \<le> n \<and> n \<le> 90) \<or> (192 \<le> n \<and> n \<le> 222 \<and> n \<noteq> 215) then char_of (n + 32) else c)"

definition lower :: "string \<Rightarrow> string" where
  "lower s = map lower_char s"

definition is_space :: "char \<Rightarrow> bool" where
  "is_space c \<longleftrightarrow> (let n = code c in
     (9 \<le> n \<and> n \<le> 13) \<or> (28 \<le> n \<and> n \<le> 32) \<or> n = 133 \<or> n = 160)"

definition lstrip :: "string \<Rightarrow> string" where "lstrip s = dropWhile is_space s"
definition rstrip :: "string \<Rightarrow> string" where "rstrip s = rev (dropWhile is_space (rev s))"
definition strip :: "string \<Rightarrow> string" where "strip s = rstrip (lstrip s)"

definition startswith :: "string \<Rightarrow> string \<Rightarrow> bool" where "startswith s p = prefix p s"
definition endswith :: "string \<Rightarrow> string \<Rightarrow> bool" where "endswith s p = suffix p s"

text \<open>\<open>s.split(c)\<close> for a one-character separator, and \<open>c.join(xs)\<close>.\<close>

fun split_on :: "'a \<Rightarrow> 'a list \<Rightarrow> 'a list list" where
  "split_on c [] = [[]]"
| "split_on c (x # xs) =
     (if x = c then [] # split_on c xs
      else (case split_on c xs of [] \<Rightarrow> [[x]] | p # ps \<Rightarrow> (x # p) # ps))"

fun join :: "'a list \<Rightarrow> 'a list list \<Rightarrow> 'a list" where
  "join sep [] = []"
| "join sep [p] = p"
| "join sep (p # q # ps) = p @ sep @ join sep (q # ps)"

lemma split_on_nonempty [simp]: "split_on c xs \<noteq> []"
  by (cases xs) (auto split: list.splits)

lemma split_on_free: "p \<in> set (split_on c xs) \<Longrightarrow> c \<notin> set p"
proof (induction xs arbitrary: p)
  case (Cons x xs)
  then show ?case by (cases "split_on c xs") (auto split: if_splits)
qed simp

lemma join_Cons: "ps \<noteq> [] \<Longrightarrow> join sep (p # ps) = p @ sep @ join sep ps"
  by (cases ps) auto

lemma join_split_on [str_simps, simp]: "join [c] (split_on c xs) = xs"
proof (induction xs)
  case (Cons x xs)
  obtain p ps where s: "split_on c xs = p # ps" by (cases "split_on c xs") auto
  show ?case
    using Cons s by (cases ps) (auto simp: join_Cons)
qed simp

lemma split_on_append_free: "c \<notin> set p \<Longrightarrow> split_on c (p @ c # xs) = p # split_on c xs"
  by (induction p) auto

lemma split_on_id: "c \<notin> set xs \<Longrightarrow> split_on c xs = [xs]"
  by (induction xs) auto

lemma split_on_join:
  "ps \<noteq> [] \<Longrightarrow> (\<And>p. p \<in> set ps \<Longrightarrow> c \<notin> set p) \<Longrightarrow> split_on c (join [c] ps) = ps"
proof (induction "[c]" ps rule: join.induct)
  case (3 p q ps)
  then show ?case by (simp add: split_on_append_free)
qed (auto simp: split_on_id)

lemma split_on_append:
  "split_on c (xs @ ys) =
     butlast (split_on c xs) @ (last (split_on c xs) @ hd (split_on c ys)) # tl (split_on c ys)"
proof (induction xs)
  case Nil
  show ?case by (cases "split_on c ys") auto
next
  case (Cons x xs)
  obtain p ps where s: "split_on c xs = p # ps" by (cases "split_on c xs") auto
  then show ?case using Cons by (cases "x = c") (cases ps; auto)+
qed

lemma length_lower [str_simps, simp]: "length (lower s) = length s"
  by (simp add: lower_def)

lemma lower_append [str_simps, simp]: "lower (s @ t) = lower s @ lower t"
  by (simp add: lower_def)

lemma of_char_lt_256: "code c < 256"
  by (cases c) (simp add: of_char_def horner_sum_simps of_bool_def)

lemma lower_char_idem [str_simps, simp]: "lower_char (lower_char c) = lower_char c"
proof -
  have *: "(65 \<le> n \<and> n \<le> 90) \<or> (192 \<le> n \<and> n \<le> 222 \<and> n \<noteq> 215) \<Longrightarrow>
     of_char (char_of (n + 32) :: char) = n + 32" for n :: nat
    by (auto simp: take_bit_eq_mod of_char_of)
  show ?thesis
    unfolding lower_char_def Let_def using of_char_lt_256[of c] by (auto simp: *)
qed

lemma lower_idem [str_simps, simp]: "lower (lower s) = lower s"
  by (simp add: lower_def)

lemma strip_no_space_ends:
  "strip s \<noteq> [] \<Longrightarrow> \<not> is_space (hd (strip s)) \<and> \<not> is_space (last (strip s))"
proof -
  assume ne: "strip s \<noteq> []"
  let ?t = "dropWhile is_space s"
  have l: "\<not> is_space (last (strip s))"
    using ne hd_dropWhile[of is_space "rev ?t"]
    by (simp add: strip_def rstrip_def lstrip_def last_rev)
  have pre: "prefix (strip s) ?t"
    unfolding strip_def rstrip_def lstrip_def
    by (metis rev_rev_ident suffix_dropWhile suffix_to_prefix)
  then obtain zs where zs: "?t = strip s @ zs" by (auto simp: prefix_def)
  then have "hd ?t = hd (strip s)" "?t \<noteq> []" using ne by auto
  then have "\<not> is_space (hd (strip s))" using hd_dropWhile[of is_space s] by auto
  with l show ?thesis by simp
qed

lemma strip_idem [str_simps, simp]: "strip (strip s) = strip s"
proof (cases "strip s = []")
  case True
  moreover have "strip [] = []" by (simp add: strip_def rstrip_def lstrip_def)
  ultimately show ?thesis by simp
next
  case False
  then have h: "\<not> is_space (hd (strip s))" "\<not> is_space (last (strip s))"
    using strip_no_space_ends by auto
  have "dropWhile is_space (strip s) = strip s"
    using h(1) False by (cases "strip s") auto
  moreover have "dropWhile is_space (rev (strip s)) = rev (strip s)"
    using h(2) False by (cases "rev (strip s)") (auto simp: last_rev hd_rev[symmetric])
  ultimately show ?thesis by (simp only: strip_def[of "strip s"] lstrip_def rstrip_def rev_rev_ident)
qed

section \<open>Integers as text\<close>

definition digit :: "nat \<Rightarrow> char" where "digit n = char_of (48 + n)"
definition is_digit :: "char \<Rightarrow> bool" where "is_digit c \<longleftrightarrow> 48 \<le> code c \<and> code c \<le> 57"
definition digit_val :: "char \<Rightarrow> nat" where "digit_val c = code c - 48"

fun nat_str :: "nat \<Rightarrow> string" where
  "nat_str n = (if n < 10 then [digit n] else nat_str (n div 10) @ [digit (n mod 10)])"

declare nat_str.simps [simp del]

definition int_str :: "int \<Rightarrow> string" where
  "int_str i = (if i < 0 then CHR ''-'' # nat_str (nat (- i)) else nat_str (nat i))"

definition digits_val :: "string \<Rightarrow> nat" where
  "digits_val s = foldl (\<lambda>n c. 10 * n + digit_val c) 0 s"

text \<open>\<open>int(s)\<close>: white space around, a sign, digits with single underscores between them.\<close>

fun digit_groups :: "string list \<Rightarrow> bool" where
  "digit_groups gs = (gs \<noteq> [] \<and> list_all (\<lambda>g. g \<noteq> [] \<and> list_all is_digit g) gs)"

definition py_nat :: "string \<Rightarrow> nat option" where
  "py_nat s = (let gs = split_on CHR ''_'' s in
     if digit_groups gs then Some (digits_val (concat gs)) else None)"

definition py_int :: "string \<Rightarrow> int option" where
  "py_int s = (case strip s of
     [] \<Rightarrow> None
   | c # cs \<Rightarrow>
       if c = CHR ''-'' then map_option (\<lambda>n. - int n) (py_nat cs)
       else if c = CHR ''+'' then map_option int (py_nat cs)
       else map_option int (py_nat (c # cs)))"

lemma code_digit: "n < 10 \<Longrightarrow> code (digit n) = 48 + n"
  by (simp add: digit_def of_char_of take_bit_eq_mod)

lemma digit_val_digit [simp]: "n < 10 \<Longrightarrow> digit_val (digit n) = n"
  by (simp add: digit_val_def code_digit)

lemma is_digit_digit [simp]: "n < 10 \<Longrightarrow> is_digit (digit n)"
  by (simp add: is_digit_def code_digit)

lemma digits_val_snoc [simp]: "digits_val (s @ [c]) = 10 * digits_val s + digit_val c"
  by (simp add: digits_val_def)

lemma digits_val_nat_str [simp]: "digits_val (nat_str n) = n"
proof (induction n rule: nat_str.induct)
  case (1 n)
  show ?case
  proof (cases "n < 10")
    case True
    then show ?thesis by (subst nat_str.simps) (simp add: digits_val_def)
  next
    case False
    then show ?thesis using 1 by (subst nat_str.simps) simp
  qed
qed

lemma nat_str_digits: "list_all is_digit (nat_str n) \<and> nat_str n \<noteq> []"
proof (induction n rule: nat_str.induct)
  case (1 n)
  then show ?case by (subst (1 2) nat_str.simps) auto
qed

lemma digit_not_special:
  "is_digit c \<Longrightarrow> c \<noteq> CHR ''_'' \<and> c \<noteq> CHR ''-'' \<and> c \<noteq> CHR ''+'' \<and> \<not> is_space c"
  by (auto simp: is_digit_def is_space_def Let_def)

lemma py_nat_nat_str [simp]: "py_nat (nat_str n) = Some n"
proof -
  have "CHR ''_'' \<notin> set (nat_str n)"
    using nat_str_digits[of n] by (auto simp: list_all_iff dest: digit_not_special)
  then show ?thesis
    using nat_str_digits[of n] by (simp add: py_nat_def split_on_id)
qed

lemma strip_ends:
  assumes "s \<noteq> []" "\<not> is_space (hd s)" "\<not> is_space (last s)"
  shows "strip s = s"
proof -
  have 1: "dropWhile is_space s = s" using assms by (cases s) auto
  have 2: "dropWhile is_space (rev s) = rev s"
    using assms by (cases "rev s") (auto simp: hd_rev[symmetric] simp flip: hd_rev)
  show ?thesis by (simp add: strip_def lstrip_def rstrip_def 1 2)
qed

lemma py_int_int_str [simp]: "py_int (int_str i) = Some i"
proof -
  have ns: "\<And>n. nat_str n \<noteq> []" "\<And>n c. c \<in> set (nat_str n) \<Longrightarrow> is_digit c"
    using nat_str_digits by (auto simp: list_all_iff)
  have hl: "\<And>n. \<not> is_space (hd (nat_str n)) \<and> \<not> is_space (last (nat_str n))"
    using ns by (meson digit_not_special hd_in_set last_in_set)
  have st: "\<And>n. strip (nat_str n) = nat_str n"
    using ns hl by (simp add: strip_ends)
  have sm: "\<And>n. strip (CHR ''-'' # nat_str n) = CHR ''-'' # nat_str n"
    using ns hl by (intro strip_ends) (auto simp: is_space_def Let_def)
  show ?thesis
  proof (cases "i < 0")
    case True
    then show ?thesis by (simp add: py_int_def int_str_def sm)
  next
    case False
    obtain c cs where n: "nat_str (nat i) = c # cs" using ns(1) by (cases "nat_str (nat i)") auto
    then have "is_digit c" using ns(2)[of c "nat i"] by simp
    then have "c \<noteq> CHR ''-''" "c \<noteq> CHR ''+''" using digit_not_special by auto
    then show ?thesis
      using False st[of "nat i"] py_nat_nat_str[of "nat i"] by (simp add: py_int_def int_str_def n)
  qed
qed

section \<open>Exceptions\<close>

datatype py_error =
    KeyError | TypeError | ValueError | IndexError | AttributeError | RecursionError | IntegrityError | InvalidRequestError | NameError

text \<open>What a handler answers in place of a result; \<open>ServerError\<close> is an uncaught exception.\<close>

datatype http_error = BadRequest | Unauthorized | Forbidden | NotFound | TooManyRequests | ServerError

text \<open>An exception becomes the answer of the place it is raised in.\<close>

definition raising :: "http_error \<Rightarrow> py_error + 'a \<Rightarrow> http_error + 'a" where
  "raising h r = (case r of Inl e \<Rightarrow> Inl h | Inr x \<Rightarrow> Inr x)"

section \<open>Values and dictionaries\<close>

datatype json =
    JNull
  | JBool bool
  | JInt int
  | JFloat string
  | JStr string
  | JList "json list"
  | JDict "(string \<times> json) list"

type_synonym dict = "(string \<times> json) list"

fun truthy :: "json \<Rightarrow> bool" where
  "truthy JNull = False"
| "truthy (JBool b) = b"
| "truthy (JInt i) = (i \<noteq> 0)"
| "truthy (JFloat r) = (r \<noteq> ''0.0'' \<and> r \<noteq> ''-0.0'')"
| "truthy (JStr s) = (s \<noteq> [])"
| "truthy (JList xs) = (xs \<noteq> [])"
| "truthy (JDict d) = (d \<noteq> [])"

fun is_dict :: "json \<Rightarrow> bool" where
  "is_dict (JDict d) = True"
| "is_dict _ = False"

abbreviation dget :: "dict \<Rightarrow> string \<Rightarrow> json option" where "dget d k \<equiv> map_of d k"
abbreviation dset :: "string \<Rightarrow> json \<Rightarrow> dict \<Rightarrow> dict" where "dset \<equiv> AList.update"
abbreviation dpop :: "string \<Rightarrow> dict \<Rightarrow> dict" where "dpop \<equiv> AList.delete"

definition dget_or :: "dict \<Rightarrow> string \<Rightarrow> json \<Rightarrow> json" where
  "dget_or d k v = (case dget d k of None \<Rightarrow> v | Some x \<Rightarrow> x)"

text \<open>\<open>{**a, **b}\<close>\<close>

definition dmerge :: "dict \<Rightarrow> dict \<Rightarrow> dict" where
  "dmerge a b = foldl (\<lambda>d (k, v). dset k v d) a b"

definition wf_dict :: "dict \<Rightarrow> bool" where
  "wf_dict d \<longleftrightarrow> distinct (map fst d)"

fun wf_json :: "json \<Rightarrow> bool" where
  "wf_json (JList xs) = list_all wf_json xs"
| "wf_json (JDict d) = (wf_dict d \<and> list_all (\<lambda>(k, v). wf_json v) d)"
| "wf_json _ = True"

lemma dget_dset [simp]: "dget (dset k v d) j = (if j = k then Some v else dget d j)"
  by (simp add: update_conv')

lemma wf_dict_dset [intro]: "wf_dict d \<Longrightarrow> wf_dict (dset k v d)"
  by (simp add: wf_dict_def distinct_update)

lemma wf_dict_dpop [intro]: "wf_dict d \<Longrightarrow> wf_dict (dpop k d)"
  by (simp add: wf_dict_def distinct_delete)

lemma dget_dpop [simp]: "dget (dpop k d) j = (if j = k then None else dget d j)"
  by (simp add: delete_conv')

lemma wf_dict_simps [simp]:
  "wf_dict []"
  "wf_dict ((k, v) # d) \<longleftrightarrow> dget d k = None \<and> wf_dict d"
  by (auto simp: wf_dict_def map_of_eq_None_iff)

lemma dmerge_simps [simp]:
  "dmerge a [] = a"
  "dmerge a ((k, v) # b) = dmerge (dset k v a) b"
  by (simp_all add: dmerge_def)

lemma dget_dmerge:
  "wf_dict b \<Longrightarrow> dget (dmerge a b) k = (case dget b k of None \<Rightarrow> dget a k | Some v \<Rightarrow> Some v)"
  by (induction b arbitrary: a) (auto split: option.splits)

lemma wf_dict_dmerge: "wf_dict a \<Longrightarrow> wf_dict (dmerge a b)"
  by (induction b arbitrary: a) (auto simp: wf_dict_dset)

lemma set_dset: "set (dset k v d) \<subseteq> insert (k, v) (set d)"
  by (induction d) auto

text \<open>\<open>str(v)\<close> as an f-string prints it; strings inside containers are printed by \<open>repr\<close>.\<close>

definition hex_digit :: "nat \<Rightarrow> char" where
  "hex_digit n = (if n < 10 then digit n else char_of (87 + n))"

definition repr_char :: "char \<Rightarrow> char \<Rightarrow> string" where
  "repr_char q c = (let n = code c in
     if c = q then [CHR 0x5C, c]
     else if n = 92 then [c, c]
     else if n = 10 then [CHR 0x5C, CHR ''n'']
     else if n = 13 then [CHR 0x5C, CHR ''r'']
     else if n = 9 then [CHR 0x5C, CHR ''t'']
     else if n < 32 \<or> (127 \<le> n \<and> n \<le> 160) \<or> n = 173
       then [CHR 0x5C, CHR ''x'', hex_digit (n div 16), hex_digit (n mod 16)]
     else [c])"

definition str_repr :: "string \<Rightarrow> string" where
  "str_repr s = (let q = (if CHR 0x27 \<in> set s \<and> CHR 0x22 \<notin> set s then CHR 0x22 else CHR 0x27)
     in [q] @ concat (map (repr_char q) s) @ [q])"

fun py_repr :: "json \<Rightarrow> string" where
  "py_repr JNull = ''None''"
| "py_repr (JBool b) = (if b then ''True'' else ''False'')"
| "py_repr (JInt i) = int_str i"
| "py_repr (JFloat r) = r"
| "py_repr (JStr s) = str_repr s"
| "py_repr (JList xs) = ''['' @ join '', '' (map py_repr xs) @ '']''"
| "py_repr (JDict d) = ''{'' @ join '', '' (map (\<lambda>(k, v). str_repr k @ '': '' @ py_repr v) d) @ ''}''"

fun py_str :: "json \<Rightarrow> string" where
  "py_str (JStr s) = s"
| "py_str v = py_repr v"

section \<open>SQL pattern match\<close>

text \<open>
  \<open>LIKE\<close>: a percent sign matches any text, an underscore any character. \<open>esc\<close> is the
  escape character of the dialect: the backslash on PostgreSQL, none on SQLite.
\<close>

fun like :: "char option \<Rightarrow> string \<Rightarrow> string \<Rightarrow> bool" where
  "like esc [] s = (s = [])"
| "like esc (p # ps) [] =
     (if esc = Some p then False else if p = CHR ''%'' then like esc ps [] else False)"
| "like esc (p # ps) (c # cs) =
     (if esc = Some p then (case ps of [] \<Rightarrow> False | q # qs \<Rightarrow> q = c \<and> like esc qs cs)
      else if p = CHR ''%'' then like esc ps (c # cs) \<or> like esc (p # ps) cs
      else (p = CHR ''_'' \<or> p = c) \<and> like esc ps cs)"

definition ilike :: "char option \<Rightarrow> string \<Rightarrow> string \<Rightarrow> bool" where
  "ilike esc s pat = like esc (lower pat) (lower s)"

definition plain_pattern :: "char option \<Rightarrow> string \<Rightarrow> bool" where
  "plain_pattern esc p \<longleftrightarrow> CHR ''%'' \<notin> set p \<and> CHR ''_'' \<notin> set p \<and> (\<forall>e. esc = Some e \<longrightarrow> e \<notin> set p)"

lemma like_plain: "plain_pattern esc p \<Longrightarrow> like esc p s \<longleftrightarrow> s = p"
  by (induction esc p s rule: like.induct) (auto simp: plain_pattern_def)

lemma like_percent: "esc \<noteq> Some CHR ''%'' \<Longrightarrow> like esc ''%'' s"
  by (induction s) auto

end
