(* ===== verification/Misc_Text.thy ===== *)
theory Misc_Text
  imports Python "HOL-Library.FSet"
begin

text \<open>
  The text and dictionary helpers of \<^verbatim>\<open>utils/misc.py\<close>: recursive dictionary update, the
  allow/block filter lists that guard web fetches, folder tags of a document path, the
  e-mail check, the logit-bias parser, URL extraction and the freezing of call arguments.
\<close>

section \<open>deep_update\<close>

text \<open>
  \<open>deep_update\<close> recurses where the update holds a mapping. Where the old value is no
  mapping, \<open>d.get\<close> or \<open>d[k] = v\<close> raises, unless the update there is empty.
\<close>

function (sequential) deep_update :: "json \<Rightarrow> dict \<Rightarrow> py_error + json" where
  "deep_update d [] = Inr d"
| "deep_update (JDict d) ((k, JDict v) # u) =
     (case deep_update (dget_or d k (JDict [])) v of
        Inl e \<Rightarrow> Inl e
      | Inr x \<Rightarrow> deep_update (JDict (dset k x d)) u)"
| "deep_update (JDict d) ((k, v) # u) = deep_update (JDict (dset k v d)) u"
| "deep_update _ ((k, JDict v) # u) = Inl AttributeError"
| "deep_update _ ((k, v) # u) = Inl TypeError"
  by pat_completeness auto
termination
  by (relation "measure (\<lambda>(d, u). size (JDict u))") auto

text \<open>The value at a path of keys.\<close>

fun jpath :: "json \<Rightarrow> string list \<Rightarrow> json option" where
  "jpath v [] = Some v"
| "jpath (JDict d) (k # ks) = (case dget d k of None \<Rightarrow> None | Some x \<Rightarrow> jpath x ks)"
| "jpath _ (k # ks) = None"

text \<open>A path of the update that ends at a leaf (a value that is no mapping).\<close>

definition leaf_at :: "json \<Rightarrow> string list \<Rightarrow> json \<Rightarrow> bool" where
  "leaf_at v ks x \<longleftrightarrow> jpath v ks = Some x \<and> \<not> is_dict x"

lemma jpath_nondict [simp]: "\<not> is_dict v \<Longrightarrow> ks \<noteq> [] \<Longrightarrow> jpath v ks = None"
  by (cases v; cases ks) auto

lemma deep_update_is_dict: "deep_update (JDict d) u = Inr r \<Longrightarrow> is_dict r"
proof (induction "JDict d" u arbitrary: d rule: deep_update.induct)
  case (2 d k v u)
  then show ?case by (auto split: sum.splits)
qed auto

lemma is_dictE: "is_dict v \<Longrightarrow> (\<And>d. v = JDict d \<Longrightarrow> P) \<Longrightarrow> P"
  by (cases v) auto

lemma deep_update_untouched:
  "deep_update (JDict d) u = Inr r \<Longrightarrow> dget u k = None \<Longrightarrow> jpath r (k # ks) = jpath (JDict d) (k # ks)"
proof (induction "JDict d" u arbitrary: d rule: deep_update.induct)
  case (2 d j v u)
  then show ?case by (auto split: sum.splits if_splits)
qed (auto split: if_splits)

lemma deep_update_at:
  assumes "deep_update (JDict d) u = Inr r" "wf_dict u" "dget u k = Some (JDict v)"
  shows "\<exists>x. deep_update (dget_or d k (JDict [])) v = Inr x \<and> jpath r (k # ks) = jpath x ks"
  using assms
proof (induction "JDict d" u arbitrary: d rule: deep_update.induct)
  case (2 d j w u)
  obtain x where x: "deep_update (dget_or d j (JDict [])) w = Inr x"
      "deep_update (JDict (dset j x d)) u = Inr r"
    using "2.prems"(1) by (auto split: sum.splits)
  show ?case
  proof (cases "j = k")
    case True
    then have "dget u k = None" "w = v" using "2.prems" by auto
    then show ?thesis using True x deep_update_untouched[OF x(2), of k ks] by auto
  next
    case False
    then show ?thesis using "2.hyps"(2)[OF x(1) x(2)] "2.prems" by (simp add: dget_or_def)
  qed
qed (auto simp: dget_or_def split: if_splits)

lemma deep_update_at_leaf:
  "deep_update (JDict d) u = Inr r \<Longrightarrow> wf_dict u \<Longrightarrow> dget u k = Some v \<Longrightarrow> \<not> is_dict v \<Longrightarrow>
     jpath r (k # ks) = jpath v ks"
proof (induction "JDict d" u arbitrary: d rule: deep_update.induct)
  case (2 d j w u)
  then show ?case by (auto split: sum.splits if_splits)
qed (auto simp: deep_update_untouched split: if_splits)

lemma wf_json_at: "wf_json (JDict u) \<Longrightarrow> dget u k = Some v \<Longrightarrow> wf_json v"
  by (auto simp: list_all_iff dest!: map_of_SomeD)

section \<open>Allow and block lists\<close>

definition get_allow_block_lists :: "string list \<Rightarrow> string list \<times> string list" where
  "get_allow_block_lists filter_list =
     (map strip (filter (\<lambda>d. \<not> startswith d ''!'') filter_list),
      map (\<lambda>d. strip (tl d)) (filter (\<lambda>d. startswith d ''!'') filter_list))"

definition is_string_allowed :: "string list \<Rightarrow> string list \<Rightarrow> bool" where
  "is_string_allowed strings filter_list =
     (if filter_list = [] then True
      else let (allow_list, block_list) = get_allow_block_lists filter_list in
        if allow_list \<noteq> [] \<and> \<not> (\<exists>s \<in> set strings. \<exists>a \<in> set allow_list. endswith s a) then False
        else if \<exists>s \<in> set strings. \<exists>b \<in> set block_list. endswith s b then False
        else True)"

lemma allow_block_append:
  "get_allow_block_lists (xs @ ys) =
     (fst (get_allow_block_lists xs) @ fst (get_allow_block_lists ys),
      snd (get_allow_block_lists xs) @ snd (get_allow_block_lists ys))"
  by (simp add: get_allow_block_lists_def)

lemma block_entry: "get_allow_block_lists [CHR ''!'' # d] = ([], [strip d])"
  by (simp add: get_allow_block_lists_def startswith_def)

section \<open>Folder tags of a document path\<close>

text \<open>\<open>Path(path).parts\<close> on POSIX.\<close>

definition path_parts :: "string \<Rightarrow> string list" where
  "path_parts s =
     (let comps = filter (\<lambda>p. p \<noteq> [] \<and> p \<noteq> ''.'') (split_on CHR ''/'' s) in
      if startswith s ''//'' \<and> \<not> startswith s ''///'' then ''//'' # comps
      else if startswith s ''/'' then ''/'' # comps
      else comps)"

text \<open>\<open>parts.index(x, start)\<close>: \<open>None\<close> is the \<open>ValueError\<close>.\<close>

fun index_from :: "'a \<Rightarrow> nat \<Rightarrow> 'a list \<Rightarrow> nat option" where
  "index_from x start [] = None"
| "index_from x 0 (p # ps) = (if p = x then Some 0 else map_option Suc (index_from x 0 ps))"
| "index_from x (Suc n) (p # ps) = map_option Suc (index_from x n ps)"

definition extract_folders_after_data_docs :: "string \<Rightarrow> string list" where
  "extract_folders_after_data_docs path =
     (let parts = path_parts path in
      case index_from ''data'' 0 parts of
        None \<Rightarrow> []
      | Some i \<Rightarrow>
          (case index_from ''docs'' (i + 1) parts of
             None \<Rightarrow> []
           | Some j \<Rightarrow>
               let folders = drop (j + 1) (butlast parts) in
               map (\<lambda>idx. join ''/'' (take (idx + 1) folders)) [0..<length folders]))"

lemma index_from_Some:
  "index_from x n ps = Some i \<Longrightarrow> n \<le> i \<and> i < length ps \<and> ps ! i = x"
  by (induction x n ps arbitrary: i rule: index_from.induct) (auto split: if_splits)

lemma join_take_prefix:
  "m \<le> n \<Longrightarrow> prefix (join sep (take m ps)) (join sep (take n ps))"
proof (induction ps arbitrary: m n)
  case (Cons p ps)
  show ?case
  proof (cases m)
    case (Suc m')
    then obtain n' where n: "n = Suc n'" "m' \<le> n'" using Cons.prems by (cases n) auto
    show ?thesis
    proof (cases "take m' ps = []")
      case True
      then show ?thesis using Suc n by (cases "take n' ps") (auto simp: join_Cons)
    next
      case False
      then have "take n' ps \<noteq> []" using n by (cases ps; cases m'; cases n') auto
      then show ?thesis using Suc n False Cons.IH[of m' n'] by (simp add: join_Cons)
    qed
  qed simp
qed simp

section \<open>E-mail format\<close>

text \<open>
  \<open>re.match\<close> of \<^verbatim>\<open>[^@]+@[^@]+\.[^@]+\<close> at the start of the text: a non-empty local
  part, then, before the next at sign, a dot with a character on each side.
\<close>

definition validate_email_format :: "string \<Rightarrow> bool" where
  "validate_email_format email =
     (if endswith email ''@localhost'' then True
      else let user_part = takeWhile (\<lambda>c. c \<noteq> CHR ''@'') email;
               rest = dropWhile (\<lambda>c. c \<noteq> CHR ''@'') email;
               domain = takeWhile (\<lambda>c. c \<noteq> CHR ''@'') (tl rest)
        in user_part \<noteq> [] \<and> rest \<noteq> [] \<and>
           list_ex (\<lambda>i. domain ! i = CHR ''.'') [1..<length domain - 1])"

section \<open>Logit bias\<close>

definition json_quote_char :: "char \<Rightarrow> string" where
  "json_quote_char c = (let n = code c in
     if n = 34 \<or> n = 92 then [CHR 0x5C, c]
     else if n = 10 then [CHR 0x5C, CHR ''n'']
     else if n = 13 then [CHR 0x5C, CHR ''r'']
     else if n = 9 then [CHR 0x5C, CHR ''t'']
     else if n = 8 then [CHR 0x5C, CHR ''b'']
     else if n = 12 then [CHR 0x5C, CHR ''f'']
     else if n < 32 \<or> 126 < n
       then [CHR 0x5C, CHR ''u'', CHR ''0'', CHR ''0'', hex_digit (n div 16), hex_digit (n mod 16)]
     else [c])"

definition json_quote :: "string \<Rightarrow> string" where
  "json_quote s = [CHR 0x22] @ concat (map json_quote_char s) @ [CHR 0x22]"

text \<open>\<open>json.dumps\<close> of a dictionary from strings to integers.\<close>

definition dumps_int_dict :: "(string \<times> int) list \<Rightarrow> string" where
  "dumps_int_dict d =
     ''{'' @ join '', '' (map (\<lambda>(k, i). json_quote k @ '': '' @ int_str i) d) @ ''}''"

definition clamp_bias :: "int \<Rightarrow> int" where
  "clamp_bias bias = (if bias > 100 then 100 else if bias < -100 then -100 else bias)"

fun logit_bias_pairs :: "string list \<Rightarrow> (string \<times> int) list \<Rightarrow> py_error + (string \<times> int) list" where
  "logit_bias_pairs [] d = Inr d"
| "logit_bias_pairs (pair # ps) d =
     (case split_on CHR '':'' pair of
        [token, bias] \<Rightarrow>
          (case py_int (strip bias) of
             None \<Rightarrow> Inl ValueError
           | Some b \<Rightarrow> logit_bias_pairs ps (AList.update (strip token) (clamp_bias b) d))
      | _ \<Rightarrow> Inl ValueError)"

definition convert_logit_bias_input_to_json :: "string \<Rightarrow> py_error + string" where
  "convert_logit_bias_input_to_json user_input =
     (case logit_bias_pairs (split_on CHR '','' user_input) [] of
        Inl e \<Rightarrow> Inl e
      | Inr d \<Rightarrow> Inr (dumps_int_dict d))"

lemma clamp_bias_bounds: "-100 \<le> clamp_bias b \<and> clamp_bias b \<le> 100"
  by (simp add: clamp_bias_def)

lemma logit_bias_pairs_bounds:
  "logit_bias_pairs ps d = Inr d' \<Longrightarrow> list_all (\<lambda>(t, b). -100 \<le> b \<and> b \<le> 100) d \<Longrightarrow>
     list_all (\<lambda>(t, b). -100 \<le> b \<and> b \<le> 100) d'"
proof (induction ps d arbitrary: rule: logit_bias_pairs.induct)
  case (2 pair ps d)
  have upd: "list_all (\<lambda>(t, b). -100 \<le> b \<and> b \<le> 100) (AList.update k (clamp_bias b) d)"
    if "list_all (\<lambda>(t, b). -100 \<le> b \<and> b \<le> 100) d" for k b and d :: "(string \<times> int) list"
    using that clamp_bias_bounds by (induction d) auto
  from "2.prems" show ?case
    by (auto simp: upd split: list.splits option.splits intro: "2.IH")
qed simp

definition bias_pair :: "string \<times> int \<Rightarrow> string" where
  "bias_pair p = fst p @ '':'' @ int_str (snd p)"

section \<open>URLs of a text\<close>

text \<open>
  \<open>re.findall\<close> of \<^verbatim>\<open>https?://[^\s]+\<close> without regard to case: at each position the
  scheme and at least one further character that is no white space; the match takes all of
  them and the search goes on after it.
\<close>

definition url_scheme_len :: "string \<Rightarrow> nat option" where
  "url_scheme_len s = (let t = lower s in
     if startswith t ''https://'' then Some 8
     else if startswith t ''http://'' then Some 7 else None)"

definition url_at :: "string \<Rightarrow> string option" where
  "url_at s = (case url_scheme_len s of
     None \<Rightarrow> None
   | Some n \<Rightarrow> (let tail = takeWhile (\<lambda>c. \<not> is_space c) (drop n s)
        in if tail = [] then None else Some (take n s @ tail)))"

function extract_urls :: "string \<Rightarrow> string list" where
  "extract_urls s = (case s of
     [] \<Rightarrow> []
   | c # cs \<Rightarrow> (case url_at s of
       None \<Rightarrow> extract_urls cs
     | Some u \<Rightarrow> u # extract_urls (drop (length u) s)))"
  by pat_completeness auto
termination
  by (relation "measure length") (auto simp: url_at_def Let_def split: option.splits if_splits)

declare extract_urls.simps [simp del]

lemma url_scheme_len_ge: "url_scheme_len s = Some n \<Longrightarrow> 7 \<le> n \<and> n \<le> length s"
  by (auto simp: url_scheme_len_def Let_def startswith_def split: if_splits dest!: prefix_length_le)

section \<open>Freezing values\<close>

datatype frozen = FAtom json | FTuple "frozen list" | FSet "(string \<times> frozen) fset"

fun freeze :: "json \<Rightarrow> frozen" where
  "freeze (JDict d) = FSet (fset_of_list (map (\<lambda>(k, v). (k, freeze v)) d))"
| "freeze (JList xs) = FTuple (map freeze xs)"
| "freeze v = FAtom v"

section \<open>Properties\<close>

lemma deep_update_nondict: "deep_update d u = Inr r \<Longrightarrow> \<not> is_dict d \<Longrightarrow> u = []"
  by (induction d u rule: deep_update.induct) auto

text \<open>
  a successful recursive update puts every leaf of the update at its path of the result:
  whatever the old dictionary held there, the value found along the same keys is the
  update's.
\<close>
lemma deep_update_sets_leaves:
  assumes "deep_update (JDict d) u = Inr r" "wf_json (JDict u)" "leaf_at (JDict u) ks x"
  shows "jpath r ks = Some x"
  using assms
proof (induction ks arbitrary: d u r)
  case Nil
  then show ?case by (auto simp: leaf_at_def)
next
  case (Cons k ks)
  then obtain v where v: "dget u k = Some v" "leaf_at v ks x"
    by (auto simp: leaf_at_def split: option.splits)
  show ?case
  proof (cases v)
    case (JDict w)
    obtain y where y: "deep_update (dget_or d k (JDict [])) w = Inr y"
        "jpath r (k # ks) = jpath y ks"
      using deep_update_at[of d u r k w ks] Cons.prems(1,2) v JDict by auto
    have "w \<noteq> []" using v(2) JDict by (cases ks) (auto simp: leaf_at_def)
    then obtain d' where "dget_or d k (JDict []) = JDict d'"
      using deep_update_nondict[OF y(1)] by (auto elim: is_dictE)
    then show ?thesis
      using Cons.IH[of d' w y] y wf_json_at[OF Cons.prems(2) v(1)] v(2) JDict by simp
  qed (use deep_update_at_leaf[of d u r k v ks] Cons.prems(1,2) v in \<open>auto simp: leaf_at_def\<close>)
qed

lemma deep_update_sets_leaves_witness:
  "jpath (JDict [(''a'', JDict [(''x'', JInt 1), (''y'', JInt 5)]), (''b'', JNull)]) [''a'', ''y'']
     = Some (JInt 5)"
  by (rule deep_update_sets_leaves
        [of "[(''a'', JDict [(''x'', JInt 1), (''y'', JInt 2)]), (''b'', JNull)]"
            "[(''a'', JDict [(''y'', JInt 5)])]"])
     (simp_all add: dget_or_def leaf_at_def)

text \<open>
  adding a blocked entry to a filter list removes exactly the inputs with a string that
  ends with the entry; the allow entries of the list cannot win against it.
\<close>
lemma blocked_entry_removes:
  "is_string_allowed strings (filter_list @ [CHR ''!'' # d]) \<longleftrightarrow>
     is_string_allowed strings filter_list \<and> \<not> (\<exists>s \<in> set strings. endswith s (strip d))"
  by (auto simp: is_string_allowed_def allow_block_append block_entry split: prod.splits)
     (auto simp: get_allow_block_lists_def)

text \<open>
  entries match as suffixes of the text, with no boundary: the entry of a domain also
  lets every domain through whose name ends with the same characters.
\<close>
lemma allowed_domain_is_a_suffix_match:
  "is_string_allowed [''evilexample.com''] [''example.com''] \<and>
   is_string_allowed [pre @ ''example.com''] [''example.com'']"
  by (simp add: is_string_allowed_def get_allow_block_lists_def startswith_def endswith_def
      strip_def lstrip_def rstrip_def is_space_def Let_def suffix_def)

text \<open>
  the folder tags of a path are its folders below \<open>data/docs\<close> spelled from the outside
  in: each tag is a prefix of every later one.
\<close>
lemma folder_tags_nested:
  assumes "i \<le> j" "j < length (extract_folders_after_data_docs path)"
  shows "prefix (extract_folders_after_data_docs path ! i) (extract_folders_after_data_docs path ! j)"
  using assms
  by (auto simp: extract_folders_after_data_docs_def Let_def join_take_prefix split: option.splits)

lemma folder_tags_nested_witness:
  "extract_folders_after_data_docs ''/app/data/docs/law/tax/a.pdf'' = [''law'', ''law/tax''] \<and>
   prefix (extract_folders_after_data_docs ''/app/data/docs/law/tax/a.pdf'' ! 0)
     (extract_folders_after_data_docs ''/app/data/docs/law/tax/a.pdf'' ! 1)"
proof -
  have e: "extract_folders_after_data_docs ''/app/data/docs/law/tax/a.pdf'' = [''law'', ''law/tax'']"
    by code_simp
  show ?thesis
    using folder_tags_nested[of 0 1 "''/app/data/docs/law/tax/a.pdf''"] e by simp
qed

lemma strip_free:
  "list_all (\<lambda>c. \<not> is_space c) s \<Longrightarrow> strip s = s"
proof (cases "s = []")
  case False
  assume "list_all (\<lambda>c. \<not> is_space c) s"
  then have "\<not> is_space (hd s) \<and> \<not> is_space (last s)" using False by (simp add: list_all_iff)
  then show ?thesis using False strip_ends by simp
qed (simp add: strip_def lstrip_def rstrip_def)

lemma int_str_chars: "c \<in> set (int_str i) \<Longrightarrow> is_digit c \<or> c = CHR ''-''"
  using nat_str_digits by (auto simp: int_str_def list_all_iff split: if_splits)

lemma int_str_plain: "c \<in> set (int_str i) \<Longrightarrow> c \<noteq> CHR '','' \<and> c \<noteq> CHR '':'' \<and> \<not> is_space c"
  by (drule int_str_chars) (auto simp: is_digit_def is_space_def Let_def)

lemma int_str_no_sep [simp]: "CHR '':'' \<notin> set (int_str i)" "CHR '','' \<notin> set (int_str i)"
  using int_str_plain by blast+

definition plain_token :: "string \<Rightarrow> bool" where
  "plain_token t \<longleftrightarrow> CHR '':'' \<notin> set t \<and> CHR '','' \<notin> set t \<and> list_all (\<lambda>c. \<not> is_space c) t"

lemma logit_pairs_parse:
  assumes "list_all (\<lambda>(t, b). plain_token t) ps"
  shows "logit_bias_pairs (map bias_pair ps) d =
    Inr (foldl (\<lambda>d (t, b). AList.update t (clamp_bias b) d) d ps)"
  using assms
proof (induction ps arbitrary: d)
  case (Cons p ps)
  obtain t b where p: "p = (t, b)" by (cases p)
  have t: "CHR '':'' \<notin> set t" "strip t = t" using Cons.prems p strip_free by (auto simp: plain_token_def)
  have "strip (int_str b) = int_str b"
    using int_str_plain by (intro strip_free) (auto simp: list_all_iff)
  moreover have "split_on CHR '':'' (bias_pair p) = [t, int_str b]"
    using t by (auto simp: bias_pair_def p split_on_append_free split_on_id)
  ultimately show ?case using Cons t by (simp add: p)
qed simp

text \<open>
  writing token and bias pairs in the input syntax and parsing them back gives each
  token its bias cut to the range from -100 to 100, the last one where a token repeats.
\<close>
lemma logit_bias_roundtrip:
  assumes "ps \<noteq> []"
    and "list_all (\<lambda>(t, b). plain_token t) ps"
  shows "convert_logit_bias_input_to_json (join '','' (map bias_pair ps)) =
    Inr (dumps_int_dict (foldl (\<lambda>d (t, b). AList.update t (clamp_bias b) d) [] ps))"
proof -
  have "split_on CHR '','' (join '','' (map bias_pair ps)) = map bias_pair ps"
    using assms by (intro split_on_join) (auto simp: bias_pair_def plain_token_def list_all_iff)
  then show ?thesis
    using logit_pairs_parse[of ps "[]"] assms(2) by (auto simp: convert_logit_bias_input_to_json_def)
qed

lemma logit_bias_roundtrip_witness:
  "convert_logit_bias_input_to_json ''a:-250,b:7'' = Inr (dumps_int_dict [(''a'', -100), (''b'', 7)])"
proof -
  have j: "join '','' (map bias_pair [(''a'', -250), (''b'', 7)]) = ''a:-250,b:7''"
    by code_simp
  have f: "foldl (\<lambda>d (t, b). AList.update t (clamp_bias b) d) [] [(''a'', -250), (''b'', 7)]
      = [(''a'', -100), (''b'', 7)]"
    by (simp add: clamp_bias_def)
  show ?thesis
    using logit_bias_roundtrip[of "[(''a'', -250), (''b'', 7)]"]
    unfolding j f by (simp add: plain_token_def is_space_def Let_def)
qed

lemma url_at_spec:
  assumes "url_at s = Some u"
  shows "prefix u s \<and> startswith (lower u) ''http'' \<and> list_all (\<lambda>c. \<not> is_space c) (drop 8 u)"
proof -
  obtain n tl' where n: "url_scheme_len s = Some n" "tl' = takeWhile (\<lambda>c. \<not> is_space c) (drop n s)"
      "tl' \<noteq> []" "u = take n s @ tl'"
    using assms by (auto simp: url_at_def Let_def split: option.splits if_splits)
  have pre: "prefix u s"
    unfolding n(4) n(2) by (metis append_take_drop_id same_prefix_prefix takeWhile_is_prefix)
  have len: "7 \<le> n" "n \<le> 8" "n \<le> length s"
    using n(1) url_scheme_len_ge[OF n(1)]
    by (auto simp: url_scheme_len_def Let_def split: if_splits)
  have "list_all (\<lambda>c. \<not> is_space c) tl'"
    using n(2) by (auto simp: list_all_iff dest: set_takeWhileD)
  then have sp: "list_all (\<lambda>c. \<not> is_space c) (drop 8 u)"
    using len n(4) by (auto simp: list_all_iff dest: in_set_dropD)
  have "prefix ''http'' (lower s)"
    using n(1) by (auto simp: url_scheme_len_def Let_def startswith_def prefix_def split: if_splits)
  then have "take 4 (lower s) = ''http''" by (auto simp: prefix_def)
  then have "take 4 (lower u) = ''http''"
    using pre len n(4) by (auto simp: lower_def take_map min_def)
  then have "startswith (lower u) ''http''" by (metis startswith_def take_is_prefix)
  then show ?thesis using pre sp n len by simp
qed

text \<open>
  every extracted URL is a contiguous piece of the text, begins with the scheme in any
  case and holds no white space after it.
\<close>
lemma extract_urls_sound:
  "u \<in> set (extract_urls s) \<Longrightarrow>
     sublist u s \<and> startswith (lower u) ''http'' \<and> list_all (\<lambda>c. \<not> is_space c) (drop 8 u)"
proof (induction s rule: extract_urls.induct)
  case (1 s)
  show ?case
  proof (cases s)
    case Nil
    then show ?thesis using 1 by (simp add: extract_urls.simps)
  next
    case (Cons c cs)
    show ?thesis
    proof (cases "url_at s")
      case None
      then have "u \<in> set (extract_urls cs)" using "1.prems" Cons None by (simp add: extract_urls.simps[of "c # cs"])
      then show ?thesis using "1.IH"(1)[OF Cons] None Cons by (simp add: sublist_Cons_right)
    next
      case (Some w)
      have "u = w \<or> u \<in> set (extract_urls (drop (length w) s))"
        using "1.prems" Cons Some by (simp add: extract_urls.simps[of "c # cs"])
      then show ?thesis
      proof
        assume "u = w"
        then show ?thesis using url_at_spec[OF Some] by (simp add: prefix_imp_sublist)
      next
        assume u: "u \<in> set (extract_urls (drop (length w) s))"
        have "sublist (drop (length w) s) s" by (simp add: suffix_drop suffix_imp_sublist)
        then show ?thesis using "1.IH"(2)[OF Cons Some u]
          by (meson sublist_order.order.trans)
      qed
    qed
  qed
qed

lemma extract_urls_sound_witness:
  "sublist ''HTTP://a.b/c'' ''see HTTP://a.b/c now'' \<and>
   startswith (lower ''HTTP://a.b/c'') ''http'' \<and> list_all (\<lambda>c. \<not> is_space c) (drop 8 ''HTTP://a.b/c'')"
proof -
  have "''HTTP://a.b/c'' \<in> set (extract_urls ''see HTTP://a.b/c now'')" by code_simp
  then show ?thesis by (rule extract_urls_sound)
qed

end
