(* ===== verification/Misc_Messages.thy ===== *)
theory Misc_Messages
  imports Python
begin

text \<open>
  The chat message helpers of \<^verbatim>\<open>utils/misc.py\<close>. A message is a dictionary; a missing
  \<open>role\<close> or \<open>content\<close> raises where the code indexes and is \<open>None\<close> where it calls \<open>get\<close>.
  The in-place updates return the updated list; messages decoded from a request share no
  parts, so the list is all of the state. \<open>get_message_list\<close> follows parent links in a
  loop that need not end: it is a partial function.
\<close>

section \<open>Reconstructing a conversation\<close>

text \<open>\<open>messages_map.get(key)\<close>; a list or dictionary is not hashable.\<close>

definition map_get :: "dict \<Rightarrow> json \<Rightarrow> py_error + json" where
  "map_get mm k = (case k of
     JStr s \<Rightarrow> Inr (dget_or mm s JNull)
   | JList _ \<Rightarrow> Inl TypeError
   | JDict _ \<Rightarrow> Inl TypeError
   | _ \<Rightarrow> Inr JNull)"

definition parent_id :: "dict \<Rightarrow> json" where
  "parent_id m = dget_or m ''parentId'' JNull"

partial_function (option) message_loop ::
  "dict \<Rightarrow> json \<Rightarrow> json list \<Rightarrow> (py_error + json list) option" where
  "message_loop mm cur acc =
     (if \<not> truthy cur then Some (Inr acc)
      else case cur of
        JDict m \<Rightarrow>
          (if truthy (parent_id m)
           then (case map_get mm (parent_id m) of
                   Inl e \<Rightarrow> Some (Inl e)
                 | Inr nxt \<Rightarrow> message_loop mm nxt (cur # acc))
           else Some (Inr (cur # acc)))
      | _ \<Rightarrow> Some (Inl AttributeError))"

definition get_message_list :: "dict \<Rightarrow> json \<Rightarrow> (py_error + json list) option" where
  "get_message_list mm message_id =
     (if mm = [] then Some (Inr [])
      else case map_get mm message_id of
        Inl e \<Rightarrow> Some (Inl e)
      | Inr cur \<Rightarrow> if \<not> truthy cur then Some (Inr []) else message_loop mm cur [])"

text \<open>The message the loop visits next.\<close>

definition next_message :: "dict \<Rightarrow> json \<Rightarrow> json option" where
  "next_message mm cur = (case cur of
     JDict m \<Rightarrow>
       (if truthy cur \<and> truthy (parent_id m)
        then (case map_get mm (parent_id m) of Inl e \<Rightarrow> None | Inr nxt \<Rightarrow> Some nxt)
        else None)
   | _ \<Rightarrow> None)"

inductive chain_ends :: "dict \<Rightarrow> json \<Rightarrow> bool" for mm where
  ends_here: "next_message mm cur = None \<Longrightarrow> chain_ends mm cur"
| ends_later: "next_message mm cur = Some nxt \<Longrightarrow> chain_ends mm nxt \<Longrightarrow> chain_ends mm cur"

inductive_cases chain_endsE: "chain_ends mm cur"

lemma loop_unfold:
  "message_loop mm cur acc =
     (case next_message mm cur of
        Some nxt \<Rightarrow> message_loop mm nxt (cur # acc)
      | None \<Rightarrow> (if \<not> truthy cur then Some (Inr acc)
          else case cur of
            JDict m \<Rightarrow> (if truthy (parent_id m)
               then (case map_get mm (parent_id m) of Inl e \<Rightarrow> Some (Inl e) | Inr nxt \<Rightarrow> Some (Inr acc))
               else Some (Inr (cur # acc)))
          | _ \<Rightarrow> Some (Inl AttributeError)))"
  by (subst message_loop.simps)
     (auto simp: next_message_def split: json.splits sum.splits)

lemma loop_returns: "chain_ends mm cur \<Longrightarrow> \<exists>r. message_loop mm cur acc = Some r"
proof (induction arbitrary: acc rule: chain_ends.induct)
  case (ends_here cur)
  then show ?case
    by (subst loop_unfold) (auto split: json.splits sum.splits)
next
  case (ends_later cur nxt)
  then show ?case by (subst loop_unfold) simp
qed

lemma loop_ends: "message_loop mm cur acc = Some r \<Longrightarrow> chain_ends mm cur"
proof (rule message_loop.raw_induct[where P = "\<lambda>mm cur acc r. chain_ends mm cur"])
  fix f :: "dict \<Rightarrow> json \<Rightarrow> json list \<Rightarrow> (py_error + json list) option"
    and mm cur acc r
  assume IH: "\<And>mm cur acc r. f mm cur acc = Some r \<Longrightarrow> chain_ends mm cur"
    and eq: "(if \<not> truthy cur then Some (Inr acc)
      else case cur of
        JDict m \<Rightarrow>
          (if truthy (parent_id m)
           then (case map_get mm (parent_id m) of
                   Inl e \<Rightarrow> Some (Inl e)
                 | Inr nxt \<Rightarrow> f mm nxt (cur # acc))
           else Some (Inr (cur # acc)))
      | _ \<Rightarrow> Some (Inl AttributeError)) = Some r"
  show "chain_ends mm cur"
  proof (cases "next_message mm cur")
    case None
    then show ?thesis by (rule ends_here)
  next
    case (Some nxt)
    then have "f mm nxt (cur # acc) = Some r"
      using eq by (auto simp: next_message_def split: json.splits sum.splits if_splits)
    then show ?thesis using Some IH ends_later by blast
  qed
qed

lemma loop_returns_iff: "(\<exists>r. message_loop mm cur acc = Some r) \<longleftrightarrow> chain_ends mm cur"
  using loop_returns loop_ends by blast

text \<open>Well-formed histories: every entry is a message whose parent is a text or absent.\<close>

definition wf_message :: "json \<Rightarrow> bool" where
  "wf_message v = (case v of
     JDict m \<Rightarrow> m \<noteq> [] \<and> (case parent_id m of JStr _ \<Rightarrow> True | JNull \<Rightarrow> True | _ \<Rightarrow> False)
   | _ \<Rightarrow> False)"

definition wf_history :: "dict \<Rightarrow> bool" where
  "wf_history mm \<longleftrightarrow> list_all (\<lambda>(k, v). wf_message v) mm"

text \<open>The ranks of a history without cycles go down along the parent links.\<close>

definition parent_key :: "json \<Rightarrow> string option" where
  "parent_key v = (case v of
     JDict m \<Rightarrow> (case parent_id m of JStr s \<Rightarrow> if s = [] then None else Some s | _ \<Rightarrow> None)
   | _ \<Rightarrow> None)"

definition ranked :: "(string \<Rightarrow> nat) \<Rightarrow> dict \<Rightarrow> bool" where
  "ranked rank mm \<longleftrightarrow> list_all (\<lambda>(k, v).
     case parent_key v of None \<Rightarrow> True | Some p \<Rightarrow> dget mm p \<noteq> None \<longrightarrow> rank p < rank k) mm"

text \<open>A list of messages, each the parent of the next.\<close>

fun parent_linked :: "dict \<Rightarrow> json list \<Rightarrow> bool" where
  "parent_linked mm (a # b # xs) =
     ((case parent_key b of None \<Rightarrow> False | Some p \<Rightarrow> dget mm p = Some a) \<and> parent_linked mm (b # xs))"
| "parent_linked mm _ = True"

definition is_root :: "dict \<Rightarrow> json \<Rightarrow> bool" where
  "is_root mm v = (case parent_key v of None \<Rightarrow> True | Some p \<Rightarrow> dget mm p = None)"

lemma wf_history_get: "wf_history mm \<Longrightarrow> dget mm k = Some v \<Longrightarrow> wf_message v"
  by (auto simp: wf_history_def list_all_iff dest!: map_of_SomeD)

lemma ranked_get:
  "ranked rank mm \<Longrightarrow> dget mm k = Some v \<Longrightarrow> parent_key v = Some p \<Longrightarrow> dget mm p = Some w \<Longrightarrow>
     rank p < rank k"
  unfolding ranked_def list_all_iff by (drule bspec[OF _ map_of_SomeD], assumption) simp

lemma wf_message_loop:
  assumes "wf_message v"
  shows "message_loop mm v acc = (case parent_key v of
      None \<Rightarrow> Some (Inr (v # acc))
    | Some p \<Rightarrow> (case dget mm p of
        None \<Rightarrow> Some (Inr (v # acc))
      | Some w \<Rightarrow> message_loop mm w (v # acc)))"
proof -
  obtain m where v: "v = JDict m" "m \<noteq> []" using assms by (auto simp: wf_message_def split: json.splits)
  have n: "message_loop mm JNull xs = Some (Inr xs)" for xs
    by (subst message_loop.simps) simp
  show ?thesis
    using assms v
    by (subst message_loop.simps)
       (auto simp: wf_message_def parent_key_def map_get_def dget_or_def n
          split: json.splits option.splits)
qed

lemma loop_chain:
  assumes "wf_history mm" "ranked rank mm" "dget mm k = Some v" "parent_linked mm (v # acc)"
  shows "\<exists>xs. message_loop mm v acc = Some (Inr (xs @ v # acc)) \<and>
    parent_linked mm (xs @ v # acc) \<and> is_root mm (hd (xs @ [v]))"
  using assms
proof (induction "rank k" arbitrary: k v acc rule: less_induct)
  case less
  note wf = wf_history_get[OF less.prems(1,3)]
  show ?case
  proof (cases "is_root mm v")
    case True
    then show ?thesis using wf less.prems(4)
      by (intro exI[of _ "[]"]) (auto simp: wf_message_loop is_root_def split: option.splits)
  next
    case False
    then obtain p w where p: "parent_key v = Some p" "dget mm p = Some w"
      by (auto simp: is_root_def split: option.splits)
    have "rank p < rank k" using ranked_get less.prems p by blast
    then obtain xs where xs: "message_loop mm w (v # acc) = Some (Inr (xs @ w # v # acc))"
        "parent_linked mm (xs @ w # v # acc)" "is_root mm (hd (xs @ [w]))"
      using less.hyps[of p w "v # acc"] less.prems p by auto
    have "hd ((xs @ [w]) @ [v]) = hd (xs @ [w])" by (cases xs) auto
    then show ?thesis using xs wf p
      by (intro exI[of _ "xs @ [w]"]) (simp add: wf_message_loop)
  qed
qed

section \<open>Finding and removing messages\<close>

fun scan_role :: "string \<Rightarrow> dict list \<Rightarrow> py_error + dict option" where
  "scan_role role [] = Inr None"
| "scan_role role (m # ms) =
     (case dget m ''role'' of
        None \<Rightarrow> Inl KeyError
      | Some r \<Rightarrow> if r = JStr role then Inr (Some m) else scan_role role ms)"

definition get_last_user_message_item :: "dict list \<Rightarrow> py_error + dict option" where
  "get_last_user_message_item messages = scan_role ''user'' (rev messages)"

definition get_last_assistant_message_item :: "dict list \<Rightarrow> py_error + dict option" where
  "get_last_assistant_message_item messages = scan_role ''assistant'' (rev messages)"

definition get_system_message :: "dict list \<Rightarrow> py_error + dict option" where
  "get_system_message messages = scan_role ''system'' messages"

text \<open>\<open>item["type"]\<close> of a content part: only a dictionary can be indexed by a text.\<close>

definition item_get :: "json \<Rightarrow> string \<Rightarrow> py_error + json" where
  "item_get item k = (case item of
     JDict d \<Rightarrow> (case dget d k of None \<Rightarrow> Inl KeyError | Some v \<Rightarrow> Inr v)
   | _ \<Rightarrow> Inl TypeError)"

fun first_text_part :: "json list \<Rightarrow> py_error + json" where
  "first_text_part [] = Inr JNull"
| "first_text_part (item # items) =
     and_then (item_get item ''type'') (\<lambda>t.
       if t = JStr ''text'' then item_get item ''text'' else first_text_part items)"

definition get_content_from_message :: "dict \<Rightarrow> py_error + json" where
  "get_content_from_message message =
     (case dget_or message ''content'' JNull of
        JList items \<Rightarrow> first_text_part items
      | c \<Rightarrow> Inr c)"

definition get_last_user_message :: "dict list \<Rightarrow> py_error + json" where
  "get_last_user_message messages =
     and_then (get_last_user_message_item messages) (\<lambda>message.
       case message of None \<Rightarrow> Inr JNull | Some m \<Rightarrow> get_content_from_message m)"

definition get_last_assistant_message :: "dict list \<Rightarrow> py_error + json" where
  "get_last_assistant_message messages =
     and_then (get_last_assistant_message_item messages) (\<lambda>message.
       case message of None \<Rightarrow> Inr JNull | Some m \<Rightarrow> get_content_from_message m)"

fun remove_system_message :: "dict list \<Rightarrow> py_error + dict list" where
  "remove_system_message [] = Inr []"
| "remove_system_message (m # ms) =
     (case dget m ''role'' of
        None \<Rightarrow> Inl KeyError
      | Some r \<Rightarrow> and_then (remove_system_message ms) (\<lambda>rest.
          Inr (if r \<noteq> JStr ''system'' then m # rest else rest)))"

definition pop_system_message :: "dict list \<Rightarrow> py_error + dict option \<times> dict list" where
  "pop_system_message messages =
     and_then (get_system_message messages) (\<lambda>s.
       and_then (remove_system_message messages) (\<lambda>ms. Inr (s, ms)))"

section \<open>Updating messages\<close>

abbreviation nl :: string where "nl \<equiv> [CHR 0x0A]"

fun update_text_parts :: "string \<Rightarrow> bool \<Rightarrow> json list \<Rightarrow> py_error + json list" where
  "update_text_parts content at_end [] = Inr []"
| "update_text_parts content at_end (item # items) =
     and_then (item_get item ''type'') (\<lambda>t.
       and_then
         (if t = JStr ''text''
          then and_then (item_get item ''text'') (\<lambda>x.
            case item of
              JDict d \<Rightarrow> Inr (JDict (dset ''text''
                (JStr (if at_end then py_str x @ nl @ content else content @ nl @ py_str x)) d))
            | _ \<Rightarrow> Inl TypeError)
          else Inr item)
         (\<lambda>item'. and_then (update_text_parts content at_end items) (\<lambda>rest. Inr (item' # rest))))"

definition update_message_content :: "dict \<Rightarrow> string \<Rightarrow> bool \<Rightarrow> py_error + dict" where
  "update_message_content message content at_end =
     (case dget message ''content'' of
        None \<Rightarrow> Inl KeyError
      | Some (JList items) \<Rightarrow>
          and_then (update_text_parts content at_end items) (\<lambda>items'.
            Inr (dset ''content'' (JList items') message))
      | Some c \<Rightarrow> Inr (dset ''content''
          (JStr (if at_end then py_str c @ nl @ content else content @ nl @ py_str c)) message))"

definition new_message :: "string \<Rightarrow> string \<Rightarrow> dict" where
  "new_message role content = [(''role'', JStr role), (''content'', JStr content)]"

fun replace_system_message_content :: "string \<Rightarrow> dict list \<Rightarrow> py_error + dict list" where
  "replace_system_message_content content [] = Inr []"
| "replace_system_message_content content (m # ms) =
     (case dget m ''role'' of
        None \<Rightarrow> Inl KeyError
      | Some r \<Rightarrow>
          if r = JStr ''system'' then Inr (dset ''content'' (JStr content) m # ms)
          else and_then (replace_system_message_content content ms) (\<lambda>rest. Inr (m # rest)))"

definition add_or_update_system_message ::
  "string \<Rightarrow> dict list \<Rightarrow> bool \<Rightarrow> py_error + dict list" where
  "add_or_update_system_message content messages at_end =
     (case messages of
        [] \<Rightarrow> Inr [new_message ''system'' content]
      | m # ms \<Rightarrow>
          if dget m ''role'' = Some (JStr ''system'')
          then and_then (update_message_content m content at_end) (\<lambda>m'. Inr (m' # ms))
          else Inr (new_message ''system'' content # m # ms))"

definition add_or_update_user_message ::
  "string \<Rightarrow> dict list \<Rightarrow> bool \<Rightarrow> py_error + dict list" where
  "add_or_update_user_message content messages at_end =
     (if messages \<noteq> [] \<and> dget (last messages) ''role'' = Some (JStr ''user'')
      then and_then (update_message_content (last messages) content at_end) (\<lambda>m'.
        Inr (butlast messages @ [m']))
      else Inr (messages @ [new_message ''user'' content]))"

fun prepend_to_first_user_message_content :: "string \<Rightarrow> dict list \<Rightarrow> py_error + dict list" where
  "prepend_to_first_user_message_content content [] = Inr []"
| "prepend_to_first_user_message_content content (m # ms) =
     (case dget m ''role'' of
        None \<Rightarrow> Inl KeyError
      | Some r \<Rightarrow>
          if r = JStr ''user''
          then and_then (update_message_content m content False) (\<lambda>m'. Inr (m' # ms))
          else and_then (prepend_to_first_user_message_content content ms) (\<lambda>rest. Inr (m # rest)))"

definition append_or_update_assistant_message :: "string \<Rightarrow> dict list \<Rightarrow> py_error + dict list" where
  "append_or_update_assistant_message content messages =
     (if messages \<noteq> [] \<and> dget (last messages) ''role'' = Some (JStr ''assistant'')
      then (case dget (last messages) ''content'' of
              None \<Rightarrow> Inl KeyError
            | Some c \<Rightarrow> Inr (butlast messages @
                [dset ''content'' (JStr (py_str c @ nl @ content)) (last messages)]))
      else Inr (messages @ [new_message ''assistant'' content]))"

section \<open>Response templates\<close>

text \<open>\<open>uid\<close> is the text of the fresh UUID, \<open>now\<close> the clock.\<close>

definition template_id :: "string \<Rightarrow> string \<Rightarrow> string" where
  "template_id model uid = model @ ''-'' @ uid"

definition openai_chat_message_template ::
  "string \<Rightarrow> string \<Rightarrow> int \<Rightarrow> dict \<Rightarrow> dict" where
  "openai_chat_message_template model uid now choice =
     [(''id'', JStr (template_id model uid)), (''created'', JInt now), (''model'', JStr model),
      (''choices'', JList [JDict choice])]"

definition base_choice :: dict where
  "base_choice = [(''index'', JInt 0), (''logprobs'', JNull), (''finish_reason'', JNull)]"

definition opt_entry :: "string \<Rightarrow> json \<Rightarrow> dict" where
  "opt_entry k v = (if truthy v then [(k, v)] else [])"

definition openai_chat_chunk_message_template ::
  "string \<Rightarrow> string \<Rightarrow> int \<Rightarrow> json \<Rightarrow> json \<Rightarrow> json \<Rightarrow> json \<Rightarrow> dict" where
  "openai_chat_chunk_message_template model uid now content reasoning_content tool_calls usage =
     (let delta = opt_entry ''content'' content @ opt_entry ''reasoning_content'' reasoning_content
            @ opt_entry ''tool_calls'' tool_calls;
          choice = dset ''delta'' (JDict delta) (dset ''index'' (JInt 0) base_choice);
          choice' = (if \<not> truthy content \<and> \<not> truthy reasoning_content \<and> \<not> truthy tool_calls
            then dset ''finish_reason'' (JStr ''stop'') choice else choice);
          template = openai_chat_message_template model uid now choice'
             @ [(''object'', JStr ''chat.completion.chunk'')]
      in if truthy usage then dset ''usage'' usage template else template)"

definition openai_chat_completion_message_template ::
  "string \<Rightarrow> string \<Rightarrow> int \<Rightarrow> json \<Rightarrow> json \<Rightarrow> json \<Rightarrow> json \<Rightarrow> dict" where
  "openai_chat_completion_message_template model uid now message reasoning_content tool_calls usage =
     (let choice = (if message \<noteq> JNull
            then dset ''message'' (JDict ([(''role'', JStr ''assistant''), (''content'', message)]
              @ opt_entry ''reasoning_content'' reasoning_content
              @ opt_entry ''tool_calls'' tool_calls)) base_choice
            else base_choice);
          template = openai_chat_message_template model uid now
              (dset ''finish_reason'' (JStr ''stop'') choice)
             @ [(''object'', JStr ''chat.completion'')]
      in if truthy usage then dset ''usage'' usage template else template)"

section \<open>Properties\<close>

text \<open>
  reconstructing a conversation returns exactly when the chain of parent links from the
  requested message ends; otherwise the loop of the code never stops.
\<close>
lemma get_message_list_returns_iff:
  "(\<exists>r. get_message_list mm (JStr k) = Some r) \<longleftrightarrow> mm = [] \<or> chain_ends mm (dget_or mm k JNull)"
proof -
  have "chain_ends mm v" if "\<not> truthy v" for v
    using that by (intro ends_here) (auto simp: next_message_def split: json.splits)
  then show ?thesis
    by (auto simp: get_message_list_def map_get_def loop_returns_iff)
qed

text \<open>
  in a well-formed history without parent cycles the reconstruction returns the chain
  from a root to the requested message: it ends with that message, each message is the
  parent of the next and the first has no parent in the history.
\<close>
lemma get_message_list_chain:
  assumes "wf_history mm" "ranked rank mm" "dget mm k = Some v"
  shows "\<exists>xs. get_message_list mm (JStr k) = Some (Inr (xs @ [v])) \<and>
    parent_linked mm (xs @ [v]) \<and> is_root mm (hd (xs @ [v]))"
proof -
  have "truthy v" using wf_history_get[OF assms(1,3)] by (auto simp: wf_message_def split: json.splits)
  moreover have "mm \<noteq> []" using assms(3) by auto
  ultimately have "get_message_list mm (JStr k) = message_loop mm v []"
    using assms(3) by (simp add: get_message_list_def map_get_def dget_or_def)
  then show ?thesis using loop_chain[OF assms, of "[]"] by auto
qed

definition sample_history :: dict where
  "sample_history =
     [(''a'', JDict [(''role'', JStr ''user''), (''parentId'', JNull)]),
      (''b'', JDict [(''role'', JStr ''assistant''), (''parentId'', JStr ''a'')])]"

lemma get_message_list_chain_witness:
  "\<exists>xs. get_message_list sample_history (JStr ''b'') =
      Some (Inr (xs @ [JDict [(''role'', JStr ''assistant''), (''parentId'', JStr ''a'')]])) \<and>
    parent_linked sample_history (xs @ [JDict [(''role'', JStr ''assistant''), (''parentId'', JStr ''a'')]]) \<and>
    is_root sample_history (hd (xs @ [JDict [(''role'', JStr ''assistant''), (''parentId'', JStr ''a'')]]))"
  by (rule get_message_list_chain[where rank = "\<lambda>k. if k = ''b'' then 1 else 0"])
     (simp_all add: sample_history_def wf_history_def wf_message_def parent_id_def dget_or_def
        ranked_def parent_key_def)

fun nth_next :: "dict \<Rightarrow> nat \<Rightarrow> json \<Rightarrow> json option" where
  "nth_next mm 0 cur = Some cur"
| "nth_next mm (Suc n) cur = (case next_message mm cur of None \<Rightarrow> None | Some nxt \<Rightarrow> nth_next mm n nxt)"

lemma chain_ends_bound: "chain_ends mm cur \<Longrightarrow> \<exists>N. \<forall>n \<ge> N. nth_next mm n cur = None"
proof (induction rule: chain_ends.induct)
  case (ends_here cur)
  then have "nth_next mm n cur = None" if "1 \<le> n" for n using that by (cases n) auto
  then show ?case by blast
next
  case (ends_later cur nxt)
  then obtain N where N: "\<forall>n \<ge> N. nth_next mm n nxt = None" by blast
  have "nth_next mm n cur = None" if "Suc N \<le> n" for n
    using that N ends_later(1) by (cases n) auto
  then show ?case by blast
qed

lemma nth_next_add:
  "nth_next mm (m + n) cur = (case nth_next mm m cur of None \<Rightarrow> None | Some x \<Rightarrow> nth_next mm n x)"
  by (induction m arbitrary: cur) (auto split: option.splits)

lemma nth_next_cycle: "nth_next mm n v = Some v \<Longrightarrow> nth_next mm (j * n) v = Some v"
  by (induction j) (auto simp: nth_next_add)

text \<open>
  if following the parent links from a message leads back to it, the reconstruction of
  the conversation does not return.
\<close>
lemma get_message_list_cycle_diverges:
  assumes "dget mm k = Some v" "nth_next mm (Suc n) v = Some v"
  shows "get_message_list mm (JStr k) = None"
proof -
  have "\<not> chain_ends mm v"
  proof
    assume "chain_ends mm v"
    then obtain N where "\<forall>m \<ge> N. nth_next mm m v = None" using chain_ends_bound by blast
    then have "nth_next mm (N * Suc n) v = None" by simp
    then show False using nth_next_cycle[OF assms(2), of N] by simp
  qed
  then have "message_loop mm v [] = None" using loop_ends by (cases "message_loop mm v []") auto
  moreover have "truthy v" using assms(2)
    by (auto simp: next_message_def split: json.splits option.splits if_splits)
  moreover have "mm \<noteq> []" using assms(1) by auto
  ultimately show ?thesis using assms(1) by (simp add: get_message_list_def map_get_def dget_or_def)
qed

lemma get_message_list_cycle_diverges_witness:
  "get_message_list [(''a'', JDict [(''parentId'', JStr ''b'')]), (''b'', JDict [(''parentId'', JStr ''a'')])]
     (JStr ''a'') = None"
  by (rule get_message_list_cycle_diverges[where n = 1 and v = "JDict [(''parentId'', JStr ''b'')]"])
     (simp_all add: next_message_def parent_id_def dget_or_def map_get_def)

lemma update_message_role:
  "update_message_content m c a = Inr m' \<Longrightarrow> dget m' ''role'' = dget m ''role''"
  by (auto simp: update_message_content_def and_then_Inr_iff split: option.splits json.splits)

text \<open>
  adding or updating the system message leaves a system message at the head of the list
  and changes no other message: removing the system messages before or after gives the same.
\<close>
lemma system_message_at_head:
  assumes "add_or_update_system_message content messages at_end = Inr r"
  shows "(\<exists>m ms. r = m # ms \<and> get_system_message r = Inr (Some m)) \<and>
    remove_system_message r = remove_system_message messages"
proof (cases messages)
  case Nil
  then show ?thesis using assms
    by (auto simp: add_or_update_system_message_def get_system_message_def new_message_def)
next
  case (Cons m ms)
  show ?thesis
  proof (cases "dget m ''role'' = Some (JStr ''system'')")
    case True
    then obtain m' where "update_message_content m content at_end = Inr m'" "r = m' # ms"
      using assms Cons by (auto simp: add_or_update_system_message_def and_then_Inr_iff)
    then show ?thesis
      using True Cons update_message_role by (auto simp: get_system_message_def)
  next
    case False
    then have "r = new_message ''system'' content # messages"
      using assms Cons by (simp add: add_or_update_system_message_def)
    then show ?thesis
      by (cases "remove_system_message messages") (auto simp: get_system_message_def new_message_def)
  qed
qed

lemma system_message_at_head_witness:
  "(\<exists>m ms. [new_message ''system'' ''be brief'', new_message ''user'' ''hi''] = m # ms \<and>
     get_system_message [new_message ''system'' ''be brief'', new_message ''user'' ''hi''] = Inr (Some m)) \<and>
   remove_system_message [new_message ''system'' ''be brief'', new_message ''user'' ''hi''] =
     remove_system_message [new_message ''user'' ''hi'']"
  by (rule system_message_at_head[of "''be brief''" _ False])
     (simp add: add_or_update_system_message_def new_message_def)

text \<open>
  a stream chunk carries the finish reason \<open>stop\<close> exactly when it brings no content, no
  reasoning and no tool call; otherwise its finish reason is null.
\<close>
lemma chunk_finish_reason:
  "\<exists>choice. dget (openai_chat_chunk_message_template model uid now c rc tc us) ''choices''
       = Some (JList [JDict choice]) \<and>
     dget choice ''finish_reason'' =
       Some (if truthy c \<or> truthy rc \<or> truthy tc then JNull else JStr ''stop'')"
  by (auto simp: openai_chat_chunk_message_template_def openai_chat_message_template_def
      base_choice_def Let_def)

end
