(* ===== verification/Stream_Chunks.thy ===== *)
theory Stream_Chunks
  imports Python
begin

text \<open>
  \<open>stream_chunks_handler\<close> of \<^verbatim>\<open>utils/misc.py\<close>: the generator that turns the chunks of a
  response into lines and cuts oversized ones. Its local state is the unfinished line and
  the skip flag; a byte is a character. The input is the list of chunks the stream yields,
  the output the list of yielded lines.
\<close>

abbreviation newline :: char where "newline \<equiv> CHR 0x0A"

definition marker :: string where "marker = ''data: {}''"

record chunk_state =
  buffer :: string
  skip_mode :: bool

definition chunk_init :: chunk_state where
  "chunk_init = \<lparr>buffer = [], skip_mode = False\<rparr>"

text \<open>The complete lines of one chunk: the new skip flag and what is yielded.\<close>

fun yield_lines :: "nat \<Rightarrow> bool \<Rightarrow> string list \<Rightarrow> bool \<times> string list" where
  "yield_lines lim skip [] = (skip, [])"
| "yield_lines lim skip (line # lines) =
     (let (skip', out) =
        (if skip
         then (if length line \<le> lim then (False, line) else (True, marker))
         else (if length line > lim then (True, marker) else (False, line)));
      (skip'', outs) = yield_lines lim skip' lines
      in (skip'', out # outs))"

definition chunk_step :: "nat \<Rightarrow> chunk_state \<Rightarrow> string \<Rightarrow> chunk_state \<times> string list" where
  "chunk_step lim st data =
     (if data = [] then (st, [])
      else
        let buf = (if skip_mode st \<and> length (buffer st) > lim then [] else buffer st);
            lines = split_on newline (buf @ data);
            (skip, outs) = yield_lines lim (skip_mode st) (butlast lines);
            rest = last lines
        in if \<not> skip \<and> length rest > lim
           then (\<lparr>buffer = [], skip_mode = True\<rparr>, outs)
           else (\<lparr>buffer = rest, skip_mode = skip\<rparr>, outs))"

fun chunk_run :: "nat \<Rightarrow> chunk_state \<Rightarrow> string list \<Rightarrow> string list" where
  "chunk_run lim st [] = (if buffer st \<noteq> [] \<and> \<not> skip_mode st then [buffer st] else [])"
| "chunk_run lim st (d # ds) =
     (let (st', outs) = chunk_step lim st d in outs @ chunk_run lim st' ds)"

datatype response_stream = Raw "string list" | Safe "string list"

definition stream_chunks_handler :: "int option \<Rightarrow> string list \<Rightarrow> response_stream" where
  "stream_chunks_handler max_buffer_size chunks =
     (case max_buffer_size of
        None \<Rightarrow> Raw chunks
      | Some m \<Rightarrow> if m \<le> 0 then Raw chunks else Safe (chunk_run (nat m) chunk_init chunks))"

section \<open>Bounded output\<close>

definition small_or_marker :: "nat \<Rightarrow> string \<Rightarrow> bool" where
  "small_or_marker lim line \<longleftrightarrow> length line \<le> lim \<or> line = marker"

definition chunk_ok :: "nat \<Rightarrow> chunk_state \<Rightarrow> bool" where
  "chunk_ok lim st \<longleftrightarrow> skip_mode st \<or> length (buffer st) \<le> lim"

lemma yield_lines_small:
  "yield_lines lim skip ls = (skip', outs) \<Longrightarrow> list_all (small_or_marker lim) outs"
  by (induction lim skip ls arbitrary: skip' outs rule: yield_lines.induct)
     (auto simp: small_or_marker_def Let_def split: prod.splits if_splits)

lemma chunk_step_small:
  "chunk_step lim st d = (st', outs) \<Longrightarrow> chunk_ok lim st \<Longrightarrow>
     chunk_ok lim st' \<and> list_all (small_or_marker lim) outs"
  by (auto simp: chunk_step_def chunk_ok_def Let_def dest: yield_lines_small
      split: prod.splits if_splits)

lemma chunk_run_small: "chunk_ok lim st \<Longrightarrow> list_all (small_or_marker lim) (chunk_run lim st ds)"
proof (induction ds arbitrary: st)
  case (Cons d ds)
  obtain st' outs where s: "chunk_step lim st d = (st', outs)" by (cases "chunk_step lim st d")
  then show ?case using chunk_step_small[OF s Cons.prems] Cons.IH[of st'] by simp
qed (auto simp: chunk_ok_def small_or_marker_def)

section \<open>Chunk boundaries do not matter\<close>

lemma split_on_snoc_chunk:
  "split_on c (t @ d) = butlast (split_on c t) @ split_on c (last (split_on c t) @ d)"
proof -
  have "c \<notin> set (last (split_on c t))" by (rule split_on_free[of _ _ t]) simp
  then have "split_on c (last (split_on c t)) = [last (split_on c t)]" by (rule split_on_id)
  then show ?thesis
    using split_on_append[of c t d] split_on_append[of c "last (split_on c t)" d] by simp
qed

lemma yield_lines_id:
  "list_all (\<lambda>l. length l \<le> lim) ls \<Longrightarrow> yield_lines lim False ls = (False, ls)"
  by (induction ls) auto

definition plain_lines :: "string \<Rightarrow> string list" where
  "plain_lines t = (let ls = split_on newline t in
     butlast ls @ (if last ls = [] then [] else [last ls]))"

definition lines_fit :: "nat \<Rightarrow> string \<Rightarrow> bool" where
  "lines_fit lim t \<longleftrightarrow> list_all (\<lambda>l. length l \<le> lim) (split_on newline t)"

lemma lines_fit_prefix:
  assumes "lines_fit lim (t @ d)"
  shows "lines_fit lim t"
proof -
  have hd: "length (last (split_on newline t)) \<le> length (hd (split_on newline (last (split_on newline t) @ d)))"
    using split_on_append[of newline "last (split_on newline t)" d]
      split_on_id[of newline "last (split_on newline t)"] split_on_free[of "last (split_on newline t)" newline t]
    by simp
  have split: "split_on newline (t @ d) =
      butlast (split_on newline t) @ split_on newline (last (split_on newline t) @ d)"
    by (rule split_on_snoc_chunk)
  have ok: "length l \<le> lim" if "l \<in> set (split_on newline (t @ d))" for l
    using assms that by (simp add: lines_fit_def list_all_iff)
  have "length (last (split_on newline t)) \<le> lim"
    using hd ok[of "hd (split_on newline (last (split_on newline t) @ d))"] split by simp
  moreover have "length l \<le> lim" if "l \<in> set (butlast (split_on newline t))" for l
    using ok[of l] split that by simp
  ultimately have "length l \<le> lim" if "l \<in> set (butlast (split_on newline t) @ [last (split_on newline t)])" for l
    using that by (metis Un_iff empty_iff empty_set insert_iff list.simps(15) set_append)
  then show ?thesis
    unfolding append_butlast_last_id[OF split_on_nonempty] lines_fit_def list_all_iff by blast
qed

lemma chunk_run_lines:
  assumes "lines_fit lim (t @ concat ds)"
  shows "butlast (split_on newline t) @ chunk_run lim \<lparr>buffer = last (split_on newline t), skip_mode = False\<rparr> ds
    = plain_lines (t @ concat ds)"
  using assms
proof (induction ds arbitrary: t)
  case Nil
  then show ?case by (simp add: plain_lines_def Let_def)
next
  case (Cons d ds)
  let ?l = "split_on newline (last (split_on newline t) @ d)"
  have td: "split_on newline (t @ d) = butlast (split_on newline t) @ ?l" by (rule split_on_snoc_chunk)
  have fit: "lines_fit lim (t @ d)"
    using Cons.prems lines_fit_prefix[of lim "t @ d" "concat ds"] by simp
  then have ls: "list_all (\<lambda>l. length l \<le> lim) ?l" unfolding lines_fit_def td by simp
  show ?case
  proof (cases "d = []")
    case True
    then show ?thesis using Cons.IH[of t] Cons.prems by (simp add: chunk_step_def)
  next
    case False
    have "list_all (\<lambda>l. length l \<le> lim) (butlast ?l)"
      using ls by (auto simp: list_all_iff dest: in_set_butlastD)
    moreover have "length (last ?l) \<le> lim"
      using ls by (simp add: list_all_iff)
    ultimately have "chunk_step lim \<lparr>buffer = last (split_on newline t), skip_mode = False\<rparr> d =
        (\<lparr>buffer = last ?l, skip_mode = False\<rparr>, butlast ?l)"
      using False by (simp add: chunk_step_def yield_lines_id Let_def)
    then show ?thesis
      using Cons.IH[of "t @ d"] Cons.prems td by (simp add: butlast_append)
  qed
qed

section \<open>Properties\<close>

text \<open>
  with a buffer limit every yielded line is at most as long as the limit, or is the empty
  JSON marker that stands for an oversized line.
\<close>
lemma stream_lines_bounded:
  "0 < m \<Longrightarrow> \<exists>outs. stream_chunks_handler (Some m) chunks = Safe outs \<and>
     list_all (small_or_marker (nat m)) outs"
  using chunk_run_small[of "nat m" chunk_init chunks]
  by (simp add: stream_chunks_handler_def chunk_ok_def chunk_init_def)

lemma stream_lines_bounded_witness:
  "\<exists>outs. stream_chunks_handler (Some 4) [''aaaaaa'', ''b'' @ [newline] @ ''cc''] = Safe outs \<and>
     list_all (small_or_marker (nat 4)) outs"
  by (rule stream_lines_bounded) simp

text \<open>
  C40: when no line of the response is longer than the limit, the yielded lines are the lines of
  the whole response, however the transport cut it into chunks.
\<close>
theorem stream_transparent:
  assumes "0 < m" "lines_fit (nat m) (concat chunks)"
  shows "stream_chunks_handler (Some m) chunks = Safe (plain_lines (concat chunks))"
  using chunk_run_lines[of "nat m" "[]" chunks] assms
  by (simp add: stream_chunks_handler_def chunk_init_def)

lemma stream_transparent_witness:
  "stream_chunks_handler (Some 6) [''da'', ''ta:1'' @ [newline] @ ''x'', [], ''y''] =
     Safe (plain_lines (concat [''da'', ''ta:1'' @ [newline] @ ''x'', [], ''y'']))"
  by (rule stream_transparent) (simp_all add: lines_fit_def)

text \<open>
  a line that is cut as oversized while still incomplete leaves its tail behind: the tail
  is yielded as if it were a line of its own, and no marker is sent for the line.
\<close>
lemma oversized_tail_is_yielded:
  "stream_chunks_handler (Some 4) [''aaaaaa'', ''b'' @ [newline]] = Safe [''b'']"
  by (simp add: stream_chunks_handler_def chunk_init_def chunk_step_def)

end
