(* ===== verification/Throttle.thy ===== *)
theory Throttle
  imports Complex_Main Prelude
begin

text \<open>
  The \<open>throttle\<close> decorator of \<^verbatim>\<open>utils/misc.py\<close>. Threads call the wrapper at the same
  time: a call samples the clock, reads the table of last calls without the lock (the probe)
  and, when that lets it pass, checks again and records its time under the lock (the entry).
  The clock need not be monotone: a call may enter with an older time than another.
\<close>

type_synonym 'k last_calls = "'k \<rightharpoonup> rat"

definition last_call :: "'k last_calls \<Rightarrow> 'k \<Rightarrow> rat" where
  "last_call lc key = (case lc key of None \<Rightarrow> 0 | Some t \<Rightarrow> t)"

definition too_soon :: "rat \<Rightarrow> 'k \<Rightarrow> rat \<Rightarrow> 'k last_calls \<Rightarrow> bool" where
  "too_soon interval key now lc \<longleftrightarrow> now - last_call lc key < interval"

text \<open>One undisturbed call: whether the function runs, and the new table.\<close>

definition throttle_call :: "rat option \<Rightarrow> 'k \<Rightarrow> rat \<Rightarrow> 'k last_calls \<Rightarrow> bool \<times> 'k last_calls" where
  "throttle_call interval key now lc =
     (case interval of
        None \<Rightarrow> (True, lc)
      | Some i \<Rightarrow>
          if too_soon i key now lc then (False, lc)
          else if too_soon i key now lc then (False, lc)
          else (True, lc(key \<mapsto> now)))"

record 'k throttle_state =
  last_calls :: "'k last_calls"
  waiting :: "('k \<times> rat) list"
  executed :: "('k \<times> rat) list"

definition throttle_init :: "'k throttle_state" where
  "throttle_init = \<lparr>last_calls = Map.empty, waiting = [], executed = []\<rparr>"

inductive throttle_step :: "rat \<Rightarrow> 'k throttle_state \<Rightarrow> 'k throttle_state \<Rightarrow> bool" for i where
  probe_blocked: "too_soon i key now (last_calls s) \<Longrightarrow> throttle_step i s s"
| probe_passed: "\<not> too_soon i key now (last_calls s) \<Longrightarrow>
     throttle_step i s (s\<lparr>waiting := waiting s @ [(key, now)]\<rparr>)"
| entry_blocked: "(key, now) \<in> set (waiting s) \<Longrightarrow> too_soon i key now (last_calls s) \<Longrightarrow>
     throttle_step i s (s\<lparr>waiting := remove1 (key, now) (waiting s)\<rparr>)"
| entry_runs: "(key, now) \<in> set (waiting s) \<Longrightarrow> \<not> too_soon i key now (last_calls s) \<Longrightarrow>
     throttle_step i s (s\<lparr>last_calls := (last_calls s)(key \<mapsto> now),
       waiting := remove1 (key, now) (waiting s), executed := executed s @ [(key, now)]\<rparr>)"

inductive throttle_reach :: "rat \<Rightarrow> 'k throttle_state \<Rightarrow> bool" for i where
  start: "throttle_reach i throttle_init"
| step: "throttle_reach i s \<Longrightarrow> throttle_step i s t \<Longrightarrow> throttle_reach i t"

definition times_of :: "'k \<Rightarrow> ('k \<times> rat) list \<Rightarrow> rat list" where
  "times_of key calls = map snd (filter (\<lambda>(k, t). k = key) calls)"

lemma times_of_snoc [simp]:
  "times_of key (calls @ [(k, t)]) = times_of key calls @ (if k = key then [t] else [])"
  by (simp add: times_of_def)

text \<open>The table holds the time of the last executed call, and executed calls are spaced.\<close>

definition throttle_inv :: "rat \<Rightarrow> 'k throttle_state \<Rightarrow> bool" where
  "throttle_inv i s \<longleftrightarrow> (\<forall>key.
     (last_calls s key = None \<longrightarrow> times_of key (executed s) = []) \<and>
     (\<forall>t. last_calls s key = Some t \<longrightarrow>
        times_of key (executed s) \<noteq> [] \<and> last (times_of key (executed s)) = t) \<and>
     sorted_wrt (\<lambda>a b. a + i \<le> b) (times_of key (executed s)))"

lemma spaced_snoc:
  fixes i :: rat
  assumes "sorted_wrt (\<lambda>a b. a + i \<le> b) ts" "ts \<noteq> [] \<Longrightarrow> last ts + i \<le> t" "0 \<le> i"
  shows "sorted_wrt (\<lambda>a b. a + i \<le> b) (ts @ [t])"
proof (cases ts rule: rev_cases)
  case (snoc us u)
  then show ?thesis using assms by (auto simp: sorted_wrt_append)
qed simp

lemma throttle_inv_step:
  assumes "throttle_step i s t" "throttle_inv i s" "0 \<le> i"
  shows "throttle_inv i t"
  using assms
proof (induction rule: throttle_step.induct)
  case (entry_runs key now s)
  have inv: "last_calls s k = None \<Longrightarrow> times_of k (executed s) = []"
      "last_calls s k = Some t \<Longrightarrow> times_of k (executed s) \<noteq> [] \<and> last (times_of k (executed s)) = t"
      "sorted_wrt (\<lambda>a b. a + i \<le> b) (times_of k (executed s))" for k t
    using entry_runs.prems(1) by (auto simp: throttle_inv_def)
  have "sorted_wrt (\<lambda>a b. a + i \<le> b) (times_of key (executed s) @ [now])"
    using inv[of key] entry_runs.hyps(2) entry_runs.prems(2)
    by (intro spaced_snoc) (auto simp: too_soon_def last_call_def split: option.splits)
  then show ?case using inv by (auto simp: throttle_inv_def)
qed (auto simp: throttle_inv_def)

lemma throttle_reach_inv: "throttle_reach i s \<Longrightarrow> 0 \<le> i \<Longrightarrow> throttle_inv i s"
proof (induction rule: throttle_reach.induct)
  case start
  then show ?case by (simp add: throttle_inv_def throttle_init_def times_of_def)
next
  case (step s t)
  then show ?case using throttle_inv_step by blast
qed

text \<open>
  however threads interleave between the unlocked probe and the locked entry, two
  executed calls with the same key are at least the interval apart, in the order of their
  execution.
\<close>
lemma throttled_calls_spaced:
  assumes "throttle_reach i s" "0 \<le> i"
  shows "sorted_wrt (\<lambda>a b. a + i \<le> b) (times_of key (executed s))"
  using throttle_reach_inv[OF assms] by (simp add: throttle_inv_def)

definition two_probes :: "nat throttle_state" where
  "two_probes = \<lparr>last_calls = Map.empty, waiting = [(1, 20), (1, 25)], executed = []\<rparr>"

definition one_entered :: "nat throttle_state" where
  "one_entered = \<lparr>last_calls = [1 \<mapsto> 20], waiting = [(1, 25)], executed = [(1, 20)]\<rparr>"

lemma throttled_calls_spaced_witness:
  "throttle_reach 10 one_entered \<and> sorted_wrt (\<lambda>a b. a + 10 \<le> b) (times_of 1 (executed one_entered))"
proof -
  have 1: "throttle_step 10 (throttle_init :: nat throttle_state) (throttle_init\<lparr>waiting := [(1, 20)]\<rparr>)"
    using throttle_step.probe_passed[of 10 1 20 "throttle_init :: nat throttle_state"]
    by (simp add: throttle_init_def too_soon_def last_call_def)
  have 2: "throttle_step 10 (throttle_init\<lparr>waiting := [(1, 20)]\<rparr>) two_probes"
    using throttle_step.probe_passed[of 10 1 25 "throttle_init\<lparr>waiting := [(1 :: nat, 20)]\<rparr>"]
    by (simp add: throttle_init_def too_soon_def last_call_def two_probes_def)
  have 3: "throttle_step 10 two_probes one_entered"
    using throttle_step.entry_runs[of 1 20 two_probes 10]
    by (simp add: too_soon_def last_call_def two_probes_def one_entered_def)
  have r: "throttle_reach 10 one_entered"
    by (rule throttle_reach.step[OF throttle_reach.step[OF throttle_reach.step[OF throttle_reach.start 1] 2] 3])
  show ?thesis using throttled_calls_spaced[OF r, of 1] r by simp
qed

end
