(* ===== verification/Rate_Limit.thy ===== *)
theory Rate_Limit
  imports Python "HOL-Library.Multiset"
begin

text \<open>
  \<^verbatim>\<open>utils/rate_limit.py\<close>: the rolling-window limiter. The in-memory store maps a key to its
  buckets (bucket index, count). The Redis client is not part of the repository: its
  \<open>incr\<close>, \<open>expire\<close> and \<open>mget\<close> are arguments, and a result of \<open>None\<close> is an exception they
  raise. \<open>now\<close> is \<open>int(time.time())\<close> as the path taken first samples it, \<open>now2\<close> the second
  sample, taken when the memory path runs after the Redis path has raised.
\<close>

record limiter =
  limit :: int
  window :: int
  bucket_size :: int
  enabled :: bool

definition num_buckets :: "limiter \<Rightarrow> int" where
  "num_buckets l = window l div bucket_size l"

definition current_bucket :: "limiter \<Rightarrow> int \<Rightarrow> int" where
  "current_bucket l now = now div bucket_size l"

type_synonym buckets = "(int \<times> nat) list"
type_synonym memory_store = "string \<rightharpoonup> buckets"

definition bucket_count :: "buckets \<Rightarrow> int \<Rightarrow> nat" where
  "bucket_count d b = (case map_of d b of None \<Rightarrow> 0 | Some c \<Rightarrow> c)"

definition drop_expired :: "int \<Rightarrow> buckets \<Rightarrow> buckets" where
  "drop_expired min_bucket d = filter (\<lambda>(b, c). \<not> b < min_bucket) d"

definition is_limited_memory ::
  "limiter \<Rightarrow> string \<Rightarrow> int \<Rightarrow> memory_store \<Rightarrow> bool \<times> memory_store" where
  "is_limited_memory l key now ms =
     (let now_bucket = current_bucket l now;
          store = (case ms key of None \<Rightarrow> [] | Some d \<Rightarrow> d);
          store1 = AList.update now_bucket (bucket_count store now_bucket + 1) store;
          store2 = drop_expired (now_bucket - num_buckets l) store1;
          total = sum_list (map snd store2)
      in (int total > limit l, ms(key \<mapsto> store2)))"

definition get_count_memory ::
  "limiter \<Rightarrow> string \<Rightarrow> int \<Rightarrow> memory_store \<Rightarrow> nat \<times> memory_store" where
  "get_count_memory l key now ms =
     (let now_bucket = current_bucket l now in
      case ms key of
        None \<Rightarrow> (0, ms)
      | Some store \<Rightarrow>
          let store' = drop_expired (now_bucket - num_buckets l) store
          in (sum_list (map snd store'), ms(key \<mapsto> store')))"

section \<open>The Redis path\<close>

record 'r redis_client =
  r_incr :: "string \<Rightarrow> 'r \<Rightarrow> int option \<times> 'r"
  r_expire :: "string \<Rightarrow> int \<Rightarrow> 'r \<Rightarrow> unit option \<times> 'r"
  r_mget :: "string list \<Rightarrow> 'r \<Rightarrow> int option list option"

definition bucket_key :: "string \<Rightarrow> string \<Rightarrow> int \<Rightarrow> string" where
  "bucket_key pre key b = pre @ '':ratelimit:'' @ lower key @ '':'' @ int_str b"

definition bucket_keys :: "limiter \<Rightarrow> string \<Rightarrow> string \<Rightarrow> int \<Rightarrow> string list" where
  "bucket_keys l pre key now_bucket =
     map (\<lambda>i. bucket_key pre key (now_bucket - i)) [0..num_buckets l]"

definition sum_counts :: "int option list \<Rightarrow> int" where
  "sum_counts counts = sum_list (map (\<lambda>c. case c of None \<Rightarrow> 0 | Some n \<Rightarrow> n) counts)"

definition is_limited_redis ::
  "limiter \<Rightarrow> 'r redis_client \<Rightarrow> string \<Rightarrow> string \<Rightarrow> int \<Rightarrow> 'r \<Rightarrow> bool option \<times> 'r" where
  "is_limited_redis l client pre key now r =
     (let now_bucket = current_bucket l now;
          bk = bucket_key pre key now_bucket in
      case r_incr client bk r of
        (None, r1) \<Rightarrow> (None, r1)
      | (Some attempts, r1) \<Rightarrow>
          (case (if attempts = 1 then r_expire client bk (window l + bucket_size l) r1 else (Some (), r1)) of
             (None, r2) \<Rightarrow> (None, r2)
           | (Some _, r2) \<Rightarrow>
               (case r_mget client (bucket_keys l pre key now_bucket) r2 of
                  None \<Rightarrow> (None, r2)
                | Some counts \<Rightarrow> (Some (sum_counts counts > limit l), r2))))"

definition get_count_redis ::
  "limiter \<Rightarrow> 'r redis_client \<Rightarrow> string \<Rightarrow> string \<Rightarrow> int \<Rightarrow> 'r \<Rightarrow> int option" where
  "get_count_redis l client pre key now r =
     map_option sum_counts (r_mget client (bucket_keys l pre key (current_bucket l now)) r)"

section \<open>The public operations\<close>

record 'r limiter_state =
  memory :: memory_store
  redis :: "'r option"

definition is_limited ::
  "limiter \<Rightarrow> 'r redis_client \<Rightarrow> string \<Rightarrow> string \<Rightarrow> int \<Rightarrow> int \<Rightarrow> 'r limiter_state \<Rightarrow> bool \<times> 'r limiter_state" where
  "is_limited l client pre key now now2 s =
     (if \<not> enabled l then (False, s)
      else
        let mem = (\<lambda>t s. let (b, ms) = is_limited_memory l key t (memory s) in (b, s\<lparr>memory := ms\<rparr>)) in
        case redis s of
          None \<Rightarrow> mem now s
        | Some r \<Rightarrow>
            (case is_limited_redis l client pre key now r of
               (Some b, r') \<Rightarrow> (b, s\<lparr>redis := Some r'\<rparr>)
             | (None, r') \<Rightarrow> mem now2 (s\<lparr>redis := Some r'\<rparr>)))"

definition get_count ::
  "limiter \<Rightarrow> 'r redis_client \<Rightarrow> string \<Rightarrow> string \<Rightarrow> int \<Rightarrow> int \<Rightarrow> 'r limiter_state \<Rightarrow> int \<times> 'r limiter_state" where
  "get_count l client pre key now now2 s =
     (if \<not> enabled l then (0, s)
      else
        let mem = (\<lambda>t. let (n, ms) = get_count_memory l key t (memory s) in (int n, s\<lparr>memory := ms\<rparr>)) in
        case redis s of
          None \<Rightarrow> mem now
        | Some r \<Rightarrow>
            (case get_count_redis l client pre key now r of
               Some n \<Rightarrow> (n, s)
             | None \<Rightarrow> mem now2))"

definition remaining ::
  "limiter \<Rightarrow> 'r redis_client \<Rightarrow> string \<Rightarrow> string \<Rightarrow> int \<Rightarrow> int \<Rightarrow> 'r limiter_state \<Rightarrow> int \<times> 'r limiter_state" where
  "remaining l client pre key now now2 s =
     (let (used, s') = get_count l client pre key now now2 s in (max 0 (limit l - used), s'))"

section \<open>Sequences of calls and their specification\<close>

datatype limiter_op = Attempt string int | Count string int
datatype limiter_out = Limited bool | Used nat

fun op_time :: "limiter_op \<Rightarrow> int" where
  "op_time (Attempt k t) = t"
| "op_time (Count k t) = t"

fun memory_op :: "limiter \<Rightarrow> limiter_op \<Rightarrow> memory_store \<Rightarrow> limiter_out \<times> memory_store" where
  "memory_op l (Attempt k t) ms = (let (b, ms') = is_limited_memory l k t ms in (Limited b, ms'))"
| "memory_op l (Count k t) ms = (let (n, ms') = get_count_memory l k t ms in (Used n, ms'))"

fun memory_run :: "limiter \<Rightarrow> limiter_op list \<Rightarrow> memory_store \<Rightarrow> limiter_out list" where
  "memory_run l [] ms = []"
| "memory_run l (x # xs) ms = (let (out, ms') = memory_op l x ms in out # memory_run l xs ms')"

text \<open>The specification keeps the attempts and counts those whose bucket is in the window.\<close>

type_synonym attempts = "(string \<times> int) list"

definition in_window :: "limiter \<Rightarrow> string \<Rightarrow> int \<Rightarrow> attempts \<Rightarrow> nat" where
  "in_window l key now h =
     length (filter (\<lambda>(k, t). k = key \<and> current_bucket l now - num_buckets l \<le> current_bucket l t) h)"

fun spec_op :: "limiter \<Rightarrow> limiter_op \<Rightarrow> attempts \<Rightarrow> limiter_out \<times> attempts" where
  "spec_op l (Attempt k t) h = (Limited (int (in_window l k t (h @ [(k, t)])) > limit l), h @ [(k, t)])"
| "spec_op l (Count k t) h = (Used (in_window l k t h), h)"

fun spec_run :: "limiter \<Rightarrow> limiter_op list \<Rightarrow> attempts \<Rightarrow> limiter_out list" where
  "spec_run l [] h = []"
| "spec_run l (x # xs) h = (let (out, h') = spec_op l x h in out # spec_run l xs h')"

section \<open>Buckets as multisets of attempts\<close>

fun bucket_mset :: "buckets \<Rightarrow> int multiset" where
  "bucket_mset [] = {#}"
| "bucket_mset ((b, c) # d) = replicate_mset c b + bucket_mset d"

definition attempt_mset :: "limiter \<Rightarrow> string \<Rightarrow> attempts \<Rightarrow> int multiset" where
  "attempt_mset l key h = mset (map (\<lambda>(k, t). current_bucket l t) (filter (\<lambda>(k, t). k = key) h))"

lemma size_bucket_mset: "size (bucket_mset d) = sum_list (map snd d)"
  by (induction d rule: bucket_mset.induct) auto

lemma filter_mset_replicate:
  "filter_mset p (replicate_mset n x) = (if p x then replicate_mset n x else {#})"
  by (induction n) auto

lemma bucket_mset_drop: "bucket_mset (drop_expired m d) = filter_mset (\<lambda>b. m \<le> b) (bucket_mset d)"
  by (induction d rule: bucket_mset.induct) (auto simp: drop_expired_def filter_mset_replicate)

lemma bucket_mset_incr:
  "distinct (map fst d) \<Longrightarrow>
     bucket_mset (AList.update b (bucket_count d b + 1) d) = add_mset b (bucket_mset d)"
  by (induction d rule: bucket_mset.induct) (auto simp: bucket_count_def)

lemma distinct_drop_expired: "distinct (map fst d) \<Longrightarrow> distinct (map fst (drop_expired m d))"
  by (simp add: drop_expired_def distinct_map_filter)

lemma attempt_mset_snoc [simp]:
  "attempt_mset l key (h @ [(k, t)]) =
     (if k = key then add_mset (current_bucket l t) (attempt_mset l key h) else attempt_mset l key h)"
  by (simp add: attempt_mset_def)

lemma in_window_size:
  "in_window l key now h =
     size (filter_mset (\<lambda>b. current_bucket l now - num_buckets l \<le> b) (attempt_mset l key h))"
proof (induction h)
  case (Cons p h)
  then show ?case by (cases p) (auto simp: in_window_def attempt_mset_def)
qed (simp add: in_window_def attempt_mset_def)

text \<open>
  The store after calls up to time \<open>now\<close>: the buckets of a key are its attempts, less
  those below a bound that the window of no later call reaches.
\<close>

definition store_rel :: "limiter \<Rightarrow> int \<Rightarrow> attempts \<Rightarrow> memory_store \<Rightarrow> bool" where
  "store_rel l now h ms \<longleftrightarrow> (\<forall>key. \<exists>m. m \<le> current_bucket l now - num_buckets l \<and>
     distinct (map fst (case ms key of None \<Rightarrow> [] | Some d \<Rightarrow> d)) \<and>
     bucket_mset (case ms key of None \<Rightarrow> [] | Some d \<Rightarrow> d) =
       filter_mset (\<lambda>b. m \<le> b) (attempt_mset l key h))"

lemma store_relE:
  assumes "store_rel l now h ms"
  obtains m where "m \<le> current_bucket l now - num_buckets l"
    "distinct (map fst (case ms key of None \<Rightarrow> [] | Some d \<Rightarrow> d))"
    "bucket_mset (case ms key of None \<Rightarrow> [] | Some d \<Rightarrow> d) =
       filter_mset (\<lambda>b. m \<le> b) (attempt_mset l key h)"
  using assms unfolding store_rel_def by blast

lemma current_bucket_mono: "0 < bucket_size l \<Longrightarrow> t \<le> t' \<Longrightarrow> current_bucket l t \<le> current_bucket l t'"
  by (simp add: current_bucket_def zdiv_mono1)

lemma store_rel_later:
  "store_rel l t h ms \<Longrightarrow> t \<le> t' \<Longrightarrow> 0 < bucket_size l \<Longrightarrow> store_rel l t' h ms"
  unfolding store_rel_def using current_bucket_mono[of l t t'] by (meson diff_right_mono order_trans)

lemma filter_mset_window: "m \<le> n \<Longrightarrow> filter_mset (\<lambda>b. n \<le> b) (filter_mset (\<lambda>b. m \<le> b) M) = filter_mset (\<lambda>b. n \<le> b) M"
  for n :: int
  by (induction M) auto

lemma store_rel_upd:
  assumes "store_rel l now h ms"
    and "\<And>k. k \<noteq> key \<Longrightarrow> attempt_mset l k h' = attempt_mset l k h"
    and "distinct (map fst d)"
    and "bucket_mset d = filter_mset (\<lambda>b. current_bucket l now - num_buckets l \<le> b) (attempt_mset l key h')"
  shows "store_rel l now h' (ms(key \<mapsto> d))"
  using assms unfolding store_rel_def by auto

lemma is_limited_memory_spec:
  assumes "store_rel l now h ms" "0 \<le> num_buckets l"
  shows "fst (is_limited_memory l key now ms) = (int (in_window l key now (h @ [(key, now)])) > limit l) \<and>
    store_rel l now (h @ [(key, now)]) (snd (is_limited_memory l key now ms))"
proof -
  let ?b = "current_bucket l now" and ?min = "current_bucket l now - num_buckets l"
  define store where "store = (case ms key of None \<Rightarrow> [] | Some d \<Rightarrow> d)"
  define d where "d = drop_expired ?min (AList.update ?b (bucket_count store ?b + 1) store)"
  obtain m where m: "m \<le> ?min" "distinct (map fst store)"
      "bucket_mset store = filter_mset (\<lambda>b. m \<le> b) (attempt_mset l key h)"
    using store_relE[OF assms(1), of key] unfolding store_def by blast
  have d: "bucket_mset d = filter_mset (\<lambda>b. ?min \<le> b) (attempt_mset l key (h @ [(key, now)]))"
    unfolding d_def bucket_mset_drop bucket_mset_incr[OF m(2)] m(3)
    using m(1) assms(2) by (simp add: filter_mset_window)
  have dist: "distinct (map fst d)"
    unfolding d_def by (intro distinct_drop_expired distinct_update m(2))
  have res: "is_limited_memory l key now ms = (int (sum_list (map snd d)) > limit l, ms(key \<mapsto> d))"
    by (simp add: is_limited_memory_def Let_def d_def store_def)
  have "store_rel l now (h @ [(key, now)]) (ms(key \<mapsto> d))"
    using assms(1) dist d by (intro store_rel_upd) auto
  moreover have "sum_list (map snd d) = in_window l key now (h @ [(key, now)])"
    unfolding in_window_size d[symmetric] by (rule size_bucket_mset[symmetric])
  ultimately show ?thesis by (simp add: res)
qed

lemma get_count_memory_spec:
  assumes "store_rel l now h ms"
  shows "fst (get_count_memory l key now ms) = in_window l key now h \<and>
    store_rel l now h (snd (get_count_memory l key now ms))"
proof -
  let ?min = "current_bucket l now - num_buckets l"
  obtain m where m: "m \<le> ?min" "distinct (map fst (case ms key of None \<Rightarrow> [] | Some d \<Rightarrow> d))"
      "bucket_mset (case ms key of None \<Rightarrow> [] | Some d \<Rightarrow> d) = filter_mset (\<lambda>b. m \<le> b) (attempt_mset l key h)"
    using store_relE[OF assms, of key] by blast
  show ?thesis
  proof (cases "ms key")
    case None
    then have e: "filter_mset (\<lambda>b. m \<le> b) (attempt_mset l key h) = {#}" using m(3) by simp
    have "filter_mset (\<lambda>b. ?min \<le> b) (attempt_mset l key h) = {#}"
      using filter_mset_window[OF m(1), of "attempt_mset l key h"] unfolding e by simp
    then show ?thesis using None assms by (simp add: get_count_memory_def in_window_size)
  next
    case (Some d)
    have e: "bucket_mset (drop_expired ?min d) = filter_mset (\<lambda>b. ?min \<le> b) (attempt_mset l key h)"
      using m Some by (simp add: bucket_mset_drop filter_mset_window)
    then have "store_rel l now h (ms(key \<mapsto> drop_expired ?min d))"
      using assms m(2) Some by (intro store_rel_upd) (auto simp: distinct_drop_expired)
    moreover have "sum_list (map snd (drop_expired ?min d)) = in_window l key now h"
      unfolding in_window_size e[symmetric] by (rule size_bucket_mset[symmetric])
    ultimately show ?thesis using Some by (simp add: get_count_memory_def Let_def)
  qed
qed

lemma memory_run_refines:
  assumes "store_rel l t h ms" "sorted (t # map op_time xs)" "0 < bucket_size l" "0 \<le> window l"
  shows "memory_run l xs ms = spec_run l xs h"
  using assms
proof (induction xs arbitrary: t h ms)
  case (Cons x xs)
  have nb: "0 \<le> num_buckets l" using Cons.prems by (simp add: num_buckets_def div_int_pos_iff)
  have rel: "store_rel l (op_time x) h ms"
    using store_rel_later[OF Cons.prems(1), of "op_time x"] Cons.prems by simp
  have s: "sorted (op_time x # map op_time xs)" using Cons.prems(2) by simp
  show ?case
  proof (cases x)
    case (Attempt k now)
    then show ?thesis
      using is_limited_memory_spec[of l now h ms k] rel nb s
        Cons.IH[of now "h @ [(k, now)]" "snd (is_limited_memory l k now ms)"] Cons.prems(3,4)
      by (simp add: case_prod_beta Let_def)
  next
    case (Count k now)
    then show ?thesis
      using get_count_memory_spec[of l now h ms k] rel s
        Cons.IH[of now h "snd (get_count_memory l k now ms)"] Cons.prems(3,4)
      by (simp add: case_prod_beta Let_def)
  qed
qed simp

section \<open>Properties\<close>

text \<open>
  C19: on every sequence of attempts and counts whose times do not go back, the pruned
  in-memory buckets give the same answers as counting all recorded attempts of the key in
  the window: the expiry of buckets loses nothing.
\<close>
theorem memory_limiter_refines_window_count:
  assumes "sorted (map op_time xs)" "0 < bucket_size l" "0 \<le> window l"
  shows "memory_run l xs Map.empty = spec_run l xs []"
proof -
  have rel: "store_rel l t [] Map.empty" for t
    unfolding store_rel_def by (auto simp: attempt_mset_def)
  show ?thesis
  proof (cases xs)
    case (Cons x ys)
    then show ?thesis
      using memory_run_refines[OF rel[of "op_time x"], of xs] assms by simp
  qed simp
qed

definition signin_limiter :: limiter where
  "signin_limiter = \<lparr>limit = 2, window = 180, bucket_size = 60, enabled = True\<rparr>"

lemma memory_limiter_refines_window_count_witness:
  "memory_run signin_limiter
     [Attempt ''a'' 0, Attempt ''a'' 70, Attempt ''b'' 80, Attempt ''a'' 130, Count ''a'' 500] Map.empty
   = [Limited False, Limited False, Limited False, Limited True, Used 0]"
  using memory_limiter_refines_window_count
    [of "[Attempt ''a'' 0, Attempt ''a'' 70, Attempt ''b'' 80, Attempt ''a'' 130, Count ''a'' 500]" signin_limiter]
  by (simp add: signin_limiter_def in_window_def current_bucket_def num_buckets_def)

text \<open>
  when the window is a whole number of buckets, an attempt no older than the window is
  always counted, and a counted attempt is younger than the window and one bucket.
\<close>
lemma window_bounds:
  assumes "0 < bucket_size l" "window l = q * bucket_size l" "t \<le> now"
  shows "(now - t \<le> window l \<longrightarrow> current_bucket l now - num_buckets l \<le> current_bucket l t) \<and>
    (current_bucket l now - num_buckets l \<le> current_bucket l t \<longrightarrow> now - t < window l + bucket_size l)"
proof -
  let ?s = "bucket_size l"
  have q: "num_buckets l = q" using assms(1,2) by (simp add: num_buckets_def)
  have 1: "now div ?s - q \<le> t div ?s" if "now - t \<le> q * ?s"
  proof -
    have "(now - q * ?s) div ?s \<le> t div ?s" using that assms(1) by (intro zdiv_mono1) auto
    moreover have "(now - q * ?s) div ?s = now div ?s - q"
      using assms(1) div_mult_self1[of ?s now "-q"] by (simp add: algebra_simps)
    ultimately show ?thesis by simp
  qed
  have 2: "now - t < q * ?s + ?s" if "now div ?s - q \<le> t div ?s"
  proof -
    have "now < (now div ?s + 1) * ?s"
      using assms(1) by (simp add: distrib_right) (metis add.commute add_less_cancel_left
        div_mult_mod_eq pos_mod_bound)
    also have "\<dots> \<le> (t div ?s + q + 1) * ?s" using that assms(1) by (intro mult_right_mono) auto
    also have "\<dots> = t div ?s * ?s + q * ?s + ?s" by (simp add: algebra_simps)
    also have "\<dots> \<le> t + q * ?s + ?s"
      using assms(1) by (simp add: minus_mod_eq_div_mult[symmetric])
    finally show ?thesis by simp
  qed
  show ?thesis using 1 2 assms(2) by (simp add: q current_bucket_def)
qed

lemma window_bounds_witness:
  "(200 - 30 \<le> window signin_limiter \<longrightarrow>
     current_bucket signin_limiter 200 - num_buckets signin_limiter \<le> current_bucket signin_limiter 30) \<and>
   (current_bucket signin_limiter 200 - num_buckets signin_limiter \<le> current_bucket signin_limiter 30 \<longrightarrow>
     200 - 30 < window signin_limiter + bucket_size signin_limiter)"
  by (rule window_bounds[of _ 3]) (simp_all add: signin_limiter_def)

text \<open>
  when the client raises on its first command, the limiter answers from memory as it does
  without a client at the time of the second sample, and leaves the same memory.
\<close>
lemma redis_failure_falls_back:
  assumes "redis s = Some r" "\<And>k r. fst (r_incr client k r) = None"
  shows "fst (is_limited l client pre key now now2 s) =
      fst (is_limited l client pre key now2 now2 (s\<lparr>redis := None\<rparr>)) \<and>
    memory (snd (is_limited l client pre key now now2 s)) =
      memory (snd (is_limited l client pre key now2 now2 (s\<lparr>redis := None\<rparr>)))"
proof -
  obtain r1 where "r_incr client (bucket_key pre key (current_bucket l now)) r = (None, r1)"
    using assms(2) by (metis prod.collapse)
  then show ?thesis using assms(1)
    by (simp add: is_limited_def is_limited_redis_def Let_def case_prod_beta)
qed

definition failing_client :: "nat redis_client" where
  "failing_client = \<lparr>r_incr = (\<lambda>k r. (None, r + 1)), r_expire = (\<lambda>k t r. (None, r)), r_mget = (\<lambda>ks r. None)\<rparr>"

lemma redis_failure_falls_back_witness:
  "fst (is_limited signin_limiter failing_client ''p'' ''a'' 5 6 \<lparr>memory = Map.empty, redis = Some 0\<rparr>) =
     fst (is_limited signin_limiter failing_client ''p'' ''a'' 6 6 (\<lparr>memory = Map.empty, redis = Some 0\<rparr>\<lparr>redis := None\<rparr>)) \<and>
   memory (snd (is_limited signin_limiter failing_client ''p'' ''a'' 5 6 \<lparr>memory = Map.empty, redis = Some 0\<rparr>)) =
     memory (snd (is_limited signin_limiter failing_client ''p'' ''a'' 6 6 (\<lparr>memory = Map.empty, redis = Some 0\<rparr>\<lparr>redis := None\<rparr>)))"
  by (rule redis_failure_falls_back[of _ 0]) (simp_all add: failing_client_def)

end
