(* ===== verification/User_Groups.thy ===== *)
theory User_Groups
  imports Keyed_Store Python
begin

text \<open>
  \<^verbatim>\<open>models/groups.py\<close>: user groups and their members. The state is the two tables. The
  constraints are those of the schema: primary keys, one membership row per group and user
  (migration \<^verbatim>\<open>37f288994c47\<close>) and, on a database that enforces foreign keys, that group and
  user exist and that deleting a group deletes its memberships. \<open>fk\<close> is \<open>None\<close> where
  foreign keys are not enforced (SQLite as the code opens it) and otherwise the test that a
  user exists. Fresh UUIDs and the clock are arguments.
\<close>

record group =
  grp_id :: id
  grp_user_id :: id
  grp_name :: string
  grp_description :: string
  grp_data :: "dict option"
  grp_meta :: "dict option"
  grp_permissions :: "dict option"
  grp_created_at :: time
  grp_updated_at :: time

record group_member =
  gm_id :: id
  gm_group_id :: id
  gm_user_id :: id
  gm_created_at :: "time option"
  gm_updated_at :: "time option"

record group_response = group +
  member_count :: "nat option"

record group_form =
  gf_name :: string
  gf_description :: string
  gf_permissions :: "dict option"
  gf_data :: "dict option"

record group_db =
  groups :: "group list"
  group_members :: "group_member list"

type_synonym foreign_keys = "(id \<Rightarrow> bool) option"

section \<open>Constraints and single rows\<close>

definition member_key :: "group_member \<Rightarrow> id \<times> id" where
  "member_key m = (gm_group_id m, gm_user_id m)"

definition has_group :: "id \<Rightarrow> group_db \<Rightarrow> bool" where
  "has_group gid db \<longleftrightarrow> gid \<in> grp_id ` set (groups db)"

definition add_member :: "foreign_keys \<Rightarrow> group_member \<Rightarrow> group_db \<Rightarrow> group_db option" where
  "add_member fk m db =
     (if gm_id m \<in> gm_id ` set (group_members db) then None
      else if member_key m \<in> member_key ` set (group_members db) then None
      else if (case fk of None \<Rightarrow> False
                | Some user_exists \<Rightarrow> \<not> (has_group (gm_group_id m) db \<and> user_exists (gm_user_id m)))
        then None
      else Some (db\<lparr>group_members := group_members db @ [m]\<rparr>))"

definition new_member :: "id \<Rightarrow> id \<Rightarrow> id \<Rightarrow> time \<Rightarrow> group_member" where
  "new_member uid gid user_id now =
     \<lparr>gm_id = uid, gm_group_id = gid, gm_user_id = user_id,
      gm_created_at = Some now, gm_updated_at = Some now\<rparr>"

definition groups_ok :: "group_db \<Rightarrow> bool" where
  "groups_ok db \<longleftrightarrow> unique_key grp_id (groups db) \<and>
     unique_key gm_id (group_members db) \<and> unique_key member_key (group_members db)"

text \<open>On a database with foreign keys every membership names an existing group.\<close>

definition no_orphans :: "group_db \<Rightarrow> bool" where
  "no_orphans db \<longleftrightarrow> list_all (\<lambda>m. has_group (gm_group_id m) db) (group_members db)"

definition members_of :: "group_db \<Rightarrow> id \<Rightarrow> id set" where
  "members_of db gid = {gm_user_id m | m. m \<in> set (group_members db) \<and> gm_group_id m = gid}"

section \<open>Queries\<close>

definition get_group_by_id :: "id \<Rightarrow> group_db \<Rightarrow> group option" where
  "get_group_by_id gid db = row_get grp_id gid (groups db)"

definition get_all_groups :: "group_db \<Rightarrow> group list" where
  "get_all_groups db = order_desc grp_updated_at (groups db)"

definition is_member :: "group_db \<Rightarrow> id \<Rightarrow> id \<Rightarrow> bool" where
  "is_member db gid user_id =
     list_ex (\<lambda>m. gm_group_id m = gid \<and> gm_user_id m = user_id) (group_members db)"

definition get_groups_by_member_id :: "id \<Rightarrow> group_db \<Rightarrow> group list" where
  "get_groups_by_member_id user_id db =
     order_desc grp_updated_at (all_rows (\<lambda>g. is_member db (grp_id g) user_id) (groups db))"

definition get_group_user_ids_by_id :: "id \<Rightarrow> group_db \<Rightarrow> id list option" where
  "get_group_user_ids_by_id gid db =
     (let members = map gm_user_id (all_rows (\<lambda>m. gm_group_id m = gid) (group_members db))
      in if members = [] then None else Some members)"

definition get_group_user_ids_by_ids :: "id list \<Rightarrow> group_db \<Rightarrow> (id \<times> id list) list" where
  "get_group_user_ids_by_ids group_ids db =
     foldl (\<lambda>d m. AList.update (gm_group_id m)
              ((case map_of d (gm_group_id m) of None \<Rightarrow> [] | Some us \<Rightarrow> us) @ [gm_user_id m]) d)
       (foldl (\<lambda>d g. AList.update g [] d) [] group_ids)
       (all_rows (\<lambda>m. gm_group_id m \<in> set group_ids) (group_members db))"

definition get_group_member_count_by_id :: "id \<Rightarrow> group_db \<Rightarrow> nat" where
  "get_group_member_count_by_id gid db = length (all_rows (\<lambda>m. gm_group_id m = gid) (group_members db))"

definition to_response :: "group \<Rightarrow> nat \<Rightarrow> group_response" where
  "to_response g n = group.extend g \<lparr>member_count = Some n\<rparr>"

text \<open>The filter of \<open>get_groups\<close> and \<open>search_groups\<close>. \<open>esc\<close> is the dialect's escape character.\<close>

record group_filter =
  flt_query :: "string option"
  flt_member_id :: "id option"
  flt_share :: "bool option"

definition json_share :: "group \<Rightarrow> bool option" where
  "json_share g =
     (case grp_data g of None \<Rightarrow> None
      | Some d \<Rightarrow> (case dget d ''config'' of
          Some (JDict c) \<Rightarrow> (case dget c ''share'' of Some (JBool b) \<Rightarrow> Some b | _ \<Rightarrow> None)
        | _ \<Rightarrow> None))"

definition share_matches :: "bool \<Rightarrow> group \<Rightarrow> bool" where
  "share_matches share_value g =
     (if share_value
      then grp_data g = None \<or> json_share g = None \<or> json_share g = Some True
      else grp_data g \<noteq> None \<and> json_share g = Some False)"

definition get_groups :: "char option \<Rightarrow> group_filter \<Rightarrow> group_db \<Rightarrow> group_response list" where
  "get_groups esc flt db =
     (let q1 = (case flt_query flt of None \<Rightarrow> groups db
                | Some q \<Rightarrow> all_rows (\<lambda>g. ilike esc (grp_name g) (''%'' @ q @ ''%'')) (groups db));
          q2 = (case flt_member_id flt of None \<Rightarrow> q1
                | Some u \<Rightarrow> all_rows (\<lambda>g. is_member db (grp_id g) u) q1);
          q3 = (case flt_share flt of None \<Rightarrow> q2 | Some b \<Rightarrow> all_rows (share_matches b) q2)
      in map (\<lambda>g. to_response g (get_group_member_count_by_id (grp_id g) db))
           (order_desc grp_updated_at q3))"

text \<open>
  \<open>search_groups\<close> reads \<open>data ->> 'share'\<close>, compares it with the text of the Python value, and
  passes the fields of a row to \<open>model_validate\<close> as keyword arguments, which that method does
  not take: any row of the page raises.
\<close>

definition data_share_text :: "group \<Rightarrow> string option" where
  "data_share_text g =
     (case grp_data g of None \<Rightarrow> None
      | Some d \<Rightarrow> (case dget d ''share'' of
          Some (JStr s) \<Rightarrow> Some s
        | Some (JBool b) \<Rightarrow> Some (if b then ''true'' else ''false'')
        | Some (JInt i) \<Rightarrow> Some (int_str i)
        | _ \<Rightarrow> None))"

definition search_groups ::
  "char option \<Rightarrow> group_filter \<Rightarrow> nat \<Rightarrow> nat \<Rightarrow> group_db \<Rightarrow> py_error + group_response list \<times> nat" where
  "search_groups esc flt skip limit db =
     (let q1 = (case flt_query flt of None \<Rightarrow> groups db
                | Some q \<Rightarrow> all_rows (\<lambda>g. ilike esc (grp_name g) (''%'' @ q @ ''%'')) (groups db));
          q2 = (case flt_member_id flt of None \<Rightarrow> q1
                | Some u \<Rightarrow> all_rows (\<lambda>g. is_member db (grp_id g) u) q1);
          q3 = (case flt_share flt of None \<Rightarrow> q2
                | Some b \<Rightarrow> all_rows (\<lambda>g. data_share_text g = Some (if b then ''True'' else ''False'')) q2);
          total = length q3;
          rows = page skip limit (order_desc grp_updated_at q3)
      in if rows = [] then Inr ([], total) else Inl TypeError)"

section \<open>Updates\<close>

definition insert_new_group ::
  "id \<Rightarrow> time \<Rightarrow> time \<Rightarrow> id \<Rightarrow> group_form \<Rightarrow> group_db \<Rightarrow> group option \<times> group_db" where
  "insert_new_group uid t1 t2 user_id form db =
     (let g = \<lparr>grp_id = uid, grp_user_id = user_id, grp_name = gf_name form,
               grp_description = gf_description form, grp_data = gf_data form, grp_meta = None,
               grp_permissions = gf_permissions form, grp_created_at = t1, grp_updated_at = t2\<rparr>
      in case add_row grp_id g (groups db) of
           None \<Rightarrow> (None, db)
         | Some gs \<Rightarrow> (Some g, db\<lparr>groups := gs\<rparr>))"

fun add_members :: "foreign_keys \<Rightarrow> id \<Rightarrow> time \<Rightarrow> (id \<times> id) list \<Rightarrow> group_db \<Rightarrow> group_db option" where
  "add_members fk gid now [] db = Some db"
| "add_members fk gid now ((uid, user_id) # us) db =
     (case add_member fk (new_member uid gid user_id now) db of
        None \<Rightarrow> None
      | Some db' \<Rightarrow> add_members fk gid now us db')"

text \<open>\<open>users\<close> pairs each user id of the call with the UUID drawn for its row.\<close>

definition set_group_user_ids_by_id ::
  "foreign_keys \<Rightarrow> time \<Rightarrow> id \<Rightarrow> (id \<times> id) list \<Rightarrow> group_db \<Rightarrow> (py_error + unit) \<times> group_db" where
  "set_group_user_ids_by_id fk now gid users db =
     (let db1 = db\<lparr>group_members := del_rows (\<lambda>m. gm_group_id m = gid) (group_members db)\<rparr>
      in case add_members fk gid now users db1 of
           None \<Rightarrow> (Inl IntegrityError, db)
         | Some db2 \<Rightarrow> (Inr (), db2))"

definition update_group_by_id :: "time \<Rightarrow> id \<Rightarrow> group_form \<Rightarrow> group_db \<Rightarrow> group option \<times> group_db" where
  "update_group_by_id now gid form db =
     (let upd = (\<lambda>g. g\<lparr>grp_name := gf_name form, grp_description := gf_description form,
            grp_permissions := (case gf_permissions form of None \<Rightarrow> grp_permissions g | p \<Rightarrow> p),
            grp_data := (case gf_data form of None \<Rightarrow> grp_data g | d \<Rightarrow> d),
            grp_updated_at := now\<rparr>);
          db' = db\<lparr>groups := upd_rows (\<lambda>g. grp_id g = gid) upd (groups db)\<rparr>
      in (get_group_by_id gid db', db'))"

definition cascade :: "foreign_keys \<Rightarrow> (id \<Rightarrow> bool) \<Rightarrow> group_member list \<Rightarrow> group_member list" where
  "cascade fk gone ms = (case fk of None \<Rightarrow> ms | Some _ \<Rightarrow> del_rows (\<lambda>m. gone (gm_group_id m)) ms)"

definition delete_group_by_id :: "foreign_keys \<Rightarrow> id \<Rightarrow> group_db \<Rightarrow> bool \<times> group_db" where
  "delete_group_by_id fk gid db =
     (True, db\<lparr>groups := row_del grp_id gid (groups db),
               group_members := cascade fk (\<lambda>g. g = gid) (group_members db)\<rparr>)"

definition delete_all_groups :: "foreign_keys \<Rightarrow> group_db \<Rightarrow> bool \<times> group_db" where
  "delete_all_groups fk db =
     (True, db\<lparr>groups := [], group_members := cascade fk (\<lambda>g. has_group g db) (group_members db)\<rparr>)"

definition touch :: "(id \<Rightarrow> bool) \<Rightarrow> time \<Rightarrow> group list \<Rightarrow> group list" where
  "touch p now gs = upd_rows (\<lambda>g. p (grp_id g)) (\<lambda>g. g\<lparr>grp_updated_at := now\<rparr>) gs"

text \<open>The clock is read once per group; \<open>now\<close> gives the reading for each.\<close>

definition remove_user_from_all_groups :: "(id \<Rightarrow> time) \<Rightarrow> id \<Rightarrow> group_db \<Rightarrow> bool \<times> group_db" where
  "remove_user_from_all_groups now user_id db =
     (let gids = map grp_id (all_rows (\<lambda>g. is_member db (grp_id g) user_id) (groups db))
      in (True, foldl (\<lambda>db gid.
            db\<lparr>group_members := del_rows (\<lambda>m. gm_group_id m = gid \<and> gm_user_id m = user_id) (group_members db),
               groups := touch (\<lambda>g. g = gid) (now gid) (groups db)\<rparr>) db gids))"

fun create_named_groups ::
  "id \<Rightarrow> string set \<Rightarrow> (id \<times> time \<times> time \<times> string) list \<Rightarrow> group_db \<Rightarrow> group list \<times> group_db" where
  "create_named_groups user_id existing [] db = ([], db)"
| "create_named_groups user_id existing ((uid, t1, t2, name) # ns) db =
     (if name \<in> existing then create_named_groups user_id existing ns db
      else let form = \<lparr>gf_name = name, gf_description = [], gf_permissions = None, gf_data = None\<rparr>;
               (g, db1) = insert_new_group uid t1 t2 user_id form db;
               (gs, db2) = create_named_groups user_id existing ns db1
           in ((case g of None \<Rightarrow> gs | Some g \<Rightarrow> g # gs), db2))"

definition create_groups_by_group_names ::
  "id \<Rightarrow> (id \<times> time \<times> time \<times> string) list \<Rightarrow> group_db \<Rightarrow> group list \<times> group_db" where
  "create_groups_by_group_names user_id names db =
     create_named_groups user_id (grp_name ` set (get_all_groups db)) names db"

text \<open>
  \<open>sync_groups_by_group_names\<close>: the differences of two sets of group ids are removed and
  added; \<open>uid\<close> is the UUID drawn for the membership of each added group. Rows are added in
  the order of the table.
\<close>

definition sync_groups_by_group_names ::
  "foreign_keys \<Rightarrow> (id \<Rightarrow> id) \<Rightarrow> time \<Rightarrow> id \<Rightarrow> string list \<Rightarrow> group_db \<Rightarrow> bool \<times> group_db" where
  "sync_groups_by_group_names fk uid now user_id group_names db =
     (let target = map grp_id (all_rows (\<lambda>g. grp_name g \<in> set group_names) (groups db));
          existing = map grp_id (all_rows (\<lambda>g. is_member db (grp_id g) user_id) (groups db));
          to_add = filter (\<lambda>g. g \<notin> set existing) target;
          to_remove = filter (\<lambda>g. g \<notin> set target) existing;
          db1 = db\<lparr>group_members := del_rows (\<lambda>m. gm_user_id m = user_id \<and> gm_group_id m \<in> set to_remove)
                    (group_members db),
                   groups := touch (\<lambda>g. g \<in> set to_remove) now (groups db)\<rparr>
      in case foldl (\<lambda>r gid. case r of None \<Rightarrow> None
                  | Some d \<Rightarrow> add_member fk (new_member (uid gid) gid user_id now) d) (Some db1) to_add of
           None \<Rightarrow> (False, db)
         | Some db2 \<Rightarrow> (True, db2\<lparr>groups := touch (\<lambda>g. g \<in> set to_add) now (groups db2)\<rparr>))"

text \<open>
  \<open>add_users_to_group\<close> flushes each row; a row that violates a constraint rolls the whole
  transaction back, with the rows flushed before it, and the loop goes on in a new one.
  \<open>start\<close> is the last committed state.
\<close>

fun add_users_loop ::
  "foreign_keys \<Rightarrow> id \<Rightarrow> time \<Rightarrow> group_db \<Rightarrow> (id \<times> id) list \<Rightarrow> group_db \<Rightarrow> group_db" where
  "add_users_loop fk gid now start [] db = db"
| "add_users_loop fk gid now start ((uid, user_id) # us) db =
     (case add_member fk (new_member uid gid user_id now) db of
        None \<Rightarrow> add_users_loop fk gid now start us start
      | Some db' \<Rightarrow> add_users_loop fk gid now start us db')"

definition add_users_to_group ::
  "foreign_keys \<Rightarrow> time \<Rightarrow> id \<Rightarrow> (id \<times> id) list option \<Rightarrow> group_db \<Rightarrow> group option \<times> group_db" where
  "add_users_to_group fk now gid users db =
     (case get_group_by_id gid db of
        None \<Rightarrow> (None, db)
      | Some g \<Rightarrow>
          (let db1 = add_users_loop fk gid now db (case users of None \<Rightarrow> [] | Some us \<Rightarrow> us) db;
               db2 = db1\<lparr>groups := touch (\<lambda>g. g = gid) now (groups db1)\<rparr>
           in (get_group_by_id gid db2, db2)))"

definition remove_users_from_group ::
  "time \<Rightarrow> id \<Rightarrow> id list option \<Rightarrow> group_db \<Rightarrow> group option \<times> group_db" where
  "remove_users_from_group now gid user_ids db =
     (case get_group_by_id gid db of
        None \<Rightarrow> (None, db)
      | Some g \<Rightarrow>
          (case user_ids of
             None \<Rightarrow> (Some g, db)
           | Some us \<Rightarrow>
               if us = [] then (Some g, db)
               else let db' = db\<lparr>group_members :=
                       del_rows (\<lambda>m. gm_group_id m = gid \<and> gm_user_id m \<in> set us) (group_members db),
                     groups := touch (\<lambda>g. g = gid) now (groups db)\<rparr>
                 in (get_group_by_id gid db', db')))"

text \<open>\<^verbatim>\<open>utils/groups.py\<close>: a new user joins the default group, if one is configured.\<close>

definition apply_default_group_assignment ::
  "foreign_keys \<Rightarrow> time \<Rightarrow> id \<Rightarrow> id \<Rightarrow> id \<Rightarrow> group_db \<Rightarrow> group_db" where
  "apply_default_group_assignment fk now uid default_group_id user_id db =
     (if default_group_id = [] then db
      else snd (add_users_to_group fk now default_group_id (Some [(uid, user_id)]) db))"

section \<open>Constraints are kept\<close>

lemmas group_op_defs =
  insert_new_group_def set_group_user_ids_by_id_def update_group_by_id_def delete_group_by_id_def
  delete_all_groups_def remove_user_from_all_groups_def create_groups_by_group_names_def
  sync_groups_by_group_names_def add_users_to_group_def remove_users_from_group_def

text \<open>The invariant of both tables, with the foreign key where it is enforced.\<close>

definition groups_inv :: "foreign_keys \<Rightarrow> group_db \<Rightarrow> bool" where
  "groups_inv fk db \<longleftrightarrow> groups_ok db \<and> (fk \<noteq> None \<longrightarrow> no_orphans db)"

lemma grp_id_touch [simp]: "map grp_id (touch p now gs) = map grp_id gs"
  by (simp add: touch_def map_key_upd_rows)

lemma set_grp_id_touch [simp]: "grp_id ` set (touch p now gs) = grp_id ` set gs"
  by (metis grp_id_touch image_set)

lemma groups_inv_frame:
  assumes "groups_inv fk db" "map grp_id (groups db') = map grp_id (groups db)"
    and "\<exists>p. group_members db' = del_rows p (group_members db)"
  shows "groups_inv fk db'"
proof -
  obtain p where p: "group_members db' = del_rows p (group_members db)" using assms(3) by blast
  have "grp_id ` set (groups db') = grp_id ` set (groups db)" using assms(2) by (metis image_set)
  then show ?thesis
    using assms(1,2) p
    by (auto simp: groups_inv_def groups_ok_def no_orphans_def has_group_def list_all_iff unique_key_def
        del_rows_def intro: distinct_map_filter)
qed

lemma del_none: "\<exists>p. ms = del_rows p ms"
  by (rule exI[of _ "\<lambda>_. False"]) (simp add: del_rows_def)

lemma add_member_inv: "add_member fk m db = Some db' \<Longrightarrow> groups_inv fk db \<Longrightarrow> groups_inv fk db'"
  by (auto simp: add_member_def groups_inv_def groups_ok_def no_orphans_def has_group_def unique_key_append
      split: if_splits option.splits)

lemma add_member_SomeD:
  "add_member fk m db = Some db' \<Longrightarrow>
     db' = db\<lparr>group_members := group_members db @ [m]\<rparr> \<and> member_key m \<notin> member_key ` set (group_members db)"
  by (auto simp: add_member_def split: if_splits option.splits)

lemma add_members_inv: "add_members fk gid now us db = Some db' \<Longrightarrow> groups_inv fk db \<Longrightarrow> groups_inv fk db'"
  by (induction fk gid now us db rule: add_members.induct) (auto dest: add_member_inv split: option.splits)

lemma add_users_loop_inv:
  "groups_inv fk start \<Longrightarrow> groups_inv fk db \<Longrightarrow> groups_inv fk (add_users_loop fk gid now start us db)"
  by (induction fk gid now start us db rule: add_users_loop.induct) (auto dest: add_member_inv split: option.splits)

lemma touch_inv [simp]: "groups_inv fk (db\<lparr>groups := touch p now (groups db)\<rparr>) = groups_inv fk db"
  by (auto simp: groups_inv_def groups_ok_def no_orphans_def has_group_def unique_key_def)

lemma drop_members_inv:
  "groups_inv fk db \<Longrightarrow>
     groups_inv fk (db\<lparr>group_members := del_rows p (group_members db), groups := touch q now (groups db)\<rparr>)"
  by (rule groups_inv_frame) auto

lemma insert_new_group_inv: "groups_inv fk db \<Longrightarrow> groups_inv fk (snd (insert_new_group uid t1 t2 u form db))"
  by (auto simp: insert_new_group_def Let_def groups_inv_def groups_ok_def no_orphans_def has_group_def
      add_row_Some_iff unique_key_append list_all_iff split: option.splits)

lemma create_named_groups_inv:
  "groups_inv fk db \<Longrightarrow> groups_inv fk (snd (create_named_groups u ex ns db))"
proof (induction u ex ns db rule: create_named_groups.induct)
  case (2 u ex uid t1 t2 name ns db)
  let ?form = "\<lparr>gf_name = name, gf_description = [], gf_permissions = None, gf_data = None\<rparr>"
  obtain g db1 where i: "insert_new_group uid t1 t2 u ?form db = (g, db1)" by (cases "insert_new_group uid t1 t2 u ?form db")
  have "groups_inv fk db1" using insert_new_group_inv[OF "2.prems", of uid t1 t2 u ?form] i by simp
  then show ?case using "2.IH"(1)[OF _ "2.prems"] "2.IH"(2)[OF _ refl i[symmetric] refl] i
    by (auto simp: Let_def split: prod.splits)
qed simp

lemma fold_add_inv:
  assumes "foldl (\<lambda>r gid. case r of None \<Rightarrow> None | Some d \<Rightarrow> add_member fk (f gid) d) (Some db) gids = Some db'"
    and "groups_inv fk db"
  shows "groups_inv fk db'"
  using assms
proof (induction gids arbitrary: db)
  case (Cons g gids)
  have n: "foldl (\<lambda>r gid. case r of None \<Rightarrow> None | Some d \<Rightarrow> add_member fk (f gid) d) None xs = None" for xs
    by (induction xs) auto
  obtain d where "add_member fk (f g) db = Some d" using Cons.prems(1) n by (cases "add_member fk (f g) db") auto
  then show ?case using Cons add_member_inv by simp
qed simp

section \<open>Runs of operations\<close>

datatype group_op =
    InsertGroup id time time id group_form
  | SetUsers time id "(id \<times> id) list"
  | UpdateGroup time id group_form
  | DeleteGroup id
  | DeleteAll
  | RemoveUserEverywhere "id \<Rightarrow> time" id
  | CreateNamed id "(id \<times> time \<times> time \<times> string) list"
  | SyncNames "id \<Rightarrow> id" time id "string list"
  | AddUsers time id "(id \<times> id) list option"
  | RemoveUsers time id "id list option"

fun group_step :: "foreign_keys \<Rightarrow> group_op \<Rightarrow> group_db \<Rightarrow> group_db" where
  "group_step fk (InsertGroup uid t1 t2 u form) db = snd (insert_new_group uid t1 t2 u form db)"
| "group_step fk (SetUsers now gid us) db = snd (set_group_user_ids_by_id fk now gid us db)"
| "group_step fk (UpdateGroup now gid form) db = snd (update_group_by_id now gid form db)"
| "group_step fk (DeleteGroup gid) db = snd (delete_group_by_id fk gid db)"
| "group_step fk DeleteAll db = snd (delete_all_groups fk db)"
| "group_step fk (RemoveUserEverywhere now u) db = snd (remove_user_from_all_groups now u db)"
| "group_step fk (CreateNamed u ns) db = snd (create_groups_by_group_names u ns db)"
| "group_step fk (SyncNames uid now u ns) db = snd (sync_groups_by_group_names fk uid now u ns db)"
| "group_step fk (AddUsers now gid us) db = snd (add_users_to_group fk now gid us db)"
| "group_step fk (RemoveUsers now gid us) db = snd (remove_users_from_group now gid us db)"

lemma remove_user_inv: "groups_inv fk db \<Longrightarrow> groups_inv fk (snd (remove_user_from_all_groups now u db))"
proof -
  have "groups_inv fk db \<Longrightarrow> groups_inv fk (foldl (\<lambda>db gid.
            db\<lparr>group_members := del_rows (\<lambda>m. gm_group_id m = gid \<and> gm_user_id m = u) (group_members db),
               groups := touch (\<lambda>g. g = gid) (now gid) (groups db)\<rparr>) db gids)" for gids
    by (induction gids arbitrary: db) (auto intro: drop_members_inv)
  then show "groups_inv fk db \<Longrightarrow> ?thesis" by (simp add: remove_user_from_all_groups_def)
qed

lemma delete_group_inv: "groups_inv fk db \<Longrightarrow> groups_inv fk (snd (delete_group_by_id fk gid db))"
  by (cases fk)
     (auto simp: delete_group_by_id_def cascade_def groups_inv_def groups_ok_def no_orphans_def has_group_def
       row_del_def list_all_iff)

lemma delete_all_inv: "groups_inv fk db \<Longrightarrow> groups_inv fk (snd (delete_all_groups fk db))"
  by (cases fk)
     (auto simp: delete_all_groups_def cascade_def groups_inv_def groups_ok_def no_orphans_def has_group_def
       list_all_iff)

lemma set_users_inv:
  assumes "groups_inv fk db"
  shows "groups_inv fk (snd (set_group_user_ids_by_id fk now gid us db))"
proof -
  let ?db1 = "db\<lparr>group_members := del_rows (\<lambda>m. gm_group_id m = gid) (group_members db)\<rparr>"
  have "groups_inv fk ?db1"
    using assms by (rule groups_inv_frame) auto
  then show ?thesis
    using assms add_members_inv[of fk gid now us ?db1]
    by (cases "add_members fk gid now us ?db1") (simp_all add: set_group_user_ids_by_id_def Let_def)
qed

lemma update_group_inv: "groups_inv fk db \<Longrightarrow> groups_inv fk (snd (update_group_by_id now gid form db))"
  unfolding update_group_by_id_def Let_def snd_conv
  by (rule groups_inv_frame) (auto simp: map_key_upd_rows intro: del_none)

lemma sync_inv: "groups_inv fk db \<Longrightarrow> groups_inv fk (snd (sync_groups_by_group_names fk uid now u ns db))"
  unfolding sync_groups_by_group_names_def Let_def
  by (auto split: option.splits intro: fold_add_inv drop_members_inv)

lemma group_step_inv: "groups_inv fk db \<Longrightarrow> groups_inv fk (group_step fk x db)"
proof (cases x)
  case (AddUsers now gid us)
  assume "groups_inv fk db"
  then show ?thesis using AddUsers
    by (auto simp: add_users_to_group_def Let_def add_users_loop_inv split: option.splits)
next
  case (RemoveUsers now gid us)
  assume "groups_inv fk db"
  then show ?thesis using RemoveUsers
    by (auto simp: remove_users_from_group_def Let_def drop_members_inv split: option.splits)
qed (auto simp: insert_new_group_inv set_users_inv update_group_inv delete_group_inv delete_all_inv
    remove_user_inv create_named_groups_inv create_groups_by_group_names_def sync_inv)

text \<open>
  Every sequence of group operations keeps the constraints of the two tables: group ids
  and membership ids are unique, no user is twice a member of a group, and where foreign keys
  are enforced every membership belongs to an existing group.
\<close>
lemma group_ops_keep_constraints:
  assumes "groups_inv fk db"
  shows "groups_inv fk (fold (group_step fk) xs db)"
  using assms by (induction xs arbitrary: db) (auto simp: group_step_inv)

definition staff :: group where
  "staff = \<lparr>grp_id = ''g1'', grp_user_id = ''adm'', grp_name = ''staff'', grp_description = [], grp_data = None,
     grp_meta = None, grp_permissions = Some [(''chat'', JDict [(''delete'', JBool True)])],
     grp_created_at = 1, grp_updated_at = 1\<rparr>"

definition law :: group where
  "law = \<lparr>grp_id = ''g2'', grp_user_id = ''adm'', grp_name = ''law'', grp_description = [], grp_data = None,
     grp_meta = None, grp_permissions = None, grp_created_at = 2, grp_updated_at = 2\<rparr>"

definition sample_groups :: group_db where
  "sample_groups = \<lparr>groups = [staff, law], group_members = [new_member ''m1'' ''g1'' ''kim'' 3]\<rparr>"

lemmas sample_group_defs = sample_groups_def staff_def law_def new_member_def

lemma sample_groups_inv: "groups_inv (Some (\<lambda>u. True)) sample_groups"
  by (simp add: sample_group_defs groups_inv_def groups_ok_def no_orphans_def has_group_def member_key_def)

lemma group_ops_keep_constraints_witness:
  "groups_inv (Some (\<lambda>u. True)) (fold (group_step (Some (\<lambda>u. True)))
     [AddUsers 5 ''g2'' (Some [(''m2'', ''lee''), (''m3'', ''kim'')]), DeleteGroup ''g1''] sample_groups)"
  by (rule group_ops_keep_constraints[OF sample_groups_inv])

section \<open>Membership after an operation\<close>

lemma is_member_iff: "is_member db gid u \<longleftrightarrow> (gid, u) \<in> member_key ` set (group_members db)"
  by (auto simp: is_member_def list_ex_iff member_key_def image_iff)

lemma is_member_groups [simp]: "is_member (db\<lparr>groups := gs\<rparr>) = is_member db"
  by (simp add: is_member_def fun_eq_iff)

lemma is_member_add:
  "add_member fk m db = Some db' \<Longrightarrow>
     is_member db' gid u \<longleftrightarrow> is_member db gid u \<or> (gid = gm_group_id m \<and> u = gm_user_id m)"
  by (drule add_member_SomeD) (auto simp: is_member_def)

lemma fold_add_members:
  assumes "foldl (\<lambda>r gid. case r of None \<Rightarrow> None
      | Some d \<Rightarrow> add_member fk (new_member (uid gid) gid u now) d) (Some db) gids = Some db'"
  shows "is_member db' g v \<longleftrightarrow> is_member db g v \<or> (v = u \<and> g \<in> set gids)"
  using assms
proof (induction gids arbitrary: db)
  case (Cons x gids)
  have n: "foldl (\<lambda>r gid. case r of None \<Rightarrow> None
      | Some d \<Rightarrow> add_member fk (new_member (uid gid) gid u now) d) None xs = None" for xs
    by (induction xs) auto
  obtain d where d: "add_member fk (new_member (uid x) x u now) db = Some d"
    using Cons.prems n by (cases "add_member fk (new_member (uid x) x u now) db") auto
  then show ?case using Cons.IH[of d] Cons.prems is_member_add[OF d, of g v]
    by (auto simp: new_member_def)
qed simp

text \<open>
  a successful synchronisation makes the user a member of exactly the existing groups
  whose names are listed, and changes no membership of another user.
\<close>
lemma sync_groups_exact:
  assumes "sync_groups_by_group_names fk uid now u names db = (True, db')"
    and "has_group gid db" "unique_key grp_id (groups db)"
  shows "(is_member db' gid u \<longleftrightarrow> (\<exists>g. get_group_by_id gid db = Some g \<and> grp_name g \<in> set names)) \<and>
    (\<forall>v. v = u \<or> (is_member db' gid v \<longleftrightarrow> is_member db gid v))"
proof -
  define target where "target = map grp_id (all_rows (\<lambda>g. grp_name g \<in> set names) (groups db))"
  define existing where "existing = map grp_id (all_rows (\<lambda>g. is_member db (grp_id g) u) (groups db))"
  define rem where "rem = filter (\<lambda>g. g \<notin> set target) existing"
  define db1 where "db1 = db\<lparr>group_members := del_rows (\<lambda>m. gm_user_id m = u \<and> gm_group_id m \<in> set rem)
      (group_members db), groups := touch (\<lambda>g. g \<in> set rem) now (groups db)\<rparr>"
  obtain db2 where f: "foldl (\<lambda>r gid. case r of None \<Rightarrow> None
        | Some d \<Rightarrow> add_member fk (new_member (uid gid) gid u now) d) (Some db1)
        (filter (\<lambda>g. g \<notin> set existing) target) = Some db2"
      "group_members db' = group_members db2"
    using assms(1) unfolding sync_groups_by_group_names_def Let_def target_def existing_def rem_def db1_def
    by (auto split: option.splits)
  have t: "gid \<in> set target \<longleftrightarrow> (\<exists>g. get_group_by_id gid db = Some g \<and> grp_name g \<in> set names)"
    using assms(3) by (auto simp: target_def get_group_by_id_def row_get_def first_row_key_iff)
  have e: "gid \<in> set existing \<longleftrightarrow> is_member db gid u"
    using assms(2) by (auto simp: existing_def has_group_def)
  have m: "is_member db' gid v \<longleftrightarrow> is_member db2 gid v" for v
    using f(2) by (simp add: is_member_def)
  have d: "is_member db1 gid v \<longleftrightarrow> is_member db gid v \<and> \<not> (v = u \<and> gid \<in> set rem)" for v
    by (auto simp: db1_def is_member_def list_ex_iff)
  show ?thesis
    using fold_add_members[OF f(1), of gid] t e by (auto simp: m d rem_def)
qed

lemma sync_groups_exact_witness:
  "let db' = snd (sync_groups_by_group_names None (\<lambda>g. ''m9'') 9 ''kim'' [''law''] sample_groups) in
   (is_member db' ''g1'' ''kim'' \<longleftrightarrow>
      (\<exists>g. get_group_by_id ''g1'' sample_groups = Some g \<and> grp_name g \<in> set [''law''])) \<and>
   (\<forall>v. v = ''kim'' \<or> (is_member db' ''g1'' v \<longleftrightarrow> is_member sample_groups ''g1'' v))"
  unfolding Let_def
  by (rule sync_groups_exact[of None "\<lambda>g. ''m9''" 9])
     (simp_all add: sync_groups_by_group_names_def Let_def is_member_def add_member_def member_key_def
        has_group_def touch_def sample_group_defs)

lemma add_users_loop_append:
  "add_users_loop fk gid now start (us @ vs) db =
     add_users_loop fk gid now start vs (add_users_loop fk gid now start us db)"
  by (induction fk gid now start us db rule: add_users_loop.induct) (auto split: option.splits)

lemma add_users_loop_keeps:
  "set (group_members start) \<subseteq> set (group_members db) \<Longrightarrow>
     set (group_members start) \<subseteq> set (group_members (add_users_loop fk gid now start us db))"
proof (induction fk gid now start us db rule: add_users_loop.induct)
  case (2 fk gid now start uid u us db)
  show ?case
  proof (cases "add_member fk (new_member uid gid u now) db")
    case None
    then show ?thesis using "2.IH"(1) by simp
  next
    case (Some d)
    then have "set (group_members start) \<subseteq> set (group_members d)"
      using "2.prems" add_member_SomeD[OF Some] by auto
    then show ?thesis using "2.IH"(2)[OF Some] Some by simp
  qed
qed simp

text \<open>
  adding users rolls back what it has inserted so far when it meets one who is already a
  member: if the last listed user is one, none of the users before it is added.
\<close>
lemma add_users_duplicate_discards_earlier:
  assumes "is_member db gid u"
  shows "group_members (snd (add_users_to_group fk now gid (Some (us @ [(uid, u)])) db)) = group_members db"
proof -
  have "add_member fk (new_member uid gid u now) (add_users_loop fk gid now db us db) = None"
  proof -
    have "member_key ` set (group_members db) \<subseteq> member_key ` set (group_members (add_users_loop fk gid now db us db))"
      by (intro image_mono add_users_loop_keeps) simp
    then show ?thesis using assms
      by (auto simp: add_member_def is_member_iff member_key_def new_member_def)
  qed
  then show ?thesis
    by (simp add: add_users_to_group_def Let_def add_users_loop_append split: option.splits)
qed

lemma add_users_duplicate_discards_earlier_witness:
  "group_members (snd (add_users_to_group None 5 ''g1'' (Some ([(''m2'', ''lee'')] @ [(''m3'', ''kim'')])) sample_groups))
     = group_members sample_groups"
  by (rule add_users_duplicate_discards_earlier) (simp add: is_member_def sample_group_defs)

text \<open>
  \<open>search_groups\<close> never returns a group: whenever the page holds a row the call that builds
  the response raises.
\<close>
lemma search_groups_returns_no_group:
  "search_groups esc flt skip lim db \<noteq> Inr (g # gs, n)"
  by (simp add: search_groups_def Let_def)

text \<open>
  the names that exist are collected once, so a name listed twice creates two groups.
\<close>
lemma create_groups_repeated_name:
  "map grp_name (fst (create_groups_by_group_names ''adm''
     [(''x1'', 1, 1, ''tax''), (''x2'', 1, 1, ''tax'')] sample_groups)) = [''tax'', ''tax'']"
  by (simp add: create_groups_by_group_names_def get_all_groups_def insert_new_group_def add_row_def
      sample_group_defs Let_def)

end
