(* ===== verification/Access_Control.thy ===== *)
theory Access_Control
  imports User_Groups
begin

text \<open>
  \<^verbatim>\<open>utils/access_control.py\<close>: permission trees of groups and of the configuration, and
  the access lists of resources. Both are JSON; what raises on an odd shape is an error
  here. The groups of a user come through the interface \<open>group_directory\<close>, which the
  tables of \<open>User_Groups\<close> satisfy.
\<close>

section \<open>Permission trees\<close>

fun fill_missing_permissions :: "dict \<Rightarrow> dict \<Rightarrow> dict" where
  "fill_missing_permissions permissions [] = permissions"
| "fill_missing_permissions permissions ((key, v) # defaults) =
     (case dget permissions key of
        None \<Rightarrow> fill_missing_permissions (dset key v permissions) defaults
      | Some p \<Rightarrow>
          (case (v, p) of
             (JDict w, JDict q) \<Rightarrow>
               fill_missing_permissions (dset key (JDict (fill_missing_permissions q w)) permissions) defaults
           | _ \<Rightarrow> fill_missing_permissions permissions defaults))"

text \<open>Combining into a value that is no dictionary raises as soon as there is a key to combine.\<close>

function (sequential) combine_permissions :: "json \<Rightarrow> dict \<Rightarrow> py_error + json" where
  "combine_permissions p [] = Inr p"
| "combine_permissions (JDict p) ((key, JDict v) # g) =
     (case combine_permissions (dget_or p key (JDict [])) v of
        Inl e \<Rightarrow> Inl e
      | Inr x \<Rightarrow> combine_permissions (JDict (dset key x p)) g)"
| "combine_permissions (JDict p) ((key, v) # g) =
     combine_permissions (JDict (dset key
       (case dget p key of None \<Rightarrow> v | Some w \<Rightarrow> if truthy w then w else v) p)) g"
| "combine_permissions _ (_ # g) = Inl TypeError"
  by pat_completeness auto
termination
  by (relation "measure (\<lambda>(p, g). size (JDict g))") auto

fun combine_groups :: "json \<Rightarrow> dict list \<Rightarrow> py_error + json" where
  "combine_groups p [] = Inr p"
| "combine_groups p (g # gs) =
     (case combine_permissions p g of Inl e \<Rightarrow> Inl e | Inr x \<Rightarrow> combine_groups x gs)"

definition group_perms :: "group \<Rightarrow> dict" where
  "group_perms g = (case grp_permissions g of None \<Rightarrow> [] | Some p \<Rightarrow> p)"

definition get_permissions :: "id \<Rightarrow> dict \<Rightarrow> group_db \<Rightarrow> py_error + dict" where
  "get_permissions user_id defaults db =
     (case combine_groups (JDict defaults) (map group_perms (get_groups_by_member_id user_id db)) of
        Inl e \<Rightarrow> Inl e
      | Inr (JDict p) \<Rightarrow> Inr (fill_missing_permissions p defaults)
      | Inr _ \<Rightarrow> Inl TypeError)"

text \<open>\<open>x in v\<close> for a text \<open>x\<close>.\<close>

definition py_in :: "string \<Rightarrow> json \<Rightarrow> py_error + bool" where
  "py_in x v = (case v of
     JDict d \<Rightarrow> Inr (dget d x \<noteq> None)
   | JList xs \<Rightarrow> Inr (JStr x \<in> set xs)
   | JStr s \<Rightarrow> Inr (sublist x s)
   | _ \<Rightarrow> Inl TypeError)"

fun get_permission :: "json \<Rightarrow> string list \<Rightarrow> py_error + bool" where
  "get_permission permissions [] = Inr (truthy permissions)"
| "get_permission permissions (key # keys) =
     and_then (py_in key permissions) (\<lambda>present.
       if \<not> present then Inr False
       else case permissions of
         JDict d \<Rightarrow> get_permission (dget_or d key JNull) keys
       | _ \<Rightarrow> Inl TypeError)"

fun any_permission :: "string list \<Rightarrow> dict list \<Rightarrow> py_error + bool" where
  "any_permission keys [] = Inr False"
| "any_permission keys (g # gs) =
     and_then (get_permission (JDict g) keys) (\<lambda>b. if b then Inr True else any_permission keys gs)"

text \<open>
  The configured permissions are filled in place from the built-in defaults, so the call
  also returns them.
\<close>

definition has_permission ::
  "dict \<Rightarrow> id \<Rightarrow> string \<Rightarrow> dict \<Rightarrow> group_db \<Rightarrow> (py_error + bool) \<times> dict" where
  "has_permission builtin user_id permission_key defaults db =
     (let keys = split_on CHR ''.'' permission_key in
      case any_permission keys (map group_perms (get_groups_by_member_id user_id db)) of
        Inl e \<Rightarrow> (Inl e, defaults)
      | Inr True \<Rightarrow> (Inr True, defaults)
      | Inr False \<Rightarrow>
          (let filled = fill_missing_permissions defaults builtin
           in (get_permission (JDict filled) keys, filled)))"

section \<open>Granted paths\<close>

definition granted :: "json \<Rightarrow> string list \<Rightarrow> bool" where
  "granted v keys \<longleftrightarrow> get_permission v keys = Inr True"

lemma granted_Nil [simp]: "granted v [] = truthy v"
  by (simp add: granted_def)

lemma granted_Cons [simp]:
  "granted (JDict d) (k # ks) = (case dget d k of None \<Rightarrow> False | Some v \<Rightarrow> granted v ks)"
  by (auto simp: granted_def py_in_def dget_or_def split: option.splits)

lemma granted_leaf [simp]: "\<not> is_dict v \<Longrightarrow> \<not> granted v (k # ks)"
  by (cases v) (auto simp: granted_def py_in_def)

lemma granted_empty [simp]: "\<not> granted (JDict []) ks"
  by (cases ks) auto

lemma granted_or_leaf:
  "\<not> is_dict v \<Longrightarrow> granted (if truthy w then w else v) ks \<longleftrightarrow> granted w ks \<or> granted v ks"
proof (cases ks)
  case (Cons k ks')
  assume v: "\<not> is_dict v"
  show ?thesis
  proof (cases "truthy w")
    case False
    then have "\<not> granted w (k # ks')" by (cases w) auto
    then show ?thesis using False Cons by simp
  qed (use v Cons in simp)
qed simp

lemma granted_dset:
  "granted (JDict (dset k x p)) (j # ks) = (if j = k then granted x ks else granted (JDict p) (j # ks))"
  by simp

lemma granted_dget_or: "granted (dget_or p k (JDict [])) ks \<longleftrightarrow> granted (JDict p) (k # ks)"
  by (auto simp: dget_or_def split: option.splits)

lemma combine_leaf_step:
  assumes IH: "\<And>ks. granted r ks \<longleftrightarrow> granted (JDict (dset key
       (case dget p key of None \<Rightarrow> v | Some w \<Rightarrow> if truthy w then w else v) p)) ks \<or> granted (JDict g) ks"
    and nd: "\<not> is_dict v" and wf: "wf_json (JDict ((key, v) # g))"
  shows "granted r ks \<longleftrightarrow> granted (JDict p) ks \<or> granted (JDict ((key, v) # g)) ks"
proof (cases ks)
  case Nil
  have "dset key (case dget p key of None \<Rightarrow> v | Some w \<Rightarrow> if truthy w then w else v) p \<noteq> []"
    by (cases p) auto
  then show ?thesis using IH[of "[]"] Nil by simp
next
  case (Cons j js)
  show ?thesis
  proof (cases "j = key")
    case True
    then show ?thesis using IH[of ks] wf Cons granted_or_leaf[OF nd]
      by (auto split: option.splits)
  next
    case False
    then show ?thesis using IH[of ks] wf Cons by (auto split: option.splits)
  qed
qed

text \<open>A successful combination grants exactly what one of the two grants.\<close>

lemma combine_granted:
  "combine_permissions p g = Inr r \<Longrightarrow> wf_json (JDict g) \<Longrightarrow>
     granted r ks \<longleftrightarrow> granted p ks \<or> granted (JDict g) ks"
proof (induction p g arbitrary: r ks rule: combine_permissions.induct)
  case (2 p key v g)
  obtain x where x: "combine_permissions (dget_or p key (JDict [])) v = Inr x"
      "combine_permissions (JDict (dset key x p)) g = Inr r"
    using "2.prems"(1) by (auto split: sum.splits)
  have wf: "wf_json (JDict v)" "wf_json (JDict g)" "dget g key = None" using "2.prems"(2) by auto
  note ih1 = "2.IH"(1)[OF x(1) wf(1)] and ih2 = "2.IH"(2)[OF x(1) x(2) wf(2)]
  show ?case
  proof (cases ks)
    case Nil
    have "dset key x p \<noteq> []" by (cases p) auto
    then show ?thesis using Nil ih2[of "[]"] by simp
  next
    case (Cons j js)
    show ?thesis
    proof (cases "j = key")
      case True
      then show ?thesis using ih2[of ks] ih1[of js] granted_dget_or[of p key js] wf(3) Cons by simp
    next
      case False
      then show ?thesis using ih2[of ks] Cons by (auto split: option.splits)
    qed
  qed
qed ((rule combine_leaf_step; auto; fail) | simp)+

lemma combine_groups_granted:
  "combine_groups p gs = Inr r \<Longrightarrow> (\<And>g. g \<in> set gs \<Longrightarrow> wf_json (JDict g)) \<Longrightarrow>
     granted r ks \<longleftrightarrow> granted p ks \<or> (\<exists>g \<in> set gs. granted (JDict g) ks)"
proof (induction p gs rule: combine_groups.induct)
  case (2 p g gs)
  obtain x where x: "combine_permissions p g = Inr x" "combine_groups x gs = Inr r"
    using "2.prems"(1) by (auto split: sum.splits)
  show ?case
    using "2.IH"[OF x] combine_granted[OF x(1)] "2.prems"(2) by auto
qed simp

section \<open>Filling in defaults\<close>

text \<open>\<open>covers p d\<close>: every path of \<open>d\<close> that \<open>p\<close> does not cut short by a leaf is in \<open>p\<close>.\<close>

fun covers :: "dict \<Rightarrow> dict \<Rightarrow> bool" where
  "covers p [] \<longleftrightarrow> True"
| "covers p ((key, v) # d) \<longleftrightarrow>
     (case dget p key of
        None \<Rightarrow> False
      | Some q \<Rightarrow> (case (v, q) of (JDict w, JDict q') \<Rightarrow> covers q' w | _ \<Rightarrow> True)) \<and> covers p d"

lemma covers_fill: "covers p d \<Longrightarrow> fill_missing_permissions p d = p"
  by (induction p d rule: covers.induct) (auto split: option.splits json.splits simp: update_triv)

definition keeps :: "json \<Rightarrow> json \<Rightarrow> bool" where
  "keeps x y \<longleftrightarrow> (\<forall>b. y = JDict b \<longrightarrow> (\<exists>a. x = JDict a \<and> (\<forall>d. covers a d \<longrightarrow> covers b d)))"

lemma keeps_refl [simp]: "keeps x x"
  by (simp add: keeps_def)

lemma keeps_trans: "keeps x y \<Longrightarrow> keeps y z \<Longrightarrow> keeps x z"
  by (auto simp: keeps_def)

lemma keeps_leaf: "\<not> is_dict y \<Longrightarrow> keeps x y"
  by (auto simp: keeps_def)

lemma covers_dset:
  assumes "dget p key = None \<or> (\<exists>q. dget p key = Some q \<and> keeps q x)"
  shows "covers p d \<Longrightarrow> covers (dset key x p) d"
  using assms
proof (induction d)
  case (Cons e d)
  obtain k v where e: "e = (k, v)" by (cases e)
  show ?case
  proof (cases "k = key")
    case True
    then obtain q where q: "dget p key = Some q" "keeps q x"
      using Cons.prems e by (auto split: option.splits)
    then show ?thesis
      using Cons True e by (auto simp: keeps_def split: json.splits)
  next
    case False
    then show ?thesis using Cons e by (auto split: option.splits)
  qed
qed simp

lemma keeps_dset:
  "dget p key = None \<or> (\<exists>q. dget p key = Some q \<and> keeps q x) \<Longrightarrow> keeps (JDict p) (JDict (dset key x p))"
  by (auto simp: keeps_def intro: covers_dset[unfolded keeps_def])

lemma keeps_leaf_step:
  assumes "\<not> is_dict v"
  shows "keeps (JDict p) (JDict (dset key
       (case dget p key of None \<Rightarrow> v | Some w \<Rightarrow> if truthy w then w else v) p))"
  using assms by (intro keeps_dset) (auto simp: keeps_leaf split: option.splits)

lemma combine_keeps: "combine_permissions p g = Inr r \<Longrightarrow> keeps p r"
proof (induction p g arbitrary: r rule: combine_permissions.induct)
  case (2 p key v g)
  obtain x where x: "combine_permissions (dget_or p key (JDict [])) v = Inr x"
      "combine_permissions (JDict (dset key x p)) g = Inr r"
    using "2.prems"(1) by (auto split: sum.splits)
  have "keeps (JDict p) (JDict (dset key x p))"
    using "2.IH"(1)[OF x(1)] by (intro keeps_dset) (auto simp: dget_or_def split: option.splits)
  then show ?case using "2.IH"(2)[OF x(1) x(2)] keeps_trans by blast
qed ((rule keeps_trans, rule keeps_leaf_step; simp; fail) | simp)+

lemma combine_groups_keeps: "combine_groups p gs = Inr r \<Longrightarrow> keeps p r"
  by (induction p gs rule: combine_groups.induct)
     (auto split: sum.splits dest: combine_keeps intro: keeps_trans)

lemma covers_parts: "wf_json (JDict d) \<Longrightarrow> (\<And>k v. (k, v) \<in> set d \<Longrightarrow> dget p k = Some v) \<Longrightarrow> covers p d"
proof (induction p d rule: covers.induct)
  case (2 p key v d)
  have v: "dget p key = Some v" using "2.prems"(2)[of key v] by simp
  have "covers p d" using "2" by auto
  moreover have "covers w w" if "v = JDict w" for w
    using "2.IH"(1)[OF v refl that that] "2.prems"(1) that by (auto simp: wf_dict_def)
  ultimately show ?case using v by (auto split: json.splits)
qed simp

lemma covers_refl: "wf_json (JDict d) \<Longrightarrow> covers d d"
  by (rule covers_parts) (auto simp: wf_dict_def)


lemma wf_fill_step: "wf_json (JDict p) \<Longrightarrow> wf_json x \<Longrightarrow> wf_json (JDict (dset k x p))"
  using set_dset[of k x p] by (fastforce simp: list_all_iff)

lemma wf_fill: "wf_json (JDict p) \<Longrightarrow> wf_json (JDict d) \<Longrightarrow> wf_json (JDict (fill_missing_permissions p d))"
proof (induction p d rule: fill_missing_permissions.induct)
  case (2 p key v d)
  consider "dget p key = None" | w q' where "dget p key = Some (JDict q')" "v = JDict w"
    | q where "dget p key = Some q" "\<not> (is_dict v \<and> is_dict q)" "fill_missing_permissions p ((key, v) # d) = fill_missing_permissions p d"
    by (cases "dget p key"; cases v; cases "the (dget p key)") auto
  then show ?case
  proof cases
    case 1
    then show ?thesis using "2.IH"(1)[OF 1] wf_fill_step[of p v key] "2.prems" by auto
  next
    case 2
    have "(key, JDict q') \<in> set p" using 2 by (simp add: map_of_SomeD)
    then have q: "wf_json (JDict q')" using "2.prems"(1) by (fastforce simp: list_all_iff)
    have w: "wf_json (JDict w)" "wf_json (JDict d)" using "2.prems"(2) 2 by auto
    have "wf_json (JDict (fill_missing_permissions q' w))" using "2.IH" 2 q w by simp
    then have "wf_json (JDict (dset key (JDict (fill_missing_permissions q' w)) p))"
      using "2.prems" by (intro wf_fill_step) auto
    then show ?thesis using "2.IH" 2 w by simp
  next
    case 3
    then show ?thesis using "2.IH" "2.prems" by (cases v; cases q) auto
  qed
qed simp

section \<open>What a user is permitted\<close>

lemma get_permissions_combined:
  assumes "get_permissions u d db = Inr r" "wf_json (JDict d)"
  shows "combine_groups (JDict d) (map group_perms (get_groups_by_member_id u db)) = Inr (JDict r)"
proof -
  obtain p where c: "combine_groups (JDict d) (map group_perms (get_groups_by_member_id u db)) = Inr (JDict p)"
      and r: "r = fill_missing_permissions p d"
    using assms(1) by (auto simp: get_permissions_def split: sum.splits json.splits)
  have "covers p d"
    using combine_groups_keeps[OF c] covers_refl[OF assms(2)] by (auto simp: keeps_def)
  then show ?thesis using c r covers_fill by simp
qed

definition perms_wf :: "id \<Rightarrow> group_db \<Rightarrow> bool" where
  "perms_wf u db = list_all (\<lambda>g. wf_json (JDict (group_perms g))) (get_groups_by_member_id u db)"

lemma get_permissions_granted:
  assumes "get_permissions u d db = Inr r" "wf_json (JDict d)" "perms_wf u db"
  shows "granted (JDict r) ks \<longleftrightarrow> granted (JDict d) ks \<or>
    (\<exists>g \<in> set (get_groups_by_member_id u db). granted (JDict (group_perms g)) ks)"
  using combine_groups_granted[OF get_permissions_combined[OF assms(1,2)], of ks] assms(3)
  by (auto simp: perms_wf_def list_all_iff)

text \<open>
  C1: The permissions computed for a user are the most permissive combination: a path is
  granted by the result exactly if the defaults or one of the user's groups grant it. No
  group takes away what another, or the configuration, gives.
\<close>

theorem get_permissions_most_permissive:
  assumes "get_permissions u d db = Inr r" "wf_json (JDict d)" "perms_wf u db"
  shows "get_permission (JDict r) ks = Inr True \<longleftrightarrow>
    get_permission (JDict d) ks = Inr True \<or>
    (\<exists>g \<in> set (get_groups_by_member_id u db). get_permission (JDict (group_perms g)) ks = Inr True)"
  using get_permissions_granted[OF assms, of ks] by (simp add: granted_def)

definition chat_defaults :: dict where
  "chat_defaults = [(''chat'', JDict [(''delete'', JBool False), (''edit'', JBool True)])]"

definition kim_permissions :: dict where
  "kim_permissions = [(''chat'', JDict [(''delete'', JBool True), (''edit'', JBool True)])]"

lemmas permission_samples =
  chat_defaults_def kim_permissions_def sample_group_defs get_permissions_def get_groups_by_member_id_def
  order_desc_def is_member_def group_perms_def all_rows_def perms_wf_def wf_dict_def

lemma sample_permissions: "get_permissions ''kim'' chat_defaults sample_groups = Inr kim_permissions"
    "wf_json (JDict chat_defaults)" "perms_wf ''kim'' sample_groups"
  by (simp_all add: permission_samples dget_or_def)

lemma get_permissions_most_permissive_witness:
  "get_permission (JDict kim_permissions) [''chat'', ''delete''] = Inr True \<longleftrightarrow>
    get_permission (JDict chat_defaults) [''chat'', ''delete''] = Inr True \<or>
    (\<exists>g \<in> set (get_groups_by_member_id ''kim'' sample_groups).
       get_permission (JDict (group_perms g)) [''chat'', ''delete''] = Inr True)"
  by (rule get_permissions_most_permissive[OF sample_permissions])

lemma any_permission_Inr:
  "any_permission ks gs = Inr b \<Longrightarrow> b \<longleftrightarrow> (\<exists>g \<in> set gs. granted (JDict g) ks)"
  by (induction gs) (auto simp: and_then_Inr_iff granted_def split: if_splits)

text \<open>
  C5: The single check agrees with the computed tree: when \<open>has_permission\<close> answers, it
  answers what \<open>get_permissions\<close> over the same filled defaults grants at that path.
\<close>

theorem has_permission_agrees:
  assumes "fst (has_permission builtin u key d db) = Inr b"
    and "get_permissions u (fill_missing_permissions d builtin) db = Inr r"
    and "wf_json (JDict d)" "wf_json (JDict builtin)" "perms_wf u db"
  shows "b \<longleftrightarrow> get_permission (JDict r) (split_on CHR ''.'' key) = Inr True"
proof -
  let ?ks = "split_on CHR ''.'' key" and ?gs = "get_groups_by_member_id u db"
  note r = get_permissions_granted[OF assms(2) wf_fill[OF assms(3,4)] assms(5), of ?ks]
  obtain a where a: "any_permission ?ks (map group_perms ?gs) = Inr a"
    using assms(1) by (auto simp: has_permission_def Let_def split: sum.splits bool.splits)
  have "a \<longleftrightarrow> (\<exists>g \<in> set ?gs. granted (JDict (group_perms g)) ?ks)"
    using any_permission_Inr[OF a] by simp
  then show ?thesis
    using assms(1) a r
    by (cases a) (auto simp: has_permission_def Let_def granted_def)
qed

lemma has_permission_agrees_witness:
  "True \<longleftrightarrow> get_permission (JDict kim_permissions) (split_on CHR ''.'' ''chat.delete'') = Inr True"
proof (rule has_permission_agrees[where builtin = chat_defaults and u = "''kim''"
      and d = chat_defaults and db = sample_groups])
  show "fst (has_permission chat_defaults ''kim'' ''chat.delete'' chat_defaults sample_groups) = Inr True"
    by (simp add: permission_samples has_permission_def py_in_def dget_or_def)
  show "get_permissions ''kim'' (fill_missing_permissions chat_defaults chat_defaults) sample_groups
      = Inr kim_permissions"
    using sample_permissions(1,2) by (simp add: covers_fill covers_refl)
qed (use sample_permissions in auto)

section \<open>Access lists\<close>

definition json_get :: "json \<Rightarrow> string \<Rightarrow> json \<Rightarrow> py_error + json" where
  "json_get v k dflt = (case v of JDict d \<Rightarrow> Inr (dget_or d k dflt) | _ \<Rightarrow> Inl AttributeError)"

record permitted_ids =
  permitted_groups :: json
  permitted_users :: json

definition get_permitted_group_and_user_ids ::
  "string \<Rightarrow> dict option \<Rightarrow> py_error + permitted_ids option" where
  "get_permitted_group_and_user_ids kind access_control =
     (case access_control of
        None \<Rightarrow> Inr None
      | Some ac \<Rightarrow>
          (let permission_access = dget_or ac kind (JDict []) in
           and_then (json_get permission_access ''group_ids'' (JList [])) (\<lambda>gs.
           and_then (json_get permission_access ''user_ids'' (JList [])) (\<lambda>us.
             Inr (Some \<lparr>permitted_groups = gs, permitted_users = us\<rparr>)))))"

text \<open>\<open>any(g in v for g in ids)\<close>.\<close>

fun any_in :: "id list \<Rightarrow> json \<Rightarrow> py_error + bool" where
  "any_in [] v = Inr False"
| "any_in (g # gs) v = and_then (py_in g v) (\<lambda>b. if b then Inr True else any_in gs v)"

text \<open>\<open>user_group_ids\<close> lists the set of the user's group ids where the caller has it.\<close>

definition has_access ::
  "id \<Rightarrow> string \<Rightarrow> dict option \<Rightarrow> id list option \<Rightarrow> bool \<Rightarrow> group_db \<Rightarrow> py_error + bool" where
  "has_access user_id kind access_control user_group_ids strict db =
     (case access_control of
        None \<Rightarrow> Inr (if strict then kind = ''read'' else True)
      | Some ac \<Rightarrow>
          (let ids = (case user_group_ids of
                        None \<Rightarrow> map grp_id (get_groups_by_member_id user_id db)
                      | Some gs \<Rightarrow> gs) in
           and_then (get_permitted_group_and_user_ids kind (Some ac)) (\<lambda>p.
             case p of
               None \<Rightarrow> Inr False
             | Some p \<Rightarrow>
                 and_then (py_in user_id (permitted_users p)) (\<lambda>b.
                   if b then Inr True else any_in ids (permitted_groups p)))))"

text \<open>An access list as the editor writes it.\<close>

definition access_list :: "string \<Rightarrow> id list \<Rightarrow> id list \<Rightarrow> dict \<Rightarrow> bool" where
  "access_list kind gs us ac \<longleftrightarrow>
     dget ac kind = Some (JDict [(''group_ids'', JList (map JStr gs)), (''user_ids'', JList (map JStr us))])"

lemma any_in_list: "any_in ids (JList (map JStr gs)) = Inr (\<exists>g \<in> set ids. g \<in> set gs)"
  by (induction ids) (auto simp: py_in_def)

lemma has_access_list:
  assumes "access_list kind gs us ac"
  shows "has_access u kind (Some ac) (Some ids) strict db = Inr (u \<in> set us \<or> (\<exists>g \<in> set ids. g \<in> set gs))"
  using assms
  by (auto simp: has_access_def get_permitted_group_and_user_ids_def access_list_def json_get_def dget_or_def
      any_in_list py_in_def)

lemma has_access_lookup:
  "has_access u kind ac None strict db =
     has_access u kind ac (Some (map grp_id (get_groups_by_member_id u db))) strict db"
  by (simp add: has_access_def split: option.split)


section \<open>Membership decides access\<close>

text \<open>
  What access checks need of the group tables: who the members of a group are, and that
  enrolling or expelling a user changes that membership and no other.
\<close>

locale group_directory =
  fixes member :: "'s \<Rightarrow> id \<Rightarrow> id \<Rightarrow> bool"
    and groups_of :: "id \<Rightarrow> 's \<Rightarrow> id list"
    and may_enrol :: "id \<Rightarrow> id \<Rightarrow> 's \<Rightarrow> bool"
    and enrol :: "id \<Rightarrow> id \<Rightarrow> 's \<Rightarrow> 's"
    and expel :: "id \<Rightarrow> id \<Rightarrow> 's \<Rightarrow> 's"
    and ok :: "'s \<Rightarrow> bool"
  assumes groups_of_iff: "g \<in> set (groups_of u s) \<longleftrightarrow> member s g u"
    and member_enrol: "ok s \<Longrightarrow> may_enrol g u s \<Longrightarrow> member (enrol g u s) h v \<longleftrightarrow> member s h v \<or> (h = g \<and> v = u)"
    and member_expel: "ok s \<Longrightarrow> member (expel g u s) h v \<longleftrightarrow> member s h v \<and> \<not> (h = g \<and> v = u)"
    and ok_enrol: "ok s \<Longrightarrow> ok (enrol g u s)"
    and ok_expel: "ok s \<Longrightarrow> ok (expel g u s)"
begin

definition may_reach :: "id list \<Rightarrow> id list \<Rightarrow> id \<Rightarrow> 's \<Rightarrow> bool" where
  "may_reach gs us u s \<longleftrightarrow> u \<in> set us \<or> (\<exists>g \<in> set (groups_of u s). g \<in> set gs)"

lemma may_reach_iff: "may_reach gs us u s \<longleftrightarrow> u \<in> set us \<or> (\<exists>g \<in> set gs. member s g u)"
  by (auto simp: may_reach_def groups_of_iff)

lemma reach_enrol:
  "ok s \<Longrightarrow> may_enrol g u s \<Longrightarrow> may_reach gs us v (enrol g u s) \<longleftrightarrow> may_reach gs us v s \<or> (v = u \<and> g \<in> set gs)"
  by (auto simp: may_reach_iff member_enrol)

lemma reach_expel:
  "ok s \<Longrightarrow> may_reach gs us v (expel g u s) \<longleftrightarrow>
     v \<in> set us \<or> (\<exists>h \<in> set gs. member s h v \<and> \<not> (h = g \<and> v = u))"
  by (auto simp: may_reach_iff member_expel)

lemma enrol_then_expel:
  assumes "ok s" "may_enrol g u s" "\<not> member s g u"
  shows "may_reach gs us v (expel g u (enrol g u s)) \<longleftrightarrow> may_reach gs us v s"
  using assms by (auto simp: member_expel ok_enrol member_enrol may_reach_iff)

end

definition directory_member :: "group_db \<Rightarrow> id \<Rightarrow> id \<Rightarrow> bool" where
  "directory_member db gid u \<longleftrightarrow> has_group gid db \<and> is_member db gid u"

definition can_enrol :: "foreign_keys \<Rightarrow> id \<Rightarrow> id \<Rightarrow> id \<Rightarrow> group_db \<Rightarrow> bool" where
  "can_enrol fk uid gid u db \<longleftrightarrow> has_group gid db \<and> \<not> is_member db gid u \<and>
     uid \<notin> gm_id ` set (group_members db) \<and> (case fk of None \<Rightarrow> True | Some ex \<Rightarrow> ex u)"

definition enrol_user :: "foreign_keys \<Rightarrow> time \<Rightarrow> id \<Rightarrow> id \<Rightarrow> id \<Rightarrow> group_db \<Rightarrow> group_db" where
  "enrol_user fk now uid gid u db = snd (add_users_to_group fk now gid (Some [(uid, u)]) db)"

definition expel_user :: "time \<Rightarrow> id \<Rightarrow> id \<Rightarrow> group_db \<Rightarrow> group_db" where
  "expel_user now gid u db = snd (remove_users_from_group now gid (Some [u]) db)"

lemma group_ids_of_member:
  "g \<in> set (map grp_id (get_groups_by_member_id u db)) \<longleftrightarrow> directory_member db g u"
  by (auto simp: get_groups_by_member_id_def directory_member_def has_group_def)

lemma get_group_by_id_has: "get_group_by_id gid db = None \<longleftrightarrow> \<not> has_group gid db"
  by (simp add: get_group_by_id_def row_get_None_iff has_group_def)

lemma has_group_touch [simp]: "has_group g (db\<lparr>groups := touch p now (groups d)\<rparr>) = has_group g (db\<lparr>groups := groups d\<rparr>)"
  by (simp add: has_group_def)

lemma directory_member_enrol:
  assumes "can_enrol fk uid g u db"
  shows "directory_member (enrol_user fk now uid g u db) h v \<longleftrightarrow> directory_member db h v \<or> (h = g \<and> v = u)"
proof -
  have hg: "has_group g db" and nm: "(g, u) \<notin> member_key ` set (group_members db)"
    using assms by (auto simp: can_enrol_def is_member_iff)
  obtain x where x: "get_group_by_id g db = Some x" using hg get_group_by_id_has by blast
  have "add_member fk (new_member uid g u now) db =
      Some (db\<lparr>group_members := group_members db @ [new_member uid g u now]\<rparr>)"
    using assms nm
    by (auto simp: can_enrol_def add_member_def new_member_def member_key_def split: option.splits)
  then have "enrol_user fk now uid g u db =
      db\<lparr>group_members := group_members db @ [new_member uid g u now], groups := touch (\<lambda>h. h = g) now (groups db)\<rparr>"
    using x by (simp add: enrol_user_def add_users_to_group_def Let_def)
  then show ?thesis
    using hg by (auto simp: directory_member_def has_group_def is_member_def new_member_def)
qed

lemma directory_member_expel:
  "directory_member (expel_user now g u db) h v \<longleftrightarrow> directory_member db h v \<and> \<not> (h = g \<and> v = u)"
proof (cases "get_group_by_id g db")
  case None
  then have "expel_user now g u db = db" "\<not> has_group g db"
    by (simp_all add: expel_user_def remove_users_from_group_def flip: get_group_by_id_has)
  then show ?thesis by (auto simp: directory_member_def)
next
  case (Some x)
  then show ?thesis
    by (auto simp: expel_user_def remove_users_from_group_def directory_member_def has_group_def is_member_def
        list_ex_iff Let_def)
qed

interpretation gd: group_directory directory_member
  "\<lambda>u db. map grp_id (get_groups_by_member_id u db)"
  "\<lambda>g u db. can_enrol fk uid g u db" "enrol_user fk now uid" "expel_user now'" "groups_inv fk"
  for fk now now' uid
proof unfold_locales
  fix db g u
  assume "groups_inv fk db"
  then show "groups_inv fk (enrol_user fk now uid g u db)" "groups_inv fk (expel_user now' g u db)"
    using group_step_inv[of fk db "AddUsers now g (Some [(uid, u)])"]
      group_step_inv[of fk db "RemoveUsers now' g (Some [u])"]
    by (simp_all add: enrol_user_def expel_user_def)
qed (simp_all only: group_ids_of_member directory_member_enrol directory_member_expel)

text \<open>
  C8: Joining a group listed in a resource's access list gives its new member access and
  changes nobody else's; leaving it undoes exactly that. The check looks the user's groups
  up in the tables after the operation.
\<close>

theorem membership_decides_access:
  assumes "groups_inv fk db" "can_enrol fk uid g u db" "access_list kind gs us ac"
  shows "has_access v kind (Some ac) None strict (enrol_user fk now uid g u db) =
      Inr (has_access v kind (Some ac) None strict db = Inr True \<or> (v = u \<and> g \<in> set gs)) \<and>
    has_access v kind (Some ac) None strict (expel_user now' g u (enrol_user fk now uid g u db)) =
      has_access v kind (Some ac) None strict db"
proof -
  have acc: "has_access v kind (Some ac) None strict d = Inr (gd.may_reach gs us v d)" for d
    by (simp only: has_access_lookup[of v kind] has_access_list[OF assms(3)] gd.may_reach_def)
  show ?thesis
    using gd.reach_enrol[OF assms(1,2)] gd.enrol_then_expel[OF assms(1,2)]
      assms(2)
    by (simp add: acc can_enrol_def directory_member_def)
qed

lemma membership_decides_access_witness:
  "has_access ''lee'' ''read'' (Some [(''read'', JDict [(''group_ids'', JList (map JStr [''g2''])),
       (''user_ids'', JList (map JStr []))])]) None True (enrol_user None 7 ''m9'' ''g2'' ''lee'' sample_groups) = Inr True"
proof -
  let ?ac = "[(''read'', JDict [(''group_ids'', JList (map JStr [''g2''])), (''user_ids'', JList (map JStr []))])]"
  have "groups_inv None sample_groups"
    by (simp add: sample_group_defs groups_inv_def groups_ok_def member_key_def)
  moreover have "can_enrol None ''m9'' ''g2'' ''lee'' sample_groups"
    by (simp add: can_enrol_def sample_group_defs has_group_def is_member_def)
  moreover have "access_list ''read'' [''g2''] [] ?ac" by (simp add: access_list_def)
  ultimately show ?thesis
    using membership_decides_access[of None sample_groups "''m9''" "''g2''" "''lee''" "''read''" "[''g2'']" "[]" ?ac
        "''lee''" True 7] by simp
qed

end
