(* ===== verification/Folders.thy ===== *)
theory Folders
  imports Keyed_Store Python
begin

text \<open>
  \<^verbatim>\<open>models/folders.py\<close> and the handlers of \<^verbatim>\<open>routers/folders.py\<close> that need no other
  table. The state is the folder table; \<open>parent_id\<close> has no constraint in the schema, so the
  table is a graph and not always a forest. The recursive calls run with a recursion budget:
  running out is Python's \<open>RecursionError\<close>, which the code catches.
\<close>

record folder =
  fld_id :: id
  fld_parent_id :: "id option"
  fld_user_id :: id
  fld_name :: "string option"
  fld_items :: "dict option"
  fld_meta :: "dict option"
  fld_data :: "dict option"
  fld_is_expanded :: bool
  fld_created_at :: time
  fld_updated_at :: time

type_synonym folder_db = "folder list"

text \<open>
  An optional field of a form is \<open>None\<close> where it is unset. \<open>FolderForm\<close> allows extra
  fields; the ones \<open>FolderModel\<close> reads follow the declared ones.
\<close>

record folder_form =
  ff_name :: string
  ff_data :: "dict option option"
  ff_meta :: "dict option option"
  ff_id :: "string option"
  ff_user_id :: "string option"
  ff_items :: "dict option option"
  ff_is_expanded :: "bool option"

record folder_update_form =
  fu_name :: "string option option"
  fu_data :: "dict option option"
  fu_meta :: "dict option option"

definition set_or :: "'a \<Rightarrow> 'a option \<Rightarrow> 'a" where
  "set_or dflt v = (case v of None \<Rightarrow> dflt | Some x \<Rightarrow> x)"

lemma set_or_simps [simp]: "set_or d None = d" "set_or d (Some x) = x"
  by (simp_all add: set_or_def)

section \<open>Rows\<close>

definition owned :: "id \<Rightarrow> id \<Rightarrow> folder \<Rightarrow> bool" where
  "owned fid user_id f \<longleftrightarrow> fld_id f = fid \<and> fld_user_id f = user_id"

text \<open>\<open>FolderModel.model_validate\<close> refuses a row without a name.\<close>

definition folder_model :: "folder \<Rightarrow> py_error + folder" where
  "folder_model f = (if fld_name f = None then Inl ValueError else Inr f)"

definition catch_none :: "py_error + 'a \<Rightarrow> 'a option" where
  "catch_none r = (case r of Inl _ \<Rightarrow> None | Inr x \<Rightarrow> Some x)"

lemma catch_none_simps [simp]: "catch_none (Inl e) = None" "catch_none (Inr x) = Some x"
  by (simp_all add: catch_none_def)

definition insert_new_folder ::
  "id \<Rightarrow> time \<Rightarrow> time \<Rightarrow> id \<Rightarrow> folder_form \<Rightarrow> id option \<Rightarrow> folder_db \<Rightarrow> folder option \<times> folder_db" where
  "insert_new_folder uid t1 t2 user_id form parent_id db =
     (let f = \<lparr>fld_id = set_or uid (ff_id form), fld_parent_id = parent_id,
               fld_user_id = set_or user_id (ff_user_id form), fld_name = Some (ff_name form),
               fld_items = set_or None (ff_items form), fld_meta = set_or None (ff_meta form),
               fld_data = set_or None (ff_data form), fld_is_expanded = set_or False (ff_is_expanded form),
               fld_created_at = t1, fld_updated_at = t2\<rparr>
      in case add_row fld_id f db of
           None \<Rightarrow> (None, db)
         | Some db' \<Rightarrow> (Some f, db'))"

definition get_folder_by_id_and_user_id :: "id \<Rightarrow> id \<Rightarrow> folder_db \<Rightarrow> folder option" where
  "get_folder_by_id_and_user_id fid user_id db =
     (case first_row (owned fid user_id) db of
        None \<Rightarrow> None
      | Some f \<Rightarrow> catch_none (folder_model f))"

definition get_folders_by_user_id :: "id \<Rightarrow> folder_db \<Rightarrow> py_error + folder list" where
  "get_folders_by_user_id user_id db = each folder_model (all_rows (\<lambda>f. fld_user_id f = user_id) db)"

definition get_folders_by_parent_id_and_user_id ::
  "id option \<Rightarrow> id \<Rightarrow> folder_db \<Rightarrow> py_error + folder list" where
  "get_folders_by_parent_id_and_user_id parent_id user_id db =
     each folder_model (all_rows (\<lambda>f. fld_parent_id f = parent_id \<and> fld_user_id f = user_id) db)"

text \<open>\<open>get_children\<close>: every descendant, children before their parent.\<close>

fun get_children :: "nat \<Rightarrow> id \<Rightarrow> id \<Rightarrow> folder_db \<Rightarrow> py_error + folder list" where
  "get_children 0 user_id fid db = Inl RecursionError"
| "get_children (Suc n) user_id fid db =
     and_then (get_folders_by_parent_id_and_user_id (Some fid) user_id db) (\<lambda>children.
       foldl (\<lambda>r child. and_then r (\<lambda>folders.
                and_then (get_children n user_id (fld_id child) db) (\<lambda>below.
                  Inr (folders @ below @ [child]))))
         (Inr []) children)"

definition get_children_folders_by_id_and_user_id ::
  "nat \<Rightarrow> id \<Rightarrow> id \<Rightarrow> folder_db \<Rightarrow> folder list option" where
  "get_children_folders_by_id_and_user_id n fid user_id db =
     (case first_row (owned fid user_id) db of
        None \<Rightarrow> None
      | Some f \<Rightarrow> catch_none (get_children n user_id (fld_id f) db))"

text \<open>The name is passed to \<open>ILIKE\<close> as it is, wildcards included.\<close>

definition get_folder_by_parent_id_and_user_id_and_name ::
  "char option \<Rightarrow> id option \<Rightarrow> id \<Rightarrow> string \<Rightarrow> folder_db \<Rightarrow> folder option" where
  "get_folder_by_parent_id_and_user_id_and_name esc parent_id user_id name db =
     (case first_row (\<lambda>f. fld_parent_id f = parent_id \<and> fld_user_id f = user_id \<and>
                 (case fld_name f of None \<Rightarrow> False | Some n \<Rightarrow> ilike esc n name)) db of
        None \<Rightarrow> None
      | Some f \<Rightarrow> catch_none (folder_model f))"

definition update_folder_parent_id_by_id_and_user_id ::
  "time \<Rightarrow> id \<Rightarrow> id \<Rightarrow> id option \<Rightarrow> folder_db \<Rightarrow> folder option \<times> folder_db" where
  "update_folder_parent_id_by_id_and_user_id now fid user_id parent_id db =
     (case first_row (owned fid user_id) db of
        None \<Rightarrow> (None, db)
      | Some f \<Rightarrow>
          (let f' = f\<lparr>fld_parent_id := parent_id, fld_updated_at := now\<rparr>
           in (catch_none (folder_model f'), upd_rows (owned fid user_id) (\<lambda>_. f') db)))"

text \<open>\<open>{**(old or {}), **new}\<close>, where \<open>new\<close> may be null.\<close>

definition merge_field :: "dict option \<Rightarrow> dict option option \<Rightarrow> py_error + dict option" where
  "merge_field old v = (case v of
     None \<Rightarrow> Inr old
   | Some None \<Rightarrow> Inl TypeError
   | Some (Some d) \<Rightarrow> Inr (Some (dmerge (set_or [] old) d)))"

definition write_folder ::
  "time \<Rightarrow> id \<Rightarrow> id \<Rightarrow> folder_update_form \<Rightarrow> folder \<Rightarrow> folder_db \<Rightarrow> folder option \<times> folder_db" where
  "write_folder now fid user_id form f db =
     (case and_then (merge_field (fld_data f) (fu_data form)) (\<lambda>data.
           and_then (merge_field (fld_meta f) (fu_meta form)) (\<lambda>meta.
             Inr (f\<lparr>fld_name := set_or (fld_name f) (fu_name form), fld_data := data, fld_meta := meta,
                    fld_updated_at := now\<rparr>))) of
        Inl e \<Rightarrow> (None, db)
      | Inr f' \<Rightarrow> (catch_none (folder_model f'), upd_rows (owned fid user_id) (\<lambda>_. f') db))"

definition update_folder_by_id_and_user_id ::
  "time \<Rightarrow> id \<Rightarrow> id \<Rightarrow> folder_update_form \<Rightarrow> folder_db \<Rightarrow> folder option \<times> folder_db" where
  "update_folder_by_id_and_user_id now fid user_id form db =
     (case first_row (owned fid user_id) db of
        None \<Rightarrow> (None, db)
      | Some f \<Rightarrow>
          (case first_row (\<lambda>g. fld_name g = set_or None (fu_name form) \<and>
                  fld_parent_id g = fld_parent_id f \<and> fld_user_id g = user_id) db of
             None \<Rightarrow> write_folder now fid user_id form f db
           | Some g \<Rightarrow> if fld_id g \<noteq> fid then (None, db) else write_folder now fid user_id form f db))"

definition update_folder_is_expanded_by_id_and_user_id ::
  "time \<Rightarrow> id \<Rightarrow> id \<Rightarrow> bool \<Rightarrow> folder_db \<Rightarrow> folder option \<times> folder_db" where
  "update_folder_is_expanded_by_id_and_user_id now fid user_id b db =
     (case first_row (owned fid user_id) db of
        None \<Rightarrow> (None, db)
      | Some f \<Rightarrow>
          (let f' = f\<lparr>fld_is_expanded := b, fld_updated_at := now\<rparr>
           in (catch_none (folder_model f'), upd_rows (owned fid user_id) (\<lambda>_. f') db)))"

section \<open>Deleting a tree\<close>

text \<open>
  The state of the deletion is the list of deleted ids and the table; every deleted row is
  committed at once, so an error leaves what was deleted before it.
\<close>

type_synonym deletion = "py_error option \<times> id list \<times> folder_db"

definition delete_row :: "id \<Rightarrow> deletion \<Rightarrow> deletion" where
  "delete_row fid s = (case s of (err, ids, db) \<Rightarrow>
     (case err of
        Some e \<Rightarrow> s
      | None \<Rightarrow>
          (if first_row (\<lambda>f. fld_id f = fid) db = None then (Some InvalidRequestError, ids @ [fid], db)
           else (None, ids @ [fid], del_rows (\<lambda>f. fld_id f = fid) db))))"

fun delete_children :: "nat \<Rightarrow> id \<Rightarrow> id \<Rightarrow> deletion \<Rightarrow> deletion" where
  "delete_children n user_id fid (Some e, ids, db) = (Some e, ids, db)"
| "delete_children 0 user_id fid (None, ids, db) = (Some RecursionError, ids, db)"
| "delete_children (Suc n) user_id fid (None, ids, db) =
     (case get_folders_by_parent_id_and_user_id (Some fid) user_id db of
        Inl e \<Rightarrow> (Some e, ids, db)
      | Inr children \<Rightarrow>
          foldl (\<lambda>s child. delete_row (fld_id child) (delete_children n user_id (fld_id child) s))
            (None, ids, db) children)"

definition delete_folder_by_id_and_user_id :: "nat \<Rightarrow> id \<Rightarrow> id \<Rightarrow> folder_db \<Rightarrow> id list \<times> folder_db" where
  "delete_folder_by_id_and_user_id n fid user_id db =
     (case first_row (owned fid user_id) db of
        None \<Rightarrow> ([], db)
      | Some f \<Rightarrow>
          (case delete_children n user_id (fld_id f) (None, [fld_id f], db) of
             (Some e, ids, db') \<Rightarrow> ([], db')
           | (None, ids, db') \<Rightarrow> (ids, del_rows (\<lambda>g. fld_id g = fld_id f) db')))"

section \<open>Searching by name\<close>

definition name_sep :: "char \<Rightarrow> bool" where
  "name_sep c \<longleftrightarrow> is_space c \<or> c = CHR ''_''"

fun squeeze :: "string \<Rightarrow> string" where
  "squeeze [] = []"
| "squeeze (c # s) =
     (if \<not> name_sep c then c # squeeze s
      else if s \<noteq> [] \<and> name_sep (hd s) then squeeze s
      else CHR '' '' # squeeze s)"

definition normalize_folder_name :: "string \<Rightarrow> string" where
  "normalize_folder_name name = lower (strip (squeeze name))"

definition normalized_name :: "folder \<Rightarrow> py_error + string" where
  "normalized_name f = (case fld_name f of
     None \<Rightarrow> Inl TypeError
   | Some n \<Rightarrow> Inr (normalize_folder_name n))"

definition put_folder :: "(id \<times> folder) list \<Rightarrow> folder \<Rightarrow> (id \<times> folder) list" where
  "put_folder results f = AList.update (fld_id f) f results"

fun search_loop ::
  "nat \<Rightarrow> id \<Rightarrow> folder_db \<Rightarrow> string list \<Rightarrow> folder list \<Rightarrow> (id \<times> folder) list \<Rightarrow> py_error + (id \<times> folder) list"
where
  "search_loop n user_id db queries [] results = Inr results"
| "search_loop n user_id db queries (f # fs) results =
     and_then (normalized_name f) (\<lambda>name.
       if name \<notin> set queries then search_loop n user_id db queries fs results
       else and_then (folder_model f) (\<lambda>f'.
         (case get_children_folders_by_id_and_user_id n (fld_id f) user_id db of
            None \<Rightarrow> Inl TypeError
          | Some children \<Rightarrow>
              search_loop n user_id db queries fs (foldl put_folder (put_folder results f') children))))"

definition search_folders_by_names :: "nat \<Rightarrow> id \<Rightarrow> string list \<Rightarrow> folder_db \<Rightarrow> py_error + folder list" where
  "search_folders_by_names n user_id queries db =
     (let normalized = map normalize_folder_name queries in
      if normalized = [] then Inr []
      else and_then (search_loop n user_id db normalized (all_rows (\<lambda>f. fld_user_id f = user_id) db) [])
             (\<lambda>results. Inr (map snd results)))"

fun contains_loop :: "string \<Rightarrow> folder list \<Rightarrow> py_error + folder list" where
  "contains_loop query [] = Inr []"
| "contains_loop query (f # fs) =
     and_then (normalized_name f) (\<lambda>name.
     and_then (if sublist query name then and_then (folder_model f) (\<lambda>m. Inr [m]) else Inr []) (\<lambda>here.
     and_then (contains_loop query fs) (\<lambda>rest. Inr (here @ rest))))"

definition search_folders_by_name_contains :: "id \<Rightarrow> string \<Rightarrow> folder_db \<Rightarrow> py_error + folder list" where
  "search_folders_by_name_contains user_id query db =
     contains_loop (normalize_folder_name query) (all_rows (\<lambda>f. fld_user_id f = user_id) db)"

section \<open>Handlers\<close>

definition create_folder ::
  "char option \<Rightarrow> id \<Rightarrow> time \<Rightarrow> time \<Rightarrow> id \<Rightarrow> folder_form \<Rightarrow> folder_db \<Rightarrow> (http_error + folder option) \<times> folder_db" where
  "create_folder esc uid t1 t2 user_id form db =
     (case get_folder_by_parent_id_and_user_id_and_name esc None user_id (ff_name form) db of
        Some f \<Rightarrow> (Inl BadRequest, db)
      | None \<Rightarrow>
          (let (r, db') = insert_new_folder uid t1 t2 user_id form None db in (Inr r, db')))"

definition get_folder_by_id :: "id \<Rightarrow> id \<Rightarrow> folder_db \<Rightarrow> http_error + folder" where
  "get_folder_by_id fid user_id db =
     (case get_folder_by_id_and_user_id fid user_id db of None \<Rightarrow> Inl NotFound | Some f \<Rightarrow> Inr f)"

definition update_folder_name_by_id ::
  "char option \<Rightarrow> time \<Rightarrow> id \<Rightarrow> id \<Rightarrow> folder_update_form \<Rightarrow> folder_db \<Rightarrow> (http_error + folder option) \<times> folder_db" where
  "update_folder_name_by_id esc now fid user_id form db =
     (case get_folder_by_id_and_user_id fid user_id db of
        None \<Rightarrow> (Inl NotFound, db)
      | Some f \<Rightarrow>
          (case (case fu_name form of
                   Some (Some name) \<Rightarrow>
                     get_folder_by_parent_id_and_user_id_and_name esc (fld_parent_id f) user_id name db
                 | _ \<Rightarrow> None) of
             Some g \<Rightarrow>
               if fld_id g \<noteq> fid then (Inl BadRequest, db)
               else (let (r, db') = update_folder_by_id_and_user_id now fid user_id form db in (Inr r, db'))
           | None \<Rightarrow> (let (r, db') = update_folder_by_id_and_user_id now fid user_id form db in (Inr r, db'))))"

definition update_folder_parent_id_by_id ::
  "char option \<Rightarrow> time \<Rightarrow> id \<Rightarrow> id \<Rightarrow> id option \<Rightarrow> folder_db \<Rightarrow> (http_error + folder option) \<times> folder_db" where
  "update_folder_parent_id_by_id esc now fid user_id parent_id db =
     (case get_folder_by_id_and_user_id fid user_id db of
        None \<Rightarrow> (Inl NotFound, db)
      | Some f \<Rightarrow>
          (case get_folder_by_parent_id_and_user_id_and_name esc parent_id user_id (set_or [] (fld_name f)) db of
             Some g \<Rightarrow> (Inl BadRequest, db)
           | None \<Rightarrow>
               (let (r, db') = update_folder_parent_id_by_id_and_user_id now fid user_id parent_id db
                in (Inr r, db'))))"

definition update_folder_is_expanded_by_id ::
  "time \<Rightarrow> id \<Rightarrow> id \<Rightarrow> bool \<Rightarrow> folder_db \<Rightarrow> (http_error + folder option) \<times> folder_db" where
  "update_folder_is_expanded_by_id now fid user_id b db =
     (case get_folder_by_id_and_user_id fid user_id db of
        None \<Rightarrow> (Inl NotFound, db)
      | Some f \<Rightarrow>
          (let (r, db') = update_folder_is_expanded_by_id_and_user_id now fid user_id b db in (Inr r, db')))"

section \<open>The folder graph\<close>

definition has_folder :: "id \<Rightarrow> id \<Rightarrow> folder_db \<Rightarrow> bool" where
  "has_folder fid u db \<longleftrightarrow> first_row (owned fid u) db \<noteq> None"

definition child :: "folder_db \<Rightarrow> id \<Rightarrow> id \<Rightarrow> id \<Rightarrow> bool" where
  "child db u i j \<longleftrightarrow> (\<exists>f \<in> set db. fld_id f = j \<and> fld_user_id f = u \<and> fld_parent_id f = Some i)"

definition below :: "folder_db \<Rightarrow> id \<Rightarrow> id \<Rightarrow> id \<Rightarrow> bool" where
  "below db u = (child db u)\<^sup>+\<^sup>+"

definition below_eq :: "folder_db \<Rightarrow> id \<Rightarrow> id \<Rightarrow> id \<Rightarrow> bool" where
  "below_eq db u i j \<longleftrightarrow> i = j \<or> below db u i j"

text \<open>The rows of a user can be read: ids are unique and every folder has a name.\<close>

definition readable :: "id \<Rightarrow> folder_db \<Rightarrow> bool" where
  "readable u db \<longleftrightarrow> unique_key fld_id db \<and> list_all (\<lambda>f. fld_user_id f = u \<longrightarrow> fld_name f \<noteq> None) db"

lemma child_parent_unique: "unique_key fld_id db \<Longrightarrow> child db u i j \<Longrightarrow> child db u i' j \<Longrightarrow> i = i'"
  using unique_keyD[of fld_id db] by (fastforce simp: child_def)

lemma below_child: "child db u i j \<Longrightarrow> below db u i j"
  by (simp add: below_def)

lemma below_trans: "below db u i j \<Longrightarrow> below db u j k \<Longrightarrow> below db u i k"
  unfolding below_def by (rule tranclp_trans)

lemma below_iff_first: "below db u i k \<longleftrightarrow> (\<exists>j. child db u i j \<and> below_eq db u j k)"
  unfolding below_def below_eq_def
  by (metis (no_types, lifting) converse_tranclpE tranclp.r_into_trancl tranclp_into_tranclp2)

lemma below_iff_last: "below db u i k \<longleftrightarrow> (\<exists>j. below_eq db u i j \<and> child db u j k)"
  unfolding below_def below_eq_def
  by (metis (no_types, lifting) tranclp.cases tranclp.intros)

lemma below_eq_trans: "below_eq db u i j \<Longrightarrow> below_eq db u j k \<Longrightarrow> below_eq db u i k"
  by (auto simp: below_eq_def intro: below_trans)

lemma below_eq_refl [simp]: "below_eq db u i i"
  by (simp add: below_eq_def)

lemma below_below_eq: "below db u i j \<Longrightarrow> below_eq db u j k \<Longrightarrow> below db u i k"
  by (auto simp: below_eq_def intro: below_trans)

lemma cycle_upwards: "unique_key fld_id db \<Longrightarrow> below db u i c \<Longrightarrow> below db u c c \<Longrightarrow> below db u i i"
proof -
  assume uk: "unique_key fld_id db" and cc: "below db u c c"
  have up: "below db u b b" if bd: "child db u b d" and dd: "below db u d d" for b d
  proof -
    obtain e where e: "below_eq db u d e" "child db u e d" using dd below_iff_last by blast
    then have "e = b" using child_parent_unique[OF uk] bd by blast
    then show ?thesis using bd e(1) below_iff_first by blast
  qed
  assume "below db u i c"
  then show ?thesis using cc unfolding below_def
    by (induction rule: tranclp_induct) (use up in \<open>auto simp: below_def\<close>)
qed

lemma ancestors_linear:
  assumes uk: "unique_key fld_id db" and "below_eq db u a x" "below_eq db u b x"
  shows "below_eq db u a b \<or> below_eq db u b a"
proof (cases "a = x")
  case False
  then have "(child db u)\<^sup>+\<^sup>+ a x" using assms(2) by (simp add: below_eq_def below_def)
  then show ?thesis using assms(3)
  proof (induction rule: tranclp_induct)
    case (base y)
    have "below_eq db u a y" using base below_child by (simp add: below_eq_def)
    moreover have "below_eq db u b a" if ne: "b \<noteq> y"
    proof -
      obtain w where w: "below_eq db u b w" "child db u w y"
        using base.prems ne below_iff_last[of db u b y] unfolding below_eq_def[of db u b y] by blast
      then have "a = w" using child_parent_unique[OF uk base.hyps w(2)] by simp
      then show ?thesis using w by simp
    qed
    ultimately show ?case by blast
  next
    case (step y z)
    have ay: "below db u a z" using step.hyps by (simp add: below_def)
    show ?case
    proof (cases "b = z")
      case True
      then show ?thesis using ay by (simp add: below_eq_def)
    next
      case False
      then obtain w where w: "below_eq db u b w" "child db u w z"
        using step.prems below_iff_last[of db u b z] unfolding below_eq_def[of db u b z] by blast
      then have "w = y" using child_parent_unique[OF uk] step.hyps(2) by blast
      then show ?thesis using step.IH w by simp
    qed
  qed
qed (use assms in simp)

section \<open>Listing a tree\<close>

lemma foldl_each:
  "foldl (\<lambda>r c. and_then r (\<lambda>fs. and_then (g c) (\<lambda>b. Inr (fs @ b @ [c])))) (Inr acc) cs =
     and_then (each (\<lambda>c. and_then (g c) (\<lambda>b. Inr (b @ [c]))) cs) (\<lambda>xss. Inr (acc @ concat xss))"
proof -
  have err: "foldl (\<lambda>r c. and_then r (\<lambda>fs. and_then (g c) (\<lambda>b. Inr (fs @ b @ [c])))) (Inl e) ds = Inl e" for e ds
    by (induction ds) auto
  show ?thesis
  proof (induction cs arbitrary: acc)
    case (Cons c cs)
    show ?case
    proof (cases "g c")
      case (Inr b)
      then show ?thesis using Cons[of "acc @ b @ [c]"]
        by (cases "each (\<lambda>c. and_then (g c) (\<lambda>b. Inr (b @ [c]))) cs") auto
    qed (use err in simp)
  qed simp
qed

lemma each_Inr_iff:
  "each f xs = Inr ys \<longleftrightarrow> list_all2 (\<lambda>x y. f x = Inr y) xs ys"
  by (induction xs arbitrary: ys) (auto simp: and_then_Inr_iff list_all2_Cons1)

lemma each_Inl_ex: "x \<in> set xs \<Longrightarrow> f x = Inl e \<Longrightarrow> \<exists>e'. each f xs = Inl e'"
  by (induction xs) (auto simp: and_then_Inl_iff, metis and_then_simps(1) sum.exhaust)

definition kids :: "folder_db \<Rightarrow> id \<Rightarrow> id \<Rightarrow> folder list" where
  "kids db u i = all_rows (\<lambda>f. fld_parent_id f = Some i \<and> fld_user_id f = u) db"

lemma by_parent_kids: "get_folders_by_parent_id_and_user_id (Some i) u db = Inr cs \<Longrightarrow> cs = kids db u i"
proof -
  have "each folder_model xs = Inr ys \<Longrightarrow> ys = xs" for xs ys
    by (induction xs arbitrary: ys) (auto simp: and_then_Inr_iff folder_model_def split: if_splits)
  then show "get_folders_by_parent_id_and_user_id (Some i) u db = Inr cs \<Longrightarrow> cs = kids db u i"
    by (simp add: get_folders_by_parent_id_and_user_id_def kids_def)
qed

lemma by_parent_readable: "readable u db \<Longrightarrow> get_folders_by_parent_id_and_user_id (Some i) u db = Inr (kids db u i)"
  unfolding get_folders_by_parent_id_and_user_id_def kids_def
  by (rule each_Inr[where g = "\<lambda>f. f", simplified])
     (auto simp: readable_def folder_model_def list_all_iff)

lemma child_kids: "child db u i j \<longleftrightarrow> j \<in> fld_id ` set (kids db u i)"
  by (auto simp: child_def kids_def)

lemma get_children_Suc:
  "get_children (Suc n) u i db = Inr fs \<longleftrightarrow>
     get_folders_by_parent_id_and_user_id (Some i) u db = Inr (kids db u i) \<and>
     (\<exists>bs. list_all2 (\<lambda>c b. get_children n u (fld_id c) db = Inr b) (kids db u i) bs \<and>
           fs = concat (map2 (\<lambda>c b. b @ [c]) (kids db u i) bs))"
proof -
  have *: "each (\<lambda>c. and_then (g c) (\<lambda>b. Inr (b @ [c]))) cs = Inr xss \<longleftrightarrow>
      (\<exists>bs. list_all2 (\<lambda>c b. g c = Inr b) cs bs \<and> xss = map2 (\<lambda>c b. b @ [c]) cs bs)"
    for g :: "folder \<Rightarrow> py_error + folder list" and cs xss
  proof (induction cs arbitrary: xss)
    case (Cons c cs)
    have "each (\<lambda>c. and_then (g c) (\<lambda>b. Inr (b @ [c]))) (c # cs) = Inr xss \<longleftrightarrow>
        (\<exists>b bs. g c = Inr b \<and> list_all2 (\<lambda>c b. g c = Inr b) cs bs \<and>
           xss = (b @ [c]) # map2 (\<lambda>c b. b @ [c]) cs bs)"
      by (simp add: and_then_Inr_iff Cons) blast
    also have "\<dots> \<longleftrightarrow> (\<exists>bs. list_all2 (\<lambda>c b. g c = Inr b) (c # cs) bs \<and>
           xss = map2 (\<lambda>c b. b @ [c]) (c # cs) bs)"
      by (simp add: list_all2_Cons1) (metis (no_types, lifting) case_prod_conv list.simps(9) zip_Cons_Cons)
    finally show ?case .
  qed auto
  show ?thesis (is "?l \<longleftrightarrow> ?p \<and> ?q")
  proof (cases "get_folders_by_parent_id_and_user_id (Some i) u db")
    case (Inr cs)
    then have cs: "cs = kids db u i" by (rule by_parent_kids)
    have "?l \<longleftrightarrow> (\<exists>xss. each (\<lambda>c. and_then (get_children n u (fld_id c) db) (\<lambda>b. Inr (b @ [c]))) cs = Inr xss \<and>
        fs = concat xss)"
      by (auto simp: Inr foldl_each and_then_Inr_iff)
    then show ?thesis unfolding * using Inr cs by auto
  qed simp
qed


lemma list_all2_ball: "list_all2 P xs ys \<Longrightarrow> x \<in> set xs \<Longrightarrow> \<exists>y. P x y"
  by (auto simp: list_all2_conv_all_nth in_set_conv_nth)

lemma list_all2_exists: "(\<And>x. x \<in> set xs \<Longrightarrow> \<exists>y. P x y) \<Longrightarrow> \<exists>ys. list_all2 P xs ys"
proof (induction xs)
  case (Cons x xs)
  obtain y ys where "P x y" "list_all2 P xs ys" using Cons by force
  then have "list_all2 P (x # xs) (y # ys)" by simp
  then show ?case by blast
qed auto

lemma get_children_cycle: "unique_key fld_id db \<Longrightarrow> below db u i i \<Longrightarrow> \<nexists>fs. get_children n u i db = Inr fs"
proof (induction n arbitrary: i)
  case (Suc n)
  obtain d where d: "child db u i d" "below_eq db u d i" using Suc.prems(2) below_iff_first by blast
  then have dd: "below db u d d"
    using below_child below_eq_trans below_iff_last by (meson below_eq_def)
  obtain c where c: "c \<in> set (kids db u i)" "fld_id c = d" using d(1) child_kids by auto
  show ?case
    using Suc.IH[OF Suc.prems(1) dd] c get_children_Suc[of n u i db] list_all2_ball[OF _ c(1)] by blast
qed simp

text \<open>The set of rows listed for a list of children and the rows found below each.\<close>

lemma set_concat_map2:
  "list_all2 (\<lambda>c b. set b = G c) cs bs \<Longrightarrow> set (concat (map2 (\<lambda>c b. b @ [c]) cs bs)) = (\<Union>c \<in> set cs. insert c (G c))"
  by (induction rule: list_all2_induct) auto

definition rows_below :: "folder_db \<Rightarrow> id \<Rightarrow> id \<Rightarrow> folder set" where
  "rows_below db u i = {f \<in> set db. fld_user_id f = u \<and> below db u i (fld_id f)}"

lemma rows_below_kids:
  assumes "unique_key fld_id db"
  shows "rows_below db u i = (\<Union>c \<in> set (kids db u i). insert c (rows_below db u (fld_id c)))"
proof (intro equalityI subsetI)
  fix f assume f: "f \<in> rows_below db u i"
  then obtain j where j: "child db u i j" "below_eq db u j (fld_id f)"
    using below_iff_first unfolding rows_below_def by blast
  then obtain c where c: "c \<in> set (kids db u i)" "fld_id c = j" using child_kids by auto
  show "f \<in> (\<Union>c \<in> set (kids db u i). insert c (rows_below db u (fld_id c)))"
  proof (cases "j = fld_id f")
    case True
    have "f \<in> set db" "c \<in> set db" using f c by (auto simp: rows_below_def kids_def)
    then have "f = c" using True c(2) by (intro unique_keyD[OF assms]) auto
    then show ?thesis using c by blast
  next
    case False
    then have "f \<in> rows_below db u (fld_id c)" using f c j by (simp add: rows_below_def below_eq_def)
    then show ?thesis using c by blast
  qed
next
  fix f assume "f \<in> (\<Union>c \<in> set (kids db u i). insert c (rows_below db u (fld_id c)))"
  then obtain c where c: "c \<in> set (kids db u i)" "f = c \<or> f \<in> rows_below db u (fld_id c)" by auto
  have ic: "below db u i (fld_id c)" using c(1) child_kids below_child by blast
  then have "below db u i (fld_id f)" using c(2) below_trans[OF ic] by (auto simp: rows_below_def)
  then show "f \<in> rows_below db u i" using c by (auto simp: rows_below_def kids_def)
qed

lemma set_get_children:
  "unique_key fld_id db \<Longrightarrow> get_children n u i db = Inr fs \<Longrightarrow> set fs = rows_below db u i"
proof (induction n arbitrary: i fs)
  case (Suc n)
  obtain bs where bs: "list_all2 (\<lambda>c b. get_children n u (fld_id c) db = Inr b) (kids db u i) bs"
      "fs = concat (map2 (\<lambda>c b. b @ [c]) (kids db u i) bs)"
    using Suc.prems(2) get_children_Suc by blast
  have "list_all2 (\<lambda>c b. set b = rows_below db u (fld_id c)) (kids db u i) bs"
    using bs(1) by (rule list_all2_mono) (use Suc in blast)
  from set_concat_map2[OF this] have "set fs = (\<Union>c \<in> set (kids db u i). insert c (rows_below db u (fld_id c)))"
    by (simp only: bs(2))
  then show ?case by (rule trans) (rule rows_below_kids[OF Suc.prems(1), symmetric])
qed simp

lemma get_children_total:
  "readable u db \<Longrightarrow> \<not> below db u i i \<Longrightarrow> card (rows_below db u i) < n \<Longrightarrow> \<exists>fs. get_children n u i db = Inr fs"
proof (induction n arbitrary: i)
  case (Suc n)
  have uk: "unique_key fld_id db" using Suc.prems(1) by (simp add: readable_def)
  have fin: "finite (rows_below db u j)" for j by (simp add: rows_below_def)
  have "\<exists>b. get_children n u (fld_id c) db = Inr b" if c: "c \<in> set (kids db u i)" for c
  proof -
    have ic: "child db u i (fld_id c)" using c child_kids by auto
    have nc: "\<not> below db u (fld_id c) (fld_id c)"
      using cycle_upwards[OF uk below_child[OF ic]] Suc.prems(2) by blast
    have "rows_below db u (fld_id c) \<subset> rows_below db u i"
      using rows_below_kids[OF uk, of u i] c nc by (auto simp: rows_below_def)
    then have "card (rows_below db u (fld_id c)) < card (rows_below db u i)"
      using fin psubset_card_mono by blast
    then show ?thesis using Suc.IH[OF Suc.prems(1) nc] Suc.prems(3) by simp
  qed
  then have "\<exists>bs. list_all2 (\<lambda>c b. get_children n u (fld_id c) db = Inr b) (kids db u i) bs"
    by (rule list_all2_exists)
  then show ?case using get_children_Suc[of n u i db] by_parent_readable[OF Suc.prems(1)] by blast
qed simp

lemma distinct_concat_map2:
  assumes "list_all2 (\<lambda>c b. set b = G c \<and> distinct b \<and> c \<notin> set b) cs bs" "distinct cs"
    and "\<And>c d. c \<in> set cs \<Longrightarrow> d \<in> set cs \<Longrightarrow> c \<noteq> d \<Longrightarrow> insert c (G c) \<inter> insert d (G d) = {}"
  shows "distinct (concat (map2 (\<lambda>c b. b @ [c]) cs bs))"
  using assms
proof (induction rule: list_all2_induct)
  case (Cons c cs b bs)
  have "list_all2 (\<lambda>c b. set b = G c) cs bs" using Cons.hyps(2) by (rule list_all2_mono) simp
  note s = set_concat_map2[OF this]
  have "insert c (G c) \<inter> (\<Union>d \<in> set cs. insert d (G d)) = {}"
    using Cons.prems by (fastforce dest: Cons.prems(2)[of c])
  then show ?case using Cons s by auto
qed simp

lemma distinct_kids: "unique_key fld_id db \<Longrightarrow> distinct (map fld_id (kids db u i))"
  by (simp add: kids_def all_rows_def unique_key_def distinct_map_filter)

lemma siblings_apart:
  assumes uk: "unique_key fld_id db" and c: "child db u i c" and d: "child db u i d"
    and nc: "\<not> below db u c c" "\<not> below db u d d" and x: "below_eq db u c x" "below_eq db u d x"
  shows "c = d"
proof (rule ccontr)
  assume ne: "c \<noteq> d"
  have up: False if cd: "below_eq db u c d" "c \<noteq> d" "child db u i c" "child db u i d" "\<not> below db u c c" for c d
  proof -
    obtain w where w: "below_eq db u c w" "child db u w d"
      using cd(1,2) below_iff_last[of db u c d] unfolding below_eq_def[of db u c d] by blast
    have "w = i" using child_parent_unique[OF uk w(2) cd(4)] .
    then show False using w(1) cd(3,5) below_iff_last by blast
  qed
  from ancestors_linear[OF uk x] show False using up ne c d nc by blast
qed

lemma distinct_get_children:
  "unique_key fld_id db \<Longrightarrow> get_children n u i db = Inr fs \<Longrightarrow> distinct fs"
proof (induction n arbitrary: i fs)
  case (Suc n)
  let ?G = "\<lambda>c. rows_below db u (fld_id c)"
  obtain bs where bs: "list_all2 (\<lambda>c b. get_children n u (fld_id c) db = Inr b) (kids db u i) bs"
      "fs = concat (map2 (\<lambda>c b. b @ [c]) (kids db u i) bs)"
    using Suc.prems(2) get_children_Suc by blast
  have ok: "\<not> below db u (fld_id c) (fld_id c)" if "c \<in> set (kids db u i)" for c
    using get_children_cycle[OF Suc.prems(1)] list_all2_ball[OF bs(1) that] by blast
  have "list_all2 (\<lambda>c b. set b = ?G c \<and> distinct b \<and> c \<notin> set b) (kids db u i) bs"
  proof (rule list.rel_mono_strong[OF bs(1)])
    fix c b assume c: "c \<in> set (kids db u i)" and b: "get_children n u (fld_id c) db = Inr b"
    have "set b = ?G c" by (rule set_get_children[OF Suc.prems(1) b])
    then show "set b = ?G c \<and> distinct b \<and> c \<notin> set b"
      using Suc.IH[OF Suc.prems(1) b] ok[OF c] by (simp add: rows_below_def)
  qed
  moreover have "distinct (kids db u i)" using distinct_kids[OF Suc.prems(1)] by (simp add: distinct_map)
  moreover have "insert c (?G c) \<inter> insert d (?G d) = {}"
    if cd: "c \<in> set (kids db u i)" "d \<in> set (kids db u i)" "c \<noteq> d" for c d
  proof (rule ccontr)
    assume "insert c (?G c) \<inter> insert d (?G d) \<noteq> {}"
    then obtain y where y: "y \<in> insert c (?G c)" "y \<in> insert d (?G d)" by blast
    then have x: "below_eq db u (fld_id c) (fld_id y)" "below_eq db u (fld_id d) (fld_id y)"
      by (auto simp: rows_below_def below_eq_def)
    have "fld_id c = fld_id d"
      by (rule siblings_apart[OF Suc.prems(1) _ _ ok[OF cd(1)] ok[OF cd(2)] x]) (use cd child_kids in auto)
    then show False
      using cd unique_keyD[OF Suc.prems(1), of c d] by (simp add: kids_def)
  qed
  ultimately show ?case unfolding bs(2) by (rule distinct_concat_map2)
qed simp

text \<open>
  C30: Listing the subfolders of a folder that is not below itself, with a recursion budget
  above the number of rows, succeeds and gives every folder below it exactly once.
\<close>

theorem get_children_folders_exact:
  assumes "readable u db" "has_folder fid u db" "\<not> below db u fid fid" "length db < n"
  shows "\<exists>fs. get_children_folders_by_id_and_user_id n fid u db = Some fs \<and>
    set fs = rows_below db u fid \<and> distinct (map fld_id fs)"
proof -
  have uk: "unique_key fld_id db" using assms(1) by (simp add: readable_def)
  obtain f where f: "first_row (owned fid u) db = Some f" "fld_id f = fid"
    using assms(2) first_row_SomeD by (fastforce simp: has_folder_def owned_def)
  have "card (rows_below db u fid) \<le> length db"
    using card_mono[of "set db" "rows_below db u fid"] card_length[of db] by (simp add: rows_below_def)
  then obtain fs where fs: "get_children n u fid db = Inr fs"
    using get_children_total[OF assms(1,3)] assms(4) by fastforce
  have s: "set fs = rows_below db u fid" by (rule set_get_children[OF uk fs])
  moreover have "distinct (map fld_id fs)"
    using distinct_get_children[OF uk fs] s unique_keyD[OF uk]
    by (fastforce simp: distinct_map inj_on_def rows_below_def)
  ultimately show ?thesis using f fs by (simp add: get_children_folders_by_id_and_user_id_def)
qed

text \<open>\<open>without R db\<close>: the table after the rows with an id in \<open>R\<close> are gone.\<close>

definition without :: "id set \<Rightarrow> folder_db \<Rightarrow> folder_db" where
  "without R db = filter (\<lambda>f. fld_id f \<notin> R) db"

lemma without_del: "del_rows (\<lambda>f. fld_id f = k) (without R db) = without (insert k R) db"
  by (simp add: without_def del_rows_def conj_commute)

lemma without_empty [simp]: "without {} db = db"
  by (simp add: without_def)

lemma delete_row_without:
  assumes "c \<in> set db" "fld_id c \<notin> R"
  shows "delete_row (fld_id c) (None, ids, without R db) = (None, ids @ [fld_id c], without (insert (fld_id c) R) db)"
proof -
  have "first_row (\<lambda>f. fld_id f = fld_id c) (without R db) \<noteq> None"
    using assms by (auto simp: first_row_None_iff without_def)
  then show ?thesis by (auto simp: delete_row_def without_del)
qed

lemma delete_list:
  assumes "list_all2 (\<lambda>c b. \<forall>ids R. fld_id ` set b \<inter> R = {} \<longrightarrow>
        delete_children n u (fld_id c) (None, ids, without R db) =
          (None, ids @ map fld_id b, without (R \<union> fld_id ` set b) db)) cs bs"
    and "set cs \<subseteq> set db" "distinct (map fld_id (concat (map2 (\<lambda>c b. b @ [c]) cs bs)))"
    and "fld_id ` set (concat (map2 (\<lambda>c b. b @ [c]) cs bs)) \<inter> R = {}"
  shows "foldl (\<lambda>s c. delete_row (fld_id c) (delete_children n u (fld_id c) s)) (None, ids, without R db) cs =
    (None, ids @ map fld_id (concat (map2 (\<lambda>c b. b @ [c]) cs bs)),
     without (R \<union> fld_id ` set (concat (map2 (\<lambda>c b. b @ [c]) cs bs))) db)"
  using assms
proof (induction arbitrary: ids R rule: list_all2_induct)
  case (Cons c cs b bs)
  define L where "L = concat (map2 (\<lambda>c b. b @ [c]) cs bs)"
  have L: "concat (map2 (\<lambda>c b. b @ [c]) (c # cs) (b # bs)) = (b @ [c]) @ L" by (simp add: L_def)
  note prems = Cons.prems[unfolded L]
  let ?R = "insert (fld_id c) (R \<union> fld_id ` set b)"
  have 1: "delete_children n u (fld_id c) (None, ids, without R db) =
      (None, ids @ map fld_id b, without (R \<union> fld_id ` set b) db)"
    using Cons.hyps(1) prems(3) by auto
  have 2: "delete_row (fld_id c) (None, ids @ map fld_id b, without (R \<union> fld_id ` set b) db) =
      (None, (ids @ map fld_id b) @ [fld_id c], without ?R db)"
    by (rule delete_row_without) (use prems in auto)
  have "set cs \<subseteq> set db" "distinct (map fld_id L)" "fld_id ` set L \<inter> ?R = {}" using prems by auto
  from Cons.IH[OF this[unfolded L_def], of "(ids @ map fld_id b) @ [fld_id c]"]
  have 3: "foldl (\<lambda>s c. delete_row (fld_id c) (delete_children n u (fld_id c) s))
        (None, (ids @ map fld_id b) @ [fld_id c], without ?R db) cs =
      (None, ((ids @ map fld_id b) @ [fld_id c]) @ map fld_id L, without (?R \<union> fld_id ` set L) db)"
    unfolding L_def .
  show ?case unfolding L using 1 2 3 by (simp add: Un_assoc insert_commute image_Un)
qed (simp add: without_def)

lemma kids_without:
  assumes "fld_id ` set (kids db u i) \<inter> R = {}"
  shows "all_rows (\<lambda>f. fld_parent_id f = Some i \<and> fld_user_id f = u) (without R db) = kids db u i"
  using assms by (auto simp: kids_def without_def all_rows_def intro!: filter_cong)

lemma delete_children_lists:
  "unique_key fld_id db \<Longrightarrow> get_children n u i db = Inr fs \<Longrightarrow> fld_id ` set fs \<inter> R = {} \<Longrightarrow>
   delete_children n u i (None, ids, without R db) = (None, ids @ map fld_id fs, without (R \<union> fld_id ` set fs) db)"
proof (induction n arbitrary: i fs ids R)
  case (Suc n)
  obtain bs where bs: "list_all2 (\<lambda>c b. get_children n u (fld_id c) db = Inr b) (kids db u i) bs"
      "fs = concat (map2 (\<lambda>c b. b @ [c]) (kids db u i) bs)"
      and gp: "get_folders_by_parent_id_and_user_id (Some i) u db = Inr (kids db u i)"
    using Suc.prems(2) get_children_Suc by blast
  have sub: "set (kids db u i) \<subseteq> set fs"
    using set_get_children[OF Suc.prems(1,2)] rows_below_kids[OF Suc.prems(1), of u i] by auto
  have kw: "get_folders_by_parent_id_and_user_id (Some i) u (without R db) = Inr (kids db u i)"
    using gp kids_without[of db u i R] sub Suc.prems(3)
    by (fastforce simp: get_folders_by_parent_id_and_user_id_def kids_def)
  have d: "distinct (map fld_id fs)"
    using distinct_get_children[OF Suc.prems(1,2)] set_get_children[OF Suc.prems(1,2)] unique_keyD[OF Suc.prems(1)]
    by (fastforce simp: distinct_map inj_on_def rows_below_def)
  have "list_all2 (\<lambda>c b. \<forall>ids R. fld_id ` set b \<inter> R = {} \<longrightarrow>
        delete_children n u (fld_id c) (None, ids, without R db) =
          (None, ids @ map fld_id b, without (R \<union> fld_id ` set b) db)) (kids db u i) bs"
    using bs(1) by (rule list_all2_mono) (use Suc.IH[OF Suc.prems(1)] in blast)
  from delete_list[OF this, of R ids] show ?case
    using d Suc.prems(3) kw by (simp add: bs(2)) (auto simp: kids_def)
qed simp

lemma delete_tree:
  assumes "readable u db" "has_folder fid u db" "\<not> below db u fid fid" "length db < n"
  shows "\<exists>ids. delete_folder_by_id_and_user_id n fid u db =
      (ids, filter (\<lambda>f. \<not> (fld_user_id f = u \<and> below_eq db u fid (fld_id f))) db) \<and>
    distinct ids \<and> set ids = insert fid (fld_id ` rows_below db u fid)"
proof -
  have uk: "unique_key fld_id db" using assms(1) by (simp add: readable_def)
  obtain f where f: "first_row (owned fid u) db = Some f" "f \<in> set db" "fld_id f = fid" "fld_user_id f = u"
    using assms(2) first_row_SomeD by (fastforce simp: has_folder_def owned_def)
  have "card (rows_below db u fid) \<le> length db"
    using card_mono[of "set db" "rows_below db u fid"] card_length[of db] by (simp add: rows_below_def)
  then obtain fs where fs: "get_children n u fid db = Inr fs"
    using get_children_total[OF assms(1,3)] assms(4) by fastforce
  have s: "set fs = rows_below db u fid" by (rule set_get_children[OF uk fs])
  have d: "distinct (map fld_id fs)"
    using distinct_get_children[OF uk fs] s unique_keyD[OF uk]
    by (fastforce simp: distinct_map inj_on_def rows_below_def)
  have r: "delete_folder_by_id_and_user_id n fid u db = (fid # map fld_id fs, without (insert fid (fld_id ` set fs)) db)"
    using delete_children_lists[OF uk fs, of "{}" "[fid]"] f
    by (simp add: delete_folder_by_id_and_user_id_def without_del)
  have "fld_id g \<in> insert fid (fld_id ` set fs) \<longleftrightarrow> fld_user_id g = u \<and> below_eq db u fid (fld_id g)"
    if g: "g \<in> set db" for g
  proof -
    have "fld_id g \<in> fld_id ` set fs \<longleftrightarrow> g \<in> rows_below db u fid"
      unfolding s using unique_keyD[OF uk _ g] by (auto simp: rows_below_def)
    moreover have "fld_id g = fid \<Longrightarrow> g = f" using unique_keyD[OF uk g f(2)] f(3) by simp
    ultimately show ?thesis using f g by (auto simp: rows_below_def below_eq_def)
  qed
  then have "without (insert fid (fld_id ` set fs)) db =
      filter (\<lambda>f. \<not> (fld_user_id f = u \<and> below_eq db u fid (fld_id f))) db"
    unfolding without_def by (intro filter_cong) auto
  moreover have "fid \<notin> fld_id ` set fs" using assms(3) s by (auto simp: rows_below_def)
  ultimately show ?thesis using r d s by simp
qed

text \<open>
  C12: Deleting a folder that is not below itself, with a recursion budget above the number of
  rows, removes exactly that folder and every folder below it and returns their ids, each
  once; no other row is touched.
\<close>

theorem delete_folder_exact:
  assumes "readable u db" "has_folder fid u db" "\<not> below db u fid fid" "length db < n"
  shows "\<exists>ids. delete_folder_by_id_and_user_id n fid u db =
      (ids, filter (\<lambda>f. \<not> (fld_user_id f = u \<and> below_eq db u fid (fld_id f))) db) \<and>
    distinct ids \<and> set ids = insert fid (fld_id ` rows_below db u fid)"
  by (rule delete_tree[OF assms])

lemma not_below_itself: "(\<And>f. f \<in> set db \<Longrightarrow> fld_id f = i \<Longrightarrow> fld_parent_id f = None) \<Longrightarrow> \<not> below db u i i"
  unfolding below_iff_last[of db u i i] by (fastforce simp: child_def)

definition sample_folder :: "string \<Rightarrow> string option \<Rightarrow> string \<Rightarrow> folder" where
  "sample_folder fid parent name = \<lparr>fld_id = fid, fld_parent_id = parent, fld_user_id = ''kim'', fld_name = Some name,
     fld_items = None, fld_meta = None, fld_data = None, fld_is_expanded = False, fld_created_at = 1,
     fld_updated_at = 1\<rparr>"

definition sample_folders :: folder_db where
  "sample_folders = [sample_folder ''a'' None ''work'', sample_folder ''b'' (Some ''a'') ''drafts'',
     sample_folder ''c'' None ''home'']"

lemmas sample_folder_defs = sample_folders_def sample_folder_def

lemma sample_folders_ok:
  "readable ''kim'' sample_folders" "has_folder ''a'' ''kim'' sample_folders" "length sample_folders < 4"
  by (simp_all add: sample_folder_defs readable_def has_folder_def owned_def)

lemma sample_not_below: "\<not> below sample_folders ''kim'' ''a'' ''a''"
  by (rule not_below_itself) (auto simp: sample_folder_defs)

lemma get_children_folders_exact_witness:
  "\<exists>fs. get_children_folders_by_id_and_user_id 4 ''a'' ''kim'' sample_folders = Some fs \<and>
     set fs = rows_below sample_folders ''kim'' ''a'' \<and> distinct (map fld_id fs)"
  by (rule get_children_folders_exact[OF sample_folders_ok(1,2) sample_not_below sample_folders_ok(3)])

lemma delete_folder_exact_witness:
  "\<exists>ids. delete_folder_by_id_and_user_id 4 ''a'' ''kim'' sample_folders =
      (ids, filter (\<lambda>f. \<not> (fld_user_id f = ''kim'' \<and> below_eq sample_folders ''kim'' ''a'' (fld_id f))) sample_folders) \<and>
    distinct ids \<and> set ids = insert ''a'' (fld_id ` rows_below sample_folders ''kim'' ''a'')"
  by (rule delete_folder_exact[OF sample_folders_ok(1,2) sample_not_below sample_folders_ok(3)])

section \<open>Cycles\<close>

text \<open>
  \<open>ring\<close>: every folder of the set has a child in it. A deletion that reaches the set runs
  into the recursion limit, and keeps the rows of the set.
\<close>

definition ring :: "folder_db \<Rightarrow> id \<Rightarrow> id set \<Rightarrow> bool" where
  "ring db u C \<longleftrightarrow> (\<forall>i \<in> C. \<exists>j \<in> C. child db u i j)"

definition ring_kept :: "folder_db \<Rightarrow> id set \<Rightarrow> deletion \<Rightarrow> bool" where
  "ring_kept db C s \<longleftrightarrow> filter (\<lambda>f. fld_id f \<in> C) (snd (snd s)) = filter (\<lambda>f. fld_id f \<in> C) db"

lemma ring_kept_delete_row:
  "ring_kept db C s \<Longrightarrow> k \<notin> C \<or> fst s \<noteq> None \<Longrightarrow> ring_kept db C (delete_row k s)"
proof (cases s)
  case (fields err ids d)
  assume r: "ring_kept db C s" and k: "k \<notin> C \<or> fst s \<noteq> None"
  have "filter (\<lambda>f. fld_id f \<in> C) (del_rows (\<lambda>f. fld_id f = k) d) = filter (\<lambda>f. fld_id f \<in> C) d" if "k \<notin> C"
    using that by (auto simp: del_rows_def intro: filter_cong)
  then show ?thesis using r k fields
    by (auto simp: delete_row_def ring_kept_def split: option.splits)
qed

lemma delete_row_error [simp]: "fst s \<noteq> None \<Longrightarrow> delete_row k s = s"
  by (auto simp: delete_row_def split: prod.splits option.splits)

lemma delete_children_error [simp]: "fst s \<noteq> None \<Longrightarrow> delete_children n u i s = s"
  by (cases s) (auto simp: delete_children.simps)

lemma delete_loop_ring:
  assumes "\<And>c s. ring_kept db C s \<Longrightarrow> ring_kept db C (g c s) \<and> (c \<in> C \<longrightarrow> fst (g c s) \<noteq> None)"
    and "\<And>c s. fst s \<noteq> None \<Longrightarrow> g c s = s"
  shows "ring_kept db C s \<Longrightarrow>
     ring_kept db C (foldl (\<lambda>s c. delete_row (fld_id c) (g (fld_id c) s)) s cs) \<and>
     (fst s \<noteq> None \<or> (\<exists>c \<in> set cs. fld_id c \<in> C) \<longrightarrow>
        fst (foldl (\<lambda>s c. delete_row (fld_id c) (g (fld_id c) s)) s cs) \<noteq> None)"
proof (induction cs arbitrary: s)
  case (Cons c cs)
  let ?s = "delete_row (fld_id c) (g (fld_id c) s)"
  have "ring_kept db C ?s"
    using assms(1)[OF Cons.prems, of "fld_id c"] by (intro ring_kept_delete_row) auto
  moreover have "fst s \<noteq> None \<or> fld_id c \<in> C \<longrightarrow> fst ?s \<noteq> None"
    using assms(1)[OF Cons.prems, of "fld_id c"] assms(2)[of s "fld_id c"] by (auto simp del: not_None_eq)
  ultimately show ?case using Cons.IH[of ?s] by auto
qed simp

lemma delete_children_ring:
  assumes "ring db u C"
  shows "ring_kept db C s \<Longrightarrow>
    ring_kept db C (delete_children n u i s) \<and> (i \<in> C \<longrightarrow> fst (delete_children n u i s) \<noteq> None)"
proof (induction n arbitrary: i s)
  case 0
  then show ?case by (cases s; cases "fst s") (auto simp: ring_kept_def)
next
  case (Suc n)
  show ?case
  proof (cases "fst s")
    case None
    then obtain ids d where s: "s = (None, ids, d)" by (cases s) auto
    show ?thesis
    proof (cases "get_folders_by_parent_id_and_user_id (Some i) u d")
      case (Inl e)
      then show ?thesis using Suc.prems s by (auto simp: ring_kept_def)
    next
      case (Inr cs)
      have "\<exists>c \<in> set cs. fld_id c \<in> C" if iC: "i \<in> C"
      proof -
        obtain j f where jf: "j \<in> C" "f \<in> set db" "fld_id f = j" "fld_user_id f = u" "fld_parent_id f = Some i"
          using assms iC unfolding ring_def child_def by blast
        then have "f \<in> set (filter (\<lambda>f. fld_id f \<in> C) d)" using Suc.prems s by (simp add: ring_kept_def)
        then have "f \<in> set cs" using jf by_parent_kids[OF Inr] by (simp add: kids_def)
        then show ?thesis using jf by auto
      qed
      then show ?thesis
        using delete_loop_ring[of db C "delete_children n u" s cs, OF Suc.IH] Suc.prems s Inr by auto
    qed
  qed (use Suc.prems in simp)
qed

lemma ring_of_cycle:
  assumes "below db u i i"
  shows "ring db u {j. below_eq db u i j \<and> below_eq db u j i}"
  unfolding ring_def
proof
  fix j assume j: "j \<in> {j. below_eq db u i j \<and> below_eq db u j i}"
  then have "below db u j i" using assms by (auto simp: below_eq_def)
  then obtain k where k: "child db u j k" "below_eq db u k i" using below_iff_first by blast
  have "below_eq db u j k" using below_child[OF k(1)] by (simp add: below_eq_def)
  then have "below_eq db u i k" using j below_eq_trans by blast
  then show "\<exists>k \<in> {j. below_eq db u i j \<and> below_eq db u j i}. child db u j k" using k by blast
qed

lemma subset_of_filter: "filter (\<lambda>f. k f \<in> C) d = filter (\<lambda>f. k f \<in> C) db \<Longrightarrow> {f \<in> set db. k f \<in> C} \<subseteq> set d"
  by (drule arg_cong[of _ _ set]) auto

lemma cycle_kept:
  assumes "below db u fid fid"
  shows "fst (delete_folder_by_id_and_user_id n fid u db) = [] \<and>
    {f \<in> set db. below_eq db u fid (fld_id f) \<and> below_eq db u (fld_id f) fid}
      \<subseteq> set (snd (delete_folder_by_id_and_user_id n fid u db))"
proof (cases "first_row (owned fid u) db")
  case (Some f)
  let ?C = "{j. below_eq db u fid j \<and> below_eq db u j fid}"
  have f: "fld_id f = fid" using first_row_SomeD[OF Some] by (simp add: owned_def)
  obtain e ids d where d: "delete_children n u fid (None, [fid], db) = (e, ids, d)" by (cases "delete_children n u fid (None, [fid], db)") auto
  have "ring_kept db ?C (e, ids, d)" "e \<noteq> None"
    using delete_children_ring[OF ring_of_cycle[OF assms], of "(None, [fid], db)" n fid] d
    by (auto simp: ring_kept_def)
  then obtain x where "e = Some x" "filter (\<lambda>f. fld_id f \<in> ?C) d = filter (\<lambda>f. fld_id f \<in> ?C) db"
    by (auto simp: ring_kept_def)
  moreover from this(2) have "{f \<in> set db. fld_id f \<in> ?C} \<subseteq> set d"
    by (rule subset_of_filter)
  ultimately show ?thesis using Some f d by (simp add: delete_folder_by_id_and_user_id_def)
qed (simp add: delete_folder_by_id_and_user_id_def)

lemma cycle_no_deletion: "below db u fid fid \<Longrightarrow> fst (delete_folder_by_id_and_user_id n fid u db) = []"
  using cycle_kept by blast

text \<open>
  A folder that is below itself cannot be deleted: whatever the recursion limit, the call
  reports no deleted folder, and every row of the cycle is still there.
\<close>

lemma delete_folder_on_cycle:
  assumes "below db u fid fid"
  shows "fst (delete_folder_by_id_and_user_id n fid u db) = [] \<and>
    {f \<in> set db. below_eq db u fid (fld_id f) \<and> below_eq db u (fld_id f) fid}
      \<subseteq> set (snd (delete_folder_by_id_and_user_id n fid u db))"
  by (rule cycle_kept[OF assms])

definition ring_rows :: folder_db where
  "ring_rows = [sample_folder ''a'' (Some ''b'') ''work'', sample_folder ''b'' (Some ''a'') ''drafts'']"

lemma ring_rows_below: "below ring_rows ''kim'' ''a'' ''a''"
proof -
  have "child ring_rows ''kim'' ''a'' ''b''" "child ring_rows ''kim'' ''b'' ''a''"
    by (simp_all add: child_def ring_rows_def sample_folder_def)
  then show ?thesis using below_trans[OF below_child below_child] by blast
qed

lemma delete_folder_on_cycle_witness:
  "fst (delete_folder_by_id_and_user_id 1000 ''a'' ''kim'' ring_rows) = []"
  using delete_folder_on_cycle[OF ring_rows_below] by blast

text \<open>
  The handler that moves a folder accepts a move below the folder's own subfolder: two
  accepted moves of top-level folders of one user make a cycle, after which neither
  can be deleted, whatever the recursion limit.
\<close>

lemma moves_make_cycle:
  defines "start \<equiv> [sample_folder ''a'' None ''work'', sample_folder ''b'' None ''drafts'']"
  defines "s1 \<equiv> update_folder_parent_id_by_id None 2 ''a'' ''kim'' (Some ''b'') start"
  defines "s2 \<equiv> update_folder_parent_id_by_id None 3 ''b'' ''kim'' (Some ''a'') (snd s1)"
  shows "\<not> (\<exists>e. fst s1 = Inl e) \<and> \<not> (\<exists>e. fst s2 = Inl e) \<and>
    \<not> (\<exists>n. fst (delete_folder_by_id_and_user_id n ''a'' ''kim'' (snd s2)) \<noteq> []) \<and>
    \<not> (\<exists>n. fst (delete_folder_by_id_and_user_id n ''b'' ''kim'' (snd s2)) \<noteq> [])"
proof -
  have 1: "s1 = (Inr (Some ((sample_folder ''a'' (Some ''b'') ''work'')\<lparr>fld_updated_at := 2\<rparr>)),
      [(sample_folder ''a'' (Some ''b'') ''work'')\<lparr>fld_updated_at := 2\<rparr>, sample_folder ''b'' None ''drafts''])"
    by (simp add: s1_def start_def update_folder_parent_id_by_id_def get_folder_by_id_and_user_id_def owned_def
        sample_folder_def folder_model_def get_folder_by_parent_id_and_user_id_and_name_def
        update_folder_parent_id_by_id_and_user_id_def Let_def)
  have 2: "s2 = (Inr (Some ((sample_folder ''b'' (Some ''a'') ''drafts'')\<lparr>fld_updated_at := 3\<rparr>)),
      [(sample_folder ''a'' (Some ''b'') ''work'')\<lparr>fld_updated_at := 2\<rparr>,
       (sample_folder ''b'' (Some ''a'') ''drafts'')\<lparr>fld_updated_at := 3\<rparr>])"
    by (simp add: s2_def 1 update_folder_parent_id_by_id_def get_folder_by_id_and_user_id_def owned_def
        sample_folder_def folder_model_def get_folder_by_parent_id_and_user_id_and_name_def
        update_folder_parent_id_by_id_and_user_id_def Let_def)
  have c: "child (snd s2) ''kim'' ''a'' ''b''" "child (snd s2) ''kim'' ''b'' ''a''"
    by (simp_all add: child_def 2 sample_folder_def)
  have "below (snd s2) ''kim'' ''a'' ''a''" "below (snd s2) ''kim'' ''b'' ''b''"
    using c below_trans[OF below_child below_child] by blast+
  then show ?thesis using 1 2 cycle_no_deletion by auto
qed

section \<open>Names of siblings\<close>

definition sibling_key :: "folder \<Rightarrow> id \<times> id option \<times> string option" where
  "sibling_key f = (fld_user_id f, fld_parent_id f, fld_name f)"

definition names_unique :: "folder_db \<Rightarrow> bool" where
  "names_unique db \<longleftrightarrow> unique_key fld_id db \<and> unique_key sibling_key db"

lemma like_self: "like None p p"
proof (induction p)
  case (Cons c p)
  then show ?case by (cases "c = CHR ''%''"; cases p) auto
qed simp

lemma ilike_self: "ilike None n n"
  by (simp add: ilike_def like_self)

lemma no_sibling:
  assumes "get_folder_by_parent_id_and_user_id_and_name None p u n db = None" "f \<in> set db"
  shows "sibling_key f \<noteq> (u, p, Some n)"
proof
  assume k: "sibling_key f = (u, p, Some n)"
  let ?P = "\<lambda>f. fld_parent_id f = p \<and> fld_user_id f = u \<and>
                 (case fld_name f of None \<Rightarrow> False | Some m \<Rightarrow> ilike None m n)"
  have "?P f" using k ilike_self by (simp add: sibling_key_def)
  then have "first_row ?P db \<noteq> None" using assms(2) first_row_None_iff[of ?P db] by blast
  then obtain g where g: "first_row ?P db = Some g" by blast
  then have "fld_name g \<noteq> None" using first_row_SomeD[OF g] by (auto split: option.splits)
  then show False using assms(1) g
    by (auto simp: get_folder_by_parent_id_and_user_id_and_name_def folder_model_def)
qed

lemma unique_upd_one:
  assumes "unique_key key db" "unique_key fld_id db" "f \<in> set db"
    and "\<And>g. g \<in> set db \<Longrightarrow> fld_id g \<noteq> fld_id f \<Longrightarrow> key g \<noteq> key f'"
  shows "unique_key key (upd_rows (owned (fld_id f) (fld_user_id f)) (\<lambda>_. f') db)"
  using assms
proof (induction db)
  case (Cons g db)
  have eq: "owned (fld_id f) (fld_user_id f) h \<longleftrightarrow> h = f" if "h \<in> set (g # db)" for h
    using unique_keyD[OF Cons.prems(2) that Cons.prems(3)] by (auto simp: owned_def)
  show ?case
  proof (cases "f \<in> set db")
    case True
    then have "fld_id g \<noteq> fld_id f" using Cons.prems(2) by auto
    then have gf: "\<not> owned (fld_id f) (fld_user_id f) g" "key g \<noteq> key f'" using Cons.prems(4)[of g] by (auto simp: owned_def)
    have "key g \<notin> key ` set (upd_rows (owned (fld_id f) (fld_user_id f)) (\<lambda>_. f') db)"
      using Cons.prems(1) gf(2) by (auto simp: set_upd_rows)
    then show ?thesis using Cons True gf by auto
  next
    case False
    then have g: "g = f" using Cons.prems(3) by simp
    have "upd_rows (owned (fld_id f) (fld_user_id f)) (\<lambda>_. f') db = db"
      using eq False by (auto simp: upd_rows_def intro: map_idI)
    moreover have "key h \<noteq> key f'" if "h \<in> set db" for h
    proof -
      have "fld_id h \<in> fld_id ` set db" using that by simp
      then have "fld_id h \<noteq> fld_id f" using Cons.prems(2) g by auto
      then show ?thesis using Cons.prems(4)[of h] that by simp
    qed
    then have "key f' \<notin> key ` set db" by force
    ultimately show ?thesis using g eq Cons.prems(1) by auto
  qed
qed simp

lemma names_unique_upd:
  assumes "names_unique db" "first_row (owned fid u) db = Some f" "fld_id f' = fid"
    and "\<And>g. g \<in> set db \<Longrightarrow> fld_id g \<noteq> fid \<Longrightarrow> sibling_key g \<noteq> sibling_key f'"
  shows "names_unique (upd_rows (owned fid u) (\<lambda>_. f') db)"
proof -
  have f: "f \<in> set db" "fld_id f = fid" "fld_user_id f = u" using first_row_SomeD[OF assms(2)] by (auto simp: owned_def)
  have u: "unique_key fld_id db" "unique_key sibling_key db" using assms(1) by (auto simp: names_unique_def)
  have "unique_key sibling_key (upd_rows (owned (fld_id f) (fld_user_id f)) (\<lambda>_. f') db)"
    by (rule unique_upd_one[OF u(2,1) f(1)]) (use assms(4) f in simp)
  moreover have "unique_key fld_id (upd_rows (owned (fld_id f) (fld_user_id f)) (\<lambda>_. f') db)"
    by (rule unique_upd_one[OF u(1,1) f(1)]) (use assms(3) f in simp)
  ultimately show ?thesis using f by (simp add: names_unique_def)
qed

lemma names_unique_same_key:
  assumes "names_unique db" "first_row (owned fid u) db = Some f" "sibling_key f' = sibling_key f" "g \<in> set db" "fld_id g \<noteq> fid"
  shows "sibling_key g \<noteq> sibling_key f'"
proof -
  have "f \<in> set db" "fld_id f = fid" using first_row_SomeD[OF assms(2)] by (auto simp: owned_def)
  then show ?thesis using assms unique_keyD[of sibling_key db g f] by (auto simp: names_unique_def)
qed

lemma names_unique_insert:
  assumes "names_unique db" "ff_user_id form = None"
    "get_folder_by_parent_id_and_user_id_and_name None p u (ff_name form) db = None"
  shows "names_unique (snd (insert_new_folder uid t1 t2 u form p db))"
proof -
  have "(u, p, Some (ff_name form)) \<notin> sibling_key ` set db" using no_sibling[OF assms(3)] by force
  then have "sibling_key f \<notin> sibling_key ` set db"
    if "fld_user_id f = u" "fld_parent_id f = p" "fld_name f = Some (ff_name form)" for f
    using that by (simp add: sibling_key_def[of f])
  then show ?thesis
    using assms(1,2) by (simp add: insert_new_folder_def Let_def names_unique_def add_row_def unique_key_append)
qed

lemma names_unique_rename:
  assumes "names_unique db"
  shows "names_unique (snd (update_folder_by_id_and_user_id now fid u form db))"
proof (cases "first_row (owned fid u) db")
  case (Some f)
  let ?dup = "first_row (\<lambda>g. fld_name g = set_or None (fu_name form) \<and>
                  fld_parent_id g = fld_parent_id f \<and> fld_user_id g = u) db"
  have f: "fld_user_id f = u" "fld_id f = fid" "f \<in> set db" using first_row_SomeD[OF Some] by (auto simp: owned_def)
  have free: "sibling_key g \<noteq> (u, fld_parent_id f, set_or (fld_name f) (fu_name form))"
    if d: "?dup = None \<or> (\<exists>h. ?dup = Some h \<and> fld_id h = fid)" and g: "g \<in> set db" "fld_id g \<noteq> fid" for g
  proof (cases "fu_name form")
    case None
    then show ?thesis using names_unique_same_key[OF assms Some refl g] f by (simp add: sibling_key_def)
  next
    case (Some n)
    show ?thesis
    proof (cases ?dup)
      case None
      then show ?thesis using Some g(1) by (auto simp: first_row_None_iff sibling_key_def)
    next
      case (Some h)
      then have "h \<in> set db" "sibling_key h = (u, fld_parent_id f, n)" "fld_id h = fid"
        using d first_row_SomeD[OF Some] \<open>fu_name form = _\<close> by (auto simp: sibling_key_def)
      then show ?thesis
        using g unique_keyD[of sibling_key db g h] assms \<open>fu_name form = _\<close> by (auto simp: names_unique_def)
    qed
  qed
  have w: "names_unique (snd (write_folder now fid u form f db))"
    if d: "?dup = None \<or> (\<exists>h. ?dup = Some h \<and> fld_id h = fid)"
    using free[OF d] f assms Some
    by (auto simp: write_folder_def sibling_key_def and_then_Inr_iff intro!: names_unique_upd split: sum.splits)
  show ?thesis
    using w assms by (auto simp: update_folder_by_id_and_user_id_def Some split: option.splits)
qed (use assms in \<open>simp add: update_folder_by_id_and_user_id_def\<close>)

datatype folder_op =
    CreateFolder id time time id folder_form
  | RenameFolder time id id folder_update_form
  | MoveFolder time id id "id option"
  | ExpandFolder time id id bool
  | DropFolder nat id id

fun folder_step :: "folder_op \<Rightarrow> folder_db \<Rightarrow> folder_db" where
  "folder_step (CreateFolder uid t1 t2 u form) db = snd (create_folder None uid t1 t2 u form db)"
| "folder_step (RenameFolder now fid u form) db = snd (update_folder_name_by_id None now fid u form db)"
| "folder_step (MoveFolder now fid u p) db = snd (update_folder_parent_id_by_id None now fid u p db)"
| "folder_step (ExpandFolder now fid u b) db = snd (update_folder_is_expanded_by_id now fid u b db)"
| "folder_step (DropFolder n fid u) db = snd (delete_folder_by_id_and_user_id n fid u db)"

fun own_form :: "folder_op \<Rightarrow> bool" where
  "own_form (CreateFolder uid t1 t2 u form) = (ff_user_id form = None)"
| "own_form _ = True"

lemma names_unique_del: "names_unique db \<Longrightarrow> names_unique (del_rows p db)"
  by (auto simp: names_unique_def)

lemma names_unique_delete_row: "names_unique (snd (snd s)) \<Longrightarrow> names_unique (snd (snd (delete_row k s)))"
  by (auto simp: delete_row_def intro: names_unique_del split: prod.splits option.splits)

lemma names_unique_delete_children:
  "names_unique (snd (snd s)) \<Longrightarrow> names_unique (snd (snd (delete_children n u i s)))"
proof (induction n arbitrary: i s)
  case (Suc n)
  have loop: "names_unique (snd (snd s)) \<Longrightarrow>
      names_unique (snd (snd (foldl (\<lambda>s c. delete_row (fld_id c) (delete_children n u (fld_id c) s)) s cs)))"
    for s and cs :: "folder list"
  proof (induction cs arbitrary: s)
    case (Cons c cs)
    then show ?case using Cons.IH[OF names_unique_delete_row[OF Suc.IH[OF Cons.prems]]] by simp
  qed simp
  show ?case
  proof (cases "fst s")
    case None
    then obtain ids d where s: "s = (None, ids, d)" by (cases s) auto
    then show ?thesis using loop[of s] Suc.prems by (auto split: sum.splits)
  qed (use Suc.prems in simp)
next
  case 0
  then show ?case by (cases s; cases "fst s") auto
qed

lemma names_unique_delete:
  "names_unique db \<Longrightarrow> names_unique (snd (delete_folder_by_id_and_user_id n fid u db))"
  using names_unique_delete_children[of "(None, [fid], db)" n u fid]
  by (auto simp: delete_folder_by_id_and_user_id_def owned_def dest!: first_row_SomeD intro: names_unique_del
      split: option.splits prod.splits)

lemma names_unique_step:
  assumes "names_unique db" "own_form x"
  shows "names_unique (folder_step x db)"
proof (cases x)
  case (CreateFolder uid t1 t2 u form)
  then show ?thesis using assms names_unique_insert[of db form None u uid t1 t2]
    by (auto simp: create_folder_def split: option.splits prod.splits)
next
  case (RenameFolder now fid u form)
  then show ?thesis using assms names_unique_rename[OF assms(1), of now fid u form]
    by (auto simp: update_folder_name_by_id_def split: option.splits prod.splits)
next
  case (MoveFolder now fid u p)
  show ?thesis
  proof (cases "get_folder_by_id_and_user_id fid u db")
    case (Some f)
    then have r: "first_row (owned fid u) db = Some f" and fm: "folder_model f = Inr f"
      by (auto simp: get_folder_by_id_and_user_id_def folder_model_def split: option.splits if_splits)
    have f: "fld_id f = fid" "fld_user_id f = u" using first_row_SomeD[OF r] by (auto simp: owned_def)
    obtain n where n: "fld_name f = Some n" using fm by (auto simp: folder_model_def split: if_splits)
    have "names_unique (upd_rows (owned fid u) (\<lambda>_. f\<lparr>fld_parent_id := p, fld_updated_at := now\<rparr>) db)"
      if g: "get_folder_by_parent_id_and_user_id_and_name None p u n db = None"
      by (rule names_unique_upd[OF assms(1) r])
         (use f n no_sibling[OF g] in \<open>auto simp: sibling_key_def\<close>)
    then show ?thesis
      using MoveFolder Some r n assms(1)
      by (auto simp: update_folder_parent_id_by_id_def update_folder_parent_id_by_id_and_user_id_def Let_def
          split: option.splits)
  qed (use MoveFolder assms in \<open>simp add: update_folder_parent_id_by_id_def\<close>)
next
  case (ExpandFolder now fid u b)
  have "names_unique (upd_rows (owned fid u) (\<lambda>_. f\<lparr>fld_is_expanded := b, fld_updated_at := now\<rparr>) db)"
    if r: "first_row (owned fid u) db = Some f" for f
    by (rule names_unique_upd[OF assms(1) r])
       (use first_row_SomeD[OF r] names_unique_same_key[OF assms(1) r] in \<open>auto simp: sibling_key_def owned_def\<close>)
  then show ?thesis
    using ExpandFolder assms(1)
    by (auto simp: update_folder_is_expanded_by_id_def update_folder_is_expanded_by_id_and_user_id_def Let_def
        split: option.splits prod.splits)
qed (use assms names_unique_delete in simp)

text \<open>
  On a database whose \<open>ILIKE\<close> has no escape character, every sequence of the folder
  handlers keeps folder ids unique and no two folders of a user under one parent with the
  same name, provided no creation form carries an owner of its own.
\<close>

lemma folder_handlers_keep_names_unique:
  assumes "names_unique db" "list_all own_form xs"
  shows "names_unique (fold folder_step xs db)"
  using assms by (induction xs arbitrary: db) (auto simp: names_unique_step)

definition memo_form :: folder_form where
  "memo_form = \<lparr>ff_name = ''memo'', ff_data = None, ff_meta = None, ff_id = None, ff_user_id = None,
     ff_items = None, ff_is_expanded = None\<rparr>"

lemma folder_handlers_keep_names_unique_witness:
  "names_unique (fold folder_step [CreateFolder ''d'' 4 4 ''kim'' memo_form, MoveFolder 5 ''c'' ''kim'' (Some ''d''),
     DropFolder 9 ''a'' ''kim''] sample_folders)"
  by (rule folder_handlers_keep_names_unique)
     (simp_all add: names_unique_def sample_folder_defs sibling_key_def memo_form_def)

text \<open>
  A creation form may carry extra fields, and they win over the caller's: with a
  \<open>user_id\<close> in the form, the new folder belongs to that user and not to the caller.
\<close>

lemma insert_takes_form_owner:
  assumes "uid \<notin> fld_id ` set db" "ff_id form = None" "ff_user_id form = Some victim"
  shows "\<exists>f. insert_new_folder uid t1 t2 caller form parent db = (Some f, db @ [f]) \<and>
    fld_user_id f = victim \<and> fld_id f = uid \<and> fld_name f = Some (ff_name form)"
  using assms by (simp add: insert_new_folder_def add_row_def Let_def)

lemma insert_takes_form_owner_witness:
  "\<exists>f. insert_new_folder ''z'' 1 1 ''mallory'' (memo_form\<lparr>ff_user_id := Some ''kim''\<rparr>) None sample_folders =
     (Some f, sample_folders @ [f]) \<and> fld_user_id f = ''kim'' \<and> fld_id f = ''z'' \<and> fld_name f = Some ''memo''"
  using insert_takes_form_owner[of "''z''" sample_folders "memo_form\<lparr>ff_user_id := Some ''kim''\<rparr>" "''kim''" 1 1
      "''mallory''" None]
  by (simp add: memo_form_def sample_folder_defs)

text \<open>
  Renaming a folder to null is accepted and stored, and from then on the folders of its
  owner cannot be listed.
\<close>

lemma null_name_breaks_listing:
  assumes "get_folder_by_id_and_user_id fid u db = Some f"
    and "first_row (\<lambda>g. fld_name g = None \<and> fld_parent_id g = fld_parent_id f \<and> fld_user_id g = u) db = None"
  shows "\<exists>db'. update_folder_name_by_id esc now fid u
      \<lparr>fu_name = Some None, fu_data = None, fu_meta = None\<rparr> db = (Inr None, db') \<and>
    get_folders_by_user_id u db' = Inl ValueError"
proof -
  have r: "first_row (owned fid u) db = Some f"
    using assms(1) by (auto simp: get_folder_by_id_and_user_id_def folder_model_def split: option.splits if_splits)
  let ?f = "f\<lparr>fld_name := None, fld_updated_at := now\<rparr>"
  let ?db = "upd_rows (owned fid u) (\<lambda>_. ?f) db"
  have f: "f \<in> set db" "owned fid u f" using first_row_SomeD[OF r] by auto
  then have "?f \<in> set ?db" by (auto simp: set_upd_rows image_iff)
  then have "?f \<in> set (all_rows (\<lambda>f. fld_user_id f = u) ?db)" using f(2) by (auto simp: owned_def)
  moreover have "x \<in> set xs \<Longrightarrow> fld_name x = None \<Longrightarrow> each folder_model xs = Inl ValueError" for x xs
    by (induction xs) (auto simp: folder_model_def)
  ultimately have "get_folders_by_user_id u ?db = Inl ValueError"
    unfolding get_folders_by_user_id_def by (metis (no_types, lifting) folder.select_convs(4) folder.update_convs(4,10) folder.surjective)
  then show ?thesis
    using assms r
    by (simp add: update_folder_name_by_id_def update_folder_by_id_and_user_id_def write_folder_def merge_field_def
        folder_model_def)
qed

lemma null_name_breaks_listing_witness:
  "\<exists>db'. update_folder_name_by_id None 9 ''a'' ''kim''
      \<lparr>fu_name = Some None, fu_data = None, fu_meta = None\<rparr> sample_folders = (Inr None, db') \<and>
    get_folders_by_user_id ''kim'' db' = Inl ValueError"
  by (rule null_name_breaks_listing[where f = "sample_folder ''a'' None ''work''"])
     (simp_all add: sample_folder_defs get_folder_by_id_and_user_id_def owned_def folder_model_def)

end
