(* ===== verification/Channels.thy ===== *)
theory Channels
  imports User_Groups
begin

text \<open>
  \<^verbatim>\<open>models/channels.py\<close>: channels and their members. The state is the two tables; the
  schema constrains only the primary keys. A Python set of user ids is a list without
  repetitions, in whatever order the set is iterated. \<open>uid\<close> gives the UUID drawn for the
  membership of a user, and \<open>contains v g\<close> is the database's test that the JSON list \<open>v\<close>
  contains \<open>g\<close>.
\<close>

record channel =
  ch_id :: id
  ch_user_id :: id
  ch_type :: "string option"
  ch_name :: string
  ch_description :: "string option"
  ch_is_private :: "bool option"
  ch_data :: "dict option"
  ch_meta :: "dict option"
  ch_access_control :: "dict option"
  ch_created_at :: time
  ch_updated_at :: time
  ch_updated_by :: "id option"
  ch_archived_at :: "time option"
  ch_archived_by :: "id option"
  ch_deleted_at :: "time option"
  ch_deleted_by :: "id option"

record channel_member =
  cm_id :: id
  cm_channel_id :: id
  cm_user_id :: id
  cm_role :: "string option"
  cm_status :: "string option"
  cm_is_active :: bool
  cm_is_channel_muted :: bool
  cm_is_channel_pinned :: bool
  cm_data :: "dict option"
  cm_meta :: "dict option"
  cm_invited_at :: "time option"
  cm_invited_by :: "id option"
  cm_joined_at :: "time option"
  cm_left_at :: "time option"
  cm_last_read_at :: "time option"
  cm_created_at :: "time option"
  cm_updated_at :: "time option"

record channel_form =
  cf_name :: string
  cf_description :: "string option"
  cf_is_private :: "bool option"
  cf_data :: "dict option"
  cf_meta :: "dict option"
  cf_access_control :: "dict option"
  cf_group_ids :: "id list option"
  cf_user_ids :: "id list option"

record create_channel_form = channel_form +
  cf_type :: "string option"

record channel_db =
  channels :: "channel list"
  channel_members :: "channel_member list"

definition opt_list :: "'a list option \<Rightarrow> 'a list" where
  "opt_list v = (case v of None \<Rightarrow> [] | Some xs \<Rightarrow> xs)"

section \<open>Members\<close>

definition cm_key :: "channel_member \<Rightarrow> id \<times> id" where
  "cm_key m = (cm_channel_id m, cm_user_id m)"

definition membership_of :: "id \<Rightarrow> id \<Rightarrow> channel_member \<Rightarrow> bool" where
  "membership_of channel_id user_id m \<longleftrightarrow> cm_channel_id m = channel_id \<and> cm_user_id m = user_id"

text \<open>\<open>set.update\<close> with the members of a group: an empty group is looked up as \<open>None\<close>.\<close>

fun add_group_users :: "group_db \<Rightarrow> id list \<Rightarrow> id list \<Rightarrow> py_error + id list" where
  "add_group_users gdb [] users = Inr users"
| "add_group_users gdb (g # gs) users =
     (case get_group_user_ids_by_id g gdb of
        None \<Rightarrow> Inl TypeError
      | Some us \<Rightarrow> add_group_users gdb gs (users @ us))"

definition collect_unique_user_ids ::
  "group_db \<Rightarrow> id \<Rightarrow> id list option \<Rightarrow> id list option \<Rightarrow> py_error + id list" where
  "collect_unique_user_ids gdb invited_by user_ids group_ids =
     and_then (add_group_users gdb (opt_list group_ids) (opt_list user_ids @ [invited_by])) (\<lambda>users.
       Inr (remdups users))"

definition invited_member :: "id \<Rightarrow> id \<Rightarrow> id \<Rightarrow> time \<Rightarrow> id \<Rightarrow> channel_member" where
  "invited_member mid channel_id invited_by now user_id =
     \<lparr>cm_id = mid, cm_channel_id = channel_id, cm_user_id = user_id, cm_role = None, cm_status = Some ''joined'',
      cm_is_active = True, cm_is_channel_muted = False, cm_is_channel_pinned = False, cm_data = None,
      cm_meta = None, cm_invited_at = Some now, cm_invited_by = Some invited_by, cm_joined_at = Some now,
      cm_left_at = None, cm_last_read_at = Some now, cm_created_at = Some now, cm_updated_at = Some now\<rparr>"

definition create_membership_models ::
  "(id \<Rightarrow> id) \<Rightarrow> time \<Rightarrow> id \<Rightarrow> id \<Rightarrow> id list \<Rightarrow> channel_member list" where
  "create_membership_models uid now channel_id invited_by user_ids =
     map (\<lambda>u. invited_member (uid u) channel_id invited_by now u) user_ids"

text \<open>\<open>db.add_all\<close> and \<open>commit\<close>: all rows or none.\<close>

fun add_all_members :: "channel_member list \<Rightarrow> channel_member list \<Rightarrow> channel_member list option" where
  "add_all_members [] ms = Some ms"
| "add_all_members (n # ns) ms =
     (case add_row cm_id n ms of None \<Rightarrow> None | Some ms' \<Rightarrow> add_all_members ns ms')"

definition new_channel :: "id \<Rightarrow> time \<Rightarrow> time \<Rightarrow> create_channel_form \<Rightarrow> id \<Rightarrow> channel" where
  "new_channel chid t1 t2 form user_id =
     \<lparr>ch_id = chid, ch_user_id = user_id, ch_type = (if cf_type form = Some [] then None else cf_type form),
      ch_name = lower (cf_name form), ch_description = cf_description form, ch_is_private = cf_is_private form,
      ch_data = cf_data form, ch_meta = cf_meta form, ch_access_control = cf_access_control form,
      ch_created_at = t1, ch_updated_at = t2, ch_updated_by = None, ch_archived_at = None,
      ch_archived_by = None, ch_deleted_at = None, ch_deleted_by = None\<rparr>"

definition insert_new_channel ::
  "id \<Rightarrow> (id \<Rightarrow> id) \<Rightarrow> time \<Rightarrow> time \<Rightarrow> time \<Rightarrow> create_channel_form \<Rightarrow> id \<Rightarrow> group_db \<Rightarrow> channel_db \<Rightarrow>
     (py_error + channel) \<times> channel_db" where
  "insert_new_channel chid uid t1 t2 now form user_id gdb db =
     (let c = new_channel chid t1 t2 form user_id;
          invited = (if cf_type form \<in> {Some ''group'', Some ''dm''}
                     then and_then (collect_unique_user_ids gdb user_id (cf_user_ids form) (cf_group_ids form))
                            (\<lambda>us. Inr (create_membership_models uid now chid user_id us))
                     else Inr [])
      in case invited of
           Inl e \<Rightarrow> (Inl e, db)
         | Inr ms \<Rightarrow>
             (case (add_all_members ms (channel_members db), add_row ch_id c (channels db)) of
                (Some cms, Some cs) \<Rightarrow> (Inr c, db\<lparr>channels := cs, channel_members := cms\<rparr>)
              | _ \<Rightarrow> (Inl IntegrityError, db)))"

definition add_members_to_channel ::
  "(id \<Rightarrow> id) \<Rightarrow> time \<Rightarrow> id \<Rightarrow> id \<Rightarrow> id list option \<Rightarrow> id list option \<Rightarrow> group_db \<Rightarrow> channel_db \<Rightarrow>
     (py_error + channel_member list) \<times> channel_db" where
  "add_members_to_channel uid now channel_id invited_by user_ids group_ids gdb db =
     (case collect_unique_user_ids gdb invited_by user_ids group_ids of
        Inl e \<Rightarrow> (Inl e, db)
      | Inr requested \<Rightarrow>
          (let existing = map cm_user_id (all_rows (\<lambda>m. cm_channel_id m = channel_id) (channel_members db));
               new = filter (\<lambda>u. u \<notin> set existing) requested;
               ms = create_membership_models uid now channel_id invited_by new
           in if new = [] then (Inr [], db)
              else (case add_all_members ms (channel_members db) of
                      None \<Rightarrow> (Inl IntegrityError, db)
                    | Some cms \<Rightarrow> (Inr ms, db\<lparr>channel_members := cms\<rparr>))))"

definition remove_members_from_channel :: "id \<Rightarrow> id list \<Rightarrow> channel_db \<Rightarrow> nat \<times> channel_db" where
  "remove_members_from_channel channel_id user_ids db =
     (let gone = (\<lambda>m. cm_channel_id m = channel_id \<and> cm_user_id m \<in> set user_ids)
      in (length (all_rows gone (channel_members db)),
          db\<lparr>channel_members := del_rows gone (channel_members db)\<rparr>))"

definition get_member_by_channel_and_user_id :: "id \<Rightarrow> id \<Rightarrow> channel_db \<Rightarrow> channel_member option" where
  "get_member_by_channel_and_user_id channel_id user_id db =
     first_row (membership_of channel_id user_id) (channel_members db)"

definition get_members_by_channel_id :: "id \<Rightarrow> channel_db \<Rightarrow> channel_member list" where
  "get_members_by_channel_id channel_id db = all_rows (\<lambda>m. cm_channel_id m = channel_id) (channel_members db)"

definition get_channel_by_id :: "id \<Rightarrow> channel_db \<Rightarrow> channel option" where
  "get_channel_by_id cid db = row_get ch_id cid (channels db)"

definition is_user_channel_member :: "id \<Rightarrow> id \<Rightarrow> channel_db \<Rightarrow> bool" where
  "is_user_channel_member channel_id user_id db =
     (first_row (membership_of channel_id user_id) (channel_members db) \<noteq> None)"

definition is_user_channel_manager :: "id \<Rightarrow> id \<Rightarrow> channel_db \<Rightarrow> bool" where
  "is_user_channel_manager channel_id user_id db =
     ((case row_get ch_id channel_id (channels db) of None \<Rightarrow> False | Some c \<Rightarrow> ch_user_id c = user_id) \<or>
      first_row (\<lambda>m. membership_of channel_id user_id m \<and> cm_role m = Some ''manager'') (channel_members db) \<noteq> None)"

definition join_channel ::
  "id \<Rightarrow> time \<Rightarrow> time \<Rightarrow> time \<Rightarrow> time \<Rightarrow> id \<Rightarrow> id \<Rightarrow> channel_db \<Rightarrow> (py_error + channel_member) \<times> channel_db" where
  "join_channel mid t1 t2 t3 t4 channel_id user_id db =
     (case first_row (membership_of channel_id user_id) (channel_members db) of
        Some m \<Rightarrow> (Inr m, db)
      | None \<Rightarrow>
          (let m = \<lparr>cm_id = mid, cm_channel_id = channel_id, cm_user_id = user_id, cm_role = None,
               cm_status = Some ''joined'', cm_is_active = True, cm_is_channel_muted = False,
               cm_is_channel_pinned = False, cm_data = None, cm_meta = None, cm_invited_at = None,
               cm_invited_by = None, cm_joined_at = Some t1, cm_left_at = None, cm_last_read_at = Some t2,
               cm_created_at = Some t3, cm_updated_at = Some t4\<rparr>
           in case add_row cm_id m (channel_members db) of
                None \<Rightarrow> (Inl IntegrityError, db)
              | Some ms \<Rightarrow> (Inr m, db\<lparr>channel_members := ms\<rparr>)))"

text \<open>The first membership row found, by its primary key, gets the new fields.\<close>

definition set_member ::
  "(channel_member \<Rightarrow> channel_member) \<Rightarrow> id \<Rightarrow> id \<Rightarrow> channel_db \<Rightarrow> bool \<times> channel_db" where
  "set_member f channel_id user_id db =
     (case first_row (membership_of channel_id user_id) (channel_members db) of
        None \<Rightarrow> (False, db)
      | Some m \<Rightarrow> (True, db\<lparr>channel_members := upd_rows (\<lambda>x. cm_id x = cm_id m) f (channel_members db)\<rparr>))"

definition leave_channel :: "time \<Rightarrow> time \<Rightarrow> id \<Rightarrow> id \<Rightarrow> channel_db \<Rightarrow> bool \<times> channel_db" where
  "leave_channel t1 t2 = set_member (\<lambda>m. m\<lparr>cm_status := Some ''left'', cm_is_active := False,
     cm_left_at := Some t1, cm_updated_at := Some t2\<rparr>)"

definition pin_channel :: "time \<Rightarrow> bool \<Rightarrow> id \<Rightarrow> id \<Rightarrow> channel_db \<Rightarrow> bool \<times> channel_db" where
  "pin_channel now is_pinned = set_member (\<lambda>m. m\<lparr>cm_is_channel_pinned := is_pinned, cm_updated_at := Some now\<rparr>)"

definition update_member_last_read_at :: "time \<Rightarrow> time \<Rightarrow> id \<Rightarrow> id \<Rightarrow> channel_db \<Rightarrow> bool \<times> channel_db" where
  "update_member_last_read_at t1 t2 =
     set_member (\<lambda>m. m\<lparr>cm_last_read_at := Some t1, cm_updated_at := Some t2\<rparr>)"

definition update_member_active_status :: "time \<Rightarrow> bool \<Rightarrow> id \<Rightarrow> id \<Rightarrow> channel_db \<Rightarrow> bool \<times> channel_db" where
  "update_member_active_status now is_active =
     set_member (\<lambda>m. m\<lparr>cm_is_active := is_active, cm_updated_at := Some now\<rparr>)"

definition update_channel_by_id ::
  "time \<Rightarrow> id \<Rightarrow> channel_form \<Rightarrow> channel_db \<Rightarrow> channel option \<times> channel_db" where
  "update_channel_by_id now cid form db =
     (let cs = upd_rows (\<lambda>c. ch_id c = cid) (\<lambda>c. c\<lparr>ch_name := cf_name form, ch_description := cf_description form,
            ch_is_private := cf_is_private form, ch_data := cf_data form, ch_meta := cf_meta form,
            ch_access_control := cf_access_control form, ch_updated_at := now\<rparr>) (channels db)
      in case row_get ch_id cid (channels db) of
           None \<Rightarrow> (None, db)
         | Some c \<Rightarrow> (row_get ch_id cid cs, db\<lparr>channels := cs\<rparr>))"

definition delete_channel_by_id :: "id \<Rightarrow> channel_db \<Rightarrow> bool \<times> channel_db" where
  "delete_channel_by_id cid db = (True, db\<lparr>channels := row_del ch_id cid (channels db)\<rparr>)"

section \<open>The channels of a user\<close>

definition member_type :: "channel \<Rightarrow> bool" where
  "member_type c \<longleftrightarrow> ch_type c \<in> {Some ''group'', Some ''dm''}"

definition standard_type :: "channel \<Rightarrow> bool" where
  "standard_type c = (case ch_type c of None \<Rightarrow> True | Some t \<Rightarrow> t = [] \<or> (t \<noteq> ''group'' \<and> t \<noteq> ''dm''))"

definition permitted_group_ids :: "string \<Rightarrow> channel \<Rightarrow> json option" where
  "permitted_group_ids permission c =
     (case ch_access_control c of
        None \<Rightarrow> None
      | Some ac \<Rightarrow> (case dget ac permission of Some (JDict d) \<Rightarrow> dget d ''group_ids'' | _ \<Rightarrow> None))"

text \<open>The \<open>or_\<close> of the conditions; without a condition the query is not narrowed.\<close>

definition channel_permission ::
  "(json option \<Rightarrow> id \<Rightarrow> bool) \<Rightarrow> id option \<Rightarrow> id list \<Rightarrow> string \<Rightarrow> channel \<Rightarrow> bool" where
  "channel_permission contains user_id group_ids permission c =
     (let has_user = (user_id \<noteq> None \<and> user_id \<noteq> Some []);
          conditions = (if group_ids \<noteq> [] \<or> has_user then [ch_access_control c = None] else []) @
                       (if has_user then [user_id = Some (ch_user_id c)] else []) @
                       (if group_ids \<noteq> [] then [list_ex (contains (permitted_group_ids permission c)) group_ids] else [])
      in conditions = [] \<or> list_ex (\<lambda>b. b) conditions)"

definition is_open :: "channel \<Rightarrow> bool" where
  "is_open c \<longleftrightarrow> ch_deleted_at c = None \<and> ch_archived_at c = None"

definition get_channels :: "channel_db \<Rightarrow> channel list" where
  "get_channels db = channels db"

definition get_channels_by_user_id ::
  "(json option \<Rightarrow> id \<Rightarrow> bool) \<Rightarrow> id \<Rightarrow> group_db \<Rightarrow> channel_db \<Rightarrow> channel list" where
  "get_channels_by_user_id contains user_id gdb db =
     (let user_group_ids = map grp_id (get_groups_by_member_id user_id gdb);
          membership_channels = all_rows (\<lambda>c. is_open c \<and> member_type c \<and>
            list_ex (\<lambda>m. membership_of (ch_id c) user_id m \<and> cm_is_active m) (channel_members db)) (channels db);
          standard_channels = all_rows (\<lambda>c. is_open c \<and> standard_type c \<and>
            channel_permission contains (Some user_id) user_group_ids ''read'' c) (channels db)
      in membership_channels @ standard_channels)"

text \<open>A channel qualifies by the number of its membership rows and of those of the given users.\<close>

definition get_dm_channel_by_user_ids :: "id list \<Rightarrow> channel_db \<Rightarrow> channel option" where
  "get_dm_channel_by_user_ids user_ids db =
     (let unique_user_ids = remdups user_ids in
      first_row (\<lambda>c. ch_type c = Some ''dm'' \<and>
        (let ms = all_rows (\<lambda>m. cm_channel_id m = ch_id c) (channel_members db) in
         ms \<noteq> [] \<and> length ms = length unique_user_ids \<and>
         length (all_rows (\<lambda>m. cm_user_id m \<in> set unique_user_ids) ms) = length unique_user_ids)) (channels db))"

section \<open>The channel table as a store\<close>

definition channels_ok :: "channel_db \<Rightarrow> bool" where
  "channels_ok db \<longleftrightarrow> unique_key ch_id (channels db)"

definition store_channel :: "channel \<Rightarrow> channel_db \<Rightarrow> channel_db option" where
  "store_channel c db = map_option (\<lambda>cs. db\<lparr>channels := cs\<rparr>) (add_row ch_id c (channels db))"

definition drop_channel :: "id \<Rightarrow> channel_db \<Rightarrow> channel_db" where
  "drop_channel cid db = snd (delete_channel_by_id cid db)"

interpretation cs: keyed_store ch_id get_channel_by_id store_channel drop_channel channels_ok
  using table_keyed_store[of channels "\<lambda>t s. s\<lparr>channels := t\<rparr>" ch_id]
  by (simp add: get_channel_by_id_def[abs_def] store_channel_def[abs_def] drop_channel_def[abs_def]
      delete_channel_by_id_def channels_ok_def[abs_def])

lemma insert_standard_channel:
  assumes "cf_type form \<notin> {Some ''group'', Some ''dm''}"
  shows "snd (insert_new_channel chid uid t1 t2 now form user_id gdb db) =
    store_op_run store_channel drop_channel (Ins (new_channel chid t1 t2 form user_id)) db"
  using assms by (simp add: insert_new_channel_def store_channel_def split: option.splits)

section \<open>One membership per user and channel\<close>

definition channel_inv :: "channel_db \<Rightarrow> bool" where
  "channel_inv db \<longleftrightarrow> channels_ok db \<and> unique_key cm_id (channel_members db) \<and> unique_key cm_key (channel_members db)"

datatype channel_op =
    InsertChannel id "id \<Rightarrow> id" time time time create_channel_form id
  | AddMembers "id \<Rightarrow> id" time id id "id list option" "id list option"
  | RemoveMembers id "id list"
  | Join id time time time time id id
  | Leave time time id id
  | Pin time bool id id
  | MarkRead time time id id
  | SetActive time bool id id
  | UpdateChannel time id channel_form
  | DeleteChannel id

fun channel_step :: "group_db \<Rightarrow> channel_op \<Rightarrow> channel_db \<Rightarrow> channel_db" where
  "channel_step gdb (InsertChannel chid uid t1 t2 now form u) db = snd (insert_new_channel chid uid t1 t2 now form u gdb db)"
| "channel_step gdb (AddMembers uid now cid by_user us gs) db = snd (add_members_to_channel uid now cid by_user us gs gdb db)"
| "channel_step gdb (RemoveMembers cid us) db = snd (remove_members_from_channel cid us db)"
| "channel_step gdb (Join mid t1 t2 t3 t4 cid u) db = snd (join_channel mid t1 t2 t3 t4 cid u db)"
| "channel_step gdb (Leave t1 t2 cid u) db = snd (leave_channel t1 t2 cid u db)"
| "channel_step gdb (Pin now b cid u) db = snd (pin_channel now b cid u db)"
| "channel_step gdb (MarkRead t1 t2 cid u) db = snd (update_member_last_read_at t1 t2 cid u db)"
| "channel_step gdb (SetActive now b cid u) db = snd (update_member_active_status now b cid u db)"
| "channel_step gdb (UpdateChannel now cid form) db = snd (update_channel_by_id now cid form db)"
| "channel_step gdb (DeleteChannel cid) db = snd (delete_channel_by_id cid db)"

text \<open>A new channel's UUID is not the channel of a membership that is already stored.\<close>

fun fresh_channel :: "channel_op \<Rightarrow> channel_db \<Rightarrow> bool" where
  "fresh_channel (InsertChannel chid uid t1 t2 now form u) db \<longleftrightarrow> chid \<notin> cm_channel_id ` set (channel_members db)"
| "fresh_channel _ db \<longleftrightarrow> True"

text \<open>Runs of the operations, while groups change at will between them.\<close>

inductive channel_run :: "channel_db \<Rightarrow> channel_db \<Rightarrow> bool" where
  run_refl: "channel_run db db"
| run_step: "channel_run s db \<Longrightarrow> fresh_channel x db \<Longrightarrow> channel_run s (channel_step gdb x db)"

lemma add_all_members_Some:
  "add_all_members ns ms = Some ms' \<Longrightarrow>
     ms' = ms @ ns \<and> (unique_key cm_id ms \<longrightarrow> unique_key cm_id ms')"
  by (induction ns ms rule: add_all_members.induct)
     (auto simp: add_row_Some_iff unique_key_append split: option.splits dest: disjoint_image_neq)

lemma unique_created:
  "distinct us \<Longrightarrow> unique_key cm_key (create_membership_models uid now cid inviter us)"
  by (simp add: unique_key_def create_membership_models_def comp_def distinct_map inj_on_def invited_member_def cm_key_def)

lemma cm_key_created:
  "cm_key ` set (create_membership_models uid now cid inviter us) = Pair cid ` set us"
  by (auto simp: create_membership_models_def invited_member_def cm_key_def image_iff)

lemma distinct_collect: "collect_unique_user_ids gdb b us gs = Inr xs \<Longrightarrow> distinct xs"
  by (auto simp: collect_unique_user_ids_def and_then_Inr_iff)

lemma channel_inv_set_member:
  assumes "\<And>m. cm_id (f m) = cm_id m" "\<And>m. cm_key (f m) = cm_key m"
  shows "channel_inv db \<Longrightarrow> channel_inv (snd (set_member f cid u db))"
  using assms
  by (auto simp: set_member_def channel_inv_def channels_ok_def unique_key_upd_rows split: option.splits)

lemma channel_inv_del_members: "channel_inv db \<Longrightarrow> channel_inv (db\<lparr>channel_members := del_rows p (channel_members db)\<rparr>)"
  by (auto simp: channel_inv_def channels_ok_def)

lemma channel_inv_add_members:
  assumes "channel_inv db" "add_all_members ms (channel_members db) = Some cms" "unique_key cm_key ms"
    and "cm_key ` set ms \<inter> cm_key ` set (channel_members db) = {}"
  shows "channel_inv (db\<lparr>channel_members := cms\<rparr>)"
  using assms add_all_members_Some[OF assms(2)]
  by (auto simp: channel_inv_def channels_ok_def unique_key_append dest: disjoint_image_neq)

lemma channel_inv_insert:
  assumes "channel_inv db" "chid \<notin> cm_channel_id ` set (channel_members db)"
  shows "channel_inv (snd (insert_new_channel chid uid t1 t2 now form u gdb db))"
proof -
  define r where "r = (if cf_type form \<in> {Some ''group'', Some ''dm''}
       then and_then (collect_unique_user_ids gdb u (cf_user_ids form) (cf_group_ids form))
              (\<lambda>us. Inr (create_membership_models uid now chid u us)) else Inr [])"
  have ins: "insert_new_channel chid uid t1 t2 now form u gdb db = (case r of
           Inl e \<Rightarrow> (Inl e, db)
         | Inr ms \<Rightarrow>
             (case (add_all_members ms (channel_members db), add_row ch_id (new_channel chid t1 t2 form u) (channels db)) of
                (Some cms, Some cs) \<Rightarrow> (Inr (new_channel chid t1 t2 form u), db\<lparr>channels := cs, channel_members := cms\<rparr>)
              | _ \<Rightarrow> (Inl IntegrityError, db)))"
    by (simp only: insert_new_channel_def Let_def r_def)
  show ?thesis
  proof (cases r)
    case (Inr ms)
    have ms: "unique_key cm_key ms \<and> cm_key ` set ms \<inter> cm_key ` set (channel_members db) = {}"
    proof (cases "ms = []")
      case False
      then obtain us where us: "collect_unique_user_ids gdb u (cf_user_ids form) (cf_group_ids form) = Inr us"
          "ms = create_membership_models uid now chid u us"
        using Inr by (auto simp: r_def and_then_Inr_iff split: if_splits)
      have "(chid, x) \<notin> cm_key ` set (channel_members db)" for x
        using assms(2) by (auto simp: cm_key_def)
      then show ?thesis
        using unique_created[OF distinct_collect[OF us(1)]] unfolding us(2) cm_key_created by blast
    qed simp
    show ?thesis
    proof (cases "add_all_members ms (channel_members db)")
      case (Some cms)
      have "channel_inv (db\<lparr>channel_members := cms\<rparr>)"
        using channel_inv_add_members[OF assms(1) Some] ms by blast
      then show ?thesis
        using assms(1) Inr Some
        by (cases "add_row ch_id (new_channel chid t1 t2 form u) (channels db)")
           (auto simp: ins channel_inv_def channels_ok_def unique_key_add_row)
    qed (use assms(1) Inr in \<open>simp add: ins\<close>)
  qed (use assms(1) in \<open>simp add: ins\<close>)
qed

lemma channel_inv_add:
  assumes "channel_inv db"
  shows "channel_inv (snd (add_members_to_channel uid now cid inviter us gs gdb db))"
proof (cases "collect_unique_user_ids gdb inviter us gs")
  case (Inr xs)
  define new where "new = filter (\<lambda>u. u \<notin> set (map cm_user_id (all_rows (\<lambda>m. cm_channel_id m = cid) (channel_members db)))) xs"
  have "unique_key cm_key (create_membership_models uid now cid inviter new)"
    using distinct_collect[OF Inr] by (intro unique_created) (simp add: new_def)
  moreover have "cm_key ` set (create_membership_models uid now cid inviter new) \<inter> cm_key ` set (channel_members db) = {}"
    unfolding cm_key_created by (auto simp: new_def cm_key_def)
  moreover have "snd (add_members_to_channel uid now cid inviter us gs gdb db) =
      (if new = [] then db
       else case add_all_members (create_membership_models uid now cid inviter new) (channel_members db) of
              None \<Rightarrow> db | Some cms \<Rightarrow> db\<lparr>channel_members := cms\<rparr>)"
    by (simp add: add_members_to_channel_def Inr Let_def new_def split: option.splits)
  ultimately show ?thesis
    using assms channel_inv_add_members[OF assms] by (simp split: option.splits)
qed (use assms in \<open>simp add: add_members_to_channel_def\<close>)

lemma channel_inv_join:
  assumes "channel_inv db"
  shows "channel_inv (snd (join_channel mid t1 t2 t3 t4 cid u db))"
proof (cases "first_row (membership_of cid u) (channel_members db)")
  case None
  then have "(cid, u) \<notin> cm_key ` set (channel_members db)"
    by (auto simp: first_row_None_iff membership_of_def cm_key_def)
  then show ?thesis
    using assms None
    by (auto simp: join_channel_def Let_def channel_inv_def channels_ok_def add_row_def unique_key_append cm_key_def
        split: option.splits)
qed (use assms in \<open>simp add: join_channel_def\<close>)

lemma channel_inv_update: "channel_inv db \<Longrightarrow> channel_inv (snd (update_channel_by_id now cid form db))"
  by (auto simp: update_channel_by_id_def Let_def channel_inv_def channels_ok_def unique_key_upd_rows split: option.splits)

lemma channel_inv_delete: "channel_inv db \<Longrightarrow> channel_inv (snd (delete_channel_by_id cid db))"
  by (auto simp: delete_channel_by_id_def channel_inv_def channels_ok_def unique_key_row_del)

lemma channel_inv_remove: "channel_inv db \<Longrightarrow> channel_inv (snd (remove_members_from_channel cid us db))"
  by (simp add: remove_members_from_channel_def Let_def channel_inv_del_members)

lemmas set_member_ops = leave_channel_def pin_channel_def update_member_last_read_at_def update_member_active_status_def

lemma channel_inv_step: "channel_inv db \<Longrightarrow> fresh_channel x db \<Longrightarrow> channel_inv (channel_step gdb x db)"
  by (cases x)
     (simp_all add: channel_inv_insert channel_inv_add channel_inv_join channel_inv_remove channel_inv_update
       channel_inv_delete set_member_ops cm_key_def channel_inv_set_member)

text \<open>
  Whatever operations run, in any order and with any groups, a user has at most one
  membership row per channel (which no constraint of the schema ensures), and ids stay
  unique, as long as the UUID of a new channel is not that of stored memberships.
\<close>

lemma one_membership_per_user:
  assumes "channel_run s db" "channel_inv s"
  shows "channel_inv db"
  using assms by (induction rule: channel_run.induct) (auto intro: channel_inv_step)

definition team :: channel where
  "team = \<lparr>ch_id = ''c1'', ch_user_id = ''kim'', ch_type = Some ''group'', ch_name = ''team'', ch_description = None,
     ch_is_private = None, ch_data = None, ch_meta = None, ch_access_control = None, ch_created_at = 1,
     ch_updated_at = 1, ch_updated_by = None, ch_archived_at = None, ch_archived_by = None,
     ch_deleted_at = None, ch_deleted_by = None\<rparr>"

definition sample_channels :: channel_db where
  "sample_channels = \<lparr>channels = [team, team\<lparr>ch_id := ''c2'', ch_type := Some ''dm''\<rparr>],
     channel_members = [invited_member ''m1'' ''c1'' ''kim'' 1 ''kim'', invited_member ''m2'' ''c1'' ''kim'' 1 ''lee'',
       invited_member ''m3'' ''c2'' ''kim'' 1 ''kim'', invited_member ''m4'' ''c2'' ''kim'' 1 ''lee'']\<rparr>"

lemmas sample_channel_defs = sample_channels_def team_def invited_member_def

lemma sample_channels_inv: "channel_inv sample_channels"
  by (simp add: channel_inv_def channels_ok_def sample_channel_defs cm_key_def)

lemma one_membership_per_user_witness:
  "channel_inv (channel_step sample_groups (AddMembers (\<lambda>u. u) 9 ''c1'' ''kim'' (Some [''pak'', ''lee'']) (Some [''g1'']))
     (channel_step sample_groups (Leave 8 8 ''c1'' ''lee'') sample_channels))"
  by (rule one_membership_per_user[OF run_step[OF run_step[OF run_refl]] sample_channels_inv]) simp_all

section \<open>Who sees a channel\<close>

lemma standard_type_iff: "standard_type c \<longleftrightarrow> \<not> member_type c"
  by (auto simp: standard_type_def member_type_def split: option.splits)

lemma channel_permission_user:
  assumes "u \<noteq> []"
  shows "channel_permission contains (Some u) gs p c \<longleftrightarrow>
    ch_access_control c = None \<or> ch_user_id c = u \<or> list_ex (contains (permitted_group_ids p c)) gs"
  using assms by (auto simp: channel_permission_def)

text \<open>
  The channels listed for a user are, each once, the open channels of which the user is
  an active member if they are group or direct channels, and otherwise those that are
  public, the user's own, or shared for reading with one of the user's groups.
\<close>

lemma listed_channels_exact:
  assumes "channel_inv db" "u \<noteq> []"
  shows "distinct (map ch_id (get_channels_by_user_id contains u gdb db)) \<and>
    set (get_channels_by_user_id contains u gdb db) = {c \<in> set (channels db). is_open c \<and>
      (if member_type c
       then \<exists>m \<in> set (channel_members db). membership_of (ch_id c) u m \<and> cm_is_active m
       else ch_access_control c = None \<or> ch_user_id c = u \<or>
            (\<exists>g \<in> set (get_groups_by_member_id u gdb). contains (permitted_group_ids ''read'' c) (grp_id g)))}"
proof
  have uk: "unique_key ch_id (channels db)" using assms(1) by (simp add: channel_inv_def channels_ok_def)
  let ?l = "get_channels_by_user_id contains u gdb db"
  have d: "distinct (map ch_id (all_rows P (channels db)))" for P
    using uk by (simp add: unique_key_def all_rows_def distinct_map_filter)
  have apart: "ch_id ` set (all_rows P (channels db)) \<inter> ch_id ` set (all_rows Q (channels db)) = {}"
    if pq: "\<And>c. P c \<Longrightarrow> \<not> Q c" for P Q
    using unique_keyD[OF uk] pq by (force simp: disjoint_iff)
  show "distinct (map ch_id ?l)"
    unfolding get_channels_by_user_id_def Let_def map_append distinct_append set_map
    by (intro conjI d apart) (simp add: standard_type_iff)
  show "set ?l = {c \<in> set (channels db). is_open c \<and>
      (if member_type c
       then \<exists>m \<in> set (channel_members db). membership_of (ch_id c) u m \<and> cm_is_active m
       else ch_access_control c = None \<or> ch_user_id c = u \<or>
            (\<exists>g \<in> set (get_groups_by_member_id u gdb). contains (permitted_group_ids ''read'' c) (grp_id g)))}"
    by (auto simp: get_channels_by_user_id_def standard_type_iff channel_permission_user[OF assms(2)] list_ex_iff)
qed

lemma listed_channels_exact_witness:
  "set (get_channels_by_user_id (\<lambda>v g. False) ''lee'' sample_groups sample_channels) =
     {c \<in> set (channels sample_channels). is_open c \<and>
      (if member_type c
       then \<exists>m \<in> set (channel_members sample_channels). membership_of (ch_id c) ''lee'' m \<and> cm_is_active m
       else ch_access_control c = None \<or> ch_user_id c = ''lee'' \<or>
            (\<exists>g \<in> set (get_groups_by_member_id ''lee'' sample_groups). False))}"
  using listed_channels_exact[OF sample_channels_inv, of "''lee''" "\<lambda>v g. False" sample_groups] by blast

text \<open>
  Someone who left a group or direct channel cannot come back through \<open>join_channel\<close>,
  which also runs for every message they post: the call answers with the old, inactive
  membership, changes nothing, and the channel stays out of their list.
\<close>

lemma leaving_is_final_for_join:
  assumes "channel_inv db" "is_user_channel_member cid u db" "db' = snd (leave_channel t1 t2 cid u db)"
  shows "(\<exists>m. join_channel mid s1 s2 s3 s4 cid u db' = (Inr m, db') \<and> \<not> cm_is_active m) \<and>
    \<not> (\<exists>c \<in> set (get_channels_by_user_id contains u gdb db'). ch_id c = cid \<and> member_type c)"
proof -
  let ?f = "\<lambda>m. m\<lparr>cm_status := Some ''left'', cm_is_active := False, cm_left_at := Some t1, cm_updated_at := Some t2\<rparr>"
  obtain m where m: "first_row (membership_of cid u) (channel_members db) = Some m"
    using assms(2) by (auto simp: is_user_channel_member_def)
  have mm: "m \<in> set (channel_members db)" "membership_of cid u m" using first_row_SomeD[OF m] by auto
  have db': "db' = db\<lparr>channel_members := upd_rows (\<lambda>x. cm_id x = cm_id m) ?f (channel_members db)\<rparr>"
    using m assms(3) by (simp add: leave_channel_def set_member_def)
  have uk: "unique_key cm_id (channel_members db)" "unique_key cm_key (channel_members db)"
    using assms(1) by (auto simp: channel_inv_def)
  have only: "\<not> cm_is_active x" if x: "x \<in> set (channel_members db')" "membership_of cid u x" for x
  proof -
    obtain y where y: "y \<in> set (channel_members db)" "x = (if cm_id y = cm_id m then ?f y else y)"
      using x(1) by (auto simp: db' set_upd_rows)
    then have "cm_key y = cm_key m" using x(2) mm(2) by (auto simp: cm_key_def membership_of_def split: if_splits)
    then have "y = m" using unique_keyD[OF uk(2) y(1) mm(1)] by simp
    then show ?thesis using y(2) by simp
  qed
  have "?f m \<in> set (channel_members db')" "membership_of cid u (?f m)"
    using mm by (auto simp: db' set_upd_rows membership_of_def)
  then have "first_row (membership_of cid u) (channel_members db') \<noteq> None"
    using first_row_None_iff[of "membership_of cid u" "channel_members db'"] by blast
  then obtain x where x: "first_row (membership_of cid u) (channel_members db') = Some x" by blast
  then have "join_channel mid s1 s2 s3 s4 cid u db' = (Inr x, db') \<and> \<not> cm_is_active x"
    using only first_row_SomeD[OF x] by (simp add: join_channel_def)
  moreover have "\<not> (\<exists>c \<in> set (get_channels_by_user_id contains u gdb db'). ch_id c = cid \<and> member_type c)"
    using only by (auto simp: get_channels_by_user_id_def standard_type_iff list_ex_iff)
  ultimately show ?thesis by blast
qed

lemma leaving_is_final_for_join_witness:
  "\<not> (\<exists>c \<in> set (get_channels_by_user_id (\<lambda>v g. False) ''lee'' sample_groups
      (snd (leave_channel 5 5 ''c1'' ''lee'' sample_channels))). ch_id c = ''c1'' \<and> member_type c)"
proof -
  have "is_user_channel_member ''c1'' ''lee'' sample_channels"
    by (simp add: is_user_channel_member_def sample_channel_defs membership_of_def)
  from leaving_is_final_for_join[OF sample_channels_inv this refl] show ?thesis by blast
qed

section \<open>Direct channels\<close>

lemma card_keys:
  assumes "unique_key cm_key ms" "\<And>m. m \<in> set ms \<Longrightarrow> cm_channel_id m = cid"
  shows "length ms = card (cm_user_id ` set ms)"
proof -
  have "distinct (map cm_user_id ms)"
    using assms by (auto simp: unique_key_def distinct_map inj_on_def cm_key_def)
  then show ?thesis by (metis distinct_card length_map set_map)
qed

lemma counts_iff_same_set:
  assumes "unique_key cm_key ms" "\<And>m. m \<in> set ms \<Longrightarrow> cm_channel_id m = cid" "us \<noteq> []"
  shows "ms \<noteq> [] \<and> length ms = length (remdups us) \<and>
      length (all_rows (\<lambda>m. cm_user_id m \<in> set us) ms) = length (remdups us) \<longleftrightarrow> cm_user_id ` set ms = set us"
proof
  assume l: "ms \<noteq> [] \<and> length ms = length (remdups us) \<and>
      length (all_rows (\<lambda>m. cm_user_id m \<in> set us) ms) = length (remdups us)"
  then have "length (filter (\<lambda>m. cm_user_id m \<in> set us) ms) = length ms" by (simp add: all_rows_def)
  then have sub: "cm_user_id ` set ms \<subseteq> set us"
    by (metis (no_types, lifting) filter_id_conv image_subsetI length_filter_conv_card length_filter_less nat_neq_iff)
  have "card (cm_user_id ` set ms) = card (set us)"
    using l card_keys[OF assms(1,2)] by (simp add: length_remdups_card_conv)
  then show "cm_user_id ` set ms = set us" using sub by (simp add: card_subset_eq)
next
  assume s: "cm_user_id ` set ms = set us"
  then have "all_rows (\<lambda>m. cm_user_id m \<in> set us) ms = ms" by (auto simp: all_rows_def filter_id_conv)
  then show "ms \<noteq> [] \<and> length ms = length (remdups us) \<and>
      length (all_rows (\<lambda>m. cm_user_id m \<in> set us) ms) = length (remdups us)"
    using s card_keys[OF assms(1,2)] assms(3) by (auto simp: length_remdups_card_conv)
qed

text \<open>
  The look-up of a direct channel by counting finds the first direct channel whose
  members are exactly the given users, repetitions in the request aside.
\<close>

lemma dm_lookup_exact:
  assumes "channel_inv db" "us \<noteq> []"
  shows "get_dm_channel_by_user_ids us db = first_row (\<lambda>c. ch_type c = Some ''dm'' \<and>
    cm_user_id ` set (get_members_by_channel_id (ch_id c) db) = set us) (channels db)"
proof -
  have "unique_key cm_key (all_rows P (channel_members db))" for P
    using assms(1) by (simp add: channel_inv_def unique_key_def all_rows_def distinct_map_filter)
  from counts_iff_same_set[OF this _ assms(2)] show ?thesis
    unfolding get_dm_channel_by_user_ids_def get_members_by_channel_id_def Let_def
    by (intro first_row_cong) simp
qed

lemma dm_lookup_exact_witness:
  "get_dm_channel_by_user_ids [''lee'', ''kim'', ''lee''] sample_channels = first_row (\<lambda>c. ch_type c = Some ''dm'' \<and>
    cm_user_id ` set (get_members_by_channel_id (ch_id c) sample_channels) = set [''lee'', ''kim'', ''lee'']) (channels sample_channels)"
  by (rule dm_lookup_exact[OF sample_channels_inv]) simp

text \<open>
  Inviting a group without members fails: creating a group channel or adding members
  with such a group among the groups raises and changes nothing.
\<close>

lemma inviting_empty_group_raises:
  assumes "g \<in> set gs" "\<not> (\<exists>u. is_member gdb g u)"
  shows "add_members_to_channel uid now cid inviter us (Some gs) gdb db = (Inl TypeError, db)"
proof -
  have g: "get_group_user_ids_by_id g gdb = None"
    using assms(2) by (auto simp: get_group_user_ids_by_id_def is_member_def list_ex_iff Let_def all_rows_def filter_empty_conv)
  have "add_group_users gdb gs xs = Inl TypeError" for xs
    using assms(1) by (induction gs arbitrary: xs) (auto simp: g split: option.splits)
  then show ?thesis by (simp add: add_members_to_channel_def collect_unique_user_ids_def opt_list_def)
qed

lemma inviting_empty_group_raises_witness:
  "add_members_to_channel (\<lambda>u. u) 9 ''c1'' ''kim'' (Some [''pak'']) (Some [''g2'']) sample_groups sample_channels =
     (Inl TypeError, sample_channels)"
  by (rule inviting_empty_group_raises[of "''g2''"]) (simp_all add: sample_group_defs is_member_def)

section \<open>The channel table refines a map\<close>

fun as_store_op :: "channel_op \<Rightarrow> (id, channel) store_op list" where
  "as_store_op (InsertChannel chid uid t1 t2 now form u) = [Ins (new_channel chid t1 t2 form u)]"
| "as_store_op (DeleteChannel cid) = [Del cid]"
| "as_store_op _ = []"

fun plain_op :: "channel_op \<Rightarrow> bool" where
  "plain_op (InsertChannel chid uid t1 t2 now form u) \<longleftrightarrow> cf_type form \<notin> {Some ''group'', Some ''dm''}"
| "plain_op (UpdateChannel now cid form) \<longleftrightarrow> False"
| "plain_op _ \<longleftrightarrow> True"

lemma channels_set_member [simp]: "channels (snd (set_member f cid u db)) = channels db"
  by (simp add: set_member_def split: option.splits)

lemma channels_add_members [simp]: "channels (snd (add_members_to_channel uid now cid b us gs gdb db)) = channels db"
  by (simp add: add_members_to_channel_def Let_def split: sum.splits option.splits)

lemma channels_join [simp]: "channels (snd (join_channel mid t1 t2 t3 t4 cid u db)) = channels db"
  by (simp add: join_channel_def Let_def split: option.splits)

lemma channels_remove [simp]: "channels (snd (remove_members_from_channel cid us db)) = channels db"
  by (simp add: remove_members_from_channel_def Let_def)

lemma plain_step:
  assumes "plain_op x"
  shows "channels (channel_step gdb x db) = channels (store_run store_channel drop_channel (as_store_op x) db)"
proof (cases x)
  case (InsertChannel chid uid t1 t2 now form u)
  then show ?thesis using assms insert_standard_channel[of form chid uid t1 t2 now u gdb db] by simp
qed (use assms in \<open>simp_all add: set_member_ops drop_channel_def\<close>)

lemma store_run_append: "store_run ins del (xs @ ys) s = store_run ins del ys (store_run ins del xs s)"
  by (induction xs arbitrary: s) auto

lemma store_run_channels:
  "channels s = channels t \<Longrightarrow> channels (store_run store_channel drop_channel xs s) = channels (store_run store_channel drop_channel xs t)"
proof (induction xs arbitrary: s t)
  case (Cons x xs)
  have "channels (store_op_run store_channel drop_channel x s) = channels (store_op_run store_channel drop_channel x t)"
    using Cons.prems by (cases x) (auto simp: store_channel_def drop_channel_def delete_channel_by_id_def split: option.splits)
  from Cons.IH[OF this] show ?case by simp
qed simp

lemma fold_plain:
  "list_all plain_op xs \<Longrightarrow>
     channels (fold (channel_step gdb) xs db) = channels (store_run store_channel drop_channel (concat (map as_store_op xs)) db)"
proof (induction xs arbitrary: db)
  case (Cons x xs)
  then show ?case
    using store_run_channels[OF plain_step[of x gdb db], of "concat (map as_store_op xs)"]
    by (simp add: store_run_append)
qed simp

text \<open>
  Read by id, the channel table is a map: any sequence of creations of channels that are
  neither group nor direct ones, deletions and membership operations has the effect on
  \<open>get_channel_by_id\<close> of the corresponding insertions and deletions on a map.
\<close>

lemma channel_table_refines_map:
  assumes "channels_ok db" "list_all plain_op xs"
  shows "(\<lambda>k. get_channel_by_id k (fold (channel_step gdb) xs db)) =
    map_run ch_id (concat (map as_store_op xs)) (\<lambda>k. get_channel_by_id k db)"
  using cs.run_refines[OF assms(1), of "concat (map as_store_op xs)"] fold_plain[OF assms(2), of gdb db]
  by (simp add: get_channel_by_id_def)

lemma channel_table_refines_map_witness:
  "(\<lambda>k. get_channel_by_id k (fold (channel_step sample_groups) [Join ''m7'' 1 1 1 1 ''c1'' ''pak'', DeleteChannel ''c2''] sample_channels)) =
    map_run ch_id [Del ''c2''] (\<lambda>k. get_channel_by_id k sample_channels)"
  using channel_table_refines_map[of sample_channels "[Join ''m7'' 1 1 1 1 ''c1'' ''pak'', DeleteChannel ''c2'']" sample_groups]
    sample_channels_inv by (simp add: channel_inv_def)

end
