(* ===== verification/Chats.thy ===== *)
theory Chats
  imports Keyed_Store Python Folders
begin

text \<open>
  \<^verbatim>\<open>models/chats.py\<close> and \<^verbatim>\<open>models/tags.py\<close>: saved conversations, their shared copies, and
  the tags of a user. The state is the two tables. A shared copy is a chat whose owner is
  \<open>shared-\<close> and the id of its original. A chat is stored with the title \<open>None\<close> when its JSON
  says null; \<open>ChatModel\<close> refuses such a row. A title that is neither text nor null is refused
  when it is written. The search by text is in \<^theory_text>\<open>Chat_Handlers\<close>.
\<close>

record chat =
  cht_id :: id
  cht_user_id :: id
  cht_title :: "string option"
  cht_chat :: dict
  cht_created_at :: time
  cht_updated_at :: time
  cht_share_id :: "id option"
  cht_archived :: bool
  cht_pinned :: "bool option"
  cht_meta :: dict
  cht_folder_id :: "id option"

record tag =
  tag_id :: id
  tag_name :: string
  tag_user_id :: id
  tag_meta :: "dict option"

record chat_form =
  chf_chat :: dict
  chf_folder_id :: "id option"

record chat_import_form = chat_form +
  chf_meta :: "dict option"
  chf_pinned :: "bool option"
  chf_created_at :: "time option"
  chf_updated_at :: "time option"

record chat_db =
  chats :: "chat list"
  chat_tags :: "tag list"

section \<open>Null characters\<close>

definition clean_text :: "string \<Rightarrow> string" where
  "clean_text s = filter (\<lambda>c. c \<noteq> CHR 0x00) s"

fun clean_null_bytes :: "json \<Rightarrow> json" where
  "clean_null_bytes (JStr s) = JStr (clean_text s)"
| "clean_null_bytes (JDict d) = JDict (map (\<lambda>(k, v). (k, clean_null_bytes v)) d)"
| "clean_null_bytes (JList xs) = JList (map clean_null_bytes xs)"
| "clean_null_bytes v = v"

definition clean_dict :: "dict \<Rightarrow> dict" where
  "clean_dict d = map (\<lambda>(k, v). (k, clean_null_bytes v)) d"

definition sanitize_chat_row :: "chat \<Rightarrow> chat" where
  "sanitize_chat_row c = c\<lparr>cht_title := map_option clean_text (cht_title c), cht_chat := clean_dict (cht_chat c)\<rparr>"

section \<open>Rows\<close>

definition chat_model :: "chat \<Rightarrow> py_error + chat" where
  "chat_model c = (if cht_title c = None then Inl ValueError else Inr c)"

definition chat_row :: "id \<Rightarrow> chat_db \<Rightarrow> chat option" where
  "chat_row cid db = row_get cht_id cid (chats db)"

definition set_chat :: "id \<Rightarrow> (chat \<Rightarrow> chat) \<Rightarrow> chat_db \<Rightarrow> chat_db" where
  "set_chat cid f db = db\<lparr>chats := upd_rows (\<lambda>c. cht_id c = cid) f (chats db)\<rparr>"

text \<open>\<open>chat["title"] if "title" in chat else "New Chat"\<close>, cleaned.\<close>

definition title_of :: "dict \<Rightarrow> json" where
  "title_of d = (case dget d ''title'' of None \<Rightarrow> JStr ''New Chat'' | Some v \<Rightarrow> clean_null_bytes v)"

definition insert_new_chat ::
  "id \<Rightarrow> time \<Rightarrow> time \<Rightarrow> id \<Rightarrow> chat_form \<Rightarrow> chat_db \<Rightarrow> (py_error + chat) \<times> chat_db" where
  "insert_new_chat uid t1 t2 user_id form db =
     (case title_of (chf_chat form) of
        JStr title \<Rightarrow>
          (let c = \<lparr>cht_id = uid, cht_user_id = user_id, cht_title = Some title,
                    cht_chat = clean_dict (chf_chat form), cht_created_at = t1, cht_updated_at = t2,
                    cht_share_id = None, cht_archived = False, cht_pinned = Some False, cht_meta = [],
                    cht_folder_id = chf_folder_id form\<rparr>
           in case add_row cht_id c (chats db) of
                None \<Rightarrow> (Inl IntegrityError, db)
              | Some cs \<Rightarrow> (Inr c, db\<lparr>chats := cs\<rparr>))
      | _ \<Rightarrow> (Inl ValueError, db))"

definition time_or :: "time option \<Rightarrow> time \<Rightarrow> time" where
  "time_or t now = (case t of None \<Rightarrow> now | Some x \<Rightarrow> if x = 0 then now else x)"

definition chat_import_form_to_chat_model ::
  "id \<Rightarrow> time \<Rightarrow> id \<Rightarrow> chat_import_form \<Rightarrow> py_error + chat" where
  "chat_import_form_to_chat_model uid now user_id form =
     (case (title_of (chf_chat form), chf_meta form) of
        (JStr title, Some meta) \<Rightarrow>
          Inr \<lparr>cht_id = uid, cht_user_id = user_id, cht_title = Some title,
               cht_chat = clean_dict (chf_chat form), cht_created_at = time_or (chf_created_at form) now,
               cht_updated_at = time_or (chf_updated_at form) now, cht_share_id = None, cht_archived = False,
               cht_pinned = chf_pinned form, cht_meta = meta, cht_folder_id = chf_folder_id form\<rparr>
      | _ \<Rightarrow> Inl ValueError)"

fun add_all_chats :: "chat list \<Rightarrow> chat list \<Rightarrow> chat list option" where
  "add_all_chats [] cs = Some cs"
| "add_all_chats (n # ns) cs = (case add_row cht_id n cs of None \<Rightarrow> None | Some cs' \<Rightarrow> add_all_chats ns cs')"

text \<open>Each form comes with its UUID and the time it is converted.\<close>

definition import_chats ::
  "id \<Rightarrow> (id \<times> time \<times> chat_import_form) list \<Rightarrow> chat_db \<Rightarrow> (py_error + chat list) \<times> chat_db" where
  "import_chats user_id forms db =
     (case each (\<lambda>(uid, now, form). chat_import_form_to_chat_model uid now user_id form) forms of
        Inl e \<Rightarrow> (Inl e, db)
      | Inr ns \<Rightarrow>
          (case add_all_chats ns (chats db) of
             None \<Rightarrow> (Inl IntegrityError, db)
           | Some cs \<Rightarrow> (Inr ns, db\<lparr>chats := cs\<rparr>)))"

definition update_chat_by_id :: "time \<Rightarrow> id \<Rightarrow> dict \<Rightarrow> chat_db \<Rightarrow> chat option \<times> chat_db" where
  "update_chat_by_id now cid d db =
     (case chat_row cid db of
        None \<Rightarrow> (None, db)
      | Some c \<Rightarrow>
          (let write = (\<lambda>title. c\<lparr>cht_chat := clean_dict d, cht_title := title, cht_updated_at := now\<rparr>)
           in case title_of d of
                JStr t \<Rightarrow> (Some (write (Some t)), set_chat cid (\<lambda>_. write (Some t)) db)
              | JNull \<Rightarrow> (None, set_chat cid (\<lambda>_. write None) db)
              | _ \<Rightarrow> (None, db)))"

text \<open>Reading a chat cleans its row and commits when that changes it.\<close>

definition get_chat_by_id :: "id \<Rightarrow> chat_db \<Rightarrow> chat option \<times> chat_db" where
  "get_chat_by_id cid db =
     (case chat_row cid db of
        None \<Rightarrow> (None, db)
      | Some c \<Rightarrow> (catch_none (chat_model (sanitize_chat_row c)), set_chat cid sanitize_chat_row db))"

definition update_chat_title_by_id :: "time \<Rightarrow> id \<Rightarrow> string \<Rightarrow> chat_db \<Rightarrow> chat option \<times> chat_db" where
  "update_chat_title_by_id now cid title db =
     (case get_chat_by_id cid db of
        (None, db1) \<Rightarrow> (None, db1)
      | (Some c, db1) \<Rightarrow> update_chat_by_id now cid (dset ''title'' (JStr title) (cht_chat c)) db1)"

definition get_chat_title_by_id :: "id \<Rightarrow> chat_db \<Rightarrow> json option \<times> chat_db" where
  "get_chat_title_by_id cid db =
     (case get_chat_by_id cid db of
        (None, db1) \<Rightarrow> (None, db1)
      | (Some c, db1) \<Rightarrow> (Some (dget_or (cht_chat c) ''title'' (JStr ''New Chat'')), db1))"

section \<open>The messages of a chat\<close>

text \<open>\<open>v.get(k, dflt)\<close>.\<close>

definition jget :: "json \<Rightarrow> string \<Rightarrow> json \<Rightarrow> py_error + json" where
  "jget v k dflt = (case v of JDict d \<Rightarrow> Inr (dget_or d k dflt) | _ \<Rightarrow> Inl AttributeError)"

definition messages_of :: "dict \<Rightarrow> py_error + json" where
  "messages_of d = jget (dget_or d ''history'' (JDict [])) ''messages'' (JDict [])"

definition get_messages_map_by_chat_id :: "id \<Rightarrow> chat_db \<Rightarrow> (py_error + json option) \<times> chat_db" where
  "get_messages_map_by_chat_id cid db =
     (case get_chat_by_id cid db of
        (None, db1) \<Rightarrow> (Inr None, db1)
      | (Some c, db1) \<Rightarrow>
          (and_then (messages_of (cht_chat c)) (\<lambda>ms. Inr (Some (if truthy ms then ms else JDict []))), db1))"

definition get_message_by_id_and_message_id ::
  "id \<Rightarrow> string \<Rightarrow> chat_db \<Rightarrow> (py_error + json option) \<times> chat_db" where
  "get_message_by_id_and_message_id cid message_id db =
     (case get_chat_by_id cid db of
        (None, db1) \<Rightarrow> (Inr None, db1)
      | (Some c, db1) \<Rightarrow>
          (and_then (messages_of (cht_chat c)) (\<lambda>ms.
           and_then (jget ms message_id (JDict [])) (\<lambda>m. Inr (Some m))), db1))"

definition clean_content :: "dict \<Rightarrow> dict" where
  "clean_content m = (case dget m ''content'' of
     Some (JStr s) \<Rightarrow> dset ''content'' (JStr (clean_text s)) m
   | _ \<Rightarrow> m)"

text \<open>
  The history after a message is merged into it or added. The message map is written through
  \<open>history["messages"]\<close>, which must be there.
\<close>

definition put_message :: "string \<Rightarrow> dict \<Rightarrow> dict \<Rightarrow> py_error + dict" where
  "put_message message_id message history =
     (case dget history ''messages'' of
        None \<Rightarrow> Inl KeyError
      | Some (JDict ms) \<Rightarrow>
          and_then (case dget ms message_id of
              None \<Rightarrow> Inr message
            | Some (JDict old) \<Rightarrow> Inr (dmerge old message)
            | Some _ \<Rightarrow> Inl TypeError) (\<lambda>m.
            Inr (dset ''currentId'' (JStr message_id)
              (dset ''messages'' (JDict (dset message_id (JDict m) ms)) history)))
      | Some _ \<Rightarrow> Inl TypeError)"

definition upsert_message_to_chat_by_id_and_message_id ::
  "time \<Rightarrow> id \<Rightarrow> string \<Rightarrow> dict \<Rightarrow> chat_db \<Rightarrow> (py_error + chat option) \<times> chat_db" where
  "upsert_message_to_chat_by_id_and_message_id now cid message_id message db =
     (case get_chat_by_id cid db of
        (None, db1) \<Rightarrow> (Inr None, db1)
      | (Some c, db1) \<Rightarrow>
          (case dget_or (cht_chat c) ''history'' (JDict []) of
             JDict history \<Rightarrow>
               (case put_message message_id (clean_content message) history of
                  Inl e \<Rightarrow> (Inl e, db1)
                | Inr h \<Rightarrow>
                    (let (r, db2) = update_chat_by_id now cid (dset ''history'' (JDict h) (cht_chat c)) db1
                     in (Inr r, db2)))
           | _ \<Rightarrow> (Inl AttributeError, db1)))"

text \<open>
  The status and file updates change a message in place, if it is there. What is not a
  message object raises.
\<close>

definition message_status :: "string \<Rightarrow> json \<Rightarrow> dict \<Rightarrow> py_error + dict" where
  "message_status message_id status history =
     (case dget_or history ''messages'' (JDict []) of
        JDict ms \<Rightarrow>
          (case dget ms message_id of
             None \<Rightarrow> Inr history
           | Some (JDict m) \<Rightarrow>
               (case dget_or m ''statusHistory'' (JList []) of
                  JList xs \<Rightarrow> Inr (dset ''messages'' (JDict (dset message_id
                      (JDict (dset ''statusHistory'' (JList (xs @ [status])) m)) ms)) history)
                | _ \<Rightarrow> Inl AttributeError)
           | Some _ \<Rightarrow> Inl AttributeError)
      | _ \<Rightarrow> Inl TypeError)"

definition add_message_status_to_chat_by_id_and_message_id ::
  "time \<Rightarrow> id \<Rightarrow> string \<Rightarrow> json \<Rightarrow> chat_db \<Rightarrow> (py_error + chat option) \<times> chat_db" where
  "add_message_status_to_chat_by_id_and_message_id now cid message_id status db =
     (case get_chat_by_id cid db of
        (None, db1) \<Rightarrow> (Inr None, db1)
      | (Some c, db1) \<Rightarrow>
          (case dget_or (cht_chat c) ''history'' (JDict []) of
             JDict history \<Rightarrow>
               (case message_status message_id status history of
                  Inl e \<Rightarrow> (Inl e, db1)
                | Inr h \<Rightarrow>
                    (let (r, db2) = update_chat_by_id now cid (dset ''history'' (JDict h) (cht_chat c)) db1
                     in (Inr r, db2)))
           | _ \<Rightarrow> (Inl AttributeError, db1)))"

definition message_files :: "string \<Rightarrow> json list \<Rightarrow> dict \<Rightarrow> py_error + json list \<times> dict" where
  "message_files message_id files history =
     (case dget_or history ''messages'' (JDict []) of
        JDict ms \<Rightarrow>
          (case dget ms message_id of
             None \<Rightarrow> Inr ([], history)
           | Some (JDict m) \<Rightarrow>
               (case dget_or m ''files'' (JList []) of
                  JList xs \<Rightarrow> Inr (xs @ files, dset ''messages'' (JDict (dset message_id
                      (JDict (dset ''files'' (JList (xs @ files)) m)) ms)) history)
                | _ \<Rightarrow> Inl TypeError)
           | Some _ \<Rightarrow> Inl AttributeError)
      | _ \<Rightarrow> Inl TypeError)"

definition add_message_files_by_id_and_message_id ::
  "time \<Rightarrow> id \<Rightarrow> string \<Rightarrow> json list \<Rightarrow> chat_db \<Rightarrow> (py_error + json list option) \<times> chat_db" where
  "add_message_files_by_id_and_message_id now cid message_id files db =
     (case get_chat_by_id cid db of
        (None, db1) \<Rightarrow> (Inr None, db1)
      | (Some c, db1) \<Rightarrow>
          (case dget_or (cht_chat c) ''history'' (JDict []) of
             JDict history \<Rightarrow>
               (case message_files message_id files history of
                  Inl e \<Rightarrow> (Inl e, db1)
                | Inr (fs, h) \<Rightarrow>
                    (Inr (Some fs), snd (update_chat_by_id now cid (dset ''history'' (JDict h) (cht_chat c)) db1)))
           | _ \<Rightarrow> (Inl AttributeError, db1)))"

section \<open>Shared copies\<close>

definition shared_owner :: "id \<Rightarrow> id" where
  "shared_owner cid = ''shared-'' @ cid"

definition get_chat_by_id_and_user_id :: "id \<Rightarrow> id \<Rightarrow> chat_db \<Rightarrow> chat option" where
  "get_chat_by_id_and_user_id cid user_id db =
     (case first_row (\<lambda>c. cht_id c = cid \<and> cht_user_id c = user_id) (chats db) of
        None \<Rightarrow> None
      | Some c \<Rightarrow> catch_none (chat_model c))"

definition get_chat_by_share_id :: "id \<Rightarrow> chat_db \<Rightarrow> chat option \<times> chat_db" where
  "get_chat_by_share_id sid db =
     (case first_row (\<lambda>c. cht_share_id c = Some sid) (chats db) of
        None \<Rightarrow> (None, db)
      | Some c \<Rightarrow> get_chat_by_id sid db)"

text \<open>\<open>share_id\<close> is unique; the copy is committed before the original gets its share id.\<close>

definition set_share_id :: "id \<Rightarrow> id option \<Rightarrow> chat_db \<Rightarrow> chat_db option" where
  "set_share_id cid sid db =
     (if sid \<noteq> None \<and> list_ex (\<lambda>c. cht_share_id c = sid \<and> cht_id c \<noteq> cid) (chats db) then None
      else Some (set_chat cid (\<lambda>c. c\<lparr>cht_share_id := sid\<rparr>) db))"

definition shared_copy :: "id \<Rightarrow> time \<Rightarrow> id \<Rightarrow> chat \<Rightarrow> chat" where
  "shared_copy uid now cid c =
     \<lparr>cht_id = uid, cht_user_id = shared_owner cid, cht_title = cht_title c, cht_chat = cht_chat c,
      cht_created_at = cht_created_at c, cht_updated_at = now, cht_share_id = None, cht_archived = False,
      cht_pinned = cht_pinned c, cht_meta = cht_meta c, cht_folder_id = cht_folder_id c\<rparr>"

definition insert_shared_chat_by_chat_id ::
  "id \<Rightarrow> time \<Rightarrow> id \<Rightarrow> chat_db \<Rightarrow> (py_error + chat option) \<times> chat_db" where
  "insert_shared_chat_by_chat_id uid now cid db =
     (case chat_row cid db of
        None \<Rightarrow> (Inl AttributeError, db)
      | Some c \<Rightarrow>
          (if cht_share_id c \<noteq> None \<and> cht_share_id c \<noteq> Some []
           then (Inr (get_chat_by_id_and_user_id (the (cht_share_id c)) ''shared'' db), db)
           else
             (case chat_model (shared_copy uid now cid c) of
                Inl e \<Rightarrow> (Inl e, db)
              | Inr s \<Rightarrow>
                  (case add_row cht_id s (chats db) of
                     None \<Rightarrow> (Inl IntegrityError, db)
                   | Some cs \<Rightarrow>
                       (case set_share_id cid (Some uid) (db\<lparr>chats := cs\<rparr>) of
                          None \<Rightarrow> (Inl IntegrityError, db\<lparr>chats := cs\<rparr>)
                        | Some db' \<Rightarrow> (Inr (Some s), db'))))))"

definition update_shared_chat_by_chat_id :: "id \<Rightarrow> time \<Rightarrow> id \<Rightarrow> chat_db \<Rightarrow> chat option \<times> chat_db" where
  "update_shared_chat_by_chat_id uid now cid db =
     (case first_row (\<lambda>c. cht_user_id c = shared_owner cid) (chats db) of
        None \<Rightarrow> (case insert_shared_chat_by_chat_id uid now cid db of
                   (Inl e, db') \<Rightarrow> (None, db')
                 | (Inr r, db') \<Rightarrow> (r, db'))
      | Some s \<Rightarrow>
          (case chat_row cid db of
             None \<Rightarrow> (None, db)
           | Some c \<Rightarrow>
               (let s' = s\<lparr>cht_title := cht_title c, cht_chat := cht_chat c, cht_meta := cht_meta c,
                     cht_pinned := cht_pinned c, cht_folder_id := cht_folder_id c, cht_updated_at := now\<rparr>
                in (catch_none (chat_model s'), set_chat (cht_id s) (\<lambda>_. s') db))))"

definition delete_chats_where :: "(chat \<Rightarrow> bool) \<Rightarrow> chat_db \<Rightarrow> bool \<times> chat_db" where
  "delete_chats_where p db = (True, db\<lparr>chats := del_rows p (chats db)\<rparr>)"

definition delete_shared_chat_by_chat_id :: "id \<Rightarrow> chat_db \<Rightarrow> bool \<times> chat_db" where
  "delete_shared_chat_by_chat_id cid = delete_chats_where (\<lambda>c. cht_user_id c = shared_owner cid)"

definition update_chat_share_id_by_id :: "id \<Rightarrow> id option \<Rightarrow> chat_db \<Rightarrow> chat option \<times> chat_db" where
  "update_chat_share_id_by_id cid sid db =
     (case chat_row cid db of
        None \<Rightarrow> (None, db)
      | Some c \<Rightarrow>
          (case set_share_id cid sid db of
             None \<Rightarrow> (None, db)
           | Some db' \<Rightarrow> (catch_none (chat_model (c\<lparr>cht_share_id := sid\<rparr>)), db')))"

definition delete_chat_by_id :: "id \<Rightarrow> chat_db \<Rightarrow> bool \<times> chat_db" where
  "delete_chat_by_id cid db =
     delete_shared_chat_by_chat_id cid (snd (delete_chats_where (\<lambda>c. cht_id c = cid) db))"

definition delete_chat_by_id_and_user_id :: "id \<Rightarrow> id \<Rightarrow> chat_db \<Rightarrow> bool \<times> chat_db" where
  "delete_chat_by_id_and_user_id cid user_id db =
     delete_shared_chat_by_chat_id cid (snd (delete_chats_where (\<lambda>c. cht_id c = cid \<and> cht_user_id c = user_id) db))"

definition delete_shared_chats_by_user_id :: "id \<Rightarrow> chat_db \<Rightarrow> bool \<times> chat_db" where
  "delete_shared_chats_by_user_id user_id db =
     (let shared_chat_ids = map (\<lambda>c. shared_owner (cht_id c)) (all_rows (\<lambda>c. cht_user_id c = user_id) (chats db))
      in delete_chats_where (\<lambda>c. cht_user_id c \<in> set shared_chat_ids) db)"

definition delete_chats_by_user_id :: "id \<Rightarrow> chat_db \<Rightarrow> bool \<times> chat_db" where
  "delete_chats_by_user_id user_id db =
     delete_chats_where (\<lambda>c. cht_user_id c = user_id) (snd (delete_shared_chats_by_user_id user_id db))"

definition delete_chats_by_user_id_and_folder_id :: "id \<Rightarrow> id \<Rightarrow> chat_db \<Rightarrow> bool \<times> chat_db" where
  "delete_chats_by_user_id_and_folder_id user_id folder_id =
     delete_chats_where (\<lambda>c. cht_user_id c = user_id \<and> cht_folder_id c = Some folder_id)"

section \<open>Flags and folders\<close>

definition update_chats_where :: "(chat \<Rightarrow> bool) \<Rightarrow> (chat \<Rightarrow> chat) \<Rightarrow> chat_db \<Rightarrow> bool \<times> chat_db" where
  "update_chats_where p f db = (True, db\<lparr>chats := upd_rows p f (chats db)\<rparr>)"

definition update_chat_row :: "id \<Rightarrow> (chat \<Rightarrow> chat) \<Rightarrow> chat_db \<Rightarrow> chat option \<times> chat_db" where
  "update_chat_row cid f db =
     (case chat_row cid db of
        None \<Rightarrow> (None, db)
      | Some c \<Rightarrow> (catch_none (chat_model (f c)), set_chat cid f db))"

definition unarchive_all_chats_by_user_id :: "id \<Rightarrow> chat_db \<Rightarrow> bool \<times> chat_db" where
  "unarchive_all_chats_by_user_id user_id = update_chats_where (\<lambda>c. cht_user_id c = user_id) (\<lambda>c. c\<lparr>cht_archived := False\<rparr>)"

definition archive_all_chats_by_user_id :: "id \<Rightarrow> chat_db \<Rightarrow> bool \<times> chat_db" where
  "archive_all_chats_by_user_id user_id = update_chats_where (\<lambda>c. cht_user_id c = user_id) (\<lambda>c. c\<lparr>cht_archived := True\<rparr>)"

definition toggle_chat_pinned_by_id :: "time \<Rightarrow> id \<Rightarrow> chat_db \<Rightarrow> chat option \<times> chat_db" where
  "toggle_chat_pinned_by_id now cid =
     update_chat_row cid (\<lambda>c. c\<lparr>cht_pinned := Some (cht_pinned c \<noteq> Some True), cht_updated_at := now\<rparr>)"

definition toggle_chat_archive_by_id :: "time \<Rightarrow> id \<Rightarrow> chat_db \<Rightarrow> chat option \<times> chat_db" where
  "toggle_chat_archive_by_id now cid =
     update_chat_row cid (\<lambda>c. c\<lparr>cht_archived := \<not> cht_archived c, cht_folder_id := None, cht_updated_at := now\<rparr>)"

definition update_chat_folder_id_by_id_and_user_id :: "time \<Rightarrow> id \<Rightarrow> id option \<Rightarrow> chat_db \<Rightarrow> chat option \<times> chat_db" where
  "update_chat_folder_id_by_id_and_user_id now cid folder_id =
     update_chat_row cid (\<lambda>c. c\<lparr>cht_folder_id := folder_id, cht_updated_at := now, cht_pinned := Some False\<rparr>)"

definition move_chats_by_user_id_and_folder_id :: "id \<Rightarrow> id \<Rightarrow> id option \<Rightarrow> chat_db \<Rightarrow> bool \<times> chat_db" where
  "move_chats_by_user_id_and_folder_id user_id folder_id new_folder_id =
     update_chats_where (\<lambda>c. cht_user_id c = user_id \<and> cht_folder_id c = Some folder_id)
       (\<lambda>c. c\<lparr>cht_folder_id := new_folder_id\<rparr>)"

definition count_chats_by_folder_id_and_user_id :: "id \<Rightarrow> id \<Rightarrow> chat_db \<Rightarrow> nat" where
  "count_chats_by_folder_id_and_user_id folder_id user_id db =
     length (all_rows (\<lambda>c. cht_user_id c = user_id \<and> cht_folder_id c = Some folder_id) (chats db))"

section \<open>Lists of chats\<close>

text \<open>
  \<open>column\<close> is the attribute look-up together with the database's order on that column.
  A filter is \<open>None\<close> where it is absent or empty.
\<close>

record chat_filter =
  fl_query :: "string option"
  fl_order_by :: "string option"
  fl_direction :: "string option"

definition order_rows :: "bool \<Rightarrow> ('r \<Rightarrow> 'k :: linorder) \<Rightarrow> 'r list \<Rightarrow> 'r list" where
  "order_rows ascending key rs = (if ascending then sort_key key rs else rev (sort_key key (rev rs)))"

definition some_page :: "nat \<Rightarrow> nat \<Rightarrow> 'r list \<Rightarrow> 'r list" where
  "some_page skip lim rs = (let rest = drop skip rs in if lim = 0 then rest else take lim rest)"

definition title_matches :: "char option \<Rightarrow> string \<Rightarrow> chat \<Rightarrow> bool" where
  "title_matches esc q c = (case cht_title c of None \<Rightarrow> False | Some t \<Rightarrow> ilike esc t (''%'' @ q @ ''%''))"

definition filtered_chats ::
  "char option \<Rightarrow> (string \<Rightarrow> (chat \<Rightarrow> 'k :: linorder) option) \<Rightarrow> py_error \<Rightarrow> chat_filter option \<Rightarrow> chat list \<Rightarrow> py_error + chat list"
where
  "filtered_chats esc column bad_column f cs =
     (case f of
        None \<Rightarrow> Inr (order_desc cht_updated_at cs)
      | Some f \<Rightarrow>
          (let cs1 = (case fl_query f of
                        None \<Rightarrow> cs
                      | Some q \<Rightarrow> if q = [] then cs else all_rows (title_matches esc q) cs)
           in case (fl_order_by f, fl_direction f) of
                (Some o1, Some dir) \<Rightarrow>
                  (if o1 = [] \<or> dir = [] then Inr cs1
                   else case column o1 of
                     None \<Rightarrow> Inl bad_column
                   | Some key \<Rightarrow>
                       if lower dir = ''asc'' then Inr (order_rows True key cs1)
                       else if lower dir = ''desc'' then Inr (order_rows False key cs1)
                       else Inl ValueError)
              | _ \<Rightarrow> Inr cs1))"

definition get_archived_chat_list_by_user_id ::
  "char option \<Rightarrow> (string \<Rightarrow> (chat \<Rightarrow> 'k :: linorder) option) \<Rightarrow> id \<Rightarrow> chat_filter option \<Rightarrow> nat \<Rightarrow> nat \<Rightarrow> chat_db \<Rightarrow> py_error + chat list"
where
  "get_archived_chat_list_by_user_id esc column user_id f skip lim db =
     and_then (filtered_chats esc column ValueError f
         (all_rows (\<lambda>c. cht_user_id c = user_id \<and> cht_archived c) (chats db)))
       (\<lambda>cs. each chat_model (some_page skip lim cs))"

definition get_chat_list_by_user_id ::
  "char option \<Rightarrow> (string \<Rightarrow> (chat \<Rightarrow> 'k :: linorder) option) \<Rightarrow> id \<Rightarrow> bool \<Rightarrow> chat_filter option \<Rightarrow> nat \<Rightarrow> nat \<Rightarrow> chat_db \<Rightarrow> py_error + chat list"
where
  "get_chat_list_by_user_id esc column user_id include_archived f skip lim db =
     and_then (filtered_chats esc column AttributeError f
         (all_rows (\<lambda>c. cht_user_id c = user_id \<and> (include_archived \<or> \<not> cht_archived c)) (chats db)))
       (\<lambda>cs. each chat_model (some_page skip lim cs))"

record chat_title_id =
  ct_id :: id
  ct_title :: string
  ct_updated_at :: time
  ct_created_at :: time

definition title_id :: "chat \<Rightarrow> py_error + chat_title_id" where
  "title_id c = (case cht_title c of
     None \<Rightarrow> Inl ValueError
   | Some t \<Rightarrow> Inr \<lparr>ct_id = cht_id c, ct_title = t, ct_updated_at = cht_updated_at c, ct_created_at = cht_created_at c\<rparr>)"

definition get_chat_title_id_list_by_user_id ::
  "id \<Rightarrow> bool \<Rightarrow> bool \<Rightarrow> bool \<Rightarrow> nat \<Rightarrow> nat \<Rightarrow> chat_db \<Rightarrow> py_error + chat_title_id list" where
  "get_chat_title_id_list_by_user_id user_id include_archived include_folders include_pinned skip lim db =
     each title_id (some_page skip lim (order_desc cht_updated_at
       (all_rows (\<lambda>c. cht_user_id c = user_id \<and> (include_folders \<or> cht_folder_id c = None) \<and>
          (include_pinned \<or> cht_pinned c \<noteq> Some True) \<and> (include_archived \<or> \<not> cht_archived c)) (chats db))))"

definition chats_where :: "(chat \<Rightarrow> bool) \<Rightarrow> chat_db \<Rightarrow> py_error + chat list" where
  "chats_where p db = each chat_model (order_desc cht_updated_at (all_rows p (chats db)))"

definition get_chat_list_by_chat_ids :: "id list \<Rightarrow> chat_db \<Rightarrow> py_error + chat list" where
  "get_chat_list_by_chat_ids chat_ids = chats_where (\<lambda>c. cht_id c \<in> set chat_ids \<and> \<not> cht_archived c)"

definition get_chats :: "chat_db \<Rightarrow> py_error + chat list" where
  "get_chats = chats_where (\<lambda>c. True)"

definition get_chats_by_user_id :: "id \<Rightarrow> chat_db \<Rightarrow> py_error + chat list" where
  "get_chats_by_user_id user_id = chats_where (\<lambda>c. cht_user_id c = user_id)"

definition get_pinned_chats_by_user_id :: "id \<Rightarrow> chat_db \<Rightarrow> py_error + chat list" where
  "get_pinned_chats_by_user_id user_id =
     chats_where (\<lambda>c. cht_user_id c = user_id \<and> cht_pinned c = Some True \<and> \<not> cht_archived c)"

definition get_archived_chats_by_user_id :: "id \<Rightarrow> chat_db \<Rightarrow> py_error + chat list" where
  "get_archived_chats_by_user_id user_id = chats_where (\<lambda>c. cht_user_id c = user_id \<and> cht_archived c)"

definition get_chats_by_folder_id_and_user_id :: "id \<Rightarrow> id \<Rightarrow> nat \<Rightarrow> nat \<Rightarrow> chat_db \<Rightarrow> py_error + chat list" where
  "get_chats_by_folder_id_and_user_id folder_id user_id skip lim db =
     each chat_model (some_page skip lim (order_desc cht_updated_at
       (all_rows (\<lambda>c. cht_folder_id c = Some folder_id \<and> cht_user_id c = user_id \<and>
          cht_pinned c \<noteq> Some True \<and> \<not> cht_archived c) (chats db))))"

definition get_chats_by_folder_ids_and_user_id :: "id list \<Rightarrow> id \<Rightarrow> chat_db \<Rightarrow> py_error + chat list" where
  "get_chats_by_folder_ids_and_user_id folder_ids user_id =
     chats_where (\<lambda>c. (case cht_folder_id c of None \<Rightarrow> False | Some f \<Rightarrow> f \<in> set folder_ids) \<and>
       cht_user_id c = user_id \<and> cht_pinned c \<noteq> Some True \<and> \<not> cht_archived c)"

section \<open>Tags\<close>

definition tag_id_of :: "string \<Rightarrow> id" where
  "tag_id_of name = lower (map (\<lambda>c. if c = CHR '' '' then CHR ''_'' else c) name)"

definition insert_new_tag :: "string \<Rightarrow> id \<Rightarrow> chat_db \<Rightarrow> tag option \<times> chat_db" where
  "insert_new_tag name user_id db =
     (let t = \<lparr>tag_id = tag_id_of name, tag_name = name, tag_user_id = user_id, tag_meta = None\<rparr>
      in case add_row (\<lambda>t. (tag_id t, tag_user_id t)) t (chat_tags db) of
           None \<Rightarrow> (None, db)
         | Some ts \<Rightarrow> (Some t, db\<lparr>chat_tags := ts\<rparr>))"

definition get_tag_by_name_and_user_id :: "string \<Rightarrow> id \<Rightarrow> chat_db \<Rightarrow> tag option" where
  "get_tag_by_name_and_user_id name user_id db =
     first_row (\<lambda>t. tag_id t = tag_id_of name \<and> tag_user_id t = user_id) (chat_tags db)"

definition get_tags_by_user_id :: "id \<Rightarrow> chat_db \<Rightarrow> tag list" where
  "get_tags_by_user_id user_id db = all_rows (\<lambda>t. tag_user_id t = user_id) (chat_tags db)"

definition get_tags_by_ids_and_user_id :: "id list \<Rightarrow> id \<Rightarrow> chat_db \<Rightarrow> tag list" where
  "get_tags_by_ids_and_user_id ids user_id db =
     all_rows (\<lambda>t. tag_id t \<in> set ids \<and> tag_user_id t = user_id) (chat_tags db)"

definition delete_tag_by_name_and_user_id :: "string \<Rightarrow> id \<Rightarrow> chat_db \<Rightarrow> bool \<times> chat_db" where
  "delete_tag_by_name_and_user_id name user_id db =
     (True, db\<lparr>chat_tags := del_rows (\<lambda>t. tag_id t = tag_id_of name \<and> tag_user_id t = user_id) (chat_tags db)\<rparr>)"

text \<open>
  \<open>chat.meta.get("tags", [])\<close>, where the code goes on only with a list of texts. The order
  of \<open>list(set(tags))\<close> is left open by Python; first occurrences are kept here.
\<close>

fun texts :: "json list \<Rightarrow> string list option" where
  "texts [] = Some []"
| "texts (JStr s # xs) = map_option (\<lambda>ss. s # ss) (texts xs)"
| "texts _ = None"

definition chat_tag_ids :: "chat \<Rightarrow> string list option" where
  "chat_tag_ids c = (case dget_or (cht_meta c) ''tags'' (JList []) of JList xs \<Rightarrow> texts xs | _ \<Rightarrow> None)"

definition with_tags :: "string list \<Rightarrow> chat \<Rightarrow> chat" where
  "with_tags ts c = c\<lparr>cht_meta := dset ''tags'' (JList (map JStr ts)) (cht_meta c)\<rparr>"

definition has_tag :: "id \<Rightarrow> chat \<Rightarrow> bool" where
  "has_tag t c = (case dget (cht_meta c) ''tags'' of Some (JList xs) \<Rightarrow> JStr t \<in> set xs | _ \<Rightarrow> False)"

definition get_chat_tags_by_id_and_user_id :: "id \<Rightarrow> id \<Rightarrow> chat_db \<Rightarrow> py_error + tag option list" where
  "get_chat_tags_by_id_and_user_id cid user_id db =
     (case chat_row cid db of
        None \<Rightarrow> Inl AttributeError
      | Some c \<Rightarrow>
          (case chat_tag_ids c of
             None \<Rightarrow> Inl TypeError
           | Some ts \<Rightarrow> Inr (map (\<lambda>t. get_tag_by_name_and_user_id t user_id db) ts)))"

definition get_chat_list_by_user_id_and_tag_name :: "id \<Rightarrow> string \<Rightarrow> chat_db \<Rightarrow> py_error + chat list" where
  "get_chat_list_by_user_id_and_tag_name user_id name db =
     each chat_model (all_rows (\<lambda>c. cht_user_id c = user_id \<and> has_tag (tag_id_of name) c) (chats db))"

definition count_chats_by_tag_name_and_user_id :: "string \<Rightarrow> id \<Rightarrow> chat_db \<Rightarrow> nat" where
  "count_chats_by_tag_name_and_user_id name user_id db =
     length (all_rows (\<lambda>c. cht_user_id c = user_id \<and> \<not> cht_archived c \<and> has_tag (tag_id_of name) c) (chats db))"

definition add_chat_tag_by_id_and_user_id_and_tag_name :: "id \<Rightarrow> id \<Rightarrow> string \<Rightarrow> chat_db \<Rightarrow> chat option \<times> chat_db" where
  "add_chat_tag_by_id_and_user_id_and_tag_name cid user_id name db =
     (let (t, db1) = (case get_tag_by_name_and_user_id name user_id db of
                        None \<Rightarrow> insert_new_tag name user_id db
                      | Some t \<Rightarrow> (Some t, db))
      in case (chat_row cid db1, t) of
           (Some c, Some t) \<Rightarrow>
             (case chat_tag_ids c of
                None \<Rightarrow> (None, db1)
              | Some ts \<Rightarrow>
                  (let c' = (if tag_id t \<in> set ts then c else with_tags (remdups (ts @ [tag_id t])) c)
                   in (catch_none (chat_model c'), set_chat cid (\<lambda>_. c') db1)))
         | _ \<Rightarrow> (None, db1))"

definition delete_tag_by_id_and_user_id_and_tag_name :: "id \<Rightarrow> id \<Rightarrow> string \<Rightarrow> chat_db \<Rightarrow> bool \<times> chat_db" where
  "delete_tag_by_id_and_user_id_and_tag_name cid user_id name db =
     (case chat_row cid db of
        None \<Rightarrow> (False, db)
      | Some c \<Rightarrow>
          (case chat_tag_ids c of
             None \<Rightarrow> (False, db)
           | Some ts \<Rightarrow> (True, set_chat cid (with_tags (remdups (filter (\<lambda>t. t \<noteq> tag_id_of name) ts))) db)))"

definition delete_all_tags_by_id_and_user_id :: "id \<Rightarrow> id \<Rightarrow> chat_db \<Rightarrow> bool \<times> chat_db" where
  "delete_all_tags_by_id_and_user_id cid user_id db =
     (case chat_row cid db of
        None \<Rightarrow> (False, db)
      | Some c \<Rightarrow> (True, set_chat cid (with_tags []) db))"

fun drop_unused_tags :: "id \<Rightarrow> string list \<Rightarrow> chat_db \<Rightarrow> chat_db" where
  "drop_unused_tags user_id [] db = db"
| "drop_unused_tags user_id (t # ts) db =
     drop_unused_tags user_id ts
       (if count_chats_by_tag_name_and_user_id t user_id db = 0
        then snd (delete_tag_by_name_and_user_id t user_id db) else db)"

fun add_tags :: "id \<Rightarrow> id \<Rightarrow> string list \<Rightarrow> chat_db \<Rightarrow> chat_db" where
  "add_tags cid user_id [] db = db"
| "add_tags cid user_id (name # names) db =
     add_tags cid user_id names
       (if lower name = ''none'' then db
        else snd (add_chat_tag_by_id_and_user_id_and_tag_name cid user_id name db))"

definition update_chat_tags_by_id :: "id \<Rightarrow> string list \<Rightarrow> id \<Rightarrow> chat_db \<Rightarrow> (py_error + chat option) \<times> chat_db" where
  "update_chat_tags_by_id cid names user_id db =
     (case get_chat_by_id cid db of
        (None, db1) \<Rightarrow> (Inr None, db1)
      | (Some c, db1) \<Rightarrow>
          (let db2 = snd (delete_all_tags_by_id_and_user_id cid user_id db1)
           in case chat_tag_ids c of
                None \<Rightarrow> (Inl TypeError, db2)
              | Some old \<Rightarrow>
                  (let (r, db3) = get_chat_by_id cid (add_tags cid user_id names (drop_unused_tags user_id old db2))
                   in (Inr r, db3))))"

section \<open>Reading cleans\<close>

fun null_free :: "json \<Rightarrow> bool" where
  "null_free (JStr s) = (CHR 0x00 \<notin> set s)"
| "null_free (JDict d) = list_all (\<lambda>(k, v). null_free v) d"
| "null_free (JList xs) = list_all null_free xs"
| "null_free _ = True"

lemma clean_text_free [simp]: "CHR 0x00 \<notin> set (clean_text s)"
  by (simp add: clean_text_def)

lemma clean_text_idem [simp]: "clean_text (clean_text s) = clean_text s"
  by (simp add: clean_text_def)

lemma clean_text_idle: "CHR 0x00 \<notin> set s \<Longrightarrow> clean_text s = s"
  by (auto simp: clean_text_def filter_id_conv)

lemma clean_null_free: "null_free (clean_null_bytes v)"
  by (induction v rule: clean_null_bytes.induct) (auto simp: list_all_iff)

lemma clean_idle: "null_free v \<Longrightarrow> clean_null_bytes v = v"
proof (induction v rule: clean_null_bytes.induct)
  case (2 d)
  then show ?case by (force simp: list_all_iff intro!: map_idI)
next
  case (3 xs)
  then show ?case by (auto simp: list_all_iff intro!: map_idI)
qed (auto simp: clean_text_idle)

lemma clean_idem [simp]: "clean_null_bytes (clean_null_bytes v) = clean_null_bytes v"
  by (rule clean_idle[OF clean_null_free])

lemma clean_dict_idem [simp]: "clean_dict (clean_dict d) = clean_dict d"
  by (auto simp: clean_dict_def)

lemma dget_clean_dict [simp]: "dget (clean_dict d) k = map_option clean_null_bytes (dget d k)"
  unfolding clean_dict_def by (induction d) auto

lemma sanitize_idem [simp]: "sanitize_chat_row (sanitize_chat_row c) = sanitize_chat_row c"
  by (simp add: sanitize_chat_row_def option.map_comp comp_def)

lemma sanitize_id [simp]: "cht_id (sanitize_chat_row c) = cht_id c"
  by (simp add: sanitize_chat_row_def)

lemma chat_row_SomeD: "chat_row cid db = Some c \<Longrightarrow> c \<in> set (chats db) \<and> cht_id c = cid"
  unfolding chat_row_def by (rule row_get_SomeD)

lemma chat_row_set [simp]:
  "(\<And>c. cht_id (f c) = cht_id c) \<Longrightarrow>
     chat_row j (set_chat cid f db) = (if j = cid then map_option f (chat_row cid db) else chat_row j db)"
proof -
  assume f: "\<And>c. cht_id (f c) = cht_id c"
  show ?thesis
    by (cases "row_get cht_id j (chats db)")
       (use f row_get_SomeD[of cht_id j "chats db"] in \<open>auto simp: chat_row_def set_chat_def row_get_upd\<close>)
qed

text \<open>A row written over the row of a chat is found by its id.\<close>

lemma chat_row_write:
  assumes "chat_row cid db = Some c" "cht_id c' = cid"
  shows "chat_row j (set_chat cid (\<lambda>_. c') db) = (if j = cid then Some c' else chat_row j db)"
proof -
  have "set_chat cid (\<lambda>_. c') db = set_chat cid (\<lambda>c. c'\<lparr>cht_id := cht_id c\<rparr>) db"
    using assms(2) by (auto simp: set_chat_def upd_rows_def)
  then show ?thesis using assms chat_row_SomeD[OF assms(1)] by (cases c') auto
qed

lemma set_chat_twice:
  "(\<And>c. cht_id (f c) = cht_id c) \<Longrightarrow> set_chat cid g (set_chat cid f db) = set_chat cid (\<lambda>c. g (f c)) db"
  by (auto simp: set_chat_def upd_rows_def)

lemma chat_tags_set [simp]: "chat_tags (set_chat cid f db) = chat_tags db"
  by (simp add: set_chat_def)

lemma read_clean:
  assumes "get_chat_by_id cid db = (Some c, db')"
  shows "null_free (JDict (cht_chat c)) \<and> (\<exists>t. cht_title c = Some t \<and> CHR 0x00 \<notin> set t) \<and>
    chat_row cid db' = Some c \<and> sanitize_chat_row c = c \<and> get_chat_by_id cid db' = (Some c, db')"
proof -
  obtain r where r: "chat_row cid db = Some r" "c = sanitize_chat_row r" "cht_title c \<noteq> None"
      "db' = set_chat cid sanitize_chat_row db"
    using assms by (auto simp: get_chat_by_id_def chat_model_def split: option.splits if_splits)
  have "null_free (JDict (cht_chat c))"
    using clean_null_free[of "JDict (cht_chat r)"] by (simp add: r(2) sanitize_chat_row_def clean_dict_def)
  moreover have "\<exists>t. cht_title c = Some t \<and> CHR 0x00 \<notin> set t"
    using r(2,3) by (auto simp: sanitize_chat_row_def)
  moreover have "chat_row cid db' = Some c" using r by simp
  ultimately show ?thesis
    using r by (simp add: get_chat_by_id_def chat_model_def set_chat_twice)
qed

text \<open>
  What \<open>get_chat_by_id\<close> returns has no null character in its title or in any text of its
  JSON, the row in the table is the one returned, and reading again returns the same and
  changes nothing.
\<close>

lemma read_chat_clean:
  assumes "get_chat_by_id cid db = (Some c, db')"
  shows "null_free (JDict (cht_chat c)) \<and> (\<exists>t. cht_title c = Some t \<and> CHR 0x00 \<notin> set t) \<and>
    chat_row cid db' = Some c \<and> get_chat_by_id cid db' = (Some c, db')"
  using read_clean[OF assms] by blast

definition memo_chat :: chat where
  "memo_chat = \<lparr>cht_id = ''k1'', cht_user_id = ''kim'', cht_title = Some (''me'' @ [CHR 0x00] @ ''mo''),
     cht_chat = [(''history'', JDict [(''messages'', JDict [(''m1'', JDict [(''content'', JStr ''hi'')])])])],
     cht_created_at = 1, cht_updated_at = 1, cht_share_id = None, cht_archived = False,
     cht_pinned = Some False, cht_meta = [], cht_folder_id = None\<rparr>"

definition sample_chats :: chat_db where
  "sample_chats = \<lparr>chats = [memo_chat, memo_chat\<lparr>cht_id := ''k2'', cht_user_id := ''lee''\<rparr>], chat_tags = []\<rparr>"

lemmas sample_chat_defs = sample_chats_def memo_chat_def

lemma sample_row: "chat_row ''k1'' sample_chats = Some memo_chat"
  by (simp add: chat_row_def row_get_def sample_chat_defs)

lemma read_chat_clean_witness:
  "null_free (JDict (cht_chat (sanitize_chat_row memo_chat)))"
proof -
  have "get_chat_by_id ''k1'' sample_chats = (Some (sanitize_chat_row memo_chat), snd (get_chat_by_id ''k1'' sample_chats))"
    using sample_row by (simp add: get_chat_by_id_def chat_model_def sanitize_chat_row_def memo_chat_def)
  from read_chat_clean[OF this] show ?thesis by simp
qed

section \<open>Sharing\<close>

lemma chat_row_add:
  "add_row cht_id s (chats db) = Some cs \<Longrightarrow> chat_row j (db\<lparr>chats := cs\<rparr>) = (if j = cht_id s then Some s else chat_row j db)"
  by (simp add: chat_row_def row_get_add)

lemma chat_row_chats [simp]: "chat_row j (db\<lparr>chat_tags := ts\<rparr>) = chat_row j db"
  by (simp add: chat_row_def)

lemma shared_owner_inj [simp]: "shared_owner a = shared_owner b \<longleftrightarrow> a = b"
  by (simp add: shared_owner_def)

definition fresh_share :: "id \<Rightarrow> chat_db \<Rightarrow> bool" where
  "fresh_share uid db \<longleftrightarrow> list_all (\<lambda>c. cht_id c \<noteq> uid \<and> cht_share_id c \<noteq> Some uid) (chats db)"

lemma insert_shared_fresh:
  assumes c: "chat_row cid db = Some c" "cht_title c = Some t" "cht_share_id c = None" and f: "fresh_share uid db"
  shows "insert_shared_chat_by_chat_id uid now cid db = (Inr (Some (shared_copy uid now cid c)),
    set_chat cid (\<lambda>c. c\<lparr>cht_share_id := Some uid\<rparr>) (db\<lparr>chats := chats db @ [shared_copy uid now cid c]\<rparr>))"
proof -
  let ?s = "shared_copy uid now cid c"
  have "uid \<notin> cht_id ` set (chats db)" using f by (auto simp: fresh_share_def list_all_iff)
  then have "add_row cht_id ?s (chats db) = Some (chats db @ [?s])" by (simp add: add_row_def shared_copy_def)
  moreover have "set_share_id cid (Some uid) (db\<lparr>chats := chats db @ [?s]\<rparr>) =
      Some (set_chat cid (\<lambda>c. c\<lparr>cht_share_id := Some uid\<rparr>) (db\<lparr>chats := chats db @ [?s]\<rparr>))"
    using f by (auto simp: set_share_id_def list_ex_iff fresh_share_def list_all_iff shared_copy_def)
  moreover have "chat_model ?s = Inr ?s" using c(2) by (simp add: chat_model_def shared_copy_def)
  ultimately show ?thesis
    using c by (simp add: insert_shared_chat_by_chat_id_def)
qed

text \<open>
  Sharing a chat makes a copy that the share link opens with the chat's title and JSON as
  they were (cleaned), and deleting the chat makes the link open nothing and removes the copy.
\<close>

lemma share_link_lifecycle:
  assumes "unique_key cht_id (chats db)" "chat_row cid db = Some c" "cht_title c = Some t" "cht_share_id c = None"
    and "fresh_share uid db" "db1 = snd (insert_shared_chat_by_chat_id uid now cid db)"
    and "db2 = snd (delete_chat_by_id cid db1)"
  shows "(\<exists>s. fst (get_chat_by_share_id uid db1) = Some s \<and> cht_id s = uid \<and> cht_user_id s = shared_owner cid \<and>
      cht_title s = Some (clean_text t) \<and> cht_chat s = clean_dict (cht_chat c)) \<and>
    fst (get_chat_by_share_id uid db2) = None \<and>
    \<not> (\<exists>x \<in> set (chats db2). cht_id x = cid \<or> cht_user_id x = shared_owner cid)"
proof -
  let ?s = "shared_copy uid now cid c"
  let ?f = "\<lambda>c. c\<lparr>cht_share_id := Some uid\<rparr>"
  have db1: "db1 = set_chat cid ?f (db\<lparr>chats := chats db @ [?s]\<rparr>)"
    using insert_shared_fresh[OF assms(2-5)] assms(6) by simp
  have c: "c \<in> set (chats db)" "cht_id c = cid" using chat_row_SomeD[OF assms(2)] by auto
  have fresh: "x \<in> set (chats db) \<Longrightarrow> cht_id x \<noteq> uid \<and> cht_share_id x \<noteq> Some uid" for x
    using assms(5) by (auto simp: fresh_share_def list_all_iff)
  have ne: "uid \<noteq> cid" using fresh[OF c(1)] c(2) by auto
  have "add_row cht_id ?s (chats db) = Some (chats db @ [?s])" using fresh by (auto simp: add_row_def shared_copy_def)
  then have row: "chat_row uid db1 = Some ?s" using ne by (simp add: db1 chat_row_add) (simp add: shared_copy_def)
  have "?f c \<in> set (chats db1)" using c by (auto simp: db1 set_chat_def set_upd_rows)
  then have "\<exists>r \<in> set (chats db1). cht_share_id r = Some uid" by (rule rev_bexI) simp
  then have "first_row (\<lambda>c. cht_share_id c = Some uid) (chats db1) \<noteq> None"
    by (simp add: first_row_None_iff)
  then have 1: "fst (get_chat_by_share_id uid db1) = Some (sanitize_chat_row ?s)"
    using row assms(3) by (auto simp: get_chat_by_share_id_def get_chat_by_id_def chat_model_def sanitize_chat_row_def shared_copy_def split: option.splits)
  have db2: "chats db2 = del_rows (\<lambda>x. cht_user_id x = shared_owner cid) (del_rows (\<lambda>x. cht_id x = cid) (chats db1))"
    by (simp add: assms(7) delete_chat_by_id_def delete_shared_chat_by_chat_id_def delete_chats_where_def)
  have "cht_share_id x \<noteq> Some uid" if "x \<in> set (chats db2)" for x
    using that fresh by (auto simp: db2 db1 set_chat_def set_upd_rows shared_copy_def split: if_splits)
  then have "first_row (\<lambda>c. cht_share_id c = Some uid) (chats db2) = None" by (simp add: first_row_None_iff)
  then have 2: "fst (get_chat_by_share_id uid db2) = None" by (simp add: get_chat_by_share_id_def)
  show ?thesis using 1 2 assms(3) by (auto simp: sanitize_chat_row_def shared_copy_def db2)
qed

lemma share_link_lifecycle_witness:
  "fst (get_chat_by_share_id ''s1'' (snd (delete_chat_by_id ''k1''
     (snd (insert_shared_chat_by_chat_id ''s1'' 9 ''k1'' sample_chats))))) = None"
proof -
  have "unique_key cht_id (chats sample_chats)" "fresh_share ''s1'' sample_chats"
    by (simp_all add: sample_chat_defs fresh_share_def)
  moreover have "cht_title memo_chat = Some (''me'' @ [CHR 0x00] @ ''mo'')" "cht_share_id memo_chat = None"
    by (simp_all add: memo_chat_def)
  ultimately show ?thesis
    using share_link_lifecycle[OF _ sample_row _ _ _ refl refl] by blast
qed

lemma delete_chats_user_rows:
  "chats (snd (delete_chats_by_user_id u db)) = filter (\<lambda>c. cht_user_id c \<noteq> u \<and>
     \<not> (\<exists>d \<in> set (chats db). cht_user_id d = u \<and> cht_user_id c = shared_owner (cht_id d))) (chats db)"
  by (auto simp: delete_chats_by_user_id_def delete_shared_chats_by_user_id_def delete_chats_where_def Let_def
      del_rows_def intro!: filter_cong)

section \<open>Messages\<close>

lemma put_message_Inr:
  assumes "dget h ''messages'' = Some (JDict ms)" "dget ms mid = None \<or> (\<exists>old. dget ms mid = Some (JDict old))"
  shows "put_message mid m h = Inr (dset ''currentId'' (JStr mid) (dset ''messages''
    (JDict (dset mid (JDict (case dget ms mid of Some (JDict old) \<Rightarrow> dmerge old m | _ \<Rightarrow> m)) ms)) h))"
  using assms by (auto simp: put_message_def split: option.splits)

lemma jget_dict [simp]: "jget (JDict d) k dflt = Inr (dget_or d k dflt)"
  by (simp add: jget_def)

text \<open>What an upsert leaves in the chat that is read next.\<close>

lemma upsert_writes:
  assumes "get_chat_by_id cid db = (Some c, db0)"
    and "dget (cht_chat c) ''history'' = Some (JDict h)" "dget h ''messages'' = Some (JDict ms)"
    and "dget ms mid = None \<or> (\<exists>old. dget ms mid = Some (JDict old))"
    and "\<exists>t. title_of (cht_chat c) = JStr t"
  obtains r db' c' db'' where
    "upsert_message_to_chat_by_id_and_message_id now cid mid m db = (Inr (Some r), db')"
    "get_chat_by_id cid db' = (Some c', db'')" "title_of (cht_chat c') = title_of (cht_chat c)"
    "cht_chat c' = clean_dict (dset ''history'' (JDict (dset ''currentId'' (JStr mid) (dset ''messages'' (JDict (dset mid
      (JDict (case dget ms mid of Some (JDict old) \<Rightarrow> dmerge old (clean_content m) | _ \<Rightarrow> clean_content m)) ms)) h))) (cht_chat c))"
proof -
  obtain t where t: "title_of (cht_chat c) = JStr t" using assms(5) by blast
  let ?m = "case dget ms mid of Some (JDict old) \<Rightarrow> dmerge old (clean_content m) | _ \<Rightarrow> clean_content m"
  let ?h = "dset ''currentId'' (JStr mid) (dset ''messages'' (JDict (dset mid (JDict ?m) ms)) h)"
  let ?d = "dset ''history'' (JDict ?h) (cht_chat c)"
  let ?r = "c\<lparr>cht_chat := clean_dict ?d, cht_title := Some t, cht_updated_at := now\<rparr>"
  have row: "chat_row cid db0 = Some c" "cht_id c = cid"
    using read_clean[OF assms(1)] chat_row_SomeD by blast+
  have td: "title_of ?d = JStr t" using t by (simp add: title_of_def)
  have up: "update_chat_by_id now cid ?d db0 = (Some ?r, set_chat cid (\<lambda>_. ?r) db0)"
    using row td by (simp add: update_chat_by_id_def)
  have 1: "upsert_message_to_chat_by_id_and_message_id now cid mid m db = (Inr (Some ?r), set_chat cid (\<lambda>_. ?r) db0)"
    using assms put_message_Inr[OF assms(3,4), of "clean_content m"] up
    by (simp add: upsert_message_to_chat_by_id_and_message_id_def dget_or_def)
  have row': "chat_row cid (set_chat cid (\<lambda>_. ?r) db0) = Some ?r"
    using chat_row_write[OF row(1), of ?r] row(2) by simp
  have s: "cht_chat (sanitize_chat_row ?r) = clean_dict ?d" "cht_title (sanitize_chat_row ?r) \<noteq> None"
    by (simp_all add: sanitize_chat_row_def)
  have g: "get_chat_by_id cid (set_chat cid (\<lambda>_. ?r) db0) =
      (Some (sanitize_chat_row ?r), set_chat cid sanitize_chat_row (set_chat cid (\<lambda>_. ?r) db0))"
    using row' s(2) by (simp add: get_chat_by_id_def chat_model_def)
  have "title_of (clean_dict ?d) = title_of (cht_chat c)"
    by (simp add: title_of_def split: option.split)
  then show ?thesis using that[OF 1 g] s(1) by simp
qed

text \<open>
  C25: Storing a message in a chat whose history has a message map succeeds: the map read
  back holds, under the message's id, the old message overridden by the new one (cleaned),
  and every other message as it was read before.
\<close>

theorem upsert_message_stored:
  assumes "get_chat_by_id cid db = (Some c, db0)"
    and "dget (cht_chat c) ''history'' = Some (JDict h)" "dget h ''messages'' = Some (JDict ms)"
    and "dget ms mid = None \<or> (\<exists>old. dget ms mid = Some (JDict old))"
    and "\<exists>t. title_of (cht_chat c) = JStr t"
  shows "\<exists>r db' ms' db''. upsert_message_to_chat_by_id_and_message_id now cid mid m db = (Inr (Some r), db') \<and>
    get_messages_map_by_chat_id cid db' = (Inr (Some (JDict ms')), db'') \<and>
    dget ms' mid = Some (clean_null_bytes (JDict
      (case dget ms mid of Some (JDict old) \<Rightarrow> dmerge old (clean_content m) | _ \<Rightarrow> clean_content m))) \<and>
    \<not> (\<exists>k. k \<noteq> mid \<and> dget ms' k \<noteq> map_option clean_null_bytes (dget ms k))"
proof -
  obtain r db' c' db'' where u: "upsert_message_to_chat_by_id_and_message_id now cid mid m db = (Inr (Some r), db')"
    "get_chat_by_id cid db' = (Some c', db'')" "title_of (cht_chat c') = title_of (cht_chat c)"
    "cht_chat c' = clean_dict (dset ''history'' (JDict (dset ''currentId'' (JStr mid) (dset ''messages'' (JDict (dset mid
      (JDict (case dget ms mid of Some (JDict old) \<Rightarrow> dmerge old (clean_content m) | _ \<Rightarrow> clean_content m)) ms)) h))) (cht_chat c))"
    by (rule upsert_writes[OF assms])
  let ?ms = "dset mid (JDict (case dget ms mid of Some (JDict old) \<Rightarrow> dmerge old (clean_content m) | _ \<Rightarrow> clean_content m)) ms"
  have mo: "messages_of (cht_chat c') = Inr (clean_null_bytes (JDict ?ms))"
    by (simp add: u(4) messages_of_def dget_or_def flip: clean_dict_def)
  have "clean_dict ?ms \<noteq> []" by (cases ms) (auto simp: clean_dict_def)
  then have "get_messages_map_by_chat_id cid db' = (Inr (Some (JDict (clean_dict ?ms))), db'')"
    by (simp add: get_messages_map_by_chat_id_def u(2) mo flip: clean_dict_def)
  moreover have "dget (clean_dict ?ms) mid = Some (clean_null_bytes (JDict
      (case dget ms mid of Some (JDict old) \<Rightarrow> dmerge old (clean_content m) | _ \<Rightarrow> clean_content m)))"
    "\<not> (\<exists>k. k \<noteq> mid \<and> dget (clean_dict ?ms) k \<noteq> map_option clean_null_bytes (dget ms k))"
    by simp_all
  ultimately show ?thesis using u(1) by blast
qed

lemma upsert_message_stored_witness:
  "\<exists>r db' ms' db''. upsert_message_to_chat_by_id_and_message_id 5 ''k1'' ''m1'' [(''done'', JBool True)] sample_chats = (Inr (Some r), db') \<and>
    get_messages_map_by_chat_id ''k1'' db' = (Inr (Some (JDict ms')), db'') \<and>
    dget ms' ''m1'' = Some (JDict [(''content'', JStr ''hi''), (''done'', JBool True)])"
proof -
  let ?c = "sanitize_chat_row memo_chat"
  have "get_chat_by_id ''k1'' sample_chats = (Some ?c, snd (get_chat_by_id ''k1'' sample_chats))"
    using sample_row by (simp add: get_chat_by_id_def chat_model_def sanitize_chat_row_def memo_chat_def)
  moreover have "dget (cht_chat ?c) ''history'' = Some (JDict [(''messages'', JDict [(''m1'', JDict [(''content'', JStr ''hi'')])])])"
    "\<exists>t. title_of (cht_chat ?c) = JStr t"
    by (simp_all add: sanitize_chat_row_def memo_chat_def clean_dict_def clean_text_def title_of_def)
  ultimately show ?thesis
    using upsert_message_stored[of "''k1''" sample_chats ?c _ _ _ "''m1''" 5 "[(''done'', JBool True)]"]
    by (fastforce simp: clean_content_def dmerge_def clean_text_def)
qed

text \<open>
  A chat without a history cannot take a message: although the code reads the history
  with an empty default, writing into it raises a \<open>KeyError\<close>.
\<close>

lemma upsert_needs_history:
  assumes "get_chat_by_id cid db = (Some c, db0)" "dget (cht_chat c) ''history'' = None"
  shows "upsert_message_to_chat_by_id_and_message_id now cid mid m db = (Inl KeyError, db0)"
  using assms by (simp add: upsert_message_to_chat_by_id_and_message_id_def put_message_def dget_or_def)

lemma upsert_needs_history_witness:
  "fst (upsert_message_to_chat_by_id_and_message_id 5 ''k1'' ''m1'' []
     (sample_chats\<lparr>chats := [memo_chat\<lparr>cht_chat := []\<rparr>]\<rparr>)) = Inl KeyError"
proof -
  let ?db = "sample_chats\<lparr>chats := [memo_chat\<lparr>cht_chat := []\<rparr>]\<rparr>"
  have "get_chat_by_id ''k1'' ?db = (Some (sanitize_chat_row (memo_chat\<lparr>cht_chat := []\<rparr>)), snd (get_chat_by_id ''k1'' ?db))"
    by (simp add: get_chat_by_id_def chat_model_def sanitize_chat_row_def sample_chat_defs chat_row_def row_get_def)
  from upsert_needs_history[OF this, of 5 "''m1''" "[]"] show ?thesis
    by (simp add: sanitize_chat_row_def clean_dict_def)
qed

section \<open>Tags of a chat\<close>

lemma lower_underscore: "lower_char CHR ''_'' = CHR ''_''" "lower_char CHR '' '' = CHR '' ''"
  by (simp_all add: lower_char_def Let_def)

lemma lower_char_space: "lower_char c = CHR '' '' \<longleftrightarrow> c = CHR '' ''"
proof
  assume l: "lower_char c = CHR '' ''"
  show "c = CHR '' ''"
  proof (cases "(65 \<le> code c \<and> code c \<le> 90) \<or> (192 \<le> code c \<and> code c \<le> 222 \<and> code c \<noteq> 215)")
    case True
    then have "code (lower_char c) = code c + 32"
      by (auto simp: lower_char_def Let_def take_bit_eq_mod of_char_of)
    then show ?thesis using l True by simp
  next
    case False
    then have "lower_char c = c" unfolding lower_char_def Let_def by (rule if_not_P)
    then show ?thesis using l by simp
  qed
qed (simp add: lower_underscore)

lemma tag_id_of_idem [simp]: "tag_id_of (tag_id_of n) = tag_id_of n"
  by (auto simp: tag_id_of_def lower_def lower_char_space lower_underscore)

lemma texts_JStr [simp]: "texts (map JStr ss) = Some ss"
  by (induction ss) auto

lemma chat_tag_ids_with [simp]: "chat_tag_ids (with_tags ts c) = Some ts"
  by (simp add: chat_tag_ids_def with_tags_def dget_or_def)

lemma with_tags_simps [simp]:
  "cht_id (with_tags ts c) = cht_id c" "cht_title (with_tags ts c) = cht_title c"
  "cht_chat (with_tags ts c) = cht_chat c"
  by (simp_all add: with_tags_def)

definition tag_rows :: "chat_db \<Rightarrow> id \<Rightarrow> id set" where
  "tag_rows db u = tag_id ` {t \<in> set (chat_tags db). tag_user_id t = u}"

lemma get_tag_None_iff: "get_tag_by_name_and_user_id n u db = None \<longleftrightarrow> tag_id_of n \<notin> tag_rows db u"
  by (auto simp: get_tag_by_name_and_user_id_def first_row_None_iff tag_rows_def image_iff)

lemma get_tag_SomeD: "get_tag_by_name_and_user_id n u db = Some t \<Longrightarrow> tag_id t = tag_id_of n"
  by (auto simp: get_tag_by_name_and_user_id_def dest: first_row_SomeD)

text \<open>One step of adding tags: the row of the tag is there, the chat has the tag as well.\<close>

lemma add_tag_step:
  assumes "chat_row cid db = Some c" "chat_tag_ids c = Some ts" "set ts \<subseteq> tag_rows db u"
    and db': "db' = snd (add_chat_tag_by_id_and_user_id_and_tag_name cid u n db)"
  shows "\<exists>c' ts'. chat_row cid db' = Some c' \<and> chat_tag_ids c' = Some ts' \<and> set ts' = insert (tag_id_of n) (set ts) \<and>
    set ts' \<subseteq> tag_rows db' u \<and> cht_title c' = cht_title c \<and> cht_chat c' = cht_chat c"
proof -
  define p where "p = (case get_tag_by_name_and_user_id n u db of None \<Rightarrow> insert_new_tag n u db | Some t \<Rightarrow> (Some t, db))"
  obtain t db1 where p: "p = (Some t, db1)" and t: "tag_id t = tag_id_of n" and rows: "tag_id_of n \<in> tag_rows db1 u"
      "tag_rows db u \<subseteq> tag_rows db1 u" and row1: "chat_row cid db1 = chat_row cid db"
  proof (cases "get_tag_by_name_and_user_id n u db")
    case None
    then have "(tag_id_of n, u) \<notin> (\<lambda>t. (tag_id t, tag_user_id t)) ` set (chat_tags db)"
      by (auto simp: get_tag_None_iff tag_rows_def)
    moreover define x where "x = \<lparr>tag_id = tag_id_of n, tag_name = n, tag_user_id = u, tag_meta = None\<rparr>"
    ultimately have "p = (Some x, db\<lparr>chat_tags := chat_tags db @ [x]\<rparr>)"
      using None by (simp add: p_def insert_new_tag_def add_row_def Let_def)
    moreover have "tag_id_of n \<in> tag_rows (db\<lparr>chat_tags := chat_tags db @ [x]\<rparr>) u"
    proof -
      have "x \<in> {t \<in> set (chat_tags (db\<lparr>chat_tags := chat_tags db @ [x]\<rparr>)). tag_user_id t = u}"
        by (simp add: x_def)
      from imageI[OF this, of tag_id] have "tag_id x \<in> tag_rows (db\<lparr>chat_tags := chat_tags db @ [x]\<rparr>) u"
        by (simp only: tag_rows_def)
      then show ?thesis by (simp add: x_def)
    qed
    moreover have "tag_rows db u \<subseteq> tag_rows (db\<lparr>chat_tags := chat_tags db @ [x]\<rparr>) u"
      by (auto simp: tag_rows_def)
    ultimately show thesis using that by (simp add: x_def)
  next
    case (Some x)
    moreover have "tag_id_of n \<in> tag_rows db u" using Some get_tag_None_iff by (metis option.distinct(1))
    ultimately show thesis using that get_tag_SomeD[OF Some] by (auto simp: p_def)
  qed
  let ?c = "if tag_id t \<in> set ts then c else with_tags (remdups (ts @ [tag_id t])) c"
  have "db' = set_chat cid (\<lambda>_. ?c) db1"
    using assms(1,2) p row1
    by (simp add: db' add_chat_tag_by_id_and_user_id_and_tag_name_def p_def[symmetric] Let_def)
  moreover have "chat_row cid (set_chat cid (\<lambda>_. ?c) db1) = Some ?c"
    using chat_row_write[of cid db1 c ?c] chat_row_SomeD[OF assms(1)] assms(1) row1 by simp
  moreover have "tag_rows (set_chat cid (\<lambda>_. ?c) db1) u = tag_rows db1 u" by (simp add: tag_rows_def)
  ultimately show ?thesis
    using assms(2,3) rows t by (cases "tag_id t \<in> set ts") auto
qed

lemma add_tags_spec:
  "chat_row cid db = Some c \<Longrightarrow> chat_tag_ids c = Some ts \<Longrightarrow> set ts \<subseteq> tag_rows db u \<Longrightarrow>
   \<exists>c' ts'. chat_row cid (add_tags cid u ns db) = Some c' \<and> chat_tag_ids c' = Some ts' \<and>
     set ts' = set ts \<union> tag_id_of ` {n \<in> set ns. lower n \<noteq> ''none''} \<and>
     set ts' \<subseteq> tag_rows (add_tags cid u ns db) u \<and> cht_title c' = cht_title c \<and> cht_chat c' = cht_chat c"
proof (induction ns arbitrary: db c ts)
  case (Cons n ns)
  show ?case
  proof (cases "lower n = ''none''")
    case True
    then have "{m \<in> set (n # ns). lower m \<noteq> ''none''} = {m \<in> set ns. lower m \<noteq> ''none''}" by auto
    then show ?thesis using Cons.IH[OF Cons.prems] True by simp
  next
    case False
    obtain c1 ts1 where s: "chat_row cid (snd (add_chat_tag_by_id_and_user_id_and_tag_name cid u n db)) = Some c1"
        "chat_tag_ids c1 = Some ts1" "set ts1 = insert (tag_id_of n) (set ts)"
        "set ts1 \<subseteq> tag_rows (snd (add_chat_tag_by_id_and_user_id_and_tag_name cid u n db)) u"
        "cht_title c1 = cht_title c" "cht_chat c1 = cht_chat c"
      using add_tag_step[OF Cons.prems refl] by blast
    have "{m \<in> set (n # ns). lower m \<noteq> ''none''} = insert n {m \<in> set ns. lower m \<noteq> ''none''}" using False by auto
    then show ?thesis using Cons.IH[OF s(1,2,4)] False s(3,5,6) by auto
  qed
qed auto

lemma drop_unused_chats [simp]: "chats (drop_unused_tags u ts db) = chats db"
  by (induction u ts db rule: drop_unused_tags.induct) (simp_all add: delete_tag_by_name_and_user_id_def)

text \<open>
  Setting the tags of a chat leaves it with exactly the ids of the given names, ``none''
  aside, and with a row of its own for each of them, whatever tags it had and whatever
  unused tags were dropped in between.
\<close>

lemma update_tags_exact:
  assumes "get_chat_by_id cid db = (Some c, db0)" "chat_tag_ids c = Some old"
  shows "\<exists>c' ts db'. update_chat_tags_by_id cid names u db = (Inr (Some c'), db') \<and> chat_tag_ids c' = Some ts \<and>
    set ts = tag_id_of ` {n \<in> set names. lower n \<noteq> ''none''} \<and> set ts \<subseteq> tag_rows db' u \<and> cht_chat c' = cht_chat c"
proof -
  note rc = read_clean[OF assms(1)]
  let ?db1 = "set_chat cid (with_tags []) db0" and ?c1 = "with_tags [] c"
  have d: "snd (delete_all_tags_by_id_and_user_id cid u db0) = ?db1"
    using rc by (simp add: delete_all_tags_by_id_and_user_id_def)
  have r1: "chat_row cid (drop_unused_tags u old ?db1) = Some ?c1"
    using rc chat_row_set[of "with_tags []" cid cid db0] by (simp add: chat_row_def set_chat_def)
  obtain c2 ts where s: "chat_row cid (add_tags cid u names (drop_unused_tags u old ?db1)) = Some c2"
      "chat_tag_ids c2 = Some ts" "set ts = tag_id_of ` {n \<in> set names. lower n \<noteq> ''none''}"
      "set ts \<subseteq> tag_rows (add_tags cid u names (drop_unused_tags u old ?db1)) u"
      "cht_title c2 = cht_title c" "cht_chat c2 = cht_chat c"
    using add_tags_spec[OF r1, of "[]" u names] by auto
  let ?db2 = "add_tags cid u names (drop_unused_tags u old ?db1)"
  have sc: "sanitize_chat_row c = c" using rc by blast
  have "cht_chat (sanitize_chat_row c) = cht_chat c" "cht_title (sanitize_chat_row c) = cht_title c"
    by (simp_all only: sc)
  then have "clean_dict (cht_chat c) = cht_chat c" "map_option clean_text (cht_title c) = cht_title c"
    by (simp_all add: sanitize_chat_row_def)
  then have c2: "sanitize_chat_row c2 = c2" using s(5,6) by (simp add: sanitize_chat_row_def)
  have "get_chat_by_id cid ?db2 = (Some c2, set_chat cid sanitize_chat_row ?db2)"
    using s(1,5) rc c2 by (auto simp: get_chat_by_id_def chat_model_def)
  then show ?thesis
    using assms d s by (auto simp: update_chat_tags_by_id_def Let_def tag_rows_def)
qed

lemma update_tags_exact_witness:
  "\<exists>c' ts db'. update_chat_tags_by_id ''k1'' [''To Do'', ''None'', ''x''] ''kim'' sample_chats = (Inr (Some c'), db') \<and>
    chat_tag_ids c' = Some ts \<and> set ts = tag_id_of ` {n \<in> set [''To Do'', ''None'', ''x'']. lower n \<noteq> ''none''}"
proof -
  let ?c = "sanitize_chat_row memo_chat"
  have "get_chat_by_id ''k1'' sample_chats = (Some ?c, snd (get_chat_by_id ''k1'' sample_chats))"
    using sample_row by (simp add: get_chat_by_id_def chat_model_def sanitize_chat_row_def memo_chat_def)
  moreover have "chat_tag_ids ?c = Some []"
    by (simp add: sanitize_chat_row_def memo_chat_def chat_tag_ids_def dget_or_def)
  ultimately show ?thesis
    using update_tags_exact[of "''k1''" sample_chats ?c _ "[]" "[''To Do'', ''None'', ''x'']" "''kim''"] by blast
qed

end
