(* ===== verification/Folder_Deletion.thy ===== *)
theory Folder_Deletion
  imports Chats Access_Control
begin

text \<open>
  The handler of \<^verbatim>\<open>routers/folders.py\<close> that deletes a folder together with, or leaving
  behind, the chats in it. It joins the folder table, the chats and the permission check.
\<close>

definition for_contents :: "bool \<Rightarrow> id \<Rightarrow> id \<Rightarrow> chat_db \<Rightarrow> chat_db" where
  "for_contents delete_contents user_id folder_id cdb =
     snd (if delete_contents then delete_chats_by_user_id_and_folder_id user_id folder_id cdb
          else move_chats_by_user_id_and_folder_id user_id folder_id None cdb)"

text \<open>
  \<open>config\<close> are the configured permissions, \<open>builtin\<close> the defaults they are filled from. The
  subfolders read in the \<open>finally\<close> block play no part, but reading them may raise.
\<close>

definition delete_folder_by_id ::
  "dict \<Rightarrow> dict \<Rightarrow> id \<Rightarrow> string \<Rightarrow> nat \<Rightarrow> id \<Rightarrow> bool \<Rightarrow> group_db \<Rightarrow> folder_db \<Rightarrow> chat_db \<Rightarrow>
     (http_error + bool) \<times> folder_db \<times> chat_db" where
  "delete_folder_by_id builtin config user_id role n fid delete_contents gdb fdb cdb =
     (let allowed = (if count_chats_by_folder_id_and_user_id fid user_id cdb = 0 then Inr True
                     else and_then (fst (has_permission builtin user_id ''chat.delete'' config gdb))
                            (\<lambda>b. Inr (role = ''admin'' \<or> b)))
      in case allowed of
           Inl e \<Rightarrow> (Inl ServerError, fdb, cdb)
         | Inr False \<Rightarrow> (Inl Forbidden, fdb, cdb)
         | Inr True \<Rightarrow>
             (case get_folder_by_id_and_user_id fid user_id fdb of
                None \<Rightarrow> (Inl NotFound, fdb, cdb)
              | Some f \<Rightarrow>
                  (let (ids, fdb') = delete_folder_by_id_and_user_id n fid user_id fdb;
                       cdb' = fold (for_contents delete_contents user_id) ids cdb
                   in case get_folders_by_parent_id_and_user_id (Some (fld_id f)) user_id fdb' of
                        Inl e \<Rightarrow> (Inl ServerError, fdb', cdb')
                      | Inr subfolders \<Rightarrow> (Inr True, fdb', cdb'))))"

lemma chats_for_contents_delete:
  "chats (fold (for_contents True u) ids cdb) =
     filter (\<lambda>c. \<not> (cht_user_id c = u \<and> cht_folder_id c \<in> Some ` set ids)) (chats cdb)"
proof (induction ids arbitrary: cdb)
  case (Cons i ids)
  have "chats (for_contents True u i cdb) = filter (\<lambda>c. \<not> (cht_user_id c = u \<and> cht_folder_id c = Some i)) (chats cdb)"
    by (simp add: for_contents_def delete_chats_by_user_id_and_folder_id_def delete_chats_where_def del_rows_def)
  then show ?case by (auto simp: Cons.IH intro!: filter_cong)
qed simp

lemma chats_for_contents_move:
  "chats (fold (for_contents False u) ids cdb) =
     map (\<lambda>c. if cht_user_id c = u \<and> cht_folder_id c \<in> Some ` set ids then c\<lparr>cht_folder_id := None\<rparr> else c) (chats cdb)"
proof (induction ids arbitrary: cdb)
  case (Cons i ids)
  have "chats (for_contents False u i cdb) =
      map (\<lambda>c. if cht_user_id c = u \<and> cht_folder_id c = Some i then c\<lparr>cht_folder_id := None\<rparr> else c) (chats cdb)"
    by (simp add: for_contents_def move_chats_by_user_id_and_folder_id_def update_chats_where_def upd_rows_def)
  then show ?case by (auto simp: Cons.IH)
qed simp

lemma readable_filter: "readable u db \<Longrightarrow> readable u (filter p db)"
  by (auto simp: readable_def list_all_iff unique_key_def distinct_map_filter)

lemma readable_found: "readable u db \<Longrightarrow> has_folder fid u db \<Longrightarrow>
    \<exists>f. get_folder_by_id_and_user_id fid u db = Some f \<and> fld_id f = fid"
  using first_row_SomeD
  by (fastforce simp: has_folder_def get_folder_by_id_and_user_id_def folder_model_def readable_def list_all_iff owned_def)

definition may_delete :: "dict \<Rightarrow> dict \<Rightarrow> id \<Rightarrow> string \<Rightarrow> id \<Rightarrow> group_db \<Rightarrow> chat_db \<Rightarrow> bool" where
  "may_delete builtin config u role fid gdb cdb \<longleftrightarrow>
     count_chats_by_folder_id_and_user_id fid u cdb = 0 \<or>
     fst (has_permission builtin u ''chat.delete'' config gdb) = Inr True \<or>
     (role = ''admin'' \<and> fst (has_permission builtin u ''chat.delete'' config gdb) = Inr False)"

definition doomed :: "folder_db \<Rightarrow> id \<Rightarrow> id \<Rightarrow> folder \<Rightarrow> bool" where
  "doomed fdb u fid f \<longleftrightarrow> fld_user_id f = u \<and> below_eq fdb u fid (fld_id f)"

definition in_doomed :: "folder_db \<Rightarrow> id \<Rightarrow> id \<Rightarrow> chat \<Rightarrow> bool" where
  "in_doomed fdb u fid c \<longleftrightarrow> cht_user_id c = u \<and> (\<exists>f \<in> set fdb. doomed fdb u fid f \<and> cht_folder_id c = Some (fld_id f))"

text \<open>
  When the caller may delete, deleting a folder that is on no cycle removes the folder
  with everything below it, and of the chats it removes (or, if asked, moves out of their
  folders) exactly the caller's chats in one of these folders.
\<close>

lemma delete_folder_with_contents:
  assumes "readable u fdb" "has_folder fid u fdb" "\<not> below fdb u fid fid" "length fdb < n"
    and "may_delete builtin config u role fid gdb cdb"
  shows "\<exists>fdb' cdb'. delete_folder_by_id builtin config u role n fid dc gdb fdb cdb = (Inr True, fdb', cdb') \<and>
    fdb' = filter (\<lambda>f. \<not> doomed fdb u fid f) fdb \<and>
    chats cdb' = (if dc then filter (\<lambda>c. \<not> in_doomed fdb u fid c) (chats cdb)
      else map (\<lambda>c. if in_doomed fdb u fid c then c\<lparr>cht_folder_id := None\<rparr> else c) (chats cdb))"
proof -
  obtain ids where ids: "delete_folder_by_id_and_user_id n fid u fdb = (ids, filter (\<lambda>f. \<not> doomed fdb u fid f) fdb)"
      "set ids = insert fid (fld_id ` rows_below fdb u fid)"
    using delete_tree[OF assms(1-4)] unfolding doomed_def by blast
  obtain f where f: "get_folder_by_id_and_user_id fid u fdb = Some f" "fld_id f = fid"
    using readable_found[OF assms(1,2)] by blast
  have root: "\<exists>f \<in> set fdb. fld_id f = fid \<and> fld_user_id f = u"
    using assms(2) first_row_SomeD by (fastforce simp: has_folder_def owned_def)
  have "i \<in> set ids \<longleftrightarrow> (\<exists>f \<in> set fdb. doomed fdb u fid f \<and> i = fld_id f)" for i
    using root by (auto simp: ids(2) doomed_def rows_below_def below_eq_def)
  then have eq: "cht_user_id c = u \<and> cht_folder_id c \<in> Some ` set ids \<longleftrightarrow> in_doomed fdb u fid c" for c
    by (auto simp: in_doomed_def image_iff)
  have "get_folders_by_parent_id_and_user_id (Some fid) u (filter (\<lambda>f. \<not> doomed fdb u fid f) fdb) =
      Inr (kids (filter (\<lambda>f. \<not> doomed fdb u fid f) fdb) u fid)"
    by (rule by_parent_readable[OF readable_filter[OF assms(1)]])
  then show ?thesis
    using assms(5) ids(1) f
    by (cases dc) (auto simp: delete_folder_by_id_def may_delete_def chats_for_contents_delete
        chats_for_contents_move eq Let_def)
qed

lemma delete_folder_with_contents_witness:
  "\<exists>fdb' cdb'. delete_folder_by_id [] [] ''kim'' ''user'' 4 ''a'' True sample_groups sample_folders sample_chats =
      (Inr True, fdb', cdb') \<and>
    fdb' = filter (\<lambda>f. \<not> doomed sample_folders ''kim'' ''a'' f) sample_folders"
proof -
  have "may_delete [] [] ''kim'' ''user'' ''a'' sample_groups sample_chats"
    by (simp add: may_delete_def count_chats_by_folder_id_and_user_id_def sample_chat_defs)
  from delete_folder_with_contents[OF sample_folders_ok(1,2) sample_not_below sample_folders_ok(3) this, of True]
  show ?thesis by blast
qed

text \<open>
  Only the chats directly in the folder are checked against the permission to delete
  chats: a user without it, refused for the subfolder itself, deletes the chats of the
  subfolder by deleting the folder above it.
\<close>

lemma subfolder_chats_escape_permission:
  defines "cdb \<equiv> sample_chats\<lparr>chats := [memo_chat\<lparr>cht_folder_id := Some ''b''\<rparr>]\<rparr>"
    and "none \<equiv> [(''chat'', JDict [(''delete'', JBool False)])]"
  shows "fst (delete_folder_by_id none none ''kim'' ''user'' 9 ''b'' True (sample_groups\<lparr>group_members := []\<rparr>) sample_folders cdb)
      = Inl Forbidden \<and>
    fst (delete_folder_by_id none none ''kim'' ''user'' 9 ''a'' True (sample_groups\<lparr>group_members := []\<rparr>) sample_folders cdb)
      = Inr True \<and>
    chats (snd (snd (delete_folder_by_id none none ''kim'' ''user'' 9 ''a'' True (sample_groups\<lparr>group_members := []\<rparr>)
      sample_folders cdb))) = []"
proof -
  have p: "fst (has_permission none ''kim'' ''chat.delete'' none (sample_groups\<lparr>group_members := []\<rparr>)) = Inr False"
    by (simp add: none_def permission_samples has_permission_def py_in_def dget_or_def)
  have k: "count_chats_by_folder_id_and_user_id ''b'' ''kim'' cdb = 1"
      "count_chats_by_folder_id_and_user_id ''a'' ''kim'' cdb = 0"
    by (simp_all add: count_chats_by_folder_id_and_user_id_def cdb_def sample_chat_defs)
  have 1: "fst (delete_folder_by_id none none ''kim'' ''user'' 9 ''b'' True (sample_groups\<lparr>group_members := []\<rparr>) sample_folders cdb)
      = Inl Forbidden"
    using p k by (simp add: delete_folder_by_id_def)
  have d: "delete_folder_by_id_and_user_id 9 ''a'' ''kim'' sample_folders = ([''a'', ''b''], [sample_folder ''c'' None ''home''])"
    by (simp add: delete_folder_by_id_and_user_id_def sample_folder_defs owned_def eval_nat_numeral
        get_folders_by_parent_id_and_user_id_def folder_model_def delete_row_def)
  have g: "get_folder_by_id_and_user_id ''a'' ''kim'' sample_folders = Some (sample_folder ''a'' None ''work'')"
    by (simp add: get_folder_by_id_and_user_id_def sample_folder_defs owned_def folder_model_def)
  have "delete_folder_by_id none none ''kim'' ''user'' 9 ''a'' True (sample_groups\<lparr>group_members := []\<rparr>) sample_folders cdb =
      (Inr True, [sample_folder ''c'' None ''home''], fold (for_contents True ''kim'') [''a'', ''b''] cdb)"
    using k by (simp add: delete_folder_by_id_def d g get_folders_by_parent_id_and_user_id_def sample_folder_def)
  then show ?thesis
    using 1 chats_for_contents_delete[of "''kim''" "[''a'', ''b'']" cdb]
    by (simp add: cdb_def memo_chat_def)
qed

end
