(* ===== verification/Users.thy ===== *)
theory Users
  imports Channels Chats Access_Control Throttle "HOL-Library.List_Lexorder"
begin

text \<open>
  \<^verbatim>\<open>models/users.py\<close> and \<^verbatim>\<open>models/auths.py\<close>: the user, API key and credential tables, the
  filtered listing of users, and the deletion of a user across groups, chats and
  credentials. A user row has the values \<open>UserModel\<close> demands, and the settings given to
  \<open>update_user_settings_by_id\<close> have the form of \<open>UserSettings\<close>, which the route enforces. Text is ordered by code point.
  Password verification is an argument, as the JSON test behind the OAuth look-up is.
\<close>

record user =
  u_id :: id
  u_email :: string
  u_username :: "string option"
  u_role :: string
  u_name :: string
  u_profile_image_url :: string
  u_profile_banner_image_url :: "string option"
  u_bio :: "string option"
  u_gender :: "string option"
  u_date_of_birth :: "string option"
  u_timezone :: "string option"
  u_presence_state :: "string option"
  u_status_emoji :: "string option"
  u_status_message :: "string option"
  u_status_expires_at :: "time option"
  u_info :: "dict option"
  u_settings :: "dict option"
  u_oauth :: "dict option"
  u_last_active_at :: time
  u_updated_at :: time
  u_created_at :: time

record api_key =
  ak_id :: id
  ak_user_id :: id
  ak_key :: string
  ak_data :: "dict option"
  ak_expires_at :: "time option"
  ak_last_used_at :: "time option"
  ak_created_at :: time
  ak_updated_at :: time

record auth =
  au_id :: id
  au_email :: string
  au_password :: string
  au_active :: bool

record user_db =
  users :: "user list"
  api_keys :: "api_key list"
  auths :: "auth list"

record user_status =
  us_emoji :: "string option"
  us_message :: "string option"
  us_expires_at :: "time option"

section \<open>Single users\<close>

definition new_user ::
  "id \<Rightarrow> string \<Rightarrow> string \<Rightarrow> string \<Rightarrow> string \<Rightarrow> dict option \<Rightarrow> time \<Rightarrow> time \<Rightarrow> time \<Rightarrow> user" where
  "new_user uid name email profile_image_url role oauth t1 t2 t3 =
     \<lparr>u_id = uid, u_email = email, u_username = None, u_role = role, u_name = name,
      u_profile_image_url = profile_image_url, u_profile_banner_image_url = None, u_bio = None,
      u_gender = None, u_date_of_birth = None, u_timezone = None, u_presence_state = None,
      u_status_emoji = None, u_status_message = None, u_status_expires_at = None, u_info = None,
      u_settings = None, u_oauth = oauth, u_last_active_at = t1, u_updated_at = t3, u_created_at = t2\<rparr>"

definition insert_new_user ::
  "id \<Rightarrow> string \<Rightarrow> string \<Rightarrow> string \<Rightarrow> string \<Rightarrow> dict option \<Rightarrow> time \<Rightarrow> time \<Rightarrow> time \<Rightarrow> user_db \<Rightarrow> (py_error + user) \<times> user_db" where
  "insert_new_user uid name email profile_image_url role oauth t1 t2 t3 db =
     (let u = new_user uid name email profile_image_url role oauth t1 t2 t3
      in case add_row u_id u (users db) of
           None \<Rightarrow> (Inl IntegrityError, db)
         | Some us \<Rightarrow> (Inr u, db\<lparr>users := us\<rparr>))"

definition get_user_by_id :: "id \<Rightarrow> user_db \<Rightarrow> user option" where
  "get_user_by_id uid db = row_get u_id uid (users db)"

definition get_user_by_api_key :: "string \<Rightarrow> user_db \<Rightarrow> user option" where
  "get_user_by_api_key key db =
     first_row (\<lambda>u. list_ex (\<lambda>k. ak_user_id k = u_id u \<and> ak_key k = key) (api_keys db)) (users db)"

definition get_user_by_email :: "string \<Rightarrow> user_db \<Rightarrow> user option" where
  "get_user_by_email email db = first_row (\<lambda>u. u_email u = email) (users db)"

definition get_user_by_oauth_sub ::
  "(dict option \<Rightarrow> string \<Rightarrow> string \<Rightarrow> bool) \<Rightarrow> string \<Rightarrow> string \<Rightarrow> user_db \<Rightarrow> user option" where
  "get_user_by_oauth_sub has_sub provider sub db = first_row (\<lambda>u. has_sub (u_oauth u) provider sub) (users db)"

definition get_first_user :: "user_db \<Rightarrow> user option" where
  "get_first_user db = first_row (\<lambda>_. True) (sort_key u_created_at (users db))"

definition get_super_admin_user :: "user_db \<Rightarrow> user option" where
  "get_super_admin_user db = first_row (\<lambda>u. u_role u = ''admin'') (users db)"

definition get_num_users :: "user_db \<Rightarrow> nat" where
  "get_num_users db = length (users db)"

definition has_users :: "user_db \<Rightarrow> bool" where
  "has_users db \<longleftrightarrow> users db \<noteq> []"

definition get_users_by_group_id :: "id \<Rightarrow> group_db \<Rightarrow> user_db \<Rightarrow> user list" where
  "get_users_by_group_id gid gdb db = all_rows (\<lambda>u. is_member gdb gid (u_id u)) (users db)"

definition get_users_by_user_ids :: "id list \<Rightarrow> user_db \<Rightarrow> user list" where
  "get_users_by_user_ids user_ids db = all_rows (\<lambda>u. u_id u \<in> set user_ids) (users db)"

definition get_valid_user_ids :: "id list \<Rightarrow> user_db \<Rightarrow> id list" where
  "get_valid_user_ids user_ids db = map u_id (get_users_by_user_ids user_ids db)"

text \<open>\<open>settings.get("ui", {}).get("notifications", {}).get("webhook_url")\<close>; an error is \<open>None\<close>.\<close>

definition get_user_webhook_url_by_id :: "id \<Rightarrow> user_db \<Rightarrow> json option" where
  "get_user_webhook_url_by_id uid db =
     (case get_user_by_id uid db of
        None \<Rightarrow> None
      | Some u \<Rightarrow>
          (case u_settings u of
             None \<Rightarrow> None
           | Some s \<Rightarrow>
               (case jget (dget_or s ''ui'' (JDict [])) ''notifications'' (JDict []) of
                  Inr (JDict n) \<Rightarrow> (case dget n ''webhook_url'' of Some JNull \<Rightarrow> None | r \<Rightarrow> r)
                | _ \<Rightarrow> None)))"

section \<open>Activity\<close>

definition get_num_users_active_today :: "time \<Rightarrow> user_db \<Rightarrow> nat" where
  "get_num_users_active_today current_timestamp db =
     (let today_midnight_timestamp = current_timestamp - current_timestamp mod 86400
      in length (all_rows (\<lambda>u. u_last_active_at u > today_midnight_timestamp) (users db)))"

definition get_active_user_count :: "time \<Rightarrow> user_db \<Rightarrow> nat" where
  "get_active_user_count now db = length (all_rows (\<lambda>u. now - 180 \<le> u_last_active_at u) (users db))"

definition is_user_active :: "time \<Rightarrow> id \<Rightarrow> user_db \<Rightarrow> bool" where
  "is_user_active now uid db =
     (case get_user_by_id uid db of
        None \<Rightarrow> False
      | Some u \<Rightarrow> u_last_active_at u \<noteq> 0 \<and> now - 180 \<le> u_last_active_at u)"

section \<open>Updates\<close>

definition update_user_where :: "id \<Rightarrow> (user \<Rightarrow> user) \<Rightarrow> user_db \<Rightarrow> user option \<times> user_db" where
  "update_user_where uid f db =
     (let db' = db\<lparr>users := upd_rows (\<lambda>u. u_id u = uid) f (users db)\<rparr>
      in (get_user_by_id uid db', db'))"

definition update_user_role_by_id :: "id \<Rightarrow> string \<Rightarrow> user_db \<Rightarrow> user option \<times> user_db" where
  "update_user_role_by_id uid role = update_user_where uid (\<lambda>u. u\<lparr>u_role := role\<rparr>)"

definition keep_none :: "'a option \<Rightarrow> 'a option \<Rightarrow> 'a option" where
  "keep_none v old = (case v of None \<Rightarrow> old | Some x \<Rightarrow> Some x)"

text \<open>A status without any field is an UPDATE that sets nothing, which the database refuses.\<close>

definition update_user_status_by_id :: "id \<Rightarrow> user_status \<Rightarrow> user_db \<Rightarrow> user option \<times> user_db" where
  "update_user_status_by_id uid form db =
     (if us_emoji form = None \<and> us_message form = None \<and> us_expires_at form = None then (None, db)
      else update_user_where uid (\<lambda>u. u\<lparr>u_status_emoji := keep_none (us_emoji form) (u_status_emoji u),
        u_status_message := keep_none (us_message form) (u_status_message u),
        u_status_expires_at := keep_none (us_expires_at form) (u_status_expires_at u)\<rparr>) db)"

definition update_user_profile_image_url_by_id :: "id \<Rightarrow> string \<Rightarrow> user_db \<Rightarrow> user option \<times> user_db" where
  "update_user_profile_image_url_by_id uid url = update_user_where uid (\<lambda>u. u\<lparr>u_profile_image_url := url\<rparr>)"

text \<open>The update of the activity time is throttled per user; \<open>now\<close> is the throttle's clock.\<close>

definition update_last_active_by_id ::
  "rat option \<Rightarrow> rat \<Rightarrow> time \<Rightarrow> id \<Rightarrow> id last_calls \<Rightarrow> user_db \<Rightarrow> user option \<times> id last_calls \<times> user_db" where
  "update_last_active_by_id interval now t uid calls db =
     (let (run, calls') = throttle_call interval uid now calls
      in if run then (let (r, db') = update_user_where uid (\<lambda>u. u\<lparr>u_last_active_at := t\<rparr>) db in (r, calls', db'))
         else (None, calls', db))"

definition update_user_oauth_by_id :: "id \<Rightarrow> string \<Rightarrow> string \<Rightarrow> user_db \<Rightarrow> user option \<times> user_db" where
  "update_user_oauth_by_id uid provider sub db =
     (case get_user_by_id uid db of
        None \<Rightarrow> (None, db)
      | Some u \<Rightarrow> update_user_where uid (\<lambda>u. u\<lparr>u_oauth :=
          Some (dset provider (JDict [(''sub'', JStr sub)]) (set_or [] (u_oauth u)))\<rparr>) db)"

definition update_user_settings_by_id :: "id \<Rightarrow> dict \<Rightarrow> user_db \<Rightarrow> user option \<times> user_db" where
  "update_user_settings_by_id uid updated db =
     (case get_user_by_id uid db of
        None \<Rightarrow> (None, db)
      | Some u \<Rightarrow> update_user_where uid (\<lambda>u. u\<lparr>u_settings := Some (dmerge (set_or [] (u_settings u)) updated)\<rparr>) db)"

text \<open>
  The argument of \<open>update_user_by_id\<close> maps column names to values; an entry for a column other
  than the key is a constructor here, its argument the value the column and \<open>UserModel\<close> take.
\<close>

datatype user_change =
    SetEmail string
  | SetUsername "string option"
  | SetRole string
  | SetName string
  | SetProfileImageUrl string
  | SetProfileBannerImageUrl "string option"
  | SetBio "string option"
  | SetGender "string option"
  | SetDateOfBirth "string option"
  | SetTimezone "string option"
  | SetPresenceState "string option"
  | SetStatusEmoji "string option"
  | SetStatusMessage "string option"
  | SetStatusExpiresAt "time option"
  | SetInfo "dict option"
  | SetSettings "dict option"
  | SetOauth "dict option"
  | SetLastActiveAt time
  | SetUpdatedAt time
  | SetCreatedAt time

fun set_column :: "user_change \<Rightarrow> user \<Rightarrow> user" where
  "set_column (SetEmail v) u = u\<lparr>u_email := v\<rparr>"
| "set_column (SetUsername v) u = u\<lparr>u_username := v\<rparr>"
| "set_column (SetRole v) u = u\<lparr>u_role := v\<rparr>"
| "set_column (SetName v) u = u\<lparr>u_name := v\<rparr>"
| "set_column (SetProfileImageUrl v) u = u\<lparr>u_profile_image_url := v\<rparr>"
| "set_column (SetProfileBannerImageUrl v) u = u\<lparr>u_profile_banner_image_url := v\<rparr>"
| "set_column (SetBio v) u = u\<lparr>u_bio := v\<rparr>"
| "set_column (SetGender v) u = u\<lparr>u_gender := v\<rparr>"
| "set_column (SetDateOfBirth v) u = u\<lparr>u_date_of_birth := v\<rparr>"
| "set_column (SetTimezone v) u = u\<lparr>u_timezone := v\<rparr>"
| "set_column (SetPresenceState v) u = u\<lparr>u_presence_state := v\<rparr>"
| "set_column (SetStatusEmoji v) u = u\<lparr>u_status_emoji := v\<rparr>"
| "set_column (SetStatusMessage v) u = u\<lparr>u_status_message := v\<rparr>"
| "set_column (SetStatusExpiresAt v) u = u\<lparr>u_status_expires_at := v\<rparr>"
| "set_column (SetInfo v) u = u\<lparr>u_info := v\<rparr>"
| "set_column (SetSettings v) u = u\<lparr>u_settings := v\<rparr>"
| "set_column (SetOauth v) u = u\<lparr>u_oauth := v\<rparr>"
| "set_column (SetLastActiveAt v) u = u\<lparr>u_last_active_at := v\<rparr>"
| "set_column (SetUpdatedAt v) u = u\<lparr>u_updated_at := v\<rparr>"
| "set_column (SetCreatedAt v) u = u\<lparr>u_created_at := v\<rparr>"

text \<open>An empty update sets nothing and is refused by the database.\<close>

definition update_user_by_id :: "id \<Rightarrow> user_change list \<Rightarrow> user_db \<Rightarrow> user option \<times> user_db" where
  "update_user_by_id uid updated db =
     (if updated = [] then (None, db) else update_user_where uid (fold set_column updated) db)"

section \<open>Listing users\<close>

record user_filter =
  uf_query :: "string option"
  uf_channel_id :: "id option"
  uf_user_ids :: "id list option"
  uf_group_ids :: "id list option"
  uf_roles :: "string list option"
  uf_order_by :: "string option"
  uf_direction :: "string option"

definition given :: "'a list option \<Rightarrow> bool" where
  "given v \<longleftrightarrow> v \<noteq> None \<and> v \<noteq> Some []"

definition matches_query :: "char option \<Rightarrow> string option \<Rightarrow> user \<Rightarrow> bool" where
  "matches_query esc q u = (case q of
     None \<Rightarrow> True
   | Some k \<Rightarrow> k = [] \<or> ilike esc (u_name u) (''%'' @ k @ ''%'') \<or> ilike esc (u_email u) (''%'' @ k @ ''%''))"

definition in_channel :: "id option \<Rightarrow> channel_db \<Rightarrow> user \<Rightarrow> bool" where
  "in_channel channel_id cdb u = (case channel_id of
     None \<Rightarrow> True
   | Some c \<Rightarrow> c = [] \<or> list_ex (membership_of c (u_id u)) (channel_members cdb))"

definition in_groups :: "id list option \<Rightarrow> group_db \<Rightarrow> user \<Rightarrow> bool" where
  "in_groups group_ids gdb u \<longleftrightarrow> \<not> given group_ids \<or> list_ex (\<lambda>g. is_member gdb g (u_id u)) (opt_list group_ids)"

definition has_role :: "string list option \<Rightarrow> user \<Rightarrow> bool" where
  "has_role roles u =
     (let include_roles = filter (\<lambda>r. \<not> startswith r ''!'') (opt_list roles);
          exclude_roles = map (drop 1) (filter (\<lambda>r. startswith r ''!'') (opt_list roles))
      in (include_roles = [] \<or> u_role u \<in> set include_roles) \<and> u_role u \<notin> set exclude_roles)"

definition user_order :: "group_db \<Rightarrow> string option \<Rightarrow> string option \<Rightarrow> user list \<Rightarrow> user list" where
  "user_order gdb order_by direction us =
     (let ascending = (direction = Some ''asc'') in
      case order_by of
        None \<Rightarrow> us
      | Some o1 \<Rightarrow>
          (if startswith o1 ''group_id:'' then
             (let gid = drop 9 o1;
                  in_group = (\<lambda>u. if is_member gdb gid (u_id u) then (1::int) else 0)
              in order_rows ascending in_group (sort_key u_name us))
           else if o1 = ''name'' then order_rows ascending u_name us
           else if o1 = ''email'' then order_rows ascending u_email us
           else if o1 = ''created_at'' then order_rows ascending u_created_at us
           else if o1 = ''last_active_at'' then order_rows ascending u_last_active_at us
           else if o1 = ''updated_at'' then order_rows ascending u_updated_at us
           else if o1 = ''role'' then order_rows ascending u_role us
           else us))"

definition opt_page :: "nat option \<Rightarrow> nat option \<Rightarrow> 'r list \<Rightarrow> 'r list" where
  "opt_page skip cnt rs =
     (let rest = (case skip of None \<Rightarrow> rs | Some k \<Rightarrow> drop k rs)
      in case cnt of None \<Rightarrow> rest | Some k \<Rightarrow> take k rest)"

definition selected_users :: "char option \<Rightarrow> user_filter \<Rightarrow> group_db \<Rightarrow> channel_db \<Rightarrow> user_db \<Rightarrow> user list" where
  "selected_users esc f gdb cdb db =
     all_rows (\<lambda>u. matches_query esc (uf_query f) u \<and> in_channel (uf_channel_id f) cdb u \<and>
        (given (uf_user_ids f) \<longrightarrow> u_id u \<in> set (opt_list (uf_user_ids f))) \<and>
        in_groups (uf_group_ids f) gdb u \<and> has_role (uf_roles f) u) (users db)"

text \<open>The users and the total before pagination.\<close>

definition get_users ::
  "char option \<Rightarrow> user_filter option \<Rightarrow> nat option \<Rightarrow> nat option \<Rightarrow> group_db \<Rightarrow> channel_db \<Rightarrow> user_db \<Rightarrow> user list \<times> nat" where
  "get_users esc flt skip cnt gdb cdb db =
     (case flt of
        None \<Rightarrow> (opt_page skip cnt (order_desc u_created_at (users db)), length (users db))
      | Some f \<Rightarrow>
          (if uf_user_ids f = Some [] \<and> uf_group_ids f = Some [] then ([], 0)
           else let us = selected_users esc f gdb cdb db
                in (opt_page skip cnt (user_order gdb (uf_order_by f) (uf_direction f) us), length us)))"

section \<open>Users with access\<close>

definition no_filter :: user_filter where
  "no_filter = \<lparr>uf_query = None, uf_channel_id = None, uf_user_ids = None, uf_group_ids = None, uf_roles = None,
     uf_order_by = None, uf_direction = None\<rparr>"

text \<open>Ids are text: a list with another element, or no list, counts as a type error.\<close>

definition id_list :: "json \<Rightarrow> py_error + id list" where
  "id_list v = (case v of
     JList xs \<Rightarrow> (case texts xs of None \<Rightarrow> Inl TypeError | Some ids \<Rightarrow> Inr ids)
   | _ \<Rightarrow> Inl TypeError)"

definition get_users_with_access ::
  "char option \<Rightarrow> string \<Rightarrow> dict option \<Rightarrow> group_db \<Rightarrow> channel_db \<Rightarrow> user_db \<Rightarrow> py_error + user list" where
  "get_users_with_access esc kind access_control gdb cdb db =
     (case access_control of
        None \<Rightarrow> Inr (fst (get_users esc (Some (no_filter\<lparr>uf_roles := Some [''!pending'']\<rparr>)) None None gdb cdb db))
      | Some ac \<Rightarrow>
          and_then (get_permitted_group_and_user_ids kind (Some ac)) (\<lambda>p.
            case p of
              None \<Rightarrow> Inr []
            | Some p \<Rightarrow>
                and_then (id_list (permitted_users p)) (\<lambda>us.
                and_then (id_list (permitted_groups p)) (\<lambda>gs.
                  Inr (get_users_by_user_ids (us @ concat (map snd (get_group_user_ids_by_ids gs gdb))) db)))))"

section \<open>API keys and credentials\<close>

definition get_user_api_key_by_id :: "id \<Rightarrow> user_db \<Rightarrow> string option" where
  "get_user_api_key_by_id uid db = map_option ak_key (first_row (\<lambda>k. ak_user_id k = uid) (api_keys db))"

definition delete_user_api_key_by_id :: "id \<Rightarrow> user_db \<Rightarrow> bool \<times> user_db" where
  "delete_user_api_key_by_id uid db = (True, db\<lparr>api_keys := del_rows (\<lambda>k. ak_user_id k = uid) (api_keys db)\<rparr>)"

text \<open>The old keys are deleted and committed before the new one is added; keys are unique.\<close>

definition new_api_key :: "time \<Rightarrow> id \<Rightarrow> string \<Rightarrow> api_key" where
  "new_api_key now uid key =
     \<lparr>ak_id = ''key_'' @ uid, ak_user_id = uid, ak_key = key, ak_data = None, ak_expires_at = None,
      ak_last_used_at = None, ak_created_at = now, ak_updated_at = now\<rparr>"

lemma new_api_key_simps [simp]:
  "ak_id (new_api_key now uid key) = ''key_'' @ uid" "ak_user_id (new_api_key now uid key) = uid"
  "ak_key (new_api_key now uid key) = key"
  by (simp_all add: new_api_key_def)

definition update_user_api_key_by_id :: "time \<Rightarrow> id \<Rightarrow> string \<Rightarrow> user_db \<Rightarrow> bool \<times> user_db" where
  "update_user_api_key_by_id now uid key db =
     (let db1 = snd (delete_user_api_key_by_id uid db);
          k = new_api_key now uid key
      in if key \<in> ak_key ` set (api_keys db1) then (False, db1)
         else case add_row ak_id k (api_keys db1) of
                None \<Rightarrow> (False, db1)
              | Some ks \<Rightarrow> (True, db1\<lparr>api_keys := ks\<rparr>))"

text \<open>The user is committed in a transaction of its own, before the credentials are.\<close>

definition insert_new_auth ::
  "id \<Rightarrow> string \<Rightarrow> string \<Rightarrow> string \<Rightarrow> string \<Rightarrow> string \<Rightarrow> dict option \<Rightarrow> time \<Rightarrow> time \<Rightarrow> time \<Rightarrow> user_db \<Rightarrow>
     (py_error + user) \<times> user_db" where
  "insert_new_auth uid email password name profile_image_url role oauth t1 t2 t3 db =
     (case insert_new_user uid name email profile_image_url role oauth t1 t2 t3 db of
        (Inl e, db1) \<Rightarrow> (Inl e, db1)
      | (Inr u, db1) \<Rightarrow>
          (case add_row au_id \<lparr>au_id = uid, au_email = email, au_password = password, au_active = True\<rparr> (auths db1) of
             None \<Rightarrow> (Inl IntegrityError, db1)
           | Some as1 \<Rightarrow> (Inr u, db1\<lparr>auths := as1\<rparr>)))"

definition authenticate_user :: "(string \<Rightarrow> bool) \<Rightarrow> string \<Rightarrow> user_db \<Rightarrow> user option" where
  "authenticate_user verify_password email db =
     (case get_user_by_email email db of
        None \<Rightarrow> None
      | Some u \<Rightarrow>
          (case first_row (\<lambda>a. au_id a = u_id u \<and> au_active a) (auths db) of
             None \<Rightarrow> None
           | Some a \<Rightarrow> if verify_password (au_password a) then Some u else None))"

definition authenticate_user_by_api_key :: "string \<Rightarrow> user_db \<Rightarrow> user option" where
  "authenticate_user_by_api_key key db = (if key = [] then None else get_user_by_api_key key db)"

definition authenticate_user_by_email :: "string \<Rightarrow> user_db \<Rightarrow> user option" where
  "authenticate_user_by_email email db =
     (case first_row (\<lambda>a. au_email a = email \<and> au_active a) (auths db) of
        None \<Rightarrow> None
      | Some a \<Rightarrow> get_user_by_id (au_id a) db)"

definition update_auth :: "id \<Rightarrow> (auth \<Rightarrow> auth) \<Rightarrow> user_db \<Rightarrow> bool \<times> user_db" where
  "update_auth uid f db =
     (length (all_rows (\<lambda>a. au_id a = uid) (auths db)) = 1,
      db\<lparr>auths := upd_rows (\<lambda>a. au_id a = uid) f (auths db)\<rparr>)"

definition update_user_password_by_id :: "id \<Rightarrow> string \<Rightarrow> user_db \<Rightarrow> bool \<times> user_db" where
  "update_user_password_by_id uid new_password = update_auth uid (\<lambda>a. a\<lparr>au_password := new_password\<rparr>)"

definition update_email_by_id :: "id \<Rightarrow> string \<Rightarrow> user_db \<Rightarrow> bool \<times> user_db" where
  "update_email_by_id uid email = update_auth uid (\<lambda>a. a\<lparr>au_email := email\<rparr>)"

section \<open>Deleting a user\<close>

record server_db =
  s_users :: user_db
  s_groups :: group_db
  s_chats :: chat_db

text \<open>
  The row of a user is deleted; on a database that enforces foreign keys the rows of the user's API keys
  and memberships go with it (migrations \<^verbatim>\<open>b10670c03dd5\<close> and
  \<^verbatim>\<open>37f288994c47\<close>).
\<close>

definition cascades_user :: "foreign_keys \<Rightarrow> id \<Rightarrow> user_db \<Rightarrow> bool" where
  "cascades_user fk uid db \<longleftrightarrow> (case fk of None \<Rightarrow> False | Some _ \<Rightarrow> get_user_by_id uid db \<noteq> None)"

definition drop_user_row :: "foreign_keys \<Rightarrow> id \<Rightarrow> server_db \<Rightarrow> server_db" where
  "drop_user_row fk uid s =
     (let db = s_users s; gdb = s_groups s; cascade = cascades_user fk uid db
      in s\<lparr>s_users := db\<lparr>users := row_del u_id uid (users db),
               api_keys := (if cascade then del_rows (\<lambda>k. ak_user_id k = uid) (api_keys db) else api_keys db)\<rparr>,
           s_groups := gdb\<lparr>group_members :=
               (if cascade then del_rows (\<lambda>m. gm_user_id m = uid) (group_members gdb) else group_members gdb)\<rparr>\<rparr>)"

definition delete_user_by_id :: "foreign_keys \<Rightarrow> (id \<Rightarrow> time) \<Rightarrow> id \<Rightarrow> server_db \<Rightarrow> bool \<times> server_db" where
  "delete_user_by_id fk now uid s =
     (let gdb = snd (remove_user_from_all_groups now uid (s_groups s));
          (ok, cdb) = delete_chats_by_user_id uid (s_chats s);
          s1 = s\<lparr>s_groups := gdb, s_chats := cdb\<rparr>
      in if ok then (True, drop_user_row fk uid s1) else (False, s1))"

definition delete_auth_by_id :: "foreign_keys \<Rightarrow> (id \<Rightarrow> time) \<Rightarrow> id \<Rightarrow> server_db \<Rightarrow> bool \<times> server_db" where
  "delete_auth_by_id fk now uid s =
     (let (ok, s1) = delete_user_by_id fk now uid s
      in if ok then (True, s1\<lparr>s_users := (s_users s1)\<lparr>auths := row_del au_id uid (auths (s_users s1))\<rparr>\<rparr>)
         else (False, s1))"

section \<open>Who has access\<close>

lemma map_of_update_group:
  "map_of (AList.update k v d) g = (if g = k then Some v else map_of d g)"
  by (simp add: AList.update_conv')

lemma values_by_key:
  assumes "distinct (map fst e)"
  shows "(\<Union>x \<in> set e. set (snd x)) = {v. \<exists>g us. map_of e g = Some us \<and> v \<in> set us}"
  unfolding map_of_eq_Some_iff[OF assms] by force

lemma values_after_update:
  "(\<exists>g us. map_of (AList.update k v d) g = Some us \<and> x \<in> set us) \<longleftrightarrow>
     x \<in> set v \<or> (\<exists>g us. g \<noteq> k \<and> map_of d g = Some us \<and> x \<in> set us)"
  by (auto simp: map_of_update_group)

lemma group_lists_members:
  "(\<Union>x \<in> set (foldl (\<lambda>d m. AList.update (gm_group_id m)
        ((case map_of d (gm_group_id m) of None \<Rightarrow> [] | Some us \<Rightarrow> us) @ [gm_user_id m]) d) d ms). set (snd x))
     = (\<Union>x \<in> set d. set (snd x)) \<union> gm_user_id ` set ms"
  if "distinct (map fst d)"
  using that
proof (induction ms arbitrary: d)
  case (Cons m ms)
  let ?v = "(case map_of d (gm_group_id m) of None \<Rightarrow> [] | Some us \<Rightarrow> us) @ [gm_user_id m]"
  have d: "distinct (map fst (AList.update (gm_group_id m) ?v d))"
    using Cons.prems by (simp add: distinct_update)
  have "(\<Union>x \<in> set (AList.update (gm_group_id m) ?v d). set (snd x)) =
      (\<Union>x \<in> set d. set (snd x)) \<union> {gm_user_id m}"
    unfolding values_by_key[OF d] values_by_key[OF Cons.prems]
    by (cases "map_of d (gm_group_id m)") (auto simp: values_after_update, (metis option.sel option.distinct(1))+)
  then show ?case using Cons.IH[OF d] by auto
qed simp

lemma group_user_ids:
  "(\<Union>x \<in> set (get_group_user_ids_by_ids gs gdb). set (snd x)) = {u. \<exists>g \<in> set gs. is_member gdb g u}"
proof -
  let ?d = "foldl (\<lambda>d g. AList.update g [] d) [] gs :: (id \<times> id list) list"
  have base: "distinct (map fst (foldl (\<lambda>d g. AList.update g [] d) d gs)) \<and>
      (\<Union>x \<in> set (foldl (\<lambda>d g. AList.update g [] d) d gs). set (snd x)) = {}"
    if "distinct (map fst d)" "(\<Union>x \<in> set d. set (snd x)) = {}" for d :: "(id \<times> id list) list"
    using that
  proof (induction gs arbitrary: d)
    case (Cons g gs)
    have "set (AList.update g [] d) \<subseteq> insert (g, []) (set d)"
      by (induction d) auto
    then have "(\<Union>x \<in> set (AList.update g [] d). set (snd x)) = {}" using Cons.prems(2) by fastforce
    then show ?case using Cons.IH[of "AList.update g [] d"] Cons.prems(1) by (simp add: distinct_update)
  qed simp
  have d: "distinct (map fst ?d)" "(\<Union>x \<in> set ?d. set (snd x)) = {}" using base[of "[]"] by simp_all
  show ?thesis
    unfolding get_group_user_ids_by_ids_def group_lists_members[OF d(1)] d(2)
    by (auto simp: is_member_def list_ex_iff all_rows_def image_iff)
qed

definition listed_in :: "id list \<Rightarrow> id list \<Rightarrow> group_db \<Rightarrow> user \<Rightarrow> bool" where
  "listed_in gs us gdb u \<longleftrightarrow> u_id u \<in> set us \<or> list_ex (\<lambda>g. is_member gdb g (u_id u)) gs"

lemma users_with_access_list:
  assumes "access_list kind gs us ac"
  shows "get_users_with_access esc kind (Some ac) gdb cdb db = Inr (filter (listed_in gs us gdb) (users db))"
proof -
  have p: "get_permitted_group_and_user_ids kind (Some ac) =
      Inr (Some \<lparr>permitted_groups = JList (map JStr gs), permitted_users = JList (map JStr us)\<rparr>)"
    using assms by (simp add: access_list_def get_permitted_group_and_user_ids_def json_get_def dget_or_def)
  have m: "(\<exists>x \<in> set (get_group_user_ids_by_ids gs gdb). v \<in> set (snd x)) \<longleftrightarrow> (\<exists>g \<in> set gs. is_member gdb g v)" for v
    using group_user_ids[of gs gdb] by blast
  show ?thesis
    by (simp add: get_users_with_access_def p id_list_def get_users_by_user_ids_def all_rows_def
        listed_in_def[abs_def] list_ex_iff m)
qed

text \<open>
  C18: Who is listed as having access, and whom the access check admits. Without an access control the listing
  gives every user except those still pending, and the check admits everybody for reading and nobody for
  writing. With an access list the listing gives exactly the users the check admits, and besides them those
  who are left over as members of a listed group that does not exist any more.
\<close>

theorem users_with_access_agree:
  assumes "access_list kind gs us ac"
  shows "get_users_with_access esc kind (Some ac) gdb cdb db =
      Inr (filter (\<lambda>u. has_access (u_id u) kind (Some ac) None strict gdb = Inr True \<or>
        list_ex (\<lambda>g. is_member gdb g (u_id u) \<and> \<not> has_group g gdb) gs) (users db)) \<and>
    get_users_with_access esc kind None gdb cdb db = Inr (filter (\<lambda>u. u_role u \<noteq> ''pending'') (users db)) \<and>
    has_access uid kind None None True gdb = Inr (kind = ''read'')"
proof -
  have "has_access v kind (Some ac) None strict gdb = Inr (gd.may_reach gs us v gdb)" for v
    by (simp only: has_access_lookup[of v kind] has_access_list[OF assms(1)] gd.may_reach_def)
  then have "get_users_with_access esc kind (Some ac) gdb cdb db =
      Inr (filter (\<lambda>u. has_access (u_id u) kind (Some ac) None strict gdb = Inr True \<or>
        list_ex (\<lambda>g. is_member gdb g (u_id u) \<and> \<not> has_group g gdb) gs) (users db))"
    by (simp add: users_with_access_list[OF assms(1)] gd.may_reach_iff directory_member_def listed_in_def list_ex_iff)
       (rule filter_cong; auto simp: listed_in_def list_ex_iff)
  moreover have "get_users_with_access esc kind None gdb cdb db = Inr (filter (\<lambda>u. u_role u \<noteq> ''pending'') (users db))"
    by (simp add: get_users_with_access_def get_users_def selected_users_def all_rows_def no_filter_def matches_query_def
        in_channel_def in_groups_def given_def has_role_def opt_list_def Let_def startswith_def user_order_def opt_page_def)
  ultimately show ?thesis by (simp add: has_access_def)
qed

definition kim :: user where
  "kim = new_user ''kim'' ''Kim'' ''k@x'' ''/user.png'' ''user'' None 3 3 3"

definition lee :: user where
  "lee = new_user ''lee'' ''Lee'' ''l@x'' ''/user.png'' ''user'' None 4 4 4"

definition sample_users :: user_db where
  "sample_users = \<lparr>users = [kim, lee],
     api_keys = [\<lparr>ak_id = ''key_kim'', ak_user_id = ''kim'', ak_key = ''sk1'', ak_data = None, ak_expires_at = None,
       ak_last_used_at = None, ak_created_at = 3, ak_updated_at = 3\<rparr>],
     auths = [\<lparr>au_id = ''kim'', au_email = ''k@x'', au_password = ''h1'', au_active = True\<rparr>,
       \<lparr>au_id = ''lee'', au_email = ''l@x'', au_password = ''h2'', au_active = True\<rparr>]\<rparr>"

lemmas sample_user_defs = sample_users_def kim_def lee_def new_user_def

lemma users_with_access_agree_witness:
  "let ac = [(''read'', JDict [(''group_ids'', JList (map JStr [''g1'', ''gone''])), (''user_ids'', JList (map JStr []))])];
       gdb = sample_groups\<lparr>group_members := [new_member ''m2'' ''gone'' ''lee'' 3]\<rparr>
   in get_users_with_access None ''read'' (Some ac) gdb \<lparr>channels = [], channel_members = []\<rparr> sample_users =
      Inr (filter (\<lambda>u. has_access (u_id u) ''read'' (Some ac) None True gdb = Inr True \<or>
        list_ex (\<lambda>g. is_member gdb g (u_id u) \<and> \<not> has_group g gdb) [''g1'', ''gone'']) (users sample_users)) \<and>
    get_users_with_access None ''read'' None gdb \<lparr>channels = [], channel_members = []\<rparr> sample_users =
      Inr (filter (\<lambda>u. u_role u \<noteq> ''pending'') (users sample_users)) \<and>
    has_access ''lee'' ''read'' None None True gdb = Inr (''read'' = ''read'')"
  unfolding Let_def
  by (rule users_with_access_agree[of _ "[''g1'', ''gone'']" "[]"]) (simp add: access_list_def)

text \<open>
  Where the database does not enforce foreign keys, a member of a deleted group who is
  not listed otherwise keeps being reported as having access through it, while the access
  check refuses: the two lists differ after the deletion.
\<close>

lemma deleted_group_still_lists:
  assumes "access_list kind gs us ac" "g \<in> set gs" "is_member gdb g (u_id u)" "u \<in> set (users db)"
    and "u_id u \<notin> set us" "\<not> (\<exists>h \<in> set gs. h \<noteq> g \<and> is_member gdb h (u_id u))"
    and "gdb' = snd (delete_group_by_id None g gdb)"
    and "get_users_with_access esc kind (Some ac) gdb' cdb db = Inr rs"
  shows "u \<in> set rs \<and> has_access (u_id u) kind (Some ac) None strict gdb' = Inr False"
proof -
  have m: "is_member gdb' = is_member gdb" "\<not> has_group g gdb'"
    using assms(7) by (auto simp: delete_group_by_id_def cascade_def is_member_def fun_eq_iff has_group_def row_del_def
        del_rows_def)
  have "has_access (u_id u) kind (Some ac) None strict gdb' = Inr (gd.may_reach gs us (u_id u) gdb')"
    by (simp only: has_access_lookup[of "u_id u" kind] has_access_list[OF assms(1)] gd.may_reach_def)
  moreover have "\<not> gd.may_reach gs us (u_id u) gdb'"
    using assms(5,6) m by (auto simp: gd.may_reach_iff directory_member_def)
  moreover have "listed_in gs us gdb' u" using assms(2,3) m by (auto simp: listed_in_def list_ex_iff)
  ultimately show ?thesis
    using assms(4,8) by (auto simp: users_with_access_list[OF assms(1)])
qed

lemma deleted_group_still_lists_witness:
  "kim \<in> set [kim] \<and> has_access (u_id kim) ''read'' (Some [(''read'', JDict [(''group_ids'', JList (map JStr [''g1''])),
       (''user_ids'', JList (map JStr []))])]) None True (snd (delete_group_by_id None ''g1'' sample_groups)) = Inr False"
proof (rule deleted_group_still_lists[OF _ _ _ _ _ _ refl])
  let ?ac = "[(''read'', JDict [(''group_ids'', JList (map JStr [''g1''])), (''user_ids'', JList (map JStr []))])]"
  show a: "access_list ''read'' [''g1''] [] ?ac" by (simp add: access_list_def)
  show "get_users_with_access None ''read'' (Some ?ac) (snd (delete_group_by_id None ''g1'' sample_groups))
      \<lparr>channels = [], channel_members = []\<rparr> sample_users = Inr [kim]"
    unfolding users_with_access_list[OF a]
    by (simp add: listed_in_def[abs_def] delete_group_by_id_def cascade_def sample_group_defs sample_user_defs is_member_def)
qed (auto simp: sample_group_defs sample_user_defs is_member_def)

section \<open>API keys\<close>

text \<open>The row of a key is named after its user, and no key is used twice.\<close>

definition api_keys_ok :: "user_db \<Rightarrow> bool" where
  "api_keys_ok db \<longleftrightarrow> unique_key u_id (users db) \<and> unique_key ak_user_id (api_keys db) \<and>
     unique_key ak_key (api_keys db) \<and> list_all (\<lambda>k. ak_id k = ''key_'' @ ak_user_id k) (api_keys db)"

definition key_owner :: "string \<Rightarrow> user_db \<Rightarrow> id option" where
  "key_owner key db = map_option ak_user_id (first_row (\<lambda>k. ak_key k = key) (api_keys db))"

lemma key_owner_iff:
  assumes "api_keys_ok db"
  shows "key_owner key db = Some v \<longleftrightarrow> (\<exists>k \<in> set (api_keys db). ak_key k = key \<and> ak_user_id k = v)"
  using assms by (auto simp: key_owner_def api_keys_ok_def first_row_key_iff)

lemma key_owner_None: "key_owner key db = None \<longleftrightarrow> key \<notin> ak_key ` set (api_keys db)"
  by (auto simp: key_owner_def first_row_None_iff)

lemma api_key_update_cases:
  assumes "api_keys_ok db"
  shows "update_user_api_key_by_id now uid key db =
     (if \<exists>v. v \<noteq> uid \<and> key_owner key db = Some v
      then (False, db\<lparr>api_keys := del_rows (\<lambda>k. ak_user_id k = uid) (api_keys db)\<rparr>)
      else (True, db\<lparr>api_keys := del_rows (\<lambda>k. ak_user_id k = uid) (api_keys db) @
             [new_api_key now uid key]\<rparr>))"
proof -
  let ?ks = "del_rows (\<lambda>k. ak_user_id k = uid) (api_keys db)"
  have "key \<in> ak_key ` set ?ks \<longleftrightarrow> (\<exists>v. v \<noteq> uid \<and> key_owner key db = Some v)"
    by (auto simp: key_owner_iff[OF assms] del_rows_def)
  moreover have "''key_'' @ uid \<notin> ak_id ` set ?ks"
    using assms by (auto simp: api_keys_ok_def list_all_iff del_rows_def)
  ultimately show ?thesis
    by (simp add: update_user_api_key_by_id_def delete_user_api_key_by_id_def Let_def add_row_def)
qed

lemma api_keys_ok_update:
  assumes "api_keys_ok db"
  shows "api_keys_ok (snd (update_user_api_key_by_id now uid key db))"
proof -
  have d: "distinct (map f (filter p xs))" if "distinct (map f xs)" for f :: "api_key \<Rightarrow> 'k" and p xs
    using that by (rule distinct_map_filter)
  have "key \<notin> ak_key ` set (del_rows (\<lambda>k. ak_user_id k = uid) (api_keys db))"
    if "\<not> (\<exists>v. v \<noteq> uid \<and> key_owner key db = Some v)"
    using that by (auto simp: key_owner_iff[OF assms] del_rows_def)
  then show ?thesis
    using assms
    by (auto simp: api_key_update_cases[OF assms] api_keys_ok_def unique_key_def del_rows_def list_all_iff d
        image_iff)
qed

lemma api_key_login:
  assumes "api_keys_ok db" "key \<noteq> []"
  shows "authenticate_user_by_api_key key db =
    (case key_owner key db of None \<Rightarrow> None | Some uid \<Rightarrow> get_user_by_id uid db)"
proof (cases "key_owner key db")
  case None
  then have "\<not> list_ex (\<lambda>k. ak_user_id k = v \<and> ak_key k = key) (api_keys db)" for v
    by (auto simp: key_owner_None list_ex_iff)
  then have "get_user_by_api_key key db = None" by (simp add: get_user_by_api_key_def first_row_None_iff)
  then show ?thesis using None assms(2) by (simp add: authenticate_user_by_api_key_def)
next
  case (Some v)
  have "list_ex (\<lambda>k. ak_user_id k = w \<and> ak_key k = key) (api_keys db) \<longleftrightarrow> key_owner key db = Some w" for w
    by (auto simp: key_owner_iff[OF assms(1)] list_ex_iff)
  then have "(\<lambda>u. list_ex (\<lambda>k. ak_user_id k = u_id u \<and> ak_key k = key) (api_keys db)) = (\<lambda>u. u_id u = v)"
    using Some by (auto simp: fun_eq_iff)
  then have "get_user_by_api_key key db = get_user_by_id v db"
    unfolding get_user_by_api_key_def get_user_by_id_def row_get_def by (rule arg_cong)
  then show ?thesis using Some assms(2) by (simp add: authenticate_user_by_api_key_def)
qed

text \<open>
  Renewing the API key of a user when nobody else holds the new key succeeds: from then on
  the new key logs this user in, every other key of theirs is dead, and the keys of others
  work as before.
\<close>

lemma api_key_renewed:
  assumes "api_keys_ok db" "key \<noteq> []" "\<not> (\<exists>v. v \<noteq> uid \<and> key_owner key db = Some v)" "old \<noteq> []"
    and "update_user_api_key_by_id now uid key db = (r, db')"
  shows "r \<and> authenticate_user_by_api_key old db' =
    (if old = key then get_user_by_id uid db
     else if key_owner old db = Some uid then None else authenticate_user_by_api_key old db)"
proof -
  have r: "r" and ks: "api_keys db' = del_rows (\<lambda>k. ak_user_id k = uid) (api_keys db) @
      [new_api_key now uid key]"
    and us: "get_user_by_id v db' = get_user_by_id v db" for v
    using assms(5) unfolding api_key_update_cases[OF assms(1)] if_not_P[OF assms(3)]
    by (auto simp: get_user_by_id_def)
  have ok: "api_keys_ok db'" using api_keys_ok_update[OF assms(1), of now uid key] assms(5) by simp
  have "key_owner old db' = (if old = key then Some uid
      else if key_owner old db = Some uid then None else key_owner old db)"
  proof (cases "key_owner old db'")
    case None
    then have "old \<noteq> key" "key_owner old db = Some v \<Longrightarrow> v = uid" for v
      using key_owner_iff[OF assms(1), of old v] by (auto simp: key_owner_None ks del_rows_def)
    then show ?thesis using None by (cases "key_owner old db") auto
  next
    case (Some v)
    then show ?thesis
      using key_owner_iff[OF assms(1), of old v] key_owner_iff[OF assms(1), of old uid] assms(3)
      by (auto simp: key_owner_iff[OF ok] ks del_rows_def)
  qed
  then show ?thesis
    using r us by (simp add: api_key_login[OF ok assms(4)] api_key_login[OF assms(1,4)] split: option.split)
qed


lemma api_key_renewed_witness:
  "authenticate_user_by_api_key ''sk1'' (snd (update_user_api_key_by_id 9 ''kim'' ''sk2'' sample_users)) = None \<and>
   authenticate_user_by_api_key ''sk2'' (snd (update_user_api_key_by_id 9 ''kim'' ''sk2'' sample_users)) = Some kim"
proof -
  have ok: "api_keys_ok sample_users" by (simp add: sample_user_defs api_keys_ok_def unique_key_def)
  have k: "key_owner ''sk1'' sample_users = Some ''kim''" "key_owner ''sk2'' sample_users = None"
      "get_user_by_id ''kim'' sample_users = Some kim"
    by (simp_all add: sample_user_defs key_owner_def get_user_by_id_def row_get_def)
  show ?thesis
    using api_key_renewed[OF ok, of "''sk2''" "''kim''" "''sk1''" 9] api_key_renewed[OF ok, of "''sk2''" "''kim''" "''sk2''" 9]
    by (cases "update_user_api_key_by_id 9 ''kim'' ''sk2'' sample_users") (simp add: k)
qed

text \<open>
  Renewing an API key with a key that another user holds fails, and still the old key of
  the user is gone: it was deleted and committed first.
\<close>

lemma failed_renewal_revokes:
  assumes "api_keys_ok db" "key_owner key db = Some v" "v \<noteq> uid" "key_owner old db = Some uid" "old \<noteq> []"
    and "update_user_api_key_by_id now uid key db = (r, db')"
  shows "\<not> r \<and> authenticate_user_by_api_key old db' = None \<and> get_user_api_key_by_id uid db' = None"
proof -
  have c: "\<exists>v. v \<noteq> uid \<and> key_owner key db = Some v" using assms(2,3) by blast
  have r: "\<not> r" and ks: "api_keys db' = del_rows (\<lambda>k. ak_user_id k = uid) (api_keys db)"
    using assms(6) unfolding api_key_update_cases[OF assms(1)] if_P[OF c] by auto
  have ok: "api_keys_ok db'" using api_keys_ok_update[OF assms(1), of now uid key] assms(6) by simp
  have "key_owner old db' = None"
    using assms(1,4) key_owner_iff[OF assms(1), of old uid]
    by (auto simp: key_owner_None ks del_rows_def api_keys_ok_def unique_key_def distinct_map inj_on_def)
  then show ?thesis
    using r by (auto simp: api_key_login[OF ok assms(5)] get_user_api_key_by_id_def ks first_row_None_iff del_rows_def)
qed

lemma failed_renewal_revokes_witness:
  "get_user_api_key_by_id ''kim'' (snd (update_user_api_key_by_id 9 ''kim'' ''sk2''
     (snd (update_user_api_key_by_id 8 ''lee'' ''sk2'' sample_users)))) = None"
proof -
  let ?db = "snd (update_user_api_key_by_id 8 ''lee'' ''sk2'' sample_users)"
  have "api_keys_ok ?db"
    by (rule api_keys_ok_update) (simp add: sample_user_defs api_keys_ok_def unique_key_def)
  moreover have "key_owner ''sk2'' ?db = Some ''lee''" "key_owner ''sk1'' ?db = Some ''kim''"
    by (simp_all add: sample_user_defs key_owner_def update_user_api_key_by_id_def delete_user_api_key_by_id_def
        add_row_def del_rows_def new_api_key_def)
  ultimately show ?thesis
    using failed_renewal_revokes[of ?db "''sk2''" "''lee''" "''kim''" "''sk1''" 9]
    by (cases "update_user_api_key_by_id 9 ''kim'' ''sk2'' ?db") simp
qed

section \<open>Signing up and in\<close>

text \<open>
  A user created under an unused id and e-mail address can sign in with the password given at
  sign-up and with no other, and is found by the credentials' address.
\<close>

lemma sign_up_then_in:
  assumes "uid \<notin> u_id ` set (users db)" "uid \<notin> au_id ` set (auths db)"
    and "get_user_by_email email db = None" "\<not> (\<exists>a \<in> set (auths db). au_email a = email)"
    and "insert_new_auth uid email password name url role oauth t1 t2 t3 db = (r, db')"
  shows "r = Inr (new_user uid name email url role oauth t1 t2 t3) \<and>
    authenticate_user verify email db' =
      (if verify password then Some (new_user uid name email url role oauth t1 t2 t3) else None) \<and>
    authenticate_user_by_email email db' = Some (new_user uid name email url role oauth t1 t2 t3)"
proof -
  let ?u = "new_user uid name email url role oauth t1 t2 t3"
  have u: "u_id ?u = uid" "u_email ?u = email" by (simp_all add: new_user_def)
  have db': "r = Inr ?u" "users db' = users db @ [?u]"
      "auths db' = auths db @ [\<lparr>au_id = uid, au_email = email, au_password = password, au_active = True\<rparr>]"
    using assms(1,2,5) by (auto simp: insert_new_auth_def insert_new_user_def add_row_def u Let_def)
  have e: "first_row (\<lambda>a. u_email a = email) (users db) = None" using assms(3) by (simp add: get_user_by_email_def)
  have i: "first_row (\<lambda>a. u_id a = uid) (users db) = None" using assms(1) by (auto simp: first_row_None_iff)
  have a: "first_row (\<lambda>a. au_id a = uid \<and> au_active a) (auths db) = None"
      "first_row (\<lambda>a. au_email a = email \<and> au_active a) (auths db) = None"
    using assms(2,4) by (auto simp: first_row_None_iff)
  show ?thesis
    by (simp add: db' authenticate_user_def get_user_by_email_def authenticate_user_by_email_def get_user_by_id_def
        row_get_def first_row_append e a i u)
qed

lemma sign_up_then_in_witness:
  "authenticate_user (\<lambda>h. h = ''h3'') ''m@x'' (snd (insert_new_auth ''mia'' ''m@x'' ''h3'' ''Mia'' ''/u'' ''user'' None 5 5 5
     sample_users)) = Some (new_user ''mia'' ''Mia'' ''m@x'' ''/u'' ''user'' None 5 5 5)"
  using sign_up_then_in[of "''mia''" sample_users "''m@x''" "''h3''" "''Mia''" "''/u''" "''user''" None 5 5 5 _ _ "\<lambda>h. h = ''h3''"]
  by (cases "insert_new_auth ''mia'' ''m@x'' ''h3'' ''Mia'' ''/u'' ''user'' None 5 5 5 sample_users")
     (simp add: sample_user_defs get_user_by_email_def)

section \<open>What a deletion leaves\<close>

lemma remove_all_members:
  "is_member (snd (remove_user_from_all_groups now u db)) g v \<longleftrightarrow>
     is_member db g v \<and> \<not> (v = u \<and> has_group g db)"
proof -
  have f: "is_member (foldl (\<lambda>db gid.
            db\<lparr>group_members := del_rows (\<lambda>m. gm_group_id m = gid \<and> gm_user_id m = u) (group_members db),
               groups := touch (\<lambda>g. g = gid) (now gid) (groups db)\<rparr>) db gids) g v \<longleftrightarrow>
       is_member db g v \<and> \<not> (v = u \<and> g \<in> set gids)" for gids
  proof (induction gids arbitrary: db)
    case (Cons h gids)
    show ?case using Cons.IH by (auto simp: is_member_def list_ex_iff del_rows_def)
  qed simp
  show ?thesis
    unfolding remove_user_from_all_groups_def Let_def snd_conv f
    by (auto simp: all_rows_def has_group_def)
qed

lemma deleted_user_gone:
  assumes "delete_auth_by_id fk now uid s = (r, s')"
  shows "get_user_by_id uid (s_users s') = None"
  using assms
  by (auto simp: delete_auth_by_id_def delete_user_by_id_def drop_user_row_def Let_def get_user_by_id_def row_get_del
      delete_chats_by_user_id_def delete_chats_where_def split: prod.splits if_splits)

text \<open>
  C17: Deleting a user's credentials removes the user and the credentials, every membership in
  an existing group, every chat of the user and every shared copy of one; the others
  stay. The user's API keys, and memberships left over from groups that do not exist, stay where the database
  does not enforce foreign keys; where it does, they go with the row of the user.
\<close>

theorem delete_auth_exact:
  assumes "delete_auth_by_id fk now uid s = (r, s')"
  shows "r \<and> users (s_users s') = filter (\<lambda>u. u_id u \<noteq> uid) (users (s_users s)) \<and>
    auths (s_users s') = filter (\<lambda>a. au_id a \<noteq> uid) (auths (s_users s)) \<and>
    (is_member (s_groups s') g v \<longleftrightarrow> is_member (s_groups s) g v \<and>
      \<not> (v = uid \<and> (has_group g (s_groups s) \<or> fk \<noteq> None \<and> get_user_by_id uid (s_users s) \<noteq> None))) \<and>
    chats (s_chats s') = filter (\<lambda>c. cht_user_id c \<noteq> uid \<and>
      \<not> (\<exists>d \<in> set (chats (s_chats s)). cht_user_id d = uid \<and> cht_user_id c = shared_owner (cht_id d))) (chats (s_chats s)) \<and>
    api_keys (s_users s') = filter (\<lambda>k. \<not> (fk \<noteq> None \<and> get_user_by_id uid (s_users s) \<noteq> None \<and> ak_user_id k = uid))
      (api_keys (s_users s))"
proof -
  have ok: "fst (delete_chats_by_user_id uid db) = True" for db
    by (simp add: delete_chats_by_user_id_def delete_chats_where_def)
  obtain cdb where c: "delete_chats_by_user_id uid (s_chats s) = (True, cdb)"
    using ok by (cases "delete_chats_by_user_id uid (s_chats s)") (metis fst_conv)
  have m: "is_member (gdb\<lparr>group_members := del_rows (\<lambda>m. gm_user_id m = uid) (group_members gdb)\<rparr>) g v \<longleftrightarrow>
      is_member gdb g v \<and> v \<noteq> uid" for gdb
    by (auto simp: is_member_def list_ex_iff)
  have s': "r" "s_chats s' = cdb" "users (s_users s') = row_del u_id uid (users (s_users s))"
      "auths (s_users s') = row_del au_id uid (auths (s_users s))"
      "api_keys (s_users s') = (if cascades_user fk uid (s_users s) then del_rows (\<lambda>k. ak_user_id k = uid) (api_keys (s_users s))
         else api_keys (s_users s))"
      "s_groups s' = (let gdb = snd (remove_user_from_all_groups now uid (s_groups s)) in gdb\<lparr>group_members :=
         (if cascades_user fk uid (s_users s) then del_rows (\<lambda>m. gm_user_id m = uid) (group_members gdb) else group_members gdb)\<rparr>)"
    using assms by (auto simp: delete_auth_by_id_def delete_user_by_id_def drop_user_row_def Let_def c)
  have "is_member (s_groups s') g v \<longleftrightarrow> is_member (s_groups s) g v \<and>
      \<not> (v = uid \<and> (has_group g (s_groups s) \<or> cascades_user fk uid (s_users s)))"
    unfolding s'(6) Let_def by (cases "cascades_user fk uid (s_users s)") (auto simp: m remove_all_members)
  moreover have "api_keys (s_users s') = filter (\<lambda>k. \<not> (cascades_user fk uid (s_users s) \<and> ak_user_id k = uid)) (api_keys (s_users s))"
    unfolding s'(5) by (simp add: del_rows_def)
  moreover have "cascades_user fk uid (s_users s) \<longleftrightarrow> fk \<noteq> None \<and> get_user_by_id uid (s_users s) \<noteq> None"
    by (simp add: cascades_user_def split: option.split)
  ultimately show ?thesis
    using delete_chats_user_rows[of uid "s_chats s"] s'(1-4) by (simp add: c row_del_def del_rows_def)
qed

lemma delete_auth_exact_witness:
  "let s' = snd (delete_auth_by_id (Some (\<lambda>u. True)) (\<lambda>_. 9) ''kim''
     \<lparr>s_users = sample_users, s_groups = sample_groups, s_chats = sample_chats\<rparr>)
   in users (s_users s') = [lee] \<and> api_keys (s_users s') = [] \<and> \<not> is_member (s_groups s') ''g1'' ''kim''"
  using delete_auth_exact[of "Some (\<lambda>u. True)" "\<lambda>_. 9" "''kim''" "\<lparr>s_users = sample_users, s_groups = sample_groups, s_chats = sample_chats\<rparr>"
    _ _ "''g1''" "''kim''"]
  by (cases "delete_auth_by_id (Some (\<lambda>u. True)) (\<lambda>_. 9) ''kim'' \<lparr>s_users = sample_users, s_groups = sample_groups, s_chats = sample_chats\<rparr>")
     (simp add: sample_user_defs get_user_by_id_def row_get_def sample_group_defs has_group_def)

end
