(* ===== verification/Messages.thy ===== *)
theory Messages
  imports Users
begin

text \<open>
  \<^verbatim>\<open>models/messages.py\<close>: the messages of channels, their threads and replies, and
  the reactions to them, with \<^verbatim>\<open>utils/channels.py\<close>. Looking a message up follows its reply link and, for
  each message of its thread, the reply link of that one; the two functions call each other.
  Python's recursion limit is the first argument of both: it counts the nested calls that are
  left, and running out raises \<open>RecursionError\<close>. A response nested in another keeps the
  message and its author, the fields of \<open>MessageUserResponse\<close>.
\<close>

record message =
  msg_id :: id
  msg_user_id :: id
  msg_channel_id :: "id option"
  msg_reply_to_id :: "id option"
  msg_parent_id :: "id option"
  msg_is_pinned :: bool
  msg_pinned_at :: "time option"
  msg_pinned_by :: "id option"
  msg_content :: string
  msg_data :: "dict option"
  msg_meta :: "dict option"
  msg_created_at :: time
  msg_updated_at :: time

record reaction =
  rc_id :: id
  rc_user_id :: id
  rc_message_id :: id
  rc_name :: string
  rc_created_at :: time

record message_form =
  mf_temp_id :: "string option"
  mf_content :: string
  mf_reply_to_id :: "id option"
  mf_parent_id :: "id option"
  mf_data :: "dict option"
  mf_meta :: "dict option"

record reactions =
  rs_name :: string
  rs_users :: "(id \<times> string) list"
  rs_count :: nat

record user_name_response =
  un_id :: id
  un_name :: string
  un_role :: string

record message_user_response =
  mu_message :: message
  mu_user :: "user_name_response option"

record message_reply_to_response =
  mt_message :: message
  mt_user :: "user_name_response option"
  mt_reply_to :: "message_user_response option"

record message_response = message_reply_to_response +
  mr_latest_reply_at :: "time option"
  mr_reply_count :: nat
  mr_reactions :: "reactions list"

record message_db =
  messages :: "message list"
  message_reactions :: "reaction list"

section \<open>Reactions\<close>

definition add_reaction_to_message :: "id \<Rightarrow> time \<Rightarrow> id \<Rightarrow> id \<Rightarrow> string \<Rightarrow> message_db \<Rightarrow> (py_error + reaction) \<times> message_db" where
  "add_reaction_to_message rid now mid user_id name db =
     (case first_row (\<lambda>r. rc_message_id r = mid \<and> rc_user_id r = user_id \<and> rc_name r = name) (message_reactions db) of
        Some r \<Rightarrow> (Inr r, db)
      | None \<Rightarrow>
          (let r = \<lparr>rc_id = rid, rc_user_id = user_id, rc_message_id = mid, rc_name = name, rc_created_at = now\<rparr>
           in case add_row rc_id r (message_reactions db) of
                None \<Rightarrow> (Inl IntegrityError, db)
              | Some rs \<Rightarrow> (Inr r, db\<lparr>message_reactions := rs\<rparr>)))"

text \<open>The dictionary of reactions by name, in the order in which the names come up.\<close>

fun count_reaction :: "string \<Rightarrow> id \<times> string \<Rightarrow> reactions list \<Rightarrow> reactions list" where
  "count_reaction name u [] = [\<lparr>rs_name = name, rs_users = [u], rs_count = 1\<rparr>]"
| "count_reaction name u (r # rs) =
     (if rs_name r = name then r\<lparr>rs_users := rs_users r @ [u], rs_count := rs_count r + 1\<rparr> # rs
      else r # count_reaction name u rs)"

definition joined_reactions :: "id \<Rightarrow> user_db \<Rightarrow> message_db \<Rightarrow> (reaction \<times> user) list" where
  "joined_reactions mid udb db =
     concat (map (\<lambda>r. map (\<lambda>u. (r, u)) (all_rows (\<lambda>u. u_id u = rc_user_id r) (users udb)))
       (all_rows (\<lambda>r. rc_message_id r = mid) (message_reactions db)))"

definition get_reactions_by_message_id :: "id \<Rightarrow> user_db \<Rightarrow> message_db \<Rightarrow> reactions list" where
  "get_reactions_by_message_id mid udb db =
     foldl (\<lambda>rs (r, u). count_reaction (rc_name r) (u_id u, u_name u) rs) [] (joined_reactions mid udb db)"

definition remove_reaction_by_id_and_user_id_and_name :: "id \<Rightarrow> id \<Rightarrow> string \<Rightarrow> message_db \<Rightarrow> bool \<times> message_db" where
  "remove_reaction_by_id_and_user_id_and_name mid user_id name db =
     (True, db\<lparr>message_reactions :=
        del_rows (\<lambda>r. rc_message_id r = mid \<and> rc_user_id r = user_id \<and> rc_name r = name) (message_reactions db)\<rparr>)"

definition delete_reactions_by_id :: "id \<Rightarrow> message_db \<Rightarrow> bool \<times> message_db" where
  "delete_reactions_by_id mid db =
     (True, db\<lparr>message_reactions := del_rows (\<lambda>r. rc_message_id r = mid) (message_reactions db)\<rparr>)"

section \<open>Looking messages up\<close>

definition user_name_of :: "user \<Rightarrow> user_name_response" where
  "user_name_of u = \<lparr>un_id = u_id u, un_name = u_name u, un_role = u_role u\<rparr>"

definition as_user_response :: "message_response \<Rightarrow> message_user_response" where
  "as_user_response r = \<lparr>mu_message = mt_message r, mu_user = mt_user r\<rparr>"

definition thread_of :: "id \<Rightarrow> message_db \<Rightarrow> message list" where
  "thread_of mid db = order_desc msg_created_at (all_rows (\<lambda>m. msg_parent_id m = Some mid) (messages db))"

fun get_message_by_id :: "nat \<Rightarrow> id \<Rightarrow> user_db \<Rightarrow> message_db \<Rightarrow> py_error + message_response option"
  and get_thread_replies_by_message_id ::
    "nat \<Rightarrow> id \<Rightarrow> user_db \<Rightarrow> message_db \<Rightarrow> py_error + message_reply_to_response list" where
  "get_message_by_id 0 mid udb db = Inl RecursionError"
| "get_message_by_id (Suc n) mid udb db =
     (case row_get msg_id mid (messages db) of
        None \<Rightarrow> Inr None
      | Some m \<Rightarrow>
          and_then (case msg_reply_to_id m of
              None \<Rightarrow> Inr None
            | Some r \<Rightarrow> if r = [] then Inr None else get_message_by_id n r udb db) (\<lambda>reply.
          and_then (get_thread_replies_by_message_id n mid udb db) (\<lambda>thread_replies.
            Inr (Some \<lparr>mt_message = m, mt_user = map_option user_name_of (get_user_by_id (msg_user_id m) udb),
              mt_reply_to = map_option as_user_response reply,
              mr_latest_reply_at = (case thread_replies of [] \<Rightarrow> None | t # _ \<Rightarrow> Some (msg_created_at (mt_message t))),
              mr_reply_count = length thread_replies,
              mr_reactions = get_reactions_by_message_id mid udb db\<rparr>))))"
| "get_thread_replies_by_message_id 0 mid udb db = Inl RecursionError"
| "get_thread_replies_by_message_id (Suc n) mid udb db =
     each (\<lambda>m. and_then (case msg_reply_to_id m of
              None \<Rightarrow> Inr None
            | Some r \<Rightarrow> if r = [] then Inr None else get_message_by_id n r udb db) (\<lambda>reply.
         Inr \<lparr>mt_message = m, mt_user = None, mt_reply_to = map_option as_user_response reply\<rparr>)) (thread_of mid db)"

definition with_reply :: "nat \<Rightarrow> user_db \<Rightarrow> message_db \<Rightarrow> message \<Rightarrow> py_error + message_reply_to_response" where
  "with_reply n udb db m =
     and_then (case msg_reply_to_id m of
         None \<Rightarrow> Inr None
       | Some r \<Rightarrow> if r = [] then Inr None else get_message_by_id n r udb db) (\<lambda>reply.
       Inr \<lparr>mt_message = m, mt_user = None, mt_reply_to = map_option as_user_response reply\<rparr>)"

definition get_reply_user_ids_by_message_id :: "id \<Rightarrow> message_db \<Rightarrow> id list" where
  "get_reply_user_ids_by_message_id mid db =
     map msg_user_id (all_rows (\<lambda>m. msg_parent_id m = Some mid) (messages db))"

definition get_messages_by_channel_id ::
  "nat \<Rightarrow> id \<Rightarrow> nat \<Rightarrow> nat \<Rightarrow> user_db \<Rightarrow> message_db \<Rightarrow> py_error + message_reply_to_response list" where
  "get_messages_by_channel_id n channel_id skip cnt udb db =
     each (with_reply n udb db) (page skip cnt (order_desc msg_created_at
       (all_rows (\<lambda>m. msg_channel_id m = Some channel_id \<and> msg_parent_id m = None) (messages db))))"

text \<open>The parent is appended when the page of its thread is not full.\<close>

definition get_messages_by_parent_id ::
  "nat \<Rightarrow> id \<Rightarrow> id \<Rightarrow> nat \<Rightarrow> nat \<Rightarrow> user_db \<Rightarrow> message_db \<Rightarrow> py_error + message_reply_to_response list" where
  "get_messages_by_parent_id n channel_id parent_id skip cnt udb db =
     (case row_get msg_id parent_id (messages db) of
        None \<Rightarrow> Inr []
      | Some parent \<Rightarrow>
          (let ms = page skip cnt (order_desc msg_created_at
                 (all_rows (\<lambda>m. msg_channel_id m = Some channel_id \<and> msg_parent_id m = Some parent_id) (messages db)))
           in each (with_reply n udb db) (if length ms < cnt then ms @ [parent] else ms)))"

definition get_last_message_by_channel_id :: "id \<Rightarrow> message_db \<Rightarrow> message option" where
  "get_last_message_by_channel_id channel_id db =
     first_row (\<lambda>_. True) (order_desc msg_created_at (all_rows (\<lambda>m. msg_channel_id m = Some channel_id) (messages db)))"

text \<open>A pinned message has the time it was pinned at.\<close>

definition get_pinned_messages_by_channel_id :: "id \<Rightarrow> nat \<Rightarrow> nat \<Rightarrow> message_db \<Rightarrow> message list" where
  "get_pinned_messages_by_channel_id channel_id skip cnt db =
     page skip cnt (order_desc (\<lambda>m. set_or 0 (msg_pinned_at m))
       (all_rows (\<lambda>m. msg_channel_id m = Some channel_id \<and> msg_is_pinned m) (messages db)))"

definition get_unread_message_count :: "id \<Rightarrow> id \<Rightarrow> time option \<Rightarrow> message_db \<Rightarrow> nat" where
  "get_unread_message_count channel_id user_id last_read_at db =
     length (all_rows (\<lambda>m. msg_channel_id m = Some channel_id \<and> msg_parent_id m = None \<and>
       msg_created_at m > set_or 0 last_read_at \<and> (user_id \<noteq> [] \<longrightarrow> msg_user_id m \<noteq> user_id)) (messages db))"

section \<open>Changing messages\<close>

definition new_message :: "id \<Rightarrow> time \<Rightarrow> message_form \<Rightarrow> id \<Rightarrow> id \<Rightarrow> message" where
  "new_message mid ts form channel_id user_id =
     \<lparr>msg_id = mid, msg_user_id = user_id, msg_channel_id = Some channel_id, msg_reply_to_id = mf_reply_to_id form,
      msg_parent_id = mf_parent_id form, msg_is_pinned = False, msg_pinned_at = None, msg_pinned_by = None,
      msg_content = mf_content form, msg_data = mf_data form, msg_meta = mf_meta form,
      msg_created_at = ts, msg_updated_at = ts\<rparr>"

text \<open>The channel is joined in a transaction of its own before the message is added.\<close>

definition insert_new_message ::
  "id \<Rightarrow> time \<Rightarrow> time \<Rightarrow> time \<Rightarrow> time \<Rightarrow> id \<Rightarrow> time \<Rightarrow> message_form \<Rightarrow> id \<Rightarrow> id \<Rightarrow> channel_db \<Rightarrow> message_db \<Rightarrow>
     (py_error + message) \<times> channel_db \<times> message_db" where
  "insert_new_message cmid t1 t2 t3 t4 mid ts form channel_id user_id cdb db =
     (case join_channel cmid t1 t2 t3 t4 channel_id user_id cdb of
        (Inl e, cdb1) \<Rightarrow> (Inl e, cdb1, db)
      | (Inr _, cdb1) \<Rightarrow>
          (let m = new_message mid ts form channel_id user_id
           in case add_row msg_id m (messages db) of
                None \<Rightarrow> (Inl IntegrityError, cdb1, db)
              | Some ms \<Rightarrow> (Inr m, cdb1, db\<lparr>messages := ms\<rparr>)))"

definition update_message :: "id \<Rightarrow> (message \<Rightarrow> message) \<Rightarrow> message_db \<Rightarrow> (py_error + message) \<times> message_db" where
  "update_message mid f db =
     (case row_get msg_id mid (messages db) of
        None \<Rightarrow> (Inl AttributeError, db)
      | Some m \<Rightarrow> (Inr (f m), db\<lparr>messages := upd_rows (\<lambda>m. msg_id m = mid) f (messages db)\<rparr>))"

definition update_message_by_id :: "time \<Rightarrow> id \<Rightarrow> message_form \<Rightarrow> message_db \<Rightarrow> (py_error + message) \<times> message_db" where
  "update_message_by_id now mid form = update_message mid (\<lambda>m. m\<lparr>msg_content := mf_content form,
     msg_data := Some (dmerge (set_or [] (msg_data m)) (set_or [] (mf_data form))),
     msg_meta := Some (dmerge (set_or [] (msg_meta m)) (set_or [] (mf_meta form))), msg_updated_at := now\<rparr>)"

definition update_is_pinned_by_id ::
  "time \<Rightarrow> id \<Rightarrow> bool \<Rightarrow> id option \<Rightarrow> message_db \<Rightarrow> (py_error + message) \<times> message_db" where
  "update_is_pinned_by_id now mid is_pinned pinned_by = update_message mid (\<lambda>m. m\<lparr>msg_is_pinned := is_pinned,
     msg_pinned_at := (if is_pinned then Some now else None),
     msg_pinned_by := (if is_pinned then pinned_by else None)\<rparr>)"

definition delete_replies_by_id :: "id \<Rightarrow> message_db \<Rightarrow> bool \<times> message_db" where
  "delete_replies_by_id mid db = (True, db\<lparr>messages := del_rows (\<lambda>m. msg_parent_id m = Some mid) (messages db)\<rparr>)"

definition delete_message_by_id :: "id \<Rightarrow> message_db \<Rightarrow> bool \<times> message_db" where
  "delete_message_by_id mid db =
     (True, db\<lparr>messages := row_del msg_id mid (messages db),
       message_reactions := del_rows (\<lambda>r. rc_message_id r = mid) (message_reactions db)\<rparr>)"

section \<open>Mentions\<close>

text \<open>\<open><@X:id\<close>: the type is one upper-case letter, the id runs up to a bar or bracket.\<close>

definition id_char :: "char \<Rightarrow> bool" where
  "id_char c \<longleftrightarrow> c \<noteq> CHR ''|'' \<and> c \<noteq> CHR ''>''"

definition upper_letter :: "char \<Rightarrow> bool" where
  "upper_letter c \<longleftrightarrow> 65 \<le> code c \<and> code c \<le> 90"

definition match_mention :: "char \<Rightarrow> string \<Rightarrow> (string \<times> string \<times> string) option" where
  "match_mention trigger s =
     (case s of
        lt # t # k # colon # rest \<Rightarrow>
          (let i = takeWhile id_char rest in
           if lt = CHR ''<'' \<and> t = trigger \<and> upper_letter k \<and> colon = CHR '':'' \<and> i \<noteq> []
           then Some ([k], i, drop (length i) rest) else None)
      | _ \<Rightarrow> None)"

lemma match_mention_shorter: "match_mention trigger s = Some (k, i, rest) \<Longrightarrow> length rest < length s"
  by (auto simp: match_mention_def Let_def split: list.splits if_splits)

function (sequential) extract_mentions :: "char \<Rightarrow> string \<Rightarrow> (string \<times> string) list" where
  "extract_mentions trigger [] = []"
| "extract_mentions trigger (c # s) =
     (case match_mention trigger (c # s) of
        Some (k, i, rest) \<Rightarrow> (k, i) # extract_mentions trigger rest
      | None \<Rightarrow> extract_mentions trigger s)"
  by pat_completeness auto
termination
  by (relation "measure (\<lambda>(t, s). length s)") (use match_mention_shorter in fastforce)+

text \<open>The label, when there is one, ends at the closing bracket; without a bracket nothing matches.\<close>

definition match_full :: "char \<Rightarrow> string \<Rightarrow> (string \<times> string \<times> string) option" where
  "match_full trigger s =
     (case match_mention trigger s of
        None \<Rightarrow> None
      | Some (k, i, rest) \<Rightarrow>
          (case rest of
             c # r \<Rightarrow>
               if c = CHR ''>'' then Some (i, [], r)
               else (let label = takeWhile (\<lambda>c. c \<noteq> CHR ''>'') r;
                         after = drop (length label) r
                     in if label \<noteq> [] \<and> after \<noteq> [] then Some (i, label, tl after) else None)
           | [] \<Rightarrow> None))"

lemma match_full_shorter: "match_full trigger s = Some (i, l, rest) \<Longrightarrow> length rest < length s"
  by (auto simp: match_full_def Let_def split: option.splits list.splits if_splits
      dest!: match_mention_shorter)

function (sequential) replace_mentions :: "char \<Rightarrow> bool \<Rightarrow> string \<Rightarrow> string" where
  "replace_mentions trigger use_label [] = []"
| "replace_mentions trigger use_label (c # s) =
     (case match_full trigger (c # s) of
        Some (i, l, rest) \<Rightarrow> (if use_label \<and> l \<noteq> [] then l else i) @ replace_mentions trigger use_label rest
      | None \<Rightarrow> c # replace_mentions trigger use_label s)"
  by pat_completeness auto
termination
  by (relation "measure (\<lambda>(t, u, s). length s)") (use match_full_shorter in fastforce)+

section \<open>When a look-up returns\<close>

text \<open>The messages that the look-up of \<open>a\<close> looks up in turn.\<close>

definition quotes :: "message_db \<Rightarrow> id \<Rightarrow> id \<Rightarrow> bool" where
  "quotes db a r \<longleftrightarrow> r \<noteq> [] \<and>
     (\<exists>m. row_get msg_id a (messages db) = Some m \<and>
       (msg_reply_to_id m = Some r \<or> list_ex (\<lambda>t. msg_reply_to_id t = Some r) (thread_of a db)))"

inductive lookup_ends :: "message_db \<Rightarrow> id \<Rightarrow> bool" for db where
  "(\<And>r. quotes db a r \<Longrightarrow> lookup_ends db r) \<Longrightarrow> lookup_ends db a"

abbreviation reply_of :: "nat \<Rightarrow> user_db \<Rightarrow> message_db \<Rightarrow> message \<Rightarrow> py_error + message_response option" where
  "reply_of n udb db m \<equiv> (case msg_reply_to_id m of
       None \<Rightarrow> Inr None
     | Some r \<Rightarrow> if r = [] then Inr None else get_message_by_id n r udb db)"

lemma with_reply_Inr_iff:
  "(\<exists>y. with_reply n udb db m = Inr y) \<longleftrightarrow> (\<exists>x. reply_of n udb db m = Inr x)"
  by (auto simp: with_reply_def and_then_Inr_iff)

lemma thread_replies_step:
  "get_thread_replies_by_message_id (Suc n) mid udb db = each (with_reply n udb db) (thread_of mid db)"
  by (simp add: with_reply_def[abs_def])

lemma each_mono:
  "(\<And>x y. x \<in> set xs \<Longrightarrow> f x = Inr y \<Longrightarrow> g x = Inr y) \<Longrightarrow> each f xs = Inr ys \<Longrightarrow> each g xs = Inr ys"
  by (induction xs arbitrary: ys) (auto simp: and_then_Inr_iff)

lemma each_returns_iff: "(\<exists>ys. each f xs = Inr ys) \<longleftrightarrow> (\<forall>x \<in> set xs. \<exists>y. f x = Inr y)"
proof (induction xs)
  case (Cons x xs)
  show ?case using Cons.IH by (cases "f x"; cases "each f xs") auto
qed simp

lemma lookup_mono_Suc:
  "(get_message_by_id n mid udb db = Inr x \<longrightarrow> get_message_by_id (Suc n) mid udb db = Inr x) \<and>
   (get_thread_replies_by_message_id n mid udb db = Inr ts \<longrightarrow> get_thread_replies_by_message_id (Suc n) mid udb db = Inr ts)"
proof (induction n arbitrary: mid x ts)
  case (Suc n)
  have r: "reply_of (Suc n) udb db m = Inr y" if "reply_of n udb db m = Inr y" for m y
    using that Suc.IH by (auto simp del: get_message_by_id.simps split: option.splits if_splits)
  have w: "with_reply (Suc n) udb db m = Inr y" if "with_reply n udb db m = Inr y" for m y
    using that r[of m] by (auto simp: with_reply_def and_then_Inr_iff simp del: get_message_by_id.simps)
  have t: "get_thread_replies_by_message_id (Suc n) mid udb db = Inr ts"
    if "get_thread_replies_by_message_id n mid udb db = Inr ts" for mid ts
    using Suc.IH that by blast
  have "get_message_by_id (Suc (Suc n)) mid udb db = Inr x" if "get_message_by_id (Suc n) mid udb db = Inr x"
  proof (cases "row_get msg_id mid (messages db)")
    case (Some m)
    then show ?thesis
      using that r[of m] t
      by (auto simp: and_then_Inr_iff get_message_by_id.simps(2)[of "Suc n"] get_message_by_id.simps(2)[of n]
          simp del: get_message_by_id.simps get_thread_replies_by_message_id.simps)
  qed (use that in auto)
  moreover have "get_thread_replies_by_message_id (Suc (Suc n)) mid udb db = Inr ts"
    if "get_thread_replies_by_message_id (Suc n) mid udb db = Inr ts"
    using that w unfolding thread_replies_step by (rule each_mono[rotated]) auto
  ultimately show ?case by blast
qed simp

lemma lookup_mono:
  "n \<le> k \<Longrightarrow> get_message_by_id n mid udb db = Inr x \<Longrightarrow> get_message_by_id k mid udb db = Inr x"
  by (induction rule: dec_induct) (auto simp del: get_message_by_id.simps dest: lookup_mono_Suc[THEN conjunct1, rule_format])

lemma finite_quotes: "finite {r. quotes db a r}"
proof (rule finite_subset)
  show "{r. quotes db a r} \<subseteq> (\<lambda>m. the (msg_reply_to_id m)) ` set (messages db)"
  proof
    fix r assume "r \<in> {r. quotes db a r}"
    then obtain m where "m \<in> set (messages db)" "msg_reply_to_id m = Some r"
      by (auto simp: quotes_def list_ex_iff thread_of_def dest: row_get_SomeD)
    then show "r \<in> (\<lambda>m. the (msg_reply_to_id m)) ` set (messages db)" by force
  qed
qed simp

lemma common_budget:
  assumes "finite R" "\<And>r. r \<in> R \<Longrightarrow> \<exists>n x. get_message_by_id n r udb db = Inr x"
  shows "\<exists>n. \<forall>r \<in> R. \<exists>x. get_message_by_id n r udb db = Inr x"
  using assms
proof (induction R rule: finite_induct)
  case (insert r R)
  have "\<exists>n. \<forall>r \<in> R. \<exists>x. get_message_by_id n r udb db = Inr x"
    by (rule insert.IH) (rule insert.prems, rule insertI2)
  moreover have "\<exists>k x. get_message_by_id k r udb db = Inr x" by (rule insert.prems) (rule insertI1)
  ultimately obtain n k x where
    nk: "\<forall>r \<in> R. \<exists>x. get_message_by_id n r udb db = Inr x" "get_message_by_id k r udb db = Inr x" by (elim exE)
  have "\<exists>x. get_message_by_id (max n k) q udb db = Inr x" if q: "q \<in> insert r R" for q
  proof (cases "q = r")
    case True
    then show ?thesis using nk(2) lookup_mono[of k "max n k"] by auto
  next
    case False
    then obtain y where "get_message_by_id n q udb db = Inr y" using nk(1) q by blast
    then show ?thesis using lookup_mono[of n "max n k"] by auto
  qed
  then show ?case by blast
qed simp

lemma lookup_Suc_Inr_iff:
  "(\<exists>x. get_message_by_id (Suc (Suc n)) mid udb db = Inr x) \<longleftrightarrow>
     (case row_get msg_id mid (messages db) of None \<Rightarrow> True
      | Some m \<Rightarrow> (\<exists>x. reply_of (Suc n) udb db m = Inr x) \<and>
          (\<forall>t \<in> set (thread_of mid db). \<exists>x. reply_of n udb db t = Inr x))"
proof (cases "row_get msg_id mid (messages db)")
  case (Some m)
  have "(\<exists>ts. get_thread_replies_by_message_id (Suc n) mid udb db = Inr ts) \<longleftrightarrow>
      (\<forall>t \<in> set (thread_of mid db). \<exists>x. reply_of n udb db t = Inr x)"
    unfolding thread_replies_step each_returns_iff with_reply_Inr_iff ..
  then show ?thesis
    using Some by (auto simp: and_then_Inr_iff get_message_by_id.simps(2)[of "Suc n"]
        simp del: get_message_by_id.simps get_thread_replies_by_message_id.simps)
qed simp

lemma reply_of_Inr: "(\<And>r. msg_reply_to_id m = Some r \<Longrightarrow> r \<noteq> [] \<Longrightarrow> \<exists>x. get_message_by_id n r udb db = Inr x) \<Longrightarrow>
    \<exists>x. reply_of n udb db m = Inr x"
  by (auto split: option.splits)

lemma lookup_returns: "lookup_ends db mid \<Longrightarrow> \<exists>n x. get_message_by_id n mid udb db = Inr x"
proof (induction rule: lookup_ends.induct)
  case (1 a)
  then have "\<And>r. r \<in> {r. quotes db a r} \<Longrightarrow> \<exists>n x. get_message_by_id n r udb db = Inr x" by blast
  from common_budget[OF finite_quotes this] obtain n where
    n: "\<And>r. quotes db a r \<Longrightarrow> \<exists>x. get_message_by_id n r udb db = Inr x" by blast
  then have n': "\<And>r. quotes db a r \<Longrightarrow> \<exists>x. get_message_by_id (Suc n) r udb db = Inr x"
    using lookup_mono[of n "Suc n"] by (metis le_add2 plus_1_eq_Suc)
  have "\<exists>x. get_message_by_id (Suc (Suc n)) a udb db = Inr x"
    unfolding lookup_Suc_Inr_iff
    by (cases "row_get msg_id a (messages db)")
       (auto simp: quotes_def list_ex_iff simp del: get_message_by_id.simps intro!: reply_of_Inr n n')
  then show ?case by blast
qed

lemma returned_lookup_ends: "get_message_by_id n mid udb db = Inr x \<Longrightarrow> lookup_ends db mid"
proof (induction n arbitrary: mid x rule: less_induct)
  case (less n)
  show ?case
  proof (rule lookup_ends.intros)
    fix r assume q: "quotes db mid r"
    then obtain m where m: "row_get msg_id mid (messages db) = Some m" "r \<noteq> []" by (auto simp: quotes_def)
    obtain k where k: "n = Suc (Suc k)"
      using less.prems m by (cases n; cases "n - 1") (auto simp: and_then_Inr_iff)
    have *: "(\<exists>x. reply_of (Suc k) udb db m = Inr x) \<and> (\<forall>t \<in> set (thread_of mid db). \<exists>x. reply_of k udb db t = Inr x)"
      using less.prems lookup_Suc_Inr_iff[of k mid udb db] m unfolding k by auto
    have "\<exists>j < n. \<exists>y. get_message_by_id j r udb db = Inr y"
    proof (cases "msg_reply_to_id m = Some r")
      case True
      then show ?thesis using * m k by (intro exI[of _ "Suc k"]) (auto simp del: get_message_by_id.simps)
    next
      case False
      then obtain t where "t \<in> set (thread_of mid db)" "msg_reply_to_id t = Some r"
        using q m by (auto simp: quotes_def list_ex_iff)
      then show ?thesis using * m k by (intro exI[of _ k]) (auto simp del: get_message_by_id.simps)
    qed
    then show "lookup_ends db r" using less.IH by blast
  qed
qed

lemma each_Inl: "each f xs = Inl e \<Longrightarrow> \<exists>x \<in> set xs. f x = Inl e"
  by (induction xs) (auto simp: and_then_Inl_iff)

lemma lookup_error:
  "(get_message_by_id n mid udb db = Inl e \<longrightarrow> e = RecursionError) \<and>
   (get_thread_replies_by_message_id n mid udb db = Inl e \<longrightarrow> e = RecursionError)"
proof (induction n arbitrary: mid)
  case (Suc n)
  show ?case
    using Suc by (auto simp: and_then_Inl_iff split: option.splits if_splits dest!: each_Inl)
qed auto

lemma lookup_diverges: "\<not> lookup_ends db mid \<Longrightarrow> get_message_by_id n mid udb db = Inl RecursionError"
  using returned_lookup_ends lookup_error by (metis sum.exhaust)

text \<open>
  C34: Looking a message up returns, given enough recursion depth, exactly when the chains of quoted
  messages it follows through replies and threads all end; otherwise it raises at every depth.
\<close>

theorem message_lookup_returns_iff:
  "((\<exists>n x. get_message_by_id n mid udb db = Inr x) \<longleftrightarrow> lookup_ends db mid) \<and>
   (lookup_ends db mid \<or> get_message_by_id n mid udb db = Inl RecursionError)"
  using lookup_returns returned_lookup_ends lookup_diverges by blast

lemma self_quote_endless:
  assumes "quotes db mid mid"
  shows "\<not> lookup_ends db mid"
proof
  assume "lookup_ends db mid"
  then show False using assms by (induction rule: lookup_ends.induct) blast
qed

section \<open>What the reactions show\<close>

lemma count_reaction_names:
  "map rs_name (count_reaction x u rs) = (if x \<in> rs_name ` set rs then map rs_name rs else map rs_name rs @ [x])"
  by (induction rs) auto

definition reaction_group :: "(reaction \<times> user) list \<Rightarrow> string \<Rightarrow> (id \<times> string) list" where
  "reaction_group ps name = map (\<lambda>(r, u). (u_id u, u_name u)) (filter (\<lambda>(r, u). rc_name r = name) ps)"

definition grouped :: "(reaction \<times> user) list \<Rightarrow> reactions list \<Rightarrow> bool" where
  "grouped ps rs \<longleftrightarrow> distinct (map rs_name rs) \<and> rs_name ` set rs = rc_name ` fst ` set ps \<and>
     list_all (\<lambda>r. rs_users r = reaction_group ps (rs_name r) \<and> rs_count r = length (rs_users r)) rs"

lemma reaction_group_snoc [simp]:
  "reaction_group (ps @ [(r, u)]) name = reaction_group ps name @ (if rc_name r = name then [(u_id u, u_name u)] else [])"
  by (simp add: reaction_group_def)

lemma count_reaction_set:
  "distinct (map rs_name rs) \<Longrightarrow>
   set (count_reaction x u rs) = (if x \<in> rs_name ` set rs
      then (\<lambda>r. if rs_name r = x then r\<lparr>rs_users := rs_users r @ [u], rs_count := rs_count r + 1\<rparr> else r) ` set rs
      else insert \<lparr>rs_name = x, rs_users = [u], rs_count = 1\<rparr> (set rs))"
  by (induction rs) (auto simp: image_iff)

lemma grouped_step:
  assumes "grouped ps rs"
  shows "grouped (ps @ [(r, u)]) (count_reaction (rc_name r) (u_id u, u_name u) rs)"
proof -
  have d: "distinct (map rs_name rs)" using assms by (simp add: grouped_def)
  have e: "reaction_group ps (rc_name r) = []" if "rc_name r \<notin> rs_name ` set rs"
  proof -
    have "rc_name r \<notin> rc_name ` fst ` set ps" using assms that by (simp add: grouped_def)
    then have "filter (\<lambda>(q, u). rc_name q = rc_name r) ps = []" by (fastforce simp: filter_empty_conv image_iff)
    then show ?thesis by (simp add: reaction_group_def)
  qed
  have n: "rs_name ` set (count_reaction (rc_name r) (u_id u, u_name u) rs) = insert (rc_name r) (rs_name ` set rs)"
    using arg_cong[OF count_reaction_names[of "rc_name r" "(u_id u, u_name u)" rs], of set] by auto
  show ?thesis
    using assms e n unfolding grouped_def list_all_iff count_reaction_set[OF d] count_reaction_names
    by (auto split: if_splits)
qed

lemma grouped_foldl:
  "grouped qs rs \<Longrightarrow> grouped (qs @ ps) (foldl (\<lambda>rs (r, u). count_reaction (rc_name r) (u_id u, u_name u) rs) rs ps)"
proof (induction ps arbitrary: qs rs)
  case (Cons p ps)
  obtain r u where p: "p = (r, u)" by (cases p)
  show ?case using Cons.IH[OF grouped_step[OF Cons.prems, of r u]] by (simp add: p)
qed simp

text \<open>
  The reactions shown for a message are one entry for each name that an existing user
  reacted with, holding exactly the users who did, in the order of their reactions, and their number.
\<close>

lemma reactions_exact:
  "grouped (joined_reactions mid udb db) (get_reactions_by_message_id mid udb db)"
  using grouped_foldl[of "[]" "[]"] by (simp add: get_reactions_by_message_id_def grouped_def)

end
