(* ===== verification/Channel_Handlers.thy ===== *)
theory Channel_Handlers
  imports Messages
begin

text \<open>
  \<^verbatim>\<open>routers/channels.py\<close>: the handlers of channels and their messages. The state is the four
  groups of tables they touch. \<open>caller\<close> is the signed-in user, \<open>n\<close> is Python's recursion limit
  as in \<^theory_text>\<open>Messages\<close>, and clocks, UUIDs and the database's JSON test are arguments. An
  exception outside a \<open>try\<close> is a \<open>ServerError\<close>; inside it is a \<open>BadRequest\<close>, and what was
  committed before it stays. The events sent over the socket and the answers of models to
  mentions are left out: they change none of the tables.
\<close>

record channel_server =
  sv_channels :: channel_db
  sv_messages :: message_db
  sv_users :: user_db
  sv_groups :: group_db

type_synonym 'a answer = "(http_error + 'a) \<times> channel_server"

section \<open>Checks\<close>

definition may_use_channels :: "dict \<Rightarrow> dict \<Rightarrow> user \<Rightarrow> channel_server \<Rightarrow> http_error + bool" where
  "may_use_channels builtin config caller s =
     (if u_role caller = ''admin'' then Inr True
      else raising ServerError (fst (has_permission builtin (u_id caller) ''features.channels'' config (sv_groups s))))"

definition channel_access :: "string \<Rightarrow> bool \<Rightarrow> channel \<Rightarrow> user \<Rightarrow> channel_server \<Rightarrow> http_error + bool" where
  "channel_access kind strict c caller s =
     (if member_type c then Inr (is_user_channel_member (ch_id c) (u_id caller) (sv_channels s))
      else if u_role caller = ''admin'' then Inr True
      else raising ServerError (has_access (u_id caller) kind (ch_access_control c) None strict (sv_groups s)))"

definition guarded :: "http_error + bool \<Rightarrow> http_error \<Rightarrow> channel_server \<Rightarrow> 'a answer \<Rightarrow> 'a answer" where
  "guarded check refusal s r = (case check of Inl e \<Rightarrow> (Inl e, s) | Inr False \<Rightarrow> (Inl refusal, s) | Inr True \<Rightarrow> r)"

definition with_channel :: "id \<Rightarrow> channel_server \<Rightarrow> (channel \<Rightarrow> 'a answer) \<Rightarrow> 'a answer" where
  "with_channel cid s f =
     (case Channels.get_channel_by_id cid (sv_channels s) of None \<Rightarrow> (Inl NotFound, s) | Some c \<Rightarrow> f c)"

definition with_message :: "nat \<Rightarrow> id \<Rightarrow> id \<Rightarrow> channel_server \<Rightarrow> (message_response \<Rightarrow> 'a answer) \<Rightarrow> 'a answer" where
  "with_message n cid mid s f =
     (case get_message_by_id n mid (sv_users s) (sv_messages s) of
        Inl e \<Rightarrow> (Inl ServerError, s)
      | Inr None \<Rightarrow> (Inl NotFound, s)
      | Inr (Some m) \<Rightarrow> if msg_channel_id (mt_message m) \<noteq> Some cid then (Inl BadRequest, s) else f m)"

definition owns_channel :: "channel \<Rightarrow> user \<Rightarrow> bool" where
  "owns_channel c caller \<longleftrightarrow> ch_user_id c = u_id caller \<or> u_role caller = ''admin''"

section \<open>Channels\<close>

record user_status_response =
  ur_id :: id
  ur_name :: string
  ur_emoji :: "string option"
  ur_message :: "string option"
  ur_expires_at :: "time option"
  ur_is_active :: bool

record channel_item =
  ci_channel :: channel
  ci_user_ids :: "id list option"
  ci_users :: "user_status_response list option"
  ci_last_message_at :: "time option"
  ci_unread_count :: nat

record channel_full =
  cl_channel :: channel
  cl_user_ids :: "id list option"
  cl_users :: "user_status_response list option"
  cl_is_manager :: bool
  cl_write_access :: bool
  cl_user_count :: nat
  cl_last_read_at :: "time option"
  cl_unread_count :: nat

definition user_status_of :: "time \<Rightarrow> user_db \<Rightarrow> user \<Rightarrow> user_status_response" where
  "user_status_of now udb u =
     \<lparr>ur_id = u_id u, ur_name = u_name u, ur_emoji = u_status_emoji u, ur_message = u_status_message u,
      ur_expires_at = u_status_expires_at u, ur_is_active = is_user_active now (u_id u) udb\<rparr>"

definition channel_user_ids :: "id \<Rightarrow> channel_server \<Rightarrow> id list" where
  "channel_user_ids cid s = map cm_user_id (get_members_by_channel_id cid (sv_channels s))"

definition channel_users :: "time \<Rightarrow> id \<Rightarrow> channel_server \<Rightarrow> user_status_response list" where
  "channel_users now cid s =
     map (user_status_of now (sv_users s)) (get_users_by_user_ids (channel_user_ids cid s) (sv_users s))"

definition channel_list_item :: "time \<Rightarrow> id \<Rightarrow> channel_server \<Rightarrow> channel \<Rightarrow> channel_item" where
  "channel_list_item now user_id s c =
     \<lparr>ci_channel = c,
      ci_user_ids = (if ch_type c = Some ''dm'' then Some (channel_user_ids (ch_id c) s) else None),
      ci_users = (if ch_type c = Some ''dm'' then Some (channel_users now (ch_id c) s) else None),
      ci_last_message_at = map_option msg_created_at (get_last_message_by_channel_id (ch_id c) (sv_messages s)),
      ci_unread_count =
        (case get_member_by_channel_and_user_id (ch_id c) user_id (sv_channels s) of
           None \<Rightarrow> 0
         | Some m \<Rightarrow> get_unread_message_count (ch_id c) user_id (cm_last_read_at m) (sv_messages s))\<rparr>"

definition get_channels ::
  "(json option \<Rightarrow> id \<Rightarrow> bool) \<Rightarrow> dict \<Rightarrow> dict \<Rightarrow> time \<Rightarrow> user \<Rightarrow> channel_server \<Rightarrow> channel_item list answer" where
  "get_channels contains builtin config now caller s =
     guarded (may_use_channels builtin config caller s) Unauthorized s
       (Inr (map (channel_list_item now (u_id caller) s)
          (get_channels_by_user_id contains (u_id caller) (sv_groups s) (sv_channels s))), s)"

definition get_all_channels :: "(json option \<Rightarrow> id \<Rightarrow> bool) \<Rightarrow> user \<Rightarrow> channel_server \<Rightarrow> channel list" where
  "get_all_channels contains caller s =
     (if u_role caller = ''admin'' then Channels.get_channels (sv_channels s)
      else get_channels_by_user_id contains (u_id caller) (sv_groups s) (sv_channels s))"

text \<open>A new channel, or the caller's direct channel with these users made active again.\<close>

definition insert_channel ::
  "id \<Rightarrow> (id \<Rightarrow> id) \<Rightarrow> time \<Rightarrow> time \<Rightarrow> time \<Rightarrow> create_channel_form \<Rightarrow> user \<Rightarrow> channel_server \<Rightarrow> channel answer" where
  "insert_channel chid uid t1 t2 now form caller s =
     (let (r, cdb) = insert_new_channel chid uid t1 t2 now form (u_id caller) (sv_groups s) (sv_channels s)
      in (raising BadRequest r, s\<lparr>sv_channels := cdb\<rparr>))"

definition reuse_channel :: "time \<Rightarrow> channel \<Rightarrow> user \<Rightarrow> channel_server \<Rightarrow> channel answer" where
  "reuse_channel now c caller s =
     (Inr c, s\<lparr>sv_channels := snd (update_member_active_status now True (ch_id c) (u_id caller) (sv_channels s))\<rparr>)"

definition dm_form :: "id \<Rightarrow> create_channel_form" where
  "dm_form user_id = \<lparr>cf_name = [], cf_description = None, cf_is_private = None, cf_data = None, cf_meta = None,
     cf_access_control = None, cf_group_ids = None, cf_user_ids = Some [user_id], cf_type = Some ''dm''\<rparr>"

definition get_dm_channel_by_user_id ::
  "dict \<Rightarrow> dict \<Rightarrow> id \<Rightarrow> (id \<Rightarrow> id) \<Rightarrow> time \<Rightarrow> time \<Rightarrow> time \<Rightarrow> id \<Rightarrow> user \<Rightarrow> channel_server \<Rightarrow> channel answer" where
  "get_dm_channel_by_user_id builtin config chid uid t1 t2 now user_id caller s =
     guarded (may_use_channels builtin config caller s) Unauthorized s
       (case get_dm_channel_by_user_ids [u_id caller, user_id] (sv_channels s) of
          Some c \<Rightarrow> reuse_channel now c caller s
        | None \<Rightarrow> insert_channel chid uid t1 t2 now (dm_form user_id) caller s)"

definition create_new_channel ::
  "dict \<Rightarrow> dict \<Rightarrow> id \<Rightarrow> (id \<Rightarrow> id) \<Rightarrow> time \<Rightarrow> time \<Rightarrow> time \<Rightarrow> create_channel_form \<Rightarrow> user \<Rightarrow> channel_server \<Rightarrow> channel answer" where
  "create_new_channel builtin config chid uid t1 t2 now form caller s =
     guarded (may_use_channels builtin config caller s) Unauthorized s
       (if cf_type form \<notin> {Some ''group'', Some ''dm''} \<and> u_role caller \<noteq> ''admin'' then (Inl Unauthorized, s)
        else if cf_type form = Some ''dm'' then
          (case cf_user_ids form of
             None \<Rightarrow> (Inl BadRequest, s)
           | Some us \<Rightarrow>
               (case get_dm_channel_by_user_ids (u_id caller # us) (sv_channels s) of
                  Some c \<Rightarrow> reuse_channel now c caller s
                | None \<Rightarrow> insert_channel chid uid t1 t2 now form caller s))
        else insert_channel chid uid t1 t2 now form caller s)"

definition get_channel_by_id :: "char option \<Rightarrow> time \<Rightarrow> id \<Rightarrow> user \<Rightarrow> channel_server \<Rightarrow> channel_full answer" where
  "get_channel_by_id esc now cid caller s =
     with_channel cid s (\<lambda>c.
       let member = get_member_by_channel_and_user_id (ch_id c) (u_id caller) (sv_channels s);
           last_read = (case member of None \<Rightarrow> None | Some m \<Rightarrow> cm_last_read_at m);
           unread = get_unread_message_count (ch_id c) (u_id caller) last_read (sv_messages s);
           manager = is_user_channel_manager (ch_id c) (u_id caller) (sv_channels s)
       in guarded (channel_access ''read'' True c caller s) Forbidden s
         (if member_type c then
            (Inr \<lparr>cl_channel = c, cl_user_ids = Some (channel_user_ids (ch_id c) s),
               cl_users = Some (channel_users now (ch_id c) s), cl_is_manager = manager, cl_write_access = True,
               cl_user_count = length (channel_user_ids (ch_id c) s), cl_last_read_at = last_read, cl_unread_count = unread\<rparr>, s)
          else (raising ServerError
            (and_then (has_access (u_id caller) ''write'' (ch_access_control c) None False (sv_groups s)) (\<lambda>write.
             and_then (get_users_with_access esc ''read'' (ch_access_control c) (sv_groups s) (sv_channels s) (sv_users s)) (\<lambda>us.
             Inr \<lparr>cl_channel = c, cl_user_ids = None, cl_users = None, cl_is_manager = manager,
               cl_write_access = write \<or> u_role caller = ''admin'', cl_user_count = length us,
               cl_last_read_at = last_read, cl_unread_count = unread\<rparr>))), s)))"

definition nonempty :: "string option \<Rightarrow> string option" where
  "nonempty v = (if v = Some [] then None else v)"

text \<open>For a standard channel with an access list, both id lists narrow the query.\<close>

definition member_filter :: "channel \<Rightarrow> string option \<Rightarrow> string option \<Rightarrow> string option \<Rightarrow> py_error + user_filter" where
  "member_filter c query order_by direction =
     (let f = no_filter\<lparr>uf_query := nonempty query, uf_order_by := nonempty order_by, uf_direction := nonempty direction\<rparr>
      in if ch_type c = Some ''group'' then Inr (f\<lparr>uf_channel_id := Some (ch_id c)\<rparr>)
         else and_then (get_permitted_group_and_user_ids ''read'' (ch_access_control c)) (\<lambda>p.
           case p of
             None \<Rightarrow> Inr (f\<lparr>uf_roles := Some [''!pending'']\<rparr>)
           | Some p \<Rightarrow>
               and_then (id_list (permitted_users p)) (\<lambda>us.
               and_then (id_list (permitted_groups p)) (\<lambda>gs.
               Inr (f\<lparr>uf_roles := Some [''!pending''], uf_user_ids := Some us, uf_group_ids := Some gs\<rparr>)))))"

definition get_channel_members_by_id ::
  "char option \<Rightarrow> time \<Rightarrow> id \<Rightarrow> string option \<Rightarrow> string option \<Rightarrow> string option \<Rightarrow> int \<Rightarrow> user \<Rightarrow> channel_server \<Rightarrow>
     ((user \<times> bool) list \<times> nat) answer" where
  "get_channel_members_by_id esc now cid query order_by direction page_no caller s =
     with_channel cid s (\<lambda>c.
       let cnt = 30;
           skip = nat (max 1 page_no - 1) * cnt;
           with_status = map (\<lambda>u. (u, is_user_active now (u_id u) (sv_users s)))
       in if member_type c \<and> \<not> is_user_channel_member (ch_id c) (u_id caller) (sv_channels s) then (Inl Forbidden, s)
          else if ch_type c = Some ''dm'' then
            (let us = get_users_by_user_ids (channel_user_ids (ch_id c) s) (sv_users s)
             in (Inr (with_status us, length us), s))
          else (case member_filter c query order_by direction of
                  Inl e \<Rightarrow> (Inl ServerError, s)
                | Inr f \<Rightarrow>
                    (let (us, total) = get_users esc (Some f) (Some skip) (Some cnt) (sv_groups s) (sv_channels s) (sv_users s)
                     in (Inr (with_status us, total), s))))"

definition update_is_active_member_by_id_and_user_id :: "time \<Rightarrow> id \<Rightarrow> bool \<Rightarrow> user \<Rightarrow> channel_server \<Rightarrow> bool answer" where
  "update_is_active_member_by_id_and_user_id now cid is_active caller s =
     with_channel cid s (\<lambda>c.
       if \<not> is_user_channel_member (ch_id c) (u_id caller) (sv_channels s) then (Inl NotFound, s)
       else (Inr True, s\<lparr>sv_channels :=
              snd (update_member_active_status now is_active (ch_id c) (u_id caller) (sv_channels s))\<rparr>))"

definition owner_handler ::
  "dict \<Rightarrow> dict \<Rightarrow> id \<Rightarrow> user \<Rightarrow> channel_server \<Rightarrow> (channel \<Rightarrow> 'a answer) \<Rightarrow> 'a answer" where
  "owner_handler builtin config cid caller s f =
     guarded (may_use_channels builtin config caller s) Unauthorized s
       (with_channel cid s (\<lambda>c. if owns_channel c caller then f c else (Inl Forbidden, s)))"

definition add_members_by_id ::
  "dict \<Rightarrow> dict \<Rightarrow> (id \<Rightarrow> id) \<Rightarrow> time \<Rightarrow> id \<Rightarrow> id list \<Rightarrow> id list \<Rightarrow> user \<Rightarrow> channel_server \<Rightarrow> channel_member list answer" where
  "add_members_by_id builtin config uid now cid user_ids group_ids caller s =
     owner_handler builtin config cid caller s (\<lambda>c.
       let (r, cdb) = add_members_to_channel uid now (ch_id c) (u_id caller) (Some user_ids) (Some group_ids) (sv_groups s) (sv_channels s)
       in (raising BadRequest r, s\<lparr>sv_channels := cdb\<rparr>))"

definition remove_members_by_id ::
  "dict \<Rightarrow> dict \<Rightarrow> id \<Rightarrow> id list \<Rightarrow> user \<Rightarrow> channel_server \<Rightarrow> nat answer" where
  "remove_members_by_id builtin config cid user_ids caller s =
     owner_handler builtin config cid caller s (\<lambda>c.
       let (r, cdb) = remove_members_from_channel (ch_id c) user_ids (sv_channels s) in (Inr r, s\<lparr>sv_channels := cdb\<rparr>))"

definition update_channel_by_id ::
  "dict \<Rightarrow> dict \<Rightarrow> time \<Rightarrow> id \<Rightarrow> channel_form \<Rightarrow> user \<Rightarrow> channel_server \<Rightarrow> channel answer" where
  "update_channel_by_id builtin config now cid form caller s =
     owner_handler builtin config cid caller s (\<lambda>c.
       let (r, cdb) = Channels.update_channel_by_id now cid form (sv_channels s)
       in (case r of None \<Rightarrow> Inl BadRequest | Some c' \<Rightarrow> Inr c', s\<lparr>sv_channels := cdb\<rparr>))"

definition delete_channel_by_id :: "dict \<Rightarrow> dict \<Rightarrow> id \<Rightarrow> user \<Rightarrow> channel_server \<Rightarrow> bool answer" where
  "delete_channel_by_id builtin config cid caller s =
     owner_handler builtin config cid caller s (\<lambda>c.
       (Inr True, s\<lparr>sv_channels := snd (Channels.delete_channel_by_id cid (sv_channels s))\<rparr>))"

section \<open>Reading messages\<close>

text \<open>The author is looked up; \<open>None.model_dump()\<close> raises when the account is gone.\<close>

definition author_of :: "message \<Rightarrow> user_db \<Rightarrow> py_error + user_name_response" where
  "author_of m udb = (case get_user_by_id (msg_user_id m) udb of None \<Rightarrow> Inl AttributeError | Some u \<Rightarrow> Inr (user_name_of u))"

definition channel_message_item ::
  "nat \<Rightarrow> user_db \<Rightarrow> message_db \<Rightarrow> message_reply_to_response \<Rightarrow> py_error + message_response" where
  "channel_message_item n udb db m =
     and_then (get_thread_replies_by_message_id n (msg_id (mt_message m)) udb db) (\<lambda>thread_replies.
     and_then (author_of (mt_message m) udb) (\<lambda>author.
       Inr \<lparr>mt_message = mt_message m, mt_user = Some author, mt_reply_to = mt_reply_to m,
         mr_latest_reply_at = (case thread_replies of [] \<Rightarrow> None | t # _ \<Rightarrow> Some (msg_created_at (mt_message t))),
         mr_reply_count = length thread_replies,
         mr_reactions = get_reactions_by_message_id (msg_id (mt_message m)) udb db\<rparr>))"

definition get_channel_messages ::
  "nat \<Rightarrow> id \<Rightarrow> time \<Rightarrow> time \<Rightarrow> time \<Rightarrow> time \<Rightarrow> id \<Rightarrow> nat \<Rightarrow> nat \<Rightarrow> user \<Rightarrow> channel_server \<Rightarrow> message_response list answer" where
  "get_channel_messages n cmid t1 t2 t3 t4 cid skip cnt caller s =
     with_channel cid s (\<lambda>c.
       guarded (channel_access ''read'' True c caller s) Forbidden s
         (let (joined, cdb) = (if member_type c then (True, sv_channels s)
                 else (case join_channel cmid t1 t2 t3 t4 cid (u_id caller) (sv_channels s) of
                         (Inl e, cdb) \<Rightarrow> (False, cdb) | (Inr m, cdb) \<Rightarrow> (True, cdb)));
              s1 = s\<lparr>sv_channels := cdb\<rparr>
          in if \<not> joined then (Inl ServerError, s1)
             else (raising ServerError
                    (and_then (get_messages_by_channel_id n cid skip cnt (sv_users s) (sv_messages s))
                      (each (channel_message_item n (sv_users s) (sv_messages s)))), s1)))"

definition pinned_item :: "user_db \<Rightarrow> message_db \<Rightarrow> message \<Rightarrow> py_error + (message \<times> user_name_response \<times> reactions list)" where
  "pinned_item udb db m =
     and_then (author_of m udb) (\<lambda>author. Inr (m, author, get_reactions_by_message_id (msg_id m) udb db))"

definition get_pinned_channel_messages ::
  "id \<Rightarrow> int \<Rightarrow> user \<Rightarrow> channel_server \<Rightarrow> (message \<times> user_name_response \<times> reactions list) list answer" where
  "get_pinned_channel_messages cid page_no caller s =
     with_channel cid s (\<lambda>c.
       guarded (channel_access ''read'' True c caller s) Forbidden s
         (raising ServerError (each (pinned_item (sv_users s) (sv_messages s))
            (get_pinned_messages_by_channel_id cid (nat (max 1 page_no - 1) * 20) 20 (sv_messages s))), s))"

definition with_author :: "http_error \<Rightarrow> message_response \<Rightarrow> channel_server \<Rightarrow> message_response answer" where
  "with_author h m s =
     (raising h (and_then (author_of (mt_message m) (sv_users s)) (\<lambda>a. Inr (m\<lparr>mt_user := Some a\<rparr>))), s)"

definition get_channel_message :: "nat \<Rightarrow> id \<Rightarrow> id \<Rightarrow> user \<Rightarrow> channel_server \<Rightarrow> message_response answer" where
  "get_channel_message n cid mid caller s =
     with_channel cid s (\<lambda>c.
       guarded (channel_access ''read'' True c caller s) Forbidden s
         (with_message n cid mid s (\<lambda>m. with_author ServerError m s)))"

definition thread_item :: "user_db \<Rightarrow> message_db \<Rightarrow> message_reply_to_response \<Rightarrow> py_error + message_response" where
  "thread_item udb db m =
     and_then (author_of (mt_message m) udb) (\<lambda>author.
       Inr \<lparr>mt_message = mt_message m, mt_user = Some author, mt_reply_to = mt_reply_to m, mr_latest_reply_at = None,
         mr_reply_count = 0, mr_reactions = get_reactions_by_message_id (msg_id (mt_message m)) udb db\<rparr>)"

definition get_channel_thread_messages ::
  "nat \<Rightarrow> id \<Rightarrow> id \<Rightarrow> nat \<Rightarrow> nat \<Rightarrow> user \<Rightarrow> channel_server \<Rightarrow> message_response list answer" where
  "get_channel_thread_messages n cid mid skip cnt caller s =
     with_channel cid s (\<lambda>c.
       guarded (channel_access ''read'' True c caller s) Forbidden s
         (raising ServerError
            (and_then (get_messages_by_parent_id n cid mid skip cnt (sv_users s) (sv_messages s))
              (each (thread_item (sv_users s) (sv_messages s)))), s))"

section \<open>Changing messages\<close>

text \<open>The members who are not active are made active again, one by one.\<close>

definition activate_members :: "time \<Rightarrow> id \<Rightarrow> channel_db \<Rightarrow> channel_db" where
  "activate_members now cid db =
     foldl (\<lambda>d m. if cm_is_active m then d else snd (update_member_active_status now True cid (cm_user_id m) d))
       db (get_members_by_channel_id cid db)"

definition lookup_stored :: "nat \<Rightarrow> id \<Rightarrow> channel_server \<Rightarrow> message_response answer" where
  "lookup_stored n mid s =
     (case get_message_by_id n mid (sv_users s) (sv_messages s) of
        Inr (Some m) \<Rightarrow> (Inr m, s)
      | _ \<Rightarrow> (Inl BadRequest, s))"

text \<open>The parent is looked up for an event; the look-up can raise.\<close>

definition parent_event :: "nat \<Rightarrow> message_response \<Rightarrow> 'a answer \<Rightarrow> 'a answer" where
  "parent_event n m r =
     (case msg_parent_id (mt_message m) of
        None \<Rightarrow> r
      | Some p \<Rightarrow>
          if p = [] then r
          else (case get_message_by_id n p (sv_users (snd r)) (sv_messages (snd r)) of
                  Inl e \<Rightarrow> (Inl BadRequest, snd r)
                | Inr _ \<Rightarrow> r))"

definition new_message_handler ::
  "nat \<Rightarrow> id \<Rightarrow> time \<Rightarrow> time \<Rightarrow> time \<Rightarrow> time \<Rightarrow> id \<Rightarrow> time \<Rightarrow> time \<Rightarrow> id \<Rightarrow> message_form \<Rightarrow> user \<Rightarrow> channel_server \<Rightarrow>
     (message_response \<times> channel) answer" where
  "new_message_handler n cmid t1 t2 t3 t4 mid ts now cid form caller s =
     with_channel cid s (\<lambda>c.
       guarded (channel_access ''write'' False c caller s) Forbidden s
         (case insert_new_message cmid t1 t2 t3 t4 mid ts form (ch_id c) (u_id caller) (sv_channels s) (sv_messages s) of
            (Inl e, cdb, mdb) \<Rightarrow> (Inl BadRequest, s\<lparr>sv_channels := cdb, sv_messages := mdb\<rparr>)
          | (Inr m, cdb, mdb) \<Rightarrow>
              (let s1 = s\<lparr>sv_channels := (if member_type c then activate_members now (ch_id c) cdb else cdb),
                          sv_messages := mdb\<rparr>
               in case lookup_stored n (msg_id m) s1 of
                    (Inl e, s2) \<Rightarrow> (Inl e, s2)
                  | (Inr r, s2) \<Rightarrow> parent_event n r (Inr (r, c), s2))))"

definition post_new_message ::
  "nat \<Rightarrow> id \<Rightarrow> time \<Rightarrow> time \<Rightarrow> time \<Rightarrow> time \<Rightarrow> id \<Rightarrow> time \<Rightarrow> time \<Rightarrow> id \<Rightarrow> message_form \<Rightarrow> user \<Rightarrow> channel_server \<Rightarrow>
     message answer" where
  "post_new_message n cmid t1 t2 t3 t4 mid ts now cid form caller s =
     (case new_message_handler n cmid t1 t2 t3 t4 mid ts now cid form caller s of
        (Inl e, s1) \<Rightarrow> (Inl (if e = ServerError then BadRequest else e), s1)
      | (Inr (m, c), s1) \<Rightarrow> (Inr (mt_message m), s1))"

definition pin_channel_message :: "nat \<Rightarrow> time \<Rightarrow> id \<Rightarrow> id \<Rightarrow> bool \<Rightarrow> user \<Rightarrow> channel_server \<Rightarrow> message_response answer" where
  "pin_channel_message n now cid mid is_pinned caller s =
     with_channel cid s (\<lambda>c.
       guarded (channel_access ''read'' True c caller s) Forbidden s
         (with_message n cid mid s (\<lambda>m.
            let s1 = s\<lparr>sv_messages := snd (update_is_pinned_by_id now mid is_pinned (Some (u_id caller)) (sv_messages s))\<rparr>
            in case lookup_stored n mid s1 of (Inl e, s2) \<Rightarrow> (Inl e, s2) | (Inr r, s2) \<Rightarrow> with_author BadRequest r s2)))"

definition author_or_access :: "string \<Rightarrow> bool \<Rightarrow> channel \<Rightarrow> message_response \<Rightarrow> user \<Rightarrow> channel_server \<Rightarrow> http_error + bool" where
  "author_or_access kind strict c m caller s =
     (if \<not> member_type c \<and> msg_user_id (mt_message m) = u_id caller then Inr True
      else channel_access kind strict c caller s)"

definition update_message_by_id ::
  "nat \<Rightarrow> time \<Rightarrow> id \<Rightarrow> id \<Rightarrow> message_form \<Rightarrow> user \<Rightarrow> channel_server \<Rightarrow> message answer" where
  "update_message_by_id n now cid mid form caller s =
     with_channel cid s (\<lambda>c.
       with_message n cid mid s (\<lambda>m.
         guarded (author_or_access ''read'' True c m caller s) Forbidden s
           (let s1 = s\<lparr>sv_messages := snd (Messages.update_message_by_id now mid form (sv_messages s))\<rparr>
            in case lookup_stored n mid s1 of (Inl e, s2) \<Rightarrow> (Inl e, s2) | (Inr r, s2) \<Rightarrow> (Inr (mt_message r), s2))))"

definition reaction_handler ::
  "nat \<Rightarrow> id \<Rightarrow> id \<Rightarrow> user \<Rightarrow> channel_server \<Rightarrow> (message_db \<Rightarrow> bool \<times> message_db) \<Rightarrow> bool answer" where
  "reaction_handler n cid mid caller s f =
     with_channel cid s (\<lambda>c.
       guarded (channel_access ''write'' False c caller s) Forbidden s
         (with_message n cid mid s (\<lambda>m.
            let (ok, mdb) = f (sv_messages s); s1 = s\<lparr>sv_messages := mdb\<rparr>
            in if \<not> ok then (Inl BadRequest, s1)
               else (case lookup_stored n mid s1 of (Inl e, s2) \<Rightarrow> (Inl e, s2) | (Inr r, s2) \<Rightarrow> (Inr True, s2)))))"

definition add_reaction_to_message ::
  "nat \<Rightarrow> id \<Rightarrow> time \<Rightarrow> id \<Rightarrow> id \<Rightarrow> string \<Rightarrow> user \<Rightarrow> channel_server \<Rightarrow> bool answer" where
  "add_reaction_to_message n rid now cid mid name caller s =
     reaction_handler n cid mid caller s (\<lambda>mdb.
       case Messages.add_reaction_to_message rid now mid (u_id caller) name mdb of
         (Inl e, mdb') \<Rightarrow> (False, mdb') | (Inr r, mdb') \<Rightarrow> (True, mdb'))"

definition remove_reaction_by_id_and_user_id_and_name ::
  "nat \<Rightarrow> id \<Rightarrow> id \<Rightarrow> string \<Rightarrow> user \<Rightarrow> channel_server \<Rightarrow> bool answer" where
  "remove_reaction_by_id_and_user_id_and_name n cid mid name caller s =
     reaction_handler n cid mid caller s (Messages.remove_reaction_by_id_and_user_id_and_name mid (u_id caller) name)"

definition delete_message_by_id :: "nat \<Rightarrow> id \<Rightarrow> id \<Rightarrow> user \<Rightarrow> channel_server \<Rightarrow> bool answer" where
  "delete_message_by_id n cid mid caller s =
     with_channel cid s (\<lambda>c.
       with_message n cid mid s (\<lambda>m.
         guarded (author_or_access ''write'' False c m caller s) Forbidden s
           (parent_event n m (Inr True, s\<lparr>sv_messages := snd (Messages.delete_message_by_id mid (sv_messages s))\<rparr>))))"

section \<open>Requests to a channel\<close>

datatype channel_request =
    ReadMessages id time time time time nat nat
  | ReadThread id nat nat
  | PostMessage id time time time time id time time message_form
  | PinMessage time id bool
  | EditMessage time id message_form
  | AddReaction id time id string
  | RemoveReaction id string
  | DeleteMessage id

fun refusal_of :: "'a answer \<Rightarrow> http_error option \<times> channel_server" where
  "refusal_of (Inl e, s) = (Some e, s)"
| "refusal_of (Inr x, s) = (None, s)"

fun run_request :: "nat \<Rightarrow> id \<Rightarrow> user \<Rightarrow> channel_request \<Rightarrow> channel_server \<Rightarrow> http_error option \<times> channel_server" where
  "run_request n cid u (ReadMessages cmid t1 t2 t3 t4 skip cnt) s =
     refusal_of (get_channel_messages n cmid t1 t2 t3 t4 cid skip cnt u s)"
| "run_request n cid u (ReadThread mid skip cnt) s = refusal_of (get_channel_thread_messages n cid mid skip cnt u s)"
| "run_request n cid u (PostMessage cmid t1 t2 t3 t4 mid ts now form) s =
     refusal_of (post_new_message n cmid t1 t2 t3 t4 mid ts now cid form u s)"
| "run_request n cid u (PinMessage now mid b) s = refusal_of (pin_channel_message n now cid mid b u s)"
| "run_request n cid u (EditMessage now mid form) s = refusal_of (update_message_by_id n now cid mid form u s)"
| "run_request n cid u (AddReaction rid now mid name) s = refusal_of (add_reaction_to_message n rid now cid mid name u s)"
| "run_request n cid u (RemoveReaction mid name) s =
     refusal_of (remove_reaction_by_id_and_user_id_and_name n cid mid name u s)"
| "run_request n cid u (DeleteMessage mid) s = refusal_of (delete_message_by_id n cid mid u s)"

lemma snd_refusal_of [simp]: "snd (refusal_of r) = snd r"
  by (cases r rule: refusal_of.cases) auto

definition elsewhere :: "id \<Rightarrow> channel_server \<Rightarrow> message list" where
  "elsewhere cid s = filter (\<lambda>m. msg_channel_id m \<noteq> Some cid) (messages (sv_messages s))"

definition keeps_elsewhere :: "id \<Rightarrow> channel_server \<Rightarrow> channel_server \<Rightarrow> bool" where
  "keeps_elsewhere cid s t \<longleftrightarrow> unique_key msg_id (messages (sv_messages s)) \<longrightarrow>
     elsewhere cid t = elsewhere cid s \<and> unique_key msg_id (messages (sv_messages t))"

lemma keeps_elsewhere_refl [simp]: "keeps_elsewhere cid s s"
  by (simp add: keeps_elsewhere_def)

lemma keeps_elsewhere_channels [simp]: "keeps_elsewhere cid s (t\<lparr>sv_channels := cdb\<rparr>) = keeps_elsewhere cid s t"
  by (simp add: keeps_elsewhere_def elsewhere_def)

lemma keeps_with_channel:
  "(\<And>c. Channels.get_channel_by_id cid (sv_channels s) = Some c \<Longrightarrow> keeps_elsewhere k s (snd (f c))) \<Longrightarrow>
     keeps_elsewhere k s (snd (with_channel cid s f))"
  by (simp add: with_channel_def split: option.split)

lemma keeps_guarded: "keeps_elsewhere k s (snd r) \<Longrightarrow> keeps_elsewhere k s (snd (guarded check h s r))"
  by (simp add: guarded_def split: sum.split bool.split)

lemma lookup_row:
  "get_message_by_id n mid udb db = Inr (Some m) \<Longrightarrow> row_get msg_id mid (messages db) = Some (mt_message m)"
  by (cases n) (auto simp: and_then_Inr_iff split: option.splits)

lemma keeps_with_message:
  "(\<And>m. row_get msg_id mid (messages (sv_messages s)) = Some (mt_message m) \<Longrightarrow> msg_channel_id (mt_message m) = Some cid \<Longrightarrow>
      keeps_elsewhere k s (snd (f m))) \<Longrightarrow>
     keeps_elsewhere k s (snd (with_message n cid mid s f))"
  by (auto simp: with_message_def dest: lookup_row split: sum.split option.split)

lemma keeps_upd_message:
  assumes "unique_key msg_id (messages (sv_messages s))" "row_get msg_id mid (messages (sv_messages s)) = Some m"
    and "msg_channel_id m = Some cid" "\<And>m. msg_channel_id (f m) = msg_channel_id m" "\<And>m. msg_id (f m) = msg_id m"
  shows "keeps_elsewhere cid s (s\<lparr>sv_messages := snd (update_message mid f (sv_messages s))\<rparr>)"
proof -
  have m: "m \<in> set (messages (sv_messages s))" "msg_id m = mid" using row_get_SomeD[OF assms(2)] by auto
  have "filter (\<lambda>m. msg_channel_id m \<noteq> Some cid) (upd_rows (\<lambda>m. msg_id m = mid) f ms) =
      filter (\<lambda>m. msg_channel_id m \<noteq> Some cid) ms"
    if "\<And>x. x \<in> set ms \<Longrightarrow> msg_id x = mid \<Longrightarrow> x = m" for ms
    using that
  proof (induction ms)
    case (Cons x ms)
    have "\<And>y. y \<in> set ms \<Longrightarrow> msg_id y = mid \<Longrightarrow> y = m" using Cons.prems by simp
    note IH = Cons.IH[OF this]
    show ?case
    proof (cases "msg_id x = mid")
      case True
      then have "x = m" using Cons.prems by simp
      then show ?thesis using IH True assms(3,4) by simp
    next
      case False
      then show ?thesis using IH by simp
    qed
  qed simp
  then show ?thesis
    using assms(1,2) unique_keyD[OF assms(1) _ m(1)] m(2)
    by (simp add: keeps_elsewhere_def elsewhere_def update_message_def unique_key_upd_rows[of msg_id f, OF assms(5)])
qed

lemma keeps_remove_message:
  assumes "unique_key msg_id (messages (sv_messages s))" "row_get msg_id mid (messages (sv_messages s)) = Some m"
    and "msg_channel_id m = Some cid"
  shows "keeps_elsewhere cid s (s\<lparr>sv_messages := snd (Messages.delete_message_by_id mid (sv_messages s))\<rparr>)"
proof -
  have m: "m \<in> set (messages (sv_messages s))" "msg_id m = mid" using row_get_SomeD[OF assms(2)] by auto
  show ?thesis
    using unique_keyD[OF assms(1) _ m(1)] m(2) assms(3)
    by (auto simp: keeps_elsewhere_def elsewhere_def Messages.delete_message_by_id_def unique_key_row_del row_del_def
        del_rows_def intro!: filter_cong) (simp add: unique_key_def distinct_map_filter)
qed

lemma lookup_stored_state [simp]: "snd (lookup_stored n mid s) = s"
  by (simp add: lookup_stored_def split: sum.split option.split)

lemma parent_event_state [simp]: "snd (parent_event n m r) = snd r"
  by (simp add: parent_event_def split: sum.split option.split)

lemma with_author_state [simp]: "snd (with_author h m s) = s"
  by (simp add: with_author_def)

lemma lookup_then_state [simp]:
  "snd (case lookup_stored n mid s of (Inl e, s2) \<Rightarrow> (Inl e, s2) | (Inr r, s2) \<Rightarrow> f r s2) =
     (case fst (lookup_stored n mid s) of Inl e \<Rightarrow> s | Inr r \<Rightarrow> snd (f r s))"
proof -
  obtain r where "lookup_stored n mid s = (r, s)" using lookup_stored_state by (metis surj_pair snd_conv)
  then show ?thesis by (simp split: sum.split)
qed

lemma keeps_post:
  "keeps_elsewhere cid s (snd (post_new_message n cmid t1 t2 t3 t4 mid ts now cid form u s))"
proof -
  have "keeps_elsewhere cid s (snd (new_message_handler n cmid t1 t2 t3 t4 mid ts now cid form u s))"
    unfolding new_message_handler_def
  proof (intro keeps_with_channel keeps_guarded)
    fix c assume c: "Channels.get_channel_by_id cid (sv_channels s) = Some c"
    then have "ch_id c = cid" by (auto simp: Channels.get_channel_by_id_def dest: row_get_SomeD)
    then show "keeps_elsewhere cid s (snd
       (case insert_new_message cmid t1 t2 t3 t4 mid ts form (ch_id c) (u_id u) (sv_channels s) (sv_messages s) of
            (Inl e, cdb, mdb) \<Rightarrow> (Inl BadRequest, s\<lparr>sv_channels := cdb, sv_messages := mdb\<rparr>)
          | (Inr m, cdb, mdb) \<Rightarrow>
              (let s1 = s\<lparr>sv_channels := (if member_type c then activate_members now (ch_id c) cdb else cdb),
                          sv_messages := mdb\<rparr>
               in case lookup_stored n (msg_id m) s1 of
                    (Inl e, s2) \<Rightarrow> (Inl e, s2)
                  | (Inr r, s2) \<Rightarrow> parent_event n r (Inr (r, c), s2))))"
      by (auto simp: insert_new_message_def Let_def keeps_elsewhere_def elsewhere_def new_message_def add_row_Some_iff unique_key_append
          split: sum.split option.split prod.split)
  qed
  then show ?thesis by (auto simp: post_new_message_def split: prod.split sum.split)
qed

lemma keeps_reaction:
  assumes "\<And>db. messages (snd (f db)) = messages db"
  shows "keeps_elsewhere k s (snd (reaction_handler n cid mid u s f))"
  unfolding reaction_handler_def
  by (intro keeps_with_channel keeps_guarded keeps_with_message)
     (auto simp: Let_def keeps_elsewhere_def elsewhere_def split: prod.split sum.split,
      (metis assms snd_conv)+)

lemma keeps_request:
  assumes "unique_key msg_id (messages (sv_messages s))"
  shows "keeps_elsewhere cid s (snd (run_request n cid u req s))"
proof (cases req)
  case (ReadMessages cmid t1 t2 t3 t4 skip cnt)
  then show ?thesis
    by (auto simp: get_channel_messages_def Let_def intro!: keeps_with_channel keeps_guarded split: prod.split sum.split)
next
  case (ReadThread mid skip cnt)
  then show ?thesis by (auto simp: get_channel_thread_messages_def intro!: keeps_with_channel keeps_guarded)
next
  case (PostMessage cmid t1 t2 t3 t4 mid ts now form)
  then show ?thesis by (simp add: keeps_post)
next
  case (PinMessage now mid b)
  then show ?thesis
    by (auto simp: pin_channel_message_def Let_def update_is_pinned_by_id_def split: sum.split
        intro!: keeps_with_channel keeps_guarded keeps_with_message keeps_upd_message[OF assms])
next
  case (EditMessage now mid form)
  then show ?thesis
    by (auto simp: update_message_by_id_def Let_def Messages.update_message_by_id_def split: sum.split
        intro!: keeps_with_channel keeps_guarded keeps_with_message keeps_upd_message[OF assms])
next
  case (AddReaction rid now mid name)
  then show ?thesis
    by (auto simp: add_reaction_to_message_def Messages.add_reaction_to_message_def Let_def intro!: keeps_reaction
        split: option.split sum.split prod.split)
next
  case (RemoveReaction mid name)
  then show ?thesis
    by (auto simp: remove_reaction_by_id_and_user_id_and_name_def intro!: keeps_reaction
        simp: Messages.remove_reaction_by_id_and_user_id_and_name_def)
next
  case (DeleteMessage mid)
  then show ?thesis
    by (auto simp: delete_message_by_id_def intro!: keeps_with_channel keeps_guarded keeps_with_message
        keeps_remove_message[OF assms])
qed

text \<open>
  C10: Whatever users ask of other channels, in whatever order, the messages of a channel stay as they
  are: no request to one channel adds, changes or removes a message of another.
\<close>

theorem requests_confined:
  assumes "unique_key msg_id (messages (sv_messages s))" "\<not> (\<exists>x \<in> set xs. fst (snd x) = k)"
  shows "filter (\<lambda>m. msg_channel_id m = Some k) (messages (sv_messages
      (foldl (\<lambda>s (n, cid, u, req). snd (run_request n cid u req s)) s xs))) =
    filter (\<lambda>m. msg_channel_id m = Some k) (messages (sv_messages s))"
  using assms
proof (induction xs arbitrary: s)
  case (Cons x xs)
  obtain n cid u req where x: "x = (n, cid, u, req)" by (cases x)
  let ?t = "snd (run_request n cid u req s)"
  have k: "unique_key msg_id (messages (sv_messages ?t))" "elsewhere cid ?t = elsewhere cid s"
    using keeps_request[OF Cons.prems(1), of cid n u req] Cons.prems(1) by (simp_all add: keeps_elsewhere_def)
  have f: "filter (\<lambda>m. msg_channel_id m = Some k) ms =
      filter (\<lambda>m. msg_channel_id m = Some k) (filter (\<lambda>m. msg_channel_id m \<noteq> Some cid) ms)" for ms
    using Cons.prems(2) x by (auto simp: conj_commute intro!: filter_cong)
  have "filter (\<lambda>m. msg_channel_id m = Some k) (messages (sv_messages ?t)) =
      filter (\<lambda>m. msg_channel_id m = Some k) (messages (sv_messages s))"
    using k(2) f by (metis elsewhere_def)
  then show ?case using Cons.IH[OF k(1)] Cons.prems(2) x by simp
qed simp

section \<open>Refusals\<close>




lemma refusal_Inl: "fst (fst r, snd r) = Inl e \<Longrightarrow> refusal_of r = (Some e, snd r)"
  by (cases r rule: refusal_of.cases) auto

lemma guarded_refused [simp]: "guarded (Inr False) h s r = (Inl h, s)"
  by (simp add: guarded_def)


text \<open>Whoever asks, the members of a standard channel are answered: no handler checks whether the channel may be read.\<close>

lemma members_answered_to_anyone:
  assumes "Channels.get_channel_by_id cid (sv_channels s) = Some c" "\<not> member_type c"
  shows "get_channel_members_by_id esc now cid q o1 d p u s = get_channel_members_by_id esc now cid q o1 d p v s"
  using assms by (simp add: get_channel_members_by_id_def with_channel_def)

section \<open>Listed and admitted\<close>

lemma access_listed:
  assumes "access_list kind gs us ac"
  shows "has_access v kind (Some ac) None strict gdb = Inr (v \<in> set us \<or> (\<exists>g \<in> set gs. has_group g gdb \<and> is_member gdb g v))"
  by (simp only: has_access_lookup[of v kind] has_access_list[OF assms]) (auto simp: get_groups_by_member_id_def has_group_def)

lemma some_membership: "m \<in> set (channel_members db) \<Longrightarrow> membership_of cid v m \<Longrightarrow> is_user_channel_member cid v db"
  by (auto simp: is_user_channel_member_def first_row_None_iff)

text \<open>
  C21: What the list of a user's channels has to do with the check that every request makes. Of an open channel and a
  user who is no administrator: a group or direct channel is listed exactly if the check admits the user and the user
  has an active membership in it; a standard channel that is public, or does not name the user in its access list, is
  listed exactly if the user owns it or the check admits the user; and a user named in the access list is always
  admitted but only sees the channel in the list as its owner or as a member of one of its groups. The
  database's test of the stored list of groups is list membership, as PostgreSQL's is.
\<close>

theorem listed_against_access:
  assumes "channel_inv (sv_channels s)" "c \<in> set (channels (sv_channels s))" "is_open c"
    and "u_role u \<noteq> ''admin''" "u_id u \<noteq> []"
    and "ch_access_control c = None \<or> (\<exists>ac. ch_access_control c = Some ac \<and> access_list ''read'' gs us ac)"
    and "\<And>g. contains (Some (JList (map JStr gs))) g \<longleftrightarrow> g \<in> set gs"
  defines "listed \<equiv> c \<in> set (get_channels_by_user_id contains (u_id u) (sv_groups s) (sv_channels s))"
    and "admitted \<equiv> channel_access ''read'' True c u s = Inr True"
  shows "(member_type c \<longrightarrow> (listed \<longleftrightarrow> admitted \<and>
      (\<exists>m \<in> set (channel_members (sv_channels s)). membership_of (ch_id c) (u_id u) m \<and> cm_is_active m))) \<and>
    (\<not> member_type c \<and> (ch_access_control c = None \<or> u_id u \<notin> set us) \<longrightarrow>
      (listed \<longleftrightarrow> ch_user_id c = u_id u \<or> admitted)) \<and>
    (\<not> member_type c \<and> ch_access_control c \<noteq> None \<and> u_id u \<in> set us \<longrightarrow> admitted \<and>
      (listed \<longleftrightarrow> ch_user_id c = u_id u \<or> (\<exists>g \<in> set gs. has_group g (sv_groups s) \<and> is_member (sv_groups s) g (u_id u))))"
proof -
  have l: "listed \<longleftrightarrow> (if member_type c
       then \<exists>m \<in> set (channel_members (sv_channels s)). membership_of (ch_id c) (u_id u) m \<and> cm_is_active m
       else ch_access_control c = None \<or> ch_user_id c = u_id u \<or>
            (\<exists>g \<in> set (get_groups_by_member_id (u_id u) (sv_groups s)). contains (permitted_group_ids ''read'' c) (grp_id g)))"
    using listed_channels_exact[OF assms(1,5), of contains "sv_groups s"] assms(2,3) by (simp add: listed_def)
  have groups: "(\<exists>g \<in> set (get_groups_by_member_id (u_id u) (sv_groups s)). grp_id g \<in> set gs) \<longleftrightarrow>
      (\<exists>g \<in> set gs. has_group g (sv_groups s) \<and> is_member (sv_groups s) g (u_id u))"
    by (auto simp: get_groups_by_member_id_def has_group_def)
  show ?thesis
  proof (cases "member_type c")
    case True
    then show ?thesis using l some_membership by (auto simp: admitted_def channel_access_def)
  next
    case False
    show ?thesis
    proof (cases "ch_access_control c")
      case None
      then show ?thesis using False l assms(4) by (simp add: admitted_def channel_access_def has_access_def raising_def)
    next
      case (Some ac)
      then have ac: "access_list ''read'' gs us ac" using assms(6) by simp
      have "permitted_group_ids ''read'' c = Some (JList (map JStr gs))"
        using ac Some by (simp add: permitted_group_ids_def access_list_def)
      then show ?thesis
        using False l assms(4,7) Some groups
        by (auto simp: admitted_def channel_access_def access_listed[OF ac] raising_def)
    qed
  qed
qed

text \<open>The owner of a standard channel whose access list admits nobody sees it listed and is refused.\<close>

lemma owner_refused:
  assumes "channel_inv (sv_channels s)" "c \<in> set (channels (sv_channels s))" "is_open c" "\<not> member_type c"
    and "u_role u \<noteq> ''admin''" "u_id u \<noteq> []" "ch_user_id c = u_id u"
    and "ch_access_control c = Some ac" "access_list ''read'' [] [] ac"
  shows "c \<in> set (get_channels_by_user_id contains (u_id u) (sv_groups s) (sv_channels s)) \<and>
    channel_access ''read'' True c u s = Inr False"
  using listed_channels_exact[OF assms(1,6), of contains "sv_groups s"] assms
  by (simp add: channel_access_def access_listed raising_def)

text \<open>
  Read access is enough to rewrite a message: for anyone who may read the channel and sees the
  message, whoever wrote it, an edit replaces its content.
\<close>

lemma readers_rewrite_messages:
  assumes "Channels.get_channel_by_id cid (sv_channels s) = Some c" "channel_access ''read'' True c u s = Inr True"
    and "get_message_by_id n mid (sv_users s) (sv_messages s) = Inr (Some m)" "msg_channel_id (mt_message m) = Some cid"
  shows "map_option msg_content (row_get msg_id mid (messages (sv_messages (snd (update_message_by_id n now cid mid form u s)))))
    = Some (mf_content form)"
proof -
  have r: "row_get msg_id mid (messages (sv_messages s)) = Some (mt_message m)" using lookup_row[OF assms(3)] .
  have "author_or_access ''read'' True c m u s = Inr True" using assms(2) by (simp add: author_or_access_def)
  then have "snd (update_message_by_id n now cid mid form u s) =
      s\<lparr>sv_messages := snd (Messages.update_message_by_id now mid form (sv_messages s))\<rparr>"
    using assms(1,3,4)
    by (simp add: update_message_by_id_def with_channel_def with_message_def guarded_def Let_def split: sum.split)
  moreover have "row_get msg_id mid (upd_rows (\<lambda>x. msg_id x = mid) f (messages (sv_messages s))) = Some (f (mt_message m))"
    if "\<And>x. msg_id (f x) = msg_id x" for f :: "message \<Rightarrow> message"
    using r row_get_SomeD[OF r] by (simp add: row_get_upd[of msg_id, OF that])
  ultimately show ?thesis
    by (simp add: Messages.update_message_by_id_def update_message_def r)
qed

section \<open>Channels that cannot be read\<close>

lemma channels_activate [simp]: "channels (activate_members now cid db) = channels db"
proof -
  have "channels (foldl (\<lambda>d m. if cm_is_active m then d else snd (update_member_active_status now True cid (cm_user_id m) d)) d ms)
      = channels d" for d ms
    by (induction ms arbitrary: d) (auto simp: update_member_active_status_def)
  then show ?thesis by (simp add: activate_members_def)
qed

lemma each_blocked: "x \<in> set xs \<Longrightarrow> f x = Inl e \<Longrightarrow> \<exists>e'. each f xs = Inl e'"
  using each_returns_iff[of f xs] by (cases "each f xs") force+

lemma each_result: "each f xs = Inr ys \<Longrightarrow> x \<in> set xs \<Longrightarrow> \<exists>y \<in> set ys. f x = Inr y"
  by (induction xs arbitrary: ys) (auto simp: and_then_Inr_iff)

lemma listed_on_page:
  "m \<in> set rs \<Longrightarrow> length rs \<le> cnt \<Longrightarrow> m \<in> set (page 0 cnt (order_desc msg_created_at rs))"
  by (simp add: page_def)

text \<open>One message of the page whose entry cannot be built fails the whole listing.\<close>

lemma listing_blocked:
  assumes "m \<in> set (messages (sv_messages s))" "msg_channel_id m = Some cid" "msg_parent_id m = None"
    and "length (messages (sv_messages s)) \<le> cnt"
    and "\<And>r :: message_reply_to_response. mt_message r = m \<Longrightarrow> \<exists>e. channel_message_item n (sv_users s) (sv_messages s) r = Inl e"
    and "Channels.get_channel_by_id cid (sv_channels s) = Some c" "channel_access ''read'' True c u s = Inr True"
  shows "fst (get_channel_messages n cmid t1 t2 t3 t4 cid 0 cnt u s) = Inl ServerError"
proof -
  let ?tops = "all_rows (\<lambda>m. msg_channel_id m = Some cid \<and> msg_parent_id m = None) (messages (sv_messages s))"
  have "length ?tops \<le> cnt" using assms(4) le_trans[OF length_filter_le] by (auto simp: all_rows_def)
  then have p: "m \<in> set (page 0 cnt (order_desc msg_created_at ?tops))"
    using assms(1,2,3) by (intro listed_on_page) auto
  have "\<exists>e. and_then (get_messages_by_channel_id n cid 0 cnt (sv_users s) (sv_messages s))
      (each (channel_message_item n (sv_users s) (sv_messages s))) = Inl e"
  proof (cases "get_messages_by_channel_id n cid 0 cnt (sv_users s) (sv_messages s)")
    case (Inr rs)
    then have "each (with_reply n (sv_users s) (sv_messages s)) (page 0 cnt (order_desc msg_created_at ?tops)) = Inr rs"
      by (simp add: get_messages_by_channel_id_def)
    from each_result[OF this p] obtain r where "r \<in> set rs" "with_reply n (sv_users s) (sv_messages s) m = Inr r" by blast
    then have "r \<in> set rs" "mt_message r = m" by (auto simp: with_reply_def and_then_Inr_iff)
    then show ?thesis using Inr assms(5) each_blocked[of r rs] by fastforce
  qed auto
  then show ?thesis
    using assms(6,7)
    by (auto simp: get_channel_messages_def with_channel_def guarded_def Let_def raising_def split: prod.split sum.split)
qed

text \<open>
  A message of a channel whose author has no account any more makes the listing of the channel's
  messages fail for everyone who may read it.
\<close>

lemma deleted_author_blocks_listing:
  assumes "m \<in> set (messages (sv_messages s))" "msg_channel_id m = Some cid" "msg_parent_id m = None"
    and "length (messages (sv_messages s)) \<le> cnt"
    and "delete_auth_by_id fk clock (msg_user_id m) server = (r, server')" "sv_users s = s_users server'"
    and "Channels.get_channel_by_id cid (sv_channels s) = Some c" "channel_access ''read'' True c u s = Inr True"
  shows "fst (get_channel_messages n cmid t1 t2 t3 t4 cid 0 cnt u s) = Inl ServerError"
proof (rule listing_blocked[OF assms(1,2,3,4) _ assms(7,8)])
  fix x :: message_reply_to_response assume x: "mt_message x = m"
  have "get_user_by_id (msg_user_id m) (sv_users s) = None"
    using deleted_user_gone[OF assms(5)] assms(6) by simp
  then have "author_of m (sv_users s) = Inl AttributeError" by (simp add: author_of_def)
  then show "\<exists>e. channel_message_item n (sv_users s) (sv_messages s) x = Inl e"
    by (cases "get_thread_replies_by_message_id n (msg_id m) (sv_users s) (sv_messages s)")
       (auto simp: channel_message_item_def x)
qed

lemma self_quoting_post:
  assumes "Channels.get_channel_by_id cid (sv_channels s) = Some c" "channel_access ''write'' False c u s = Inr True"
    and "row_get msg_id p (messages (sv_messages s)) = Some m"
    and "p \<noteq> []" "mf_parent_id form = Some p" "mf_reply_to_id form = Some p"
    and "get_member_by_channel_and_user_id cid (u_id u) (sv_channels s) = Some member"
    and "mid \<notin> msg_id ` set (messages (sv_messages s))"
    and "post_new_message n cmid t1 t2 t3 t4 mid ts now cid form u s = (r, s')"
  shows "r = Inl BadRequest \<and>
    s' = s\<lparr>sv_channels := (if member_type c then activate_members now cid (sv_channels s) else sv_channels s),
      sv_messages := (sv_messages s)\<lparr>messages := messages (sv_messages s) @ [new_message mid ts form cid (u_id u)]\<rparr>\<rparr> \<and>
    quotes (sv_messages s') p p"
proof -
  let ?new = "new_message mid ts form cid (u_id u)"
  let ?mdb = "(sv_messages s)\<lparr>messages := messages (sv_messages s) @ [?new]\<rparr>"
  have c: "ch_id c = cid" using assms(1) by (auto simp: Channels.get_channel_by_id_def dest: row_get_SomeD)
  have new: "msg_id ?new = mid" "msg_reply_to_id ?new = Some p" "msg_parent_id ?new = Some p"
    by (simp_all add: new_message_def assms(5,6))
  have m: "m \<in> set (messages (sv_messages s))" "msg_id m = p" using row_get_SomeD[OF assms(3)] by auto
  have ne: "mid \<noteq> p" using assms(8) m by blast
  have fresh: "row_get msg_id mid (messages (sv_messages s)) = None" using assms(8) by (simp add: row_get_None_iff)
  have row: "row_get msg_id p (messages ?mdb) = Some m" "row_get msg_id mid (messages ?mdb) = Some ?new"
    using assms(3) fresh new ne by (auto simp: row_get_def first_row_append)
  have t: "?new \<in> set (thread_of p ?mdb)" by (simp add: thread_of_def new)
  have q: "quotes ?mdb p p" using row(1) t new(2) assms(4) by (auto simp: quotes_def list_ex_iff)
  have "quotes ?mdb mid p" using row(2) new(2) assms(4) by (auto simp: quotes_def)
  then have "\<not> lookup_ends ?mdb mid" using self_quote_endless[OF q] by (auto elim: lookup_ends.cases)
  then have div: "get_message_by_id n mid udb ?mdb = Inl RecursionError" for n udb by (rule lookup_diverges)
  have ins: "insert_new_message cmid t1 t2 t3 t4 mid ts form cid (u_id u) (sv_channels s) (sv_messages s) =
      (Inr ?new, sv_channels s, ?mdb)"
    using assms(7,8) new(1)
    by (simp add: insert_new_message_def join_channel_def get_member_by_channel_and_user_id_def add_row_def Let_def)
  show ?thesis
    using assms(1,2,9) q
    by (auto simp: post_new_message_def new_message_handler_def with_channel_def guarded_def c ins Let_def
        lookup_stored_def new(1) div)
qed

text \<open>A message quoted in its own thread.\<close>

lemma self_quoted_item:
  assumes "quotes db p p" "mt_message x = m" "msg_id m = p" "row_get msg_id p (messages db) = Some m"
    and "t \<in> set (thread_of p db)" "msg_reply_to_id t = Some p" "p \<noteq> []"
  shows "\<exists>e. channel_message_item k udb db x = Inl e"
proof -
  have "get_message_by_id j p udb db = Inl RecursionError" for j
    using lookup_diverges self_quote_endless[OF assms(1)] by blast
  then have w: "with_reply j udb db t = Inl RecursionError" for j
    using assms(6,7) by (simp add: with_reply_def)
  have b: "\<exists>e. each (with_reply j udb db) (thread_of p db) = Inl e" for j
    using assms(5) by (rule each_blocked[where f = "with_reply j udb db"]) (rule w)
  have "\<exists>e. get_thread_replies_by_message_id k p udb db = Inl e"
  proof (cases k)
    case (Suc j)
    show ?thesis unfolding Suc thread_replies_step by (rule b)
  qed simp
  then show ?thesis by (auto simp: channel_message_item_def assms(2,3))
qed

text \<open>
  A reply in a thread that quotes the message the thread belongs to is answered with an error, but it
  is stored, and from then on the listing of the channel's messages fails for every reader, whatever the
  recursion limit.
\<close>

lemma thread_quote_blocks_channel:
  assumes "Channels.get_channel_by_id cid (sv_channels s) = Some c" "channel_access ''write'' False c u s = Inr True"
    and "row_get msg_id p (messages (sv_messages s)) = Some m" "msg_channel_id m = Some cid" "msg_parent_id m = None"
    and "p \<noteq> []" "mf_parent_id form = Some p" "mf_reply_to_id form = Some p"
    and "get_member_by_channel_and_user_id cid (u_id u) (sv_channels s) = Some member"
    and "mid \<notin> msg_id ` set (messages (sv_messages s))"
    and "post_new_message n cmid t1 t2 t3 t4 mid ts now cid form u s = (r, s')"
    and "channel_access ''read'' True c reader s' = Inr True" "length (messages (sv_messages s')) \<le> cnt"
  shows "r = Inl BadRequest \<and>
    messages (sv_messages s') = messages (sv_messages s) @ [new_message mid ts form cid (u_id u)] \<and>
    fst (get_channel_messages k cmid' t1' t2' t3' t4' cid 0 cnt reader s') = Inl ServerError"
proof -
  let ?new = "new_message mid ts form cid (u_id u)"
  note post = self_quoting_post[OF assms(1,2,3,6,7,8,9,10,11)]
  have m: "m \<in> set (messages (sv_messages s))" "msg_id m = p" using row_get_SomeD[OF assms(3)] by auto
  have ms: "messages (sv_messages s') = messages (sv_messages s) @ [?new]" using post by auto
  have row: "row_get msg_id p (messages (sv_messages s')) = Some m"
    using assms(3) by (simp add: ms row_get_def first_row_append)
  have t: "?new \<in> set (thread_of p (sv_messages s'))" "msg_reply_to_id ?new = Some p"
    using ms by (simp_all add: thread_of_def new_message_def assms(7,8))
  have c': "Channels.get_channel_by_id cid (sv_channels s') = Some c"
    using assms(1) post by (auto simp: Channels.get_channel_by_id_def)
  have "fst (get_channel_messages k cmid' t1' t2' t3' t4' cid 0 cnt reader s') = Inl ServerError"
  proof (rule listing_blocked[OF _ assms(4,5,13) _ c' assms(12)])
    show "m \<in> set (messages (sv_messages s'))" using m(1) ms by simp
    have q: "quotes (sv_messages s') p p" using post by blast
    fix x :: message_reply_to_response assume x: "mt_message x = m"
    show "\<exists>e. channel_message_item k (sv_users s') (sv_messages s') x = Inl e"
      by (rule self_quoted_item[OF q x m(2) row t assms(6)])
  qed
  then show ?thesis using post ms by simp
qed

section \<open>Who the members are\<close>

text \<open>
  For a standard channel with an access list naming both users and groups, the members listed are
  the users who are named and in one of the groups, where either would give access.
\<close>

lemma members_listed_by_both_lists:
  assumes "Channels.get_channel_by_id cid (sv_channels s) = Some c" "\<not> member_type c"
    and "ch_access_control c = Some ac" "access_list ''read'' gs us ac" "gs \<noteq> []" "us \<noteq> []"
    and "get_channel_members_by_id esc now cid None None None 1 u s = (Inr (xs, tot), s')"
  shows "tot = length (filter (\<lambda>v. u_role v \<noteq> ''pending'' \<and> u_id v \<in> set us \<and>
      list_ex (\<lambda>g. is_member (sv_groups s) g (u_id v)) gs) (users (sv_users s))) \<and>
    map fst xs = take 30 (filter (\<lambda>v. u_role v \<noteq> ''pending'' \<and> u_id v \<in> set us \<and>
      list_ex (\<lambda>g. is_member (sv_groups s) g (u_id v)) gs) (users (sv_users s)))"
proof -
  let ?f = "no_filter\<lparr>uf_roles := Some [''!pending''], uf_user_ids := Some us, uf_group_ids := Some gs\<rparr>"
  have t: "ch_type c \<noteq> Some ''group''" "ch_type c \<noteq> Some ''dm''" using assms(2) by (auto simp: member_type_def)
  have f: "member_filter c None None None = Inr ?f"
    using assms(3,4) t by (simp add: member_filter_def Let_def get_permitted_group_and_user_ids_def access_list_def
        json_get_def dget_or_def id_list_def nonempty_def no_filter_def)
  have sel: "selected_users esc ?f (sv_groups s) (sv_channels s) (sv_users s) =
      filter (\<lambda>v. u_role v \<noteq> ''pending'' \<and> u_id v \<in> set us \<and> list_ex (\<lambda>g. is_member (sv_groups s) g (u_id v)) gs)
        (users (sv_users s))"
    using assms(5,6)
    by (auto simp: selected_users_def all_rows_def no_filter_def matches_query_def in_channel_def given_def in_groups_def
        opt_list_def has_role_def startswith_def intro!: filter_cong)
  have g: "get_users esc (Some ?f) (Some 0) (Some 30) (sv_groups s) (sv_channels s) (sv_users s) =
      (take 30 (selected_users esc ?f (sv_groups s) (sv_channels s) (sv_users s)),
       length (selected_users esc ?f (sv_groups s) (sv_channels s) (sv_users s)))"
    using assms(6) by (simp add: get_users_def Let_def opt_page_def user_order_def no_filter_def)
  have "(Inr (xs, tot), s') = (Inr (map (\<lambda>v. (v, is_user_active now (u_id v) (sv_users s)))
        (take 30 (selected_users esc ?f (sv_groups s) (sv_channels s) (sv_users s))),
      length (selected_users esc ?f (sv_groups s) (sv_channels s) (sv_users s))), s)"
    using assms(1,2,7) t g by (auto simp: get_channel_members_by_id_def with_channel_def Let_def f)
  then show ?thesis by (simp add: sel comp_def)
qed

section \<open>Samples\<close>

definition open_channel :: channel where
  "open_channel = team\<lparr>ch_id := ''c9'', ch_type := None, ch_access_control :=
     Some [(''read'', JDict [(''group_ids'', JList (map JStr [''g1''])), (''user_ids'', JList (map JStr [''lee'']))])]\<rparr>"

definition plain_form :: "string \<Rightarrow> message_form" where
  "plain_form text = \<lparr>mf_temp_id = None, mf_content = text, mf_reply_to_id = None, mf_parent_id = None,
     mf_data = None, mf_meta = None\<rparr>"

definition sample_server :: channel_server where
  "sample_server = \<lparr>sv_channels = sample_channels\<lparr>channels := channels sample_channels @ [open_channel]\<rparr>,
     sv_messages = \<lparr>messages = [new_message ''m1'' 5 (plain_form ''hi'') ''c1'' ''kim''], message_reactions = []\<rparr>,
     sv_users = sample_users, sv_groups = sample_groups\<rparr>"

lemmas sample_server_defs = sample_server_def open_channel_def plain_form_def new_message_def sample_channel_defs

lemma sample_team: "Channels.get_channel_by_id ''c1'' (sv_channels sample_server) = Some team"
  by (simp add: Channels.get_channel_by_id_def row_get_def sample_server_defs)

lemma sample_hi: "row_get msg_id ''m1'' (messages (sv_messages sample_server)) =
    Some (new_message ''m1'' 5 (plain_form ''hi'') ''c1'' ''kim'')"
  by (simp add: sample_server_defs row_get_def)

lemma team_access: "channel_access kind strict team u s = Inr (is_user_channel_member ''c1'' (u_id u) (sv_channels s))"
  by (simp add: channel_access_def member_type_def team_def)

lemma sample_access: "channel_access kind strict team lee sample_server = Inr True"
    "channel_access kind strict team (lee\<lparr>u_id := ''pak''\<rparr>) sample_server = Inr False"
  unfolding team_access
  by (simp_all add: is_user_channel_member_def sample_server_defs membership_of_def sample_user_defs)

lemma requests_confined_witness:
  "filter (\<lambda>m. msg_channel_id m = Some ''c1'') (messages (sv_messages (foldl (\<lambda>s (n, cid, u, req). snd (run_request n cid u req s))
     sample_server [(9, ''c2'', lee, DeleteMessage ''m1''), (9, ''c2'', lee, PinMessage 7 ''m1'' True)]))) =
   filter (\<lambda>m. msg_channel_id m = Some ''c1'') (messages (sv_messages sample_server))"
  by (rule requests_confined) (simp_all add: sample_server_defs)


lemma sample_server_inv: "channel_inv (sv_channels sample_server)"
  using sample_channels_inv
  by (auto simp: sample_server_def channel_inv_def channels_ok_def unique_key_append sample_channel_defs open_channel_def)

lemma listed_against_access_witness:
  "let contains = (\<lambda>v g. v = Some (JList [JStr g])); s = sample_server
   in channel_access ''read'' True open_channel lee s = Inr True \<and>
      (open_channel \<in> set (get_channels_by_user_id contains (u_id lee) (sv_groups s) (sv_channels s)) \<longleftrightarrow>
        ch_user_id open_channel = u_id lee \<or> (\<exists>g \<in> set [''g1'']. has_group g (sv_groups s) \<and> is_member (sv_groups s) g (u_id lee)))"
proof -
  have "open_channel \<in> set (channels (sv_channels sample_server))" by (simp add: sample_server_def)
  moreover have "is_open open_channel" "\<not> member_type open_channel" "u_role lee \<noteq> ''admin''" "u_id lee = ''lee''"
    by (simp_all add: open_channel_def team_def is_open_def member_type_def sample_user_defs)
  moreover have "\<exists>ac. ch_access_control open_channel = Some ac \<and> access_list ''read'' [''g1''] [''lee''] ac"
    by (simp add: open_channel_def access_list_def)
  ultimately show ?thesis
    using listed_against_access[OF sample_server_inv, of open_channel lee "[''g1'']" "[''lee'']" "\<lambda>v g. v = Some (JList [JStr g])"]
    by auto
qed

lemma readers_rewrite_messages_witness:
  "map_option msg_content (row_get msg_id ''m1'' (messages (sv_messages (snd
     (update_message_by_id 9 7 ''c1'' ''m1'' (plain_form ''bye'') lee sample_server))))) = Some ''bye''"
proof -
  have "\<exists>m. get_message_by_id 9 ''m1'' (sv_users sample_server) (sv_messages sample_server) = Inr (Some m) \<and>
      msg_channel_id (mt_message m) = Some ''c1''"
    by (simp add: eval_nat_numeral thread_of_def sample_server_defs row_get_def order_desc_def)
  then show ?thesis
    using readers_rewrite_messages[OF sample_team sample_access(1), of 9 "''m1''" _ 7 "plain_form ''bye''"]
    by (auto simp: plain_form_def)
qed

lemma deleted_author_blocks_listing_witness:
  "fst (get_channel_messages 9 ''x'' 1 1 1 1 ''c1'' 0 50 lee (sample_server\<lparr>sv_users := s_users (snd (delete_auth_by_id None (\<lambda>_. 9) ''kim''
     \<lparr>s_users = sample_users, s_groups = sample_groups, s_chats = sample_chats\<rparr>))\<rparr>)) = Inl ServerError"
proof (rule deleted_author_blocks_listing[OF _ _ _ _ prod.collapse[symmetric]])
  show "new_message ''m1'' 5 (plain_form ''hi'') ''c1'' ''kim'' \<in> set (messages (sv_messages (sample_server\<lparr>sv_users := s_users (snd (delete_auth_by_id None (\<lambda>_. 9) ''kim''
     \<lparr>s_users = sample_users, s_groups = sample_groups, s_chats = sample_chats\<rparr>))\<rparr>)))"
    by (simp add: sample_server_defs)
  show "channel_access ''read'' True team lee (sample_server\<lparr>sv_users := s_users (snd (delete_auth_by_id None (\<lambda>_. 9) ''kim''
     \<lparr>s_users = sample_users, s_groups = sample_groups, s_chats = sample_chats\<rparr>))\<rparr>) = Inr True"
    using sample_access(1) by (simp add: team_access)
  show "Channels.get_channel_by_id ''c1'' (sv_channels (sample_server\<lparr>sv_users := s_users (snd (delete_auth_by_id None (\<lambda>_. 9) ''kim''
     \<lparr>s_users = sample_users, s_groups = sample_groups, s_chats = sample_chats\<rparr>))\<rparr>)) = Some team"
    using sample_team by simp
qed (simp_all add: sample_server_defs)

lemma thread_quote_blocks_channel_witness:
  "fst (get_channel_messages 1000 ''x'' 1 1 1 1 ''c1'' 0 50 lee (snd (post_new_message 1000 ''y'' 2 2 2 2 ''m2'' 8 8 ''c1''
     ((plain_form ''so'')\<lparr>mf_reply_to_id := Some ''m1'', mf_parent_id := Some ''m1''\<rparr>) lee sample_server))) = Inl ServerError"
proof -
  let ?post = "post_new_message 1000 ''y'' 2 2 2 2 ''m2'' 8 8 ''c1''
     ((plain_form ''so'')\<lparr>mf_reply_to_id := Some ''m1'', mf_parent_id := Some ''m1''\<rparr>) lee sample_server"
  let ?form = "(plain_form ''so'')\<lparr>mf_reply_to_id := Some ''m1'', mf_parent_id := Some ''m1''\<rparr>"
  have member: "get_member_by_channel_and_user_id ''c1'' (u_id lee) (sv_channels sample_server) =
      Some (invited_member ''m2'' ''c1'' ''kim'' 1 ''lee'')"
    by (simp add: get_member_by_channel_and_user_id_def sample_server_defs membership_of_def sample_user_defs)
  have form: "mf_parent_id ?form = Some ''m1''" "mf_reply_to_id ?form = Some ''m1''" by simp_all
  have fresh: "''m2'' \<notin> msg_id ` set (messages (sv_messages sample_server))" by (simp add: sample_server_defs)
  have act: "activate_members 8 ''c1'' (sv_channels sample_server) = sv_channels sample_server"
    by (simp add: activate_members_def get_members_by_channel_id_def sample_server_defs)
  have post: "snd ?post = sample_server\<lparr>sv_messages := (sv_messages sample_server)\<lparr>messages :=
      messages (sv_messages sample_server) @ [new_message ''m2'' 8 ?form ''c1'' (u_id lee)]\<rparr>\<rparr>"
    using self_quoting_post[OF sample_team sample_access(1) sample_hi _ form member fresh prod.collapse[symmetric]]
    by (simp add: act)
  have read: "channel_access ''read'' True team lee (snd ?post) = Inr True"
    using sample_access(1) by (simp add: post team_access)
  have len: "length (messages (sv_messages (snd ?post))) \<le> 50" unfolding post by (simp add: sample_server_def)
  show ?thesis
    by (rule thread_quote_blocks_channel[OF sample_team sample_access(1) sample_hi _ _ _ form member fresh
          prod.collapse[symmetric] read len, THEN conjunct2, THEN conjunct2]) (simp_all add: new_message_def plain_form_def)
qed

lemma members_listed_by_both_lists_witness:
  "fst (get_channel_members_by_id None 9 ''c9'' None None None 1 lee sample_server) = Inr ([], 0)"
proof -
  have a: "access_list ''read'' [''g1''] [''lee''] (the (ch_access_control open_channel))"
    by (simp add: open_channel_def access_list_def)
  have c: "Channels.get_channel_by_id ''c9'' (sv_channels sample_server) = Some open_channel"
    by (simp add: Channels.get_channel_by_id_def row_get_def sample_server_defs)
  have r: "\<exists>xs tot. get_channel_members_by_id None 9 ''c9'' None None None 1 lee sample_server = (Inr (xs, tot), sample_server)"
    by (simp add: get_channel_members_by_id_def with_channel_def c Let_def member_filter_def open_channel_def team_def member_type_def
        get_permitted_group_and_user_ids_def json_get_def dget_or_def id_list_def split: prod.split)
  have m: "\<not> member_type open_channel" "ch_access_control open_channel = Some (the (ch_access_control open_channel))"
    by (simp_all add: open_channel_def member_type_def)
  from r obtain xs tot where x: "get_channel_members_by_id None 9 ''c9'' None None None 1 lee sample_server = (Inr (xs, tot), sample_server)"
    by blast
  have "filter (\<lambda>v. u_role v \<noteq> ''pending'' \<and> u_id v \<in> set [''lee''] \<and>
      list_ex (\<lambda>g. is_member (sv_groups sample_server) g (u_id v)) [''g1'']) (users (sv_users sample_server)) = []"
    by (simp add: sample_server_def sample_user_defs sample_group_defs is_member_def)
  then show ?thesis
    using members_listed_by_both_lists[OF c m a _ _ x] x by simp
qed

end
