(* ===== verification/Resources.thy ===== *)
theory Resources
  imports Users
begin

text \<open>
  What the tables with access lists share (notes, prompts, knowledge bases, tools): the listing of the
  rows a user may see, the check of a handler, and the interface \<open>guarded_resource\<close> of a table that
  users change through handlers only. Its lemma \<open>run_preserves\<close> says that a row stays as it is
  under every sequence of requests of users who may not write it.
\<close>

record user_response =
  ue_id :: id
  ue_name :: string
  ue_role :: string
  ue_email :: string

definition user_response_of :: "user \<Rightarrow> user_response" where
  "user_response_of u = \<lparr>ue_id = u_id u, ue_name = u_name u, ue_role = u_role u, ue_email = u_email u\<rparr>"

section \<open>Listing\<close>

text \<open>A list comprehension whose condition may raise.\<close>

fun filter_raising :: "('r \<Rightarrow> py_error + bool) \<Rightarrow> 'r list \<Rightarrow> py_error + 'r list" where
  "filter_raising p [] = Inr []"
| "filter_raising p (r # rs) =
     and_then (p r) (\<lambda>b. and_then (filter_raising p rs) (\<lambda>xs. Inr (if b then r # xs else xs)))"

lemma filter_raising_Inr:
  "(\<And>r. r \<in> set rs \<Longrightarrow> p r = Inr (q r)) \<Longrightarrow> filter_raising p rs = Inr (filter q rs)"
  by (induction rs) auto

lemma filter_raising_InrD: "filter_raising p rs = Inr xs \<Longrightarrow> xs = filter (\<lambda>r. p r = Inr True) rs"
  by (induction rs arbitrary: xs) (auto simp: and_then_Inr_iff split: if_splits)

definition owner_or_access ::
  "id \<Rightarrow> string \<Rightarrow> id list \<Rightarrow> group_db \<Rightarrow> id \<Rightarrow> dict option \<Rightarrow> py_error + bool" where
  "owner_or_access user_id permission group_ids gdb owner ac =
     (if owner = user_id then Inr True else has_access user_id permission ac (Some group_ids) True gdb)"

text \<open>The rows with their owners: a dictionary of the accounts by id; an owner without an account is none.\<close>

definition users_by_id :: "user list \<Rightarrow> (id \<rightharpoonup> user)" where
  "users_by_id us = foldl (\<lambda>m u. m(u_id u \<mapsto> u)) Map.empty us"

definition with_owners :: "('r \<Rightarrow> id) \<Rightarrow> user_db \<Rightarrow> 'r list \<Rightarrow> ('r \<times> user_response option) list" where
  "with_owners owner udb rows =
     (let owners = users_by_id (get_users_by_user_ids (map owner rows) udb)
      in map (\<lambda>r. (r, map_option user_response_of (owners (owner r)))) rows)"

lemma map_fst_with_owners [simp]: "map fst (with_owners owner udb rows) = rows"
  by (simp add: with_owners_def Let_def comp_def)

definition rows_of_user ::
  "('r \<Rightarrow> id) \<Rightarrow> ('r \<Rightarrow> dict option) \<Rightarrow> id \<Rightarrow> string \<Rightarrow> group_db \<Rightarrow> ('r \<times> 'u) list \<Rightarrow> py_error + ('r \<times> 'u) list" where
  "rows_of_user owner ac user_id permission gdb rows =
     filter_raising (\<lambda>(r, u). owner_or_access user_id permission
       (map grp_id (get_groups_by_member_id user_id gdb)) gdb (owner r) (ac r)) rows"

text \<open>What a user may see: the rows the user owns or has access to through the groups the user is in.\<close>

definition reaches :: "id \<Rightarrow> string \<Rightarrow> group_db \<Rightarrow> id \<Rightarrow> dict option \<Rightarrow> bool" where
  "reaches user_id kind gdb owner ac \<longleftrightarrow> owner = user_id \<or> has_access user_id kind ac None True gdb = Inr True"

lemma owner_or_access_reaches:
  "owner_or_access user_id kind (map grp_id (get_groups_by_member_id user_id gdb)) gdb owner ac = Inr True \<longleftrightarrow>
     reaches user_id kind gdb owner ac"
  by (simp add: owner_or_access_def reaches_def has_access_lookup[of user_id])

lemma rows_of_user_reached:
  "rows_of_user owner ac user_id kind gdb rows = Inr xs \<Longrightarrow>
     xs = filter (\<lambda>(r, u). reaches user_id kind gdb (owner r) (ac r)) rows"
  by (auto simp: rows_of_user_def case_prod_beta owner_or_access_reaches dest!: filter_raising_InrD intro!: filter_cong)

lemma has_access_empty:
  "dget d kind = None \<Longrightarrow> has_access u kind (Some d) (Some gs) strict db = Inr False"
  using any_in_list[of gs "[]"]
  by (simp add: has_access_def get_permitted_group_and_user_ids_def json_get_def dget_or_def py_in_def)

lemma lee_denied: "has_access ''lee'' kind (Some []) None True sample_groups = Inr False"
  unfolding has_access_lookup[of "''lee''"]
  by (rule has_access_empty) simp

section \<open>Handlers\<close>

text \<open>Whether the caller owns the row, is an administrator or has access to it.\<close>

definition may_access :: "string \<Rightarrow> user \<Rightarrow> group_db \<Rightarrow> id \<Rightarrow> dict option \<Rightarrow> http_error + bool" where
  "may_access kind caller gdb owner ac =
     (if u_role caller = ''admin'' \<or> owner = u_id caller then Inr True
      else (case has_access (u_id caller) kind ac None True gdb of Inl e \<Rightarrow> Inl ServerError | Inr b \<Rightarrow> Inr b))"

text \<open>The same with the access list looked at before the role.\<close>

definition may_change :: "user \<Rightarrow> group_db \<Rightarrow> id \<Rightarrow> dict option \<Rightarrow> http_error + bool" where
  "may_change caller gdb owner ac =
     (if owner = u_id caller then Inr True
      else (case has_access (u_id caller) ''write'' ac None True gdb of
              Inl e \<Rightarrow> Inl ServerError
            | Inr b \<Rightarrow> Inr (b \<or> u_role caller = ''admin'')))"

definition feature_allowed :: "string \<Rightarrow> dict \<Rightarrow> dict \<Rightarrow> user \<Rightarrow> group_db \<Rightarrow> http_error + bool" where
  "feature_allowed key builtin config caller gdb =
     (if u_role caller = ''admin'' then Inr True
      else (case fst (has_permission builtin (u_id caller) key config gdb) of Inl e \<Rightarrow> Inl ServerError | Inr b \<Rightarrow> Inr b))"

definition when_allowed :: "http_error + bool \<Rightarrow> http_error \<Rightarrow> 's \<Rightarrow> (http_error + 'a) \<times> 's \<Rightarrow> (http_error + 'a) \<times> 's" where
  "when_allowed check refusal s r = (case check of Inl e \<Rightarrow> (Inl e, s) | Inr False \<Rightarrow> (Inl refusal, s) | Inr True \<Rightarrow> r)"

lemma when_allowed_state: "snd (when_allowed check h s r) = (if check = Inr True then snd r else s)"
  by (auto simp: when_allowed_def split: sum.split bool.split)

text \<open>
  A table that users change through requests: a request that does not target a row leaves it as it is, and so
  does a request of a user who may not write the row.
\<close>

fun run_requests :: "('u \<Rightarrow> 'q \<Rightarrow> 's \<Rightarrow> 's) \<Rightarrow> ('u \<times> 'q) list \<Rightarrow> 's \<Rightarrow> 's" where
  "run_requests request [] s = s"
| "run_requests request ((u, q) # xs) s = run_requests request xs (request u q s)"

locale guarded_resource =
  fixes row_at :: "'k \<Rightarrow> 's \<Rightarrow> 'r option"
    and target :: "'q \<Rightarrow> 'k option"
    and request :: "'u \<Rightarrow> 'q \<Rightarrow> 's \<Rightarrow> 's"
    and may_write :: "'u \<Rightarrow> 'r \<Rightarrow> bool"
  assumes untargeted: "row_at k s = Some r \<Longrightarrow> target q \<noteq> Some k \<Longrightarrow> row_at k (request u q s) = Some r"
    and refused: "row_at k s = Some r \<Longrightarrow> \<not> may_write u r \<Longrightarrow> row_at k (request u q s) = Some r"
begin

lemma run_preserves:
  "row_at k s = Some r \<Longrightarrow> \<not> (\<exists>(u, q) \<in> set xs. target q = Some k \<and> may_write u r) \<Longrightarrow>
     row_at k (run_requests request xs s) = Some r"
proof (induction xs arbitrary: s)
  case (Cons x xs)
  obtain u q where x: "x = (u, q)" by (cases x)
  have "row_at k (request u q s) = Some r"
    using Cons.prems untargeted refused x by (cases "target q = Some k") auto
  then show ?case using Cons x by simp
qed simp

lemma untargeted_stays:
  "row_at k s = Some r \<Longrightarrow> (\<And>u q. (u, q) \<in> set xs \<Longrightarrow> target q \<noteq> Some k) \<Longrightarrow> row_at k (run_requests request xs s) = Some r"
  by (rule run_preserves) auto

end

end
