(* ===== verification/Prompts.thy ===== *)
theory Prompts
  imports Resources
begin

text \<open>
  \<^verbatim>\<open>models/prompts.py\<close> and \<^verbatim>\<open>routers/prompts.py\<close>: prompts under their commands. A handler that names a
  prompt by its path puts a slash in front of it; the create handler takes the command of its form as it is.
  \<open>bypass\<close> is the setting \<open>BYPASS_ADMIN_ACCESS_CONTROL\<close>.
\<close>

record prompt =
  pr_command :: string
  pr_user_id :: id
  pr_title :: string
  pr_content :: string
  pr_timestamp :: time
  pr_access_control :: "dict option"

record prompt_form =
  pf_command :: string
  pf_title :: string
  pf_content :: string
  pf_access_control :: "dict option"

section \<open>The table\<close>

definition new_prompt :: "time \<Rightarrow> id \<Rightarrow> prompt_form \<Rightarrow> prompt" where
  "new_prompt now user_id form =
     \<lparr>pr_command = pf_command form, pr_user_id = user_id, pr_title = pf_title form, pr_content = pf_content form,
      pr_timestamp = now, pr_access_control = pf_access_control form\<rparr>"

definition insert_new_prompt :: "time \<Rightarrow> id \<Rightarrow> prompt_form \<Rightarrow> prompt list \<Rightarrow> prompt option \<times> prompt list" where
  "insert_new_prompt now user_id form db =
     (let p = new_prompt now user_id form
      in case add_row pr_command p db of None \<Rightarrow> (None, db) | Some db' \<Rightarrow> (Some p, db'))"

definition get_prompt_by_command :: "string \<Rightarrow> prompt list \<Rightarrow> prompt option" where
  "get_prompt_by_command command db = row_get pr_command command db"

definition get_prompts :: "user_db \<Rightarrow> prompt list \<Rightarrow> (prompt \<times> user_response option) list" where
  "get_prompts udb db = with_owners pr_user_id udb (order_desc pr_timestamp db)"

definition get_prompts_by_user_id ::
  "id \<Rightarrow> string \<Rightarrow> group_db \<Rightarrow> user_db \<Rightarrow> prompt list \<Rightarrow> py_error + (prompt \<times> user_response option) list" where
  "get_prompts_by_user_id user_id permission gdb udb db =
     rows_of_user pr_user_id pr_access_control user_id permission gdb (get_prompts udb db)"

definition apply_prompt_form :: "time \<Rightarrow> prompt_form \<Rightarrow> prompt \<Rightarrow> prompt" where
  "apply_prompt_form now form p = p\<lparr>pr_title := pf_title form, pr_content := pf_content form,
     pr_access_control := pf_access_control form, pr_timestamp := now\<rparr>"

definition update_prompt_by_command :: "time \<Rightarrow> string \<Rightarrow> prompt_form \<Rightarrow> prompt list \<Rightarrow> prompt option \<times> prompt list" where
  "update_prompt_by_command now command form db =
     (case get_prompt_by_command command db of
        None \<Rightarrow> (None, db)
      | Some p \<Rightarrow>
          (Some (apply_prompt_form now form p), upd_rows (\<lambda>p. pr_command p = command) (apply_prompt_form now form) db))"

definition delete_prompt_by_command :: "string \<Rightarrow> prompt list \<Rightarrow> bool \<times> prompt list" where
  "delete_prompt_by_command command db = (True, row_del pr_command command db)"

section \<open>The handlers\<close>

definition list_prompts ::
  "string \<Rightarrow> bool \<Rightarrow> user \<Rightarrow> group_db \<Rightarrow> user_db \<Rightarrow> prompt list \<Rightarrow> http_error + (prompt \<times> user_response option) list" where
  "list_prompts permission bypass caller gdb udb db =
     (if u_role caller = ''admin'' \<and> bypass then Inr (get_prompts udb db)
      else raising ServerError (get_prompts_by_user_id (u_id caller) permission gdb udb db))"

definition get_prompts_handler :: "bool \<Rightarrow> user \<Rightarrow> group_db \<Rightarrow> user_db \<Rightarrow> prompt list \<Rightarrow> http_error + prompt list" where
  "get_prompts_handler bypass caller gdb udb db =
     and_then (list_prompts ''read'' bypass caller gdb udb db) (\<lambda>ps. Inr (map fst ps))"

definition get_prompt_list_handler ::
  "bool \<Rightarrow> user \<Rightarrow> group_db \<Rightarrow> user_db \<Rightarrow> prompt list \<Rightarrow> http_error + (prompt \<times> user_response option) list" where
  "get_prompt_list_handler bypass caller gdb udb db = list_prompts ''write'' bypass caller gdb udb db"

definition may_create_prompt :: "dict \<Rightarrow> dict \<Rightarrow> user \<Rightarrow> group_db \<Rightarrow> http_error + bool" where
  "may_create_prompt builtin config caller gdb =
     and_then (feature_allowed ''workspace.prompts'' builtin config caller gdb) (\<lambda>b.
       if b then Inr True else feature_allowed ''workspace.prompts_import'' builtin config caller gdb)"

definition create_new_prompt_handler ::
  "dict \<Rightarrow> dict \<Rightarrow> time \<Rightarrow> prompt_form \<Rightarrow> user \<Rightarrow> group_db \<Rightarrow> prompt list \<Rightarrow> (http_error + prompt) \<times> prompt list" where
  "create_new_prompt_handler builtin config now form caller gdb db =
     when_allowed (may_create_prompt builtin config caller gdb) Unauthorized db
       (case get_prompt_by_command (pf_command form) db of
          Some p \<Rightarrow> (Inl BadRequest, db)
        | None \<Rightarrow>
            (case insert_new_prompt now (u_id caller) form db of
               (Some p, db') \<Rightarrow> (Inr p, db') | (None, db') \<Rightarrow> (Inl BadRequest, db')))"

text \<open>A refused reader gets an empty answer.\<close>

definition get_prompt_by_command_handler :: "string \<Rightarrow> user \<Rightarrow> group_db \<Rightarrow> prompt list \<Rightarrow> http_error + prompt option" where
  "get_prompt_by_command_handler command caller gdb db =
     (case get_prompt_by_command (CHR ''/'' # command) db of
        None \<Rightarrow> Inl Unauthorized
      | Some p \<Rightarrow>
          and_then (may_access ''read'' caller gdb (pr_user_id p) (pr_access_control p)) (\<lambda>b.
            Inr (if b then Some p else None)))"

definition may_write_prompt :: "user \<Rightarrow> group_db \<Rightarrow> prompt \<Rightarrow> http_error + bool" where
  "may_write_prompt caller gdb p = may_change caller gdb (pr_user_id p) (pr_access_control p)"

definition update_prompt_by_command_handler ::
  "time \<Rightarrow> string \<Rightarrow> prompt_form \<Rightarrow> user \<Rightarrow> group_db \<Rightarrow> prompt list \<Rightarrow> (http_error + prompt) \<times> prompt list" where
  "update_prompt_by_command_handler now command form caller gdb db =
     (case get_prompt_by_command (CHR ''/'' # command) db of
        None \<Rightarrow> (Inl Unauthorized, db)
      | Some p \<Rightarrow>
          when_allowed (may_write_prompt caller gdb p) Unauthorized db
            (case update_prompt_by_command now (CHR ''/'' # command) form db of
               (Some p', db') \<Rightarrow> (Inr p', db') | (None, db') \<Rightarrow> (Inl Unauthorized, db')))"

definition delete_prompt_by_command_handler ::
  "string \<Rightarrow> user \<Rightarrow> group_db \<Rightarrow> prompt list \<Rightarrow> (http_error + bool) \<times> prompt list" where
  "delete_prompt_by_command_handler command caller gdb db =
     (case get_prompt_by_command (CHR ''/'' # command) db of
        None \<Rightarrow> (Inl Unauthorized, db)
      | Some p \<Rightarrow>
          when_allowed (may_write_prompt caller gdb p) Unauthorized db
            (let (r, db') = delete_prompt_by_command (CHR ''/'' # command) db in (Inr r, db')))"

section \<open>Requests\<close>

datatype prompt_request =
    Create_Prompt time prompt_form
  | Update_Prompt time string prompt_form
  | Delete_Prompt string

fun prompt_target :: "prompt_request \<Rightarrow> string option" where
  "prompt_target (Create_Prompt now form) = None"
| "prompt_target (Update_Prompt now command form) = Some (CHR ''/'' # command)"
| "prompt_target (Delete_Prompt command) = Some (CHR ''/'' # command)"

fun prompt_request_run :: "dict \<Rightarrow> dict \<Rightarrow> group_db \<Rightarrow> user \<Rightarrow> prompt_request \<Rightarrow> prompt list \<Rightarrow> prompt list" where
  "prompt_request_run builtin config gdb u (Create_Prompt now form) db =
     snd (create_new_prompt_handler builtin config now form u gdb db)"
| "prompt_request_run builtin config gdb u (Update_Prompt now command form) db =
     snd (update_prompt_by_command_handler now command form u gdb db)"
| "prompt_request_run builtin config gdb u (Delete_Prompt command) db =
     snd (delete_prompt_by_command_handler command u gdb db)"

lemma create_rows:
  "snd (create_new_prompt_handler builtin config now form u gdb db) \<in>
     {db, db @ [new_prompt now (u_id u) form]}"
  by (auto simp: create_new_prompt_handler_def when_allowed_state insert_new_prompt_def Let_def add_row_def
      split: option.splits)

lemma update_rows:
  "snd (update_prompt_by_command_handler now command form u gdb db) =
     (case get_prompt_by_command (CHR ''/'' # command) db of
        None \<Rightarrow> db
      | Some p \<Rightarrow> if may_write_prompt u gdb p = Inr True
          then snd (update_prompt_by_command now (CHR ''/'' # command) form db) else db)"
  by (auto simp: update_prompt_by_command_handler_def when_allowed_state split: option.splits prod.splits)

lemma delete_rows:
  "snd (delete_prompt_by_command_handler command u gdb db) =
     (case get_prompt_by_command (CHR ''/'' # command) db of
        None \<Rightarrow> db
      | Some p \<Rightarrow> if may_write_prompt u gdb p = Inr True then row_del pr_command (CHR ''/'' # command) db else db)"
  by (simp add: delete_prompt_by_command_handler_def when_allowed_state delete_prompt_by_command_def split: option.splits)

lemma get_updated:
  "get_prompt_by_command k (snd (update_prompt_by_command now command form db)) =
     (if k = command then map_option (apply_prompt_form now form) (get_prompt_by_command k db) else get_prompt_by_command k db)"
  by (auto simp: update_prompt_by_command_def get_prompt_by_command_def row_get_upd_key apply_prompt_form_def
      split: option.split)

lemma get_deleted: "get_prompt_by_command k (row_del pr_command command db) =
    (if k = command then None else get_prompt_by_command k db)"
  by (simp add: get_prompt_by_command_def row_get_del)

interpretation pg: guarded_resource get_prompt_by_command prompt_target "prompt_request_run builtin config gdb"
  "\<lambda>u p. may_write_prompt u gdb p = Inr True" for builtin config gdb
proof unfold_locales
  fix k db p q and u :: user
  assume p: "get_prompt_by_command k db = Some p"
  have c: "get_prompt_by_command k (snd (create_new_prompt_handler builtin config now form u gdb db)) = Some p" for now form
    using create_rows[of builtin config now form u gdb db] p
    by (auto simp: get_prompt_by_command_def row_get_def first_row_append)
  show "prompt_target q \<noteq> Some k \<Longrightarrow> get_prompt_by_command k (prompt_request_run builtin config gdb u q db) = Some p"
    using p c by (cases q) (auto simp: update_rows delete_rows get_updated get_deleted split: option.split)
  show "may_write_prompt u gdb p \<noteq> Inr True \<Longrightarrow>
      get_prompt_by_command k (prompt_request_run builtin config gdb u q db) = Some p"
    using p c by (cases q) (auto simp: update_rows delete_rows get_updated get_deleted split: option.split)
qed

section \<open>Properties\<close>

text \<open>
  A prompt stays as it is under every sequence of creations, updates and deletions, by any users, in which
  nobody who may write it names it.
\<close>

lemma prompt_writes_guarded:
  assumes "get_prompt_by_command k db = Some p"
    and "\<not> (\<exists>(u, q) \<in> set xs. prompt_target q = Some k \<and> may_write_prompt u gdb p = Inr True)"
  shows "get_prompt_by_command k (run_requests (prompt_request_run builtin config gdb) xs db) = Some p"
  by (rule pg.run_preserves[OF assms])

definition greet :: prompt where
  "greet = \<lparr>pr_command = ''/hi'', pr_user_id = ''kim'', pr_title = ''Hi'', pr_content = ''Hello'', pr_timestamp = 3,
     pr_access_control = Some []\<rparr>"

definition sample_prompts :: "prompt list" where
  "sample_prompts = [greet, greet\<lparr>pr_command := ''/open'', pr_access_control := None\<rparr>]"

definition draft :: prompt_form where
  "draft = \<lparr>pf_command = ''draft'', pf_title = ''Draft'', pf_content = ''x'', pf_access_control = None\<rparr>"

lemmas prompt_samples = greet_def sample_prompts_def draft_def sample_user_defs

lemma prompt_writes_guarded_witness:
  "get_prompt_by_command ''/hi'' (run_requests (prompt_request_run [] [] sample_groups)
     [(lee, Update_Prompt 5 ''hi'' draft), (kim, Delete_Prompt ''open''), (lee, Delete_Prompt ''hi'')] sample_prompts) = Some greet"
  by (rule prompt_writes_guarded)
     (simp_all add: prompt_samples get_prompt_by_command_def row_get_def may_write_prompt_def may_change_def lee_denied)

text \<open>
  A prompt created under a command without a leading slash is stored, but no handler reaches it: every
  reader gets the answer it got before the creation, and the prompt stays through all later requests.
\<close>

lemma unslashed_prompt_unreachable:
  assumes "create_new_prompt_handler builtin config now form u gdb db = (Inr p, db')"
    and "take 1 (pf_command form) \<noteq> ''/''"
  shows "get_prompt_by_command (pf_command form) (run_requests (prompt_request_run builtin config gdb) xs db') = Some p \<and>
    get_prompt_by_command_handler command v gdb db' = get_prompt_by_command_handler command v gdb db"
proof -
  have p: "p = new_prompt now (u_id u) form" "db' = db @ [p]" "get_prompt_by_command (pf_command form) db = None"
    using assms(1)
    by (auto simp: create_new_prompt_handler_def when_allowed_def insert_new_prompt_def Let_def add_row_def
        split: option.splits sum.splits bool.splits if_splits)
  have c: "pr_command p = pf_command form" by (simp add: p new_prompt_def)
  have get: "get_prompt_by_command j db' = (if j = pf_command form then Some p else get_prompt_by_command j db)" for j
    using p(3) by (auto simp: p(2) c get_prompt_by_command_def row_get_def first_row_append split: option.split)
  have n: "CHR ''/'' # path \<noteq> pf_command form" for path using assms(2) by (cases "pf_command form") auto
  then have "prompt_target q \<noteq> Some (pf_command form)" for q by (cases q) auto
  then have "get_prompt_by_command (pf_command form) (run_requests (prompt_request_run builtin config gdb) xs db') = Some p"
    by (intro pg.untargeted_stays) (simp_all add: get)
  then show ?thesis using n by (simp add: get_prompt_by_command_handler_def get)
qed

definition root :: user where
  "root = lee\<lparr>u_id := ''root'', u_role := ''admin''\<rparr>"

lemma unslashed_prompt_unreachable_witness:
  "get_prompt_by_command ''draft'' (run_requests (prompt_request_run [] [] sample_groups)
     [(root, Delete_Prompt ''draft'')] (snd (create_new_prompt_handler [] [] 5 draft root sample_groups sample_prompts)))
   = Some (new_prompt 5 ''root'' draft)"
proof -
  have "create_new_prompt_handler [] [] 5 draft root sample_groups sample_prompts =
      (Inr (new_prompt 5 ''root'' draft), sample_prompts @ [new_prompt 5 ''root'' draft])"
    by (simp add: prompt_samples root_def create_new_prompt_handler_def may_create_prompt_def feature_allowed_def
        when_allowed_def get_prompt_by_command_def row_get_def insert_new_prompt_def new_prompt_def add_row_def Let_def)
  from unslashed_prompt_unreachable[OF this, where xs = "[(root, Delete_Prompt ''draft'')]"] this
  show ?thesis by (simp add: draft_def)
qed

lemma listed_rows:
  assumes "list_prompts kind bypass u gdb udb db = Inr ps" "u_role u \<noteq> ''admin''"
  shows "fst ` set ps = {p \<in> set db. reaches (u_id u) kind gdb (pr_user_id p) (pr_access_control p)}"
proof -
  have "get_prompts_by_user_id (u_id u) kind gdb udb db = Inr ps"
    using assms by (auto simp: list_prompts_def raising_def split: sum.splits)
  then have "ps = filter (\<lambda>(p, o'). reaches (u_id u) kind gdb (pr_user_id p) (pr_access_control p)) (get_prompts udb db)"
    unfolding get_prompts_by_user_id_def by (rule rows_of_user_reached)
  moreover have "fst ` set (get_prompts udb db) = set db"
    by (simp add: get_prompts_def flip: set_map)
  ultimately show ?thesis by force
qed

text \<open>
  The two lists show a user who is no administrator exactly the prompts that the handlers of single
  prompts let the user read, and exactly those they let the user write.
\<close>

lemma prompt_lists_agree:
  assumes "get_prompts_handler bypass u gdb udb db = Inr readables" "get_prompt_list_handler bypass u gdb udb db = Inr writables"
    and "u_role u \<noteq> ''admin''"
  shows "(p \<in> set readables \<longleftrightarrow> p \<in> set db \<and> may_access ''read'' u gdb (pr_user_id p) (pr_access_control p) = Inr True) \<and>
    (p \<in> fst ` set writables \<longleftrightarrow> p \<in> set db \<and> may_write_prompt u gdb p = Inr True)"
proof -
  obtain ps where r: "list_prompts ''read'' bypass u gdb udb db = Inr ps" "readables = map fst ps"
    using assms(1) by (auto simp: get_prompts_handler_def and_then_Inr_iff)
  have w: "list_prompts ''write'' bypass u gdb udb db = Inr writables" using assms(2) by (simp add: get_prompt_list_handler_def)
  show ?thesis
    using listed_rows[OF r(1) assms(3)] listed_rows[OF w assms(3)] assms(3) r(2)
    by (auto simp: reaches_def may_access_def may_write_prompt_def may_change_def split: sum.splits)
qed

lemma prompt_lists_agree_witness:
  "greet \<in> set sample_prompts \<and> may_access ''read'' lee sample_groups ''kim'' (Some []) \<noteq> Inr True"
proof -
  let ?open = "greet\<lparr>pr_command := ''/open'', pr_access_control := None\<rparr>"
  have o: "order_desc pr_timestamp sample_prompts = sample_prompts" by (simp add: order_desc_def prompt_samples)
  have a: "has_access ''lee'' kind (Some []) (Some gs) True db = Inr False" for kind gs db by (rule has_access_empty) simp
  have n: "has_access ''lee'' kind None gs True db = Inr (kind = ''read'')" for kind gs db by (simp add: has_access_def)
  have r: "get_prompts_handler False lee sample_groups sample_users sample_prompts = Inr [?open]"
    by (simp add: get_prompts_handler_def list_prompts_def raising_def get_prompts_by_user_id_def rows_of_user_def get_prompts_def o
        with_owners_def owner_or_access_def) (simp add: prompt_samples a n)
  have w: "get_prompt_list_handler False lee sample_groups sample_users sample_prompts = Inr []"
    by (simp add: get_prompt_list_handler_def list_prompts_def raising_def get_prompts_by_user_id_def rows_of_user_def get_prompts_def o
        with_owners_def owner_or_access_def) (simp add: prompt_samples a n)
  show ?thesis
    using prompt_lists_agree[OF r w, of greet] by (simp add: prompt_samples)
qed

end
