(* ===== verification/Notes.thy ===== *)
theory Notes
  imports Resources
begin

text \<open>
  \<^verbatim>\<open>models/notes.py\<close> and \<^verbatim>\<open>routers/notes.py\<close>: notes, the paged listing of the notes a user may
  write, and the handlers. The state is the list of notes; the groups and users are only read. A field of a
  form is \<open>None\<close> when the request leaves it out and \<open>Some None\<close> when it sends null. The event that
  follows an update is left out.
\<close>

record note_row =
  nt_id :: id
  nt_user_id :: id
  nt_title :: string
  nt_data :: "dict option"
  nt_meta :: "dict option"
  nt_access_control :: "dict option"
  nt_created_at :: time
  nt_updated_at :: time

record note_form =
  nf_title :: string
  nf_data :: "dict option option"
  nf_meta :: "dict option option"
  nf_access_control :: "dict option option"

text \<open>\<open>NoteUpdateForm\<close>; an update through the router carries a whole \<open>NoteForm\<close>.\<close>

record note_update =
  nu_title :: "string option"
  nu_data :: "dict option option"
  nu_meta :: "dict option option"
  nu_access_control :: "dict option option"

definition update_of :: "note_form \<Rightarrow> note_update" where
  "update_of form = \<lparr>nu_title = Some (nf_title form), nu_data = nf_data form, nu_meta = nf_meta form,
     nu_access_control = nf_access_control form\<rparr>"

text \<open>\<open>form.data\<close>: a field that was left out reads as its default, \<open>None\<close>.\<close>

definition field :: "'a option option \<Rightarrow> 'a option" where
  "field v = (case v of None \<Rightarrow> None | Some x \<Rightarrow> x)"

section \<open>The table\<close>

definition new_note :: "id \<Rightarrow> time \<Rightarrow> time \<Rightarrow> note_form \<Rightarrow> id \<Rightarrow> note_row" where
  "new_note nid t1 t2 form user_id =
     \<lparr>nt_id = nid, nt_user_id = user_id, nt_title = nf_title form, nt_data = field (nf_data form),
      nt_meta = field (nf_meta form), nt_access_control = field (nf_access_control form),
      nt_created_at = t1, nt_updated_at = t2\<rparr>"

definition insert_new_note :: "id \<Rightarrow> time \<Rightarrow> time \<Rightarrow> note_form \<Rightarrow> id \<Rightarrow> note_row list \<Rightarrow> (py_error + note_row) \<times> note_row list" where
  "insert_new_note nid t1 t2 form user_id db =
     (let n = new_note nid t1 t2 form user_id
      in case add_row nt_id n db of None \<Rightarrow> (Inl IntegrityError, db) | Some db' \<Rightarrow> (Inr n, db'))"

definition get_notes :: "nat option \<Rightarrow> nat option \<Rightarrow> note_row list \<Rightarrow> note_row list" where
  "get_notes skip cnt db = opt_page skip cnt (order_desc nt_updated_at db)"

definition get_notes_by_user_id :: "id \<Rightarrow> nat option \<Rightarrow> nat option \<Rightarrow> note_row list \<Rightarrow> note_row list" where
  "get_notes_by_user_id user_id skip cnt db =
     opt_page skip cnt (order_desc nt_updated_at (all_rows (\<lambda>n. nt_user_id n = user_id) db))"

definition note_permitted :: "id \<Rightarrow> string \<Rightarrow> id list \<Rightarrow> group_db \<Rightarrow> note_row \<Rightarrow> py_error + bool" where
  "note_permitted user_id permission user_group_ids gdb n =
     (if nt_user_id n = user_id then Inr True
      else case nt_access_control n of
        None \<Rightarrow> Inr (permission = ''read'')
      | Some ac \<Rightarrow> has_access user_id permission (Some ac) (Some user_group_ids) True gdb)"

text \<open>The loop over the notes; \<open>skip\<close> and \<open>cnt\<close> are any integers, \<open>n_skipped\<close> counts the permitted notes passed over.\<close>

fun collect_notes ::
  "(note_row \<Rightarrow> py_error + bool) \<Rightarrow> int option \<Rightarrow> int option \<Rightarrow> int \<Rightarrow> note_row list \<Rightarrow> note_row list \<Rightarrow> py_error + note_row list" where
  "collect_notes permitted skip cnt n_skipped results [] = Inr results"
| "collect_notes permitted skip cnt n_skipped results (n # ns) =
     and_then (permitted n) (\<lambda>b.
       if \<not> b then collect_notes permitted skip cnt n_skipped results ns
       else if (case skip of None \<Rightarrow> False | Some k \<Rightarrow> k \<noteq> 0 \<and> n_skipped < k)
         then collect_notes permitted skip cnt (n_skipped + 1) results ns
       else if (case cnt of None \<Rightarrow> False | Some k \<Rightarrow> k \<le> int (length (results @ [n])))
         then Inr (results @ [n])
       else collect_notes permitted skip cnt n_skipped (results @ [n]) ns)"

definition get_notes_by_permission ::
  "id \<Rightarrow> string \<Rightarrow> int option \<Rightarrow> int option \<Rightarrow> group_db \<Rightarrow> note_row list \<Rightarrow> py_error + note_row list" where
  "get_notes_by_permission user_id permission skip cnt gdb db =
     collect_notes (note_permitted user_id permission (map grp_id (get_groups_by_member_id user_id gdb)) gdb)
       skip cnt 0 [] (order_desc nt_updated_at db)"

definition get_note_by_id :: "id \<Rightarrow> note_row list \<Rightarrow> note_row option" where
  "get_note_by_id nid db = row_get nt_id nid db"

text \<open>\<open>{**old, **new}\<close>, which raises when one of the two is \<open>None\<close>; a field that was left out changes nothing.\<close>

definition merge_note_field :: "dict option \<Rightarrow> dict option option \<Rightarrow> py_error + dict option" where
  "merge_note_field old v = (case v of
     None \<Rightarrow> Inr old
   | Some new \<Rightarrow> (case (old, new) of (Some a, Some b) \<Rightarrow> Inr (Some (dmerge a b)) | _ \<Rightarrow> Inl TypeError))"

definition apply_note_form :: "time \<Rightarrow> note_update \<Rightarrow> note_row \<Rightarrow> py_error + note_row" where
  "apply_note_form now form n =
     and_then (merge_note_field (nt_data n) (nu_data form)) (\<lambda>data.
     and_then (merge_note_field (nt_meta n) (nu_meta form)) (\<lambda>meta.
     Inr (n\<lparr>nt_title := (case nu_title form of None \<Rightarrow> nt_title n | Some t \<Rightarrow> t), nt_data := data, nt_meta := meta,
            nt_access_control := (case nu_access_control form of None \<Rightarrow> nt_access_control n | Some ac \<Rightarrow> ac),
            nt_updated_at := now\<rparr>)))"

definition update_note_by_id :: "time \<Rightarrow> id \<Rightarrow> note_update \<Rightarrow> note_row list \<Rightarrow> (py_error + note_row option) \<times> note_row list" where
  "update_note_by_id now nid form db =
     (case get_note_by_id nid db of
        None \<Rightarrow> (Inr None, db)
      | Some n \<Rightarrow>
          (case apply_note_form now form n of
             Inl e \<Rightarrow> (Inl e, db)
           | Inr n' \<Rightarrow> (Inr (Some n'), upd_rows (\<lambda>m. nt_id m = nid) (\<lambda>_. n') db)))"

definition delete_note_by_id :: "id \<Rightarrow> note_row list \<Rightarrow> bool \<times> note_row list" where
  "delete_note_by_id nid db = (True, row_del nt_id nid db)"

section \<open>The handlers\<close>

definition notes_allowed :: "dict \<Rightarrow> dict \<Rightarrow> user \<Rightarrow> group_db \<Rightarrow> http_error + bool" where
  "notes_allowed builtin config caller gdb = feature_allowed ''features.notes'' builtin config caller gdb"

definition note_with_user :: "user_db \<Rightarrow> note_row \<Rightarrow> py_error + note_row \<times> user_response" where
  "note_with_user udb n =
     (case get_user_by_id (nt_user_id n) udb of
        None \<Rightarrow> Inl AttributeError
      | Some u \<Rightarrow> Inr (n, user_response_of u))"

definition get_notes_handler ::
  "dict \<Rightarrow> dict \<Rightarrow> user \<Rightarrow> group_db \<Rightarrow> user_db \<Rightarrow> note_row list \<Rightarrow> http_error + (note_row \<times> user_response) list" where
  "get_notes_handler builtin config caller gdb udb db =
     fst (when_allowed (notes_allowed builtin config caller gdb) Unauthorized db
       (raising ServerError (and_then (get_notes_by_permission (u_id caller) ''write'' None None gdb db) (each (note_with_user udb))), db))"

record note_title_id =
  ni_id :: id
  ni_title :: string
  ni_updated_at :: time
  ni_created_at :: time

definition note_title_id_of :: "note_row \<Rightarrow> note_title_id" where
  "note_title_id_of n = \<lparr>ni_id = nt_id n, ni_title = nt_title n, ni_updated_at = nt_updated_at n, ni_created_at = nt_created_at n\<rparr>"

definition get_note_list_handler ::
  "dict \<Rightarrow> dict \<Rightarrow> int option \<Rightarrow> user \<Rightarrow> group_db \<Rightarrow> note_row list \<Rightarrow> http_error + note_title_id list" where
  "get_note_list_handler builtin config page_no caller gdb db =
     fst (when_allowed (notes_allowed builtin config caller gdb) Unauthorized db
       (let (skip, cnt) = (case page_no of None \<Rightarrow> (None, None) | Some p \<Rightarrow> (Some ((p - 1) * 60), Some 60))
        in (raising ServerError (and_then (get_notes_by_permission (u_id caller) ''write'' skip cnt gdb db)
              (\<lambda>ns. Inr (map note_title_id_of ns))), db)))"

definition create_new_note_handler ::
  "dict \<Rightarrow> dict \<Rightarrow> id \<Rightarrow> time \<Rightarrow> time \<Rightarrow> note_form \<Rightarrow> user \<Rightarrow> group_db \<Rightarrow> note_row list \<Rightarrow> (http_error + note_row) \<times> note_row list" where
  "create_new_note_handler builtin config nid t1 t2 form caller gdb db =
     when_allowed (notes_allowed builtin config caller gdb) Unauthorized db
       (let (r, db') = insert_new_note nid t1 t2 form (u_id caller) db in (raising BadRequest r, db'))"

definition with_note ::
  "string \<Rightarrow> dict \<Rightarrow> dict \<Rightarrow> id \<Rightarrow> user \<Rightarrow> group_db \<Rightarrow> note_row list \<Rightarrow> (note_row \<Rightarrow> (http_error + 'a) \<times> note_row list) \<Rightarrow>
     (http_error + 'a) \<times> note_row list" where
  "with_note kind builtin config nid caller gdb db f =
     when_allowed (notes_allowed builtin config caller gdb) Unauthorized db
       (case get_note_by_id nid db of
          None \<Rightarrow> (Inl NotFound, db)
        | Some n \<Rightarrow>
            when_allowed (may_access kind caller gdb (nt_user_id n) (nt_access_control n)) Forbidden db (f n))"

definition get_note_by_id_handler ::
  "dict \<Rightarrow> dict \<Rightarrow> id \<Rightarrow> user \<Rightarrow> group_db \<Rightarrow> note_row list \<Rightarrow> http_error + note_row" where
  "get_note_by_id_handler builtin config nid caller gdb db =
     fst (with_note ''read'' builtin config nid caller gdb db (\<lambda>n. (Inr n, db)))"

text \<open>Who may not share publicly and sends no access control makes the note private.\<close>

definition shared_form :: "dict \<Rightarrow> dict \<Rightarrow> note_form \<Rightarrow> user \<Rightarrow> group_db \<Rightarrow> http_error + note_form" where
  "shared_form builtin config form caller gdb =
     (if u_role caller \<noteq> ''admin'' \<and> field (nf_access_control form) = None
      then and_then (feature_allowed ''sharing.public_notes'' builtin config caller gdb) (\<lambda>b.
             Inr (if b then form else form\<lparr>nf_access_control := Some (Some [])\<rparr>))
      else Inr form)"

definition update_note_by_id_handler ::
  "dict \<Rightarrow> dict \<Rightarrow> time \<Rightarrow> id \<Rightarrow> note_form \<Rightarrow> user \<Rightarrow> group_db \<Rightarrow> note_row list \<Rightarrow> (http_error + note_row) \<times> note_row list" where
  "update_note_by_id_handler builtin config now nid form caller gdb db =
     with_note ''write'' builtin config nid caller gdb db (\<lambda>n.
       case shared_form builtin config form caller gdb of
         Inl e \<Rightarrow> (Inl e, db)
       | Inr form' \<Rightarrow>
           (case update_note_by_id now nid (update_of form') db of
              (Inr (Some n'), db') \<Rightarrow> (Inr n', db')
            | (_, db') \<Rightarrow> (Inl BadRequest, db')))"

definition delete_note_by_id_handler ::
  "dict \<Rightarrow> dict \<Rightarrow> id \<Rightarrow> user \<Rightarrow> group_db \<Rightarrow> note_row list \<Rightarrow> (http_error + bool) \<times> note_row list" where
  "delete_note_by_id_handler builtin config nid caller gdb db =
     with_note ''write'' builtin config nid caller gdb db (\<lambda>n. (Inr True, snd (delete_note_by_id nid db)))"

section \<open>Paging\<close>

lemma collect_notes_page:
  "collect_notes p skip cnt k results rows = Inr xs \<Longrightarrow> 0 \<le> k \<Longrightarrow>
     (case skip of None \<Rightarrow> k = 0 | Some s \<Rightarrow> k = 0 \<or> k \<le> s) \<Longrightarrow> (case cnt of None \<Rightarrow> True | Some c \<Rightarrow> int (length results) < max 1 c) \<Longrightarrow>
     xs = results @ (case cnt of None \<Rightarrow> id | Some c \<Rightarrow> take (nat (max 1 c) - length results))
       (drop (case skip of None \<Rightarrow> 0 | Some s \<Rightarrow> nat (s - k)) (filter (\<lambda>n. p n = Inr True) rows))"
proof (induction p skip cnt k results rows arbitrary: xs rule: collect_notes.induct)
  case (1 p skip cnt k results)
  then show ?case by (auto split: option.splits)
next
  case (2 p skip cnt k results n ns)
  obtain b where b: "p n = Inr b" using "2.prems"(1) by (auto simp: and_then_Inr_iff)
  consider "\<not> b" | "b" "case skip of None \<Rightarrow> False | Some s \<Rightarrow> s \<noteq> 0 \<and> k < s"
    | "b" "\<not> (case skip of None \<Rightarrow> False | Some s \<Rightarrow> s \<noteq> 0 \<and> k < s)" "case cnt of None \<Rightarrow> False | Some c \<Rightarrow> c \<le> int (length (results @ [n]))"
    | "b" "\<not> (case skip of None \<Rightarrow> False | Some s \<Rightarrow> s \<noteq> 0 \<and> k < s)" "\<not> (case cnt of None \<Rightarrow> False | Some c \<Rightarrow> c \<le> int (length (results @ [n])))"
    by blast
  then show ?case
  proof cases
    case 1
    then show ?thesis using "2.IH"(1)[of b xs, OF 1] "2.prems" b by simp
  next
    case 2
    then obtain s where s: "skip = Some s" "s \<noteq> 0" "k < s" by (auto split: option.splits)
    then have "nat (s - k) = Suc (nat (s - (k + 1)))" by linarith
    then show ?thesis using "2.IH"(2)[of b xs, OF _ 2(2)] "2.prems" b 2(1) s by simp
  next
    case 3
    have "nat (s - k) = 0" if "skip = Some s" for s using 3(2) "2.prems"(2,3) that by auto
    moreover obtain c where c: "cnt = Some c" "c \<le> int (length results) + 1" using 3(3) by (auto split: option.splits)
    moreover have "nat (max 1 c) - length results = 1" using "2.prems"(4) c by auto
    ultimately show ?thesis using "2.prems"(1) b 3(1,2) by (auto split: option.splits)
  next
    case 4
    have d: "(case skip of None \<Rightarrow> 0 | Some s \<Rightarrow> nat (s - k)) = 0" using 4(2) "2.prems"(2,3) by (auto split: option.splits)
    have "nat (max 1 c) - length results = Suc (nat (max 1 c) - length (results @ [n]))" if "cnt = Some c" for c
      using 4(3) that by auto
    then show ?thesis
      using "2.IH"(3)[of b xs, OF _ 4(2,3)] "2.prems" b 4 d by (auto split: option.splits)
  qed
qed

lemma permitted_reaches:
  "kind = ''write'' \<Longrightarrow> note_permitted user_id kind (map grp_id (get_groups_by_member_id user_id gdb)) gdb n = Inr True \<longleftrightarrow>
     reaches user_id kind gdb (nt_user_id n) (nt_access_control n)"
  unfolding note_permitted_def reaches_def has_access_lookup[of user_id] by (auto simp: has_access_def split: option.split)

definition writable_notes :: "id \<Rightarrow> group_db \<Rightarrow> note_row list \<Rightarrow> note_row list" where
  "writable_notes user_id gdb db =
     filter (\<lambda>n. reaches user_id ''write'' gdb (nt_user_id n) (nt_access_control n)) (order_desc nt_updated_at db)"

lemma notes_by_permission:
  "get_notes_by_permission user_id ''write'' skip cnt gdb db = Inr xs \<Longrightarrow>
     xs = (case cnt of None \<Rightarrow> id | Some c \<Rightarrow> take (nat (max 1 c)))
       (drop (case skip of None \<Rightarrow> 0 | Some s \<Rightarrow> nat s) (writable_notes user_id gdb db))"
  unfolding get_notes_by_permission_def
  by (drule collect_notes_page) (auto simp: permitted_reaches writable_notes_def split: option.splits)

text \<open>
  C35: A page of the note list holds 60 of the notes the caller may write, counted in the order of their last
  update; a page number below one is the first page, and without a page number all of them are listed.
\<close>

theorem note_pages_exact:
  assumes "get_note_list_handler builtin config page_no u gdb db = Inr items"
  shows "items = map note_title_id_of (case page_no of
      None \<Rightarrow> writable_notes (u_id u) gdb db
    | Some p \<Rightarrow> take 60 (drop (60 * nat (p - 1)) (writable_notes (u_id u) gdb db)))"
proof -
  let ?sc = "case page_no of None \<Rightarrow> (None, None) | Some p \<Rightarrow> (Some ((p - 1) * 60), Some (60::int))"
  obtain ns where ns: "get_notes_by_permission (u_id u) ''write'' (fst ?sc) (snd ?sc) gdb db = Inr ns"
      "items = map note_title_id_of ns"
    using assms
    by (auto simp: get_note_list_handler_def when_allowed_def raising_def Let_def case_prod_beta and_then_Inr_iff
        split: sum.splits bool.splits)
  have "nat ((p - 1) * 60) = 60 * nat (p - 1)" for p :: int by (cases "1 \<le> p") (auto simp: nat_mult_distrib)
  then show ?thesis using notes_by_permission[OF ns(1)] ns(2) by (auto split: option.splits)
qed

definition plan_note :: note_row where
  "plan_note = \<lparr>nt_id = ''n1'', nt_user_id = ''kim'', nt_title = ''Plan'', nt_data = Some [], nt_meta = None,
     nt_access_control = Some [(''write'', JDict [(''group_ids'', JList (map JStr [])), (''user_ids'', JList (map JStr [''lee'']))])],
     nt_created_at = 1, nt_updated_at = 2\<rparr>"

definition sample_notes :: "note_row list" where
  "sample_notes = [plan_note\<lparr>nt_id := ''n2'', nt_user_id := ''mia'', nt_access_control := None, nt_updated_at := 4\<rparr>, plan_note]"

text \<open>Notes are allowed by the configuration, sharing them publicly is not.\<close>

definition note_config :: dict where
  "note_config = [(''features'', JDict [(''notes'', JBool True)]), (''sharing'', JDict [(''public_notes'', JBool False)])]"

definition note_change :: note_form where
  "note_change = \<lparr>nf_title = ''Plan B'', nf_data = None, nf_meta = None, nf_access_control = None\<rparr>"

lemmas note_samples = plan_note_def sample_notes_def note_config_def note_change_def sample_user_defs

lemma lee_groups: "get_groups_by_member_id ''lee'' sample_groups = []"
  by (simp add: sample_group_defs get_groups_by_member_id_def order_desc_def is_member_def all_rows_def)

lemma lee_features:
  "feature_allowed ''features.notes'' [] note_config lee sample_groups = Inr True"
  "feature_allowed ''sharing.public_notes'' [] note_config lee sample_groups = Inr False"
  by (simp_all add: feature_allowed_def has_permission_def lee_def new_user_def lee_groups note_config_def py_in_def dget_or_def)

lemma lee_writes_plan:
  "has_access ''lee'' ''write'' (nt_access_control plan_note) (Some gs) True db = Inr True"
  using has_access_list[of "''write''" "[]" "[''lee'']"] by (simp add: plan_note_def access_list_def)

lemma note_pages_exact_witness:
  "map ni_id (map note_title_id_of (take 60 (drop (60 * nat (1 - 1)) (writable_notes ''lee'' sample_groups sample_notes)))) = [''n1'']"
proof -
  have o: "order_desc nt_updated_at sample_notes = sample_notes" by (simp add: order_desc_def note_samples)
  have p: "note_permitted ''lee'' ''write'' gs db plan_note = Inr True" for gs db
    using lee_writes_plan[of gs db] by (auto simp: note_permitted_def plan_note_def)
  have q: "note_permitted ''lee'' ''write'' gs db (plan_note\<lparr>nt_id := i, nt_user_id := ''mia'', nt_access_control := None, nt_updated_at := t\<rparr>) = Inr False"
    for gs db i t by (simp add: note_permitted_def)
  have l: "u_id lee = ''lee''" by (simp add: lee_def new_user_def)
  have r: "get_note_list_handler [] note_config (Some 1) lee sample_groups sample_notes = Inr [note_title_id_of plan_note]"
    by (simp add: get_note_list_handler_def notes_allowed_def lee_features when_allowed_def get_notes_by_permission_def o l raising_def)
       (simp add: sample_notes_def p q)
  from note_pages_exact[OF r, symmetric] show ?thesis by (simp only: option.case l) (simp add: note_title_id_of_def plan_note_def)
qed

section \<open>Requests\<close>

datatype note_request =
    Create_Note id time time note_form
  | Update_Note time id note_form
  | Delete_Note id

fun note_target :: "note_request \<Rightarrow> id option" where
  "note_target (Create_Note nid t1 t2 form) = None"
| "note_target (Update_Note now nid form) = Some nid"
| "note_target (Delete_Note nid) = Some nid"

fun note_request_run :: "dict \<Rightarrow> dict \<Rightarrow> group_db \<Rightarrow> user \<Rightarrow> note_request \<Rightarrow> note_row list \<Rightarrow> note_row list" where
  "note_request_run builtin config gdb u (Create_Note nid t1 t2 form) db =
     snd (create_new_note_handler builtin config nid t1 t2 form u gdb db)"
| "note_request_run builtin config gdb u (Update_Note now nid form) db =
     snd (update_note_by_id_handler builtin config now nid form u gdb db)"
| "note_request_run builtin config gdb u (Delete_Note nid) db =
     snd (delete_note_by_id_handler builtin config nid u gdb db)"

definition may_write_note :: "user \<Rightarrow> group_db \<Rightarrow> note_row \<Rightarrow> bool" where
  "may_write_note u gdb n \<longleftrightarrow> may_access ''write'' u gdb (nt_user_id n) (nt_access_control n) = Inr True"

lemma with_note_state:
  "snd (with_note ''write'' builtin config nid u gdb db f) =
     (case get_note_by_id nid db of None \<Rightarrow> db
      | Some n \<Rightarrow> if notes_allowed builtin config u gdb = Inr True \<and> may_write_note u gdb n then snd (f n) else db)"
  by (auto simp: with_note_def when_allowed_state may_write_note_def split: option.split)

lemma apply_note_form_id: "apply_note_form now form n = Inr n' \<Longrightarrow> nt_id n' = nt_id n \<and> nt_user_id n' = nt_user_id n"
  by (auto simp: apply_note_form_def and_then_Inr_iff)

lemma get_note_update:
  "get_note_by_id j (snd (update_note_by_id now nid form db)) =
     (case get_note_by_id j db of None \<Rightarrow> None
      | Some n \<Rightarrow> Some (if j = nid then (case apply_note_form now form n of Inl e \<Rightarrow> n | Inr n' \<Rightarrow> n') else n))"
proof (cases "get_note_by_id nid db")
  case (Some n)
  then have n: "nt_id n = nid" using row_get_SomeD unfolding get_note_by_id_def by metis
  have i: "nt_id n' = nid" if "apply_note_form now form n = Inr n'" for n' using apply_note_form_id[OF that] n by simp
  show ?thesis
    using Some by (auto simp: update_note_by_id_def get_note_by_id_def row_get_set_key i split: sum.split option.split)
qed (auto simp: update_note_by_id_def split: option.split)

lemma get_note_delete:
  "get_note_by_id j (snd (delete_note_by_id nid db)) = (if j = nid then None else get_note_by_id j db)"
  by (simp add: delete_note_by_id_def get_note_by_id_def row_get_del)

lemma update_note_state:
  "snd (update_note_by_id_handler builtin config now nid form u gdb db) =
     (case get_note_by_id nid db of None \<Rightarrow> db
      | Some n \<Rightarrow> if notes_allowed builtin config u gdb = Inr True \<and> may_write_note u gdb n then
          (case shared_form builtin config form u gdb of Inl e \<Rightarrow> db | Inr form' \<Rightarrow> snd (update_note_by_id now nid (update_of form') db)) else db)"
  by (auto simp: update_note_by_id_handler_def with_note_state split: option.splits sum.splits prod.splits)

interpretation ng: guarded_resource get_note_by_id note_target "note_request_run builtin config gdb"
  "\<lambda>u n. may_write_note u gdb n" for builtin config gdb
proof unfold_locales
  fix k db n q and u :: user
  assume n: "get_note_by_id k db = Some n"
  have c: "get_note_by_id k (snd (create_new_note_handler builtin config nid t1 t2 form u gdb db)) = Some n" for nid t1 t2 form
    using n by (auto simp: create_new_note_handler_def when_allowed_state insert_new_note_def Let_def case_prod_beta
        add_row_def get_note_by_id_def row_get_def first_row_append split: option.split)
  show "note_target q \<noteq> Some k \<Longrightarrow> get_note_by_id k (note_request_run builtin config gdb u q db) = Some n"
    using n c by (cases q) (auto simp: update_note_state delete_note_by_id_handler_def with_note_state get_note_update
        get_note_delete split: option.split sum.split)
  show "\<not> may_write_note u gdb n \<Longrightarrow> get_note_by_id k (note_request_run builtin config gdb u q db) = Some n"
    using n c by (cases q) (auto simp: update_note_state delete_note_by_id_handler_def with_note_state get_note_update
        get_note_delete split: option.split sum.split)
qed

text \<open>
  A note stays as it is under every sequence of requests in which nobody who may write it names it.
\<close>

lemma note_writes_guarded:
  assumes "get_note_by_id k db = Some n"
    and "\<not> (\<exists>(u, q) \<in> set xs. note_target q = Some k \<and> may_write_note u gdb n)"
  shows "get_note_by_id k (run_requests (note_request_run builtin config gdb) xs db) = Some n"
  by (rule ng.run_preserves[OF assms])

lemma note_writes_guarded_witness:
  "get_note_by_id ''n2'' (run_requests (note_request_run [] note_config sample_groups)
     [(lee, Update_Note 5 ''n2'' note_change), (lee, Delete_Note ''n1''), (kim, Delete_Note ''n2'')] sample_notes) =
   Some (plan_note\<lparr>nt_id := ''n2'', nt_user_id := ''mia'', nt_access_control := None, nt_updated_at := 4\<rparr>)"
  by (rule note_writes_guarded)
     (simp_all add: sample_notes_def get_note_by_id_def row_get_def may_write_note_def may_access_def has_access_def
        lee_def kim_def new_user_def plan_note_def)

text \<open>
  When a user who may not share publicly updates a note without sending its access control, the access
  list of the note is emptied: everybody but its owner and administrators loses access, the user included.
\<close>

lemma update_empties_access_list:
  assumes "get_note_by_id nid db = Some n"
    and "update_note_by_id_handler builtin config now nid form u gdb db = (Inr n', db')"
    and "u_role u \<noteq> ''admin''" "field (nf_access_control form) = None"
    and "feature_allowed ''sharing.public_notes'' builtin config u gdb = Inr False"
    and "u_role v \<noteq> ''admin''" "u_id v \<noteq> nt_user_id n"
  shows "get_note_by_id nid db' = Some n' \<and> nt_access_control n' = Some [] \<and>
    may_access kind v gdb (nt_user_id n') (nt_access_control n') = Inr False"
proof -
  let ?form = "form\<lparr>nf_access_control := Some (Some [])\<rparr>"
  have f: "shared_form builtin config form u gdb = Inr ?form"
    using assms(3,4,5) by (simp add: shared_form_def)
  have u: "update_note_by_id now nid (update_of ?form) db = (Inr (Some n'), db')"
    using assms(1,2) by (auto simp: update_note_by_id_handler_def with_note_def when_allowed_def f
        split: sum.splits bool.splits prod.splits option.splits)
  then have a: "apply_note_form now (update_of ?form) n = Inr n'"
    using assms(1) by (auto simp: update_note_by_id_def split: sum.splits)
  then have n': "nt_access_control n' = Some []" "nt_user_id n' = nt_user_id n"
    by (auto simp: apply_note_form_def update_of_def and_then_Inr_iff)
  have "get_note_by_id nid db' = Some n'"
    using get_note_update[of nid now nid "update_of ?form" db] u assms(1) a by simp
  moreover have "has_access (u_id v) kind (Some []) None True gdb = Inr False"
    unfolding has_access_lookup[of "u_id v"] by (rule has_access_empty) simp
  ultimately show ?thesis using n' assms(6,7) by (simp add: may_access_def)
qed

lemma update_empties_access_list_witness:
  "may_access ''write'' lee sample_groups ''kim'' (Some []) = Inr False"
proof -
  let ?n = "plan_note\<lparr>nt_title := ''Plan B'', nt_access_control := Some [], nt_updated_at := 9\<rparr>"
  have l: "u_id lee = ''lee''" "u_role lee = ''user''" by (simp_all add: lee_def new_user_def)
  have g: "get_note_by_id ''n1'' sample_notes = Some plan_note" by (simp add: sample_notes_def get_note_by_id_def row_get_def plan_note_def)
  have a: "may_access ''write'' lee sample_groups (nt_user_id plan_note) (nt_access_control plan_note) = Inr True"
    using lee_writes_plan by (simp add: may_access_def l has_access_lookup[of "''lee''"])
  have "update_note_by_id_handler [] note_config 9 ''n1'' note_change lee sample_groups sample_notes =
      (Inr ?n, upd_rows (\<lambda>m. nt_id m = ''n1'') (\<lambda>_. ?n) sample_notes)"
    by (simp add: update_note_by_id_handler_def with_note_def notes_allowed_def lee_features when_allowed_def g a
        shared_form_def l note_change_def field_def update_note_by_id_def apply_note_form_def update_of_def merge_note_field_def)
  from update_empties_access_list[OF g this _ _ lee_features(2), of lee] show ?thesis
    by (simp add: l note_change_def field_def plan_note_def)
qed

end
