(* ===== verification/Tasks.thy ===== *)
theory Tasks
  imports Python
begin

text \<open>
  \<^verbatim>\<open>tasks.py\<close> without Redis: the registry of the asynchronous tasks of one process. A task
  is named by its id; \<open>tasks\<close> and \<open>item_tasks\<close> are the two dictionaries of the module, in insertion order.
  The event loop switches only at an \<open>await\<close>: creating a task and cleaning up after one are single
  steps, and stopping a task gives other steps the time until the task has ended.
\<close>

record registry =
  task_ids :: "id list"
  item_tasks :: "(id option \<times> id list) list"

definition empty_registry :: registry where
  "empty_registry = \<lparr>task_ids = [], item_tasks = []\<rparr>"

section \<open>The operations\<close>

text \<open>\<open>if id\<close>: neither None nor the empty text.\<close>

definition has_item :: "id option \<Rightarrow> bool" where
  "has_item item \<longleftrightarrow> item \<noteq> None \<and> item \<noteq> Some []"

definition add_key :: "'a \<Rightarrow> 'a list \<Rightarrow> 'a list" where
  "add_key k ks = (if k \<in> set ks then ks else ks @ [k])"

definition create_task :: "id \<Rightarrow> id option \<Rightarrow> registry \<Rightarrow> registry" where
  "create_task tid item r =
     r\<lparr>task_ids := add_key tid (task_ids r),
       item_tasks := (case map_of (item_tasks r) item of
           Some (t # ts) \<Rightarrow> AList.update item ((t # ts) @ [tid]) (item_tasks r)
         | _ \<Rightarrow> AList.update item [tid] (item_tasks r))\<rparr>"

definition list_tasks :: "registry \<Rightarrow> id list" where
  "list_tasks r = task_ids r"

definition list_task_ids_by_item_id :: "id option \<Rightarrow> registry \<Rightarrow> id list" where
  "list_task_ids_by_item_id item r = (case map_of (item_tasks r) item of None \<Rightarrow> [] | Some ts \<Rightarrow> ts)"

definition cleanup_task :: "id \<Rightarrow> id option \<Rightarrow> registry \<Rightarrow> registry" where
  "cleanup_task tid item r =
     (let r1 = r\<lparr>task_ids := remove1 tid (task_ids r)\<rparr>;
          ts = list_task_ids_by_item_id item r1
      in if has_item item \<and> tid \<in> set ts then
           r1\<lparr>item_tasks := (if remove1 tid ts = [] then AList.delete item (item_tasks r1)
                              else AList.update item (remove1 tid ts) (item_tasks r1))\<rparr>
         else r1)"

text \<open>How a task ends that was asked to cancel: by the cancellation, by returning, or by an exception.\<close>

datatype task_end = Was_Cancelled | Returned | Failed

definition stop_message :: "bool \<Rightarrow> id \<Rightarrow> string" where
  "stop_message by_cancel tid = ''Task '' @ tid @ (if by_cancel then '' successfully stopped.'' else '' successfully cancelled.'')"

text \<open>The entry is taken out before the task is awaited; an exception of the task is raised again.\<close>

definition stop_task :: "(id \<Rightarrow> task_end) \<Rightarrow> id \<Rightarrow> registry \<Rightarrow> (unit + bool \<times> string) \<times> registry" where
  "stop_task ending tid r =
     (if tid \<notin> set (task_ids r) then (Inr (False, ''Task with ID '' @ tid @ '' not found.''), r)
      else ((case ending tid of
               Was_Cancelled \<Rightarrow> Inr (True, stop_message True tid)
             | Returned \<Rightarrow> Inr (True, stop_message False tid)
             | Failed \<Rightarrow> Inl ()),
            r\<lparr>task_ids := remove1 tid (task_ids r)\<rparr>))"

datatype task_event =
    Created id "id option"
  | Cleaned id "id option"
  | Stopped id

fun task_step :: "task_event \<Rightarrow> registry \<Rightarrow> registry" where
  "task_step (Created tid item) r = create_task tid item r"
| "task_step (Cleaned tid item) r = cleanup_task tid item r"
| "task_step (Stopped tid) r = snd (stop_task (\<lambda>_. Was_Cancelled) tid r)"

text \<open>
  The loop of \<open>stop_item_tasks\<close> goes by index over the very list object that \<open>item_tasks\<close> holds, while
  other steps run at every await. \<open>during\<close> lists the steps of each await; \<open>attached\<close> says that the object is
  still the entry of the item: once its last task is removed, the entry is dropped and the object stays empty.
\<close>

fun run_steps :: "id option \<Rightarrow> task_event list \<Rightarrow> bool \<Rightarrow> registry \<Rightarrow> bool \<times> registry" where
  "run_steps item [] attached r = (attached, r)"
| "run_steps item (e # es) attached r =
     (let r' = task_step e r in run_steps item es (attached \<and> map_of (item_tasks r') item \<noteq> None) r')"

definition live_list :: "id option \<Rightarrow> bool \<Rightarrow> registry \<Rightarrow> id list" where
  "live_list item attached r = (if attached then list_task_ids_by_item_id item r else [])"

definition all_stopped :: "id option \<Rightarrow> bool \<times> string" where
  "all_stopped item = (True, ''All tasks for item '' @ (case item of None \<Rightarrow> ''None'' | Some i \<Rightarrow> i) @ '' stopped.'')"

lemma stop_task_items [simp]: "item_tasks (snd (stop_task ending tid r)) = item_tasks r"
  by (simp add: stop_task_def)

lemma stop_task_list [simp]: "list_task_ids_by_item_id item (snd (stop_task ending tid r)) = list_task_ids_by_item_id item r"
  by (simp add: list_task_ids_by_item_id_def)

function stop_item_loop ::
  "(id \<Rightarrow> task_end) \<Rightarrow> id option \<Rightarrow> task_event list list \<Rightarrow> nat \<Rightarrow> bool \<Rightarrow> registry \<Rightarrow> (unit + bool \<times> string) \<times> registry" where
  "stop_item_loop ending item during i attached r =
     (if i < length (live_list item attached r) then
        (let (res, r1) = stop_task ending (live_list item attached r ! i) r;
             (attached', r2) = (case during of [] \<Rightarrow> (attached, r1) | es # _ \<Rightarrow> run_steps item es attached r1)
         in case res of
              Inl e \<Rightarrow> (Inl e, r2)
            | Inr (ok, msg) \<Rightarrow> if \<not> ok then (Inr (ok, msg), r1) else stop_item_loop ending item (tl during) (Suc i) attached' r2)
      else (Inr (all_stopped item), r))"
  by pat_completeness auto
termination
proof (relation "measures [\<lambda>(ending, item, during, i, attached, r). length during,
    \<lambda>(ending, item, during, i, attached, r). length (live_list item attached r) - i]", goal_cases)
  case (2 ending item during i attached r x res r1 y attached' r2 b ok msg)
  then show ?case
    by (cases during) (auto simp: live_list_def list_task_ids_by_item_id_def stop_task_def split: if_splits)
qed simp

declare stop_item_loop.simps [simp del]

definition stop_item_tasks ::
  "(id \<Rightarrow> task_end) \<Rightarrow> task_event list list \<Rightarrow> id option \<Rightarrow> registry \<Rightarrow> (unit + bool \<times> string) \<times> registry" where
  "stop_item_tasks ending during item r =
     (if list_task_ids_by_item_id item r = [] then
        (Inr (True, ''No tasks found for item '' @ (case item of None \<Rightarrow> ''None'' | Some i \<Rightarrow> i) @ ''.''), r)
      else stop_item_loop ending item during 0 True r)"

section \<open>The registry against its log\<close>

text \<open>What happened, the latest step first: which tasks were created for an item, cleaned up, or stopped.\<close>

fun creations :: "task_event list \<Rightarrow> (id \<times> id option) list" where
  "creations [] = []"
| "creations (Created tid item # l) = creations l @ [(tid, item)]"
| "creations (_ # l) = creations l"

fun cleaned :: "task_event list \<Rightarrow> id list" where
  "cleaned [] = []"
| "cleaned (Cleaned tid item # l) = tid # cleaned l"
| "cleaned (_ # l) = cleaned l"

fun ended :: "task_event list \<Rightarrow> id list" where
  "ended [] = []"
| "ended (Cleaned tid item # l) = tid # ended l"
| "ended (Stopped tid # l) = (if tid \<in> fst ` set (creations l) then tid # ended l else ended l)"
| "ended (_ # l) = ended l"

definition created_for :: "id option \<Rightarrow> task_event list \<Rightarrow> id list" where
  "created_for item l = map fst (filter (\<lambda>(t, j). j = item) (creations l))"

definition open_for :: "id option \<Rightarrow> task_event list \<Rightarrow> id list" where
  "open_for item l = filter (\<lambda>t. \<not> (has_item item \<and> t \<in> set (cleaned l))) (created_for item l)"

text \<open>
  The steps the module takes: a new id for every task, and a clean-up only for a task that was created, with the
  item it was created for.
\<close>

inductive task_run :: "task_event list \<Rightarrow> registry \<Rightarrow> bool" where
  start: "task_run [] empty_registry"
| create: "task_run l r \<Longrightarrow> tid \<notin> fst ` set (creations l) \<Longrightarrow>
    task_run (Created tid item # l) (task_step (Created tid item) r)"
| cleanup: "task_run l r \<Longrightarrow> (tid, item) \<in> set (creations l) \<Longrightarrow>
    task_run (Cleaned tid item # l) (task_step (Cleaned tid item) r)"
| stop: "task_run l r \<Longrightarrow> task_run (Stopped tid # l) (task_step (Stopped tid) r)"

inductive_cases task_run_Cons: "task_run (e # l) r"

lemma open_for_simps [simp]:
  "open_for item [] = []"
  "open_for item (Stopped tid # l) = open_for item l"
  by (simp_all add: open_for_def created_for_def)

lemma cleaned_created: "task_run l r \<Longrightarrow> set (cleaned l) \<subseteq> fst ` set (creations l)"
  by (induction rule: task_run.induct) force+

lemma ended_created: "task_run l r \<Longrightarrow> set (ended l) \<subseteq> fst ` set (creations l)"
  by (induction rule: task_run.induct) (auto split: if_splits intro: rev_image_eqI)

lemma distinct_creations: "task_run l r \<Longrightarrow> distinct (map fst (creations l))"
  by (induction rule: task_run.induct) auto

lemma open_for_Created:
  assumes "task_run l r" "tid \<notin> fst ` set (creations l)"
  shows "open_for j (Created tid item # l) = (if j = item then open_for j l @ [tid] else open_for j l)"
  using cleaned_created[OF assms(1)] assms(2) by (auto simp: open_for_def created_for_def)

lemma open_for_Cleaned:
  assumes "task_run l r" "(tid, item) \<in> set (creations l)"
  shows "open_for j (Cleaned tid item # l) = (if j = item \<and> has_item item then remove1 tid (open_for j l) else open_for j l)"
proof -
  have d: "distinct (map fst (creations l))" by (rule distinct_creations[OF assms(1)])
  then have "distinct (created_for j l)"
    unfolding created_for_def by (metis (no_types, lifting) distinct_map_filter)
  then have d': "distinct (open_for j l)" by (simp add: open_for_def)
  have n: "tid \<notin> set (created_for j l)" if "j \<noteq> item"
    using that assms(2) d by (fastforce simp: created_for_def distinct_map inj_on_def)
  have c: "created_for j (Cleaned tid item # l) = created_for j l" by (simp add: created_for_def)
  show ?thesis
    using n d' by (auto simp: open_for_def c distinct_remove1_removeAll removeAll_filter_not_eq intro!: filter_cong)
qed

lemma items_logged:
  "task_run l r \<Longrightarrow> map_of (item_tasks r) j = (if open_for j l = [] then None else Some (open_for j l))"
proof (induction arbitrary: j rule: task_run.induct)
  case (create l r tid item)
  show ?case
    unfolding open_for_Created[OF create.hyps]
    using create.IH[of item] create.IH[of j]
    by (auto simp: create_task_def update_conv' split: option.split list.split if_splits)
next
  case (cleanup l r tid item)
  have i: "list_task_ids_by_item_id item (r\<lparr>task_ids := ts\<rparr>) = open_for item l" for ts
    using cleanup.IH[of item] by (simp add: list_task_ids_by_item_id_def)
  show ?case
    unfolding open_for_Cleaned[OF cleanup.hyps]
    using cleanup.IH[of j]
    by (auto simp: cleanup_task_def i update_conv' delete_conv' remove1_idem Let_def)
qed (simp_all add: empty_registry_def)

lemma tasks_logged: "task_run l r \<Longrightarrow> task_ids r = filter (\<lambda>t. t \<notin> set (ended l)) (map fst (creations l))"
proof (induction rule: task_run.induct)
  case (create l r tid item)
  then show ?case
    using ended_created[OF create.hyps(1)] by (auto simp: create_task_def add_key_def)
next
  case (cleanup l r tid item)
  then show ?case
    using distinct_creations[OF cleanup.hyps(1)]
    by (auto simp: cleanup_task_def Let_def distinct_remove1_removeAll removeAll_filter_not_eq intro!: filter_cong)
next
  case (stop l r tid)
  then show ?case
    using distinct_creations[OF stop.hyps(1)]
    by (auto simp: stop_task_def distinct_remove1_removeAll removeAll_filter_not_eq intro!: filter_cong)
qed (simp add: empty_registry_def)

text \<open>
  C38: The registry follows its log: \<open>list_tasks\<close> lists the created tasks that have neither been stopped nor
  cleaned up; the tasks of an item are those created for it and not cleaned up yet, in the order of their creation, so
  a stopped task stays in its item's list until its clean-up has run; and the tasks created without an item are never
  taken out of the list they share.
\<close>

theorem registry_follows_log:
  assumes "task_run l r"
  shows "list_tasks r = filter (\<lambda>t. t \<notin> set (ended l)) (map fst (creations l)) \<and>
    list_task_ids_by_item_id item r =
      (if has_item item then filter (\<lambda>t. t \<notin> set (cleaned l)) (created_for item l) else created_for item l)"
  using tasks_logged[OF assms] items_logged[OF assms, of item]
  by (auto simp: list_tasks_def list_task_ids_by_item_id_def open_for_def)

lemma created_ends: "set (cleaned l) \<subseteq> set (ended l)"
  by (induction l rule: ended.induct) auto

lemma sample_run:
  "task_run [Created ''t3'' None, Created ''t2'' (Some ''chat''), Created ''t1'' (Some ''chat'')]
     (task_step (Created ''t3'' None) (task_step (Created ''t2'' (Some ''chat'')) (task_step (Created ''t1'' (Some ''chat'')) empty_registry)))"
  by (intro task_run.intros) simp_all

lemmas task_samples = create_task_def cleanup_task_def empty_registry_def add_key_def list_task_ids_by_item_id_def
  has_item_def list_tasks_def stop_task_def created_for_def

lemma registry_follows_log_witness:
  "list_tasks (task_step (Stopped ''t1'') (task_step (Created ''t3'' None) (task_step (Created ''t2'' (Some ''chat''))
     (task_step (Created ''t1'' (Some ''chat'')) empty_registry)))) = [''t2'', ''t3'']"
  using registry_follows_log[OF task_run.stop[OF sample_run, of "''t1''"]] by simp

text \<open>
  C39: Once the clean-up of every created task has run, in whatever order and between whatever other steps, no
  task is listed and no item has an entry left, except that the ids of tasks created without an item stay.
\<close>

theorem registry_drains:
  assumes "task_run l r" "\<forall>(t, item) \<in> set (creations l). t \<in> set (cleaned l)"
  shows "list_tasks r = [] \<and>
    map_of (item_tasks r) item = (if has_item item \<or> created_for item l = [] then None else Some (created_for item l))"
proof -
  have c: "t \<in> set (cleaned l)" if "t \<in> fst ` set (creations l)" for t using assms(2) that by auto
  have "filter (\<lambda>t. t \<notin> set (ended l)) (map fst (creations l)) = []"
    using c created_ends[of l] by (force simp: filter_empty_conv)
  moreover have "open_for item l = (if has_item item then [] else created_for item l)"
    using c by (auto simp: open_for_def created_for_def filter_empty_conv)
  ultimately show ?thesis
    using tasks_logged[OF assms(1)] items_logged[OF assms(1), of item] by (auto simp: list_tasks_def)
qed

lemma registry_drains_witness:
  "list_tasks (fold task_step [Created ''t1'' (Some ''chat''), Created ''t2'' (Some ''chat''), Created ''t3'' None,
     Cleaned ''t2'' (Some ''chat''), Cleaned ''t3'' None, Cleaned ''t1'' (Some ''chat'')] empty_registry) = []"
proof -
  have "task_run [Cleaned ''t1'' (Some ''chat''), Cleaned ''t3'' None, Cleaned ''t2'' (Some ''chat''),
      Created ''t3'' None, Created ''t2'' (Some ''chat''), Created ''t1'' (Some ''chat'')]
    (fold task_step [Created ''t1'' (Some ''chat''), Created ''t2'' (Some ''chat''), Created ''t3'' None,
     Cleaned ''t2'' (Some ''chat''), Cleaned ''t3'' None, Cleaned ''t1'' (Some ''chat'')] empty_registry)"
    unfolding fold_simps comp_def id_def by (intro task_run.intros) simp_all
  from registry_drains[OF this, of None] show ?thesis by simp
qed

section \<open>Stopping the tasks of an item\<close>

lemma stop_loop_step:
  assumes "i < length (live_list item attached r)" "live_list item attached r ! i = t" "t \<in> set (task_ids r)" "ending t \<noteq> Failed"
  shows "stop_item_loop ending item during i attached r =
    (let (attached', r') = (case during of [] \<Rightarrow> (attached, r\<lparr>task_ids := remove1 t (task_ids r)\<rparr>)
       | es # _ \<Rightarrow> run_steps item es attached (r\<lparr>task_ids := remove1 t (task_ids r)\<rparr>))
     in stop_item_loop ending item (tl during) (Suc i) attached' r')"
  using assms by (subst stop_item_loop.simps) (cases "ending t"; simp add: stop_task_def split: prod.split list.split)

lemma stop_loop_end:
  "length (live_list item attached r) \<le> i \<Longrightarrow> stop_item_loop ending item during i attached r = (Inr (all_stopped item), r)"
  by (subst stop_item_loop.simps) simp

lemma stop_loop_quiet:
  "list_task_ids_by_item_id item r = ts \<Longrightarrow> distinct (drop i ts) \<Longrightarrow> set (drop i ts) \<subseteq> set (task_ids r) \<Longrightarrow>
     (\<And>t. t \<in> set ts \<Longrightarrow> ending t \<noteq> Failed) \<Longrightarrow>
     stop_item_loop ending item [] i True r = (Inr (all_stopped item), r\<lparr>task_ids := fold remove1 (drop i ts) (task_ids r)\<rparr>)"
proof (induction "length ts - i" arbitrary: i r)
  case 0
  then show ?case by (simp add: stop_loop_end live_list_def)
next
  case (Suc n)
  then have i: "i < length ts" by simp
  let ?r = "r\<lparr>task_ids := remove1 (ts ! i) (task_ids r)\<rparr>"
  have d: "drop i ts = ts ! i # drop (Suc i) ts" using i by (rule Cons_nth_drop_Suc[symmetric])
  have l: "list_task_ids_by_item_id item ?r = ts" using Suc.prems(1) by (simp add: list_task_ids_by_item_id_def)
  have sub: "set (drop (Suc i) ts) \<subseteq> set (task_ids ?r)"
  proof
    fix t
    assume t: "t \<in> set (drop (Suc i) ts)"
    then have "t \<noteq> ts ! i" using Suc.prems(2) d by auto
    then show "t \<in> set (task_ids ?r)" using t Suc.prems(3) d by auto
  qed
  have "stop_item_loop ending item [] i True r = stop_item_loop ending item [] (Suc i) True ?r"
    using Suc.prems i d by (subst stop_loop_step[where t = "ts ! i"]) (auto simp: live_list_def)
  also have "\<dots> = (Inr (all_stopped item), ?r\<lparr>task_ids := fold remove1 (drop (Suc i) ts) (task_ids ?r)\<rparr>)"
    using Suc.hyps(2) Suc.prems d sub by (intro Suc.hyps(1) l) auto
  finally show ?case by (simp add: d)
qed

lemma fold_remove1_set: "distinct xs \<Longrightarrow> set (fold remove1 ts xs) = set xs - set ts"
  by (induction ts arbitrary: xs) auto

text \<open>
  When no other step runs in between, stopping the tasks of an item takes every one of them out of the
  registry, keeps the others and reports success.
\<close>

lemma stop_item_tasks_quiet:
  assumes "distinct (task_ids r)" "distinct (list_task_ids_by_item_id item r)"
    and "set (list_task_ids_by_item_id item r) \<subseteq> set (task_ids r)"
    and "\<forall>t \<in> set (list_task_ids_by_item_id item r). ending t \<noteq> Failed"
    and "stop_item_tasks ending [] item r = (res, r')"
  shows "(\<exists>msg. res = Inr (True, msg)) \<and>
    set (list_tasks r') = set (list_tasks r) - set (list_task_ids_by_item_id item r)"
proof (cases "list_task_ids_by_item_id item r = []")
  case False
  then show ?thesis
    using stop_loop_quiet[of item r _ 0 ending] assms
    by (auto simp: stop_item_tasks_def all_stopped_def list_tasks_def fold_remove1_set)
qed (use assms(5) in \<open>auto simp: stop_item_tasks_def list_tasks_def\<close>)

definition chat_tasks :: registry where
  "chat_tasks = \<lparr>task_ids = [''t0'', ''t1'', ''t2'', ''t3''],
     item_tasks = [(Some ''other'', [''t0'']), (Some ''chat'', [''t1'', ''t2'', ''t3''])]\<rparr>"

lemma stop_item_tasks_quiet_witness:
  "set (list_tasks (snd (stop_item_tasks (\<lambda>_. Was_Cancelled) [] (Some ''chat'') chat_tasks))) = {''t0''}"
  using stop_item_tasks_quiet[of chat_tasks "Some ''chat''" "\<lambda>_. Was_Cancelled"
      "fst (stop_item_tasks (\<lambda>_. Was_Cancelled) [] (Some ''chat'') chat_tasks)"
      "snd (stop_item_tasks (\<lambda>_. Was_Cancelled) [] (Some ''chat'') chat_tasks)"]
  by (auto simp: chat_tasks_def list_task_ids_by_item_id_def list_tasks_def)

text \<open>
  Stopping goes by index through the list the clean-ups shorten: of three tasks the last is skipped when
  the clean-up of the first runs while the second is awaited. It keeps running, and success is reported.
\<close>

lemma stop_item_tasks_skips:
  assumes "list_task_ids_by_item_id item r = [a, b, c]" "distinct [a, b, c]" "has_item item"
    and "distinct (task_ids r)" "{a, b, c} \<subseteq> set (task_ids r)" "ending a \<noteq> Failed" "ending b \<noteq> Failed"
    and "stop_item_tasks ending [[], [Cleaned a item]] item r = (res, r')"
  shows "res = Inr (all_stopped item) \<and> c \<in> set (list_tasks r') \<and> list_task_ids_by_item_id item r' = [b, c]"
proof -
  let ?r1 = "r\<lparr>task_ids := remove1 a (task_ids r)\<rparr>"
  let ?r2 = "r\<lparr>task_ids := remove1 b (remove1 a (task_ids r))\<rparr>"
  let ?r3 = "cleanup_task a item ?r2"
  have l: "list_task_ids_by_item_id item (r\<lparr>task_ids := ts\<rparr>) = [a, b, c]" for ts
    using assms(1) by (simp add: list_task_ids_by_item_id_def)
  have c3: "?r3 = ?r2\<lparr>task_ids := remove1 a (task_ids ?r2), item_tasks := AList.update item [b, c] (item_tasks r)\<rparr>"
    using assms(2,3) by (simp add: cleanup_task_def l Let_def remove1_idem)
  have r3: "list_task_ids_by_item_id item ?r3 = [b, c]" "map_of (item_tasks ?r3) item \<noteq> None"
      "task_ids ?r3 = remove1 a (task_ids ?r2)"
    unfolding c3 by (simp_all add: list_task_ids_by_item_id_def update_conv')
  have "stop_item_loop ending item [[], [Cleaned a item]] 0 True r = stop_item_loop ending item [[Cleaned a item]] 1 True ?r1"
    using assms by (subst stop_loop_step[where t = a]) (auto simp: live_list_def)
  also have "\<dots> = stop_item_loop ending item [] 2 True ?r3"
    using assms r3(2) by (subst stop_loop_step[where t = b]) (auto simp: live_list_def l Let_def numeral_2_eq_2)
  also have "\<dots> = (Inr (all_stopped item), ?r3)"
    by (rule stop_loop_end) (simp add: live_list_def r3)
  finally show ?thesis
    using assms r3 by (auto simp: stop_item_tasks_def list_tasks_def)
qed

lemma stop_item_tasks_skips_witness:
  "''t3'' \<in> set (list_tasks (snd (stop_item_tasks (\<lambda>_. Was_Cancelled) [[], [Cleaned ''t1'' (Some ''chat'')]] (Some ''chat'') chat_tasks)))"
  using stop_item_tasks_skips[of "Some ''chat''" chat_tasks "''t1''" "''t2''" "''t3''" "\<lambda>_. Was_Cancelled"
      "fst (stop_item_tasks (\<lambda>_. Was_Cancelled) [[], [Cleaned ''t1'' (Some ''chat'')]] (Some ''chat'') chat_tasks)"
      "snd (stop_item_tasks (\<lambda>_. Was_Cancelled) [[], [Cleaned ''t1'' (Some ''chat'')]] (Some ''chat'') chat_tasks)"]
  by (simp add: chat_tasks_def list_task_ids_by_item_id_def has_item_def)

end
