(* ===== verification/Files.thy ===== *)
theory Files
  imports Resources
begin

text \<open>
  \<^verbatim>\<open>models/files.py\<close> and \<^verbatim>\<open>models/knowledge.py\<close>: the files, the knowledge bases and the links between
  them. \<open>fk\<close> says whether the database enforces foreign keys: then a link needs its file and its
  knowledge base, and goes with either of them.
\<close>

record file_row =
  fl_id :: id
  fl_user_id :: id
  fl_hash :: "string option"
  fl_filename :: string
  fl_path :: "string option"
  fl_data :: "dict option"
  fl_meta :: "dict option"
  fl_access_control :: "dict option"
  fl_created_at :: time
  fl_updated_at :: time

record knowledge =
  kn_id :: id
  kn_user_id :: id
  kn_name :: string
  kn_description :: string
  kn_meta :: "dict option"
  kn_access_control :: "dict option"
  kn_created_at :: time
  kn_updated_at :: time

record knowledge_file =
  kf_id :: id
  kf_knowledge_id :: id
  kf_file_id :: id
  kf_user_id :: id
  kf_created_at :: time
  kf_updated_at :: time

record library =
  lb_files :: "file_row list"
  lb_knowledge :: "knowledge list"
  lb_links :: "knowledge_file list"

record file_metadata =
  fm_id :: id
  fm_hash :: "string option"
  fm_meta :: dict
  fm_created_at :: time
  fm_updated_at :: time

section \<open>Files\<close>

record file_form =
  ff_id :: id
  ff_hash :: "string option"
  ff_filename :: string
  ff_path :: string
  ff_data :: dict
  ff_meta :: dict
  ff_access_control :: "dict option"

definition new_file :: "time \<Rightarrow> time \<Rightarrow> id \<Rightarrow> file_form \<Rightarrow> file_row" where
  "new_file t1 t2 user_id form =
     \<lparr>fl_id = ff_id form, fl_user_id = user_id, fl_hash = ff_hash form, fl_filename = ff_filename form,
      fl_path = Some (ff_path form), fl_data = Some (ff_data form), fl_meta = Some (ff_meta form),
      fl_access_control = ff_access_control form, fl_created_at = t1, fl_updated_at = t2\<rparr>"

definition insert_new_file :: "time \<Rightarrow> time \<Rightarrow> id \<Rightarrow> file_form \<Rightarrow> library \<Rightarrow> file_row option \<times> library" where
  "insert_new_file t1 t2 user_id form s =
     (let f = new_file t1 t2 user_id form
      in case add_row fl_id f (lb_files s) of None \<Rightarrow> (None, s) | Some fs \<Rightarrow> (Some f, s\<lparr>lb_files := fs\<rparr>))"

definition get_file_by_id :: "id \<Rightarrow> library \<Rightarrow> file_row option" where
  "get_file_by_id fid s = row_get fl_id fid (lb_files s)"

definition get_file_by_id_and_user_id :: "id \<Rightarrow> id \<Rightarrow> library \<Rightarrow> file_row option" where
  "get_file_by_id_and_user_id fid user_id s = first_row (\<lambda>f. fl_id f = fid \<and> fl_user_id f = user_id) (lb_files s)"

text \<open>The answer demands a dictionary as \<open>meta\<close>.\<close>

definition file_metadata_of :: "file_row \<Rightarrow> file_metadata option" where
  "file_metadata_of f = (case fl_meta f of
     None \<Rightarrow> None
   | Some meta \<Rightarrow> Some \<lparr>fm_id = fl_id f, fm_hash = fl_hash f, fm_meta = meta, fm_created_at = fl_created_at f, fm_updated_at = fl_updated_at f\<rparr>)"

definition metadata_or_raise :: "file_row \<Rightarrow> py_error + file_metadata" where
  "metadata_or_raise f = (case file_metadata_of f of None \<Rightarrow> Inl ValueError | Some m \<Rightarrow> Inr m)"

definition get_file_metadata_by_id :: "id \<Rightarrow> library \<Rightarrow> file_metadata option" where
  "get_file_metadata_by_id fid s = (case get_file_by_id fid s of None \<Rightarrow> None | Some f \<Rightarrow> file_metadata_of f)"

definition get_files :: "library \<Rightarrow> file_row list" where
  "get_files s = lb_files s"

definition check_file_access_by_user_id :: "id \<Rightarrow> id \<Rightarrow> string \<Rightarrow> library \<Rightarrow> bool" where
  "check_file_access_by_user_id fid user_id permission s =
     (case get_file_by_id fid s of None \<Rightarrow> False | Some f \<Rightarrow> fl_user_id f = user_id)"

definition get_files_by_ids :: "id list \<Rightarrow> library \<Rightarrow> file_row list" where
  "get_files_by_ids ids s = order_desc fl_updated_at (all_rows (\<lambda>f. fl_id f \<in> set ids) (lb_files s))"

definition get_file_metadatas_by_ids :: "id list \<Rightarrow> library \<Rightarrow> py_error + file_metadata list" where
  "get_file_metadatas_by_ids ids s = each metadata_or_raise (get_files_by_ids ids s)"

definition get_files_by_user_id :: "id \<Rightarrow> library \<Rightarrow> file_row list" where
  "get_files_by_user_id user_id s = all_rows (\<lambda>f. fl_user_id f = user_id) (lb_files s)"

text \<open>The updates load the row first; there is no row, no update and no result.\<close>

definition update_file_where :: "id \<Rightarrow> (file_row \<Rightarrow> file_row) \<Rightarrow> library \<Rightarrow> file_row option \<times> library" where
  "update_file_where fid g s =
     (case get_file_by_id fid s of
        None \<Rightarrow> (None, s)
      | Some f \<Rightarrow> (Some (g f), s\<lparr>lb_files := upd_rows (\<lambda>f. fl_id f = fid) g (lb_files s)\<rparr>))"

definition merged :: "dict option \<Rightarrow> dict \<Rightarrow> dict option" where
  "merged old new = Some (dmerge (case old of None \<Rightarrow> [] | Some d \<Rightarrow> d) new)"

record file_update_form =
  fu_hash :: "string option"
  fu_data :: "dict option"
  fu_meta :: "dict option"

definition apply_file_update :: "time \<Rightarrow> file_update_form \<Rightarrow> file_row \<Rightarrow> file_row" where
  "apply_file_update now form f = f\<lparr>
     fl_hash := (case fu_hash form of None \<Rightarrow> fl_hash f | Some h \<Rightarrow> Some h),
     fl_data := (case fu_data form of None \<Rightarrow> fl_data f | Some d \<Rightarrow> merged (fl_data f) d),
     fl_meta := (case fu_meta form of None \<Rightarrow> fl_meta f | Some d \<Rightarrow> merged (fl_meta f) d),
     fl_updated_at := now\<rparr>"

definition update_file_by_id :: "time \<Rightarrow> id \<Rightarrow> file_update_form \<Rightarrow> library \<Rightarrow> file_row option \<times> library" where
  "update_file_by_id now fid form = update_file_where fid (apply_file_update now form)"

definition update_file_hash_by_id :: "id \<Rightarrow> string \<Rightarrow> library \<Rightarrow> file_row option \<times> library" where
  "update_file_hash_by_id fid h = update_file_where fid (\<lambda>f. f\<lparr>fl_hash := Some h\<rparr>)"

definition update_file_data_by_id :: "id \<Rightarrow> dict \<Rightarrow> library \<Rightarrow> file_row option \<times> library" where
  "update_file_data_by_id fid data = update_file_where fid (\<lambda>f. f\<lparr>fl_data := merged (fl_data f) data\<rparr>)"

definition update_file_metadata_by_id :: "id \<Rightarrow> dict \<Rightarrow> library \<Rightarrow> file_row option \<times> library" where
  "update_file_metadata_by_id fid meta = update_file_where fid (\<lambda>f. f\<lparr>fl_meta := merged (fl_meta f) meta\<rparr>)"

definition cascade_links :: "bool \<Rightarrow> library \<Rightarrow> library" where
  "cascade_links fk s = (if fk then s\<lparr>lb_links := del_rows (\<lambda>l. kf_file_id l \<notin> fl_id ` set (lb_files s) \<or>
      kf_knowledge_id l \<notin> kn_id ` set (lb_knowledge s)) (lb_links s)\<rparr> else s)"

definition delete_file_by_id :: "bool \<Rightarrow> id \<Rightarrow> library \<Rightarrow> bool \<times> library" where
  "delete_file_by_id fk fid s = (True, cascade_links fk (s\<lparr>lb_files := row_del fl_id fid (lb_files s)\<rparr>))"

definition delete_all_files :: "bool \<Rightarrow> library \<Rightarrow> bool \<times> library" where
  "delete_all_files fk s = (True, cascade_links fk (s\<lparr>lb_files := []\<rparr>))"

section \<open>Knowledge bases\<close>

record knowledge_form =
  kw_name :: string
  kw_description :: string
  kw_access_control :: "dict option"

definition new_knowledge :: "id \<Rightarrow> time \<Rightarrow> time \<Rightarrow> id \<Rightarrow> knowledge_form \<Rightarrow> knowledge" where
  "new_knowledge kid t1 t2 user_id form =
     \<lparr>kn_id = kid, kn_user_id = user_id, kn_name = kw_name form, kn_description = kw_description form, kn_meta = None,
      kn_access_control = kw_access_control form, kn_created_at = t1, kn_updated_at = t2\<rparr>"

definition insert_new_knowledge ::
  "id \<Rightarrow> time \<Rightarrow> time \<Rightarrow> id \<Rightarrow> knowledge_form \<Rightarrow> library \<Rightarrow> knowledge option \<times> library" where
  "insert_new_knowledge kid t1 t2 user_id form s =
     (let k = new_knowledge kid t1 t2 user_id form
      in case add_row kn_id k (lb_knowledge s) of None \<Rightarrow> (None, s) | Some ks \<Rightarrow> (Some k, s\<lparr>lb_knowledge := ks\<rparr>))"

definition get_knowledge_bases :: "user_db \<Rightarrow> library \<Rightarrow> (knowledge \<times> user_response option) list" where
  "get_knowledge_bases udb s = with_owners kn_user_id udb (order_desc kn_updated_at (lb_knowledge s))"

definition get_knowledge_by_id :: "id \<Rightarrow> library \<Rightarrow> knowledge option" where
  "get_knowledge_by_id kid s = row_get kn_id kid (lb_knowledge s)"

definition check_knowledge_access_by_user_id :: "id \<Rightarrow> id \<Rightarrow> string \<Rightarrow> group_db \<Rightarrow> library \<Rightarrow> py_error + bool" where
  "check_knowledge_access_by_user_id kid user_id permission gdb s =
     (case get_knowledge_by_id kid s of
        None \<Rightarrow> Inr False
      | Some k \<Rightarrow> owner_or_access user_id permission (map grp_id (get_groups_by_member_id user_id gdb)) gdb
          (kn_user_id k) (kn_access_control k))"

definition get_knowledge_bases_by_user_id ::
  "id \<Rightarrow> string \<Rightarrow> group_db \<Rightarrow> user_db \<Rightarrow> library \<Rightarrow> py_error + (knowledge \<times> user_response option) list" where
  "get_knowledge_bases_by_user_id user_id permission gdb udb s =
     rows_of_user kn_user_id kn_access_control user_id permission gdb (get_knowledge_bases udb s)"

text \<open>The joins pair each row with its links.\<close>

definition get_knowledges_by_file_id :: "id \<Rightarrow> library \<Rightarrow> knowledge list" where
  "get_knowledges_by_file_id fid s =
     concat (map (\<lambda>k. map (\<lambda>l. k) (all_rows (\<lambda>l. kf_knowledge_id l = kn_id k \<and> kf_file_id l = fid) (lb_links s))) (lb_knowledge s))"

definition get_files_by_id :: "id \<Rightarrow> library \<Rightarrow> file_row list" where
  "get_files_by_id kid s =
     concat (map (\<lambda>f. map (\<lambda>l. f) (all_rows (\<lambda>l. kf_file_id l = fl_id f \<and> kf_knowledge_id l = kid) (lb_links s))) (lb_files s))"

text \<open>One file whose metadata is missing empties the list.\<close>

definition get_file_metadatas_by_id :: "id \<Rightarrow> library \<Rightarrow> file_metadata list" where
  "get_file_metadatas_by_id kid s =
     (case each metadata_or_raise (get_files_by_id kid s) of Inl e \<Rightarrow> [] | Inr ms \<Rightarrow> ms)"

definition link_key :: "knowledge_file \<Rightarrow> id \<times> id" where
  "link_key l = (kf_knowledge_id l, kf_file_id l)"

definition add_link :: "bool \<Rightarrow> knowledge_file \<Rightarrow> library \<Rightarrow> library option" where
  "add_link fk l s =
     (if kf_id l \<in> kf_id ` set (lb_links s) \<or> link_key l \<in> link_key ` set (lb_links s)
         \<or> fk \<and> \<not> (kf_knowledge_id l \<in> kn_id ` set (lb_knowledge s) \<and> kf_file_id l \<in> fl_id ` set (lb_files s))
      then None else Some (s\<lparr>lb_links := lb_links s @ [l]\<rparr>))"

definition new_link :: "id \<Rightarrow> time \<Rightarrow> time \<Rightarrow> id \<Rightarrow> id \<Rightarrow> id \<Rightarrow> knowledge_file" where
  "new_link lid t1 t2 kid fid user_id =
     \<lparr>kf_id = lid, kf_knowledge_id = kid, kf_file_id = fid, kf_user_id = user_id, kf_created_at = t1, kf_updated_at = t2\<rparr>"

definition add_file_to_knowledge_by_id ::
  "bool \<Rightarrow> id \<Rightarrow> time \<Rightarrow> time \<Rightarrow> id \<Rightarrow> id \<Rightarrow> id \<Rightarrow> library \<Rightarrow> knowledge_file option \<times> library" where
  "add_file_to_knowledge_by_id fk lid t1 t2 kid fid user_id s =
     (let l = new_link lid t1 t2 kid fid user_id
      in case add_link fk l s of None \<Rightarrow> (None, s) | Some s' \<Rightarrow> (Some l, s'))"

definition remove_file_from_knowledge_by_id :: "id \<Rightarrow> id \<Rightarrow> library \<Rightarrow> bool \<times> library" where
  "remove_file_from_knowledge_by_id kid fid s =
     (True, s\<lparr>lb_links := del_rows (\<lambda>l. kf_knowledge_id l = kid \<and> kf_file_id l = fid) (lb_links s)\<rparr>)"

definition reset_knowledge_by_id :: "time \<Rightarrow> id \<Rightarrow> library \<Rightarrow> knowledge option \<times> library" where
  "reset_knowledge_by_id now kid s =
     (let s1 = s\<lparr>lb_links := del_rows (\<lambda>l. kf_knowledge_id l = kid) (lb_links s),
                 lb_knowledge := upd_rows (\<lambda>k. kn_id k = kid) (\<lambda>k. k\<lparr>kn_updated_at := now\<rparr>) (lb_knowledge s)\<rparr>
      in (get_knowledge_by_id kid s1, s1))"

definition apply_knowledge_form :: "time \<Rightarrow> knowledge_form \<Rightarrow> knowledge \<Rightarrow> knowledge" where
  "apply_knowledge_form now form k = k\<lparr>kn_name := kw_name form, kn_description := kw_description form,
     kn_access_control := kw_access_control form, kn_updated_at := now\<rparr>"

definition update_knowledge_by_id :: "time \<Rightarrow> id \<Rightarrow> knowledge_form \<Rightarrow> library \<Rightarrow> knowledge option \<times> library" where
  "update_knowledge_by_id now kid form s =
     (let s1 = s\<lparr>lb_knowledge := upd_rows (\<lambda>k. kn_id k = kid) (apply_knowledge_form now form) (lb_knowledge s)\<rparr>
      in (get_knowledge_by_id kid s1, s1))"

text \<open>There is no column \<open>data\<close>: the update raises before it reaches the database.\<close>

definition update_knowledge_data_by_id :: "id \<Rightarrow> dict \<Rightarrow> library \<Rightarrow> knowledge option \<times> library" where
  "update_knowledge_data_by_id kid data s = (None, s)"

definition delete_knowledge_by_id :: "bool \<Rightarrow> id \<Rightarrow> library \<Rightarrow> bool \<times> library" where
  "delete_knowledge_by_id fk kid s = (True, cascade_links fk (s\<lparr>lb_knowledge := row_del kn_id kid (lb_knowledge s)\<rparr>))"

definition delete_all_knowledge :: "bool \<Rightarrow> library \<Rightarrow> bool \<times> library" where
  "delete_all_knowledge fk s = (True, cascade_links fk (s\<lparr>lb_knowledge := []\<rparr>))"

section \<open>Constraints\<close>

definition library_ok :: "bool \<Rightarrow> library \<Rightarrow> bool" where
  "library_ok fk s \<longleftrightarrow> unique_key fl_id (lb_files s) \<and> unique_key kn_id (lb_knowledge s) \<and>
     unique_key kf_id (lb_links s) \<and> unique_key link_key (lb_links s) \<and>
     (fk \<longrightarrow> list_all (\<lambda>l. kf_file_id l \<in> fl_id ` set (lb_files s) \<and> kf_knowledge_id l \<in> kn_id ` set (lb_knowledge s)) (lb_links s))"

datatype library_op =
    Insert_File time time id file_form
  | Update_File time id file_update_form
  | Set_Hash id string
  | Set_Data id dict
  | Set_Meta id dict
  | Delete_File id
  | Delete_All_Files
  | Insert_Base id time time id knowledge_form
  | Update_Base time id knowledge_form
  | Reset_Base time id
  | Delete_Base id
  | Delete_All_Bases
  | Link id time time id id id
  | Unlink id id

fun library_step :: "bool \<Rightarrow> library_op \<Rightarrow> library \<Rightarrow> library" where
  "library_step fk (Insert_File t1 t2 u form) s = snd (insert_new_file t1 t2 u form s)"
| "library_step fk (Update_File now fid form) s = snd (update_file_by_id now fid form s)"
| "library_step fk (Set_Hash fid h) s = snd (update_file_hash_by_id fid h s)"
| "library_step fk (Set_Data fid d) s = snd (update_file_data_by_id fid d s)"
| "library_step fk (Set_Meta fid d) s = snd (update_file_metadata_by_id fid d s)"
| "library_step fk (Delete_File fid) s = snd (delete_file_by_id fk fid s)"
| "library_step fk Delete_All_Files s = snd (delete_all_files fk s)"
| "library_step fk (Insert_Base kid t1 t2 u form) s = snd (insert_new_knowledge kid t1 t2 u form s)"
| "library_step fk (Update_Base now kid form) s = snd (update_knowledge_by_id now kid form s)"
| "library_step fk (Reset_Base now kid) s = snd (reset_knowledge_by_id now kid s)"
| "library_step fk (Delete_Base kid) s = snd (delete_knowledge_by_id fk kid s)"
| "library_step fk Delete_All_Bases s = snd (delete_all_knowledge fk s)"
| "library_step fk (Link lid t1 t2 kid fid u) s = snd (add_file_to_knowledge_by_id fk lid t1 t2 kid fid u s)"
| "library_step fk (Unlink kid fid) s = snd (remove_file_from_knowledge_by_id kid fid s)"

lemma list_all_del_rows: "list_all p rs \<Longrightarrow> list_all p (del_rows q rs)"
  by (auto simp: list_all_iff)

lemma key_set_upd: "(\<And>r. key (g r) = key r) \<Longrightarrow> key ` set (upd_rows p g rs) = key ` set rs"
  using map_key_upd_rows[of key g p rs] by (metis set_map)

lemma library_ok_update_file:
  "library_ok fk s \<Longrightarrow> (\<And>f. fl_id (g f) = fl_id f) \<Longrightarrow> library_ok fk (snd (update_file_where fid g s))"
  by (simp add: library_ok_def update_file_where_def unique_key_upd_rows key_set_upd split: option.split)

lemma library_ok_update_base:
  "library_ok fk s \<Longrightarrow> (\<And>k. kn_id (g k) = kn_id k) \<Longrightarrow> library_ok fk (s\<lparr>lb_knowledge := upd_rows p g (lb_knowledge s)\<rparr>)"
  by (simp add: library_ok_def unique_key_upd_rows key_set_upd)

lemma library_ok_del_links:
  "library_ok fk s \<Longrightarrow> library_ok fk (s\<lparr>lb_links := del_rows p (lb_links s)\<rparr>)"
  by (auto simp: library_ok_def list_all_del_rows unique_key_del_rows)

lemma library_ok_cascade:
  "unique_key fl_id fs \<Longrightarrow> unique_key kn_id ks \<Longrightarrow> library_ok fk s \<Longrightarrow>
     library_ok fk (cascade_links fk (s\<lparr>lb_files := fs, lb_knowledge := ks\<rparr>))"
  by (auto simp: library_ok_def cascade_links_def list_all_iff unique_key_del_rows)

lemma library_ok_more: "library_ok fk s \<Longrightarrow> add_row fl_id f (lb_files s) = Some fs \<Longrightarrow> library_ok fk (s\<lparr>lb_files := fs\<rparr>)"
  "library_ok fk s \<Longrightarrow> add_row kn_id k (lb_knowledge s) = Some ks \<Longrightarrow> library_ok fk (s\<lparr>lb_knowledge := ks\<rparr>)"
  by (auto simp: library_ok_def add_row_Some_iff unique_key_append list_all_iff)

lemma library_ok_add_link: "library_ok fk s \<Longrightarrow> add_link fk l s = Some s' \<Longrightarrow> library_ok fk s'"
  by (auto simp: library_ok_def add_link_def unique_key_append split: if_splits)

lemma library_ok_step: "library_ok fk s \<Longrightarrow> library_ok fk (library_step fk x s)"
proof (cases x)
  case (Update_File now fid form)
  then show "library_ok fk s \<Longrightarrow> ?thesis"
    by (simp add: update_file_by_id_def library_ok_update_file apply_file_update_def)
next
  case (Delete_File fid)
  assume ok: "library_ok fk s"
  then show ?thesis
    using library_ok_cascade[of "row_del fl_id fid (lb_files s)" "lb_knowledge s" fk s] Delete_File
    by (auto simp: delete_file_by_id_def library_ok_def unique_key_row_del)
next
  case Delete_All_Files
  assume ok: "library_ok fk s"
  then show ?thesis
    using library_ok_cascade[of "[]" "lb_knowledge s" fk s] Delete_All_Files by (auto simp: delete_all_files_def library_ok_def)
next
  case (Delete_Base kid)
  assume ok: "library_ok fk s"
  then show ?thesis
    using library_ok_cascade[of "lb_files s" "row_del kn_id kid (lb_knowledge s)" fk s] Delete_Base
    by (auto simp: delete_knowledge_by_id_def library_ok_def unique_key_row_del)
next
  case Delete_All_Bases
  assume ok: "library_ok fk s"
  then show ?thesis
    using library_ok_cascade[of "lb_files s" "[]" fk s] Delete_All_Bases by (auto simp: delete_all_knowledge_def library_ok_def)
next
  case (Reset_Base now kid)
  assume ok: "library_ok fk s"
  then show ?thesis
    using library_ok_update_base[OF library_ok_del_links[of fk s "\<lambda>l. kf_knowledge_id l = kid"], of "\<lambda>k. k\<lparr>kn_updated_at := now\<rparr>" "\<lambda>k. kn_id k = kid"] Reset_Base
    by (simp add: reset_knowledge_by_id_def Let_def)
qed (auto simp: insert_new_file_def insert_new_knowledge_def Let_def library_ok_more update_file_hash_by_id_def
    update_file_data_by_id_def update_file_metadata_by_id_def library_ok_update_file update_knowledge_by_id_def
    library_ok_update_base apply_knowledge_form_def add_file_to_knowledge_by_id_def library_ok_add_link
    remove_file_from_knowledge_by_id_def library_ok_del_links split: option.splits)

lemma library_ok_run: "library_ok fk s \<Longrightarrow> library_ok fk (fold (library_step fk) xs s)"
  by (induction xs arbitrary: s) (auto simp: library_ok_step)

lemma at_most_one_link:
  "unique_key link_key ls \<Longrightarrow> length (all_rows (\<lambda>l. kf_file_id l = i \<and> kf_knowledge_id l = kid) ls) \<le> 1"
  by (induction ls) (auto simp: link_key_def image_iff all_rows_def filter_empty_conv)

lemma distinct_paired:
  "distinct rs \<Longrightarrow> (\<And>r. length (g r) \<le> 1) \<Longrightarrow> distinct (concat (map (\<lambda>r. map (\<lambda>l. r) (g r)) rs))"
proof (induction rs)
  case (Cons r rs)
  have "length (g r) = 0 \<or> length (g r) = 1" using Cons.prems(2)[of r] by linarith
  then have "g r = [] \<or> (\<exists>x. g r = [x])" by (auto simp: length_Suc_conv)
  then show ?case using Cons by auto
qed simp

lemma linked_once:
  assumes "library_ok fk s"
  shows "distinct (get_files_by_id kid s) \<and>
    (f \<in> set (get_files_by_id kid s) \<longleftrightarrow> f \<in> set (lb_files s) \<and> (kid, fl_id f) \<in> link_key ` set (lb_links s))"
proof -
  have "distinct (lb_files s)"
    using assms unfolding library_ok_def unique_key_def by (metis distinct_map)
  then have "distinct (get_files_by_id kid s)"
    unfolding get_files_by_id_def using assms by (intro distinct_paired at_most_one_link) (simp_all add: library_ok_def)
  then show ?thesis by (force simp: get_files_by_id_def link_key_def)
qed

lemma linked_both_ways:
  "f \<in> set (lb_files s) \<Longrightarrow> k \<in> set (lb_knowledge s) \<Longrightarrow>
     f \<in> set (get_files_by_id (kn_id k) s) \<longleftrightarrow> k \<in> set (get_knowledges_by_file_id (fl_id f) s)"
  by (auto simp: get_files_by_id_def get_knowledges_by_file_id_def)

text \<open>
  Under every sequence of operations keys stay unique, no file is linked twice to a knowledge base and,
  with foreign keys, no link outlives its file or base: so a base lists each of its files once, and a file
  is listed by a base exactly if the base is found through the file.
\<close>

lemma library_links_sound:
  assumes "library_ok fk s" "s' = fold (library_step fk) xs s" "f \<in> set (lb_files s')" "k \<in> set (lb_knowledge s')"
  shows "library_ok fk s' \<and> distinct (get_files_by_id (kn_id k) s') \<and>
    (f \<in> set (get_files_by_id (kn_id k) s') \<longleftrightarrow> k \<in> set (get_knowledges_by_file_id (fl_id f) s'))"
  using library_ok_run[OF assms(1), of xs] assms(2) linked_once linked_both_ways[OF assms(3,4)] by blast

definition report :: file_row where
  "report = \<lparr>fl_id = ''f1'', fl_user_id = ''lee'', fl_hash = None, fl_filename = ''report.txt'', fl_path = None,
     fl_data = Some [(''content'', JStr ''text'')], fl_meta = Some [(''name'', JStr ''report.txt'')],
     fl_access_control = None, fl_created_at = 1, fl_updated_at = 1\<rparr>"

definition kims_base :: knowledge where
  "kims_base = \<lparr>kn_id = ''k1'', kn_user_id = ''kim'', kn_name = ''Base'', kn_description = [], kn_meta = None,
     kn_access_control = Some [], kn_created_at = 2, kn_updated_at = 2\<rparr>"

definition sample_library :: library where
  "sample_library = \<lparr>lb_files = [report], lb_knowledge = [kims_base], lb_links = []\<rparr>"

lemmas library_samples = report_def kims_base_def sample_library_def

lemma sample_library_ok: "library_ok fk sample_library"
  by (simp add: sample_library_def library_ok_def)

lemma library_links_sound_witness:
  "report \<in> set (get_files_by_id ''k1'' (fold (library_step True) [Link ''l1'' 3 3 ''k1'' ''f1'' ''kim'', Link ''l2'' 4 4 ''k1'' ''f1'' ''lee''] sample_library)) \<longleftrightarrow>
   kims_base \<in> set (get_knowledges_by_file_id ''f1'' (fold (library_step True) [Link ''l1'' 3 3 ''k1'' ''f1'' ''kim'', Link ''l2'' 4 4 ''k1'' ''f1'' ''lee''] sample_library))"
  using library_links_sound[OF sample_library_ok refl, of report True "[Link ''l1'' 3 3 ''k1'' ''f1'' ''kim'', Link ''l2'' 4 4 ''k1'' ''f1'' ''lee'']" kims_base]
  by (simp add: library_samples add_file_to_knowledge_by_id_def add_link_def new_link_def link_key_def Let_def)

end
