(* ===== verification/Library_Handlers.thy ===== *)
theory Library_Handlers
  imports Files
begin

text \<open>
  \<^verbatim>\<open>routers/files.py\<close>, \<^verbatim>\<open>routers/knowledge.py\<close> and \<open>process_file\<close> of \<^verbatim>\<open>routers/retrieval.py\<close>:
  the handlers of files and knowledge bases over the tables of \<^theory_text>\<open>Files\<close>. What lies outside is the
  argument \<open>rt\<close>: whether the vector database holds chunks of a file, the text a document loader
  extracts, the digest, and whether saving, deleting and file storage succeed. A failed call is \<open>Inl ()\<close>.
\<close>

record retrieval =
  rt_query :: "file_row \<Rightarrow> unit + bool"
  rt_load :: "file_row \<Rightarrow> unit + string"
  rt_digest :: "string \<Rightarrow> string"
  rt_save :: "id \<Rightarrow> string \<Rightarrow> unit + bool"
  rt_delete :: "id \<Rightarrow> bool"
  rt_storage :: "file_row \<Rightarrow> bool"
  rt_bypass :: bool

type_synonym 'a reply = "(http_error + 'a) \<times> library"

section \<open>Processing a file\<close>

record process_form =
  pc_file_id :: id
  pc_content :: "string option"
  pc_collection_name :: "id option"

definition nonempty_text :: "string option \<Rightarrow> string option" where
  "nonempty_text v = (if v = Some [] then None else v)"

text \<open>\<open>file.data.get("content", "")\<close>\<close>

definition stored_content :: "file_row \<Rightarrow> unit + json" where
  "stored_content f = (case fl_data f of None \<Rightarrow> Inl () | Some d \<Rightarrow> Inr (dget_or d ''content'' (JStr [])))"

text \<open>A document needs a text and a dictionary of metadata.\<close>

definition document :: "file_row \<Rightarrow> json \<Rightarrow> unit + json" where
  "document f v = (case (fl_meta f, v) of (Some meta, JStr t) \<Rightarrow> Inr v | _ \<Rightarrow> Inl ())"

definition file_text :: "retrieval \<Rightarrow> process_form \<Rightarrow> file_row \<Rightarrow> unit + json" where
  "file_text rt form f =
     (case nonempty_text (pc_content form) of
        Some t \<Rightarrow> document f (JStr t)
      | None \<Rightarrow>
          (case nonempty_text (pc_collection_name form) of
             Some c \<Rightarrow>
               and_then (rt_query rt f) (\<lambda>found.
                 if found then stored_content f else and_then (stored_content f) (document f))
           | None \<Rightarrow>
               (case nonempty_text (fl_path f) of
                  Some p \<Rightarrow> (if fl_meta f = None then Inl () else and_then (rt_load rt f) (\<lambda>t. Inr (JStr t)))
                | None \<Rightarrow> and_then (stored_content f) (document f))))"

definition set_status :: "string \<Rightarrow> id \<Rightarrow> library \<Rightarrow> library" where
  "set_status v fid s = snd (update_file_data_by_id fid [(''status'', JStr v)] s)"

definition save_text :: "retrieval \<Rightarrow> id \<Rightarrow> id \<Rightarrow> json \<Rightarrow> library \<Rightarrow> (unit + unit) \<times> library" where
  "save_text rt collection fid v s =
     (let s1 = snd (update_file_data_by_id fid [(''content'', v)] s)
      in case v of
           JStr t \<Rightarrow>
             (let s2 = snd (update_file_hash_by_id fid (rt_digest rt t) s1)
              in if rt_bypass rt then (Inr (), set_status ''completed'' fid s2)
                 else if rt_save rt collection t = Inr True then
                   (Inr (), set_status ''completed'' fid (snd (update_file_metadata_by_id fid [(''collection_name'', JStr collection)] s2)))
                 else (Inl (), s2))
         | _ \<Rightarrow> (Inl (), s1))"

definition process_file :: "retrieval \<Rightarrow> process_form \<Rightarrow> user \<Rightarrow> library \<Rightarrow> unit reply" where
  "process_file rt form caller s =
     (case (if u_role caller = ''admin'' then get_file_by_id (pc_file_id form) s
            else get_file_by_id_and_user_id (pc_file_id form) (u_id caller) s) of
        None \<Rightarrow> (Inl NotFound, s)
      | Some f \<Rightarrow>
          (let collection = (case pc_collection_name form of None \<Rightarrow> ''file-'' @ fl_id f | Some c \<Rightarrow> c);
               (r, s1) = (case file_text rt form f of Inl e \<Rightarrow> (Inl (), s) | Inr v \<Rightarrow> save_text rt collection (fl_id f) v s)
           in case r of Inr _ \<Rightarrow> (Inr (), s1) | Inl _ \<Rightarrow> (Inl BadRequest, set_status ''failed'' (fl_id f) s1)))"

section \<open>Handlers of files\<close>

text \<open>Access through the one knowledge base that \<open>collection_name\<close> in the file's metadata names.\<close>

definition has_access_to_file :: "id \<Rightarrow> string \<Rightarrow> user \<Rightarrow> group_db \<Rightarrow> user_db \<Rightarrow> library \<Rightarrow> http_error + bool" where
  "has_access_to_file fid access_type caller gdb udb s =
     (case get_file_by_id fid s of
        None \<Rightarrow> Inl NotFound
      | Some f \<Rightarrow>
          (let base = (case fl_meta f of None \<Rightarrow> JNull | Some d \<Rightarrow> dget_or d ''collection_name'' JNull)
           in if \<not> truthy base then Inr False
              else raising ServerError (and_then (get_knowledge_bases_by_user_id (u_id caller) access_type gdb udb s)
                (\<lambda>ks. Inr (list_ex (\<lambda>(k, u). JStr (kn_id k) = base) ks)))))"

definition with_file :: "string \<Rightarrow> id \<Rightarrow> user \<Rightarrow> group_db \<Rightarrow> user_db \<Rightarrow> library \<Rightarrow> (file_row \<Rightarrow> 'a reply) \<Rightarrow> 'a reply" where
  "with_file access_type fid caller gdb udb s g =
     (case get_file_by_id fid s of
        None \<Rightarrow> (Inl NotFound, s)
      | Some f \<Rightarrow>
          (case (if fl_user_id f = u_id caller \<or> u_role caller = ''admin'' then Inr True
                 else has_access_to_file fid access_type caller gdb udb s) of
             Inl e \<Rightarrow> (Inl e, s)
           | Inr b \<Rightarrow> if b then g f else (Inl NotFound, s)))"

text \<open>Without the contents: a file whose data is null raises.\<close>

definition without_content :: "file_row \<Rightarrow> py_error + file_row" where
  "without_content f = (case fl_data f of
     None \<Rightarrow> Inl TypeError
   | Some d \<Rightarrow> Inr (if dget d ''content'' = None then f else f\<lparr>fl_data := Some (dpop ''content'' d)\<rparr>))"

definition list_files :: "bool \<Rightarrow> user \<Rightarrow> library \<Rightarrow> http_error + file_row list" where
  "list_files content caller s =
     (let fs = (if u_role caller = ''admin'' then get_files s else get_files_by_user_id (u_id caller) s)
      in if content then Inr fs else raising ServerError (each without_content fs))"

definition delete_all_files_handler :: "retrieval \<Rightarrow> bool \<Rightarrow> bool \<Rightarrow> user \<Rightarrow> library \<Rightarrow> unit reply" where
  "delete_all_files_handler rt fk reset_ok caller s =
     (if u_role caller \<noteq> ''admin'' then (Inl Unauthorized, s)
      else (if reset_ok then Inr () else Inl BadRequest, snd (delete_all_files fk s)))"

definition get_file_by_id_handler :: "id \<Rightarrow> user \<Rightarrow> group_db \<Rightarrow> user_db \<Rightarrow> library \<Rightarrow> http_error + file_row" where
  "get_file_by_id_handler fid caller gdb udb s = fst (with_file ''read'' fid caller gdb udb s (\<lambda>f. (Inr f, s)))"

definition data_entry :: "string \<Rightarrow> json \<Rightarrow> file_row \<Rightarrow> http_error + json" where
  "data_entry key dflt f = (case fl_data f of None \<Rightarrow> Inl ServerError | Some d \<Rightarrow> Inr (dget_or d key dflt))"

definition get_file_process_status :: "id \<Rightarrow> user \<Rightarrow> group_db \<Rightarrow> user_db \<Rightarrow> library \<Rightarrow> http_error + json" where
  "get_file_process_status fid caller gdb udb s =
     fst (with_file ''read'' fid caller gdb udb s (\<lambda>f. (data_entry ''status'' (JStr ''pending'') f, s)))"

definition get_file_data_content_by_id :: "id \<Rightarrow> user \<Rightarrow> group_db \<Rightarrow> user_db \<Rightarrow> library \<Rightarrow> http_error + json" where
  "get_file_data_content_by_id fid caller gdb udb s =
     fst (with_file ''read'' fid caller gdb udb s (\<lambda>f. (data_entry ''content'' (JStr []) f, s)))"

text \<open>Processing may fail; the answer then shows the content as it was.\<close>

definition update_file_data_content_by_id ::
  "retrieval \<Rightarrow> id \<Rightarrow> string \<Rightarrow> user \<Rightarrow> group_db \<Rightarrow> user_db \<Rightarrow> library \<Rightarrow> json reply" where
  "update_file_data_content_by_id rt fid content caller gdb udb s =
     with_file ''write'' fid caller gdb udb s (\<lambda>f.
       let (r, s1) = process_file rt \<lparr>pc_file_id = fid, pc_content = Some content, pc_collection_name = None\<rparr> caller s
       in case r of
            Inl e \<Rightarrow> (data_entry ''content'' (JStr []) f, s1)
          | Inr _ \<Rightarrow> (case get_file_by_id fid s1 of
                None \<Rightarrow> (Inl ServerError, s1) | Some f' \<Rightarrow> (data_entry ''content'' (JStr []) f', s1)))"

text \<open>The row is deleted first; a storage or vector failure is reported afterwards.\<close>

definition delete_file_by_id_handler ::
  "retrieval \<Rightarrow> bool \<Rightarrow> id \<Rightarrow> user \<Rightarrow> group_db \<Rightarrow> user_db \<Rightarrow> library \<Rightarrow> unit reply" where
  "delete_file_by_id_handler rt fk fid caller gdb udb s =
     with_file ''write'' fid caller gdb udb s (\<lambda>f.
       (if rt_storage rt f \<and> rt_delete rt (''file-'' @ fid) then Inr () else Inl BadRequest, snd (delete_file_by_id fk fid s)))"

section \<open>Handlers of knowledge bases\<close>

record knowledge_answer =
  ka_knowledge :: knowledge
  ka_files :: "file_metadata list"

definition knowledge_answer_of :: "library \<Rightarrow> knowledge \<Rightarrow> knowledge_answer" where
  "knowledge_answer_of s k = \<lparr>ka_knowledge = k, ka_files = get_file_metadatas_by_id (kn_id k) s\<rparr>"

definition list_knowledge ::
  "string \<Rightarrow> bool \<Rightarrow> user \<Rightarrow> group_db \<Rightarrow> user_db \<Rightarrow> library \<Rightarrow> http_error + (knowledge_answer \<times> user_response option) list" where
  "list_knowledge permission bypass caller gdb udb s =
     and_then (if u_role caller = ''admin'' \<and> bypass then Inr (get_knowledge_bases udb s)
               else raising ServerError (get_knowledge_bases_by_user_id (u_id caller) permission gdb udb s))
       (\<lambda>ks. Inr (map (\<lambda>(k, u). (knowledge_answer_of s k, u)) ks))"

definition get_knowledge ::
  "bool \<Rightarrow> user \<Rightarrow> group_db \<Rightarrow> user_db \<Rightarrow> library \<Rightarrow> http_error + (knowledge_answer \<times> user_response option) list" where
  "get_knowledge bypass caller gdb udb s = list_knowledge ''read'' bypass caller gdb udb s"

definition get_knowledge_list ::
  "bool \<Rightarrow> user \<Rightarrow> group_db \<Rightarrow> user_db \<Rightarrow> library \<Rightarrow> http_error + (knowledge_answer \<times> user_response option) list" where
  "get_knowledge_list bypass caller gdb udb s = list_knowledge ''write'' bypass caller gdb udb s"

definition shared_knowledge_form :: "dict \<Rightarrow> dict \<Rightarrow> knowledge_form \<Rightarrow> user \<Rightarrow> group_db \<Rightarrow> http_error + knowledge_form" where
  "shared_knowledge_form builtin config form caller gdb =
     (if u_role caller \<noteq> ''admin'' \<and> kw_access_control form = None
      then and_then (feature_allowed ''sharing.public_knowledge'' builtin config caller gdb) (\<lambda>b.
             Inr (if b then form else form\<lparr>kw_access_control := Some []\<rparr>))
      else Inr form)"

definition create_new_knowledge ::
  "dict \<Rightarrow> dict \<Rightarrow> id \<Rightarrow> time \<Rightarrow> time \<Rightarrow> knowledge_form \<Rightarrow> user \<Rightarrow> group_db \<Rightarrow> library \<Rightarrow> knowledge reply" where
  "create_new_knowledge builtin config kid t1 t2 form caller gdb s =
     when_allowed (feature_allowed ''workspace.knowledge'' builtin config caller gdb) Unauthorized s
       (case shared_knowledge_form builtin config form caller gdb of
          Inl e \<Rightarrow> (Inl e, s)
        | Inr form' \<Rightarrow>
            (case insert_new_knowledge kid t1 t2 (u_id caller) form' s of
               (Some k, s') \<Rightarrow> (Inr k, s') | (None, s') \<Rightarrow> (Inl BadRequest, s')))"

text \<open>
  Reindexing processes every file of every base whose collection could be deleted (\<open>rt_delete\<close>);
  failures are logged and skipped.
\<close>

definition reindex_base :: "retrieval \<Rightarrow> user \<Rightarrow> knowledge \<Rightarrow> library \<Rightarrow> library" where
  "reindex_base rt caller k s =
     (if \<not> rt_delete rt (kn_id k) then s
      else fold (\<lambda>f s. snd (process_file rt \<lparr>pc_file_id = fl_id f, pc_content = None, pc_collection_name = Some (kn_id k)\<rparr> caller s))
        (get_files_by_id (kn_id k) s) s)"

definition reindex_knowledge_files :: "retrieval \<Rightarrow> user \<Rightarrow> user_db \<Rightarrow> library \<Rightarrow> bool reply" where
  "reindex_knowledge_files rt caller udb s =
     (if u_role caller \<noteq> ''admin'' then (Inl Unauthorized, s)
      else (Inr True, fold (reindex_base rt caller) (map fst (get_knowledge_bases udb s)) s))"

definition get_knowledge_by_id_handler :: "id \<Rightarrow> user \<Rightarrow> group_db \<Rightarrow> library \<Rightarrow> http_error + knowledge_answer option" where
  "get_knowledge_by_id_handler kid caller gdb s =
     (case get_knowledge_by_id kid s of
        None \<Rightarrow> Inl Unauthorized
      | Some k \<Rightarrow>
          and_then (may_access ''read'' caller gdb (kn_user_id k) (kn_access_control k)) (\<lambda>b.
            Inr (if b then Some (knowledge_answer_of s k) else None)))"

definition with_base :: "id \<Rightarrow> user \<Rightarrow> group_db \<Rightarrow> library \<Rightarrow> (knowledge \<Rightarrow> 'a reply) \<Rightarrow> 'a reply" where
  "with_base kid caller gdb s g =
     (case get_knowledge_by_id kid s of
        None \<Rightarrow> (Inl BadRequest, s)
      | Some k \<Rightarrow> when_allowed (may_change caller gdb (kn_user_id k) (kn_access_control k)) BadRequest s (g k))"

definition with_base_file :: "id \<Rightarrow> id \<Rightarrow> user \<Rightarrow> group_db \<Rightarrow> library \<Rightarrow> (knowledge \<Rightarrow> file_row \<Rightarrow> 'a reply) \<Rightarrow> 'a reply" where
  "with_base_file kid fid caller gdb s g =
     with_base kid caller gdb s (\<lambda>k. case get_file_by_id fid s of None \<Rightarrow> (Inl BadRequest, s) | Some f \<Rightarrow> g k f)"

definition update_knowledge_by_id_handler ::
  "dict \<Rightarrow> dict \<Rightarrow> time \<Rightarrow> id \<Rightarrow> knowledge_form \<Rightarrow> user \<Rightarrow> group_db \<Rightarrow> library \<Rightarrow> knowledge_answer reply" where
  "update_knowledge_by_id_handler builtin config now kid form caller gdb s =
     with_base kid caller gdb s (\<lambda>k.
       case shared_knowledge_form builtin config form caller gdb of
         Inl e \<Rightarrow> (Inl e, s)
       | Inr form' \<Rightarrow>
           (case update_knowledge_by_id now kid form' s of
              (Some k', s') \<Rightarrow> (Inr (knowledge_answer_of s' k'), s') | (None, s') \<Rightarrow> (Inl BadRequest, s')))"

text \<open>The link is stored before the file is processed, and stays when that fails.\<close>

definition processed_answer :: "retrieval \<Rightarrow> id \<Rightarrow> knowledge \<Rightarrow> user \<Rightarrow> library \<Rightarrow> knowledge_answer reply" where
  "processed_answer rt fid k caller s =
     (let (r, s1) = process_file rt \<lparr>pc_file_id = fid, pc_content = None, pc_collection_name = Some (kn_id k)\<rparr> caller s
      in case r of Inl e \<Rightarrow> (Inl BadRequest, s1) | Inr _ \<Rightarrow> (Inr (knowledge_answer_of s1 k), s1))"

definition add_file_to_knowledge_by_id_handler ::
  "retrieval \<Rightarrow> bool \<Rightarrow> id \<Rightarrow> time \<Rightarrow> time \<Rightarrow> id \<Rightarrow> id \<Rightarrow> user \<Rightarrow> group_db \<Rightarrow> library \<Rightarrow> knowledge_answer reply" where
  "add_file_to_knowledge_by_id_handler rt fk lid t1 t2 kid fid caller gdb s =
     with_base_file kid fid caller gdb s (\<lambda>k f.
       if fl_data f = None \<or> fl_data f = Some [] then (Inl BadRequest, s)
       else processed_answer rt fid k caller (snd (add_file_to_knowledge_by_id fk lid t1 t2 kid fid (u_id caller) s)))"

definition update_file_from_knowledge_by_id ::
  "retrieval \<Rightarrow> id \<Rightarrow> id \<Rightarrow> user \<Rightarrow> group_db \<Rightarrow> library \<Rightarrow> knowledge_answer reply" where
  "update_file_from_knowledge_by_id rt kid fid caller gdb s =
     with_base_file kid fid caller gdb s (\<lambda>k f.
       if \<not> rt_delete rt (kn_id k) then (Inl ServerError, s) else processed_answer rt fid k caller s)"

definition remove_file_from_knowledge_by_id_handler ::
  "bool \<Rightarrow> id \<Rightarrow> id \<Rightarrow> bool \<Rightarrow> user \<Rightarrow> group_db \<Rightarrow> library \<Rightarrow> knowledge_answer reply" where
  "remove_file_from_knowledge_by_id_handler fk kid fid delete_file caller gdb s =
     with_base_file kid fid caller gdb s (\<lambda>k f.
       let s1 = snd (remove_file_from_knowledge_by_id kid fid s);
           s2 = (if delete_file then snd (delete_file_by_id fk fid s1) else s1)
       in (Inr (knowledge_answer_of s2 k), s2))"

definition reset_knowledge_by_id_handler ::
  "time \<Rightarrow> id \<Rightarrow> user \<Rightarrow> group_db \<Rightarrow> library \<Rightarrow> knowledge option reply" where
  "reset_knowledge_by_id_handler now kid caller gdb s =
     with_base kid caller gdb s (\<lambda>k. let (r, s') = reset_knowledge_by_id now kid s in (Inr r, s'))"

text \<open>
  A batch: the files whose document can be built are saved together; if that works each is updated with its
  digest and linked. The warnings that the code passes to the answer are no field of it and get lost.
\<close>

definition batch_text :: "file_row \<Rightarrow> unit + string" where
  "batch_text f = (case stored_content f of
     Inr (JStr t) \<Rightarrow> (if fl_meta f = None then Inl () else Inr t) | _ \<Rightarrow> Inl ())"

fun prepared :: "file_row list \<Rightarrow> (id \<times> string) list" where
  "prepared [] = []"
| "prepared (f # fs) = (case batch_text f of Inl e \<Rightarrow> prepared fs | Inr t \<Rightarrow> (fl_id f, t) # prepared fs)"

definition batch_update :: "retrieval \<Rightarrow> (id \<Rightarrow> time) \<Rightarrow> id \<times> string \<Rightarrow> library \<Rightarrow> library" where
  "batch_update rt now ft s = snd (update_file_by_id (now (fst ft)) (fst ft)
     \<lparr>fu_hash = Some (rt_digest rt (snd ft)), fu_data = Some [(''content'', JStr (snd ft))], fu_meta = None\<rparr> s)"

definition process_files_batch ::
  "retrieval \<Rightarrow> (id \<Rightarrow> string list \<Rightarrow> bool) \<Rightarrow> (id \<Rightarrow> time) \<Rightarrow> file_row list \<Rightarrow> id \<Rightarrow> library \<Rightarrow> id list \<times> id list \<times> library" where
  "process_files_batch rt save_all now fs collection s =
     (let ps = prepared fs;
          bad = map fl_id (filter (\<lambda>f. batch_text f = Inl ()) fs)
      in if ps \<noteq> [] \<and> save_all collection (map snd ps) then (map fst ps, bad, fold (batch_update rt now) ps s)
         else ([], bad @ map fst ps, s))"

fun files_of_ids :: "id list \<Rightarrow> library \<Rightarrow> file_row list option" where
  "files_of_ids [] s = Some []"
| "files_of_ids (i # is) s = (case get_file_by_id i s of
     None \<Rightarrow> None | Some f \<Rightarrow> map_option (Cons f) (files_of_ids is s))"

definition add_files_to_knowledge_batch ::
  "retrieval \<Rightarrow> (id \<Rightarrow> string list \<Rightarrow> bool) \<Rightarrow> bool \<Rightarrow> (id \<Rightarrow> id) \<Rightarrow> (id \<Rightarrow> time) \<Rightarrow> (id \<Rightarrow> time) \<Rightarrow> (id \<Rightarrow> time) \<Rightarrow>
     id \<Rightarrow> id list \<Rightarrow> user \<Rightarrow> group_db \<Rightarrow> library \<Rightarrow>
     knowledge_answer reply" where
  "add_files_to_knowledge_batch rt save_all fk lid now t1 t2 kid ids caller gdb s =
     with_base kid caller gdb s (\<lambda>k.
       case files_of_ids ids s of
         None \<Rightarrow> (Inl BadRequest, s)
       | Some fs \<Rightarrow>
           (let (good, bad, s1) = process_files_batch rt save_all now fs kid s;
                s2 = fold (\<lambda>i s. snd (add_file_to_knowledge_by_id fk (lid i) (t1 i) (t2 i) kid i (u_id caller) s)) good s1
            in (Inr (knowledge_answer_of s2 k), s2)))"

section \<open>Who reaches a file\<close>

lemma get_file_update [simp]:
  assumes "\<And>f. fl_id (g f) = fl_id f"
  shows "get_file_by_id j (snd (update_file_where fid g s)) =
    (if j = fid then map_option g (get_file_by_id j s) else get_file_by_id j s)"
  using assms by (auto simp: update_file_where_def get_file_by_id_def row_get_upd_key split: option.split)

lemma update_file_where_rest [simp]:
  "lb_knowledge (snd (update_file_where fid g s)) = lb_knowledge s"
  "lb_links (snd (update_file_where fid g s)) = lb_links s"
  by (simp_all add: update_file_where_def split: option.split)

lemma get_file_delete: "get_file_by_id j (snd (delete_file_by_id fk fid s)) = (if j = fid then None else get_file_by_id j s)"
  by (simp add: delete_file_by_id_def cascade_links_def get_file_by_id_def row_get_del)

lemma owner_changes: "kn_user_id k = u_id u \<Longrightarrow> may_change u gdb (kn_user_id k) ac = Inr True"
  by (simp add: may_change_def)

text \<open>
  The owner of any knowledge base deletes any file of anybody: removing the file from the base, in which it
  need not be, deletes its row. No other file is touched.
\<close>

lemma base_owner_deletes_any_file:
  assumes "get_knowledge_by_id kid s = Some k" "kn_user_id k = u_id u" "get_file_by_id fid s = Some f"
    and "remove_file_from_knowledge_by_id_handler fk kid fid True u gdb s = (r, s')"
  shows "(\<exists>a. r = Inr a) \<and> get_file_by_id j s' = (if j = fid then None else get_file_by_id j s)"
  using assms(4)
  by (auto simp: remove_file_from_knowledge_by_id_handler_def with_base_file_def with_base_def assms(1,3)
      owner_changes[OF assms(2)] when_allowed_def Let_def get_file_delete remove_file_from_knowledge_by_id_def)
    (simp_all add: get_file_by_id_def)

definition sample_rt :: retrieval where
  "sample_rt = \<lparr>rt_query = (\<lambda>f. Inr False), rt_load = (\<lambda>f. Inr ''loaded''), rt_digest = (\<lambda>t. rev t), rt_save = (\<lambda>c t. Inr True),
     rt_delete = (\<lambda>c. True), rt_storage = (\<lambda>f. True), rt_bypass = False\<rparr>"

lemma kims_rows: "get_knowledge_by_id ''k1'' sample_library = Some kims_base" "get_file_by_id ''f1'' sample_library = Some report"
    "kn_user_id kims_base = u_id kim" "fl_user_id report = ''lee''" "u_id kim = ''kim''" "u_role kim = ''user''"
    "fl_data report = Some [(''content'', JStr ''text'')]"
  by (simp_all add: library_samples get_knowledge_by_id_def get_file_by_id_def row_get_def kim_def new_user_def)

lemma base_owner_deletes_any_file_witness:
  "get_file_by_id ''f1'' (snd (remove_file_from_knowledge_by_id_handler True ''k1'' ''f1'' True kim sample_groups sample_library)) = None"
  using base_owner_deletes_any_file[OF kims_rows(1,3,2), of True sample_groups
      "fst (remove_file_from_knowledge_by_id_handler True ''k1'' ''f1'' True kim sample_groups sample_library)"
      "snd (remove_file_from_knowledge_by_id_handler True ''k1'' ''f1'' True kim sample_groups sample_library)" "''f1''"]
  by simp

text \<open>
  C37: A user who is no administrator and adds a processed file of another user, whose data are not empty, to an own
  knowledge base gets an error, as the file is not found among the caller's files, but the link is stored before: the
  base, which did not hold the file, lists it from then on. (An administrator's request succeeds, and a file
  without data is refused before any link is stored.)
\<close>

theorem refused_file_stays_linked:
  assumes "get_knowledge_by_id kid s = Some k" "kn_user_id k = u_id u" "u_role u \<noteq> ''admin''"
    and "get_file_by_id fid s = Some f" "fl_user_id f \<noteq> u_id u" "unique_key fl_id (lb_files s)"
    and "fl_data f = Some (e # d)" "lid \<notin> kf_id ` set (lb_links s)" "f \<notin> set (get_files_by_id kid s)"
    and "add_file_to_knowledge_by_id_handler rt fk lid t1 t2 kid fid u gdb s = (r, s')"
  shows "r = Inl BadRequest \<and> f \<in> set (get_files_by_id kid s') \<and> lb_files s' = lb_files s"
proof -
  have k: "kn_id k = kid" "k \<in> set (lb_knowledge s)" and f: "fl_id f = fid" "f \<in> set (lb_files s)"
    using assms(1,4) row_get_SomeD unfolding get_knowledge_by_id_def get_file_by_id_def by metis+
  let ?l = "new_link lid t1 t2 kid fid (u_id u)"
  have "link_key l \<noteq> (kid, fid)" if "l \<in> set (lb_links s)" for l
  proof
    assume "link_key l = (kid, fid)"
    then have "f \<in> set (get_files_by_id kid s)" using that f by (auto simp: get_files_by_id_def link_key_def)
    then show False using assms(9) by simp
  qed
  then have "(kid, fid) \<notin> link_key ` set (lb_links s)" by fastforce
  then have a: "add_link fk ?l s = Some (s\<lparr>lb_links := lb_links s @ [?l]\<rparr>)"
    using assms(8) k f by (auto simp: add_link_def new_link_def link_key_def)
  let ?s1 = "s\<lparr>lb_links := lb_links s @ [?l]\<rparr>"
  have n: "get_file_by_id_and_user_id fid (u_id u) ?s1 = None"
    using f assms(5,6) unique_keyD[OF assms(6)] by (auto simp: get_file_by_id_and_user_id_def first_row_None_iff)
  have "(r, s') = (Inl BadRequest, ?s1)"
    using assms(3,10)
    by (simp add: add_file_to_knowledge_by_id_handler_def with_base_file_def with_base_def assms(1,4,7) k(1) a
        owner_changes[OF assms(2)] when_allowed_def add_file_to_knowledge_by_id_def Let_def processed_answer_def
        process_file_def n)
  moreover have "f \<in> set (get_files_by_id kid ?s1)"
    using f by (auto simp: get_files_by_id_def new_link_def)
  ultimately show ?thesis by simp
qed

lemma refused_file_stays_linked_witness:
  "report \<in> set (get_files_by_id ''k1'' (snd (add_file_to_knowledge_by_id_handler sample_rt True ''l1'' 3 3 ''k1'' ''f1'' kim sample_groups sample_library)))"
proof -
  obtain r s' where h: "add_file_to_knowledge_by_id_handler sample_rt True ''l1'' 3 3 ''k1'' ''f1'' kim sample_groups sample_library = (r, s')"
    by (cases "add_file_to_knowledge_by_id_handler sample_rt True ''l1'' 3 3 ''k1'' ''f1'' kim sample_groups sample_library")
  have n: "report \<notin> set (get_files_by_id ''k1'' sample_library)" "lb_links sample_library = []" "unique_key fl_id (lb_files sample_library)"
    by (simp_all add: sample_library_def get_files_by_id_def)
  show ?thesis
    using refused_file_stays_linked[OF kims_rows(1,3) _ kims_rows(2) _ n(3) kims_rows(7) _ n(1) h] by (simp add: h kims_rows(4,5,6) n(2))
qed

text \<open>
  A user who may write a file through a knowledge base but does not own it changes nothing by updating
  its content: the request succeeds and answers the old content.
\<close>

lemma collaborator_edit_dropped:
  assumes "get_file_by_id fid s = Some f" "fl_user_id f \<noteq> u_id u" "u_role u \<noteq> ''admin''"
    and "unique_key fl_id (lb_files s)" "has_access_to_file fid ''write'' u gdb udb s = Inr True" "fl_data f = Some d"
  shows "update_file_data_content_by_id rt fid content u gdb udb s = (Inr (dget_or d ''content'' (JStr [])), s)"
proof -
  have f: "fl_id f = fid" "f \<in> set (lb_files s)"
    using assms(1) row_get_SomeD unfolding get_file_by_id_def by metis+
  have n: "get_file_by_id_and_user_id fid (u_id u) s = None"
    using f assms(2) unique_keyD[OF assms(4)] by (auto simp: get_file_by_id_and_user_id_def first_row_None_iff)
  show ?thesis
    using assms by (simp add: update_file_data_content_by_id_def with_file_def process_file_def n data_entry_def Let_def)
qed

text \<open>Kim's base is public here, and the report is in it.\<close>

definition shared_library :: library where
  "shared_library = sample_library\<lparr>lb_files := [report\<lparr>fl_meta := Some [(''collection_name'', JStr ''k1'')]\<rparr>],
     lb_knowledge := [kims_base\<lparr>kn_access_control := Some [(''write'', JDict [(''group_ids'', JList (map JStr [])), (''user_ids'', JList (map JStr [''mia'']))])]\<rparr>]\<rparr>"

definition mia :: user where "mia = lee\<lparr>u_id := ''mia''\<rparr>"

lemma mia_writes: "has_access_to_file ''f1'' ''write'' mia sample_groups sample_users shared_library = Inr True"
proof -
  let ?ac = "[(''write'', JDict [(''group_ids'', JList (map JStr [])), (''user_ids'', JList (map JStr [''mia'']))])]"
  let ?k = "kims_base\<lparr>kn_access_control := Some ?ac\<rparr>"
  have a: "owner_or_access ''mia'' ''write'' gs db ''kim'' (Some ?ac) = Inr True" for gs db
    unfolding owner_or_access_def by (subst has_access_list[of "''write''" "[]" "[''mia'']"]) (simp_all add: access_list_def)
  have m: "u_id mia = ''mia''" "kn_user_id kims_base = ''kim''" "kn_id kims_base = ''k1''" by (simp_all add: mia_def kims_base_def)
  have g: "get_file_by_id ''f1'' shared_library = Some (report\<lparr>fl_meta := Some [(''collection_name'', JStr ''k1'')]\<rparr>)"
    by (simp add: shared_library_def get_file_by_id_def row_get_def report_def)
  obtain x where b: "get_knowledge_bases sample_users shared_library = [(?k, x)]"
    by (simp add: get_knowledge_bases_def with_owners_def order_desc_def shared_library_def Let_def)
  have "get_knowledge_bases_by_user_id ''mia'' ''write'' sample_groups sample_users shared_library = Inr [(?k, x)]"
    using a by (simp add: get_knowledge_bases_by_user_id_def rows_of_user_def b m)
  then show ?thesis by (simp add: has_access_to_file_def g m dget_or_def raising_def Let_def)
qed

lemma collaborator_edit_dropped_witness:
  "update_file_data_content_by_id sample_rt ''f1'' ''new'' mia sample_groups sample_users shared_library = (Inr (JStr ''text''), shared_library)"
  using collaborator_edit_dropped[OF _ _ _ _ mia_writes, of "report\<lparr>fl_meta := Some [(''collection_name'', JStr ''k1'')]\<rparr>"
      "[(''content'', JStr ''text'')]" sample_rt "''new''"]
  by (simp add: shared_library_def get_file_by_id_def row_get_def report_def mia_def lee_def new_user_def dget_or_def)

text \<open>Who is neither owner nor administrator reaches a file exactly through the base its metadata names.\<close>

lemma access_by_collection:
  assumes "get_file_by_id fid s = Some f" "fl_meta f = Some m" "dget m ''collection_name'' = Some (JStr c)" "c \<noteq> []"
    and "has_access_to_file fid kind u gdb udb s = Inr b"
  shows "b \<longleftrightarrow> (\<exists>k \<in> set (lb_knowledge s). kn_id k = c \<and> reaches (u_id u) kind gdb (kn_user_id k) (kn_access_control k))"
proof -
  obtain ks where ks: "get_knowledge_bases_by_user_id (u_id u) kind gdb udb s = Inr ks"
      "b = list_ex (\<lambda>(k, u). JStr (kn_id k) = JStr c) ks"
    using assms by (auto simp: has_access_to_file_def dget_or_def raising_def and_then_Inr_iff split: sum.splits)
  have "ks = filter (\<lambda>(k, o'). reaches (u_id u) kind gdb (kn_user_id k) (kn_access_control k)) (get_knowledge_bases udb s)"
    using ks(1) unfolding get_knowledge_bases_by_user_id_def by (rule rows_of_user_reached)
  moreover have "fst ` set (get_knowledge_bases udb s) = set (lb_knowledge s)"
    by (simp add: get_knowledge_bases_def flip: set_map)
  ultimately show ?thesis using ks(2) by (force simp: list_ex_iff)
qed

text \<open>
  A file that is added to a second knowledge base is from then on reached through the second one only:
  readers of the first base who may not read the second lose the file they could read before.
\<close>

lemma second_base_takes_file:
  assumes "get_file_by_id fid s = Some f" "process_file rt \<lparr>pc_file_id = fid, pc_content = None, pc_collection_name = Some c\<rparr> u s = (Inr (), s')"
    and "c \<noteq> []" "\<not> rt_bypass rt" "unique_key fl_id (lb_files s)" "has_access_to_file fid kind v gdb udb s' = Inr b"
  shows "b \<longleftrightarrow> (\<exists>k \<in> set (lb_knowledge s). kn_id k = c \<and> reaches (u_id v) kind gdb (kn_user_id k) (kn_access_control k))"
proof -
  have fid: "fl_id f = fid" using assms(1) row_get_SomeD unfolding get_file_by_id_def by metis
  let ?form = "\<lparr>pc_file_id = fid, pc_content = None, pc_collection_name = Some c\<rparr>"
  let ?look = "if u_role u = ''admin'' then get_file_by_id fid s else get_file_by_id_and_user_id fid (u_id u) s"
  have look: "?look = Some f"
  proof -
    have "?look \<noteq> None" using assms(2) by (auto simp: process_file_def split: option.splits)
    then obtain f0 where f0: "?look = Some f0" by blast
    then have "f0 \<in> set (lb_files s)" "fl_id f0 = fid"
      by (auto simp: get_file_by_id_def get_file_by_id_and_user_id_def split: if_splits dest!: first_row_SomeD row_get_SomeD)
    moreover have "f \<in> set (lb_files s)" using assms(1) row_get_SomeD unfolding get_file_by_id_def by metis
    ultimately show ?thesis using unique_keyD[OF assms(5), of f0 f] fid f0 by simp
  qed
  obtain v where v: "file_text rt ?form f = Inr v" "save_text rt c fid v s = (Inr (), s')"
    using assms(2) unfolding process_file_def process_form.select_convs look
    by (auto simp: fid Let_def split: sum.splits prod.splits)
  obtain t where t: "v = JStr t" "rt_save rt c t = Inr True"
    using v(2) assms(4) by (auto simp: save_text_def Let_def split: json.splits if_splits)
  obtain f' where f': "get_file_by_id fid s' = Some f'" "fl_meta f' = merged (fl_meta f) [(''collection_name'', JStr c)]"
      and kb: "lb_knowledge s' = lb_knowledge s"
    using v(2) assms(1,4) t
    by (auto simp: save_text_def Let_def set_status_def update_file_data_by_id_def update_file_metadata_by_id_def update_file_hash_by_id_def)
  have "fl_meta f' = Some (dset ''collection_name'' (JStr c) (case fl_meta f of None \<Rightarrow> [] | Some d \<Rightarrow> d))"
    by (simp add: f'(2) merged_def)
  from access_by_collection[OF f'(1) this _ assms(3,6)] show ?thesis by (simp add: kb)
qed

lemma second_base_takes_file_witness:
  "has_access_to_file ''f1'' ''write'' mia sample_groups sample_users (snd (process_file sample_rt
     \<lparr>pc_file_id = ''f1'', pc_content = None, pc_collection_name = Some ''k2''\<rparr> lee shared_library)) \<noteq> Inr True"
proof -
  let ?f = "report\<lparr>fl_meta := Some [(''collection_name'', JStr ''k1'')]\<rparr>"
  let ?form = "\<lparr>pc_file_id = ''f1'', pc_content = None, pc_collection_name = Some ''k2''\<rparr>"
  let ?f' = "?f\<lparr>fl_hash := Some ''txet'', fl_meta := Some [(''collection_name'', JStr ''k2'')],
    fl_data := Some [(''content'', JStr ''text''), (''status'', JStr ''completed'')]\<rparr>"
  have g: "get_file_by_id ''f1'' shared_library = Some ?f" "unique_key fl_id (lb_files shared_library)"
      "get_file_by_id_and_user_id ''f1'' ''lee'' shared_library = Some ?f"
    by (simp_all add: shared_library_def get_file_by_id_def get_file_by_id_and_user_id_def row_get_def report_def)
  have p: "process_file sample_rt ?form lee shared_library = (Inr (), shared_library\<lparr>lb_files := [?f']\<rparr>)"
    by (simp add: process_file_def lee_def new_user_def g)
       (simp add: sample_rt_def nonempty_text_def file_text_def stored_content_def document_def dget_or_def save_text_def
         set_status_def update_file_data_by_id_def update_file_hash_by_id_def update_file_metadata_by_id_def update_file_where_def
         get_file_by_id_def row_get_def merged_def shared_library_def report_def Let_def)
  have b: "has_access_to_file ''f1'' ''write'' mia sample_groups sample_users (shared_library\<lparr>lb_files := [?f']\<rparr>) = Inr b \<Longrightarrow> b \<longleftrightarrow> (\<exists>k \<in> set (lb_knowledge shared_library). kn_id k = ''k2'' \<and>
      reaches (u_id mia) ''write'' sample_groups (kn_user_id k) (kn_access_control k))" for b
    by (rule second_base_takes_file[OF g(1) p _ _ g(2)]) (simp_all add: sample_rt_def)
  from b[of True] show ?thesis by (auto simp: p) (simp add: shared_library_def kims_base_def)
qed

end
