(* ===== verification/Model_Handlers.thy ===== *)
theory Model_Handlers
  imports Library_Handlers
begin

text \<open>
  \<^verbatim>\<open>models/models.py\<close> and \<^verbatim>\<open>routers/models.py\<close>: the models of the workspace and their handlers, and
  the deletion of a knowledge base, which rewrites the models that refer to it. The validation of an
  imported model by its form class, the text a database makes of \<open>meta\<close> and its JSON containment test are
  arguments. \<open>bypass\<close> is the setting \<open>BYPASS_ADMIN_ACCESS_CONTROL\<close>.
\<close>

record model_row =
  md_id :: id
  md_user_id :: id
  md_base_model_id :: "id option"
  md_name :: string
  md_params :: dict
  md_meta :: dict
  md_access_control :: "dict option"
  md_is_active :: bool
  md_updated_at :: time
  md_created_at :: time

record model_form =
  mo_id :: id
  mo_base_model_id :: "id option"
  mo_name :: string
  mo_meta :: dict
  mo_params :: dict
  mo_access_control :: "dict option"
  mo_is_active :: bool

section \<open>The table\<close>

definition new_model :: "time \<Rightarrow> time \<Rightarrow> id \<Rightarrow> model_form \<Rightarrow> model_row" where
  "new_model t1 t2 user_id form =
     \<lparr>md_id = mo_id form, md_user_id = user_id, md_base_model_id = mo_base_model_id form, md_name = mo_name form,
      md_params = mo_params form, md_meta = mo_meta form, md_access_control = mo_access_control form,
      md_is_active = mo_is_active form, md_updated_at = t2, md_created_at = t1\<rparr>"

definition insert_new_model :: "time \<Rightarrow> time \<Rightarrow> model_form \<Rightarrow> id \<Rightarrow> model_row list \<Rightarrow> model_row option \<times> model_row list" where
  "insert_new_model t1 t2 form user_id db =
     (let x = new_model t1 t2 user_id form
      in case add_row md_id x db of None \<Rightarrow> (None, db) | Some db' \<Rightarrow> (Some x, db'))"

definition get_all_models :: "model_row list \<Rightarrow> model_row list" where
  "get_all_models db = db"

definition get_models :: "user_db \<Rightarrow> model_row list \<Rightarrow> (model_row \<times> user_response option) list" where
  "get_models udb db = with_owners md_user_id udb (all_rows (\<lambda>x. md_base_model_id x \<noteq> None) db)"

definition get_base_models :: "model_row list \<Rightarrow> model_row list" where
  "get_base_models db = all_rows (\<lambda>x. md_base_model_id x = None) db"

definition get_models_by_user_id ::
  "id \<Rightarrow> string \<Rightarrow> group_db \<Rightarrow> user_db \<Rightarrow> model_row list \<Rightarrow> py_error + (model_row \<times> user_response option) list" where
  "get_models_by_user_id user_id permission gdb udb db =
     rows_of_user md_user_id md_access_control user_id permission gdb (get_models udb db)"

record model_filter =
  mf_query :: "string option"
  mf_view_option :: "string option"
  mf_tag :: "string option"
  mf_order_by :: "string option"
  mf_direction :: "string option"
  mf_group_ids :: "id list"
  mf_user_id :: "id option"

definition no_model_filter :: model_filter where
  "no_model_filter = \<lparr>mf_query = None, mf_view_option = None, mf_tag = None, mf_order_by = None, mf_direction = None,
     mf_group_ids = [], mf_user_id = None\<rparr>"

definition model_has_permission ::
  "(dict option \<Rightarrow> string \<Rightarrow> id \<Rightarrow> bool) \<Rightarrow> model_filter \<Rightarrow> string \<Rightarrow> model_row \<Rightarrow> bool" where
  "model_has_permission contains f permission x \<longleftrightarrow>
     (mf_group_ids f = [] \<and> mf_user_id f \<in> {None, Some []}) \<or> md_access_control x = None \<or>
     (mf_user_id f \<notin> {None, Some []} \<and> mf_user_id f = Some (md_user_id x)) \<or>
     list_ex (contains (md_access_control x) permission) (mf_group_ids f)"

definition model_matches :: "char option \<Rightarrow> (dict \<Rightarrow> string) \<Rightarrow> id \<Rightarrow> model_filter \<Rightarrow> model_row \<Rightarrow> bool" where
  "model_matches esc meta_text user_id f x \<longleftrightarrow>
     (case mf_query f of
        None \<Rightarrow> True
      | Some q \<Rightarrow> ilike esc (md_name x) (''%'' @ q @ ''%'') \<or>
          (case md_base_model_id x of None \<Rightarrow> False | Some b \<Rightarrow> ilike esc b (''%'' @ q @ ''%''))) \<and>
     (mf_view_option f = Some ''created'' \<longrightarrow> md_user_id x = user_id) \<and>
     (mf_view_option f = Some ''shared'' \<longrightarrow> md_user_id x \<noteq> user_id) \<and>
     (case mf_tag f of
        None \<Rightarrow> True
      | Some t \<Rightarrow> like esc (CHR ''%'' # CHR 0x22 # lower t @ [CHR 0x22, CHR ''%'']) (lower (meta_text (md_meta x))))"

definition model_order :: "string option \<Rightarrow> string option \<Rightarrow> model_row list \<Rightarrow> model_row list" where
  "model_order order_by direction xs =
     (if order_by = Some ''name'' then
        (if direction = Some ''asc'' then sort_key md_name xs else rev (sort_key md_name (rev xs)))
      else if order_by = Some ''created_at'' then
        (if direction = Some ''asc'' then sort_key md_created_at xs else order_desc md_created_at xs)
      else if order_by = Some ''updated_at'' then
        (if direction = Some ''asc'' then sort_key md_updated_at xs else order_desc md_updated_at xs)
      else xs)"

definition selected_models ::
  "char option \<Rightarrow> (dict \<Rightarrow> string) \<Rightarrow> (dict option \<Rightarrow> string \<Rightarrow> id \<Rightarrow> bool) \<Rightarrow> id \<Rightarrow> model_filter \<Rightarrow> model_row list \<Rightarrow> model_row list" where
  "selected_models esc meta_text contains user_id f db =
     (let xs = all_rows (\<lambda>x. md_base_model_id x \<noteq> None) db
      in if f = no_model_filter then order_desc md_created_at xs
         else model_order (mf_order_by f) (mf_direction f)
           (all_rows (\<lambda>x. model_matches esc meta_text user_id f x \<and> model_has_permission contains f ''write'' x) xs))"

text \<open>A limit of zero is none.\<close>

definition search_models ::
  "char option \<Rightarrow> (dict \<Rightarrow> string) \<Rightarrow> (dict option \<Rightarrow> string \<Rightarrow> id \<Rightarrow> bool) \<Rightarrow> id \<Rightarrow> model_filter \<Rightarrow> nat \<Rightarrow> nat \<Rightarrow> user_db \<Rightarrow>
     model_row list \<Rightarrow> (model_row \<times> user_response option) list \<times> nat" where
  "search_models esc meta_text contains user_id f skip cnt udb db =
     (let xs = selected_models esc meta_text contains user_id f db;
          rest = drop skip xs
      in (map (\<lambda>x. (x, map_option user_response_of (get_user_by_id (md_user_id x) udb))) (if cnt = 0 then rest else take cnt rest),
          length xs))"

definition get_model_by_id :: "id \<Rightarrow> model_row list \<Rightarrow> model_row option" where
  "get_model_by_id mid db = row_get md_id mid db"

definition toggle_model_by_id :: "time \<Rightarrow> id \<Rightarrow> model_row list \<Rightarrow> model_row option \<times> model_row list" where
  "toggle_model_by_id now mid db =
     (case get_model_by_id mid db of
        None \<Rightarrow> (None, db)
      | Some x \<Rightarrow>
          (let db' = upd_rows (\<lambda>y. md_id y = mid) (\<lambda>y. y\<lparr>md_is_active := \<not> md_is_active x, md_updated_at := now\<rparr>) db
           in (get_model_by_id mid db', db')))"

text \<open>The update does not set the time of the last update.\<close>

definition apply_model_form :: "model_form \<Rightarrow> model_row \<Rightarrow> model_row" where
  "apply_model_form form x = x\<lparr>md_base_model_id := mo_base_model_id form, md_name := mo_name form, md_meta := mo_meta form,
     md_params := mo_params form, md_access_control := mo_access_control form, md_is_active := mo_is_active form\<rparr>"

definition update_model_by_id :: "id \<Rightarrow> model_form \<Rightarrow> model_row list \<Rightarrow> model_row option \<times> model_row list" where
  "update_model_by_id mid form db =
     (let db' = upd_rows (\<lambda>x. md_id x = mid) (apply_model_form form) db in (get_model_by_id mid db', db'))"

definition delete_model_by_id :: "id \<Rightarrow> model_row list \<Rightarrow> bool \<times> model_row list" where
  "delete_model_by_id mid db = (True, row_del md_id mid db)"

definition delete_all_models :: "model_row list \<Rightarrow> bool \<times> model_row list" where
  "delete_all_models db = (True, [])"

text \<open>
  All in one transaction: existing rows are overwritten, new ones added, the others deleted. Two new rows with one
  id break the primary key, and nothing is kept.
\<close>

definition synced :: "time \<Rightarrow> id \<Rightarrow> model_row \<Rightarrow> model_row" where
  "synced now user_id x = x\<lparr>md_user_id := user_id, md_updated_at := now\<rparr>"

definition sync_models :: "(nat \<Rightarrow> time) \<Rightarrow> id \<Rightarrow> model_row list \<Rightarrow> model_row list \<Rightarrow> model_row list \<times> model_row list" where
  "sync_models now user_id models db =
     (let xs = map (\<lambda>(i, x). synced (now i) user_id x) (enumerate 0 models);
          old = all_rows (\<lambda>x. md_id x \<in> md_id ` set db) xs;
          new = all_rows (\<lambda>x. md_id x \<notin> md_id ` set db) xs;
          db' = all_rows (\<lambda>x. md_id x \<in> md_id ` set xs)
                  (fold (\<lambda>x. upd_rows (\<lambda>y. md_id y = md_id x) (\<lambda>_. x)) old db) @ new
      in if distinct (map md_id new) then (db', db') else ([], db))"

section \<open>The handlers\<close>

type_synonym 'a model_reply = "(http_error + 'a) \<times> model_row list"

definition is_valid_model_id :: "string \<Rightarrow> bool" where
  "is_valid_model_id model_id \<longleftrightarrow> model_id \<noteq> [] \<and> length model_id \<le> 256"

definition model_filter_of ::
  "bool \<Rightarrow> string option \<Rightarrow> string option \<Rightarrow> string option \<Rightarrow> string option \<Rightarrow> string option \<Rightarrow> user \<Rightarrow> group_db \<Rightarrow> model_filter" where
  "model_filter_of bypass query view_option tag order_by direction caller gdb =
     (let f = no_model_filter\<lparr>mf_query := nonempty_text query, mf_view_option := nonempty_text view_option, mf_tag := nonempty_text tag,
                mf_order_by := nonempty_text order_by, mf_direction := nonempty_text direction\<rparr>
      in if u_role caller \<noteq> ''admin'' \<or> \<not> bypass
         then f\<lparr>mf_group_ids := map grp_id (get_groups_by_member_id (u_id caller) gdb), mf_user_id := Some (u_id caller)\<rparr> else f)"

definition get_models_handler ::
  "char option \<Rightarrow> (dict \<Rightarrow> string) \<Rightarrow> (dict option \<Rightarrow> string \<Rightarrow> id \<Rightarrow> bool) \<Rightarrow> bool \<Rightarrow> string option \<Rightarrow> string option \<Rightarrow>
     string option \<Rightarrow> string option \<Rightarrow> string option \<Rightarrow> int \<Rightarrow> user \<Rightarrow> group_db \<Rightarrow> user_db \<Rightarrow> model_row list \<Rightarrow>
     (model_row \<times> user_response option) list \<times> nat" where
  "get_models_handler esc meta_text contains bypass query view_option tag order_by direction page_no caller gdb udb db =
     search_models esc meta_text contains (u_id caller) (model_filter_of bypass query view_option tag order_by direction caller gdb)
       (nat (max 1 page_no - 1) * 30) 30 udb db"

definition get_base_models_handler :: "user \<Rightarrow> model_row list \<Rightarrow> http_error + model_row list" where
  "get_base_models_handler caller db = (if u_role caller = ''admin'' then Inr (get_base_models db) else Inl Unauthorized)"

definition my_models :: "bool \<Rightarrow> user \<Rightarrow> group_db \<Rightarrow> user_db \<Rightarrow> model_row list \<Rightarrow> http_error + (model_row \<times> user_response option) list" where
  "my_models bypass caller gdb udb db =
     (if u_role caller = ''admin'' \<and> bypass then Inr (get_models udb db)
      else raising ServerError (get_models_by_user_id (u_id caller) ''write'' gdb udb db))"

text \<open>The names of the tags; a tag that is no dictionary, or a name that is no text, raises.\<close>

definition tag_name :: "json \<Rightarrow> py_error + string" where
  "tag_name t = (case t of
     JDict d \<Rightarrow> (case dget d ''name'' of Some (JStr n) \<Rightarrow> Inr n | _ \<Rightarrow> Inl TypeError)
   | _ \<Rightarrow> Inl AttributeError)"

definition model_tags :: "model_row \<Rightarrow> py_error + string list" where
  "model_tags x = (case dget_or (md_meta x) ''tags'' (JList []) of JList ts \<Rightarrow> each tag_name ts | _ \<Rightarrow> Inl TypeError)"

definition get_model_tags :: "bool \<Rightarrow> user \<Rightarrow> group_db \<Rightarrow> user_db \<Rightarrow> model_row list \<Rightarrow> http_error + string list" where
  "get_model_tags bypass caller gdb udb db =
     and_then (my_models bypass caller gdb udb db) (\<lambda>xs.
       raising ServerError (and_then (each (\<lambda>(x, u). model_tags x) xs) (\<lambda>tss. Inr (sort (remdups (concat tss))))))"

definition create_new_model ::
  "dict \<Rightarrow> dict \<Rightarrow> time \<Rightarrow> time \<Rightarrow> model_form \<Rightarrow> user \<Rightarrow> group_db \<Rightarrow> model_row list \<Rightarrow> model_row model_reply" where
  "create_new_model builtin config t1 t2 form caller gdb db =
     when_allowed (feature_allowed ''workspace.models'' builtin config caller gdb) Unauthorized db
       (if get_model_by_id (mo_id form) db \<noteq> None then (Inl Unauthorized, db)
        else if \<not> is_valid_model_id (mo_id form) then (Inl BadRequest, db)
        else (case insert_new_model t1 t2 form (u_id caller) db of
                (Some x, db') \<Rightarrow> (Inr x, db') | (None, db') \<Rightarrow> (Inl Unauthorized, db')))"

definition export_models ::
  "dict \<Rightarrow> dict \<Rightarrow> bool \<Rightarrow> user \<Rightarrow> group_db \<Rightarrow> user_db \<Rightarrow> model_row list \<Rightarrow> http_error + model_row list" where
  "export_models builtin config bypass caller gdb udb db =
     fst (when_allowed (feature_allowed ''workspace.models_export'' builtin config caller gdb) Unauthorized ()
       (and_then (my_models bypass caller gdb udb db) (\<lambda>xs. Inr (map fst xs)), ()))"

text \<open>
  An import goes through its entries; \<open>validate\<close> makes a form of a dictionary. The first error ends it, and what came
  before stays. An entry for an id that exists is merged over the stored model, whoever owns it.
\<close>

definition model_dict :: "model_row \<Rightarrow> dict" where
  "model_dict x =
     [(''id'', JStr (md_id x)), (''user_id'', JStr (md_user_id x)),
      (''base_model_id'', case md_base_model_id x of None \<Rightarrow> JNull | Some b \<Rightarrow> JStr b), (''name'', JStr (md_name x)),
      (''params'', JDict (md_params x)), (''meta'', JDict (md_meta x)),
      (''access_control'', case md_access_control x of None \<Rightarrow> JNull | Some d \<Rightarrow> JDict d),
      (''is_active'', JBool (md_is_active x)), (''updated_at'', JInt (md_updated_at x)), (''created_at'', JInt (md_created_at x))]"

definition usable_id :: "json \<Rightarrow> http_error + bool" where
  "usable_id v = (if \<not> truthy v then Inr False else (case v of
     JStr s \<Rightarrow> Inr (is_valid_model_id s)
   | JList xs \<Rightarrow> Inr (length xs \<le> 256)
   | JDict d \<Rightarrow> Inr (length d \<le> 256)
   | _ \<Rightarrow> Inl ServerError))"

definition import_model ::
  "(dict \<Rightarrow> model_form option) \<Rightarrow> time \<Rightarrow> time \<Rightarrow> id \<Rightarrow> dict \<Rightarrow> model_row list \<Rightarrow> unit model_reply" where
  "import_model validate t1 t2 user_id data db =
     (case usable_id (dget_or data ''id'' JNull) of
        Inl e \<Rightarrow> (Inl e, db)
      | Inr False \<Rightarrow> (Inr (), db)
      | Inr True \<Rightarrow>
          (let data1 = dset ''params'' (dget_or data ''params'' (JDict [])) (dset ''meta'' (dget_or data ''meta'' (JDict [])) data);
               found = (case dget data ''id'' of Some (JStr i) \<Rightarrow> get_model_by_id i db | _ \<Rightarrow> None)
           in case found of
                Some x \<Rightarrow> (case validate (dmerge (model_dict x) data1) of
                  None \<Rightarrow> (Inl ServerError, db) | Some form \<Rightarrow> (Inr (), snd (update_model_by_id (md_id x) form db)))
              | None \<Rightarrow> (case validate data1 of
                  None \<Rightarrow> (Inl ServerError, db) | Some form \<Rightarrow> (Inr (), snd (insert_new_model t1 t2 form user_id db)))))"

fun import_loop ::
  "(dict \<Rightarrow> model_form option) \<Rightarrow> (dict \<Rightarrow> time) \<Rightarrow> (dict \<Rightarrow> time) \<Rightarrow> id \<Rightarrow> dict list \<Rightarrow> model_row list \<Rightarrow> bool model_reply" where
  "import_loop validate t1 t2 user_id [] db = (Inr True, db)"
| "import_loop validate t1 t2 user_id (d # ds) db =
     (case import_model validate (t1 d) (t2 d) user_id d db of
        (Inl e, db') \<Rightarrow> (Inl e, db') | (Inr _, db') \<Rightarrow> import_loop validate t1 t2 user_id ds db')"

definition import_models ::
  "dict \<Rightarrow> dict \<Rightarrow> (dict \<Rightarrow> model_form option) \<Rightarrow> (dict \<Rightarrow> time) \<Rightarrow> (dict \<Rightarrow> time) \<Rightarrow> dict list \<Rightarrow> user \<Rightarrow> group_db \<Rightarrow>
     model_row list \<Rightarrow> bool model_reply" where
  "import_models builtin config validate t1 t2 ds caller gdb db =
     when_allowed (feature_allowed ''workspace.models_import'' builtin config caller gdb) Unauthorized db
       (import_loop validate t1 t2 (u_id caller) ds db)"

definition sync_models_handler :: "(nat \<Rightarrow> time) \<Rightarrow> model_row list \<Rightarrow> user \<Rightarrow> model_row list \<Rightarrow> model_row list model_reply" where
  "sync_models_handler now models caller db =
     (if u_role caller \<noteq> ''admin'' then (Inl Unauthorized, db)
      else (let (r, db') = sync_models now (u_id caller) models db in (Inr r, db')))"

text \<open>A refused reader gets an empty answer.\<close>

definition get_model_by_id_handler :: "bool \<Rightarrow> id \<Rightarrow> user \<Rightarrow> group_db \<Rightarrow> model_row list \<Rightarrow> http_error + model_row option" where
  "get_model_by_id_handler bypass mid caller gdb db =
     (case get_model_by_id mid db of
        None \<Rightarrow> Inl Unauthorized
      | Some x \<Rightarrow>
          and_then (if (u_role caller = ''admin'' \<and> bypass) \<or> md_user_id x = u_id caller then Inr True
                    else raising ServerError (has_access (u_id caller) ''read'' (md_access_control x) None True gdb))
            (\<lambda>b. Inr (if b then Some x else None)))"

definition with_model ::
  "id \<Rightarrow> (model_row \<Rightarrow> http_error + bool) \<Rightarrow> http_error \<Rightarrow> model_row list \<Rightarrow> (model_row \<Rightarrow> 'a model_reply) \<Rightarrow> 'a model_reply" where
  "with_model mid check refusal db f =
     (case get_model_by_id mid db of
        None \<Rightarrow> (Inl Unauthorized, db)
      | Some x \<Rightarrow> when_allowed (check x) refusal db (f x))"

definition toggle_model_by_id_handler :: "time \<Rightarrow> id \<Rightarrow> user \<Rightarrow> group_db \<Rightarrow> model_row list \<Rightarrow> model_row model_reply" where
  "toggle_model_by_id_handler now mid caller gdb db =
     with_model mid (\<lambda>x. may_access ''write'' caller gdb (md_user_id x) (md_access_control x)) Unauthorized db (\<lambda>x.
       case toggle_model_by_id now mid db of
         (Some y, db') \<Rightarrow> (Inr y, db') | (None, db') \<Rightarrow> (Inl BadRequest, db'))"

definition update_model_by_id_handler :: "model_form \<Rightarrow> user \<Rightarrow> group_db \<Rightarrow> model_row list \<Rightarrow> model_row option model_reply" where
  "update_model_by_id_handler form caller gdb db =
     with_model (mo_id form) (\<lambda>x. may_change caller gdb (md_user_id x) (md_access_control x)) BadRequest db (\<lambda>x.
       let (r, db') = update_model_by_id (mo_id form) form db in (Inr r, db'))"

definition delete_model_by_id_handler :: "id \<Rightarrow> user \<Rightarrow> group_db \<Rightarrow> model_row list \<Rightarrow> bool model_reply" where
  "delete_model_by_id_handler mid caller gdb db =
     with_model mid (\<lambda>x. may_access ''write'' caller gdb (md_user_id x) (md_access_control x)) Unauthorized db (\<lambda>x.
       let (r, db') = delete_model_by_id mid db in (Inr r, db'))"

definition delete_all_models_handler :: "user \<Rightarrow> model_row list \<Rightarrow> bool model_reply" where
  "delete_all_models_handler caller db =
     (if u_role caller \<noteq> ''admin'' then (Inl Unauthorized, db) else (let (r, db') = delete_all_models db in (Inr r, db')))"

section \<open>Deleting a knowledge base\<close>

text \<open>
  The references to the base are taken out of every model, one commit per model; an entry that is no dictionary
  raises and ends the request there.
\<close>

definition entry_id :: "json \<Rightarrow> py_error + json" where
  "entry_id k = (case k of JDict d \<Rightarrow> Inr (dget_or d ''id'' JNull) | _ \<Rightarrow> Inl AttributeError)"

definition other_bases :: "id \<Rightarrow> json list \<Rightarrow> py_error + json list" where
  "other_bases kid ks = filter_raising (\<lambda>k. and_then (entry_id k) (\<lambda>i. Inr (i \<noteq> JStr kid))) ks"

definition knowledge_list :: "model_row \<Rightarrow> py_error + json list" where
  "knowledge_list x = (case dget (md_meta x) ''knowledge'' of
     None \<Rightarrow> Inr []
   | Some v \<Rightarrow> if \<not> truthy v then Inr [] else (case v of
       JList ks \<Rightarrow> Inr ks
     | JStr s \<Rightarrow> Inl AttributeError
     | JDict d \<Rightarrow> Inl AttributeError
     | _ \<Rightarrow> Inl TypeError))"

definition form_of_model :: "model_row \<Rightarrow> dict \<Rightarrow> model_form" where
  "form_of_model x meta = \<lparr>mo_id = md_id x, mo_base_model_id = md_base_model_id x, mo_name = md_name x, mo_meta = meta,
     mo_params = md_params x, mo_access_control = md_access_control x, mo_is_active = md_is_active x\<rparr>"

fun forget_base :: "id \<Rightarrow> model_row list \<Rightarrow> model_row list \<Rightarrow> (py_error + unit) \<times> model_row list" where
  "forget_base kid [] db = (Inr (), db)"
| "forget_base kid (x # xs) db =
     (case and_then (knowledge_list x) (\<lambda>ks. and_then (other_bases kid ks) (\<lambda>os. Inr (ks, os))) of
        Inl e \<Rightarrow> (Inl e, db)
      | Inr (ks, os) \<Rightarrow>
          forget_base kid xs
            (if length os = length ks then db
             else snd (update_model_by_id (md_id x) (form_of_model x (dset ''knowledge'' (JList os) (md_meta x))) db)))"

definition delete_knowledge_by_id_handler ::
  "bool \<Rightarrow> id \<Rightarrow> user \<Rightarrow> group_db \<Rightarrow> library \<Rightarrow> model_row list \<Rightarrow> (http_error + bool) \<times> library \<times> model_row list" where
  "delete_knowledge_by_id_handler fk kid caller gdb s db =
     (case with_base kid caller gdb s (\<lambda>k. (Inr (), s)) of
        (Inl e, _) \<Rightarrow> (Inl e, s, db)
      | (Inr _, _) \<Rightarrow>
          (case forget_base kid (get_all_models db) db of
             (Inl e, db') \<Rightarrow> (Inl ServerError, s, db')
           | (Inr _, db') \<Rightarrow> (let (r, s') = delete_knowledge_by_id fk kid s in (Inr r, s', db'))))"

section \<open>Properties\<close>

lemma get_model_updated:
  "get_model_by_id j (snd (update_model_by_id mid form db)) =
     (if j = mid then map_option (apply_model_form form) (get_model_by_id j db) else get_model_by_id j db)"
  by (simp add: update_model_by_id_def get_model_by_id_def Let_def apply_model_form_def row_get_upd_key)

text \<open>
  Whoever may import models rewrites every model: an entry with the id of an existing model is stored over it,
  and neither its owner nor its access list is asked.
\<close>

lemma import_overwrites_any_model:
  assumes "feature_allowed ''workspace.models_import'' builtin config u gdb = Inr True"
    and "get_model_by_id i db = Some x" "dget data ''id'' = Some (JStr i)" "is_valid_model_id i"
    and "validate (dmerge (model_dict x) (dset ''params'' (dget_or data ''params'' (JDict [])) (dset ''meta'' (dget_or data ''meta'' (JDict [])) data))) = Some form"
    and "import_models builtin config validate t1 t2 [data] u gdb db = (r, db')"
  shows "r = Inr True \<and> get_model_by_id j db' = (if j = i then Some (apply_model_form form x) else get_model_by_id j db)"
proof -
  have x: "md_id x = i" using assms(2) row_get_SomeD unfolding get_model_by_id_def by metis
  have "import_model validate (t1 data) (t2 data) (u_id u) data db = (Inr (), snd (update_model_by_id i form db))"
    using assms(2-5) x by (simp add: import_model_def usable_id_def dget_or_def is_valid_model_id_def Let_def)
  then have "(r, db') = (Inr True, snd (update_model_by_id i form db))"
    using assms(1,6) by (simp add: import_models_def when_allowed_def)
  then show ?thesis using assms(2) by (auto simp: get_model_updated)
qed

definition assistant :: model_row where
  "assistant = \<lparr>md_id = ''m1'', md_user_id = ''kim'', md_base_model_id = Some ''base'', md_name = ''Assistant'', md_params = [],
     md_meta = [(''knowledge'', JList [JDict [(''id'', JStr ''k1'')], JDict [(''id'', JStr ''k2'')]])],
     md_access_control = Some [(''write'', JDict [(''group_ids'', JList (map JStr [])), (''user_ids'', JList (map JStr [''lee'']))])],
     md_is_active = True, md_updated_at = 1, md_created_at = 1\<rparr>"

definition taken_over :: model_form where
  "taken_over = \<lparr>mo_id = ''m1'', mo_base_model_id = Some ''other'', mo_name = ''Mine'', mo_meta = [], mo_params = [],
     mo_access_control = None, mo_is_active = True\<rparr>"

lemma import_overwrites_any_model_witness:
  "get_model_by_id ''m1'' (snd (import_models [] [(''workspace'', JDict [(''models_import'', JBool True)])] (\<lambda>d. Some taken_over)
     (\<lambda>_. 5) (\<lambda>_. 5) [[(''id'', JStr ''m1'')]] lee sample_groups [assistant])) = Some (apply_model_form taken_over assistant)"
proof -
  let ?config = "[(''workspace'', JDict [(''models_import'', JBool True)])]"
  have "get_groups_by_member_id ''lee'' sample_groups = []"
    by (simp add: sample_group_defs get_groups_by_member_id_def order_desc_def is_member_def all_rows_def)
  then have "feature_allowed ''workspace.models_import'' [] ?config lee sample_groups = Inr True"
    by (simp add: feature_allowed_def has_permission_def lee_def new_user_def py_in_def dget_or_def)
  moreover obtain r db' where h: "import_models [] ?config (\<lambda>d. Some taken_over) (\<lambda>_. 5) (\<lambda>_. 5) [[(''id'', JStr ''m1'')]] lee sample_groups [assistant] = (r, db')"
    by (cases "import_models [] ?config (\<lambda>d. Some taken_over) (\<lambda>_. 5) (\<lambda>_. 5) [[(''id'', JStr ''m1'')]] lee sample_groups [assistant]")
  ultimately show ?thesis
    using import_overwrites_any_model[of "[]" ?config lee sample_groups "''m1''" "[assistant]" assistant "[(''id'', JStr ''m1'')]"
        "\<lambda>d. Some taken_over" taken_over "\<lambda>_. 5" "\<lambda>_. 5" r db' "''m1''"]
    by (simp add: h) (simp add: get_model_by_id_def row_get_def assistant_def is_valid_model_id_def)
qed

lemma get_model_set_other:
  "get_model_by_id j (fold (\<lambda>x. upd_rows (\<lambda>y. md_id y = md_id x) (\<lambda>_. x)) xs db) =
     (case get_model_by_id j db of None \<Rightarrow> None | Some y \<Rightarrow> Some (case get_model_by_id j (rev xs) of None \<Rightarrow> y | Some x \<Rightarrow> x))"
proof (induction xs arbitrary: db)
  case (Cons x xs)
  show ?case
    unfolding fold_simps comp_apply Cons
    by (auto simp: get_model_by_id_def row_get_set_key row_get_append row_get_single split: option.splits)
qed (simp add: get_model_by_id_def split: option.split)

lemma get_model_all_rows:
  "get_model_by_id j (all_rows (\<lambda>x. p (md_id x)) db) = (if p j then get_model_by_id j db else None)"
  by (induction db) (auto simp: get_model_by_id_def row_get_def)

lemma get_model_rev: "distinct (map md_id xs) \<Longrightarrow> get_model_by_id j (rev xs) = get_model_by_id j xs"
proof (induction xs)
  case (Cons x xs)
  then have "md_id x = j \<Longrightarrow> row_get md_id j xs = None" by (auto simp: row_get_None_iff)
  then show ?case using Cons by (auto simp: get_model_by_id_def row_get_append row_get_Cons split: option.split)
qed simp

lemma get_model_None_iff: "get_model_by_id j db = None \<longleftrightarrow> j \<notin> md_id ` set db"
  by (simp add: get_model_by_id_def row_get_None_iff)

text \<open>
  A synchronisation with models of different ids leaves exactly these models, each with the administrator as
  its owner and the time of the synchronisation; every other model is gone.
\<close>

lemma sync_models_exact:
  assumes "distinct (map md_id models)" "sync_models now u models db = (r, db')"
  shows "r = db' \<and> get_model_by_id j db' = get_model_by_id j (map (\<lambda>(i, x). synced (now i) u x) (enumerate 0 models))"
proof -
  define xs where "xs = map (\<lambda>(i, x). synced (now i) u x) (enumerate 0 models)"
  define old where "old = all_rows (\<lambda>x. md_id x \<in> md_id ` set db) xs"
  define new where "new = all_rows (\<lambda>x. md_id x \<notin> md_id ` set db) xs"
  have "map md_id xs = map md_id models"
    unfolding xs_def by (rule nth_equalityI) (auto simp: synced_def nth_enumerate_eq)
  then have "distinct (map md_id xs)" using assms(1) by simp
  then have d: "distinct (map md_id new)" "distinct (map md_id old)"
    by (simp_all add: old_def new_def all_rows_def distinct_map_filter)
  have db': "r = db'" "db' = all_rows (\<lambda>x. md_id x \<in> md_id ` set xs) (fold (\<lambda>x. upd_rows (\<lambda>y. md_id y = md_id x) (\<lambda>_. x)) old db) @ new"
    using assms(2) d(1) by (auto simp only: sync_models_def Let_def xs_def[symmetric] new_def[symmetric] old_def[symmetric] if_True prod.inject)
  have app: "get_model_by_id j (as @ bs) = (case get_model_by_id j as of None \<Rightarrow> get_model_by_id j bs | Some x \<Rightarrow> Some x)" for as bs
    by (simp add: get_model_by_id_def row_get_append split: option.split)
  have rows: "get_model_by_id j (rev old) = (if j \<in> md_id ` set db then get_model_by_id j xs else None)"
      "get_model_by_id j new = (if j \<notin> md_id ` set db then get_model_by_id j xs else None)"
    unfolding get_model_rev[OF d(2)] unfolding old_def new_def by (rule get_model_all_rows)+
  have "get_model_by_id j db' = get_model_by_id j xs"
    using get_model_None_iff[of j db] get_model_None_iff[of j xs]
      get_model_all_rows[of j "\<lambda>i. i \<in> md_id ` set xs"]
    by (auto simp: db' app get_model_set_other rows split: option.split)
  then show ?thesis by (simp add: db'(1) xs_def)
qed

lemma sync_models_exact_witness:
  "get_model_by_id ''m1'' (snd (sync_models (\<lambda>_. 9) ''root'' [assistant\<lparr>md_id := ''m2''\<rparr>] [assistant])) = None"
proof -
  obtain r db' where h: "sync_models (\<lambda>_. 9) ''root'' [assistant\<lparr>md_id := ''m2''\<rparr>] [assistant] = (r, db')"
    by (cases "sync_models (\<lambda>_. 9) ''root'' [assistant\<lparr>md_id := ''m2''\<rparr>] [assistant]")
  show ?thesis using sync_models_exact[OF _ h, of "''m1''"] h by (simp add: get_model_by_id_def row_get_def synced_def)
qed

text \<open>What a model refers to, when its list is one of dictionaries.\<close>

definition refers_to :: "model_row \<Rightarrow> id \<Rightarrow> bool" where
  "refers_to x kid \<longleftrightarrow> (case knowledge_list x of Inl e \<Rightarrow> False | Inr ks \<Rightarrow> list_ex (\<lambda>k. entry_id k = Inr (JStr kid)) ks)"

definition without_base :: "id \<Rightarrow> model_row \<Rightarrow> model_row" where
  "without_base kid x =
     (case and_then (knowledge_list x) (other_bases kid) of
        Inl e \<Rightarrow> x
      | Inr os \<Rightarrow> if refers_to x kid then x\<lparr>md_meta := dset ''knowledge'' (JList os) (md_meta x)\<rparr> else x)"

lemma other_bases_Inr:
  "other_bases kid ks = Inr os \<Longrightarrow> os = filter (\<lambda>k. entry_id k \<noteq> Inr (JStr kid)) ks \<and> (\<forall>k \<in> set ks. \<exists>i. entry_id k = Inr i)"
  unfolding other_bases_def by (induction ks arbitrary: os) (auto simp: and_then_Inr_iff split: if_splits)

lemma filter_shorter: "length (filter p xs) = length xs \<longleftrightarrow> \<not> list_ex (\<lambda>x. \<not> p x) xs"
proof (induction xs)
  case (Cons x xs)
  have "length (filter p xs) \<noteq> Suc (length xs)" using length_filter_le[of p xs] by linarith
  then show ?case using Cons by auto
qed simp

lemma apply_same_form: "apply_model_form (form_of_model x m) x = x\<lparr>md_meta := m\<rparr>"
  by (simp add: apply_model_form_def form_of_model_def)

lemma forget_base_rows:
  "forget_base kid xs db = (Inr (), db') \<Longrightarrow> distinct (map md_id xs) \<Longrightarrow> (\<And>x. x \<in> set xs \<Longrightarrow> get_model_by_id (md_id x) db = Some x) \<Longrightarrow>
     get_model_by_id j db' = map_option (\<lambda>x. if x \<in> set xs then without_base kid x else x) (get_model_by_id j db)"
proof (induction xs arbitrary: db)
  case (Cons x xs)
  obtain ks os where ks: "knowledge_list x = Inr ks" "other_bases kid ks = Inr os"
    using Cons.prems(1) by (auto split: sum.splits simp: and_then_Inr_iff and_then_Inl_iff)
  note os = other_bases_Inr[OF ks(2)]
  have r: "refers_to x kid \<longleftrightarrow> length os \<noteq> length ks"
    using os ks(1) by (auto simp: refers_to_def filter_shorter list_ex_iff)
  let ?db = "if length os = length ks then db
    else snd (update_model_by_id (md_id x) (form_of_model x (dset ''knowledge'' (JList os) (md_meta x))) db)"
  have run: "forget_base kid xs ?db = (Inr (), db')" using Cons.prems(1) ks by (simp split: if_splits)
  have x: "get_model_by_id (md_id x) db = Some x" using Cons.prems(3) by simp
  have w: "get_model_by_id i ?db = (if i = md_id x then Some (without_base kid x) else get_model_by_id i db)" for i
    using x r ks by (auto simp: get_model_updated apply_same_form without_base_def)
  have "get_model_by_id (md_id y) ?db = Some y" if y: "y \<in> set xs" for y
  proof -
    have "md_id y \<noteq> md_id x" using y Cons.prems(2) by (metis distinct.simps(2) list.simps(9) image_eqI list.set_map)
    then show ?thesis using w Cons.prems(3)[of y] y by simp
  qed
  note ih = Cons.IH[OF run _ this]
  have "md_id (without_base kid x) = md_id x" by (auto simp: without_base_def split: sum.split)
  then have n: "without_base kid x \<notin> set xs" using Cons.prems(2) by (metis distinct.simps(2) list.simps(9) image_eqI list.set_map)
  show ?case
  proof (cases "j = md_id x")
    case True
    then show ?thesis using ih w x n Cons.prems(2) by simp
  next
    case False
    have "y \<noteq> x" if "get_model_by_id j db = Some y" for y
      using that False row_get_SomeD unfolding get_model_by_id_def by metis
    then show ?thesis using ih w False Cons.prems(2) by (cases "get_model_by_id j db") auto
  qed
qed (simp add: option.map_ident)

lemma without_base_clean:
  assumes "and_then (knowledge_list x) (other_bases kid) = Inr os"
  shows "\<not> refers_to (without_base kid x) kid"
proof (cases "refers_to x kid")
  case True
  obtain ks where ks: "knowledge_list x = Inr ks" "other_bases kid ks = Inr os" using assms by (auto simp: and_then_Inr_iff)
  have "knowledge_list (without_base kid x) = Inr os"
    using True assms by (auto simp: without_base_def knowledge_list_def)
  then show ?thesis using other_bases_Inr[OF ks(2)] by (auto simp: refers_to_def list_ex_iff)
qed (simp add: without_base_def assms)

lemma forget_base_reads:
  "forget_base kid xs db = (Inr (), db') \<Longrightarrow> x \<in> set xs \<Longrightarrow> \<exists>os. and_then (knowledge_list x) (other_bases kid) = Inr os"
  by (induction kid xs db rule: forget_base.induct) (auto split: sum.splits simp: and_then_Inr_iff and_then_Inl_iff)

text \<open>
  After a knowledge base was deleted no model refers to it: the entries naming it are out of every model's
  list, the other entries and all other models are as they were, and the base is gone.
\<close>

lemma deleted_base_forgotten:
  assumes "unique_key md_id db" "delete_knowledge_by_id_handler fk kid u gdb s db = (Inr b, s', db')"
    and "get_model_by_id j db' = Some y"
  shows "get_knowledge_by_id kid s' = None \<and> \<not> refers_to y kid \<and>
    map_option (without_base kid) (get_model_by_id j db) = Some y"
proof -
  obtain w where "with_base kid u gdb s (\<lambda>k. (Inr (), s)) = (Inr (), w)" "forget_base kid db db = (Inr (), db')"
      "s' = snd (delete_knowledge_by_id fk kid s)"
    using assms(2) by (auto simp: delete_knowledge_by_id_handler_def get_all_models_def Let_def split: sum.splits prod.splits)
  then have f: "forget_base kid db db = (Inr (), db')" and s': "s' = snd (delete_knowledge_by_id fk kid s)" by auto
  have u: "get_model_by_id (md_id x) db = Some x" if "x \<in> set db" for x
    using first_row_unique[OF assms(1) that] by (simp add: get_model_by_id_def row_get_def)
  have "distinct (map md_id db)" using assms(1) by (simp add: unique_key_def)
  note rows = forget_base_rows[OF f this u, of j]
  obtain x where x: "get_model_by_id j db = Some x" "x \<in> set db" "y = without_base kid x"
    using rows assms(3) row_get_SomeD[of md_id j db] by (cases "get_model_by_id j db") (auto simp: get_model_by_id_def)
  obtain os where "and_then (knowledge_list x) (other_bases kid) = Inr os" using forget_base_reads[OF f x(2)] by blast
  note clean = without_base_clean[OF this]
  have "get_knowledge_by_id kid s' = None"
    by (simp add: s' delete_knowledge_by_id_def cascade_links_def get_knowledge_by_id_def row_get_del)
  then show ?thesis using x clean by simp
qed

lemma deleted_base_forgotten_witness:
  "\<not> refers_to (assistant\<lparr>md_meta := [(''knowledge'', JList [JDict [(''id'', JStr ''k2'')]])]\<rparr>) ''k1''"
proof -
  let ?y = "assistant\<lparr>md_meta := [(''knowledge'', JList [JDict [(''id'', JStr ''k2'')]])]\<rparr>"
  have u: "unique_key md_id [assistant]" by simp
  have "knowledge_list assistant = Inr [JDict [(''id'', JStr ''k1'')], JDict [(''id'', JStr ''k2'')]]"
    by (simp add: knowledge_list_def assistant_def)
  then have "forget_base ''k1'' [assistant] [assistant] = (Inr (), [?y])"
    by (simp add: other_bases_def entry_id_def dget_or_def update_model_by_id_def Let_def apply_same_form) (simp add: assistant_def)
  then have "delete_knowledge_by_id_handler True ''k1'' kim sample_groups sample_library [assistant] =
      (Inr True, snd (delete_knowledge_by_id True ''k1'' sample_library), [?y])"
    by (simp add: delete_knowledge_by_id_handler_def with_base_def kims_rows(1) owner_changes[OF kims_rows(3)] when_allowed_def
        get_all_models_def delete_knowledge_by_id_def)
  from deleted_base_forgotten[OF u this, of "''m1''" ?y] show ?thesis by (simp add: get_model_by_id_def row_get_def assistant_def)
qed

text \<open>
  The list of the workspace leaves out the models that were shared with a user by name: the user may change
  such a model through its handlers but does not find it in the list.
\<close>

lemma shared_model_not_listed:
  assumes "md_access_control x = Some ac" "access_list ''write'' [] us ac" "u_id u \<in> set us" "md_user_id x \<noteq> u_id u"
    and "u_role u \<noteq> ''admin''" "u_id u \<noteq> []" "\<not> (\<exists>g. contains (Some ac) ''write'' g)"
  shows "may_change u gdb (md_user_id x) (md_access_control x) = Inr True \<and>
    (x, o') \<notin> set (fst (get_models_handler esc meta_text contains bypass query view tag order dir page_no u gdb udb db))"
proof -
  let ?f = "model_filter_of bypass query view tag order dir u gdb"
  have "has_access (u_id u) ''write'' (Some ac) None True gdb = Inr True"
    unfolding has_access_lookup[of "u_id u"] has_access_list[OF assms(2)] using assms(3) by simp
  then have c: "may_change u gdb (md_user_id x) (md_access_control x) = Inr True" by (simp add: may_change_def assms(1))
  have f: "?f \<noteq> no_model_filter" "mf_user_id ?f = Some (u_id u)"
    using assms(5) by (auto simp: model_filter_of_def no_model_filter_def Let_def)
  have "\<not> model_has_permission contains ?f ''write'' x"
    using assms f by (auto simp: model_has_permission_def list_ex_iff)
  then have "x \<notin> set (selected_models esc meta_text contains (u_id u) ?f db)"
    using f by (auto simp: selected_models_def model_order_def Let_def)
  then have "(x, o') \<notin> set (fst (search_models esc meta_text contains (u_id u) ?f k c' udb db))" for k c'
    by (auto simp: search_models_def Let_def dest: in_set_takeD in_set_dropD split: if_splits)
  then show ?thesis using c by (simp add: get_models_handler_def)
qed

text \<open>Containment of a group id in the list of a kind.\<close>

definition group_listed :: "dict option \<Rightarrow> string \<Rightarrow> id \<Rightarrow> bool" where
  "group_listed ac kind g \<longleftrightarrow> (case ac of
     Some d \<Rightarrow> (case dget d kind of
       Some (JDict l) \<Rightarrow> (case dget l ''group_ids'' of Some (JList gs) \<Rightarrow> JStr g \<in> set gs | _ \<Rightarrow> False) | _ \<Rightarrow> False) | _ \<Rightarrow> False)"

lemma shared_model_not_listed_witness:
  "(assistant, None) \<notin> set (fst (get_models_handler None (\<lambda>d. py_repr (JDict d)) group_listed False None None None None None 1 lee sample_groups sample_users [assistant]))"
  by (rule conjunct2[OF shared_model_not_listed[where us = "[''lee'']" and
      ac = "[(''write'', JDict [(''group_ids'', JList []), (''user_ids'', JList [JStr ''lee''])])]"]])
     (simp_all add: assistant_def access_list_def lee_def new_user_def group_listed_def)

end
