(* ===== verification/Task_Templates.thy ===== *)
theory Task_Templates
  imports Misc_Messages Users
begin

text \<open>
  \<^verbatim>\<open>utils/task.py\<close>: the prompt templates of the background tasks (titles, tags, follow-ups, queries, ...)
  and of retrieval. A template is a text with placeholders; each function replaces some of them, one kind
  after the other. A prompt is a JSON value since the last message of a user may have no text.
  The regular expressions are scanners: at each place either one of the alternatives matches and the match
  is replaced, or the character is copied. The instants \<open>datetime.now()\<close> returns are arguments.
\<close>

section \<open>Replacing\<close>

text \<open>\<open>s.replace(old, new)\<close>\<close>

function (sequential) replace_nonempty :: "string \<Rightarrow> string \<Rightarrow> string \<Rightarrow> string" where
  "replace_nonempty old new [] = []"
| "replace_nonempty old new (c # cs) =
     (if old \<noteq> [] \<and> startswith (c # cs) old then new @ replace_nonempty old new (drop (length old - 1) cs)
      else c # replace_nonempty old new cs)"
  by pat_completeness auto
termination by (relation "measure (\<lambda>(_, _, s). length s)") auto

definition py_replace :: "string \<Rightarrow> string \<Rightarrow> string \<Rightarrow> string" where
  "py_replace old new s =
     (if old = [] then new @ concat (map (\<lambda>c. c # new) s) else replace_nonempty old new s)"

text \<open>
  \<open>re.sub(pattern, f, s)\<close> for a pattern that never matches the empty text: \<open>m\<close> answers the match at
  the head of a text and one less than its length. A function that answers None contributes nothing.
\<close>

function (sequential) re_sub :: "(string \<Rightarrow> ('m \<times> nat) option) \<Rightarrow> ('m \<Rightarrow> py_error + string) \<Rightarrow> string \<Rightarrow> py_error + string" where
  "re_sub m f [] = Inr []"
| "re_sub m f (c # cs) =
     (case m (c # cs) of
        Some (x, n) \<Rightarrow> and_then (f x) (\<lambda>r. and_then (re_sub m f (drop n cs)) (\<lambda>t. Inr (r @ t)))
      | None \<Rightarrow> and_then (re_sub m f cs) (\<lambda>t. Inr (c # t)))"
  by pat_completeness auto
termination by (relation "measure (\<lambda>(_, _, s). length s)") auto

text \<open>A placeholder with its length group, as the digits that were matched.\<close>

datatype placeholder = Whole | First_part string | Last_part string | Middle_cut string

definition match_counted :: "string \<Rightarrow> (string \<Rightarrow> placeholder) \<Rightarrow> string \<Rightarrow> (placeholder \<times> nat) option" where
  "match_counted key kind s =
     (let ds = takeWhile is_digit (drop (length key) s)
      in if startswith s key \<and> ds \<noteq> [] \<and> startswith (drop (length key + length ds) s) ''}}''
         then Some (kind ds, length key + length ds + 1) else None)"

definition match_whole :: "string \<Rightarrow> string \<Rightarrow> (placeholder \<times> nat) option" where
  "match_whole key s = (if startswith s key then Some (Whole, length key - 1) else None)"

fun first_match :: "(string \<Rightarrow> 'a option) list \<Rightarrow> string \<Rightarrow> 'a option" where
  "first_match [] s = None"
| "first_match (m # ms) s = (case m s of Some x \<Rightarrow> Some x | None \<Rightarrow> first_match ms s)"

definition prompt_pattern :: "string \<Rightarrow> (placeholder \<times> nat) option" where
  "prompt_pattern = first_match
     [match_whole ''{{prompt}}'', match_counted ''{{prompt:start:'' First_part,
      match_counted ''{{prompt:end:'' Last_part, match_counted ''{{prompt:middletruncate:'' Middle_cut]"

definition messages_pattern :: "string \<Rightarrow> (placeholder \<times> nat) option" where
  "messages_pattern = first_match
     [match_whole ''{{MESSAGES}}'', match_counted ''{{MESSAGES:START:'' First_part,
      match_counted ''{{MESSAGES:END:'' Last_part, match_counted ''{{MESSAGES:MIDDLETRUNCATE:'' Middle_cut]"

text \<open>\<open>int(digits)\<close>: Python refuses more than 4300 digits.\<close>

definition int_digits :: "string \<Rightarrow> py_error + nat" where
  "int_digits ds = (if 4300 < length ds then Inl ValueError else Inr (digits_val ds))"

text \<open>\<open>xs[-n:]\<close>: for 0 the whole list.\<close>

definition last_items :: "nat \<Rightarrow> 'a list \<Rightarrow> 'a list" where
  "last_items n xs = (if n = 0 then xs else drop (length xs - n) xs)"

section \<open>The prompt\<close>

definition with_text :: "json \<Rightarrow> (string \<Rightarrow> py_error + 'a) \<Rightarrow> py_error + 'a" where
  "with_text prompt f = (case prompt of JStr s \<Rightarrow> f s | _ \<Rightarrow> Inl TypeError)"

definition middle_cut :: "nat \<Rightarrow> string \<Rightarrow> string" where
  "middle_cut n s =
     (if length s \<le> n then s else take ((n + 1) div 2) s @ ''...'' @ last_items (n div 2) s)"

fun prompt_replacement :: "json \<Rightarrow> placeholder \<Rightarrow> py_error + string" where
  "prompt_replacement prompt Whole =
     (case prompt of JNull \<Rightarrow> Inr [] | JStr s \<Rightarrow> Inr s | _ \<Rightarrow> Inl TypeError)"
| "prompt_replacement prompt (First_part ds) =
     and_then (int_digits ds) (\<lambda>n. with_text prompt (\<lambda>s. Inr (take n s)))"
| "prompt_replacement prompt (Last_part ds) =
     and_then (int_digits ds) (\<lambda>n. with_text prompt (\<lambda>s. Inr (last_items n s)))"
| "prompt_replacement prompt (Middle_cut ds) =
     and_then (int_digits ds) (\<lambda>n. with_text prompt (\<lambda>s. Inr (middle_cut n s)))"

text \<open>The pattern ignores case; in the template of an answer of several models it does not.\<close>

definition replace_prompt_variable :: "string \<Rightarrow> json \<Rightarrow> py_error + string" where
  "replace_prompt_variable template prompt =
     re_sub (\<lambda>s. prompt_pattern (lower s)) (prompt_replacement prompt) template"

definition moa_response_generation_template :: "string \<Rightarrow> json \<Rightarrow> string list \<Rightarrow> py_error + string" where
  "moa_response_generation_template template prompt responses =
     and_then (re_sub prompt_pattern (prompt_replacement prompt) template) (\<lambda>t.
       Inr (py_replace ''{{responses}}''
         (join (nl @ nl) (map (\<lambda>r. ''\"\"\"'' @ r @ ''\"\"\"'') responses)) t))"

section \<open>The messages\<close>

text \<open>
  \<open>s.upper()\<close>: the sharp s has two capitals; the two small letters whose capital lies above 255 are kept.
\<close>

definition upper_char :: "char \<Rightarrow> string" where
  "upper_char c = (let n = code c in
     if (97 \<le> n \<and> n \<le> 122) \<or> (224 \<le> n \<and> n \<le> 254 \<and> n \<noteq> 247) then [char_of (n - 32)]
     else if n = 223 then ''SS'' else [c])"

definition message_line :: "dict \<Rightarrow> py_error + string" where
  "message_line m =
     (case dget m ''role'' of
        None \<Rightarrow> Inl KeyError
      | Some (JStr r) \<Rightarrow>
          and_then (get_content_from_message m) (\<lambda>c. Inr (concat (map upper_char r) @ '': '' @ py_str c))
      | Some _ \<Rightarrow> Inl AttributeError)"

definition get_messages_content :: "dict list \<Rightarrow> py_error + string" where
  "get_messages_content ms = and_then (each message_line ms) (\<lambda>ls. Inr (join nl ls))"

definition messages_middle :: "nat \<Rightarrow> dict list \<Rightarrow> py_error + string" where
  "messages_middle mid ms =
     (if length ms \<le> mid then get_messages_content ms
      else let half = mid div 2 in
        and_then (get_messages_content (take half ms)) (\<lambda>a.
        and_then (get_messages_content (if mid mod 2 = 0 then last_items half ms else last_items (half + 1) ms)) (\<lambda>b.
          Inr (a @ nl @ b))))"

fun messages_replacement :: "dict list option \<Rightarrow> placeholder \<Rightarrow> py_error + string" where
  "messages_replacement None _ = Inr []"
| "messages_replacement (Some ms) Whole = get_messages_content ms"
| "messages_replacement (Some ms) (First_part ds) =
     and_then (int_digits ds) (\<lambda>n. get_messages_content (take n ms))"
| "messages_replacement (Some ms) (Last_part ds) =
     and_then (int_digits ds) (\<lambda>n. get_messages_content (last_items n ms))"
| "messages_replacement (Some ms) (Middle_cut ds) = and_then (int_digits ds) (\<lambda>n. messages_middle n ms)"

definition replace_messages_variable :: "string \<Rightarrow> dict list option \<Rightarrow> py_error + string" where
  "replace_messages_variable template messages = re_sub messages_pattern (messages_replacement messages) template"

section \<open>The date and the user\<close>

record datetime =
  dt_year :: nat
  dt_month :: nat
  dt_day :: nat
  dt_hour :: nat
  dt_minute :: nat
  dt_second :: nat

definition padded :: "nat \<Rightarrow> nat \<Rightarrow> string" where
  "padded k n = replicate (k - length (nat_str n)) CHR ''0'' @ nat_str n"

definition is_leap :: "nat \<Rightarrow> bool" where
  "is_leap y \<longleftrightarrow> y mod 4 = 0 \<and> (y mod 100 \<noteq> 0 \<or> y mod 400 = 0)"

definition ordinal :: "datetime \<Rightarrow> nat" where
  "ordinal d = (let y = dt_year d - 1 in
     y * 365 + y div 4 - y div 100 + y div 400
     + [0, 31, 59, 90, 120, 151, 181, 212, 243, 273, 304, 334] ! (dt_month d - 1)
     + (if 2 < dt_month d \<and> is_leap (dt_year d) then 1 else 0) + dt_day d)"

definition formatted_date :: "datetime \<Rightarrow> string" where
  "formatted_date d = padded 4 (dt_year d) @ ''-'' @ padded 2 (dt_month d) @ ''-'' @ padded 2 (dt_day d)"

definition formatted_time :: "datetime \<Rightarrow> string" where
  "formatted_time d =
     padded 2 (let h = dt_hour d mod 12 in if h = 0 then 12 else h) @ '':'' @ padded 2 (dt_minute d) @ '':''
     @ padded 2 (dt_second d) @ (if dt_hour d < 12 then '' AM'' else '' PM'')"

definition formatted_weekday :: "datetime \<Rightarrow> string" where
  "formatted_weekday d =
     [''Monday'', ''Tuesday'', ''Wednesday'', ''Thursday'', ''Friday'', ''Saturday'', ''Sunday''] ! ((ordinal d + 6) mod 7)"

text \<open>A date of birth is kept as its ISO text.\<close>

definition iso_date :: "string \<Rightarrow> (nat \<times> nat \<times> nat) option" where
  "iso_date s = (case split_on CHR ''-'' s of
     [y, m, d] \<Rightarrow>
       if list_all (\<lambda>t. t \<noteq> [] \<and> list_all is_digit t) [y, m, d] then Some (digits_val y, digits_val m, digits_val d) else None
   | _ \<Rightarrow> None)"

definition age_on :: "datetime \<Rightarrow> nat \<times> nat \<times> nat \<Rightarrow> int" where
  "age_on today b = (case b of (y, m, d) \<Rightarrow>
     int (dt_year today) - int y
     - (if dt_month today < m \<or> dt_month today = m \<and> dt_day today < d then 1 else 0))"

definition opt_str :: "string option \<Rightarrow> string" where
  "opt_str v = (case v of None \<Rightarrow> ''None'' | Some s \<Rightarrow> s)"

definition user_variables :: "datetime \<Rightarrow> user \<Rightarrow> (string \<times> string) list" where
  "user_variables today u =
     [(''name'', u_name u),
      (''location'', py_str (dget_or (case u_info u of None \<Rightarrow> [] | Some d \<Rightarrow> d) ''location'' JNull)),
      (''bio'', opt_str (u_bio u)), (''gender'', opt_str (u_gender u)),
      (''birth_date'', opt_str (u_date_of_birth u)),
      (''age'', case u_date_of_birth u of
          None \<Rightarrow> ''None''
        | Some b \<Rightarrow> (case iso_date b of None \<Rightarrow> ''None'' | Some d \<Rightarrow> int_str (age_on today d)))]"

definition user_value :: "(string \<times> string) list \<Rightarrow> string \<Rightarrow> string" where
  "user_value vs k = (case map_of vs k of None \<Rightarrow> ''Unknown'' | Some v \<Rightarrow> v)"

fun replace_each :: "(string \<times> string) list \<Rightarrow> string \<Rightarrow> string" where
  "replace_each [] t = t"
| "replace_each ((old, new) # rs) t = replace_each rs (py_replace old new t)"

definition prompt_template :: "datetime \<times> datetime \<Rightarrow> string \<Rightarrow> user option \<Rightarrow> string" where
  "prompt_template clock template user =
     (let vs = (case user of None \<Rightarrow> [] | Some u \<Rightarrow> user_variables (fst clock) u);
          now = snd clock
      in replace_each
        [(''{{CURRENT_DATE}}'', formatted_date now), (''{{CURRENT_TIME}}'', formatted_time now),
         (''{{CURRENT_DATETIME}}'', formatted_date now @ '' '' @ formatted_time now),
         (''{{CURRENT_WEEKDAY}}'', formatted_weekday now),
         (''{{USER_NAME}}'', user_value vs ''name''), (''{{USER_BIO}}'', user_value vs ''bio''),
         (''{{USER_GENDER}}'', user_value vs ''gender''), (''{{USER_BIRTH_DATE}}'', user_value vs ''birth_date''),
         (''{{USER_AGE}}'', user_value vs ''age''), (''{{USER_LOCATION}}'', user_value vs ''location'')]
        template)"

text \<open>Variables of a request; only a text can replace a text.\<close>

fun prompt_variables_template :: "string \<Rightarrow> dict \<Rightarrow> py_error + string" where
  "prompt_variables_template template [] = Inr template"
| "prompt_variables_template template ((k, v) # vs) =
     (case v of JStr s \<Rightarrow> prompt_variables_template (py_replace k s template) vs | _ \<Rightarrow> Inl TypeError)"

section \<open>The templates of the tasks\<close>

definition get_task_model_id :: "id \<Rightarrow> string option \<Rightarrow> string option \<Rightarrow> (id \<times> dict) list \<Rightarrow> py_error + id" where
  "get_task_model_id default_model_id task_model task_model_external models =
     (case map_of models default_model_id of
        None \<Rightarrow> Inl KeyError
      | Some model \<Rightarrow>
          (let chosen = (if dget model ''connection_type'' = Some (JStr ''local'') then task_model else task_model_external)
           in Inr (case chosen of
             Some t \<Rightarrow> if t \<noteq> [] \<and> map_of models t \<noteq> None then t else default_model_id
           | None \<Rightarrow> default_model_id)))"

definition messages_template :: "datetime \<times> datetime \<Rightarrow> string \<Rightarrow> dict list \<Rightarrow> user option \<Rightarrow> py_error + string" where
  "messages_template clock template messages user =
     and_then (get_last_user_message messages) (\<lambda>prompt.
     and_then (replace_prompt_variable template prompt) (\<lambda>t.
     and_then (replace_messages_variable t (Some messages)) (\<lambda>t'.
       Inr (prompt_template clock t' user))))"

definition title_generation_template where "title_generation_template = messages_template"
definition follow_up_generation_template where "follow_up_generation_template = messages_template"
definition tags_generation_template where "tags_generation_template = messages_template"
definition image_prompt_generation_template where "image_prompt_generation_template = messages_template"
definition query_generation_template where "query_generation_template = messages_template"

definition emoji_generation_template :: "datetime \<times> datetime \<Rightarrow> string \<Rightarrow> json \<Rightarrow> user option \<Rightarrow> py_error + string" where
  "emoji_generation_template clock template prompt user =
     and_then (replace_prompt_variable template prompt) (\<lambda>t. Inr (prompt_template clock t user))"

definition autocomplete_generation_template ::
  "datetime \<times> datetime \<Rightarrow> string \<Rightarrow> json \<Rightarrow> dict list option \<Rightarrow> string option \<Rightarrow> user option \<Rightarrow> py_error + string" where
  "autocomplete_generation_template clock template prompt messages type user =
     and_then (replace_prompt_variable (py_replace ''{{TYPE}}'' (case type of None \<Rightarrow> [] | Some t \<Rightarrow> t) template) prompt) (\<lambda>t.
     and_then (replace_messages_variable t messages) (\<lambda>t'.
       Inr (prompt_template clock t' user)))"

definition tools_function_calling_generation_template :: "string \<Rightarrow> string \<Rightarrow> string" where
  "tools_function_calling_generation_template template tools_specs = py_replace ''{{TOOLS}}'' tools_specs template"

section \<open>The template of retrieval\<close>

definition has_text :: "string \<Rightarrow> string \<Rightarrow> bool" where
  "has_text p s \<longleftrightarrow> list_ex (\<lambda>n. startswith (drop n s) p) [0..<Suc (length s)]"

definition protect :: "string \<Rightarrow> string \<Rightarrow> string \<Rightarrow> string \<times> (string \<times> string) list \<Rightarrow> string \<times> (string \<times> string) list" where
  "protect context mark uuid st =
     (if has_text mark context
      then let ph = ''{{QUERY'' @ uuid @ ''}}'' in (py_replace mark ph (fst st), snd st @ [(ph, mark)])
      else st)"

definition rag_template :: "datetime \<times> datetime \<Rightarrow> string \<Rightarrow> string \<Rightarrow> string \<Rightarrow> string \<Rightarrow> string \<Rightarrow> string \<Rightarrow> string" where
  "rag_template clock default_template uuid1 uuid2 template context query =
     (let t0 = prompt_template clock (if strip template = [] then default_template else template) None;
          (t, placeholders) = protect context ''{{QUERY}}'' uuid2 (protect context ''[query]'' uuid1 (t0, []))
      in replace_each placeholders
        (replace_each
          [(''[context]'', context), (''{{CONTEXT}}'', context), (''[query]'', query), (''{{QUERY}}'', query)] t))"

section \<open>Placeholders of a prompt\<close>

text \<open>The template as its author means it: plain text and placeholders.\<close>

datatype piece = Plain string | Prompt | Start nat | Last nat | Middle nat

fun piece_source :: "piece \<Rightarrow> string" where
  "piece_source (Plain s) = s"
| "piece_source Prompt = ''{{prompt}}''"
| "piece_source (Start n) = ''{{prompt:start:'' @ nat_str n @ ''}}''"
| "piece_source (Last n) = ''{{prompt:end:'' @ nat_str n @ ''}}''"
| "piece_source (Middle n) = ''{{prompt:middletruncate:'' @ nat_str n @ ''}}''"

fun piece_meaning :: "string \<Rightarrow> piece \<Rightarrow> string" where
  "piece_meaning p (Plain s) = s"
| "piece_meaning p Prompt = p"
| "piece_meaning p (Start n) = take n p"
| "piece_meaning p (Last n) = rev (take n (rev p))"
| "piece_meaning p (Middle n) =
     (if length p \<le> n then p else take (n - n div 2) p @ ''...'' @ rev (take (n div 2) (rev p)))"

fun piece_ok :: "piece \<Rightarrow> bool" where
  "piece_ok (Plain s) = (CHR ''{'' \<notin> set s)"
| "piece_ok Prompt = True"
| "piece_ok (Start n) = (length (nat_str n) \<le> 4300)"
| "piece_ok (Last n) = (0 < n \<and> length (nat_str n) \<le> 4300)"
| "piece_ok (Middle n) = (2 \<le> n \<and> length (nat_str n) \<le> 4300)"

lemma last_items_rev: "0 < n \<Longrightarrow> last_items n xs = rev (take n (rev xs))"
  by (simp add: last_items_def take_rev)

lemma middle_cut_meaning: "2 \<le> n \<Longrightarrow> middle_cut n p = piece_meaning p (Middle n)"
proof -
  assume "2 \<le> n"
  then have "0 < n div 2" "(n + 1) div 2 = n - n div 2" by linarith+
  then show ?thesis by (simp add: middle_cut_def last_items_rev)
qed

lemma digits_end: "takeWhile is_digit (nat_str n @ CHR ''}'' # t) = nat_str n"
  using nat_str_digits[of n] by (simp add: takeWhile_append list_all_iff is_digit_def)

lemma lower_digits: "list_all is_digit ds \<Longrightarrow> lower ds = ds"
  by (induction ds) (auto simp: lower_def lower_char_def is_digit_def Let_def)

lemma lower_nat_str [simp]: "lower (nat_str n) = nat_str n"
  using nat_str_digits lower_digits by blast

lemma lower_brace: "lower_char c = CHR ''{'' \<Longrightarrow> c = CHR ''{''"
proof -
  assume b: "lower_char c = CHR ''{''"
  have s: "of_char (char_of (n + 32) :: char) = n + 32" if "n \<le> 222" for n :: nat
    using that by (simp add: of_char_of take_bit_eq_mod)
  show ?thesis
  proof (rule ccontr)
    assume ne: "c \<noteq> CHR ''{''"
    with b have l: "lower_char c = char_of (code c + 32)" "code c \<le> 222" "(65 \<le> code c \<and> code c \<le> 90) \<or> 192 \<le> code c"
      by (auto simp: lower_char_def Let_def split: if_splits)
    then have "code c + 32 = code (CHR ''{'')" using b s[OF l(2)] by simp
    with l(3) show False by (auto simp: of_char_def)
  qed
qed

lemmas pattern_simps = prompt_pattern_def messages_pattern_def match_whole_def match_counted_def startswith_def Let_def

lemma no_brace_no_match: "c \<noteq> CHR ''{'' \<Longrightarrow> prompt_pattern (c # s) = None"
  by (simp add: pattern_simps)

lemma re_sub_copies:
  "CHR ''{'' \<notin> set s \<Longrightarrow>
   re_sub (\<lambda>s. prompt_pattern (lower s)) f (s @ t) =
   and_then (re_sub (\<lambda>s. prompt_pattern (lower s)) f t) (\<lambda>r. Inr (s @ r))"
proof (induction s)
  case Nil
  then show ?case by (cases "re_sub (\<lambda>s. prompt_pattern (lower s)) f t") simp_all
next
  case (Cons c s)
  have "prompt_pattern (lower ((c # s) @ t)) = None"
    using Cons.prems lower_brace[of c] by (auto simp: lower_def intro: no_brace_no_match)
  then show ?case using Cons by (cases "re_sub (\<lambda>s. prompt_pattern (lower s)) f t") simp_all
qed

lemma re_sub_match:
  assumes "m (w @ t) = Some (x, length w - 1)" "w \<noteq> []" "f x = Inr r"
  shows "re_sub m f (w @ t) = and_then (re_sub m f t) (\<lambda>u. Inr (r @ u))"
proof -
  obtain c cs where "w = c # cs" using assms(2) by (cases w) auto
  then show ?thesis using assms(1,3) by simp
qed

lemma lower_keys [simp]:
  "lower ''{{prompt}}'' = ''{{prompt}}''" "lower ''{{prompt:start:'' = ''{{prompt:start:''"
  "lower ''{{prompt:end:'' = ''{{prompt:end:''" "lower ''{{prompt:middletruncate:'' = ''{{prompt:middletruncate:''"
  "lower ''}}'' = ''}}''"
  by code_simp+

lemma lower_sources:
  "lower (''{{prompt}}'' @ t) = ''{{prompt}}'' @ lower t"
  "lower (piece_source (Start n) @ t) = piece_source (Start n) @ lower t"
  "lower (piece_source (Last n) @ t) = piece_source (Last n) @ lower t"
  "lower (piece_source (Middle n) @ t) = piece_source (Middle n) @ lower t"
  by (simp_all only: piece_source.simps lower_append lower_keys lower_nat_str append_assoc)

lemma placeholder_matches:
  "prompt_pattern (''{{prompt}}'' @ t) = Some (Whole, length (piece_source Prompt) - 1)"
  "prompt_pattern (piece_source (Start n) @ t) = Some (First_part (nat_str n), length (piece_source (Start n)) - 1)"
  "prompt_pattern (piece_source (Last n) @ t) = Some (Last_part (nat_str n), length (piece_source (Last n)) - 1)"
  "prompt_pattern (piece_source (Middle n) @ t) = Some (Middle_cut (nat_str n), length (piece_source (Middle n)) - 1)"
  by (simp_all add: pattern_simps digits_end nat_str_digits)

lemma int_nat_str: "length (nat_str n) \<le> 4300 \<Longrightarrow> int_digits (nat_str n) = Inr n"
  by (simp add: int_digits_def)

lemma piece_replaced:
  assumes "piece_ok x"
  shows "re_sub (\<lambda>s. prompt_pattern (lower s)) (prompt_replacement (JStr p)) (piece_source x @ t) =
    and_then (re_sub (\<lambda>s. prompt_pattern (lower s)) (prompt_replacement (JStr p)) t) (\<lambda>u. Inr (piece_meaning p x @ u))"
proof (cases x)
  case (Plain s)
  then show ?thesis using assms by (simp add: re_sub_copies)
next
  case Prompt
  show ?thesis unfolding Prompt piece_source.simps(2)
    by (rule re_sub_match[where x = Whole]) (simp_all only: lower_sources placeholder_matches, simp_all)
next
  case (Start n)
  show ?thesis unfolding Start
    by (rule re_sub_match[where x = "First_part (nat_str n)"])
      (simp_all only: lower_sources placeholder_matches, use assms Start in \<open>simp_all add: int_nat_str with_text_def\<close>)
next
  case (Last n)
  show ?thesis unfolding Last
    by (rule re_sub_match[where x = "Last_part (nat_str n)"])
      (simp_all only: lower_sources placeholder_matches, use assms Last in \<open>simp_all add: int_nat_str with_text_def last_items_rev\<close>)
next
  case (Middle n)
  have m: "middle_cut n p = piece_meaning p (Middle n)" using assms Middle by (intro middle_cut_meaning) simp
  show ?thesis unfolding Middle
    by (rule re_sub_match[where x = "Middle_cut (nat_str n)"])
      (simp_all only: lower_sources placeholder_matches, use assms Middle m in \<open>simp_all add: int_nat_str with_text_def\<close>)
qed

text \<open>
  C33: A template written as plain text and placeholders is replaced piece by piece: \<open>{{prompt}}\<close> by the
  prompt, a start or end placeholder by that many of its characters, a middle truncation by its two ends,
  whatever the prompt contains. The plain text may hold no brace, and counts begin at 1, for a middle
  truncation at 2.
\<close>

theorem prompt_placeholders_rendered:
  assumes "list_all piece_ok ps"
  shows "replace_prompt_variable (concat (map piece_source ps)) (JStr p) = Inr (concat (map (piece_meaning p) ps))"
  using assms by (induction ps) (simp_all add: replace_prompt_variable_def piece_replaced)

lemma prompt_placeholders_rendered_witness:
  "replace_prompt_variable ''Title of {{prompt:start:2}} or {{prompt:middletruncate:4}}'' (JStr ''abcdefg'') = Inr ''Title of ab or ab...fg''"
proof -
  let ?ps = "[Plain ''Title of '', Start 2, Plain '' or '', Middle 4]"
  have n: "nat_str 2 = ''2''" "nat_str 4 = ''4''" by code_simp+
  have "list_all piece_ok ?ps" by (simp add: n)
  from prompt_placeholders_rendered[OF this, of "''abcdefg''"] show ?thesis by (simp add: n)
qed

text \<open>
  The counts the template leaves out: the last 0 characters are the whole prompt, so a truncation to one
  character, or to none, is longer than the prompt.
\<close>

lemma zero_end_is_everything: "last_items 0 xs = xs"
  by (simp add: last_items_def)

lemma cut_below_two: "n < 2 \<Longrightarrow> n < length s \<Longrightarrow> middle_cut n s = take n s @ ''...'' @ s"
  by (cases n) (auto simp: middle_cut_def last_items_def)

lemma middle_cut_bounded: "2 \<le> n \<Longrightarrow> length (middle_cut n s) \<le> n + 3"
  by (auto simp: middle_cut_def last_items_def)

section \<open>Queries inside a retrieved context\<close>

definition unmarked :: "string \<Rightarrow> bool" where
  "unmarked s \<longleftrightarrow> CHR ''['' \<notin> set s \<and> CHR ''{'' \<notin> set s"

lemma unmarked_simps [simp]:
  "unmarked []" "unmarked (s @ t) \<longleftrightarrow> unmarked s \<and> unmarked t"
  by (auto simp: unmarked_def)

lemma replace_copies: "hd old \<notin> set s \<Longrightarrow> replace_nonempty old new (s @ t) = s @ replace_nonempty old new t"
  by (induction s) (auto simp: startswith_def neq_Nil_conv)

lemma replace_here: "old \<noteq> [] \<Longrightarrow> replace_nonempty old new (old @ t) = new @ replace_nonempty old new t"
  by (cases old) (auto simp: startswith_def)

lemma replace_idle: "old \<noteq> [] \<Longrightarrow> hd old \<notin> set s \<Longrightarrow> py_replace old new s = s"
  using replace_copies[of old s new "[]"] by (simp add: py_replace_def)

lemma replace_once:
  assumes "old \<noteq> []" "hd old \<notin> set a" "hd old \<notin> set b"
  shows "py_replace old new (a @ old @ b) = a @ new @ b"
  using assms replace_idle[of old b new] by (simp add: py_replace_def replace_copies replace_here)

lemma replace_each_idle:
  "\<forall>(old, new) \<in> set rs. old \<noteq> [] \<and> hd old \<notin> set s \<Longrightarrow> replace_each rs s = s"
  by (induction rs) (auto simp: replace_idle)

lemma prompt_template_plain: "CHR ''{'' \<notin> set s \<Longrightarrow> prompt_template clock s None = s"
  unfolding prompt_template_def Let_def by (rule replace_each_idle) simp

lemma has_text_here: "has_text p (a @ p @ b)"
  unfolding has_text_def list_ex_iff startswith_def by (rule bexI[of _ "length a"]) auto

lemma has_text_head: "p \<noteq> [] \<Longrightarrow> has_text p s \<Longrightarrow> hd p \<in> set s"
  unfolding has_text_def list_ex_iff startswith_def
  by (metis append_is_Nil_conv hd_append2 hd_in_set in_set_dropD prefix_def)

lemma strip_eq_Nil: "x \<in> set s \<Longrightarrow> \<not> is_space x \<Longrightarrow> strip s \<noteq> []"
  by (auto simp: strip_def rstrip_def lstrip_def dropWhile_eq_Nil_conv)
     (metis dropWhile_eq_Nil_conv hd_dropWhile list.set_sel(1))

definition query_mark :: "string \<Rightarrow> string" where "query_mark uuid = ''{{QUERY'' @ uuid @ ''}}''"

text \<open>The text left of a mark is passed over by a replacement whose own mark begins with another character.\<close>

lemma mark_passed_over:
  assumes "unmarked uuid" "uuid \<noteq> []" "hd uuid \<noteq> CHR ''}''"
  shows "replace_nonempty ''{{QUERY}}'' new (query_mark uuid @ t) = query_mark uuid @ replace_nonempty ''{{QUERY}}'' new t"
    and "replace_nonempty ''{{CONTEXT}}'' new (query_mark uuid @ t) = query_mark uuid @ replace_nonempty ''{{CONTEXT}}'' new t"
proof -
  have r: "replace_nonempty old new (''QUERY'' @ uuid @ ''}}'' @ t) = (''QUERY'' @ uuid @ ''}}'') @ replace_nonempty old new t"
    if "hd old = CHR ''{''" for old
    using replace_copies[of old "''QUERY'' @ uuid @ ''}}''" new t] assms(1) that by (simp add: unmarked_def)
  obtain c us where u: "uuid = c # us" "c \<noteq> CHR ''}''" using assms(2,3) by (cases uuid) auto
  show "replace_nonempty ''{{QUERY}}'' new (query_mark uuid @ t) = query_mark uuid @ replace_nonempty ''{{QUERY}}'' new t"
    using r[of "''{{QUERY}}''"] u(2) by (simp add: query_mark_def startswith_def u(1))
  show "replace_nonempty ''{{CONTEXT}}'' new (query_mark uuid @ t) = query_mark uuid @ replace_nonempty ''{{CONTEXT}}'' new t"
    using r[of "''{{CONTEXT}}''"] by (simp add: query_mark_def startswith_def)
qed

text \<open>
  The retrieval template protects the wrong query mark. When a retrieved document contains the text
  \<open>[query]\<close>, the mark of the template is put aside before the context is inserted. The user's query
  then takes the place of the mark inside the document, and the place meant for the query reads
  \<open>[query]\<close>.
\<close>

lemma rag_template_swaps_query:
  assumes "unmarked t1" "unmarked t2" "unmarked t3" "unmarked c1" "unmarked c2" "unmarked query"
    and u: "unmarked uuid1" "uuid1 \<noteq> []" "hd uuid1 \<noteq> CHR ''}''"
  shows "rag_template clock default_template uuid1 uuid2
      (t1 @ ''[context]'' @ t2 @ ''[query]'' @ t3) (c1 @ ''[query]'' @ c2) query =
    t1 @ c1 @ query @ c2 @ t2 @ ''[query]'' @ t3"
proof -
  let ?t = "t1 @ ''[context]'' @ t2 @ ''[query]'' @ t3" and ?c = "c1 @ ''[query]'' @ c2"
  let ?ph = "query_mark uuid1"
  note free = assms(1-6)[unfolded unmarked_def] and um = u(1)[unfolded unmarked_def]
  have "strip ?t \<noteq> []" by (rule strip_eq_Nil[of "CHR ''[''"]) (simp_all add: is_space_def)
  moreover have "prompt_template clock ?t None = ?t" by (rule prompt_template_plain) (use free in simp)
  moreover have "has_text ''[query]'' ?c" by (rule has_text_here)
  moreover have "\<not> has_text ''{{QUERY}}'' ?c" using has_text_head[of "''{{QUERY}}''" ?c] free by auto
  moreover have "py_replace ''[query]'' ?ph ?t = t1 @ ''[context]'' @ t2 @ ?ph @ t3"
  proof -
    have s: "replace_nonempty ''[query]'' ?ph (''[context]'' @ x) = ''[context]'' @ replace_nonempty ''[query]'' ?ph x" for x
      by (simp add: startswith_def)
    have "replace_nonempty ''[query]'' ?ph (t2 @ ''[query]'' @ t3) = t2 @ ?ph @ t3"
      using replace_once[of "''[query]''" t2 t3 ?ph] free by (simp add: py_replace_def)
    then show ?thesis using free s[of "t2 @ ''[query]'' @ t3"] replace_copies[of "''[query]''" t1] by (simp add: py_replace_def)
  qed
  moreover have "py_replace ''[context]'' ?c (t1 @ ''[context]'' @ t2 @ ?ph @ t3) = t1 @ ?c @ t2 @ ?ph @ t3"
    using replace_once[of "''[context]''" t1 "t2 @ ?ph @ t3" ?c] free um by (simp add: query_mark_def)
  moreover have "py_replace ''{{CONTEXT}}'' ?c (t1 @ ?c @ t2 @ ?ph @ t3) = t1 @ ?c @ t2 @ ?ph @ t3"
    using replace_copies[of "''{{CONTEXT}}''" "t1 @ ?c @ t2" ?c "?ph @ t3"] replace_idle[of "''{{CONTEXT}}''" t3 ?c]
      free mark_passed_over(2)[OF u, of ?c t3] by (simp add: py_replace_def)
  moreover have "py_replace ''[query]'' query (t1 @ ?c @ t2 @ ?ph @ t3) = t1 @ c1 @ query @ c2 @ t2 @ ?ph @ t3"
    using replace_once[of "''[query]''" "t1 @ c1" "c2 @ t2 @ ?ph @ t3" query] free um by (simp add: query_mark_def)
  moreover have "py_replace ''{{QUERY}}'' query (t1 @ c1 @ query @ c2 @ t2 @ ?ph @ t3) = t1 @ c1 @ query @ c2 @ t2 @ ?ph @ t3"
    using replace_copies[of "''{{QUERY}}''" "t1 @ c1 @ query @ c2 @ t2" query "?ph @ t3"] replace_idle[of "''{{QUERY}}''" t3 query]
      free mark_passed_over(1)[OF u, of query t3] by (simp add: py_replace_def)
  moreover have "py_replace ?ph ''[query]'' (t1 @ c1 @ query @ c2 @ t2 @ ?ph @ t3) = t1 @ c1 @ query @ c2 @ t2 @ ''[query]'' @ t3"
    using replace_once[of ?ph "t1 @ c1 @ query @ c2 @ t2" t3 "''[query]''"] free by (simp add: query_mark_def)
  ultimately show ?thesis
    by (simp only: rag_template_def protect_def query_mark_def[symmetric] Let_def if_True if_False fst_conv snd_conv
        split_conv replace_each.simps append_Nil append_assoc)
qed

lemma rag_template_swaps_query_witness:
  "rag_template (\<lparr>dt_year = 2025, dt_month = 1, dt_day = 1, dt_hour = 0, dt_minute = 0, dt_second = 0\<rparr>,
      \<lparr>dt_year = 2025, dt_month = 1, dt_day = 1, dt_hour = 0, dt_minute = 0, dt_second = 0\<rparr>) [] ''1f'' ''2f''
     ''Use [context] to answer [query].'' ''Put [query] here.'' ''Why?'' =
   ''Use Put Why? here. to answer [query].''"
  using rag_template_swaps_query[of "''Use ''" "'' to answer ''" "''.''" "''Put ''" "'' here.''" "''Why?''" "''1f''"]
  by (simp add: unmarked_def)

end
