(* ===== verification/Task_Requests.thy ===== *)
theory Task_Requests
  imports Task_Templates
begin

text \<open>
  \<^verbatim>\<open>routers/tasks.py\<close>: the requests that let a language model write titles, tags, follow-up questions,
  queries and so on. A handler checks the settings, finds the model, fills a template and hands a payload to
  the pipeline; the model of a handler ends with this payload. The settings are a record; the default
  templates, constants of \<^verbatim>\<open>config.py\<close>, are fields of it.
\<close>

section \<open>Settings\<close>

record task_config =
  tc_task_model :: "string option"
  tc_task_model_external :: "string option"
  tc_enable_title :: bool
  tc_title_template :: string
  tc_image_template :: string
  tc_enable_autocomplete :: bool
  tc_autocomplete_max_length :: int
  tc_tags_template :: string
  tc_follow_up_template :: string
  tc_enable_follow_up :: bool
  tc_enable_tags :: bool
  tc_enable_search_query :: bool
  tc_enable_retrieval_query :: bool
  tc_query_template :: string
  tc_tools_template :: string
  tc_voice_template :: "string option"

record task_settings = task_config +
  td_autocomplete_template :: string
  td_title :: string
  td_follow_up :: string
  td_tags :: string
  td_image :: string
  td_query :: string
  td_autocomplete :: string
  td_emoji :: string
  td_moa :: string

definition get_task_config :: "task_settings \<Rightarrow> task_config" where
  "get_task_config c = task_config.truncate c"

definition update_task_config :: "task_config \<Rightarrow> task_settings \<Rightarrow> task_settings" where
  "update_task_config f c = c\<lparr>
     tc_task_model := tc_task_model f, tc_task_model_external := tc_task_model_external f,
     tc_enable_title := tc_enable_title f, tc_title_template := tc_title_template f,
     tc_enable_follow_up := tc_enable_follow_up f, tc_follow_up_template := tc_follow_up_template f,
     tc_image_template := tc_image_template f, tc_enable_autocomplete := tc_enable_autocomplete f,
     tc_autocomplete_max_length := tc_autocomplete_max_length f, tc_tags_template := tc_tags_template f,
     tc_enable_tags := tc_enable_tags f, tc_enable_search_query := tc_enable_search_query f,
     tc_enable_retrieval_query := tc_enable_retrieval_query f, tc_query_template := tc_query_template f,
     tc_tools_template := tc_tools_template f, tc_voice_template := tc_voice_template f\<rparr>"

section \<open>A request\<close>

text \<open>
  What a handler sees of the request: the models of the server, the model the client itself has sent, and the
  metadata and queries the chat middleware left in the state of the request.
\<close>

record task_env =
  te_models :: "(id \<times> dict) list"
  te_direct :: "dict option"
  te_metadata :: dict
  te_cached :: json

datatype task_answer = Disabled string | Cached json | Completion dict

definition request_models :: "task_env \<Rightarrow> http_error + (id \<times> dict) list" where
  "request_models env = (case te_direct env of
     None \<Rightarrow> Inr (te_models env)
   | Some m \<Rightarrow> (case dget m ''id'' of
        None \<Rightarrow> Inl ServerError
      | Some (JStr i) \<Rightarrow> Inr [(i, m)]
      | Some _ \<Rightarrow> Inr []))"

definition find_model :: "dict \<Rightarrow> (id \<times> dict) list \<Rightarrow> http_error + id" where
  "find_model form models = (case dget form ''model'' of
     None \<Rightarrow> Inl ServerError
   | Some (JList _) \<Rightarrow> Inl ServerError
   | Some (JDict _) \<Rightarrow> Inl ServerError
   | Some (JStr i) \<Rightarrow> if map_of models i = None then Inl NotFound else Inr i
   | Some _ \<Rightarrow> Inl NotFound)"

definition task_model :: "task_settings \<Rightarrow> task_env \<Rightarrow> dict \<Rightarrow> http_error + id \<times> (id \<times> dict) list" where
  "task_model c env form =
     and_then (request_models env) (\<lambda>models.
     and_then (find_model form models) (\<lambda>model_id.
     and_then (raising ServerError (get_task_model_id model_id (tc_task_model c) (tc_task_model_external c) models)) (\<lambda>t.
       Inr (t, models))))"

text \<open>\<open>models[task_model_id]\<close>, which only the handlers of titles and emojis read.\<close>

definition model_entry :: "id \<Rightarrow> (id \<times> dict) list \<Rightarrow> http_error + dict" where
  "model_entry t models = (case map_of models t of None \<Rightarrow> Inl ServerError | Some m \<Rightarrow> Inr m)"

text \<open>The messages of a form. A message that is no dictionary fails when the code reads it, here at once.\<close>

fun dict_items :: "json list \<Rightarrow> py_error + dict list" where
  "dict_items [] = Inr []"
| "dict_items (JDict d # vs) = and_then (dict_items vs) (\<lambda>ds. Inr (d # ds))"
| "dict_items (_ # vs) = Inl TypeError"

definition messages_of :: "json \<Rightarrow> py_error + dict list" where
  "messages_of v = (case v of JList vs \<Rightarrow> dict_items vs | _ \<Rightarrow> Inl TypeError)"

definition form_item :: "dict \<Rightarrow> string \<Rightarrow> py_error + json" where
  "form_item form k = (case dget form k of None \<Rightarrow> Inl KeyError | Some v \<Rightarrow> Inr v)"

definition template_or :: "string \<Rightarrow> string \<Rightarrow> string" where
  "template_or t t0 = (if t \<noteq> [] then t else t0)"

definition template_or_blank :: "string \<Rightarrow> string \<Rightarrow> string" where
  "template_or_blank t t0 = (if strip t \<noteq> [] then t else t0)"

text \<open>\<open>d.get("info", {}).get("params", {}).get("max_tokens", 1000)\<close>\<close>

fun get_chain :: "string list \<Rightarrow> json \<Rightarrow> json \<Rightarrow> py_error + json" where
  "get_chain [] v0 v = Inr v"
| "get_chain [k] v0 v = (case v of JDict d \<Rightarrow> Inr (dget_or d k v0) | _ \<Rightarrow> Inl AttributeError)"
| "get_chain (k # ks) v0 v = (case v of JDict d \<Rightarrow> get_chain ks v0 (dget_or d k (JDict [])) | _ \<Rightarrow> Inl AttributeError)"

definition token_limit :: "dict \<Rightarrow> json \<Rightarrow> dict" where
  "token_limit model n =
     (if dget model ''owned_by'' = Some (JStr ''ollama'') then [(''max_tokens'', n)] else [(''max_completion_tokens'', n)])"

definition title_limit :: "dict \<Rightarrow> http_error + dict" where
  "title_limit m = raising ServerError
     (and_then (get_chain [''info'', ''params'', ''max_tokens''] (JInt 1000) (JDict m)) (\<lambda>n. Inr (token_limit m n)))"

definition task_metadata :: "task_env \<Rightarrow> string \<Rightarrow> dict \<Rightarrow> dict" where
  "task_metadata env task form = dmerge (te_metadata env)
     [(''task'', JStr task), (''task_body'', JDict form), (''chat_id'', dget_or form ''chat_id'' JNull)]"

definition task_payload :: "task_env \<Rightarrow> id \<Rightarrow> string \<Rightarrow> json \<Rightarrow> dict \<Rightarrow> string \<Rightarrow> dict \<Rightarrow> dict" where
  "task_payload env model content stream limits task form =
     [(''model'', JStr model), (''messages'', JList [JDict (new_message ''user'' content)]), (''stream'', stream)]
     @ limits @ [(''metadata'', JDict (task_metadata env task form))]"

text \<open>A template filled from the messages of the form.\<close>

definition content_of ::
  "(string \<Rightarrow> dict list \<Rightarrow> user option \<Rightarrow> py_error + string) \<Rightarrow> string \<Rightarrow> dict \<Rightarrow> user \<Rightarrow> http_error + string" where
  "content_of fill template form caller =
     raising ServerError
       (and_then (form_item form ''messages'') (\<lambda>v.
        and_then (messages_of v) (\<lambda>ms. fill template ms (Some caller))))"

definition task_request ::
  "task_settings \<Rightarrow> task_env \<Rightarrow> dict \<Rightarrow> http_error + string \<Rightarrow> (id \<Rightarrow> (id \<times> dict) list \<Rightarrow> http_error + dict) \<Rightarrow> string \<Rightarrow>
     http_error + task_answer" where
  "task_request c env form content limits task =
     and_then (task_model c env form) (\<lambda>(t, models).
     and_then content (\<lambda>text.
     and_then (limits t models) (\<lambda>l.
       Inr (Completion (task_payload env t text (JBool False) l task form)))))"

definition no_limit :: "id \<Rightarrow> (id \<times> dict) list \<Rightarrow> http_error + dict" where
  "no_limit t models = Inr []"

section \<open>The handlers\<close>

definition generate_title :: "datetime \<times> datetime \<Rightarrow> task_settings \<Rightarrow> task_env \<Rightarrow> dict \<Rightarrow> user \<Rightarrow> http_error + task_answer" where
  "generate_title clock c env form caller =
     (if \<not> tc_enable_title c then Inr (Disabled ''Title generation is disabled'')
      else task_request c env form
        (content_of (title_generation_template clock) (template_or (tc_title_template c) (td_title c)) form caller)
        (\<lambda>t models. and_then (model_entry t models) title_limit) ''title_generation'')"

definition generate_follow_ups :: "datetime \<times> datetime \<Rightarrow> task_settings \<Rightarrow> task_env \<Rightarrow> dict \<Rightarrow> user \<Rightarrow> http_error + task_answer" where
  "generate_follow_ups clock c env form caller =
     (if \<not> tc_enable_follow_up c then Inr (Disabled ''Follow-up generation is disabled'')
      else task_request c env form
        (content_of (follow_up_generation_template clock) (template_or (tc_follow_up_template c) (td_follow_up c)) form caller)
        no_limit ''follow_up_generation'')"

definition generate_chat_tags :: "datetime \<times> datetime \<Rightarrow> task_settings \<Rightarrow> task_env \<Rightarrow> dict \<Rightarrow> user \<Rightarrow> http_error + task_answer" where
  "generate_chat_tags clock c env form caller =
     (if \<not> tc_enable_tags c then Inr (Disabled ''Tags generation is disabled'')
      else task_request c env form
        (content_of (tags_generation_template clock) (template_or (tc_tags_template c) (td_tags c)) form caller)
        no_limit ''tags_generation'')"

definition generate_image_prompt :: "datetime \<times> datetime \<Rightarrow> task_settings \<Rightarrow> task_env \<Rightarrow> dict \<Rightarrow> user \<Rightarrow> http_error + task_answer" where
  "generate_image_prompt clock c env form caller =
     task_request c env form
       (content_of (image_prompt_generation_template clock) (template_or (tc_image_template c) (td_image c)) form caller)
       no_limit ''image_prompt_generation''"

definition generate_queries :: "datetime \<times> datetime \<Rightarrow> task_settings \<Rightarrow> task_env \<Rightarrow> dict \<Rightarrow> user \<Rightarrow> http_error + task_answer" where
  "generate_queries clock c env form caller =
     (let type = dget_or form ''type'' JNull
      in if type = JStr ''web_search'' \<and> \<not> tc_enable_search_query c
            \<or> type = JStr ''retrieval'' \<and> \<not> tc_enable_retrieval_query c then Inl BadRequest
         else if truthy (te_cached env) then Inr (Cached (te_cached env))
         else task_request c env form
           (content_of (query_generation_template clock) (template_or_blank (tc_query_template c) (td_query c)) form caller)
           no_limit ''query_generation'')"

text \<open>The length of the prompt is checked only when a bound is set; then it must be a text or a container.\<close>

definition prompt_length :: "json \<Rightarrow> http_error + int" where
  "prompt_length v = (case v of
     JStr s \<Rightarrow> Inr (int (length s)) | JList xs \<Rightarrow> Inr (int (length xs)) | JDict d \<Rightarrow> Inr (int (length d)) | _ \<Rightarrow> Inl ServerError)"

definition length_allowed :: "int \<Rightarrow> json \<Rightarrow> http_error + unit" where
  "length_allowed n prompt =
     (if n \<le> 0 then Inr () else and_then (prompt_length prompt) (\<lambda>k. if k > n then Inl BadRequest else Inr ()))"

definition optional_messages :: "json \<Rightarrow> py_error + dict list option" where
  "optional_messages v = (if v = JNull then Inr None else and_then (messages_of v) (\<lambda>ms. Inr (Some ms)))"

definition optional_text :: "json \<Rightarrow> py_error + string option" where
  "optional_text v = (case v of JStr s \<Rightarrow> Inr (Some s) | _ \<Rightarrow> if truthy v then Inl TypeError else Inr None)"

definition generate_autocompletion :: "datetime \<times> datetime \<Rightarrow> task_settings \<Rightarrow> task_env \<Rightarrow> dict \<Rightarrow> user \<Rightarrow> http_error + task_answer" where
  "generate_autocompletion clock c env form caller =
     (if \<not> tc_enable_autocomplete c then Inl BadRequest
      else let prompt = dget_or form ''prompt'' JNull in
        and_then (length_allowed (tc_autocomplete_max_length c) prompt) (\<lambda>_.
        task_request c env form
          (raising ServerError
            (and_then (optional_messages (dget_or form ''messages'' JNull)) (\<lambda>ms.
             and_then (optional_text (dget_or form ''type'' JNull)) (\<lambda>type.
               autocomplete_generation_template clock
                 (template_or_blank (td_autocomplete_template c) (td_autocomplete c)) prompt ms type (Some caller)))))
          no_limit ''autocomplete_generation''))"

definition generate_emoji :: "datetime \<times> datetime \<Rightarrow> task_settings \<Rightarrow> task_env \<Rightarrow> dict \<Rightarrow> user \<Rightarrow> http_error + task_answer" where
  "generate_emoji clock c env form caller =
     task_request c env form
       (raising ServerError (and_then (form_item form ''prompt'') (\<lambda>prompt.
          emoji_generation_template clock (td_emoji c) prompt (Some caller))))
       (\<lambda>t models. and_then (model_entry t models) (\<lambda>m. Inr (token_limit m (JInt 4)))) ''emoji_generation''"

text \<open>The answers as texts, from whatever can be iterated.\<close>

definition text_items :: "json \<Rightarrow> py_error + string list" where
  "text_items v = (case v of
     JList vs \<Rightarrow> Inr (map py_str vs) | JStr s \<Rightarrow> Inr (map (\<lambda>c. [c]) s) | JDict d \<Rightarrow> Inr (map fst d) | _ \<Rightarrow> Inl TypeError)"

definition generate_moa_response :: "task_settings \<Rightarrow> task_env \<Rightarrow> dict \<Rightarrow> http_error + task_answer" where
  "generate_moa_response c env form =
     and_then (request_models env) (\<lambda>models.
     and_then (find_model form models) (\<lambda>model_id.
     and_then (raising ServerError
       (and_then (form_item form ''prompt'') (\<lambda>prompt.
        and_then (form_item form ''responses'') (\<lambda>v.
        and_then (text_items v) (\<lambda>rs. moa_response_generation_template (td_moa c) prompt rs))))) (\<lambda>content.
       Inr (Completion
         [(''model'', JStr model_id), (''messages'', JList [JDict (new_message ''user'' content)]),
          (''stream'', dget_or form ''stream'' (JBool False)),
          (''metadata'', JDict (dmerge (te_metadata env)
             [(''chat_id'', dget_or form ''chat_id'' JNull), (''task'', JStr ''moa_response_generation''),
              (''task_body'', JDict form)]))]))))"

section \<open>What is handed to the pipeline\<close>

datatype task = Title | Follow_ups | Chat_tags | Image_prompt | Queries | Autocompletion | Emoji | Moa_response

fun run_task :: "datetime \<times> datetime \<Rightarrow> task_settings \<Rightarrow> task_env \<Rightarrow> dict \<Rightarrow> user \<Rightarrow> task \<Rightarrow> http_error + task_answer" where
  "run_task clock c env form caller Title = generate_title clock c env form caller"
| "run_task clock c env form caller Follow_ups = generate_follow_ups clock c env form caller"
| "run_task clock c env form caller Chat_tags = generate_chat_tags clock c env form caller"
| "run_task clock c env form caller Image_prompt = generate_image_prompt clock c env form caller"
| "run_task clock c env form caller Queries = generate_queries clock c env form caller"
| "run_task clock c env form caller Autocompletion = generate_autocompletion clock c env form caller"
| "run_task clock c env form caller Emoji = generate_emoji clock c env form caller"
| "run_task clock c env form caller Moa_response = generate_moa_response c env form"

fun task_name :: "task \<Rightarrow> string" where
  "task_name Title = ''title_generation''"
| "task_name Follow_ups = ''follow_up_generation''"
| "task_name Chat_tags = ''tags_generation''"
| "task_name Image_prompt = ''image_prompt_generation''"
| "task_name Queries = ''query_generation''"
| "task_name Autocompletion = ''autocomplete_generation''"
| "task_name Emoji = ''emoji_generation''"
| "task_name Moa_response = ''moa_response_generation''"

text \<open>Which requests the settings admit.\<close>

definition task_admitted :: "task_settings \<Rightarrow> dict \<Rightarrow> task \<Rightarrow> bool" where
  "task_admitted c form t = (case t of
     Title \<Rightarrow> tc_enable_title c | Follow_ups \<Rightarrow> tc_enable_follow_up c | Chat_tags \<Rightarrow> tc_enable_tags c
   | Autocompletion \<Rightarrow> tc_enable_autocomplete c \<and>
       (\<forall>s. dget form ''prompt'' = Some (JStr s) \<and> 0 < tc_autocomplete_max_length c \<longrightarrow> int (length s) \<le> tc_autocomplete_max_length c)
   | Queries \<Rightarrow> (dget form ''type'' = Some (JStr ''web_search'') \<longrightarrow> tc_enable_search_query c) \<and>
       (dget form ''type'' = Some (JStr ''retrieval'') \<longrightarrow> tc_enable_retrieval_query c)
   | _ \<Rightarrow> True)"

text \<open>
  The model of a task: the one set for the connection of the requested model, if it is known, and otherwise the
  requested one. A response to several answers is always written by the requested model.
\<close>

definition task_setting :: "task_settings \<Rightarrow> dict \<Rightarrow> task \<Rightarrow> id option" where
  "task_setting c requested t =
     (if t = Moa_response then None
      else if dget requested ''connection_type'' = Some (JStr ''local'') then tc_task_model c else tc_task_model_external c)"

definition model_chosen :: "task_settings \<Rightarrow> (id \<times> dict) list \<Rightarrow> dict \<Rightarrow> task \<Rightarrow> id \<Rightarrow> bool" where
  "model_chosen c models form t m \<longleftrightarrow> map_of models m \<noteq> None \<and>
     (\<exists>i r. dget form ''model'' = Some (JStr i) \<and> map_of models i = Some r \<and>
        (m = i \<or> task_setting c r t = Some m) \<and>
        (\<forall>k. task_setting c r t = Some k \<and> k \<noteq> [] \<and> map_of models k \<noteq> None \<longrightarrow> m = k))"

definition payload_metadata :: "task_env \<Rightarrow> dict \<Rightarrow> task \<Rightarrow> dict \<Rightarrow> bool" where
  "payload_metadata env form t md \<longleftrightarrow>
     dget md ''task_body'' = Some (JDict form) \<and> dget md ''task'' = Some (JStr (task_name t)) \<and>
     dget md ''chat_id'' = Some (dget_or form ''chat_id'' JNull) \<and>
     (\<forall>k. k \<notin> {''task'', ''task_body'', ''chat_id''} \<longrightarrow> dget md k = dget (te_metadata env) k)"

definition payload_typed :: "task_settings \<Rightarrow> task_env \<Rightarrow> dict \<Rightarrow> task \<Rightarrow> dict \<Rightarrow> bool" where
  "payload_typed c env form t p \<longleftrightarrow>
     (\<exists>models m. request_models env = Inr models \<and> model_chosen c models form t m \<and> dget p ''model'' = Some (JStr m)) \<and>
     (\<exists>text. dget p ''messages'' = Some (JList [JDict (new_message ''user'' text)])) \<and>
     dget p ''stream'' = Some (if t = Moa_response then dget_or form ''stream'' (JBool False) else JBool False) \<and>
     (\<exists>md. dget p ''metadata'' = Some (JDict md) \<and> payload_metadata env form t md)"

lemma raising_Inr_iff [simp]: "raising h r = Inr x \<longleftrightarrow> r = Inr x"
  by (cases r) (simp_all add: raising_def)

lemma found_model_known: "find_model form models = Inr m \<Longrightarrow> dget form ''model'' = Some (JStr m) \<and> map_of models m \<noteq> None"
  by (auto simp: find_model_def split: option.splits json.splits if_splits)

lemma task_model_chosen:
  assumes "task_model c env form = Inr (m, models)" "t \<noteq> Moa_response"
  shows "request_models env = Inr models \<and> model_chosen c models form t m"
proof -
  obtain i where i: "request_models env = Inr models" "find_model form models = Inr i"
      "get_task_model_id i (tc_task_model c) (tc_task_model_external c) models = Inr m"
    using assms(1) by (auto simp: task_model_def and_then_Inr_iff)
  obtain r where r: "dget form ''model'' = Some (JStr i)" "map_of models i = Some r" using found_model_known[OF i(2)] by auto
  have "m = (case task_setting c r t of Some k \<Rightarrow> if k \<noteq> [] \<and> map_of models k \<noteq> None then k else i | None \<Rightarrow> i)"
    using i(3) r(2) assms(2) by (simp add: get_task_model_id_def task_setting_def Let_def)
  then show ?thesis using i(1) r by (auto simp: model_chosen_def split: option.splits if_splits)
qed

lemma metadata_merged:
  "payload_metadata env form t (task_metadata env (task_name t) form)"
  "payload_metadata env form t (dmerge (te_metadata env)
     [(''chat_id'', dget_or form ''chat_id'' JNull), (''task'', JStr (task_name t)), (''task_body'', JDict form)])"
  by (simp_all add: payload_metadata_def task_metadata_def dget_dmerge)

lemma task_request_typed:
  assumes "task_request c env form content limits (task_name t) = Inr (Completion p)" "t \<noteq> Moa_response"
    and "\<And>m ms l. limits m ms = Inr l \<Longrightarrow> map_of l ''metadata'' = None"
  shows "payload_typed c env form t p"
proof -
  obtain m ms w l where h: "task_model c env form = Inr (m, ms)" "limits m ms = Inr l"
      "p = task_payload env m w (JBool False) l (task_name t) form"
    using assms(1) by (auto simp: task_request_def and_then_Inr_iff)
  have "map_of l ''metadata'' = None" by (rule assms(3)[OF h(2)])
  then show ?thesis using task_model_chosen[OF h(1) assms(2)] metadata_merged(1) assms(2)
    by (auto simp: payload_typed_def h(3) task_payload_def map_add_def)
qed

lemma limits_apart:
  "map_of (token_limit m n) ''metadata'' = None"
  "title_limit m = Inr l \<Longrightarrow> map_of l ''metadata'' = None"
  "no_limit i ms = Inr l \<Longrightarrow> map_of l ''metadata'' = None"
  by (auto simp: token_limit_def title_limit_def no_limit_def and_then_Inr_iff)

text \<open>
  C27: Whatever the settings, the form and the models are, a task handler that gets as far as the language
  model was admitted by the settings and hands over one payload: its model is a model of the request, namely
  the one set for tasks on the connection of the requested model if that is known and otherwise the requested one
  (always the requested one for a response to several answers); its messages are a single message of a user; it
  asks for no stream unless the form of such a response does; and its metadata hold the form, the
  name of this very task and the chat beside what the middleware left there.
\<close>

theorem task_payloads_typed:
  assumes "run_task clock c env form caller t = Inr (Completion p)"
  shows "task_admitted c form t \<and> payload_typed c env form t p"
proof
  show "task_admitted c form t"
    using assms
    by (cases t) (auto simp: task_admitted_def generate_title_def generate_follow_ups_def generate_chat_tags_def generate_queries_def
      generate_autocompletion_def length_allowed_def prompt_length_def Let_def and_then_Inr_iff dget_or_def split: if_splits option.splits)
  show "payload_typed c env form t p"
  proof (cases t)
    case Moa_response
    then obtain models m w where h: "request_models env = Inr models" "find_model form models = Inr m"
        "p = [(''model'', JStr m), (''messages'', JList [JDict (new_message ''user'' w)]),
          (''stream'', dget_or form ''stream'' (JBool False)),
          (''metadata'', JDict (dmerge (te_metadata env)
             [(''chat_id'', dget_or form ''chat_id'' JNull), (''task'', JStr ''moa_response_generation''),
              (''task_body'', JDict form)]))]"
      using assms by (auto simp: generate_moa_response_def and_then_Inr_iff)
    have "model_chosen c models form Moa_response m"
      using found_model_known[OF h(2)] by (auto simp: model_chosen_def task_setting_def)
    then show ?thesis using h(1) metadata_merged(2)[of env form Moa_response] by (auto simp: h(3) Moa_response payload_typed_def)
  qed (use assms in \<open>auto simp: generate_title_def generate_follow_ups_def generate_chat_tags_def generate_image_prompt_def
      generate_queries_def generate_autocompletion_def generate_emoji_def and_then_Inr_iff Let_def limits_apart
      intro!: task_request_typed simp flip: task_name.simps split: if_splits\<close>)
qed

definition some_settings :: task_settings where
  "some_settings = \<lparr>tc_task_model = Some ''small'', tc_task_model_external = None, tc_enable_title = True,
     tc_title_template = [], tc_image_template = [], tc_enable_autocomplete = False, tc_autocomplete_max_length = -1,
     tc_tags_template = [], tc_follow_up_template = [], tc_enable_follow_up = True, tc_enable_tags = True,
     tc_enable_search_query = True, tc_enable_retrieval_query = True, tc_query_template = [], tc_tools_template = [],
     tc_voice_template = None, td_autocomplete_template = [], td_title = ''Title for {{prompt}}'',
     td_follow_up = [], td_tags = [], td_image = [], td_query = [], td_autocomplete = [], td_emoji = ''Emoji'', td_moa = []\<rparr>"

lemma task_payloads_typed_witness:
  "task_admitted some_settings [(''model'', JStr ''big''), (''prompt'', JStr ''Hi'')] Emoji \<and>
   payload_typed some_settings \<lparr>te_models = [(''big'', [(''connection_type'', JStr ''local'')]), (''small'', [])], te_direct = None,
      te_metadata = [], te_cached = JNull\<rparr> [(''model'', JStr ''big''), (''prompt'', JStr ''Hi'')] Emoji
     [(''model'', JStr ''small''), (''messages'', JList [JDict (new_message ''user'' ''Emoji'')]), (''stream'', JBool False),
      (''max_completion_tokens'', JInt 4),
      (''metadata'', JDict [(''task'', JStr ''emoji_generation''),
        (''task_body'', JDict [(''model'', JStr ''big''), (''prompt'', JStr ''Hi'')]), (''chat_id'', JNull)])]"
proof -
  let ?env = "\<lparr>te_models = [(''big'', [(''connection_type'', JStr ''local'')]), (''small'', [])], te_direct = None,
      te_metadata = [], te_cached = JNull\<rparr>" and ?form = "[(''model'', JStr ''big''), (''prompt'', JStr ''Hi'')]"
  let ?now = "\<lparr>dt_year = 2025, dt_month = 1, dt_day = 1, dt_hour = 0, dt_minute = 0, dt_second = 0\<rparr>"
  have t: "emoji_generation_template (?now, ?now) ''Emoji'' (JStr ''Hi'') (Some lee) = Inr ''Emoji''"
  proof -
    have "replace_prompt_variable (''Emoji'' @ []) (JStr ''Hi'') = Inr ''Emoji''"
      unfolding replace_prompt_variable_def by (subst re_sub_copies) simp_all
    moreover have "prompt_template (?now, ?now) ''Emoji'' (Some lee) = ''Emoji''"
      unfolding prompt_template_def Let_def by (rule replace_each_idle) simp
    ultimately show ?thesis by (simp add: emoji_generation_template_def)
  qed
  show ?thesis
    by (rule task_payloads_typed[where clock = "(?now, ?now)" and c = some_settings and caller = lee and t = Emoji])
      (simp add: generate_emoji_def task_request_def task_model_def model_entry_def request_models_def find_model_def get_task_model_id_def
        some_settings_def form_item_def t[simplified] raising_def token_limit_def task_payload_def task_metadata_def dget_or_def)
qed

text \<open>The settings an administrator saves are the settings that are shown; the built-in templates stay.\<close>

lemma saved_settings_shown:
  "get_task_config (update_task_config f c) = f" "td_title (update_task_config f c) = td_title c"
  by (simp_all add: get_task_config_def update_task_config_def task_config.defs)

end
