(* ===== verification/Documents.thy ===== *)
theory Documents
  imports Notes
begin

text \<open>
  Collaborative documents: \<open>YdocManager\<close> of \<^verbatim>\<open>socket/utils.py\<close> without Redis and the \<open>ydoc:*\<close> handlers of
  \<^verbatim>\<open>socket/main.py\<close>. The state holds the pool of signed-in sessions and the updates and participants of each
  document. What a handler asks of the socket library or of \<^verbatim>\<open>tasks.py\<close> is a list of effects, in order; the
  sessions of a room, which the library keeps, are an argument, and so is the merging of document updates
  (\<open>merge\<close>, None when it raises).
\<close>

section \<open>Documents in memory\<close>

record doc_store =
  dc_updates :: "(string \<times> json list) list"
  dc_users :: "(string \<times> id list) list"

definition doc_key :: "string \<Rightarrow> string" where
  "doc_key d = map (\<lambda>c. if c = CHR '':'' then CHR ''_'' else c) d"

definition entry_list :: "('k \<times> 'v list) list \<Rightarrow> 'k \<Rightarrow> 'v list" where
  "entry_list m k = (case map_of m k of None \<Rightarrow> [] | Some vs \<Rightarrow> vs)"

definition append_to_updates :: "string \<Rightarrow> json \<Rightarrow> doc_store \<Rightarrow> doc_store" where
  "append_to_updates d update s =
     s\<lparr>dc_updates := AList.update (doc_key d) (entry_list (dc_updates s) (doc_key d) @ [update]) (dc_updates s)\<rparr>"

definition get_updates :: "string \<Rightarrow> doc_store \<Rightarrow> json list" where
  "get_updates d s = entry_list (dc_updates s) (doc_key d)"

definition document_exists :: "string \<Rightarrow> doc_store \<Rightarrow> bool" where
  "document_exists d s \<longleftrightarrow> map_of (dc_updates s) (doc_key d) \<noteq> None"

definition get_doc_users :: "string \<Rightarrow> doc_store \<Rightarrow> id list" where
  "get_doc_users d s = entry_list (dc_users s) (doc_key d)"

definition add_doc_user :: "string \<Rightarrow> id \<Rightarrow> doc_store \<Rightarrow> doc_store" where
  "add_doc_user d u s =
     s\<lparr>dc_users := AList.update (doc_key d) (List.insert u (entry_list (dc_users s) (doc_key d))) (dc_users s)\<rparr>"

definition remove_doc_user :: "string \<Rightarrow> id \<Rightarrow> doc_store \<Rightarrow> doc_store" where
  "remove_doc_user d u s =
     (if u \<in> set (get_doc_users d s)
      then s\<lparr>dc_users := AList.update (doc_key d) (removeAll u (get_doc_users d s)) (dc_users s)\<rparr> else s)"

definition clear_document :: "string \<Rightarrow> doc_store \<Rightarrow> doc_store" where
  "clear_document d s =
     s\<lparr>dc_updates := AList.delete (doc_key d) (dc_updates s), dc_users := AList.delete (doc_key d) (dc_users s)\<rparr>"

text \<open>The loop of \<open>remove_user_from_all_documents\<close> over the keys there were at its start.\<close>

definition leave_entry :: "id \<Rightarrow> string \<Rightarrow> doc_store \<Rightarrow> doc_store" where
  "leave_entry u k s =
     (if u \<notin> set (entry_list (dc_users s) k) then s
      else let us = removeAll u (entry_list (dc_users s) k)
           in if us \<noteq> [] then s\<lparr>dc_users := AList.update k us (dc_users s)\<rparr>
              else clear_document k (s\<lparr>dc_users := AList.delete k (dc_users s)\<rparr>))"

definition remove_user_from_all_documents :: "id \<Rightarrow> doc_store \<Rightarrow> doc_store" where
  "remove_user_from_all_documents u s = fold (leave_entry u) (map fst (dc_users s)) s"

section \<open>The handlers\<close>

record socket_state =
  sk_sessions :: "(id \<times> user) list"
  sk_docs :: doc_store

datatype effect =
    Enter_room id string
  | Leave_room id string
  | Emit string dict string "id option"
  | Stop_tasks json
  | Create_save json json id

type_synonym event = "socket_state \<times> effect list"

definition set_docs :: "(doc_store \<Rightarrow> doc_store) \<Rightarrow> socket_state \<Rightarrow> socket_state" where
  "set_docs f s = s\<lparr>sk_docs := f (sk_docs s)\<rparr>"

definition doc_room :: "string \<Rightarrow> string" where "doc_room d = ''doc_'' @ d"

definition note_of_document :: "string \<Rightarrow> id option" where
  "note_of_document d = (if startswith d ''note:'' then Some (split_on CHR '':'' d ! 1) else None)"

text \<open>
  The check in front of a document: None when the handler returns, an error when it raises. Only the id of a
  note is checked; without a session there is no user to ask, which raises.
\<close>

definition document_access :: "string \<Rightarrow> user option \<Rightarrow> group_db \<Rightarrow> note_row list \<Rightarrow> unit + bool" where
  "document_access d caller gdb ndb =
     (case note_of_document d of
        None \<Rightarrow> Inr True
      | Some nid \<Rightarrow>
          (case get_note_by_id nid ndb of
             None \<Rightarrow> Inr False
           | Some n \<Rightarrow>
               (case caller of
                  None \<Rightarrow> Inl ()
                | Some u \<Rightarrow>
                    (case may_access ''read'' u gdb (nt_user_id n) (nt_access_control n) of
                       Inl e \<Rightarrow> Inl () | Inr b \<Rightarrow> Inr b))))"

definition state_event :: "json \<Rightarrow> json \<Rightarrow> id list \<Rightarrow> id \<Rightarrow> effect" where
  "state_event document_id st sessions sid =
     Emit ''ydoc:document:state'' [(''document_id'', document_id), (''state'', st), (''sessions'', JList (map JStr sessions))] sid None"

definition join_failed :: "id \<Rightarrow> effect" where
  "join_failed sid = Emit ''error'' [(''message'', JStr ''Failed to join document'')] sid None"

definition ydoc_document_join ::
  "(string \<Rightarrow> id list) \<Rightarrow> (json list \<Rightarrow> json option) \<Rightarrow> group_db \<Rightarrow> note_row list \<Rightarrow> id \<Rightarrow> dict \<Rightarrow> socket_state \<Rightarrow> event" where
  "ydoc_document_join participants merge gdb ndb sid data s =
     (case dget data ''document_id'' of
        Some (JStr d) \<Rightarrow>
          (case document_access d (map_of (sk_sessions s) sid) gdb ndb of
             Inl e \<Rightarrow> (s, [join_failed sid])
           | Inr False \<Rightarrow> (s, [])
           | Inr True \<Rightarrow>
               (let s' = set_docs (add_doc_user d sid) s
                in case merge (get_updates d (sk_docs s')) of
                     None \<Rightarrow> (s', [Enter_room sid (doc_room d), join_failed sid])
                   | Some st \<Rightarrow>
                       (s', [Enter_room sid (doc_room d),
                             state_event (JStr d) st (participants (doc_room d)) sid,
                             Emit ''ydoc:user:joined''
                               [(''document_id'', JStr d), (''user_id'', dget_or data ''user_id'' (JStr sid)),
                                (''user_name'', dget_or data ''user_name'' (JStr ''Anonymous'')),
                                (''user_color'', dget_or data ''user_color'' (JStr ''#000000''))]
                               (doc_room d) (Some sid)])))
      | _ \<Rightarrow> (s, [join_failed sid]))"

definition yjs_document_state ::
  "(string \<Rightarrow> id list) \<Rightarrow> (json list \<Rightarrow> json option) \<Rightarrow> id \<Rightarrow> dict \<Rightarrow> socket_state \<Rightarrow> event" where
  "yjs_document_state participants merge sid data s =
     (case dget data ''document_id'' of
        Some (JStr d) \<Rightarrow>
          if sid \<notin> set (participants (doc_room d)) \<or> \<not> document_exists d (sk_docs s) then (s, [])
          else (case merge (get_updates d (sk_docs s)) of
                  None \<Rightarrow> (s, [])
                | Some st \<Rightarrow> (s, [state_event (JStr d) st (participants (doc_room d)) sid]))
      | _ \<Rightarrow> (s, []))"

text \<open>Pending saves of the document are stopped first; a failure of that is ignored.\<close>

definition yjs_document_update :: "id \<Rightarrow> dict \<Rightarrow> socket_state \<Rightarrow> event" where
  "yjs_document_update sid data s =
     (case dget data ''document_id'' of
        None \<Rightarrow> (s, [])
      | Some v \<Rightarrow>
          (case (v, dget data ''update'') of
             (JStr d, Some update) \<Rightarrow>
               (set_docs (append_to_updates d update) s,
                [Stop_tasks v,
                 Emit ''ydoc:document:update''
                   [(''document_id'', v), (''user_id'', dget_or data ''user_id'' (JStr sid)), (''update'', update),
                    (''socket_id'', JStr sid)] (doc_room d) (Some sid)]
                @ (if truthy (dget_or data ''data'' JNull) then [Create_save v (dget_or data ''data'' (JDict [])) sid] else []))
           | _ \<Rightarrow> (s, [Stop_tasks v])))"

definition yjs_document_leave :: "id \<Rightarrow> dict \<Rightarrow> socket_state \<Rightarrow> event" where
  "yjs_document_leave sid data s =
     (case dget data ''document_id'' of
        Some (JStr d) \<Rightarrow>
          (let s' = set_docs (remove_doc_user d sid) s;
               s'' = (if document_exists d (sk_docs s') \<and> get_doc_users d (sk_docs s') = []
                      then set_docs (clear_document d) s' else s')
           in (s'', [Leave_room sid (doc_room d),
                     Emit ''ydoc:user:left'' [(''document_id'', JStr d), (''user_id'', dget_or data ''user_id'' (JStr sid))]
                       (doc_room d) None]))
      | _ \<Rightarrow> (s, []))"

definition yjs_awareness_update :: "id \<Rightarrow> dict \<Rightarrow> socket_state \<Rightarrow> event" where
  "yjs_awareness_update sid data s =
     (case (dget data ''document_id'', dget data ''update'') of
        (Some v, Some update) \<Rightarrow>
          (s, [Emit ''ydoc:awareness:update''
                 [(''document_id'', v), (''user_id'', dget_or data ''user_id'' (JStr sid)), (''update'', update)]
                 (doc_room (py_str v)) (Some sid)])
      | _ \<Rightarrow> (s, []))"

definition disconnect :: "id \<Rightarrow> socket_state \<Rightarrow> socket_state" where
  "disconnect sid s =
     (if map_of (sk_sessions s) sid = None then s
      else set_docs (remove_user_from_all_documents sid) (s\<lparr>sk_sessions := AList.delete sid (sk_sessions s)\<rparr>))"

text \<open>
  The body of a pending save. It reads the session when it runs; an exception ends its task. The form has to be
  a dictionary.
\<close>

definition document_save_handler ::
  "time \<Rightarrow> string \<Rightarrow> json \<Rightarrow> user option \<Rightarrow> group_db \<Rightarrow> note_row list \<Rightarrow> (unit + unit) \<times> note_row list" where
  "document_save_handler now d data caller gdb ndb =
     (case note_of_document d of
        None \<Rightarrow> (Inr (), ndb)
      | Some nid \<Rightarrow>
          (case document_access d caller gdb ndb of
             Inl e \<Rightarrow> (Inl (), ndb)
           | Inr False \<Rightarrow> (Inr (), ndb)
           | Inr True \<Rightarrow>
               (case data of
                  JDict v \<Rightarrow>
                    (case update_note_by_id now nid \<lparr>nu_title = None, nu_data = Some (Some v), nu_meta = None, nu_access_control = None\<rparr> ndb of
                       (Inl e, ndb') \<Rightarrow> (Inl (), ndb') | (Inr r, ndb') \<Rightarrow> (Inr (), ndb'))
                | _ \<Rightarrow> (Inl (), ndb))))"

definition debounced_save :: "time \<Rightarrow> string \<Rightarrow> json \<Rightarrow> id \<Rightarrow> socket_state \<Rightarrow> group_db \<Rightarrow> note_row list \<Rightarrow> (unit + unit) \<times> note_row list" where
  "debounced_save now d data sid s gdb ndb =
     document_save_handler now d data (map_of (sk_sessions s) sid) gdb ndb"

section \<open>Lemmas\<close>

lemma entry_list_update [simp]: "entry_list (AList.update k v m) j = (if j = k then v else entry_list m j)"
  by (simp add: entry_list_def update_conv')

lemma entry_list_delete [simp]: "entry_list (AList.delete k m) j = (if j = k then [] else entry_list m j)"
  by (simp add: entry_list_def delete_conv')

lemma doc_key_idem [simp]: "doc_key (doc_key d) = doc_key d"
  by (simp add: doc_key_def)

lemma alias_key: "doc_key (''note_'' @ nid) = doc_key (''note:'' @ nid)"
  by (simp add: doc_key_def)

lemma note_document:
  "CHR '':'' \<notin> set nid \<Longrightarrow> note_of_document (''note:'' @ nid) = Some nid"
  "note_of_document (''note_'' @ nid) = None"
  using split_on_append_free[of "CHR '':''" "''note''" nid]
  by (simp_all add: note_of_document_def startswith_def split_on_id)

section \<open>Who may read a document\<close>

text \<open>
  C13: The documents of notes can be read without access to the note. Colons of a document id are replaced by
  underscores in the store, but the access check looks for ids that start with \<open>note:\<close>. So joining the
  document \<open>note_x\<close> sends the whole state of the document of note \<open>x\<close> to any session, signed in or
  not, while joining \<open>note:x\<close> sends at most an error message to a session without a user, and to one whose
  user may not read the note or for whom it does not exist.
\<close>

theorem alias_opens_note_document:
  assumes "merge (get_updates (''note:'' @ nid) (sk_docs s)) = Some st" "CHR '':'' \<notin> set nid"
  shows "state_event (JStr (''note_'' @ nid)) st (participants (doc_room (''note_'' @ nid))) sid \<in>
      set (snd (ydoc_document_join participants merge gdb ndb sid [(''document_id'', JStr (''note_'' @ nid))] s)) \<and>
    ((\<forall>u n. map_of (sk_sessions s) sid = Some u \<and> get_note_by_id nid ndb = Some n \<longrightarrow>
        may_access ''read'' u gdb (nt_user_id n) (nt_access_control n) \<noteq> Inr True) \<longrightarrow>
     snd (ydoc_document_join participants merge gdb ndb sid [(''document_id'', JStr (''note:'' @ nid))] s) \<in> {[], [join_failed sid]})"
proof (intro conjI impI)
  let ?d = "''note_'' @ nid"
  have "get_updates ?d (add_doc_user ?d sid (sk_docs s)) = get_updates (''note:'' @ nid) (sk_docs s)"
    unfolding get_updates_def alias_key by (simp add: add_doc_user_def)
  moreover have "document_access ?d u gdb ndb = Inr True" for u by (simp only: document_access_def note_document(2) option.case)
  ultimately have "snd (ydoc_document_join participants merge gdb ndb sid [(''document_id'', JStr ?d)] s) =
      [Enter_room sid (doc_room ?d), state_event (JStr ?d) st (participants (doc_room ?d)) sid,
       Emit ''ydoc:user:joined''
         [(''document_id'', JStr ?d), (''user_id'', JStr sid), (''user_name'', JStr ''Anonymous''), (''user_color'', JStr ''#000000'')]
         (doc_room ?d) (Some sid)]"
    using assms(1) by (simp add: ydoc_document_join_def set_docs_def dget_or_def)
  then show "state_event (JStr ?d) st (participants (doc_room ?d)) sid \<in>
      set (snd (ydoc_document_join participants merge gdb ndb sid [(''document_id'', JStr ?d)] s))" by simp
next
  assume "\<forall>u n. map_of (sk_sessions s) sid = Some u \<and> get_note_by_id nid ndb = Some n \<longrightarrow>
      may_access ''read'' u gdb (nt_user_id n) (nt_access_control n) \<noteq> Inr True"
  then have "document_access (''note:'' @ nid) (map_of (sk_sessions s) sid) gdb ndb \<in> {Inl (), Inr False}"
    using note_document(1)[OF assms(2)] by (auto simp: document_access_def split: option.splits sum.splits)
  then show "snd (ydoc_document_join participants merge gdb ndb sid [(''document_id'', JStr (''note:'' @ nid))] s) \<in> {[], [join_failed sid]}"
    by (auto simp: ydoc_document_join_def)
qed

text \<open>Nobody asks who sends an update: it is stored and passed on for every session, joined or not.\<close>

lemma stranger_updates_document:
  "get_updates d (sk_docs (fst (yjs_document_update sid [(''document_id'', JStr d), (''update'', v)] s))) =
     get_updates d (sk_docs s) @ [v]"
  by (simp add: yjs_document_update_def set_docs_def append_to_updates_def get_updates_def)

text \<open>
  A reader rewrites a note through its document. The router refuses every update of a note by a user who
  may read but not write it and leaves the notes as they are; the save that follows an update of the document
  asks for read access only and merges the data the user has sent into the note.
\<close>

lemma reader_saves_note:
  assumes "map_of (sk_sessions s) sid = Some u" "get_note_by_id nid ndb = Some n" "CHR '':'' \<notin> set nid"
    and "may_access ''read'' u gdb (nt_user_id n) (nt_access_control n) = Inr True"
    and "may_access ''write'' u gdb (nt_user_id n) (nt_access_control n) = Inr False"
    and "nt_data n = Some old"
  shows "snd (update_note_by_id_handler builtin config now nid form u gdb ndb) = ndb \<and>
    get_note_by_id nid (snd (debounced_save now (''note:'' @ nid) (JDict v) sid s gdb ndb)) =
      Some (n\<lparr>nt_data := Some (dmerge old v), nt_updated_at := now\<rparr>)"
proof
  show "snd (update_note_by_id_handler builtin config now nid form u gdb ndb) = ndb"
    using assms(2,5) by (simp add: update_note_state may_write_note_def)
  let ?form = "\<lparr>nu_title = None, nu_data = Some (Some v), nu_meta = None, nu_access_control = None\<rparr>"
  have "apply_note_form now ?form n = Inr (n\<lparr>nt_data := Some (dmerge old v), nt_updated_at := now\<rparr>)"
    by (simp add: apply_note_form_def merge_note_field_def assms(6))
  then show "get_note_by_id nid (snd (debounced_save now (''note:'' @ nid) (JDict v) sid s gdb ndb)) =
      Some (n\<lparr>nt_data := Some (dmerge old v), nt_updated_at := now\<rparr>)"
    using assms(1,2,4) get_note_update[of nid now nid ?form ndb] note_document(1)[OF assms(3)]
    by (auto simp: debounced_save_def document_save_handler_def document_access_def split: sum.split prod.split)
qed

section \<open>Participants\<close>

datatype doc_event =
    Joined id "string" | Updated id dict | Left id dict | Signed_in id user | Disconnected id

text \<open>What the events do to the store; a join counts when its check has passed.\<close>

fun doc_step :: "doc_event \<Rightarrow> socket_state \<Rightarrow> socket_state" where
  "doc_step (Joined sid d) s = set_docs (add_doc_user d sid) s"
| "doc_step (Updated sid data) s = fst (yjs_document_update sid data s)"
| "doc_step (Left sid data) s = fst (yjs_document_leave sid data s)"
| "doc_step (Signed_in sid u) s = s\<lparr>sk_sessions := AList.update sid u (sk_sessions s)\<rparr>"
| "doc_step (Disconnected sid) s = disconnect sid s"

definition no_documents :: socket_state where
  "no_documents = \<lparr>sk_sessions = [], sk_docs = \<lparr>dc_updates = [], dc_users = []\<rparr>\<rparr>"

lemma join_is_step:
  "fst (ydoc_document_join participants merge gdb ndb sid data s) \<in>
     insert s {doc_step (Joined sid d) s | d. dget data ''document_id'' = Some (JStr d)}"
  by (auto simp: ydoc_document_join_def Let_def split: option.split json.split sum.split bool.split)

definition doc_ok :: "doc_store \<Rightarrow> bool" where
  "doc_ok s \<longleftrightarrow> (\<forall>k \<in> fst ` set (dc_users s) \<union> fst ` set (dc_updates s). doc_key k = k)"

lemma keys_update: "fst ` set (AList.update k v m) = insert k (fst ` set m)"
  using dom_update[of k v m] by (simp add: dom_map_of_conv_image_fst)

lemma keys_delete: "fst ` set (AList.delete k m) = fst ` set m - {k}"
  using delete_keys[of k m] by (metis image_set set_removeAll)

lemmas key_sets = keys_update keys_delete

lemma doc_ok_leave_entry: "doc_ok s \<Longrightarrow> doc_ok (leave_entry u k s)"
proof (cases "map_of (dc_users s) k")
  case (Some us)
  assume ok: "doc_ok s"
  then have "doc_key k = k" using map_of_SomeD[OF Some] by (force simp: doc_ok_def)
  then show ?thesis using ok by (auto simp: leave_entry_def Let_def clear_document_def doc_ok_def key_sets)
qed (simp add: leave_entry_def entry_list_def)

lemma doc_ok_leave_all: "doc_ok s \<Longrightarrow> doc_ok (fold (leave_entry u) ks s)"
  by (induction ks arbitrary: s) (simp_all add: doc_ok_leave_entry)

lemma doc_ok_ops:
  assumes "doc_ok s"
  shows "doc_ok (add_doc_user d u s)" "doc_ok (append_to_updates d v s)" "doc_ok (remove_doc_user d u s)"
    "doc_ok (clear_document d s)"
  using assms
  by (auto simp: doc_ok_def add_doc_user_def append_to_updates_def remove_doc_user_def clear_document_def key_sets)

lemma doc_ok_step: "doc_ok (sk_docs s) \<Longrightarrow> doc_ok (sk_docs (doc_step e s))"
  by (cases e)
    (simp_all add: set_docs_def yjs_document_update_def yjs_document_leave_def Let_def disconnect_def
       remove_user_from_all_documents_def doc_ok_leave_all doc_ok_ops split: option.split json.split)

lemma doc_ok_run: "doc_ok (sk_docs (fold doc_step es no_documents))"
  by (induction es rule: rev_induct) (simp_all add: doc_ok_step, simp add: no_documents_def doc_ok_def)

text \<open>Leaving one document.\<close>

lemma leave_entry_users:
  "entry_list (dc_users (leave_entry u k s)) j =
     (if j = k then removeAll u (entry_list (dc_users s) j) else entry_list (dc_users s) j)" if "doc_key k = k"
  using that by (simp add: leave_entry_def Let_def clear_document_def)

lemma removeAll_Nil_iff: "removeAll u xs = [] \<longleftrightarrow> set xs \<subseteq> {u}"
  by (induction xs) auto

lemma leave_entry_updates:
  "map_of (dc_updates (leave_entry u k s)) j =
     (if j = k \<and> u \<in> set (entry_list (dc_users s) j) \<and> set (entry_list (dc_users s) j) \<subseteq> {u} then None
      else map_of (dc_updates s) j)" if "doc_key k = k"
  using that by (simp add: leave_entry_def Let_def clear_document_def delete_conv' removeAll_Nil_iff)

lemma leave_all_exact:
  assumes "\<forall>k \<in> set ks. doc_key k = k"
  shows "entry_list (dc_users (fold (leave_entry u) ks s)) j =
      (if j \<in> set ks then removeAll u (entry_list (dc_users s) j) else entry_list (dc_users s) j) \<and>
    map_of (dc_updates (fold (leave_entry u) ks s)) j =
      (if j \<in> set ks \<and> u \<in> set (entry_list (dc_users s) j) \<and> set (entry_list (dc_users s) j) \<subseteq> {u} then None
       else map_of (dc_updates s) j)"
  using assms by (induction ks arbitrary: s) (auto simp: leave_entry_users leave_entry_updates)

text \<open>
  After the disconnection of a signed-in session, whatever happened before, the session takes part in no
  document any more, every document has lost exactly this participant, and the documents that were stored are
  those that had no participant or have another one left.
\<close>

lemma disconnect_forgets_session:
  assumes "s = fold doc_step es no_documents" "map_of (sk_sessions s) sid \<noteq> None"
  shows "set (get_doc_users d (sk_docs (disconnect sid s))) = set (get_doc_users d (sk_docs s)) - {sid} \<and>
    (document_exists d (sk_docs (disconnect sid s)) \<longleftrightarrow>
       document_exists d (sk_docs s) \<and> set (get_doc_users d (sk_docs s)) \<noteq> {sid}) \<and>
    (document_exists d (sk_docs (disconnect sid s)) \<longrightarrow>
       get_updates d (sk_docs (disconnect sid s)) = get_updates d (sk_docs s))"
proof -
  let ?ks = "map fst (dc_users (sk_docs s))"
  have "doc_ok (sk_docs s)" unfolding assms(1) by (rule doc_ok_run)
  then have k: "\<forall>k \<in> set ?ks. doc_key k = k" by (auto simp: doc_ok_def)
  have e: "doc_key d \<notin> set ?ks \<Longrightarrow> entry_list (dc_users (sk_docs s)) (doc_key d) = []"
    by (force simp: entry_list_def dest: map_of_SomeD split: option.split)
  let ?t = "fold (leave_entry sid) ?ks (sk_docs s)" and ?us = "entry_list (dc_users (sk_docs s)) (doc_key d)"
  have "sk_docs (disconnect sid s) = ?t"
    using assms(2) by (auto simp: disconnect_def set_docs_def remove_user_from_all_documents_def)
  moreover have "entry_list (dc_users ?t) (doc_key d) = removeAll sid ?us"
    using conjunct1[OF leave_all_exact[OF k]] e by simp
  moreover have u: "map_of (dc_updates ?t) (doc_key d) = (if set ?us = {sid} then None else map_of (dc_updates (sk_docs s)) (doc_key d))"
    using conjunct2[OF leave_all_exact[OF k]] e by (cases "doc_key d \<in> set ?ks") auto
  moreover have "entry_list (dc_updates ?t) (doc_key d) = entry_list (dc_updates (sk_docs s)) (doc_key d)" if "set ?us \<noteq> {sid}"
    using u that by (simp add: entry_list_def)
  ultimately show ?thesis unfolding get_doc_users_def document_exists_def get_updates_def by (cases "set ?us = {sid}") auto
qed

text \<open>A session that never signed in is not looked at, and stays among the participants for good.\<close>

lemma anonymous_session_stays: "map_of (sk_sessions s) sid = None \<Longrightarrow> disconnect sid s = s"
  by (simp add: disconnect_def)

section \<open>Witnesses\<close>

definition two_sessions :: socket_state where
  "two_sessions = \<lparr>sk_sessions = [(''s1'', lee)], sk_docs = \<lparr>dc_updates = [(''note_n1'', [JStr ''u'']) ], dc_users = []\<rparr>\<rparr>"

definition read_note :: note_row where
  "read_note = plan_note\<lparr>nt_access_control := Some [(''read'', JDict [(''group_ids'', JList (map JStr [])), (''user_ids'', JList (map JStr [''lee'']))])]\<rparr>"

lemma lee_may_not_read: "may_access ''read'' lee gdb (nt_user_id plan_note) (nt_access_control plan_note) = Inr False"
proof -
  have "has_access ''lee'' ''read'' (nt_access_control plan_note) (Some gs) True gdb = Inr False" for gs
    by (simp add: plan_note_def has_access_empty)
  then have "has_access ''lee'' ''read'' (nt_access_control plan_note) None True gdb = Inr False"
    unfolding has_access_lookup[of "''lee''"] .
  moreover have "u_id lee = ''lee''" "u_role lee = ''user''" "nt_user_id plan_note = ''kim''"
    by (simp_all add: lee_def new_user_def plan_note_def)
  ultimately show ?thesis by (simp add: may_access_def)
qed

lemma alias_opens_note_document_witness:
  "state_event (JStr ''note_n1'') (JList [JStr ''u'']) [''s1''] ''s1'' \<in>
     set (snd (ydoc_document_join (\<lambda>r. [''s1'']) (\<lambda>us. Some (JList us)) sample_groups [plan_note] ''s1'' [(''document_id'', JStr ''note_n1'')] two_sessions)) \<and>
   snd (ydoc_document_join (\<lambda>r. [''s1'']) (\<lambda>us. Some (JList us)) sample_groups [plan_note] ''s1'' [(''document_id'', JStr ''note:n1'')] two_sessions)
     \<in> {[], [join_failed ''s1'']}"
proof -
  have "get_updates (''note:'' @ ''n1'') (sk_docs two_sessions) = [JStr ''u'']"
    by (simp add: two_sessions_def get_updates_def entry_list_def doc_key_def)
  moreover have "\<forall>u n. map_of (sk_sessions two_sessions) ''s1'' = Some u \<and> get_note_by_id ''n1'' [plan_note] = Some n \<longrightarrow>
      may_access ''read'' u sample_groups (nt_user_id n) (nt_access_control n) \<noteq> Inr True"
    using lee_may_not_read by (auto simp: two_sessions_def get_note_by_id_def row_get_def split: if_splits)
  ultimately show ?thesis
    using alias_opens_note_document[of "\<lambda>us. Some (JList us)" "''n1''" two_sessions "JList [JStr ''u'']" "\<lambda>r. [''s1'']" "''s1''" sample_groups "[plan_note]"]
    by simp
qed

lemma lee_reads:
  "has_access ''lee'' ''read'' (nt_access_control read_note) None True gdb = Inr True"
  "has_access ''lee'' ''write'' (nt_access_control read_note) None True gdb = Inr False"
proof -
  have r: "has_access ''lee'' ''read'' (nt_access_control read_note) (Some gs) True gdb = Inr True" for gs
    using has_access_list[of "''read''" "[]" "[''lee'']"] by (simp add: read_note_def access_list_def)
  have w: "has_access ''lee'' ''write'' (nt_access_control read_note) (Some gs) True gdb = Inr False" for gs
    by (simp add: read_note_def has_access_empty)
  show "has_access ''lee'' ''read'' (nt_access_control read_note) None True gdb = Inr True"
    "has_access ''lee'' ''write'' (nt_access_control read_note) None True gdb = Inr False"
    unfolding has_access_lookup[of "''lee''"] by (rule r w)+
qed

lemma reader_saves_note_witness:
  "get_note_by_id ''n1'' (snd (debounced_save 9 ''note:n1'' (JDict [(''content'', JStr ''x'')]) ''s1'' two_sessions sample_groups [read_note])) =
     Some (read_note\<lparr>nt_data := Some [(''content'', JStr ''x'')], nt_updated_at := 9\<rparr>)"
proof -
  have l: "u_id lee = ''lee''" "u_role lee = ''user''" by (simp_all add: lee_def new_user_def)
  have r: "may_access ''read'' lee sample_groups (nt_user_id read_note) (nt_access_control read_note) = Inr True"
    and w: "may_access ''write'' lee sample_groups (nt_user_id read_note) (nt_access_control read_note) = Inr False"
    using lee_reads by (simp_all add: may_access_def l read_note_def plan_note_def)
  show ?thesis
    using reader_saves_note[of two_sessions "''s1''" lee "''n1''" "[read_note]" read_note sample_groups "[]" "[]" "[]" 9 note_change "[(''content'', JStr ''x'')]", OF _ _ _ r w]
    by (simp add: two_sessions_def get_note_by_id_def row_get_def read_note_def plan_note_def)
qed

lemma disconnect_forgets_session_witness:
  "set (get_doc_users ''note:n1'' (sk_docs (disconnect ''s1''
     (fold doc_step [Signed_in ''s1'' lee, Joined ''s1'' ''note:n1'', Joined ''s2'' ''note:n1''] no_documents)))) = {''s2''}"
proof -
  let ?s = "fold doc_step [Signed_in ''s1'' lee, Joined ''s1'' ''note:n1'', Joined ''s2'' ''note:n1''] no_documents"
  have u: "set (get_doc_users ''note:n1'' (sk_docs ?s)) = {''s1'', ''s2''}"
    by (auto simp: no_documents_def set_docs_def add_doc_user_def get_doc_users_def entry_list_def)
  have "map_of (sk_sessions ?s) ''s1'' \<noteq> None" by (simp add: no_documents_def set_docs_def)
  then have "set (get_doc_users ''note:n1'' (sk_docs (disconnect ''s1'' ?s))) = set (get_doc_users ''note:n1'' (sk_docs ?s)) - {''s1''}"
    by (rule conjunct1[OF disconnect_forgets_session[OF refl]])
  then show ?thesis unfolding u by simp
qed

end
