(* ===== verification/Sessions.thy ===== *)
theory Sessions
  imports Documents
begin

text \<open>
  The session handlers of \<^verbatim>\<open>socket/main.py\<close> in a single process: signing in over a socket, joining the rooms
  of channels and notes, events inside a channel, and the pool of models in use with its periodic clean-up.
  Decoding a token (\<open>decode\<close>) and the sessions of a room (\<open>participants\<close>) are arguments.
\<close>

section \<open>Signing in\<close>

text \<open>The user of a token: None when the token cannot be decoded, has no id, or names nobody.\<close>

definition token_user :: "(json \<Rightarrow> dict option) \<Rightarrow> json \<Rightarrow> user_db \<Rightarrow> user option" where
  "token_user decode token udb =
     (case decode token of
        None \<Rightarrow> None
      | Some data \<Rightarrow> (case dget data ''id'' of Some (JStr uid) \<Rightarrow> get_user_by_id uid udb | _ \<Rightarrow> None))"

text \<open>\<open>data["auth"]\<close> with a token in it.\<close>

definition auth_token :: "dict \<Rightarrow> json option" where
  "auth_token data = (case dget_or data ''auth'' JNull of JDict a \<Rightarrow> dget a ''token'' | _ \<Rightarrow> None)"

definition user_room :: "id \<Rightarrow> string" where "user_room uid = ''user:'' @ uid"
definition channel_room :: "id \<Rightarrow> string" where "channel_room cid = ''channel:'' @ cid"
definition note_room :: "id \<Rightarrow> string" where "note_room nid = ''note:'' @ nid"

definition open_session :: "id \<Rightarrow> user \<Rightarrow> socket_state \<Rightarrow> socket_state" where
  "open_session sid u s = s\<lparr>sk_sessions := AList.update sid u (sk_sessions s)\<rparr>"

definition connect_handler :: "(json \<Rightarrow> dict option) \<Rightarrow> user_db \<Rightarrow> id \<Rightarrow> dict option \<Rightarrow> socket_state \<Rightarrow> event" where
  "connect_handler decode udb sid auth s =
     (case auth of
        None \<Rightarrow> (s, [])
      | Some a \<Rightarrow>
          (case dget a ''token'' of
             None \<Rightarrow> (s, [])
           | Some token \<Rightarrow>
               (case token_user decode token udb of
                  None \<Rightarrow> (s, [])
                | Some u \<Rightarrow> (open_session sid u s, [Enter_room sid (user_room (u_id u))]))))"

definition with_token_user :: "(json \<Rightarrow> dict option) \<Rightarrow> user_db \<Rightarrow> dict \<Rightarrow> socket_state \<Rightarrow> (user \<Rightarrow> event) \<Rightarrow> event" where
  "with_token_user decode udb data s f =
     (case auth_token data of
        None \<Rightarrow> (s, [])
      | Some token \<Rightarrow> (case token_user decode token udb of None \<Rightarrow> (s, []) | Some u \<Rightarrow> f u))"

definition enter_channels :: "(json option \<Rightarrow> id \<Rightarrow> bool) \<Rightarrow> id \<Rightarrow> user \<Rightarrow> group_db \<Rightarrow> channel_db \<Rightarrow> effect list" where
  "enter_channels contains sid u gdb cdb =
     map (\<lambda>c. Enter_room sid (channel_room (ch_id c))) (get_channels_by_user_id contains (u_id u) gdb cdb)"

definition user_join ::
  "(json \<Rightarrow> dict option) \<Rightarrow> (json option \<Rightarrow> id \<Rightarrow> bool) \<Rightarrow> user_db \<Rightarrow> group_db \<Rightarrow> channel_db \<Rightarrow> id \<Rightarrow> dict \<Rightarrow> socket_state \<Rightarrow> event" where
  "user_join decode contains udb gdb cdb sid data s =
     with_token_user decode udb data s (\<lambda>u.
       (open_session sid u s, Enter_room sid (user_room (u_id u)) # enter_channels contains sid u gdb cdb))"

definition join_channels ::
  "(json \<Rightarrow> dict option) \<Rightarrow> (json option \<Rightarrow> id \<Rightarrow> bool) \<Rightarrow> user_db \<Rightarrow> group_db \<Rightarrow> channel_db \<Rightarrow> id \<Rightarrow> dict \<Rightarrow> socket_state \<Rightarrow> event" where
  "join_channels decode contains udb gdb cdb sid data s =
     with_token_user decode udb data s (\<lambda>u. (s, enter_channels contains sid u gdb cdb))"

definition join_note ::
  "(json \<Rightarrow> dict option) \<Rightarrow> user_db \<Rightarrow> group_db \<Rightarrow> note_row list \<Rightarrow> id \<Rightarrow> dict \<Rightarrow> socket_state \<Rightarrow> event" where
  "join_note decode udb gdb ndb sid data s =
     with_token_user decode udb data s (\<lambda>u.
       case dget data ''note_id'' of
         Some (JStr nid) \<Rightarrow>
           (case get_note_by_id nid ndb of
              None \<Rightarrow> (s, [])
            | Some n \<Rightarrow>
                (case may_access ''read'' u gdb (nt_user_id n) (nt_access_control n) of
                   Inr True \<Rightarrow> (s, [Enter_room sid (note_room (nt_id n))]) | _ \<Rightarrow> (s, [])))
       | _ \<Rightarrow> (s, []))"

section \<open>Users and rooms\<close>

definition heartbeat ::
  "rat option \<Rightarrow> rat \<Rightarrow> time \<Rightarrow> id \<Rightarrow> socket_state \<Rightarrow> id last_calls \<Rightarrow> user_db \<Rightarrow> id last_calls \<times> user_db" where
  "heartbeat interval now t sid s calls udb =
     (case map_of (sk_sessions s) sid of
        None \<Rightarrow> (calls, udb)
      | Some u \<Rightarrow> snd (update_last_active_by_id interval now t (u_id u) calls udb))"

definition get_user_id_from_session_pool :: "id \<Rightarrow> socket_state \<Rightarrow> id option" where
  "get_user_id_from_session_pool sid s = map_option u_id (map_of (sk_sessions s) sid)"

text \<open>A session of the room that has not signed in has no entry: subscripting None raises.\<close>

definition get_user_ids_from_room :: "(string \<Rightarrow> id list) \<Rightarrow> string \<Rightarrow> socket_state \<Rightarrow> py_error + id list" where
  "get_user_ids_from_room participants room s =
     and_then (each (\<lambda>sid. case map_of (sk_sessions s) sid of None \<Rightarrow> Inl TypeError | Some u \<Rightarrow> Inr (u_id u)) (participants room))
       (\<lambda>us. Inr (remdups us))"

definition emit_to_users :: "string \<Rightarrow> dict \<Rightarrow> id list \<Rightarrow> effect list" where
  "emit_to_users ev data user_ids = map (\<lambda>u. Emit ev data (user_room u) None) user_ids"

definition enter_room_for_users :: "(string \<Rightarrow> id list) \<Rightarrow> string \<Rightarrow> id list \<Rightarrow> effect list" where
  "enter_room_for_users participants room user_ids =
     concat (map (\<lambda>u. map (\<lambda>sid. Enter_room sid room) (participants (user_room u))) user_ids)"

definition session_user_name :: "user \<Rightarrow> dict" where
  "session_user_name u = [(''id'', JStr (u_id u)), (''name'', JStr (u_name u)), (''role'', JStr (u_role u))]"

text \<open>An event inside a channel: only from a session in the room; an exception has no effect.\<close>

definition channel_events ::
  "(string \<Rightarrow> id list) \<Rightarrow> time \<Rightarrow> time \<Rightarrow> id \<Rightarrow> dict \<Rightarrow> socket_state \<Rightarrow> channel_db \<Rightarrow> effect list \<times> channel_db" where
  "channel_events participants t1 t2 sid data s cdb =
     (case (dget data ''channel_id'', dget data ''data'', map_of (sk_sessions s) sid) of
        (Some (JStr cid), Some (JDict ev), Some u) \<Rightarrow>
          if sid \<notin> set (participants (channel_room cid)) then ([], cdb)
          else if dget ev ''type'' = Some (JStr ''typing'') then
            ([Emit ''events:channel''
                [(''channel_id'', JStr cid), (''message_id'', dget_or data ''message_id'' JNull), (''data'', JDict ev),
                 (''user'', JDict (session_user_name u))] (channel_room cid) None], cdb)
          else if dget ev ''type'' = Some (JStr ''last_read_at'') then
            ([], snd (update_member_last_read_at t1 t2 cid (u_id u) cdb))
          else ([], cdb)
      | _ \<Rightarrow> ([], cdb))"

section \<open>Models in use\<close>

type_synonym usage_pool = "(id \<times> (id \<times> int) list) list"

definition usage :: "int \<Rightarrow> id \<Rightarrow> dict \<Rightarrow> socket_state \<Rightarrow> usage_pool \<Rightarrow> usage_pool" where
  "usage now sid data s pool =
     (case (map_of (sk_sessions s) sid, dget data ''model'') of
        (Some u, Some (JStr m)) \<Rightarrow> AList.update m (AList.update sid now (entry_list pool m)) pool
      | _ \<Rightarrow> pool)"

definition get_models_in_use :: "usage_pool \<Rightarrow> id list" where
  "get_models_in_use pool = map fst pool"

definition TIMEOUT_DURATION :: int where "TIMEOUT_DURATION = 3"

definition expired_sids :: "int \<Rightarrow> (id \<times> int) list \<Rightarrow> id list" where
  "expired_sids now connections = map fst (filter (\<lambda>(sid, t). now - t > TIMEOUT_DURATION) connections)"

definition clean_model :: "int \<Rightarrow> id \<times> (id \<times> int) list \<Rightarrow> usage_pool \<Rightarrow> usage_pool" where
  "clean_model now item pool =
     (let connections = fold AList.delete (expired_sids now (snd item)) (snd item)
      in if connections = [] then AList.delete (fst item) pool else AList.update (fst item) connections pool)"

text \<open>One round of the clean-up loop, over the items there were at its start.\<close>

definition cleanup_round :: "int \<Rightarrow> usage_pool \<Rightarrow> usage_pool" where
  "cleanup_round now pool = fold (clean_model now) pool pool"

definition pool_ok :: "usage_pool \<Rightarrow> bool" where
  "pool_ok pool \<longleftrightarrow> distinct (map fst pool) \<and> (\<forall>(m, cs) \<in> set pool. distinct (map fst cs))"

lemma fold_delete_filter: "fold AList.delete ks m = filter (\<lambda>(k, v). k \<notin> set ks) m"
  by (induction ks arbitrary: m) (auto simp: AList.delete_eq intro: filter_cong)

lemma expired_removed:
  assumes "distinct (map fst cs)"
  shows "fold AList.delete (expired_sids now cs) cs = filter (\<lambda>(sid, t). now - t \<le> TIMEOUT_DURATION) cs"
proof -
  have "(k, v) \<in> set cs \<Longrightarrow> k \<in> set (expired_sids now cs) \<longleftrightarrow> now - v > TIMEOUT_DURATION" for k v
    using assms by (auto simp: expired_sids_def image_iff dest: eq_key_imp_eq_value)
  then show ?thesis unfolding fold_delete_filter by (intro filter_cong) (auto simp: not_less)
qed

lemma clean_model_other: "m \<noteq> fst item \<Longrightarrow> map_of (clean_model now item pool) m = map_of pool m"
  by (simp add: clean_model_def Let_def delete_conv' update_conv')

lemma clean_others: "m \<notin> fst ` set items \<Longrightarrow> map_of (fold (clean_model now) items pool) m = map_of pool m"
  by (induction items arbitrary: pool) (auto simp: clean_model_other)

text \<open>What a round keeps: the connections of the last three seconds, and the models that have one.\<close>

lemma cleanup_round_exact:
  assumes "pool_ok pool"
  shows "map_of (cleanup_round now pool) m =
    (case map_of pool m of
       None \<Rightarrow> None
     | Some cs \<Rightarrow> (let fresh = filter (\<lambda>(sid, t). now - t \<le> TIMEOUT_DURATION) cs in if fresh = [] then None else Some fresh))"
proof (cases "map_of pool m")
  case None
  then have "m \<notin> fst ` set pool" by (simp add: map_of_eq_None_iff)
  then show ?thesis by (simp add: cleanup_round_def clean_others None)
next
  case (Some cs)
  then obtain xs ys where p: "pool = xs @ (m, cs) # ys" by (meson map_of_SomeD split_list)
  then have d: "m \<notin> fst ` set ys" "distinct (map fst cs)" using assms by (auto simp: pool_ok_def)
  let ?acc = "fold (clean_model now) xs pool"
  have "map_of (fold (clean_model now) pool pool) m = map_of (clean_model now (m, cs) ?acc) m"
    unfolding arg_cong[OF p, of "\<lambda>is. fold (clean_model now) is pool"] by (simp add: clean_others d(1))
  then show ?thesis
    by (simp add: cleanup_round_def clean_model_def Let_def expired_removed[OF d(2)] delete_conv' update_conv' Some)
qed

text \<open>The pool keeps one entry per model and per session.\<close>

lemma set_update_sub: "set (AList.update k v m) \<subseteq> insert (k, v) (set m)"
  by (induction m) auto

lemma pool_ok_usage: "pool_ok pool \<Longrightarrow> pool_ok (usage now sid data s pool)"
proof -
  assume ok: "pool_ok pool"
  have d: "distinct (map fst (AList.update sid now (entry_list pool m)))" for m
    using ok by (force simp: entry_list_def pool_ok_def intro: distinct_update dest: map_of_SomeD split: option.split)
  have "pool_ok (AList.update m (AList.update sid now (entry_list pool m)) pool)" for m
    using ok d[of m] set_update_sub[of m "AList.update sid now (entry_list pool m)" pool]
    by (auto simp: pool_ok_def distinct_update)
  then show ?thesis using ok by (simp add: usage_def split: option.split json.split)
qed

end
