(* ===== verification/Chat_Events.thy ===== *)
theory Chat_Events
  imports Documents
begin

text \<open>
  \<open>get_event_emitter\<close> and \<open>get_event_call\<close> of \<^verbatim>\<open>socket/main.py\<close>: the events a model, a tool or a filter sends
  while it answers. Each event goes to the sessions of the user, and some kinds are written into the
  message of the chat. The emission is an effect; a failure in writing is an exception after it.
\<close>

record request_info =
  ri_user_id :: id
  ri_chat_id :: id
  ri_message_id :: id

text \<open>The emitter exists when the three ids are given.\<close>

definition request_info_of :: "dict \<Rightarrow> request_info option" where
  "request_info_of d = (case (dget d ''user_id'', dget d ''chat_id'', dget d ''message_id'') of
     (Some (JStr u), Some (JStr c), Some (JStr m)) \<Rightarrow> Some \<lparr>ri_user_id = u, ri_chat_id = c, ri_message_id = m\<rparr>
   | _ \<Rightarrow> None)"

definition chat_event_payload :: "request_info \<Rightarrow> dict \<Rightarrow> effect" where
  "chat_event_payload ri ev =
     Emit ''events'' [(''chat_id'', JStr (ri_chat_id ri)), (''message_id'', JStr (ri_message_id ri)), (''data'', JDict ev)]
       (''user:'' @ ri_user_id ri) None"

text \<open>\<open>a + b\<close> of two texts, two lists or two integers; anything else is refused.\<close>

definition py_add :: "json \<Rightarrow> json \<Rightarrow> py_error + json" where
  "py_add a b = (case (a, b) of
     (JStr s, JStr t) \<Rightarrow> Inr (JStr (s @ t))
   | (JList xs, JList ys) \<Rightarrow> Inr (JList (xs @ ys))
   | (JInt i, JInt j) \<Rightarrow> Inr (JInt (i + j))
   | _ \<Rightarrow> Inl TypeError)"

text \<open>\<open>event_data.get("data", {}).get(k, v)\<close>\<close>

definition event_item :: "dict \<Rightarrow> string \<Rightarrow> json \<Rightarrow> py_error + json" where
  "event_item ev k v = jget (dget_or ev ''data'' (JDict [])) k v"

definition merge_message :: "time \<Rightarrow> request_info \<Rightarrow> dict \<Rightarrow> chat_db \<Rightarrow> (py_error + unit) \<times> chat_db" where
  "merge_message now ri m db =
     (case upsert_message_to_chat_by_id_and_message_id now (ri_chat_id ri) (ri_message_id ri) m db of
        (Inl e, db') \<Rightarrow> (Inl e, db') | (Inr r, db') \<Rightarrow> (Inr (), db'))"

definition with_stored_message ::
  "request_info \<Rightarrow> chat_db \<Rightarrow> (json option \<Rightarrow> chat_db \<Rightarrow> (py_error + unit) \<times> chat_db) \<Rightarrow> (py_error + unit) \<times> chat_db" where
  "with_stored_message ri db f =
     (case get_message_by_id_and_message_id (ri_chat_id ri) (ri_message_id ri) db of
        (Inl e, db') \<Rightarrow> (Inl e, db') | (Inr r, db') \<Rightarrow> f r db')"

definition write_item :: "time \<Rightarrow> request_info \<Rightarrow> string \<Rightarrow> py_error + json \<Rightarrow> chat_db \<Rightarrow> (py_error + unit) \<times> chat_db" where
  "write_item now ri k r db = (case r of Inl e \<Rightarrow> (Inl e, db) | Inr v \<Rightarrow> merge_message now ri [(k, v)] db)"

text \<open>A piece of the answer is appended to the stored content.\<close>

definition append_content :: "time \<Rightarrow> request_info \<Rightarrow> dict \<Rightarrow> chat_db \<Rightarrow> (py_error + unit) \<times> chat_db" where
  "append_content now ri ev db =
     with_stored_message ri db (\<lambda>r db'.
       case r of
         None \<Rightarrow> (Inr (), db')
       | Some m \<Rightarrow>
           if \<not> truthy m then (Inr (), db')
           else write_item now ri ''content''
             (and_then (jget m ''content'' (JStr [])) (\<lambda>old.
              and_then (event_item ev ''content'' (JStr [])) (py_add old))) db')"

text \<open>The new entries come before the stored ones. Without a message, asking it for them raises.\<close>

definition extended :: "json \<Rightarrow> json option \<Rightarrow> string \<Rightarrow> py_error + json" where
  "extended new m k = (case (new, m) of
     (JList xs, Some (JDict d)) \<Rightarrow> (case dget_or d k (JList []) of JList ys \<Rightarrow> Inr (JList (xs @ ys)) | _ \<Rightarrow> Inl TypeError)
   | _ \<Rightarrow> Inl AttributeError)"

definition extend_item :: "time \<Rightarrow> request_info \<Rightarrow> string \<Rightarrow> dict \<Rightarrow> chat_db \<Rightarrow> (py_error + unit) \<times> chat_db" where
  "extend_item now ri k ev db =
     with_stored_message ri db (\<lambda>r db'.
       write_item now ri k (and_then (event_item ev k (JList [])) (\<lambda>new. extended new r k)) db')"

definition add_source :: "time \<Rightarrow> request_info \<Rightarrow> dict \<Rightarrow> chat_db \<Rightarrow> (py_error + unit) \<times> chat_db" where
  "add_source now ri ev db =
     (let data = dget_or ev ''data'' (JDict [])
      in case jget data ''type'' JNull of
           Inl e \<Rightarrow> (Inl e, db)
         | Inr t \<Rightarrow>
             if t \<noteq> JNull then (Inr (), db)
             else with_stored_message ri db (\<lambda>r db'.
               write_item now ri ''sources''
                 (case r of
                    Some (JDict d) \<Rightarrow> (case dget_or d ''sources'' (JList []) of JList xs \<Rightarrow> Inr (JList (xs @ [data])) | _ \<Rightarrow> Inl AttributeError)
                  | _ \<Rightarrow> Inl AttributeError) db'))"

definition write_event :: "time \<Rightarrow> request_info \<Rightarrow> dict \<Rightarrow> chat_db \<Rightarrow> (py_error + unit) \<times> chat_db" where
  "write_event now ri ev db =
     (let t = dget ev ''type''
      in if t = Some (JStr ''status'') then
           (case add_message_status_to_chat_by_id_and_message_id now (ri_chat_id ri) (ri_message_id ri)
                   (dget_or ev ''data'' (JDict [])) db of
              (Inl e, db') \<Rightarrow> (Inl e, db') | (Inr r, db') \<Rightarrow> (Inr (), db'))
         else if t = Some (JStr ''message'') then append_content now ri ev db
         else if t = Some (JStr ''replace'') then write_item now ri ''content'' (event_item ev ''content'' (JStr [])) db
         else if t = Some (JStr ''embeds'') then extend_item now ri ''embeds'' ev db
         else if t = Some (JStr ''files'') then extend_item now ri ''files'' ev db
         else if t = Some (JStr ''source'') \<or> t = Some (JStr ''citation'') then add_source now ri ev db
         else (Inr (), db))"

definition event_emitter :: "bool \<Rightarrow> time \<Rightarrow> request_info \<Rightarrow> dict \<Rightarrow> chat_db \<Rightarrow> effect list \<times> (py_error + unit) \<times> chat_db" where
  "event_emitter update_db now ri ev db =
     ([chat_event_payload ri ev],
      if update_db \<and> ri_message_id ri \<noteq> [] \<and> \<not> startswith (ri_chat_id ri) ''local:'' then write_event now ri ev db else (Inr (), db))"

text \<open>The caller waits for the answer of one session, so it only needs to know which.\<close>

definition event_call :: "dict \<Rightarrow> dict \<Rightarrow> effect option" where
  "event_call info ev = (case (dget info ''session_id'', dget info ''chat_id'', dget info ''message_id'') of
     (Some (JStr sid), Some c, Some m) \<Rightarrow>
       Some (Emit ''events'' [(''chat_id'', c), (''message_id'', m), (''data'', JDict ev)] sid None)
   | _ \<Rightarrow> None)"

section \<open>Streaming an answer\<close>

text \<open>The message of the chat holds a text.\<close>

definition holds_text :: "request_info \<Rightarrow> string \<Rightarrow> chat_db \<Rightarrow> bool" where
  "holds_text ri held db \<longleftrightarrow> (\<exists>c db0 h ms m.
     get_chat_by_id (ri_chat_id ri) db = (Some c, db0) \<and> dget (cht_chat c) ''history'' = Some (JDict h) \<and>
     dget h ''messages'' = Some (JDict ms) \<and> dget ms (ri_message_id ri) = Some (JDict m) \<and>
     dget m ''content'' = Some (JStr held) \<and> (\<exists>t. title_of (cht_chat c) = JStr t))"

definition piece_event :: "string \<Rightarrow> dict" where
  "piece_event s = [(''type'', JStr ''message''), (''data'', JDict [(''content'', JStr s)])]"

lemma clean_JDict: "clean_null_bytes (JDict d) = JDict (clean_dict d)"
  by (simp add: clean_dict_def)

declare clean_null_bytes.simps(2) [simp del]
declare clean_JDict [simp]

lemma clean_text_append [simp]: "clean_text (s @ t) = clean_text s @ clean_text t"
  by (simp add: clean_text_def)

lemma holds_text_clean: "holds_text ri held db \<Longrightarrow> clean_text held = held"
proof -
  assume "holds_text ri held db"
  then obtain c db0 h ms m where h: "get_chat_by_id (ri_chat_id ri) db = (Some c, db0)"
      "dget (cht_chat c) ''history'' = Some (JDict h)" "dget h ''messages'' = Some (JDict ms)"
      "dget ms (ri_message_id ri) = Some (JDict m)" "dget m ''content'' = Some (JStr held)"
    unfolding holds_text_def by blast
  have "null_free (JDict (cht_chat c))" using read_clean[OF h(1)] by blast
  from clean_idle[OF this] have "clean_dict (cht_chat c) = cht_chat c" by simp
  then have "dget (clean_dict (cht_chat c)) ''history'' = Some (JDict h)" using h(2) by simp
  then have "clean_dict h = h" using h(2) by simp
  then have "clean_dict ms = ms" using h(3) dget_clean_dict[of h "''messages''"] by simp
  then have "clean_dict m = m" using h(4) dget_clean_dict[of ms "ri_message_id ri"] by simp
  then show ?thesis using h(5) dget_clean_dict[of m "''content''"] by simp
qed

lemma text_read:
  assumes "holds_text ri held db"
  obtains m db0 where "get_message_by_id_and_message_id (ri_chat_id ri) (ri_message_id ri) db = (Inr (Some (JDict m)), db0)"
    "dget m ''content'' = Some (JStr held)" "holds_text ri held db0"
proof -
  obtain c db0 h ms m where h: "get_chat_by_id (ri_chat_id ri) db = (Some c, db0)"
      "dget (cht_chat c) ''history'' = Some (JDict h)" "dget h ''messages'' = Some (JDict ms)"
      "dget ms (ri_message_id ri) = Some (JDict m)" "dget m ''content'' = Some (JStr held)"
      "\<exists>t. title_of (cht_chat c) = JStr t"
    using assms unfolding holds_text_def by blast
  have g: "get_chat_by_id (ri_chat_id ri) db0 = (Some c, db0)" using read_clean[OF h(1)] by blast
  have "get_message_by_id_and_message_id (ri_chat_id ri) (ri_message_id ri) db = (Inr (Some (JDict m)), db0)"
    by (simp add: get_message_by_id_and_message_id_def h messages_of_def jget_def dget_or_def)
  moreover have "holds_text ri held db0" unfolding holds_text_def using g h(2-6) by blast
  ultimately show ?thesis using that h(5) by blast
qed

lemma text_written:
  assumes "holds_text ri held db"
  obtains db' where "merge_message now ri [(''content'', JStr s)] db = (Inr (), db')" "holds_text ri (clean_text s) db'"
proof -
  obtain c db0 h ms m where h: "get_chat_by_id (ri_chat_id ri) db = (Some c, db0)"
      "dget (cht_chat c) ''history'' = Some (JDict h)" "dget h ''messages'' = Some (JDict ms)"
      "dget ms (ri_message_id ri) = Some (JDict m)" "dget m ''content'' = Some (JStr held)"
      "\<exists>t. title_of (cht_chat c) = JStr t"
    using assms unfolding holds_text_def by blast
  let ?new = "[(''content'', JStr s)]"
  let ?m = "dmerge m (clean_content ?new)"
  have cc: "clean_content ?new = [(''content'', JStr (clean_text s))]" by (simp add: clean_content_def)
  have old: "dget ms (ri_message_id ri) = None \<or> (\<exists>old. dget ms (ri_message_id ri) = Some (JDict old))" using h(4) by blast
  obtain r db' c' db'' where u: "upsert_message_to_chat_by_id_and_message_id now (ri_chat_id ri) (ri_message_id ri) ?new db = (Inr (Some r), db')"
      "get_chat_by_id (ri_chat_id ri) db' = (Some c', db'')" "title_of (cht_chat c') = title_of (cht_chat c)"
      "cht_chat c' = clean_dict (dset ''history'' (JDict (dset ''currentId'' (JStr (ri_message_id ri))
        (dset ''messages'' (JDict (dset (ri_message_id ri) (JDict ?m) ms)) h))) (cht_chat c))"
    by (rule upsert_writes[OF h(1-3) old h(6), of now ?new]) (simp add: h(4))
  have "holds_text ri (clean_text s) db'"
    unfolding holds_text_def using u(2,3) h(6)
    by (intro exI[of _ c'] exI[of _ db'']) (simp add: u(4) cc)
  then show ?thesis using that u(1) by (simp add: merge_message_def)
qed

lemma piece_appended:
  assumes "holds_text ri held db" "update_db" "ri_message_id ri \<noteq> []" "\<not> startswith (ri_chat_id ri) ''local:''"
  shows "\<exists>db'. snd (event_emitter update_db now ri (piece_event s) db) = (Inr (), db') \<and> holds_text ri (held @ clean_text s) db'"
proof -
  obtain m db0 where m: "get_message_by_id_and_message_id (ri_chat_id ri) (ri_message_id ri) db = (Inr (Some (JDict m)), db0)"
      "dget m ''content'' = Some (JStr held)" "holds_text ri held db0"
    by (rule text_read[OF assms(1)])
  have t: "truthy (JDict m)" using m(2) by auto
  obtain db' where "merge_message now ri [(''content'', JStr (held @ s))] db0 = (Inr (), db')" "holds_text ri (clean_text (held @ s)) db'"
    by (rule text_written[OF m(3)])
  then show ?thesis using assms(2-4) t holds_text_clean[OF assms(1)]
    by (simp add: event_emitter_def write_event_def piece_event_def append_content_def
        with_stored_message_def m(1,2) write_item_def jget_def dget_or_def event_item_def py_add_def)
qed

text \<open>
  The pieces of an answer add up. When a message holds a text, emitting the pieces one after the other
  succeeds at every piece, and afterwards the message holds the text followed by all the pieces in their
  order, less their null characters.
\<close>

lemma streamed_pieces_accumulate:
  assumes "holds_text ri held db" "ri_message_id ri \<noteq> []" "\<not> startswith (ri_chat_id ri) ''local:''"
  shows "holds_text ri (held @ clean_text (concat ss)) (fold (\<lambda>s d. snd (snd (event_emitter True now ri (piece_event s) d))) ss db)"
  using assms(1)
proof (induction ss arbitrary: held db)
  case Nil
  then show ?case by (simp add: clean_text_def)
next
  case (Cons s ss)
  obtain db' where db': "snd (event_emitter True now ri (piece_event s) db) = (Inr (), db')" "holds_text ri (held @ clean_text s) db'"
    using piece_appended[OF Cons.prems TrueI assms(2,3)] by blast
  from Cons.IH[OF db'(2)] show ?case by (simp add: db'(1))
qed

lemma streamed_pieces_accumulate_witness:
  "holds_text \<lparr>ri_user_id = ''lee'', ri_chat_id = ''k1'', ri_message_id = ''m1''\<rparr> ''hi there''
     (fold (\<lambda>s d. snd (snd (event_emitter True 5 \<lparr>ri_user_id = ''lee'', ri_chat_id = ''k1'', ri_message_id = ''m1''\<rparr> (piece_event s) d)))
        ['' th'', ''ere''] sample_chats)"
proof -
  let ?ri = "\<lparr>ri_user_id = ''lee'', ri_chat_id = ''k1'', ri_message_id = ''m1''\<rparr>" and ?c = "sanitize_chat_row memo_chat"
  have "get_chat_by_id ''k1'' sample_chats = (Some ?c, snd (get_chat_by_id ''k1'' sample_chats))"
    using sample_row by (simp add: get_chat_by_id_def chat_model_def sanitize_chat_row_def memo_chat_def)
  then have "holds_text ?ri ''hi'' sample_chats"
    unfolding holds_text_def
    by (intro exI[of _ ?c] exI) (auto simp: sanitize_chat_row_def memo_chat_def clean_dict_def clean_text_def title_of_def)
  from streamed_pieces_accumulate[OF this, of "['' th'', ''ere'']" 5] show ?thesis
    by (simp add: startswith_def clean_text_def)
qed

end
