(* ===== verification/Json_Text.thy ===== *)
theory Json_Text
  imports Misc_Text
begin

text \<open>
  \<open>json.dumps\<close> and \<open>json.loads\<close> of Python's standard library, as the server uses them: default separators,
  ASCII output. Reading the text of a float is the argument \<open>fl\<close>, from the text to the float's \<open>repr\<close>.
  A text the decoder refuses is None; so is one with an escape above code point 255, which lies outside
  the alphabet of the model. The decoder takes the nesting depth it may use; the length of the text is enough.
\<close>

section \<open>Writing\<close>

fun dumps :: "json \<Rightarrow> string" where
  "dumps JNull = ''null''"
| "dumps (JBool b) = (if b then ''true'' else ''false'')"
| "dumps (JInt i) = int_str i"
| "dumps (JFloat r) = (if r = ''nan'' then ''NaN'' else if r = ''inf'' then ''Infinity'' else if r = ''-inf'' then ''-Infinity'' else r)"
| "dumps (JStr s) = json_quote s"
| "dumps (JList xs) = ''['' @ join '', '' (map dumps xs) @ '']''"
| "dumps (JDict d) = ''{'' @ join '', '' (map (\<lambda>(k, v). json_quote k @ '': '' @ dumps v) d) @ ''}''"

section \<open>Reading\<close>

definition json_space :: "char \<Rightarrow> bool" where
  "json_space c \<longleftrightarrow> c = CHR '' '' \<or> c = CHR 0x09 \<or> c = CHR 0x0A \<or> c = CHR 0x0D"

definition skip_space :: "string \<Rightarrow> string" where "skip_space s = dropWhile json_space s"

definition hex_val :: "char \<Rightarrow> nat option" where
  "hex_val c = (let n = code c in
     if 48 \<le> n \<and> n \<le> 57 then Some (n - 48) else if 97 \<le> n \<and> n \<le> 102 then Some (n - 87)
     else if 65 \<le> n \<and> n \<le> 70 then Some (n - 55) else None)"

definition escaped :: "char \<Rightarrow> char option" where
  "escaped c =
     (if c = CHR 0x22 \<or> c = CHR 0x5C \<or> c = CHR ''/'' then Some c
      else if c = CHR ''b'' then Some (CHR 0x08) else if c = CHR ''f'' then Some (CHR 0x0C)
      else if c = CHR ''n'' then Some (CHR 0x0A) else if c = CHR ''r'' then Some (CHR 0x0D)
      else if c = CHR ''t'' then Some (CHR 0x09) else None)"

definition hex_char :: "char \<Rightarrow> char \<Rightarrow> char \<Rightarrow> char \<Rightarrow> char option" where
  "hex_char a b c d = (case (hex_val a, hex_val b, hex_val c, hex_val d) of
     (Some i, Some j, Some k, Some l) \<Rightarrow> if i = 0 \<and> j = 0 then Some (char_of (16 * k + l)) else None
   | _ \<Rightarrow> None)"

definition cons_char :: "char \<Rightarrow> (string \<times> string) option \<Rightarrow> (string \<times> string) option" where
  "cons_char c r = map_option (\<lambda>(s, t). (c # s, t)) r"

text \<open>The rest of a string after its opening quote.\<close>

fun p_string :: "string \<Rightarrow> (string \<times> string) option" where
  "p_string [] = None"
| "p_string (c # cs) =
     (if c = CHR 0x22 then Some ([], cs)
      else if c = CHR 0x5C then
        (case cs of
           [] \<Rightarrow> None
         | e # es \<Rightarrow>
             if e = CHR ''u'' then
               (case es of
                  h1 # h2 # h3 # h4 # t \<Rightarrow> (case hex_char h1 h2 h3 h4 of None \<Rightarrow> None | Some x \<Rightarrow> cons_char x (p_string t))
                | _ \<Rightarrow> None)
             else (case escaped e of None \<Rightarrow> None | Some x \<Rightarrow> cons_char x (p_string es)))
      else if code c < 32 then None else cons_char c (p_string cs))"

text \<open>Numbers: an integer without leading zeros, a fraction, an exponent.\<close>

definition digits_of :: "string \<Rightarrow> string \<times> string" where
  "digits_of s = (takeWhile is_digit s, dropWhile is_digit s)"

definition p_fraction :: "string \<Rightarrow> string \<times> string" where
  "p_fraction s = (case s of
     c # cs \<Rightarrow> (let (ds, t) = digits_of cs in if c = CHR ''.'' \<and> ds \<noteq> [] then (c # ds, t) else ([], s))
   | [] \<Rightarrow> ([], s))"

definition p_exponent :: "string \<Rightarrow> string \<times> string" where
  "p_exponent s = (case s of
     c # cs \<Rightarrow>
       (let (sign, u) = (case cs of x # xs \<Rightarrow> if x = CHR ''-'' \<or> x = CHR ''+'' then ([x], xs) else ([], cs) | [] \<Rightarrow> ([], cs));
            (ds, t) = digits_of u
        in if (c = CHR ''e'' \<or> c = CHR ''E'') \<and> ds \<noteq> [] then (c # sign @ ds, t) else ([], s))
   | [] \<Rightarrow> ([], s))"

definition p_unsigned :: "string \<Rightarrow> (string \<times> string) option" where
  "p_unsigned s = (case s of
     [] \<Rightarrow> None
   | c # cs \<Rightarrow> if c = CHR ''0'' then Some ([c], cs) else if is_digit c then Some (digits_of s) else None)"

definition p_integer :: "string \<Rightarrow> (string \<times> string) option" where
  "p_integer s = (case s of
     [] \<Rightarrow> None
   | x # xs \<Rightarrow> if x = CHR ''-'' then map_option (\<lambda>(d, t). (x # d, t)) (p_unsigned xs) else p_unsigned s)"

definition signed_val :: "string \<Rightarrow> int" where
  "signed_val s = (case s of c # cs \<Rightarrow> if c = CHR ''-'' then - int (digits_val cs) else int (digits_val s) | [] \<Rightarrow> 0)"

text \<open>The limit of \<open>int()\<close>.\<close>

definition max_digits :: nat where "max_digits = 4300"

definition p_number :: "(string \<Rightarrow> string) \<Rightarrow> string \<Rightarrow> (json \<times> string) option" where
  "p_number fl s = (case p_integer s of
     None \<Rightarrow> None
   | Some (i, t) \<Rightarrow>
       (let (f, t1) = p_fraction t; (e, t2) = p_exponent t1
        in if f = [] \<and> e = [] then (if max_digits < length (filter is_digit i) then None else Some (JInt (signed_val i), t2))
           else Some (JFloat (fl (i @ f @ e)), t2)))"

definition p_words :: "(string \<times> json) list" where
  "p_words = [(''null'', JNull), (''true'', JBool True), (''false'', JBool False), (''NaN'', JFloat ''nan''),
     (''Infinity'', JFloat ''inf''), (''-Infinity'', JFloat ''-inf'')]"

definition p_word :: "string \<Rightarrow> (json \<times> string) option" where
  "p_word s = map_option (\<lambda>(w, v). (v, drop (length w) s)) (find (\<lambda>(w, v). startswith s w) p_words)"

text \<open>A value, the rest of a list, and the rest of an object.\<close>

fun p_value :: "(string \<Rightarrow> string) \<Rightarrow> nat \<Rightarrow> string \<Rightarrow> (json \<times> string) option"
and p_items :: "(string \<Rightarrow> string) \<Rightarrow> nat \<Rightarrow> json list \<Rightarrow> string \<Rightarrow> (json \<times> string) option"
and p_pairs :: "(string \<Rightarrow> string) \<Rightarrow> nat \<Rightarrow> dict \<Rightarrow> string \<Rightarrow> (json \<times> string) option" where
  "p_value fl 0 s = None"
| "p_value fl (Suc n) s =
     (case s of
        [] \<Rightarrow> None
      | c # cs \<Rightarrow>
          if c = CHR 0x22 then map_option (\<lambda>(x, t). (JStr x, t)) (p_string cs)
          else if c = CHR ''['' then
            (case skip_space cs of
               [] \<Rightarrow> None | d # ds \<Rightarrow> if d = CHR '']'' then Some (JList [], ds) else p_items fl n [] (d # ds))
          else if c = CHR ''{'' then
            (case skip_space cs of
               [] \<Rightarrow> None | d # ds \<Rightarrow> if d = CHR ''}'' then Some (JDict [], ds) else p_pairs fl n [] (d # ds))
          else (case p_word s of Some r \<Rightarrow> Some r | None \<Rightarrow> p_number fl s))"
| "p_items fl 0 acc s = None"
| "p_items fl (Suc n) acc s =
     (case p_value fl n s of
        None \<Rightarrow> None
      | Some (v, t) \<Rightarrow>
          (case skip_space t of
             [] \<Rightarrow> None
           | c # cs \<Rightarrow>
               if c = CHR '']'' then Some (JList (acc @ [v]), cs)
               else if c = CHR '','' then p_items fl n (acc @ [v]) (skip_space cs) else None))"
| "p_pairs fl 0 acc s = None"
| "p_pairs fl (Suc n) acc s =
     (case s of
        [] \<Rightarrow> None
      | q # qs \<Rightarrow>
          if q \<noteq> CHR 0x22 then None
          else (case p_string qs of
             None \<Rightarrow> None
           | Some (k, t) \<Rightarrow>
               (case skip_space t of
                  [] \<Rightarrow> None
                | x # xs \<Rightarrow>
                    if x \<noteq> CHR '':'' then None
                    else (case p_value fl n (skip_space xs) of
                       None \<Rightarrow> None
                     | Some (v, u) \<Rightarrow>
                         (case skip_space u of
                            [] \<Rightarrow> None
                          | c # cs \<Rightarrow>
                              if c = CHR ''}'' then Some (JDict (dset k v acc), cs)
                              else if c = CHR '','' then p_pairs fl n (dset k v acc) (skip_space cs) else None)))))"

definition loads :: "(string \<Rightarrow> string) \<Rightarrow> string \<Rightarrow> json option" where
  "loads fl s = (case p_value fl (2 * length s + 2) (skip_space s) of
     Some (v, t) \<Rightarrow> if skip_space t = [] then Some v else None
   | None \<Rightarrow> None)"

section \<open>Reading what was written\<close>

lemma hex_val_digit: "n < 16 \<Longrightarrow> hex_val (hex_digit n) = Some n"
  by (simp add: hex_val_def hex_digit_def digit_def of_char_of take_bit_eq_mod)

lemma control_codes:
  "code (CHR 0x0A) = 10" "code (CHR 0x0D) = 13" "code (CHR 0x09) = 9" "code (CHR 0x08) = 8" "code (CHR 0x0C) = 12"
  "code (CHR 0x22) = 34" "code (CHR 0x5C) = 92"
  by simp_all

lemma p_string_char: "p_string (json_quote_char c @ t) = cons_char c (p_string t)"
proof -
  have c: "char_of (code c) = c" by simp
  have h: "hex_char (CHR ''0'') (CHR ''0'') (hex_digit (code c div 16)) (hex_digit (code c mod 16)) = Some c"
  proof -
    have "code c div 16 < 16" using of_char_lt_256[of c] by linarith
    then show ?thesis using hex_val_digit[of "code c div 16"] hex_val_digit[of "code c mod 16"]
      by (simp add: hex_char_def hex_val_def[of "CHR ''0''"])
  qed
  have s: "code c = 10 \<Longrightarrow> c = CHR 0x0A" "code c = 13 \<Longrightarrow> c = CHR 0x0D" "code c = 9 \<Longrightarrow> c = CHR 0x09"
      "code c = 8 \<Longrightarrow> c = CHR 0x08" "code c = 12 \<Longrightarrow> c = CHR 0x0C" "code c = 34 \<Longrightarrow> c = CHR 0x22" "code c = 92 \<Longrightarrow> c = CHR 0x5C"
    by (metis control_codes of_char_eq_iff)+
  show ?thesis
  proof (cases "code c \<in> {8, 9, 10, 12, 13, 34, 92}")
    case True
    then have "c = CHR 0x08 \<or> c = CHR 0x09 \<or> c = CHR 0x0A \<or> c = CHR 0x0C \<or> c = CHR 0x0D \<or> c = CHR 0x22 \<or> c = CHR 0x5C"
      using s by blast
    then show ?thesis by (elim disjE) (simp_all add: json_quote_char_def escaped_def)
  next
    case False
    then have n: "c \<noteq> CHR 0x22" "c \<noteq> CHR 0x5C" by auto
    show ?thesis using False n h by (auto simp: json_quote_char_def Let_def)
  qed
qed

lemma p_string_quoted: "p_string (concat (map json_quote_char s) @ CHR 0x22 # t) = Some (s, t)"
  by (induction s) (simp_all add: p_string_char cons_char_def)

text \<open>Numbers end before the character that follows a value.\<close>

definition stops :: "string \<Rightarrow> bool" where
  "stops t \<longleftrightarrow> (t = [] \<or> hd t = CHR '','' \<or> hd t = CHR '']'' \<or> hd t = CHR ''}'')"

definition plain_float :: "string \<Rightarrow> bool" where
  "plain_float r = (case p_integer r of
     Some (i, c # fs) \<Rightarrow> c = CHR ''.'' \<and> fs \<noteq> [] \<and> list_all is_digit fs | _ \<Rightarrow> False)"

fun json_ok :: "(string \<Rightarrow> string) \<Rightarrow> json \<Rightarrow> bool" where
  "json_ok fl (JInt i) = (length (nat_str (nat \<bar>i\<bar>)) \<le> max_digits)"
| "json_ok fl (JFloat r) = (plain_float r \<and> fl r = r)"
| "json_ok fl (JList xs) = list_all (json_ok fl) xs"
| "json_ok fl (JDict d) = (wf_dict d \<and> list_all (\<lambda>(k, v). json_ok fl v) d)"
| "json_ok fl v = True"

lemma stops_no_digit: "stops t \<Longrightarrow> takeWhile is_digit t = [] \<and> dropWhile is_digit t = t"
  by (cases t) (auto simp: stops_def is_digit_def)

lemma stops_number: "stops t \<Longrightarrow> p_fraction t = ([], t) \<and> p_exponent t = ([], t)"
  by (cases t) (auto simp: stops_def p_fraction_def p_exponent_def digits_of_def split: prod.split)

lemma digits_of_append: "list_all is_digit ds \<Longrightarrow> takeWhile is_digit t = [] \<Longrightarrow> digits_of (ds @ t) = (ds, t)"
  by (cases t) (auto simp: digits_of_def list_all_iff split: if_splits)

lemma nat_str_head: "0 < n \<Longrightarrow> hd (nat_str n) \<noteq> CHR ''0''"
proof (induction n rule: nat_str.induct)
  case (1 n)
  show ?case
  proof (cases "n < 10")
    case True
    have "digit n \<noteq> CHR ''0''" using code_digit[OF True] 1(2) by auto
    then show ?thesis using True by (subst nat_str.simps) simp
  next
    case False
    then have "hd (nat_str (n div 10)) \<noteq> CHR ''0''" using 1 by simp
    then show ?thesis using False nat_str_digits[of "n div 10"] by (subst nat_str.simps) simp
  qed
qed

lemma p_unsigned_nat: "stops t \<Longrightarrow> p_unsigned (nat_str n @ t) = Some (nat_str n, t)"
proof -
  assume s: "stops t"
  obtain c cs where n: "nat_str n = c # cs" using nat_str_digits[of n] by (cases "nat_str n") auto
  have d: "is_digit c" using nat_str_digits[of n] by (simp add: n)
  have "cs = []" if "c = CHR ''0''"
  proof -
    have "n = 0" using nat_str_head[of n] that n by (cases "n = 0") auto
    then show ?thesis using n by (subst (asm) nat_str.simps) simp
  qed
  moreover have "digits_of (nat_str n @ t) = (nat_str n, t)"
    using nat_str_digits[of n] stops_no_digit[OF s] by (simp add: digits_of_append)
  ultimately show ?thesis using d n by (auto simp: p_unsigned_def)
qed

lemma p_integer_nat:
  assumes "stops t"
  shows "p_integer (nat_str n @ t) = Some (nat_str n, t)" "p_integer (CHR ''-'' # nat_str n @ t) = Some (CHR ''-'' # nat_str n, t)"
proof -
  obtain c cs where n: "nat_str n = c # cs" using nat_str_digits[of n] by (cases "nat_str n") auto
  then have "c \<noteq> CHR ''-''" using nat_str_digits[of n] digit_not_special by auto
  then show "p_integer (nat_str n @ t) = Some (nat_str n, t)" "p_integer (CHR ''-'' # nat_str n @ t) = Some (CHR ''-'' # nat_str n, t)"
    using p_unsigned_nat[OF assms, of n] by (simp_all add: p_integer_def n)
qed

text \<open>What follows the digits may be longer.\<close>

lemma p_unsigned_extend:
  assumes "p_unsigned u = Some (d, c # cs)" "\<not> is_digit c"
  shows "u = d @ c # cs \<and> p_unsigned (u @ t) = Some (d, c # cs @ t)"
proof (cases u)
  case (Cons x xs)
  show ?thesis
  proof (cases "x = CHR ''0''")
    case False
    then have h: "is_digit x" "takeWhile is_digit u = d" "dropWhile is_digit u = c # cs"
      using assms(1) Cons by (auto simp: p_unsigned_def digits_of_def split: if_splits)
    then have u: "u = d @ c # cs" by (metis takeWhile_dropWhile_id)
    have "list_all is_digit d" using h(2) set_takeWhileD by (fastforce simp: list_all_iff)
    then have "digits_of (d @ c # cs @ t) = (d, c # cs @ t)" using digits_of_append[of d "c # cs @ t"] assms(2) by simp
    moreover have "p_unsigned (u @ t) = Some (digits_of (u @ t))" using False h(1) by (simp add: Cons p_unsigned_def)
    ultimately show ?thesis using u by simp
  qed (use assms Cons in \<open>simp add: p_unsigned_def\<close>)
qed (use assms in \<open>simp add: p_unsigned_def\<close>)

lemma p_integer_extend:
  assumes "p_integer u = Some (d, c # cs)" "\<not> is_digit c"
  shows "u = d @ c # cs \<and> p_integer (u @ t) = Some (d, c # cs @ t)"
  using assms p_unsigned_extend[of "tl u" "tl d" c cs t] p_unsigned_extend[of u d c cs t]
  by (cases u) (auto simp: p_integer_def split: if_splits)

lemma filter_digits [simp]: "filter is_digit (nat_str n) = nat_str n"
  using nat_str_digits[of n] by (simp add: list_all_iff)

lemma p_number_integer:
  assumes "stops t" "p_integer (s @ t) = Some (s, t)" "length (filter is_digit s) \<le> max_digits"
  shows "p_number fl (s @ t) = Some (JInt (signed_val s), t)"
  using assms(2,3) stops_number[OF assms(1)] by (simp add: p_number_def)

lemma signed_val_int_str [simp]: "signed_val (int_str i) = i"
proof -
  obtain c cs where n: "nat_str (nat i) = c # cs" using nat_str_digits[of "nat i"] by (cases "nat_str (nat i)") auto
  then have "c \<noteq> CHR ''-''" using nat_str_digits[of "nat i"] digit_not_special by auto
  then show ?thesis using digits_val_nat_str[of "nat i"] n by (auto simp: int_str_def signed_val_def)
qed

lemma int_str_number:
  assumes "stops t" "length (nat_str (nat \<bar>i\<bar>)) \<le> max_digits"
  shows "p_number fl (int_str i @ t) = Some (JInt i, t)"
proof -
  have "\<not> is_digit (CHR ''-'')" by (simp add: is_digit_def)
  then have "length (filter is_digit (int_str i)) \<le> max_digits" using assms(2) by (cases "i < 0") (simp_all add: int_str_def)
  moreover have "p_integer (int_str i @ t) = Some (int_str i, t)"
    using p_integer_nat[OF assms(1)] by (simp add: int_str_def)
  ultimately have "p_number fl (int_str i @ t) = Some (JInt (signed_val (int_str i)), t)"
    by (intro p_number_integer[OF assms(1)])
  then show ?thesis by simp
qed

lemma plain_float_number:
  assumes "plain_float r" "fl r = r" "stops t"
  shows "p_number fl (r @ t) = Some (JFloat r, t)"
proof -
  obtain i u where i: "p_integer r = Some (i, u)" using assms(1) by (cases "p_integer r") (auto simp: plain_float_def)
  obtain fs where "u = CHR ''.'' # fs" "fs \<noteq> []" "list_all is_digit fs"
    using assms(1) by (cases u) (auto simp: plain_float_def i)
  then have p: "p_integer r = Some (i, CHR ''.'' # fs)" "fs \<noteq> []" "list_all is_digit fs" using i by simp_all
  have "p_integer (r @ t) = Some (i, CHR ''.'' # fs @ t)"
    by (rule conjunct2[OF p_integer_extend[OF p(1)]]) (simp add: is_digit_def)
  moreover have "p_fraction (CHR ''.'' # fs @ t) = (CHR ''.'' # fs, t)"
    using p(2,3) stops_no_digit[OF assms(3)] by (simp add: p_fraction_def digits_of_append)
  ultimately have "p_number fl (r @ t) = Some (JFloat (fl (i @ CHR ''.'' # fs)), t)"
    unfolding p_number_def using stops_number[OF assms(3)] by simp
  moreover have "i @ CHR ''.'' # fs = r" using p_integer_extend[OF p(1), of "[]"] by (simp add: is_digit_def)
  ultimately show ?thesis using assms(2) by simp
qed

text \<open>The first character tells a number from the rest.\<close>

lemma p_value_number:
  assumes "p_number fl s = Some (v, t)" "\<exists>c cs. s = c # cs \<and> (is_digit c \<or> c = CHR ''-'' \<and> cs \<noteq> [] \<and> is_digit (hd cs))"
  shows "p_value fl (Suc n) s = Some (v, t)"
proof -
  obtain c cs where s: "s = c # cs" "is_digit c \<or> c = CHR ''-'' \<and> cs \<noteq> [] \<and> is_digit (hd cs)" using assms(2) by blast
  have n: "c \<noteq> CHR 0x22" "c \<noteq> CHR ''[''" "c \<noteq> CHR ''{''" "c \<noteq> CHR ''n''" "c \<noteq> CHR ''t''" "c \<noteq> CHR ''f''" "c \<noteq> CHR ''N''" "c \<noteq> CHR ''I''"
    using s(2) by (auto simp: is_digit_def)
  have "\<not> (c = CHR ''-'' \<and> prefix ''Infinity'' cs)"
    using s(2) by (cases cs) (auto simp: is_digit_def)
  then have "p_word s = None" using n by (auto simp: p_word_def p_words_def startswith_def s(1))
  then show ?thesis using n assms(1) by (simp add: s(1))
qed

lemma int_str_head: "\<exists>c cs. int_str i @ t = c # cs \<and> (is_digit c \<or> c = CHR ''-'' \<and> cs \<noteq> [] \<and> is_digit (hd cs))"
proof -
  have n: "nat_str n \<noteq> []" "is_digit (hd (nat_str n))" for n
    using nat_str_digits[of n] by (cases "nat_str n"; simp)+
  show ?thesis using n[of "nat (- i)"] n[of "nat i"]
    by (cases "i < 0"; cases "nat_str (nat i)"; cases "nat_str (nat (- i))") (auto simp: int_str_def)
qed

lemma p_unsigned_head: "p_unsigned s = Some r \<Longrightarrow> s \<noteq> [] \<and> is_digit (hd s)"
  by (cases s) (auto simp: p_unsigned_def is_digit_def split: if_splits)

lemma plain_float_head:
  "plain_float r \<Longrightarrow> \<exists>c cs. r @ t = c # cs \<and> (is_digit c \<or> c = CHR ''-'' \<and> cs \<noteq> [] \<and> is_digit (hd cs))"
proof -
  assume "plain_float r"
  then obtain x where "p_integer r = Some x" by (cases "p_integer r") (auto simp: plain_float_def)
  then show ?thesis
    by (cases r) (auto simp: p_integer_def dest!: p_unsigned_head split: if_splits)
qed

lemma plain_float_finite: "plain_float r \<Longrightarrow> r \<noteq> ''nan'' \<and> r \<noteq> ''inf'' \<and> r \<noteq> ''-inf''"
  by (auto simp: plain_float_def p_integer_def p_unsigned_def is_digit_def)

lemma skip_space_id: "t = [] \<or> \<not> json_space (hd t) \<Longrightarrow> skip_space t = t"
  by (cases t) (auto simp: skip_space_def)

lemma dumps_head: "json_ok fl v \<Longrightarrow> \<exists>c cs. dumps v @ t = c # cs \<and> \<not> json_space c \<and> c \<noteq> CHR '']''"
proof (cases v)
  case (JInt i)
  then show ?thesis using int_str_head[of i t] by (auto simp: json_space_def is_digit_def)
next
  case (JFloat r)
  assume ok: "json_ok fl v"
  then have "dumps v = r" using JFloat plain_float_finite by simp
  then show ?thesis using plain_float_head[of r t] ok JFloat by (auto simp: json_space_def is_digit_def)
qed (auto simp: json_quote_def json_space_def)

lemma skip_dumps: "json_ok fl v \<Longrightarrow> skip_space (CHR '' '' # dumps v @ t) = dumps v @ t" "json_ok fl v \<Longrightarrow> skip_space (dumps v @ t) = dumps v @ t"
  using dumps_head[of fl v t] by (auto simp: skip_space_def json_space_def)

lemma stops_simps [simp]: "stops []" "stops (CHR '','' # t)" "stops (CHR '']'' # t)" "stops (CHR ''}'' # t)"
  by (simp_all add: stops_def)

lemma join_head: "xs \<noteq> [] \<Longrightarrow> \<exists>u. join sep (map f xs) @ t = f (hd xs) @ u"
  by (cases xs rule: remdups_adj.cases) auto

text \<open>Lists and objects, given that their elements are read back.\<close>

lemma p_items_dumps:
  assumes "vs \<noteq> []" "\<And>v n t. v \<in> set vs \<Longrightarrow> stops t \<Longrightarrow> length (dumps v) \<le> n \<Longrightarrow> p_value fl n (dumps v @ t) = Some (v, t)"
    and "list_all (json_ok fl) vs" "length (join '', '' (map dumps vs)) < n"
  shows "p_items fl n acc (join '', '' (map dumps vs) @ CHR '']'' # t) = Some (JList (acc @ vs), t)"
  using assms
proof (induction vs arbitrary: acc n)
  case (Cons v vs)
  obtain m where n: "n = Suc m" using Cons.prems(4) by (cases n) auto
  show ?case
  proof (cases "vs = []")
    case True
    then have "p_value fl m (dumps v @ CHR '']'' # t) = Some (v, CHR '']'' # t)"
      using Cons.prems by (intro Cons.prems(2)) (simp_all add: n)
    then show ?thesis using True by (simp add: n skip_space_def json_space_def)
  next
    case False
    let ?u = "CHR '','' # CHR '' '' # join '', '' (map dumps vs) @ CHR '']'' # t"
    have j: "join '', '' (map dumps (v # vs)) @ CHR '']'' # t = dumps v @ ?u" using False by (simp add: join_Cons)
    have v: "p_value fl m (dumps v @ ?u) = Some (v, ?u)"
      using Cons.prems False by (intro Cons.prems(2)) (simp_all add: n join_Cons)
    have "json_ok fl (hd vs)" using Cons.prems(3) False by (cases vs) auto
    then have s: "skip_space (CHR '' '' # join '', '' (map dumps vs) @ CHR '']'' # t) = join '', '' (map dumps vs) @ CHR '']'' # t"
      using join_head[OF False, of "'', ''" dumps "CHR '']'' # t"] skip_dumps(1) by fastforce
    have "p_items fl m (acc @ [v]) (join '', '' (map dumps vs) @ CHR '']'' # t) = Some (JList ((acc @ [v]) @ vs), t)"
      using Cons.prems False by (intro Cons.IH) (simp_all add: n join_Cons)
    then show ?thesis unfolding j using v s by (simp add: n skip_space_id json_space_def)
  qed
qed simp

lemma dset_new: "map_of d k = None \<Longrightarrow> AList.update k v d = d @ [(k, v)]"
  by (induction d) (auto split: if_splits)

definition pair_text :: "string \<times> json \<Rightarrow> string" where
  "pair_text p = json_quote (fst p) @ '': '' @ dumps (snd p)"

lemma dumps_dict: "dumps (JDict d) = ''{'' @ join '', '' (map pair_text d) @ ''}''"
  by (simp add: pair_text_def[abs_def] case_prod_unfold)

lemma p_pair:
  assumes "p_value fl n (dumps v @ u) = Some (v, u)" "json_ok fl v"
  shows "p_pairs fl (Suc n) acc (pair_text (k, v) @ u) =
    (case skip_space u of
       [] \<Rightarrow> None
     | c # cs \<Rightarrow>
         if c = CHR ''}'' then Some (JDict (dset k v acc), cs)
         else if c = CHR '','' then p_pairs fl n (dset k v acc) (skip_space cs) else None)"
proof -
  have "skip_space (CHR '':'' # x) = CHR '':'' # x" for x by (simp add: skip_space_def json_space_def)
  then show ?thesis
    using p_string_quoted[of k "CHR '':'' # CHR '' '' # dumps v @ u"] skip_dumps(1)[OF assms(2), of u] assms(1)
    by (simp add: pair_text_def json_quote_def)
qed

lemma pair_text_head: "\<exists>cs. pair_text p @ t = CHR 0x22 # cs"
  by (simp add: pair_text_def json_quote_def)

lemma p_pairs_dumps:
  assumes "d \<noteq> []" "\<And>v n t. v \<in> snd ` set d \<Longrightarrow> stops t \<Longrightarrow> length (dumps v) \<le> n \<Longrightarrow> p_value fl n (dumps v @ t) = Some (v, t)"
    and "list_all (\<lambda>(k, v). json_ok fl v) d" "length (join '', '' (map pair_text d)) < n" "distinct (map fst (acc @ d))"
  shows "p_pairs fl n acc (join '', '' (map pair_text d) @ CHR ''}'' # t) = Some (JDict (acc @ d), t)"
  using assms
proof (induction d arbitrary: acc n)
  case (Cons p d)
  obtain k v where p: "p = (k, v)" by (cases p)
  obtain m where n: "n = Suc m" using Cons.prems(4) by (cases n) auto
  have new: "dset k v acc = acc @ [p]"
    using Cons.prems(5) p by (intro dset_new[of acc k v, folded p]) (auto simp: map_of_eq_None_iff)
  have len: "length (dumps v) \<le> length (pair_text p)" by (simp add: pair_text_def p)
  have ok: "json_ok fl v" using Cons.prems(3) p by simp
  show ?case
  proof (cases "d = []")
    case True
    have "p_value fl m (dumps v @ CHR ''}'' # t) = Some (v, CHR ''}'' # t)"
      using Cons.prems(2,4) True len by (intro Cons.prems(2)) (simp_all add: n p)
    from p_pair[OF this ok, of acc k] show ?thesis using True new by (simp add: n p skip_space_def json_space_def)
  next
    case False
    let ?rest = "join '', '' (map pair_text d) @ CHR ''}'' # t"
    let ?u = "CHR '','' # CHR '' '' # ?rest"
    have j: "join '', '' (map pair_text (p # d)) @ CHR ''}'' # t = pair_text p @ ?u" using False by (simp add: join_Cons)
    have "p_value fl m (dumps v @ ?u) = Some (v, ?u)"
      using Cons.prems(2,4) False len by (intro Cons.prems(2)) (simp_all add: n p join_Cons)
    note step = p_pair[OF this ok, of acc k]
    obtain y where "?rest = CHR 0x22 # y"
      using join_head[OF False, of "'', ''" pair_text "CHR ''}'' # t"] pair_text_head by metis
    then have s: "skip_space (CHR '' '' # ?rest) = ?rest" by (simp add: skip_space_def json_space_def)
    have "p_pairs fl m (acc @ [p]) ?rest = Some (JDict ((acc @ [p]) @ d), t)"
      using Cons.prems False by (intro Cons.IH) (simp_all add: n join_Cons)
    then show ?thesis unfolding j n using step s new p by (simp add: skip_space_id json_space_def)
  qed
qed simp

lemma p_words_read:
  "p_word (CHR ''n'' # CHR ''u'' # CHR ''l'' # CHR ''l'' # t) = Some (JNull, t)"
  "p_word (CHR ''t'' # CHR ''r'' # CHR ''u'' # CHR ''e'' # t) = Some (JBool True, t)"
  "p_word (CHR ''f'' # CHR ''a'' # CHR ''l'' # CHR ''s'' # CHR ''e'' # t) = Some (JBool False, t)"
  by (simp_all add: p_word_def p_words_def startswith_def)

lemma p_value_dumps:
  "json_ok fl v \<Longrightarrow> stops t \<Longrightarrow> length (dumps v) \<le> n \<Longrightarrow> p_value fl n (dumps v @ t) = Some (v, t)"
proof (induction v arbitrary: n t rule: dumps.induct)
  case (3 i)
  then obtain m where "n = Suc m" using int_str_head[of i "[]"] by (cases n) auto
  then show ?case using 3 p_value_number[OF int_str_number int_str_head] by simp
next
  case (4 r)
  then have r: "dumps (JFloat r) = r" "plain_float r" "fl r = r" using plain_float_finite by simp_all
  then obtain m where "n = Suc m" using 4(3) plain_float_head[of r "[]"] by (cases n) auto
  then show ?case using r 4(2) p_value_number[OF plain_float_number plain_float_head] by simp
next
  case (5 s)
  then obtain m where "n = Suc m" by (cases n) (auto simp: json_quote_def)
  then show ?case using p_string_quoted[of s t] by (simp add: json_quote_def)
next
  case (6 xs)
  then obtain m where n: "n = Suc m" by (cases n) auto
  show ?case
  proof (cases "xs = []")
    case False
    have "p_items fl m [] (join '', '' (map dumps xs) @ CHR '']'' # t) = Some (JList ([] @ xs), t)"
      using 6 False by (intro p_items_dumps) (auto simp: n list_all_iff)
    moreover have "json_ok fl (hd xs)" using 6(2) False by (cases xs) auto
    then have "\<exists>c cs. join '', '' (map dumps xs) @ CHR '']'' # t = c # cs \<and> \<not> json_space c \<and> c \<noteq> CHR '']''"
      using join_head[OF False, of "'', ''" dumps "CHR '']'' # t"] dumps_head by metis
    ultimately show ?thesis by (auto simp: n skip_space_def)
  qed (simp add: n skip_space_def json_space_def)
next
  case (7 d)
  then obtain m where n: "n = Suc m" by (cases n) auto
  show ?case
  proof (cases "d = []")
    case False
    have "p_pairs fl m [] (join '', '' (map pair_text d) @ CHR ''}'' # t) = Some (JDict ([] @ d), t)"
      using 7 False unfolding dumps_dict by (intro p_pairs_dumps) (auto simp: n list_all_iff wf_dict_def)
    moreover have "\<exists>cs. join '', '' (map pair_text d) @ CHR ''}'' # t = CHR 0x22 # cs"
      using join_head[OF False, of "'', ''" pair_text "CHR ''}'' # t"] pair_text_head by metis
    ultimately show ?thesis unfolding dumps_dict by (auto simp: n skip_space_def json_space_def)
  qed (simp add: n skip_space_def json_space_def)
next
  case 1
  then obtain m where "n = Suc m" by (cases n) auto
  then show ?case by (simp add: p_words_read)
next
  case (2 b)
  then obtain m where "n = Suc m" by (cases n) (auto split: if_splits)
  then show ?case by (simp add: p_words_read)
qed

text \<open>
  A value that was written as JSON text is read back: texts of any characters, lists and dictionaries of
  any nesting, integers of up to 4300 digits and floats in positional notation.
\<close>

lemma json_roundtrip:
  assumes "json_ok fl v"
  shows "loads fl (dumps v) = Some v"
proof -
  have "p_value fl (2 * length (dumps v) + 2) (dumps v @ []) = Some (v, [])"
    by (rule p_value_dumps[OF assms]) simp_all
  then show ?thesis using skip_dumps(2)[OF assms, of "[]"] by (simp add: loads_def skip_space_id)
qed

lemma json_roundtrip_witness:
  "loads id (dumps (JDict [(''a'', JList [JInt (-2), JFloat ''0.5'', JNull]), (''b'', JStr [CHR 0x22, CHR 0xE9])])) =
     Some (JDict [(''a'', JList [JInt (-2), JFloat ''0.5'', JNull]), (''b'', JStr [CHR 0x22, CHR 0xE9])])"
proof (rule json_roundtrip)
  have n: "nat_str 2 = ''2''" by code_simp
  have "plain_float ''0.5''" by code_simp
  then show "json_ok id (JDict [(''a'', JList [JInt (-2), JFloat ''0.5'', JNull]), (''b'', JStr [CHR 0x22, CHR 0xE9])])"
    by (simp add: n max_digits_def)
qed

end
