(* ===== verification/Payload.thy ===== *)
theory Payload
  imports Json_Text Task_Templates
begin

text \<open>
  \<^verbatim>\<open>utils/payload.py\<close>: the parameters of a model and the system prompt put into a request, and requests in the
  format of OpenAI rewritten into the format of Ollama. Reading floats and converting numbers to them is
  Python's; the record \<open>floats\<close> holds what the code uses of it.
\<close>

record floats =
  fl_read :: "string \<Rightarrow> string option"
  fl_json :: "string \<Rightarrow> string"
  fl_int :: "int \<Rightarrow> string option"
  fl_trunc :: "string \<Rightarrow> int option"

section \<open>System prompt\<close>

definition form_messages :: "dict \<Rightarrow> py_error + dict list" where
  "form_messages form = (case dget_or form ''messages'' (JList []) of JList vs \<Rightarrow> each (\<lambda>v. case v of JDict d \<Rightarrow> Inr d | _ \<Rightarrow> Inl TypeError) vs | _ \<Rightarrow> Inl TypeError)"

definition apply_system_prompt_to_body ::
  "datetime \<times> datetime \<Rightarrow> string option \<Rightarrow> dict \<Rightarrow> dict option \<Rightarrow> user option \<Rightarrow> bool \<Rightarrow> py_error + dict" where
  "apply_system_prompt_to_body clock system form metadata user replace =
     (case system of
        None \<Rightarrow> Inr form
      | Some [] \<Rightarrow> Inr form
      | Some s \<Rightarrow>
          and_then
            (case dget_or (case metadata of None \<Rightarrow> [] | Some m \<Rightarrow> m) ''variables'' (JDict []) of
               JDict vs \<Rightarrow> prompt_variables_template s vs
             | v \<Rightarrow> if truthy v then Inl AttributeError else Inr s) (\<lambda>s1.
          and_then (form_messages form) (\<lambda>ms.
          and_then
            (if replace then replace_system_message_content (prompt_template clock s1 user) ms
             else add_or_update_system_message (prompt_template clock s1 user) ms False) (\<lambda>ms'.
            Inr (dset ''messages'' (JList (map JDict ms')) form)))))"

section \<open>Casts\<close>

definition to_float :: "floats \<Rightarrow> json \<Rightarrow> py_error + json" where
  "to_float fs v = (case v of
     JFloat r \<Rightarrow> Inr v
   | JInt i \<Rightarrow> (case fl_int fs i of None \<Rightarrow> Inl ValueError | Some r \<Rightarrow> Inr (JFloat r))
   | JBool b \<Rightarrow> Inr (JFloat (if b then ''1.0'' else ''0.0''))
   | JStr s \<Rightarrow> (case fl_read fs s of None \<Rightarrow> Inl ValueError | Some r \<Rightarrow> Inr (JFloat r))
   | _ \<Rightarrow> Inl TypeError)"

definition to_int :: "floats \<Rightarrow> json \<Rightarrow> py_error + json" where
  "to_int fs v = (case v of
     JInt i \<Rightarrow> Inr v
   | JBool b \<Rightarrow> Inr (JInt (if b then 1 else 0))
   | JFloat r \<Rightarrow> (case fl_trunc fs r of None \<Rightarrow> Inl ValueError | Some i \<Rightarrow> Inr (JInt i))
   | JStr s \<Rightarrow> (case py_int s of None \<Rightarrow> Inl ValueError | Some i \<Rightarrow> Inr (JInt i))
   | _ \<Rightarrow> Inl TypeError)"

definition to_bool :: "json \<Rightarrow> py_error + json" where "to_bool v = Inr (JBool (truthy v))"

definition to_str :: "json \<Rightarrow> py_error + json" where "to_str v = Inr (JStr (py_str v))"

text \<open>\<open>dict(v)\<close> of a dictionary or of something empty; pairs in a list are not read as a dictionary here.\<close>

definition to_dict :: "json \<Rightarrow> py_error + json" where
  "to_dict v = (case v of JDict d \<Rightarrow> Inr v | JList [] \<Rightarrow> Inr (JDict []) | JStr [] \<Rightarrow> Inr (JDict []) | JList xs \<Rightarrow> Inl ValueError
     | JStr s \<Rightarrow> Inl ValueError | _ \<Rightarrow> Inl TypeError)"

text \<open>
  \<open>bytes(s, "utf-8").decode("unicode_escape")\<close>: the bytes of the text, each read as one character, with
  backslash escapes. An escape above code point 255 and an escape by name are refused.
\<close>

definition utf8 :: "string \<Rightarrow> string" where
  "utf8 s = concat (map (\<lambda>c. let n = code c in
     if n < 128 then [c] else [char_of (192 + n div 64), char_of (128 + n mod 64)]) s)"

definition octal :: "string \<Rightarrow> string" where
  "octal s = takeWhile (\<lambda>c. 48 \<le> code c \<and> code c \<le> 55) (take 3 s)"

fun hex_number :: "string \<Rightarrow> nat option" where
  "hex_number [] = Some 0"
| "hex_number (c # cs) = (case (hex_val c, hex_number cs) of
     (Some a, Some b) \<Rightarrow> Some (a * 16 ^ length cs + b) | _ \<Rightarrow> None)"

definition hex_escape :: "nat \<Rightarrow> string \<Rightarrow> (char \<times> nat) option" where
  "hex_escape k s = (if length s < k then None else case hex_number (take k s) of
     None \<Rightarrow> None | Some n \<Rightarrow> if n < 256 then Some (char_of n, k) else None)"

definition simple_escapes :: "(char \<times> string) list" where
  "simple_escapes = [(CHR 0x0A, []), (CHR 0x5C, [CHR 0x5C]), (CHR 0x27, [CHR 0x27]), (CHR 0x22, [CHR 0x22]),
     (CHR ''a'', [CHR 0x07]), (CHR ''b'', [CHR 0x08]), (CHR ''f'', [CHR 0x0C]), (CHR ''n'', [CHR 0x0A]),
     (CHR ''r'', [CHR 0x0D]), (CHR ''t'', [CHR 0x09]), (CHR ''v'', [CHR 0x0B])]"

text \<open>What an escape stands for and how many characters after the backslash it takes.\<close>

definition escape_at :: "string \<Rightarrow> (string \<times> nat) option" where
  "escape_at s = (case s of
     [] \<Rightarrow> None
   | e # es \<Rightarrow>
       (case map_of simple_escapes e of
          Some t \<Rightarrow> Some (t, 1)
        | None \<Rightarrow>
            if octal s \<noteq> [] then
              (let n = foldl (\<lambda>n c. 8 * n + digit_val c) 0 (octal s) in if n < 256 then Some ([char_of n], length (octal s)) else None)
            else if e = CHR ''x'' then map_option (\<lambda>(c, k). ([c], Suc k)) (hex_escape 2 es)
            else if e = CHR ''u'' then map_option (\<lambda>(c, k). ([c], Suc k)) (hex_escape 4 es)
            else if e = CHR ''U'' then map_option (\<lambda>(c, k). ([c], Suc k)) (hex_escape 8 es)
            else if e = CHR ''N'' then None
            else Some ([CHR 0x5C, e], 1)))"

function (sequential) unicode_escape :: "string \<Rightarrow> string option" where
  "unicode_escape [] = Some []"
| "unicode_escape (c # cs) =
     (if c \<noteq> CHR 0x5C then map_option ((#) c) (unicode_escape cs)
      else (case escape_at cs of
         None \<Rightarrow> None | Some (t, k) \<Rightarrow> map_option ((@) t) (unicode_escape (drop k cs))))"
  by pat_completeness auto
termination by (relation "measure length") auto

definition to_stop :: "json \<Rightarrow> py_error + json" where
  "to_stop v =
     (let decode = (\<lambda>s. case unicode_escape (utf8 s) of None \<Rightarrow> Inl ValueError | Some t \<Rightarrow> Inr (JStr t))
      in case v of
           JList vs \<Rightarrow> and_then (each (\<lambda>x. case x of JStr s \<Rightarrow> decode s | _ \<Rightarrow> Inl TypeError) vs) (\<lambda>ts. Inr (JList ts))
         | JStr s \<Rightarrow> and_then (each (\<lambda>c. decode [c]) s) (\<lambda>ts. Inr (JList ts))
         | JDict d \<Rightarrow> and_then (each (\<lambda>(k, x). decode k) d) (\<lambda>ts. Inr (JList ts))
         | _ \<Rightarrow> Inl TypeError)"

definition parse_json :: "floats \<Rightarrow> json \<Rightarrow> py_error + json" where
  "parse_json fs v = Inr (case v of JStr s \<Rightarrow> (case loads (fl_json fs) s of None \<Rightarrow> v | Some x \<Rightarrow> x) | _ \<Rightarrow> v)"

section \<open>Parameters\<close>

type_synonym casts = "(string \<times> (json \<Rightarrow> py_error + json)) list"

text \<open>A mapped parameter is cast, any other is copied, and None is left out.\<close>

fun apply_model_params_to_body :: "dict \<Rightarrow> dict \<Rightarrow> casts \<Rightarrow> py_error + dict" where
  "apply_model_params_to_body [] form mappings = Inr form"
| "apply_model_params_to_body ((k, v) # ps) form mappings =
     (if v = JNull then apply_model_params_to_body ps form mappings
      else (case map_of mappings k of
         None \<Rightarrow> apply_model_params_to_body ps (dset k v form) mappings
       | Some f \<Rightarrow> and_then (f v) (\<lambda>x. apply_model_params_to_body ps (dset k x form) mappings)))"

definition open_webui_params :: "string list" where
  "open_webui_params = [''stream_response'', ''stream_delta_chunk_size'', ''function_calling'', ''reasoning_tags'', ''system'']"

definition remove_open_webui_params :: "dict \<Rightarrow> dict" where
  "remove_open_webui_params params = filter (\<lambda>(k, v). k \<notin> set open_webui_params) params"

definition parse_custom :: "floats \<Rightarrow> dict \<Rightarrow> dict" where
  "parse_custom fs d = map (\<lambda>(k, v). (k, case v of JStr s \<Rightarrow> (case loads (fl_json fs) s of None \<Rightarrow> v | Some x \<Rightarrow> x) | _ \<Rightarrow> v)) d"

text \<open>The custom parameters, parsed where they are JSON, override the others.\<close>

definition with_custom_params :: "floats \<Rightarrow> dict \<Rightarrow> py_error + dict" where
  "with_custom_params fs params =
     (let ps = remove_open_webui_params params;
          custom = dget_or ps ''custom_params'' (JDict []);
          rest = dpop ''custom_params'' ps
      in if \<not> truthy custom then Inr rest
         else (case custom of
            JDict d \<Rightarrow>
              and_then (deep_update (JDict rest) (parse_custom fs d)) (\<lambda>v. case v of JDict x \<Rightarrow> Inr x | _ \<Rightarrow> Inl TypeError)
          | _ \<Rightarrow> Inl AttributeError))"

definition openai_mappings :: "floats \<Rightarrow> casts" where
  "openai_mappings fs =
     [(''temperature'', to_float fs), (''top_p'', to_float fs), (''min_p'', to_float fs), (''max_tokens'', to_int fs),
      (''frequency_penalty'', to_float fs), (''presence_penalty'', to_float fs), (''reasoning_effort'', to_str), (''seed'', Inr),
      (''stop'', to_stop), (''logit_bias'', Inr), (''response_format'', to_dict)]"

definition apply_model_params_to_body_openai :: "floats \<Rightarrow> dict \<Rightarrow> dict \<Rightarrow> py_error + dict" where
  "apply_model_params_to_body_openai fs params form =
     and_then (with_custom_params fs params) (\<lambda>ps. apply_model_params_to_body ps form (openai_mappings fs))"

definition ollama_mappings :: "floats \<Rightarrow> casts" where
  "ollama_mappings fs =
     [(''temperature'', to_float fs), (''top_p'', to_float fs), (''seed'', Inr), (''mirostat'', to_int fs),
      (''mirostat_eta'', to_float fs), (''mirostat_tau'', to_float fs), (''num_ctx'', to_int fs), (''num_batch'', to_int fs),
      (''num_keep'', to_int fs), (''num_predict'', to_int fs), (''repeat_last_n'', to_int fs), (''top_k'', to_int fs),
      (''min_p'', to_float fs), (''repeat_penalty'', to_float fs), (''presence_penalty'', to_float fs),
      (''frequency_penalty'', to_float fs), (''stop'', to_stop), (''num_gpu'', to_int fs), (''use_mmap'', to_bool),
      (''use_mlock'', to_bool), (''num_thread'', to_int fs)]"

definition ollama_root_params :: "floats \<Rightarrow> casts" where
  "ollama_root_params fs = [(''format'', parse_json fs), (''keep_alive'', parse_json fs), (''think'', to_bool)]"

text \<open>Some parameters move from the options to the request itself.\<close>

fun move_root_params :: "casts \<Rightarrow> dict \<Rightarrow> dict \<Rightarrow> py_error + dict \<times> dict" where
  "move_root_params [] params form = Inr (params, form)"
| "move_root_params ((k, f) # fs) params form =
     (case dget_or params k JNull of
        JNull \<Rightarrow> move_root_params fs params form
      | v \<Rightarrow> and_then (f v) (\<lambda>x. move_root_params fs (dpop k params) (dset k x form)))"

definition rename_max_tokens :: "dict \<Rightarrow> dict" where
  "rename_max_tokens params = (case dget_or params ''max_tokens'' JNull of
     JNull \<Rightarrow> params | v \<Rightarrow> dpop ''max_tokens'' (dset ''num_predict'' v params))"

definition apply_model_params_to_body_ollama :: "floats \<Rightarrow> dict \<Rightarrow> dict \<Rightarrow> py_error + dict" where
  "apply_model_params_to_body_ollama fs params form =
     and_then (with_custom_params fs params) (\<lambda>ps.
     and_then (move_root_params (ollama_root_params fs) (rename_max_tokens ps) form) (\<lambda>(ps', form').
       (let options = dget_or form' ''options'' (JDict [])
        in case (if truthy options then options else JDict []) of
             JDict d \<Rightarrow> and_then (apply_model_params_to_body ps' d (ollama_mappings fs)) (\<lambda>d'. Inr (dset ''options'' (JDict d') form'))
           | v \<Rightarrow> if ps' = [] then Inr (dset ''options'' v form') else Inl TypeError)))"

section \<open>Requests for Ollama\<close>

text \<open>\<open>m[k]\<close>, \<open>m.get(k, v)\<close> of any value.\<close>

definition item_or :: "json \<Rightarrow> string \<Rightarrow> json \<Rightarrow> py_error + json" where
  "item_or v k v0 = (case v of JDict d \<Rightarrow> Inr (dget_or d k v0) | _ \<Rightarrow> Inl AttributeError)"

text \<open>The arguments of a tool call are JSON text; \<open>json.loads\<close> of anything else raises.\<close>

definition ollama_tool_call :: "floats \<Rightarrow> json \<Rightarrow> py_error + json" where
  "ollama_tool_call fs tc =
     and_then (item_or tc ''index'' (JInt 0)) (\<lambda>i.
     and_then (item_or tc ''id'' JNull) (\<lambda>uid.
     and_then (item_or tc ''function'' (JDict [])) (\<lambda>f.
     and_then (item_or f ''name'' (JStr [])) (\<lambda>name.
     and_then (item_or f ''arguments'' (JDict [])) (\<lambda>a.
     and_then (case a of JStr s \<Rightarrow> (case loads (fl_json fs) s of None \<Rightarrow> Inl ValueError | Some v \<Rightarrow> Inr v) | _ \<Rightarrow> Inl TypeError) (\<lambda>args.
       Inr (JDict [(''index'', i), (''id'', uid), (''function'', JDict [(''name'', name), (''arguments'', args)])])))))))"

text \<open>The parts of a message: the texts are joined, the images collected, a data URL cut to its data.\<close>

fun split_parts :: "json list \<Rightarrow> string \<Rightarrow> json list \<Rightarrow> py_error + string \<times> json list" where
  "split_parts [] s imgs = Inr (s, imgs)"
| "split_parts (item # items) s imgs =
     and_then (item_or item ''type'' JNull) (\<lambda>t.
       if t = JStr ''text'' then
         and_then (item_or item ''text'' (JStr [])) (\<lambda>x. case x of JStr y \<Rightarrow> split_parts items (s @ y) imgs | _ \<Rightarrow> Inl TypeError)
       else if t = JStr ''image_url'' then
         and_then (item_or item ''image_url'' (JDict [])) (\<lambda>o'.
         and_then (item_or o' ''url'' (JStr [])) (\<lambda>u.
           if \<not> truthy u then split_parts items s imgs
           else (case u of
              JStr url \<Rightarrow>
                split_parts items s (imgs @ [JStr (if startswith url ''data:'' then last (split_on CHR '','' url) else url)])
            | _ \<Rightarrow> Inl AttributeError)))
       else split_parts items s imgs)"

text \<open>What a loop goes through.\<close>

definition iterate :: "json \<Rightarrow> py_error + json list" where
  "iterate v = (case v of
     JList xs \<Rightarrow> Inr xs | JStr s \<Rightarrow> Inr (map (\<lambda>c. JStr [c]) s) | JDict d \<Rightarrow> Inr (map (\<lambda>(k, x). JStr k) d) | _ \<Rightarrow> Inl TypeError)"

definition convert_message :: "floats \<Rightarrow> dict \<Rightarrow> py_error + dict" where
  "convert_message fs m =
     (case dget m ''role'' of
        None \<Rightarrow> Inl KeyError
      | Some role \<Rightarrow>
          (let content = dget_or m ''content'' (JList []); tool_calls = dget_or m ''tool_calls'' JNull;
               tid = dget_or m ''tool_call_id'' JNull; new = [(''role'', role)]
           in if truthy tool_calls then
                and_then (iterate tool_calls) (\<lambda>tcs.
                and_then (each (ollama_tool_call fs) tcs) (\<lambda>ocs.
                  Inr (new @ [(''tool_calls'', JList ocs), (''content'', JStr [])])))
              else (case content of
                JStr s \<Rightarrow> Inr (new @ [(''content'', content)] @ (if truthy tid then [(''tool_call_id'', tid)] else []))
              | _ \<Rightarrow>
                  and_then (iterate content) (\<lambda>items.
                  and_then (split_parts items [] []) (\<lambda>(s, imgs).
                    Inr (new @ (if s \<noteq> [] then [(''content'', JStr (strip s))] else [])
                         @ (if imgs \<noteq> [] then [(''images'', JList imgs)] else [])))))))"

definition convert_messages_openai_to_ollama :: "floats \<Rightarrow> dict list \<Rightarrow> py_error + dict list" where
  "convert_messages_openai_to_ollama fs ms = each (convert_message fs) ms"

text \<open>The options of the request, less what belongs to the request itself.\<close>

definition convert_options :: "floats \<Rightarrow> dict \<Rightarrow> dict \<Rightarrow> py_error + dict" where
  "convert_options fs options op =
     and_then (move_root_params (ollama_root_params fs) options (dset ''options'' (JDict options) op)) (\<lambda>(o1, op1).
       (let o2 = (case dget o1 ''max_tokens'' of None \<Rightarrow> o1 | Some v \<Rightarrow> dpop ''max_tokens'' (dset ''num_predict'' v o1));
            (o3, op2) = (case dget o2 ''system'' of None \<Rightarrow> (o2, op1) | Some v \<Rightarrow> (dpop ''system'' o2, dset ''system'' v op1))
        in Inr (dset ''options'' (JDict o3) op2)))"

definition copied :: "string \<Rightarrow> dict \<Rightarrow> dict \<Rightarrow> dict" where
  "copied k p op = (case dget p k of None \<Rightarrow> op | Some v \<Rightarrow> dset k v op)"

definition convert_format :: "dict \<Rightarrow> dict \<Rightarrow> py_error + dict" where
  "convert_format p op =
     (case dget p ''response_format'' of
        None \<Rightarrow> Inr op
      | Some rf \<Rightarrow>
          and_then (item_or rf ''type'' JNull) (\<lambda>t.
          and_then (case t of JStr k \<Rightarrow> item_or rf k JNull | JList _ \<Rightarrow> Inl TypeError | JDict _ \<Rightarrow> Inl TypeError | _ \<Rightarrow> Inr JNull) (\<lambda>schema.
            if \<not> truthy schema then Inr op
            else and_then (item_or schema ''schema'' JNull) (\<lambda>v. Inr (dset ''format'' v op)))))"

definition convert_payload_openai_to_ollama :: "floats \<Rightarrow> dict \<Rightarrow> py_error + dict" where
  "convert_payload_openai_to_ollama fs p =
     and_then (iterate (dget_or p ''messages'' JNull)) (\<lambda>vs.
     and_then (each (\<lambda>v. case v of JDict d \<Rightarrow> Inr d | _ \<Rightarrow> Inl TypeError) vs) (\<lambda>ms.
     and_then (convert_messages_openai_to_ollama fs ms) (\<lambda>oms.
       (let op0 = [(''model'', dget_or p ''model'' JNull), (''messages'', JList (map JDict oms)),
                   (''stream'', dget_or p ''stream'' (JBool False))];
            op1 = copied ''tools'' p op0;
            op2 = (case dget p ''max_tokens'' of None \<Rightarrow> op1 | Some v \<Rightarrow> dset ''num_predict'' v op1)
        in and_then (case dget_or p ''options'' JNull of
              JDict options \<Rightarrow> if options = [] then Inr op2 else convert_options fs options op2
            | v \<Rightarrow> if truthy v then Inl AttributeError else Inr op2) (\<lambda>op3.
           and_then (case dget p ''stop'' of
              None \<Rightarrow> Inr op3
            | Some v \<Rightarrow> (case dget_or op3 ''options'' (JDict []) of
                JDict o' \<Rightarrow> Inr (dset ''options'' (JDict (dset ''stop'' v o')) op3) | _ \<Rightarrow> Inl TypeError)) (\<lambda>op4.
           convert_format p (copied ''metadata'' p op4)))))))"

definition convert_embedding_payload_openai_to_ollama :: "dict \<Rightarrow> dict" where
  "convert_embedding_payload_openai_to_ollama p =
     (let v = dget_or p ''input'' JNull;
          (inp, prompt) = (case v of JList xs \<Rightarrow> (v, join nl (map py_str xs)) | _ \<Rightarrow> (JList [v], py_str v))
      in fold (\<lambda>k. copied k p) [''options'', ''truncate'', ''keep_alive'']
           [(''model'', dget_or p ''model'' JNull), (''input'', inp), (''prompt'', JStr prompt)])"

section \<open>What the parameters become\<close>

text \<open>
  The result holds a parameter's value, cast when the parameter is mapped, over what the request had;
  parameters set to None change nothing.
\<close>

lemma applied_params:
  "apply_model_params_to_body ps form mappings = Inr r \<Longrightarrow> wf_dict ps \<Longrightarrow>
   (case dget ps k of
      None \<Rightarrow> dget r k = dget form k
    | Some v \<Rightarrow>
        if v = JNull then dget r k = dget form k
        else case map_of mappings k of None \<Rightarrow> dget r k = Some v | Some f \<Rightarrow> \<exists>x. f v = Inr x \<and> dget r k = Some x)"
proof (induction ps form mappings arbitrary: r rule: apply_model_params_to_body.induct)
  case (2 j v ps form mappings)
  show ?case
  proof (cases "v = JNull")
    case True
    then have "apply_model_params_to_body ps form mappings = Inr r" using "2.prems"(1) by simp
    from "2.IH"(1)[OF True this] show ?thesis using "2.prems"(2) True by (auto split: option.splits)
  next
    case False
    show ?thesis
    proof (cases "map_of mappings j")
      case None
      then have "apply_model_params_to_body ps (dset j v form) mappings = Inr r" using "2.prems"(1) False by simp
      from "2.IH"(2)[OF False None this] show ?thesis using "2.prems"(2) False None by (auto split: option.splits if_splits)
    next
      case (Some f)
      then obtain x where x: "f v = Inr x" "apply_model_params_to_body ps (dset j x form) mappings = Inr r"
        using "2.prems"(1) False by (auto simp: and_then_Inr_iff)
      from "2.IH"(3)[OF False Some, of x] x show ?thesis
        using "2.prems"(2) False Some by (auto split: option.splits if_splits)
    qed
  qed
qed simp

text \<open>Stop sequences outside ASCII are garbled: each character becomes the two characters of its UTF-8 bytes.\<close>

lemma stop_garbled: "to_stop (JList [JStr [CHR 0xE9]]) = Inr (JList [JStr [CHR 0xC3, CHR 0xA9]])"
  by code_simp

lemma plain_stop_kept:
  "list_all (\<lambda>c. code c < 128 \<and> c \<noteq> CHR 0x5C) s \<Longrightarrow> to_stop (JList [JStr s]) = Inr (JList [JStr s])"
proof -
  assume a: "list_all (\<lambda>c. code c < 128 \<and> c \<noteq> CHR 0x5C) s"
  then have "utf8 s = s" by (induction s) (auto simp: utf8_def)
  moreover have "unicode_escape s = Some s" using a by (induction s) auto
  ultimately show ?thesis by (simp add: to_stop_def)
qed

end
