(* ===== verification/Responses.thy ===== *)
theory Responses
  imports Payload
begin

text \<open>
  \<^verbatim>\<open>utils/response.py\<close>: answers of Ollama rewritten into the format of OpenAI. The fresh UUIDs are given by
  position (\<open>uid\<close>), the clock by \<open>now\<close>; the rate of two counts, a rounded quotient of floats, is the
  argument \<open>rate\<close>.
\<close>

section \<open>Tool calls\<close>

definition openai_tool_call :: "string \<Rightarrow> json \<Rightarrow> py_error + json" where
  "openai_tool_call uid tc =
     and_then (item_or tc ''function'' (JDict [])) (\<lambda>f.
     and_then (item_or f ''index'' (JInt 0)) (\<lambda>i0.
     and_then (item_or tc ''index'' i0) (\<lambda>i.
     and_then (item_or tc ''id'' (JStr (''call_'' @ uid))) (\<lambda>cid.
     and_then (item_or f ''name'' (JStr [])) (\<lambda>name.
     and_then (item_or f ''arguments'' (JDict [])) (\<lambda>args.
       Inr (JDict [(''index'', i), (''id'', cid), (''type'', JStr ''function''),
         (''function'', JDict [(''name'', name), (''arguments'', JStr (dumps args))])])))))))"

fun openai_tool_calls :: "(nat \<Rightarrow> string) \<Rightarrow> nat \<Rightarrow> json list \<Rightarrow> py_error + json list" where
  "openai_tool_calls uid n [] = Inr []"
| "openai_tool_calls uid n (tc # tcs) =
     and_then (openai_tool_call (uid n) tc) (\<lambda>x. and_then (openai_tool_calls uid (Suc n) tcs) (\<lambda>xs. Inr (x # xs)))"

definition convert_ollama_tool_call_to_openai :: "(nat \<Rightarrow> string) \<Rightarrow> json \<Rightarrow> py_error + json" where
  "convert_ollama_tool_call_to_openai uid tool_calls =
     and_then (iterate tool_calls) (\<lambda>tcs. and_then (openai_tool_calls uid 0 tcs) (\<lambda>xs. Inr (JList xs)))"

section \<open>Usage\<close>

definition count_of :: "dict \<Rightarrow> string \<Rightarrow> py_error + int" where
  "count_of d k = (case dget_or d k (JInt 0) of JInt i \<Rightarrow> Inr i | JBool b \<Rightarrow> Inr (if b then 1 else 0) | _ \<Rightarrow> Inl TypeError)"

text \<open>\<open>(data.get("total_duration", 0) or 0) // 1_000_000_000\<close> as hours, minutes and seconds.\<close>

definition approximate_total :: "int \<Rightarrow> string" where
  "approximate_total ns = (let s = ns div 1000000000 in
     int_str (s div 3600) @ ''h'' @ int_str ((s mod 3600) div 60) @ ''m'' @ int_str (s mod 60) @ ''s'')"

definition rate_entry :: "(int \<Rightarrow> int \<Rightarrow> string) \<Rightarrow> int \<Rightarrow> int \<Rightarrow> json" where
  "rate_entry rate count duration = (if 0 < duration then JFloat (rate count duration) else JStr ''N/A'')"

definition total_of :: "dict \<Rightarrow> py_error + int" where
  "total_of d = (if truthy (dget_or d ''total_duration'' (JInt 0)) then count_of d ''total_duration'' else Inr 0)"

text \<open>Counts and durations are integers, as Ollama sends them; anything else is refused.\<close>

definition convert_ollama_usage_to_openai :: "(int \<Rightarrow> int \<Rightarrow> string) \<Rightarrow> dict \<Rightarrow> py_error + dict" where
  "convert_ollama_usage_to_openai rate d =
     and_then (count_of d ''eval_count'') (\<lambda>ec.
     and_then (count_of d ''eval_duration'') (\<lambda>ed.
     and_then (count_of d ''prompt_eval_count'') (\<lambda>pc.
     and_then (count_of d ''prompt_eval_duration'') (\<lambda>pd.
     and_then (total_of d) (\<lambda>total.
       Inr [(''response_token/s'', rate_entry rate ec ed), (''prompt_token/s'', rate_entry rate pc pd),
            (''total_duration'', dget_or d ''total_duration'' (JInt 0)), (''load_duration'', dget_or d ''load_duration'' (JInt 0)),
            (''prompt_eval_count'', dget_or d ''prompt_eval_count'' (JInt 0)), (''prompt_tokens'', JInt pc),
            (''prompt_eval_duration'', dget_or d ''prompt_eval_duration'' (JInt 0)),
            (''eval_count'', dget_or d ''eval_count'' (JInt 0)), (''completion_tokens'', JInt ec),
            (''eval_duration'', dget_or d ''eval_duration'' (JInt 0)),
            (''approximate_total'', JStr (approximate_total total)), (''total_tokens'', JInt (pc + ec)),
            (''completion_tokens_details'', JDict [(''reasoning_tokens'', JInt 0), (''accepted_prediction_tokens'', JInt 0),
               (''rejected_prediction_tokens'', JInt 0)])])))))"

section \<open>Answers\<close>

definition calls_of :: "(nat \<Rightarrow> string) \<Rightarrow> json \<Rightarrow> py_error + json" where
  "calls_of uid tool_calls = (if truthy tool_calls then convert_ollama_tool_call_to_openai uid tool_calls else Inr JNull)"

definition convert_response_ollama_to_openai ::
  "(int \<Rightarrow> int \<Rightarrow> string) \<Rightarrow> (nat \<Rightarrow> string) \<Rightarrow> string \<Rightarrow> int \<Rightarrow> dict \<Rightarrow> py_error + dict" where
  "convert_response_ollama_to_openai rate uid tid now d =
     (let message = dget_or d ''message'' (JDict [])
      in and_then (item_or message ''content'' (JStr [])) (\<lambda>content.
         and_then (item_or message ''thinking'' JNull) (\<lambda>reasoning.
         and_then (item_or message ''tool_calls'' JNull) (\<lambda>tool_calls.
         and_then (calls_of uid tool_calls) (\<lambda>calls.
         and_then (convert_ollama_usage_to_openai rate d) (\<lambda>usage.
           Inr (openai_chat_completion_message_template (py_str (dget_or d ''model'' (JStr ''ollama''))) tid now
             content reasoning calls (JDict usage))))))))"

text \<open>One chunk of a stream, and the line that is sent for it.\<close>

definition convert_chunk ::
  "(int \<Rightarrow> int \<Rightarrow> string) \<Rightarrow> (nat \<Rightarrow> string) \<Rightarrow> string \<Rightarrow> int \<Rightarrow> dict \<Rightarrow> py_error + dict" where
  "convert_chunk rate uid tid now d =
     (let message = dget_or d ''message'' (JDict [])
      in and_then (item_or message ''content'' JNull) (\<lambda>content.
         and_then (item_or message ''thinking'' JNull) (\<lambda>reasoning.
         and_then (item_or message ''tool_calls'' JNull) (\<lambda>tool_calls.
         and_then (calls_of uid tool_calls) (\<lambda>calls.
         and_then (if truthy (dget_or d ''done'' (JBool False))
                   then and_then (convert_ollama_usage_to_openai rate d) (\<lambda>u. Inr (JDict u)) else Inr JNull) (\<lambda>usage.
           Inr (openai_chat_chunk_message_template (py_str (dget_or d ''model'' (JStr ''ollama''))) tid now
             content reasoning calls usage)))))))"

definition data_line :: "dict \<Rightarrow> string" where
  "data_line d = ''data: '' @ dumps (JDict d) @ nl @ nl"

text \<open>The lines that are sent; an exception ends the stream after the lines before it. Each chunk has its own UUIDs and time.\<close>

fun convert_stream ::
  "floats \<Rightarrow> (int \<Rightarrow> int \<Rightarrow> string) \<Rightarrow> (nat \<Rightarrow> nat \<Rightarrow> string) \<Rightarrow> (nat \<Rightarrow> string) \<Rightarrow> (nat \<Rightarrow> int) \<Rightarrow> nat \<Rightarrow> string list \<Rightarrow> string list \<times> (py_error + unit)" where
  "convert_stream fs rate uid tid now n [] = ([''data: [DONE]'' @ nl @ nl], Inr ())"
| "convert_stream fs rate uid tid now n (c # cs) =
     (case loads (fl_json fs) c of
        Some (JDict d) \<Rightarrow>
          (case convert_chunk rate (uid n) (tid n) (now n) d of
             Inl e \<Rightarrow> ([], Inl e)
           | Inr x \<Rightarrow> (let (ls, r) = convert_stream fs rate uid tid now (Suc n) cs in (data_line x # ls, r)))
      | Some _ \<Rightarrow> ([], Inl AttributeError)
      | None \<Rightarrow> ([], Inl ValueError))"

definition embedding_entry :: "nat \<Rightarrow> json \<Rightarrow> py_error + json" where
  "embedding_entry i e =
     and_then (item_or e ''embedding'' JNull) (\<lambda>v.
     and_then (item_or e ''index'' (JInt (int i))) (\<lambda>j.
       Inr (JDict [(''object'', JStr ''embedding''), (''embedding'', v), (''index'', j)])))"

definition embedding_answer :: "json list \<Rightarrow> dict \<Rightarrow> json" where
  "embedding_answer es d = JDict [(''object'', JStr ''list''), (''data'', JList es), (''model'', dget_or d ''model'' JNull)]"

definition convert_embedding_response_ollama_to_openai :: "json \<Rightarrow> py_error + json" where
  "convert_embedding_response_ollama_to_openai response =
     (case response of
        JDict d \<Rightarrow>
          (case (dget d ''embeddings'', dget d ''embedding'') of
             (Some es, _) \<Rightarrow>
               and_then (iterate es) (\<lambda>xs.
               and_then (each (\<lambda>(i, e). embedding_entry i e) (enumerate 0 xs)) (\<lambda>ys. Inr (embedding_answer ys d)))
           | (None, Some e) \<Rightarrow>
               Inr (embedding_answer [JDict [(''object'', JStr ''embedding''), (''embedding'', e), (''index'', JInt 0)]] d)
           | _ \<Rightarrow> Inr response)
      | _ \<Rightarrow> Inr response)"

section \<open>Tool calls there and back\<close>

text \<open>A call as Ollama sends it: a function's name and arguments.\<close>

definition ollama_call :: "string \<times> dict \<Rightarrow> json" where
  "ollama_call c = JDict [(''function'', JDict [(''name'', JStr (fst c)), (''arguments'', JDict (snd c))])]"

text \<open>The call in the next request for Ollama.\<close>

definition returned_call :: "string \<Rightarrow> string \<times> dict \<Rightarrow> json" where
  "returned_call uid c = JDict [(''index'', JInt 0), (''id'', JStr (''call_'' @ uid)),
     (''function'', JDict [(''name'', JStr (fst c)), (''arguments'', JDict (snd c))])]"

lemma call_there: "openai_tool_call uid (ollama_call c) =
    Inr (JDict [(''index'', JInt 0), (''id'', JStr (''call_'' @ uid)), (''type'', JStr ''function''),
      (''function'', JDict [(''name'', JStr (fst c)), (''arguments'', JStr (dumps (JDict (snd c))))])])"
  by (simp add: openai_tool_call_def ollama_call_def item_or_def dget_or_def)

lemma call_back:
  assumes "json_ok (fl_json fs) (JDict (snd c))" "openai_tool_call uid (ollama_call c) = Inr x"
  shows "ollama_tool_call fs x = Inr (returned_call uid c)"
proof -
  have "loads (fl_json fs) (dumps (JDict (snd c))) = Some (JDict (snd c))" by (rule json_roundtrip[OF assms(1)])
  then show ?thesis using assms(2)
    by (auto simp: call_there ollama_tool_call_def item_or_def dget_or_def returned_call_def simp del: dumps.simps)
qed

lemma calls_there_and_back:
  "\<forall>c \<in> set cs. json_ok (fl_json fs) (JDict (snd c)) \<Longrightarrow>
   \<exists>xs. openai_tool_calls uid n (map ollama_call cs) = Inr xs \<and>
     each (ollama_tool_call fs) xs = Inr (map (\<lambda>(i, c). returned_call (uid i) c) (enumerate n cs)) \<and> length xs = length cs"
proof (induction cs arbitrary: n)
  case (Cons c cs)
  obtain x where x: "openai_tool_call (uid n) (ollama_call c) = Inr x" by (simp add: call_there)
  moreover obtain xs where "openai_tool_calls uid (Suc n) (map ollama_call cs) = Inr xs"
      "each (ollama_tool_call fs) xs = Inr (map (\<lambda>(i, c). returned_call (uid i) c) (enumerate (Suc n) cs))" "length xs = length cs"
    using Cons by fastforce
  moreover have "ollama_tool_call fs x = Inr (returned_call (uid n) c)" using Cons.prems by (intro call_back[OF _ x]) simp
  ultimately show ?case by simp
qed simp

text \<open>
  C32: Tool calls survive the way through the OpenAI format. The calls an answer of Ollama holds are converted
  for the client; put into an assistant message of the next request and converted for Ollama again, they have
  the same names and the same arguments, in the same order, whatever JSON the arguments are.
\<close>

theorem tool_calls_roundtrip:
  assumes "\<forall>c \<in> set cs. json_ok (fl_json fs) (JDict (snd c))" "cs \<noteq> []"
  shows "\<exists>tcs. convert_ollama_tool_call_to_openai uid (JList (map ollama_call cs)) = Inr tcs \<and>
    convert_messages_openai_to_ollama fs [[(''role'', JStr ''assistant''), (''tool_calls'', tcs)]] =
      Inr [[(''role'', JStr ''assistant''), (''tool_calls'', JList (map (\<lambda>(i, c). returned_call (uid i) c) (enumerate 0 cs))),
            (''content'', JStr [])]]"
proof -
  obtain xs where xs: "openai_tool_calls uid 0 (map ollama_call cs) = Inr xs"
      "each (ollama_tool_call fs) xs = Inr (map (\<lambda>(i, c). returned_call (uid i) c) (enumerate 0 cs))" "length xs = length cs"
    using calls_there_and_back[OF assms(1)] by blast
  then have "xs \<noteq> []" using assms(2) by auto
  then show ?thesis using xs
    by (simp add: convert_ollama_tool_call_to_openai_def iterate_def convert_messages_openai_to_ollama_def convert_message_def dget_or_def)
qed

lemma tool_calls_roundtrip_witness:
  "\<exists>tcs. convert_ollama_tool_call_to_openai (\<lambda>i. ''7f'') (JList [ollama_call (''add'', [(''a'', JInt 1), (''b'', JList [JStr ''x''])])]) = Inr tcs \<and>
    convert_messages_openai_to_ollama \<lparr>fl_read = Some, fl_json = id, fl_int = (\<lambda>i. None), fl_trunc = (\<lambda>r. None)\<rparr>
      [[(''role'', JStr ''assistant''), (''tool_calls'', tcs)]] =
      Inr [[(''role'', JStr ''assistant''),
            (''tool_calls'', JList [returned_call ''7f'' (''add'', [(''a'', JInt 1), (''b'', JList [JStr ''x''])])]), (''content'', JStr [])]]"
proof -
  have "nat_str 1 = ''1''" by code_simp
  then have "length (nat_str 1) \<le> max_digits" by (simp add: max_digits_def)
  then show ?thesis
    using tool_calls_roundtrip[of "[(''add'', [(''a'', JInt 1), (''b'', JList [JStr ''x''])])]"
        "\<lparr>fl_read = Some, fl_json = id, fl_int = (\<lambda>i. None), fl_trunc = (\<lambda>r. None)\<rparr>" "\<lambda>i. ''7f''"] by simp
qed

end
