(* ===== verification/Content_Blocks.thy ===== *)
theory Content_Blocks
  imports Responses
begin

text \<open>
  The blocks of an answer in \<open>process_chat_response\<close> of \<^verbatim>\<open>utils/middleware.py\<close>: text, reasoning and code in
  tags, and tool calls with their results; the text that is shown for them, the messages they become in the
  next request, and the handler that finds the tags in the text that has arrived. Clock readings are
  microseconds. Characters beyond code point 255 in a literal of the code are written as their UTF-8 bytes.
\<close>

section \<open>Blocks\<close>

text \<open>A block in tags has a type, the two tags and the attributes of the opening one; the duration is set when it ends.\<close>

record tagged =
  tg_type :: string
  tg_start :: string
  tg_end :: string
  tg_attributes :: "(string \<times> string) list"
  tg_content :: string
  tg_started :: time
  tg_duration :: "int option"
  tg_output :: "json option"

datatype block = Text_block string | Tool_block "dict list" "dict list" | Tag_block tagged

text \<open>\<open>int(a - b)\<close> of two readings.\<close>

definition seconds :: "time \<Rightarrow> time \<Rightarrow> int" where
  "seconds a b = (if b \<le> a then (a - b) div 1000000 else - ((b - a) div 1000000))"

section \<open>Text\<close>

text \<open>\<open>html.escape(s)\<close>\<close>

definition escape_char :: "char \<Rightarrow> string" where
  "escape_char c =
     (if c = CHR ''&'' then ''&amp;'' else if c = CHR ''<'' then ''&lt;'' else if c = CHR ''>'' then ''&gt;''
      else if c = CHR 0x22 then ''&quot;'' else if c = CHR 0x27 then ''&#x27;'' else [c])"

definition html_escape :: "string \<Rightarrow> string" where
  "html_escape s = concat (map escape_char s)"

text \<open>\<open>json.dumps(v, ensure_ascii=False)\<close>\<close>

definition plain_quote_char :: "char \<Rightarrow> string" where
  "plain_quote_char c = (if code c < 127 then json_quote_char c else [c])"

definition plain_quote :: "string \<Rightarrow> string" where
  "plain_quote s = [CHR 0x22] @ concat (map plain_quote_char s) @ [CHR 0x22]"

fun plain_dumps :: "json \<Rightarrow> string" where
  "plain_dumps (JStr s) = plain_quote s"
| "plain_dumps (JList xs) = ''['' @ join '', '' (map plain_dumps xs) @ '']''"
| "plain_dumps (JDict d) = ''{'' @ join '', '' (map (\<lambda>(k, v). plain_quote k @ '': '' @ plain_dumps v) d) @ ''}''"
| "plain_dumps v = dumps v"

text \<open>\<open>s.splitlines()\<close>\<close>

definition line_end :: "char \<Rightarrow> bool" where
  "line_end c \<longleftrightarrow> code c \<in> {10, 11, 12, 13, 28, 29, 30, 133}"

fun line_pieces :: "string \<Rightarrow> string list" where
  "line_pieces [] = [[]]"
| "line_pieces (c # cs) =
     (if c = CHR 0x0D \<and> cs \<noteq> [] \<and> hd cs = CHR 0x0A then line_pieces cs
      else if line_end c then [] # line_pieces cs
      else (case line_pieces cs of [] \<Rightarrow> [[c]] | p # ps \<Rightarrow> (c # p) # ps))"

definition splitlines :: "string \<Rightarrow> string list" where
  "splitlines s = (let ps = line_pieces s in if last ps = [] then butlast ps else ps)"

text \<open>The first occurrence of a text: what is before it and what is after it.\<close>

fun cut_at :: "string \<Rightarrow> string \<Rightarrow> (string \<times> string) option" where
  "cut_at p [] = (if p = [] then Some ([], []) else None)"
| "cut_at p (c # cs) =
     (if startswith (c # cs) p then Some ([], drop (length p) (c # cs))
      else map_option (\<lambda>(b, a). (c # b, a)) (cut_at p cs))"

text \<open>The number of parts of \<open>s.split(p)\<close> for a nonempty \<open>p\<close>.\<close>

function split_count :: "string \<Rightarrow> string \<Rightarrow> nat" where
  "split_count p s = (case cut_at p s of
     None \<Rightarrow> 1 | Some (b, a) \<Rightarrow> if p = [] then 1 else Suc (split_count p a))"
  by pat_completeness auto

lemma cut_at_split: "cut_at p s = Some (b, a) \<Longrightarrow> s = b @ p @ a"
proof (induction s arbitrary: b)
  case (Cons c cs)
  then show ?case by (auto simp: startswith_def prefix_def split: if_splits)
qed (auto split: if_splits)

termination split_count
  by (relation "measure (\<lambda>(p, s). length s)") (auto dest!: cut_at_split)

definition split_content_and_whitespace :: "string \<Rightarrow> string \<times> string" where
  "split_content_and_whitespace content =
     (let stripped = rstrip content in (stripped, drop (length stripped) content))"

definition is_opening_code_block :: "string \<Rightarrow> bool" where
  "is_opening_code_block content \<longleftrightarrow>
     (let n = split_count ''```'' content in n > 1 \<and> even n)"

text \<open>\<open>s.rstrip("`").rstrip()\<close>\<close>

definition drop_backticks :: "string \<Rightarrow> string" where
  "drop_backticks s = rstrip (rev (dropWhile (\<lambda>c. c = CHR ''`'') (rev s)))"

definition on_new_line :: "string \<Rightarrow> string" where
  "on_new_line content = (if content \<noteq> [] \<and> \<not> endswith content nl then content @ nl else content)"

section \<open>Serialisation\<close>

definition quoted :: "string \<Rightarrow> string \<Rightarrow> string" where
  "quoted k v = k @ ''='' @ [CHR 0x22] @ v @ [CHR 0x22]"

definition attribute :: "string \<Rightarrow> string \<Rightarrow> string" where "attribute k v = '' '' @ quoted k v"

text \<open>The id, the name and the arguments of a tool call, as they are put into the text.\<close>

definition call_parts :: "dict \<Rightarrow> py_error + string \<times> json \<times> json" where
  "call_parts tc =
     and_then (item_or (dget_or tc ''function'' (JDict [])) ''name'' (JStr [])) (\<lambda>name.
     and_then (item_or (dget_or tc ''function'' (JDict [])) ''arguments'' (JStr [])) (\<lambda>arguments.
       Inr (py_str name, dget_or tc ''id'' (JStr []), arguments)))"

definition call_head :: "bool \<Rightarrow> string \<Rightarrow> json \<Rightarrow> json \<Rightarrow> string" where
  "call_head done name cid arguments =
     ''<details'' @ attribute ''type'' ''tool_calls'' @ attribute ''done'' (if done then ''true'' else ''false'') @
     attribute ''id'' (py_str cid) @ attribute ''name'' name @ attribute ''arguments'' (html_escape (dumps arguments))"

definition executing :: "string \<Rightarrow> json \<Rightarrow> json \<Rightarrow> string" where
  "executing name cid arguments =
     call_head False name cid arguments @ ''>'' @ nl @ ''<summary>Executing...</summary>'' @ nl @ ''</details>'' @ nl"

definition executed :: "string \<Rightarrow> json \<Rightarrow> json \<Rightarrow> json \<Rightarrow> json \<Rightarrow> json \<Rightarrow> string" where
  "executed name cid arguments res files embeds =
     call_head True name cid arguments @ attribute ''result'' (html_escape (plain_dumps res)) @
     attribute ''files'' (if truthy files then html_escape (dumps files) else []) @
     attribute ''embeds'' (html_escape (dumps embeds)) @
     ''>'' @ nl @ ''<summary>Tool Executed</summary>'' @ nl @ ''</details>'' @ nl"

text \<open>The result of a call is the first one with its id; without one, or with an empty one, it is still running.\<close>

definition call_text :: "dict list \<Rightarrow> dict \<Rightarrow> py_error + string" where
  "call_text results tc =
     and_then (call_parts tc) (\<lambda>(name, cid, arguments).
       if results = [] then Inr (nl @ executing name cid arguments)
       else Inr (case find (\<lambda>r. cid = dget_or r ''tool_call_id'' (JStr [])) results of
              None \<Rightarrow> executing name cid arguments
            | Some r \<Rightarrow>
                if dget_or r ''content'' JNull = JNull then executing name cid arguments
                else executed name cid arguments (dget_or r ''content'' JNull) (dget_or r ''files'' JNull) (dget_or r ''embeds'' (JStr []))))"

definition reasoning_lines :: "string \<Rightarrow> string" where
  "reasoning_lines s = html_escape (join nl (map (\<lambda>l. if startswith l ''>'' then l else ''> '' @ l) (splitlines s)))"

definition thinking :: string where
  "thinking = ''Thinking'' @ [CHR 0xE2, CHR 0x80, CHR 0xA6]"

definition reasoning_text :: "bool \<Rightarrow> tagged \<Rightarrow> string" where
  "reasoning_text raw b =
     (if raw then tg_start b @ tg_content b @ tg_end b @ nl
      else (case tg_duration b of
        Some d \<Rightarrow>
          ''<details'' @ attribute ''type'' ''reasoning'' @ attribute ''done'' ''true'' @ attribute ''duration'' (int_str d) @ ''>'' @ nl @
          ''<summary>Thought for '' @ int_str d @ '' seconds</summary>'' @ nl @ reasoning_lines (tg_content b) @ nl @ ''</details>'' @ nl
      | None \<Rightarrow>
          ''<details'' @ attribute ''type'' ''reasoning'' @ attribute ''done'' ''false'' @ ''>'' @ nl @
          ''<summary>'' @ thinking @ ''</summary>'' @ nl @ reasoning_lines (tg_content b) @ nl @ ''</details>'' @ nl))"

text \<open>Backticks that would open a code block around the code are removed.\<close>

definition before_code :: "string \<Rightarrow> string" where
  "before_code content =
     (let (stripped, whitespace) = split_content_and_whitespace content
      in on_new_line ((if is_opening_code_block stripped then drop_backticks stripped else stripped) @ whitespace))"

definition code_text :: "bool \<Rightarrow> tagged \<Rightarrow> string" where
  "code_text raw b =
     (let lang = (case map_of (tg_attributes b) ''lang'' of None \<Rightarrow> [] | Some l \<Rightarrow> l);
          output = (case tg_output b of None \<Rightarrow> JNull | Some v \<Rightarrow> v);
          fence = ''```'' @ lang @ nl @ tg_content b @ nl @ ''```'' @ nl
      in if raw then
           ''<code_interpreter'' @ attribute ''type'' ''code'' @ attribute ''lang'' lang @ ''>'' @ nl @ tg_content b @ nl @ ''</code_interpreter>'' @ nl @
           (if truthy output then ''```output'' @ nl @ html_escape (dumps output) @ nl @ ''```'' @ nl else [])
         else if truthy output then
           ''<details'' @ attribute ''type'' ''code_interpreter'' @ attribute ''done'' ''true'' @ attribute ''output'' (html_escape (dumps output)) @ ''>'' @ nl @
           ''<summary>Analyzed</summary>'' @ nl @ fence @ ''</details>'' @ nl
         else
           ''<details'' @ attribute ''type'' ''code_interpreter'' @ attribute ''done'' ''false'' @ ''>'' @ nl @
           ''<summary>Analyzing...</summary>'' @ nl @ fence @ ''</details>'' @ nl)"

definition add_block :: "bool \<Rightarrow> string \<Rightarrow> block \<Rightarrow> py_error + string" where
  "add_block raw content b = (case b of
     Text_block s \<Rightarrow> Inr (if strip s = [] then content else content @ strip s @ nl)
   | Tool_block calls results \<Rightarrow>
       and_then (each (call_text results) calls) (\<lambda>ts.
         Inr (on_new_line content @ (if raw then [] else concat ts)))
   | Tag_block t \<Rightarrow> Inr
       (if tg_type t = ''reasoning'' then on_new_line content @ reasoning_text raw t
        else if tg_type t = ''code_interpreter'' then before_code content @ code_text raw t
        else if strip (tg_content t) = [] then content
        else content @ tg_type t @ '': '' @ strip (tg_content t) @ nl))"

fun add_blocks :: "bool \<Rightarrow> string \<Rightarrow> block list \<Rightarrow> py_error + string" where
  "add_blocks raw content [] = Inr content"
| "add_blocks raw content (b # bs) = and_then (add_block raw content b) (\<lambda>c. add_blocks raw c bs)"

definition serialize_content_blocks :: "bool \<Rightarrow> block list \<Rightarrow> py_error + string" where
  "serialize_content_blocks raw bs = and_then (add_blocks raw [] bs) (\<lambda>s. Inr (strip s))"

lemma strip_Nil [simp]: "strip [] = []"
  by (simp add: strip_def lstrip_def rstrip_def)

lemma strip_line [simp]: "strip (strip s @ nl) = strip s"
proof (cases "strip s = []")
  case True
  have "strip nl = []" by (simp add: strip_def lstrip_def rstrip_def is_space_def)
  then show ?thesis by (simp only: True append_Nil)
next
  case False
  define t where "t = strip s"
  have t: "t \<noteq> []" "\<not> is_space (hd t)" "\<not> is_space (last t)" using strip_no_space_ends[OF False] False by (simp_all add: t_def)
  have "dropWhile is_space (t @ nl) = t @ nl" using t(1,2) by (cases t) auto
  moreover have "dropWhile is_space (rev (t @ nl)) = rev t"
    using t(1,3) by (cases t rule: rev_cases) (simp_all add: is_space_def[of "CHR 0x0A"])
  ultimately have "strip (t @ nl) = t" by (simp only: strip_def lstrip_def rstrip_def rev_rev_ident)
  then show ?thesis by (simp only: t_def)
qed

section \<open>Messages of the next request\<close>

definition result_message :: "dict \<Rightarrow> py_error + dict" where
  "result_message r = (case dget r ''tool_call_id'' of
     None \<Rightarrow> Inl KeyError
   | Some cid \<Rightarrow>
       (let c = dget_or r ''content'' (JStr [])
        in Inr [(''role'', JStr ''tool''), (''tool_call_id'', cid), (''content'', if truthy c then c else JStr [])]))"

definition calls_message :: "string \<Rightarrow> dict list \<Rightarrow> dict" where
  "calls_message s calls = [(''role'', JStr ''assistant''), (''content'', JStr s), (''tool_calls'', JList (map JDict calls))]"

text \<open>The blocks since the last tool calls are collected in \<open>temp\<close>.\<close>

fun blocks_to_messages :: "bool \<Rightarrow> block list \<Rightarrow> block list \<Rightarrow> py_error + dict list" where
  "blocks_to_messages raw temp [] =
     (if temp = [] then Inr []
      else and_then (serialize_content_blocks raw temp) (\<lambda>s. Inr (if s = [] then [] else [new_message ''assistant'' s])))"
| "blocks_to_messages raw temp (Tool_block calls results # bs) =
     and_then (serialize_content_blocks raw temp) (\<lambda>s.
     and_then (each result_message results) (\<lambda>rs.
     and_then (blocks_to_messages raw [] bs) (\<lambda>ms. Inr (calls_message s calls # rs @ ms))))"
| "blocks_to_messages raw temp (b # bs) = blocks_to_messages raw (temp @ [b]) bs"

definition convert_content_blocks_to_messages :: "bool \<Rightarrow> block list \<Rightarrow> py_error + dict list" where
  "convert_content_blocks_to_messages raw bs = blocks_to_messages raw [] bs"

section \<open>Tags\<close>

text \<open>\<open>\w\<close> below code point 256.\<close>

definition word_char :: "char \<Rightarrow> bool" where
  "word_char c \<longleftrightarrow> (let n = code c in
     48 \<le> n \<and> n \<le> 57 \<or> 65 \<le> n \<and> n \<le> 90 \<or> n = 95 \<or> 97 \<le> n \<and> n \<le> 122 \<or>
     n \<in> {170, 178, 179, 181, 185, 186, 188, 189, 190} \<or> 192 \<le> n \<and> n \<noteq> 215 \<and> n \<noteq> 247)"

text \<open>\<open>(\w+)\s*=\s*"([^"]+)"\<close> at the head of a text: key, value and the rest.\<close>

definition attribute_at :: "string \<Rightarrow> (string \<times> string \<times> string) option" where
  "attribute_at s =
     (let key = takeWhile word_char s; r = lstrip (dropWhile word_char s)
      in if key = [] \<or> \<not> startswith r ''='' then None
         else let q = lstrip (tl r); v = takeWhile (\<lambda>c. c \<noteq> CHR 0x22) (tl q); e = dropWhile (\<lambda>c. c \<noteq> CHR 0x22) (tl q)
              in if startswith q [CHR 0x22] \<and> v \<noteq> [] \<and> e \<noteq> [] then Some (key, v, tl e) else None)"

lemma attribute_at_shorter: "attribute_at s = Some (k, v, r) \<Longrightarrow> length r < length s"
proof -
  assume a: "attribute_at s = Some (k, v, r)"
  define t where "t = lstrip (dropWhile word_char s)"
  define q where "q = lstrip (tl t)"
  have e: "startswith t ''=''" "r = tl (dropWhile (\<lambda>c. c \<noteq> CHR 0x22) (tl q))"
    using a by (auto simp: attribute_at_def Let_def t_def q_def split: if_splits)
  have "length r \<le> length q" using length_dropWhile_le[of "\<lambda>c. c \<noteq> CHR 0x22" "tl q"] by (simp add: e(2))
  moreover have "length q \<le> length (tl t)" using length_dropWhile_le[of is_space "tl t"] by (simp only: q_def lstrip_def)
  moreover have "length t \<le> length s"
    using length_dropWhile_le[of is_space "dropWhile word_char s"] length_dropWhile_le[of word_char s]
    by (simp add: t_def lstrip_def)
  moreover have "t \<noteq> []" using e(1) by (auto simp: startswith_def)
  ultimately show ?thesis by (cases t) auto
qed

function attributes_from :: "string \<Rightarrow> (string \<times> string) list" where
  "attributes_from s = (case attribute_at s of
     Some (k, v, r) \<Rightarrow> (k, v) # attributes_from r
   | None \<Rightarrow> (case s of [] \<Rightarrow> [] | c # cs \<Rightarrow> attributes_from cs))"
  by pat_completeness auto
termination by (relation "measure length") (auto simp: attribute_at_shorter)

declare attributes_from.simps [simp del] split_count.simps [simp del]

definition extract_attributes :: "string \<Rightarrow> (string \<times> string) list" where
  "extract_attributes s = foldl (\<lambda>d (k, v). AList.update k v d) [] (attributes_from s)"

text \<open>
  The pattern of an opening tag at the head of a text: the length of the match and the text of its group.
  The group of a tag in angle brackets is a space and everything up to the first closing bracket, in one line
  unless \<open>across\<close> is set.
\<close>

definition angled :: "string \<Rightarrow> bool" where
  "angled tag \<longleftrightarrow> startswith tag ''<'' \<and> endswith tag ''>''"

definition up_to_bracket :: "bool \<Rightarrow> string \<Rightarrow> string option" where
  "up_to_bracket across s =
     (let a = takeWhile (\<lambda>d. d \<noteq> CHR ''>'' \<and> (across \<or> d \<noteq> CHR 0x0A)) s
      in if startswith (drop (length a) s) ''>'' then Some a else None)"

definition start_at :: "bool \<Rightarrow> string \<Rightarrow> string \<Rightarrow> (nat \<times> string) option" where
  "start_at across tag s =
     (if \<not> angled tag then (if startswith s tag then Some (length tag, []) else None)
      else if \<not> startswith s (butlast tag) then None
      else (case drop (length tag - 1) s of
         [] \<Rightarrow> None
       | c # cs \<Rightarrow>
           if c = CHR ''>'' then Some (length tag, [])
           else if \<not> is_space c then None
           else map_option (\<lambda>a. (length tag + 1 + length a, c # a)) (up_to_bracket across cs)))"

text \<open>The first opening tag: the text before it, the tag, its group and the text after it.\<close>

fun find_start :: "string \<Rightarrow> string \<Rightarrow> (string \<times> string \<times> string \<times> string) option" where
  "find_start tag s = (case start_at False tag s of
     Some (n, a) \<Rightarrow> Some ([], take n s, a, drop n s)
   | None \<Rightarrow> (case s of [] \<Rightarrow> None | c # cs \<Rightarrow> map_option (\<lambda>(b, r). (c # b, r)) (find_start tag cs)))"

fun first_tag :: "(string \<times> string) list \<Rightarrow> string \<Rightarrow> ((string \<times> string) \<times> string \<times> string \<times> string \<times> string) option" where
  "first_tag [] s = None"
| "first_tag (t # ts) s = (case find_start (fst t) s of Some r \<Rightarrow> Some (t, r) | None \<Rightarrow> first_tag ts s)"

text \<open>\<open>re.sub(pattern, "", s)\<close>: \<open>m\<close> answers the length of the match at the head of a text.\<close>

function (sequential) remove_all :: "(string \<Rightarrow> nat option) \<Rightarrow> string \<Rightarrow> string" where
  "remove_all m [] = []"
| "remove_all m (c # cs) = (case m (c # cs) of
     Some n \<Rightarrow> remove_all m (drop (n - 1) cs) | None \<Rightarrow> c # remove_all m cs)"
  by pat_completeness auto
termination by (relation "measure (\<lambda>(_, s). length s)") auto

definition stray_start :: "string \<Rightarrow> string \<Rightarrow> nat option" where
  "stray_start tag s =
     (if startswith s (CHR ''<'' # tag)
      then map_option (\<lambda>a. length tag + 2 + length a) (up_to_bracket False (drop (length tag + 1) s)) else None)"

definition section_at :: "string \<Rightarrow> string \<Rightarrow> string \<Rightarrow> nat option" where
  "section_at start_tag end_tag s = (case start_at True start_tag s of
     None \<Rightarrow> None
   | Some (n, _) \<Rightarrow> map_option (\<lambda>(b, _). n + length b + length end_tag) (cut_at end_tag (drop n s)))"

section \<open>The tag handler\<close>

type_synonym handled = "string \<times> block list \<times> bool"

text \<open>The last block ends when its end tag has arrived somewhere in the content.\<close>

definition close_tag :: "time \<Rightarrow> string \<Rightarrow> block list \<Rightarrow> tagged \<Rightarrow> handled" where
  "close_tag now content blocks b =
     (if cut_at (tg_end b) content = None then (content, blocks @ [Tag_block b], False)
      else
        (let body = strip (remove_all (stray_start (tg_start b)) (tg_content b));
             (inside, leftover) = (case cut_at (tg_end b) body of None \<Rightarrow> (strip body, []) | Some (x, y) \<Rightarrow> (strip x, strip y));
             closed = b\<lparr>tg_content := inside, tg_duration := Some (seconds now (tg_started b))\<rparr>
         in (remove_all (section_at (tg_start b) (tg_end b)) content,
             blocks @ (if inside = [] then [Text_block leftover]
                       else if tg_type b = ''code_interpreter'' then [Tag_block closed]
                       else [Tag_block closed, Text_block leftover]),
             True)))"

definition opened :: "time \<Rightarrow> string \<Rightarrow> string \<times> string \<Rightarrow> string \<Rightarrow> tagged" where
  "opened now kind tag attr =
     \<lparr>tg_type = kind, tg_start = fst tag, tg_end = snd tag, tg_attributes = extract_attributes attr, tg_content = [],
      tg_started = now, tg_duration = None, tg_output = None\<rparr>"

text \<open>
  When the text after the opening tag is not empty the handler calls itself on it; the last block then is the
  one just opened, so that call ends in the other branch. Its content and flag are dropped.
\<close>

definition open_tag :: "time \<Rightarrow> time \<Rightarrow> string \<Rightarrow> (string \<times> string) list \<Rightarrow> string \<Rightarrow> block list \<Rightarrow> string \<Rightarrow> handled" where
  "open_tag now later kind tags content blocks s = (case first_tag tags content of
     None \<Rightarrow> (content, blocks @ [Text_block s], False)
   | Some (tag, before, found, attr, after) \<Rightarrow>
       (let kept = (if before \<noteq> [] then before else py_replace (found @ after) [] s);
            blocks' = blocks @ (if kept = [] then [] else [Text_block kept]);
            b = opened now kind tag attr
        in (content,
            if after = [] then blocks' @ [Tag_block b]
            else fst (snd (close_tag later after blocks' (b\<lparr>tg_content := after\<rparr>))),
            False)))"

definition tag_content_handler ::
  "time \<Rightarrow> time \<Rightarrow> string \<Rightarrow> (string \<times> string) list \<Rightarrow> string \<Rightarrow> block list \<Rightarrow> py_error + handled" where
  "tag_content_handler now later kind tags content blocks =
     (if blocks = [] then Inl IndexError
      else Inr (case last blocks of
         Text_block s \<Rightarrow> open_tag now later kind tags content (butlast blocks) s
       | Tag_block b \<Rightarrow> if tg_type b = kind then close_tag now content (butlast blocks) b else (content, blocks, False)
       | Tool_block _ _ \<Rightarrow> (content, blocks, False)))"

definition default_reasoning_tags :: "(string \<times> string) list" where
  "default_reasoning_tags =
     [(''<think>'', ''</think>''), (''<thinking>'', ''</thinking>''), (''<reason>'', ''</reason>''),
      (''<reasoning>'', ''</reasoning>''), (''<thought>'', ''</thought>''), (''<Thought>'', ''</Thought>''),
      (''<|begin_of_thought|>'', ''<|end_of_thought|>''),
      ([CHR 0xE2, CHR 0x97, CHR 0x81] @ ''think'' @ [CHR 0xE2, CHR 0x96, CHR 0xB7],
       [CHR 0xE2, CHR 0x97, CHR 0x81] @ ''/think'' @ [CHR 0xE2, CHR 0x96, CHR 0xB7])]"

definition default_solution_tags :: "(string \<times> string) list" where
  "default_solution_tags = [(''<|begin_of_solution|>'', ''<|end_of_solution|>'')]"

definition default_code_interpreter_tags :: "(string \<times> string) list" where
  "default_code_interpreter_tags = [(''<code_interpreter>'', ''</code_interpreter>'')]"

section \<open>Escaping\<close>

lemma escaped_no_markup: "CHR ''<'' \<notin> set (html_escape s) \<and> CHR ''>'' \<notin> set (html_escape s) \<and> CHR 0x22 \<notin> set (html_escape s)"
  by (induction s) (auto simp: html_escape_def escape_char_def)

text \<open>The name of a called tool is put into the text as it is: a name with markup becomes markup.\<close>

definition injected :: dict where
  "injected = [(''id'', JStr ''1''), (''function'', JDict [(''name'', JStr (CHR 0x22 # ''><img src=x>'')), (''arguments'', JStr [])])]"

lemma tool_name_not_escaped:
  "case call_text [] injected of Inr s \<Rightarrow> cut_at ''<img src=x>'' s \<noteq> None | Inl e \<Rightarrow> False"
  by code_simp

section \<open>What the tag handler gets wrong\<close>

text \<open>
  A section that arrives in one piece is found again in the content with every later piece: the block and the
  text after it are repeated.
\<close>

lemma whole_section_repeated:
  "tag_content_handler 0 0 ''reasoning'' default_reasoning_tags ''<think>x</think>B'' [Text_block ''<think>x</think>B''] =
     Inr (''<think>x</think>B'',
       [Tag_block (opened 0 ''reasoning'' (''<think>'', ''</think>'') []\<lparr>tg_content := ''x'', tg_duration := Some 0\<rparr>), Text_block ''B''], False)"
  "tag_content_handler 0 0 ''reasoning'' default_reasoning_tags ''<think>x</think>BC''
       [Tag_block (opened 0 ''reasoning'' (''<think>'', ''</think>'') []\<lparr>tg_content := ''x'', tg_duration := Some 0\<rparr>), Text_block ''BC''] =
     Inr (''<think>x</think>BC'',
       [Tag_block (opened 0 ''reasoning'' (''<think>'', ''</think>'') []\<lparr>tg_content := ''x'', tg_duration := Some 0\<rparr>), Text_block ''BC'',
        Tag_block (opened 0 ''reasoning'' (''<think>'', ''</think>'') []\<lparr>tg_content := ''x'', tg_duration := Some 0\<rparr>), Text_block ''BC''], False)"
  by code_simp+

text \<open>A second section takes the text before the first one once more: the text block becomes everything before the tag.\<close>

lemma earlier_text_repeated:
  "tag_content_handler 0 0 ''reasoning'' default_reasoning_tags ''AB<think>''
       [Text_block ''A'', Tag_block (opened 0 ''reasoning'' (''<think>'', ''</think>'') []\<lparr>tg_content := ''x'', tg_duration := Some 0\<rparr>), Text_block ''B<think>''] =
     Inr (''AB<think>'',
       [Text_block ''A'', Tag_block (opened 0 ''reasoning'' (''<think>'', ''</think>'') []\<lparr>tg_content := ''x'', tg_duration := Some 0\<rparr>),
        Text_block ''AB'', Tag_block (opened 0 ''reasoning'' (''<think>'', ''</think>'') [])], False)"
  by code_simp

end
