(* ===== verification/Actions.thy ===== *)
theory Actions
  imports Python
begin

text \<open>
  Code that changes a state and may raise: an action maps a state to a result or an exception, and the state
  that is left. An exception keeps what was changed before it.
\<close>

type_synonym ('s, 'a) action = "'s \<Rightarrow> (py_error + 'a) \<times> 's"

definition pure :: "'a \<Rightarrow> ('s, 'a) action" where "pure x s = (Inr x, s)"

definition lifted :: "py_error + 'a \<Rightarrow> ('s, 'a) action" where "lifted r s = (r, s)"

definition next_do :: "('s, 'a) action \<Rightarrow> ('a \<Rightarrow> ('s, 'b) action) \<Rightarrow> ('s, 'b) action" where
  "next_do m f s = (case m s of (Inl e, s') \<Rightarrow> (Inl e, s') | (Inr x, s') \<Rightarrow> f x s')"

definition reading :: "('s \<Rightarrow> ('s, 'a) action) \<Rightarrow> ('s, 'a) action" where "reading f s = f s s"

definition changing :: "('s \<Rightarrow> 's) \<Rightarrow> ('s, unit) action" where "changing f s = (Inr (), f s)"

definition only_if :: "bool \<Rightarrow> ('s, unit) action \<Rightarrow> ('s, unit) action" where
  "only_if b m = (if b then m else pure ())"

text \<open>\<open>try: m except: h\<close>\<close>

definition trying :: "('s, 'a) action \<Rightarrow> ('s, 'a) action \<Rightarrow> ('s, 'a) action" where
  "trying m h s = (case m s of (Inl e, s') \<Rightarrow> h s' | (Inr x, s') \<Rightarrow> (Inr x, s'))"

fun do_each :: "('a \<Rightarrow> ('s, unit) action) \<Rightarrow> 'a list \<Rightarrow> ('s, unit) action" where
  "do_each f [] = pure ()"
| "do_each f (x # xs) = next_do (f x) (\<lambda>_. do_each f xs)"

named_theorems action_simps \<open>running actions\<close>

lemma running [action_simps, simp]:
  "pure x s = (Inr x, s)"
  "lifted r s = (r, s)"
  "reading f s = f s s"
  "changing g s = (Inr (), g s)"
  by (simp_all add: pure_def lifted_def reading_def changing_def)

lemma only_if_simps [simp]: "only_if True m = m" "only_if False m = pure ()"
  by (simp_all add: only_if_def)

lemma next_do_run [action_simps]:
  "m s = (Inr x, s') \<Longrightarrow> next_do m f s = f x s'"
  "m s = (Inl e, s') \<Longrightarrow> next_do m f s = (Inl e, s')"
  by (simp_all add: next_do_def)

lemma next_do_simps [simp]:
  "next_do (pure x) f = f x"
  "next_do (lifted (Inr x)) f = f x"
  "next_do (lifted (Inl e)) f s = (Inl e, s)"
  "next_do (reading g) f s = next_do (g s) f s"
  by (simp_all add: next_do_def fun_eq_iff)

lemma next_do_changing [simp]: "next_do (changing h) f s = f () (h s)"
  by (simp add: next_do_def)

lemma next_do_ran [simp]:
  "next_do (\<lambda>s. (Inr (g s), h s)) f s = f (g s) (h s)"
  by (simp add: next_do_def)

lemma next_do_raised [simp]: "next_do (\<lambda>s. (Inl (g s), h s)) f s = (Inl (g s), h s)"
  by (simp add: next_do_def)

lemma next_do_assoc: "next_do (next_do m f) g = next_do m (\<lambda>x. next_do (f x) g)"
  by (auto simp: next_do_def fun_eq_iff split: prod.splits sum.splits)

lemma action_Inr: "next_do m f s = (Inr y, s') \<longleftrightarrow> (\<exists>x t. m s = (Inr x, t) \<and> f x t = (Inr y, s'))"
  by (auto simp: next_do_def split: prod.splits sum.splits)

lemma trying_run:
  "m s = (Inr x, s') \<Longrightarrow> trying m h s = (Inr x, s')"
  "m s = (Inl e, s') \<Longrightarrow> trying m h s = h s'"
  by (simp_all add: trying_def)

text \<open>What every step keeps is kept by the sequence, whether it raises or not.\<close>

definition keeps :: "('s \<Rightarrow> bool) \<Rightarrow> ('s, 'a) action \<Rightarrow> bool" where
  "keeps P m \<longleftrightarrow> (\<forall>s. P s \<longrightarrow> P (snd (m s)))"

named_theorems keeping \<open>actions that keep a property of the state\<close>

lemma keepsD: "keeps P m \<Longrightarrow> P s \<Longrightarrow> P (snd (m s))"
  by (simp add: keeps_def)

lemma keeps_basic [keeping, intro, simp]:
  "keeps P (pure x)" "keeps P (lifted r)"
  by (simp_all add: keeps_def)

lemma keeps_changing [keeping]: "(\<And>s. P s \<Longrightarrow> P (f s)) \<Longrightarrow> keeps P (changing f)"
  by (simp add: keeps_def)

lemma keeps_reading [keeping]: "(\<And>s. P s \<Longrightarrow> keeps P (f s)) \<Longrightarrow> keeps P (reading f)"
  by (simp add: keeps_def)

lemma keeps_next [keeping]: "keeps P m \<Longrightarrow> (\<And>x. keeps P (f x)) \<Longrightarrow> keeps P (next_do m f)"
  unfolding keeps_def next_do_def by (auto split: prod.splits sum.splits)

lemma keeps_only_if [keeping]: "(b \<Longrightarrow> keeps P m) \<Longrightarrow> keeps P (only_if b m)"
  by (cases b) auto

lemma keeps_trying [keeping]: "keeps P m \<Longrightarrow> keeps P h \<Longrightarrow> keeps P (trying m h)"
  unfolding keeps_def trying_def by (auto split: prod.splits sum.splits)

lemma keeps_each [keeping]: "(\<And>x. x \<in> set xs \<Longrightarrow> keeps P (f x)) \<Longrightarrow> keeps P (do_each f xs)"
  by (induction xs) (auto intro: keeps_next)

end
