(* ===== verification/Chat_Stream.thy ===== *)
theory Chat_Stream
  imports Content_Blocks Chat_Events Actions
begin

text \<open>
  \<open>stream_body_handler\<close> of \<^verbatim>\<open>utils/middleware.py\<close>: the lines of a streamed answer. Every line may add to the
  content, to the blocks and to the tool calls, is sent on as an event and may be written into the message of
  the chat. The stream filters, the upload of images and Python's floats are the record \<open>stream_env\<close>; \<open>clk\<close>
  are the clock readings of a line, in microseconds. Data that is kept for a later event is a copy.
\<close>

section \<open>State\<close>

record stream_env =
  se_info :: request_info
  se_direct :: bool
  se_realtime :: bool
  se_tags :: "(string \<times> string) list option"
  se_code :: bool
  se_chunk :: int
  se_filter :: "json \<Rightarrow> py_error + json"
  se_image :: "string \<Rightarrow> py_error + json"
  se_convert :: "(string \<Rightarrow> py_error + string) option"
  se_floats :: floats

record stream_state =
  ss_content :: string
  ss_blocks :: "block list"
  ss_calls :: "dict list"
  ss_count :: int
  ss_last :: "json option"
  ss_delta :: "json option"
  ss_db :: chat_db
  ss_out :: "effect list"

type_synonym 'a stream_action = "(stream_state, 'a) action"

definition emit :: "stream_env \<Rightarrow> time \<Rightarrow> dict \<Rightarrow> unit stream_action" where
  "emit env now ev s =
     (let (out, r, db) = event_emitter True now (se_info env) ev (ss_db s)
      in (r, s\<lparr>ss_out := ss_out s @ out, ss_db := db\<rparr>))"

definition emit_completion :: "stream_env \<Rightarrow> time \<Rightarrow> json \<Rightarrow> unit stream_action" where
  "emit_completion env now data = emit env now [(''type'', JStr ''chat:completion''), (''data'', data)]"

definition store :: "stream_env \<Rightarrow> time \<Rightarrow> dict \<Rightarrow> unit stream_action" where
  "store env now m s = (let (r, db) = merge_message now (se_info env) m (ss_db s) in (r, s\<lparr>ss_db := db\<rparr>))"

definition flush_pending_delta_data :: "stream_env \<Rightarrow> time \<Rightarrow> int \<Rightarrow> unit stream_action" where
  "flush_pending_delta_data env now threshold =
     reading (\<lambda>s. case ss_last s of
       None \<Rightarrow> pure ()
     | Some d \<Rightarrow>
         only_if (threshold \<le> ss_count s \<and> truthy d)
           (next_do (emit_completion env now d) (\<lambda>_. changing (\<lambda>s. s\<lparr>ss_count := 0, ss_last := None\<rparr>))))"

section \<open>Tool calls\<close>

definition call_index :: "dict \<Rightarrow> json" where "call_index tc = dget_or tc ''index'' JNull"

definition setdefault :: "string \<Rightarrow> json \<Rightarrow> dict \<Rightarrow> dict" where
  "setdefault k v d = (if dget d k = None then dset k v d else d)"

definition new_call :: "dict \<Rightarrow> py_error + dict" where
  "new_call tc = (case dget_or tc ''function'' (JDict []) of
     JDict f \<Rightarrow> Inr (dset ''function'' (JDict (setdefault ''arguments'' (JStr []) (setdefault ''name'' (JStr []) f))) tc)
   | _ \<Rightarrow> Inl AttributeError)"

text \<open>\<open>call["function"][k] += v\<close>, when there is something to add.\<close>

definition grow_call :: "string \<Rightarrow> json \<Rightarrow> dict \<Rightarrow> py_error + dict" where
  "grow_call k v tc =
     (if \<not> truthy v then Inr tc
      else (case dget tc ''function'' of
         None \<Rightarrow> Inl KeyError
       | Some (JDict f) \<Rightarrow>
           (case dget f k of None \<Rightarrow> Inl KeyError
            | Some old \<Rightarrow> and_then (py_add old v) (\<lambda>x. Inr (dset ''function'' (JDict (dset k x f)) tc)))
       | Some _ \<Rightarrow> Inl TypeError))"

fun change_first :: "('a \<Rightarrow> bool) \<Rightarrow> 'a \<Rightarrow> 'a list \<Rightarrow> 'a list" where
  "change_first p y [] = []"
| "change_first p y (x # xs) = (if p x then y # xs else x # change_first p y xs)"

text \<open>A piece of a call either starts a call or adds to the call with its index.\<close>

definition add_fragment :: "json \<Rightarrow> (dict list, unit) action" where
  "add_fragment piece calls = (case piece of
     JDict d \<Rightarrow>
       (let i = call_index d; same = (\<lambda>c. call_index c = i) in
        if i = JNull then (Inr (), calls)
        else (case find same calls of
           None \<Rightarrow> (case new_call d of Inl e \<Rightarrow> (Inl e, calls) | Inr c \<Rightarrow> (Inr (), calls @ [c]))
         | Some c \<Rightarrow>
             (case and_then (item_or (dget_or d ''function'' (JDict [])) ''name'' JNull) (\<lambda>n.
                   and_then (item_or (dget_or d ''function'' (JDict [])) ''arguments'' JNull) (\<lambda>a. Inr (n, a))) of
                Inl e \<Rightarrow> (Inl e, calls)
              | Inr (n, a) \<Rightarrow>
                  (case grow_call ''name'' n c of
                     Inl e \<Rightarrow> (Inl e, calls)
                   | Inr c1 \<Rightarrow>
                       (case grow_call ''arguments'' a c1 of
                          Inl e \<Rightarrow> (Inl e, change_first same c1 calls)
                        | Inr c2 \<Rightarrow> (Inr (), change_first same c2 calls))))))
   | _ \<Rightarrow> (Inl AttributeError, calls))"

text \<open>The calls that were started in this line are the objects of the line, so what was added to them shows in its data.\<close>

fun shown_calls :: "dict list \<Rightarrow> dict list \<Rightarrow> json list \<Rightarrow> json list" where
  "shown_calls before after [] = []"
| "shown_calls before after (piece # ps) = (case piece of
     JDict d \<Rightarrow>
       (let same = (\<lambda>c. call_index c = call_index d)
        in if call_index d \<noteq> JNull \<and> find same before = None
           then (case find same after of None \<Rightarrow> piece | Some c \<Rightarrow> JDict c) # shown_calls (before @ [d]) after ps
           else piece # shown_calls before after ps)
   | _ \<Rightarrow> piece # shown_calls before after ps)"

definition with_shown_calls :: "dict list \<Rightarrow> dict list \<Rightarrow> dict \<Rightarrow> dict" where
  "with_shown_calls before after data = (case dget data ''choices'' of
     Some (JList (JDict c # cs)) \<Rightarrow>
       (case dget c ''delta'' of
          Some (JDict delta) \<Rightarrow>
            (case dget delta ''tool_calls'' of
               Some (JList ps) \<Rightarrow>
                 dset ''choices'' (JList (JDict (dset ''delta'' (JDict (dset ''tool_calls'' (JList (shown_calls before after ps)) delta)) c) # cs)) data
             | _ \<Rightarrow> data)
        | _ \<Rightarrow> data)
   | _ \<Rightarrow> data)"

definition take_fragments :: "json \<Rightarrow> dict \<Rightarrow> dict stream_action" where
  "take_fragments pieces data s =
     (if \<not> truthy pieces then (Inr data, s)
      else (case iterate pieces of
         Inl e \<Rightarrow> (Inl e, s)
       | Inr ps \<Rightarrow>
           (case do_each add_fragment ps (ss_calls s) of
              (Inl e, calls) \<Rightarrow> (Inl e, s\<lparr>ss_calls := calls\<rparr>)
            | (Inr _, calls) \<Rightarrow> (Inr (with_shown_calls (ss_calls s) calls data), s\<lparr>ss_calls := calls\<rparr>))))"

section \<open>Images\<close>

fun image_urls :: "(string \<Rightarrow> py_error + json) \<Rightarrow> json list \<Rightarrow> py_error + json list" where
  "image_urls upload [] = Inr []"
| "image_urls upload (img # imgs) =
     (case img of
        JDict d \<Rightarrow>
          if dget d ''type'' \<noteq> Some (JStr ''image_url'') then image_urls upload imgs
          else and_then (item_or (dget_or d ''image_url'' (JDict [])) ''url'' JNull) (\<lambda>u.
            if \<not> truthy u then image_urls upload imgs
            else and_then
              (case u of JStr s \<Rightarrow> if startswith s ''data:image/png;base64'' then upload s else Inr u | _ \<Rightarrow> Inl AttributeError) (\<lambda>x.
              and_then (image_urls upload imgs) (\<lambda>xs. Inr (x # xs))))
      | _ \<Rightarrow> image_urls upload imgs)"

definition get_image_urls :: "(string \<Rightarrow> py_error + json) \<Rightarrow> json \<Rightarrow> py_error + json list" where
  "get_image_urls upload images = (case images of JList imgs \<Rightarrow> image_urls upload imgs | _ \<Rightarrow> Inr [])"

definition image_file :: "json \<Rightarrow> json" where
  "image_file u = JDict [(''type'', JStr ''image''), (''url'', u)]"

definition take_images :: "stream_env \<Rightarrow> time \<Rightarrow> json \<Rightarrow> unit stream_action" where
  "take_images env now images =
     next_do (lifted (get_image_urls (se_image env) images)) (\<lambda>urls.
       only_if (urls \<noteq> [])
         (next_do (\<lambda>s. case add_message_files_by_id_and_message_id now (ri_chat_id (se_info env)) (ri_message_id (se_info env))
                          (map image_file urls) (ss_db s) of (r, db) \<Rightarrow> (r, s\<lparr>ss_db := db\<rparr>)) (\<lambda>files.
          emit env now [(''type'', JStr ''files''),
            (''data'', JDict [(''files'', case files of None \<Rightarrow> JNull | Some fs \<Rightarrow> JList fs)])])))"

section \<open>Reasoning and text\<close>

definition map_last :: "('a \<Rightarrow> 'a) \<Rightarrow> 'a list \<Rightarrow> 'a list" where
  "map_last f xs = (if xs = [] then [] else butlast xs @ [f (last xs)])"

definition reasoning_delta_block :: "time \<Rightarrow> tagged" where
  "reasoning_delta_block now =
     \<lparr>tg_type = ''reasoning'', tg_start = ''<think>'', tg_end = ''</think>'', tg_attributes = [(''type'', ''reasoning_content'')],
      tg_content = [], tg_started = now, tg_duration = None, tg_output = None\<rparr>"

fun is_reasoning :: "block \<Rightarrow> bool" where
  "is_reasoning (Tag_block b) = (tg_type b = ''reasoning'')"
| "is_reasoning _ = False"

fun is_reasoning_delta :: "block \<Rightarrow> bool" where
  "is_reasoning_delta (Tag_block b) = (tg_type b = ''reasoning'' \<and> map_of (tg_attributes b) ''type'' = Some ''reasoning_content'')"
| "is_reasoning_delta _ = False"

fun ended_block :: "time \<Rightarrow> block \<Rightarrow> block" where
  "ended_block now (Tag_block b) = Tag_block (b\<lparr>tg_duration := Some (seconds now (tg_started b))\<rparr>)"
| "ended_block now b = b"

text \<open>\<open>content_blocks[-1]["content"] += v\<close>; the last block is not one of tool calls when this runs.\<close>

fun grown_block :: "json \<Rightarrow> block \<Rightarrow> py_error + block" where
  "grown_block (JStr v) (Text_block s) = Inr (Text_block (s @ v))"
| "grown_block (JStr v) (Tag_block b) = Inr (Tag_block (b\<lparr>tg_content := tg_content b @ v\<rparr>))"
| "grown_block _ _ = Inl TypeError"

definition set_blocks :: "(block list \<Rightarrow> block list) \<Rightarrow> unit stream_action" where
  "set_blocks f = changing (\<lambda>s. s\<lparr>ss_blocks := f (ss_blocks s)\<rparr>)"

definition grow_last :: "json \<Rightarrow> unit stream_action" where
  "grow_last v = reading (\<lambda>s. next_do (lifted (grown_block v (last (ss_blocks s)))) (\<lambda>b. set_blocks (map_last (\<lambda>_. b))))"

definition shown_content :: "json stream_action" where
  "shown_content = reading (\<lambda>s. lifted (and_then (serialize_content_blocks False (ss_blocks s)) (\<lambda>c. Inr (JDict [(''content'', JStr c)]))))"

fun first_true :: "json list \<Rightarrow> json" where
  "first_true [] = JNull"
| "first_true [v] = v"
| "first_true (v # vs) = (if truthy v then v else first_true vs)"

definition take_reasoning :: "time \<Rightarrow> dict \<Rightarrow> json \<Rightarrow> json stream_action" where
  "take_reasoning now delta data =
     (let r = first_true (map (\<lambda>k. dget_or delta k JNull) [''reasoning_content'', ''reasoning'', ''thinking''])
      in if \<not> truthy r then pure data
         else next_do (set_blocks (\<lambda>bs. if bs = [] \<or> \<not> is_reasoning (last bs) then bs @ [Tag_block (reasoning_delta_block now)] else bs)) (\<lambda>_.
              next_do (grow_last r) (\<lambda>_. shown_content)))"

definition handle_tags :: "time \<Rightarrow> time \<Rightarrow> string \<Rightarrow> (string \<times> string) list \<Rightarrow> bool stream_action" where
  "handle_tags now later kind tags =
     reading (\<lambda>s. next_do (lifted (tag_content_handler now later kind tags (ss_content s) (ss_blocks s))) (\<lambda>(c, bs, ended).
       next_do (changing (\<lambda>s. s\<lparr>ss_content := c, ss_blocks := bs\<rparr>)) (\<lambda>_. pure ended)))"

definition converted :: "stream_env \<Rightarrow> json \<Rightarrow> py_error + json" where
  "converted env v = (case se_convert env of
     None \<Rightarrow> Inr v
   | Some f \<Rightarrow> (case v of JStr s \<Rightarrow> and_then (f s) (\<lambda>t. Inr (JStr t)) | _ \<Rightarrow> Inl TypeError))"

text \<open>The text of a delta: the data to send on, and whether the stream is left.\<close>

definition take_text :: "stream_env \<Rightarrow> (nat \<Rightarrow> time) \<Rightarrow> json \<Rightarrow> json \<Rightarrow> (json \<times> bool) stream_action" where
  "take_text env clk value data =
     (if \<not> truthy value then pure (data, False)
      else
        next_do (set_blocks (\<lambda>bs. if bs \<noteq> [] \<and> is_reasoning_delta (last bs) then map_last (ended_block (clk 1)) bs @ [Text_block []] else bs)) (\<lambda>_.
        next_do (lifted (converted env value)) (\<lambda>v.
        next_do (changing (\<lambda>s. s\<lparr>ss_content := ss_content s @ py_str v\<rparr>)) (\<lambda>_.
        next_do (set_blocks (\<lambda>bs. if bs = [] then [Text_block []] else bs)) (\<lambda>_.
        next_do (grow_last v) (\<lambda>_.
        next_do
          (case se_tags env of
             None \<Rightarrow> pure False
           | Some tags \<Rightarrow> next_do (handle_tags (clk 2) (clk 3) ''reasoning'' tags) (\<lambda>_.
                            handle_tags (clk 4) (clk 5) ''solution'' default_solution_tags)) (\<lambda>_.
        next_do
          (if se_code env then handle_tags (clk 6) (clk 7) ''code_interpreter'' default_code_interpreter_tags else pure False) (\<lambda>ended.
          if ended then pure (data, True)
          else next_do shown_content (\<lambda>shown.
            if se_realtime env
            then next_do (store env (clk 8 div 1000000) (case shown of JDict d \<Rightarrow> d | _ \<Rightarrow> [])) (\<lambda>_. pure (data, False))
            else pure (shown, False))))))))))"

section \<open>A line\<close>

definition merged_usage :: "dict \<Rightarrow> py_error + dict" where
  "merged_usage data =
     (let usage = dget_or data ''usage'' (JDict [])
      in and_then (case (if truthy usage then usage else JDict []) of JDict u \<Rightarrow> Inr u | _ \<Rightarrow> Inl AttributeError) (\<lambda>u.
         case dget_or data ''timings'' (JDict []) of
           JDict t \<Rightarrow> Inr (dmerge u t) | JList [] \<Rightarrow> Inr u | JStr [] \<Rightarrow> Inr u | _ \<Rightarrow> Inl TypeError))"

text \<open>The usage of the line is changed in place, so the line shows it with the timings in it.\<close>

definition with_usage :: "dict \<Rightarrow> dict \<Rightarrow> dict" where
  "with_usage usage data = (if truthy (dget_or data ''usage'' JNull) then dset ''usage'' (JDict usage) data else data)"

datatype flow = Next_line | Leave

text \<open>
  The end of a line: data with a delta waits until enough deltas have come. The variable \<open>delta\<close> keeps its
  value from line to line; reading it before the first delta raises.
\<close>

definition send_on :: "stream_env \<Rightarrow> time \<Rightarrow> json \<Rightarrow> flow stream_action" where
  "send_on env now data =
     reading (\<lambda>s. case ss_delta s of
       None \<Rightarrow> lifted (Inl NameError)
     | Some d \<Rightarrow>
         next_do
           (if truthy d
            then next_do (changing (\<lambda>s. s\<lparr>ss_count := ss_count s + 1, ss_last := Some data\<rparr>)) (\<lambda>_.
                 reading (\<lambda>s. only_if (se_chunk env \<le> ss_count s) (flush_pending_delta_data env now (se_chunk env))))
            else emit_completion env now data) (\<lambda>_. pure Next_line))"

definition on_choice :: "stream_env \<Rightarrow> (nat \<Rightarrow> time) \<Rightarrow> dict \<Rightarrow> json \<Rightarrow> flow stream_action" where
  "on_choice env clk data choice =
     next_do (lifted (item_or choice ''delta'' (JDict []))) (\<lambda>delta.
     next_do (changing (\<lambda>s. s\<lparr>ss_delta := Some delta\<rparr>)) (\<lambda>_.
       case delta of
         JDict d \<Rightarrow>
           next_do (take_fragments (dget_or d ''tool_calls'' JNull) data) (\<lambda>data.
           next_do (take_images env (clk 9 div 1000000) (dget_or d ''images'' (JList []))) (\<lambda>_.
           next_do (take_reasoning (clk 0) d (JDict data)) (\<lambda>data.
           next_do (take_text env clk (dget_or d ''content'' JNull) data) (\<lambda>(data, leave).
             if leave then pure Leave else send_on env (clk 10 div 1000000) data))))
       | _ \<Rightarrow> lifted (Inl AttributeError)))"

definition on_choices :: "stream_env \<Rightarrow> (nat \<Rightarrow> time) \<Rightarrow> dict \<Rightarrow> flow stream_action" where
  "on_choices env clk data =
     (let choices = dget_or data ''choices'' (JList []); now = clk 10 div 1000000
      in next_do (lifted (merged_usage data)) (\<lambda>usage.
         next_do (only_if (usage \<noteq> []) (emit_completion env now (JDict [(''usage'', JDict usage)]))) (\<lambda>_.
           if \<not> truthy choices then
             (let err = dget_or data ''error'' (JDict [])
              in next_do (only_if (truthy err) (emit_completion env now (JDict [(''error'', err)]))) (\<lambda>_. pure Next_line))
           else (case choices of
              JList (c # cs) \<Rightarrow> on_choice env clk (with_usage usage data) c
            | _ \<Rightarrow> lifted (Inl KeyError)))))"

text \<open>
  The data of a line after the filters: empty data are passed over, anything else but a dictionary raises, and so does
  an event that is none.
\<close>

definition on_data :: "stream_env \<Rightarrow> (nat \<Rightarrow> time) \<Rightarrow> json \<Rightarrow> flow stream_action" where
  "on_data env clk data =
     (if \<not> truthy data then pure Next_line
      else (case data of
         JDict d \<Rightarrow>
           next_do
             (if dget d ''event'' \<noteq> None \<and> \<not> se_direct env
              then (case dget_or d ''event'' (JDict []) of JDict ev \<Rightarrow> emit env (clk 11 div 1000000) ev | _ \<Rightarrow> lifted (Inl TypeError))
              else pure ()) (\<lambda>_.
             (case dget d ''selected_model_id'' of
                Some m \<Rightarrow>
                  next_do (store env (clk 12 div 1000000) [(''selectedModelId'', m)]) (\<lambda>_.
                  next_do (emit_completion env (clk 10 div 1000000) data) (\<lambda>_. send_on env (clk 10 div 1000000) data))
              | None \<Rightarrow> on_choices env clk d))
       | _ \<Rightarrow> lifted (Inl TypeError)))"

text \<open>A line that is no event is skipped; whatever raises ends the work on its line only.\<close>

definition on_line :: "stream_env \<Rightarrow> (nat \<Rightarrow> time) \<Rightarrow> string \<Rightarrow> flow stream_action" where
  "on_line env clk line =
     (if strip line = [] \<or> \<not> startswith line ''data:'' then pure Next_line
      else trying
        (next_do (lifted (case loads (fl_json (se_floats env)) (strip (drop 5 line)) of None \<Rightarrow> Inl ValueError | Some v \<Rightarrow> Inr v)) (\<lambda>v.
         next_do (lifted (se_filter env v)) (on_data env clk)))
        (pure Next_line))"

fun on_lines :: "stream_env \<Rightarrow> (nat \<Rightarrow> nat \<Rightarrow> time) \<Rightarrow> nat \<Rightarrow> string list \<Rightarrow> unit stream_action" where
  "on_lines env clk n [] = pure ()"
| "on_lines env clk n (l # ls) =
     next_do (on_line env (clk n) l) (\<lambda>f. case f of Leave \<Rightarrow> pure () | Next_line \<Rightarrow> on_lines env clk (Suc n) ls)"

section \<open>A stream\<close>

text \<open>The last text block is stripped and dropped when nothing is left of it; a last reasoning block ends.\<close>

definition finish_blocks :: "time \<Rightarrow> block list \<Rightarrow> block list" where
  "finish_blocks now bs =
     (if bs = [] then []
      else (let bs1 = (case last bs of
                 Text_block s \<Rightarrow>
                   if strip s \<noteq> [] then butlast bs @ [Text_block (strip s)]
                   else if butlast bs = [] then [Text_block []] else butlast bs
               | _ \<Rightarrow> bs)
            in (case last bs1 of
                 Tag_block b \<Rightarrow>
                   if tg_type b = ''reasoning'' \<and> tg_duration b = None then map_last (ended_block now) bs1 else bs1
               | _ \<Rightarrow> bs1)))"

text \<open>The tool calls of the stream are its result.\<close>

definition stream_body_handler :: "stream_env \<Rightarrow> (nat \<Rightarrow> nat \<Rightarrow> time) \<Rightarrow> string list \<Rightarrow> dict list stream_action" where
  "stream_body_handler env clk lines =
     next_do (changing (\<lambda>s. s\<lparr>ss_calls := [], ss_count := 0, ss_last := None, ss_delta := None\<rparr>)) (\<lambda>_.
     next_do (on_lines env clk 0 lines) (\<lambda>_.
     next_do (flush_pending_delta_data env (clk (length lines) 10 div 1000000) 0) (\<lambda>_.
     next_do (set_blocks (finish_blocks (clk (length lines) 1))) (\<lambda>_.
       reading (\<lambda>s. pure (ss_calls s))))))"

section \<open>Assembling tool calls\<close>

text \<open>A piece of a tool call: index, further fields, a part of the name and a part of the arguments.\<close>

type_synonym call_piece = "int \<times> dict \<times> string \<times> string"

abbreviation piece_index :: "call_piece \<Rightarrow> int" where "piece_index p \<equiv> fst p"

definition call_of :: "int \<Rightarrow> dict \<Rightarrow> string \<Rightarrow> string \<Rightarrow> dict" where
  "call_of i extra n a = (''index'', JInt i) # extra @ [(''function'', JDict [(''name'', JStr n), (''arguments'', JStr a)])]"

definition piece_json :: "call_piece \<Rightarrow> json" where
  "piece_json p = (case p of (i, extra, n, a) \<Rightarrow> JDict (call_of i extra n a))"

definition plain_fields :: "dict \<Rightarrow> bool" where
  "plain_fields extra \<longleftrightarrow> ''index'' \<notin> fst ` set extra \<and> ''function'' \<notin> fst ` set extra"

text \<open>The indices in the order in which they first appear, and what the pieces of one index make together.\<close>

definition first_seen :: "call_piece list \<Rightarrow> int list" where
  "first_seen ps = rev (remdups (rev (map piece_index ps)))"

definition assembled :: "call_piece list \<Rightarrow> int \<Rightarrow> dict" where
  "assembled ps i = (let qs = filter (\<lambda>p. piece_index p = i) ps in
     call_of i (fst (snd (hd qs))) (concat (map (fst \<circ> snd \<circ> snd) qs)) (concat (map (snd \<circ> snd \<circ> snd) qs)))"

lemma do_each_snoc: "do_each f (xs @ [x]) s = next_do (do_each f xs) (\<lambda>_. f x) s"
proof -
  have "do_each f (xs @ [x]) = next_do (do_each f xs) (\<lambda>_. f x)"
    by (induction xs) (auto simp: next_do_assoc next_do_def fun_eq_iff split: prod.splits sum.splits)
  then show ?thesis by simp
qed

lemma call_of_simps [simp]:
  "plain_fields extra \<Longrightarrow> dget (call_of i extra n a) ''function'' = Some (JDict [(''name'', JStr n), (''arguments'', JStr a)])"
  "call_index (call_of i extra n a) = JInt i"
  by (auto simp: call_of_def plain_fields_def call_index_def dget_or_def map_add_Some_iff map_of_eq_None_iff split: option.splits)

lemma call_of_set [simp]:
  "plain_fields extra \<Longrightarrow> dset ''function'' (JDict [(''name'', JStr n'), (''arguments'', JStr a')]) (call_of i extra n a) = call_of i extra n' a'"
proof -
  assume "plain_fields extra"
  then have "dset k v (extra @ [(k, w)]) = extra @ [(k, v)]" if "k = ''function''" for k v w
    using that by (induction extra) (auto simp: plain_fields_def)
  then show ?thesis by (simp add: call_of_def)
qed

lemma first_seen_snoc:
  "first_seen (ps @ [p]) = (if piece_index p \<in> set (map piece_index ps) then first_seen ps else first_seen ps @ [piece_index p])"
proof (cases "piece_index p \<in> set (map piece_index ps)")
  case False
  then show ?thesis by (auto simp: first_seen_def)
next
  case True
  then show ?thesis unfolding first_seen_def by simp
qed

lemma piece_index_json [simp]: "piece_json p = JDict (call_of (piece_index p) (fst (snd p)) (fst (snd (snd p))) (snd (snd (snd p))))"
  by (cases p) (simp add: piece_json_def)

lemma assembled_simps [simp]:
  "call_index (assembled ps i) = JInt i"
  by (simp add: assembled_def Let_def)

lemma find_assembled: "find (\<lambda>c. call_index c = JInt i) (map (assembled ps) is) = (if i \<in> set is then Some (assembled ps i) else None)"
  by (induction "is") auto

lemma change_assembled:
  "distinct is \<Longrightarrow> i \<in> set is \<Longrightarrow> call_index c = JInt i \<Longrightarrow>
   change_first (\<lambda>c. call_index c = JInt i) c (map (assembled ps) is) = map (\<lambda>j. if j = i then c else assembled ps j) is"
  by (induction "is") auto

lemma set_first_seen [simp]: "set (first_seen ps) = set (map piece_index ps)"
  by (simp add: first_seen_def)

lemma distinct_first_seen [simp]: "distinct (first_seen ps)"
  by (simp add: first_seen_def)

lemma assembled_other: "j \<noteq> piece_index p \<Longrightarrow> assembled (ps @ [p]) j = assembled ps j"
  by (simp add: assembled_def)

lemma assembled_new: "piece_index p \<notin> set (map piece_index ps) \<Longrightarrow>
    assembled (ps @ [p]) (piece_index p) = call_of (piece_index p) (fst (snd p)) (fst (snd (snd p))) (snd (snd (snd p)))"
proof -
  assume "piece_index p \<notin> set (map piece_index ps)"
  then have "\<forall>q \<in> set ps. piece_index q \<noteq> piece_index p" by (metis imageI set_map)
  then have "filter (\<lambda>q. piece_index q = piece_index p) ps = []" by (simp add: filter_empty_conv)
  then show ?thesis by (simp add: assembled_def)
qed

lemma grow_call_of [simp]:
  "plain_fields extra \<Longrightarrow> grow_call ''name'' (JStr m) (call_of i extra n a) = Inr (call_of i extra (n @ m) a)"
  "plain_fields extra \<Longrightarrow> grow_call ''arguments'' (JStr b) (call_of i extra n a) = Inr (call_of i extra n (a @ b))"
  by (simp_all add: grow_call_def py_add_def)

lemma add_piece_new:
  assumes "plain_fields (fst (snd p))" "piece_index p \<notin> set (map piece_index ps)"
  shows "add_fragment (piece_json p) (map (assembled ps) (first_seen ps)) =
    (Inr (), map (assembled (ps @ [p])) (first_seen (ps @ [p])))"
proof -
  have "new_call (call_of (piece_index p) (fst (snd p)) (fst (snd (snd p))) (snd (snd (snd p)))) =
      Inr (call_of (piece_index p) (fst (snd p)) (fst (snd (snd p))) (snd (snd (snd p))))"
    using assms(1) by (simp add: new_call_def dget_or_def setdefault_def)
  moreover have "map (assembled (ps @ [p])) (first_seen ps) = map (assembled ps) (first_seen ps)"
    using assms(2) by (intro map_cong[OF refl] assembled_other) (metis set_first_seen)
  ultimately show ?thesis using assms(2)
    by (simp add: add_fragment_def find_assembled first_seen_snoc assembled_new)
qed

lemma assembled_grown:
  assumes "\<forall>q \<in> set ps. plain_fields (fst (snd q))" "piece_index p \<in> set (map piece_index ps)"
  obtains extra n a where "plain_fields extra" "assembled ps (piece_index p) = call_of (piece_index p) extra n a"
    "assembled (ps @ [p]) (piece_index p) = call_of (piece_index p) extra (n @ fst (snd (snd p))) (a @ snd (snd (snd p)))"
proof -
  let ?qs = "filter (\<lambda>q. piece_index q = piece_index p) ps"
  obtain q where "q \<in> set ps" "piece_index q = piece_index p" using assms(2) by (metis imageE set_map)
  then have "?qs \<noteq> []" unfolding filter_empty_conv by blast
  then have "hd ?qs \<in> set ps" using hd_in_set[of ?qs] by simp
  then have "plain_fields (fst (snd (hd ?qs)))" using assms(1) by blast
  moreover have "hd (?qs @ [p]) = hd ?qs" using \<open>?qs \<noteq> []\<close> by simp
  ultimately show ?thesis by (intro that) (simp_all add: assembled_def Let_def)
qed

lemma add_piece_known:
  assumes "\<forall>q \<in> set ps. plain_fields (fst (snd q))" "plain_fields (fst (snd p))" "piece_index p \<in> set (map piece_index ps)"
  shows "add_fragment (piece_json p) (map (assembled ps) (first_seen ps)) =
    (Inr (), map (assembled (ps @ [p])) (first_seen (ps @ [p])))"
proof -
  obtain extra n a where e: "plain_fields extra" "assembled ps (piece_index p) = call_of (piece_index p) extra n a"
      "assembled (ps @ [p]) (piece_index p) = call_of (piece_index p) extra (n @ fst (snd (snd p))) (a @ snd (snd (snd p)))"
    by (rule assembled_grown[OF assms(1,3)])
  have s: "piece_index p \<in> set (first_seen ps)" using assms(3) by simp
  let ?c = "assembled (ps @ [p]) (piece_index p)"
  have c: "change_first (\<lambda>c. call_index c = JInt (piece_index p)) ?c (map (assembled ps) (first_seen ps)) =
      map (assembled (ps @ [p])) (first_seen ps)"
    unfolding change_assembled[OF distinct_first_seen s assembled_simps]
    by (rule map_cong[OF refl]) (simp add: assembled_other)
  have "grow_call ''name'' (JStr (fst (snd (snd p)))) (assembled ps (piece_index p)) =
      Inr (call_of (piece_index p) extra (n @ fst (snd (snd p))) a)" using e by simp
  then show ?thesis using assms(2,3) s c e(1,3)
    by (simp add: add_fragment_def find_assembled dget_or_def item_or_def first_seen_snoc)
qed

text \<open>
  C16: The tool calls of a streamed answer are put together from their pieces. However the pieces of several
  calls are interleaved, there is one call for each index, in the order in which the indices first appear; its
  name and its arguments are the pieces of that index joined in their order, and its further fields those of the
  first piece.
\<close>

theorem tool_calls_assembled:
  assumes "\<forall>p \<in> set ps. plain_fields (fst (snd p))"
  shows "do_each add_fragment (map piece_json ps) [] = (Inr (), map (assembled ps) (first_seen ps))"
  using assms
proof (induction ps rule: rev_induct)
  case Nil
  then show ?case by (simp add: first_seen_def)
next
  case (snoc p ps)
  then have "do_each add_fragment (map piece_json (ps @ [p])) [] = add_fragment (piece_json p) (map (assembled ps) (first_seen ps))"
    by (simp add: do_each_snoc next_do_run(1) del: piece_index_json)
  also have "\<dots> = (Inr (), map (assembled (ps @ [p])) (first_seen (ps @ [p])))"
    using snoc.prems add_piece_new[of p ps] add_piece_known[of ps p] by (cases "piece_index p \<in> set (map piece_index ps)") auto
  finally show ?case .
qed

lemma tool_calls_assembled_witness:
  "do_each add_fragment
     [JDict (call_of 0 [(''id'', JStr ''c1'')] ''add'' []), JDict (call_of 1 [(''id'', JStr ''c2'')] ''ls'' []),
      JDict (call_of 0 [] [] ''{1''), JDict (call_of 1 [] [] ''{}''), JDict (call_of 0 [] [] '', 2}'')] [] =
   (Inr (), [call_of 0 [(''id'', JStr ''c1'')] ''add'' ''{1, 2}'', call_of 1 [(''id'', JStr ''c2'')] ''ls'' ''{}''])"
  using tool_calls_assembled[of "[(0, [(''id'', JStr ''c1'')], ''add'', []), (1, [(''id'', JStr ''c2'')], ''ls'', []),
      (0, [], [], ''{1''), (1, [], [], ''{}''), (0, [], [], '', 2}'')]"]
  by (simp add: plain_fields_def first_seen_def assembled_def)

section \<open>Text without tags\<close>

definition tagless :: "(string \<times> string) list \<Rightarrow> string \<Rightarrow> bool" where
  "tagless tags s \<longleftrightarrow> (\<forall>t \<in> set tags. find_start (fst t) s = None)"

definition watched_tags :: "stream_env \<Rightarrow> (string \<times> string) list" where
  "watched_tags env = (case se_tags env of None \<Rightarrow> [] | Some ts \<Rightarrow> ts @ default_solution_tags) @
     (if se_code env then default_code_interpreter_tags else [])"

text \<open>Data of a line that brings a piece of text and nothing else.\<close>

definition text_data :: "dict \<Rightarrow> string \<Rightarrow> bool" where
  "text_data d s \<longleftrightarrow> dget d ''event'' = None \<and> dget d ''selected_model_id'' = None \<and> (\<exists>u. merged_usage d = Inr u) \<and>
     (\<exists>c cs delta. dget d ''choices'' = Some (JList (JDict c # cs)) \<and> dget c ''delta'' = Some (JDict delta) \<and>
        dget delta ''content'' = Some (JStr s) \<and>
        (\<forall>k \<in> {''tool_calls'', ''images'', ''reasoning_content'', ''reasoning'', ''thinking''}. dget delta k = None))"

lemma up_to_bracket_extend: "up_to_bracket b s = Some a \<Longrightarrow> up_to_bracket b (s @ t) = Some a"
proof -
  assume u: "up_to_bracket b s = Some a"
  let ?p = "\<lambda>d. d \<noteq> CHR ''>'' \<and> (b \<or> d \<noteq> CHR 0x0A)"
  have a: "a = takeWhile ?p s" "startswith (drop (length a) s) ''>''"
    using u by (auto simp: up_to_bracket_def Let_def split: if_splits)
  then have "dropWhile ?p s \<noteq> []" by (auto simp: startswith_def dropWhile_eq_drop)
  then have "takeWhile ?p (s @ t) = a" unfolding a(1) takeWhile_append dropWhile_eq_Nil_conv by auto
  moreover have "startswith (drop (length a) (s @ t)) ''>''"
    using a(2) by (auto simp: startswith_def prefix_def)
  ultimately show ?thesis by (simp add: up_to_bracket_def)
qed

lemma start_at_extend: "start_at False tag s = Some r \<Longrightarrow> start_at False tag (s @ t) \<noteq> None"
proof -
  assume a: "start_at False tag s = Some r"
  show ?thesis
  proof (cases "angled tag")
    case False
    then show ?thesis using a by (auto simp: start_at_def startswith_def split: if_splits)
  next
    case True
    then have p: "startswith s (butlast tag)" and l: "length (butlast tag) = length tag - 1"
      using a by (auto simp: start_at_def split: if_splits)
    then obtain u where u: "s = butlast tag @ u" by (auto simp: startswith_def prefix_def)
    obtain c cs where c: "u = c # cs" using a True p l by (auto simp: start_at_def u startswith_def split: list.splits)
    show ?thesis using a True l unfolding start_at_def u c
      by (auto simp: startswith_def up_to_bracket_extend split: if_splits)
  qed
qed

lemma find_start_extend: "find_start tag s \<noteq> None \<Longrightarrow> find_start tag (s @ t) \<noteq> None"
proof (induction s)
  case Nil
  then obtain r where "start_at False tag [] = Some r" by (auto split: option.splits prod.splits)
  from start_at_extend[OF this, of t] show ?case by (subst find_start.simps) (auto split: option.splits)
next
  case (Cons c cs)
  show ?case
  proof (cases "start_at False tag (c # cs)")
    case None
    then have "find_start tag cs \<noteq> None" using Cons.prems by (subst (asm) find_start.simps) (auto split: option.splits)
    from Cons.IH[OF this] show ?thesis by (subst find_start.simps) (auto split: option.splits)
  next
    case (Some r)
    from start_at_extend[OF this, of t] show ?thesis by (subst find_start.simps) (auto split: option.splits)
  qed
qed

lemma tagless_shorter: "tagless tags (s @ t) \<Longrightarrow> tagless tags s"
  unfolding tagless_def using find_start_extend by blast

lemma tagless_append [simp]: "tagless (ts @ us) s \<longleftrightarrow> tagless ts s \<and> tagless us s"
  by (auto simp: tagless_def)

lemma tagless_first: "tagless tags s \<Longrightarrow> first_tag tags s = None"
  by (induction tags) (simp_all add: tagless_def del: find_start.simps)

lemma tagless_handled:
  "tagless tags c \<Longrightarrow> tag_content_handler t u kind tags c [Text_block s] = Inr (c, [Text_block s], False)"
  by (simp add: tag_content_handler_def open_tag_def tagless_first)

text \<open>The part of the state the text of an answer is in, with the tables when these are to stay as they are.\<close>

definition text_is :: "chat_db option \<Rightarrow> string \<Rightarrow> stream_state \<Rightarrow> bool" where
  "text_is kept c s \<longleftrightarrow> ss_content s = c \<and> ss_blocks s = [Text_block c] \<and> ss_calls s = [] \<and>
     (\<forall>db. kept = Some db \<longrightarrow> ss_db s = db)"

lemma text_is_update [simp]:
  "text_is kept c (s\<lparr>ss_out := o'\<rparr>) = text_is kept c s" "text_is kept c (s\<lparr>ss_count := n\<rparr>) = text_is kept c s"
  "text_is kept c (s\<lparr>ss_last := l\<rparr>) = text_is kept c s" "text_is kept c (s\<lparr>ss_delta := v\<rparr>) = text_is kept c s"
  by (simp_all add: text_is_def)

lemma emit_completion_run [simp]:
  "emit_completion env now d s = (Inr (), s\<lparr>ss_out := ss_out s @
     [chat_event_payload (se_info env) [(''type'', JStr ''chat:completion''), (''data'', d)]]\<rparr>)"
  by (simp add: emit_completion_def emit_def event_emitter_def write_event_def Let_def)

lemma keeps_text [keeping]: "keeps (text_is kept c) (emit_completion env now d)"
  by (simp add: keeps_def)

lemma flush_run: "\<exists>s'. flush_pending_delta_data env now n s = (Inr (), s')"
  by (auto simp: flush_pending_delta_data_def only_if_def next_do_def split: option.splits)

lemma keeps_flush [keeping]: "keeps (text_is kept c) (flush_pending_delta_data env now n)"
  unfolding flush_pending_delta_data_def
  by (intro keeping) (auto split: option.splits intro!: keeping)

lemma keeps_send_on: "keeps (text_is kept c) (send_on env now d)"
  unfolding send_on_def by (intro keeping) (auto split: option.splits intro!: keeping)

lemma send_on_run: "ss_delta s = Some d \<Longrightarrow> \<exists>s'. send_on env now data s = (Inr Next_line, s')"
proof -
  obtain s' where f: "flush_pending_delta_data env now (se_chunk env) (s\<lparr>ss_count := ss_count s + 1, ss_last := Some data\<rparr>) = (Inr (), s')"
    using flush_run by blast
  assume "ss_delta s = Some d"
  then show ?thesis by (auto simp: send_on_def only_if_def next_do_assoc next_do_run(1)[where m = "flush_pending_delta_data env now (se_chunk env)", OF f] next_do_run(1)[OF emit_completion_run])
qed

lemma send_on_text:
  assumes "text_is kept c s" "ss_delta s = Some d"
  shows "\<exists>s'. send_on env now data s = (Inr Next_line, s') \<and> text_is kept c s'"
  using send_on_run[OF assms(2), of env now data] keepsD[OF keeps_send_on assms(1), of env now data] by auto

lemma take_text_run:
  assumes "text_is kept c s" "se_convert env = None" "tagless (watched_tags env) (c @ p)" "p \<noteq> []" "se_realtime env \<longrightarrow> kept = None"
  shows "\<exists>r s'. take_text env clk (JStr p) data s = (r, s') \<and> text_is kept (c @ p) s' \<and> ss_delta s' = ss_delta s \<and>
    (\<forall>x. r = Inr x \<longrightarrow> \<not> snd x)"
proof -
  let ?s = "s\<lparr>ss_content := c @ p, ss_blocks := [Text_block (c @ p)]\<rparr>"
  have t: "handle_tags a b k tags ?s = (Inr False, ?s)" if "tagless tags (c @ p)" for a b k tags
    by (simp add: handle_tags_def tagless_handled[OF that])
  have w: "se_tags env = Some ts \<Longrightarrow> tagless ts (c @ p) \<and> tagless default_solution_tags (c @ p)"
      "se_code env \<Longrightarrow> tagless default_code_interpreter_tags (c @ p)" for ts
    using assms(3) by (auto simp: watched_tags_def)
  let ?rest = "next_do
          (case se_tags env of
             None \<Rightarrow> pure False
           | Some tags \<Rightarrow> next_do (handle_tags (clk 2) (clk 3) ''reasoning'' tags) (\<lambda>_.
                            handle_tags (clk 4) (clk 5) ''solution'' default_solution_tags)) (\<lambda>_.
        next_do
          (if se_code env then handle_tags (clk 6) (clk 7) ''code_interpreter'' default_code_interpreter_tags else pure False) (\<lambda>ended.
          if ended then pure (data, True)
          else next_do shown_content (\<lambda>shown.
            if se_realtime env
            then next_do (store env (clk 8 div 1000000) (case shown of JDict d \<Rightarrow> d | _ \<Rightarrow> [])) (\<lambda>_. pure (data, False))
            else pure (shown, False))))"
  have "take_text env clk (JStr p) data s = ?rest ?s"
    using assms(1,2,4) by (simp add: take_text_def text_is_def set_blocks_def converted_def grow_last_def map_last_def)
  also have "\<dots> = next_do shown_content (\<lambda>shown.
            if se_realtime env
            then next_do (store env (clk 8 div 1000000) (case shown of JDict d \<Rightarrow> d | _ \<Rightarrow> [])) (\<lambda>_. pure (data, False))
            else pure (shown, False)) ?s"
    using w by (cases "se_tags env"; cases "se_code env") (simp_all add: next_do_assoc next_do_run(1)[where m = "handle_tags a b k ts" for a b k ts, OF t])
  finally have e: "take_text env clk (JStr p) data s = next_do shown_content (\<lambda>shown.
            if se_realtime env
            then next_do (store env (clk 8 div 1000000) (case shown of JDict d \<Rightarrow> d | _ \<Rightarrow> [])) (\<lambda>_. pure (data, False))
            else pure (shown, False)) ?s" .
  have "text_is kept (c @ p) ?s" using assms(1) by (simp add: text_is_def)
  then show ?thesis unfolding e using assms(5)
    by (auto simp: shown_content_def serialize_content_blocks_def add_block_def next_do_def store_def Let_def text_is_def split: prod.splits sum.splits)
qed

lemma stripped_line:
  "strip (data_line d) \<noteq> []" "startswith (data_line d) ''data:''" "strip (drop 5 (data_line d)) = dumps (JDict d)"
proof -
  have s: "dropWhile is_space (CHR '' '' # CHR ''{'' # r) = CHR ''{'' # r" "dropWhile is_space (CHR ''d'' # r) = CHR ''d'' # r" for r
    by (simp_all add: is_space_def)
  have r: "rev (dropWhile is_space (rev (m @ [c] @ nl @ nl))) = m @ [c]" if "\<not> is_space c" for m c
    using that by (simp add: is_space_def)
  obtain m where m: "dumps (JDict d) = CHR ''{'' # m @ ''}''" by simp
  have "strip (drop 5 (data_line d)) = rev (dropWhile is_space (rev ((CHR ''{'' # m) @ ''}'' @ nl @ nl)))"
    unfolding data_line_def m by (simp add: strip_def lstrip_def rstrip_def s del: dropWhile.simps)
  also have "\<dots> = (CHR ''{'' # m) @ ''}''" by (rule r) (simp add: is_space_def)
  finally show "strip (drop 5 (data_line d)) = dumps (JDict d)" by (simp add: m del: dumps.simps)
  have "strip (data_line d) = rev (dropWhile is_space (rev ((''data: {'' @ m) @ ''}'' @ nl @ nl)))"
    unfolding data_line_def m by (simp add: strip_def lstrip_def rstrip_def s(2) del: dropWhile.simps)
  also have "\<dots> = (''data: {'' @ m) @ ''}''" by (rule r) (simp add: is_space_def)
  finally show "strip (data_line d) \<noteq> []" by simp
  show "startswith (data_line d) ''data:''" by (simp add: data_line_def startswith_def)
qed

lemma usage_choices [simp]: "dget (with_usage u d) ''choices'' = dget d ''choices''"
  by (simp add: with_usage_def)

lemma text_piece:
  assumes d: "text_data d p" "json_ok (fl_json (se_floats env)) (JDict d)" and st: "text_is kept c s"
    and env: "se_filter env = Inr" "se_convert env = None" "tagless (watched_tags env) (c @ p)" "se_realtime env \<longrightarrow> kept = None"
  shows "\<exists>s'. on_line env clk (data_line d) s = (Inr Next_line, s') \<and> text_is kept (c @ p) s'"
proof -
  obtain ch cs delta u where ch: "dget d ''choices'' = Some (JList (JDict ch # cs))" "dget ch ''delta'' = Some (JDict delta)"
      "dget delta ''content'' = Some (JStr p)" "merged_usage d = Inr u" "dget d ''event'' = None" "dget d ''selected_model_id'' = None"
      "\<forall>k \<in> {''tool_calls'', ''images'', ''reasoning_content'', ''reasoning'', ''thinking''}. dget delta k = None"
    using d(1) unfolding text_data_def by blast
  have dn: "d \<noteq> []" using ch(1) by auto
  let ?s = "s\<lparr>ss_out := ss_out s @ (if u = [] then [] else
      [chat_event_payload (se_info env) [(''type'', JStr ''chat:completion''), (''data'', JDict [(''usage'', JDict u)])]]), ss_delta := Some (JDict delta)\<rparr>"
  let ?d = "JDict (with_usage u d)"
  let ?tail = "\<lambda>(x, leave). if leave then pure Leave else send_on env (clk 10 div 1000000) x"
  have st': "text_is kept c ?s" using st by simp
  have run: "on_data env clk (JDict d) s = next_do (take_text env clk (JStr p) ?d) ?tail ?s"
    using ch dn by (simp add: on_data_def on_choices_def on_choice_def Let_def dget_or_def item_or_def take_fragments_def take_images_def
        get_image_urls_def take_reasoning_def next_do_def only_if_def)
  have l: "on_line env clk (data_line d) s = trying (on_data env clk (JDict d)) (pure Next_line) s"
    unfolding on_line_def using stripped_line[of d] json_roundtrip[OF d(2)] env(1)
    by (simp add: trying_def del: dumps.simps)
  show ?thesis
  proof (cases "p = []")
    case True
    have "take_text env clk (JStr p) ?d = pure (?d, False)" by (simp add: take_text_def True)
    then have "on_data env clk (JDict d) s = send_on env (clk 10 div 1000000) ?d ?s" by (simp add: run)
    moreover obtain s' where "send_on env (clk 10 div 1000000) ?d ?s = (Inr Next_line, s')" "text_is kept c s'"
      using send_on_text[OF st', of "JDict delta" env "clk 10 div 1000000" ?d] by auto
    ultimately show ?thesis by (simp add: l trying_def True)
  next
    case False
    obtain r s' where t: "take_text env clk (JStr p) ?d ?s = (r, s')" "text_is kept (c @ p) s'" "ss_delta s' = Some (JDict delta)"
        "\<forall>x. r = Inr x \<longrightarrow> \<not> snd x"
      using take_text_run[OF st' env(2,3) False env(4), of clk ?d] by auto
    show ?thesis
    proof (cases r)
      case (Inl e)
      then show ?thesis using t(1,2) by (simp add: l trying_def run next_do_def)
    next
      case (Inr x)
      then obtain v where "x = (v, False)" using t(4) by (cases x) auto
      then have "on_data env clk (JDict d) s = send_on env (clk 10 div 1000000) v s'" using t(1) Inr by (simp add: run next_do_def)
      moreover obtain s'' where "send_on env (clk 10 div 1000000) v s' = (Inr Next_line, s'')" "text_is kept (c @ p) s''"
        using send_on_text[OF t(2,3)] by blast
      ultimately show ?thesis by (simp add: l trying_def)
    qed
  qed
qed

lemma text_pieces:
  assumes "\<forall>(d, p) \<in> set ds. text_data d p \<and> json_ok (fl_json (se_floats env)) (JDict d)" "text_is kept c s"
    and "se_filter env = Inr" "se_convert env = None" "tagless (watched_tags env) (c @ concat (map snd ds))"
    "se_realtime env \<longrightarrow> kept = None"
  shows "\<exists>s'. on_lines env clk n (map (data_line \<circ> fst) ds) s = (Inr (), s') \<and> text_is kept (c @ concat (map snd ds)) s'"
  using assms
proof (induction ds arbitrary: c s n)
  case (Cons x ds)
  obtain d p where x: "x = (d, p)" by (cases x)
  have t: "tagless (watched_tags env) ((c @ p) @ concat (map snd ds))" using Cons.prems(5) by (simp add: x)
  obtain s' where s': "on_line env (clk n) (data_line d) s = (Inr Next_line, s')" "text_is kept (c @ p) s'"
    using text_piece[OF _ _ Cons.prems(2-4) tagless_shorter[OF t] Cons.prems(6), of d "clk n"] Cons.prems(1) by (auto simp: x)
  have "\<forall>(d, p) \<in> set ds. text_data d p \<and> json_ok (fl_json (se_floats env)) (JDict d)" using Cons.prems(1) by (simp del: json_ok.simps)
  from Cons.IH[OF this s'(2) Cons.prems(3,4) t Cons.prems(6), of "Suc n"]
  obtain s'' where "on_lines env clk (Suc n) (map (data_line \<circ> fst) ds) s' = (Inr (), s'')" "text_is kept ((c @ p) @ concat (map snd ds)) s''"
    by blast
  then show ?case using s'(1) by (simp add: x next_do_def comp_def)
qed simp

lemma streamed_text:
  assumes "\<forall>(d, p) \<in> set ds. text_data d p \<and> json_ok (fl_json (se_floats env)) (JDict d)"
    and "se_filter env = Inr" "se_convert env = None" "tagless (watched_tags env) (held @ concat (map snd ds))"
    and "ss_content s = held" "ss_blocks s = [Text_block held]"
  obtains s' where "stream_body_handler env clk (map (data_line \<circ> fst) ds) s = (Inr [], s')"
    "ss_content s' = held @ concat (map snd ds)" "ss_blocks s' = [Text_block (strip (held @ concat (map snd ds)))]"
    "\<not> se_realtime env \<longrightarrow> ss_db s' = ss_db s"
proof -
  let ?s = "s\<lparr>ss_calls := [], ss_count := 0, ss_last := None, ss_delta := None\<rparr>" and ?t = "held @ concat (map snd ds)"
  let ?kept = "if se_realtime env then None else Some (ss_db s)"
  have "text_is ?kept held ?s" using assms(5,6) by (simp add: text_is_def)
  then obtain s1 where s1: "on_lines env clk 0 (map (data_line \<circ> fst) ds) ?s = (Inr (), s1)" "text_is ?kept ?t s1"
    using text_pieces[OF assms(1) _ assms(2-4), of ?kept ?s clk 0] by auto
  obtain s2 where s2: "flush_pending_delta_data env (clk (length ds) 10 div 1000000) 0 s1 = (Inr (), s2)" using flush_run by blast
  then have t: "text_is ?kept ?t s2" using keepsD[OF keeps_flush s1(2)] by (metis snd_conv)
  have "finish_blocks now [Text_block ?t] = [Text_block (strip ?t)]" for now by (simp add: finish_blocks_def)
  then show ?thesis using s1(1) s2 t
    by (intro that[of "s2\<lparr>ss_blocks := [Text_block (strip ?t)]\<rparr>"])
      (auto simp: stream_body_handler_def next_do_def set_blocks_def text_is_def)
qed

text \<open>
  C20: A streamed text arrives as it was sent. When the lines bring pieces of text, under whatever further
  keys, the whole text contains no tag that is looked for, and neither a stream filter nor the conversion of images
  in the text changes anything, the stream ends without an exception and without
  tool calls, the content is the text before followed by the pieces in their order, and the one block holds that
  text less the space around it; for every size of the chunks sent on, with and without saving on the way.
\<close>

theorem streamed_text_arrives:
  assumes "\<forall>(d, p) \<in> set ds. text_data d p \<and> json_ok (fl_json (se_floats env)) (JDict d)"
    and "se_filter env = Inr" "se_convert env = None" "tagless (watched_tags env) (held @ concat (map snd ds))"
    and "ss_content s = held" "ss_blocks s = [Text_block held]"
  shows "\<exists>s'. stream_body_handler env clk (map (data_line \<circ> fst) ds) s = (Inr [], s') \<and>
    ss_content s' = held @ concat (map snd ds) \<and> ss_blocks s' = [Text_block (strip (held @ concat (map snd ds)))]"
  using streamed_text[OF assms, of clk] by metis

definition sample_env :: stream_env where
  "sample_env = \<lparr>se_info = \<lparr>ri_user_id = ''lee'', ri_chat_id = ''k1'', ri_message_id = ''m1''\<rparr>, se_direct = False,
     se_realtime = True, se_tags = Some default_reasoning_tags, se_code = True, se_chunk = 2, se_filter = Inr,
     se_image = (\<lambda>s. Inr JNull), se_convert = None,
     se_floats = \<lparr>fl_read = Some, fl_json = id, fl_int = (\<lambda>i. None), fl_trunc = (\<lambda>r. None)\<rparr>\<rparr>"

definition sample_state :: stream_state where
  "sample_state = \<lparr>ss_content = [], ss_blocks = [Text_block []], ss_calls = [], ss_count = 0, ss_last = None, ss_delta = None,
     ss_db = sample_chats, ss_out = []\<rparr>"

definition delta_data :: "dict \<Rightarrow> dict" where
  "delta_data delta = [(''choices'', JList [JDict [(''delta'', JDict delta)]])]"

lemma streamed_text_arrives_witness:
  "\<exists>s'. stream_body_handler sample_env (\<lambda>n i. 0)
      [data_line (delta_data [(''content'', JStr ''a <'')]), data_line (delta_data [(''content'', JStr '' b'')])] sample_state = (Inr [], s') \<and>
    ss_content s' = ''a < b'' \<and> ss_blocks s' = [Text_block (strip ''a < b'')]"
proof -
  have d: "text_data (delta_data [(''content'', JStr p)]) p" for p
    by (simp add: text_data_def delta_data_def merged_usage_def dget_or_def dmerge_def)
  have "tagless (watched_tags sample_env) ''a < b''"
    by code_simp
  then show ?thesis
    using streamed_text_arrives[of "[(delta_data [(''content'', JStr ''a <'')], ''a <''), (delta_data [(''content'', JStr '' b'')], '' b'')]"
        sample_env "[]" sample_state "\<lambda>n i. 0"] d
    by (simp add: sample_state_def sample_env_def delta_data_def comp_def)
qed

end
