(* ===== verification/Tool_Rounds.thy ===== *)
theory Tool_Rounds
  imports Chat_Stream
begin

text \<open>
  The rounds after a streamed answer in \<^verbatim>\<open>utils/middleware.py\<close>: the tools the model called are run, their
  results (\<open>process_tool_result\<close>) go into the next request, and the code of a code interpreter block is run and
  its output goes into the next request. The tools, the code engine, the model and \<open>ast.literal_eval\<close> are
  arguments; so is the text of an exception.
\<close>

section \<open>Results of tools\<close>

text \<open>\<open>json.dumps(v, indent=2, ensure_ascii=False)\<close> at a nesting depth.\<close>

definition indented :: "nat \<Rightarrow> string" where "indented n = replicate (2 * n) (CHR '' '')"

fun pretty :: "nat \<Rightarrow> json \<Rightarrow> string" where
  "pretty n (JList xs) =
     (if xs = [] then ''[]''
      else ''['' @ nl @ join ('','' @ nl) (map (\<lambda>x. indented (Suc n) @ pretty (Suc n) x) xs) @ nl @ indented n @ '']'')"
| "pretty n (JDict d) =
     (if d = [] then ''{}''
      else ''{'' @ nl @ join ('','' @ nl) (map (\<lambda>(k, v). indented (Suc n) @ plain_quote k @ '': '' @ pretty (Suc n) v) d) @
        nl @ indented n @ ''}'')"
| "pretty n v = plain_dumps v"

text \<open>
  What a tool answers: a value, an HTML response (disposition, status, body), or the pair of a value and response
  headers, which is the answer of an external tool.
\<close>

datatype tool_answer = Answer json | Html_answer string nat string | Answer_pair json json

text \<open>\<open>p in v\<close>\<close>

definition contains :: "string \<Rightarrow> json \<Rightarrow> py_error + bool" where
  "contains p v = (case v of
     JStr s \<Rightarrow> Inr (cut_at p s \<noteq> None)
   | JList xs \<Rightarrow> Inr (JStr p \<in> set xs)
   | JDict d \<Rightarrow> Inr (dget d p \<noteq> None)
   | _ \<Rightarrow> Inl TypeError)"

definition component_message :: "bool \<Rightarrow> string \<Rightarrow> json" where
  "component_message ok message =
     JDict [(''status'', JStr (if ok then ''success'' else ''error'')), (''code'', JStr ''ui_component''), (''message'', JStr message)]"

definition embedded_message :: "string \<Rightarrow> json" where
  "embedded_message name = component_message True (name @ '': Embedded UI result is active and visible to the user.'')"

definition status_message :: "string \<Rightarrow> nat \<Rightarrow> json" where
  "status_message name status =
     (let code = int_str (int status) in
      if 200 \<le> status \<and> status < 300 then embedded_message name
      else if 400 \<le> status \<and> status < 500 then component_message False (name @ '': Client error '' @ code @ '' from embedded UI result.'')
      else if 500 \<le> status \<and> status < 600 then component_message False (name @ '': Server error '' @ code @ '' from embedded UI result.'')
      else component_message False (name @ '': Unexpected status code '' @ code @ '' from embedded UI result.''))"

text \<open>\<open>dict(headers)\<close>: a dictionary, or a list of pairs with texts as keys; anything else counts as no headers.\<close>

fun header_pairs :: "json list \<Rightarrow> dict option" where
  "header_pairs [] = Some []"
| "header_pairs (JList [JStr k, v] # ps) = map_option ((#) (k, v)) (header_pairs ps)"
| "header_pairs _ = None"

definition headers_of :: "json \<Rightarrow> dict" where
  "headers_of h = (case h of
     JDict d \<Rightarrow> d
   | JList ps \<Rightarrow> (case header_pairs ps of None \<Rightarrow> [] | Some d \<Rightarrow> dmerge [] d)
   | _ \<Rightarrow> [])"

definition header_value :: "dict \<Rightarrow> string \<Rightarrow> string \<Rightarrow> json" where
  "header_value d k k' = dget_or d k (dget_or d k' (JStr []))"

text \<open>A value with headers is shown embedded when its disposition is inline: the value itself or its location.\<close>

definition embedded_pair :: "string \<Rightarrow> json \<Rightarrow> dict \<Rightarrow> py_error + json \<times> json list" where
  "embedded_pair name v d =
     (if d = [] then Inr (v, [])
      else
        (let location = header_value d ''Location'' ''location'' in
         and_then (contains ''inline'' (header_value d ''Content-Disposition'' ''content-disposition'')) (\<lambda>inline.
           if \<not> inline then Inr (v, [])
           else and_then (contains ''text/html'' (header_value d ''Content-Type'' ''content-type'')) (\<lambda>html.
             Inr (if html then (embedded_message name, [v])
                  else if truthy location then (embedded_message name, [location])
                  else (v, []))))))"

definition unwrapped :: "string \<Rightarrow> bool \<Rightarrow> tool_answer \<Rightarrow> py_error + json \<times> json list" where
  "unwrapped name direct a = (case a of
     Html_answer disposition status body \<Rightarrow>
       Inr (if cut_at ''inline'' disposition \<noteq> None then (status_message name status, [JStr body]) else (JStr body, []))
   | Answer_pair v h \<Rightarrow> embedded_pair name v (headers_of h)
   | Answer (JList [v, h]) \<Rightarrow> if direct then embedded_pair name v (headers_of h) else Inr (JList [v, h], [])
   | Answer v \<Rightarrow> Inr (v, []))"

text \<open>The items of an answer of the model context protocol. Only images and sounds of two kinds can be stored.\<close>

record media =
  md_image :: "string \<Rightarrow> json"
  md_audio :: "string \<Rightarrow> json"

definition get_file_url_from_base64 :: "media \<Rightarrow> string \<Rightarrow> json" where
  "get_file_url_from_base64 md s =
     (if cut_at ''data:image/png;base64'' s \<noteq> None then md_image md s
      else if cut_at ''data:audio/wav;base64'' s \<noteq> None then md_audio md s
      else JNull)"

definition item_text :: "floats \<Rightarrow> dict \<Rightarrow> json" where
  "item_text fs d = (case dget_or d ''text'' (JStr []) of
     JStr s \<Rightarrow> (case loads (fl_json fs) s of None \<Rightarrow> JStr s | Some v \<Rightarrow> v)
   | v \<Rightarrow> v)"

definition media_file :: "media \<Rightarrow> dict \<Rightarrow> json" where
  "media_file md d = JDict [(''type'', dget_or d ''type'' (JStr ''data'')),
     (''url'', get_file_url_from_base64 md (''data:'' @ py_str (dget_or d ''mimeType'' JNull) @ '';base64,'' @
        py_str (dget_or d ''data'' (dget_or d ''blob'' (JStr [])))))]"

fun mcp_items :: "floats \<Rightarrow> media \<Rightarrow> json list \<Rightarrow> json list \<times> json list" where
  "mcp_items fs md [] = ([], [])"
| "mcp_items fs md (i # is) =
     (let (ts, files) = mcp_items fs md is
      in case i of
           JDict d \<Rightarrow>
             (let t = dget d ''type'' in
              if t = Some (JStr ''text'') then (item_text fs d # ts, files)
              else if t = Some (JStr ''image'') \<or> t = Some (JStr ''audio'') then (ts, media_file md d # files)
              else (ts, files))
         | _ \<Rightarrow> (ts, files))"

text \<open>
  Data URLs in a list are files. The loop removes them from the list it runs over, so it runs by position:
  after a removal the next item has moved to the position just left.
\<close>

definition data_url :: "json \<Rightarrow> bool" where
  "data_url v = (case v of JStr s \<Rightarrow> startswith s ''data:'' | _ \<Rightarrow> False)"

function take_data :: "nat \<Rightarrow> json list \<Rightarrow> json list \<times> json list" where
  "take_data i xs =
     (if length xs \<le> i then (xs, [])
      else if data_url (xs ! i)
      then (let (rest, files) = take_data (Suc i) (remove1 (xs ! i) xs)
            in (rest, JDict [(''type'', JStr ''data''), (''content'', xs ! i)] # files))
      else take_data (Suc i) xs)"
  by pat_completeness auto
termination by (relation "measure (\<lambda>(i, xs). length xs - i)") (auto simp: length_remove1)

declare take_data.simps [simp del]

definition listed_result :: "floats \<Rightarrow> media \<Rightarrow> string \<Rightarrow> json list \<Rightarrow> json \<times> json list" where
  "listed_result fs md kind xs =
     (if kind = ''mcp''
      then (let (ts, files) = mcp_items fs md xs in (case ts of [t] \<Rightarrow> t | _ \<Rightarrow> JList ts, files))
      else (let (rest, files) = take_data 0 xs in (JList rest, files)))"

definition result_text :: "json \<Rightarrow> json" where
  "result_text v = (case v of
     JList xs \<Rightarrow> JStr (pretty 0 (JDict [(''results'', v)]))
   | JDict d \<Rightarrow> JStr (pretty 0 v)
   | _ \<Rightarrow> v)"

definition process_tool_result :: "floats \<Rightarrow> media \<Rightarrow> string \<Rightarrow> tool_answer \<Rightarrow> string \<Rightarrow> bool \<Rightarrow> py_error + json \<times> json list \<times> json list" where
  "process_tool_result fs md name a kind direct =
     and_then (unwrapped name direct a) (\<lambda>(v, embeds).
       let (w, files) = (case v of JList xs \<Rightarrow> listed_result fs md kind xs | _ \<Rightarrow> (v, []))
       in Inr (result_text w, files, embeds))"

text \<open>The second of two data URLs in a row stays in the result.\<close>

lemma adjacent_data_kept:
  "take_data 0 [JStr ''data:a'', JStr ''data:b''] = ([JStr ''data:b''], [JDict [(''type'', JStr ''data''), (''content'', JStr ''data:a'')]])"
  by code_simp

section \<open>Running the tools\<close>

record tool =
  tl_spec :: dict
  tl_type :: string
  tl_direct :: bool
  tl_call :: "dict \<Rightarrow> string + tool_answer"

record round_env =
  re_stream :: stream_env
  re_media :: media
  re_tools :: "(string \<times> tool) list"
  re_literal :: "json \<Rightarrow> json option"
  re_error :: "py_error \<Rightarrow> string"

text \<open>The arguments are read as a Python literal, then as JSON; what is neither counts as no arguments.\<close>

definition tool_params :: "round_env \<Rightarrow> json \<Rightarrow> json" where
  "tool_params env args = (case re_literal env args of
     Some v \<Rightarrow> v
   | None \<Rightarrow> (case args of
       JStr s \<Rightarrow> (case loads (fl_json (se_floats (re_stream env))) s of None \<Rightarrow> JDict [] | Some v \<Rightarrow> v)
     | _ \<Rightarrow> JDict []))"

definition allowed_params :: "dict \<Rightarrow> json \<Rightarrow> py_error + dict" where
  "allowed_params spec params =
     and_then (item_or (dget_or spec ''parameters'' (JDict [])) ''properties'' (JDict [])) (\<lambda>props.
       case (props, params) of
         (JDict ps, JDict d) \<Rightarrow> Inr (filter (\<lambda>(k, v). dget ps k \<noteq> None) d)
       | _ \<Rightarrow> Inl AttributeError)"

definition run_tool :: "round_env \<Rightarrow> tool \<Rightarrow> json \<Rightarrow> tool_answer" where
  "run_tool env t params = (case allowed_params (tl_spec t) params of
     Inl e \<Rightarrow> Answer (JStr (re_error env e))
   | Inr d \<Rightarrow> (case tl_call t d of Inl e \<Rightarrow> Answer (JStr e) | Inr a \<Rightarrow> a))"

definition tool_result :: "json \<Rightarrow> json \<times> json list \<times> json list \<Rightarrow> dict" where
  "tool_result cid r = (case r of (v, files, embeds) \<Rightarrow>
     [(''tool_call_id'', cid), (''content'', if truthy v then v else JStr [])] @
     (if files = [] then [] else [(''files'', JList files)]) @
     (if embeds = [] then [] else [(''embeds'', JList embeds)]))"

text \<open>The call keeps the arguments that were read, as JSON text; a tool that does not exist answers nothing.\<close>

definition call_tool :: "round_env \<Rightarrow> dict \<Rightarrow> py_error + dict \<times> dict" where
  "call_tool env tc =
     and_then (item_or (dget_or tc ''function'' (JDict [])) ''name'' (JStr [])) (\<lambda>name.
     and_then (item_or (dget_or tc ''function'' (JDict [])) ''arguments'' (JStr ''{}'')) (\<lambda>args.
       let params = tool_params env args;
           f = (case dget_or tc ''function'' (JDict []) of JDict d \<Rightarrow> d | _ \<Rightarrow> []);
           tc' = dset ''function'' (JDict (dset ''arguments'' (JStr (dumps params)) f)) tc
       in and_then (case name of JStr n \<Rightarrow> Inr (map_of (re_tools env) n) | JList _ \<Rightarrow> Inl TypeError | JDict _ \<Rightarrow> Inl TypeError | _ \<Rightarrow> Inr None) (\<lambda>found.
          case found of
            None \<Rightarrow>
              and_then (process_tool_result (se_floats (re_stream env)) (re_media env) (py_str name) (Answer JNull) [] False) (\<lambda>r.
                Inr (tc', tool_result (dget_or tc ''id'' (JStr [])) r))
          | Some t \<Rightarrow>
              and_then (process_tool_result (se_floats (re_stream env)) (re_media env) (py_str name) (run_tool env t params) (tl_type t) (tl_direct t)) (\<lambda>r.
                Inr (tc', tool_result (dget_or tc ''id'' (JStr [])) r)))))"

definition call_tools :: "round_env \<Rightarrow> dict list \<Rightarrow> py_error + (dict \<times> dict) list" where
  "call_tools env calls = each (call_tool env) calls"

section \<open>Rounds of tool calls\<close>

definition emit_shown :: "round_env \<Rightarrow> time \<Rightarrow> unit stream_action" where
  "emit_shown env now = next_do shown_content (emit_completion (re_stream env) now)"

text \<open>The calls become a block, are run, and the block takes their results.\<close>

definition tool_round :: "round_env \<Rightarrow> time \<Rightarrow> dict list \<Rightarrow> unit stream_action" where
  "tool_round env now calls =
     next_do (set_blocks (\<lambda>bs. bs @ [Tool_block calls []])) (\<lambda>_.
     next_do (emit_shown env now) (\<lambda>_.
     next_do (lifted (call_tools env calls)) (\<lambda>rs.
     next_do (set_blocks (\<lambda>bs. map_last (\<lambda>_. Tool_block (map fst rs) (map snd rs)) bs @ [Text_block []])) (\<lambda>_.
       emit_shown env now))))"

text \<open>
  One more request to the model (\<open>ask\<close>: the lines of a stream, None for another answer). What raises here, or
  does not answer with a stream, ends the rounds.
\<close>

type_synonym model_call = "nat \<Rightarrow> dict list \<Rightarrow> py_error + string list option"

definition ask_again ::
  "round_env \<Rightarrow> model_call \<Rightarrow> (nat \<Rightarrow> nat \<Rightarrow> nat \<Rightarrow> time) \<Rightarrow> nat \<Rightarrow> (block list \<Rightarrow> py_error + dict list) \<Rightarrow> dict list option stream_action" where
  "ask_again env ask clk n request =
     trying
       (reading (\<lambda>s.
        next_do (lifted (request (ss_blocks s))) (\<lambda>ms.
        next_do (lifted (ask n ms)) (\<lambda>r. case r of
          None \<Rightarrow> pure None
        | Some lines \<Rightarrow> next_do (stream_body_handler (re_stream env) (clk n) lines) (\<lambda>calls. pure (Some calls))))))
       (pure None)"

definition tools_request :: "dict list \<Rightarrow> block list \<Rightarrow> py_error + dict list" where
  "tools_request form bs = and_then (convert_content_blocks_to_messages True bs) (\<lambda>ms. Inr (form @ ms))"

definition queued :: "dict list \<Rightarrow> dict list list" where
  "queued calls = (if calls = [] then [] else [calls])"

text \<open>At most \<open>k\<close> rounds; the result is the number of requests made so far.\<close>

fun tool_rounds ::
  "round_env \<Rightarrow> model_call \<Rightarrow> (nat \<Rightarrow> nat \<Rightarrow> nat \<Rightarrow> time) \<Rightarrow> dict list \<Rightarrow> nat \<Rightarrow> nat \<Rightarrow> dict list list \<Rightarrow> nat stream_action" where
  "tool_rounds env ask clk form 0 n queue = pure n"
| "tool_rounds env ask clk form (Suc k) n [] = pure n"
| "tool_rounds env ask clk form (Suc k) n (calls # queue) =
     next_do (tool_round env (clk n 0 13 div 1000000) calls) (\<lambda>_.
     next_do (ask_again env ask clk n (tools_request form)) (\<lambda>r. case r of
       None \<Rightarrow> pure (Suc n)
     | Some calls' \<Rightarrow> tool_rounds env ask clk form k (Suc n) (queue @ queued calls')))"

section \<open>Rounds of the code interpreter\<close>

text \<open>The engine runs code with a guard in front of it; without an engine there is no output.\<close>

record code_engine =
  ce_guard :: string
  ce_run :: "(string \<Rightarrow> string + json) option"

definition image_line :: "media \<Rightarrow> bool \<Rightarrow> string \<Rightarrow> string" where
  "image_line md kept line =
     (if cut_at ''data:image/png;base64'' line = None then line
      else (let u = md_image md line in if kept \<and> \<not> truthy u then line else ''![Output Image]('' @ py_str u @ '')''))"

definition image_lines :: "media \<Rightarrow> bool \<Rightarrow> string \<Rightarrow> dict \<Rightarrow> dict" where
  "image_lines md kept k d = (case dget_or d k (JStr []) of
     JStr s \<Rightarrow> dset k (JStr (join nl (map (image_line md kept) (split_on (CHR 0x0A) s)))) d
   | _ \<Rightarrow> d)"

definition code_output :: "media \<Rightarrow> code_engine \<Rightarrow> tagged \<Rightarrow> json" where
  "code_output md ce b =
     (if map_of (tg_attributes b) ''type'' \<noteq> Some ''code'' then JStr []
      else (case (case ce_run ce of
               None \<Rightarrow> Inr (JDict [(''stdout'', JStr ''Code interpreter engine not configured.'')])
             | Some run \<Rightarrow> run (if ce_guard ce = [] then tg_content b else ce_guard ce @ nl @ tg_content b)) of
          Inl e \<Rightarrow> JStr e
        | Inr (JDict d) \<Rightarrow> JDict (image_lines md False ''result'' (image_lines md True ''stdout'' d))
        | Inr v \<Rightarrow> v))"

definition code_request :: "dict list \<Rightarrow> block list \<Rightarrow> py_error + dict list" where
  "code_request form bs = and_then (serialize_content_blocks True bs) (\<lambda>s. Inr (form @ [new_message ''assistant'' s]))"

fun code_rounds ::
  "round_env \<Rightarrow> code_engine \<Rightarrow> model_call \<Rightarrow> (nat \<Rightarrow> nat \<Rightarrow> nat \<Rightarrow> time) \<Rightarrow> dict list \<Rightarrow> nat \<Rightarrow> nat \<Rightarrow> nat stream_action" where
  "code_rounds env ce ask clk form 0 n = pure n"
| "code_rounds env ce ask clk form (Suc k) n =
     reading (\<lambda>s. if ss_blocks s = [] then lifted (Inl IndexError)
       else (case last (ss_blocks s) of
         Tag_block b \<Rightarrow>
           if tg_type b \<noteq> ''code_interpreter'' then pure n
           else
             next_do (emit_shown env (clk n 0 13 div 1000000)) (\<lambda>_.
             next_do (set_blocks (\<lambda>bs. map_last (\<lambda>_. Tag_block (b\<lparr>tg_output := Some (code_output (re_media env) ce b)\<rparr>)) bs @ [Text_block []])) (\<lambda>_.
             next_do (emit_shown env (clk n 0 13 div 1000000)) (\<lambda>_.
             next_do (ask_again env ask clk n (code_request form)) (\<lambda>r. case r of
               None \<Rightarrow> pure (Suc n) | Some calls \<Rightarrow> code_rounds env ce ask clk form k (Suc n)))))
       | _ \<Rightarrow> pure n))"

section \<open>The answer\<close>

text \<open>The content an answer starts with: the stored one, or that of an assistant message to be continued.\<close>

definition initial_content :: "json option \<Rightarrow> dict list \<Rightarrow> py_error + json" where
  "initial_content stored form =
     (let continued = (if form = [] then JNull
        else if dget (last form) ''role'' = Some (JStr ''assistant'')
        then (case get_last_assistant_message form of Inl e \<Rightarrow> JNull | Inr v \<Rightarrow> v) else JNull)
      in case stored of
           Some m \<Rightarrow> if truthy m then item_or m ''content'' (JStr []) else Inr (if truthy continued then continued else JStr [])
         | None \<Rightarrow> Inr (if truthy continued then continued else JStr []))"

definition save_answer :: "round_env \<Rightarrow> time \<Rightarrow> unit stream_action" where
  "save_answer env now =
     next_do shown_content (\<lambda>shown. store (re_stream env) now (case shown of JDict d \<Rightarrow> d | _ \<Rightarrow> []))"

definition finish_answer :: "round_env \<Rightarrow> time \<Rightarrow> unit stream_action" where
  "finish_answer env now =
     next_do (\<lambda>s. case get_chat_title_by_id (ri_chat_id (se_info (re_stream env))) (ss_db s) of
         (t, db) \<Rightarrow> (Inr (case t of None \<Rightarrow> JNull | Some v \<Rightarrow> v), s\<lparr>ss_db := db\<rparr>)) (\<lambda>title.
     next_do (reading (\<lambda>s. lifted (serialize_content_blocks False (ss_blocks s)))) (\<lambda>c.
     next_do (only_if (\<not> se_realtime (re_stream env)) (save_answer env now)) (\<lambda>_.
       emit_completion (re_stream env) now (JDict [(''done'', JBool True), (''content'', JStr c), (''title'', title)]))))"

definition send_event :: "round_env \<Rightarrow> time \<Rightarrow> dict \<Rightarrow> unit stream_action" where
  "send_event env now ev = next_do (emit_completion (re_stream env) now (JDict ev)) (\<lambda>_. store (re_stream env) now ev)"

definition response_handler ::
  "round_env \<Rightarrow> code_engine \<Rightarrow> model_call \<Rightarrow> (nat \<Rightarrow> nat \<Rightarrow> nat \<Rightarrow> time) \<Rightarrow> nat \<Rightarrow> dict list \<Rightarrow> dict list \<Rightarrow> string list \<Rightarrow> unit stream_action" where
  "response_handler env ce ask clk retries form events lines =
     next_do (\<lambda>s. case get_message_by_id_and_message_id (ri_chat_id (se_info (re_stream env))) (ri_message_id (se_info (re_stream env))) (ss_db s) of
         (r, db) \<Rightarrow> (r, s\<lparr>ss_db := db\<rparr>)) (\<lambda>stored.
     next_do (lifted (initial_content stored form)) (\<lambda>c.
     next_do (case c of JStr t \<Rightarrow> changing (\<lambda>s. s\<lparr>ss_content := t, ss_blocks := [Text_block t]\<rparr>) | _ \<Rightarrow> lifted (Inl TypeError)) (\<lambda>_.
     next_do (do_each (send_event env (clk 0 0 13 div 1000000)) events) (\<lambda>_.
     next_do (stream_body_handler (re_stream env) (clk 0) lines) (\<lambda>calls.
     next_do (tool_rounds env ask clk form retries 1 (queued calls)) (\<lambda>n.
     next_do (if se_code (re_stream env) then code_rounds env ce ask clk form 5 n else pure n) (\<lambda>n.
       finish_answer env (clk n 0 13 div 1000000))))))))"

text \<open>When the task is cancelled the answer so far is saved.\<close>

definition on_cancel :: "round_env \<Rightarrow> time \<Rightarrow> unit stream_action" where
  "on_cancel env now =
     next_do (emit (re_stream env) now [(''type'', JStr ''chat:tasks:cancel'')]) (\<lambda>_.
       only_if (\<not> se_realtime (re_stream env)) (save_answer env now))"

section \<open>Every call is answered\<close>

definition call_id :: "dict \<Rightarrow> json" where "call_id tc = dget_or tc ''id'' (JStr [])"

definition call_arguments :: "dict \<Rightarrow> json" where
  "call_arguments tc = (case dget_or tc ''function'' (JDict []) of JDict f \<Rightarrow> dget_or f ''arguments'' (JStr ''{}'') | _ \<Rightarrow> JNull)"

lemma tool_result_id [simp]: "dget (tool_result cid r) ''tool_call_id'' = Some cid"
  by (cases r) (simp add: tool_result_def)

lemma call_tool_shape:
  assumes "call_tool env tc = Inr (tc', r)"
  shows "call_id tc' = call_id tc" "call_arguments tc' = JStr (dumps (tool_params env (call_arguments tc)))"
    "dget r ''tool_call_id'' = Some (call_id tc)"
proof -
  obtain f where f: "dget_or tc ''function'' (JDict []) = JDict f"
    using assms by (auto simp: call_tool_def item_or_def and_then_Inr_iff split: json.splits)
  let ?params = "tool_params env (dget_or f ''arguments'' (JStr ''{}''))"
  have t: "tc' = dset ''function'' (JDict (dset ''arguments'' (JStr (dumps ?params)) f)) tc"
    and r: "dget r ''tool_call_id'' = Some (call_id tc)"
    using assms by (auto simp: call_tool_def f item_or_def call_id_def and_then_Inr_iff Let_def split: option.splits)
  show "call_id tc' = call_id tc" by (simp add: t call_id_def dget_or_def)
  show "call_arguments tc' = JStr (dumps (tool_params env (call_arguments tc)))"
    by (simp add: t call_arguments_def f) (simp add: dget_or_def)
  show "dget r ''tool_call_id'' = Some (call_id tc)" by (rule r)
qed

lemma call_tools_shape:
  "call_tools env calls = Inr rs \<Longrightarrow> length rs = length calls \<and>
     (\<forall>i < length calls. call_tool env (calls ! i) = Inr (rs ! i))"
  unfolding call_tools_def
proof (induction calls arbitrary: rs)
  case (Cons c calls)
  then obtain x xs where x: "rs = x # xs" "call_tool env c = Inr x" "each (call_tool env) calls = Inr xs"
    by (auto simp: and_then_Inr_iff)
  then show ?case using Cons.IH[OF x(3)] by (auto simp: nth_Cons split: nat.splits)
qed simp

lemma last_tool_block:
  "blocks_to_messages raw temp (bs @ [Tool_block calls results, Text_block []]) = Inr ms \<Longrightarrow>
   \<exists>pre s rs. ms = pre @ calls_message s calls # rs \<and> each result_message results = Inr rs"
proof (induction bs arbitrary: temp ms)
  case Nil
  then show ?case
    by (auto simp: and_then_Inr_iff serialize_content_blocks_def add_block_def strip_def lstrip_def rstrip_def)
next
  case (Cons b bs)
  show ?case
  proof (cases b)
    case (Tool_block cs rs)
    then obtain s rms ms' where m: "ms = calls_message s cs # rms @ ms'"
        "blocks_to_messages raw [] (bs @ [Tool_block calls results, Text_block []]) = Inr ms'"
      using Cons.prems by (auto simp: and_then_Inr_iff)
    from Cons.IH[OF m(2)] obtain pre s' rs' where "ms' = pre @ calls_message s' calls # rs'" "each result_message results = Inr rs'" by blast
    then have "ms = (calls_message s cs # rms @ pre) @ calls_message s' calls # rs'" using m(1) by simp
    then show ?thesis using \<open>each result_message results = Inr rs'\<close> by blast
  qed (use Cons in auto)
qed

lemma result_messages:
  "each result_message rs = Inr ms \<Longrightarrow> map (\<lambda>m. dget m ''tool_call_id'') ms = map (\<lambda>r. dget r ''tool_call_id'') rs \<and>
     (\<forall>m \<in> set ms. dget m ''role'' = Some (JStr ''tool''))"
  by (induction rs arbitrary: ms) (auto simp: and_then_Inr_iff result_message_def Let_def split: option.splits)

text \<open>
  C11: Every tool call gets its answer. After a round of tools, the next request ends with one message that holds
  the calls and, right after it, one message of a tool for each call, in the order of the calls and with their ids.
  The arguments of each call are the JSON text of what was read from the arguments the model wrote, even where the
  model wrote no JSON.
\<close>

theorem tool_calls_answered:
  assumes "call_tools env calls = Inr rs"
    and "convert_content_blocks_to_messages True (bs @ [Tool_block (map fst rs) (map snd rs), Text_block []]) = Inr ms"
  shows "\<exists>pre s answers. ms = pre @ calls_message s (map fst rs) # answers \<and>
     map call_id (map fst rs) = map call_id calls \<and>
     map call_arguments (map fst rs) = map (\<lambda>c. JStr (dumps (tool_params env (call_arguments c)))) calls \<and>
     map (\<lambda>m. dget m ''tool_call_id'') answers = map (\<lambda>c. Some (call_id c)) calls \<and>
     (\<forall>m \<in> set answers. dget m ''role'' = Some (JStr ''tool''))"
proof -
  have r: "length rs = length calls" "call_tool env (calls ! i) = Inr (fst (rs ! i), snd (rs ! i))" if "i < length calls" for i
    using call_tools_shape[OF assms(1)] that by auto
  have l: "length rs = length calls" using call_tools_shape[OF assms(1)] by blast
  obtain pre s answers where m: "ms = pre @ calls_message s (map fst rs) # answers" "each result_message (map snd rs) = Inr answers"
    using last_tool_block assms(2) unfolding convert_content_blocks_to_messages_def by blast
  have "map call_id (map fst rs) = map call_id calls" "map (\<lambda>r. dget r ''tool_call_id'') (map snd rs) = map (\<lambda>c. Some (call_id c)) calls"
      "map call_arguments (map fst rs) = map (\<lambda>c. JStr (dumps (tool_params env (call_arguments c)))) calls"
    using call_tool_shape[OF r(2)] l by (auto intro!: nth_equalityI)
  then show ?thesis using m result_messages[OF m(2)] by (intro exI conjI) auto
qed

lemma tool_calls_answered_witness:
  "\<exists>cs ms pre s answers.
     ms = pre @ calls_message s cs # answers \<and> map call_id cs = [JStr ''c1'', JStr ''c2''] \<and>
     map call_arguments cs = [JStr ''{}'', JStr ''{}''] \<and>
     map (\<lambda>m. dget m ''tool_call_id'') answers = [Some (JStr ''c1''), Some (JStr ''c2'')]"
proof -
  let ?env = "\<lparr>re_stream = sample_env, re_media = \<lparr>md_image = \<lambda>s. JNull, md_audio = \<lambda>s. JNull\<rparr>,
     re_tools = [(''ls'', \<lparr>tl_spec = [(''parameters'', JDict [(''properties'', JDict [])])], tl_type = [], tl_direct = False,
        tl_call = \<lambda>d. Inr (Answer (JList [JStr ''x'']))\<rparr>)], re_literal = \<lambda>v. None, re_error = \<lambda>e. []\<rparr>"
  let ?calls = "[call_of 0 [(''id'', JStr ''c1'')] ''ls'' [], call_of 1 [(''id'', JStr ''c2'')] ''rm'' ''{}'']"
  have l: "loads id [] = None" "loads id ''{}'' = Some (JDict [])" "take_data 0 [JStr ''x''] = ([JStr ''x''], [])" by code_simp+
  have e: "se_floats sample_env = \<lparr>fl_read = Some, fl_json = id, fl_int = (\<lambda>i. None), fl_trunc = (\<lambda>r. None)\<rparr>" by (simp add: sample_env_def)
  have p: "tool_params ?env (call_arguments c) = JDict []" if "c \<in> set ?calls" for c
    using that l by (auto simp: tool_params_def call_arguments_def call_of_def dget_or_def e)
  obtain rs where rs: "call_tools ?env ?calls = Inr rs"
    using l by (auto simp: call_tools_def call_tool_def call_of_def dget_or_def item_or_def tool_params_def e Let_def
        process_tool_result_def unwrapped_def run_tool_def allowed_params_def listed_result_def split: prod.splits)
  obtain a b where ab: "rs = [a, b]" using call_tools_shape[OF rs] by (auto simp: length_Suc_conv)
  have i: "dget (snd a) ''tool_call_id'' \<noteq> None" "dget (snd b) ''tool_call_id'' \<noteq> None"
    using call_tools_shape[OF rs] call_tool_shape(3)[of ?env _ "fst a" "snd a"] call_tool_shape(3)[of ?env _ "fst b" "snd b"] ab
    by (force simp: nth_Cons split: nat.splits)+
  obtain ms where ms: "convert_content_blocks_to_messages True ([] @ [Tool_block (map fst rs) (map snd rs), Text_block []]) = Inr ms"
    using i by (auto simp: convert_content_blocks_to_messages_def ab serialize_content_blocks_def add_block_def result_message_def Let_def)
  have c: "map call_id ?calls = [JStr ''c1'', JStr ''c2'']" by (simp add: call_id_def call_of_def dget_or_def)
  have a: "map (\<lambda>c. JStr (dumps (tool_params ?env (call_arguments c)))) ?calls = [JStr ''{}'', JStr ''{}'']" using p by simp
  obtain pre s answers where o': "ms = pre @ calls_message s (map fst rs) # answers" "map call_id (map fst rs) = map call_id ?calls"
      "map call_arguments (map fst rs) = map (\<lambda>c. JStr (dumps (tool_params ?env (call_arguments c)))) ?calls"
      "map (\<lambda>m. dget m ''tool_call_id'') answers = map (\<lambda>c. Some (call_id c)) ?calls"
    using tool_calls_answered[OF rs ms] by blast
  have "map (\<lambda>m. dget m ''tool_call_id'') answers = [Some (JStr ''c1''), Some (JStr ''c2'')]" using o'(4) c by simp
  moreover have "map call_id (map fst rs) = [JStr ''c1'', JStr ''c2'']" "map call_arguments (map fst rs) = [JStr ''{}'', JStr ''{}'']"
    using o'(2,3) c a by metis+
  ultimately have "ms = pre @ calls_message s (map fst rs) # answers \<and> map call_id (map fst rs) = [JStr ''c1'', JStr ''c2''] \<and>
     map call_arguments (map fst rs) = [JStr ''{}'', JStr ''{}''] \<and>
     map (\<lambda>m. dget m ''tool_call_id'') answers = [Some (JStr ''c1''), Some (JStr ''c2'')]"
    using o'(1) by (intro conjI)
  then show ?thesis by - ((rule exI)+, assumption)
qed

section \<open>An answer of text\<close>

lemma no_tool_rounds [simp]: "tool_rounds env ask clk form k n [] = pure n"
  by (cases k) simp_all

lemma no_code_rounds: "ss_blocks s = [Text_block u] \<Longrightarrow> code_rounds env ce ask clk form k n s = (Inr n, s)"
  by (cases k) simp_all

text \<open>
  A streamed answer of text is saved. When the message of the chat holds a text (what an interrupted answer
  left, or none), the model streams pieces of text without tags, and nothing is saved on the way, the answer ends
  without an exception and the message holds the old text followed by the pieces, less the space around it and
  its null characters.
\<close>

lemma plain_answer_saved:
  assumes "holds_text (se_info (re_stream env)) held (ss_db st)" "\<not> se_realtime (re_stream env)"
    and "\<forall>(d, p) \<in> set ds. text_data d p \<and> json_ok (fl_json (se_floats (re_stream env))) (JDict d)"
    and "se_filter (re_stream env) = Inr" "se_convert (re_stream env) = None"
    and "tagless (watched_tags (re_stream env)) (held @ concat (map snd ds))"
  shows "\<exists>st'. response_handler env ce ask clk retries form [] (map (data_line \<circ> fst) ds) st = (Inr (), st') \<and>
    holds_text (se_info (re_stream env)) (clean_text (strip (held @ concat (map snd ds)))) (ss_db st')"
proof -
  let ?ri = "se_info (re_stream env)" and ?t = "held @ concat (map snd ds)"
  obtain m db0 where m: "get_message_by_id_and_message_id (ri_chat_id ?ri) (ri_message_id ?ri) (ss_db st) = (Inr (Some (JDict m)), db0)"
      "dget m ''content'' = Some (JStr held)" "holds_text ?ri held db0"
    by (rule text_read[OF assms(1)])
  have i: "initial_content (Some (JDict m)) form = Inr (JStr held)"
    using m(2) by (auto simp: initial_content_def item_or_def dget_or_def)
  let ?s0 = "st\<lparr>ss_db := db0, ss_content := held, ss_blocks := [Text_block held]\<rparr>"
  have s0: "ss_content ?s0 = held" "ss_blocks ?s0 = [Text_block held]" by simp_all
  obtain s1 where s1: "stream_body_handler (re_stream env) (clk 0) (map (data_line \<circ> fst) ds) ?s0 = (Inr [], s1)"
      "ss_blocks s1 = [Text_block (strip ?t)]" "ss_db s1 = db0"
    using streamed_text[OF assms(3-6) s0, of "clk 0"] assms(2) by auto
  have c: "get_chat_title_by_id (ri_chat_id ?ri) db0 = (Some v, db1) \<Longrightarrow> holds_text ?ri held db1" for v db1
    using m(3) read_clean unfolding holds_text_def get_chat_title_by_id_def by (fastforce split: prod.splits option.splits)
  obtain v db1 where t: "get_chat_title_by_id (ri_chat_id ?ri) db0 = (Some v, db1)"
    using m(3) unfolding holds_text_def get_chat_title_by_id_def by (auto split: prod.splits)
  obtain db2 where w: "merge_message (clk 1 0 13 div 1000000) ?ri [(''content'', JStr (strip (strip ?t)))] db1 = (Inr (), db2)"
      "holds_text ?ri (clean_text (strip (strip ?t))) db2"
    by (rule text_written[OF c[OF t]])
  have ser: "serialize_content_blocks raw [Text_block (strip u)] = Inr (strip (strip u))" for u raw
    by (simp add: serialize_content_blocks_def add_block_def)
  show ?thesis using s1 w t assms(2) no_code_rounds[OF s1(2)]
    by (simp add: response_handler_def next_do_def m(1) i queued_def finish_answer_def save_answer_def shown_content_def ser store_def
        split: prod.split)
qed

lemma plain_answer_saved_witness:
  "\<exists>st'. response_handler
      \<lparr>re_stream = sample_env\<lparr>se_realtime := False\<rparr>, re_media = \<lparr>md_image = \<lambda>s. JNull, md_audio = \<lambda>s. JNull\<rparr>, re_tools = [],
        re_literal = \<lambda>v. None, re_error = \<lambda>e. []\<rparr>
      \<lparr>ce_guard = [], ce_run = None\<rparr> (\<lambda>n ms. Inr None) (\<lambda>i n j. 0) 30 [] []
      [data_line (delta_data [(''content'', JStr '' th'')]), data_line (delta_data [(''content'', JStr ''ere'')])] sample_state = (Inr (), st') \<and>
    holds_text (se_info sample_env) ''hi there'' (ss_db st')"
proof -
  let ?env = "\<lparr>re_stream = sample_env\<lparr>se_realtime := False\<rparr>, re_media = \<lparr>md_image = \<lambda>s. JNull, md_audio = \<lambda>s. JNull\<rparr>, re_tools = [],
        re_literal = \<lambda>v. None, re_error = \<lambda>e. []\<rparr>"
  have d: "text_data (delta_data [(''content'', JStr p)]) p" for p
    by (simp add: text_data_def delta_data_def merged_usage_def dget_or_def dmerge_def)
  have "tagless (watched_tags (re_stream ?env)) ''hi there''" by code_simp
  moreover have "holds_text (se_info sample_env) ''hi'' sample_chats"
  proof -
    let ?c = "sanitize_chat_row memo_chat"
    have "get_chat_by_id ''k1'' sample_chats = (Some ?c, snd (get_chat_by_id ''k1'' sample_chats))"
      using sample_row by (simp add: get_chat_by_id_def chat_model_def sanitize_chat_row_def memo_chat_def)
    then show ?thesis
      unfolding holds_text_def
      by (intro exI[of _ ?c] exI) (auto simp: sample_env_def sanitize_chat_row_def memo_chat_def clean_dict_def clean_text_def title_of_def)
  qed
  moreover have "clean_text (strip ''hi there'') = ''hi there''" by code_simp
  ultimately show ?thesis
    using plain_answer_saved[of ?env "''hi''" sample_state
        "[(delta_data [(''content'', JStr '' th'')], '' th''), (delta_data [(''content'', JStr ''ere'')], ''ere'')]"
        "\<lparr>ce_guard = [], ce_run = None\<rparr>" "\<lambda>n ms. Inr None" "\<lambda>i n j. 0" 30 "[]"] d
    by (simp add: sample_state_def sample_env_def delta_data_def comp_def)
qed

end
