(* ===== verification/Priorities.thy ===== *)
theory Priorities
  imports Complex_Main Python
begin

text \<open>
  Priorities of filters, by which \<^verbatim>\<open>utils/filter.py\<close> and \<^verbatim>\<open>routers/pipelines.py\<close> sort: integers, truth values and
  finite floating-point numbers, compared as Python compares them. A float is the text \<^verbatim>\<open>repr\<close> writes for it, which
  is ordered as the number is. Any other value is taken to end the sort with a \<^verbatim>\<open>TypeError\<close>, as it does as soon as
  it is compared with a number; infinities, not-a-number and lists sorted by texts are left aside.
\<close>

definition unsigned_float :: "string \<Rightarrow> rat option" where
  "unsigned_float r =
     (let m = takeWhile (\<lambda>c. c \<noteq> CHR ''e'') r; x = drop (length m + 1) r;
          w = takeWhile (\<lambda>c. c \<noteq> CHR ''.'') m; f = drop (length w + 1) m
      in if w = [] \<or> \<not> list_all is_digit (w @ f) then None
         else map_option (\<lambda>e. of_nat (digits_val (w @ f)) * 10 powi (e - int (length f))) (if x = [] then Some 0 else py_int x))"

definition float_value :: "string \<Rightarrow> rat option" where
  "float_value r =
     (case r of c # cs \<Rightarrow> (if c = CHR ''-'' then map_option uminus (unsigned_float cs) else unsigned_float r) | [] \<Rightarrow> None)"

fun priority_value :: "json \<Rightarrow> py_error + rat" where
  "priority_value (JInt n) = Inr (of_int n)"
| "priority_value (JBool b) = Inr (if b then 1 else 0)"
| "priority_value (JFloat r) = (case float_value r of None \<Rightarrow> Inl TypeError | Some q \<Rightarrow> Inr q)"
| "priority_value v = Inl TypeError"

text \<open>Integers keep their order, and a fraction lies between its neighbours.\<close>

lemma priority_order:
  "priority_value (JInt m) = Inr p \<Longrightarrow> priority_value (JInt n) = Inr q \<Longrightarrow> p \<le> q \<longleftrightarrow> m \<le> n"
  by auto

lemma priority_examples:
  "priority_value (JFloat ''0.5'') = Inr (1 / 2)"
  "priority_value (JFloat ''-12.25'') = Inr (- 49 / 4)"
  "priority_value (JFloat ''1.5e-05'') = Inr (3 / 200000)"
  "priority_value (JFloat ''1e+16'') = Inr 10000000000000000"
  "priority_value (JFloat ''nan'') = Inl TypeError"
  by code_simp+

end
