(* ===== verification/Plugins.thy ===== *)
theory Plugins
  imports Priorities Resources Content_Blocks Task_Templates Actions
begin

text \<open>
  Functions that administrators add as Python text: their table (\<^verbatim>\<open>models/functions.py\<close>), the loading and caching
  of their modules (\<^verbatim>\<open>utils/plugin.py\<close>), the filters of a request (\<^verbatim>\<open>utils/filter.py\<close>). What running the text
  of a module gives, and the installation of the packages it asks for, are the record \<open>plugin_env\<close>.
\<close>

section \<open>The table\<close>

record func =
  fn_id :: id
  fn_user_id :: id
  fn_name :: string
  fn_type :: string
  fn_content :: string
  fn_meta :: dict
  fn_valves :: "dict option"
  fn_is_active :: bool
  fn_is_global :: bool
  fn_updated_at :: time
  fn_created_at :: time

record func_form =
  pg_id :: id
  pg_name :: string
  pg_content :: string
  pg_meta :: dict

definition func_row :: "id \<Rightarrow> func list \<Rightarrow> func option" where
  "func_row i fs = first_row (\<lambda>f. fn_id f = i) fs"

definition insert_new_function :: "time \<Rightarrow> id \<Rightarrow> string \<Rightarrow> func_form \<Rightarrow> func list \<Rightarrow> func option \<times> func list" where
  "insert_new_function now user_id kind form fs =
     (let f = \<lparr>fn_id = pg_id form, fn_user_id = user_id, fn_name = pg_name form, fn_type = kind, fn_content = pg_content form,
        fn_meta = pg_meta form, fn_valves = None, fn_is_active = False, fn_is_global = False, fn_updated_at = now, fn_created_at = now\<rparr>
      in case add_row fn_id f fs of None \<Rightarrow> (None, fs) | Some fs' \<Rightarrow> (Some f, fs'))"

text \<open>An id that is new but given twice breaks the key, and nothing of the synchronisation is kept.\<close>

fun sync_rows :: "time \<Rightarrow> id \<Rightarrow> id set \<Rightarrow> func list \<Rightarrow> func list \<Rightarrow> func list option" where
  "sync_rows now user_id existing [] fs = Some fs"
| "sync_rows now user_id existing (g # gs) fs =
     (let f = g\<lparr>fn_user_id := user_id, fn_updated_at := now\<rparr> in
      if fn_id g \<in> existing then sync_rows now user_id existing gs (upd_rows (\<lambda>r. fn_id r = fn_id g) (\<lambda>r. f) fs)
      else (case add_row fn_id f fs of None \<Rightarrow> None | Some fs' \<Rightarrow> sync_rows now user_id existing gs fs'))"

definition sync_functions :: "time \<Rightarrow> id \<Rightarrow> func list \<Rightarrow> func list \<Rightarrow> func list \<times> func list" where
  "sync_functions now user_id gs fs =
     (case sync_rows now user_id (fn_id ` set fs) gs fs of
        None \<Rightarrow> ([], fs)
      | Some fs1 \<Rightarrow>
          (let fs2 = del_rows (\<lambda>r. fn_id r \<in> fn_id ` set fs \<and> fn_id r \<notin> fn_id ` set gs) fs1 in (fs2, fs2)))"

definition get_function_by_id :: "id \<Rightarrow> func list \<Rightarrow> func option" where
  "get_function_by_id i fs = func_row i fs"

definition get_functions :: "bool \<Rightarrow> func list \<Rightarrow> func list" where
  "get_functions active_only fs = (if active_only then all_rows fn_is_active fs else fs)"

definition get_function_list :: "user_db \<Rightarrow> func list \<Rightarrow> (func \<times> user_response option) list" where
  "get_function_list udb fs = with_owners fn_user_id udb (order_desc fn_updated_at fs)"

definition get_functions_by_type :: "string \<Rightarrow> bool \<Rightarrow> func list \<Rightarrow> func list" where
  "get_functions_by_type kind active_only fs = all_rows (\<lambda>f. fn_type f = kind \<and> (active_only \<longrightarrow> fn_is_active f)) fs"

definition get_global_functions :: "string \<Rightarrow> func list \<Rightarrow> func list" where
  "get_global_functions kind fs = all_rows (\<lambda>f. fn_type f = kind \<and> fn_is_active f \<and> fn_is_global f) fs"

definition get_global_filter_functions :: "func list \<Rightarrow> func list" where
  "get_global_filter_functions fs = get_global_functions ''filter'' fs"

definition get_global_action_functions :: "func list \<Rightarrow> func list" where
  "get_global_action_functions fs = get_global_functions ''action'' fs"

definition get_function_valves_by_id :: "id \<Rightarrow> func list \<Rightarrow> dict option" where
  "get_function_valves_by_id i fs = map_option (\<lambda>f. case fn_valves f of None \<Rightarrow> [] | Some d \<Rightarrow> d) (func_row i fs)"

definition update_func :: "id \<Rightarrow> (func \<Rightarrow> func) \<Rightarrow> func list \<Rightarrow> func option \<times> func list" where
  "update_func i g fs = (let fs' = upd_rows (\<lambda>f. fn_id f = i) g fs in (get_function_by_id i fs', fs'))"

definition update_function_valves_by_id :: "time \<Rightarrow> id \<Rightarrow> dict \<Rightarrow> func list \<Rightarrow> func option \<times> func list" where
  "update_function_valves_by_id now i valves fs = update_func i (\<lambda>f. f\<lparr>fn_valves := Some valves, fn_updated_at := now\<rparr>) fs"

definition update_function_metadata_by_id :: "time \<Rightarrow> id \<Rightarrow> dict \<Rightarrow> func list \<Rightarrow> func option \<times> func list" where
  "update_function_metadata_by_id now i metadata fs =
     update_func i (\<lambda>f. f\<lparr>fn_meta := dmerge (fn_meta f) metadata, fn_updated_at := now\<rparr>) fs"

definition update_function_by_id :: "time \<Rightarrow> id \<Rightarrow> (func \<Rightarrow> func) \<Rightarrow> func list \<Rightarrow> func option \<times> func list" where
  "update_function_by_id now i g fs = update_func i (\<lambda>f. (g f)\<lparr>fn_updated_at := now\<rparr>) fs"

definition deactivate_all_functions :: "time \<Rightarrow> func list \<Rightarrow> bool \<times> func list" where
  "deactivate_all_functions now fs = (True, map (\<lambda>f. f\<lparr>fn_is_active := False, fn_updated_at := now\<rparr>) fs)"

definition delete_function_by_id :: "id \<Rightarrow> func list \<Rightarrow> bool \<times> func list" where
  "delete_function_by_id i fs = (True, del_rows (\<lambda>f. fn_id f = i) fs)"

section \<open>Valves of a user\<close>

text \<open>
  The settings of a user hold the valves of functions and of tools (\<open>kind\<close>) under their ids. The model of the
  settings has the entry \<open>ui\<close> in any case.
\<close>

definition settings_dump :: "dict option \<Rightarrow> dict" where
  "settings_dump settings = (case settings of
     None \<Rightarrow> [] | Some d \<Rightarrow> (''ui'', dget_or d ''ui'' (JDict [])) # dpop ''ui'' d)"

definition with_valves :: "string \<Rightarrow> dict \<Rightarrow> dict option" where
  "with_valves kind settings = (case dget_or settings kind (JDict []) of
     JDict d \<Rightarrow> Some (dset kind (JDict (if dget d ''valves'' = None then dset ''valves'' (JDict []) d else d)) settings)
   | _ \<Rightarrow> None)"

definition stored_valves :: "string \<Rightarrow> dict \<Rightarrow> dict option" where
  "stored_valves kind settings = (case dget settings kind of
     Some (JDict d) \<Rightarrow> (case dget d ''valves'' of Some (JDict v) \<Rightarrow> Some v | _ \<Rightarrow> None)
   | _ \<Rightarrow> None)"

definition get_user_valves :: "string \<Rightarrow> id \<Rightarrow> id \<Rightarrow> user_db \<Rightarrow> json option" where
  "get_user_valves kind i user_id udb =
     (case get_user_by_id user_id udb of
        None \<Rightarrow> None
      | Some u \<Rightarrow>
          (case with_valves kind (settings_dump (u_settings u)) of
             None \<Rightarrow> None
           | Some s \<Rightarrow> map_option (\<lambda>v. dget_or v i (JDict [])) (stored_valves kind s)))"

definition update_user_valves :: "string \<Rightarrow> id \<Rightarrow> id \<Rightarrow> dict \<Rightarrow> user_db \<Rightarrow> dict option \<times> user_db" where
  "update_user_valves kind i user_id valves udb =
     (case get_user_by_id user_id udb of
        None \<Rightarrow> (None, udb)
      | Some u \<Rightarrow>
          (case with_valves kind (settings_dump (u_settings u)) of
             None \<Rightarrow> (None, udb)
           | Some s \<Rightarrow>
               (case (dget s kind, stored_valves kind s) of
                  (Some (JDict d), Some v) \<Rightarrow>
                    (let s' = dset kind (JDict (dset ''valves'' (JDict (dset i (JDict valves) v)) d)) s
                     in (Some valves, snd (update_user_by_id user_id [SetSettings (Some s')] udb)))
                | _ \<Rightarrow> (None, udb))))"

section \<open>The text of a plugin\<close>

text \<open>The first lines between triple quotes: \<open>key: value\<close>.\<close>

definition quotes :: string where "quotes = replicate 3 (CHR 0x22)"

definition key_char :: "char \<Rightarrow> bool" where
  "key_char c \<longleftrightarrow> (let n = code c in 65 \<le> n \<and> n \<le> 90 \<or> 97 \<le> n \<and> n \<le> 122 \<or> n = 95)"

definition matter_line :: "string \<Rightarrow> (string \<times> string) option" where
  "matter_line l =
     (let s = lstrip l; k = takeWhile key_char s; r = dropWhile key_char s
      in if k \<noteq> [] \<and> startswith r '':'' then Some (k, strip (tl r)) else None)"

definition extract_frontmatter :: "string \<Rightarrow> dict" where
  "extract_frontmatter content = (case splitlines content of
     [] \<Rightarrow> []
   | l # ls \<Rightarrow>
       if strip l \<noteq> quotes then []
       else foldl (\<lambda>d l. case matter_line l of None \<Rightarrow> d | Some (k, v) \<Rightarrow> dset k (JStr v) d) []
              (takeWhile (\<lambda>l. cut_at quotes l = None) ls))"

definition replace_imports :: "string \<Rightarrow> string" where
  "replace_imports content =
     replace_each [(''from utils'', ''from open_webui.utils''), (''from apps'', ''from open_webui.apps''),
       (''from main'', ''from open_webui.main''), (''from config'', ''from open_webui.config'')] content"

section \<open>Modules\<close>

text \<open>
  What a module offers: its kind, whether it is toggled, its valves (None refuses the values), its file handler
  flag and its handlers, which take the valves in force and the data of the request.
\<close>

record module =
  mo_kind :: string
  mo_toggle :: bool
  mo_has_valves :: bool
  mo_valves :: "(dict \<Rightarrow> dict option) option"
  mo_user_valves :: "(dict \<Rightarrow> dict option) option"
  mo_file_handler :: "bool option"
  mo_handlers :: "(string \<times> (dict option \<Rightarrow> json \<Rightarrow> py_error + json)) list"

record plugin_env =
  pe_exec :: "string \<Rightarrow> py_error + module"
  pe_install :: "string \<Rightarrow> py_error + unit"

record plugin_state =
  ps_funcs :: "func list"
  ps_modules :: "(id \<times> module) list"
  ps_contents :: "(id \<times> string) list"

type_synonym 'a plugin_action = "(plugin_state, 'a) action"

definition set_funcs :: "(func list \<Rightarrow> 'r \<times> func list) \<Rightarrow> 'r plugin_action" where
  "set_funcs g s = (let (r, fs) = g (ps_funcs s) in (Inr r, s\<lparr>ps_funcs := fs\<rparr>))"

definition set_content :: "time \<Rightarrow> id \<Rightarrow> string \<Rightarrow> unit plugin_action" where
  "set_content now i content = next_do (set_funcs (update_function_by_id now i (\<lambda>f. f\<lparr>fn_content := content\<rparr>))) (\<lambda>_. pure ())"

definition install_frontmatter_requirements :: "plugin_env \<Rightarrow> string \<Rightarrow> py_error + unit" where
  "install_frontmatter_requirements env reqs = (if reqs = [] then Inr () else pe_install env reqs)"

text \<open>The text to run: that of the row, whose imports are rewritten in the table, or the given one after its packages.\<close>

definition function_content :: "plugin_env \<Rightarrow> time \<Rightarrow> id \<Rightarrow> string option \<Rightarrow> string plugin_action" where
  "function_content env now i content = (case content of
     None \<Rightarrow> reading (\<lambda>s. case get_function_by_id i (ps_funcs s) of
         None \<Rightarrow> lifted (Inl ValueError)
       | Some f \<Rightarrow> next_do (set_content now i (replace_imports (fn_content f))) (\<lambda>_. pure (replace_imports (fn_content f))))
   | Some c \<Rightarrow>
       next_do (lifted (install_frontmatter_requirements env (case dget (extract_frontmatter c) ''requirements'' of Some (JStr r) \<Rightarrow> r | _ \<Rightarrow> [])))
         (\<lambda>_. pure c))"

text \<open>A module that fails to load deactivates its function.\<close>

definition load_function_module_by_id :: "plugin_env \<Rightarrow> time \<Rightarrow> id \<Rightarrow> string option \<Rightarrow> (module \<times> string \<times> dict) plugin_action" where
  "load_function_module_by_id env now i content =
     next_do (function_content env now i content) (\<lambda>c. case pe_exec env c of
       Inr m \<Rightarrow> pure (m, mo_kind m, extract_frontmatter c)
     | Inl e \<Rightarrow> next_do (set_funcs (update_function_by_id now i (\<lambda>f. f\<lparr>fn_is_active := False\<rparr>))) (\<lambda>_. lifted (Inl e)))"

definition cache_module :: "id \<Rightarrow> module \<Rightarrow> unit plugin_action" where
  "cache_module i m = changing (\<lambda>s. s\<lparr>ps_modules := AList.update i m (ps_modules s)\<rparr>)"

definition cache_content :: "id \<Rightarrow> string \<Rightarrow> unit plugin_action" where
  "cache_content i c = changing (\<lambda>s. s\<lparr>ps_contents := AList.update i c (ps_contents s)\<rparr>)"

text \<open>
  Without a look at the table, a module that is not cached is loaded and cached, but the text to be kept with it is
  a variable that was never set.
\<close>

definition get_function_module_from_cache :: "plugin_env \<Rightarrow> time \<Rightarrow> id \<Rightarrow> bool \<Rightarrow> module plugin_action" where
  "get_function_module_from_cache env now i load_from_db =
     (if load_from_db
      then reading (\<lambda>s. case get_function_by_id i (ps_funcs s) of
          None \<Rightarrow> lifted (Inl ValueError)
        | Some f \<Rightarrow>
            (let c = replace_imports (fn_content f) in
             next_do (only_if (c \<noteq> fn_content f) (set_content now i c)) (\<lambda>_.
             case (map_of (ps_modules s) i, map_of (ps_contents s) i = Some c) of
               (Some m, True) \<Rightarrow> pure m
             | _ \<Rightarrow>
                 next_do (load_function_module_by_id env now i (Some c)) (\<lambda>(m, _).
                 next_do (cache_module i m) (\<lambda>_. next_do (cache_content i c) (\<lambda>_. pure m))))))
      else reading (\<lambda>s. case map_of (ps_modules s) i of
          Some m \<Rightarrow> pure m
        | None \<Rightarrow>
            next_do (load_function_module_by_id env now i None) (\<lambda>(m, _).
            next_do (cache_module i m) (\<lambda>_. lifted (Inl NameError)))))"

section \<open>Filters\<close>

definition filter_priority :: "func list \<Rightarrow> id \<Rightarrow> py_error + rat" where
  "filter_priority fs i = (case get_function_by_id i fs of
     None \<Rightarrow> Inr 0
   | Some f \<Rightarrow> priority_value (dget_or (case fn_valves f of None \<Rightarrow> [] | Some d \<Rightarrow> d) ''priority'' (JInt 0)))"

text \<open>The filters named by the model, if it has any.\<close>

definition model_filter_ids :: "dict \<Rightarrow> py_error + id list option" where
  "model_filter_ids model = (case dget model ''info'' of
     Some (JDict info) \<Rightarrow>
       (case dget info ''meta'' of
          None \<Rightarrow> Inr None
        | Some (JDict meta) \<Rightarrow>
            (case dget_or meta ''filterIds'' (JList []) of
               JList vs \<Rightarrow> and_then (each (\<lambda>v. case v of JStr s \<Rightarrow> Inr s | _ \<Rightarrow> Inl TypeError) vs) (\<lambda>is. Inr (Some is))
             | _ \<Rightarrow> Inl TypeError)
        | Some _ \<Rightarrow> Inl AttributeError)
   | Some _ \<Rightarrow> Inl TypeError
   | None \<Rightarrow> Inr None)"

definition active_filter :: "plugin_env \<Rightarrow> time \<Rightarrow> id list \<Rightarrow> id \<Rightarrow> bool plugin_action" where
  "active_filter env now enabled i =
     next_do (get_function_module_from_cache env now i True) (\<lambda>m. pure (mo_toggle m \<longrightarrow> i \<in> set enabled))"

fun filter_action :: "('a \<Rightarrow> ('s, bool) action) \<Rightarrow> 'a list \<Rightarrow> ('s, 'a list) action" where
  "filter_action p [] = pure []"
| "filter_action p (x # xs) = next_do (p x) (\<lambda>b. next_do (filter_action p xs) (\<lambda>ys. pure (if b then x # ys else ys)))"

text \<open>
  The order a Python set lists its elements in is the argument \<open>listed\<close>. The filters are sorted by their
  priority, a number; the sort is stable.
\<close>

definition get_sorted_filter_ids :: "plugin_env \<Rightarrow> time \<Rightarrow> (id list \<Rightarrow> id list) \<Rightarrow> dict \<Rightarrow> id list \<Rightarrow> id list plugin_action" where
  "get_sorted_filter_ids env now listed model enabled =
     reading (\<lambda>s.
     next_do (lifted (model_filter_ids model)) (\<lambda>named.
     let global_ids = map fn_id (get_global_filter_functions (ps_funcs s));
         ids = (case named of None \<Rightarrow> global_ids | Some is \<Rightarrow> listed (global_ids @ is))
     in next_do (filter_action (active_filter env now enabled) (map fn_id (get_functions_by_type ''filter'' True (ps_funcs s)))) (\<lambda>active.
        reading (\<lambda>s'.
        next_do (lifted (each (filter_priority (ps_funcs s')) (filter (\<lambda>i. i \<in> set active) ids))) (\<lambda>ps.
          pure (map snd (sort_key fst (zip ps (filter (\<lambda>i. i \<in> set active) ids)))))))))"

text \<open>
  One filter: its valves are set, its handler runs on the data. The flag of a file handler is taken over by every
  inlet filter that has one.
\<close>

definition apply_filter :: "plugin_env \<Rightarrow> time \<Rightarrow> string \<Rightarrow> func \<Rightarrow> json \<times> bool \<Rightarrow> (json \<times> bool) plugin_action" where
  "apply_filter env now kind f x =
     next_do (get_function_module_from_cache env now (fn_id f) (kind \<noteq> ''stream'')) (\<lambda>m.
       case map_of (mo_handlers m) kind of
         None \<Rightarrow> pure x
       | Some handler \<Rightarrow>
           reading (\<lambda>s.
           let skip = (case mo_file_handler m of Some b \<Rightarrow> if kind = ''inlet'' then b else snd x | None \<Rightarrow> snd x);
               valves = (case mo_valves m of
                   Some check \<Rightarrow>
                     if mo_has_valves m
                     then (case check (case get_function_valves_by_id (fn_id f) (ps_funcs s) of None \<Rightarrow> [] | Some d \<Rightarrow> d) of
                             None \<Rightarrow> Inl ValueError | Some v \<Rightarrow> Inr (Some v))
                     else Inr None
                 | None \<Rightarrow> Inr None)
           in next_do (lifted valves) (\<lambda>v. next_do (lifted (handler v (fst x))) (\<lambda>y. pure (y, skip)))))"

fun apply_filters :: "plugin_env \<Rightarrow> time \<Rightarrow> string \<Rightarrow> func list \<Rightarrow> json \<times> bool \<Rightarrow> (json \<times> bool) plugin_action" where
  "apply_filters env now kind [] x = pure x"
| "apply_filters env now kind (f # fs) x = next_do (apply_filter env now kind f x) (apply_filters env now kind fs)"

text \<open>Files are taken out of the data when the last flag asks for it.\<close>

definition without_files :: "dict \<Rightarrow> py_error + dict" where
  "without_files form = (case dget_or form ''metadata'' (JDict []) of
     JDict md \<Rightarrow> Inr (dpop ''files'' (if dget md ''files'' = None then form else dset ''metadata'' (JDict (dpop ''files'' md)) form))
   | _ \<Rightarrow> Inl TypeError)"

definition process_filter_functions :: "plugin_env \<Rightarrow> time \<Rightarrow> string \<Rightarrow> func list \<Rightarrow> json \<Rightarrow> json plugin_action" where
  "process_filter_functions env now kind fs form =
     next_do (apply_filters env now kind fs (form, False)) (\<lambda>(y, skip).
       if \<not> skip then pure y
       else (case y of
         JDict d \<Rightarrow> next_do (lifted (without_files d)) (\<lambda>d'. pure (JDict d'))
       | _ \<Rightarrow> lifted (Inl AttributeError)))"

section \<open>The filters of a request\<close>

lemma set_content_modules [simp]: "set_content now i c s = (Inr (), s\<lparr>ps_funcs := snd (update_function_by_id now i (\<lambda>f. f\<lparr>fn_content := c\<rparr>) (ps_funcs s))\<rparr>)"
  by (simp add: set_content_def set_funcs_def next_do_def split: prod.split)

lemma load_modules:
  "load_function_module_by_id env now i c s = (Inr x, s') \<Longrightarrow> ps_modules s' = ps_modules s"
  by (auto simp: load_function_module_by_id_def function_content_def action_Inr set_funcs_def Let_def split: option.splits sum.splits prod.splits)

lemma module_from_cache:
  assumes "get_function_module_from_cache env now i True s = (Inr m, s')"
  shows "map_of (ps_modules s') i = Some m \<and> (\<forall>j. j \<noteq> i \<longrightarrow> map_of (ps_modules s') j = map_of (ps_modules s) j)"
proof -
  obtain f where f: "get_function_by_id i (ps_funcs s) = Some f"
    using assms by (auto simp: get_function_module_from_cache_def split: option.splits)
  define c where "c = replace_imports (fn_content f)"
  obtain s1 where s1: "only_if (c \<noteq> fn_content f) (set_content now i c) s = (Inr (), s1)" "ps_modules s1 = ps_modules s"
    by (cases "c = fn_content f") simp_all
  show ?thesis
  proof (cases "map_of (ps_modules s) i \<noteq> None \<and> map_of (ps_contents s) i = Some c")
    case True
    then show ?thesis using assms f s1
      by (auto simp: get_function_module_from_cache_def next_do_run(1)[where m = "only_if b a" for b a, OF s1(1)] simp flip: c_def)
  next
    case False
    then obtain x s2 where x: "load_function_module_by_id env now i (Some c) s1 = (Inr x, s2)"
        "s' = s2\<lparr>ps_modules := AList.update i (fst x) (ps_modules s2), ps_contents := AList.update i c (ps_contents s2)\<rparr>" "m = fst x"
      using assms f s1(1)
      by (auto simp: get_function_module_from_cache_def action_Inr cache_module_def cache_content_def next_do_run(1)[where m = "only_if b a" for b a, OF s1(1)]
          simp flip: c_def split: option.splits bool.splits)
    then show ?thesis using load_modules[OF x(1)] s1(2) by (simp add: update_conv')
  qed
qed

lemma active_filter_run:
  "active_filter env now enabled i s = (Inr b, t) \<longleftrightarrow>
     (\<exists>m. get_function_module_from_cache env now i True s = (Inr m, t) \<and> b = (mo_toggle m \<longrightarrow> i \<in> set enabled))"
  by (auto simp: active_filter_def action_Inr)

lemma active_filters:
  assumes "filter_action (active_filter env now enabled) ks s = (Inr ys, s')" "distinct ks"
  shows "ys = filter (\<lambda>i. \<exists>m. map_of (ps_modules s') i = Some m \<and> (mo_toggle m \<longrightarrow> i \<in> set enabled)) ks \<and>
    (\<forall>i \<in> set ks. map_of (ps_modules s') i \<noteq> None) \<and> (\<forall>j. j \<notin> set ks \<longrightarrow> map_of (ps_modules s') j = map_of (ps_modules s) j)"
  using assms
proof (induction ks arbitrary: s ys)
  case (Cons i ks)
  then obtain m s1 zs where m: "get_function_module_from_cache env now i True s = (Inr m, s1)"
      "filter_action (active_filter env now enabled) ks s1 = (Inr zs, s')" "ys = (if mo_toggle m \<longrightarrow> i \<in> set enabled then i # zs else zs)"
    by (auto simp: action_Inr active_filter_run)
  have i: "i \<notin> set ks" "distinct ks" using Cons.prems(2) by auto
  have h: "map_of (ps_modules s1) i = Some m" "\<forall>j. j \<noteq> i \<longrightarrow> map_of (ps_modules s1) j = map_of (ps_modules s) j"
    using module_from_cache[OF m(1)] by blast+
  note ih = Cons.IH[OF m(2) i(2)]
  then have "map_of (ps_modules s') i = Some m" using i(1) h(1) by auto
  then show ?case using ih h(2) m(3) by auto
qed simp

definition named_filters :: "dict \<Rightarrow> id set" where
  "named_filters model = (case model_filter_ids model of Inr (Some ks) \<Rightarrow> set ks | _ \<Rightarrow> {})"

lemma priorities: "each (filter_priority fs) ks = Inr ps \<Longrightarrow> length ps = length ks \<and> (\<forall>k < length ks. filter_priority fs (ks ! k) = Inr (ps ! k))"
proof (induction ks arbitrary: ps)
  case (Cons i ks)
  then obtain q qs where "ps = q # qs" "filter_priority fs i = Inr q" "each (filter_priority fs) ks = Inr qs" by (auto simp: and_then_Inr_iff)
  then show ?case using Cons.IH[of qs] by (auto simp: nth_Cons split: nat.splits)
qed simp

lemma sorted_by_priority:
  assumes "each (filter_priority fs) ks = Inr ps"
  shows "sorted (map (\<lambda>i. projr (filter_priority fs i)) (map snd (sort_key fst (zip ps ks))))"
proof -
  have "\<forall>x \<in> set (zip ps ks). projr (filter_priority fs (snd x)) = fst x"
    using priorities[OF assms] by (auto simp: set_zip)
  then have "map (\<lambda>i. projr (filter_priority fs i)) (map snd (sort_key fst (zip ps ks))) = map fst (sort_key fst (zip ps ks))"
    by (auto intro!: map_cong)
  then show ?thesis by (simp only: sorted_sort_key)
qed

text \<open>
  C26: The filters of a request. When the list of filters is made without an exception, it holds, each once, the
  active filter functions that are global or named by the model and whose module is not toggled or is enabled by the
  request, ordered by priority; whatever modules had to be loaded or were taken from the cache, and in whatever
  order a set lists its elements.
\<close>

theorem sorted_filters_exact:
  assumes "get_sorted_filter_ids env now listed model enabled s = (Inr ids, s')" "unique_key fn_id (ps_funcs s)"
    and "\<And>xs. set (listed xs) = set xs \<and> distinct (listed xs)"
  shows "distinct ids \<and> sorted (map (\<lambda>i. projr (filter_priority (ps_funcs s') i)) ids) \<and>
    set ids = {i. \<exists>f m. f \<in> set (ps_funcs s) \<and> fn_id f = i \<and> fn_type f = ''filter'' \<and> fn_is_active f \<and>
       (fn_is_global f \<or> i \<in> named_filters model) \<and> map_of (ps_modules s') i = Some m \<and> (mo_toggle m \<longrightarrow> i \<in> set enabled)}"
proof -
  let ?globals = "map fn_id (get_global_filter_functions (ps_funcs s))"
  let ?all = "map fn_id (get_functions_by_type ''filter'' True (ps_funcs s))"
  obtain named where named: "model_filter_ids model = Inr named"
    using assms(1) by (cases "model_filter_ids model") (auto simp: get_sorted_filter_ids_def)
  define ks where "ks = (case named of None \<Rightarrow> ?globals | Some js \<Rightarrow> listed (?globals @ js))"
  obtain active ps where a: "filter_action (active_filter env now enabled) ?all s = (Inr active, s')"
      "each (filter_priority (ps_funcs s')) (filter (\<lambda>i. i \<in> set active) ks) = Inr ps"
      "ids = map snd (sort_key fst (zip ps (filter (\<lambda>i. i \<in> set active) ks)))"
    using assms(1) by (auto simp: get_sorted_filter_ids_def named action_Inr Let_def simp flip: ks_def)
  have d: "distinct (map fn_id (filter q (ps_funcs s)))" for q
    using assms(2) by (simp add: unique_key_def distinct_map_filter)
  have l: "length ps = length (filter (\<lambda>i. i \<in> set active) ks)" using priorities[OF a(2)] by blast
  then have z: "map snd (zip ps (filter (\<lambda>i. i \<in> set active) ks)) = filter (\<lambda>i. i \<in> set active) ks" by simp
  have "set ids = set (map snd (zip ps (filter (\<lambda>i. i \<in> set active) ks)))" by (simp only: a(3) set_map set_sort)
  then have s: "set ids = set (filter (\<lambda>i. i \<in> set active) ks)" by (simp only: z)
  have "distinct ids = distinct (map snd (zip ps (filter (\<lambda>i. i \<in> set active) ks)))" by (simp only: a(3) distinct_map distinct_sort set_sort)
  then have s': "distinct ids = distinct (filter (\<lambda>i. i \<in> set active) ks)" by (simp only: z)
  have "distinct ?globals" using d by (simp add: get_global_filter_functions_def get_global_functions_def all_rows_def)
  then have di: "distinct ks" using assms(3) by (auto simp: ks_def split: option.splits)
  have si: "set ks = set ?globals \<union> named_filters model"
    using assms(3) by (auto simp: ks_def named_filters_def named split: option.splits)
  have "distinct ?all" using d by (simp add: get_functions_by_type_def all_rows_def)
  from active_filters[OF a(1) this]
  have act: "set active = {i \<in> set ?all. \<exists>m. map_of (ps_modules s') i = Some m \<and> (mo_toggle m \<longrightarrow> i \<in> set enabled)}" by auto
  have "set ids = {i. \<exists>f m. f \<in> set (ps_funcs s) \<and> fn_id f = i \<and> fn_type f = ''filter'' \<and> fn_is_active f \<and>
       (fn_is_global f \<or> i \<in> named_filters model) \<and> map_of (ps_modules s') i = Some m \<and> (mo_toggle m \<longrightarrow> i \<in> set enabled)}"
  proof -
    have "g = f" if "g \<in> set (ps_funcs s)" "f \<in> set (ps_funcs s)" "fn_id g = fn_id f" for f g
      using that assms(2) by (auto simp: unique_key_def distinct_map dest: inj_onD)
    then show ?thesis unfolding s
      by (auto simp: act si get_global_filter_functions_def get_global_functions_def get_functions_by_type_def) 
  qed
  moreover have "sorted (map (\<lambda>i. projr (filter_priority (ps_funcs s') i)) ids)" unfolding a(3) by (rule sorted_by_priority[OF a(2)])
  ultimately show ?thesis using s' di by simp
qed

lemma sorted_filters_exact_witness:
  "let f = (\<lambda>i g v. \<lparr>fn_id = i, fn_user_id = ''a'', fn_name = i, fn_type = ''filter'', fn_content = i, fn_meta = [], fn_valves = v,
        fn_is_active = True, fn_is_global = g, fn_updated_at = 0, fn_created_at = 0\<rparr>);
       m = \<lparr>mo_kind = ''filter'', mo_toggle = False, mo_has_valves = False, mo_valves = None, mo_user_valves = None, mo_file_handler = None, mo_handlers = []\<rparr>;
       s = \<lparr>ps_funcs = [f ''p'' True (Some [(''priority'', JInt 2)]), f ''q'' True (Some [(''priority'', JInt 1)]), f ''r'' False None], ps_modules = [], ps_contents = []\<rparr>;
       r = get_sorted_filter_ids \<lparr>pe_exec = \<lambda>c. Inr m, pe_install = \<lambda>r. Inr ()\<rparr> 5 remdups [] [] s
   in r = (Inr [''q'', ''p''], snd r) \<and> set [''q'', ''p''] = {i. \<exists>g m. g \<in> set (ps_funcs s) \<and> fn_id g = i \<and> fn_type g = ''filter'' \<and> fn_is_active g \<and>
       (fn_is_global g \<or> i \<in> named_filters []) \<and> map_of (ps_modules (snd r)) i = Some m \<and> (mo_toggle m \<longrightarrow> i \<in> set [])}"
proof -
  define f where "f = (\<lambda>i g v. \<lparr>fn_id = i, fn_user_id = ''a'', fn_name = i, fn_type = ''filter'', fn_content = i, fn_meta = [], fn_valves = v,
        fn_is_active = True, fn_is_global = g, fn_updated_at = 0, fn_created_at = 0\<rparr>)"
  define m where "m = \<lparr>mo_kind = ''filter'', mo_toggle = False, mo_has_valves = False, mo_valves = None, mo_user_valves = None, mo_file_handler = None, mo_handlers = []\<rparr>"
  define s where "s = \<lparr>ps_funcs = [f ''p'' True (Some [(''priority'', JInt 2)]), f ''q'' True (Some [(''priority'', JInt 1)]), f ''r'' False None], ps_modules = [], ps_contents = []\<rparr>"
  define r where "r = get_sorted_filter_ids \<lparr>pe_exec = \<lambda>c. Inr m, pe_install = \<lambda>r. Inr ()\<rparr> 5 remdups [] [] s"
  have "fst r = Inr [''q'', ''p'']" unfolding r_def s_def f_def m_def by code_simp
  then have r: "get_sorted_filter_ids \<lparr>pe_exec = \<lambda>c. Inr m, pe_install = \<lambda>r. Inr ()\<rparr> 5 remdups [] [] s = (Inr [''q'', ''p''], snd r)"
    by (metis r_def prod.collapse)
  have u: "unique_key fn_id (ps_funcs s)" by (simp add: s_def f_def unique_key_def)
  have "set [''q'', ''p''] = {i. \<exists>g m. g \<in> set (ps_funcs s) \<and> fn_id g = i \<and> fn_type g = ''filter'' \<and> fn_is_active g \<and>
       (fn_is_global g \<or> i \<in> named_filters []) \<and> map_of (ps_modules (snd r)) i = Some m \<and> (mo_toggle m \<longrightarrow> i \<in> set [])}"
    using sorted_filters_exact[OF r u] by simp
  then show ?thesis using r unfolding Let_def r_def s_def f_def m_def by (intro conjI) assumption+
qed

section \<open>The cache without the table\<close>

text \<open>
  A stream whose filter is not loaded yet: the module is loaded and cached and the request fails all the same; the
  next one finds the module.
\<close>

lemma first_stream_fails:
  assumes "map_of (ps_modules s) i = None" "get_function_by_id i (ps_funcs s) = Some f" "pe_exec env (replace_imports (fn_content f)) = Inr m"
  shows "\<exists>s'. get_function_module_from_cache env now i False s = (Inl NameError, s') \<and>
    get_function_module_from_cache env now' i False s' = (Inr m, s')"
proof -
  have l: "\<exists>s1 x. load_function_module_by_id env now i None s = (Inr (m, x), s1)"
    using assms(2,3) by (auto simp: load_function_module_by_id_def function_content_def next_do_def split: prod.splits)
  then obtain s1 x where "load_function_module_by_id env now i None s = (Inr (m, x), s1)" by blast
  then show ?thesis using assms(1)
    by (intro exI[of _ "s1\<lparr>ps_modules := AList.update i m (ps_modules s1)\<rparr>"])
      (simp add: get_function_module_from_cache_def next_do_def cache_module_def update_conv')
qed

end
