(* ===== verification/Function_Handlers.thy ===== *)
theory Function_Handlers
  imports Plugins
begin

text \<open>
  \<^verbatim>\<open>routers/functions.py\<close>: the handlers of administrators over the functions, and those of users over their own
  valves. A handler that lets an exception through answers a server error.
\<close>

section \<open>Loading from a link\<close>

text \<open>\<open>https://github.com/org/repo/<kind>/branch/path\<close>; the path ends at a line end.\<close>

definition github_parts :: "string \<Rightarrow> string \<Rightarrow> (string \<times> string \<times> string \<times> string) option" where
  "github_parts kind url =
     (if \<not> startswith url ''https://github.com/'' then None
      else (case split_on (CHR ''/'') (drop 19 url) of
         org # repo # k # branch # p # ps \<Rightarrow>
           if org \<noteq> [] \<and> repo \<noteq> [] \<and> k = kind \<and> branch \<noteq> []
           then Some (org, repo, branch, takeWhile (\<lambda>c. c \<noteq> CHR 0x0A) (join ''/'' (p # ps))) else None
       | _ \<Rightarrow> None))"

definition raw_prefix :: "string \<times> string \<times> string \<times> string \<Rightarrow> string" where
  "raw_prefix p = (case p of (org, repo, branch, path) \<Rightarrow>
     ''https://raw.githubusercontent.com/'' @ org @ ''/'' @ repo @ ''/refs/heads/'' @ branch @ ''/'')"

definition drop_slashes :: "string \<Rightarrow> string" where
  "drop_slashes s = rev (dropWhile (\<lambda>c. c = CHR ''/'') (rev s))"

definition github_url_to_raw_url :: "string \<Rightarrow> string" where
  "github_url_to_raw_url url = (case github_parts ''tree'' url of
     Some p \<Rightarrow> raw_prefix p @ drop_slashes (snd (snd (snd p))) @ ''/main.py''
   | None \<Rightarrow> (case github_parts ''blob'' url of
       Some p \<Rightarrow> raw_prefix p @ snd (snd (snd p))
     | None \<Rightarrow> url))"

definition linked_name :: "string \<Rightarrow> string" where
  "linked_name url =
     (let parts = split_on (CHR ''/'') (drop_slashes url); f = last parts
      in if endswith f ''.py'' \<and> \<not> startswith f ''main.py'' \<and> \<not> startswith f ''index.py'' \<and> \<not> startswith f ''__init__.py''
         then take (length f - 3) f
         else if length parts > 1 then last (butlast parts) else ''function'')"

text \<open>The answers for a status and for an empty file are caught with everything else.\<close>

definition load_function_from_url :: "(string \<Rightarrow> py_error + nat \<times> string) \<Rightarrow> string \<Rightarrow> http_error + dict" where
  "load_function_from_url fetch url0 =
     (if url0 = [] then Inl BadRequest
      else (let url = github_url_to_raw_url url0
            in case fetch url of
                 Inl e \<Rightarrow> Inl ServerError
               | Inr (status, data) \<Rightarrow>
                   if status \<noteq> 200 \<or> data = [] then Inl ServerError
                   else Inr [(''name'', JStr (linked_name url)), (''content'', JStr data)]))"

section \<open>Functions\<close>

type_synonym 'a plugin_answer = "(http_error + 'a) \<times> plugin_state"

definition answering :: "http_error \<Rightarrow> 'a plugin_action \<Rightarrow> plugin_state \<Rightarrow> 'a plugin_answer" where
  "answering h m s = (let (r, s') = m s in (raising h r, s'))"

definition identifier_start :: "char \<Rightarrow> bool" where
  "identifier_start c \<longleftrightarrow> key_char c \<or> code c \<in> {170, 181, 186} \<or> 192 \<le> code c \<and> code c \<noteq> 215 \<and> code c \<noteq> 247"

definition is_identifier :: "string \<Rightarrow> bool" where
  "is_identifier s \<longleftrightarrow> s \<noteq> [] \<and> identifier_start (hd s) \<and>
     list_all (\<lambda>c. identifier_start c \<or> is_digit c \<or> code c = 183) s"

definition validated :: "(dict \<Rightarrow> dict option) option \<Rightarrow> dict \<Rightarrow> bool" where
  "validated check values = (case check of
     None \<Rightarrow> True | Some f \<Rightarrow> f (filter (\<lambda>(k, v). v \<noteq> JNull) values) \<noteq> None)"

text \<open>Every function of a synchronisation is loaded, and its valves are checked, before the table changes.\<close>

fun check_functions :: "plugin_env \<Rightarrow> time \<Rightarrow> func list \<Rightarrow> func list plugin_action" where
  "check_functions env now [] = pure []"
| "check_functions env now (g # gs) =
     (let f = g\<lparr>fn_content := replace_imports (fn_content g)\<rparr> in
      next_do (load_function_module_by_id env now (fn_id f) (Some (fn_content f))) (\<lambda>(m, _).
      next_do (lifted (case fn_valves f of
          Some (x # xs) \<Rightarrow> if validated (mo_valves m) (x # xs) then Inr () else Inl ValueError
        | _ \<Rightarrow> Inr ())) (\<lambda>_.
      next_do (check_functions env now gs) (\<lambda>fs. pure (f # fs)))))"

definition sync_functions_handler :: "plugin_env \<Rightarrow> time \<Rightarrow> id \<Rightarrow> func list \<Rightarrow> plugin_state \<Rightarrow> func list plugin_answer" where
  "sync_functions_handler env now caller gs =
     answering BadRequest (next_do (check_functions env now gs) (\<lambda>fs. set_funcs (sync_functions now caller fs)))"

definition with_manifest :: "dict \<Rightarrow> func_form \<Rightarrow> func_form" where
  "with_manifest front form = form\<lparr>pg_meta := dset ''manifest'' (JDict front) (pg_meta form)\<rparr>"

text \<open>
  The mark of a toggled filter is to be put on the new row, but the call names Python's built-in function \<open>id\<close>
  in place of the id, which finds no row.
\<close>

definition create_new_function_handler :: "plugin_env \<Rightarrow> time \<Rightarrow> id \<Rightarrow> func_form \<Rightarrow> plugin_state \<Rightarrow> func plugin_answer" where
  "create_new_function_handler env now caller form s =
     (let form1 = form\<lparr>pg_id := lower (pg_id form)\<rparr>; form2 = form1\<lparr>pg_content := replace_imports (pg_content form1)\<rparr>
      in if \<not> is_identifier (pg_id form) then (Inl BadRequest, s)
         else if get_function_by_id (pg_id form1) (ps_funcs s) \<noteq> None then (Inl BadRequest, s)
         else answering BadRequest
           (next_do (load_function_module_by_id env now (pg_id form2) (Some (pg_content form2))) (\<lambda>(m, kind, front).
            next_do (cache_module (pg_id form2) m) (\<lambda>_.
            next_do (set_funcs (insert_new_function now caller kind (with_manifest front form2))) (\<lambda>r. case r of
              None \<Rightarrow> lifted (Inl ValueError) | Some f \<Rightarrow> pure f)))) s)"

definition found_function :: "id \<Rightarrow> plugin_state \<Rightarrow> (func \<Rightarrow> 'a plugin_answer) \<Rightarrow> 'a plugin_answer" where
  "found_function i s g = (case get_function_by_id i (ps_funcs s) of None \<Rightarrow> (Inl Unauthorized, s) | Some f \<Rightarrow> g f)"

definition get_function_by_id_handler :: "id \<Rightarrow> plugin_state \<Rightarrow> func plugin_answer" where
  "get_function_by_id_handler i s = found_function i s (\<lambda>f. (Inr f, s))"

definition flipped :: "time \<Rightarrow> id \<Rightarrow> (func \<Rightarrow> func) \<Rightarrow> plugin_state \<Rightarrow> func plugin_answer" where
  "flipped now i g s =
     answering BadRequest (next_do (set_funcs (update_function_by_id now i g)) (\<lambda>r. case r of
       None \<Rightarrow> lifted (Inl ValueError) | Some f \<Rightarrow> pure f)) s"

definition toggle_function_by_id :: "time \<Rightarrow> id \<Rightarrow> plugin_state \<Rightarrow> func plugin_answer" where
  "toggle_function_by_id now i s =
     found_function i s (\<lambda>f. flipped now i (\<lambda>r. r\<lparr>fn_is_active := \<not> fn_is_active f\<rparr>) s)"

definition toggle_global_by_id :: "time \<Rightarrow> id \<Rightarrow> plugin_state \<Rightarrow> func plugin_answer" where
  "toggle_global_by_id now i s =
     found_function i s (\<lambda>f. flipped now i (\<lambda>r. r\<lparr>fn_is_global := \<not> fn_is_global f\<rparr>) s)"

definition apply_func_form :: "func_form \<Rightarrow> string \<Rightarrow> func \<Rightarrow> func" where
  "apply_func_form form kind f = f\<lparr>fn_name := pg_name form, fn_content := pg_content form, fn_meta := pg_meta form, fn_type := kind\<rparr>"

definition update_function_by_id_handler :: "plugin_env \<Rightarrow> time \<Rightarrow> id \<Rightarrow> func_form \<Rightarrow> plugin_state \<Rightarrow> func plugin_answer" where
  "update_function_by_id_handler env now i form =
     (let form1 = form\<lparr>pg_content := replace_imports (pg_content form)\<rparr>
      in answering BadRequest
        (next_do (load_function_module_by_id env now i (Some (pg_content form1))) (\<lambda>(m, kind, front).
         next_do (cache_module i m) (\<lambda>_.
         next_do (set_funcs (update_function_by_id now i (apply_func_form (with_manifest front form1) kind))) (\<lambda>r.
         next_do (if kind = ''filter'' \<and> mo_toggle m
                  then next_do (set_funcs (update_function_metadata_by_id now i [(''toggle'', JBool True)])) (\<lambda>_. pure ()) else pure ()) (\<lambda>_.
         case r of None \<Rightarrow> lifted (Inl ValueError) | Some f \<Rightarrow> pure f))))))"

definition delete_function_by_id_handler :: "id \<Rightarrow> plugin_state \<Rightarrow> bool plugin_answer" where
  "delete_function_by_id_handler i s =
     (let (r, fs) = delete_function_by_id i (ps_funcs s)
      in (Inr r, s\<lparr>ps_funcs := fs, ps_modules := (if r then AList.delete i (ps_modules s) else ps_modules s)\<rparr>))"

section \<open>Valves\<close>

definition get_function_valves_handler :: "id \<Rightarrow> plugin_state \<Rightarrow> dict option plugin_answer" where
  "get_function_valves_handler i s = found_function i s (\<lambda>f. (Inr (get_function_valves_by_id i (ps_funcs s)), s))"

text \<open>Whether there is a description of the valves; the description itself is the module's.\<close>

definition has_valves_spec :: "(module \<Rightarrow> (dict \<Rightarrow> dict option) option) \<Rightarrow> plugin_env \<Rightarrow> time \<Rightarrow> id \<Rightarrow> plugin_state \<Rightarrow> bool plugin_answer" where
  "has_valves_spec valves_of env now i s =
     found_function i s (\<lambda>f. answering ServerError (next_do (get_function_module_from_cache env now i True) (\<lambda>m. pure (valves_of m \<noteq> None))) s)"

definition get_function_valves_spec_by_id :: "plugin_env \<Rightarrow> time \<Rightarrow> id \<Rightarrow> plugin_state \<Rightarrow> bool plugin_answer" where
  "get_function_valves_spec_by_id = has_valves_spec mo_valves"

definition get_function_user_valves_spec_by_id :: "plugin_env \<Rightarrow> time \<Rightarrow> id \<Rightarrow> plugin_state \<Rightarrow> bool plugin_answer" where
  "get_function_user_valves_spec_by_id = has_valves_spec mo_user_valves"

text \<open>The values a form gives, less the missing ones, checked by the module.\<close>

definition checked_valves :: "(module \<Rightarrow> (dict \<Rightarrow> dict option) option) \<Rightarrow> plugin_env \<Rightarrow> time \<Rightarrow> id \<Rightarrow> dict \<Rightarrow> plugin_state \<Rightarrow> dict plugin_answer" where
  "checked_valves valves_of env now i form s =
     found_function i s (\<lambda>f. case get_function_module_from_cache env now i True s of
       (Inl e, s1) \<Rightarrow> (Inl ServerError, s1)
     | (Inr m, s1) \<Rightarrow>
         (case valves_of m of
            None \<Rightarrow> (Inl Unauthorized, s1)
          | Some check \<Rightarrow> (case check (filter (\<lambda>(k, v). v \<noteq> JNull) form) of None \<Rightarrow> (Inl BadRequest, s1) | Some v \<Rightarrow> (Inr v, s1))))"

definition update_function_valves_handler :: "plugin_env \<Rightarrow> time \<Rightarrow> id \<Rightarrow> dict \<Rightarrow> plugin_state \<Rightarrow> dict plugin_answer" where
  "update_function_valves_handler env now i form s = (case checked_valves mo_valves env now i form s of
     (Inl e, s1) \<Rightarrow> (Inl e, s1)
   | (Inr v, s1) \<Rightarrow> (Inr v, s1\<lparr>ps_funcs := snd (update_function_valves_by_id now i v (ps_funcs s1))\<rparr>))"

definition get_function_user_valves_handler :: "id \<Rightarrow> user \<Rightarrow> user_db \<Rightarrow> plugin_state \<Rightarrow> json option plugin_answer" where
  "get_function_user_valves_handler i caller udb s =
     found_function i s (\<lambda>f. (Inr (get_user_valves ''functions'' i (u_id caller) udb), s))"

definition update_function_user_valves_handler ::
  "plugin_env \<Rightarrow> time \<Rightarrow> id \<Rightarrow> dict \<Rightarrow> user \<Rightarrow> user_db \<Rightarrow> plugin_state \<Rightarrow> dict plugin_answer \<times> user_db" where
  "update_function_user_valves_handler env now i form caller udb s = (case checked_valves mo_user_valves env now i form s of
     (Inl e, s1) \<Rightarrow> ((Inl e, s1), udb)
   | (Inr v, s1) \<Rightarrow> ((Inr v, s1), snd (update_user_valves ''functions'' i (u_id caller) v udb)))"

section \<open>A new filter is not marked\<close>

text \<open>
  A toggled filter that is created has no mark, so the list of functions does not show it as one; saving the
  same form again sets it.
\<close>

lemma created_filter_unmarked:
  assumes "is_identifier (pg_id form)" "get_function_by_id (lower (pg_id form)) (ps_funcs s) = None"
    and "pe_exec env (replace_imports (pg_content form)) = Inr m" "pe_install env = (\<lambda>r. Inr ())"
    and "dget (pg_meta form) ''toggle'' = None"
  shows "\<exists>f s'. create_new_function_handler env now caller form s = (Inr f, s') \<and>
    get_function_by_id (lower (pg_id form)) (ps_funcs s') = Some f \<and> dget (fn_meta f) ''toggle'' = None"
proof -
  let ?i = "lower (pg_id form)" and ?c = "replace_imports (pg_content form)"
  have l: "load_function_module_by_id env now ?i (Some ?c) s = (Inr (m, mo_kind m, extract_frontmatter ?c), s)"
    using assms(3,4) by (simp add: load_function_module_by_id_def function_content_def install_frontmatter_requirements_def)
  have n: "?i \<notin> fn_id ` set (ps_funcs s)"
    using assms(2) by (auto simp: get_function_by_id_def func_row_def first_row_None_iff)
  then show ?thesis using assms(1,2,5) l
    by (simp add: create_new_function_handler_def answering_def next_do_def cache_module_def set_funcs_def insert_new_function_def add_row_def
        with_manifest_def raising_def get_function_by_id_def func_row_def first_row_append Let_def) 
qed

end
