(* ===== verification/Toolkits.thy ===== *)
theory Toolkits
  imports Function_Handlers
begin

text \<open>
  Tools that users add as Python text: their table (\<^verbatim>\<open>models/tools.py\<close>), the loading and caching of their
  modules (\<^verbatim>\<open>utils/plugin.py\<close>) and their handlers (\<^verbatim>\<open>routers/tools.py\<close>). A module is that of \<^theory_text>\<open>Plugins\<close>; the
  specifications of its methods are the field \<open>te_specs\<close>. External tool servers appear as the list of entries they
  add to the list of tools.
\<close>

section \<open>The table\<close>

record tool_row =
  to_id :: id
  to_user_id :: id
  to_name :: string
  to_content :: string
  to_specs :: "dict list"
  to_meta :: dict
  to_valves :: "dict option"
  to_access_control :: "dict option"
  to_updated_at :: time
  to_created_at :: time

record tool_form =
  tf_id :: id
  tf_name :: string
  tf_content :: string
  tf_meta :: dict
  tf_access_control :: "dict option"

definition new_tool :: "time \<Rightarrow> id \<Rightarrow> tool_form \<Rightarrow> dict list \<Rightarrow> tool_row" where
  "new_tool now user_id form specs =
     \<lparr>to_id = tf_id form, to_user_id = user_id, to_name = tf_name form, to_content = tf_content form, to_specs = specs,
      to_meta = tf_meta form, to_valves = None, to_access_control = tf_access_control form, to_updated_at = now, to_created_at = now\<rparr>"

definition insert_new_tool :: "time \<Rightarrow> id \<Rightarrow> tool_form \<Rightarrow> dict list \<Rightarrow> tool_row list \<Rightarrow> tool_row option \<times> tool_row list" where
  "insert_new_tool now user_id form specs db =
     (let t = new_tool now user_id form specs
      in case add_row to_id t db of None \<Rightarrow> (None, db) | Some db' \<Rightarrow> (Some t, db'))"

definition get_tool_by_id :: "id \<Rightarrow> tool_row list \<Rightarrow> tool_row option" where
  "get_tool_by_id i db = row_get to_id i db"

definition get_tools :: "user_db \<Rightarrow> tool_row list \<Rightarrow> (tool_row \<times> user_response option) list" where
  "get_tools udb db = with_owners to_user_id udb (order_desc to_updated_at db)"

definition get_tools_by_user_id ::
  "id \<Rightarrow> string \<Rightarrow> group_db \<Rightarrow> user_db \<Rightarrow> tool_row list \<Rightarrow> py_error + (tool_row \<times> user_response option) list" where
  "get_tools_by_user_id user_id permission gdb udb db =
     rows_of_user to_user_id to_access_control user_id permission gdb (get_tools udb db)"

definition get_tool_valves_by_id :: "id \<Rightarrow> tool_row list \<Rightarrow> dict option" where
  "get_tool_valves_by_id i db = map_option (\<lambda>t. case to_valves t of None \<Rightarrow> [] | Some d \<Rightarrow> d) (get_tool_by_id i db)"

definition update_tool :: "id \<Rightarrow> (tool_row \<Rightarrow> tool_row) \<Rightarrow> tool_row list \<Rightarrow> tool_row option \<times> tool_row list" where
  "update_tool i g db = (let db' = upd_rows (\<lambda>t. to_id t = i) g db in (get_tool_by_id i db', db'))"

definition update_tool_valves_by_id :: "time \<Rightarrow> id \<Rightarrow> dict \<Rightarrow> tool_row list \<Rightarrow> tool_row option \<times> tool_row list" where
  "update_tool_valves_by_id now i valves db = update_tool i (\<lambda>t. t\<lparr>to_valves := Some valves, to_updated_at := now\<rparr>) db"

definition update_tool_by_id :: "time \<Rightarrow> id \<Rightarrow> (tool_row \<Rightarrow> tool_row) \<Rightarrow> tool_row list \<Rightarrow> tool_row option \<times> tool_row list" where
  "update_tool_by_id now i g db = update_tool i (\<lambda>t. (g t)\<lparr>to_updated_at := now\<rparr>) db"

definition delete_tool_by_id :: "id \<Rightarrow> tool_row list \<Rightarrow> bool \<times> tool_row list" where
  "delete_tool_by_id i db = (True, row_del to_id i db)"

section \<open>Modules\<close>

record tool_env =
  te_plugin :: plugin_env
  te_specs :: "module \<Rightarrow> py_error + dict list"

record tool_state =
  ts_tools :: "tool_row list"
  ts_modules :: "(id \<times> module) list"
  ts_contents :: "(id \<times> string) list"

type_synonym 'a tool_action = "(tool_state, 'a) action"

definition set_tool_content :: "time \<Rightarrow> id \<Rightarrow> string \<Rightarrow> unit tool_action" where
  "set_tool_content now i c = changing (\<lambda>s. s\<lparr>ts_tools := snd (update_tool_by_id now i (\<lambda>t. t\<lparr>to_content := c\<rparr>) (ts_tools s))\<rparr>)"

definition tool_content :: "tool_env \<Rightarrow> time \<Rightarrow> id \<Rightarrow> string option \<Rightarrow> string tool_action" where
  "tool_content env now i content = (case content of
     None \<Rightarrow> reading (\<lambda>s. case get_tool_by_id i (ts_tools s) of
         None \<Rightarrow> lifted (Inl ValueError)
       | Some t \<Rightarrow> next_do (set_tool_content now i (replace_imports (to_content t))) (\<lambda>_. pure (replace_imports (to_content t))))
   | Some c \<Rightarrow>
       next_do (lifted (install_frontmatter_requirements (te_plugin env)
           (case dget (extract_frontmatter c) ''requirements'' of Some (JStr r) \<Rightarrow> r | _ \<Rightarrow> []))) (\<lambda>_. pure c))"

definition load_tool_module_by_id :: "tool_env \<Rightarrow> time \<Rightarrow> id \<Rightarrow> string option \<Rightarrow> (module \<times> dict) tool_action" where
  "load_tool_module_by_id env now i content =
     next_do (tool_content env now i content) (\<lambda>c.
     next_do (lifted (pe_exec (te_plugin env) c)) (\<lambda>m. pure (m, extract_frontmatter c)))"

definition cache_tool :: "id \<Rightarrow> module \<Rightarrow> unit tool_action" where
  "cache_tool i m = changing (\<lambda>s. s\<lparr>ts_modules := AList.update i m (ts_modules s)\<rparr>)"

definition get_tool_module_from_cache :: "tool_env \<Rightarrow> time \<Rightarrow> id \<Rightarrow> bool \<Rightarrow> module tool_action" where
  "get_tool_module_from_cache env now i load_from_db =
     (if load_from_db
      then reading (\<lambda>s. case get_tool_by_id i (ts_tools s) of
          None \<Rightarrow> lifted (Inl ValueError)
        | Some t \<Rightarrow>
            (let c = replace_imports (to_content t) in
             next_do (only_if (c \<noteq> to_content t) (set_tool_content now i c)) (\<lambda>_.
             case (map_of (ts_modules s) i, map_of (ts_contents s) i = Some c) of
               (Some m, True) \<Rightarrow> pure m
             | _ \<Rightarrow>
                 next_do (load_tool_module_by_id env now i (Some c)) (\<lambda>(m, _).
                 next_do (cache_tool i m) (\<lambda>_.
                 next_do (changing (\<lambda>s. s\<lparr>ts_contents := AList.update i c (ts_contents s)\<rparr>)) (\<lambda>_. pure m))))))
      else reading (\<lambda>s. case map_of (ts_modules s) i of
          Some m \<Rightarrow> pure m
        | None \<Rightarrow>
            next_do (load_tool_module_by_id env now i None) (\<lambda>(m, _).
            next_do (cache_tool i m) (\<lambda>_. lifted (Inl NameError)))))"

text \<open>The packages of the tools of administrators and of the active functions, as one list for the installer.\<close>

definition requirements_of :: "string \<Rightarrow> string" where
  "requirements_of content = (case dget (extract_frontmatter (replace_imports content)) ''requirements'' of
     Some (JStr r) \<Rightarrow> if r = [] then [] else r @ '', '' | _ \<Rightarrow> [])"

definition strip_chars :: "string \<Rightarrow> string \<Rightarrow> string" where
  "strip_chars cs s = rev (dropWhile (\<lambda>c. c \<in> set cs) (rev (dropWhile (\<lambda>c. c \<in> set cs) s)))"

definition all_requirements :: "func list \<Rightarrow> user_db \<Rightarrow> tool_row list \<Rightarrow> string" where
  "all_requirements fs udb db = strip_chars '', ''
     (concat (map (\<lambda>f. requirements_of (fn_content f)) (get_functions True fs)) @
      concat (map (\<lambda>(t, owner). case owner of
          Some u \<Rightarrow> if ue_role u = ''admin'' then requirements_of (to_content t) else []
        | None \<Rightarrow> []) (get_tools udb db)))"

section \<open>Lists of tools\<close>

type_synonym 'a toolkit_answer = "(http_error + 'a) \<times> tool_state"

text \<open>An entry of the list: a tool, or what a tool server offers.\<close>

record tool_entry =
  ty_id :: id
  ty_user_id :: id
  ty_name :: string
  ty_access_control :: "dict option"
  ty_has_user_valves :: bool

fun tool_entries :: "tool_env \<Rightarrow> time \<Rightarrow> tool_row list \<Rightarrow> tool_entry list tool_action" where
  "tool_entries env now [] = pure []"
| "tool_entries env now (t # ts) =
     next_do (get_tool_module_from_cache env now (to_id t) True) (\<lambda>m.
     next_do (tool_entries env now ts) (\<lambda>es.
       pure (\<lparr>ty_id = to_id t, ty_user_id = to_user_id t, ty_name = to_name t, ty_access_control = to_access_control t,
              ty_has_user_valves = (mo_user_valves m \<noteq> None)\<rparr> # es)))"

text \<open>An entry for each connection to a server, OpenAPI or MCP.\<close>

definition server_entry :: "id \<Rightarrow> string \<Rightarrow> dict option \<Rightarrow> tool_entry" where
  "server_entry i title ac =
     \<lparr>ty_id = ''server:'' @ i, ty_user_id = ''server:'' @ i, ty_name = title, ty_access_control = ac, ty_has_user_valves = False\<rparr>"

definition get_tools_handler ::
  "tool_env \<Rightarrow> time \<Rightarrow> bool \<Rightarrow> tool_entry list \<Rightarrow> user \<Rightarrow> group_db \<Rightarrow> user_db \<Rightarrow> tool_state \<Rightarrow> tool_entry list toolkit_answer" where
  "get_tools_handler env now bypass servers caller gdb udb s =
     (case tool_entries env now (map fst (get_tools udb (ts_tools s))) s of
        (Inl e, s') \<Rightarrow> (Inl ServerError, s')
      | (Inr es, s') \<Rightarrow>
          (if u_role caller = ''admin'' \<and> bypass then (Inr (es @ servers), s')
           else (raising ServerError (filter_raising (\<lambda>e. owner_or_access (u_id caller) ''read''
               (map grp_id (get_groups_by_member_id (u_id caller) gdb)) gdb (ty_user_id e) (ty_access_control e)) (es @ servers)), s')))"

definition listed_tools ::
  "string \<Rightarrow> bool \<Rightarrow> user \<Rightarrow> group_db \<Rightarrow> user_db \<Rightarrow> tool_row list \<Rightarrow> http_error + (tool_row \<times> user_response option) list" where
  "listed_tools permission bypass caller gdb udb db =
     (if u_role caller = ''admin'' \<and> bypass then Inr (get_tools udb db)
      else raising ServerError (get_tools_by_user_id (u_id caller) permission gdb udb db))"

definition get_tool_list ::
  "bool \<Rightarrow> user \<Rightarrow> group_db \<Rightarrow> user_db \<Rightarrow> tool_row list \<Rightarrow> http_error + (tool_row \<times> user_response option) list" where
  "get_tool_list = listed_tools ''write''"

definition export_tools ::
  "dict \<Rightarrow> dict \<Rightarrow> bool \<Rightarrow> user \<Rightarrow> group_db \<Rightarrow> user_db \<Rightarrow> tool_row list \<Rightarrow> http_error + (tool_row \<times> user_response option) list" where
  "export_tools builtin config bypass caller gdb udb db =
     and_then (feature_allowed ''workspace.tools_export'' builtin config caller gdb) (\<lambda>b.
       if b then listed_tools ''read'' bypass caller gdb udb db else Inl Unauthorized)"

section \<open>Handlers\<close>

definition load_tool_from_url :: "(string \<Rightarrow> py_error + nat \<times> string) \<Rightarrow> string \<Rightarrow> http_error + dict" where
  "load_tool_from_url = load_function_from_url"

definition answering_tool :: "http_error \<Rightarrow> 'a tool_action \<Rightarrow> tool_state \<Rightarrow> 'a toolkit_answer" where
  "answering_tool h m s = (let (r, s') = m s in (raising h r, s'))"

definition may_create_tool :: "dict \<Rightarrow> dict \<Rightarrow> user \<Rightarrow> group_db \<Rightarrow> http_error + bool" where
  "may_create_tool builtin config caller gdb =
     and_then (feature_allowed ''workspace.tools'' builtin config caller gdb) (\<lambda>b.
       if b then Inr True else feature_allowed ''workspace.tools_import'' builtin config caller gdb)"

text \<open>A form with its content made ready: the module, and the form to be stored with its specifications.\<close>

definition loaded_form :: "tool_env \<Rightarrow> time \<Rightarrow> id \<Rightarrow> tool_form \<Rightarrow> (tool_form \<times> dict list) tool_action" where
  "loaded_form env now i form =
     (let form1 = form\<lparr>tf_content := replace_imports (tf_content form)\<rparr> in
      next_do (load_tool_module_by_id env now i (Some (tf_content form1))) (\<lambda>(m, front).
      next_do (cache_tool i m) (\<lambda>_.
      next_do (lifted (te_specs env m)) (\<lambda>specs.
        pure (form1\<lparr>tf_meta := dset ''manifest'' (JDict front) (tf_meta form1)\<rparr>, specs)))))"

definition create_new_tools ::
  "dict \<Rightarrow> dict \<Rightarrow> tool_env \<Rightarrow> time \<Rightarrow> tool_form \<Rightarrow> user \<Rightarrow> group_db \<Rightarrow> tool_state \<Rightarrow> tool_row toolkit_answer" where
  "create_new_tools builtin config env now form caller gdb s =
     when_allowed (may_create_tool builtin config caller gdb) Unauthorized s
       (let form1 = form\<lparr>tf_id := lower (tf_id form)\<rparr>
        in if \<not> is_identifier (tf_id form) then (Inl BadRequest, s)
           else if get_tool_by_id (tf_id form1) (ts_tools s) \<noteq> None then (Inl BadRequest, s)
           else answering_tool BadRequest
             (next_do (loaded_form env now (tf_id form1) form1) (\<lambda>(form2, specs) s'.
                case insert_new_tool now (u_id caller) form2 specs (ts_tools s') of
                  (None, db) \<Rightarrow> (Inl ValueError, s') | (Some t, db) \<Rightarrow> (Inr t, s'\<lparr>ts_tools := db\<rparr>))) s)"

definition found_tool :: "id \<Rightarrow> tool_state \<Rightarrow> (tool_row \<Rightarrow> 'a toolkit_answer) \<Rightarrow> 'a toolkit_answer" where
  "found_tool i s g = (case get_tool_by_id i (ts_tools s) of None \<Rightarrow> (Inl Unauthorized, s) | Some t \<Rightarrow> g t)"

text \<open>A refused reader gets an empty answer.\<close>

definition get_tools_by_id :: "id \<Rightarrow> user \<Rightarrow> group_db \<Rightarrow> tool_state \<Rightarrow> tool_row option toolkit_answer" where
  "get_tools_by_id i caller gdb s =
     found_tool i s (\<lambda>t. (and_then (may_access ''read'' caller gdb (to_user_id t) (to_access_control t)) (\<lambda>b.
       Inr (if b then Some t else None)), s))"

definition may_write_tool :: "user \<Rightarrow> group_db \<Rightarrow> tool_row \<Rightarrow> http_error + bool" where
  "may_write_tool caller gdb t = may_change caller gdb (to_user_id t) (to_access_control t)"

definition apply_tool_form :: "tool_form \<Rightarrow> dict list \<Rightarrow> tool_row \<Rightarrow> tool_row" where
  "apply_tool_form form specs t = t\<lparr>to_name := tf_name form, to_content := tf_content form, to_meta := tf_meta form,
     to_access_control := tf_access_control form, to_specs := specs\<rparr>"

definition update_tools_by_id :: "tool_env \<Rightarrow> time \<Rightarrow> id \<Rightarrow> tool_form \<Rightarrow> user \<Rightarrow> group_db \<Rightarrow> tool_state \<Rightarrow> tool_row toolkit_answer" where
  "update_tools_by_id env now i form caller gdb s =
     found_tool i s (\<lambda>t. when_allowed (may_write_tool caller gdb t) Unauthorized s
       (answering_tool BadRequest
         (next_do (loaded_form env now i form) (\<lambda>(form2, specs) s'.
            case update_tool_by_id now i (apply_tool_form form2 specs) (ts_tools s') of
              (None, db) \<Rightarrow> (Inl ValueError, s'\<lparr>ts_tools := db\<rparr>) | (Some t, db) \<Rightarrow> (Inr t, s'\<lparr>ts_tools := db\<rparr>))) s))"

definition delete_tools_by_id :: "id \<Rightarrow> user \<Rightarrow> group_db \<Rightarrow> tool_state \<Rightarrow> bool toolkit_answer" where
  "delete_tools_by_id i caller gdb s =
     found_tool i s (\<lambda>t. when_allowed (may_write_tool caller gdb t) Unauthorized s
       (let (r, db) = delete_tool_by_id i (ts_tools s)
        in (Inr r, s\<lparr>ts_tools := db, ts_modules := (if r then AList.delete i (ts_modules s) else ts_modules s)\<rparr>)))"

section \<open>Valves\<close>

text \<open>The valves of a tool are shown to every user.\<close>

definition get_tools_valves_by_id :: "id \<Rightarrow> user \<Rightarrow> tool_state \<Rightarrow> dict option toolkit_answer" where
  "get_tools_valves_by_id i caller s = found_tool i s (\<lambda>t. (Inr (get_tool_valves_by_id i (ts_tools s)), s))"

definition cached_module :: "tool_env \<Rightarrow> time \<Rightarrow> id \<Rightarrow> module tool_action" where
  "cached_module env now i =
     reading (\<lambda>s. case map_of (ts_modules s) i of
       Some m \<Rightarrow> pure m
     | None \<Rightarrow> next_do (load_tool_module_by_id env now i None) (\<lambda>(m, _). next_do (cache_tool i m) (\<lambda>_. pure m)))"

definition has_tool_valves_spec :: "(module \<Rightarrow> (dict \<Rightarrow> dict option) option) \<Rightarrow> tool_env \<Rightarrow> time \<Rightarrow> id \<Rightarrow> tool_state \<Rightarrow> bool toolkit_answer" where
  "has_tool_valves_spec valves_of env now i s =
     found_tool i s (\<lambda>t. answering_tool ServerError (next_do (cached_module env now i) (\<lambda>m. pure (valves_of m \<noteq> None))) s)"

definition get_tools_valves_spec_by_id :: "tool_env \<Rightarrow> time \<Rightarrow> id \<Rightarrow> tool_state \<Rightarrow> bool toolkit_answer" where
  "get_tools_valves_spec_by_id = has_tool_valves_spec mo_valves"

definition get_tools_user_valves_spec_by_id :: "tool_env \<Rightarrow> time \<Rightarrow> id \<Rightarrow> tool_state \<Rightarrow> bool toolkit_answer" where
  "get_tools_user_valves_spec_by_id = has_tool_valves_spec mo_user_valves"

definition checked_tool_valves :: "(module \<Rightarrow> (dict \<Rightarrow> dict option) option) \<Rightarrow> tool_env \<Rightarrow> time \<Rightarrow> id \<Rightarrow> dict \<Rightarrow> tool_state \<Rightarrow> dict toolkit_answer" where
  "checked_tool_valves valves_of env now i form s = (case cached_module env now i s of
     (Inl e, s1) \<Rightarrow> (Inl ServerError, s1)
   | (Inr m, s1) \<Rightarrow>
       (case valves_of m of
          None \<Rightarrow> (Inl Unauthorized, s1)
        | Some check \<Rightarrow> (case check (filter (\<lambda>(k, v). v \<noteq> JNull) form) of None \<Rightarrow> (Inl BadRequest, s1) | Some v \<Rightarrow> (Inr v, s1))))"

definition update_tools_valves_by_id :: "tool_env \<Rightarrow> time \<Rightarrow> id \<Rightarrow> dict \<Rightarrow> user \<Rightarrow> group_db \<Rightarrow> tool_state \<Rightarrow> dict toolkit_answer" where
  "update_tools_valves_by_id env now i form caller gdb s =
     found_tool i s (\<lambda>t. when_allowed (may_write_tool caller gdb t) BadRequest s
       (case checked_tool_valves mo_valves env now i form s of
          (Inl e, s1) \<Rightarrow> (Inl e, s1)
        | (Inr v, s1) \<Rightarrow> (Inr v, s1\<lparr>ts_tools := snd (update_tool_valves_by_id now i v (ts_tools s1))\<rparr>)))"

definition get_tools_user_valves_by_id :: "id \<Rightarrow> user \<Rightarrow> user_db \<Rightarrow> tool_state \<Rightarrow> json option toolkit_answer" where
  "get_tools_user_valves_by_id i caller udb s =
     found_tool i s (\<lambda>t. (Inr (get_user_valves ''tools'' i (u_id caller) udb), s))"

definition update_tools_user_valves_by_id ::
  "tool_env \<Rightarrow> time \<Rightarrow> id \<Rightarrow> dict \<Rightarrow> user \<Rightarrow> user_db \<Rightarrow> tool_state \<Rightarrow> dict toolkit_answer \<times> user_db" where
  "update_tools_user_valves_by_id env now i form caller udb s =
     (case found_tool i s (\<lambda>t. checked_tool_valves mo_user_valves env now i form s) of
        (Inl e, s1) \<Rightarrow> ((Inl e, s1), udb)
      | (Inr v, s1) \<Rightarrow> ((Inr v, s1), snd (update_user_valves ''tools'' i (u_id caller) v udb)))"

section \<open>Requests\<close>

datatype tool_request =
    Create_Tool time tool_form
  | Update_Tool time id tool_form
  | Delete_Tool id
  | Set_Valves time id dict

fun tool_target :: "tool_request \<Rightarrow> id option" where
  "tool_target (Create_Tool now form) = None"
| "tool_target (Update_Tool now i form) = Some i"
| "tool_target (Delete_Tool i) = Some i"
| "tool_target (Set_Valves now i form) = Some i"

fun tool_request_run :: "dict \<Rightarrow> dict \<Rightarrow> tool_env \<Rightarrow> group_db \<Rightarrow> user \<Rightarrow> tool_request \<Rightarrow> tool_state \<Rightarrow> tool_state" where
  "tool_request_run builtin config env gdb u (Create_Tool now form) s = snd (create_new_tools builtin config env now form u gdb s)"
| "tool_request_run builtin config env gdb u (Update_Tool now i form) s = snd (update_tools_by_id env now i form u gdb s)"
| "tool_request_run builtin config env gdb u (Delete_Tool i) s = snd (delete_tools_by_id i u gdb s)"
| "tool_request_run builtin config env gdb u (Set_Valves now i form) s = snd (update_tools_valves_by_id env now i form u gdb s)"

text \<open>That the table of tools holds a row, as a property that actions keep.\<close>

definition holds_tool :: "id \<Rightarrow> tool_row \<Rightarrow> tool_state \<Rightarrow> bool" where
  "holds_tool k t s \<longleftrightarrow> get_tool_by_id k (ts_tools s) = Some t"

lemma get_update_tool:
  assumes "\<And>t. to_id (g t) = to_id t"
  shows "get_tool_by_id k (snd (update_tool i g db)) = (if k = i then map_option g (get_tool_by_id k db) else get_tool_by_id k db)"
  using assms by (auto simp: update_tool_def get_tool_by_id_def row_get_upd_key Let_def split: option.split)

lemmas tool_updates = update_tool_by_id_def update_tool_valves_by_id_def get_update_tool

lemma keeps_modules [keeping]:
  "keeps (holds_tool k t) (cache_tool i m)"
  "keeps (holds_tool k t) (changing (\<lambda>s. s\<lparr>ts_contents := f s\<rparr>))"
  by (simp_all add: cache_tool_def keeps_def holds_tool_def)

lemma keeps_set_content [keeping]: "i \<noteq> k \<Longrightarrow> keeps (holds_tool k t) (set_tool_content now i c)"
  by (simp add: set_tool_content_def keeps_def holds_tool_def tool_updates)

lemma keeps_content [keeping]: "content \<noteq> None \<or> i \<noteq> k \<Longrightarrow> keeps (holds_tool k t) (tool_content env now i content)"
  unfolding tool_content_def
  by (cases content) (auto intro!: keeping split: option.split)

lemma keeps_load [keeping]: "content \<noteq> None \<or> i \<noteq> k \<Longrightarrow> keeps (holds_tool k t) (load_tool_module_by_id env now i content)"
  unfolding load_tool_module_by_id_def by (auto intro!: keeping)

lemma keeps_form: "keeps (holds_tool k t) (loaded_form env now i form)"
  unfolding loaded_form_def Let_def by (auto intro!: keeping)

lemma keeps_cached: "i \<noteq> k \<Longrightarrow> keeps (holds_tool k t) (cached_module env now i)"
  unfolding cached_module_def by (auto intro!: keeping split: option.split)

lemma keeps_then_row:
  assumes "keeps (holds_tool k t) m" "holds_tool k t s"
    and "\<And>x s'. holds_tool k t s' \<Longrightarrow> holds_tool k t (snd (f x s'))"
  shows "holds_tool k t (snd (answering_tool h (next_do m f) s))"
  using keepsD[OF keeps_next[OF assms(1)] assms(2), of f] assms(3)
  by (simp add: keeps_def answering_tool_def case_prod_beta Let_def)

lemma insert_keeps:
  "holds_tool k t s \<Longrightarrow> holds_tool k t (snd (case insert_new_tool now uid form specs (ts_tools s) of
     (None, db) \<Rightarrow> (Inl ValueError, s) | (Some r, db) \<Rightarrow> (Inr r, s\<lparr>ts_tools := db\<rparr>)))"
  by (simp add: insert_new_tool_def Let_def add_row_def holds_tool_def get_tool_by_id_def row_get_def first_row_append)

lemma create_keeps: "holds_tool k t s \<Longrightarrow> holds_tool k t (snd (create_new_tools builtin config env now form u gdb s))"
  by (auto simp: create_new_tools_def when_allowed_state Let_def insert_keeps intro!: keeps_then_row[OF keeps_form])

lemma found_keeps:
  assumes "holds_tool k t s" "\<And>r. i \<noteq> k \<or> r = t \<Longrightarrow> holds_tool k t (snd (g r))"
  shows "holds_tool k t (snd (found_tool i s g))"
proof (cases "get_tool_by_id i (ts_tools s)")
  case None
  then show ?thesis using assms(1) by (simp add: found_tool_def)
next
  case (Some r)
  then have "i \<noteq> k \<or> r = t" using assms(1) by (auto simp: holds_tool_def)
  with assms(2) Some show ?thesis by (simp add: found_tool_def)
qed

lemma checked_keeps: "i \<noteq> k \<Longrightarrow> holds_tool k t s \<Longrightarrow> holds_tool k t (snd (checked_tool_valves f env now i form s))"
  using keepsD[OF keeps_cached, of i k t s env now]
  by (auto simp: checked_tool_valves_def split: prod.splits sum.splits option.splits)

lemma update_keeps:
  "holds_tool k t s \<Longrightarrow> i \<noteq> k \<or> may_write_tool u gdb t \<noteq> Inr True \<Longrightarrow>
     holds_tool k t (snd (update_tools_by_id env now i form u gdb s))"
  unfolding update_tools_by_id_def
  by (rule found_keeps, assumption)
     (auto simp: when_allowed_state holds_tool_def tool_updates apply_tool_form_def case_prod_beta split: option.split
       intro!: keeps_then_row[OF keeps_form, unfolded holds_tool_def])

lemma delete_keeps:
  "holds_tool k t s \<Longrightarrow> i \<noteq> k \<or> may_write_tool u gdb t \<noteq> Inr True \<Longrightarrow> holds_tool k t (snd (delete_tools_by_id i u gdb s))"
  unfolding delete_tools_by_id_def
  by (rule found_keeps, assumption)
     (auto simp: when_allowed_state delete_tool_by_id_def holds_tool_def get_tool_by_id_def row_get_del)

lemma valves_keep:
  assumes s: "holds_tool k t s" and i: "i \<noteq> k \<or> may_write_tool u gdb t \<noteq> Inr True"
  shows "holds_tool k t (snd (update_tools_valves_by_id env now i form u gdb s))"
  unfolding update_tools_valves_by_id_def
proof (rule found_keeps[OF s])
  fix r assume r: "i \<noteq> k \<or> r = t"
  show "holds_tool k t (snd (when_allowed (may_write_tool u gdb r) BadRequest s
      (case checked_tool_valves mo_valves env now i form s of (Inl e, s1) \<Rightarrow> (Inl e, s1)
       | (Inr v, s1) \<Rightarrow> (Inr v, s1\<lparr>ts_tools := snd (update_tool_valves_by_id now i v (ts_tools s1))\<rparr>))))"
  proof (cases "i = k")
    case True then show ?thesis using s i r by (auto simp: when_allowed_state)
  next
    case False
    from checked_keeps[OF False s, of mo_valves env now form] False s show ?thesis
      by (auto simp: when_allowed_state holds_tool_def tool_updates split: prod.splits sum.splits)
  qed
qed

lemma tool_request_keeps:
  "holds_tool k t s \<Longrightarrow> tool_target q \<noteq> Some k \<or> may_write_tool u gdb t \<noteq> Inr True \<Longrightarrow>
     holds_tool k t (tool_request_run builtin config env gdb u q s)"
  by (cases q) (simp_all add: create_keeps update_keeps delete_keeps valves_keep)

interpretation tg: guarded_resource "\<lambda>k s. get_tool_by_id k (ts_tools s)" tool_target "tool_request_run builtin config env gdb"
  "\<lambda>u t. may_write_tool u gdb t = Inr True" for builtin config env gdb
  by unfold_locales (use tool_request_keeps[unfolded holds_tool_def] in blast)+

section \<open>Properties\<close>

text \<open>
  A tool stays as it is (its text, its access list, its valves) under every sequence of creations, updates,
  deletions and changes of valves, by any users, in which nobody who may write it names it; whatever the modules do.
\<close>

lemma tool_writes_guarded:
  assumes "get_tool_by_id k (ts_tools s) = Some t"
    and "\<not> (\<exists>(u, q) \<in> set xs. tool_target q = Some k \<and> may_write_tool u gdb t = Inr True)"
  shows "get_tool_by_id k (ts_tools (run_requests (tool_request_run builtin config env gdb) xs s)) = Some t"
  by (rule tg.run_preserves[OF assms])

definition clock_tool :: tool_row where
  "clock_tool = \<lparr>to_id = ''clock'', to_user_id = ''kim'', to_name = ''Clock'', to_content = ''t = 1'', to_specs = [], to_meta = [],
     to_valves = Some [(''key'', JStr ''s'')], to_access_control = Some [], to_updated_at = 3, to_created_at = 3\<rparr>"

definition plain_env :: tool_env where
  "plain_env = \<lparr>te_plugin = \<lparr>pe_exec = \<lambda>c. Inl ValueError, pe_install = \<lambda>r. Inr ()\<rparr>, te_specs = \<lambda>m. Inr []\<rparr>"

definition sample_tools :: tool_state where
  "sample_tools = \<lparr>ts_tools = [clock_tool, clock_tool\<lparr>to_id := ''open'', to_access_control := None\<rparr>], ts_modules = [], ts_contents = []\<rparr>"

definition clock_form :: tool_form where
  "clock_form = \<lparr>tf_id = ''clock'', tf_name = ''Mine'', tf_content = ''t = 2'', tf_meta = [], tf_access_control = None\<rparr>"

lemma tool_writes_guarded_witness:
  "get_tool_by_id ''clock'' (ts_tools (run_requests (tool_request_run [] [] plain_env sample_groups)
     [(lee, Update_Tool 5 ''clock'' clock_form), (kim, Delete_Tool ''open''), (lee, Set_Valves 6 ''clock'' []), (lee, Delete_Tool ''clock'')]
     sample_tools)) = Some clock_tool"
  by (rule tool_writes_guarded)
     (simp_all add: sample_tools_def clock_tool_def sample_user_defs get_tool_by_id_def row_get_def may_write_tool_def
       may_change_def lee_denied)

text \<open>The valves of a tool are readable for whoever may not read the tool.\<close>

lemma tool_valves_shown_to_all:
  assumes "get_tool_by_id i (ts_tools s) = Some t" "may_access ''read'' u gdb (to_user_id t) (to_access_control t) = Inr False"
  shows "fst (get_tools_by_id i u gdb s) = Inr None \<and>
    fst (get_tools_valves_by_id i u s) = Inr (Some (case to_valves t of None \<Rightarrow> [] | Some d \<Rightarrow> d))"
  using assms by (simp add: get_tools_by_id_def get_tools_valves_by_id_def found_tool_def get_tool_valves_by_id_def)

text \<open>One tool whose text no longer runs, and the list of tools fails for everyone.\<close>

definition uncached :: "id \<Rightarrow> tool_row \<Rightarrow> tool_state \<Rightarrow> bool" where
  "uncached i t s \<longleftrightarrow> get_tool_by_id i (ts_tools s) = Some t \<and> map_of (ts_contents s) i \<noteq> Some (to_content t)"

lemma other_tool_keeps:
  assumes "j \<noteq> i"
  shows "keeps (uncached i t) (get_tool_module_from_cache env now j True)"
proof -
  have "keeps (uncached i t) (set_tool_content now j c)" for c
    using assms by (simp add: set_tool_content_def keeps_def uncached_def tool_updates)
  moreover have "keeps (uncached i t) (cache_tool j m)" for m by (simp add: cache_tool_def keeps_def uncached_def)
  moreover have "uncached i t s \<Longrightarrow> uncached i t (s\<lparr>ts_contents := AList.update j c (ts_contents s)\<rparr>)" for s c
    using assms by (simp add: uncached_def update_conv')
  moreover have "keeps (uncached i t) (load_tool_module_by_id env now j (Some c))" for c
    unfolding load_tool_module_by_id_def tool_content_def by (auto intro!: keeping)
  ultimately show ?thesis
    unfolding get_tool_module_from_cache_def Let_def
    by (auto intro!: keeping split: option.split bool.split)
qed

lemma broken_raises:
  assumes "uncached i t s" "replace_imports (to_content t) = to_content t"
    and "\<And>m. pe_exec (te_plugin env) (to_content t) \<noteq> Inr m"
  shows "\<exists>e s'. get_tool_module_from_cache env now i True s = (Inl e, s')"
proof -
  have l: "\<exists>e s'. load_tool_module_by_id env now i (Some (to_content t)) s = (Inl e, s')"
    using assms(3)
    by (cases "install_frontmatter_requirements (te_plugin env)
           (case dget (extract_frontmatter (to_content t)) ''requirements'' of Some (JStr r) \<Rightarrow> r | _ \<Rightarrow> [])";
        cases "pe_exec (te_plugin env) (to_content t)")
       (auto simp: load_tool_module_by_id_def tool_content_def next_do_def)
  then show ?thesis using assms(1,2)
    by (auto simp: get_tool_module_from_cache_def uncached_def Let_def next_do_def split: option.split)
qed

lemma entries_raise:
  assumes "uncached i t s" "replace_imports (to_content t) = to_content t"
    and "\<And>m. pe_exec (te_plugin env) (to_content t) \<noteq> Inr m" "i \<in> to_id ` set ts"
  shows "\<exists>e s'. tool_entries env now ts s = (Inl e, s')"
  using assms(1,4)
proof (induction ts arbitrary: s)
  case (Cons x ts)
  show ?case
  proof (cases "to_id x = i")
    case True
    then show ?thesis using broken_raises[OF Cons.prems(1) assms(2,3), of now] by (auto simp: next_do_def)
  next
    case False
    obtain r s1 where g: "get_tool_module_from_cache env now (to_id x) True s = (r, s1)" by fastforce
    then have "uncached i t s1" using keepsD[OF other_tool_keeps[OF False] Cons.prems(1)] by (metis snd_conv)
    then obtain e s2 where "tool_entries env now ts s1 = (Inl e, s2)" using Cons.IH[of s1] Cons.prems(2) False by auto
    then show ?thesis using g by (cases r) (auto simp: next_do_def)
  qed
qed simp

lemma broken_tool_hides_all:
  assumes "uncached i t s" "replace_imports (to_content t) = to_content t"
    and "\<And>m. pe_exec (te_plugin env) (to_content t) \<noteq> Inr m"
  shows "fst (get_tools_handler env now bypass servers u gdb udb s) = Inl ServerError"
proof -
  have "i \<in> to_id ` set (map fst (get_tools udb (ts_tools s)))"
    using assms(1) by (auto simp: uncached_def get_tools_def get_tool_by_id_def row_get_def image_iff dest!: first_row_SomeD)
  from entries_raise[OF assms this, of now] show ?thesis
    by (auto simp: get_tools_handler_def)
qed

end
