(* ===== verification/Retrieval.thy ===== *)
theory Retrieval
  imports Notes Files Chats Payload Misc_Messages
begin

text \<open>
  \<^verbatim>\<open>retrieval/utils.py\<close>: queries against the collections of the vector database, their results merged, and the
  sources gathered from the items attached to a request. The vector database, the embedding of texts, the ensemble
  of LangChain, the scores of a reranking model and the loaders of web pages are functions of the record
  \<open>retrieval\<close>; distances are of a linearly ordered type (floats other than NaN).
\<close>

section \<open>Merging results\<close>

text \<open>A result has a list of lists for each kind of data; the code reads the first. Absent data is the empty list.\<close>

record 'd results =
  rs_distances :: "'d list list"
  rs_documents :: "json list list"
  rs_metadatas :: "json list list"

type_synonym 'd hit = "'d \<times> json \<times> json"

definition first_or_error :: "'a list \<Rightarrow> py_error + 'a" where
  "first_or_error xs = (case xs of [] \<Rightarrow> Inl IndexError | x # _ \<Rightarrow> Inr x)"

definition merge_get_results :: "'d results list \<Rightarrow> py_error + 'd results" where
  "merge_get_results rs =
     and_then (each (\<lambda>r. first_or_error (rs_documents r)) rs) (\<lambda>ds.
     and_then (each (\<lambda>r. first_or_error (rs_metadatas r)) rs) (\<lambda>ms.
       Inr \<lparr>rs_distances = [], rs_documents = [concat ds], rs_metadatas = [concat ms]\<rparr>))"

text \<open>A document that is found again keeps its place, with the better of the two hits.\<close>

definition add_hit :: "(string \<Rightarrow> 'h) \<Rightarrow> ('d :: linorder) hit \<Rightarrow> ('h \<times> 'd hit) list \<Rightarrow> ('h \<times> 'd hit) list" where
  "add_hit digest h hs = (case h of (d, JStr s, m) \<Rightarrow>
       (case map_of hs (digest s) of
          None \<Rightarrow> hs @ [(digest s, h)]
        | Some h0 \<Rightarrow> if d > fst h0 then AList.update (digest s) h hs else hs)
     | _ \<Rightarrow> hs)"

definition hits_of :: "'d results \<Rightarrow> 'd hit list" where
  "hits_of r = (case (rs_distances r, rs_documents r, rs_metadatas r) of
     (ds # _, xs # _, ms # _) \<Rightarrow> zip ds (zip xs ms) | _ \<Rightarrow> [])"

text \<open>\<open>xs.sort(key=f, reverse=True)\<close> keeps the order of equal elements; \<open>xs[:k]\<close> with a negative \<open>k\<close> drops from the end.\<close>

definition sort_down :: "('a \<Rightarrow> 'd :: linorder) \<Rightarrow> 'a list \<Rightarrow> 'a list" where
  "sort_down f xs = rev (sort_key f (rev xs))"

definition first_items :: "int \<Rightarrow> 'a list \<Rightarrow> 'a list" where
  "first_items k xs = (if 0 \<le> k then take (nat k) xs else take (length xs - nat (- k)) xs)"

definition combined_hits :: "(string \<Rightarrow> 'h) \<Rightarrow> ('d :: linorder) results list \<Rightarrow> ('h \<times> 'd hit) list" where
  "combined_hits digest rs = fold (add_hit digest) (concat (map hits_of rs)) []"

definition results_of :: "'d hit list \<Rightarrow> 'd results" where
  "results_of hs = \<lparr>rs_distances = [map fst hs], rs_documents = [map (fst \<circ> snd) hs], rs_metadatas = [map (snd \<circ> snd) hs]\<rparr>"

definition merge_and_sort_query_results :: "(string \<Rightarrow> 'h) \<Rightarrow> ('d :: linorder) results list \<Rightarrow> int \<Rightarrow> 'd results" where
  "merge_and_sort_query_results digest rs k =
     results_of (first_items k (sort_down fst (map snd (combined_hits digest rs))))"

lemma sort_down_props [simp]: "set (sort_down f xs) = set xs" "length (sort_down f xs) = length xs"
  by (simp_all add: sort_down_def)

lemma sort_down_distinct: "distinct (map g (sort_down f xs)) \<longleftrightarrow> distinct (map g xs)"
  by (simp add: sort_down_def rev_map[symmetric] distinct_map)

lemma sort_down_sorted: "sorted_wrt (\<lambda>x y. f y \<le> f x) (sort_down f xs)"
  using sorted_sort_key[of f "rev xs"]
  by (simp add: sort_down_def sorted_wrt_rev sorted_map)

lemma sort_down_stable: "filter (\<lambda>x. f x = v) (sort_down f xs) = filter (\<lambda>x. f x = v) xs"
  by (simp add: sort_down_def rev_filter[symmetric] sort_key_stable)

text \<open>What the combined hits hold after the hits \<open>seen\<close>: for each text its best hit, under its digest.\<close>

lemma map_of_add_hit:
  "map_of (add_hit digest (d, JStr s, m) hs) = (map_of hs)(digest s \<mapsto>
     (case map_of hs (digest s) of None \<Rightarrow> (d, JStr s, m) | Some h0 \<Rightarrow> if d > fst h0 then (d, JStr s, m) else h0))"
  by (auto simp: add_hit_def update_conv' fun_eq_iff map_add_def split: option.split)

lemma add_hit_other: "(\<And>s. doc \<noteq> JStr s) \<Longrightarrow> add_hit digest (d, doc, m) hs = hs"
  by (auto simp: add_hit_def split: json.split)

lemma distinct_add_hit: "distinct (map fst hs) \<Longrightarrow> distinct (map fst (add_hit digest h hs))"
  by (auto simp: add_hit_def distinct_update map_of_eq_None_iff split: prod.split json.split option.split)

definition best_hits :: "(string \<Rightarrow> 'h) \<Rightarrow> ('d :: linorder) hit list \<Rightarrow> ('h \<times> 'd hit) list \<Rightarrow> bool" where
  "best_hits digest seen hs \<longleftrightarrow>
     distinct (map fst hs) \<and>
     (\<forall>k h. map_of hs k = Some h \<longrightarrow> h \<in> set seen \<and> (\<exists>s. fst (snd h) = JStr s \<and> k = digest s)) \<and>
     (\<forall>d s m. (d, JStr s, m) \<in> set seen \<longrightarrow> (\<exists>h. map_of hs (digest s) = Some h \<and> d \<le> fst h))"

lemma best_hits_add:
  assumes b: "best_hits digest seen hs"
  shows "best_hits digest (seen @ [h]) (add_hit digest h hs)"
proof -
  obtain d doc m where h: "h = (d, doc, m)" by (cases h)
  show ?thesis
  proof (cases "\<exists>s. doc = JStr s")
    case False
    then have "add_hit digest h hs = hs" unfolding h by (blast intro: add_hit_other)
    then show ?thesis using b False by (auto simp: best_hits_def h simp del: map_of_eq_Some_iff) blast
  next
    case True
    then obtain s where s: "doc = JStr s" by blast
    define w where "w = (case map_of hs (digest s) of None \<Rightarrow> (d, JStr s, m) | Some h0 \<Rightarrow> if d > fst h0 then (d, JStr s, m) else h0)"
    have best: "d \<le> fst w" "map_of hs (digest s) = Some h0 \<Longrightarrow> fst h0 \<le> fst w" for h0
      by (auto simp: w_def split: option.split)
    have from_seen: "w \<in> set (seen @ [h]) \<and> (\<exists>t. fst (snd w) = JStr t \<and> digest s = digest t)"
      using b by (auto simp: best_hits_def h s w_def split: option.split)
    have upd: "map_of (add_hit digest h hs) = (map_of hs)(digest s \<mapsto> w)" unfolding h s w_def by (rule map_of_add_hit)
    have kept: "map_of hs k = Some g \<Longrightarrow> g \<in> set seen \<and> (\<exists>t. fst (snd g) = JStr t \<and> k = digest t)" for k g
      using b unfolding best_hits_def by blast
    show ?thesis unfolding best_hits_def
    proof (intro conjI allI impI)
      show "distinct (map fst (add_hit digest h hs))" using b by (simp add: best_hits_def distinct_add_hit)
      fix k g assume "map_of (add_hit digest h hs) k = Some g"
      then have g: "k = digest s \<and> g = w \<or> map_of hs k = Some g"
        unfolding upd by (simp split: if_splits)
      then show "g \<in> set (seen @ [h])" "\<exists>t. fst (snd g) = JStr t \<and> k = digest t"
        using from_seen kept[of k g] by auto
    next
      fix d' t m' assume t: "(d', JStr t, m') \<in> set (seen @ [h])"
      show "\<exists>g. map_of (add_hit digest h hs) (digest t) = Some g \<and> d' \<le> fst g"
      proof (cases "digest t = digest s")
        case False
        then have "(d', JStr t, m') \<in> set seen" using t by (auto simp: h s)
        then obtain g where "map_of hs (digest t) = Some g" "d' \<le> fst g" using b unfolding best_hits_def by blast
        then show ?thesis using False unfolding upd by simp
      next
        case True
        have "d' \<le> fst w"
        proof (cases "(d', JStr t, m') \<in> set seen")
          case True
          then obtain h0 where h0: "map_of hs (digest t) = Some h0" "d' \<le> fst h0" using b unfolding best_hits_def by blast
          then have "fst h0 \<le> fst w" using best(2) \<open>digest t = digest s\<close> by simp
          then show ?thesis using h0(2) by simp
        qed (use t best(1) in \<open>auto simp: h s\<close>)
        then show ?thesis unfolding upd using True by auto
      qed
    qed
  qed
qed

lemma combined_best: "best_hits digest (concat (map hits_of rs)) (combined_hits digest rs)"
proof -
  have "best_hits digest seen hs \<Longrightarrow> best_hits digest (seen @ xs) (fold (add_hit digest) xs hs)" for seen hs xs
  proof (induction xs arbitrary: seen hs)
    case (Cons x xs)
    from Cons.IH[OF best_hits_add[OF Cons.prems, of x]] show ?case by simp
  qed simp
  moreover have "best_hits digest [] []" by (simp add: best_hits_def)
  ultimately have "best_hits digest ([] @ concat (map hits_of rs)) (combined_hits digest rs)"
    unfolding combined_hits_def by blast
  then show ?thesis by simp
qed

lemma hits_of_results_of [simp]: "hits_of (results_of hs) = hs"
  by (induction hs) (simp_all add: hits_of_def results_of_def)

text \<open>The best hits, before the list is cut: each text once, with the best distance it was found at.\<close>

definition ranked_hits :: "(string \<Rightarrow> 'h) \<Rightarrow> ('d :: linorder) results list \<Rightarrow> 'd hit list" where
  "ranked_hits digest rs = sort_down fst (map snd (combined_hits digest rs))"

lemma ranked_hits_props:
  assumes "inj digest"
  shows "distinct (map (fst \<circ> snd) (ranked_hits digest rs))"
    and "h \<in> set (ranked_hits digest rs) \<Longrightarrow> h \<in> set (concat (map hits_of rs)) \<and> (\<exists>s. fst (snd h) = JStr s)"
    and "(d, JStr s, m) \<in> set (concat (map hits_of rs)) \<Longrightarrow>
       \<exists>h \<in> set (ranked_hits digest rs). fst (snd h) = JStr s \<and> d \<le> fst h"
proof -
  let ?hs = "combined_hits digest rs"
  note b = combined_best[of digest rs, unfolded best_hits_def]
  have key: "(k, h) \<in> set ?hs \<Longrightarrow> h \<in> set (concat (map hits_of rs)) \<and> (\<exists>s. fst (snd h) = JStr s \<and> k = digest s)" for k h
    using b by (metis map_of_eq_Some_iff)
  have "inj_on (fst \<circ> snd \<circ> snd) (set ?hs)"
  proof (rule inj_onI)
    fix x y assume x: "x \<in> set ?hs" and y: "y \<in> set ?hs" and e: "(fst \<circ> snd \<circ> snd) x = (fst \<circ> snd \<circ> snd) y"
    then have "fst x = fst y" using key[of "fst x" "snd x"] key[of "fst y" "snd y"] by auto
    then show "x = y" using x y b by (metis eq_key_imp_eq_value prod.collapse)
  qed
  then show "distinct (map (fst \<circ> snd) (ranked_hits digest rs))"
    using b unfolding ranked_hits_def sort_down_distinct map_map by (simp add: distinct_map comp_assoc)
  show "h \<in> set (ranked_hits digest rs) \<Longrightarrow> h \<in> set (concat (map hits_of rs)) \<and> (\<exists>s. fst (snd h) = JStr s)"
    using key by (fastforce simp: ranked_hits_def)
  show "\<exists>h \<in> set (ranked_hits digest rs). fst (snd h) = JStr s \<and> d \<le> fst h" if f: "(d, JStr s, m) \<in> set (concat (map hits_of rs))"
  proof -
    obtain h where h: "map_of ?hs (digest s) = Some h" "d \<le> fst h" using b f by blast
    then have "(digest s, h) \<in> set ?hs" by (simp add: map_of_SomeD)
    moreover from this obtain t where "fst (snd h) = JStr t" "digest s = digest t" using key by blast
    ultimately show ?thesis using h(2) assms by (force simp: ranked_hits_def inj_eq)
  qed
qed

lemma sorted_take_ge: "sorted_wrt (\<lambda>x y. f y \<le> (f x :: 'd :: linorder)) xs \<Longrightarrow> x \<in> set xs \<Longrightarrow> x \<notin> set (take n xs) \<Longrightarrow>
    length (take n xs) = n \<and> (\<forall>y \<in> set (take n xs). f x \<le> f y)"
proof (induction xs arbitrary: n)
  case (Cons a xs)
  then show ?case by (cases n) auto
qed simp

text \<open>
  C24: Merging the results of several queries keeps the best \<open>k\<close> hits: they are hits that were found, best first, no
  text twice, each with the best distance it was found at; a text that was found and is missing is no better
  than any of the \<open>k\<close> that are listed.
\<close>

theorem merged_results_best:
  fixes digest :: "string \<Rightarrow> 'h" and rs :: "('d :: linorder) results list"
  assumes "inj digest" "0 \<le> k"
  defines "found \<equiv> concat (map hits_of rs)"
    and "listed \<equiv> hits_of (merge_and_sort_query_results digest rs k)"
  shows "sorted_wrt (\<lambda>g h. fst h \<le> fst g) listed \<and> length listed \<le> nat k \<and> distinct (map (fst \<circ> snd) listed) \<and>
    (\<forall>h \<in> set listed. h \<in> set found \<and> (\<forall>g \<in> set found. fst (snd g) = fst (snd h) \<longrightarrow> fst g \<le> fst h)) \<and>
    (\<forall>d s m. (d, JStr s, m) \<in> set found \<longrightarrow>
       JStr s \<in> (fst \<circ> snd) ` set listed \<or> length listed = nat k \<and> (\<forall>h \<in> set listed. d \<le> fst h))"
proof -
  let ?all = "ranked_hits digest rs"
  have l: "listed = take (nat k) ?all"
    using assms(2) by (simp add: listed_def merge_and_sort_query_results_def first_items_def ranked_hits_def)
  note p = ranked_hits_props[OF assms(1), where rs = rs, folded found_def]
  have s: "sorted_wrt (\<lambda>g h. fst h \<le> fst g) ?all" by (simp add: ranked_hits_def sort_down_sorted)
  have best: "fst g \<le> fst h" if h: "h \<in> set listed" and g: "g \<in> set found" and e: "fst (snd g) = fst (snd h)" for g h
  proof -
    have ha: "h \<in> set ?all" using h l by (auto dest: in_set_takeD)
    then obtain t where t: "fst (snd h) = JStr t" using p(2) by blast
    then obtain h' where h': "h' \<in> set ?all" "fst (snd h') = JStr t" "fst g \<le> fst h'"
      using p(3)[of "fst g" t "snd (snd g)"] g e by (metis prod.collapse)
    have "h' = h" using p(1) ha h'(1,2) t by (simp add: distinct_map inj_on_def)
    then show ?thesis using h'(3) by simp
  qed
  have missing: "JStr t \<in> (fst \<circ> snd) ` set listed \<or> length listed = nat k \<and> (\<forall>h \<in> set listed. d \<le> fst h)"
    if f: "(d, JStr t, m) \<in> set found" for d t m
  proof -
    obtain h where h: "h \<in> set ?all" "fst (snd h) = JStr t" "d \<le> fst h" using p(3)[OF f] by blast
    show ?thesis
    proof (cases "h \<in> set listed")
      case True
      then show ?thesis using h(2) by force
    next
      case False
      then show ?thesis using sorted_take_ge[OF s h(1), of "nat k"] h(3) l order_trans by metis
    qed
  qed
  have "sorted_wrt (\<lambda>g h. fst h \<le> fst g) listed" "length listed \<le> nat k" "distinct (map (fst \<circ> snd) listed)"
    using s p(1) by (simp_all add: l sorted_wrt_take take_map[symmetric])
  moreover have "\<forall>h \<in> set listed. h \<in> set found" using p(2) l by (blast dest: in_set_takeD)
  ultimately show ?thesis using best missing by blast
qed

definition query_results :: "int results list" where
  "query_results =
     [\<lparr>rs_distances = [[7, 3]], rs_documents = [[JStr ''a'', JStr ''b'']], rs_metadatas = [[JNull, JInt 1]]\<rparr>,
      \<lparr>rs_distances = [[9, 8]], rs_documents = [[JStr ''b'', JStr ''c'']], rs_metadatas = [[JInt 2, JInt 3]]\<rparr>]"

lemma merged_results_best_witness:
  "hits_of (merge_and_sort_query_results id query_results 2) = [(9, JStr ''b'', JInt 2), (8, JStr ''c'', JInt 3)] \<and>
   list_all (\<lambda>h. 7 \<le> fst h) (hits_of (merge_and_sort_query_results id query_results 2))"
proof -
  have l: "hits_of (merge_and_sort_query_results id query_results 2) = [(9, JStr ''b'', JInt 2), (8, JStr ''c'', JInt 3)]"
    by code_simp
  have "(7, JStr ''a'', JNull) \<in> set (concat (map hits_of query_results))" by (simp add: query_results_def hits_of_def)
  with merged_results_best[of id 2 query_results] l show ?thesis by auto
qed

section \<open>Queries\<close>

record ('v, 'd) vector_env =
  ve_digest :: "string \<Rightarrow> string"
  ve_embed :: "json list \<Rightarrow> py_error + 'v list"
  ve_search :: "json \<Rightarrow> 'v \<Rightarrow> int \<Rightarrow> py_error + 'd results option"
  ve_get :: "json \<Rightarrow> py_error + 'd results option"
  ve_ensemble :: "json \<Rightarrow> json list \<Rightarrow> json list \<Rightarrow> json \<Rightarrow> py_error + (json \<times> dict) list"
  ve_scores :: "json \<Rightarrow> json list \<Rightarrow> py_error + 'd list"
  ve_number :: "'d \<Rightarrow> json"
  ve_load :: "bool \<Rightarrow> json \<Rightarrow> py_error + string list"
  ve_order :: "json list \<Rightarrow> json list"

text \<open>The numbers of a search: results asked for, results left by the reranker, least score (None for zero), and the modes.\<close>

record 'd search_conf =
  sf_k :: int
  sf_k_reranker :: int
  sf_least :: "'d option"
  sf_hybrid :: bool
  sf_enriched :: bool
  sf_full :: bool
  sf_bypass :: bool

definition get_all_items_from_collections :: "('v, 'd) vector_env \<Rightarrow> json list \<Rightarrow> py_error + 'd results" where
  "get_all_items_from_collections env names =
     merge_get_results (List.map_filter (\<lambda>n. if \<not> truthy n then None else (case ve_get env n of Inl e \<Rightarrow> None | Inr r \<Rightarrow> r)) names)"

text \<open>Every query runs against every collection; what fails is left out.\<close>

definition process_query_collection :: "('v, 'd) vector_env \<Rightarrow> int \<Rightarrow> json \<Rightarrow> 'v \<Rightarrow> 'd results option" where
  "process_query_collection env k name v =
     (if \<not> truthy name then None else (case ve_search env name v k of Inl e \<Rightarrow> None | Inr r \<Rightarrow> r))"

definition query_collection :: "('v, 'd :: linorder) vector_env \<Rightarrow> json list \<Rightarrow> json list \<Rightarrow> int \<Rightarrow> py_error + 'd results" where
  "query_collection env names queries k =
     and_then (ve_embed env queries) (\<lambda>vs.
       Inr (merge_and_sort_query_results (ve_digest env)
         (concat (map (\<lambda>v. List.map_filter (\<lambda>n. process_query_collection env k n v) names) vs)) k))"

definition spaced :: "string \<Rightarrow> string" where
  "spaced s = map (\<lambda>c. if c \<in> {CHR ''_'', CHR ''-'', CHR ''.''} then CHR '' '' else c) s"

text \<open>A text with what is known of it; the metadata are dictionaries, their name a text.\<close>

definition enriched_text :: "json \<Rightarrow> dict \<Rightarrow> py_error + json" where
  "enriched_text doc m =
     (case (doc, dget_or m ''name'' JNull) of
        (JStr s, name) \<Rightarrow>
          (let part = (\<lambda>k label. if truthy (dget_or m k JNull) then [label @ py_str (dget_or m k JNull)] else []);
               headings = (case dget_or m ''headings'' JNull of JList hs \<Rightarrow> if hs = [] then [] else [''Section: '' @ join '' > '' (map py_str hs)] | _ \<Rightarrow> []);
               rest = part ''title'' ''Title: '' @ headings @ part ''source'' ''Source: '' @ part ''snippet'' ''Snippet: ''
           in if \<not> truthy name then Inr (JStr (join '' '' (s # rest)))
              else (case name of
                 JStr f \<Rightarrow> Inr (JStr (join '' '' (s # (''Filename: '' @ f @ '' '' @ spaced f @ '' '' @ spaced f) # rest)))
               | _ \<Rightarrow> Inl AttributeError))
      | _ \<Rightarrow> Inl TypeError)"

definition get_enriched_texts :: "json list \<Rightarrow> json list \<Rightarrow> py_error + json list" where
  "get_enriched_texts docs metas =
     (if length metas < length docs then Inl IndexError
      else each (\<lambda>(d, m). case m of JDict md \<Rightarrow> enriched_text d md | _ \<Rightarrow> Inl AttributeError) (zip docs metas))"

text \<open>The reranker: scores below the least one are dropped, the best ones kept, each with its score.\<close>

definition acompress_documents :: "('v, 'd :: linorder) vector_env \<Rightarrow> int \<Rightarrow> 'd option \<Rightarrow> json \<Rightarrow> (json \<times> dict) list \<Rightarrow> py_error + (json \<times> dict \<times> 'd) list" where
  "acompress_documents env top_n least query docs =
     and_then (ve_scores env query (map fst docs)) (\<lambda>scores.
       Inr (map (\<lambda>((doc, m), s). (doc, dset ''score'' (ve_number env s) m, s))
         (first_items top_n (sort_down snd
           (filter (\<lambda>(d, s). case least of None \<Rightarrow> True | Some r \<Rightarrow> r \<le> s) (zip docs scores))))))"

definition query_doc_with_hybrid_search ::
  "('v, 'd :: linorder) vector_env \<Rightarrow> 'd search_conf \<Rightarrow> json \<Rightarrow> 'd results \<Rightarrow> json \<Rightarrow> py_error + 'd results" where
  "query_doc_with_hybrid_search env conf name collection query =
     (case rs_documents collection of
        (doc # docs) # _ \<Rightarrow>
          and_then (first_or_error (rs_metadatas collection)) (\<lambda>metas.
          and_then (if sf_enriched conf then get_enriched_texts (doc # docs) metas else Inr (doc # docs)) (\<lambda>texts.
          and_then (ve_ensemble env name texts metas query) (\<lambda>found.
          and_then (acompress_documents env (sf_k_reranker conf) (sf_least conf) query found) (\<lambda>ranked.
            let hits = map (\<lambda>(doc, m, s). (s, doc, JDict m)) ranked
            in Inr (results_of (if sf_k conf < sf_k_reranker conf then first_items (sf_k conf) (sort_down fst hits) else hits))))))
      | _ \<Rightarrow> Inr \<lparr>rs_distances = [], rs_documents = [], rs_metadatas = []\<rparr>)"

definition query_collection_with_hybrid_search ::
  "('v, 'd :: linorder) vector_env \<Rightarrow> 'd search_conf \<Rightarrow> json list \<Rightarrow> json list \<Rightarrow> py_error + 'd results" where
  "query_collection_with_hybrid_search env conf names queries =
     (let fetched = List.map_filter (\<lambda>n. case ve_get env n of Inr (Some c) \<Rightarrow> Some (n, c) | _ \<Rightarrow> None) names;
          runs = concat (map (\<lambda>(n, c). map (query_doc_with_hybrid_search env conf n c) queries) fetched);
          rs = List.map_filter (\<lambda>r. case r of Inl e \<Rightarrow> None | Inr x \<Rightarrow> Some x) runs
      in if rs = [] \<and> runs \<noteq> [] then Inl ValueError
         else Inr (merge_and_sort_query_results (ve_digest env) rs (sf_k conf)))"

section \<open>Items attached to a request\<close>

text \<open>\<open>v.get(k1, d1).get(k2, d2)...\<close>\<close>

fun get_path :: "json \<Rightarrow> (string \<times> json) list \<Rightarrow> py_error + json" where
  "get_path v [] = Inr v"
| "get_path v ((k, d) # ks) = and_then (item_or v k d) (\<lambda>w. get_path w ks)"

definition one_document :: "json \<Rightarrow> json \<Rightarrow> 'd results" where
  "one_document doc m = \<lparr>rs_distances = [], rs_documents = [[doc]], rs_metadatas = [[m]]\<rparr>"

definition named :: "json \<Rightarrow> json \<Rightarrow> dict" where
  "named i name = [(''file_id'', i), (''name'', name)]"

text \<open>What an item gives: a result, or names of collections to be searched.\<close>

type_synonym 'd given = "py_error + 'd results option \<times> json list"

definition in_full :: "dict \<Rightarrow> bool" where "in_full item \<longleftrightarrow> dget item ''context'' = Some (JStr ''full'')"

definition text_file :: "dict \<Rightarrow> 'd given" where
  "text_file item =
     and_then (get_path (JDict item) [(''file'', JDict []), (''data'', JDict []), (''content'', JNull)]) (\<lambda>c.
     and_then (get_path (JDict item) [(''file'', JDict []), (''meta'', JDict [])]) (\<lambda>m. Inr (Some (one_document c m), [])))"

definition text_item :: "dict \<Rightarrow> 'd given" where
  "text_item item =
     (let has_file = truthy (dget_or item ''file'' JNull); name = dget_or item ''collection_name'' JNull
      in if in_full item \<and> has_file then text_file item
         else if truthy name then Inr (None, [name])
         else if has_file then text_file item
         else Inr (Some (one_document (dget_or item ''content'' JNull)
                (JDict (named (dget_or item ''id'' JNull) (dget_or item ''name'' JNull)))), []))"

definition may_read_item :: "user \<Rightarrow> group_db \<Rightarrow> id \<Rightarrow> dict option \<Rightarrow> py_error + bool" where
  "may_read_item caller gdb owner ac =
     (if u_role caller = ''admin'' \<or> owner = u_id caller then Inr True else has_access (u_id caller) ''read'' ac None True gdb)"

text \<open>The row with the id of an item.\<close>

definition row_of :: "(id \<Rightarrow> 'r option) \<Rightarrow> dict \<Rightarrow> 'r option" where
  "row_of f item = (case dget item ''id'' of Some (JStr i) \<Rightarrow> f i | _ \<Rightarrow> None)"

definition note_item :: "user \<Rightarrow> group_db \<Rightarrow> note_row list \<Rightarrow> dict \<Rightarrow> 'd given" where
  "note_item caller gdb notes item = (case row_of (\<lambda>i. get_note_by_id i notes) item of
     None \<Rightarrow> Inr (None, [])
   | Some n \<Rightarrow> and_then (may_read_item caller gdb (nt_user_id n) (nt_access_control n)) (\<lambda>b.
       if \<not> b then Inr (None, [])
       else and_then (case nt_data n of None \<Rightarrow> Inl AttributeError | Some d \<Rightarrow> get_path (JDict d) [(''content'', JDict []), (''md'', JStr [])]) (\<lambda>c.
         Inr (Some (one_document c (JDict (named (JStr (nt_id n)) (JStr (nt_title n))))), []))))"

text \<open>\<open>s.capitalize()\<close>\<close>

definition capitalize :: "string \<Rightarrow> string" where
  "capitalize s = (case s of [] \<Rightarrow> [] | c # cs \<Rightarrow> (if code c = 223 then ''Ss'' else upper_char c) @ lower cs)"

definition history_line :: "json \<Rightarrow> py_error + string" where
  "history_line m =
     and_then (item_or m ''role'' (JStr ''user'')) (\<lambda>role.
     and_then (item_or m ''content'' JNull) (\<lambda>c. case role of
       JStr r \<Rightarrow> Inr (''#### '' @ capitalize r @ nl @ py_str c @ nl) | _ \<Rightarrow> Inl AttributeError))"

text \<open>The messages of a chat from its first to its current one; None when the loop over parent links does not end.\<close>

definition chat_history :: "json \<Rightarrow> json \<Rightarrow> (py_error + string) option" where
  "chat_history mm i = (case mm of
     JDict d \<Rightarrow> map_option (\<lambda>r. and_then r (\<lambda>ms. and_then (each history_line ms) (\<lambda>ls. Inr (join nl ls)))) (get_message_list d i)
   | _ \<Rightarrow> Some (Inl AttributeError))"

definition chat_document :: "chat \<Rightarrow> ('d given) option" where
  "chat_document c =
     (case and_then (get_path (JDict (cht_chat c)) [(''history'', JDict []), (''messages'', JDict [])]) (\<lambda>mm.
           and_then (get_path (JDict (cht_chat c)) [(''history'', JDict []), (''currentId'', JNull)]) (\<lambda>i. Inr (mm, i))) of
        Inl e \<Rightarrow> Some (Inl e)
      | Inr (mm, i) \<Rightarrow>
          if \<not> truthy mm \<or> \<not> truthy i then Some (Inr (None, []))
          else map_option (\<lambda>r. and_then r (\<lambda>t.
            Inr (Some (one_document (JStr t) (JDict (named (JStr (cht_id c)) (case cht_title c of None \<Rightarrow> JNull | Some s \<Rightarrow> JStr s)))), [])))
            (chat_history mm i))"

definition chat_item :: "user \<Rightarrow> dict \<Rightarrow> chat_db \<Rightarrow> ('d given \<times> chat_db) option" where
  "chat_item caller item db = (case dget item ''id'' of
     Some (JStr i) \<Rightarrow>
       (case get_chat_by_id i db of
          (None, db') \<Rightarrow> Some (Inr (None, []), db')
        | (Some c, db') \<Rightarrow>
            if u_role caller = ''admin'' \<or> cht_user_id c = u_id caller then map_option (\<lambda>g. (g, db')) (chat_document c)
            else Some (Inr (None, []), db'))
   | _ \<Rightarrow> Some (Inr (None, []), db))"

text \<open>\<open>^(https?://)?(www\.)?(youtube\.com|youtu\.be)/.+$\<close>\<close>

definition after_start :: "string \<Rightarrow> string \<Rightarrow> string" where
  "after_start p s = (if startswith s p then drop (length p) s else s)"

definition is_youtube_url :: "string \<Rightarrow> bool" where
  "is_youtube_url url =
     (let s = after_start ''www.'' (if startswith url ''https://'' then drop 8 url else after_start ''http://'' url);
          r = (if startswith s ''youtube.com/'' then drop 12 s else if startswith s ''youtu.be/'' then drop 9 s else [])
      in r \<noteq> [] \<and> hd r \<noteq> CHR 0x0A \<and> CHR 0x0A \<notin> set (butlast r))"

definition get_content_from_url :: "('v, 'd) vector_env \<Rightarrow> json \<Rightarrow> py_error + string \<times> string list" where
  "get_content_from_url env url = (case url of
     JStr u \<Rightarrow> and_then (ve_load env (is_youtube_url u) url) (\<lambda>docs. Inr (join '' '' docs, docs))
   | _ \<Rightarrow> Inl TypeError)"

definition url_item :: "('v, 'd) vector_env \<Rightarrow> dict \<Rightarrow> 'd given" where
  "url_item env item =
     (let url = dget_or item ''url'' JNull
      in and_then (get_content_from_url env url) (\<lambda>(content, docs).
           Inr (if docs = [] then None else Some (one_document (JStr content) (JDict [(''url'', url), (''name'', url)])), [])))"

text \<open>The text of a stored file, as it is given to whoever names the id of the file.\<close>

definition stored_file :: "dict \<Rightarrow> file_row \<Rightarrow> 'd given" where
  "stored_file item f = (case fl_data f of
     None \<Rightarrow> Inl AttributeError
   | Some d \<Rightarrow> Inr (Some (one_document (dget_or d ''content'' (JStr []))
        (JDict (named (dget_or item ''id'' JNull) (JStr (fl_filename f)) @ [(''source'', JStr (fl_filename f))]))), []))"

definition file_item :: "'d search_conf \<Rightarrow> library \<Rightarrow> dict \<Rightarrow> 'd given" where
  "file_item conf lib item =
     (if in_full item \<or> sf_bypass conf then
        and_then (get_path (JDict item) [(''file'', JDict []), (''data'', JDict []), (''content'', JStr [])]) (\<lambda>c.
          if truthy c then
            and_then (get_path (JDict item) [(''file'', JNull), (''data'', JDict []), (''metadata'', JDict [])]) (\<lambda>m. case m of
              JDict md \<Rightarrow> Inr (Some (one_document c (JDict (dmerge (named (dget_or item ''id'' JNull) (dget_or item ''name'' JNull)) md))), [])
            | _ \<Rightarrow> Inl TypeError)
          else (case row_of (\<lambda>i. if i = [] then None else get_file_by_id i lib) item of
             None \<Rightarrow> Inr (None, []) | Some f \<Rightarrow> stored_file item f))
      else (case dget item ''id'' of
         None \<Rightarrow> Inl KeyError
       | Some i \<Rightarrow> Inr (None, [JStr (if truthy (dget_or item ''legacy'' JNull) then py_str i else ''file-'' @ py_str i)])))"

definition base_documents :: "file_row list \<Rightarrow> 'd given" where
  "base_documents fs =
     and_then (each (\<lambda>f. case fl_data f of None \<Rightarrow> Inl AttributeError | Some d \<Rightarrow> Inr (dget_or d ''content'' (JStr []))) fs) (\<lambda>docs.
       Inr (Some \<lparr>rs_distances = [], rs_documents = [docs],
         rs_metadatas = [map (\<lambda>f. JDict (named (JStr (fl_id f)) (JStr (fl_filename f)) @ [(''source'', JStr (fl_filename f))])) fs]\<rparr>, []))"

definition collection_item :: "'d search_conf \<Rightarrow> user \<Rightarrow> group_db \<Rightarrow> library \<Rightarrow> dict \<Rightarrow> 'd given" where
  "collection_item conf caller gdb lib item = (case row_of (\<lambda>i. get_knowledge_by_id i lib) item of
     None \<Rightarrow> Inr (None, [])
   | Some b \<Rightarrow> and_then (may_read_item caller gdb (kn_user_id b) (kn_access_control b)) (\<lambda>ok.
       if \<not> ok then Inr (None, [])
       else if in_full item \<or> sf_bypass conf then base_documents (get_files_by_id (kn_id b) lib)
       else if truthy (dget_or item ''legacy'' JNull)
       then (let v = dget_or item ''collection_names'' (JList []) in
             if truthy v then and_then (iterate v) (\<lambda>ns. Inr (None, ns)) else Inr (None, []))
       else Inr (None, [dget_or item ''id'' JNull])))"

text \<open>Items without a known type: documents of a web search, or collections named directly.\<close>

definition other_item :: "dict \<Rightarrow> 'd given" where
  "other_item item =
     (let docs = dget_or item ''docs'' JNull; name = dget_or item ''collection_name'' JNull; names = dget_or item ''collection_names'' JNull
      in if truthy docs then
           and_then (iterate docs) (\<lambda>ds.
           and_then (each (\<lambda>d. item_or d ''content'' JNull) ds) (\<lambda>cs.
           and_then (each (\<lambda>d. item_or d ''metadata'' JNull) ds) (\<lambda>ms.
             Inr (Some \<lparr>rs_distances = [], rs_documents = [cs], rs_metadatas = [ms]\<rparr>, []))))
         else if truthy name then Inr (None, [name])
         else if truthy names then and_then (iterate names) (\<lambda>ns. Inr (None, ns))
         else Inr (None, []))"

definition given_by ::
  "('v, 'd) vector_env \<Rightarrow> 'd search_conf \<Rightarrow> user \<Rightarrow> group_db \<Rightarrow> note_row list \<Rightarrow> library \<Rightarrow> dict \<Rightarrow> chat_db \<Rightarrow> ('d given \<times> chat_db) option" where
  "given_by env conf caller gdb notes lib item db =
     (let t = dget item ''type''
      in if t = Some (JStr ''chat'') then chat_item caller item db
         else Some
           (if t = Some (JStr ''text'') then text_item item
            else if t = Some (JStr ''note'') then note_item caller gdb notes item
            else if t = Some (JStr ''url'') then url_item env item
            else if t = Some (JStr ''file'') then file_item conf lib item
            else if t = Some (JStr ''collection'') then collection_item conf caller gdb lib item
            else other_item item, db))"

section \<open>Sources\<close>

text \<open>A search that fails gives nothing; hybrid search is not followed by a plain one.\<close>

definition searched :: "('v, 'd :: linorder) vector_env \<Rightarrow> 'd search_conf \<Rightarrow> json list \<Rightarrow> json list \<Rightarrow> 'd results option" where
  "searched env conf queries names =
     (case (if sf_full conf then get_all_items_from_collections env names
            else if sf_hybrid conf then query_collection_with_hybrid_search env conf names queries
            else query_collection env names queries (sf_k conf)) of
        Inl e \<Rightarrow> None | Inr r \<Rightarrow> Some r)"

fun hashable :: "json \<Rightarrow> bool" where
  "hashable (JList _) = False"
| "hashable (JDict _) = False"
| "hashable _ = True"

definition source_of :: "('d \<Rightarrow> json) \<Rightarrow> dict \<Rightarrow> 'd results \<Rightarrow> dict option" where
  "source_of num item r = (case (rs_documents r, rs_metadatas r) of
     (ds # _, ms # _) \<Rightarrow>
       Some ([(''source'', JDict (dpop ''data'' item)), (''document'', JList ds), (''metadata'', JList ms)] @
         (case rs_distances r of [] \<Rightarrow> [] | xs # _ \<Rightarrow> [(''distances'', JList (map num xs))]))
   | _ \<Rightarrow> None)"

definition sources_of :: "('d \<Rightarrow> json) \<Rightarrow> dict \<Rightarrow> 'd results option \<Rightarrow> dict list" where
  "sources_of num item r = (case r of None \<Rightarrow> [] | Some x \<Rightarrow> (case source_of num item x of None \<Rightarrow> [] | Some s \<Rightarrow> [s]))"

text \<open>The results of an item; a collection is searched once in a request.\<close>

definition item_results ::
  "('v, 'd :: linorder) vector_env \<Rightarrow> 'd search_conf \<Rightarrow> json list \<Rightarrow> json list \<Rightarrow> 'd results option \<times> json list \<Rightarrow> py_error + 'd results option \<times> json list" where
  "item_results env conf queries extracted g = (case g of (r, names) \<Rightarrow>
     if r \<noteq> None \<or> names = [] then Inr (r, extracted)
     else if \<not> list_all hashable names then Inl TypeError
     else (let new = ve_order env (filter (\<lambda>n. n \<notin> set extracted) (remdups names))
           in if new = [] then Inr (None, extracted) else Inr (searched env conf queries new, extracted @ new)))"

fun get_sources_from_items ::
  "('v, 'd :: linorder) vector_env \<Rightarrow> 'd search_conf \<Rightarrow> user \<Rightarrow> group_db \<Rightarrow> note_row list \<Rightarrow> library \<Rightarrow> json list \<Rightarrow>
     json list \<Rightarrow> dict list \<Rightarrow> chat_db \<Rightarrow> ((py_error + dict list) \<times> chat_db) option" where
  "get_sources_from_items env conf caller gdb notes lib queries extracted [] db = Some (Inr [], db)"
| "get_sources_from_items env conf caller gdb notes lib queries extracted (item # items) db =
     (case given_by env conf caller gdb notes lib item db of
        None \<Rightarrow> None
      | Some (g, db') \<Rightarrow>
          (case and_then g (item_results env conf queries extracted) of
             Inl e \<Rightarrow> Some (Inl e, db')
           | Inr (r, extracted') \<Rightarrow>
               map_option (\<lambda>(out, db''). (and_then out (\<lambda>ss. Inr (sources_of (ve_number env) item r @ ss)), db''))
                 (get_sources_from_items env conf caller gdb notes lib queries extracted' items db')))"

section \<open>Who gets what\<close>

text \<open>
  What an item with one of the guarded types must name: a note, a knowledge base or a chat that exists and that the
  caller may read. An item of another type names nothing that is checked.
\<close>

definition readable_item :: "user \<Rightarrow> group_db \<Rightarrow> note_row list \<Rightarrow> library \<Rightarrow> chat_db \<Rightarrow> dict \<Rightarrow> bool" where
  "readable_item caller gdb notes lib db item \<longleftrightarrow>
     (dget item ''type'' = Some (JStr ''note'') \<longrightarrow>
        (\<exists>n. row_of (\<lambda>i. get_note_by_id i notes) item = Some n \<and> may_read_item caller gdb (nt_user_id n) (nt_access_control n) = Inr True)) \<and>
     (dget item ''type'' = Some (JStr ''collection'') \<longrightarrow>
        (\<exists>b. row_of (\<lambda>i. get_knowledge_by_id i lib) item = Some b \<and> may_read_item caller gdb (kn_user_id b) (kn_access_control b) = Inr True)) \<and>
     (dget item ''type'' = Some (JStr ''chat'') \<longrightarrow>
        (\<exists>c. row_of (\<lambda>i. chat_row i db) item = Some c \<and> (u_role caller = ''admin'' \<or> cht_user_id c = u_id caller)))"

lemma sanitize_user [simp]: "cht_user_id (sanitize_chat_row c) = cht_user_id c" "cht_id (sanitize_chat_row c) = cht_id c"
  by (simp_all add: sanitize_chat_row_def)

lemma chat_owner_read:
  "map_option cht_user_id (chat_row j (snd (get_chat_by_id i db))) = map_option cht_user_id (chat_row j db)"
  by (auto simp: get_chat_by_id_def chat_row_def set_chat_def row_get_upd_key option.map_comp comp_def split: option.split)

lemma readable_read:
  "readable_item caller gdb notes lib (snd (get_chat_by_id i db)) item = readable_item caller gdb notes lib db item"
proof -
  have "(\<exists>c. row_of (\<lambda>j. chat_row j d) item = Some c \<and> (u_role caller = ''admin'' \<or> cht_user_id c = u_id caller)) \<longleftrightarrow>
      (\<exists>j u. dget item ''id'' = Some (JStr j) \<and> map_option cht_user_id (chat_row j d) = Some u \<and>
         (u_role caller = ''admin'' \<or> u = u_id caller))" for d
    by (auto simp: row_of_def split: option.splits json.splits)
  from this[of "snd (get_chat_by_id i db)"] this[of db] show ?thesis
    unfolding readable_item_def chat_owner_read by blast
qed

lemma chat_item_db:
  assumes "chat_item caller item db = Some (g, db')"
  shows "db' = db \<or> (\<exists>i. db' = snd (get_chat_by_id i db))"
proof (cases "\<exists>i. dget item ''id'' = Some (JStr i)")
  case True
  then obtain i where i: "dget item ''id'' = Some (JStr i)" by blast
  obtain r d where "get_chat_by_id i db = (r, d)" by fastforce
  then show ?thesis using assms i by (auto simp: chat_item_def intro!: exI[of _ i] split: option.splits if_splits)
next
  case False
  then show ?thesis using assms by (auto simp: chat_item_def split: option.splits json.splits)
qed

lemma given_by_db:
  "given_by env conf caller gdb notes lib item db = Some (g, db') \<Longrightarrow> db' = db \<or> (\<exists>i. db' = snd (get_chat_by_id i db))"
  using chat_item_db by (fastforce simp: given_by_def Let_def split: if_splits)

lemma chat_item_readable:
  fixes g :: "'d given"
  assumes "chat_item caller item db = Some (g, db')" "g \<noteq> Inr (None, [])"
  shows "\<exists>c. row_of (\<lambda>i. chat_row i db) item = Some c \<and> (u_role caller = ''admin'' \<or> cht_user_id c = u_id caller)"
proof -
  obtain i where i: "dget item ''id'' = Some (JStr i)"
    using assms by (auto simp: chat_item_def split: option.splits json.splits)
  obtain c where c: "chat_row i db = Some c"
    using assms i by (cases "chat_row i db") (auto simp: chat_item_def get_chat_by_id_def)
  have "u_role caller = ''admin'' \<or> cht_user_id c = u_id caller"
    using assms i c
    by (cases "cht_title c") (auto simp: chat_item_def get_chat_by_id_def catch_none_def chat_model_def split: if_splits option.splits)
  then show ?thesis using i c by (simp add: row_of_def)
qed

lemma given_by_readable:
  fixes g :: "'d given"
  assumes g: "given_by env conf caller gdb notes lib item db = Some (g, db')"
    and ok: "and_then g f = Inr x" and some: "g \<noteq> Inr (None, [])"
  shows "readable_item caller gdb notes lib db item"
proof (cases "dget item ''type'' = Some (JStr ''chat'')")
  case True
  then show ?thesis using g some chat_item_readable[of caller item db g db'] by (simp add: given_by_def readable_item_def)
next
  case False
  obtain v where v: "g = Inr v" using ok by (cases g) auto
  show ?thesis
  proof (cases "dget item ''type'' = Some (JStr ''note'') \<or> dget item ''type'' = Some (JStr ''collection'')")
    case True
    then show ?thesis
      using False g v some
      by (auto simp: given_by_def readable_item_def note_item_def collection_item_def and_then_Inr_iff split: option.splits if_splits)
  next
    case no: False
    then show ?thesis using False by (simp add: readable_item_def)
  qed
qed

lemma source_of_item: "source_of num item r = Some s \<Longrightarrow> dget s ''source'' = Some (JDict (dpop ''data'' item))"
  by (auto simp: source_of_def split: list.splits)

text \<open>Every source comes from an item, and an item of a guarded type only gives one if the caller may read what it names.\<close>

lemma item_of_source:
  assumes "get_sources_from_items env conf caller gdb notes lib queries [] items db = Some (Inr ss, db')" "s \<in> set ss"
  shows "\<exists>item \<in> set items. dget s ''source'' = Some (JDict (dpop ''data'' item)) \<and> readable_item caller gdb notes lib db item"
proof -
  have "get_sources_from_items env conf caller gdb notes lib queries ex items d = Some (Inr ss, db') \<Longrightarrow> s \<in> set ss \<Longrightarrow>
      (\<And>i. readable_item caller gdb notes lib d i = readable_item caller gdb notes lib db i) \<Longrightarrow>
      \<exists>item \<in> set items. dget s ''source'' = Some (JDict (dpop ''data'' item)) \<and> readable_item caller gdb notes lib db item" for ex d
  proof (induction items arbitrary: ex d ss)
    case (Cons item items)
    then obtain g d1 r ex1 ss' where g: "given_by env conf caller gdb notes lib item d = Some (g, d1)"
        "and_then g (item_results env conf queries ex) = Inr (r, ex1)"
        "get_sources_from_items env conf caller gdb notes lib queries ex1 items d1 = Some (Inr ss', db')"
        "ss = sources_of (ve_number env) item r @ ss'"
      by (auto split: option.splits prod.splits sum.splits simp: and_then_Inr_iff)
    have w: "readable_item caller gdb notes lib d1 i = readable_item caller gdb notes lib db i" for i
      using given_by_db[OF g(1)] Cons.prems(3) readable_read by auto
    show ?case
    proof (cases "s \<in> set ss'")
      case True
      then show ?thesis using Cons.IH[OF g(3) True w] by auto
    next
      case False
      then have s: "s \<in> set (sources_of (ve_number env) item r)" using Cons.prems(2) g(4) by auto
      then have "r \<noteq> None" by (auto simp: sources_of_def)
      then have "g \<noteq> Inr (None, [])" using g(2) by (auto simp: item_results_def)
      then have "readable_item caller gdb notes lib db item" using given_by_readable[OF g(1,2)] Cons.prems(3) by blast
      moreover have "dget s ''source'' = Some (JDict (dpop ''data'' item))"
        using s source_of_item[of "ve_number env" item] by (auto simp: sources_of_def split: option.splits)
      ultimately show ?thesis by auto
    qed
  qed simp
  from this[OF assms] show ?thesis by blast
qed

definition quiet_env :: "(nat, int) vector_env" where
  "quiet_env = \<lparr>ve_digest = id, ve_embed = \<lambda>qs. Inr [], ve_search = \<lambda>n v k. Inr None, ve_get = \<lambda>n. Inr None,
     ve_ensemble = \<lambda>n ts ms q. Inr [], ve_scores = \<lambda>q ds. Inr [], ve_number = JInt, ve_load = \<lambda>b u. Inr [], ve_order = id\<rparr>"

definition plain_search :: "int search_conf" where
  "plain_search = \<lparr>sf_k = 3, sf_k_reranker = 3, sf_least = None, sf_hybrid = False, sf_enriched = False, sf_full = False, sf_bypass = False\<rparr>"

definition kims_chats :: chat_db where
  "kims_chats = \<lparr>chats = [\<lparr>cht_id = ''c1'', cht_user_id = ''kim'', cht_title = Some ''T'', cht_chat = [], cht_created_at = 1, cht_updated_at = 1,
     cht_share_id = None, cht_archived = False, cht_pinned = None, cht_meta = [], cht_folder_id = None\<rparr>], chat_tags = []\<rparr>"

definition chat_request :: dict where "chat_request = [(''type'', JStr ''chat''), (''id'', JStr ''c1'')]"
definition text_request :: dict where "text_request = [(''type'', JStr ''text''), (''content'', JStr ''hello'')]"
definition text_source :: dict where
  "text_source = [(''source'', JDict text_request), (''document'', JList [JStr ''hello'']), (''metadata'', JList [JDict (named JNull JNull)])]"

lemma item_of_source_witness:
  "\<not> readable_item lee sample_groups sample_notes sample_library kims_chats chat_request \<and>
   (\<exists>item \<in> {chat_request, text_request}. dget text_source ''source'' = Some (JDict (dpop ''data'' item)) \<and>
      readable_item lee sample_groups sample_notes sample_library kims_chats item)"
proof -
  have "get_sources_from_items quiet_env plain_search lee sample_groups sample_notes sample_library [] [] [chat_request, text_request] kims_chats =
      Some (Inr [text_source], kims_chats)"
    by (simp add: given_by_def chat_item_def text_item_def get_chat_by_id_def chat_row_def row_get_def kims_chats_def chat_request_def text_request_def
        text_source_def sample_user_defs catch_none_def chat_model_def sanitize_chat_row_def set_chat_def upd_rows_def clean_text_def clean_dict_def
        item_results_def sources_of_def source_of_def in_full_def dget_or_def one_document_def)
  from item_of_source[OF this, of text_source] show ?thesis
    by (auto simp: readable_item_def row_of_def chat_request_def chat_row_def row_get_def kims_chats_def sample_user_defs)
qed

text \<open>
  A file is different: whoever names the id of a stored file, and asks for its full text, gets it, whoever owns the
  file; and a collection of the vector database is searched for whoever names it.
\<close>

lemma any_file_read:
  assumes "get_file_by_id i lib = Some f" "fl_data f = Some d" "i \<noteq> []"
  shows "\<exists>s. get_sources_from_items env conf caller gdb notes lib queries []
      [[(''type'', JStr ''file''), (''id'', JStr i), (''context'', JStr ''full'')]] db = Some (Inr [s], db) \<and>
    dget s ''document'' = Some (JList [dget_or d ''content'' (JStr [])])"
  using assms by (simp add: given_by_def file_item_def in_full_def item_or_def row_of_def stored_file_def one_document_def item_results_def
      sources_of_def source_of_def dget_or_def)

lemma any_collection_searched:
  assumes "ve_order env [JStr c] = [JStr c]" "c \<noteq> []" "searched env conf queries [JStr c] = Some r" "rs_documents r = [ds]" "rs_metadatas r = [ms]"
  shows "\<exists>s. get_sources_from_items env conf caller gdb notes lib queries [] [[(''collection_name'', JStr c)]] db = Some (Inr [s], db) \<and>
    dget s ''document'' = Some (JList ds)"
  using assms by (simp add: given_by_def other_item_def item_results_def sources_of_def source_of_def dget_or_def split: list.split)

text \<open>A collection item marked as legacy is checked for the base it names, and searches the collections it lists.\<close>

lemma legacy_names_searched:
  assumes "get_knowledge_by_id b lib = Some k" "may_read_item caller gdb (kn_user_id k) (kn_access_control k) = Inr True" "\<not> sf_bypass conf"
    and "ve_order env [JStr c] = [JStr c]" "searched env conf queries [JStr c] = Some r" "rs_documents r = [ds]" "rs_metadatas r = [ms]"
  shows "\<exists>s. get_sources_from_items env conf caller gdb notes lib queries []
      [[(''type'', JStr ''collection''), (''id'', JStr b), (''legacy'', JBool True), (''collection_names'', JList [JStr c])]] db = Some (Inr [s], db) \<and>
    dget s ''document'' = Some (JList ds)"
  using assms by (simp add: given_by_def collection_item_def row_of_def in_full_def iterate_def item_results_def sources_of_def source_of_def dget_or_def
      split: list.split)

text \<open>When hybrid search fails nothing is searched, although the code announces the plain search as a fallback.\<close>

lemma hybrid_failure_gives_nothing:
  "sf_hybrid conf \<Longrightarrow> \<not> sf_full conf \<Longrightarrow> query_collection_with_hybrid_search env conf names queries = Inl e \<Longrightarrow> searched env conf queries names = None"
  by (simp add: searched_def)

section \<open>Embeddings in batches\<close>

text \<open>The texts are embedded in batches; a batch without a list for an answer adds nothing.\<close>

function batches :: "nat \<Rightarrow> 'a list \<Rightarrow> 'a list list" where
  "batches n xs = (if xs = [] \<or> n = 0 then [] else take n xs # batches n (drop n xs))"
  by pat_completeness auto
termination by (relation "measure (\<lambda>(n, xs). length xs)") auto

declare batches.simps [simp del]

definition with_prefix :: "string option \<Rightarrow> bool \<Rightarrow> string list \<Rightarrow> string list" where
  "with_prefix pre own xs = (case pre of None \<Rightarrow> xs | Some p \<Rightarrow> if own then xs else map (\<lambda>t. p @ t) xs)"

definition embed_texts :: "(string list \<Rightarrow> 'v list option) \<Rightarrow> nat \<Rightarrow> string option \<Rightarrow> bool \<Rightarrow> string list \<Rightarrow> 'v list" where
  "embed_texts generate n pre own xs =
     concat (map (\<lambda>b. case generate (with_prefix pre own b) of None \<Rightarrow> [] | Some vs \<Rightarrow> vs) (batches n xs))"

lemma concat_batches: "n > 0 \<Longrightarrow> concat (batches n xs) = xs"
  by (induction n xs rule: batches.induct) (subst batches.simps, auto)

lemma embed_texts_total:
  assumes "n > 0" "\<And>ts. generate ts = Some (map f ts)"
  shows "embed_texts generate n pre own xs = map f (with_prefix pre own xs)"
proof -
  have w: "with_prefix pre own = map (\<lambda>t. case pre of None \<Rightarrow> t | Some p \<Rightarrow> if own then t else p @ t)"
    by (auto simp: fun_eq_iff with_prefix_def split: option.split)
  have "embed_texts generate n pre own xs = concat (map (map (f \<circ> (\<lambda>t. case pre of None \<Rightarrow> t | Some p \<Rightarrow> if own then t else p @ t))) (batches n xs))"
    by (simp add: embed_texts_def assms(2) w comp_def)
  also have "\<dots> = map f (with_prefix pre own xs)"
    by (simp add: w map_concat[symmetric] concat_batches[OF assms(1)] del: map_map flip: map_map)
  finally show ?thesis .
qed

text \<open>A batch that fails shifts the embeddings of all later xs.\<close>

lemma failed_batch_shifts:
  "embed_texts (\<lambda>ts. if ts = [''a''] then None else Some ts) 1 None False [''a'', ''b''] = [''b'']"
  by (simp add: embed_texts_def with_prefix_def batches.simps)

end
