(* ===== verification/Chat_Context.thy ===== *)
theory Chat_Context
  imports Retrieval Task_Requests Chat_Stream "HOL-Library.List_Lexorder"
begin

text \<open>
  The parts of the request side of \<^verbatim>\<open>utils/middleware.py\<close> that only compute: the JSON object in the answer of a
  model and the queries read from it, the parameters of a model put into the request, the files of folders and
  knowledge bases, the images of the last message, and the context with its numbered citations.
\<close>

section \<open>The object in an answer\<close>

text \<open>\<open>s.find(c)\<close>, \<open>s.rfind(c)\<close> and \<open>s[a:b]\<close>\<close>

definition py_find :: "char \<Rightarrow> string \<Rightarrow> int" where
  "py_find c s = (if c \<in> set s then int (length (takeWhile (\<lambda>x. x \<noteq> c) s)) else -1)"

definition py_rfind :: "char \<Rightarrow> string \<Rightarrow> int" where
  "py_rfind c s = (if c \<in> set s then int (length s) - 1 - int (length (takeWhile (\<lambda>x. x \<noteq> c) (rev s))) else -1)"

definition py_slice :: "int \<Rightarrow> int \<Rightarrow> 'a list \<Rightarrow> 'a list" where
  "py_slice a b xs =
     (let pos = (\<lambda>i. if i < 0 then nat (int (length xs) + i) else nat i)
      in take (pos b - pos a) (drop (pos a) xs))"

definition braced :: "string \<Rightarrow> string" where
  "braced s = py_slice (py_find (CHR ''{'') s) (py_rfind (CHR ''}'') s + 1) s"

definition answer_content :: "json \<Rightarrow> py_error + json" where
  "answer_content v =
     and_then (item_get v ''choices'') (\<lambda>cs. case cs of
       JList (c # _) \<Rightarrow> and_then (item_get c ''message'') (\<lambda>m. item_get m ''content'')
     | JList [] \<Rightarrow> Inl IndexError
     | JDict _ \<Rightarrow> Inl KeyError
     | _ \<Rightarrow> Inl TypeError)"

text \<open>
  The queries in an answer, for the web search. Without a closing brace the slice is empty: the guard of the code
  compares its position, one more than what \<open>rfind\<close> gives, with minus one.
\<close>

definition web_queries :: "floats \<Rightarrow> json \<Rightarrow> json" where
  "web_queries fs r = (case r of
     JStr s \<Rightarrow>
       if py_find (CHR ''{'') s = -1 \<or> py_rfind (CHR ''}'') s + 1 = -1 then JList [r]
       else (case loads (fl_json fs) (braced s) of
               Some (JDict d) \<Rightarrow> dget_or d ''queries'' (JList [])
             | _ \<Rightarrow> JList [JStr (braced s)])
   | _ \<Rightarrow> JList [r])"

text \<open>The same for the search in files, where a value that is no dictionary gives no queries.\<close>

definition file_queries :: "floats \<Rightarrow> json \<Rightarrow> json" where
  "file_queries fs r =
     (let given = JDict [(''queries'', JList [r])];
          parsed = (case r of
            JStr s \<Rightarrow>
              if py_find (CHR ''{'') s = -1 \<or> py_rfind (CHR ''}'') s + 1 = -1 then given
              else (case loads (fl_json fs) (braced s) of Some v \<Rightarrow> v | None \<Rightarrow> JDict [(''queries'', JList [JStr (braced s)])])
          | _ \<Rightarrow> given)
      in (case parsed of JDict d \<Rightarrow> dget_or d ''queries'' (JList []) | _ \<Rightarrow> JList []))"

text \<open>\<open>len(v)\<close>, and the test for one query of blanks only.\<close>

definition py_len :: "json \<Rightarrow> py_error + nat" where
  "py_len v = (case v of
     JList xs \<Rightarrow> Inr (length xs) | JStr s \<Rightarrow> Inr (length s) | JDict d \<Rightarrow> Inr (length d) | _ \<Rightarrow> Inl TypeError)"

definition only_blank :: "json \<Rightarrow> py_error + bool" where
  "only_blank v = (case v of
     JList [q] \<Rightarrow> (case q of JStr s \<Rightarrow> Inr (strip s = []) | _ \<Rightarrow> Inl AttributeError)
   | JStr [c] \<Rightarrow> Inr (strip [c] = [])
   | JDict [_] \<Rightarrow> Inl KeyError
   | _ \<Rightarrow> and_then (py_len v) (\<lambda>_. Inr False))"

text \<open>The prompt for an image; no object in the answer leaves the user's message.\<close>

definition image_prompt :: "floats \<Rightarrow> json \<Rightarrow> json \<Rightarrow> json" where
  "image_prompt fs message r = (case r of
     JStr s \<Rightarrow>
       if py_find (CHR ''{'') s = -1 \<or> py_rfind (CHR ''}'') s + 1 = -1 then message
       else (case loads (fl_json fs) (braced s) of Some (JDict d) \<Rightarrow> dget_or d ''prompt'' (JList []) | _ \<Rightarrow> message)
   | _ \<Rightarrow> message)"

section \<open>Parameters\<close>

text \<open>The parameters go to the options of an Ollama request and to the top of any other one, null ones excepted.\<close>

fun put_params :: "dict \<Rightarrow> dict \<Rightarrow> dict" where
  "put_params [] form = form"
| "put_params ((k, v) # ps) form = put_params ps (if v = JNull then form else dset k v form)"

definition put_logit_bias :: "floats \<Rightarrow> dict \<Rightarrow> dict \<Rightarrow> dict" where
  "put_logit_bias fs params form = (case dget_or params ''logit_bias'' JNull of
     JStr s \<Rightarrow>
       (case convert_logit_bias_input_to_json s of
          Inl e \<Rightarrow> form
        | Inr t \<Rightarrow> (case loads (fl_json fs) t of None \<Rightarrow> form | Some v \<Rightarrow> dset ''logit_bias'' v form))
   | _ \<Rightarrow> form)"

definition apply_params_to_form_data :: "floats \<Rightarrow> dict \<Rightarrow> dict \<Rightarrow> py_error + dict" where
  "apply_params_to_form_data fs form model =
     (case dget_or form ''params'' (JDict []) of
        JDict params \<Rightarrow>
          and_then (with_custom_params fs params) (\<lambda>ps.
            let rest = dpop ''params'' form
            in Inr (if dget model ''owned_by'' = Some (JStr ''ollama'') then dset ''options'' (JDict ps) rest
                    else put_logit_bias fs ps (put_params ps rest)))
      | JList xs \<Rightarrow> Inl TypeError
      | _ \<Rightarrow> Inl AttributeError)"

section \<open>Files\<close>

text \<open>The files of a form in front of or behind others; a form whose files are null cannot take any.\<close>

definition prepend_files :: "json \<Rightarrow> dict \<Rightarrow> py_error + dict" where
  "prepend_files new form =
     and_then (iterate new) (\<lambda>ns.
     and_then (iterate (dget_or form ''files'' (JList []))) (\<lambda>fs. Inr (dset ''files'' (JList (ns @ fs)) form)))"

definition extend_files :: "json list \<Rightarrow> dict \<Rightarrow> py_error + dict" where
  "extend_files new form = (case dget_or form ''files'' (JList []) of
     JList fs \<Rightarrow> Inr (dset ''files'' (JList (fs @ new)) form) | _ \<Rightarrow> Inl AttributeError)"

definition attached_knowledge :: "json \<Rightarrow> py_error + json" where
  "attached_knowledge item =
     and_then (item_or item ''collection_name'' JNull) (\<lambda>c.
     and_then (item_or item ''collection_names'' JNull) (\<lambda>cs.
     and_then (item_or item ''name'' JNull) (\<lambda>n.
       Inr (if truthy c then JDict [(''id'', c), (''name'', n), (''legacy'', JBool True)]
            else if truthy cs then JDict [(''name'', n), (''type'', JStr ''collection''), (''collection_names'', cs), (''legacy'', JBool True)]
            else item))))"

text \<open>
  An attached folder is replaced by its files. The loop runs over the list as it was: a folder among these files
  stays what it is.
\<close>

definition folder_files :: "(id \<Rightarrow> folder option) \<Rightarrow> json \<Rightarrow> json option" where
  "folder_files look i = (case i of
     JStr s \<Rightarrow> if s = [] then None
       else (case look s of
         Some f \<Rightarrow> (case fld_data f of Some d \<Rightarrow> dget d ''files'' | None \<Rightarrow> None)
       | None \<Rightarrow> None)
   | _ \<Rightarrow> None)"

fun without_id :: "json \<Rightarrow> json list \<Rightarrow> py_error + json list" where
  "without_id i [] = Inr []"
| "without_id i (f # fs) =
     and_then (item_or f ''id'' JNull) (\<lambda>j. and_then (without_id i fs) (\<lambda>gs. Inr (if j = i then gs else f # gs)))"

fun expand_folders :: "(id \<Rightarrow> folder option) \<Rightarrow> json list \<Rightarrow> json list \<Rightarrow> py_error + json list" where
  "expand_folders look [] files = Inr files"
| "expand_folders look (item # items) files =
     and_then (item_or item ''type'' (JStr ''file'')) (\<lambda>t.
     and_then (item_or item ''id'' JNull) (\<lambda>i.
       case (if t = JStr ''folder'' then folder_files look i else None) of
         None \<Rightarrow> expand_folders look items files
       | Some fs \<Rightarrow>
           and_then (without_id i files) (\<lambda>rest.
           and_then (iterate fs) (\<lambda>new. expand_folders look items (rest @ new)))))"

text \<open>Files with the same JSON text, keys sorted, count once: the place of the first, the value of the last.\<close>

fun sort_keys :: "json \<Rightarrow> json" where
  "sort_keys (JList xs) = JList (map sort_keys xs)"
| "sort_keys (JDict d) = JDict (sort_key fst (map (\<lambda>(k, v). (k, sort_keys v)) d))"
| "sort_keys v = v"

definition file_key :: "json \<Rightarrow> string" where "file_key f = dumps (sort_keys f)"

fun keyed_last :: "('a \<Rightarrow> 'k) \<Rightarrow> 'a list \<Rightarrow> ('k \<times> 'a) list \<Rightarrow> ('k \<times> 'a) list" where
  "keyed_last key [] m = m"
| "keyed_last key (x # xs) m = keyed_last key xs (AList.update (key x) x m)"

definition unique_files :: "json list \<Rightarrow> json list" where
  "unique_files fs = map snd (keyed_last file_key fs [])"

section \<open>Images\<close>

fun image_urls_of :: "json list \<Rightarrow> py_error + json list" where
  "image_urls_of [] = Inr []"
| "image_urls_of (f # fs) =
     and_then (item_or f ''type'' JNull) (\<lambda>t.
     and_then (item_or f ''url'' JNull) (\<lambda>u.
     and_then (image_urls_of fs) (\<lambda>us. Inr (if t = JStr ''image'' then u # us else us))))"

fun first_images :: "json list \<Rightarrow> py_error + json list" where
  "first_images [] = Inr []"
| "first_images (m # ms) =
     and_then (item_or m ''files'' (JList [])) (\<lambda>v.
     and_then (iterate v) (\<lambda>fs.
     and_then (image_urls_of fs) (\<lambda>us. if us \<noteq> [] then Inr us else first_images ms)))"

definition get_last_images :: "json list \<Rightarrow> py_error + json list" where
  "get_last_images messages = first_images (rev messages)"

section \<open>Citations\<close>

text \<open>
  Every chunk of a source has an id: that of its metadata, else that of the source. The ids are numbered in the
  order they first appear. Ids are compared as JSON values.
\<close>

definition chunk_id :: "json \<Rightarrow> json \<Rightarrow> py_error + json" where
  "chunk_id source_id metadata =
     and_then (item_or metadata ''source'' JNull) (\<lambda>s. Inr (first_true [s, source_id, JStr ''N/A'']))"

definition number_of :: "json \<Rightarrow> (json \<times> nat) list \<Rightarrow> (json \<times> nat) list" where
  "number_of i m = (if map_of m i = None then m @ [(i, length m + 1)] else m)"

definition source_tag :: "nat \<Rightarrow> json \<Rightarrow> json \<Rightarrow> string" where
  "source_tag n name doc =
     ''<source'' @ attribute ''id'' (nat_str n) @ (if truthy name then attribute ''name'' (py_str name) else []) @
       ''>'' @ py_str doc @ ''</source>'' @ nl"

fun cite_chunks :: "json \<Rightarrow> json \<Rightarrow> (json \<times> json) list \<Rightarrow> (json \<times> nat) list \<times> string \<Rightarrow> py_error + (json \<times> nat) list \<times> string" where
  "cite_chunks name sid [] acc = Inr acc"
| "cite_chunks name sid ((doc, md) # cs) acc =
     and_then (chunk_id sid md) (\<lambda>i.
       if \<not> hashable i then Inl TypeError
       else (let m = number_of i (fst acc)
             in cite_chunks name sid cs (m, snd acc @ source_tag (the (map_of m i)) name doc)))"

definition cite_source :: "dict \<Rightarrow> (json \<times> nat) list \<times> string \<Rightarrow> py_error + (json \<times> nat) list \<times> string" where
  "cite_source source acc = (case dget source ''document'' of
     None \<Rightarrow> Inr acc
   | Some docs \<Rightarrow>
       and_then (iterate docs) (\<lambda>ds.
       and_then (item_get (JDict source) ''metadata'') (\<lambda>v.
       and_then (iterate v) (\<lambda>ms.
         if zip ds ms = [] then Inr acc
         else
           and_then (item_or (dget_or source ''source'' (JDict [])) ''name'' JNull) (\<lambda>name.
           and_then (item_or (dget_or source ''source'' (JDict [])) ''id'' JNull) (\<lambda>sid. cite_chunks name sid (zip ds ms) acc))))))"

fun cite_sources :: "dict list \<Rightarrow> (json \<times> nat) list \<times> string \<Rightarrow> py_error + (json \<times> nat) list \<times> string" where
  "cite_sources [] acc = Inr acc"
| "cite_sources (s # ss) acc = and_then (cite_source s acc) (cite_sources ss)"

definition context_string :: "dict list \<Rightarrow> py_error + string" where
  "context_string sources = and_then (cite_sources sources ([], [])) (\<lambda>(m, t). Inr (strip t))"

text \<open>The sources that are shown: those with a name or an id.\<close>

definition shown_sources :: "dict list \<Rightarrow> py_error + dict list" where
  "shown_sources sources = filter_raising (\<lambda>s.
     and_then (item_or (dget_or s ''source'' (JDict [])) ''name'' (JStr [])) (\<lambda>n.
     and_then (item_or (dget_or s ''source'' (JDict [])) ''id'' (JStr [])) (\<lambda>i. Inr (truthy n \<or> truthy i)))) sources"

text \<open>The number announced for the sources of the files: distinct ids, counted over the documents.\<close>

definition get_or_none :: "json \<Rightarrow> string \<Rightarrow> py_error + json" where
  "get_or_none v k = (if truthy v then item_or v k JNull else Inr JNull)"

definition counted_id :: "json \<Rightarrow> json list \<Rightarrow> nat \<Rightarrow> py_error + json" where
  "counted_id src ms n =
     and_then (get_or_none (if n < length ms then ms ! n else JNull) ''source'') (\<lambda>s.
       if truthy s then Inr s
       else and_then (get_or_none src ''id'') (\<lambda>i. Inr (first_true [i, JStr ''N/A''])))"

definition counted_ids :: "dict \<Rightarrow> py_error + json list" where
  "counted_ids source =
     and_then (iterate (first_true [dget_or source ''document'' JNull, JList []])) (\<lambda>ds.
       if ds = [] then Inr []
       else (case first_true [dget_or source ''metadata'' JNull, JList []] of
         JList ms \<Rightarrow> each (counted_id (first_true [dget_or source ''source'' JNull, JDict []]) ms) [0..<length ds]
       | _ \<Rightarrow> Inl TypeError))"

definition sources_count :: "dict list \<Rightarrow> py_error + nat" where
  "sources_count sources =
     and_then (each counted_ids sources) (\<lambda>xs.
       if list_all hashable (concat xs) then Inr (length (remdups (concat xs))) else Inl TypeError)"

section \<open>Numbers of citations\<close>

text \<open>The elements in the order they first appear.\<close>

fun firsts :: "'a list \<Rightarrow> 'a list" where
  "firsts [] = []"
| "firsts (x # xs) = x # removeAll x (firsts xs)"

definition number_in :: "'a list \<Rightarrow> 'a \<Rightarrow> nat" where
  "number_in xs x = Suc (length (takeWhile (\<lambda>y. y \<noteq> x) (firsts xs)))"

lemma firsts_set [simp]: "set (firsts xs) = set xs" and firsts_distinct [simp]: "distinct (firsts xs)"
  by (induction xs) (auto simp: distinct_removeAll)

lemma firsts_append: "firsts (xs @ ys) = firsts xs @ filter (\<lambda>y. y \<notin> set xs) (firsts ys)"
  by (induction xs) (auto simp: removeAll_filter_not_eq intro!: filter_cong)

lemma length_firsts: "length (firsts xs) = length (remdups xs)"
  by (metis distinct_card distinct_remdups firsts_distinct firsts_set set_remdups)

text \<open>A source as retrieval and tools make it: texts with their metadata, and what the source is.\<close>

definition source_is :: "dict \<Rightarrow> dict \<times> (json \<times> dict) list \<Rightarrow> bool" where
  "source_is s x \<longleftrightarrow>
     dget s ''source'' = Some (JDict (fst x)) \<and> dget s ''document'' = Some (JList (map fst (snd x))) \<and>
     dget s ''metadata'' = Some (JList (map (JDict \<circ> snd) (snd x)))"

definition id_in :: "dict \<Rightarrow> dict \<Rightarrow> json" where
  "id_in src md = first_true [dget_or md ''source'' JNull, dget_or src ''id'' JNull, JStr ''N/A'']"

definition chunk_ids :: "(dict \<times> (json \<times> dict) list) list \<Rightarrow> json list" where
  "chunk_ids xs = concat (map (\<lambda>(src, cs). map (\<lambda>(doc, md). id_in src md) cs) xs)"

text \<open>The text in which every chunk carries the number of its id.\<close>

definition cited_text :: "(json \<Rightarrow> nat) \<Rightarrow> (dict \<times> (json \<times> dict) list) list \<Rightarrow> string" where
  "cited_text num xs =
     concat (map (\<lambda>(src, cs). concat (map (\<lambda>(doc, md). source_tag (num (id_in src md)) (dget_or src ''name'' JNull) doc) cs)) xs)"

definition numbered :: "'a list \<Rightarrow> ('a \<times> nat) list" where
  "numbered xs = zip (firsts xs) [1..<Suc (length (firsts xs))]"

lemma map_of_zip_upt:
  "distinct ys \<Longrightarrow> map_of (zip ys [n..<n + length ys]) y = (if y \<in> set ys then Some (n + length (takeWhile (\<lambda>z. z \<noteq> y) ys)) else None)"
proof (induction ys arbitrary: n)
  case (Cons z ys)
  have "[n..<n + length (z # ys)] = n # [Suc n..<Suc n + length ys]" by (simp add: upt_rec)
  then show ?case using Cons.IH[of "Suc n"] Cons.prems by auto
qed simp

lemma map_of_numbered: "map_of (numbered xs) x = (if x \<in> set xs then Some (number_in xs x) else None)"
  using map_of_zip_upt[of "firsts xs" 1 x] by (simp add: numbered_def number_in_def del: upt_Suc)

lemma length_numbered [simp]: "length (numbered xs) = length (firsts xs)"
  by (simp add: numbered_def del: upt_Suc)

lemma number_of_numbered: "number_of x (numbered xs) = numbered (xs @ [x])"
proof (cases "x \<in> set xs")
  case True
  then show ?thesis by (simp add: number_of_def map_of_numbered) (simp add: numbered_def firsts_append)
next
  case False
  have "[1..<Suc (Suc n)] = [1..<Suc n] @ [Suc n]" for n :: nat by simp
  then show ?thesis using False by (simp add: number_of_def map_of_numbered del: upt_Suc) (simp add: numbered_def firsts_append del: upt_Suc)
qed

lemma number_in_append: "x \<in> set xs \<Longrightarrow> number_in (xs @ ys) x = number_in xs x"
  by (simp add: number_in_def firsts_append takeWhile_append1)

lemma cite_chunks_numbered:
  assumes "\<And>doc md. (doc, md) \<in> set cs \<Longrightarrow> hashable (id_in src md)"
    and "all = xs @ map (\<lambda>(doc, md). id_in src md) cs @ ys"
  shows "cite_chunks name (dget_or src ''id'' JNull) (map (\<lambda>(doc, md). (doc, JDict md)) cs) (numbered xs, t) =
    Inr (numbered (xs @ map (\<lambda>(doc, md). id_in src md) cs),
      t @ concat (map (\<lambda>(doc, md). source_tag (number_in all (id_in src md)) name doc) cs))"
  using assms
proof (induction cs arbitrary: xs t)
  case (Cons c cs)
  obtain doc md where c: "c = (doc, md)" by (cases c)
  let ?i = "id_in src md"
  have i: "chunk_id (dget_or src ''id'' JNull) (JDict md) = Inr ?i"
    by (simp add: chunk_id_def item_or_def id_in_def)
  have n: "number_in all ?i = number_in (xs @ [?i]) ?i"
    using Cons.prems(2) c number_in_append[of ?i "xs @ [?i]"] by simp
  have "hashable ?i" using Cons.prems(1)[of doc md] c by simp
  moreover have "cite_chunks name (dget_or src ''id'' JNull) (map (\<lambda>(doc, md). (doc, JDict md)) cs)
        (numbered (xs @ [?i]), t @ source_tag (number_in all ?i) name doc) =
      Inr (numbered ((xs @ [?i]) @ map (\<lambda>(doc, md). id_in src md) cs), (t @ source_tag (number_in all ?i) name doc) @
        concat (map (\<lambda>(doc, md). source_tag (number_in all (id_in src md)) name doc) cs))"
    by (rule Cons.IH) (use Cons.prems c in auto)
  ultimately show ?case by (simp add: c i number_of_numbered map_of_numbered n)
qed simp

lemma cite_source_numbered:
  assumes s: "source_is s (src, cs)" and h: "\<And>doc md. (doc, md) \<in> set cs \<Longrightarrow> hashable (id_in src md)"
    and all: "all = xs @ map (\<lambda>(doc, md). id_in src md) cs @ ys"
  shows "cite_source s (numbered xs, t) =
    Inr (numbered (xs @ map (\<lambda>(doc, md). id_in src md) cs), t @ cited_text (number_in all) [(src, cs)])"
proof -
  have z: "zip (map fst cs) (map (JDict \<circ> snd) cs) = map (\<lambda>(doc, md). (doc, JDict md)) cs"
    by (induction cs) auto
  show ?thesis
  proof (cases "cs = []")
    case True
    then show ?thesis using s by (simp add: cite_source_def source_is_def item_get_def iterate_def cited_text_def)
  next
    case False
    then show ?thesis using s cite_chunks_numbered[OF h all] z
      by (simp add: cite_source_def source_is_def item_get_def iterate_def cited_text_def item_or_def dget_or_def)
  qed
qed

lemma chunk_ids_Cons: "chunk_ids ((src, cs) # xs) = map (\<lambda>(doc, md). id_in src md) cs @ chunk_ids xs"
  by (simp add: chunk_ids_def)

lemma cite_sources_numbered:
  assumes "list_all2 source_is ss xs" "list_all hashable (chunk_ids xs)" "all = ps @ chunk_ids xs @ ys"
  shows "cite_sources ss (numbered ps, t) = Inr (numbered (ps @ chunk_ids xs), t @ cited_text (number_in all) xs)"
  using assms
proof (induction ss xs arbitrary: ps t rule: list_all2_induct)
  case Nil
  then show ?case by (simp add: chunk_ids_def cited_text_def)
next
  case (Cons s ss x xs)
  obtain src cs where x: "x = (src, cs)" by (cases x)
  let ?ids = "map (\<lambda>(doc, md). id_in src md) cs"
  have h: "hashable (id_in src md)" if "(doc, md) \<in> set cs" for doc md
    using Cons.prems(1) that by (auto simp: x chunk_ids_Cons list_all_iff)
  have "cite_source s (numbered ps, t) = Inr (numbered (ps @ ?ids), t @ cited_text (number_in all) [(src, cs)])"
    using Cons.prems(2) Cons.hyps(1) h by (intro cite_source_numbered[where ys = "chunk_ids xs @ ys"]) (auto simp: x chunk_ids_Cons)
  then show ?case
    using Cons.IH[of "ps @ ?ids" "t @ cited_text (number_in all) [(src, cs)]"] Cons.prems
    by (simp add: x chunk_ids_Cons cited_text_def)
qed

lemma counted_ids_of:
  assumes "source_is s (src, cs)"
  shows "counted_ids s = Inr (map (\<lambda>(doc, md). id_in src md) cs)"
proof -
  have "each (counted_id (first_true [JDict src, JDict []]) (map (JDict \<circ> snd) cs)) [0..<length cs] =
      Inr (map (\<lambda>n. id_in src (snd (cs ! n))) [0..<length cs])"
    by (rule each_Inr) (auto simp: counted_id_def get_or_none_def item_or_def id_in_def dget_or_def split: option.splits)
  also have "map (\<lambda>n. id_in src (snd (cs ! n))) [0..<length cs] = map (\<lambda>(doc, md). id_in src md) cs"
    by (rule nth_equalityI) (auto simp: case_prod_beta)
  finally show ?thesis
    using assms by (cases "cs = []") (auto simp: counted_ids_def source_is_def dget_or_def iterate_def comp_def)
qed

text \<open>
  C22: The context cites the sources of called tools and then those of the attached files, and numbers their chunks
  by the ids they have: equal ids get the same number, and the numbers are given in the order of first
  appearance, from 1 on. The number of sources announced to the user was counted before, over the files' sources
  alone: it never exceeds the number of citations, and equals it exactly if no tool brings an id of its own.
\<close>

theorem citations_numbered:
  assumes "list_all2 source_is called xs" "list_all2 source_is found ys" "list_all hashable (chunk_ids (xs @ ys))"
  defines "ids \<equiv> chunk_ids (xs @ ys)"
  shows "cite_sources (called @ found) ([], []) =
      Inr (zip (firsts ids) [1..<Suc (length (firsts ids))], cited_text (number_in ids) (xs @ ys)) \<and>
    (\<exists>n. sources_count found = Inr n \<and> n \<le> length (firsts ids) \<and>
      (n = length (firsts ids) \<longleftrightarrow> set (chunk_ids xs) \<subseteq> set (chunk_ids ys)))"
proof
  have both: "list_all2 source_is (called @ found) (xs @ ys)" using assms(1,2) by (rule list_all2_appendI)
  show "cite_sources (called @ found) ([], []) =
      Inr (zip (firsts ids) [1..<Suc (length (firsts ids))], cited_text (number_in ids) (xs @ ys))"
    using cite_sources_numbered[OF both, of ids "[]" "[]" "[]"] assms(3) by (simp add: numbered_def ids_def del: upt_Suc)
  have "each counted_ids found = Inr (map (\<lambda>(src, cs). map (\<lambda>(doc, md). id_in src md) cs) ys)"
    using assms(2) by (induction rule: list_all2_induct) (auto simp: counted_ids_of)
  moreover have "list_all hashable (chunk_ids ys)" using assms(3) by (simp add: chunk_ids_def)
  ultimately have n: "sources_count found = Inr (card (set (chunk_ids ys)))"
    by (simp add: sources_count_def length_firsts length_remdups_card_conv flip: chunk_ids_def)
  have len: "length (firsts ids) = card (set (chunk_ids xs) \<union> set (chunk_ids ys))"
    by (simp add: ids_def chunk_ids_def length_firsts length_remdups_card_conv)
  have "card (set (chunk_ids ys)) \<le> card (set (chunk_ids xs) \<union> set (chunk_ids ys))" by (rule card_mono) auto
  moreover have "card (set (chunk_ids ys)) = card (set (chunk_ids xs) \<union> set (chunk_ids ys)) \<longleftrightarrow> set (chunk_ids xs) \<subseteq> set (chunk_ids ys)"
    using card_subset_eq[of "set (chunk_ids xs) \<union> set (chunk_ids ys)" "set (chunk_ids ys)"] by (auto simp: sup.absorb2)
  ultimately show "\<exists>n. sources_count found = Inr n \<and> n \<le> length (firsts ids) \<and>
      (n = length (firsts ids) \<longleftrightarrow> set (chunk_ids xs) \<subseteq> set (chunk_ids ys))"
    by (simp add: n len)
qed

definition law_sources :: "dict list" where
  "law_sources =
     [[(''source'', JDict [(''name'', JStr ''law.pdf'')]), (''document'', JList [JStr ''Art. 1'', JStr ''Art. 2'']),
       (''metadata'', JList [JDict [(''source'', JStr ''law.pdf'')], JDict [(''source'', JStr ''annex.pdf'')]])]]"

definition search_sources :: "dict list" where
  "search_sources =
     [[(''source'', JDict [(''name'', JStr ''search'')]), (''document'', JList [JStr ''Art. 1'']),
       (''metadata'', JList [JDict [(''source'', JStr ''web'')]])]]"

theorem citations_numbered_witness:
  "map_of (fst (projr (cite_sources (search_sources @ law_sources) ([], [])))) (JStr ''annex.pdf'') = Some 3 \<and>
   (\<exists>n. sources_count law_sources = Inr n \<and> n < 3)"
proof -
  let ?xs = "[([(''name'', JStr ''search'')], [(JStr ''Art. 1'', [(''source'', JStr ''web'')])])] :: (dict \<times> (json \<times> dict) list) list"
  let ?ys = "[([(''name'', JStr ''law.pdf'')], [(JStr ''Art. 1'', [(''source'', JStr ''law.pdf'')]), (JStr ''Art. 2'', [(''source'', JStr ''annex.pdf'')])])]
    :: (dict \<times> (json \<times> dict) list) list"
  have "list_all2 source_is search_sources ?xs" "list_all2 source_is law_sources ?ys"
    by (simp_all add: search_sources_def law_sources_def source_is_def)
  moreover have i: "chunk_ids (?xs @ ?ys) = [JStr ''web'', JStr ''law.pdf'', JStr ''annex.pdf'']" "chunk_ids ?xs = [JStr ''web'']"
      "chunk_ids ?ys = [JStr ''law.pdf'', JStr ''annex.pdf'']"
    by (simp_all add: chunk_ids_def id_in_def dget_or_def)
  moreover have "list_all hashable (chunk_ids (?xs @ ?ys))" unfolding i by simp
  ultimately show ?thesis using citations_numbered[of search_sources ?xs law_sources ?ys] unfolding i by (auto simp: upt_rec)
qed

section \<open>Distinct files, expanded folders\<close>

lemma keyed_last_keys:
  "map fst (keyed_last key xs m) = map fst m @ filter (\<lambda>k. k \<notin> fst ` set m) (firsts (map key xs))"
proof (induction xs arbitrary: m)
  case (Cons x xs)
  show ?case
    by (auto simp: Cons.IH update_keys removeAll_filter_not_eq dom_update intro!: filter_cong)
qed simp

lemma keyed_last_values:
  "list_all (\<lambda>(k, v). k = key v) m \<Longrightarrow> list_all (\<lambda>(k, v). k = key v \<and> (v \<in> set xs \<or> (k, v) \<in> set m)) (keyed_last key xs m)"
proof (induction xs arbitrary: m)
  case Nil
  then show ?case by (auto simp: list_all_iff)
next
  case (Cons x xs)
  have u: "set (AList.update (key x) x m) \<subseteq> insert (key x, x) (set m)" by (induction m) auto
  then have "list_all (\<lambda>(k, v). k = key v) (AList.update (key x) x m)" using Cons.prems by (auto simp: list_all_iff)
  from Cons.IH[OF this] u show ?case by (auto simp: list_all_iff)
qed

text \<open>The files of a request after the duplicates are gone.\<close>

lemma unique_files_exact:
  shows "map file_key (unique_files fs) = firsts (map file_key fs)" and "set (unique_files fs) \<subseteq> set fs"
proof -
  have v: "list_all (\<lambda>(k, v). k = file_key v \<and> v \<in> set fs) (keyed_last file_key fs [])"
    using keyed_last_values[of file_key "[]" fs] by (simp add: list_all_iff)
  have "map file_key (unique_files fs) = map fst (keyed_last file_key fs [])"
    using v by (auto simp: unique_files_def list_all_iff)
  then show "map file_key (unique_files fs) = firsts (map file_key fs)" by (simp add: keyed_last_keys)
  show "set (unique_files fs) \<subseteq> set fs" using v by (auto simp: unique_files_def list_all_iff)
qed

lemma file_key_same:
  assumes "json_ok fl (sort_keys f)" "json_ok fl (sort_keys g)"
  shows "file_key f = file_key g \<longleftrightarrow> sort_keys f = sort_keys g"
  unfolding file_key_def using json_roundtrip[OF assms(1)] json_roundtrip[OF assms(2)] by (metis option.inject)

lemma without_id_subset: "without_id i fs = Inr gs \<Longrightarrow> set gs \<subseteq> set fs"
  by (induction fs arbitrary: gs) (auto simp: and_then_Inr_iff split: if_splits)

text \<open>Every file after the expansion was attached, or is one of the files of a folder that was looked up for the user.\<close>

lemma expanded_files_from:
  assumes "expand_folders look items files = Inr fs" "f \<in> set fs"
  shows "f \<in> set files \<or>
    (\<exists>item \<in> set items. \<exists>i d v gs. item_or item ''type'' (JStr ''file'') = Inr (JStr ''folder'') \<and> item_or item ''id'' JNull = Inr (JStr i) \<and>
       Option.bind (look i) fld_data = Some d \<and> dget d ''files'' = Some v \<and> iterate v = Inr gs \<and> f \<in> set gs)"
  using assms
proof (induction look items files rule: expand_folders.induct)
  case (2 look item items files)
  obtain t i where t: "item_or item ''type'' (JStr ''file'') = Inr t" and i: "item_or item ''id'' JNull = Inr i"
    using "2.prems"(1) by (auto simp: and_then_Inr_iff)
  show ?case
  proof (cases "if t = JStr ''folder'' then folder_files look i else None")
    case None
    then have "expand_folders look items files = Inr fs" using "2.prems"(1) t i by simp
    then show ?thesis using "2.IH"(1)[OF None] "2.prems"(2) by auto
  next
    case (Some v)
    then obtain rest new where rest: "without_id i files = Inr rest" and new: "iterate v = Inr new"
      and e: "expand_folders look items (rest @ new) = Inr fs"
      using "2.prems"(1) t i by (auto simp: and_then_Inr_iff)
    obtain s d where "t = JStr ''folder''" "i = JStr s" "Option.bind (look s) fld_data = Some d" "dget d ''files'' = Some v"
      using Some by (auto simp: folder_files_def split: if_splits json.splits option.splits)
    then show ?thesis using "2.IH"(2)[OF Some e "2.prems"(2)] without_id_subset[OF rest] t i new by auto
  qed
qed simp

section \<open>Answers cut short\<close>

text \<open>An answer whose object is not closed gives the empty query, not the answer.\<close>

lemma unclosed_object_lost:
  assumes "CHR ''{'' \<in> set s" "CHR ''}'' \<notin> set s"
  shows "braced s = []" and "web_queries fs (JStr s) = JList [JStr []]" and "file_queries fs (JStr s) = JList [JStr []]"
proof -
  show b: "braced s = []" using assms by (simp add: braced_def py_slice_def py_rfind_def py_find_def)
  have "loads (fl_json fs) [] = None" by (simp add: loads_def skip_space_def)
  then show "web_queries fs (JStr s) = JList [JStr []]" "file_queries fs (JStr s) = JList [JStr []]"
    using assms b by (simp_all add: web_queries_def file_queries_def py_find_def py_rfind_def dget_or_def)
qed

text \<open>Queries that the model answers as null, or an answer without a text, raise where their number is asked for.\<close>

lemma null_queries_raise: "only_blank JNull = Inl TypeError" "py_len JNull = Inl TypeError" "only_blank (web_queries fs JNull) = Inl AttributeError"
  by (simp_all add: only_blank_def py_len_def web_queries_def)

end
