(* ===== verification/Memories.thy ===== *)
theory Memories
  imports Resources Actions
begin

text \<open>
  What the model is to remember of a user (\<^verbatim>\<open>models/memories.py\<close>, \<^verbatim>\<open>routers/memories.py\<close>): a table and, for each user,
  a collection of the vector database that holds the same texts. The vector database is a state of its own type,
  its operations and the embedding of texts are the record \<open>memory_env\<close>.
\<close>

section \<open>The table\<close>

record memory =
  my_id :: id
  my_user_id :: id
  my_content :: "string option"
  my_updated_at :: time
  my_created_at :: time

text \<open>A row whose content is null does not validate.\<close>

definition memory_model :: "memory \<Rightarrow> memory option" where
  "memory_model m = (if my_content m = None then None else Some m)"

definition insert_new_memory :: "id \<Rightarrow> time \<Rightarrow> id \<Rightarrow> string \<Rightarrow> memory list \<Rightarrow> (py_error + memory) \<times> memory list" where
  "insert_new_memory uid now user_id content db =
     (let m = \<lparr>my_id = uid, my_user_id = user_id, my_content = Some content, my_updated_at = now, my_created_at = now\<rparr>
      in case add_row my_id m db of None \<Rightarrow> (Inl IntegrityError, db) | Some db' \<Rightarrow> (Inr m, db'))"

definition get_memory_by_id :: "id \<Rightarrow> memory list \<Rightarrow> memory option" where
  "get_memory_by_id i db = Option.bind (row_get my_id i db) memory_model"

fun all_models :: "memory list \<Rightarrow> memory list option" where
  "all_models [] = Some []"
| "all_models (m # ms) = Option.bind (memory_model m) (\<lambda>x. map_option ((#) x) (all_models ms))"

definition get_memories :: "memory list \<Rightarrow> memory list option" where
  "get_memories db = all_models db"

definition get_memories_by_user_id :: "id \<Rightarrow> memory list \<Rightarrow> memory list option" where
  "get_memories_by_user_id user_id db = all_models (all_rows (\<lambda>m. my_user_id m = user_id) db)"

definition update_memory_by_id_and_user_id :: "time \<Rightarrow> id \<Rightarrow> id \<Rightarrow> string option \<Rightarrow> memory list \<Rightarrow> memory option \<times> memory list" where
  "update_memory_by_id_and_user_id now i user_id content db =
     (case row_get my_id i db of
        None \<Rightarrow> (None, db)
      | Some m \<Rightarrow>
          if my_user_id m \<noteq> user_id then (None, db)
          else (let db' = upd_rows (\<lambda>m. my_id m = i) (\<lambda>m. m\<lparr>my_content := content, my_updated_at := now\<rparr>) db
                in (get_memory_by_id i db', db')))"

definition delete_memory_row :: "id \<Rightarrow> memory list \<Rightarrow> bool \<times> memory list" where
  "delete_memory_row i db = (True, row_del my_id i db)"

definition delete_memories_by_user_id :: "id \<Rightarrow> memory list \<Rightarrow> bool \<times> memory list" where
  "delete_memories_by_user_id user_id db = (True, del_rows (\<lambda>m. my_user_id m = user_id) db)"

definition delete_memory_by_id_and_user_id :: "id \<Rightarrow> id \<Rightarrow> memory list \<Rightarrow> bool option \<times> memory list" where
  "delete_memory_by_id_and_user_id i user_id db =
     (case row_get my_id i db of
        None \<Rightarrow> (None, db)
      | Some m \<Rightarrow> if my_user_id m \<noteq> user_id then (None, db) else (Some True, row_del my_id i db))"

section \<open>Handlers\<close>

text \<open>An entry of a collection: id, text, vector and metadata.\<close>

type_synonym 'v entry = "id \<times> string \<times> 'v \<times> dict"

record ('v, 'x, 'r) memory_env =
  mv_embed :: "string \<Rightarrow> py_error + 'v"
  mv_upsert :: "string \<Rightarrow> 'v entry list \<Rightarrow> 'x \<Rightarrow> (py_error + unit) \<times> 'x"
  mv_delete :: "string \<Rightarrow> id \<Rightarrow> 'x \<Rightarrow> (py_error + unit) \<times> 'x"
  mv_drop :: "string \<Rightarrow> 'x \<Rightarrow> (py_error + unit) \<times> 'x"
  mv_search :: "string \<Rightarrow> 'v \<Rightarrow> int \<Rightarrow> 'x \<Rightarrow> py_error + 'r"

record 'x memory_state =
  mt_rows :: "memory list"
  mt_index :: 'x

type_synonym ('x, 'a) memory_action = "('x memory_state, 'a) action"

definition collection_of :: "id \<Rightarrow> string" where "collection_of user_id = ''user-memory-'' @ user_id"

definition on_rows :: "(memory list \<Rightarrow> 'a \<times> memory list) \<Rightarrow> ('x, 'a) memory_action" where
  "on_rows f s = (case f (mt_rows s) of (r, db) \<Rightarrow> (Inr r, s\<lparr>mt_rows := db\<rparr>))"

definition on_index :: "('x \<Rightarrow> (py_error + unit) \<times> 'x) \<Rightarrow> ('x, unit) memory_action" where
  "on_index f s = (case f (mt_index s) of (r, x) \<Rightarrow> (r, s\<lparr>mt_index := x\<rparr>))"

definition get_memories_handler :: "id \<Rightarrow> memory list \<Rightarrow> http_error + memory list" where
  "get_memories_handler u db = (case get_memories_by_user_id u db of None \<Rightarrow> Inl ServerError | Some ms \<Rightarrow> Inr ms)"

text \<open>The row is committed before its text is embedded.\<close>

definition add_memory :: "('v, 'x, 'r) memory_env \<Rightarrow> id \<Rightarrow> time \<Rightarrow> string \<Rightarrow> id \<Rightarrow> ('x, memory) memory_action" where
  "add_memory env uid now content u =
     next_do (on_rows (insert_new_memory uid now u content)) (\<lambda>r.
     next_do (lifted r) (\<lambda>m.
     next_do (lifted (mv_embed env content)) (\<lambda>v.
     next_do (on_index (mv_upsert env (collection_of u) [(my_id m, content, v, [(''created_at'', JInt (my_created_at m))])])) (\<lambda>_. pure m))))"

definition query_memory :: "('v, 'x, 'r) memory_env \<Rightarrow> string \<Rightarrow> int \<Rightarrow> id \<Rightarrow> 'x memory_state \<Rightarrow> http_error + 'r" where
  "query_memory env content k u s =
     (case get_memories_by_user_id u (mt_rows s) of
        None \<Rightarrow> Inl NotFound
      | Some [] \<Rightarrow> Inl NotFound
      | Some ms \<Rightarrow>
          (case mv_embed env content of
             Inl e \<Rightarrow> Inl ServerError
           | Inr v \<Rightarrow> raising ServerError (mv_search env (collection_of u) v k (mt_index s))))"

definition dated :: "memory \<Rightarrow> dict" where
  "dated m = [(''created_at'', JInt (my_created_at m)), (''updated_at'', JInt (my_updated_at m))]"

definition memory_entry :: "('v, 'x, 'r) memory_env \<Rightarrow> memory \<Rightarrow> py_error + 'v entry" where
  "memory_entry env m = (case my_content m of
     None \<Rightarrow> Inl TypeError | Some t \<Rightarrow> and_then (mv_embed env t) (\<lambda>v. Inr (my_id m, t, v, dated m)))"

definition reset_memory_from_vector_db :: "('v, 'x, 'r) memory_env \<Rightarrow> id \<Rightarrow> ('x, bool) memory_action" where
  "reset_memory_from_vector_db env u =
     next_do (on_index (mv_drop env (collection_of u))) (\<lambda>_.
     reading (\<lambda>s.
     next_do (lifted (case get_memories_by_user_id u (mt_rows s) of None \<Rightarrow> Inl TypeError | Some ms \<Rightarrow> each (memory_entry env) ms)) (\<lambda>es.
     next_do (on_index (mv_upsert env (collection_of u) es)) (\<lambda>_. pure True))))"

definition delete_memory_by_user_id :: "('v, 'x, 'r) memory_env \<Rightarrow> id \<Rightarrow> ('x, bool) memory_action" where
  "delete_memory_by_user_id env u =
     next_do (on_rows (delete_memories_by_user_id u)) (\<lambda>b.
       if b then next_do (trying (on_index (mv_drop env (collection_of u))) (pure ())) (\<lambda>_. pure True) else pure False)"

text \<open>A row that is not there, or is somebody else's, is answered with 404.\<close>

definition update_memory_by_id :: "('v, 'x, 'r) memory_env \<Rightarrow> time \<Rightarrow> id \<Rightarrow> string option \<Rightarrow> id \<Rightarrow> ('x, http_error + memory) memory_action" where
  "update_memory_by_id env now i content u =
     next_do (on_rows (update_memory_by_id_and_user_id now i u content)) (\<lambda>r. case r of
       None \<Rightarrow> pure (Inl NotFound)
     | Some m \<Rightarrow>
         (case content of
            None \<Rightarrow> pure (Inr m)
          | Some t \<Rightarrow>
              next_do (lifted (mv_embed env t)) (\<lambda>v.
              next_do (on_index (mv_upsert env (collection_of u) [(my_id m, t, v, dated m)])) (\<lambda>_. pure (Inr m)))))"

definition delete_memory_by_id :: "('v, 'x, 'r) memory_env \<Rightarrow> id \<Rightarrow> id \<Rightarrow> ('x, bool) memory_action" where
  "delete_memory_by_id env i u =
     next_do (on_rows (delete_memory_by_id_and_user_id i u)) (\<lambda>r.
       if r = Some True then next_do (on_index (mv_delete env (collection_of u) i)) (\<lambda>_. pure True) else pure False)"

section \<open>The index follows the table\<close>

datatype memory_request =
    Add_Memory id time string
  | Update_Memory time id "string option"
  | Remove_Memory id
  | Remove_All
  | Reset_Index

definition done_with :: "'a \<Rightarrow> ('x, http_error + unit) memory_action" where "done_with _ = pure (Inr ())"

fun run_memory :: "('v, 'x, 'r) memory_env \<Rightarrow> id \<Rightarrow> memory_request \<Rightarrow> ('x, http_error + unit) memory_action" where
  "run_memory env u (Add_Memory uid now t) = next_do (add_memory env uid now t u) done_with"
| "run_memory env u (Update_Memory now i t) =
     next_do (update_memory_by_id env now i t u) (\<lambda>r. pure (and_then r (\<lambda>_. Inr ())))"
| "run_memory env u (Remove_Memory i) = next_do (delete_memory_by_id env i u) done_with"
| "run_memory env u Remove_All = next_do (delete_memory_by_user_id env u) done_with"
| "run_memory env u Reset_Index = next_do (reset_memory_from_vector_db env u) done_with"

text \<open>The requests of users one after the other, while each is answered without an error.\<close>

fun run_memories :: "('v, 'x, 'r) memory_env \<Rightarrow> (id \<times> memory_request) list \<Rightarrow> 'x memory_state \<Rightarrow> 'x memory_state option" where
  "run_memories env [] s = Some s"
| "run_memories env ((u, q) # qs) s = (case run_memory env u q s of (Inr (Inr _), s') \<Rightarrow> run_memories env qs s' | _ \<Rightarrow> None)"

text \<open>
  The contract the handlers rely on, against which an adapter is measured (\<^verbatim>\<open>Memory_Index\<close>), seen through \<open>look\<close>,
  the text found under an id of a collection: an insert replaces the entries of its ids, a delete removes one entry,
  a dropped collection is empty. A drop that raises was one of a collection that does not exist.
\<close>

definition vector_db_laws :: "('v, 'x, 'r) memory_env \<Rightarrow> (string \<Rightarrow> id \<Rightarrow> 'x \<Rightarrow> string option) \<Rightarrow> bool" where
  "vector_db_laws env look \<longleftrightarrow>
     (\<forall>c es x x' d i. distinct (map fst es) \<longrightarrow> mv_upsert env c es x = (Inr (), x') \<longrightarrow>
        look d i x' = (if d = c then (case map_of es i of Some (t, _) \<Rightarrow> Some t | None \<Rightarrow> look d i x) else look d i x)) \<and>
     (\<forall>c j x x' d i. mv_delete env c j x = (Inr (), x') \<longrightarrow> look d i x' = (if d = c \<and> i = j then None else look d i x)) \<and>
     (\<forall>c x x' d i. mv_drop env c x = (Inr (), x') \<longrightarrow> look d i x' = (if d = c then None else look d i x)) \<and>
     (\<forall>c x x' e d i. mv_drop env c x = (Inl e, x') \<longrightarrow> look d i x' = look d i x \<and> look c i x = None)"

definition remembered :: "id \<Rightarrow> memory list \<Rightarrow> id \<Rightarrow> string option" where
  "remembered u db i = Option.bind (row_get my_id i db) (\<lambda>m. if my_user_id m = u then my_content m else None)"

definition indexed :: "(string \<Rightarrow> id \<Rightarrow> 'x \<Rightarrow> string option) \<Rightarrow> 'x memory_state \<Rightarrow> bool" where
  "indexed look s \<longleftrightarrow> unique_key my_id (mt_rows s) \<and> (\<forall>u i. look (collection_of u) i (mt_index s) = remembered u (mt_rows s) i)"

lemma collection_of_eq [simp]: "collection_of u = collection_of v \<longleftrightarrow> u = v"
  by (simp add: collection_of_def)

lemma on_rows_run [simp]: "on_rows f s = (Inr (fst (f (mt_rows s))), s\<lparr>mt_rows := snd (f (mt_rows s))\<rparr>)"
  by (simp add: on_rows_def case_prod_beta)

lemma on_index_Inr: "on_index f s = (Inr (), s') \<longleftrightarrow> (\<exists>x. f (mt_index s) = (Inr (), x) \<and> s' = s\<lparr>mt_index := x\<rparr>)"
  by (auto simp: on_index_def split: prod.splits)

lemma lifted_Inr: "lifted r s = (Inr x, s') \<longleftrightarrow> r = Inr x \<and> s' = s"
  by auto

lemma next_rows: "next_do (on_rows f) g s = g (fst (f (mt_rows s))) (s\<lparr>mt_rows := snd (f (mt_rows s))\<rparr>)"
  by (simp add: next_do_def)

lemma laws_upsert:
  "vector_db_laws env look \<Longrightarrow> distinct (map fst es) \<Longrightarrow> mv_upsert env c es x = (Inr (), x') \<Longrightarrow>
     look d i x' = (if d = c then (case map_of es i of Some (t, _) \<Rightarrow> Some t | None \<Rightarrow> look d i x) else look d i x)"
  unfolding vector_db_laws_def by (drule conjunct1, (erule allE)+, (erule impE, assumption)+, assumption)

lemma laws_delete:
  "vector_db_laws env look \<Longrightarrow> mv_delete env c j x = (Inr (), x') \<Longrightarrow>
     look d i x' = (if d = c \<and> i = j then None else look d i x)"
  unfolding vector_db_laws_def by blast

lemma laws_drop:
  "vector_db_laws env look \<Longrightarrow> mv_drop env c x = (r, x') \<Longrightarrow> look d i x' = (if d = c then None else look d i x)"
  unfolding vector_db_laws_def by (cases r) (simp_all, metis)

text \<open>Rows after the operations of the table, as a user's memories.\<close>

lemma remembered_add:
  "add_row my_id m db = Some db' \<Longrightarrow>
     remembered u db' i = (if i = my_id m then (if my_user_id m = u then my_content m else None) else remembered u db i)"
  by (simp add: remembered_def row_get_add)

lemma remembered_update:
  "row_get my_id i db = Some m \<Longrightarrow>
     remembered u (upd_rows (\<lambda>m. my_id m = i) (\<lambda>m. m\<lparr>my_content := c, my_updated_at := now\<rparr>) db) j =
       (if j = i then (if my_user_id m = u then c else None) else remembered u db j)"
  by (auto simp: remembered_def row_get_upd_key bind_eq_None_conv)

lemma remembered_delete: "remembered u (row_del my_id i db) j = (if j = i then None else remembered u db j)"
  by (simp add: remembered_def row_get_del)

lemma remembered_Some_iff:
  "unique_key my_id db \<Longrightarrow>
     remembered u db i = Some t \<longleftrightarrow> (\<exists>m \<in> set db. my_id m = i \<and> my_user_id m = u \<and> my_content m = Some t)"
  by (auto simp: remembered_def row_get_def first_row_key_iff bind_eq_Some_conv)

lemma same_option: "(\<And>t. x = Some t \<longleftrightarrow> y = Some t) \<Longrightarrow> x = y"
  by (cases x; cases y) auto

lemma remembered_delete_all:
  "unique_key my_id db \<Longrightarrow> remembered u (del_rows (\<lambda>m. my_user_id m = v) db) j = (if u = v then None else remembered u db j)"
  by (rule same_option) (auto simp: remembered_Some_iff unique_key_del_rows)

text \<open>The entries a reset writes hold the texts of the rows.\<close>

lemma memory_entries:
  assumes "each (memory_entry env) ms = Inr es" "unique_key my_id ms"
  shows "distinct (map fst es)" and "map_option fst (map_of es i) = Option.bind (row_get my_id i ms) my_content"
proof -
  have "map fst es = map my_id ms \<and> map_option fst (map_of es i) = Option.bind (row_get my_id i ms) my_content"
    using assms(1)
    by (induction ms arbitrary: es)
      (auto simp: and_then_Inr_iff memory_entry_def row_get_Cons row_get_Nil split: option.splits)
  then show "distinct (map fst es)" "map_option fst (map_of es i) = Option.bind (row_get my_id i ms) my_content"
    using assms(2) by (simp_all add: unique_key_def)
qed

lemma all_models_Some: "all_models ms = Some xs \<Longrightarrow> xs = ms"
  by (induction ms arbitrary: xs) (auto simp: memory_model_def bind_eq_Some_conv split: if_splits)

lemma add_memory_indexed:
  assumes l: "vector_db_laws env look" and i: "indexed look s" and r: "add_memory env uid now t u s = (Inr m, s')"
  shows "indexed look s'"
proof -
  obtain db' v x where a: "add_row my_id m (mt_rows s) = Some db'" "my_user_id m = u" "my_content m = Some t"
    and u: "mv_upsert env (collection_of u) [(my_id m, t, v, [(''created_at'', JInt (my_created_at m))])] (mt_index s) = (Inr (), x)"
    and s': "s' = s\<lparr>mt_rows := db', mt_index := x\<rparr>"
    using r by (auto simp: add_memory_def next_rows insert_new_memory_def Let_def action_Inr on_index_Inr split: option.splits)
  have "remembered v (mt_rows s) (my_id m) = None" for v
    using a(1) row_get_None_iff[of my_id "my_id m" "mt_rows s"] by (auto simp: remembered_def add_row_Some_iff)
  then show ?thesis using i laws_upsert[OF l _ u] remembered_add[OF a(1)] unique_key_add_row[OF a(1)]
    by (auto simp: indexed_def s' a)
qed

lemma remove_memory_indexed:
  assumes l: "vector_db_laws env look" and i: "indexed look s" and r: "delete_memory_by_id env j u s = (Inr b, s')"
  shows "indexed look s'"
proof (cases "\<exists>m. row_get my_id j (mt_rows s) = Some m \<and> my_user_id m = u")
  case True
  then obtain x where d: "mv_delete env (collection_of u) j (mt_index s) = (Inr (), x)"
    and s': "s' = s\<lparr>mt_rows := row_del my_id j (mt_rows s), mt_index := x\<rparr>"
    using r by (auto simp: delete_memory_by_id_def next_rows delete_memory_by_id_and_user_id_def action_Inr on_index_Inr)
  have "v \<noteq> u \<Longrightarrow> remembered v (mt_rows s) j = None" for v using True by (auto simp: remembered_def)
  then show ?thesis using i laws_delete[OF l d]
    by (auto simp: indexed_def s' remembered_delete unique_key_row_del)
next
  case False
  then have "snd (delete_memory_by_id_and_user_id j u (mt_rows s)) = mt_rows s \<and>
      fst (delete_memory_by_id_and_user_id j u (mt_rows s)) \<noteq> Some True"
    by (auto simp: delete_memory_by_id_and_user_id_def split: option.splits)
  then have "s' = s" using r by (auto simp: delete_memory_by_id_def next_rows)
  then show ?thesis using i by simp
qed

lemma remove_all_indexed:
  assumes l: "vector_db_laws env look" and i: "indexed look s" and r: "delete_memory_by_user_id env u s = (Inr b, s')"
  shows "indexed look s'"
proof -
  obtain q x where d: "mv_drop env (collection_of u) (mt_index s) = (q, x)" by fastforce
  then have s': "s' = s\<lparr>mt_rows := del_rows (\<lambda>m. my_user_id m = u) (mt_rows s), mt_index := x\<rparr>"
    using r by (cases q) (auto simp: delete_memory_by_user_id_def next_rows delete_memories_by_user_id_def next_do_def
        trying_def on_index_def)
  show ?thesis using i laws_drop[OF l d] by (auto simp: indexed_def s' remembered_delete_all unique_key_del_rows)
qed

lemma update_memory_indexed:
  assumes l: "vector_db_laws env look" and i: "indexed look s"
    and r: "update_memory_by_id env now j c u s = (Inr (Inr m), s')"
  shows "indexed look s'"
proof -
  define db' where "db' = upd_rows (\<lambda>m. my_id m = j) (\<lambda>m. m\<lparr>my_content := c, my_updated_at := now\<rparr>) (mt_rows s)"
  obtain w where w: "row_get my_id j (mt_rows s) = Some w" "my_user_id w = u"
    and g: "get_memory_by_id j db' = Some m"
    using r by (auto simp: update_memory_by_id_def next_rows update_memory_by_id_and_user_id_def Let_def db'_def
        action_Inr on_index_Inr split: option.splits if_splits)
  then have m: "m = w\<lparr>my_content := c, my_updated_at := now\<rparr>" "c \<noteq> None"
    by (auto simp: get_memory_by_id_def db'_def row_get_upd_key memory_model_def split: if_splits)
  then obtain t where c: "c = Some t" by auto
  obtain v x where u: "mv_upsert env (collection_of u) [(j, t, v, dated m)] (mt_index s) = (Inr (), x)"
    and s': "s' = s\<lparr>mt_rows := db', mt_index := x\<rparr>"
    using r w g m(1) row_get_SomeD[OF w(1)] unfolding db'_def
    by (auto simp: update_memory_by_id_def next_rows update_memory_by_id_and_user_id_def Let_def action_Inr on_index_Inr c)
  have uk: "unique_key my_id db' = unique_key my_id (mt_rows s)" unfolding db'_def by (rule unique_key_upd_rows) simp
  have rm: "remembered v db' k = (if k = j then (if v = u then c else None) else remembered v (mt_rows s) k)" for v k
    unfolding db'_def using remembered_update[OF w(1), where c = c and now = now] w(2) by auto
  have "v \<noteq> u \<Longrightarrow> remembered v (mt_rows s) j = None" for v using w by (auto simp: remembered_def)
  then show ?thesis using i laws_upsert[OF l _ u] by (auto simp: indexed_def s' uk c rm)
qed

lemma reset_indexed:
  assumes l: "vector_db_laws env look" and i: "indexed look s" and r: "reset_memory_from_vector_db env u s = (Inr b, s')"
  shows "indexed look s'"
proof -
  define ms where "ms = all_rows (\<lambda>m. my_user_id m = u) (mt_rows s)"
  obtain x es y where d: "mv_drop env (collection_of u) (mt_index s) = (Inr (), x)"
    and e: "each (memory_entry env) ms = Inr es"
    and w: "mv_upsert env (collection_of u) es x = (Inr (), y)" and s': "s' = s\<lparr>mt_index := y\<rparr>"
    using r all_models_Some[of ms]
    by (cases "all_models ms")
      (auto simp: reset_memory_from_vector_db_def action_Inr on_index_Inr get_memories_by_user_id_def simp flip: ms_def)
  have uk: "unique_key my_id ms" using i by (auto simp: indexed_def ms_def unique_key_def all_rows_def distinct_map_filter)
  have "Option.bind (row_get my_id k ms) my_content = remembered u (mt_rows s) k" for k
    using i uk by (intro same_option)
      (auto simp: indexed_def remembered_Some_iff row_get_def first_row_key_iff bind_eq_Some_conv ms_def)
  then have f: "map_option fst (map_of es k) = remembered u (mt_rows s) k" for k
    using memory_entries(2)[OF e uk] by simp
  have "look (collection_of v) k y = remembered v (mt_rows s) k" for v k
    using i f[of k] laws_upsert[OF l memory_entries(1)[OF e uk] w] laws_drop[OF l d]
    by (cases "v = u"; cases "map_of es k") (auto simp: indexed_def)
  then show ?thesis using i by (auto simp: indexed_def s')
qed

lemma done_with_run [simp]: "done_with x s = (Inr (Inr ()), s)"
  by (simp add: done_with_def)

lemma run_memory_indexed:
  "vector_db_laws env look \<Longrightarrow> indexed look s \<Longrightarrow> run_memory env u q s = (Inr (Inr ()), s') \<Longrightarrow> indexed look s'"
  by (cases q) (auto simp: action_Inr and_then_Inr_iff
      intro: add_memory_indexed update_memory_indexed remove_memory_indexed remove_all_indexed reset_indexed)

text \<open>
  While the requests about memories are answered without an error, the collection of every user holds exactly
  the texts of the user's rows, each under the id of its row, with every adapter that keeps the contract.
\<close>

lemma memory_index_follows_table:
  assumes "vector_db_laws env look" "indexed look s" "run_memories env qs s = Some s'"
  shows "indexed look s'"
  using assms(2,3)
proof (induction qs arbitrary: s)
  case (Cons q qs)
  obtain u r where q: "q = (u, r)" by (cases q)
  then obtain s1 where "run_memory env u r s = (Inr (Inr ()), s1)" "run_memories env qs s1 = Some s'"
    using Cons.prems(2) by (auto split: prod.splits sum.splits)
  then show ?case using Cons.IH Cons.prems(1) run_memory_indexed[OF assms(1)] by blast
qed simp

section \<open>Other users, errors\<close>

text \<open>Whatever a user asks, and wherever it fails, the rows of everybody else stay.\<close>

definition rows_of :: "id \<Rightarrow> memory list \<Rightarrow> memory list" where "rows_of u db = all_rows (\<lambda>m. my_user_id m = u) db"

definition with_rows_of :: "id \<Rightarrow> memory list \<Rightarrow> 'x memory_state \<Rightarrow> bool" where
  "with_rows_of u ms s \<longleftrightarrow> unique_key my_id (mt_rows s) \<and> rows_of u (mt_rows s) = ms"

lemma rows_of_kept:
  assumes "\<And>m. m \<in> set db \<Longrightarrow> p m \<Longrightarrow> my_user_id m \<noteq> u" "\<And>m. my_user_id (f m) = my_user_id m"
  shows "rows_of u (upd_rows p f db) = rows_of u db" and "rows_of u (del_rows p db) = rows_of u db"
  using assms by (induction db) (auto simp: rows_of_def all_rows_def)

lemma keyed_row_of:
  "unique_key my_id db \<Longrightarrow> row_get my_id i db = Some r \<Longrightarrow> m \<in> set db \<Longrightarrow> my_id m = i \<Longrightarrow> m = r"
  by (simp add: row_get_def first_row_key_iff unique_keyD)

lemma on_rows_keeps:
  "(\<And>db. unique_key my_id db \<Longrightarrow> unique_key my_id (snd (f db)) \<and> rows_of u (snd (f db)) = rows_of u db) \<Longrightarrow>
     keeps (with_rows_of u ms) (on_rows f)"
  by (auto simp: keeps_def with_rows_of_def)

lemma on_index_keeps [keeping]: "keeps (with_rows_of u ms) (on_index f)"
  by (auto simp: keeps_def with_rows_of_def on_index_def split: prod.splits)

lemma table_operations_keep:
  assumes "v \<noteq> u"
  shows "keeps (with_rows_of u ms) (on_rows (insert_new_memory uid now v t))"
    and "keeps (with_rows_of u ms) (on_rows (update_memory_by_id_and_user_id now i v c))"
    and "keeps (with_rows_of u ms) (on_rows (delete_memory_by_id_and_user_id i v))"
    and "keeps (with_rows_of u ms) (on_rows (delete_memories_by_user_id v))"
proof -
  show "keeps (with_rows_of u ms) (on_rows (insert_new_memory uid now v t))"
    by (rule on_rows_keeps) (use assms in \<open>auto simp: insert_new_memory_def Let_def add_row_Some_iff unique_key_append
      rows_of_def all_rows_def split: option.splits\<close>)
  show "keeps (with_rows_of u ms) (on_rows (update_memory_by_id_and_user_id now i v c))"
  proof (rule on_rows_keeps)
    fix db :: "memory list" assume k: "unique_key my_id db"
    show "unique_key my_id (snd (update_memory_by_id_and_user_id now i v c db)) \<and>
        rows_of u (snd (update_memory_by_id_and_user_id now i v c db)) = rows_of u db"
      using k assms keyed_row_of[OF k]
      by (auto simp: update_memory_by_id_and_user_id_def Let_def unique_key_upd_rows split: option.splits intro!: rows_of_kept(1))
  qed
  show "keeps (with_rows_of u ms) (on_rows (delete_memory_by_id_and_user_id i v))"
  proof (rule on_rows_keeps)
    fix db :: "memory list" assume k: "unique_key my_id db"
    show "unique_key my_id (snd (delete_memory_by_id_and_user_id i v db)) \<and>
        rows_of u (snd (delete_memory_by_id_and_user_id i v db)) = rows_of u db"
      using k assms keyed_row_of[OF k]
      by (auto simp: delete_memory_by_id_and_user_id_def row_del_def unique_key_del_rows split: option.splits
        intro!: rows_of_kept(2)[where f = "\<lambda>m. m"])
  qed
  show "keeps (with_rows_of u ms) (on_rows (delete_memories_by_user_id v))"
    by (rule on_rows_keeps) (use assms in \<open>auto simp: delete_memories_by_user_id_def unique_key_del_rows rows_of_kept(2)[where f = "\<lambda>m. m"]\<close>)
qed

lemma keeps_case_option [keeping]:
  "keeps P a \<Longrightarrow> (\<And>x. keeps P (f x)) \<Longrightarrow> keeps P (case r of None \<Rightarrow> a | Some x \<Rightarrow> f x)"
  by (cases r) auto

lemma keeps_if [keeping]: "(b \<Longrightarrow> keeps P m) \<Longrightarrow> (\<not> b \<Longrightarrow> keeps P n) \<Longrightarrow> keeps P (if b then m else n)"
  by auto

lemma done_with_keeps [keeping]: "keeps P (done_with x)"
  by (simp add: keeps_def)

lemma others_keep_rows:
  assumes "v \<noteq> u"
  shows "keeps (with_rows_of u ms) (run_memory env v q)"
  by (cases q) (auto simp: add_memory_def update_memory_by_id_def delete_memory_by_id_def delete_memory_by_user_id_def
    reset_memory_from_vector_db_def intro!: keeping table_operations_keep[OF assms])

text \<open>
  A memory that is updated to no content at all is answered with 404, but the row is committed: from then on the
  user's memories cannot be listed.
\<close>

lemma emptied_memory_blocks_list:
  assumes "row_get my_id i (mt_rows s) = Some m" "my_user_id m = u"
  shows "fst (update_memory_by_id env now i None u s) = Inr (Inl NotFound)"
    and "get_memories_handler u (mt_rows (snd (update_memory_by_id env now i None u s))) = Inl ServerError"
proof -
  let ?db = "upd_rows (\<lambda>m. my_id m = i) (\<lambda>m. m\<lparr>my_content := None, my_updated_at := now\<rparr>) (mt_rows s)"
  have g: "row_get my_id i ?db = Some (m\<lparr>my_content := None, my_updated_at := now\<rparr>)"
    using assms by (simp add: row_get_upd_key)
  then have r: "update_memory_by_id env now i None u s = (Inr (Inl NotFound), s\<lparr>mt_rows := ?db\<rparr>)"
    using assms by (simp add: update_memory_by_id_def next_rows update_memory_by_id_and_user_id_def Let_def
        get_memory_by_id_def memory_model_def)
  have "m\<lparr>my_content := None, my_updated_at := now\<rparr> \<in> set (all_rows (\<lambda>m. my_user_id m = u) ?db)"
    using row_get_SomeD[OF g] assms(2) by (simp add: all_rows_def)
  moreover have "x \<in> set ms \<Longrightarrow> my_content x = None \<Longrightarrow> all_models ms = None" for x ms
    by (induction ms) (auto simp: memory_model_def bind_eq_None_conv)
  ultimately have "get_memories_by_user_id u ?db = None" by (fastforce simp: get_memories_by_user_id_def)
  then show "fst (update_memory_by_id env now i None u s) = Inr (Inl NotFound)"
    "get_memories_handler u (mt_rows (snd (update_memory_by_id env now i None u s))) = Inl ServerError"
    by (simp_all add: r get_memories_handler_def)
qed

text \<open>A text that cannot be embedded is remembered in the table all the same.\<close>

lemma unembedded_memory_stays:
  assumes "mv_embed env t = Inl e" "uid \<notin> my_id ` set (mt_rows s)"
  shows "fst (add_memory env uid now t u s) = Inl e"
    and "remembered u (mt_rows (snd (add_memory env uid now t u s))) uid = Some t"
    and "mt_index (snd (add_memory env uid now t u s)) = mt_index s"
proof -
  obtain db' where a: "add_row my_id \<lparr>my_id = uid, my_user_id = u, my_content = Some t, my_updated_at = now, my_created_at = now\<rparr> (mt_rows s) = Some db'"
    using assms(2) by (auto simp: add_row_def)
  then have "add_memory env uid now t u s = (Inl e, s\<lparr>mt_rows := db'\<rparr>)"
    using assms(1) by (simp add: add_memory_def next_rows insert_new_memory_def Let_def)
  then show "fst (add_memory env uid now t u s) = Inl e"
    "remembered u (mt_rows (snd (add_memory env uid now t u s))) uid = Some t"
    "mt_index (snd (add_memory env uid now t u s)) = mt_index s"
    using remembered_add[OF a] by simp_all
qed

end
