(* ===== verification/Pipelines.thy ===== *)
theory Pipelines
  imports Payload Resources Priorities "HOL-Library.Multiset"
begin

text \<open>
  Filters that run on an external pipeline server (\<^verbatim>\<open>routers/pipelines.py\<close>): before a request goes to the model
  (inlet) and after the answer (outlet). What the server replies to a call is an argument.
\<close>

section \<open>The filters of a model\<close>

definition applies_to :: "string \<Rightarrow> json \<Rightarrow> py_error + bool" where
  "applies_to model_id targets =
     (if targets = JList [JStr ''*''] then Inr True
      else and_then (iterate targets) (\<lambda>ts. Inr (JStr model_id \<in> set ts)))"

text \<open>\<open>k in v\<close>\<close>

definition has_key :: "json \<Rightarrow> string \<Rightarrow> py_error + bool" where
  "has_key v k = (case v of
     JDict d \<Rightarrow> Inr (dget d k \<noteq> None)
   | JList xs \<Rightarrow> Inr (JStr k \<in> set xs)
   | JStr s \<Rightarrow> Inr (has_text k s)
   | _ \<Rightarrow> Inl TypeError)"

definition is_filter :: "string \<Rightarrow> dict \<Rightarrow> py_error + bool" where
  "is_filter model_id model = (case dget model ''pipeline'' of
     None \<Rightarrow> Inr False
   | Some p \<Rightarrow>
       and_then (has_key p ''type'') (\<lambda>typed.
         if \<not> typed then Inr False
         else and_then (item_get p ''type'') (\<lambda>t.
           if t \<noteq> JStr ''filter'' then Inr False
           else and_then (item_get p ''pipelines'') (applies_to model_id))))"

text \<open>A priority is a number.\<close>

definition priority_of :: "dict \<Rightarrow> py_error + rat" where
  "priority_of model =
     and_then (item_get (JDict model) ''pipeline'') (\<lambda>p. and_then (item_get p ''priority'') priority_value)"

definition get_sorted_filters :: "string \<Rightarrow> (id \<times> dict) list \<Rightarrow> py_error + dict list" where
  "get_sorted_filters model_id models =
     and_then (filter_raising (is_filter model_id) (map snd models)) (\<lambda>fs.
     and_then (each priority_of fs) (\<lambda>ps. Inr (map snd (sort_key fst (zip ps fs)))))"

section \<open>Running them\<close>

text \<open>No connection, a reply that is no JSON, or a status (good or bad) with a JSON value.\<close>

datatype filter_reply = No_reply | Not_json | Reply bool json

record pipeline_env =
  py_urls :: "string list"
  py_keys :: "string list"
  py_post :: "string \<Rightarrow> string \<Rightarrow> json \<Rightarrow> filter_reply"
  py_int_of :: "json \<Rightarrow> int option"

text \<open>\<open>xs[i]\<close>\<close>

definition py_nth :: "'a list \<Rightarrow> int \<Rightarrow> py_error + 'a" where
  "py_nth xs i =
     (if 0 \<le> i \<and> i < int (length xs) then Inr (xs ! nat i)
      else if i < 0 \<and> - int (length xs) \<le> i then Inr (xs ! nat (i + int (length xs)))
      else Inl IndexError)"

definition filter_user :: "user \<Rightarrow> json" where
  "filter_user u = JDict [(''id'', JStr (u_id u)), (''email'', JStr (u_email u)), (''name'', JStr (u_name u)), (''role'', JStr (u_role u))]"

definition filter_request :: "user \<Rightarrow> json \<Rightarrow> json" where
  "filter_request u payload = JDict [(''user'', filter_user u), (''body'', payload)]"

text \<open>The reply is the new payload also when its status is bad; an inlet filter then stops the request if it says why.\<close>

definition inlet_reply :: "json \<Rightarrow> filter_reply \<Rightarrow> py_error + json" where
  "inlet_reply payload r = (case r of
     Reply True v \<Rightarrow> Inr v
   | Reply False v \<Rightarrow> and_then (has_key v ''detail'') (\<lambda>said. if said then Inl ValueError else Inr v)
   | _ \<Rightarrow> Inr payload)"

definition outlet_reply :: "json \<Rightarrow> filter_reply \<Rightarrow> py_error + json" where
  "outlet_reply payload r = (case r of Reply _ v \<Rightarrow> Inr v | _ \<Rightarrow> Inr payload)"

definition run_filter ::
  "(json \<Rightarrow> filter_reply \<Rightarrow> py_error + json) \<Rightarrow> string \<Rightarrow> pipeline_env \<Rightarrow> user \<Rightarrow> dict \<Rightarrow> json \<Rightarrow> py_error + json" where
  "run_filter on_reply kind env u f payload = (case py_int_of env (dget_or f ''urlIdx'' JNull) of
     None \<Rightarrow> Inr payload
   | Some i \<Rightarrow>
       and_then (py_nth (py_urls env) i) (\<lambda>url.
       and_then (py_nth (py_keys env) i) (\<lambda>key.
         if key = [] then Inr payload
         else (case dget f ''id'' of
           None \<Rightarrow> Inr payload
         | Some fid \<Rightarrow>
             on_reply payload (py_post env (url @ ''/'' @ py_str fid @ ''/filter/'' @ kind) key (filter_request u payload))))))"

fun run_filters ::
  "(json \<Rightarrow> filter_reply \<Rightarrow> py_error + json) \<Rightarrow> string \<Rightarrow> pipeline_env \<Rightarrow> user \<Rightarrow> dict list \<Rightarrow> json \<Rightarrow> py_error + json" where
  "run_filters on_reply kind env u [] payload = Inr payload"
| "run_filters on_reply kind env u (f # fs) payload =
     and_then (run_filter on_reply kind env u f payload) (run_filters on_reply kind env u fs)"

definition model_and_filters :: "dict \<Rightarrow> (id \<times> dict) list \<Rightarrow> py_error + dict \<times> dict list" where
  "model_and_filters payload models =
     and_then (item_get (JDict payload) ''model'') (\<lambda>m. case m of
       JStr model_id \<Rightarrow>
         and_then (get_sorted_filters model_id models) (\<lambda>fs.
           case map_of models model_id of None \<Rightarrow> Inl KeyError | Some model \<Rightarrow> Inr (model, fs))
     | _ \<Rightarrow> Inl KeyError)"

definition process_pipeline_inlet_filter :: "pipeline_env \<Rightarrow> user \<Rightarrow> (id \<times> dict) list \<Rightarrow> dict \<Rightarrow> py_error + json" where
  "process_pipeline_inlet_filter env u models payload =
     and_then (model_and_filters payload models) (\<lambda>(model, fs).
       run_filters inlet_reply ''inlet'' env u (if dget model ''pipeline'' \<noteq> None then fs @ [model] else fs) (JDict payload))"

definition process_pipeline_outlet_filter :: "pipeline_env \<Rightarrow> user \<Rightarrow> (id \<times> dict) list \<Rightarrow> dict \<Rightarrow> py_error + json" where
  "process_pipeline_outlet_filter env u models payload =
     and_then (model_and_filters payload models) (\<lambda>(model, fs).
       run_filters outlet_reply ''outlet'' env u (if dget model ''pipeline'' \<noteq> None then model # fs else fs) (JDict payload))"

section \<open>Which filters run, and in which order\<close>

lemma sort_key_zip_sorted: "length ps = length fs \<Longrightarrow> sorted (map fst (sort_key fst (zip ps fs)))"
  by simp

lemma get_sorted_filters_exact:
  assumes "get_sorted_filters model_id models = Inr fs"
  shows "mset fs = mset (filter (\<lambda>m. is_filter model_id m = Inr True) (map snd models))"
    and "sorted (map (\<lambda>m. projr (priority_of m)) fs)"
proof -
  obtain gs ps where g: "filter_raising (is_filter model_id) (map snd models) = Inr gs" and p: "each priority_of gs = Inr ps"
    and fs: "fs = map snd (sort_key fst (zip ps gs))"
    using assms by (auto simp: get_sorted_filters_def and_then_Inr_iff)
  have l: "length ps = length gs" by (rule each_Inr_length[OF p])
  have "mset fs = mset (map snd (zip ps gs))" by (simp only: fs mset_map mset_sort)
  also have "map snd (zip ps gs) = gs" using l by simp
  finally show "mset fs = mset (filter (\<lambda>m. is_filter model_id m = Inr True) (map snd models))"
    using filter_raising_InrD[OF g] by simp
  have "\<forall>x \<in> set (zip ps gs). priority_of (snd x) = Inr (fst x)"
    using p l by (auto simp: each_Inr_iff list_all2_conv_all_nth set_zip)
  then have "map (\<lambda>m. projr (priority_of m)) fs = map fst (sort_key fst (zip ps gs))" by (auto simp: fs)
  then show "sorted (map (\<lambda>m. projr (priority_of m)) fs)" by simp
qed

text \<open>A rejected answer is never stopped, and the reply that rejects it becomes the answer.\<close>

lemma rejection_becomes_answer:
  assumes "py_int_of env (dget_or f ''urlIdx'' JNull) = Some i" "py_nth (py_urls env) i = Inr url" "py_nth (py_keys env) i = Inr key"
    and "key \<noteq> []" "dget f ''id'' = Some fid"
    and "py_post env (url @ ''/'' @ py_str fid @ ''/filter/'' @ kind) key (filter_request u payload) = Reply False (JDict d)"
  shows "run_filter outlet_reply kind env u f payload = Inr (JDict d)"
    and "dget d ''detail'' \<noteq> None \<Longrightarrow> run_filter inlet_reply kind env u f payload = Inl ValueError"
    and "dget d ''detail'' = None \<Longrightarrow> run_filter inlet_reply kind env u f payload = Inr (JDict d)"
  using assms by (simp_all add: run_filter_def inlet_reply_def outlet_reply_def has_key_def)

end
