(* ===== verification/Chat_Services.thy ===== *)
theory Chat_Services
  imports Chat_Context Memories Pipelines Plugins Tool_Rounds
begin

text \<open>
  What a chat request is enriched with before it goes to the model (\<^verbatim>\<open>utils/middleware.py\<close>): memories, a web
  search, images, tools called through a prompt, and sources from the attached files. Models, searches, image
  services and the parts of the server that are state of their own are the record \<open>chat_env\<close>; the state is what
  a request changes. Looking up a conversation in a cycle of parent links does not return: then the result is None.
\<close>

section \<open>Actions that may not return\<close>

type_synonym ('s, 'a) partial_action = "'s \<Rightarrow> ((py_error + 'a) \<times> 's) option"

definition ended :: "('s, 'a) action \<Rightarrow> ('s, 'a) partial_action" where "ended m s = Some (m s)"

definition then_do :: "('s, 'a) partial_action \<Rightarrow> ('a \<Rightarrow> ('s, 'b) partial_action) \<Rightarrow> ('s, 'b) partial_action" where
  "then_do m f s = (case m s of None \<Rightarrow> None | Some (Inl e, s') \<Rightarrow> Some (Inl e, s') | Some (Inr x, s') \<Rightarrow> f x s')"

definition or_else :: "('s, 'a) partial_action \<Rightarrow> ('s, 'a) partial_action \<Rightarrow> ('s, 'a) partial_action" where
  "or_else m h s = (case m s of Some (Inl e, s') \<Rightarrow> h s' | r \<Rightarrow> r)"

lemma ended_run [simp]: "ended m s = Some (m s)" by (simp add: ended_def)

lemma then_do_ended [simp]: "then_do (ended (pure x)) f = f x" "then_do (ended (lifted (Inr x))) f = f x"
  "then_do (ended (lifted (Inl e))) f s = Some (Inl e, s)"
  by (simp_all add: then_do_def fun_eq_iff)

lemma then_do_Inr: "then_do m f s = Some (Inr y, s') \<longleftrightarrow> (\<exists>x t. m s = Some (Inr x, t) \<and> f x t = Some (Inr y, s'))"
  by (auto simp: then_do_def split: option.splits prod.splits sum.splits)

text \<open>What every step keeps is kept by the sequence, as far as it returns.\<close>

definition maintains :: "('s \<Rightarrow> bool) \<Rightarrow> ('s, 'a) partial_action \<Rightarrow> bool" where
  "maintains P m \<longleftrightarrow> (\<forall>s r s'. P s \<longrightarrow> m s = Some (r, s') \<longrightarrow> P s')"

lemma maintainsD: "maintains P m \<Longrightarrow> P s \<Longrightarrow> m s = Some (r, s') \<Longrightarrow> P s'"
  by (auto simp: maintains_def)

lemma maintains_ended: "keeps P m \<Longrightarrow> maintains P (ended m)"
  by (auto simp: maintains_def dest: keepsD)

lemma maintains_then:
  assumes m: "maintains P m" and f: "\<And>x. maintains P (f x)"
  shows "maintains P (then_do m f)"
  unfolding maintains_def
proof (intro allI impI)
  fix s r s' assume s: "P s" and r: "then_do m f s = Some (r, s')"
  obtain q t where q: "m s = Some (q, t)" using r by (cases "m s") (auto simp: then_do_def)
  have t: "P t" by (rule maintainsD[OF m s q])
  show "P s'" using r t q maintainsD[OF f t] by (cases q) (auto simp: then_do_def)
qed

lemma maintains_or_else:
  assumes m: "maintains P m" and h: "maintains P h"
  shows "maintains P (or_else m h)"
  unfolding maintains_def
proof (intro allI impI)
  fix s r s' assume s: "P s" and r: "or_else m h s = Some (r, s')"
  obtain q t where q: "m s = Some (q, t)" using r by (cases "m s") (auto simp: or_else_def)
  have t: "P t" by (rule maintainsD[OF m s q])
  show "P s'" using r t q maintainsD[OF h t] by (cases q) (auto simp: or_else_def)
qed

text \<open>What an action that succeeds results in.\<close>

definition yields :: "('a \<Rightarrow> bool) \<Rightarrow> ('s, 'a) action \<Rightarrow> bool" where
  "yields P m \<longleftrightarrow> (\<forall>s x s'. m s = (Inr x, s') \<longrightarrow> P x)"

named_theorems yielding \<open>results of actions\<close>

lemma yieldsD: "yields P m \<Longrightarrow> m s = (Inr x, s') \<Longrightarrow> P x"
  by (auto simp: yields_def)

lemma yields_pure [yielding]: "P x \<Longrightarrow> yields P (pure x)"
  by (simp add: yields_def)

lemma yields_with: "yields Q m \<Longrightarrow> (\<And>x. Q x \<Longrightarrow> yields P (f x)) \<Longrightarrow> yields P (next_do m f)"
  unfolding yields_def action_Inr by blast

lemma yields_next [yielding]: "(\<And>x. yields P (f x)) \<Longrightarrow> yields P (next_do m f)"
  unfolding yields_def action_Inr by blast

lemma yields_trying [yielding]: "yields P m \<Longrightarrow> yields P h \<Longrightarrow> yields P (trying m h)"
  unfolding yields_def trying_def by (auto split: prod.splits sum.splits)

lemma yields_cases [yielding]:
  "(b \<Longrightarrow> yields P m) \<Longrightarrow> (\<not> b \<Longrightarrow> yields P n) \<Longrightarrow> yields P (if b then m else n)"
  "yields P m \<Longrightarrow> (\<And>x. yields P (f x)) \<Longrightarrow> yields P (case r of None \<Rightarrow> m | Some x \<Rightarrow> f x)"
  "(\<And>x y. yields P (g x y)) \<Longrightarrow> yields P (case p of (x, y) \<Rightarrow> g x y)"
  "(\<And>e. yields P (h e)) \<Longrightarrow> (\<And>x. yields P (f' x)) \<Longrightarrow> yields P (case q of Inl e \<Rightarrow> h e | Inr x \<Rightarrow> f' x)"
  by (auto split: option.split prod.split sum.split)

lemma yields_json [yielding]:
  "(\<And>t. yields P (f t)) \<Longrightarrow> yields P m \<Longrightarrow>
     yields P (case v of JNull \<Rightarrow> m | JBool b \<Rightarrow> m | JInt i \<Rightarrow> m | JFloat r \<Rightarrow> m | JStr t \<Rightarrow> f t | JList xs \<Rightarrow> m | JDict d \<Rightarrow> m)"
  by (cases v) auto

section \<open>The request\<close>

record chat_conf =
  cc_query_cache :: bool
  cc_image_edit :: bool
  cc_image_prompt :: bool
  cc_rag_template :: string
  cc_rag_default :: string
  cc_voice_default :: string
  cc_code_template :: string
  cc_code_default :: string
  cc_tools_default :: string
  cc_uuid1 :: string
  cc_uuid2 :: string

record payload_tool = tool +
  pt_tool_id :: string
  pt_file_handler :: bool

text \<open>
  \<open>cv_web\<close> answers a list of queries, \<open>cv_create\<close> and \<open>cv_edit\<close> make images or fail with a message,
  \<open>cv_date\<close> prints a timestamp as a local date.
\<close>

record ('v, 'd, 'x) chat_env =
  cv_conf :: chat_conf
  cv_clock :: "datetime \<times> datetime"
  cv_settings :: task_settings
  cv_task :: task_env
  cv_ask :: "dict \<Rightarrow> py_error + json"
  cv_vector :: "('v, 'd) vector_env"
  cv_search :: "'d search_conf"
  cv_groups :: group_db
  cv_notes :: "note_row list"
  cv_library :: library
  cv_folders :: folder_db
  cv_memory :: "('v, 'x, 'd results option) memory_env"
  cv_memories :: "'x memory_state"
  cv_date :: "json \<Rightarrow> py_error + string"
  cv_web :: "string list \<Rightarrow> py_error + dict"
  cv_create :: "json \<Rightarrow> string + json list"
  cv_edit :: "json \<Rightarrow> json list \<Rightarrow> string + json list"
  cv_pipeline :: pipeline_env
  cv_plugin :: plugin_env
  cv_listed :: "id list \<Rightarrow> id list"
  cv_round :: round_env

record chat_state =
  ct_events :: "json list"
  ct_cached :: json
  ct_chats :: chat_db
  ct_plugins :: plugin_state

type_synonym 'a chat_action = "(chat_state, 'a) action"

definition announce :: "string \<Rightarrow> dict \<Rightarrow> unit chat_action" where
  "announce kind d = changing (\<lambda>s. s\<lparr>ct_events := ct_events s @ [JDict [(''type'', JStr kind), (''data'', JDict d)]]\<rparr>)"

definition search_status :: "string \<Rightarrow> dict \<Rightarrow> unit chat_action" where
  "search_status description d =
     announce ''status'' ([(''action'', JStr ''web_search''), (''description'', JStr description)] @ d)"

definition the_messages :: "dict \<Rightarrow> py_error + dict list" where
  "the_messages form = and_then (form_item form ''messages'') messages_of"

definition set_messages :: "dict \<Rightarrow> dict list \<Rightarrow> dict" where
  "set_messages form ms = dset ''messages'' (JList (map JDict ms)) form"

definition with_system_message :: "string \<Rightarrow> bool \<Rightarrow> dict \<Rightarrow> py_error + dict" where
  "with_system_message t at_end form =
     and_then (the_messages form) (\<lambda>ms.
     and_then (add_or_update_system_message t ms at_end) (\<lambda>ms'. Inr (set_messages form ms')))"

definition with_user_message :: "string \<Rightarrow> bool \<Rightarrow> dict \<Rightarrow> py_error + dict" where
  "with_user_message t at_end form =
     and_then (the_messages form) (\<lambda>ms.
     and_then (add_or_update_user_message t ms at_end) (\<lambda>ms'. Inr (set_messages form ms')))"

text \<open>The answer to a request for queries: a cached one, or that of the model. The cache holds the queries themselves.\<close>

definition ask_queries :: "('v, 'd, 'x) chat_env \<Rightarrow> user \<Rightarrow> dict \<Rightarrow> json chat_action" where
  "ask_queries env u form =
     reading (\<lambda>s. lifted (case generate_queries (cv_clock env) (cv_settings env) ((cv_task env)\<lparr>te_cached := ct_cached s\<rparr>) form u of
         Inl e \<Rightarrow> Inl ValueError
       | Inr (Cached v) \<Rightarrow> Inr v
       | Inr (Disabled t) \<Rightarrow> Inr (JStr t)
       | Inr (Completion p) \<Rightarrow> cv_ask env p))"

definition query_form :: "dict \<Rightarrow> dict \<Rightarrow> py_error + dict" where
  "query_form form extra =
     and_then (form_item form ''model'') (\<lambda>model.
     and_then (form_item form ''messages'') (\<lambda>ms. Inr ([(''model'', model), (''messages'', ms)] @ extra)))"

section \<open>Memories\<close>

definition memory_line :: "('v, 'd, 'x) chat_env \<Rightarrow> json list \<Rightarrow> nat \<times> json \<Rightarrow> py_error + string" where
  "memory_line env metas x = (case x of (n, doc) \<Rightarrow>
     if length metas \<le> n then Inl IndexError
     else
       and_then (item_or (metas ! n) ''created_at'' JNull) (\<lambda>created.
       and_then (if truthy created then cv_date env created else Inr ''Unknown Date'') (\<lambda>date.
         Inr (nat_str (Suc n) @ ''. ['' @ date @ ''] '' @ py_str doc @ nl))))"

definition memory_lines :: "('v, 'd, 'x) chat_env \<Rightarrow> 'd results option \<Rightarrow> py_error + string" where
  "memory_lines env r = (case r of
     None \<Rightarrow> Inr []
   | Some x \<Rightarrow>
       (case rs_documents x of
          [] \<Rightarrow> Inr []
        | docs # _ \<Rightarrow>
            if docs = [] then Inr []
            else and_then (first_or_error (rs_metadatas x)) (\<lambda>metas.
              and_then (each (memory_line env metas) (enumerate 0 docs)) (\<lambda>ls. Inr (concat ls)))))"

definition memory_query :: "('v, 'd, 'x) chat_env \<Rightarrow> user \<Rightarrow> dict \<Rightarrow> 'd results option" where
  "memory_query env u form =
     (case and_then (the_messages form) get_last_user_message of
        Inl e \<Rightarrow> None
      | Inr m \<Rightarrow>
          (case first_true [m, JStr []] of
             JStr q \<Rightarrow> (case query_memory (cv_memory env) q 3 (u_id u) (cv_memories env) of Inl e \<Rightarrow> None | Inr r \<Rightarrow> r)
           | _ \<Rightarrow> None))"

definition chat_memory_handler :: "('v, 'd, 'x) chat_env \<Rightarrow> user \<Rightarrow> dict \<Rightarrow> py_error + dict" where
  "chat_memory_handler env u form =
     and_then (memory_lines env (memory_query env u form)) (\<lambda>t.
       with_system_message (''User Context:'' @ nl @ t @ nl) True form)"

section \<open>Web search\<close>

definition web_answer :: "('v, 'd, 'x) chat_env \<Rightarrow> user \<Rightarrow> json \<Rightarrow> dict \<Rightarrow> json chat_action" where
  "web_answer env u message form =
     next_do (lifted (query_form form [(''prompt'', message), (''type'', JStr ''web_search'')])) (\<lambda>f.
     next_do (ask_queries env u f) (\<lambda>res.
     next_do (lifted (answer_content res)) (\<lambda>r.
       let q = web_queries (se_floats (re_stream (cv_round env))) r
       in next_do (only_if (cc_query_cache (cv_conf env)) (changing (\<lambda>s. s\<lparr>ct_cached := q\<rparr>))) (\<lambda>_. pure q))))"

definition query_texts :: "json \<Rightarrow> py_error + string list" where
  "query_texts q = (case q of
     JList vs \<Rightarrow> each (\<lambda>v. case v of JStr s \<Rightarrow> Inr s | _ \<Rightarrow> Inl ValueError) vs | _ \<Rightarrow> Inl ValueError)"

definition found_file :: "string \<Rightarrow> json \<Rightarrow> string list \<Rightarrow> json \<Rightarrow> json \<Rightarrow> json" where
  "found_file k v qs urls q = JDict [(k, v), (''name'', JStr (join '', '' qs)), (''type'', JStr ''web_search''), (''urls'', urls), (''queries'', q)]"

text \<open>The collections found, or the documents, become files of the request.\<close>

definition with_found :: "dict \<Rightarrow> string list \<Rightarrow> json \<Rightarrow> dict \<Rightarrow> py_error + dict" where
  "with_found results qs q form =
     (let names = dget_or results ''collection_names'' JNull; docs = dget_or results ''docs'' JNull
      in if truthy names then
           and_then (iterate names) (\<lambda>ns.
           and_then (form_item results ''filenames'') (\<lambda>urls.
             extend_files (map (\<lambda>n. found_file ''collection_name'' n qs urls q) ns) form))
         else if truthy docs then
           and_then (form_item results ''filenames'') (\<lambda>urls. extend_files [found_file ''docs'' docs qs urls q] form)
         else Inr (dset ''files'' (dget_or form ''files'' (JList [])) form))"

definition search_failed :: "json \<Rightarrow> unit chat_action" where
  "search_failed q = search_status ''An error occurred while searching the web'' [(''queries'', q), (''done'', JBool True), (''error'', JBool True)]"

definition search_web :: "('v, 'd, 'x) chat_env \<Rightarrow> json \<Rightarrow> dict \<Rightarrow> dict chat_action" where
  "search_web env q form =
     (case and_then (query_texts q) (\<lambda>qs. and_then (cv_web env qs) (\<lambda>r. Inr (qs, r))) of
        Inl e \<Rightarrow> next_do (search_failed q) (\<lambda>_. pure form)
      | Inr (qs, results) \<Rightarrow>
          if results = [] then
            next_do (search_status ''No search results found'' [(''done'', JBool True), (''error'', JBool True)]) (\<lambda>_. pure form)
          else (case with_found results qs q form of
             Inl e \<Rightarrow> next_do (search_failed q) (\<lambda>_. pure form)
           | Inr form' \<Rightarrow>
               (case dget results ''filenames'' of
                  None \<Rightarrow> next_do (search_failed q) (\<lambda>_. pure form')
                | Some urls \<Rightarrow>
                    next_do (search_status ''Searched {{count}} sites''
                      [(''urls'', urls), (''items'', dget_or results ''items'' (JList [])), (''done'', JBool True)]) (\<lambda>_. pure form'))))"

definition chat_web_search_handler :: "('v, 'd, 'x) chat_env \<Rightarrow> user \<Rightarrow> dict \<Rightarrow> dict chat_action" where
  "chat_web_search_handler env u form =
     next_do (search_status ''Searching the web'' [(''done'', JBool False)]) (\<lambda>_.
     next_do (lifted (and_then (the_messages form) get_last_user_message)) (\<lambda>message.
     next_do (trying (web_answer env u message form) (pure (JList [message]))) (\<lambda>q0.
     next_do (lifted (only_blank q0)) (\<lambda>blank.
       let q = (if blank then JList [message] else q0)
       in next_do (lifted (py_len q)) (\<lambda>n.
            if n = 0 then
              next_do (search_status ''No search query generated'' [(''done'', JBool True)]) (\<lambda>_. pure form)
            else
              next_do (announce ''status'' [(''action'', JStr ''web_search_queries_generated''), (''queries'', q), (''done'', JBool False)]) (\<lambda>_.
                search_web env q form))))))"

section \<open>Images\<close>

text \<open>
  The conversation is that of the request for a temporary chat, else that of the stored chat, which has to exist.
  What is stored as the messages of a history is a dictionary.
\<close>

definition stored_conversation :: "chat \<Rightarrow> (py_error + json list) option" where
  "stored_conversation c =
     (case and_then (get_path (JDict (cht_chat c)) [(''history'', JDict []), (''messages'', JDict [])]) (\<lambda>mm.
           and_then (get_path (JDict (cht_chat c)) [(''history'', JDict []), (''currentId'', JNull)]) (\<lambda>i. Inr (mm, i))) of
        Inl e \<Rightarrow> Some (Inl e)
      | Inr (JDict d, i) \<Rightarrow> get_message_list d i
      | Inr (_, i) \<Rightarrow> Some (Inl AttributeError))"

definition image_message_list :: "user \<Rightarrow> string \<Rightarrow> dict \<Rightarrow> (chat_state, json list) partial_action" where
  "image_message_list u chat_id form =
     (if startswith chat_id ''local:'' then ended (lifted (iterate (dget_or form ''messages'' (JList []))))
      else (\<lambda>s. let found = get_chat_by_id_and_user_id chat_id (u_id u) (ct_chats s)
                in then_do (ended (announce ''status'' [(''description'', JStr ''Creating image''), (''done'', JBool False)])) (\<lambda>_ s'.
                     case found of
                       None \<Rightarrow> Some (Inl AttributeError, s')
                     | Some c \<Rightarrow> map_option (\<lambda>r. (r, s')) (stored_conversation c)) s))"

definition generated_prompt :: "('v, 'd, 'x) chat_env \<Rightarrow> user \<Rightarrow> dict \<Rightarrow> json \<Rightarrow> json" where
  "generated_prompt env u form message =
     (if \<not> cc_image_prompt (cv_conf env) then message
      else (case and_then (query_form form []) (\<lambda>f.
             and_then (case generate_image_prompt (cv_clock env) (cv_settings env) (cv_task env) f u of
                 Inr (Completion p) \<Rightarrow> cv_ask env p | _ \<Rightarrow> Inl ValueError) answer_content) of
          Inl e \<Rightarrow> message
        | Inr r \<Rightarrow> image_prompt (se_floats (re_stream (cv_round env))) message r))"

definition created_text :: "bool \<Rightarrow> string" where
  "created_text edited =
     (if edited then ''<context>The requested image has been created and is now being shown to the user. Let them know that it has been generated.</context>''
      else ''<context>The requested image has been created by the system successfully and is now being shown to the user. Let the user know that the image they requested has been generated and is now shown in the chat.</context>'')"

definition failed_text :: "bool \<Rightarrow> string \<Rightarrow> string" where
  "failed_text edited e =
     ''<context>Image generation was attempted but failed'' @ (if edited then [] else '' because of an error'') @
       ''. The system is currently unable to generate the image. Tell the user that the following error occurred: '' @ e @ ''</context>''"

text \<open>The images shown, and what the model is told about them.\<close>

definition show_images :: "bool \<Rightarrow> string + json list \<Rightarrow> string chat_action" where
  "show_images edited r = (case r of
     Inl e \<Rightarrow>
       next_do (announce ''status'' [(''description'', JStr ''An error occurred while generating an image''), (''done'', JBool True)]) (\<lambda>_.
         pure (failed_text edited e))
   | Inr images \<Rightarrow>
       next_do (announce ''status'' [(''description'', JStr ''Image created''), (''done'', JBool True)]) (\<lambda>_.
         case each (\<lambda>i. item_get i ''url'') images of
           Inl e \<Rightarrow>
             next_do (announce ''status'' [(''description'', JStr ''An error occurred while generating an image''), (''done'', JBool True)]) (\<lambda>_.
               pure (failed_text edited []))
         | Inr urls \<Rightarrow>
             next_do (announce ''files'' [(''files'', JList (map (\<lambda>v. JDict [(''type'', JStr ''image''), (''url'', v)]) urls))]) (\<lambda>_.
               pure (created_text edited))))"

definition image_request :: "('v, 'd, 'x) chat_env \<Rightarrow> user \<Rightarrow> dict \<Rightarrow> json list \<Rightarrow> dict chat_action" where
  "image_request env u form ms =
     next_do (lifted (and_then (messages_of (JList ms)) get_last_user_message)) (\<lambda>message.
     next_do (lifted (get_last_images ms)) (\<lambda>inputs.
     next_do
       (if inputs \<noteq> [] \<and> cc_image_edit (cv_conf env) then show_images True (cv_edit env message inputs)
        else show_images False (cv_create env (generated_prompt env u form message))) (\<lambda>t.
       lifted (with_system_message t False form))))"

definition chat_image_generation_handler :: "('v, 'd, 'x) chat_env \<Rightarrow> user \<Rightarrow> dict \<Rightarrow> dict \<Rightarrow> (chat_state, dict) partial_action" where
  "chat_image_generation_handler env u metadata form = (case dget_or metadata ''chat_id'' JNull of
     JStr i \<Rightarrow>
       if i = [] then ended (pure form)
       else then_do (image_message_list u i form) (\<lambda>ms. ended (image_request env u form ms))
   | v \<Rightarrow> ended (if truthy v then lifted (Inl AttributeError) else pure form))"

section \<open>Attached files\<close>

text \<open>\<open>all(item.get("context") == "full" for item in files)\<close>\<close>

fun all_full :: "json list \<Rightarrow> py_error + bool" where
  "all_full [] = Inr True"
| "all_full (f # fs) = and_then (item_or f ''context'' JNull) (\<lambda>c. if c = JStr ''full'' then all_full fs else Inr False)"

definition file_answer :: "('v, 'd, 'x) chat_env \<Rightarrow> user \<Rightarrow> dict \<Rightarrow> json chat_action" where
  "file_answer env u body =
     next_do (lifted (query_form body [(''type'', JStr ''retrieval'')])) (\<lambda>f.
     next_do (ask_queries env u f) (\<lambda>res.
     next_do (lifted (answer_content res)) (\<lambda>r. pure (file_queries (se_floats (re_stream (cv_round env))) r))))"

text \<open>The sources of the files; a search that raises gives none.\<close>

definition find_sources :: "('v, 'd :: linorder, 'x) chat_env \<Rightarrow> user \<Rightarrow> bool \<Rightarrow> json list \<Rightarrow> json list \<Rightarrow> (chat_state, dict list) partial_action" where
  "find_sources env u full queries files s =
     (case (case messages_of (JList files) of
              Inl e \<Rightarrow> Some (Inl e, ct_chats s)
            | Inr items \<Rightarrow>
                get_sources_from_items (cv_vector env) ((cv_search env)\<lparr>sf_full := full \<or> sf_full (cv_search env)\<rparr>) u (cv_groups env)
                  (cv_notes env) (cv_library env) queries [] items (ct_chats s)) of
        None \<Rightarrow> None
      | Some (r, db) \<Rightarrow> Some (Inr (case r of Inl e \<Rightarrow> [] | Inr ss \<Rightarrow> ss), s\<lparr>ct_chats := db\<rparr>))"

definition attached_files :: "dict \<Rightarrow> py_error + json" where
  "attached_files body = item_or (dget_or body ''metadata'' (JDict [])) ''files'' JNull"

text \<open>The queries of the search in the files: those of the model, or the last message of the user.\<close>

definition choose_queries :: "('v, 'd, 'x) chat_env \<Rightarrow> user \<Rightarrow> bool \<Rightarrow> dict \<Rightarrow> json list chat_action" where
  "choose_queries env u full body =
     next_do
       (if full then pure (JList [])
        else
          next_do (trying (file_answer env u body) (pure (JList []))) (\<lambda>q.
          next_do (announce ''status'' [(''action'', JStr ''queries_generated''), (''queries'', q), (''done'', JBool False)]) (\<lambda>_. pure q))) (\<lambda>q.
     next_do (lifted (py_len q)) (\<lambda>n.
       if n = 0 then next_do (lifted (and_then (the_messages body) get_last_user_message)) (\<lambda>m. pure [m])
       else lifted (case q of JList qs \<Rightarrow> Inr qs | _ \<Rightarrow> Inl TypeError)))"

definition chat_completion_files_handler :: "('v, 'd :: linorder, 'x) chat_env \<Rightarrow> user \<Rightarrow> dict \<Rightarrow> (chat_state, dict list) partial_action" where
  "chat_completion_files_handler env u body =
     then_do (ended (lifted (attached_files body))) (\<lambda>v.
       if \<not> truthy v then ended (pure [])
       else
         then_do (ended (lifted (iterate v))) (\<lambda>files.
         then_do (ended (lifted (all_full files))) (\<lambda>full.
         then_do (ended (choose_queries env u full body)) (\<lambda>queries.
         then_do (find_sources env u full queries files) (\<lambda>sources.
         then_do (ended (lifted (sources_count sources))) (\<lambda>n.
           ended (next_do (announce ''status'' [(''action'', JStr ''sources_retrieved''), (''count'', JInt (int n)), (''done'', JBool True)]) (\<lambda>_.
             pure sources))))))))"

section \<open>Tools called through a prompt\<close>

definition history_text :: "dict \<Rightarrow> py_error + string" where
  "history_text m =
     (case dget m ''role'' of
        None \<Rightarrow> Inl KeyError
      | Some (JStr r) \<Rightarrow>
          and_then (get_content_from_message m) (\<lambda>c.
            Inr (concat (map upper_char r) @ '': '' @ replicate 3 (CHR 0x22) @ py_str c @ replicate 3 (CHR 0x22)))
      | Some _ \<Rightarrow> Inl AttributeError)"

text \<open>The prompt shows the last four messages and the query, which is not repeated among them.\<close>

definition get_tools_function_calling_payload :: "dict list \<Rightarrow> id \<Rightarrow> string \<Rightarrow> py_error + dict" where
  "get_tools_function_calling_payload messages task_model_id content =
     and_then (get_last_user_message messages) (\<lambda>q.
     and_then
       (if truthy q \<and> messages \<noteq> [] then
          (case dget (last messages) ''role'' of
             None \<Rightarrow> Inl KeyError | Some r \<Rightarrow> Inr (if r = JStr ''user'' then butlast messages else messages))
        else Inr messages) (\<lambda>ms.
     and_then (each history_text (last_items 4 ms)) (\<lambda>ls.
       let history = join nl ls;
           prompt = (if history \<noteq> [] then ''History:'' @ nl @ history @ nl @ ''Query: '' @ py_str q else ''Query: '' @ py_str q)
       in Inr [(''model'', JStr task_model_id),
               (''messages'', JList [JDict [(''role'', JStr ''system''), (''content'', JStr content)],
                  JDict [(''role'', JStr ''user''), (''content'', JStr prompt)]]),
               (''stream'', JBool False), (''metadata'', JDict [(''task'', JStr ''function_calling'')])])))"

type_synonym toolset = "(string \<times> payload_tool) list"

definition tool_source :: "payload_tool \<Rightarrow> string \<Rightarrow> json \<Rightarrow> json \<Rightarrow> dict" where
  "tool_source t name v params =
     (let full = (if pt_tool_id t \<noteq> [] then pt_tool_id t @ ''/'' @ name else name)
      in [(''source'', JDict [(''name'', JStr full)]), (''document'', JList [JStr (py_str v)]),
          (''metadata'', JList [JDict [(''source'', JStr full), (''parameters'', params)]]), (''tool_result'', JBool True)])"

text \<open>One call: its sources and whether the tool handles the files itself. A call of an unknown tool does nothing.\<close>

definition prompted_call :: "('v, 'd, 'x) chat_env \<Rightarrow> toolset \<Rightarrow> json \<Rightarrow> (dict list \<times> bool) chat_action" where
  "prompted_call env tools call =
     next_do (lifted (item_or call ''name'' JNull)) (\<lambda>name.
     next_do (lifted (if hashable name then Inr () else Inl TypeError)) (\<lambda>_.
       case (case name of JStr n \<Rightarrow> map_option (Pair n) (map_of tools n) | _ \<Rightarrow> None) of
         None \<Rightarrow> pure ([], False)
       | Some (n, t) \<Rightarrow>
           next_do (lifted (item_or call ''parameters'' (JDict []))) (\<lambda>params.
           let used = (case allowed_params (tl_spec t) params of Inl e \<Rightarrow> params | Inr d \<Rightarrow> JDict d)
           in next_do (lifted (process_tool_result (se_floats (re_stream (cv_round env))) (re_media (cv_round env)) n
                  (run_tool (cv_round env) (tool.truncate t) params) (tl_type t) (tl_direct t))) (\<lambda>(v, files, embeds).
              next_do (only_if (files \<noteq> []) (announce ''files'' [(''files'', JList files)])) (\<lambda>_.
              next_do (only_if (embeds \<noteq> []) (announce ''embeds'' [(''embeds'', JList embeds)])) (\<lambda>_.
                pure (if truthy v then ([tool_source t n v used], pt_file_handler t) else ([], False))))))))"

text \<open>The calls in order; what the calls before a failing one gave is kept.\<close>

fun prompted_calls :: "('v, 'd, 'x) chat_env \<Rightarrow> toolset \<Rightarrow> json list \<Rightarrow> (dict list \<times> bool) chat_action" where
  "prompted_calls env tools [] = pure ([], False)"
| "prompted_calls env tools (c # cs) =
     trying
       (next_do (prompted_call env tools c) (\<lambda>(ss, skip).
        next_do (prompted_calls env tools cs) (\<lambda>(ss', skip'). pure (ss @ ss', skip \<or> skip'))))
       (pure ([], False))"

definition wanted_calls :: "floats \<Rightarrow> string \<Rightarrow> py_error + json list" where
  "wanted_calls fs content =
     (if braced content = [] then Inl ValueError
      else (case loads (fl_json fs) (braced content) of
          None \<Rightarrow> Inl ValueError
        | Some v \<Rightarrow> and_then (item_or v ''tool_calls'' JNull) (\<lambda>cs. if truthy cs then iterate cs else Inr [v])))"

definition drop_files :: "dict \<Rightarrow> dict" where
  "drop_files body = (case dget body ''metadata'' of
     Some (JDict md) \<Rightarrow> dset ''metadata'' (JDict (dpop ''files'' md)) body | _ \<Rightarrow> body)"

definition tools_prompt :: "('v, 'd, 'x) chat_env \<Rightarrow> toolset \<Rightarrow> string" where
  "tools_prompt env tools =
     tools_function_calling_generation_template
       (template_or (tc_tools_template (cv_settings env)) (cc_tools_default (cv_conf env)))
       (dumps (JList (map (\<lambda>(n, t). JDict (tl_spec t)) tools)))"

definition chat_completion_tools_handler ::
  "('v, 'd, 'x) chat_env \<Rightarrow> toolset \<Rightarrow> (id \<times> dict) list \<Rightarrow> dict \<Rightarrow> (dict \<times> dict list) chat_action" where
  "chat_completion_tools_handler env tools models body =
     next_do (lifted (and_then (form_item body ''model'') (\<lambda>m. case m of
         JStr i \<Rightarrow> get_task_model_id i (tc_task_model (cv_settings env)) (tc_task_model_external (cv_settings env)) models
       | _ \<Rightarrow> Inl KeyError))) (\<lambda>task_model_id.
     next_do (lifted (and_then (the_messages body) (\<lambda>ms.
         get_tools_function_calling_payload ms task_model_id (tools_prompt env tools)))) (\<lambda>payload.
       case and_then (cv_ask env payload) answer_content of
         Inl e \<Rightarrow> pure (body, [])
       | Inr (JStr content) \<Rightarrow>
           (case wanted_calls (se_floats (re_stream (cv_round env))) content of
              Inl e \<Rightarrow> pure (body, [])
            | Inr calls \<Rightarrow>
                next_do (prompted_calls env tools calls) (\<lambda>(ss, skip). pure (if skip then drop_files body else body, ss)))
       | Inr _ \<Rightarrow> pure (body, [])))"

end
