(* ===== verification/Chat_Payload.thy ===== *)
theory Chat_Payload
  imports Chat_Services
begin

text \<open>
  \<open>process_chat_payload\<close> of \<^verbatim>\<open>utils/middleware.py\<close>: from the form of the client to the request that goes to the
  model. The steps run in the order of the code: parameters, prompts of controls and folder, knowledge of the model,
  pipelines and filters, features, files, tools, sources, context. The tools of the server, the connections to tool
  servers and their calls are the record \<open>server_env\<close>.
\<close>

section \<open>Prompts, folder and knowledge\<close>

text \<open>The system prompt of the request with its variables replaced; where that fails it stays as it is.\<close>

definition with_controls :: "('v, 'd, 'x) chat_env \<Rightarrow> user \<Rightarrow> dict \<Rightarrow> dict \<Rightarrow> py_error + dict" where
  "with_controls env u metadata form =
     and_then (messages_of (dget_or form ''messages'' (JList []))) (\<lambda>ms.
     and_then (get_system_message ms) (\<lambda>found. case found of
       None \<Rightarrow> Inr form
     | Some m \<Rightarrow>
         (case dget_or m ''content'' JNull of
            JStr s \<Rightarrow>
              (case apply_system_prompt_to_body (cv_clock env) (Some s) form (Some metadata) (Some u) True of
                 Inl e \<Rightarrow> Inr form | Inr form' \<Rightarrow> Inr form')
          | _ \<Rightarrow> Inr form)))"

definition folder_data :: "('v, 'd, 'x) chat_env \<Rightarrow> user \<Rightarrow> chat_db \<Rightarrow> dict \<Rightarrow> dict" where
  "folder_data env u db metadata = (case dget_or metadata ''chat_id'' JNull of
     JStr i \<Rightarrow>
       if i = [] then []
       else (case Option.bind (get_chat_by_id_and_user_id i (u_id u) db) cht_folder_id of
         None \<Rightarrow> []
       | Some f \<Rightarrow>
           if f = [] then []
           else (case Option.bind (get_folder_by_id_and_user_id f (u_id u) (cv_folders env)) fld_data of None \<Rightarrow> [] | Some d \<Rightarrow> d))
   | _ \<Rightarrow> [])"

text \<open>A chat in a folder takes over the system prompt and the files of the folder.\<close>

definition with_folder :: "('v, 'd, 'x) chat_env \<Rightarrow> user \<Rightarrow> chat_db \<Rightarrow> dict \<Rightarrow> dict \<Rightarrow> py_error + dict" where
  "with_folder env u db metadata form =
     (let d = folder_data env u db metadata in
      and_then
        (case dget_or d ''system_prompt'' JNull of
           JStr s \<Rightarrow> apply_system_prompt_to_body (cv_clock env) (Some s) form (Some metadata) (Some u) False
         | v \<Rightarrow> if truthy v then Inl TypeError else Inr form) (\<lambda>form1.
        case dget d ''files'' of None \<Rightarrow> Inr form1 | Some fs \<Rightarrow> prepend_files fs form1))"

definition model_knowledge :: "dict \<Rightarrow> py_error + json" where
  "model_knowledge model =
     and_then (item_or (dget_or model ''info'' (JDict [])) ''meta'' (JDict [])) (\<lambda>meta. item_or meta ''knowledge'' (JBool False))"

definition knowledge_status :: "json \<Rightarrow> dict \<Rightarrow> unit chat_action" where
  "knowledge_status message d = announce ''status'' ([(''action'', JStr ''knowledge_search''), (''query'', message)] @ d)"

definition with_knowledge :: "json \<Rightarrow> json \<Rightarrow> dict \<Rightarrow> dict chat_action" where
  "with_knowledge knowledge message form =
     (if \<not> truthy knowledge then pure form
      else
        next_do (knowledge_status message [(''done'', JBool False)]) (\<lambda>_.
        lifted (and_then (iterate knowledge) (\<lambda>items.
                and_then (each attached_knowledge items) (\<lambda>fs. extend_files fs form)))))"

section \<open>Filters and features\<close>

definition on_plugins :: "'a plugin_action \<Rightarrow> 'a chat_action" where
  "on_plugins m s = (case m (ct_plugins s) of (r, p) \<Rightarrow> (r, s\<lparr>ct_plugins := p\<rparr>))"

definition as_dict :: "json \<Rightarrow> py_error + dict" where
  "as_dict v = (case v of JDict d \<Rightarrow> Inr d | _ \<Rightarrow> Inl AttributeError)"

text \<open>The ids of the filters switched on for the request; other values in the list select nothing.\<close>

definition enabled_filters :: "dict \<Rightarrow> id list" where
  "enabled_filters metadata = (case dget_or metadata ''filter_ids'' (JList []) of
     JList vs \<Rightarrow> List.map_filter (\<lambda>v. case v of JStr s \<Rightarrow> Some s | _ \<Rightarrow> None) vs | _ \<Rightarrow> [])"

definition inlet_filters :: "('v, 'd, 'x) chat_env \<Rightarrow> time \<Rightarrow> dict \<Rightarrow> dict \<Rightarrow> json \<Rightarrow> json chat_action" where
  "inlet_filters env now model metadata form =
     on_plugins
       (next_do (get_sorted_filter_ids (cv_plugin env) now (cv_listed env) model (enabled_filters metadata)) (\<lambda>is.
        reading (\<lambda>s. process_filter_functions (cv_plugin env) now ''inlet'' (List.map_filter (\<lambda>i. get_function_by_id i (ps_funcs s)) is) form)))"

definition feature_on :: "json \<Rightarrow> string \<Rightarrow> py_error + bool" where
  "feature_on features k =
     and_then (has_key features k) (\<lambda>b. if b then and_then (item_get features k) (\<lambda>v. Inr (truthy v)) else Inr False)"

definition with_feature ::
  "json \<Rightarrow> string \<Rightarrow> (dict \<Rightarrow> (chat_state, dict) partial_action) \<Rightarrow> dict \<Rightarrow> (chat_state, dict) partial_action" where
  "with_feature features k f form = then_do (ended (lifted (feature_on features k))) (\<lambda>on. if on then f form else ended (pure form))"

definition voice_mode :: "('v, 'd, 'x) chat_env \<Rightarrow> dict \<Rightarrow> py_error + dict" where
  "voice_mode env form = (case tc_voice_template (cv_settings env) of
     None \<Rightarrow> Inr form
   | Some t \<Rightarrow> with_system_message (template_or t (cc_voice_default (cv_conf env))) False form)"

definition code_mode :: "('v, 'd, 'x) chat_env \<Rightarrow> dict \<Rightarrow> py_error + dict" where
  "code_mode env form =
     with_user_message (template_or (cc_code_template (cv_conf env)) (cc_code_default (cv_conf env))) True form"

definition with_features :: "('v, 'd, 'x) chat_env \<Rightarrow> user \<Rightarrow> dict \<Rightarrow> json \<Rightarrow> dict \<Rightarrow> (chat_state, dict) partial_action" where
  "with_features env u metadata features form =
     (if \<not> truthy features then ended (pure form)
      else
        then_do (with_feature features ''voice'' (\<lambda>f. ended (lifted (voice_mode env f))) form) (\<lambda>form1.
        then_do (with_feature features ''memory'' (\<lambda>f. ended (lifted (chat_memory_handler env u f))) form1) (\<lambda>form2.
        then_do (with_feature features ''web_search'' (\<lambda>f. ended (chat_web_search_handler env u f)) form2) (\<lambda>form3.
        then_do (with_feature features ''image_generation'' (chat_image_generation_handler env u metadata) form3) (\<lambda>form4.
          with_feature features ''code_interpreter'' (\<lambda>f. ended (lifted (code_mode env f))) form4)))))"

section \<open>Files and tools\<close>

definition gather_files :: "('v, 'd, 'x) chat_env \<Rightarrow> user \<Rightarrow> json \<Rightarrow> py_error + json" where
  "gather_files env u files =
     (if \<not> truthy files then Inr files
      else
        and_then (iterate files) (\<lambda>fs.
        and_then (expand_folders (\<lambda>i. get_folder_by_id_and_user_id i (u_id u) (cv_folders env)) fs fs) (\<lambda>all.
          Inr (JList (unique_files all)))))"

record server_env =
  tv_server_tools :: "json list \<Rightarrow> dict \<Rightarrow> py_error + toolset"
  tv_connections :: "dict list"
  tv_session :: string
  tv_oauth :: "dict option"
  tv_token :: "string \<Rightarrow> dict option"
  tv_connect :: "json \<Rightarrow> dict \<Rightarrow> py_error + dict list"
  tv_call :: "string \<Rightarrow> json \<Rightarrow> dict \<Rightarrow> string + tool_answer"
  tv_direct_call :: "dict \<Rightarrow> dict \<Rightarrow> dict \<Rightarrow> string + tool_answer"

text \<open>The connection of a server of the model context protocol, and the headers it is called with.\<close>

definition connection_is :: "string \<Rightarrow> dict \<Rightarrow> py_error + bool" where
  "connection_is server_id c =
     (if dget_or c ''type'' (JStr []) \<noteq> JStr ''mcp'' then Inr False
      else and_then (item_or (dget_or c ''info'' (JDict [])) ''id'' JNull) (\<lambda>i. Inr (i = JStr server_id)))"

fun find_connection :: "string \<Rightarrow> dict list \<Rightarrow> py_error + dict option" where
  "find_connection server_id [] = Inr None"
| "find_connection server_id (c # cs) =
     and_then (connection_is server_id c) (\<lambda>b. if b then Inr (Some c) else find_connection server_id cs)"

definition bearer :: "string \<Rightarrow> dict" where "bearer t = [(''Authorization'', JStr (''Bearer '' @ t))]"

definition bearer_of :: "dict option \<Rightarrow> dict" where
  "bearer_of token = (case token of
     None \<Rightarrow> [] | Some d \<Rightarrow> if d = [] then [] else bearer (py_str (dget_or d ''access_token'' (JStr []))))"

definition auth_headers :: "server_env \<Rightarrow> string \<Rightarrow> dict \<Rightarrow> string \<times> dict" where
  "auth_headers te server_id c =
     (let kind = dget_or c ''auth_type'' (JStr []) in
      if kind = JStr ''bearer'' then (server_id, bearer (py_str (dget_or c ''key'' (JStr []))))
      else if kind = JStr ''session'' then (server_id, bearer (tv_session te))
      else if kind = JStr ''system_oauth'' then (server_id, bearer_of (tv_oauth te))
      else if kind = JStr ''oauth_2.1'' then
        (let i = last (split_on (CHR '':'') server_id) in (i, bearer_of (tv_token te (''mcp:'' @ i))))
      else (server_id, []))"

definition connection_headers :: "dict \<Rightarrow> dict \<Rightarrow> dict" where
  "connection_headers c headers = (case dget_or c ''headers'' JNull of JDict d \<Rightarrow> dmerge headers d | _ \<Rightarrow> headers)"

definition name_filter :: "dict \<Rightarrow> py_error + string list" where
  "name_filter c =
     and_then (item_or (dget_or c ''config'' (JDict [])) ''function_name_filter_list'' (JStr [])) (\<lambda>v. case v of
       JStr s \<Rightarrow> Inr (split_on (CHR '','') s)
     | JList vs \<Rightarrow> each (\<lambda>v. case v of JStr s \<Rightarrow> Inr s | _ \<Rightarrow> Inl AttributeError) vs
     | v \<Rightarrow> if truthy v then Inl TypeError else Inr [])"

text \<open>The tools of a server that its filter allows, as far as their descriptions have names.\<close>

fun mcp_entries :: "server_env \<Rightarrow> string \<Rightarrow> string list \<Rightarrow> dict list \<Rightarrow> toolset \<times> bool" where
  "mcp_entries te server_id allowed [] = ([], True)"
| "mcp_entries te server_id allowed (spec # specs) = (case dget spec ''name'' of
     Some (JStr n) \<Rightarrow>
       (let (ts, ok) = mcp_entries te server_id allowed specs;
            name = server_id @ ''_'' @ n
        in if \<not> is_string_allowed [n] allowed then (ts, ok)
           else ((name, \<lparr>tl_spec = dset ''name'' (JStr name) spec, tl_type = ''mcp'', tl_direct = False,
              tl_call = tv_call te server_id (JStr n), pt_tool_id = [], pt_file_handler = False\<rparr>) # ts, ok))
   | _ \<Rightarrow> ([], False))"

definition connect_error :: "string \<Rightarrow> unit chat_action" where
  "connect_error server_id = announce ''chat:message:error''
     [(''error'', JDict [(''content'', JStr (''Failed to connect to MCP server '' @ [CHR 0x27] @ server_id @ [CHR 0x27]))])]"

definition mcp_server_tools :: "server_env \<Rightarrow> string \<Rightarrow> toolset chat_action" where
  "mcp_server_tools te server_id = (case find_connection server_id (tv_connections te) of
     Inl e \<Rightarrow> next_do (connect_error server_id) (\<lambda>_. pure [])
   | Inr None \<Rightarrow> pure []
   | Inr (Some c) \<Rightarrow>
       (let (i, h) = auth_headers te server_id c in
        case and_then (tv_connect te (dget_or c ''url'' (JStr [])) (connection_headers c h)) (\<lambda>specs.
             and_then (name_filter c) (\<lambda>allowed. Inr (specs, allowed))) of
          Inl e \<Rightarrow> next_do (connect_error i) (\<lambda>_. pure [])
        | Inr (specs, allowed) \<Rightarrow>
            (let (ts, ok) = mcp_entries te i allowed specs
             in next_do (only_if (\<not> ok) (connect_error i)) (\<lambda>_. pure ts))))"

fun mcp_tools :: "server_env \<Rightarrow> json list \<Rightarrow> toolset chat_action" where
  "mcp_tools te [] = pure []"
| "mcp_tools te (v # vs) = (case v of
     JStr s \<Rightarrow>
       next_do (if startswith s ''server:mcp:'' then mcp_server_tools te (drop 11 s) else pure []) (\<lambda>ts.
       next_do (mcp_tools te vs) (\<lambda>us. pure (ts @ us)))
   | _ \<Rightarrow> lifted (Inl AttributeError))"

text \<open>\<open>{**a, **b}\<close> for dictionaries of tools\<close>

definition merge_tools :: "toolset \<Rightarrow> toolset \<Rightarrow> toolset" where
  "merge_tools a b = foldl (\<lambda>m (k, t). AList.update k t m) a b"

definition server_tools :: "server_env \<Rightarrow> (id \<times> dict) list \<Rightarrow> id \<Rightarrow> json \<Rightarrow> dict \<Rightarrow> toolset chat_action" where
  "server_tools te models task_model_id tool_ids form =
     (if \<not> truthy tool_ids then pure []
      else
        next_do (lifted (iterate tool_ids)) (\<lambda>is.
        next_do (mcp_tools te is) (\<lambda>mcp.
        next_do (lifted (if map_of models task_model_id = None then Inl KeyError else tv_server_tools te is form)) (\<lambda>ts.
          pure (merge_tools ts (merge_tools [] mcp))))))"

text \<open>Tool servers of the client: their tools are run by the client.\<close>

definition direct_tool :: "server_env \<Rightarrow> dict \<Rightarrow> json \<Rightarrow> py_error + string \<times> payload_tool" where
  "direct_tool te server v = (case v of
     JDict spec \<Rightarrow>
       (case dget spec ''name'' of
          Some (JStr n) \<Rightarrow>
            Inr (n, \<lparr>tl_spec = spec, tl_type = [], tl_direct = True, tl_call = tv_direct_call te server spec, pt_tool_id = [], pt_file_handler = False\<rparr>)
        | Some _ \<Rightarrow> Inl TypeError
        | None \<Rightarrow> Inl KeyError)
   | _ \<Rightarrow> Inl TypeError)"

definition direct_tools :: "server_env \<Rightarrow> json \<Rightarrow> py_error + toolset" where
  "direct_tools te servers =
     (if \<not> truthy servers then Inr []
      else
        and_then (iterate servers) (\<lambda>ss.
        and_then (each (\<lambda>s. and_then (as_dict s) (\<lambda>d.
            and_then (iterate (dget_or d ''specs'' (JList []))) (each (direct_tool te (dpop ''specs'' d))))) ss) (\<lambda>tss.
          Inr (concat tss))))"

section \<open>The whole request\<close>

record chat_request =
  rq_form :: dict
  rq_tools :: toolset
  rq_sources :: "dict list"

definition native_calls :: "dict \<Rightarrow> py_error + bool" where
  "native_calls metadata =
     and_then (item_or (dget_or metadata ''params'' (JDict [])) ''function_calling'' JNull) (\<lambda>v. Inr (v = JStr ''native''))"

definition function_entry :: "string \<times> payload_tool \<Rightarrow> json" where
  "function_entry x = JDict [(''type'', JStr ''function''), (''function'', JDict (tl_spec (snd x)))]"

text \<open>The tools go to the model, or are called through a prompt first; the result is the form, the tools left, sources.\<close>

definition use_tools ::
  "('v, 'd, 'x) chat_env \<Rightarrow> (id \<times> dict) list \<Rightarrow> dict \<Rightarrow> toolset \<Rightarrow> dict \<Rightarrow> (dict \<times> toolset \<times> dict list) chat_action" where
  "use_tools env models metadata tools form =
     (if tools = [] then pure (form, [], [])
      else
        next_do (lifted (native_calls metadata)) (\<lambda>native.
        if native then pure (dset ''tools'' (JList (map function_entry tools)) form, tools, [])
        else next_do (trying (chat_completion_tools_handler env tools models form) (pure (form, []))) (\<lambda>(f, ss). pure (f, [], ss))))"

definition with_context :: "('v, 'd, 'x) chat_env \<Rightarrow> json \<Rightarrow> dict list \<Rightarrow> dict \<Rightarrow> py_error + dict" where
  "with_context env prompt sources form =
     (if sources = [] then Inr form
      else
        and_then (context_string sources) (\<lambda>context.
        if prompt = JNull then Inl ValueError
        else if context = [] then Inr form
        else (case prompt of
            JStr q \<Rightarrow>
              with_user_message
                (rag_template (cv_clock env) (cc_rag_default (cv_conf env)) (cc_uuid1 (cv_conf env)) (cc_uuid2 (cv_conf env))
                  (cc_rag_template (cv_conf env)) context q) False form
          | _ \<Rightarrow> Inl TypeError)))"

text \<open>The part in front of the filters, and the part from the files on.\<close>

definition prepared_form ::
  "('v, 'd, 'x) chat_env \<Rightarrow> user \<Rightarrow> (id \<times> dict) list \<Rightarrow> dict \<Rightarrow> dict \<Rightarrow> dict \<Rightarrow> (id \<times> json \<times> json \<times> dict) chat_action" where
  "prepared_form env u models model metadata form0 =
     next_do (lifted (apply_params_to_form_data (se_floats (re_stream (cv_round env))) form0 model)) (\<lambda>form1.
     next_do (lifted (with_controls env u metadata form1)) (\<lambda>form2.
     next_do (lifted (and_then (form_item form2 ''model'') (\<lambda>m. case m of
         JStr i \<Rightarrow> get_task_model_id i (tc_task_model (cv_settings env)) (tc_task_model_external (cv_settings env)) models
       | _ \<Rightarrow> Inl KeyError))) (\<lambda>task_model_id.
     reading (\<lambda>s.
     next_do (lifted (with_folder env u (ct_chats s) metadata form2)) (\<lambda>form3.
     next_do (lifted (and_then (the_messages form3) get_last_user_message)) (\<lambda>message.
     next_do (lifted (model_knowledge model)) (\<lambda>knowledge.
     next_do (with_knowledge knowledge message form3) (\<lambda>form4.
       pure (task_model_id, message, knowledge, dpop ''variables'' form4)))))))))"

definition filtered_form :: "('v, 'd, 'x) chat_env \<Rightarrow> user \<Rightarrow> time \<Rightarrow> (id \<times> dict) list \<Rightarrow> dict \<Rightarrow> dict \<Rightarrow> dict \<Rightarrow> dict chat_action" where
  "filtered_form env u now models model metadata form =
     next_do (lifted (process_pipeline_inlet_filter (cv_pipeline env) u models form)) (\<lambda>v.
     next_do (inlet_filters env now model metadata v) (\<lambda>w. lifted (as_dict w)))"

definition finished_request ::
  "('v, 'd :: linorder, 'x) chat_env \<Rightarrow> server_env \<Rightarrow> user \<Rightarrow> (id \<times> dict) list \<Rightarrow> id \<Rightarrow> dict \<Rightarrow> dict \<Rightarrow> (chat_state, chat_request) partial_action" where
  "finished_request env te u models task_model_id metadata0 form0 =
     (let tool_ids = dget_or form0 ''tool_ids'' JNull; form1 = dpop ''files'' (dpop ''tool_ids'' form0) in
      then_do (ended (lifted (and_then (the_messages form1) get_last_user_message))) (\<lambda>prompt.
      then_do (ended (lifted (gather_files env u (dget_or form0 ''files'' JNull)))) (\<lambda>files.
      let metadata = dmerge metadata0 [(''tool_ids'', tool_ids), (''files'', files)];
          form2 = dset ''metadata'' (JDict metadata) form1 in
      then_do (ended (server_tools te models task_model_id tool_ids form2)) (\<lambda>server.
      then_do (ended (lifted (direct_tools te (dget_or metadata ''tool_servers'' JNull)))) (\<lambda>direct.
      then_do (ended (use_tools env models metadata (merge_tools server direct) form2)) (\<lambda>(form3, tools, called).
      then_do (or_else (chat_completion_files_handler env u form3) (ended (pure []))) (\<lambda>found.
      then_do (ended (lifted (with_context env prompt (called @ found) form3))) (\<lambda>form4.
      then_do (ended (lifted (shown_sources (called @ found)))) (\<lambda>shown.
        ended (pure \<lparr>rq_form = form4, rq_tools = tools, rq_sources = shown\<rparr>))))))))))"

definition process_chat_payload ::
  "('v, 'd :: linorder, 'x) chat_env \<Rightarrow> server_env \<Rightarrow> user \<Rightarrow> time \<Rightarrow> (id \<times> dict) list \<Rightarrow> dict \<Rightarrow> dict \<Rightarrow> dict \<Rightarrow> (chat_state, chat_request) partial_action" where
  "process_chat_payload env te u now models model metadata form0 =
     then_do (ended (prepared_form env u models model metadata form0)) (\<lambda>(task_model_id, message, knowledge, form1).
     then_do (ended (filtered_form env u now models model metadata form1)) (\<lambda>form2.
     then_do (with_features env u metadata (dget_or form2 ''features'' JNull) (dpop ''features'' form2)) (\<lambda>form3.
     then_do (finished_request env te u models task_model_id metadata form3) (\<lambda>r.
     then_do (ended (only_if (truthy knowledge) (knowledge_status message [(''done'', JBool True), (''hidden'', JBool True)]))) (\<lambda>_.
       ended (pure r))))))"

section \<open>Chats stay as they are until sources are looked up\<close>

definition same_chats :: "chat_db \<Rightarrow> chat_state \<Rightarrow> bool" where "same_chats db s \<longleftrightarrow> ct_chats s = db"

named_theorems chats_kept \<open>actions that leave the chats as they are\<close>

lemma announce_keeps [chats_kept]: "keeps (same_chats db) (announce k d)" "keeps (same_chats db) (search_status t d)"
  "keeps (same_chats db) (search_failed q)" "keeps (same_chats db) (knowledge_status m d)" "keeps (same_chats db) (connect_error i)"
  by (simp_all add: announce_def search_status_def search_failed_def knowledge_status_def connect_error_def keeps_def same_chats_def)

lemma on_plugins_keeps [chats_kept]: "keeps (same_chats db) (on_plugins m)"
  by (simp add: keeps_def on_plugins_def same_chats_def split: prod.splits)

lemma ask_queries_keeps [chats_kept]: "keeps (same_chats db) (ask_queries env u form)"
  by (simp add: ask_queries_def keeps_reading)

lemma cache_keeps [chats_kept]: "keeps (same_chats db) (changing (\<lambda>s. s\<lparr>ct_cached := q\<rparr>))"
  by (simp add: keeps_def same_chats_def)

lemma case_sum_keeps [chats_kept]:
  "(\<And>e. keeps P (f e)) \<Longrightarrow> (\<And>x. keeps P (g x)) \<Longrightarrow> keeps P (case r of Inl e \<Rightarrow> f e | Inr x \<Rightarrow> g x)"
  by (cases r) auto

lemma case_prod_keeps [chats_kept]: "(\<And>x y. keeps P (f x y)) \<Longrightarrow> keeps P (case p of (x, y) \<Rightarrow> f x y)"
  by (cases p) auto

lemma case_json_keeps [chats_kept]:
  "(\<And>t. keeps P (f t)) \<Longrightarrow> keeps P m \<Longrightarrow>
     keeps P (case v of JNull \<Rightarrow> m | JBool b \<Rightarrow> m | JInt i \<Rightarrow> m | JFloat r \<Rightarrow> m | JStr t \<Rightarrow> f t | JList xs \<Rightarrow> m | JDict d \<Rightarrow> m)"
  by (cases v) auto

lemma search_web_keeps [chats_kept]: "keeps (same_chats db) (search_web env q form)"
  unfolding search_web_def by (intro chats_kept keeping)

lemma web_answer_keeps [chats_kept]: "keeps (same_chats db) (web_answer env u m form)"
  unfolding web_answer_def Let_def by (intro chats_kept keeping)

lemma web_search_keeps [chats_kept]: "keeps (same_chats db) (chat_web_search_handler env u form)"
  unfolding chat_web_search_handler_def Let_def by (intro chats_kept keeping)

lemma show_images_keeps [chats_kept]: "keeps (same_chats db) (show_images edited r)"
  unfolding show_images_def by (intro chats_kept keeping)

lemma image_request_keeps [chats_kept]: "keeps (same_chats db) (image_request env u form ms)"
  unfolding image_request_def by (intro chats_kept keeping)

lemma file_answer_keeps [chats_kept]: "keeps (same_chats db) (file_answer env u body)"
  unfolding file_answer_def by (intro chats_kept keeping)

lemma choose_queries_keeps [chats_kept]: "keeps (same_chats db) (choose_queries env u full body)"
  unfolding choose_queries_def by (intro chats_kept keeping)

lemma prompted_call_keeps [chats_kept]: "keeps (same_chats db) (prompted_call env tools c)"
  unfolding prompted_call_def Let_def by (intro chats_kept keeping)

lemma prompted_calls_keep [chats_kept]: "keeps (same_chats db) (prompted_calls env tools cs)"
proof (induction cs)
  case (Cons c cs)
  then show ?case by (auto intro!: chats_kept keeping)
qed (simp add: keeps_def)

lemma tools_handler_keeps [chats_kept]: "keeps (same_chats db) (chat_completion_tools_handler env tools models body)"
  unfolding chat_completion_tools_handler_def by (intro chats_kept keeping)

lemma use_tools_keeps [chats_kept]: "keeps (same_chats db) (use_tools env models metadata tools form)"
  unfolding use_tools_def by (intro chats_kept keeping)

lemma mcp_tools_keep [chats_kept]: "keeps (same_chats db) (mcp_tools te vs)"
proof (induction vs)
  case (Cons v vs)
  have "keeps (same_chats db) (mcp_server_tools te i)" for i
    unfolding mcp_server_tools_def Let_def by (auto intro!: chats_kept keeping split: sum.split option.split prod.split)
  then show ?case using Cons by (auto intro!: chats_kept keeping)
qed (simp add: keeps_def)

lemma server_tools_keep [chats_kept]: "keeps (same_chats db) (server_tools te models i ids form)"
  unfolding server_tools_def by (intro chats_kept keeping)

lemma prepared_form_keeps [chats_kept]: "keeps (same_chats db) (prepared_form env u models model metadata form)"
  unfolding prepared_form_def with_knowledge_def by (intro chats_kept keeping)

lemma filtered_form_keeps [chats_kept]: "keeps (same_chats db) (filtered_form env u now models model metadata form)"
  unfolding filtered_form_def inlet_filters_def by (intro chats_kept keeping)

lemma image_messages_maintain: "maintains (same_chats db) (image_message_list u i form)"
  unfolding image_message_list_def
  by (auto simp: maintains_def then_do_def announce_def same_chats_def Let_def split: if_splits option.splits)

lemma image_handler_maintains: "maintains (same_chats db) (chat_image_generation_handler env u metadata form)"
  unfolding chat_image_generation_handler_def
  by (auto intro!: maintains_ended maintains_then image_messages_maintain chats_kept keeping split: json.split)

lemma features_maintain: "maintains (same_chats db) (with_features env u metadata features form)"
  unfolding with_features_def with_feature_def
  by (auto intro!: maintains_ended maintains_then image_handler_maintains chats_kept keeping)

section \<open>Where the sources of a request come from\<close>

definition from_tool :: "dict \<Rightarrow> bool" where "from_tool src \<longleftrightarrow> dget src ''tool_result'' = Some (JBool True)"

lemma prompted_call_sources: "yields (\<lambda>x. list_all from_tool (fst x)) (prompted_call env tools c)"
  unfolding prompted_call_def Let_def
  by (intro yielding) (auto simp: tool_source_def from_tool_def Let_def)

lemma prompted_calls_sources: "yields (\<lambda>x. list_all from_tool (fst x)) (prompted_calls env tools cs)"
proof (induction cs)
  case (Cons c cs)
  have "yields (\<lambda>x. list_all from_tool (fst x))
      (next_do (prompted_calls env tools cs) (\<lambda>(ss', skip'). pure (ss @ ss', skip \<or> skip')))" if "list_all from_tool ss" for ss skip
    by (rule yields_with[OF Cons]) (use that in \<open>auto simp: yields_def\<close>)
  then have "yields (\<lambda>x. list_all from_tool (fst x))
      (next_do (prompted_call env tools c) (\<lambda>(ss, skip).
        next_do (prompted_calls env tools cs) (\<lambda>(ss', skip'). pure (ss @ ss', skip \<or> skip'))))"
    by (intro yields_with[OF prompted_call_sources]) auto
  moreover have "yields (\<lambda>x. list_all from_tool (fst x)) (pure ([], False))" by (simp add: yields_def)
  ultimately show ?case unfolding prompted_calls.simps by (rule yields_trying)
qed (simp add: yields_def)

lemma tools_handler_sources: "yields (\<lambda>x. list_all from_tool (snd x)) (chat_completion_tools_handler env tools models body)"
proof -
  define run where "run = (\<lambda>calls. next_do (prompted_calls env tools calls) (\<lambda>(ss, skip). pure (if skip then drop_files body else body, ss)))"
  have "yields (\<lambda>x. list_all from_tool (snd x)) (run calls)" for calls
    unfolding run_def by (rule yields_with[OF prompted_calls_sources]) (auto simp: yields_def)
  moreover have "yields (\<lambda>x. list_all from_tool (snd x)) (pure (body, []))" by (simp add: yields_def)
  ultimately show ?thesis
    unfolding chat_completion_tools_handler_def run_def[symmetric] by (intro yields_next yields_cases yields_json)
qed

lemma use_tools_sources: "yields (\<lambda>x. list_all from_tool (snd (snd x))) (use_tools env models metadata tools form)"
proof -
  define run where "run = next_do (trying (chat_completion_tools_handler env tools models form) (pure (form, []))) (\<lambda>(f, ss). pure (f, [] :: toolset, ss))"
  have "yields (\<lambda>x. list_all from_tool (snd x)) (trying (chat_completion_tools_handler env tools models form) (pure (form, [])))"
    by (rule yields_trying[OF tools_handler_sources]) (simp add: yields_def)
  then have "yields (\<lambda>x. list_all from_tool (snd (snd x))) run"
    unfolding run_def by (rule yields_with) (auto simp: yields_def)
  moreover have "yields (\<lambda>x. list_all from_tool (snd (snd x))) (pure (f, ts, []))" for f :: dict and ts :: toolset
    by (simp add: yields_def)
  ultimately show ?thesis unfolding use_tools_def run_def[symmetric] by (intro yields_next yields_cases)
qed

lemma files_handler_sources:
  assumes "chat_completion_files_handler env u body s = Some (Inr ss, s')" "src \<in> set ss"
  shows "\<exists>d. dget src ''source'' = Some (JDict d) \<and>
    readable_item u (cv_groups env) (cv_notes env) (cv_library env) (ct_chats s) d"
proof -
  have "truthy v" if "attached_files body = Inr v" for v
    using assms that by (cases "truthy v") (auto simp: chat_completion_files_handler_def)
  then obtain full queries files t t' where q: "choose_queries env u full body s = (Inr queries, t)"
    and f: "find_sources env u full queries files t = Some (Inr ss, t')"
    using assms(1) by (auto simp: chat_completion_files_handler_def then_do_Inr action_Inr lifted_Inr split: if_splits)
  have c: "ct_chats t = ct_chats s"
    using keepsD[OF choose_queries_keeps, of "ct_chats s" s env u full body] q by (simp add: same_chats_def)
  obtain items db where "get_sources_from_items (cv_vector env) ((cv_search env)\<lparr>sf_full := full \<or> sf_full (cv_search env)\<rparr>) u (cv_groups env)
      (cv_notes env) (cv_library env) queries [] items (ct_chats t) = Some (Inr ss, db)"
    using f assms(2) by (auto simp: find_sources_def split: option.splits sum.splits prod.splits if_splits)
  from item_of_source[OF this assms(2)] obtain item where
    "dget src ''source'' = Some (JDict (dpop ''data'' item))" "readable_item u (cv_groups env) (cv_notes env) (cv_library env) (ct_chats t) item"
    by blast
  moreover have "readable_item u (cv_groups env) (cv_notes env) (cv_library env) (ct_chats t) (dpop ''data'' item) =
      readable_item u (cv_groups env) (cv_notes env) (cv_library env) (ct_chats t) item"
    by (simp add: readable_item_def row_of_def)
  ultimately show ?thesis by (auto simp: c)
qed

lemma shown_sources_subset: "shown_sources ss = Inr xs \<Longrightarrow> set xs \<subseteq> set ss"
  by (auto simp: shown_sources_def dest!: filter_raising_InrD)

lemma finished_request_sources:
  assumes "finished_request env te u models i metadata form s = Some (Inr r, s')" "src \<in> set (rq_sources r)"
  shows "from_tool src \<or> (\<exists>d. dget src ''source'' = Some (JDict d) \<and>
    readable_item u (cv_groups env) (cv_notes env) (cv_library env) (ct_chats s) d)"
proof -
  obtain form3 ts called found t1 t2 t3 ids f2 md tls where
      sv: "server_tools te models i ids f2 s = (Inr tls, t1)" and
      us: "use_tools env models md ts f2 t1 = (Inr (form3, rq_tools r, called), t2)" and
      fo: "or_else (chat_completion_files_handler env u form3) (ended (pure [])) t2 = Some (Inr found, t3)" and
      sh: "shown_sources (called @ found) = Inr (rq_sources r)"
    using assms(1) by (auto simp: finished_request_def then_do_Inr Let_def)
  have c: "ct_chats t2 = ct_chats s"
    using keepsD[OF server_tools_keep, of "ct_chats s" s te models i ids f2] sv
      keepsD[OF use_tools_keeps, of "ct_chats t1" t1 env models md ts f2] us by (simp add: same_chats_def)
  have "src \<in> set called \<or> src \<in> set found" using shown_sources_subset[OF sh] assms(2) by auto
  then show ?thesis
  proof
    assume "src \<in> set called"
    then show ?thesis using yieldsD[OF use_tools_sources us] by (auto simp: list_all_iff)
  next
    assume s: "src \<in> set found"
    then have "chat_completion_files_handler env u form3 t2 = Some (Inr found, t3)"
      using fo by (auto simp: or_else_def split: option.splits prod.splits sum.splits)
    from files_handler_sources[OF this s] show ?thesis by (simp add: c)
  qed
qed

text \<open>
  C6: A source of a request that is not the result of a tool comes from an item, and when the item is a note, a
  knowledge base or a chat, that row exists and the user may read it: as an administrator or its owner, or, for notes
  and bases, because its access control lets them read. This holds whichever of the client, the folder of the chat, the
  model or a web search attached the item. The other items are not checked by the code: the id of a stored file and the
  name of a vector collection, also one listed in a collection item marked as legacy, give their text to everybody
  (\<open>any_file_read\<close>, \<open>any_collection_searched\<close>, \<open>legacy_names_searched\<close>).
\<close>

theorem guarded_sources_readable:
  assumes "process_chat_payload env te u now models model metadata form s = Some (Inr r, s')" "src \<in> set (rq_sources r)"
  shows "from_tool src \<or> (\<exists>d. dget src ''source'' = Some (JDict d) \<and>
    readable_item u (cv_groups env) (cv_notes env) (cv_library env) (ct_chats s) d)"
proof -
  obtain i m k f1 t1 f2 t2 f3 t3 t4 where
      p: "prepared_form env u models model metadata form s = (Inr (i, m, k, f1), t1)" and
      f: "filtered_form env u now models model metadata f1 t1 = (Inr f2, t2)" and
      w: "with_features env u metadata (dget_or f2 ''features'' JNull) (dpop ''features'' f2) t2 = Some (Inr f3, t3)" and
      r: "finished_request env te u models i metadata f3 t3 = Some (Inr r, t4)"
    using assms(1) by (auto simp: process_chat_payload_def then_do_Inr)
  have "ct_chats t3 = ct_chats s"
    using keepsD[OF prepared_form_keeps, of "ct_chats s" s env u models model metadata form] p
      keepsD[OF filtered_form_keeps, of "ct_chats t1" t1 env u now models model metadata f1] f
      maintainsD[OF features_maintain _ w, of "ct_chats t2"] by (simp add: same_chats_def)
  then show ?thesis using finished_request_sources[OF r assms(2)] by simp
qed

text \<open>A request with a chat of somebody else and a text attached; only the text becomes a source.\<close>

definition noon :: datetime where
  "noon = \<lparr>dt_year = 2025, dt_month = 1, dt_day = 2, dt_hour = 12, dt_minute = 0, dt_second = 0\<rparr>"

definition small_env :: "(nat, int, unit) chat_env" where
  "small_env = \<lparr>cv_conf = \<lparr>cc_query_cache = False, cc_image_edit = False, cc_image_prompt = False, cc_rag_template = ''[context] [query]'',
       cc_rag_default = [], cc_voice_default = [], cc_code_template = [], cc_code_default = [], cc_tools_default = [],
       cc_uuid1 = ''u1'', cc_uuid2 = ''u2''\<rparr>,
     cv_clock = (noon, noon), cv_settings = some_settings,
     cv_task = \<lparr>te_models = [(''big'', [])], te_direct = None, te_metadata = [], te_cached = JNull\<rparr>,
     cv_ask = (\<lambda>p. Inl ValueError), cv_vector = quiet_env, cv_search = plain_search, cv_groups = sample_groups,
     cv_notes = sample_notes, cv_library = sample_library, cv_folders = [],
     cv_memory = \<lparr>mv_embed = (\<lambda>t. Inr 0), mv_upsert = (\<lambda>c es x. (Inr (), x)), mv_delete = (\<lambda>c i x. (Inr (), x)),
       mv_drop = (\<lambda>c x. (Inr (), x)), mv_search = (\<lambda>c v k x. Inr None)\<rparr>,
     cv_memories = \<lparr>mt_rows = [], mt_index = ()\<rparr>, cv_date = (\<lambda>v. Inr []), cv_web = (\<lambda>qs. Inr []),
     cv_create = (\<lambda>p. Inl []), cv_edit = (\<lambda>p us. Inl []),
     cv_pipeline = \<lparr>py_urls = [], py_keys = [], py_post = (\<lambda>u k v. No_reply), py_int_of = (\<lambda>v. None)\<rparr>,
     cv_plugin = \<lparr>pe_exec = (\<lambda>s. Inl ValueError), pe_install = (\<lambda>s. Inr ())\<rparr>, cv_listed = id,
     cv_round = \<lparr>re_stream = sample_env, re_media = \<lparr>md_image = (\<lambda>s. JNull), md_audio = (\<lambda>s. JNull)\<rparr>, re_tools = [],
       re_literal = (\<lambda>v. None), re_error = (\<lambda>e. [])\<rparr>\<rparr>"

definition no_tools :: server_env where
  "no_tools = \<lparr>tv_server_tools = (\<lambda>is f. Inr []), tv_connections = [], tv_session = [], tv_oauth = None, tv_token = (\<lambda>s. None),
     tv_connect = (\<lambda>u h. Inr []), tv_call = (\<lambda>s n d. Inl []), tv_direct_call = (\<lambda>s n d. Inl [])\<rparr>"

definition memo :: dict where
  "memo = [(''type'', JStr ''text''), (''name'', JStr ''memo''), (''content'', JStr ''hello''), (''context'', JStr ''full'')]"

definition small_form :: dict where
  "small_form = [(''model'', JStr ''big''), (''messages'', JList [JDict (new_message ''user'' ''hi'')]),
     (''files'', JList [JDict memo, JDict (chat_request @ [(''context'', JStr ''full'')])])]"

definition fresh_state :: chat_state where
  "fresh_state = \<lparr>ct_events = [], ct_cached = JNull, ct_chats = kims_chats,
     ct_plugins = \<lparr>ps_funcs = [], ps_modules = [], ps_contents = []\<rparr>\<rparr>"

lemma small_request_sources:
  "map_option (\<lambda>(r, s). (map_sum id rq_sources r, length (ct_events s)))
     (process_chat_payload small_env no_tools lee 5 [(''big'', [])] [] [] small_form fresh_state) =
   Some (Inr [[(''source'', JDict memo), (''document'', JList [JStr ''hello'']), (''metadata'', JList [JDict (named JNull (JStr ''memo''))])]], 1)"
  by code_simp

definition memo_source :: dict where
  "memo_source = [(''source'', JDict memo), (''document'', JList [JStr ''hello'']), (''metadata'', JList [JDict (named JNull (JStr ''memo''))])]"

lemma map_sum_InrD: "map_sum f g x = Inr y \<Longrightarrow> \<exists>z. x = Inr z \<and> g z = y"
  by (cases x) auto

theorem guarded_sources_readable_witness:
  "\<exists>r s. process_chat_payload small_env no_tools lee 5 [(''big'', [])] [] [] small_form fresh_state = Some (Inr r, s) \<and>
     rq_sources r = [memo_source] \<and>
     (\<exists>d. dget memo_source ''source'' = Some (JDict d) \<and> readable_item lee sample_groups sample_notes sample_library kims_chats d)"
proof -
  obtain r s where p: "process_chat_payload small_env no_tools lee 5 [(''big'', [])] [] [] small_form fresh_state = Some (Inr r, s)"
    and r: "rq_sources r = [memo_source]"
    using small_request_sources by (auto simp: memo_source_def map_option_case dest!: map_sum_InrD split: option.splits prod.splits)
  have "\<not> from_tool memo_source" by (simp add: from_tool_def memo_source_def)
  then have "\<exists>d. dget memo_source ''source'' = Some (JDict d) \<and> readable_item lee sample_groups sample_notes sample_library kims_chats d"
    using guarded_sources_readable[OF p, of memo_source] r by (simp add: small_env_def fresh_state_def)
  then show ?thesis using p r by blast
qed

section \<open>What fails, and what does not\<close>

text \<open>Tools that are called through a prompt never stop a request, whatever the model, the tools or the form do.\<close>

lemma prompted_tools_contained:
  "native_calls metadata = Inr False \<Longrightarrow> \<exists>x s'. use_tools env models metadata tools form s = (Inr x, s')"
  by (cases "chat_completion_tools_handler env tools models form s"; cases "fst (chat_completion_tools_handler env tools models form s)")
    (auto simp: use_tools_def next_do_def trying_def split: prod.splits)

text \<open>
  Queries that were cached are not used: the code reads them as the answer of a model, which fails, and falls
  back on the last message.
\<close>

lemma cached_queries_ignored:
  assumes "ct_cached s = JList (q # qs)" "tc_enable_retrieval_query (cv_settings env)"
    and "dget body ''model'' = Some m" "dget body ''messages'' = Some v" "messages_of v = Inr ms" "get_last_user_message ms = Inr t"
  shows "\<exists>s'. choose_queries env u False body s = (Inr [t], s')"
proof -
  have "file_answer env u body s = (Inl TypeError, s)"
    using assms by (simp add: file_answer_def query_form_def form_item_def ask_queries_def generate_queries_def dget_or_def next_do_def
        answer_content_def item_get_def)
  then have "trying (file_answer env u body) (pure (JList [])) s = (Inr (JList []), s)" by (simp add: trying_run(2))
  then show ?thesis
    using assms(3-) by (simp add: choose_queries_def next_do_def py_len_def announce_def the_messages_def form_item_def)
qed

text \<open>A model that answers the request for queries without a text stops a chat with web search.\<close>

lemma answer_without_text_raises:
  assumes "web_answer env u t form (s\<lparr>ct_events := ct_events s @ [e]\<rparr>) = (Inr (web_queries fs JNull), s')" "the_messages form = Inr ms"
    "get_last_user_message ms = Inr t"
    and "e = JDict [(''type'', JStr ''status''), (''data'', JDict [(''action'', JStr ''web_search''), (''description'', JStr ''Searching the web''), (''done'', JBool False)])]"
  shows "chat_web_search_handler env u form s = (Inl AttributeError, s')"
proof -
  have "trying (web_answer env u t form) (pure (JList [t])) (s\<lparr>ct_events := ct_events s @ [e]\<rparr>) = (Inr (JList [JNull]), s')"
    using assms(1) by (simp add: trying_run(1) web_queries_def)
  then show ?thesis
    using assms(2-) by (simp add: chat_web_search_handler_def search_status_def announce_def next_do_def only_blank_def)
qed

text \<open>A form whose files are null cannot take the knowledge of its model: the request fails.\<close>

lemma null_files_stop_knowledge:
  assumes "dget form ''files'' = Some JNull" "truthy (JList items)" "each attached_knowledge items = Inr fs"
  shows "fst (with_knowledge (JList items) message form s) = Inl AttributeError"
  using assms by (simp add: with_knowledge_def next_do_def knowledge_status_def announce_def iterate_def extend_files_def dget_or_def)

end
