(* ===== verification/Answer_Tasks.thy ===== *)
theory Answer_Tasks
  imports Chat_Services
begin

text \<open>
  What happens after an answer (\<open>process_chat_response\<close> in \<^verbatim>\<open>utils/middleware.py\<close>): the tasks that ask a model for
  follow-up questions, a title and tags, and the answer that does not come as a stream. The messages of a chat
  are stored; whether the user is told by a webhook is an argument.
\<close>

section \<open>The conversation\<close>

text \<open>A part of a text that starts with a details element or an image in Markdown, case ignored; how long it is.\<close>

definition details_at :: "string \<Rightarrow> nat option" where
  "details_at s =
     (if \<not> startswith (lower s) ''<details'' \<or> (length s > 8 \<and> word_char (s ! 8)) then None
      else (case cut_at ''>'' (drop 8 s) of
        None \<Rightarrow> None
      | Some (tag, rest) \<Rightarrow> map_option (\<lambda>(b, _). 8 + length tag + 1 + length b + 10) (cut_at ''</details>'' (lower rest))))"

definition picture_at :: "string \<Rightarrow> nat option" where
  "picture_at s =
     (if \<not> startswith s ''!['' then None
      else (case cut_at '']('' (drop 2 s) of
        None \<Rightarrow> None
      | Some (alt, rest) \<Rightarrow> map_option (\<lambda>(b, _). 2 + length alt + 2 + length b + 1) (cut_at '')'' rest)))"

definition without_markup :: "string \<Rightarrow> string" where
  "without_markup s = strip (remove_all (\<lambda>t. case details_at t of Some n \<Rightarrow> Some n | None \<Rightarrow> picture_at t) s)"

text \<open>The first text of a list of parts, else the list itself.\<close>

fun text_of_parts :: "json \<Rightarrow> json list \<Rightarrow> py_error + json" where
  "text_of_parts c [] = Inr c"
| "text_of_parts c (p # ps) =
     and_then (item_or p ''type'' JNull) (\<lambda>t. if t = JStr ''text'' then item_get p ''text'' else text_of_parts c ps)"

definition plain_message :: "json \<Rightarrow> py_error + dict" where
  "plain_message v = (case v of
     JDict m \<Rightarrow>
       (let c = dget_or m ''content'' (JStr []) in
        and_then (case c of JList ps \<Rightarrow> text_of_parts c ps | _ \<Rightarrow> Inr c) (\<lambda>content.
          Inr (dmerge m [(''role'', dget_or m ''role'' (JStr ''assistant'')),
            (''content'', case content of JStr s \<Rightarrow> JStr (without_markup s) | _ \<Rightarrow> content)])))
   | _ \<Rightarrow> Inl AttributeError)"

definition on_chats :: "(chat_db \<Rightarrow> (py_error + 'a) \<times> chat_db) \<Rightarrow> 'a chat_action" where
  "on_chats f s = (case f (ct_chats s) of (r, db) \<Rightarrow> (r, s\<lparr>ct_chats := db\<rparr>))"

text \<open>
  The message and the conversation up to it. The loop that cleans the messages reuses the name of the message, so
  that the message is the last of the conversation. A temporary chat has the messages of the request.
\<close>

definition stored_messages :: "id \<Rightarrow> string \<Rightarrow> (chat_state, json \<times> dict list) partial_action" where
  "stored_messages chat_id message_id =
     then_do (ended (on_chats (get_messages_map_by_chat_id chat_id))) (\<lambda>found.
     let mm = (case found of Some (JDict d) \<Rightarrow> d | _ \<Rightarrow> []) in
     then_do (\<lambda>s. map_option (\<lambda>r. (r, s)) (get_message_list mm (JStr message_id))) (\<lambda>ms.
     then_do (ended (lifted (each plain_message ms))) (\<lambda>plain.
       ended (pure (if ms = [] then dget_or mm message_id JNull else last ms, plain)))))"

definition request_messages :: "dict \<Rightarrow> py_error + json \<times> dict list" where
  "request_messages form =
     and_then (messages_of (dget_or form ''messages'' (JList []))) (\<lambda>ms.
     and_then (get_last_user_message_item ms) (\<lambda>m. case m of
       None \<Rightarrow> Inr (JNull, ms)
     | Some d \<Rightarrow> Inr (if d = [] then JDict d else JDict (dset ''model'' (dget_or form ''model'' JNull) d), ms)))"

definition conversation :: "id \<Rightarrow> string \<Rightarrow> dict \<Rightarrow> (chat_state, json \<times> dict list) partial_action" where
  "conversation chat_id message_id form =
     (if startswith chat_id ''local:'' then ended (lifted (request_messages form)) else stored_messages chat_id message_id)"

section \<open>Tasks\<close>

text \<open>What a task request answers: a dictionary, or nothing that is read (a disabled task, an error response).\<close>

definition task_reply :: "('v, 'd, 'x) chat_env \<Rightarrow> http_error + task_answer \<Rightarrow> py_error + dict option" where
  "task_reply env r = (case r of
     Inl e \<Rightarrow> Inl ValueError
   | Inr (Completion p) \<Rightarrow> (case cv_ask env p of Inr (JDict d) \<Rightarrow> Inr (if d = [] then None else Some d) | _ \<Rightarrow> Inr None)
   | Inr _ \<Rightarrow> Inr None)"

text \<open>The text of an answer with exactly one choice: its content, else its reasoning, else a given value.\<close>

definition choice_text :: "dict \<Rightarrow> (dict \<Rightarrow> json) \<Rightarrow> py_error + json" where
  "choice_text d text_in =
     and_then (py_len (dget_or d ''choices'' (JList []))) (\<lambda>n.
       if n \<noteq> 1 then Inr (JStr [])
       else (case dget_or d ''choices'' (JList []) of
          JList [c] \<Rightarrow> and_then (item_or c ''message'' (JDict [])) (\<lambda>m. case m of JDict x \<Rightarrow> Inr (text_in x) | _ \<Rightarrow> Inl AttributeError)
        | _ \<Rightarrow> Inl AttributeError))"

definition content_or_reasoning :: "dict \<Rightarrow> json" where
  "content_or_reasoning m = first_true [dget_or m ''content'' JNull, dget_or m ''reasoning_content'' (JStr [])]"

text \<open>\<open>json.loads(t[t.find("{") : t.rfind("}") + 1]).get(k, v0)\<close>; what is cut out must be a text.\<close>

definition braced_text :: "json \<Rightarrow> py_error + string" where
  "braced_text v = (case v of JStr s \<Rightarrow> Inr (braced s) | _ \<Rightarrow> Inl AttributeError)"

definition field_in :: "floats \<Rightarrow> string \<Rightarrow> string \<Rightarrow> json \<Rightarrow> py_error + json" where
  "field_in fs t k v0 = (case loads (fl_json fs) t of None \<Rightarrow> Inl ValueError | Some v \<Rightarrow> item_or v k v0)"

definition task_form :: "json \<Rightarrow> dict list \<Rightarrow> id \<Rightarrow> dict" where
  "task_form model ms chat_id = [(''model'', model), (''messages'', JList (map JDict ms)), (''chat_id'', JStr chat_id)]"

definition follow_up_form :: "json \<Rightarrow> dict list \<Rightarrow> string \<Rightarrow> id \<Rightarrow> dict" where
  "follow_up_form model ms message_id chat_id =
     [(''model'', model), (''messages'', JList (map JDict ms)), (''message_id'', JStr message_id), (''chat_id'', JStr chat_id)]"

definition announce_value :: "string \<Rightarrow> json \<Rightarrow> unit chat_action" where
  "announce_value kind v = changing (\<lambda>s. s\<lparr>ct_events := ct_events s @ [JDict [(''type'', JStr kind), (''data'', v)]]\<rparr>)"

definition env_floats :: "('v, 'd, 'x) chat_env \<Rightarrow> floats" where "env_floats env = se_floats (re_stream (cv_round env))"

definition save_follow_ups :: "time \<Rightarrow> id \<Rightarrow> string \<Rightarrow> json \<Rightarrow> unit chat_action" where
  "save_follow_ups now chat_id message_id v =
     next_do (announce ''chat:message:follow_ups'' [(''follow_ups'', v)]) (\<lambda>_.
       only_if (\<not> startswith chat_id ''local:'')
         (next_do (on_chats (upsert_message_to_chat_by_id_and_message_id now chat_id message_id [(''followUps'', v)])) (\<lambda>_. pure ())))"

definition ask_follow_ups :: "('v, 'd, 'x) chat_env \<Rightarrow> time \<Rightarrow> user \<Rightarrow> id \<Rightarrow> string \<Rightarrow> json \<Rightarrow> dict list \<Rightarrow> unit chat_action" where
  "ask_follow_ups env now u chat_id message_id model ms =
     next_do (lifted (task_reply env (generate_follow_ups (cv_clock env) (cv_settings env) (cv_task env) (follow_up_form model ms message_id chat_id) u))) (\<lambda>r.
     case r of
       None \<Rightarrow> pure ()
     | Some d \<Rightarrow>
         next_do (lifted (and_then (choice_text d content_or_reasoning) braced_text)) (\<lambda>t.
           trying (next_do (lifted (field_in (env_floats env) t ''follow_ups'' (JList []))) (save_follow_ups now chat_id message_id)) (pure ())))"

text \<open>The title given to a chat; a title that is neither a text nor null is not stored.\<close>

definition set_title :: "time \<Rightarrow> id \<Rightarrow> json \<Rightarrow> unit chat_action" where
  "set_title now chat_id v = on_chats (\<lambda>db. case get_chat_by_id chat_id db of
     (None, db1) \<Rightarrow> (Inr (), db1)
   | (Some c, db1) \<Rightarrow> (Inr (), snd (update_chat_by_id now chat_id (dset ''title'' v (cht_chat c)) db1)))"

definition shortened :: "json \<Rightarrow> py_error + json" where
  "shortened v =
     (if \<not> truthy v then Inr v
      else and_then (py_len v) (\<lambda>n.
        if n \<le> 100 then Inr v else (case v of JStr s \<Rightarrow> Inr (JStr (take 100 s @ ''...'')) | _ \<Rightarrow> Inl TypeError)))"

definition first_content :: "dict list \<Rightarrow> json \<Rightarrow> py_error + json" where
  "first_content ms v0 = (case ms of [] \<Rightarrow> Inl IndexError | m # _ \<Rightarrow> Inr (dget_or m ''content'' v0))"

text \<open>A title asked for: None when there was no answer to read.\<close>

definition asked_title :: "('v, 'd, 'x) chat_env \<Rightarrow> time \<Rightarrow> user \<Rightarrow> id \<Rightarrow> dict \<Rightarrow> json \<Rightarrow> dict list \<Rightarrow> json \<Rightarrow> json option chat_action" where
  "asked_title env now u chat_id message model ms user_message =
     next_do (lifted (task_reply env (generate_title (cv_clock env) (cv_settings env) (cv_task env) (task_form model ms chat_id) u))) (\<lambda>r.
     case r of
       None \<Rightarrow> pure None
     | Some d \<Rightarrow>
         next_do (lifted (and_then
           (choice_text d (\<lambda>m. first_true [dget_or m ''content'' JNull, dget_or m ''reasoning_content'' JNull, dget_or message ''content'' user_message]))
           braced_text)) (\<lambda>t.
         let title = (case field_in (env_floats env) t ''title'' user_message of Inl e \<Rightarrow> JStr [] | Inr v \<Rightarrow> v) in
         next_do (lifted (if truthy title then Inr title else first_content ms user_message)) (\<lambda>v.
         next_do (set_title now chat_id v) (\<lambda>_.
         next_do (announce_value ''chat:title'' v) (\<lambda>_. pure (Some v))))))"

text \<open>Without a title a chat with one question is called by the question; the event carries the content of the message.\<close>

definition title_task :: "('v, 'd, 'x) chat_env \<Rightarrow> time \<Rightarrow> user \<Rightarrow> id \<Rightarrow> dict \<Rightarrow> json \<Rightarrow> dict list \<Rightarrow> bool \<Rightarrow> unit chat_action" where
  "title_task env now u chat_id message model ms wanted =
     next_do (lifted (and_then (get_last_user_message ms) shortened)) (\<lambda>user_message.
     next_do (if wanted then asked_title env now u chat_id message model ms user_message else pure None) (\<lambda>title.
       if (title = None \<or> title = Some JNull) \<and> length ms = 2 then
         next_do (lifted (first_content ms user_message)) (\<lambda>v.
         next_do (set_title now chat_id v) (\<lambda>_. announce_value ''chat:title'' (dget_or message ''content'' user_message)))
       else pure ()))"

definition tag_names :: "json \<Rightarrow> py_error + string list" where
  "tag_names v = and_then (iterate v) (each (\<lambda>t. case t of JStr s \<Rightarrow> Inr s | _ \<Rightarrow> Inl AttributeError))"

definition tags_task :: "('v, 'd, 'x) chat_env \<Rightarrow> user \<Rightarrow> id \<Rightarrow> json \<Rightarrow> dict list \<Rightarrow> unit chat_action" where
  "tags_task env u chat_id model ms =
     next_do (lifted (task_reply env (generate_chat_tags (cv_clock env) (cv_settings env) (cv_task env) (task_form model ms chat_id) u))) (\<lambda>r.
     case r of
       None \<Rightarrow> pure ()
     | Some d \<Rightarrow>
         next_do (lifted (and_then (choice_text d content_or_reasoning) braced_text)) (\<lambda>t.
           trying
             (next_do (lifted (field_in (env_floats env) t ''tags'' (JList []))) (\<lambda>v.
              next_do (lifted (tag_names v)) (\<lambda>names.
              next_do (on_chats (update_chat_tags_by_id chat_id names (u_id u))) (\<lambda>_. announce_value ''chat:tags'' v))))
             (pure ())))"

text \<open>The tasks that are wanted, each with a flag; a title that is not wanted is still made from the question.\<close>

definition task_on :: "(string \<times> bool) list \<Rightarrow> string \<Rightarrow> bool" where
  "task_on tasks k \<longleftrightarrow> map_of tasks k = Some True"

definition run_tasks ::
  "('v, 'd, 'x) chat_env \<Rightarrow> time \<Rightarrow> user \<Rightarrow> id \<Rightarrow> string \<Rightarrow> (string \<times> bool) list \<Rightarrow> json \<times> dict list \<Rightarrow> unit chat_action" where
  "run_tasks env now u chat_id message_id tasks x = (case x of
     (JDict message, ms) \<Rightarrow>
       (case dget message ''model'' of
          None \<Rightarrow> pure ()
        | Some model \<Rightarrow>
            only_if (tasks \<noteq> [] \<and> ms \<noteq> [])
              (next_do (only_if (task_on tasks ''follow_up_generation'') (ask_follow_ups env now u chat_id message_id model ms)) (\<lambda>_.
               only_if (\<not> startswith chat_id ''local:'')
                 (next_do (case map_of tasks ''title_generation'' of
                     None \<Rightarrow> pure () | Some wanted \<Rightarrow> title_task env now u chat_id message model ms wanted) (\<lambda>_.
                  only_if (task_on tasks ''tags_generation'') (tags_task env u chat_id model ms))))))
   | (v, ms) \<Rightarrow> if truthy v then lifted (Inl TypeError) else pure ())"

definition background_tasks_handler ::
  "('v, 'd, 'x) chat_env \<Rightarrow> time \<Rightarrow> user \<Rightarrow> id \<Rightarrow> string \<Rightarrow> dict \<Rightarrow> (string \<times> bool) list \<Rightarrow> (chat_state, unit) partial_action" where
  "background_tasks_handler env now u chat_id message_id form tasks =
     then_do (conversation chat_id message_id form) (\<lambda>x. ended (run_tasks env now u chat_id message_id tasks x))"

section \<open>Answers that are no stream\<close>

text \<open>A value, or a JSON response of the web framework with its body; a body that is no JSON is an error of its own.\<close>

datatype whole_answer = Value json | Json_response string

definition answer_data :: "floats \<Rightarrow> whole_answer \<Rightarrow> json" where
  "answer_data fs a = (case a of
     Value v \<Rightarrow> v
   | Json_response body \<Rightarrow>
       (case loads (fl_json fs) body of
          None \<Rightarrow> JDict [(''error'', JDict [(''detail'', JStr ''Invalid JSON response'')])] | Some v \<Rightarrow> v))"

definition upsert_answer :: "time \<Rightarrow> id \<Rightarrow> string \<Rightarrow> dict \<Rightarrow> unit chat_action" where
  "upsert_answer now chat_id message_id d =
     next_do (on_chats (upsert_message_to_chat_by_id_and_message_id now chat_id message_id d)) (\<lambda>_. pure ())"

definition shown_error :: "json \<Rightarrow> json" where
  "shown_error e = (case e of JDict d \<Rightarrow> dget_or d ''detail'' e | _ \<Rightarrow> JStr (py_str e))"

definition take_error :: "time \<Rightarrow> id \<Rightarrow> string \<Rightarrow> json \<Rightarrow> unit chat_action" where
  "take_error now chat_id message_id data =
     next_do (lifted (has_key data ''error'')) (\<lambda>b.
       only_if b
         (next_do (lifted (item_or data ''error'' JNull)) (\<lambda>e.
          let shown = shown_error e;
              content = JDict [(''content'', shown)] in
          next_do (upsert_answer now chat_id message_id [(''error'', content)]) (\<lambda>_.
            only_if (case shown of JStr _ \<Rightarrow> True | JDict _ \<Rightarrow> True | _ \<Rightarrow> False) (announce ''chat:message:error'' [(''error'', content)])))))"

definition take_selected_model :: "time \<Rightarrow> id \<Rightarrow> string \<Rightarrow> json \<Rightarrow> unit chat_action" where
  "take_selected_model now chat_id message_id data =
     next_do (lifted (has_key data ''selected_model_id'')) (\<lambda>b.
       only_if b
         (next_do (lifted (item_get data ''selected_model_id'')) (\<lambda>v.
            upsert_answer now chat_id message_id [(''selectedModelId'', v)])))"

text \<open>The content of the first choice, if it has one.\<close>

definition answered_content :: "json \<Rightarrow> py_error + json" where
  "answered_content data =
     and_then (item_or data ''choices'' (JList [])) (\<lambda>cs.
       if \<not> truthy cs then Inr JNull
       else (case cs of
          JList (c # _) \<Rightarrow> and_then (item_or c ''message'' (JDict [])) (\<lambda>m. item_or m ''content'' JNull)
        | JDict _ \<Rightarrow> Inl KeyError
        | JStr _ \<Rightarrow> Inl AttributeError
        | _ \<Rightarrow> Inl TypeError))"

text \<open>The answer is shown, saved, told and followed by the tasks. \<open>notify\<close> tells a user who is not there.\<close>

definition take_content ::
  "('v, 'd, 'x) chat_env \<Rightarrow> (json \<Rightarrow> json \<Rightarrow> py_error + unit) \<Rightarrow> time \<Rightarrow> user \<Rightarrow> id \<Rightarrow> string \<Rightarrow> dict \<Rightarrow> (string \<times> bool) list \<Rightarrow> json \<Rightarrow> json \<Rightarrow>
     (chat_state, unit) partial_action" where
  "take_content env notify now u chat_id message_id form tasks data content =
     then_do (ended
       (next_do (announce_value ''chat:completion'' data) (\<lambda>_.
        next_do (on_chats (\<lambda>db. case get_chat_title_by_id chat_id db of (t, db1) \<Rightarrow> (Inr (case t of None \<Rightarrow> JNull | Some v \<Rightarrow> v), db1))) (\<lambda>title.
        next_do (announce ''chat:completion'' [(''done'', JBool True), (''content'', content), (''title'', title)]) (\<lambda>_.
        next_do (upsert_answer now chat_id message_id [(''role'', JStr ''assistant''), (''content'', content)]) (\<lambda>_.
          lifted (notify title content))))))) (\<lambda>_.
       background_tasks_handler env now u chat_id message_id form tasks)"

definition with_events :: "dict list \<Rightarrow> json \<Rightarrow> py_error + json" where
  "with_events events data =
     (if events = [] then Inr data
      else (case data of JDict d \<Rightarrow> Inr (JDict (dmerge (foldl dmerge [] events) d)) | _ \<Rightarrow> Inl TypeError))"

definition take_answer ::
  "('v, 'd, 'x) chat_env \<Rightarrow> (json \<Rightarrow> json \<Rightarrow> py_error + unit) \<Rightarrow> time \<Rightarrow> user \<Rightarrow> id \<Rightarrow> string \<Rightarrow> dict \<Rightarrow> (string \<times> bool) list \<Rightarrow> dict list \<Rightarrow> json \<Rightarrow>
     (chat_state, json) partial_action" where
  "take_answer env notify now u chat_id message_id form tasks events data =
     then_do (ended (take_error now chat_id message_id data)) (\<lambda>_.
     then_do (ended (take_selected_model now chat_id message_id data)) (\<lambda>_.
     then_do (ended (lifted (answered_content data))) (\<lambda>content.
     then_do (if truthy content then take_content env notify now u chat_id message_id form tasks data content else ended (pure ())) (\<lambda>_.
       ended (lifted (with_events events data))))))"

text \<open>
  Whatever raises, the answer itself is returned. Only dictionaries and JSON responses are looked at; a list is
  returned as it is.
\<close>

definition process_whole_answer ::
  "('v, 'd, 'x) chat_env \<Rightarrow> (json \<Rightarrow> json \<Rightarrow> py_error + unit) \<Rightarrow> time \<Rightarrow> user \<Rightarrow> id \<Rightarrow> string \<Rightarrow> dict \<Rightarrow> (string \<times> bool) list \<Rightarrow> dict list \<Rightarrow> whole_answer \<Rightarrow>
     (chat_state, whole_answer) partial_action" where
  "process_whole_answer env notify now u chat_id message_id form tasks events a =
     (let handled = then_do (take_answer env notify now u chat_id message_id form tasks events (answer_data (env_floats env) a)) (\<lambda>v.
            ended (pure (case a of Value _ \<Rightarrow> Value v | Json_response _ \<Rightarrow> Json_response (dumps v))))
      in case a of
           Value (JDict _) \<Rightarrow> or_else handled (ended (pure a))
         | Json_response _ \<Rightarrow> or_else handled (ended (pure a))
         | _ \<Rightarrow> ended (pure a))"

text \<open>Without a session nothing is saved; the events are put in front of the answer.\<close>

definition unsaved_answer :: "dict list \<Rightarrow> whole_answer \<Rightarrow> whole_answer" where
  "unsaved_answer events a = (case a of
     Value (JDict d) \<Rightarrow> if events = [] then a else Value (JDict (dmerge (foldl dmerge [] events) d))
   | _ \<Rightarrow> a)"

text \<open>A stream without a session: events and lines pass the stream filters, what they leave empty is dropped.\<close>

fun filtered_items :: "(json \<Rightarrow> py_error + json) \<Rightarrow> (json \<Rightarrow> string) \<Rightarrow> json list \<Rightarrow> string list \<times> bool" where
  "filtered_items f wrap [] = ([], True)"
| "filtered_items f wrap (v # vs) = (case f v of
     Inl e \<Rightarrow> ([], False)
   | Inr w \<Rightarrow> (let (out, ok) = filtered_items f wrap vs in (if truthy w then wrap w # out else out, ok)))"

definition wrap_item :: "string \<Rightarrow> string" where "wrap_item item = ''data: '' @ item @ nl @ nl"

definition stream_wrapper :: "(json \<Rightarrow> py_error + json) \<Rightarrow> dict list \<Rightarrow> string list \<Rightarrow> string list \<times> bool" where
  "stream_wrapper f events lines =
     (let (out, ok) = filtered_items f (\<lambda>v. wrap_item (dumps v)) (map JDict events)
      in if \<not> ok then (out, False)
         else (let (out', ok') = filtered_items f py_str (map JStr lines) in (out @ out', ok')))"

section \<open>The answer is returned, saved and told\<close>

text \<open>Whatever the tasks, the tables or the notification do, a call that returns gives an answer, not an exception.\<close>

lemma or_else_pure: "or_else m (ended (pure x)) s = Some (r, s') \<Longrightarrow> \<exists>y. r = Inr y"
  by (auto simp: or_else_def split: option.splits prod.splits sum.splits)

lemma whole_answer_never_raises:
  "process_whole_answer env notify now u chat_id message_id form tasks events a s = Some (r, s') \<Longrightarrow> \<exists>b. r = Inr b"
  by (auto simp: process_whole_answer_def Let_def dest: or_else_pure split: whole_answer.splits json.splits)

text \<open>A list with one answer is not unwrapped: the test for it is inside the one for dictionaries.\<close>

lemma listed_answer_unread:
  "process_whole_answer env notify now u chat_id message_id form tasks events (Value (JList [v])) s = Some (Inr (Value (JList [v])), s)"
  by (simp add: process_whole_answer_def Let_def)

text \<open>
  With the title task switched off, the first question becomes the title of the chat in the table, while the
  client is told the content of the last message: the answer.
\<close>

lemma title_told_is_not_stored:
  assumes "get_last_user_message [m1, m2] = Inr (JStr q)" "length q \<le> 100" "dget m1 ''content'' = Some (JStr t)" "dget message ''content'' = Some (JStr answer)"
  shows "\<exists>s'. title_task env now u chat_id message model [m1, m2] False s = (Inr (), s') \<and>
    ct_events s' = ct_events s @ [JDict [(''type'', JStr ''chat:title''), (''data'', JStr answer)]] \<and>
    ct_chats s' = snd (update_chat_title_by_id now chat_id t (ct_chats s))"
  using assms
  by (cases "fst (get_chat_by_id chat_id (ct_chats s))"; cases "get_chat_by_id chat_id (ct_chats s)")
    (auto simp: title_task_def shortened_def py_len_def first_content_def dget_or_def next_do_def set_title_def on_chats_def announce_value_def
      update_chat_title_by_id_def split: prod.splits)

end
