(* ===== verification/Account_Handlers.thy ===== *)
theory Account_Handlers
  imports Resources Misc_Text Task_Templates
begin

text \<open>
  \<^verbatim>\<open>routers/users.py\<close> and \<^verbatim>\<open>routers/groups.py\<close>: the handlers of administrators over accounts and groups, and those
  of users over their own settings, status and information. The caller of a handler is the account the request is
  authenticated as; the dependencies \<open>get_verified_user\<close> and \<open>get_admin_user\<close> of a route are \<open>verified\<close> and
  \<open>admin_only\<close>. Hashing a password is an argument, and so is the pattern passwords have to match, if one is
  configured.
\<close>

type_synonym 'a account_answer = "(http_error + 'a) \<times> server_db"

definition is_verified :: "user \<Rightarrow> bool" where
  "is_verified caller \<longleftrightarrow> u_role caller \<in> {''user'', ''admin''}"

definition verified :: "user \<Rightarrow> 's \<Rightarrow> (http_error + 'a) \<times> 's \<Rightarrow> (http_error + 'a) \<times> 's" where
  "verified caller s r = (if is_verified caller then r else (Inl Unauthorized, s))"

definition admin_only :: "user \<Rightarrow> 's \<Rightarrow> (http_error + 'a) \<times> 's \<Rightarrow> (http_error + 'a) \<times> 's" where
  "admin_only caller s r = (if u_role caller = ''admin'' then r else (Inl Unauthorized, s))"

lemma verified_state: "snd (verified caller s r) = (if is_verified caller then snd r else s)"
  by (simp add: verified_def)

lemma admin_only_state: "snd (admin_only caller s r) = (if u_role caller = ''admin'' then snd r else s)"
  by (simp add: admin_only_def)

text \<open>What stands outside: the dialect, the built-in permissions, bcrypt and the pattern of passwords.\<close>

record account_env =
  av_fk :: foreign_keys
  av_esc :: "char option"
  av_builtin :: dict
  av_password_rule :: "(string \<Rightarrow> bool) option"
  av_hash :: "string \<Rightarrow> py_error + string"

definition utf8_length :: "string \<Rightarrow> nat" where
  "utf8_length s = sum_list (map (\<lambda>c. if code c < 128 then 1 else 2) s)"

definition validate_password :: "account_env \<Rightarrow> string \<Rightarrow> bool" where
  "validate_password env pw \<longleftrightarrow> utf8_length pw \<le> 72 \<and>
     (case av_password_rule env of None \<Rightarrow> True | Some rule \<Rightarrow> rule pw)"

definition on_users :: "user_db \<Rightarrow> server_db \<Rightarrow> server_db" where
  "on_users udb s = s\<lparr>s_users := udb\<rparr>"

lemma on_users_simps [simp]:
  "s_users (on_users udb s) = udb" "s_groups (on_users udb s) = s_groups s" "s_chats (on_users udb s) = s_chats s"
  by (simp_all add: on_users_def)

section \<open>Listing accounts\<close>

text \<open>What an answer keeps of an account: \<open>UserInfoResponse\<close>.\<close>

record user_info =
  ui_id :: id
  ui_name :: string
  ui_email :: string
  ui_role :: string
  ui_status :: user_status

definition user_info_of :: "user \<Rightarrow> user_info" where
  "user_info_of u =
     \<lparr>ui_id = u_id u, ui_name = u_name u, ui_email = u_email u, ui_role = u_role u,
      ui_status = \<lparr>us_emoji = u_status_emoji u, us_message = u_status_message u, us_expires_at = u_status_expires_at u\<rparr>\<rparr>"

definition page_item_count :: nat where
  "page_item_count = 30"

text \<open>An empty filter is the same as none.\<close>

definition query_filter :: "string option \<Rightarrow> string option \<Rightarrow> string option \<Rightarrow> user_filter option" where
  "query_filter query order_by direction =
     (let q = (\<lambda>v. if v = Some [] then None else v)
      in if q query = None \<and> q order_by = None \<and> q direction = None then None
         else Some (no_filter\<lparr>uf_query := q query, uf_order_by := q order_by, uf_direction := q direction\<rparr>))"

definition page_of_users ::
  "account_env \<Rightarrow> string option \<Rightarrow> string option \<Rightarrow> string option \<Rightarrow> int \<Rightarrow> channel_db \<Rightarrow> server_db \<Rightarrow> user list \<times> nat" where
  "page_of_users env query order_by direction p cdb s =
     Users.get_users (av_esc env) (query_filter query order_by direction)
       (Some (nat (max 1 p - 1) * page_item_count)) (Some page_item_count) (s_groups s) cdb (s_users s)"

definition get_users_handler ::
  "account_env \<Rightarrow> user \<Rightarrow> string option \<Rightarrow> string option \<Rightarrow> string option \<Rightarrow> int \<Rightarrow> channel_db \<Rightarrow> server_db \<Rightarrow>
     ((user \<times> id list) list \<times> nat) account_answer" where
  "get_users_handler env caller query order_by direction p cdb s =
     admin_only caller s
       (let (us, total) = page_of_users env query order_by direction p cdb s
        in (Inr (map (\<lambda>u. (u, map grp_id (get_groups_by_member_id (u_id u) (s_groups s)))) us, total), s))"

definition get_all_users :: "account_env \<Rightarrow> user \<Rightarrow> channel_db \<Rightarrow> server_db \<Rightarrow> (user_info list \<times> nat) account_answer" where
  "get_all_users env caller cdb s =
     admin_only caller s
       (Inr (apfst (map user_info_of) (Users.get_users (av_esc env) None None None (s_groups s) cdb (s_users s))), s)"

definition search_users ::
  "account_env \<Rightarrow> user \<Rightarrow> string option \<Rightarrow> string option \<Rightarrow> string option \<Rightarrow> int \<Rightarrow> channel_db \<Rightarrow> server_db \<Rightarrow>
     (user_info list \<times> nat) account_answer" where
  "search_users env caller query order_by direction p cdb s =
     verified caller s (Inr (apfst (map user_info_of) (page_of_users env query order_by direction p cdb s)), s)"

section \<open>Permissions\<close>

definition get_user_groups :: "user \<Rightarrow> server_db \<Rightarrow> group list account_answer" where
  "get_user_groups caller s = verified caller s (Inr (get_groups_by_member_id (u_id caller) (s_groups s)), s)"

definition get_user_permissions :: "dict \<Rightarrow> user \<Rightarrow> server_db \<Rightarrow> dict account_answer" where
  "get_user_permissions configured caller s =
     verified caller s (raising ServerError (get_permissions (u_id caller) configured (s_groups s)), s)"

text \<open>
  The forms of the default permissions: a section is a list of switches with the values they have when the
  configuration does not name them.
\<close>

type_synonym switches = "(string \<times> bool) list"

definition workspace_permissions :: switches where
  "workspace_permissions =
     [(''models'', False), (''knowledge'', False), (''prompts'', False), (''tools'', False), (''models_import'', False),
      (''models_export'', False), (''prompts_import'', False), (''prompts_export'', False), (''tools_import'', False),
      (''tools_export'', False)]"

definition sharing_permissions :: switches where
  "sharing_permissions =
     [(''models'', False), (''public_models'', False), (''knowledge'', False), (''public_knowledge'', False),
      (''prompts'', False), (''public_prompts'', False), (''tools'', False), (''public_tools'', True),
      (''notes'', False), (''public_notes'', True)]"

definition chat_permissions :: switches where
  "chat_permissions =
     [(''controls'', True), (''valves'', True), (''system_prompt'', True), (''params'', True), (''file_upload'', True),
      (''delete'', True), (''delete_message'', True), (''continue_response'', True), (''regenerate_response'', True),
      (''rate_response'', True), (''edit'', True), (''share'', True), (''export'', True), (''stt'', True),
      (''tts'', True), (''call'', True), (''multiple_models'', True), (''temporary'', True),
      (''temporary_enforced'', False)]"

definition features_permissions :: switches where
  "features_permissions =
     [(''api_keys'', False), (''notes'', True), (''channels'', True), (''folders'', True),
      (''direct_tool_servers'', False), (''web_search'', True), (''image_generation'', True),
      (''code_interpreter'', True)]"

text \<open>A switch of the configuration that is no truth value is refused by the form; others are dropped.\<close>

definition switch_values :: "switches \<Rightarrow> json \<Rightarrow> py_error + dict" where
  "switch_values sw section = (case section of
     JDict d \<Rightarrow> each (\<lambda>(k, b). case dget d k of
         None \<Rightarrow> Inr (k, JBool b) | Some (JBool c) \<Rightarrow> Inr (k, JBool c) | Some _ \<Rightarrow> Inl ValueError) sw
   | _ \<Rightarrow> Inl TypeError)"

definition permission_sections :: "(string \<times> switches) list" where
  "permission_sections =
     [(''workspace'', workspace_permissions), (''sharing'', sharing_permissions), (''chat'', chat_permissions),
      (''features'', features_permissions)]"

definition get_default_user_permissions :: "dict \<Rightarrow> user \<Rightarrow> http_error + dict" where
  "get_default_user_permissions configured caller =
     (if u_role caller \<noteq> ''admin'' then Inl Unauthorized
      else raising ServerError (each (\<lambda>(name, sw).
        and_then (switch_values sw (dget_or configured name (JDict []))) (\<lambda>d. Inr (name, JDict d))) permission_sections))"

text \<open>The new defaults are the form as it was validated.\<close>

definition update_default_user_permissions :: "dict \<Rightarrow> user \<Rightarrow> dict \<Rightarrow> (http_error + dict) \<times> dict" where
  "update_default_user_permissions form caller configured = admin_only caller configured (Inr form, form)"

section \<open>The caller's own account\<close>

definition own_row :: "user \<Rightarrow> server_db \<Rightarrow> (user \<Rightarrow> 'a account_answer) \<Rightarrow> 'a account_answer" where
  "own_row caller s f =
     verified caller s (case get_user_by_id (u_id caller) (s_users s) of None \<Rightarrow> (Inl BadRequest, s) | Some u \<Rightarrow> f u)"

definition get_user_settings :: "user \<Rightarrow> server_db \<Rightarrow> dict option account_answer" where
  "get_user_settings caller s = own_row caller s (\<lambda>u. (Inr (u_settings u), s))"

text \<open>
  The settings of a request: the field \<open>ui\<close>, which may be null, and any other entries. Without the permission for
  own tool servers the entry for them is removed from \<open>ui\<close>.
\<close>

definition allowed_settings :: "account_env \<Rightarrow> dict \<Rightarrow> user \<Rightarrow> dict option \<Rightarrow> group_db \<Rightarrow> py_error + dict option" where
  "allowed_settings env configured caller ui gdb =
     (if u_role caller = ''admin'' then Inr ui
      else case ui of
        None \<Rightarrow> Inl AttributeError
      | Some d \<Rightarrow>
          if dget d ''toolServers'' = None then Inr (Some d)
          else and_then (fst (has_permission (av_builtin env) (u_id caller) ''features.direct_tool_servers'' configured gdb))
            (\<lambda>ok. Inr (Some (if ok then d else dpop ''toolServers'' d))))"

definition settings_form :: "dict option \<Rightarrow> dict \<Rightarrow> dict" where
  "settings_form ui rest = (''ui'', case ui of None \<Rightarrow> JNull | Some d \<Rightarrow> JDict d) # rest"

definition update_user_settings ::
  "account_env \<Rightarrow> dict \<Rightarrow> user \<Rightarrow> dict option \<Rightarrow> dict \<Rightarrow> server_db \<Rightarrow> dict option account_answer" where
  "update_user_settings env configured caller ui rest s =
     verified caller s (case allowed_settings env configured caller ui (s_groups s) of
       Inl e \<Rightarrow> (Inl ServerError, s)
     | Inr ui1 \<Rightarrow>
         (case update_user_settings_by_id (u_id caller) (settings_form ui1 rest) (s_users s) of
            (None, udb) \<Rightarrow> (Inl BadRequest, on_users udb s)
          | (Some u, udb) \<Rightarrow> (Inr (u_settings u), on_users udb s)))"

definition get_user_status :: "user \<Rightarrow> server_db \<Rightarrow> user account_answer" where
  "get_user_status caller s = own_row caller s (\<lambda>u. (Inr u, s))"

definition update_user_status :: "user \<Rightarrow> user_status \<Rightarrow> server_db \<Rightarrow> user option account_answer" where
  "update_user_status caller form s =
     own_row caller s (\<lambda>u. let (r, udb) = update_user_status_by_id (u_id u) form (s_users s) in (Inr r, on_users udb s))"

definition get_user_info :: "user \<Rightarrow> server_db \<Rightarrow> dict option account_answer" where
  "get_user_info caller s = own_row caller s (\<lambda>u. (Inr (u_info u), s))"

definition update_user_info :: "user \<Rightarrow> dict \<Rightarrow> server_db \<Rightarrow> dict option account_answer" where
  "update_user_info caller form s =
     own_row caller s (\<lambda>u.
       case update_user_by_id (u_id u) [SetInfo (Some (dmerge (set_or [] (u_info u)) form))] (s_users s) of
         (None, udb) \<Rightarrow> (Inl BadRequest, on_users udb s)
       | (Some u1, udb) \<Rightarrow> (Inr (u_info u1), on_users udb s))"

section \<open>Other accounts\<close>

text \<open>
  The id of a shared chat stands for its owner. The answer has the whole row of the account: its model admits
  fields it does not name. Reading a chat may repair its row.
\<close>

definition owner_of_shared :: "id \<Rightarrow> server_db \<Rightarrow> id option \<times> server_db" where
  "owner_of_shared uid s =
     (if startswith uid ''shared-'' then
        (let (c, cdb) = get_chat_by_id (py_replace ''shared-'' [] uid) (s_chats s)
         in (map_option cht_user_id c, s\<lparr>s_chats := cdb\<rparr>))
      else (Some uid, s))"

definition get_user_by_id_handler :: "time \<Rightarrow> user \<Rightarrow> id \<Rightarrow> server_db \<Rightarrow> (user \<times> bool) account_answer" where
  "get_user_by_id_handler now caller uid s =
     verified caller s (case owner_of_shared uid s of
       (None, s1) \<Rightarrow> (Inl BadRequest, s1)
     | (Some uid1, s1) \<Rightarrow>
         (case get_user_by_id uid1 (s_users s1) of
            None \<Rightarrow> (Inl BadRequest, s1)
          | Some u \<Rightarrow> (Inr (u, is_user_active now uid1 (s_users s1)), s1)))"

text \<open>
  \<open>base64.b64decode\<close> of a text: other characters are skipped; \<open>q\<close> counts the characters of the current group of
  four, \<open>left\<close> holds its bits that are not yet in a byte, \<open>pads\<close> the padding seen.
\<close>

definition sextet :: "char \<Rightarrow> nat option" where
  "sextet c = (let n = code c in
     if 65 \<le> n \<and> n \<le> 90 then Some (n - 65)
     else if 97 \<le> n \<and> n \<le> 122 then Some (n - 71)
     else if 48 \<le> n \<and> n \<le> 57 then Some (n + 4)
     else if n = 43 then Some 62
     else if n = 47 then Some 63
     else None)"

fun base64_groups :: "nat \<Rightarrow> nat \<Rightarrow> nat \<Rightarrow> string \<Rightarrow> nat list option" where
  "base64_groups q left pads [] = (if q = 0 then Some [] else None)"
| "base64_groups q left pads (c # cs) =
     (if c = CHR ''='' then
        (if 2 \<le> q \<and> 4 \<le> q + pads + 1 then Some []
         else base64_groups q left (if 2 \<le> q then pads + 1 else pads) cs)
      else case sextet c of
        None \<Rightarrow> base64_groups q left pads cs
      | Some v \<Rightarrow>
          if q = 0 then base64_groups 1 v 0 cs
          else if q = 1 then map_option ((#) (4 * left + v div 16)) (base64_groups 2 (v mod 16) 0 cs)
          else if q = 2 then map_option ((#) (16 * left + v div 4)) (base64_groups 3 (v mod 4) 0 cs)
          else map_option ((#) (64 * left + v)) (base64_groups 0 0 0 cs))"

definition b64decode :: "string \<Rightarrow> nat list option" where
  "b64decode s = (if list_all (\<lambda>c. code c < 128) s then base64_groups 0 0 0 s else None)"

datatype picture = Redirect string | Picture "nat list" | Default_Picture

definition get_user_profile_image :: "user \<Rightarrow> id \<Rightarrow> server_db \<Rightarrow> picture account_answer" where
  "get_user_profile_image caller uid s =
     verified caller s (case get_user_by_id uid (s_users s) of
       None \<Rightarrow> (Inl BadRequest, s)
     | Some u \<Rightarrow>
         (let url = u_profile_image_url u
          in if startswith url ''http'' then (Inr (Redirect url), s)
             else if startswith url ''data:image'' \<and> CHR '','' \<in> set url then
               (case b64decode (tl (dropWhile (\<lambda>c. c \<noteq> CHR '','') url)) of
                  None \<Rightarrow> (Inr Default_Picture, s) | Some bs \<Rightarrow> (Inr (Picture bs), s))
             else (Inr Default_Picture, s)))"

definition get_user_active :: "time \<Rightarrow> user \<Rightarrow> id \<Rightarrow> server_db \<Rightarrow> bool account_answer" where
  "get_user_active now caller uid s = verified caller s (Inr (is_user_active now uid (s_users s)), s)"

definition get_user_groups_by_id :: "user \<Rightarrow> id \<Rightarrow> server_db \<Rightarrow> group list account_answer" where
  "get_user_groups_by_id caller uid s = admin_only caller s (Inr (get_groups_by_member_id uid (s_groups s)), s)"

section \<open>Changing and deleting accounts\<close>

record user_update =
  uu_role :: string
  uu_name :: string
  uu_email :: string
  uu_profile_image_url :: string
  uu_password :: "string option"

text \<open>The primary administrator is the oldest account.\<close>

definition is_primary :: "id \<Rightarrow> user_db \<Rightarrow> bool" where
  "is_primary uid udb = (case get_first_user udb of None \<Rightarrow> False | Some p \<Rightarrow> uid = u_id p)"

text \<open>The refusals of the check are caught with the errors of the look-up and become server errors.\<close>

definition update_refused :: "user \<Rightarrow> id \<Rightarrow> user_update \<Rightarrow> user_db \<Rightarrow> bool" where
  "update_refused caller uid form udb \<longleftrightarrow> is_primary uid udb \<and> (u_id caller \<noteq> uid \<or> uu_role form \<noteq> ''admin'')"

definition new_password :: "account_env \<Rightarrow> id \<Rightarrow> string option \<Rightarrow> user_db \<Rightarrow> http_error + user_db" where
  "new_password env uid pw udb = (case pw of
     None \<Rightarrow> Inr udb
   | Some p \<Rightarrow>
       if p = [] then Inr udb
       else if \<not> validate_password env p then Inl BadRequest
       else and_then (raising ServerError (av_hash env p)) (\<lambda>h. Inr (snd (update_user_password_by_id uid h udb))))"

definition update_user_handler :: "account_env \<Rightarrow> user \<Rightarrow> id \<Rightarrow> user_update \<Rightarrow> server_db \<Rightarrow> user account_answer" where
  "update_user_handler env caller uid form s =
     admin_only caller s
       (let email = lower (uu_email form) in
        if update_refused caller uid form (s_users s) then (Inl ServerError, s)
        else case get_user_by_id uid (s_users s) of
          None \<Rightarrow> (Inl BadRequest, s)
        | Some u \<Rightarrow>
            if email \<noteq> u_email u \<and> get_user_by_email email (s_users s) \<noteq> None then (Inl BadRequest, s)
            else (case new_password env uid (uu_password form) (s_users s) of
              Inl h \<Rightarrow> (Inl h, s)
            | Inr udb1 \<Rightarrow>
                (let udb2 = snd (update_email_by_id uid email udb1)
                 in case update_user_by_id uid [SetRole (uu_role form), SetName (uu_name form), SetEmail email,
                        SetProfileImageUrl (uu_profile_image_url form)] udb2 of
                      (None, udb3) \<Rightarrow> (Inl BadRequest, on_users udb3 s)
                    | (Some u1, udb3) \<Rightarrow> (Inr u1, on_users udb3 s))))"

definition delete_user_handler :: "foreign_keys \<Rightarrow> (id \<Rightarrow> time) \<Rightarrow> user \<Rightarrow> id \<Rightarrow> server_db \<Rightarrow> bool account_answer" where
  "delete_user_handler fk now caller uid s =
     admin_only caller s
       (if is_primary uid (s_users s) then (Inl ServerError, s)
        else if u_id caller = uid then (Inl Forbidden, s)
        else (let (ok, s1) = delete_auth_by_id fk now uid s in (if ok then Inr True else Inl ServerError, s1)))"

section \<open>Handlers of groups\<close>

text \<open>A handler of \<^verbatim>\<open>routers/groups.py\<close> answers every exception, its own refusals included, with 400.\<close>

type_synonym 'a group_answer = "(http_error + 'a) \<times> group_db"

definition counted :: "group \<Rightarrow> group_db \<Rightarrow> group_response" where
  "counted g gdb = to_response g (get_group_member_count_by_id (grp_id g) gdb)"

definition answer_group :: "group option \<times> group_db \<Rightarrow> group_response group_answer" where
  "answer_group r = (case r of (None, gdb) \<Rightarrow> (Inl BadRequest, gdb) | (Some g, gdb) \<Rightarrow> (Inr (counted g gdb), gdb))"

definition get_groups_handler :: "char option \<Rightarrow> user \<Rightarrow> bool option \<Rightarrow> group_db \<Rightarrow> group_response list group_answer" where
  "get_groups_handler esc caller share gdb =
     verified caller gdb
       (Inr (get_groups esc \<lparr>flt_query = None,
          flt_member_id = (if u_role caller \<noteq> ''admin'' then Some (u_id caller) else None), flt_share = share\<rparr> gdb), gdb)"

definition create_new_group ::
  "id \<Rightarrow> time \<Rightarrow> time \<Rightarrow> user \<Rightarrow> group_form \<Rightarrow> group_db \<Rightarrow> group_response group_answer" where
  "create_new_group gid t1 t2 caller form gdb =
     admin_only caller gdb (answer_group (insert_new_group gid t1 t2 (u_id caller) form gdb))"

definition get_group_handler :: "user \<Rightarrow> id \<Rightarrow> group_db \<Rightarrow> group_response group_answer" where
  "get_group_handler caller gid gdb =
     admin_only caller gdb (case get_group_by_id gid gdb of
       None \<Rightarrow> (Inl Unauthorized, gdb) | Some g \<Rightarrow> (Inr (counted g gdb), gdb))"

text \<open>A group without members has no list of them, which the answer does not admit.\<close>

definition export_group_by_id :: "user \<Rightarrow> id \<Rightarrow> group_db \<Rightarrow> (group_response \<times> id list) group_answer" where
  "export_group_by_id caller gid gdb =
     admin_only caller gdb (case get_group_by_id gid gdb of
       None \<Rightarrow> (Inl Unauthorized, gdb)
     | Some g \<Rightarrow> (case get_group_user_ids_by_id gid gdb of
         None \<Rightarrow> (Inl ServerError, gdb) | Some us \<Rightarrow> (Inr (counted g gdb, us), gdb)))"

definition get_users_in_group :: "user \<Rightarrow> id \<Rightarrow> user_db \<Rightarrow> group_db \<Rightarrow> user_info list group_answer" where
  "get_users_in_group caller gid udb gdb =
     admin_only caller gdb (Inr (map user_info_of (get_users_by_group_id gid gdb udb)), gdb)"

definition update_group_handler :: "time \<Rightarrow> user \<Rightarrow> id \<Rightarrow> group_form \<Rightarrow> group_db \<Rightarrow> group_response group_answer" where
  "update_group_handler now caller gid form gdb =
     admin_only caller gdb (answer_group (update_group_by_id now gid form gdb))"

text \<open>Ids without an account are dropped before the members are added; \<open>uid\<close> draws the ids of the rows.\<close>

definition add_user_to_group ::
  "foreign_keys \<Rightarrow> time \<Rightarrow> (id \<Rightarrow> id) \<Rightarrow> user \<Rightarrow> id \<Rightarrow> id list option \<Rightarrow> user_db \<Rightarrow> group_db \<Rightarrow>
     group_response group_answer" where
  "add_user_to_group fk now uid caller gid user_ids udb gdb =
     admin_only caller gdb
       (let valid = map_option (\<lambda>us. if us = [] then us else get_valid_user_ids us udb) user_ids
        in answer_group (add_users_to_group fk now gid (map_option (map (\<lambda>u. (uid u, u))) valid) gdb))"

definition remove_users_handler :: "time \<Rightarrow> user \<Rightarrow> id \<Rightarrow> id list option \<Rightarrow> group_db \<Rightarrow> group_response group_answer" where
  "remove_users_handler now caller gid user_ids gdb =
     admin_only caller gdb (answer_group (remove_users_from_group now gid user_ids gdb))"

definition delete_group_handler :: "foreign_keys \<Rightarrow> user \<Rightarrow> id \<Rightarrow> group_db \<Rightarrow> bool group_answer" where
  "delete_group_handler fk caller gid gdb =
     admin_only caller gdb (let (ok, gdb1) = delete_group_by_id fk gid gdb in (if ok then Inr True else Inl BadRequest, gdb1))"

section \<open>Who may do what\<close>

lemma when_verified: "fst (verified caller s r) = Inr x \<Longrightarrow> is_verified caller \<and> fst r = Inr x"
  by (auto simp: verified_def split: if_splits)

lemma when_admin: "fst (admin_only caller s r) = Inr x \<Longrightarrow> u_role caller = ''admin'' \<and> fst r = Inr x"
  by (auto simp: admin_only_def split: if_splits)

text \<open>A group without members cannot be exported.\<close>

lemma empty_group_not_exported:
  assumes "u_role caller = ''admin''" "\<not> list_ex (\<lambda>m. gm_group_id m = gid) (group_members gdb)"
  shows "\<forall>r. fst (export_group_by_id caller gid gdb) \<noteq> Inr r"
  using assms
  by (auto simp: export_group_by_id_def admin_only_def get_group_user_ids_by_id_def all_rows_def list_ex_iff
      filter_empty_conv split: option.split)

text \<open>Settings with a null \<open>ui\<close> are refused as a server error for everybody but administrators.\<close>

lemma null_ui_raises:
  "u_role caller = ''user'' \<Longrightarrow> update_user_settings env configured caller None rest s = (Inl ServerError, s)"
  by (simp add: update_user_settings_def allowed_settings_def verified_def is_verified_def)

text \<open>The answer about an account has its settings, its address and its links to identity providers.\<close>

lemma row_of_anyone_shown:
  assumes "is_verified caller" "get_user_by_id uid (s_users s) = Some u" "\<not> startswith uid ''shared-''"
  shows "fst (get_user_by_id_handler now caller uid s) = Inr (u, is_user_active now uid (s_users s))"
  using assms by (simp add: get_user_by_id_handler_def owner_of_shared_def verified_def)

end
