(* ===== verification/Auth_Tokens.thy ===== *)
theory Auth_Tokens
  imports Account_Handlers Rate_Limit
begin

text \<open>
  \<^verbatim>\<open>utils/auth.py\<close>, the lifetime of a token (\<open>parse_duration\<close> of \<^verbatim>\<open>utils/misc.py\<close>) and the restriction of API keys
  (\<^verbatim>\<open>main.py\<close>): how a request gets its user. Signing and reading a token (PyJWT), checking a password (bcrypt) and
  the Redis store of revoked tokens are arguments. Times are seconds; durations are microseconds.
\<close>

section \<open>Durations\<close>

definition unit_at :: "string \<Rightarrow> (int \<times> nat) option" where
  "unit_at s =
     (if startswith s ''ms'' then Some (1000, 2)
      else if startswith s ''s'' then Some (1000000, 1)
      else if startswith s ''m'' then Some (60000000, 1)
      else if startswith s ''h'' then Some (3600000000, 1)
      else if startswith s ''d'' then Some (86400000000, 1)
      else if startswith s ''w'' then Some (604800000000, 1)
      else None)"

text \<open>A number with its unit at the head of a text, and how much of the text it takes.\<close>

definition duration_at :: "string \<Rightarrow> (rat \<times> int \<times> nat) option" where
  "duration_at s =
     (let neg = startswith s ''-''; r = (if neg then tl s else s);
          ds = takeWhile is_digit r; r1 = drop (length ds) r;
          fs = (if startswith r1 ''.'' then takeWhile is_digit (tl r1) else []);
          r2 = (if fs = [] then r1 else drop (1 + length fs) r1);
          v = of_nat (digits_val ds) + of_nat (digits_val fs) / 10 ^ length fs
      in if ds = [] then None
         else case unit_at r2 of
           None \<Rightarrow> None
         | Some (u, k) \<Rightarrow> Some (if neg then - v else v, u, length s - length r2 + k))"

text \<open>\<open>re.findall\<close>: after a match the search goes on behind it.\<close>

fun durations :: "nat \<Rightarrow> string \<Rightarrow> (rat \<times> int) list" where
  "durations skip [] = []"
| "durations (Suc k) (c # cs) = durations k cs"
| "durations 0 (c # cs) = (case duration_at (c # cs) of
     None \<Rightarrow> durations 0 cs
   | Some (v, u, k) \<Rightarrow> (v, u) # durations (k - 1) cs)"

definition round_half_even :: "rat \<Rightarrow> int" where
  "round_half_even r =
     (let f = \<lfloor>r\<rfloor>; d = r - of_int f
      in if d < 1 / 2 then f else if d > 1 / 2 then f + 1 else if even f then f else f + 1)"

text \<open>A \<open>timedelta\<close> has between -999999999 and 999999999 days. Decimal numbers are exact here.\<close>

definition fits :: "int \<Rightarrow> bool" where
  "fits us \<longleftrightarrow> - 999999999 * 86400000000 \<le> us \<and> us < 1000000000 * 86400000000"

fun sum_durations :: "int \<Rightarrow> (rat \<times> int) list \<Rightarrow> py_error + int" where
  "sum_durations acc [] = Inr acc"
| "sum_durations acc ((v, u) # ds) =
     (let us = round_half_even (v * of_int u)
      in if fits us \<and> fits (acc + us) then sum_durations (acc + us) ds else Inl ValueError)"

definition parse_duration :: "string \<Rightarrow> py_error + int option" where
  "parse_duration s =
     (if s = ''-1'' \<or> s = ''0'' then Inr None
      else let ds = durations 0 s
           in if ds = [] then Inl ValueError else and_then (sum_durations 0 ds) (\<lambda>us. Inr (Some us)))"

text \<open>The pattern an administrator's lifetime has to match; \<open>$\<close> also matches before a last line end.\<close>

definition lifetime_pattern :: "string \<Rightarrow> bool" where
  "lifetime_pattern s =
     (let t = (if s \<noteq> [] \<and> last s = CHR 0x0A then butlast s else s)
      in t = ''-1'' \<or> t = ''0'' \<or> (case duration_at t of None \<Rightarrow> False | Some (v, u, k) \<Rightarrow> k = length t))"

section \<open>Tokens\<close>

record 'r token_env = account_env +
  tk_encode :: "dict \<Rightarrow> string"
  tk_decode :: "time \<Rightarrow> string \<Rightarrow> dict option"
  tk_verify :: "string \<Rightarrow> string \<Rightarrow> bool"
  tk_get :: "string \<Rightarrow> 'r \<Rightarrow> bool option"
  tk_set :: "string \<Rightarrow> int \<Rightarrow> 'r \<Rightarrow> 'r option"
  tk_prefix :: string
  tk_trusted_email :: string
  tk_interval :: "rat option"

text \<open>The configuration an administrator edits, and the rest of it that the accounts need.\<close>

record admin_config =
  ag_show_admin_details :: bool
  ag_webui_url :: string
  ag_enable_signup :: bool
  ag_enable_api_keys :: bool
  ag_restrict_api_keys :: bool
  ag_api_key_endpoints :: string
  ag_default_user_role :: string
  ag_default_group_id :: string
  ag_jwt_expires_in :: string
  ag_community_sharing :: bool
  ag_message_rating :: bool
  ag_folders :: bool
  ag_channels :: bool
  ag_notes :: bool
  ag_user_webhooks :: bool
  ag_overlay_title :: "string option"
  ag_overlay_content :: "string option"
  ag_watermark :: "string option"

record app_config = admin_config +
  ag_login_form :: bool
  ag_permissions :: dict
  ag_admin_email :: string

record 'r site =
  st_db :: server_db
  st_config :: app_config
  st_calls :: "id last_calls"
  st_redis :: "'r option"
  st_limiter :: "'r limiter_state"

text \<open>
  \<open>expire\<close> has to be a date of the years 1 to 9999; PyJWT writes its whole seconds. \<open>jti\<close> is a fresh id. A lifetime
  of zero is no lifetime.
\<close>

definition is_date :: "int \<Rightarrow> bool" where
  "is_date us \<longleftrightarrow> - 62135596800000000 \<le> us \<and> us < 253402300800000000"

definition has_lifetime :: "int option \<Rightarrow> bool" where
  "has_lifetime delta \<longleftrightarrow> delta \<noteq> None \<and> delta \<noteq> Some 0"

definition token_payload :: "id \<Rightarrow> string \<Rightarrow> int option \<Rightarrow> dict" where
  "token_payload uid jti expires =
     (''id'', JStr uid) # (case expires of None \<Rightarrow> [] | Some t \<Rightarrow> [(''exp'', JInt t)]) @ [(''jti'', JStr jti)]"

definition create_token :: "'r token_env \<Rightarrow> int \<Rightarrow> string \<Rightarrow> id \<Rightarrow> int option \<Rightarrow> py_error + string" where
  "create_token env now_us jti uid delta =
     (if has_lifetime delta then
        let t = now_us + the delta
        in if is_date t then Inr (tk_encode env (token_payload uid jti (Some (t div 1000000)))) else Inl ValueError
      else Inr (tk_encode env (token_payload uid jti None)))"

definition revoked_key :: "'r token_env \<Rightarrow> json \<Rightarrow> string" where
  "revoked_key env jti = tk_prefix env @ '':auth:token:'' @ py_str jti @ '':revoked''"

definition is_valid_token :: "'r token_env \<Rightarrow> dict \<Rightarrow> 'r site \<Rightarrow> py_error + bool" where
  "is_valid_token env decoded s = (case st_redis s of
     None \<Rightarrow> Inr True
   | Some r \<Rightarrow>
       (let jti = dget_or decoded ''jti'' JNull
        in if \<not> truthy jti then Inr True
           else case tk_get env (revoked_key env jti) r of None \<Rightarrow> Inl ValueError | Some b \<Rightarrow> Inr (\<not> b)))"

text \<open>Only a token that expires is revoked, and only where there is a Redis store. Expiry times are whole seconds.\<close>

definition invalidate_token :: "'r token_env \<Rightarrow> time \<Rightarrow> string \<Rightarrow> 'r site \<Rightarrow> (py_error + unit) \<times> 'r site" where
  "invalidate_token env now token s = (case st_redis s of
     None \<Rightarrow> (Inr (), s)
   | Some r \<Rightarrow>
       (case tk_decode env now token of
          None \<Rightarrow> (Inl AttributeError, s)
        | Some d \<Rightarrow>
            (let jti = dget_or d ''jti'' JNull; expires = dget_or d ''exp'' JNull
             in if \<not> (truthy jti \<and> truthy expires) then (Inr (), s)
                else case expires of
                  JInt t \<Rightarrow>
                    if t - now > 0 then
                      (case tk_set env (revoked_key env jti) (t - now) r of
                         None \<Rightarrow> (Inl ValueError, s) | Some r1 \<Rightarrow> (Inr (), s\<lparr>st_redis := Some r1\<rparr>))
                    else (Inr (), s)
                | _ \<Rightarrow> (Inl TypeError, s))))"

section \<open>The user of a request\<close>

text \<open>
  What a request carries: the Authorization header, the credentials FastAPI reads from it, the cookies, and the
  other headers under their names in lower case.
\<close>

record http_request =
  hr_authorization :: "string option"
  hr_bearer :: "string option"
  hr_cookies :: "(string \<times> string) list"
  hr_headers :: "(string \<times> string) list"
  hr_path :: string

definition request_token :: "http_request \<Rightarrow> string option" where
  "request_token q = (case hr_bearer q of Some t \<Rightarrow> Some t | None \<Rightarrow> map_of (hr_cookies q) ''token'')"

definition header_of :: "http_request \<Rightarrow> string \<Rightarrow> string" where
  "header_of q name = (case map_of (hr_headers q) (lower name) of None \<Rightarrow> [] | Some v \<Rightarrow> v)"

text \<open>Cookies with a value that are deleted when a token is refused.\<close>

definition stale_cookies :: "http_request \<Rightarrow> string list" where
  "stale_cookies q = filter (\<lambda>c. map_of (hr_cookies q) c \<noteq> None \<and> map_of (hr_cookies q) c \<noteq> Some [])
     [''token'', ''oauth_id_token'', ''oauth_session_id'']"

definition seen_now :: "'r token_env \<Rightarrow> rat \<Rightarrow> time \<Rightarrow> id \<Rightarrow> 'r site \<Rightarrow> 'r site" where
  "seen_now env tick now uid s =
     (let (r, calls, udb) = update_last_active_by_id (tk_interval env) tick now uid (st_calls s) (s_users (st_db s))
      in s\<lparr>st_calls := calls, st_db := on_users udb (st_db s)\<rparr>)"

definition get_current_user_by_api_key ::
  "'r token_env \<Rightarrow> rat \<Rightarrow> time \<Rightarrow> string \<Rightarrow> 'r site \<Rightarrow> (http_error + user) \<times> 'r site" where
  "get_current_user_by_api_key env tick now key s =
     (case get_user_by_api_key key (s_users (st_db s)) of
        None \<Rightarrow> (Inl Unauthorized, s)
      | Some u \<Rightarrow>
          if \<not> ag_enable_api_keys (st_config s) then (Inl Forbidden, s)
          else (case (if u_role u = ''admin'' then Inr True
                  else fst (has_permission (av_builtin env) (u_id u) ''features.api_keys'' (ag_permissions (st_config s))
                    (s_groups (st_db s)))) of
            Inl e \<Rightarrow> (Inl ServerError, s)
          | Inr ok \<Rightarrow> if ok then (Inr u, seen_now env tick now (u_id u) s) else (Inl Forbidden, s)))"

text \<open>\<open>trusted\<close>: a header of the proxy in front of the server names the user; it has to be the token's.\<close>

definition jwt_user :: "'r token_env \<Rightarrow> time \<Rightarrow> http_request \<Rightarrow> string \<Rightarrow> 'r site \<Rightarrow> http_error + user" where
  "jwt_user env now q token s = (case tk_decode env now token of
     None \<Rightarrow> Inl Unauthorized
   | Some d \<Rightarrow>
       (case dget d ''id'' of
          None \<Rightarrow> Inl Unauthorized
        | Some uid \<Rightarrow>
            and_then (if truthy (dget_or d ''jti'' JNull) then raising ServerError (is_valid_token env d s) else Inr True) (\<lambda>ok.
            if \<not> ok then Inl Unauthorized
            else case (case uid of JStr i \<Rightarrow> get_user_by_id i (s_users (st_db s)) | _ \<Rightarrow> None) of
              None \<Rightarrow> Inl Unauthorized
            | Some u \<Rightarrow>
                (let trusted = (if tk_trusted_email env = [] then [] else lower (header_of q (tk_trusted_email env)))
                 in if trusted \<noteq> [] \<and> u_email u \<noteq> trusted then Inl Unauthorized else Inr u))))"

text \<open>
  The user, the cookies that are deleted and the state. The activity time of a user with a token is set by a
  background task after the answer; the state is the one after it.
\<close>

definition get_current_user ::
  "'r token_env \<Rightarrow> rat \<Rightarrow> time \<Rightarrow> http_request \<Rightarrow> 'r site \<Rightarrow> (http_error + user) \<times> string list \<times> 'r site" where
  "get_current_user env tick now q s = (case request_token q of
     None \<Rightarrow> (Inl Unauthorized, [], s)
   | Some t \<Rightarrow>
       if startswith t ''sk-'' then (let (r, s1) = get_current_user_by_api_key env tick now t s in (r, [], s1))
       else (case jwt_user env now q t s of
         Inl h \<Rightarrow> (Inl h, stale_cookies q, s)
       | Inr u \<Rightarrow> (Inr u, [], seen_now env tick now (u_id u) s)))"

definition get_verified_user :: "http_error + user \<Rightarrow> http_error + user" where
  "get_verified_user r = and_then r (\<lambda>u. if is_verified u then Inr u else Inl Unauthorized)"

definition get_admin_user :: "http_error + user \<Rightarrow> http_error + user" where
  "get_admin_user r = and_then r (\<lambda>u. if u_role u = ''admin'' then Inr u else Inl Unauthorized)"

section \<open>The restriction of API keys\<close>

text \<open>
  The middleware before every route reads the Authorization header only: with \<open>None\<close> it passes the request on. A
  header that has not exactly two parts raises.
\<close>

definition header_token :: "http_request \<Rightarrow> py_error + string option" where
  "header_token q = (case hr_authorization q of
     None \<Rightarrow> Inr None
   | Some h \<Rightarrow> if h = [] then Inr None
       else case split_on CHR '' '' h of [scheme, token] \<Rightarrow> Inr (Some token) | _ \<Rightarrow> Inl ValueError)"

definition allowed_paths :: "app_config \<Rightarrow> string list" where
  "allowed_paths c = filter (\<lambda>p. p \<noteq> []) (map strip (split_on CHR '','' (ag_api_key_endpoints c)))"

definition path_allowed :: "app_config \<Rightarrow> string \<Rightarrow> bool" where
  "path_allowed c path = list_ex (\<lambda>a. path = a \<or> startswith path (a @ ''/'')) (allowed_paths c)"

definition restrict_api_key :: "http_request \<Rightarrow> 'r site \<Rightarrow> http_error option" where
  "restrict_api_key q s = (case header_token q of
     Inl e \<Rightarrow> Some ServerError
   | Inr None \<Rightarrow> None
   | Inr (Some t) \<Rightarrow>
       if startswith t ''sk-'' \<and> ag_restrict_api_keys (st_config s) \<and> \<not> path_allowed (st_config s) (hr_path q)
       then Some Forbidden else None)"

text \<open>A request on its way to its route.\<close>

definition authenticate ::
  "'r token_env \<Rightarrow> rat \<Rightarrow> time \<Rightarrow> http_request \<Rightarrow> 'r site \<Rightarrow> (http_error + user) \<times> string list \<times> 'r site" where
  "authenticate env tick now q s = (case restrict_api_key q s of
     Some h \<Rightarrow> (Inl h, [], s) | None \<Rightarrow> get_current_user env tick now q s)"

end
