(* ===== verification/Sign_In.thy ===== *)
theory Sign_In
  imports Auth_Tokens
begin

text \<open>
  \<^verbatim>\<open>routers/auths.py\<close>: signing up, in and out, the own profile and password, accounts an administrator adds, API
  keys, and the configuration of accounts. The mail of a webhook is output only and left out.
\<close>

text \<open>What the server is started with.\<close>

record 'r sign_env = "'r token_env" +
  zn_webui_auth :: bool
  zn_password_auth :: bool
  zn_initial_signup :: bool
  zn_trusted_name :: string
  zn_trusted_groups :: string
  zn_unquote :: "string \<Rightarrow> string"
  zn_limiter :: limiter
  zn_redis :: "'r redis_client"
  zn_redis_prefix :: string

text \<open>
  The readings of a request: two of the clock in microseconds, two in seconds for the limiter, and the fresh ids.
\<close>

record moment =
  mt_session_us :: int
  mt_token_us :: int
  mt_limit_1 :: int
  mt_limit_2 :: int
  mt_row :: "time \<times> time \<times> time"
  mt_jti :: string
  mt_jti_2 :: string
  mt_uid :: id
  mt_member :: id
  mt_group_rows :: "id \<Rightarrow> id"
  mt_random :: string

record session_answer =
  an_token :: string
  an_expires_at :: "time option"
  an_cookie_expires :: "time option"
  an_user :: user
  an_permissions :: dict

type_synonym ('a, 'r) site_answer = "(http_error + 'a) \<times> 'r site"

definition on_db :: "(server_db \<Rightarrow> (http_error + 'a) \<times> server_db) \<Rightarrow> 'r site \<Rightarrow> ('a, 'r) site_answer" where
  "on_db f s = (let (r, db) = f (st_db s) in (r, s\<lparr>st_db := db\<rparr>))"

section \<open>Sessions\<close>

text \<open>The whole seconds of a duration, cut towards zero.\<close>

definition whole_seconds :: "int \<Rightarrow> int" where
  "whole_seconds us = (if us < 0 then - (- us div 1000000) else us div 1000000)"

definition expires_at :: "moment \<Rightarrow> int option \<Rightarrow> time option" where
  "expires_at m delta =
     (if has_lifetime delta then Some (mt_session_us m div 1000000 + whole_seconds (the delta)) else None)"

definition start_session :: "'r token_env \<Rightarrow> moment \<Rightarrow> string \<Rightarrow> user \<Rightarrow> 'r site \<Rightarrow> py_error + session_answer" where
  "start_session env m jti u s =
     and_then (parse_duration (ag_jwt_expires_in (st_config s))) (\<lambda>delta.
     and_then (create_token env (mt_token_us m) jti (u_id u) delta) (\<lambda>token.
       let e = expires_at m delta; cookie = (if e = Some 0 then None else e)
       in if cookie \<noteq> None \<and> \<not> is_date (1000000 * the cookie) then Inl ValueError
          else and_then (get_permissions (u_id u) (ag_permissions (st_config s)) (s_groups (st_db s))) (\<lambda>p.
            Inr \<lparr>an_token = token, an_expires_at = e, an_cookie_expires = cookie, an_user = u, an_permissions = p\<rparr>)))"

text \<open>
  \<open>get_session_user\<close> takes the token from the Authorization header: a request that is authenticated by its cookie
  alone raises. \<open>None\<close> for the cookie: it is not set.
\<close>

definition header_credentials :: "http_request \<Rightarrow> string option" where
  "header_credentials q = (case hr_authorization q of
     None \<Rightarrow> None
   | Some h \<Rightarrow> if h = [] then None else (case split_on CHR '' '' h of [scheme, token] \<Rightarrow> Some token | _ \<Rightarrow> None))"

definition get_session_user ::
  "'r token_env \<Rightarrow> time \<Rightarrow> http_request \<Rightarrow> user \<Rightarrow> 'r site \<Rightarrow> http_error + string \<times> json \<times> time option option \<times> user \<times> dict" where
  "get_session_user env now q caller s = (case header_credentials q of
     None \<Rightarrow> Inl ServerError
   | Some token \<Rightarrow>
       and_then (case tk_decode env now token of
           None \<Rightarrow> Inr (JNull, None)
         | Some d \<Rightarrow>
             if d = [] then Inr (JNull, None)
             else (case dget_or d ''exp'' JNull of
               JNull \<Rightarrow> Inr (JNull, Some None)
             | JInt e \<Rightarrow> if now > e then Inl Unauthorized
                 else if e = 0 then Inr (JInt e, Some None)
                 else if is_date (1000000 * e) then Inr (JInt e, Some (Some e)) else Inl ServerError
             | _ \<Rightarrow> Inl ServerError)) (\<lambda>(e, cookie).
       and_then (raising ServerError (get_permissions (u_id caller) (ag_permissions (st_config s)) (s_groups (st_db s)))) (\<lambda>p.
         Inr (token, e, cookie, caller, p))))"

section \<open>Signing up\<close>

record signup_form =
  sg_name :: string
  sg_email :: string
  sg_password :: string
  sg_picture :: "string option"

definition signup_open :: "'r sign_env \<Rightarrow> bool \<Rightarrow> 'r site \<Rightarrow> bool" where
  "signup_open env known s =
     (if zn_webui_auth env then
        ag_enable_signup (st_config s) \<and> ag_login_form (st_config s) \<or> \<not> known \<and> zn_initial_signup env
      else \<not> known)"

text \<open>\<open>UserModel\<close> refuses a missing picture or role before anything is written.\<close>

definition add_account ::
  "moment \<Rightarrow> signup_form \<Rightarrow> string \<Rightarrow> string option \<Rightarrow> user_db \<Rightarrow> (py_error + user) \<times> user_db" where
  "add_account m form hashed role udb = (case (sg_picture form, role) of
     (Some picture, Some r) \<Rightarrow>
       (case mt_row m of (t1, t2, t3) \<Rightarrow>
          insert_new_auth (mt_uid m) (lower (sg_email form)) hashed (sg_name form) picture r None t1 t2 t3 udb)
   | _ \<Rightarrow> (Inl ValueError, udb))"

definition join_default_group :: "'r token_env \<Rightarrow> moment \<Rightarrow> id \<Rightarrow> 'r site \<Rightarrow> 'r site" where
  "join_default_group env m uid s =
     s\<lparr>st_db := (st_db s)\<lparr>s_groups := apply_default_group_assignment (av_fk env) (fst (mt_row m)) (mt_member m)
       (ag_default_group_id (st_config s)) uid (s_groups (st_db s))\<rparr>\<rparr>"

definition with_users :: "user_db \<Rightarrow> 'r site \<Rightarrow> 'r site" where
  "with_users udb s = s\<lparr>st_db := on_users udb (st_db s)\<rparr>"

text \<open>
  Every error after the checks of the address becomes a server error, a refused password too. The first user becomes
  an administrator and closes the sign-up.
\<close>

definition signup_role :: "bool \<Rightarrow> 'r site \<Rightarrow> string" where
  "signup_role known s = (if known then ag_default_user_role (st_config s) else ''admin'')"

definition close_signup :: "bool \<Rightarrow> 'r site \<Rightarrow> 'r site" where
  "close_signup known s = (if known then s else s\<lparr>st_config := (st_config s)\<lparr>ag_enable_signup := False\<rparr>\<rparr>)"

definition signup :: "'r sign_env \<Rightarrow> moment \<Rightarrow> signup_form \<Rightarrow> 'r site \<Rightarrow> (session_answer, 'r) site_answer" where
  "signup env m form s =
     (let tenv = token_env.truncate env; aenv = account_env.truncate env;
          known = has_users (s_users (st_db s)); email = lower (sg_email form)
      in if \<not> signup_open env known s then (Inl Forbidden, s)
         else if \<not> validate_email_format email then (Inl BadRequest, s)
         else if get_user_by_email email (s_users (st_db s)) \<noteq> None then (Inl BadRequest, s)
         else if \<not> validate_password aenv (sg_password form) then (Inl ServerError, s)
         else case av_hash env (sg_password form) of
           Inl e \<Rightarrow> (Inl ServerError, s)
         | Inr hashed \<Rightarrow>
             (case add_account m form hashed (Some (signup_role known s)) (s_users (st_db s)) of
                (Inl e, udb) \<Rightarrow> (Inl ServerError, with_users udb s)
              | (Inr u, udb) \<Rightarrow>
                  (case start_session tenv m (mt_jti m) u (with_users udb s) of
                     Inl e \<Rightarrow> (Inl ServerError, with_users udb s)
                   | Inr a \<Rightarrow> (Inr a, join_default_group tenv m (u_id u) (close_signup known (with_users udb s))))))"

definition add_user :: "'r token_env \<Rightarrow> moment \<Rightarrow> user \<Rightarrow> signup_form \<Rightarrow> string option \<Rightarrow> 'r site \<Rightarrow>
    (string \<times> user, 'r) site_answer" where
  "add_user env m caller form role s =
     admin_only caller s
       (let email = lower (sg_email form) in
        if \<not> validate_email_format email then (Inl BadRequest, s)
        else if get_user_by_email email (s_users (st_db s)) \<noteq> None then (Inl BadRequest, s)
        else if \<not> validate_password (account_env.truncate env) (sg_password form) then (Inl ServerError, s)
        else case av_hash env (sg_password form) of
          Inl e \<Rightarrow> (Inl ServerError, s)
        | Inr hashed \<Rightarrow>
            (case add_account m form hashed role (s_users (st_db s)) of
               (Inl e, udb) \<Rightarrow> (Inl ServerError, with_users udb s)
             | (Inr u, udb) \<Rightarrow>
                 (let s1 = join_default_group env m (u_id u) (with_users udb s)
                  in case create_token env (mt_token_us m) (mt_jti m) (u_id u) None of
                       Inl e \<Rightarrow> (Inl ServerError, s1) | Inr token \<Rightarrow> (Inr (token, u), s1))))"

section \<open>Signing in\<close>

text \<open>The longest beginning that fits into the bytes bcrypt takes, without a broken character at its end.\<close>

fun fitting :: "nat \<Rightarrow> string \<Rightarrow> string" where
  "fitting n [] = []"
| "fitting n (c # cs) =
     (let k = (if code c < 128 then 1 else 2) in if k \<le> n then c # fitting (n - k) cs else [])"

definition shortened_password :: "string \<Rightarrow> string" where
  "shortened_password pw = (if utf8_length pw > 72 then fitting 72 pw else pw)"

definition by_password :: "'r sign_env \<Rightarrow> string \<Rightarrow> string \<Rightarrow> 'r site \<Rightarrow> user option" where
  "by_password env email pw s = authenticate_user (tk_verify env pw) email (s_users (st_db s))"

definition group_names :: "string \<Rightarrow> string list" where
  "group_names h = filter (\<lambda>g. g \<noteq> []) (map strip (split_on CHR '','' h))"

definition sync_groups :: "'r sign_env \<Rightarrow> moment \<Rightarrow> http_request \<Rightarrow> user option \<Rightarrow> 'r site \<Rightarrow> 'r site" where
  "sync_groups env m q found s = (case found of
     None \<Rightarrow> s
   | Some u \<Rightarrow>
       if zn_trusted_groups env = [] \<or> u_role u = ''admin'' then s
       else (let names = group_names (header_of q (zn_trusted_groups env))
             in if names = [] then s
                else s\<lparr>st_db := (st_db s)\<lparr>s_groups := snd (sync_groups_by_group_names (av_fk env) (mt_group_rows m)
                  (fst (mt_row m)) (u_id u) names (s_groups (st_db s)))\<rparr>\<rparr>))"

text \<open>An unknown address is signed up first; a refusal of the sign-up is the answer.\<close>

definition signed_up ::
  "'r sign_env \<Rightarrow> moment \<Rightarrow> signup_form \<Rightarrow> 'r site \<Rightarrow> ('r site \<Rightarrow> (user option, 'r) site_answer) \<Rightarrow> (user option, 'r) site_answer" where
  "signed_up env m form s k = (case signup env m form s of (Inl h, s1) \<Rightarrow> (Inl h, s1) | (Inr a, s1) \<Rightarrow> k s1)"

text \<open>
  A proxy names the user. \<open>zn_unquote\<close> resolves percent escapes; it is an argument because the characters it
  yields may lie outside of those of this model.
\<close>

definition trusted_name :: "'r sign_env \<Rightarrow> http_request \<Rightarrow> string \<Rightarrow> string" where
  "trusted_name env q email =
     (if zn_trusted_name env = [] then email
      else zn_unquote env (case map_of (hr_headers q) (lower (zn_trusted_name env)) of None \<Rightarrow> email | Some v \<Rightarrow> v))"

definition signin_trusted :: "'r sign_env \<Rightarrow> moment \<Rightarrow> http_request \<Rightarrow> 'r site \<Rightarrow> (user option, 'r) site_answer" where
  "signin_trusted env m q s = (case map_of (hr_headers q) (lower (tk_trusted_email env)) of
     None \<Rightarrow> (Inl BadRequest, s)
   | Some h \<Rightarrow>
       (let email = lower h;
            form = \<lparr>sg_name = trusted_name env q email, sg_email = email, sg_password = mt_random m,
              sg_picture = Some ''/user.png''\<rparr>;
            enter = (\<lambda>s1. let found = authenticate_user_by_email email (s_users (st_db s1))
              in (Inr found, sync_groups env m q found s1))
        in if get_user_by_email (lower email) (s_users (st_db s)) = None then signed_up env m form s enter else enter s))"

text \<open>Without authentication there is one account, with a known password.\<close>

definition signin_open :: "'r sign_env \<Rightarrow> moment \<Rightarrow> 'r site \<Rightarrow> (user option, 'r) site_answer" where
  "signin_open env m s =
     (let email = ''admin@localhost'';
          form = \<lparr>sg_name = ''User'', sg_email = email, sg_password = ''admin'', sg_picture = Some ''/user.png''\<rparr>;
          enter = (\<lambda>s1. (Inr (by_password env email ''admin'' s1), s1))
      in if get_user_by_email email (s_users (st_db s)) \<noteq> None then enter s
         else if has_users (s_users (st_db s)) then (Inl BadRequest, s)
         else signed_up env m form s enter)"

definition signin_password :: "'r sign_env \<Rightarrow> moment \<Rightarrow> string \<Rightarrow> string \<Rightarrow> 'r site \<Rightarrow> (user option, 'r) site_answer" where
  "signin_password env m email pw s =
     (let (limited, lim) = is_limited (zn_limiter env) (zn_redis env) (zn_redis_prefix env) (lower email)
            (mt_limit_1 m) (mt_limit_2 m) (st_limiter s);
          s1 = s\<lparr>st_limiter := lim\<rparr>
      in if limited then (Inl TooManyRequests, s1)
         else (Inr (by_password env (lower email) (shortened_password pw) s1), s1))"

definition signin :: "'r sign_env \<Rightarrow> moment \<Rightarrow> http_request \<Rightarrow> string \<Rightarrow> string \<Rightarrow> 'r site \<Rightarrow> (session_answer, 'r) site_answer" where
  "signin env m q email pw s =
     (if \<not> zn_password_auth env then (Inl Forbidden, s)
      else case (if tk_trusted_email env \<noteq> [] then signin_trusted env m q s
           else if \<not> zn_webui_auth env then signin_open env m s
           else signin_password env m email pw s) of
        (Inl h, s1) \<Rightarrow> (Inl h, s1)
      | (Inr None, s1) \<Rightarrow> (Inl BadRequest, s1)
      | (Inr (Some u), s1) \<Rightarrow> (raising ServerError (start_session (token_env.truncate env) m (mt_jti_2 m) u s1), s1))"

text \<open>
  The sign-out of a request without a session of an identity provider. The cookies are deleted once the token is
  revoked; a header without two parts raises.
\<close>

definition signout_token :: "http_request \<Rightarrow> py_error + string option" where
  "signout_token q = (case hr_authorization q of
     Some h \<Rightarrow> if h = [] then Inr (map_of (hr_cookies q) ''token'')
       else (case header_credentials q of None \<Rightarrow> Inl AttributeError | Some t \<Rightarrow> Inr (Some t))
   | None \<Rightarrow> Inr (map_of (hr_cookies q) ''token''))"

definition signout :: "'r token_env \<Rightarrow> time \<Rightarrow> http_request \<Rightarrow> 'r site \<Rightarrow> (string list, 'r) site_answer" where
  "signout env now q s = (case signout_token q of
     Inl e \<Rightarrow> (Inl ServerError, s)
   | Inr token \<Rightarrow>
       (case (if token = None \<or> token = Some [] then (Inr (), s) else invalidate_token env now (the token) s) of
          (Inl e, s1) \<Rightarrow> (Inl ServerError, s1)
        | (Inr _, s1) \<Rightarrow> (Inr [''token'', ''oui-session'', ''oauth_id_token''], s1)))"

section \<open>The own account\<close>

record profile_form =
  pr_picture :: string
  pr_name :: string
  pr_bio :: "string option"
  pr_gender :: "string option"
  pr_date_of_birth :: "string option"

definition update_profile :: "user \<Rightarrow> profile_form \<Rightarrow> 'r site \<Rightarrow> (user, 'r) site_answer" where
  "update_profile caller form s =
     verified caller s
       (case update_user_by_id (u_id caller) [SetProfileImageUrl (pr_picture form), SetName (pr_name form),
            SetBio (pr_bio form), SetGender (pr_gender form), SetDateOfBirth (pr_date_of_birth form)] (s_users (st_db s)) of
          (None, udb) \<Rightarrow> (Inl BadRequest, with_users udb s)
        | (Some u, udb) \<Rightarrow> (Inr u, with_users udb s))"

text \<open>The password that is validated is the old one.\<close>

definition update_password :: "'r token_env \<Rightarrow> user \<Rightarrow> string \<Rightarrow> string \<Rightarrow> 'r site \<Rightarrow> (bool, 'r) site_answer" where
  "update_password env caller pw new_pw s =
     (if tk_trusted_email env \<noteq> [] then (Inl BadRequest, s)
      else case authenticate_user (tk_verify env pw) (u_email caller) (s_users (st_db s)) of
        None \<Rightarrow> (Inl BadRequest, s)
      | Some u \<Rightarrow>
          if \<not> validate_password (account_env.truncate env) pw then (Inl BadRequest, s)
          else (case av_hash env new_pw of
            Inl e \<Rightarrow> (Inl ServerError, s)
          | Inr h \<Rightarrow> (let (ok, udb) = update_user_password_by_id (u_id u) h (s_users (st_db s)) in (Inr ok, with_users udb s))))"

definition generate_api_key :: "'r token_env \<Rightarrow> time \<Rightarrow> string \<Rightarrow> user \<Rightarrow> 'r site \<Rightarrow> (string, 'r) site_answer" where
  "generate_api_key env now key caller s =
     (if \<not> ag_enable_api_keys (st_config s) then (Inl Forbidden, s)
      else case fst (has_permission (av_builtin env) (u_id caller) ''features.api_keys'' (ag_permissions (st_config s))
          (s_groups (st_db s))) of
        Inl e \<Rightarrow> (Inl ServerError, s)
      | Inr False \<Rightarrow> (Inl Forbidden, s)
      | Inr True \<Rightarrow>
          (let (ok, udb) = update_user_api_key_by_id now (u_id caller) key (s_users (st_db s))
           in (if ok then Inr key else Inl ServerError, with_users udb s)))"

definition delete_api_key :: "user \<Rightarrow> 'r site \<Rightarrow> (bool, 'r) site_answer" where
  "delete_api_key caller s =
     (let (ok, udb) = delete_user_api_key_by_id (u_id caller) (s_users (st_db s)) in (Inr ok, with_users udb s))"

definition get_api_key :: "user \<Rightarrow> 'r site \<Rightarrow> http_error + string" where
  "get_api_key caller s = (case get_user_api_key_by_id (u_id caller) (s_users (st_db s)) of
     None \<Rightarrow> Inl NotFound | Some k \<Rightarrow> if k = [] then Inl NotFound else Inr k)"

section \<open>The configuration of accounts\<close>

definition get_admin_details :: "'r site \<Rightarrow> http_error + string option \<times> string option" where
  "get_admin_details s =
     (let email = ag_admin_email (st_config s); udb = s_users (st_db s)
      in if \<not> ag_show_admin_details (st_config s) then Inl BadRequest
         else if email \<noteq> [] then Inr (map_option u_name (get_user_by_email email udb), Some email)
         else (case get_first_user udb of None \<Rightarrow> Inr (None, Some email) | Some u \<Rightarrow> Inr (Some (u_name u), Some (u_email u))))"

definition get_admin_config :: "user \<Rightarrow> 'r site \<Rightarrow> http_error + admin_config" where
  "get_admin_config caller s =
     (if u_role caller = ''admin'' then Inr (admin_config.truncate (st_config s)) else Inl Unauthorized)"

text \<open>A role or a lifetime the handler does not know leaves the old one in place.\<close>

definition accepted_config :: "admin_config \<Rightarrow> app_config \<Rightarrow> app_config" where
  "accepted_config form c =
     c\<lparr>ag_show_admin_details := ag_show_admin_details form, ag_webui_url := ag_webui_url form,
       ag_enable_signup := ag_enable_signup form, ag_enable_api_keys := ag_enable_api_keys form,
       ag_restrict_api_keys := ag_restrict_api_keys form, ag_api_key_endpoints := ag_api_key_endpoints form,
       ag_folders := ag_folders form, ag_channels := ag_channels form, ag_notes := ag_notes form,
       ag_default_user_role := (if ag_default_user_role form \<in> {''pending'', ''user'', ''admin''}
         then ag_default_user_role form else ag_default_user_role c),
       ag_default_group_id := ag_default_group_id form,
       ag_jwt_expires_in := (if lifetime_pattern (ag_jwt_expires_in form) then ag_jwt_expires_in form
         else ag_jwt_expires_in c),
       ag_community_sharing := ag_community_sharing form, ag_message_rating := ag_message_rating form,
       ag_user_webhooks := ag_user_webhooks form, ag_overlay_title := ag_overlay_title form,
       ag_overlay_content := ag_overlay_content form, ag_watermark := ag_watermark form\<rparr>"

definition update_admin_config :: "user \<Rightarrow> admin_config \<Rightarrow> 'r site \<Rightarrow> (admin_config, 'r) site_answer" where
  "update_admin_config caller form s =
     admin_only caller s
       (let c = accepted_config form (st_config s) in (Inr (admin_config.truncate c), s\<lparr>st_config := c\<rparr>))"

record ldap_config =
  lc_label :: string
  lc_host :: string
  lc_port :: "int option"
  lc_attribute_for_mail :: string
  lc_attribute_for_username :: string
  lc_app_dn :: string
  lc_app_dn_password :: string
  lc_search_base :: string
  lc_search_filters :: string
  lc_use_tls :: bool
  lc_certificate_path :: "string option"
  lc_validate_cert :: bool
  lc_ciphers :: "string option"

definition get_ldap_server :: "user \<Rightarrow> ldap_config \<Rightarrow> http_error + ldap_config" where
  "get_ldap_server caller c = (if u_role caller = ''admin'' then Inr c else Inl Unauthorized)"

definition update_ldap_server :: "user \<Rightarrow> ldap_config \<Rightarrow> ldap_config \<Rightarrow> (http_error + ldap_config) \<times> ldap_config" where
  "update_ldap_server caller form c =
     admin_only caller c
       (if [] \<in> set [lc_label form, lc_host form, lc_attribute_for_mail form, lc_attribute_for_username form,
            lc_app_dn form, lc_app_dn_password form, lc_search_base form]
        then (Inl BadRequest, c) else (Inr form, form))"

section \<open>LDAP\<close>

text \<open>
  The directory server (the library ldap3) is an argument: binding with a name and a password, and a search whose
  first entry is given as the handler reads it. The groups are the values of the configured attribute, if the entry
  has it.
\<close>

record ldap_entry =
  le_username :: string
  le_mail :: json
  le_cn :: string
  le_dn :: string
  le_groups :: "string list option"

record ldap_env =
  ld_enabled :: bool
  ld_manage_groups :: bool
  ld_create_groups :: bool
  ld_tls :: "py_error + unit"
  ld_bind :: "string \<Rightarrow> string \<Rightarrow> py_error + bool"
  ld_escape :: "string \<Rightarrow> string"
  ld_search :: "string \<Rightarrow> py_error + ldap_entry option"
  ld_fresh :: "string \<Rightarrow> id \<times> time \<times> time"

definition ldap_filter :: "ldap_env \<Rightarrow> ldap_config \<Rightarrow> string \<Rightarrow> string" where
  "ldap_filter ld c name =
     ''(&('' @ lc_attribute_for_username c @ ''='' @ ld_escape ld (lower name) @ '')'' @ lc_search_filters c @ '')''"

definition ldap_email :: "json \<Rightarrow> py_error + string" where
  "ldap_email v =
     (if \<not> truthy v then Inl ValueError
      else case v of
        JStr e \<Rightarrow> Inr (lower e)
      | JList (JStr e # _) \<Rightarrow> Inr (lower e)
      | JList _ \<Rightarrow> Inl AttributeError
      | _ \<Rightarrow> Inr (lower (py_str v)))"

definition common_name :: "string \<Rightarrow> string option" where
  "common_name dn =
     (case filter (\<lambda>i. lower (take 3 i) = ''cn='') (map strip (split_on CHR '','' dn)) of
        [] \<Rightarrow> None
      | i # _ \<Rightarrow> if drop 3 i = [] then None else Some (drop 3 i))"

definition ldap_groups :: "ldap_env \<Rightarrow> ldap_entry \<Rightarrow> string list" where
  "ldap_groups ld e = (if ld_manage_groups ld then List.map_filter common_name (opt_list (le_groups e)) else [])"

text \<open>An address without an account gets one, with a random password that is no hash.\<close>

definition ldap_account :: "'r sign_env \<Rightarrow> moment \<Rightarrow> string \<Rightarrow> string \<Rightarrow> 'r site \<Rightarrow> (py_error + unit) \<times> 'r site" where
  "ldap_account env m email cn s =
     (if get_user_by_email email (s_users (st_db s)) \<noteq> None then (Inr (), s)
      else let form = \<lparr>sg_name = cn, sg_email = email, sg_password = mt_random m, sg_picture = Some ''/user.png''\<rparr>;
               role = signup_role (has_users (s_users (st_db s))) s
           in case add_account m form (mt_random m) (Some role) (s_users (st_db s)) of
                (Inl e, udb) \<Rightarrow> (Inl e, with_users udb s)
              | (Inr u, udb) \<Rightarrow> (Inr (), join_default_group (token_env.truncate env) m (u_id u) (with_users udb s)))"

definition ldap_sync :: "'r sign_env \<Rightarrow> ldap_env \<Rightarrow> moment \<Rightarrow> user \<Rightarrow> string list \<Rightarrow> 'r site \<Rightarrow> 'r site" where
  "ldap_sync env ld m u names s =
     (if u_role u = ''admin'' \<or> \<not> ld_manage_groups ld \<or> names = [] then s
      else let gdb = s_groups (st_db s);
               gdb1 = (if ld_create_groups ld then snd (create_groups_by_group_names (u_id u)
                 (map (\<lambda>n. case ld_fresh ld n of (i, t1, t2) \<Rightarrow> (i, t1, t2, n)) names) gdb) else gdb)
           in s\<lparr>st_db := (st_db s)\<lparr>s_groups := snd (sync_groups_by_group_names (av_fk env) (mt_group_rows m)
                (fst (mt_row m)) (u_id u) names gdb1)\<rparr>\<rparr>)"

definition ldap_entry_of :: "ldap_env \<Rightarrow> ldap_config \<Rightarrow> string \<Rightarrow> string \<Rightarrow> py_error + ldap_entry \<times> string" where
  "ldap_entry_of ld c name pw =
     and_then (ld_tls ld) (\<lambda>_.
     and_then (ld_bind ld (lc_app_dn c) (lc_app_dn_password c)) (\<lambda>ok. if \<not> ok then Inl ValueError else
     and_then (ld_search ld (ldap_filter ld c name)) (\<lambda>found. case found of
       None \<Rightarrow> Inl ValueError
     | Some e \<Rightarrow>
         and_then (ldap_email (le_mail e)) (\<lambda>email.
         if lower (le_username e) \<noteq> lower name then Inl ValueError
         else and_then (ld_bind ld (le_dn e) pw) (\<lambda>ok. if ok then Inr (e, email) else Inl ValueError)))))"

text \<open>After the first two checks everything that fails is a bad request; what was written before stays.\<close>

definition ldap_auth ::
  "'r sign_env \<Rightarrow> ldap_env \<Rightarrow> ldap_config \<Rightarrow> moment \<Rightarrow> string \<Rightarrow> string \<Rightarrow> 'r site \<Rightarrow> (session_answer, 'r) site_answer" where
  "ldap_auth env ld c m name pw s =
     (if \<not> ld_enabled ld then (Inl BadRequest, s)
      else if \<not> zn_password_auth env then (Inl Forbidden, s)
      else case ldap_entry_of ld c name pw of
        Inl e \<Rightarrow> (Inl BadRequest, s)
      | Inr (e, email) \<Rightarrow>
          (case ldap_account env m email (le_cn e) s of
             (Inl _, s1) \<Rightarrow> (Inl BadRequest, s1)
           | (Inr _, s1) \<Rightarrow>
               (case authenticate_user_by_email email (s_users (st_db s1)) of
                  None \<Rightarrow> (Inl BadRequest, s1)
                | Some u \<Rightarrow>
                    (case start_session (token_env.truncate env) m (mt_jti m) u s1 of
                       Inl _ \<Rightarrow> (Inl BadRequest, s1)
                     | Inr a \<Rightarrow> (Inr a, ldap_sync env ld m u (ldap_groups ld e) s1)))))"

end
