(* ===== verification/Session_Life.thy ===== *)
theory Session_Life
  imports Sign_In
begin

text \<open>
  What a token is good for: from the sign-in that issues it to its expiry or the sign-out; and the corners of
  \<^verbatim>\<open>routers/auths.py\<close> and \<^verbatim>\<open>utils/auth.py\<close> where an answer is not what the surrounding code suggests.
\<close>

section \<open>Tokens\<close>

definition token_expiry :: "moment \<Rightarrow> int option \<Rightarrow> time option" where
  "token_expiry m delta = (if has_lifetime delta then Some ((mt_token_us m + the delta) div 1000000) else None)"

definition alive :: "time option \<Rightarrow> time \<Rightarrow> bool" where
  "alive e now = (case e of None \<Rightarrow> True | Some t \<Rightarrow> now < t)"

text \<open>
  What PyJWT promises of the tokens of one sign-in: a token reads back as what was signed, until it has expired;
  no token looks like an API key.
\<close>

definition signs :: "'r token_env \<Rightarrow> id \<Rightarrow> string \<Rightarrow> bool" where
  "signs env uid jti \<longleftrightarrow> (\<forall>e t.
     tk_decode env t (tk_encode env (token_payload uid jti e)) = (if alive e t then Some (token_payload uid jti e) else None) \<and>
     \<not> startswith (tk_encode env (token_payload uid jti e)) ''sk-'')"

text \<open>What Redis promises of the key of a revoked token while it lives.\<close>

definition keeps_revoked :: "'r token_env \<Rightarrow> bool" where
  "keeps_revoked env \<longleftrightarrow> (\<forall>k n r r'. tk_set env k n r = Some r' \<longrightarrow> tk_get env k r' = Some True)"

lemma create_token_Inr:
  "create_token env now_us jti uid delta = Inr token \<Longrightarrow>
     token = tk_encode env (token_payload uid jti (if has_lifetime delta then Some ((now_us + the delta) div 1000000) else None))"
  by (auto simp: create_token_def Let_def split: if_splits)

lemma start_session_token:
  assumes "start_session env m jti u s = Inr a"
  obtains delta where "parse_duration (ag_jwt_expires_in (st_config s)) = Inr delta"
    "an_token a = tk_encode env (token_payload (u_id u) jti (token_expiry m delta))" "an_user a = u"
  using assms
  by (auto simp: start_session_def and_then_Inr_iff Let_def token_expiry_def dest!: create_token_Inr split: if_splits)

lemma payload_simps [simp]:
  "dget (token_payload uid jti e) ''id'' = Some (JStr uid)"
  "dget_or (token_payload uid jti e) ''jti'' JNull = JStr jti"
  "dget_or (token_payload uid jti e) ''exp'' JNull = (case e of None \<Rightarrow> JNull | Some t \<Rightarrow> JInt t)"
  by (auto simp: token_payload_def dget_or_def split: option.split)

definition revoked :: "'r token_env \<Rightarrow> string \<Rightarrow> 'r site \<Rightarrow> bool option" where
  "revoked env jti s = (case st_redis s of None \<Rightarrow> Some False | Some r \<Rightarrow> tk_get env (revoked_key env (JStr jti)) r)"

lemma jwt_user_of_payload:
  assumes "signs env uid jti" "jti \<noteq> []" "tk_trusted_email env = []" "get_user_by_id uid (s_users (st_db s)) = Some v"
  shows "jwt_user env now q (tk_encode env (token_payload uid jti e)) s =
    (if \<not> alive e now then Inl Unauthorized
     else case revoked env jti s of None \<Rightarrow> Inl ServerError | Some True \<Rightarrow> Inl Unauthorized | Some False \<Rightarrow> Inr v)"
proof -
  have "tk_decode env now (tk_encode env (token_payload uid jti e)) = (if alive e now then Some (token_payload uid jti e) else None)"
    using assms(1) by (simp add: signs_def)
  then show ?thesis using assms(2-4)
    by (simp add: jwt_user_def is_valid_token_def revoked_def raising_def split: option.split bool.split)
qed

lemma current_user_of_payload:
  assumes "signs env uid jti" "request_token q = Some (tk_encode env (token_payload uid jti e))"
  shows "fst (get_current_user env tick now q s) = jwt_user env now q (tk_encode env (token_payload uid jti e)) s"
  using assms by (simp add: get_current_user_def signs_def case_prod_beta split: sum.split)

lemma signout_revokes:
  assumes "signs env uid jti" "jti \<noteq> []" "signout_token q = Inr (Some (tk_encode env (token_payload uid jti e)))"
    and "tk_encode env (token_payload uid jti e) \<noteq> []" "alive e t" "0 \<le> t"
    and "signout env t q s = (Inr ds, s')"
  shows "case (st_redis s, e) of
      (Some r, Some x) \<Rightarrow> \<exists>r'. tk_set env (revoked_key env (JStr jti)) (x - t) r = Some r' \<and> s' = s\<lparr>st_redis := Some r'\<rparr>
    | _ \<Rightarrow> s' = s"
proof -
  have d: "e = x \<Longrightarrow> tk_decode env t (tk_encode env (token_payload uid jti x)) = Some (token_payload uid jti x)" for x
    using assms(1,5) by (simp add: signs_def)
  show ?thesis using assms(2-)
    by (cases "st_redis s"; cases e)
      (auto simp: signout_def invalidate_token_def d Let_def alive_def split: option.splits if_splits)
qed

text \<open>
  C9: The token of a sign-in answers for its user, by the row the account has now, until it expires; signing out with
  it ends that at once where a Redis store keeps the revoked tokens and the token has an expiry. In every other case
  it goes on until it expires. Hypotheses: what PyJWT and Redis promise, and that the server does not stand behind a
  proxy that names users.
\<close>

theorem session_ends:
  assumes "start_session env m jti u s0 = Inr a" "parse_duration (ag_jwt_expires_in (st_config s0)) = Inr delta"
    and "signs env (u_id u) jti" "keeps_revoked env" "jti \<noteq> []" "tk_trusted_email env = []"
    and "request_token q = Some (an_token a)" "signout_token q' = Inr (Some (an_token a))" "an_token a \<noteq> []"
    and "get_user_by_id (u_id u) (s_users (st_db s)) = Some v"
    and "fst (get_current_user env tick t q s) = Inr w" "0 \<le> t"
    and "signout env t q' s = (Inr ds, s')"
  shows "w = v \<and> fst (get_current_user env tick' t' q s') =
    (if alive (token_expiry m delta) t' \<and> (st_redis s = None \<or> token_expiry m delta = None) then Inr v
     else Inl Unauthorized)"
proof -
  define e where "e = token_expiry m delta"
  have token: "an_token a = tk_encode env (token_payload (u_id u) jti e)"
    using start_session_token[OF assms(1)] assms(2) by (metis e_def sum.inject(2))
  have req: "request_token q = Some (tk_encode env (token_payload (u_id u) jti e))" using assms(7) token by simp
  note user = current_user_of_payload[OF assms(3) req] jwt_user_of_payload[OF assms(3,5,6)]
  have before: "alive e t" "revoked env jti s = Some False" "w = v"
    using assms(11) unfolding user(1) user(2)[OF assms(10)] by (auto split: if_splits option.splits bool.splits)
  have out: "case (st_redis s, e) of
      (Some r, Some x) \<Rightarrow> \<exists>r'. tk_set env (revoked_key env (JStr jti)) (x - t) r = Some r' \<and> s' = s\<lparr>st_redis := Some r'\<rparr>
    | _ \<Rightarrow> s' = s"
    by (rule signout_revokes[OF assms(3,5) _ _ before(1) assms(12,13)]) (use assms(8,9) token in simp_all)
  have row: "get_user_by_id (u_id u) (s_users (st_db s')) = Some v"
    using out assms(10) by (cases "st_redis s"; cases e) auto
  have "revoked env jti s' = Some (st_redis s \<noteq> None \<and> e \<noteq> None)"
    using out before(2) assms(4) by (cases "st_redis s"; cases e) (auto simp: revoked_def keeps_revoked_def)
  then show ?thesis
    using before(3) unfolding user(1) user(2)[OF row] e_def[symmetric] by auto
qed

text \<open>A server with two accounts, a store of revoked tokens, and tokens that spell out their expiry.\<close>

definition demo_tokens :: "string list token_env" where
  "demo_tokens =
     \<lparr>av_fk = None, av_esc = None, av_builtin = [], av_password_rule = None, av_hash = (\<lambda>p. Inr (''#'' @ p)),
      tk_encode = (\<lambda>d. ''ey'' @ (case dget d ''exp'' of Some (JInt e) \<Rightarrow> int_str e | _ \<Rightarrow> ''x'')),
      tk_decode = (\<lambda>t token. case py_int (drop 2 token) of
         None \<Rightarrow> Some (token_payload ''kim'' ''j1'' None)
       | Some e \<Rightarrow> if t < e then Some (token_payload ''kim'' ''j1'' (Some e)) else None),
      tk_verify = (\<lambda>p h. h = ''#'' @ p), tk_get = (\<lambda>k r. Some (k \<in> set r)), tk_set = (\<lambda>k n r. Some (k # r)),
      tk_prefix = ''open-webui'', tk_trusted_email = [], tk_interval = None\<rparr>"

definition demo_config :: app_config where
  "demo_config =
     \<lparr>ag_show_admin_details = True, ag_webui_url = [], ag_enable_signup = True, ag_enable_api_keys = True,
      ag_restrict_api_keys = True, ag_api_key_endpoints = ''/api/models'', ag_default_user_role = ''pending'',
      ag_default_group_id = [], ag_jwt_expires_in = ''4w'', ag_community_sharing = True, ag_message_rating = True,
      ag_folders = True, ag_channels = True, ag_notes = True, ag_user_webhooks = True, ag_overlay_title = None,
      ag_overlay_content = None, ag_watermark = None, ag_login_form = True, ag_permissions = [], ag_admin_email = []\<rparr>"

definition demo_site :: "string list site" where
  "demo_site =
     \<lparr>st_db = \<lparr>s_users = sample_users, s_groups = sample_groups,
        s_chats = \<lparr>chats = [], chat_tags = []\<rparr>\<rparr>, st_config = demo_config, st_calls = Map.empty,
      st_redis = Some [], st_limiter = \<lparr>memory = Map.empty, redis = None\<rparr>\<rparr>"

definition demo_moment :: moment where
  "demo_moment =
     \<lparr>mt_session_us = 100000000, mt_token_us = 100000000, mt_limit_1 = 100, mt_limit_2 = 100, mt_row = (100, 100, 100),
      mt_jti = ''j1'', mt_jti_2 = ''j1'', mt_uid = ''u9'', mt_member = ''m9'', mt_group_rows = (\<lambda>g. ''r'' @ g),
      mt_random = ''secret''\<rparr>"

definition bearer_request :: "string \<Rightarrow> http_request" where
  "bearer_request token =
     \<lparr>hr_authorization = Some (''Bearer '' @ token), hr_bearer = Some token, hr_cookies = [], hr_headers = [],
      hr_path = ''/api/chats''\<rparr>"

lemma demo_signs: "signs demo_tokens ''kim'' ''j1''"
proof -
  have p: "dget (token_payload ''kim'' ''j1'' e) ''exp'' = map_option JInt e" for e
    by (simp add: token_payload_def split: option.split)
  have x: "py_int ''x'' = None" by code_simp
  show ?thesis
    unfolding signs_def demo_tokens_def
    by (simp add: p x alive_def split: option.split) (intro allI conjI impI; simp add: startswith_def)
qed

lemma session_ends_witness:
  "kim = kim \<and> fst (get_current_user demo_tokens 0 200 (bearer_request ''ey2419300'')
     (snd (signout demo_tokens 150 (bearer_request ''ey2419300'') demo_site))) = Inl Unauthorized"
proof -
  define a where "a = \<lparr>an_token = ''ey2419300'', an_expires_at = Some 2419300, an_cookie_expires = Some 2419300,
      an_user = kim, an_permissions = [(''chat'', JDict [(''delete'', JBool True)])]\<rparr>"
  have s: "start_session demo_tokens demo_moment ''j1'' kim demo_site = Inr a" unfolding a_def by code_simp
  have d: "parse_duration (ag_jwt_expires_in (st_config demo_site)) = Inr (Some 2419200000000)" by code_simp
  have e: "token_expiry demo_moment (Some 2419200000000) = Some 2419300" by code_simp
  have o1: "signout demo_tokens 150 (bearer_request ''ey2419300'') demo_site =
      (Inr [''token'', ''oui-session'', ''oauth_id_token''],
       snd (signout demo_tokens 150 (bearer_request ''ey2419300'') demo_site))"
    by (rule prod_eqI) (code_simp, simp)
  have k: "u_id kim = ''kim''" by code_simp
  have w: "fst (get_current_user demo_tokens 0 150 (bearer_request ''ey2419300'') demo_site) = Inr kim" by code_simp
  have g: "get_user_by_id ''kim'' (s_users (st_db demo_site)) = Some kim" by code_simp
  have "kim = kim \<and> fst (get_current_user demo_tokens 0 200 (bearer_request ''ey2419300'')
     (snd (signout demo_tokens 150 (bearer_request ''ey2419300'') demo_site))) =
    (if alive (token_expiry demo_moment (Some 2419200000000)) 200 \<and>
        (st_redis demo_site = None \<or> token_expiry demo_moment (Some 2419200000000) = None) then Inr kim else Inl Unauthorized)"
  proof (rule session_ends[OF s d _ _ _ _ _ _ _ _ w _ o1])
    show "signs demo_tokens (u_id kim) ''j1''" by (simp add: k demo_signs)
    show "keeps_revoked demo_tokens" by (auto simp: keeps_revoked_def demo_tokens_def)
    show "get_user_by_id (u_id kim) (s_users (st_db demo_site)) = Some kim" by (simp add: k g)
    show "signout_token (bearer_request ''ey2419300'') = Inr (Some (an_token a))" unfolding a_def by code_simp
    show "request_token (bearer_request ''ey2419300'') = Some (an_token a)" unfolding a_def by code_simp
  qed (simp_all add: a_def demo_tokens_def)
  then show ?thesis unfolding e by (simp add: demo_site_def)
qed

section \<open>Corners\<close>

text \<open>
  Changing the password checks the rules of passwords on the old password; the new one is hashed whatever it is.
\<close>

lemma new_password_unchecked:
  assumes "tk_trusted_email env = []" "authenticate_user (tk_verify env pw) (u_email caller) (s_users (st_db s)) = Some u"
    and "validate_password (account_env.truncate env) pw" "av_hash env new_pw = Inr h"
  shows "\<exists>ok. fst (update_password env caller pw new_pw s) = Inr ok"
  using assms by (simp add: update_password_def case_prod_beta)

text \<open>A password the rules refuse is answered with 400 when an administrator sets it, and with 500 at the sign-up.\<close>

lemma refused_password_is_server_error:
  assumes "signup_open env (has_users (s_users (st_db s))) s" "validate_email_format (lower (sg_email form))"
    and "get_user_by_email (lower (sg_email form)) (s_users (st_db s)) = None"
    and "\<not> validate_password (account_env.truncate env) (sg_password form)"
  shows "signup env m form s = (Inl ServerError, s)"
  using assms by (simp add: signup_def)

text \<open>The restriction of API keys to paths does not see a key that comes in the cookie.\<close>

lemma cookie_key_unrestricted:
  assumes "hr_authorization q = None"
  shows "authenticate env tick now q s = get_current_user env tick now q s"
  using assms by (simp add: authenticate_def restrict_api_key_def header_token_def)

lemma header_key_restricted:
  assumes "header_token q = Inr (Some t)" "startswith t ''sk-''" "ag_restrict_api_keys (st_config s)"
    and "\<not> path_allowed (st_config s) (hr_path q)"
  shows "authenticate env tick now q s = (Inl Forbidden, [], s)"
  using assms by (simp add: authenticate_def restrict_api_key_def)

text \<open>A request authenticated by its cookie alone cannot ask for its session.\<close>

lemma cookie_session_raises: "hr_authorization q = None \<Longrightarrow> get_session_user env now q caller s = Inl ServerError"
  by (simp add: get_session_user_def header_credentials_def)

text \<open>Lifetimes the form accepts with which nobody can sign in, and one that means that tokens never expire.\<close>

lemma accepted_lifetimes:
  "lifetime_pattern ''0\<newline>'' \<and> parse_duration ''0\<newline>'' = Inl ValueError"
  "lifetime_pattern ''9999999w'' \<and> parse_duration ''9999999w'' = Inr (Some 6047999395200000000)"
  "lifetime_pattern ''0s'' \<and> parse_duration ''0s'' = Inr (Some 0) \<and> \<not> has_lifetime (Some 0)"
  by code_simp+

lemma far_lifetime_locks_out:
  assumes "parse_duration (ag_jwt_expires_in (st_config s)) = Inr (Some d)" "d > 253402300800000000" "mt_token_us m \<ge> 0"
  shows "start_session env m jti u s = Inl ValueError"
  using assms by (simp add: start_session_def create_token_def has_lifetime_def is_date_def Let_def)

text \<open>
  An administrator may use an API key without the permission for API keys, but gets none without it.
\<close>

lemma admin_gets_no_key:
  assumes "ag_enable_api_keys (st_config s)"
    and "fst (has_permission (av_builtin env) (u_id u) ''features.api_keys'' (ag_permissions (st_config s)) (s_groups (st_db s))) = Inr False"
    and "get_user_by_api_key key (s_users (st_db s)) = Some u" "u_role u = ''admin''"
  shows "fst (generate_api_key env now new_key u s) = Inl Forbidden \<and>
    fst (get_current_user_by_api_key env tick now key s) = Inr u"
  using assms by (simp add: generate_api_key_def get_current_user_by_api_key_def)

text \<open>Where tokens are revoked, a sign-out with a token that does not read back fails and deletes no cookie.\<close>

lemma stale_signout_fails:
  assumes "st_redis s = Some r" "signout_token q = Inr (Some t)" "t \<noteq> []" "tk_decode env now t = None"
  shows "signout env now q s = (Inl ServerError, s)"
  using assms by (simp add: signout_def invalidate_token_def)

text \<open>Who becomes an administrator by signing up: the first account, which also closes the sign-up.\<close>

lemma first_signup_is_admin:
  assumes "signup env m form s = (Inr a, s')"
  shows "u_role (an_user a) = (if has_users (s_users (st_db s)) then ag_default_user_role (st_config s) else ''admin'') \<and>
    (has_users (s_users (st_db s)) \<or> \<not> ag_enable_signup (st_config s'))"
proof -
  have r: "u_role u = r" if "add_account m form h (Some r) udb = (Inr u, b)" for h r udb u b
    using that by (auto simp: add_account_def insert_new_auth_def insert_new_user_def new_user_def Let_def
        split: option.splits prod.splits sum.splits if_splits)
  have "an_user a = u" if "start_session env' m j u x = Inr a" for env' :: "'a token_env" and j u x
    using that by (rule start_session_token) simp
  then show ?thesis using assms
    by (auto simp: signup_def Let_def signup_role_def close_signup_def join_default_group_def with_users_def
        split: if_splits sum.splits prod.splits dest!: r)
qed

end
