(* ===== verification/Accounts.thy ===== *)
theory Accounts
  imports Session_Life
begin

text \<open>
  The requests of \<^verbatim>\<open>routers/users.py\<close> and \<^verbatim>\<open>routers/auths.py\<close> together: what no sequence of them can do to the
  primary administrator, what a token is good for, and who becomes an administrator.
\<close>

section \<open>The oldest account\<close>

lemma first_sorted_iff:
  "first_row (\<lambda>_. True) (sort_key k xs) = Some p \<longleftrightarrow>
     (\<forall>x \<in> set xs. k p \<le> k x) \<and> first_row (\<lambda>x. k x = k p) xs = Some p"
proof -
  have first: "first_row P ys = (case filter P ys of [] \<Rightarrow> None | y # _ \<Rightarrow> Some y)" for P :: "'a \<Rightarrow> bool" and ys
    by (induction ys) auto
  have stable: "first_row (\<lambda>x. k x = k y) (sort_key k xs) = first_row (\<lambda>x. k x = k y) xs" for y
    by (simp only: first sort_key_stable)
  show ?thesis
  proof (cases "sort_key k xs")
    case Nil
    then have "set xs = {}" by (metis set_sort set_empty)
    then show ?thesis by simp
  next
    case (Cons q qs)
    have "sorted (map k (q # qs))" using Cons by (metis sorted_sort_key)
    then have le: "\<And>x. x \<in> set xs \<Longrightarrow> k q \<le> k x" using Cons by (metis list.set_intros(1) list.simps(15) insertE set_sort sorted_simps(2) list.simps(9) image_eqI list.set_map order_refl)
    have q: "q \<in> set xs" using Cons by (metis list.set_intros(1) set_sort)
    show ?thesis
    proof
      assume "first_row (\<lambda>_. True) (sort_key k xs) = Some p"
      then have "p = q" using Cons by simp
      then have "first_row (\<lambda>x. k x = k p) (sort_key k xs) = Some p" using Cons by simp
      then show "(\<forall>x \<in> set xs. k p \<le> k x) \<and> first_row (\<lambda>x. k x = k p) xs = Some p"
        using le \<open>p = q\<close> by (simp add: stable)
    next
      assume r: "(\<forall>x \<in> set xs. k p \<le> k x) \<and> first_row (\<lambda>x. k x = k p) xs = Some p"
      then have "p \<in> set xs" by (blast dest: first_row_SomeD)
      then have "k q = k p" using r le q by (metis order_antisym)
      moreover have "first_row (\<lambda>x. k x = k p) (sort_key k xs) = Some p" using r by (simp add: stable)
      ultimately show "first_row (\<lambda>_. True) (sort_key k xs) = Some p" using Cons by simp
    qed
  qed
qed

lemma get_first_user_iff:
  "get_first_user udb = Some p \<longleftrightarrow>
     (\<forall>u \<in> set (users udb). u_created_at p \<le> u_created_at u) \<and>
     first_row (\<lambda>u. u_created_at u = u_created_at p) (users udb) = Some p"
  unfolding get_first_user_def by (rule first_sorted_iff)

text \<open>What the tables hold about an account besides its row.\<close>

definition credentials :: "id \<Rightarrow> user_db \<Rightarrow> auth option \<times> api_key list" where
  "credentials i udb = (row_get au_id i (auths udb), all_rows (\<lambda>k. ak_user_id k = i) (api_keys udb))"

definition primary :: "id \<Rightarrow> user \<Rightarrow> user_db \<Rightarrow> bool" where
  "primary i p udb \<longleftrightarrow> unique_key u_id (users udb) \<and> unique_key u_email (users udb) \<and>
     get_first_user udb = Some p \<and> u_id p = i \<and> u_role p = ''admin''"

definition shielded :: "id \<Rightarrow> bool \<Rightarrow> user_db \<Rightarrow> user_db \<Rightarrow> bool" where
  "shielded i own a b \<longleftrightarrow> (\<forall>p. primary i p a \<longrightarrow>
     (\<exists>q. primary i q b \<and> u_created_at q = u_created_at p \<and>
        (\<not> own \<longrightarrow> q = p \<and> credentials i b = credentials i a)))"

lemma shielded_refl [simp, intro]: "shielded i own a a"
  by (auto simp: shielded_def)

lemma shielded_trans: "shielded i own a b \<Longrightarrow> shielded i own b c \<Longrightarrow> shielded i own a c"
  unfolding shielded_def by (metis (no_types, lifting))

lemma primary_row: "primary i p udb \<Longrightarrow> p \<in> set (users udb) \<and> get_user_by_id i udb = Some p"
  by (auto simp: primary_def get_first_user_iff get_user_by_id_def row_get_def first_row_key_iff
      dest: first_row_SomeD)

lemma first_row_map:
  "(\<And>r. r \<in> set rs \<Longrightarrow> P (g r) = P r) \<Longrightarrow> first_row P (map g rs) = map_option g (first_row P rs)"
  by (induction rs) auto

lemma first_row_filter: "first_row P rs = Some r \<Longrightarrow> \<not> Q r \<Longrightarrow> first_row P (del_rows Q rs) = Some r"
  by (induction rs) (auto split: if_splits)

text \<open>The three ways a request changes the rows: an update of one account, a new one, the deletion of another.\<close>

lemma shielded_update:
  assumes us: "users b = upd_rows (\<lambda>u. u_id u = j) f (users a)"
    and keeps: "\<And>u. u_id (f u) = u_id u" "\<And>u. u_created_at (f u) = u_created_at u"
    and mail: "unique_key u_id (users a) \<Longrightarrow> unique_key u_email (users a) \<Longrightarrow> unique_key u_email (users b)"
    and mine: "j = i \<Longrightarrow> own \<and> (\<forall>u. u_role u = ''admin'' \<longrightarrow> u_role (f u) = ''admin'')"
    and cred: "\<not> own \<Longrightarrow> credentials i b = credentials i a"
  shows "shielded i own a b"
  unfolding shielded_def
proof (intro allI impI)
  fix p assume p: "primary i p a"
  define g where "g = (\<lambda>u. if u_id u = j then f u else u)"
  have b: "users b = map g (users a)" by (simp add: us upd_rows_def g_def)
  have g: "u_id (g u) = u_id u" "u_created_at (g u) = u_created_at u" for u by (simp_all add: g_def keeps)
  have "unique_key u_id (users b)" using p by (simp add: primary_def us unique_key_upd_rows keeps)
  moreover have "get_first_user b = Some (g p)"
    using p unfolding primary_def get_first_user_iff b by (simp add: g first_row_map)
  moreover have "u_id (g p) = i" "u_role (g p) = ''admin''"
    using p mine by (auto simp: primary_def g_def keeps)
  ultimately have "primary i (g p) b" using p mail by (simp add: primary_def)
  moreover have "g p = p" if "\<not> own" using that p mine by (auto simp: g_def primary_def)
  ultimately show "\<exists>q. primary i q b \<and> u_created_at q = u_created_at p \<and>
      (\<not> own \<longrightarrow> q = p \<and> credentials i b = credentials i a)"
    using cred g(2) by blast
qed

lemma shielded_add:
  assumes us: "users b = users a @ [r]" "u_id r \<notin> u_id ` set (users a)" "u_email r \<notin> u_email ` set (users a)"
    and older: "\<And>p. primary i p a \<Longrightarrow> u_created_at p \<le> u_created_at r"
    and cred: "\<And>p. primary i p a \<Longrightarrow> credentials i b = credentials i a"
  shows "shielded i own a b"
proof -
  have "get_first_user b = Some p" if p: "primary i p a" for p
    using p older[OF p] by (auto simp: primary_def get_first_user_iff us first_row_append)
  then have "primary i p b" if "primary i p a" for p
    using that us by (auto simp: primary_def unique_key_append)
  then show ?thesis using cred unfolding shielded_def by blast
qed

lemma shielded_delete:
  assumes us: "users b = row_del u_id j (users a)" and j: "\<And>p. primary i p a \<Longrightarrow> j \<noteq> i"
    and cred: "\<And>p. primary i p a \<Longrightarrow> credentials i b = credentials i a"
  shows "shielded i own a b"
proof -
  have "get_first_user b = Some p" if p: "primary i p a" for p
    using p j[OF p] by (auto simp: primary_def get_first_user_iff us row_del_def intro!: first_row_filter)
  then have "primary i p b" if "primary i p a" for p
    using that by (auto simp: primary_def us row_del_def)
  then show ?thesis using cred unfolding shielded_def by blast
qed

text \<open>Changes outside of the table of accounts.\<close>

lemma shielded_same_users:
  assumes "users b = users a" and "\<And>p. \<not> own \<Longrightarrow> primary i p a \<Longrightarrow> credentials i b = credentials i a"
  shows "shielded i own a b"
  using assms by (auto simp: shielded_def primary_def get_first_user_def)

lemma shielded_auth_update:
  assumes "\<And>x. au_id (f x) = au_id x" "\<And>p. \<not> own \<Longrightarrow> primary i p a \<Longrightarrow> j \<noteq> i"
  shows "shielded i own a (snd (update_auth j f a))"
  using assms(2) by (intro shielded_same_users) (auto simp: update_auth_def credentials_def row_get_upd_key assms(1))

lemma shielded_password: "(\<And>p. \<not> own \<Longrightarrow> primary i p a \<Longrightarrow> j \<noteq> i) \<Longrightarrow> shielded i own a (snd (update_user_password_by_id j h a))"
  unfolding update_user_password_by_id_def by (rule shielded_auth_update) simp_all

lemma shielded_mail: "(\<And>p. \<not> own \<Longrightarrow> primary i p a \<Longrightarrow> j \<noteq> i) \<Longrightarrow> shielded i own a (snd (update_email_by_id j h a))"
  unfolding update_email_by_id_def by (rule shielded_auth_update) simp_all

lemma update_auth_users [simp]:
  "users (snd (update_user_password_by_id j h a)) = users a" "users (snd (update_email_by_id j h a)) = users a"
  by (simp_all add: update_user_password_by_id_def update_email_by_id_def update_auth_def)

text \<open>An update of one account that keeps its address, or gives it one that no other account has.\<close>

lemma shielded_where:
  assumes keeps: "\<And>u. u_created_at (f u) = u_created_at u" "\<And>u. u_id (f u) = u_id u"
    and mail: "(\<forall>u. u_email (f u) = u_email u) \<or>
      (\<exists>e. (\<forall>u. u_email (f u) = e) \<and> (\<forall>u \<in> set (users a). u_id u \<noteq> j \<longrightarrow> u_email u \<noteq> e))"
    and mine: "j = i \<Longrightarrow> own \<and> (\<forall>u. u_role u = ''admin'' \<longrightarrow> u_role (f u) = ''admin'')"
  shows "shielded i own a (snd (update_user_where j f a))"
proof (rule shielded_update[OF _ keeps(2,1) _ mine])
  show "users (snd (update_user_where j f a)) = upd_rows (\<lambda>u. u_id u = j) f (users a)"
    by (simp add: update_user_where_def Let_def)
  show "unique_key u_email (users (snd (update_user_where j f a)))"
    if u: "unique_key u_id (users a)" "unique_key u_email (users a)"
  proof (rule disjE[OF mail])
    assume "\<exists>e. (\<forall>u. u_email (f u) = e) \<and> (\<forall>u \<in> set (users a). u_id u \<noteq> j \<longrightarrow> u_email u \<noteq> e)"
    then obtain e where e: "\<And>u. u_email (f u) = e" "\<forall>u \<in> set (users a). u_id u \<noteq> j \<longrightarrow> u_email u \<noteq> e" by blast
    have "unique_key u_email (upd_rows (\<lambda>u. u_id u = j) f rs)"
      if "unique_key u_id rs" "unique_key u_email rs" "\<forall>u \<in> set rs. u_id u \<noteq> j \<longrightarrow> u_email u \<noteq> e" for rs
      using that
    proof (induction rs)
      case (Cons r rs)
      have IH: "unique_key u_email (upd_rows (\<lambda>u. u_id u = j) f rs)" using Cons by simp
      have no: "e \<notin> u_email ` set rs" if "u_id r = j" using Cons.prems(1,3) that by (auto simp: image_iff) metis
      have idle: "upd_rows (\<lambda>u. u_id u = j) f rs = rs" if "u_id r = j"
        unfolding upd_rows_def using Cons.prems(1) that by (intro map_idI) (auto simp: image_iff)
      have "u_email ` set (upd_rows (\<lambda>u. u_id u = j) f rs) \<subseteq> insert e (u_email ` set rs)"
        by (auto simp: set_upd_rows e(1))
      then show ?case using Cons.prems IH no idle by (auto simp: e(1))
    qed simp
    then show ?thesis using u e(2) by (simp add: update_user_where_def Let_def)
  qed (use u in \<open>simp add: update_user_where_def Let_def unique_key_upd_rows\<close>)
qed (simp_all add: update_user_where_def Let_def credentials_def)

lemma shielded_columns:
  assumes "\<And>u. u_created_at (fold set_column cs u) = u_created_at u" "\<And>u. u_id (fold set_column cs u) = u_id u"
    and "(\<forall>u. u_email (fold set_column cs u) = u_email u) \<or>
      (\<exists>e. (\<forall>u. u_email (fold set_column cs u) = e) \<and> (\<forall>u \<in> set (users a). u_id u \<noteq> j \<longrightarrow> u_email u \<noteq> e))"
    and "j = i \<Longrightarrow> own \<and> (\<forall>u. u_role u = ''admin'' \<longrightarrow> u_role (fold set_column cs u) = ''admin'')"
  shows "shielded i own a (snd (update_user_by_id j cs a))"
  by (cases "cs = []") (auto simp: update_user_by_id_def intro!: shielded_where assms)

section \<open>The handlers\<close>

text \<open>A call in a chain of two results.\<close>

lemma email_free:
  assumes "email \<noteq> u_email u \<Longrightarrow> get_user_by_email email udb = None"
    and "get_user_by_id j udb = Some u" "unique_key u_email (users udb)"
  shows "\<forall>v \<in> set (users udb). u_id v \<noteq> j \<longrightarrow> u_email v \<noteq> email"
proof (intro ballI impI notI)
  fix v assume v: "v \<in> set (users udb)" "u_id v \<noteq> j" "u_email v = email"
  have "u \<in> set (users udb)" "u_id u = j" using assms(2) by (auto simp: get_user_by_id_def dest: row_get_SomeD)
  moreover have "email = u_email u" using assms(1) v by (auto simp: get_user_by_email_def first_row_None_iff)
  ultimately show False using v unique_keyD[OF assms(3), of v u] by auto
qed

lemma shielded_new_password:
  assumes "new_password env j pw a = Inr b" "\<And>p. \<not> own \<Longrightarrow> primary i p a \<Longrightarrow> j \<noteq> i"
  shows "shielded i own a b \<and> users b = users a"
  using assms by (auto simp: new_password_def and_then_Inr_iff intro: shielded_password split: option.splits if_splits)

lemma is_primary_iff: "primary i p udb \<Longrightarrow> is_primary j udb \<longleftrightarrow> j = i"
  by (auto simp: is_primary_def primary_def)

lemma shielded_given: "(\<And>p. primary i p a \<Longrightarrow> shielded i own a b) \<Longrightarrow> shielded i own a b"
  unfolding shielded_def by blast

lemma shielded_update_user_handler:
  "shielded i (u_id caller = i) (s_users s) (s_users (snd (update_user_handler env caller j form s)))"
proof (rule shielded_given)
  fix p assume p: "primary i p (s_users s)"
  show ?thesis
  proof (cases "u_role caller = ''admin'' \<and> \<not> update_refused caller j form (s_users s)")
    case True
    then have mine: "j = i \<Longrightarrow> u_id caller = i \<and> uu_role form = ''admin''"
      by (auto simp: update_refused_def is_primary_iff[OF p])
    define email where "email = lower (uu_email form)"
    define cs where "cs = [SetRole (uu_role form), SetName (uu_name form), SetEmail email,
        SetProfileImageUrl (uu_profile_image_url form)]"
    have step: "shielded i (u_id caller = i) (s_users s)
        (snd (update_user_by_id j cs (snd (update_email_by_id j email udb1))))"
      if pw: "new_password env j (uu_password form) (s_users s) = Inr udb1"
        and free: "\<forall>v \<in> set (users (s_users s)). u_id v \<noteq> j \<longrightarrow> u_email v \<noteq> email" for udb1
    proof (rule shielded_trans[OF _ shielded_trans])
      have g: "shielded i (u_id caller = i) (s_users s) udb1 \<and> users udb1 = users (s_users s)"
        by (rule shielded_new_password[OF pw]) (use mine in auto)
      then show "shielded i (u_id caller = i) (s_users s) udb1" by blast
      show "shielded i (u_id caller = i) udb1 (snd (update_email_by_id j email udb1))"
        by (rule shielded_mail) (use mine in auto)
      show "shielded i (u_id caller = i) (snd (update_email_by_id j email udb1))
          (snd (update_user_by_id j cs (snd (update_email_by_id j email udb1))))"
        by (rule shielded_columns) (use mine free g in \<open>auto simp: cs_def\<close>)
    qed
    have "shielded i (u_id caller = i) (s_users s) (s_users (snd (update_user_handler env caller j form s)))"
    proof (cases "get_user_by_id j (s_users s)")
      case None
      then show ?thesis using True by (simp add: update_user_handler_def admin_only_def Let_def)
    next
      case (Some u)
      show ?thesis
      proof (cases "email \<noteq> u_email u \<and> get_user_by_email email (s_users s) \<noteq> None")
        case taken: True
        then show ?thesis using True Some
          by (auto simp: update_user_handler_def admin_only_def Let_def email_def)
      next
        case ok: False
        have free: "\<forall>v \<in> set (users (s_users s)). u_id v \<noteq> j \<longrightarrow> u_email v \<noteq> email"
          by (rule email_free[OF _ Some]) (use ok p in \<open>auto simp: primary_def\<close>)
        show ?thesis using True Some ok step free
          unfolding update_user_handler_def email_def[symmetric] cs_def[symmetric] Let_def
          by (auto simp: admin_only_def case_prod_beta simp del: not_None_eq split: sum.split option.split prod.split)
      qed
    qed
    then show ?thesis .
  qed (auto simp: update_user_handler_def admin_only_def Let_def)
qed

lemma keys_of_others [simp]: "j \<noteq> i \<Longrightarrow> all_rows (\<lambda>k. ak_user_id k = i) (del_rows (\<lambda>k. ak_user_id k = j) ks) = all_rows (\<lambda>k. ak_user_id k = i) ks"
  by (induction ks) auto

lemma shielded_delete_user_handler:
  "shielded i own (s_users s) (s_users (snd (delete_user_handler fk now caller j s)))"
proof (rule shielded_given)
  fix p assume p: "primary i p (s_users s)"
  show ?thesis
  proof (cases "u_role caller = ''admin'' \<and> \<not> is_primary j (s_users s) \<and> u_id caller \<noteq> j")
    case True
    then have j: "j \<noteq> i" using p by (simp add: is_primary_iff)
    show ?thesis
    proof (cases "fst (delete_user_by_id fk now j s)")
      case True
      then show ?thesis using j
        by (auto simp: delete_user_handler_def admin_only_def delete_auth_by_id_def delete_user_by_id_def drop_user_row_def Let_def
            case_prod_beta credentials_def row_get_del intro!: shielded_delete)
    qed (auto simp: delete_user_handler_def admin_only_def delete_auth_by_id_def delete_user_by_id_def drop_user_row_def Let_def
            case_prod_beta)
  qed (auto simp: delete_user_handler_def admin_only_def)
qed

text \<open>A user changes only the own account.\<close>

lemma shielded_own_settings:
  "shielded i (u_id caller = i) (s_users s) (s_users (snd (update_user_settings env conf caller ui rest s)))"
  by (auto simp: update_user_settings_def verified_def update_user_settings_by_id_def case_prod_beta
      split: sum.split option.split prod.split intro!: shielded_where[of "\<lambda>u. u\<lparr>u_settings := x u\<rparr>" for x, simplified])

lemma shielded_own_status:
  "shielded i (u_id caller = i) (s_users s) (s_users (snd (update_user_status caller form s)))"
proof (cases "get_user_by_id (u_id caller) (s_users s)")
  case (Some u)
  then have "u_id u = u_id caller" by (auto simp: get_user_by_id_def dest: row_get_SomeD)
  then show ?thesis using Some
    by (auto simp: update_user_status_def own_row_def verified_def case_prod_beta update_user_status_by_id_def
        intro!: shielded_where)
qed (simp add: update_user_status_def own_row_def verified_def)

lemma shielded_own_info:
  "shielded i (u_id caller = i) (s_users s) (s_users (snd (update_user_info caller form s)))"
proof (cases "get_user_by_id (u_id caller) (s_users s)")
  case (Some u)
  then have u: "u_id u = u_id caller" by (auto simp: get_user_by_id_def dest: row_get_SomeD)
  define cs where "cs = [SetInfo (Some (dmerge (set_or [] (u_info u)) form))]"
  have "s_users (snd (update_user_info caller form s)) =
      (if is_verified caller then snd (update_user_by_id (u_id u) cs (s_users s)) else s_users s)"
    using Some by (auto simp: update_user_info_def own_row_def verified_def cs_def split: prod.split option.split)
  moreover have "shielded i (u_id caller = i) (s_users s) (snd (update_user_by_id (u_id u) cs (s_users s)))"
    by (rule shielded_columns) (auto simp: cs_def u)
  ultimately show ?thesis by simp
qed (simp add: update_user_info_def own_row_def verified_def)

lemma site_users_simps [simp]:
  "s_users (st_db (with_users udb s)) = udb" "s_users (st_db (join_default_group env m j s)) = s_users (st_db s)"
  "s_users (st_db (close_signup known s)) = s_users (st_db s)" "s_users (st_db (sync_groups zenv m q u s)) = s_users (st_db s)"
  by (auto simp: with_users_def join_default_group_def close_signup_def sync_groups_def Let_def split: option.split)

lemma shielded_profile:
  "shielded i (u_id caller = i) (s_users (st_db s)) (s_users (st_db (snd (update_profile caller form s))))"
proof -
  define cs where "cs = [SetProfileImageUrl (pr_picture form), SetName (pr_name form), SetBio (pr_bio form),
      SetGender (pr_gender form), SetDateOfBirth (pr_date_of_birth form)]"
  have "s_users (st_db (snd (update_profile caller form s))) =
      (if is_verified caller then snd (update_user_by_id (u_id caller) cs (s_users (st_db s))) else s_users (st_db s))"
    by (auto simp: update_profile_def verified_def cs_def split: prod.split option.split)
  moreover have "shielded i (u_id caller = i) (s_users (st_db s)) (snd (update_user_by_id (u_id caller) cs (s_users (st_db s))))"
    by (rule shielded_columns) (auto simp: cs_def)
  ultimately show ?thesis by simp
qed

lemma authenticated_email: "authenticate_user check email udb = Some u \<Longrightarrow> u \<in> set (users udb) \<and> u_email u = email"
  by (auto simp: authenticate_user_def get_user_by_email_def split: option.splits if_splits dest: first_row_SomeD)

lemma shielded_own_password:
  assumes "get_user_by_id (u_id caller) (s_users (st_db s)) = Some caller"
  shows "shielded i (u_id caller = i) (s_users (st_db s)) (s_users (st_db (snd (update_password env caller pw new_pw s))))"
proof (rule shielded_given)
  fix p assume p: "primary i p (s_users (st_db s))"
  have c: "caller \<in> set (users (s_users (st_db s)))" using assms by (auto simp: get_user_by_id_def dest: row_get_SomeD)
  have "u = caller" if "authenticate_user check (u_email caller) (s_users (st_db s)) = Some u" for u check
    using authenticated_email[OF that] c p unique_keyD[of u_email _ u caller] by (auto simp: primary_def)
  then show ?thesis
    by (auto simp: update_password_def case_prod_beta Let_def split: option.split sum.split intro!: shielded_password)
qed

lemma shielded_new_key:
  "shielded i (u_id caller = i) (s_users (st_db s)) (s_users (st_db (snd (generate_api_key env now key caller s))))"
  by (rule shielded_same_users)
    (auto simp: generate_api_key_def update_user_api_key_by_id_def delete_user_api_key_by_id_def Let_def case_prod_beta
      credentials_def all_rows_def del_rows_def add_row_Some_iff filter_empty_conv intro!: filter_cong
      split: sum.split bool.split option.split)

lemma shielded_delete_key:
  "shielded i (u_id caller = i) (s_users (st_db s)) (s_users (st_db (snd (delete_api_key caller s))))"
  by (rule shielded_same_users)
    (auto simp: delete_api_key_def delete_user_api_key_by_id_def credentials_def all_rows_def del_rows_def
      intro!: filter_cong)

section \<open>New accounts\<close>

lemma shielded_add_account:
  assumes "get_user_by_email (lower (sg_email form)) udb = None"
    and "\<And>p. primary i p udb \<Longrightarrow> u_created_at p \<le> fst (snd (mt_row m))"
  shows "shielded i own udb (snd (add_account m form hashed role udb))"
proof -
  define uid where "uid = mt_uid m"
  have mail: "lower (sg_email form) \<notin> u_email ` set (users udb)"
    using assms(1) by (auto simp: get_user_by_email_def first_row_None_iff)
  have "users b = users udb \<or> (\<exists>r. users b = users udb @ [r] \<and> u_id r = uid \<and> uid \<notin> u_id ` set (users udb) \<and>
      u_email r = lower (sg_email form) \<and> u_created_at r = fst (snd (mt_row m)))"
    and "auths b = auths udb \<or> (\<exists>x. auths b = auths udb @ [x] \<and> au_id x = uid \<and> uid \<notin> u_id ` set (users udb))"
    and "api_keys b = api_keys udb"
    if "b = snd (add_account m form hashed role udb)" for b
    unfolding that
    by (auto simp: add_account_def insert_new_auth_def insert_new_user_def new_user_def add_row_Some_iff Let_def uid_def
        split: option.split prod.split sum.split)
  note b = this[OF refl]
  have cred: "credentials i (snd (add_account m form hashed role udb)) = credentials i udb" if p: "primary i p udb" for p
  proof -
    have "uid \<noteq> i" if "uid \<notin> u_id ` set (users udb)" using that primary_row[OF p] p by (auto simp: primary_def)
    then show ?thesis using b by (auto simp: credentials_def row_get_append row_get_single split: option.split)
  qed
  show ?thesis
  proof (cases "users (snd (add_account m form hashed role udb)) = users udb")
    case True
    then show ?thesis by (rule shielded_same_users) (rule cred)
  next
    case False
    then obtain r where "users (snd (add_account m form hashed role udb)) = users udb @ [r]" "u_id r = uid"
      "uid \<notin> u_id ` set (users udb)" "u_email r = lower (sg_email form)" "u_created_at r = fst (snd (mt_row m))"
      using b(1) by blast
    then show ?thesis by (intro shielded_add[of _ _ r]) (use mail assms(2) cred in auto)
  qed
qed

lemma shielded_signup:
  assumes "\<And>p. primary i p (s_users (st_db s)) \<Longrightarrow> u_created_at p \<le> fst (snd (mt_row m))"
  shows "shielded i own (s_users (st_db s)) (s_users (st_db (snd (signup env m form s))))"
proof (cases "get_user_by_email (lower (sg_email form)) (s_users (st_db s)) = None")
  case True
  note g = shielded_add_account[OF True assms]
  have "s_users (st_db (snd (signup env m form s))) \<in> {s_users (st_db s)} \<union>
      {snd (add_account m form h role (s_users (st_db s))) | h role. True}"
    by (auto simp: signup_def Let_def case_prod_beta split: sum.split prod.split)
  then show ?thesis using g by auto
qed (auto simp: signup_def Let_def)

lemma shielded_add_user:
  assumes "\<And>p. primary i p (s_users (st_db s)) \<Longrightarrow> u_created_at p \<le> fst (snd (mt_row m))"
  shows "shielded i own (s_users (st_db s)) (s_users (st_db (snd (add_user env m caller form role s))))"
proof (cases "get_user_by_email (lower (sg_email form)) (s_users (st_db s)) = None")
  case True
  note g = shielded_add_account[OF True assms]
  have "s_users (st_db (snd (add_user env m caller form role s))) \<in> {s_users (st_db s)} \<union>
      {snd (add_account m form h role (s_users (st_db s))) | h role. True}"
    by (auto simp: add_user_def admin_only_def Let_def case_prod_beta split: sum.split prod.split)
  then show ?thesis using g by auto
qed (auto simp: add_user_def admin_only_def Let_def)

lemma signed_up_users:
  assumes "\<And>s1. s_users (st_db (snd (k s1))) = s_users (st_db s1)"
  shows "s_users (st_db (snd (signed_up env m form s k))) = s_users (st_db (snd (signup env m form s)))"
  using assms by (auto simp: signed_up_def split: sum.split prod.split)

text \<open>The accounts after one of the ways of signing in are those before it, or those after a sign-up.\<close>

definition after_signup :: "'r sign_env \<Rightarrow> moment \<Rightarrow> 'r site \<Rightarrow> user_db set" where
  "after_signup env m s = insert (s_users (st_db s)) (range (\<lambda>form. s_users (st_db (snd (signup env m form s)))))"

lemma signin_trusted_users: "s_users (st_db (snd (signin_trusted env m q s))) \<in> after_signup env m s"
  by (auto simp: signin_trusted_def Let_def signed_up_users after_signup_def split: option.split)

lemma signin_open_users: "s_users (st_db (snd (signin_open env m s))) \<in> after_signup env m s"
  by (auto simp: signin_open_def Let_def signed_up_users after_signup_def)

lemma signin_password_users: "s_users (st_db (snd (signin_password env m email pw s))) \<in> after_signup env m s"
  by (auto simp: signin_password_def Let_def case_prod_beta after_signup_def)

lemma signin_users: "s_users (st_db (snd (signin env m q email pw s))) \<in> after_signup env m s"
proof (cases "zn_password_auth env")
  case True
  define r where "r = (if tk_trusted_email env \<noteq> [] then signin_trusted env m q s
           else if \<not> zn_webui_auth env then signin_open env m s
           else signin_password env m email pw s)"
  have "s_users (st_db (snd r)) \<in> after_signup env m s"
    by (simp add: r_def signin_trusted_users signin_open_users signin_password_users)
  moreover have "snd (signin env m q email pw s) = snd r"
    using True by (simp add: signin_def r_def[symmetric] split: prod.split sum.split option.split)
  ultimately show ?thesis by simp
qed (simp add: signin_def after_signup_def)

lemma shielded_signin:
  assumes "\<And>p. primary i p (s_users (st_db s)) \<Longrightarrow> u_created_at p \<le> fst (snd (mt_row m))"
  shows "shielded i own (s_users (st_db s)) (s_users (st_db (snd (signin env m q email pw s))))"
  using signin_users[of env m q email pw s] shielded_signup[OF assms] by (auto simp: after_signup_def)

lemma ldap_sync_users [simp]: "s_users (st_db (ldap_sync env ld m u names s)) = s_users (st_db s)"
  by (simp add: ldap_sync_def Let_def)

lemma shielded_ldap_account:
  assumes "\<And>p. primary i p (s_users (st_db s)) \<Longrightarrow> u_created_at p \<le> fst (snd (mt_row m))"
  shows "shielded i own (s_users (st_db s)) (s_users (st_db (snd (ldap_account env m (lower email) cn s))))"
proof (cases "get_user_by_email (lower email) (s_users (st_db s)) = None")
  case True
  define form where "form = \<lparr>sg_name = cn, sg_email = lower email, sg_password = mt_random m, sg_picture = Some ''/user.png''\<rparr>"
  have "s_users (st_db (snd (ldap_account env m (lower email) cn s))) =
      snd (add_account m form (mt_random m) (Some (signup_role (has_users (s_users (st_db s))) s)) (s_users (st_db s)))"
    using True by (simp add: ldap_account_def Let_def form_def split: prod.split sum.split)
  moreover have "shielded i own (s_users (st_db s))
      (snd (add_account m form (mt_random m) (Some (signup_role (has_users (s_users (st_db s))) s)) (s_users (st_db s))))"
    by (rule shielded_add_account[OF _ assms]) (use True in \<open>simp_all add: form_def\<close>)
  ultimately show ?thesis by simp
qed (simp add: ldap_account_def)

lemma ldap_email_lower: "ldap_email v = Inr e \<Longrightarrow> lower e = e"
  by (auto simp: ldap_email_def split: if_splits json.splits list.splits)

lemma ldap_entry_email: "ldap_entry_of ld c name pw = Inr (e, email) \<Longrightarrow> lower email = email"
  by (auto simp: ldap_entry_of_def and_then_Inr_iff dest!: ldap_email_lower split: if_splits option.splits)

lemma shielded_ldap:
  assumes "\<And>p. primary i p (s_users (st_db s)) \<Longrightarrow> u_created_at p \<le> fst (snd (mt_row m))"
  shows "shielded i own (s_users (st_db s)) (s_users (st_db (snd (ldap_auth env ld c m name pw s))))"
proof (cases "ld_enabled ld \<and> zn_password_auth env \<and> (\<exists>e email. ldap_entry_of ld c name pw = Inr (e, email))")
  case True
  then obtain e email where e: "ldap_entry_of ld c name pw = Inr (e, email)" by blast
  have "s_users (st_db (snd (ldap_auth env ld c m name pw s))) =
      s_users (st_db (snd (ldap_account env m (lower email) (le_cn e) s)))"
    using True by (simp add: ldap_auth_def e ldap_entry_email[OF e] split: prod.split sum.split option.split)
  then show ?thesis using shielded_ldap_account[OF assms] by simp
next
  case False
  then have "snd (ldap_auth env ld c m name pw s) = s"
    by (auto simp: ldap_auth_def split: sum.split)
  then show ?thesis by simp
qed

section \<open>Sequences of requests\<close>

text \<open>
  A request with its readings and the account it is authenticated as, if it is. A handler with a caller answers 401
  without one.
\<close>

datatype account_request =
    Sign_Up signup_form
  | Sign_In http_request string string
  | Ldap_In string string
  | Change_Profile profile_form
  | Change_Password string string
  | Change_Settings "dict option" dict
  | Change_Status user_status
  | Change_Info dict
  | New_Key string
  | Drop_Key
  | Add_User signup_form "string option"
  | Change_User id user_update
  | Delete_User id
  | Change_Config admin_config

record account_event =
  as_moment :: moment
  as_caller :: "id option"
  as_now :: "id \<Rightarrow> time"
  as_request :: account_request

fun caller_step :: "'r sign_env \<Rightarrow> account_event \<Rightarrow> user \<Rightarrow> account_request \<Rightarrow> 'r site \<Rightarrow> 'r site" where
  "caller_step env a u (Change_Profile form) s = snd (update_profile u form s)"
| "caller_step env a u (Change_Password pw new_pw) s = snd (update_password (token_env.truncate env) u pw new_pw s)"
| "caller_step env a u (Change_Settings ui rest) s =
     snd (on_db (update_user_settings (account_env.truncate env) (ag_permissions (st_config s)) u ui rest) s)"
| "caller_step env a u (Change_Status form) s = snd (on_db (update_user_status u form) s)"
| "caller_step env a u (Change_Info form) s = snd (on_db (update_user_info u form) s)"
| "caller_step env a u (New_Key key) s =
     snd (generate_api_key (token_env.truncate env) (fst (mt_row (as_moment a))) key u s)"
| "caller_step env a u Drop_Key s = snd (delete_api_key u s)"
| "caller_step env a u (Add_User form role) s = snd (add_user (token_env.truncate env) (as_moment a) u form role s)"
| "caller_step env a u (Change_User j form) s = snd (on_db (update_user_handler (account_env.truncate env) u j form) s)"
| "caller_step env a u (Delete_User j) s = snd (on_db (delete_user_handler (av_fk env) (as_now a) u j) s)"
| "caller_step env a u (Change_Config form) s = snd (update_admin_config u form s)"
| "caller_step env a u r s = s"

fun anonymous_step :: "'r sign_env \<Rightarrow> ldap_env \<Rightarrow> ldap_config \<Rightarrow> moment \<Rightarrow> account_request \<Rightarrow> 'r site \<Rightarrow> 'r site" where
  "anonymous_step env ld c m (Sign_Up form) s = snd (signup env m form s)"
| "anonymous_step env ld c m (Sign_In q email pw) s = snd (signin env m q email pw s)"
| "anonymous_step env ld c m (Ldap_In name pw) s = snd (ldap_auth env ld c m name pw s)"
| "anonymous_step env ld c m r s = s"

definition account_step :: "'r sign_env \<Rightarrow> ldap_env \<Rightarrow> ldap_config \<Rightarrow> account_event \<Rightarrow> 'r site \<Rightarrow> 'r site" where
  "account_step env ld c a s =
     (let s1 = anonymous_step env ld c (as_moment a) (as_request a) s
      in case as_caller a of
           None \<Rightarrow> s1
         | Some i \<Rightarrow>
             (case get_user_by_id i (s_users (st_db s1)) of
                None \<Rightarrow> s1 | Some u \<Rightarrow> caller_step env a u (as_request a) s1))"

fun account_steps :: "'r sign_env \<Rightarrow> ldap_env \<Rightarrow> ldap_config \<Rightarrow> account_event list \<Rightarrow> 'r site \<Rightarrow> 'r site" where
  "account_steps env ld c [] s = s"
| "account_steps env ld c (a # as) s = account_steps env ld c as (account_step env ld c a s)"

lemma on_db_users [simp]: "s_users (st_db (snd (on_db f s))) = s_users (snd (f (st_db s)))"
  by (simp add: on_db_def case_prod_beta)

lemma shielded_caller_step:
  assumes "get_user_by_id (u_id u) (s_users (st_db s)) = Some u"
    and "\<And>p. primary i p (s_users (st_db s)) \<Longrightarrow> u_created_at p \<le> fst (snd (mt_row (as_moment a)))"
  shows "shielded i (u_id u = i) (s_users (st_db s)) (s_users (st_db (caller_step env a u r s)))"
proof (cases r)
  case (Change_Config form)
  then show ?thesis by (simp add: update_admin_config_def admin_only_def Let_def)
qed (simp_all add: shielded_profile shielded_own_password[OF assms(1)] shielded_own_settings shielded_own_status
    shielded_own_info shielded_new_key shielded_delete_key shielded_add_user[OF assms(2)] shielded_update_user_handler
    shielded_delete_user_handler)

lemma shielded_anonymous_step:
  assumes "\<And>p. primary i p (s_users (st_db s)) \<Longrightarrow> u_created_at p \<le> fst (snd (mt_row m))"
  shows "shielded i own (s_users (st_db s)) (s_users (st_db (anonymous_step env ld c m r s)))"
  by (cases r) (simp_all add: shielded_signup[OF assms] shielded_signin[OF assms] shielded_ldap[OF assms])

lemma shielded_weaken: "shielded i own a b \<Longrightarrow> (own \<Longrightarrow> own') \<Longrightarrow> shielded i own' a b"
  unfolding shielded_def by blast

lemma shielded_account_step:
  assumes "\<And>p. primary i p (s_users (st_db s)) \<Longrightarrow> u_created_at p \<le> fst (snd (mt_row (as_moment a)))"
  shows "shielded i (as_caller a = Some i) (s_users (st_db s)) (s_users (st_db (account_step env ld c a s)))"
proof (rule shielded_given)
  fix p assume p: "primary i p (s_users (st_db s))"
  define s1 where "s1 = anonymous_step env ld c (as_moment a) (as_request a) s"
  have g1: "shielded i (as_caller a = Some i) (s_users (st_db s)) (s_users (st_db s1))"
    unfolding s1_def by (rule shielded_anonymous_step[OF assms])
  have later: "u_created_at q \<le> fst (snd (mt_row (as_moment a)))" if "primary i q (s_users (st_db s1))" for q
    using g1 p that assms[OF p] by (auto simp: shielded_def primary_def)
  show ?thesis
  proof (cases "case as_caller a of None \<Rightarrow> None | Some j \<Rightarrow> get_user_by_id j (s_users (st_db s1))")
    case None
    then have "account_step env ld c a s = s1"
      by (simp add: account_step_def s1_def Let_def split: option.split_asm option.split)
    then show ?thesis using g1 by simp
  next
    case (Some u)
    then obtain j where j: "as_caller a = Some j" "get_user_by_id j (s_users (st_db s1)) = Some u"
      by (auto split: option.splits)
    then have u: "u_id u = j" by (auto simp: get_user_by_id_def dest: row_get_SomeD)
    have "shielded i (u_id u = i) (s_users (st_db s1)) (s_users (st_db (caller_step env a u (as_request a) s1)))"
      by (rule shielded_caller_step) (use j u later in auto)
    moreover have "account_step env ld c a s = caller_step env a u (as_request a) s1"
      using j by (simp add: account_step_def s1_def[symmetric])
    ultimately show ?thesis using shielded_trans[OF g1] j u by simp
  qed
qed

text \<open>
  C2: The primary administrator, the oldest account, stays what it is whatever requests arrive: the account is still
  the oldest and still an administrator after any sequence of sign-ups, sign-ins, directory sign-ins, changes of
  profiles, passwords, settings and keys, and administrators' changes, additions and deletions of accounts. If none
  of the requests is authenticated as this account, its row, its password and its API keys are untouched.
\<close>

theorem primary_admin_stays:
  assumes "primary i p (s_users (st_db s))"
    and "list_all (\<lambda>a. u_created_at p \<le> fst (snd (mt_row (as_moment a)))) as"
  shows "\<exists>q. primary i q (s_users (st_db (account_steps env ld c as s))) \<and>
    (list_all (\<lambda>a. as_caller a \<noteq> Some i) as \<longrightarrow>
       q = p \<and> credentials i (s_users (st_db (account_steps env ld c as s))) = credentials i (s_users (st_db s)))"
  using assms
proof (induction as arbitrary: s p)
  case (Cons a as)
  define s1 where "s1 = account_step env ld c a s"
  have "shielded i (as_caller a = Some i) (s_users (st_db s)) (s_users (st_db s1))"
    unfolding s1_def by (rule shielded_account_step) (use Cons.prems in \<open>auto simp: primary_def\<close>)
  then obtain q where q: "primary i q (s_users (st_db s1))" "u_created_at q = u_created_at p"
      "as_caller a \<noteq> Some i \<longrightarrow> q = p \<and> credentials i (s_users (st_db s1)) = credentials i (s_users (st_db s))"
    using Cons.prems(1) unfolding shielded_def by blast
  from Cons.IH[OF q(1)] q Cons.prems(2) show ?case
    by (auto simp: s1_def[symmetric])
qed auto

definition demo_env :: "string list sign_env" where
  "demo_env = token_env.extend demo_tokens
     \<lparr>zn_webui_auth = True, zn_password_auth = True, zn_initial_signup = False, zn_trusted_name = [],
      zn_trusted_groups = [], zn_unquote = (\<lambda>s. s),
      zn_limiter = \<lparr>limit = 15, window = 180, bucket_size = 60, enabled = True\<rparr>,
      zn_redis = \<lparr>r_incr = (\<lambda>k r. (None, r)), r_expire = (\<lambda>k n r. (None, r)), r_mget = (\<lambda>ks r. None)\<rparr>,
      zn_redis_prefix = ''open-webui''\<rparr>"

definition demo_ldap :: ldap_env where
  "demo_ldap =
     \<lparr>ld_enabled = False, ld_manage_groups = False, ld_create_groups = False, ld_tls = Inr (), ld_bind = (\<lambda>n p. Inr False),
      ld_escape = (\<lambda>s. s), ld_search = (\<lambda>f. Inr None), ld_fresh = (\<lambda>n. (n, 0, 0))\<rparr>"

definition demo_ldap_config :: ldap_config where
  "demo_ldap_config =
     \<lparr>lc_label = [], lc_host = [], lc_port = None, lc_attribute_for_mail = ''mail'', lc_attribute_for_username = ''uid'',
      lc_app_dn = [], lc_app_dn_password = [], lc_search_base = [], lc_search_filters = [], lc_use_tls = True,
      lc_certificate_path = None, lc_validate_cert = True, lc_ciphers = None\<rparr>"

definition ada :: user where
  "ada = new_user ''ada'' ''Ada'' ''a@x'' ''/user.png'' ''admin'' None 1 1 1"

definition bob :: user where
  "bob = new_user ''bob'' ''Bob'' ''b@x'' ''/user.png'' ''admin'' None 2 2 2"

definition admin_site :: "string list site" where
  "admin_site = demo_site\<lparr>st_db := on_users \<lparr>users = [bob, ada], api_keys = [],
     auths = [\<lparr>au_id = ''ada'', au_email = ''a@x'', au_password = ''#pw'', au_active = True\<rparr>]\<rparr> (st_db demo_site)\<rparr>"

text \<open>Another administrator tries to demote and to delete the oldest account, and a stranger signs up.\<close>

definition coup :: "account_event list" where
  "coup =
     [\<lparr>as_moment = demo_moment, as_caller = Some ''bob'', as_now = (\<lambda>i. 5), as_request = Change_User ''ada''
        \<lparr>uu_role = ''user'', uu_name = ''x'', uu_email = ''c@x'', uu_profile_image_url = [], uu_password = Some ''new''\<rparr>\<rparr>,
      \<lparr>as_moment = demo_moment, as_caller = Some ''bob'', as_now = (\<lambda>i. 6), as_request = Delete_User ''ada''\<rparr>,
      \<lparr>as_moment = demo_moment, as_caller = None, as_now = (\<lambda>i. 7), as_request = Sign_Up
        \<lparr>sg_name = ''Zoe'', sg_email = ''z@y.org'', sg_password = ''pw'', sg_picture = Some ''/user.png''\<rparr>\<rparr>]"

lemma primary_admin_stays_witness:
  "\<exists>q. primary ''ada'' q (s_users (st_db (account_steps demo_env demo_ldap demo_ldap_config coup admin_site))) \<and>
    (list_all (\<lambda>a. as_caller a \<noteq> Some ''ada'') coup \<longrightarrow> q = ada \<and>
       credentials ''ada'' (s_users (st_db (account_steps demo_env demo_ldap demo_ldap_config coup admin_site))) =
       credentials ''ada'' (s_users (st_db admin_site)))"
proof (rule primary_admin_stays)
  show "primary ''ada'' ada (s_users (st_db admin_site))"
    by (simp add: primary_def admin_site_def get_first_user_def ada_def bob_def new_user_def)
  show "list_all (\<lambda>a. u_created_at ada \<le> fst (snd (mt_row (as_moment a)))) coup"
    by (simp add: coup_def demo_moment_def ada_def new_user_def)
qed

text \<open>Of the three requests only the stranger's changes anything.\<close>

lemma coup_fails:
  "map u_id (users (s_users (st_db (account_steps demo_env demo_ldap demo_ldap_config coup admin_site)))) =
     [''bob'', ''ada'', ''u9'']"
  by code_simp

end
