(* ===== verification/OAuth_Sessions.thy ===== *)
theory OAuth_Sessions
  imports Sign_In
begin

text \<open>
  \<^verbatim>\<open>models/oauth_sessions.py\<close> and the tokens of identity providers and tool servers (\<^verbatim>\<open>utils/oauth.py\<close>): the table of
  sessions, whose tokens are stored encrypted, and the refresh of a token that expires within five minutes. The
  cipher (Fernet), the clients of providers and the requests to them are arguments. Times of day are microseconds.
\<close>

section \<open>The table\<close>

text \<open>An expiry of \<open>None\<close> is a number with a fraction, which the model of a session refuses.\<close>

record oauth_session =
  os_id :: id
  os_user_id :: id
  os_provider :: string
  os_token :: string
  os_expires_at :: "time option"
  os_created_at :: time
  os_updated_at :: time

record oauth_session_model =
  om_id :: id
  om_user_id :: id
  om_provider :: string
  om_token :: dict
  om_expires_at :: time

text \<open>
  \<open>oz_column\<close>: what the database makes of an expiry that is neither null nor a whole number.
\<close>

record cipher =
  oz_encrypt :: "dict \<Rightarrow> py_error + string"
  oz_decrypt :: "string \<Rightarrow> py_error + dict"
  oz_column :: "json \<Rightarrow> py_error + time option"

definition expiry_column :: "cipher \<Rightarrow> json \<Rightarrow> py_error + time option" where
  "expiry_column z v = (case v of JNull \<Rightarrow> Inl IntegrityError | JInt i \<Rightarrow> Inr (Some i) | _ \<Rightarrow> oz_column z v)"

definition session_model :: "oauth_session \<Rightarrow> dict \<Rightarrow> oauth_session_model option" where
  "session_model x token = map_option (\<lambda>e.
     \<lparr>om_id = os_id x, om_user_id = os_user_id x, om_provider = os_provider x, om_token = token, om_expires_at = e\<rparr>)
     (os_expires_at x)"

definition open_row :: "cipher \<Rightarrow> oauth_session \<Rightarrow> oauth_session_model option" where
  "open_row z x = (case oz_decrypt z (os_token x) of Inl e \<Rightarrow> None | Inr t \<Rightarrow> session_model x t)"

text \<open>The row is committed before the model of it is made.\<close>

definition create_session ::
  "cipher \<Rightarrow> id \<Rightarrow> time \<Rightarrow> id \<Rightarrow> string \<Rightarrow> dict \<Rightarrow> oauth_session list \<Rightarrow> oauth_session_model option \<times> oauth_session list" where
  "create_session z sid now uid provider token rows =
     (case and_then (oz_encrypt z token) (\<lambda>enc.
         and_then (expiry_column z (dget_or token ''expires_at'' JNull)) (\<lambda>e. Inr (enc, e))) of
        Inl _ \<Rightarrow> (None, rows)
      | Inr (enc, e) \<Rightarrow>
          (let x = \<lparr>os_id = sid, os_user_id = uid, os_provider = provider, os_token = enc, os_expires_at = e,
                    os_created_at = now, os_updated_at = now\<rparr>
           in case add_row os_id x rows of None \<Rightarrow> (None, rows) | Some rows1 \<Rightarrow> (session_model x token, rows1)))"

definition first_open :: "cipher \<Rightarrow> (oauth_session \<Rightarrow> bool) \<Rightarrow> oauth_session list \<Rightarrow> oauth_session_model option" where
  "first_open z p rows = (case first_row p rows of None \<Rightarrow> None | Some x \<Rightarrow> open_row z x)"

definition get_session_by_id :: "cipher \<Rightarrow> id \<Rightarrow> oauth_session list \<Rightarrow> oauth_session_model option" where
  "get_session_by_id z sid = first_open z (\<lambda>x. os_id x = sid)"

definition get_session_by_id_and_user_id ::
  "cipher \<Rightarrow> id \<Rightarrow> id \<Rightarrow> oauth_session list \<Rightarrow> oauth_session_model option" where
  "get_session_by_id_and_user_id z sid uid = first_open z (\<lambda>x. os_id x = sid \<and> os_user_id x = uid)"

definition get_session_by_provider_and_user_id ::
  "cipher \<Rightarrow> string \<Rightarrow> id \<Rightarrow> oauth_session list \<Rightarrow> oauth_session_model option" where
  "get_session_by_provider_and_user_id z provider uid = first_open z (\<lambda>x. os_provider x = provider \<and> os_user_id x = uid)"

text \<open>One session that cannot be read hides all of them.\<close>

fun all_open :: "cipher \<Rightarrow> oauth_session list \<Rightarrow> oauth_session_model list option" where
  "all_open z [] = Some []"
| "all_open z (x # xs) = (case (open_row z x, all_open z xs) of (Some m, Some ms) \<Rightarrow> Some (m # ms) | _ \<Rightarrow> None)"

definition get_sessions_by_user_id :: "cipher \<Rightarrow> id \<Rightarrow> oauth_session list \<Rightarrow> oauth_session_model list" where
  "get_sessions_by_user_id z uid rows =
     (case all_open z (all_rows (\<lambda>x. os_user_id x = uid) rows) of None \<Rightarrow> [] | Some ms \<Rightarrow> ms)"

definition update_session_by_id ::
  "cipher \<Rightarrow> time \<Rightarrow> id \<Rightarrow> dict \<Rightarrow> oauth_session list \<Rightarrow> oauth_session_model option \<times> oauth_session list" where
  "update_session_by_id z now sid token rows =
     (case and_then (oz_encrypt z token) (\<lambda>enc.
         and_then (case dget_or token ''expires_at'' JNull of
             JNull \<Rightarrow> if list_ex (\<lambda>x. os_id x = sid) rows then Inl IntegrityError else Inr None
           | v \<Rightarrow> expiry_column z v) (\<lambda>e. Inr (enc, e))) of
        Inl _ \<Rightarrow> (None, rows)
      | Inr (enc, e) \<Rightarrow>
          (let rows1 = upd_rows (\<lambda>x. os_id x = sid)
             (\<lambda>x. x\<lparr>os_token := enc, os_expires_at := e, os_updated_at := now\<rparr>) rows
           in (first_open z (\<lambda>x. os_id x = sid) rows1, rows1)))"

definition delete_session_by_id :: "id \<Rightarrow> oauth_session list \<Rightarrow> bool \<times> oauth_session list" where
  "delete_session_by_id sid rows = (list_ex (\<lambda>x. os_id x = sid) rows, del_rows (\<lambda>x. os_id x = sid) rows)"

definition delete_sessions_by_user_id :: "id \<Rightarrow> oauth_session list \<Rightarrow> bool \<times> oauth_session list" where
  "delete_sessions_by_user_id uid rows = (True, del_rows (\<lambda>x. os_user_id x = uid) rows)"

definition delete_sessions_by_provider :: "string \<Rightarrow> oauth_session list \<Rightarrow> bool \<times> oauth_session list" where
  "delete_sessions_by_provider provider rows = (True, del_rows (\<lambda>x. os_provider x = provider) rows)"

text \<open>The route of administrators over the sessions of a user.\<close>

definition get_user_oauth_sessions :: "cipher \<Rightarrow> user \<Rightarrow> id \<Rightarrow> oauth_session list \<Rightarrow> http_error + oauth_session_model list" where
  "get_user_oauth_sessions z caller uid rows =
     (if u_role caller \<noteq> ''admin'' then Inl Unauthorized
      else let ms = get_sessions_by_user_id z uid rows in if ms = [] then Inl BadRequest else Inr ms)"

section \<open>Refreshing a token\<close>

text \<open>
  The clients of one manager: the client of a provider with its id and secret, the address of the provider's
  metadata, and the two requests. An answer is its status and its body.
\<close>

record oauth_clients =
  oc_client :: "string \<Rightarrow> (string \<times> string option) option"
  oc_metadata_url :: "string \<Rightarrow> string option"
  oc_fetch :: "string option \<Rightarrow> py_error + nat \<times> dict"
  oc_post :: "string \<Rightarrow> dict \<Rightarrow> py_error + nat \<times> dict"

definition refresh_form :: "json \<Rightarrow> string \<times> string option \<Rightarrow> dict" where
  "refresh_form token client = (case client of (cid, secret) \<Rightarrow>
     [(''grant_type'', JStr ''refresh_token''), (''refresh_token'', token), (''client_id'', JStr cid)] @
     (case secret of None \<Rightarrow> [] | Some k \<Rightarrow> if k = [] then [] else [(''client_secret'', JStr k)]))"

text \<open>
  The time of issue is a float, given by its text. A lifetime that is no whole number counts as an error here.
\<close>

definition dated_token :: "int \<Rightarrow> string \<Rightarrow> json \<Rightarrow> dict \<Rightarrow> py_error + dict" where
  "dated_token now_us issued old_refresh d =
     (let d1 = (if dget d ''refresh_token'' = None then dset ''refresh_token'' old_refresh d else d);
          d2 = dset ''issued_at'' (JFloat issued) d1
      in if dget d2 ''expires_in'' \<noteq> None \<and> dget d2 ''expires_at'' = None then
           (case dget_or d2 ''expires_in'' JNull of
              JInt n \<Rightarrow> Inr (dset ''expires_at'' (JInt (whole_seconds (now_us + 1000000 * n))) d2)
            | _ \<Rightarrow> Inl TypeError)
         else Inr d2)"

text \<open>Without a refresh token, a client, the metadata or its endpoint there is no new token; nor after an error.\<close>

definition token_endpoint :: "oauth_clients \<Rightarrow> string \<Rightarrow> py_error + string option" where
  "token_endpoint oc provider =
     and_then (oc_fetch oc (oc_metadata_url oc provider)) (\<lambda>(status, body).
       if status \<noteq> 200 then Inr None
       else case dget_or body ''token_endpoint'' JNull of
         JStr u \<Rightarrow> Inr (if u = [] then None else Some u) | v \<Rightarrow> if truthy v then Inl TypeError else Inr None)"

definition perform_token_refresh :: "oauth_clients \<Rightarrow> int \<Rightarrow> string \<Rightarrow> oauth_session_model \<Rightarrow> dict option" where
  "perform_token_refresh oc now_us issued x =
     (let old = dget_or (om_token x) ''refresh_token'' JNull in
      if \<not> truthy old then None
      else case oc_client oc (om_provider x) of
        None \<Rightarrow> None
      | Some client \<Rightarrow>
          (case token_endpoint oc (om_provider x) of
             Inl _ \<Rightarrow> None
           | Inr None \<Rightarrow> None
           | Inr (Some url) \<Rightarrow>
               (case oc_post oc url (refresh_form old client) of
                  Inl _ \<Rightarrow> None
                | Inr (status, body) \<Rightarrow>
                    if status \<noteq> 200 then None
                    else (case dated_token now_us issued old body of Inl _ \<Rightarrow> None | Inr d \<Rightarrow> Some d))))"

text \<open>
  When the updated session cannot be read back, its log line raises, and so does the log line of the handler.
\<close>

definition refresh_token ::
  "cipher \<Rightarrow> oauth_clients \<Rightarrow> int \<Rightarrow> string \<Rightarrow> oauth_session_model \<Rightarrow> oauth_session list \<Rightarrow>
     (py_error + dict option) \<times> oauth_session list" where
  "refresh_token z oc now_us issued x rows = (case perform_token_refresh oc now_us issued x of
     None \<Rightarrow> (Inr None, rows)
   | Some d \<Rightarrow>
       (case update_session_by_id z (now_us div 1000000) (om_id x) d rows of
          (None, rows1) \<Rightarrow> (Inl AttributeError, rows1)
        | (Some y, rows1) \<Rightarrow> (Inr (Some (om_token y)), rows1)))"

definition expires_soon :: "int \<Rightarrow> time \<Rightarrow> bool" where
  "expires_soon now_us e \<longleftrightarrow> now_us + 300000000 \<ge> 1000000 * e"

text \<open>A token that could not be refreshed takes its session with it; one whose date is none is an error.\<close>

definition valid_token ::
  "cipher \<Rightarrow> oauth_clients \<Rightarrow> bool \<Rightarrow> int \<Rightarrow> string \<Rightarrow> oauth_session_model option \<Rightarrow> oauth_session list \<Rightarrow>
     dict option \<times> oauth_session list" where
  "valid_token z oc force now_us issued found rows = (case found of
     None \<Rightarrow> (None, rows)
   | Some x \<Rightarrow>
       if \<not> force \<and> \<not> is_date (1000000 * om_expires_at x) then (None, rows)
       else if force \<or> expires_soon now_us (om_expires_at x) then
         (case refresh_token z oc now_us issued x rows of
            (Inl _, rows1) \<Rightarrow> (None, rows1)
          | (Inr (Some d), rows1) \<Rightarrow> if d = [] then (None, snd (delete_session_by_id (om_id x) rows1)) else (Some d, rows1)
          | (Inr None, rows1) \<Rightarrow> (None, snd (delete_session_by_id (om_id x) rows1)))
       else (Some (om_token x), rows))"

text \<open>The manager of identity providers looks the session up by its id, that of tool servers by the client.\<close>

definition provider_token ::
  "cipher \<Rightarrow> oauth_clients \<Rightarrow> bool \<Rightarrow> int \<Rightarrow> string \<Rightarrow> id \<Rightarrow> id \<Rightarrow> oauth_session list \<Rightarrow> dict option \<times> oauth_session list" where
  "provider_token z oc force now_us issued uid sid rows =
     valid_token z oc force now_us issued (get_session_by_id_and_user_id z sid uid rows) rows"

definition tool_client_token ::
  "cipher \<Rightarrow> oauth_clients \<Rightarrow> bool \<Rightarrow> int \<Rightarrow> string \<Rightarrow> id \<Rightarrow> string \<Rightarrow> oauth_session list \<Rightarrow> dict option \<times> oauth_session list" where
  "tool_client_token z oc force now_us issued uid cid rows =
     valid_token z oc force now_us issued (get_session_by_provider_and_user_id z cid uid rows) rows"

section \<open>The clients of tool servers\<close>

text \<open>
  The manager keeps for an id the registered client and what was registered. The address of the metadata is asked
  of this pair, not of the client in it, and a pair has none.
\<close>

record client_info =
  ci_client_id :: string
  ci_client_secret :: "string option"
  ci_scope :: "string option"
  ci_auth_method :: "string option"
  ci_issuer :: "string option"
  ci_challenges :: "string list option"
  ci_redirect_uris :: "string list"

type_synonym 'c tool_clients = "(id \<times> 'c \<times> client_info) list"

definition some_text :: "string \<Rightarrow> string option \<Rightarrow> dict" where
  "some_text k v = (case v of None \<Rightarrow> [] | Some t \<Rightarrow> if t = [] then [] else [(k, JStr t)])"

definition opt_json :: "string option \<Rightarrow> json" where
  "opt_json v = (case v of None \<Rightarrow> JNull | Some t \<Rightarrow> JStr t)"

definition registration :: "id \<Rightarrow> client_info \<Rightarrow> dict" where
  "registration cid c =
     [(''name'', JStr cid), (''client_id'', JStr (ci_client_id c)), (''client_secret'', opt_json (ci_client_secret c)),
      (''client_kwargs'', JDict (some_text ''scope'' (ci_scope c) @ some_text ''token_endpoint_auth_method'' (ci_auth_method c))),
      (''server_metadata_url'', opt_json (if ci_issuer c = Some [] then None else ci_issuer c))] @
     (case ci_challenges c of
        None \<Rightarrow> [] | Some ms \<Rightarrow> if ''S256'' \<in> set ms then [(''code_challenge_method'', JStr ''S256'')] else [])"

definition add_client :: "(dict \<Rightarrow> 'c) \<Rightarrow> id \<Rightarrow> client_info \<Rightarrow> 'c tool_clients \<Rightarrow> ('c \<times> client_info) \<times> 'c tool_clients" where
  "add_client register cid c cs = (let r = (register (registration cid c), c) in (r, AList.update cid r cs))"

definition remove_client :: "id \<Rightarrow> 'c tool_clients \<Rightarrow> bool \<times> 'c tool_clients" where
  "remove_client cid cs = (True, AList.delete cid cs)"

definition get_client :: "id \<Rightarrow> 'c tool_clients \<Rightarrow> 'c option" where
  "get_client cid cs = map_option fst (map_of cs cid)"

definition get_client_info :: "id \<Rightarrow> 'c tool_clients \<Rightarrow> client_info option" where
  "get_client_info cid cs = map_option snd (map_of cs cid)"

definition get_server_metadata_url :: "id \<Rightarrow> 'c tool_clients \<Rightarrow> string option" where
  "get_server_metadata_url cid cs = (case map_of cs cid of None \<Rightarrow> None | Some pair \<Rightarrow> None)"

definition handle_authorize :: "(('c \<times> string option) \<Rightarrow> http_error + string) \<Rightarrow> id \<Rightarrow> 'c tool_clients \<Rightarrow> http_error + string" where
  "handle_authorize redirect cid cs = (case (get_client cid cs, get_client_info cid cs) of
     (Some c, Some i) \<Rightarrow> redirect (c, case ci_redirect_uris i of [] \<Rightarrow> None | u # _ \<Rightarrow> Some u)
   | _ \<Rightarrow> Inl NotFound)"

text \<open>A new session of a user with a provider replaces those before it.\<close>

definition replace_session ::
  "cipher \<Rightarrow> id \<Rightarrow> time \<Rightarrow> id \<Rightarrow> string \<Rightarrow> dict \<Rightarrow> oauth_session list \<Rightarrow> oauth_session_model option \<times> oauth_session list" where
  "replace_session z sid now uid provider token rows =
     (let old = filter (\<lambda>m. om_provider m = provider) (get_sessions_by_user_id z uid rows)
      in create_session z sid now uid provider token (fold (\<lambda>m rs. snd (delete_session_by_id (om_id m) rs)) old rows))"

text \<open>The token of a sign-in: \<open>later\<close> is the float the clock and the lifetime add up to.\<close>

definition callback_token :: "(int \<Rightarrow> string) \<Rightarrow> string \<Rightarrow> dict \<Rightarrow> py_error + dict" where
  "callback_token later issued token =
     (let d = dset ''issued_at'' (JFloat issued) token
      in if dget d ''expires_in'' \<noteq> None \<and> dget d ''expires_at'' = None then
           (case dget_or d ''expires_in'' JNull of
              JInt n \<Rightarrow> Inr (dset ''expires_at'' (JFloat (later n)) d) | _ \<Rightarrow> Inl TypeError)
         else Inr d)"

definition tool_client_callback ::
  "cipher \<Rightarrow> (int \<Rightarrow> string) \<Rightarrow> string \<Rightarrow> id \<Rightarrow> time \<Rightarrow> (('c \<times> client_info) \<Rightarrow> string + dict) \<Rightarrow> id \<Rightarrow> id \<Rightarrow>
     'c tool_clients \<Rightarrow> oauth_session list \<Rightarrow> (http_error + string option) \<times> oauth_session list" where
  "tool_client_callback z later issued sid now authorize uid cid cs rows = (case map_of cs cid of
     None \<Rightarrow> (Inl NotFound, rows)
   | Some pair \<Rightarrow>
       (case authorize pair of
          Inl message \<Rightarrow> (Inr (Some message), rows)
        | Inr token \<Rightarrow>
            if token = [] then (Inr (Some ''Failed to obtain OAuth token''), rows)
            else (case callback_token later issued token of
              Inl _ \<Rightarrow> (Inr (Some ''Failed to store OAuth session server-side''), rows)
            | Inr d \<Rightarrow> (Inr None, snd (replace_session z sid now uid cid d rows)))))"

section \<open>What holds of sessions\<close>

text \<open>Reading a session back gives the token it was created with.\<close>

lemma session_roundtrip:
  assumes "create_session z sid now uid provider token rows = (Some m, rows')"
    and "\<And>t e. oz_encrypt z t = Inr e \<Longrightarrow> oz_decrypt z e = Inr t"
  shows "get_session_by_id z sid rows' = Some m \<and> om_token m = token \<and> om_user_id m = uid"
proof -
  from assms(1) obtain enc e where c: "oz_encrypt z token = Inr enc" "sid \<notin> os_id ` set rows"
    "rows' = rows @ [\<lparr>os_id = sid, os_user_id = uid, os_provider = provider, os_token = enc, os_expires_at = Some e,
       os_created_at = now, os_updated_at = now\<rparr>]"
    "m = \<lparr>om_id = sid, om_user_id = uid, om_provider = provider, om_token = token, om_expires_at = e\<rparr>"
    by (auto simp: create_session_def and_then_Inr_iff session_model_def add_row_Some_iff Let_def
        split: sum.splits option.splits)
  have "first_row (\<lambda>x. os_id x = sid) rows = None" using c(2) by (auto simp: first_row_None_iff)
  then show ?thesis using c assms(2)[OF c(1)]
    by (simp add: get_session_by_id_def first_open_def first_row_append open_row_def session_model_def)
qed

text \<open>
  A tool server's token is never refreshed: its metadata has no address, and a request without an address fails. The
  first use within five minutes of its expiry deletes the session, refresh token and all.
\<close>

lemma tool_session_dropped:
  assumes "oc_metadata_url oc = (\<lambda>cid. get_server_metadata_url cid cs)" "oc_fetch oc None = Inl e"
    and "get_session_by_provider_and_user_id z cid uid rows = Some x" "is_date (1000000 * om_expires_at x)"
    and "expires_soon now_us (om_expires_at x)"
  shows "tool_client_token z oc force now_us issued uid cid rows = (None, del_rows (\<lambda>y. os_id y = om_id x) rows)"
proof -
  have "get_server_metadata_url p cs = None" for p
    by (simp add: get_server_metadata_url_def split: option.split)
  then have "perform_token_refresh oc now_us issued x = None"
    by (simp add: perform_token_refresh_def token_endpoint_def assms(1,2) Let_def split: option.split)
  then show ?thesis
    using assms(3-5) by (simp add: tool_client_token_def valid_token_def refresh_token_def delete_session_by_id_def)
qed

text \<open>A session whose token cannot be read hides the user's others, so a new sign-in replaces none of them.\<close>

lemma unreadable_session_keeps_all:
  assumes "x \<in> set rows" "os_user_id x = uid" "oz_decrypt z (os_token x) = Inl e"
  shows "get_sessions_by_user_id z uid rows = [] \<and>
    replace_session z sid now uid provider token rows = create_session z sid now uid provider token rows"
proof -
  have "all_open z xs = None" if "x \<in> set xs" for xs
    using that by (induction xs) (auto simp: open_row_def assms(3) split: option.split)
  then have "get_sessions_by_user_id z uid rows = []" using assms(1,2) by (simp add: get_sessions_by_user_id_def)
  then show ?thesis by (simp add: replace_session_def)
qed

end
