(* ===== verification/OAuth_Accounts.thy ===== *)
theory OAuth_Accounts
  imports OAuth_Sessions
begin

text \<open>
  Signing in with an identity provider (\<open>OAuthManager\<close> of \<^verbatim>\<open>utils/oauth.py\<close>): the role and the groups a user gets from
  the claims of the provider, the picture, and the callback that finds, merges or creates the account. The provider's
  answers, the test whether an account is linked to a subject, and the matching of regular expressions are arguments.
  A subject that is a number is taken as its text.
\<close>

record oauth_config =
  oa_signup :: bool
  oa_merge_by_email :: bool
  oa_manage_roles :: bool
  oa_manage_groups :: bool
  oa_create_groups :: bool
  oa_blocked_groups :: "string list"
  oa_roles_claim :: string
  oa_groups_claim :: string
  oa_sub_claim :: string
  oa_email_claim :: string
  oa_picture_claim :: string
  oa_username_claim :: string
  oa_allowed_roles :: "string list"
  oa_admin_roles :: "string list"
  oa_allowed_domains :: "string list"
  oa_update_picture :: bool
  oa_roles_separator :: string
  oa_groups_separator :: string
  oa_email_fallback :: bool

section \<open>Claims\<close>

text \<open>\<open>s.split(sep)\<close> for a separator of one or more characters.\<close>

fun pieces :: "string \<Rightarrow> nat \<Rightarrow> string \<Rightarrow> string \<Rightarrow> string list" where
  "pieces sep skip acc [] = [rev acc]"
| "pieces sep (Suc k) acc (c # cs) = pieces sep k acc cs"
| "pieces sep 0 acc (c # cs) =
     (if startswith (c # cs) sep then rev acc # pieces sep (length sep - 1) [] cs else pieces sep 0 (c # acc) cs)"

definition split_text :: "string \<Rightarrow> string \<Rightarrow> py_error + string list" where
  "split_text sep s = (if sep = [] then Inl ValueError else Inr (pieces sep 0 [] s))"

fun nested_claim :: "json \<Rightarrow> string list \<Rightarrow> py_error + json" where
  "nested_claim v [] = Inr v"
| "nested_claim (JDict d) (k # ks) = nested_claim (dget_or d k (JDict [])) ks"
| "nested_claim _ (k # ks) = Inl AttributeError"

section \<open>Roles\<close>

definition role_values :: "oauth_config \<Rightarrow> json \<Rightarrow> py_error + json list" where
  "role_values c v = (case v of
     JList xs \<Rightarrow> Inr xs
   | JStr s \<Rightarrow>
       if oa_roles_separator c \<noteq> [] \<and> sublist (oa_roles_separator c) s
       then and_then (split_text (oa_roles_separator c) s) (\<lambda>xs. Inr (map JStr xs)) else Inr [JStr s]
   | JInt i \<Rightarrow> Inr [JStr (int_str i)]
   | JBool b \<Rightarrow> Inr [JStr (if b then ''True'' else ''False'')]
   | _ \<Rightarrow> Inr [])"

definition oauth_roles :: "oauth_config \<Rightarrow> dict \<Rightarrow> py_error + json list" where
  "oauth_roles c user_data =
     (if oa_roles_claim c = [] \<or> oa_allowed_roles c = [] \<or> oa_admin_roles c = [] then Inr []
      else and_then (nested_claim (JDict user_data) (split_on CHR ''.'' (oa_roles_claim c))) (\<lambda>v.
        role_values c (if truthy v then v else dget_or user_data (oa_roles_claim c) (JDict []))))"

definition role_of_claims :: "oauth_config \<Rightarrow> string \<Rightarrow> json list \<Rightarrow> string" where
  "role_of_claims c dflt roles =
     (let has = list_ex (\<lambda>r. JStr r \<in> set roles);
          r1 = (if has (oa_allowed_roles c) then ''user'' else dflt)
      in if roles = [] then dflt else if has (oa_admin_roles c) then ''admin'' else r1)"

definition get_user_role :: "oauth_config \<Rightarrow> string \<Rightarrow> user option \<Rightarrow> dict \<Rightarrow> user_db \<Rightarrow> py_error + string" where
  "get_user_role c dflt found user_data udb =
     (let n = get_num_users udb in
      if found \<noteq> None \<and> n = 1 then Inr ''admin''
      else if found = None \<and> n = 0 then Inr ''admin''
      else if oa_manage_roles c then and_then (oauth_roles c user_data) (\<lambda>rs. Inr (role_of_claims c dflt rs))
      else Inr (case found of None \<Rightarrow> dflt | Some u \<Rightarrow> u_role u))"

section \<open>Blocked groups\<close>

text \<open>
  \<open>fnmatch\<close>: a star, a question mark, and sets of characters; a bracket without an end stands for itself. \<open>n\<close> bounds
  the recursion by the lengths of both texts.
\<close>

fun in_set :: "char \<Rightarrow> string \<Rightarrow> bool" where
  "in_set c (a # h # b # r) =
     (if h = CHR ''-'' then code a \<le> code c \<and> code c \<le> code b \<or> in_set c r else c = a \<or> in_set c (h # b # r))"
| "in_set c (a # r) = (c = a \<or> in_set c r)"
| "in_set c [] = False"

definition char_set :: "string \<Rightarrow> (bool \<times> string \<times> string) option" where
  "char_set p =
     (let neg = startswith p ''!''; q = (if neg then tl p else p);
          lead = (if startswith q '']'' then 1 else 0);
          body = take lead q @ takeWhile (\<lambda>c. c \<noteq> CHR '']'') (drop lead q)
      in if length body = length q then None else Some (neg, body, drop (length body + 1) q))"

fun glob :: "nat \<Rightarrow> string \<Rightarrow> string \<Rightarrow> bool" where
  "glob 0 p s = False"
| "glob (Suc n) p s = (case p of
     [] \<Rightarrow> s = []
   | c # r \<Rightarrow>
       if c = CHR ''*'' then glob n r s \<or> (s \<noteq> [] \<and> glob n p (tl s))
       else if s = [] then False
       else if c = CHR ''?'' then glob n r (tl s)
       else if c = CHR ''['' then (case char_set r of
           None \<Rightarrow> hd s = c \<and> glob n r (tl s)
         | Some (neg, body, rest) \<Rightarrow> in_set (hd s) body \<noteq> neg \<and> glob n rest (tl s))
       else hd s = c \<and> glob n r (tl s))"

definition fnmatch :: "string \<Rightarrow> string \<Rightarrow> bool" where
  "fnmatch s p = glob (Suc (length p + length s)) p s"

definition looks_regular :: "string \<Rightarrow> bool" where
  "looks_regular p = list_ex (\<lambda>c. c \<in> set (CHR 0x5C # ''^$[](){}+|'')) p"

text \<open>\<open>search\<close> is \<open>re.search\<close>; \<open>None\<close> for an invalid pattern.\<close>

fun is_in_blocked_groups :: "(string \<Rightarrow> string \<Rightarrow> bool option) \<Rightarrow> string \<Rightarrow> string list \<Rightarrow> bool" where
  "is_in_blocked_groups search name [] = False"
| "is_in_blocked_groups search name (p # ps) =
     (if p = [] then is_in_blocked_groups search name ps
      else name = p \<or> (looks_regular p \<and> search p name = Some True) \<or>
        ((CHR ''*'' \<in> set p \<or> CHR ''?'' \<in> set p) \<and> fnmatch name p) \<or> is_in_blocked_groups search name ps)"

section \<open>Groups\<close>

definition group_claims :: "oauth_config \<Rightarrow> dict \<Rightarrow> py_error + json list" where
  "group_claims c user_data =
     (if oa_groups_claim c = [] then Inr []
      else and_then (nested_claim (JDict user_data) (split_on CHR ''.'' (oa_groups_claim c))) (\<lambda>v. case v of
          JList xs \<Rightarrow> Inr xs
        | JStr s \<Rightarrow>
            if sublist (oa_groups_separator c) s
            then and_then (split_text (oa_groups_separator c) s) (\<lambda>xs. Inr (map JStr xs)) else Inr [JStr s]
        | _ \<Rightarrow> Inr []))"

text \<open>
  A claimed group that does not exist is created; a claim that is neither a text nor a list or an object fails and is
  passed over, while a list or an object cannot be looked up among the names and ends the sign-in. \<open>fresh\<close>
  draws the ids and times.
\<close>

definition claimed_form :: "string \<Rightarrow> dict \<Rightarrow> group_form" where
  "claimed_form name permissions =
     \<lparr>gf_name = name, gf_description = ''Group '' @ [CHR 0x27] @ name @ [CHR 0x27] @ '' created automatically via OAuth.'',
      gf_permissions = Some permissions, gf_data = None\<rparr>"

fun create_claimed :: "(string \<Rightarrow> id \<times> time \<times> time) \<Rightarrow> id \<Rightarrow> dict \<Rightarrow> string set \<Rightarrow> json list \<Rightarrow> group_db \<Rightarrow>
    (py_error + unit) \<times> group_db" where
  "create_claimed fresh creator permissions names [] gdb = (Inr (), gdb)"
| "create_claimed fresh creator permissions names (JStr n # vs) gdb =
     (if n \<in> names then create_claimed fresh creator permissions names vs gdb
      else case fresh n of (gid, t1, t2) \<Rightarrow>
        (case insert_new_group gid t1 t2 creator (claimed_form n permissions) gdb of
           (None, gdb1) \<Rightarrow> create_claimed fresh creator permissions names vs gdb1
         | (Some g, gdb1) \<Rightarrow> create_claimed fresh creator permissions (insert n names) vs gdb1))"
| "create_claimed fresh creator permissions names (JList xs # vs) gdb = (Inl TypeError, gdb)"
| "create_claimed fresh creator permissions names (JDict d # vs) gdb = (Inl TypeError, gdb)"
| "create_claimed fresh creator permissions names (_ # vs) gdb = create_claimed fresh creator permissions names vs gdb"

text \<open>A group without permissions gets the default ones when its members change.\<close>

definition filled_form :: "dict \<Rightarrow> group \<Rightarrow> group_form" where
  "filled_form permissions g =
     \<lparr>gf_name = grp_name g, gf_description = grp_description g,
      gf_permissions = Some (case grp_permissions g of None \<Rightarrow> permissions | Some p \<Rightarrow> if p = [] then permissions else p),
      gf_data = None\<rparr>"

definition leave_group :: "time \<Rightarrow> dict \<Rightarrow> id \<Rightarrow> group \<Rightarrow> group_db \<Rightarrow> group_db" where
  "leave_group now permissions uid g gdb =
     snd (update_group_by_id now (grp_id g) (filled_form permissions g)
       (snd (remove_users_from_group now (grp_id g) (Some [uid]) gdb)))"

definition join_group :: "foreign_keys \<Rightarrow> time \<Rightarrow> (id \<Rightarrow> id) \<Rightarrow> dict \<Rightarrow> id \<Rightarrow> group \<Rightarrow> group_db \<Rightarrow> group_db" where
  "join_group fk now row permissions uid g gdb =
     snd (update_group_by_id now (grp_id g) (filled_form permissions g)
       (snd (add_users_to_group fk now (grp_id g) (Some [(row (grp_id g), uid)]) gdb)))"

text \<open>The readings of a callback: the fresh ids, the clock, the pattern matcher and whether foreign keys hold.\<close>

record oauth_env =
  oe_search :: "string \<Rightarrow> string \<Rightarrow> bool option"
  oe_group :: "string \<Rightarrow> id \<times> time \<times> time"
  oe_row :: "id \<Rightarrow> id"
  oe_now :: time

definition is_free :: "oauth_env \<Rightarrow> oauth_config \<Rightarrow> group \<Rightarrow> bool" where
  "is_free e c g \<longleftrightarrow> \<not> is_in_blocked_groups (oe_search e) (grp_name g) (oa_blocked_groups c)"

definition follow_claims ::
  "foreign_keys \<Rightarrow> oauth_env \<Rightarrow> oauth_config \<Rightarrow> id \<Rightarrow> dict \<Rightarrow> json list \<Rightarrow> group list \<Rightarrow> group_db \<Rightarrow> group_db" where
  "follow_claims fk e c uid permissions claims current gdb =
     (let leave = filter (\<lambda>g. claims \<noteq> [] \<and> JStr (grp_name g) \<notin> set claims \<and> is_free e c g) current;
          join = filter (\<lambda>g. claims \<noteq> [] \<and> JStr (grp_name g) \<in> set claims \<and>
              \<not> list_ex (\<lambda>h. grp_name h = grp_name g) current \<and> is_free e c g) (get_all_groups gdb);
          gdb1 = fold (leave_group (oe_now e) permissions uid) leave gdb
      in fold (join_group fk (oe_now e) (oe_row e) permissions uid) join gdb1)"

definition sync_claimed ::
  "foreign_keys \<Rightarrow> oauth_env \<Rightarrow> oauth_config \<Rightarrow> id \<Rightarrow> user_db \<Rightarrow> dict \<Rightarrow> json list \<Rightarrow> group_db \<Rightarrow> (py_error + unit) \<times> group_db" where
  "sync_claimed fk e c uid udb permissions claims gdb =
     (let current = get_groups_by_member_id uid gdb;
          creator = (case get_super_admin_user udb of None \<Rightarrow> uid | Some a \<Rightarrow> u_id a);
          (r, gdb1) = (if oa_create_groups c then create_claimed (oe_group e) creator permissions
              (grp_name ` set (get_all_groups gdb)) claims gdb else (Inr (), gdb))
      in case r of
           Inl x \<Rightarrow> (Inl x, gdb1)
         | Inr _ \<Rightarrow> (Inr (), follow_claims fk e c uid permissions claims current gdb1))"

definition update_user_groups ::
  "foreign_keys \<Rightarrow> oauth_env \<Rightarrow> oauth_config \<Rightarrow> id \<Rightarrow> user_db \<Rightarrow> dict \<Rightarrow> dict \<Rightarrow> group_db \<Rightarrow> (py_error + unit) \<times> group_db" where
  "update_user_groups fk e c uid udb user_data permissions gdb = (case group_claims c user_data of
     Inl x \<Rightarrow> (Inl x, gdb) | Inr claims \<Rightarrow> sync_claimed fk e c uid udb permissions claims gdb)"

section \<open>The picture\<close>

text \<open>\<open>base64.b64encode\<close> of bytes.\<close>

definition sextet_char :: "nat \<Rightarrow> char" where
  "sextet_char v = char_of
     (if v < 26 then v + 65 else if v < 52 then v + 71 else if v < 62 then v - 4 else if v = 62 then 43 else 47 :: nat)"

fun b64encode :: "nat list \<Rightarrow> string" where
  "b64encode (a # b # c # r) =
     sextet_char (a div 4) # sextet_char (16 * (a mod 4) + b div 16) # sextet_char (4 * (b mod 16) + c div 64) #
     sextet_char (c mod 64) # b64encode r"
| "b64encode [a, b] =
     [sextet_char (a div 4), sextet_char (16 * (a mod 4) + b div 16), sextet_char (4 * (b mod 16)), CHR ''='']"
| "b64encode [a] = [sextet_char (a div 4), sextet_char (16 * (a mod 4)), CHR ''='', CHR ''='']"
| "b64encode [] = []"

text \<open>
  \<open>fetch\<close> gives the bytes of an answer, or none when its status is an error; \<open>guess\<close> is the media type of a name.
\<close>

definition process_picture_url ::
  "(string \<Rightarrow> string option \<Rightarrow> py_error + nat list option) \<Rightarrow> (string \<Rightarrow> string option) \<Rightarrow> json \<Rightarrow> string option \<Rightarrow> string" where
  "process_picture_url fetch guess url access = (case url of
     JStr u \<Rightarrow>
       if u = [] then ''/user.png''
       else (case fetch u access of
         Inr (Some bytes) \<Rightarrow>
           ''data:'' @ (case guess u of None \<Rightarrow> ''image/jpeg'' | Some t \<Rightarrow> t) @ '';base64,'' @ b64encode bytes
       | _ \<Rightarrow> ''/user.png'')
   | _ \<Rightarrow> ''/user.png'')"

section \<open>The callback\<close>

text \<open>
  A provider: its name, the claim it uses for the subject, and its fall-back picture. Its answers: the token, the
  claims of the token's owner, and the addresses GitHub knows.
\<close>

record oauth_provider =
  op_name :: string
  op_sub_claim :: string
  op_picture_url :: string

record oauth_answers =
  ow_token :: "py_error + dict"
  ow_userinfo :: "py_error + json"
  ow_github_emails :: "py_error + dict list option"
  ow_fetch :: "string \<Rightarrow> string option \<Rightarrow> py_error + nat list option"
  ow_guess :: "string \<Rightarrow> string option"
  ow_has_sub :: "dict option \<Rightarrow> string \<Rightarrow> string \<Rightarrow> bool"

definition oauth_user_data :: "oauth_config \<Rightarrow> oauth_provider \<Rightarrow> oauth_answers \<Rightarrow> dict \<Rightarrow> http_error + dict" where
  "oauth_user_data c pv w token =
     (let v = dget_or token ''userinfo'' JNull;
          enough = (case v of
            JDict d \<Rightarrow> dget d (oa_email_claim c) \<noteq> None \<and> dget d (oa_username_claim c) \<noteq> None | _ \<Rightarrow> False)
      in and_then (if enough then Inr v else raising ServerError (ow_userinfo w)) (\<lambda>u.
         let u1 = (case u of JDict d \<Rightarrow> if op_name pv = ''feishu'' then dget_or d ''data'' u else u | _ \<Rightarrow> u)
         in if \<not> truthy u1 then Inl BadRequest else case u1 of JDict d \<Rightarrow> Inr d | _ \<Rightarrow> Inl ServerError))"

definition oauth_subject :: "oauth_config \<Rightarrow> oauth_provider \<Rightarrow> dict \<Rightarrow> http_error + string" where
  "oauth_subject c pv d =
     (let v = dget_or d (if oa_sub_claim c = [] then op_sub_claim pv else oa_sub_claim c) JNull
      in if truthy v then Inr (py_str v) else Inl BadRequest)"

definition primary_address :: "dict list \<Rightarrow> http_error + json" where
  "primary_address es = (case filter (\<lambda>e. truthy (dget_or e ''primary'' JNull)) es of
     [] \<Rightarrow> Inl BadRequest
   | e # _ \<Rightarrow> (case dget e ''email'' of Some v \<Rightarrow> if truthy v then Inr v else Inl BadRequest | None \<Rightarrow> Inl BadRequest))"

definition oauth_email :: "oauth_config \<Rightarrow> oauth_provider \<Rightarrow> oauth_answers \<Rightarrow> string \<Rightarrow> dict \<Rightarrow> http_error + string" where
  "oauth_email c pv w sub d =
     (let v = dget_or d (oa_email_claim c) (JStr []) in
      and_then (if truthy v then Inr v
          else if op_name pv = ''github'' then
            (case ow_github_emails w of Inr (Some es) \<Rightarrow> primary_address es | _ \<Rightarrow> Inl BadRequest)
          else if oa_email_fallback c then Inr (JStr (op_name pv @ ''@'' @ sub @ ''.local''))
          else Inl BadRequest) (\<lambda>e. case e of JStr s \<Rightarrow> Inr (lower s) | _ \<Rightarrow> Inl ServerError))"

definition domain_allowed :: "oauth_config \<Rightarrow> string \<Rightarrow> bool" where
  "domain_allowed c email \<longleftrightarrow> ''*'' \<in> set (oa_allowed_domains c) \<or> last (split_on CHR ''@'' email) \<in> set (oa_allowed_domains c)"

text \<open>An account linked to the subject, or one with the address that is linked now.\<close>

definition find_or_merge ::
  "oauth_config \<Rightarrow> oauth_answers \<Rightarrow> string \<Rightarrow> string \<Rightarrow> string \<Rightarrow> user_db \<Rightarrow> user option \<times> user_db" where
  "find_or_merge c w provider sub email udb = (case get_user_by_oauth_sub (ow_has_sub w) provider sub udb of
     Some u \<Rightarrow> (Some u, udb)
   | None \<Rightarrow>
       if \<not> oa_merge_by_email c then (None, udb)
       else (case get_user_by_email email udb of
         None \<Rightarrow> (None, udb) | Some u \<Rightarrow> (Some u, snd (update_user_oauth_by_id (u_id u) provider sub udb))))"

definition claimed_picture :: "oauth_config \<Rightarrow> oauth_provider \<Rightarrow> oauth_answers \<Rightarrow> dict \<Rightarrow> dict \<Rightarrow> string" where
  "claimed_picture c pv w token d =
     process_picture_url (ow_fetch w) (ow_guess w) (dget_or d (oa_picture_claim c) (JStr (op_picture_url pv)))
       (case dget_or token ''access_token'' JNull of JStr t \<Rightarrow> Some t | _ \<Rightarrow> None)"

text \<open>A known user: the role is brought in line with the claims, then the picture.\<close>

definition refresh_user ::
  "oauth_config \<Rightarrow> oauth_provider \<Rightarrow> oauth_answers \<Rightarrow> string \<Rightarrow> dict \<Rightarrow> dict \<Rightarrow> user \<Rightarrow> user_db \<Rightarrow> (http_error + user) \<times> user_db" where
  "refresh_user c pv w dflt token d u udb = (case get_user_role c dflt (Some u) d udb of
     Inl e \<Rightarrow> (Inl ServerError, udb)
   | Inr role \<Rightarrow>
       (let udb1 = (if u_role u \<noteq> role then snd (update_user_role_by_id (u_id u) role udb) else udb);
            pic = claimed_picture c pv w token d;
            udb2 = (if oa_update_picture c \<and> oa_picture_claim c \<noteq> [] \<and> pic \<noteq> u_profile_image_url u
              then snd (update_user_profile_image_url_by_id (u_id u) pic udb1) else udb1)
        in (Inr (u\<lparr>u_role := role\<rparr>), udb2)))"

definition oauth_name :: "oauth_config \<Rightarrow> string \<Rightarrow> dict \<Rightarrow> py_error + string" where
  "oauth_name c email d = (case dget_or d (oa_username_claim c) JNull of
     JStr s \<Rightarrow> Inr (if s = [] then email else s) | v \<Rightarrow> if truthy v then Inl ValueError else Inr email)"

definition create_user ::
  "'r token_env \<Rightarrow> oauth_config \<Rightarrow> oauth_provider \<Rightarrow> oauth_answers \<Rightarrow> moment \<Rightarrow> string \<Rightarrow> string \<Rightarrow> dict \<Rightarrow> dict \<Rightarrow> 'r site \<Rightarrow>
     (user, 'r) site_answer" where
  "create_user env c pv w m sub email token d s =
     (let udb = s_users (st_db s); dflt = ag_default_user_role (st_config s) in
      if \<not> oa_signup c then (Inl Forbidden, s)
      else if get_user_by_email email udb \<noteq> None then (Inl BadRequest, s)
      else let pic = (if oa_picture_claim c = [] then ''/user.png'' else claimed_picture c pv w token d)
           in case and_then (av_hash env (mt_random m)) (\<lambda>h. and_then (get_user_role c dflt None d udb) (\<lambda>role.
               and_then (oauth_name c email d) (\<lambda>name. Inr (h, role, name)))) of
                Inl e \<Rightarrow> (Inl ServerError, s)
              | Inr (h, role, name) \<Rightarrow>
                  (case mt_row m of (t1, t2, t3) \<Rightarrow>
                    (case insert_new_auth (mt_uid m) email h name pic role
                        (Some [(op_name pv, JDict [(''sub'', JStr sub)])]) t1 t2 t3 udb of
                      (Inl e, udb1) \<Rightarrow> (Inl ServerError, with_users udb1 s)
                    | (Inr u, udb1) \<Rightarrow> (Inr u, join_default_group env m (u_id u) (with_users udb1 s)))))"

definition oauth_account ::
  "'r token_env \<Rightarrow> oauth_config \<Rightarrow> oauth_provider \<Rightarrow> oauth_answers \<Rightarrow> moment \<Rightarrow> string \<Rightarrow> string \<Rightarrow> dict \<Rightarrow> dict \<Rightarrow> 'r site \<Rightarrow>
     (user, 'r) site_answer" where
  "oauth_account env c pv w m sub email token d s =
     (case find_or_merge c w (op_name pv) sub email (s_users (st_db s)) of
        (Some u, udb) \<Rightarrow>
          (case refresh_user c pv w (ag_default_user_role (st_config s)) token d u udb of
             (r, udb1) \<Rightarrow> (r, with_users udb1 s))
      | (None, udb) \<Rightarrow> create_user env c pv w m sub email token d (with_users udb s))"

definition oauth_token ::
  "'r token_env \<Rightarrow> oauth_env \<Rightarrow> oauth_config \<Rightarrow> moment \<Rightarrow> dict \<Rightarrow> user \<Rightarrow> 'r site \<Rightarrow> (string \<times> user, 'r) site_answer" where
  "oauth_token env e c m d u s =
     (case and_then (parse_duration (ag_jwt_expires_in (st_config s))) (create_token env (mt_token_us m) (mt_jti m) (u_id u)) of
        Inl x \<Rightarrow> (Inl ServerError, s)
      | Inr token \<Rightarrow>
          if \<not> oa_manage_groups c \<or> u_role u = ''admin'' then (Inr (token, u), s)
          else (case update_user_groups (av_fk env) e c (u_id u) (s_users (st_db s)) d (ag_permissions (st_config s))
              (s_groups (st_db s)) of
            (r, gdb) \<Rightarrow> (case r of Inl x \<Rightarrow> Inl ServerError | Inr _ \<Rightarrow> Inr (token, u),
                s\<lparr>st_db := (st_db s)\<lparr>s_groups := gdb\<rparr>\<rparr>)))"

text \<open>Every refusal of the callback becomes a redirection with its message; here it is the refusal itself.\<close>

definition oauth_signin ::
  "'r token_env \<Rightarrow> oauth_env \<Rightarrow> oauth_config \<Rightarrow> oauth_provider \<Rightarrow> oauth_answers \<Rightarrow> moment \<Rightarrow> 'r site \<Rightarrow>
     (string \<times> user \<times> dict, 'r) site_answer" where
  "oauth_signin env e c pv w m s = (case ow_token w of
     Inl _ \<Rightarrow> (Inl BadRequest, s)
   | Inr token \<Rightarrow>
       (case and_then (oauth_user_data c pv w token) (\<lambda>d. and_then (oauth_subject c pv d) (\<lambda>sub.
           and_then (oauth_email c pv w sub d) (\<lambda>email.
             if domain_allowed c email then Inr (d, sub, email) else Inl BadRequest))) of
          Inl h \<Rightarrow> (Inl h, s)
        | Inr (d, sub, email) \<Rightarrow>
            (case oauth_account env c pv w m sub email token d s of
               (Inl h, s1) \<Rightarrow> (Inl h, s1)
             | (Inr u, s1) \<Rightarrow>
                 (case oauth_token env e c m d u s1 of
                    (Inl h, s2) \<Rightarrow> (Inl h, s2) | (Inr (jwt, v), s2) \<Rightarrow> (Inr (jwt, v, token), s2)))))"

text \<open>The cookies of the answer: the token, and the session with the provider if it could be stored.\<close>

definition handle_callback ::
  "'r token_env \<Rightarrow> oauth_env \<Rightarrow> oauth_config \<Rightarrow> oauth_provider \<Rightarrow> oauth_answers \<Rightarrow> moment \<Rightarrow>
     cipher \<Rightarrow> (int \<Rightarrow> string) \<Rightarrow> string \<Rightarrow> id \<Rightarrow> 'r site \<Rightarrow> oauth_session list \<Rightarrow>
     (http_error + (string \<times> string) list) \<times> 'r site \<times> oauth_session list" where
  "handle_callback env e c pv w m z later issued sid s rows = (case oauth_signin env e c pv w m s of
     (Inl h, s1) \<Rightarrow> (Inl h, s1, rows)
   | (Inr (jwt, u, token), s1) \<Rightarrow>
       (case callback_token later issued token of
          Inl x \<Rightarrow> (Inr [(''token'', jwt)], s1, rows)
        | Inr d \<Rightarrow>
            (case replace_session z sid (fst (mt_row m)) (u_id u) (op_name pv) d rows of
               (None, rows1) \<Rightarrow> (Inr [(''token'', jwt)], s1, rows1)
             | (Some x, rows1) \<Rightarrow> (Inr [(''token'', jwt), (''oauth_session_id'', om_id x)], s1, rows1))))"

section \<open>Membership follows the claims\<close>

lemma glob_enough: "length p + length s < n \<Longrightarrow> length p + length s < m \<Longrightarrow> glob n p s = glob m p s"
proof (induction n arbitrary: m p s)
  case (Suc n)
  from Suc.prems obtain k where m: "m = Suc k" by (cases m) auto
  have rest: "length r < length p" if "char_set p = Some (neg, body, r)" "p \<noteq> []" for p neg body r
    using that by (auto simp: char_set_def Let_def split: if_splits)
  show ?case
  proof (cases p)
    case (Cons c r)
    have star: "glob n r s = glob k r s" "s \<noteq> [] \<Longrightarrow> glob n p (tl s) = glob k p (tl s)"
      "s \<noteq> [] \<Longrightarrow> glob n r (tl s) = glob k r (tl s)"
      using Suc.prems Cons m by (cases s; auto intro!: Suc.IH)+
    have set: "glob n q (tl s) = glob k q (tl s)" if "char_set r = Some (neg, body, q)" "s \<noteq> []" for neg body q
    proof -
      have "length q < length p" using that rest[of r] Cons by (cases r) (auto simp: char_set_def)
      then show ?thesis using Suc.prems m that(2) by (cases s) (auto intro!: Suc.IH)
    qed
    show ?thesis using star set by (auto simp: m Cons split: option.split)
  qed (simp add: m)
qed simp

lemma members_of_update [simp]: "group_members (snd (update_group_by_id now gid form gdb)) = group_members gdb"
  by (simp add: update_group_by_id_def Let_def)

lemma ids_of_update [simp]: "map grp_id (groups (snd (update_group_by_id now gid form gdb))) = map grp_id (groups gdb)"
  by (auto simp: update_group_by_id_def Let_def upd_rows_def)

lemma has_group_ids: "map grp_id (groups a) = map grp_id (groups b) \<Longrightarrow> has_group gid a = has_group gid b"
  unfolding has_group_def by (metis list.set_map)

lemma get_group_None: "get_group_by_id gid gdb = None \<longleftrightarrow> \<not> has_group gid gdb"
  by (simp add: get_group_by_id_def row_get_None_iff has_group_def)

lemma leave_group_state:
  "map grp_id (groups (leave_group now perms uid g gdb)) = map grp_id (groups gdb) \<and>
   group_members (leave_group now perms uid g gdb) =
     (if has_group (grp_id g) gdb
      then del_rows (\<lambda>m. gm_group_id m = grp_id g \<and> gm_user_id m = uid) (group_members gdb) else group_members gdb)"
proof (cases "get_group_by_id (grp_id g) gdb")
  case None
  then have "\<not> has_group (grp_id g) gdb" by (simp add: get_group_None)
  then show ?thesis using None by (simp add: leave_group_def remove_users_from_group_def)
next
  case (Some h)
  then have "has_group (grp_id g) gdb" using get_group_None[of "grp_id g" gdb] by simp
  then show ?thesis using Some
    by (simp add: leave_group_def remove_users_from_group_def Let_def)
qed

lemma leave_groups_keep:
  "map grp_id (groups (fold (leave_group now perms uid) gs gdb)) = map grp_id (groups gdb) \<and>
   set (group_members (fold (leave_group now perms uid) gs gdb)) \<subseteq> set (group_members gdb)"
proof (induction gs arbitrary: gdb)
  case (Cons g gs)
  have "set (group_members (leave_group now perms uid g gdb)) \<subseteq> set (group_members gdb)"
    using leave_group_state[of now perms uid g gdb] by auto
  then show ?case
    using Cons.IH[of "leave_group now perms uid g gdb"] leave_group_state[of now perms uid g gdb] by auto
qed simp

lemma leave_groups_members:
  "list_all (\<lambda>g. has_group (grp_id g) gdb) gs \<Longrightarrow>
     is_member (fold (leave_group now perms uid) gs gdb) gid v =
       (is_member gdb gid v \<and> \<not> (v = uid \<and> gid \<in> grp_id ` set gs))"
proof (induction gs arbitrary: gdb)
  case (Cons g gs)
  define gdb1 where "gdb1 = leave_group now perms uid g gdb"
  have ids: "map grp_id (groups gdb1) = map grp_id (groups gdb)"
    and mem: "group_members gdb1 = (if has_group (grp_id g) gdb
      then del_rows (\<lambda>m. gm_group_id m = grp_id g \<and> gm_user_id m = uid) (group_members gdb) else group_members gdb)"
    unfolding gdb1_def using leave_group_state by blast+
  have m: "is_member gdb1 gid v = (is_member gdb gid v \<and> \<not> (v = uid \<and> gid = grp_id g))"
    using Cons.prems by (auto simp: is_member_def mem list_ex_iff)
  have h: "has_group h gdb1 = has_group h gdb" for h by (rule has_group_ids[OF ids])
  have "is_member (fold (leave_group now perms uid) gs gdb1) gid v =
       (is_member gdb1 gid v \<and> \<not> (v = uid \<and> gid \<in> grp_id ` set gs))"
    by (rule Cons.IH) (use Cons.prems h in simp)
  then show ?case by (auto simp: gdb1_def[symmetric] m)
qed simp

text \<open>A membership that the schema admits is added; one that exists stays.\<close>

lemma join_group_state:
  assumes "has_group (grp_id g) gdb" "row (grp_id g) \<notin> gm_id ` set (group_members gdb)"
    and "case fk of None \<Rightarrow> True | Some known \<Rightarrow> known uid"
  shows "map grp_id (groups (join_group fk now row perms uid g gdb)) = map grp_id (groups gdb) \<and>
    group_members (join_group fk now row perms uid g gdb) =
      (if is_member gdb (grp_id g) uid then group_members gdb
       else group_members gdb @ [new_member (row (grp_id g)) (grp_id g) uid now])"
proof -
  obtain h where h: "get_group_by_id (grp_id g) gdb = Some h" using assms(1) get_group_None[of "grp_id g" gdb] by auto
  have key: "member_key (new_member (row (grp_id g)) (grp_id g) uid now) \<in> member_key ` set (group_members gdb) \<longleftrightarrow>
      is_member gdb (grp_id g) uid"
    by (auto simp: member_key_def new_member_def is_member_def list_ex_iff intro!: rev_image_eqI)
  have add: "add_member fk (new_member (row (grp_id g)) (grp_id g) uid now) gdb =
      (if is_member gdb (grp_id g) uid then None
       else Some (gdb\<lparr>group_members := group_members gdb @ [new_member (row (grp_id g)) (grp_id g) uid now]\<rparr>))"
    unfolding add_member_def key using assms by (auto simp: new_member_def split: option.split)
  show ?thesis
    by (simp add: join_group_def add_users_to_group_def h add Let_def)
qed

lemma join_groups_members:
  assumes "list_all (\<lambda>g. has_group (grp_id g) gdb \<and> row (grp_id g) \<notin> gm_id ` set (group_members gdb)) gs"
    and "inj row" "distinct (map grp_id gs)" "case fk of None \<Rightarrow> True | Some known \<Rightarrow> known uid"
  shows "is_member (fold (join_group fk now row perms uid) gs gdb) gid v =
       (is_member gdb gid v \<or> (v = uid \<and> gid \<in> grp_id ` set gs))"
  using assms
proof (induction gs arbitrary: gdb)
  case (Cons g gs)
  define gdb1 where "gdb1 = join_group fk now row perms uid g gdb"
  have g: "has_group (grp_id g) gdb" "row (grp_id g) \<notin> gm_id ` set (group_members gdb)" using Cons.prems(1) by auto
  have ids: "map grp_id (groups gdb1) = map grp_id (groups gdb)"
    and mem: "group_members gdb1 = (if is_member gdb (grp_id g) uid then group_members gdb
       else group_members gdb @ [new_member (row (grp_id g)) (grp_id g) uid now])"
    unfolding gdb1_def using join_group_state[where g = g and row = row and gdb = gdb and uid = uid, OF g Cons.prems(4)] by blast+
  have m: "is_member gdb1 gid v = (is_member gdb gid v \<or> (v = uid \<and> gid = grp_id g))"
    by (auto simp: is_member_def mem list_ex_iff new_member_def)
  have h: "has_group x gdb1 = has_group x gdb" for x by (rule has_group_ids[OF ids])
  have "row (grp_id y) \<noteq> row (grp_id g)" if "y \<in> set gs" for y
    using that Cons.prems(3) by (auto simp: inj_eq[OF Cons.prems(2)] rev_image_eqI)
  then have "is_member (fold (join_group fk now row perms uid) gs gdb1) gid v =
       (is_member gdb1 gid v \<or> (v = uid \<and> gid \<in> grp_id ` set gs))"
    using Cons.prems by (intro Cons.IH) (auto simp: h mem list_all_iff new_member_def)
  then show ?case by (auto simp: gdb1_def[symmetric] m)
qed simp

text \<open>Creating the claimed groups adds rows with new ids and new names and leaves the members alone.\<close>

lemma insert_group_cases:
  obtains "insert_new_group gid t1 t2 u form gdb = (None, gdb)"
  | g where "insert_new_group gid t1 t2 u form gdb = (Some g, gdb\<lparr>groups := groups gdb @ [g]\<rparr>)"
    "grp_id g = gid" "grp_name g = gf_name form" "gid \<notin> grp_id ` set (groups gdb)"
  by (cases "gid \<in> grp_id ` set (groups gdb)") (auto simp: insert_new_group_def Let_def add_row_def)

lemma create_claimed_state:
  assumes "create_claimed fresh creator perms names vs gdb = (r, gdb')"
    and "unique_key grp_id (groups gdb)" "unique_key grp_name (groups gdb)" "names = grp_name ` set (groups gdb)"
    and "inj (\<lambda>n. fst (fresh n))" "\<And>n. n \<notin> names \<Longrightarrow> fst (fresh n) \<notin> grp_id ` set (groups gdb)"
  shows "group_members gdb' = group_members gdb \<and> unique_key grp_id (groups gdb') \<and> unique_key grp_name (groups gdb') \<and>
    set (groups gdb) \<subseteq> set (groups gdb') \<and> grp_id ` (set (groups gdb') - set (groups gdb)) \<subseteq> range (\<lambda>n. fst (fresh n)) \<and>
    (r = Inr () \<longrightarrow> grp_name ` set (groups gdb') = grp_name ` set (groups gdb) \<union> {n. JStr n \<in> set vs})"
  using assms
proof (induction fresh creator perms names vs gdb rule: create_claimed.induct)
  case (2 fresh creator perms names n vs gdb)
  show ?case
  proof (cases "n \<in> names")
    case True
    then show ?thesis using 2(1)[OF True] "2.prems" by auto
  next
    case False
    obtain gid t1 t2 where f: "fresh n = (gid, t1, t2)" by (cases "fresh n")
    show ?thesis
    proof (rule insert_group_cases[of gid t1 t2 creator "claimed_form n perms" gdb])
      assume "insert_new_group gid t1 t2 creator (claimed_form n perms) gdb = (None, gdb)"
      moreover have "gid \<notin> grp_id ` set (groups gdb)" using "2.prems"(6)[OF False] f by simp
      ultimately show ?thesis by (simp add: insert_new_group_def Let_def add_row_def)
    next
      fix g assume r: "insert_new_group gid t1 t2 creator (claimed_form n perms) gdb = (Some g, gdb\<lparr>groups := groups gdb @ [g]\<rparr>)"
        and g: "grp_id g = gid" "grp_name g = gf_name (claimed_form n perms)" "gid \<notin> grp_id ` set (groups gdb)"
      let ?db = "gdb\<lparr>groups := groups gdb @ [g]\<rparr>"
      have n: "grp_name g = n" using g(2) by (simp add: claimed_form_def)
      have u: "unique_key grp_id (groups ?db)" "unique_key grp_name (groups ?db)"
        using "2.prems" g n False by (auto simp: unique_key_append)
      have new: "fst (fresh k) \<notin> grp_id ` set (groups ?db)" if "k \<notin> insert n names" for k
        using that "2.prems"(6)[of k] injD[OF "2.prems"(5), of k n] f g(1) by auto
      have run: "create_claimed fresh creator perms (insert n names) vs ?db = (r, gdb')"
        using "2.prems"(1) False f r by simp
      have names: "insert n names = grp_name ` set (groups ?db)" using "2.prems"(4) n by auto
      have "grp_id g \<in> range (\<lambda>n. fst (fresh n))" using f g(1) by (metis fst_conv rangeI)
      then show ?thesis
        using 2(3)[OF False f[symmetric] refl r[symmetric] refl run u names "2.prems"(5) new] n by auto
    qed
  qed
qed auto

lemma distinct_order_ids: "unique_key key rs \<Longrightarrow> distinct (map key (order_desc f rs))"
  by (simp add: unique_key_def distinct_map)

lemma set_current: "set (get_groups_by_member_id uid gdb) = {g \<in> set (groups gdb). is_member gdb (grp_id g) uid}"
  by (simp add: get_groups_by_member_id_def)

text \<open>Changing members leaves the ids and the names of the groups.\<close>

definition id_names :: "group_db \<Rightarrow> (id \<times> string) list" where
  "id_names gdb = map (\<lambda>g. (grp_id g, grp_name g)) (groups gdb)"

lemma id_names_update:
  assumes "\<And>h. h \<in> set (groups gdb) \<Longrightarrow> grp_id h = grp_id g \<Longrightarrow> grp_name h = grp_name g"
  shows "id_names (snd (update_group_by_id now (grp_id g) (filled_form perms g) gdb)) = id_names gdb"
  using assms by (auto simp: id_names_def update_group_by_id_def Let_def upd_rows_def filled_form_def)

lemma id_names_touch: "map (\<lambda>g. (grp_id g, grp_name g)) (touch p now gs) = map (\<lambda>g. (grp_id g, grp_name g)) gs"
  by (simp add: touch_def upd_rows_def)

lemma same_name_cong:
  assumes "id_names gdb' = id_names gdb" "\<And>h. h \<in> set (groups gdb) \<Longrightarrow> grp_id h = i \<Longrightarrow> grp_name h = n"
  shows "h \<in> set (groups gdb') \<Longrightarrow> grp_id h = i \<Longrightarrow> grp_name h = n"
proof -
  assume "h \<in> set (groups gdb')" "grp_id h = i"
  then have "(i, grp_name h) \<in> set (id_names gdb)" using assms(1)[symmetric] by (auto simp: id_names_def intro: rev_image_eqI)
  then show ?thesis using assms(2) by (auto simp: id_names_def)
qed

lemma id_names_remove: "id_names (snd (remove_users_from_group now gid us gdb)) = id_names gdb"
  by (auto simp: remove_users_from_group_def id_names_def id_names_touch Let_def split: option.split)

lemma groups_add_users_loop: "groups start = groups db \<Longrightarrow> groups (add_users_loop fk gid now start us db) = groups db"
proof (induction fk gid now start us db rule: add_users_loop.induct)
  case (2 fk gid now start uid u us db)
  show ?case
  proof (cases "add_member fk (new_member uid gid u now) db")
    case None
    then show ?thesis using "2.IH"(1) "2.prems" by simp
  next
    case (Some d)
    then show ?thesis using "2.IH"(2)[OF Some] "2.prems" add_member_SomeD[OF Some] by simp
  qed
qed simp

lemma id_names_add: "id_names (snd (add_users_to_group fk now gid us gdb)) = id_names gdb"
  by (auto simp: add_users_to_group_def id_names_def id_names_touch Let_def groups_add_users_loop split: option.split)

lemma id_names_fold:
  assumes "\<And>g db. id_names db = id_names gdb \<Longrightarrow> g \<in> set gs \<Longrightarrow> id_names (f g db) = id_names db"
  shows "id_names (fold f gs gdb) = id_names gdb"
  using assms
proof (induction gs arbitrary: gdb)
  case (Cons g gs)
  have "id_names (f g gdb) = id_names gdb" using Cons.prems by simp
  then show ?case using Cons.IH[of "f g gdb"] Cons.prems by simp
qed simp

lemma id_names_follow:
  assumes "unique_key grp_id (groups gdb)" "set current \<subseteq> set (groups gdb)"
  shows "id_names (follow_claims fk e c uid perms claims current gdb) = id_names gdb"
proof -
  have same: "h \<in> set (groups db) \<Longrightarrow> grp_id h = grp_id g \<Longrightarrow> grp_name h = grp_name g"
    if "id_names db = id_names gdb" "g \<in> set (groups gdb)" for db g h
    using same_name_cong[OF that(1), of "grp_id g" "grp_name g" h] unique_keyD[OF assms(1) _ that(2)] by metis
  have l: "id_names (leave_group t perms uid g db) = id_names db" if d: "id_names db = id_names gdb" "g \<in> set (groups gdb)" for t db g
  proof -
    have "grp_name h = grp_name g"
      if "h \<in> set (groups (snd (remove_users_from_group t (grp_id g) (Some [uid]) db)))" "grp_id h = grp_id g" for h
      by (rule same[OF _ d(2) that]) (simp add: id_names_remove d(1))
    then show ?thesis unfolding leave_group_def by (simp add: id_names_update id_names_remove)
  qed
  have j: "id_names (join_group fk t row perms uid g db) = id_names db"
    if d: "id_names db = id_names gdb" "g \<in> set (groups gdb)" for t row db g
  proof -
    have "grp_name h = grp_name g"
      if "h \<in> set (groups (snd (add_users_to_group fk t (grp_id g) (Some [(row (grp_id g), uid)]) db)))" "grp_id h = grp_id g" for h
      by (rule same[OF _ d(2) that]) (simp add: id_names_add d(1))
    then show ?thesis unfolding join_group_def by (simp add: id_names_update id_names_add)
  qed
  define leave where "leave = filter (\<lambda>g. claims \<noteq> [] \<and> JStr (grp_name g) \<notin> set claims \<and> is_free e c g) current"
  define join where "join = filter (\<lambda>g. claims \<noteq> [] \<and> JStr (grp_name g) \<in> set claims \<and>
      \<not> list_ex (\<lambda>h. grp_name h = grp_name g) current \<and> is_free e c g) (get_all_groups gdb)"
  have sub: "set leave \<subseteq> set (groups gdb)" "set join \<subseteq> set (groups gdb)"
    using assms(2) by (auto simp: leave_def join_def get_all_groups_def)
  have g1: "id_names (fold (leave_group (oe_now e) perms uid) leave gdb) = id_names gdb" (is "id_names ?d = _")
    by (rule id_names_fold) (use l sub(1) in blast)
  have "id_names (fold (join_group fk (oe_now e) (oe_row e) perms uid) join ?d) = id_names ?d"
    by (rule id_names_fold) (use j sub(2) g1 in auto)
  then show ?thesis unfolding follow_claims_def Let_def leave_def[symmetric] join_def[symmetric] using g1 by simp
qed

lemma follow_claims_members:
  assumes "unique_key grp_id (groups gdb)" "unique_key grp_name (groups gdb)"
    and "set current = {g \<in> set (groups gdb). is_member gdb (grp_id g) uid}"
    and "inj (oe_row e)" "range (oe_row e) \<inter> gm_id ` set (group_members gdb) = {}"
    and "case fk of None \<Rightarrow> True | Some known \<Rightarrow> known uid" "g \<in> set (groups gdb)"
  shows "is_member (follow_claims fk e c uid perms claims current gdb) (grp_id g) v =
    (if v = uid \<and> claims \<noteq> [] \<and> is_free e c g then JStr (grp_name g) \<in> set claims else is_member gdb (grp_id g) v)"
proof -
  define leave where "leave = filter (\<lambda>g. claims \<noteq> [] \<and> JStr (grp_name g) \<notin> set claims \<and> is_free e c g) current"
  define join where "join = filter (\<lambda>g. claims \<noteq> [] \<and> JStr (grp_name g) \<in> set claims \<and>
      \<not> list_ex (\<lambda>h. grp_name h = grp_name g) current \<and> is_free e c g) (get_all_groups gdb)"
  define gdb2 where "gdb2 = fold (leave_group (oe_now e) perms uid) leave gdb"
  have run: "follow_claims fk e c uid perms claims current gdb = fold (join_group fk (oe_now e) (oe_row e) perms uid) join gdb2"
    by (simp add: follow_claims_def Let_def leave_def join_def gdb2_def)
  have g2: "map grp_id (groups gdb2) = map grp_id (groups gdb)" "set (group_members gdb2) \<subseteq> set (group_members gdb)"
    unfolding gdb2_def using leave_groups_keep by blast+
  have known: "has_group x gdb2 = has_group x gdb" for x by (rule has_group_ids[OF g2(1)])
  have there: "has_group (grp_id x) gdb2" if "x \<in> set (groups gdb)" for x
    unfolding known using that by (simp add: has_group_def)
  have leave: "is_member gdb2 (grp_id g) v = (is_member gdb (grp_id g) v \<and> \<not> (v = uid \<and> grp_id g \<in> grp_id ` set leave))"
    unfolding gdb2_def by (subst leave_groups_members) (auto simp: leave_def assms(3) list_all_iff has_group_def)
  have join: "is_member (follow_claims fk e c uid perms claims current gdb) (grp_id g) v =
      (is_member gdb2 (grp_id g) v \<or> (v = uid \<and> grp_id g \<in> grp_id ` set join))"
    unfolding run
  proof (rule join_groups_members[OF _ assms(4) _ assms(6)])
    show "list_all (\<lambda>g. has_group (grp_id g) gdb2 \<and> oe_row e (grp_id g) \<notin> gm_id ` set (group_members gdb2)) join"
      using assms(5) g2(2) by (auto simp: join_def list_all_iff get_all_groups_def there)
    show "distinct (map grp_id join)"
      unfolding join_def get_all_groups_def by (rule distinct_map_filter[OF distinct_order_ids[OF assms(1)]])
  qed
  have same: "h = g" if "h \<in> set (groups gdb)" "grp_id h = grp_id g \<or> grp_name h = grp_name g" for h
    using that assms(7) unique_keyD[OF assms(1), of h g] unique_keyD[OF assms(2), of h g] by auto
  have here: "grp_id g \<in> grp_id ` set xs \<longleftrightarrow> g \<in> set xs" if "set xs \<subseteq> set (groups gdb)" for xs
  proof
    assume "grp_id g \<in> grp_id ` set xs"
    then obtain h where "h \<in> set xs" "grp_id h = grp_id g" by auto
    then show "g \<in> set xs" using same[of h] that by blast
  qed simp
  have held: "list_ex (\<lambda>h. grp_name h = grp_name g) current \<longleftrightarrow> is_member gdb (grp_id g) uid"
  proof
    assume "list_ex (\<lambda>h. grp_name h = grp_name g) current"
    then obtain h where h: "h \<in> set current" "grp_name h = grp_name g" by (auto simp: list_ex_iff)
    then show "is_member gdb (grp_id g) uid" using same[of h] assms(3) by auto
  next
    assume "is_member gdb (grp_id g) uid"
    then have "g \<in> set current" using assms(3,7) by simp
    then show "list_ex (\<lambda>h. grp_name h = grp_name g) current" by (auto simp: list_ex_iff)
  qed
  have "set leave \<subseteq> set (groups gdb)" "set join \<subseteq> set (groups gdb)"
    using assms(3) by (auto simp: leave_def join_def get_all_groups_def)
  note here = here[OF this(1)] here[OF this(2)]
  have "grp_id g \<in> grp_id ` set leave \<longleftrightarrow> is_member gdb (grp_id g) uid \<and> claims \<noteq> [] \<and> JStr (grp_name g) \<notin> set claims \<and> is_free e c g"
    unfolding here using assms(3,7) by (simp add: leave_def)
  moreover have "grp_id g \<in> grp_id ` set join \<longleftrightarrow>
      \<not> is_member gdb (grp_id g) uid \<and> JStr (grp_name g) \<in> set claims \<and> is_free e c g"
    unfolding here using assms(7) held by (auto simp: join_def get_all_groups_def)
  ultimately show ?thesis unfolding join leave by auto
qed

text \<open>
  C23: A sign-in with group management, whose group claims can be looked up, makes the user a member of exactly the
  claimed groups: every group that exists afterwards and is not blocked, one created on the way too, has the user as a
  member if and only if its name is claimed; blocked groups and the memberships of everybody else are untouched.
  With creation enabled the groups afterwards are those before and the claimed ones, otherwise those before. When
  nothing is claimed nobody's membership changes: the user keeps every group.
\<close>

theorem groups_follow_claims:
  assumes "sync_claimed fk e c uid udb perms claims gdb = (Inr (), gdb')"
    and "unique_key grp_id (groups gdb)" "unique_key grp_name (groups gdb)"
    and "inj (oe_row e)" "range (oe_row e) \<inter> gm_id ` set (group_members gdb) = {}"
    and "inj (\<lambda>n. fst (oe_group e n))"
    and "range (\<lambda>n. fst (oe_group e n)) \<inter> (grp_id ` set (groups gdb) \<union> gm_group_id ` set (group_members gdb)) = {}"
    and "case fk of None \<Rightarrow> True | Some known \<Rightarrow> known uid"
  shows "(\<forall>g \<in> set (groups gdb'). is_member gdb' (grp_id g) v =
      (if v = uid \<and> claims \<noteq> [] \<and> is_free e c g then JStr (grp_name g) \<in> set claims else is_member gdb (grp_id g) v)) \<and>
    grp_name ` set (groups gdb') = grp_name ` set (groups gdb) \<union> (if oa_create_groups c then {n. JStr n \<in> set claims} else {})"
proof -
  define current where "current = get_groups_by_member_id uid gdb"
  define creator where "creator = (case get_super_admin_user udb of None \<Rightarrow> uid | Some a \<Rightarrow> u_id a)"
  obtain r gdb1 where r: "(if oa_create_groups c then create_claimed (oe_group e) creator perms
      (grp_name ` set (get_all_groups gdb)) claims gdb else (Inr (), gdb)) = (r, gdb1)" by fastforce
  then have run: "r = Inr ()" "gdb' = follow_claims fk e c uid perms claims current gdb1"
    using assms(1) by (auto simp: sync_claimed_def Let_def creator_def current_def split: sum.splits if_splits prod.splits)
  have g: "group_members gdb1 = group_members gdb \<and> unique_key grp_id (groups gdb1) \<and> unique_key grp_name (groups gdb1) \<and>
      set (groups gdb) \<subseteq> set (groups gdb1) \<and> grp_id ` (set (groups gdb1) - set (groups gdb)) \<subseteq> range (\<lambda>n. fst (oe_group e n)) \<and>
      grp_name ` set (groups gdb1) = grp_name ` set (groups gdb) \<union> (if oa_create_groups c then {n. JStr n \<in> set claims} else {})"
  proof (cases "oa_create_groups c")
    case True
    have cc: "create_claimed (oe_group e) creator perms (grp_name ` set (groups gdb)) claims gdb = (r, gdb1)"
      using r True by (simp add: get_all_groups_def)
    have "fst (oe_group e n) \<notin> grp_id ` set (groups gdb)" for n using assms(7) by auto
    then show ?thesis using create_claimed_state[OF cc assms(2,3) refl assms(6)] run(1) True by simp
  next
    case False
    then show ?thesis using r assms(2,3) by simp
  qed
  note g1 = g[THEN conjunct1] g[THEN conjunct2, THEN conjunct1] g[THEN conjunct2, THEN conjunct2, THEN conjunct1]
    g[THEN conjunct2, THEN conjunct2, THEN conjunct2, THEN conjunct1] g[THEN conjunct2, THEN conjunct2, THEN conjunct2, THEN conjunct2, THEN conjunct1]
    g[THEN conjunct2, THEN conjunct2, THEN conjunct2, THEN conjunct2, THEN conjunct2]
  have mem: "is_member gdb1 = is_member gdb" by (simp add: is_member_def g1(1) fun_eq_iff)
  have new: "\<not> is_member gdb (grp_id g) w" if "g \<in> set (groups gdb1) - set (groups gdb)" for g w
  proof -
    have "grp_id g \<in> range (\<lambda>n. fst (oe_group e n))" using subsetD[OF g1(5) imageI[OF that]] .
    then have "grp_id g \<notin> gm_group_id ` set (group_members gdb)" using assms(7) by auto
    then have "gm_group_id m \<noteq> grp_id g" if "m \<in> set (group_members gdb)" for m
      using that by (metis imageI)
    then show ?thesis by (auto simp: is_member_def list_ex_iff)
  qed
  have cur: "set current = {g \<in> set (groups gdb1). is_member gdb1 (grp_id g) uid}"
    unfolding current_def set_current mem using g1(4) new by blast
  have names: "id_names gdb' = id_names gdb1" unfolding run(2) using cur by (intro id_names_follow g1(2)) auto
  have same: "\<exists>h \<in> set (groups gdb1). grp_id h = grp_id g \<and> grp_name h = grp_name g" if "g \<in> set (groups gdb')" for g
  proof -
    have "(grp_id g, grp_name g) \<in> set (id_names gdb1)" using that unfolding names[symmetric] by (simp add: id_names_def)
    then show ?thesis by (auto simp: id_names_def)
  qed
  have "is_member gdb' (grp_id g) v =
      (if v = uid \<and> claims \<noteq> [] \<and> is_free e c g then JStr (grp_name g) \<in> set claims else is_member gdb (grp_id g) v)"
    if g: "g \<in> set (groups gdb')" for g
  proof -
    obtain h where h: "h \<in> set (groups gdb1)" "grp_id h = grp_id g" "grp_name h = grp_name g" using same[OF g] by blast
    then show ?thesis
      using follow_claims_members[OF g1(2,3) cur assms(4) _ assms(8) h(1), of c perms claims v] assms(5)
      by (simp add: run(2) g1(1) mem is_free_def)
  qed
  moreover have "grp_name ` set (groups gdb') = snd ` set (id_names gdb1)"
    unfolding names[symmetric] by (simp add: id_names_def image_image)
  ultimately show ?thesis by (simp add: id_names_def image_image g1(6))
qed

text \<open>A user who is claimed to be in no group keeps every group.\<close>

lemma no_claims_no_change: "sync_claimed fk e c uid udb perms [] gdb = (Inr (), gdb)"
  by (simp add: sync_claimed_def follow_claims_def Let_def)

text \<open>A claim that is a list or an object ends the sign-in when groups are created, and those created before it stay.\<close>

lemma unhashable_claim_ends:
  "oa_create_groups c \<Longrightarrow> fst (sync_claimed fk e c uid udb perms (JList xs # vs) gdb) = Inl TypeError"
  by (simp add: sync_claimed_def Let_def)

section \<open>Pictures are served as they were fetched\<close>

lemma sextet_of_char: "v < 64 \<Longrightarrow> sextet (sextet_char v) = Some v \<and> code (sextet_char v) < 128 \<and> sextet_char v \<noteq> CHR ''=''"
proof -
  assume v: "v < 64"
  define n where "n = (if v < 26 then v + 65 else if v < 52 then v + 71 else if v < 62 then v - 4 else if v = 62 then 43 else 47 :: nat)"
  have n: "n < 128" "n \<noteq> 61" using v by (auto simp: n_def)
  have c: "code (sextet_char v) = n" using n(1) by (simp add: sextet_char_def n_def[symmetric])
  moreover have "code (CHR ''='') = (61 :: nat)" by simp
  ultimately have "sextet_char v \<noteq> CHR ''=''" using n(2) by metis
  moreover have "sextet (sextet_char v) = Some v"
    unfolding sextet_def c Let_def using v by (auto simp: n_def)
  ultimately show ?thesis using c n(1) by simp
qed

lemma groups_step:
  "v < 64 \<Longrightarrow> base64_groups 0 l p (sextet_char v # cs) = base64_groups (Suc 0) v 0 cs"
  "v < 64 \<Longrightarrow> base64_groups (Suc 0) l p (sextet_char v # cs) = map_option ((#) (4 * l + v div 16)) (base64_groups 2 (v mod 16) 0 cs)"
  "v < 64 \<Longrightarrow> base64_groups 2 l p (sextet_char v # cs) = map_option ((#) (16 * l + v div 4)) (base64_groups 3 (v mod 4) 0 cs)"
  "v < 64 \<Longrightarrow> base64_groups 3 l p (sextet_char v # cs) = map_option ((#) (64 * l + v)) (base64_groups 0 0 0 cs)"
  using sextet_of_char[of v] by simp_all

lemma groups_pads: "base64_groups 2 l 0 ''=='' = Some []" "base64_groups 3 l 0 ''='' = Some []"
  by simp_all

lemma byte_parts:
  fixes a b c :: nat
  shows "a < 256 \<Longrightarrow> a div 4 < 64" "b < 256 \<Longrightarrow> 16 * (a mod 4) + b div 16 < 64" "c < 256 \<Longrightarrow> 4 * (b mod 16) + c div 64 < 64"
    "c mod 64 < 64" "16 * (a mod 4) < 64" "4 * (b mod 16) < 64"
    "b < 256 \<Longrightarrow> 4 * (a div 4) + (16 * (a mod 4) + b div 16) div 16 = a"
    "b < 256 \<Longrightarrow> (16 * (a mod 4) + b div 16) mod 16 = b div 16"
    "c < 256 \<Longrightarrow> 16 * (b div 16) + (4 * (b mod 16) + c div 64) div 4 = b"
    "c < 256 \<Longrightarrow> (4 * (b mod 16) + c div 64) mod 4 = c div 64"
    "64 * (c div 64) + c mod 64 = c" "4 * (a div 4) + 16 * (a mod 4) div 16 = a" "16 * (a mod 4) mod 16 = 0"
    "16 * (b div 16) + 4 * (b mod 16) div 4 = b" "4 * (b mod 16) mod 4 = 0"
    "b < 256 \<Longrightarrow> b div 16 div 16 = 0" "b < 256 \<Longrightarrow> b div 16 mod 16 = b div 16"
    "c < 256 \<Longrightarrow> c div 64 div 4 = 0" "c < 256 \<Longrightarrow> c div 64 mod 4 = c div 64"
  by simp_all

lemma base64_roundtrip: "list_all (\<lambda>b. b < 256) bs \<Longrightarrow> b64decode (b64encode bs) = Some bs"
proof -
  assume bs: "list_all (\<lambda>b. b < 256) bs"
  have ascii: "list_all (\<lambda>c. code c < 128) (b64encode bs)"
    using bs by (induction bs rule: b64encode.induct) (simp_all add: sextet_of_char byte_parts)
  have "base64_groups 0 0 p (b64encode bs) = Some bs" for p
    using bs by (induction bs arbitrary: p rule: b64encode.induct)
      (simp_all add: groups_step groups_pads byte_parts del: base64_groups.simps(2))
  then show ?thesis using ascii by (simp add: b64decode_def)
qed

text \<open>
  C31: The picture a provider gives at the sign-in is stored as a data URL and served back byte for byte, when its
  media type is that of an image.
\<close>

theorem picture_served:
  assumes "fetch u access = Inr (Some bytes)" "u \<noteq> []" "list_all (\<lambda>b. b < 256) bytes"
    and "case guess u of None \<Rightarrow> True | Some t \<Rightarrow> startswith t ''image'' \<and> CHR '','' \<notin> set t"
    and "is_verified caller" "get_user_by_id uid (s_users s) = Some v"
    and "u_profile_image_url v = process_picture_url fetch guess (JStr u) access"
  shows "fst (get_user_profile_image caller uid s) = Inr (Picture bytes)"
proof -
  define t where "t = (case guess u of None \<Rightarrow> ''image/jpeg'' | Some t \<Rightarrow> t)"
  have t: "startswith t ''image''" "CHR '','' \<notin> set t"
    using assms(4) by (auto simp: t_def startswith_def split: option.splits)
  have url: "u_profile_image_url v = ''data:'' @ t @ '';base64,'' @ b64encode bytes"
    using assms(1,2,7) by (simp add: process_picture_url_def t_def)
  have "startswith (''data:'' @ t @ r) ''data:image''" for r
    using t(1) by (auto simp: startswith_def prefix_def)
  moreover have "\<not> startswith (''data:'' @ r) ''http''" for r by (simp add: startswith_def)
  moreover have "tl (dropWhile (\<lambda>c. c \<noteq> CHR '','') (''data:'' @ t @ '';base64,'' @ b64encode bytes)) = b64encode bytes"
    using t(2) by (simp add: dropWhile_append1 dropWhile_append3 dropWhile_append)
  ultimately show ?thesis
    using assms(5,6) base64_roundtrip[OF assms(3)] unfolding get_user_profile_image_def verified_def
    by (simp add: url Let_def)
qed

lemma picture_served_witness:
  "fst (get_user_profile_image kim ''kim''
     (on_users (sample_users\<lparr>users := [kim\<lparr>u_profile_image_url :=
        process_picture_url (\<lambda>u a. Inr (Some [137, 80, 78, 71])) (\<lambda>u. Some ''image/png'') (JStr ''https://x/p.png'') None\<rparr>]\<rparr>)
       \<lparr>s_users = sample_users, s_groups = sample_groups, s_chats = \<lparr>chats = [], chat_tags = []\<rparr>\<rparr>)) =
   Inr (Picture [137, 80, 78, 71])"
  by (rule picture_served[where fetch = "\<lambda>u a. Inr (Some [137, 80, 78, 71])" and guess = "\<lambda>u. Some ''image/png''" and
        u = "''https://x/p.png''" and access = None and
        v = "kim\<lparr>u_profile_image_url := process_picture_url (\<lambda>u a. Inr (Some [137, 80, 78, 71]))
          (\<lambda>u. Some ''image/png'') (JStr ''https://x/p.png'') None\<rparr>"])
     (simp_all add: startswith_def is_verified_def get_user_by_id_def row_get_def sample_users_def kim_def new_user_def)

section \<open>Corners\<close>

definition demo_oauth :: oauth_config where
  "demo_oauth =
     \<lparr>oa_signup = True, oa_merge_by_email = True, oa_manage_roles = True, oa_manage_groups = True, oa_create_groups = True,
      oa_blocked_groups = [''adm*''], oa_roles_claim = ''roles'', oa_groups_claim = ''groups'', oa_sub_claim = [],
      oa_email_claim = ''email'', oa_picture_claim = ''picture'', oa_username_claim = ''name'',
      oa_allowed_roles = [''user'', ''admin''], oa_admin_roles = [''admin''], oa_allowed_domains = [''*''],
      oa_update_picture = False, oa_roles_separator = '','', oa_groups_separator = '';'', oa_email_fallback = False\<rparr>"

definition demo_oauth_env :: oauth_env where
  "demo_oauth_env = \<lparr>oe_search = (\<lambda>p s. None), oe_group = (\<lambda>n. (''new-'' @ n, 9, 9)), oe_row = (\<lambda>g. ''row-'' @ g), oe_now = 9\<rparr>"

lemma groups_follow_claims_witness:
  "let gdb' = snd (sync_claimed None demo_oauth_env demo_oauth ''kim'' sample_users [] [JStr ''law'', JStr ''ops''] sample_groups)
   in (\<forall>g \<in> set (groups gdb'). is_member gdb' (grp_id g) ''kim'' =
        (if ''kim'' = ''kim'' \<and> [JStr ''law'', JStr ''ops''] \<noteq> [] \<and> is_free demo_oauth_env demo_oauth g
         then JStr (grp_name g) \<in> set [JStr ''law'', JStr ''ops''] else is_member sample_groups (grp_id g) ''kim'')) \<and>
      grp_name ` set (groups gdb') = grp_name ` set (groups sample_groups) \<union>
        (if oa_create_groups demo_oauth then {n. JStr n \<in> set [JStr ''law'', JStr ''ops'']} else {})"
proof -
  have "fst (sync_claimed None demo_oauth_env demo_oauth ''kim'' sample_users [] [JStr ''law'', JStr ''ops''] sample_groups) = Inr ()"
    by (simp add: sync_claimed_def Let_def demo_oauth_def demo_oauth_env_def insert_new_group_def add_row_def sample_group_defs
        get_all_groups_def)
  then have run: "sync_claimed None demo_oauth_env demo_oauth ''kim'' sample_users [] [JStr ''law'', JStr ''ops''] sample_groups =
      (Inr (), snd (sync_claimed None demo_oauth_env demo_oauth ''kim'' sample_users [] [JStr ''law'', JStr ''ops''] sample_groups))"
    by (simp add: prod_eq_iff)
  show ?thesis
    unfolding Let_def by (rule groups_follow_claims[OF run]) (auto simp: demo_oauth_env_def inj_on_def sample_group_defs)
qed

text \<open>
  Claims without a role that counts give an existing account the default role, an administrator's too: the oldest
  account, which no other request can demote, is demoted by its own sign-in.
\<close>

lemma claims_demote_first_user:
  assumes "get_first_user udb = Some u" "get_num_users udb > 1" "oa_manage_roles c" "oauth_roles c d = Inr rs"
    and "list_all (\<lambda>r. JStr r \<notin> set rs) (oa_allowed_roles c @ oa_admin_roles c)"
  shows "fst (refresh_user c pv w dflt token d u udb) = Inr (u\<lparr>u_role := dflt\<rparr>)"
  using assms by (auto simp: refresh_user_def get_user_role_def role_of_claims_def Let_def list_all_iff list_ex_iff)

text \<open>The patterns of blocked groups.\<close>

lemma blocked_examples:
  "is_in_blocked_groups (\<lambda>p s. None) ''admins'' [''adm*'']" "\<not> is_in_blocked_groups (\<lambda>p s. None) ''staff'' [''adm*'', []]"
  "is_in_blocked_groups (\<lambda>p s. None) ''team-3'' [''team-[0-9]*'']"
  by code_simp+

end
