(* ===== verification/Chat_Handlers.thy ===== *)
theory Chat_Handlers
  imports Chat_Events Account_Handlers
begin

text \<open>
  \<^verbatim>\<open>routers/chats.py\<close> and the search of \<^verbatim>\<open>models/chats.py\<close>: the handlers of users over their chats. The state is the
  table of chats and tags; accounts, groups, folders and the configuration are only read and stand in \<open>chat_site\<close>.
  Of the search, what the database's JSON functions find in the messages of a chat is an argument. A negative
  offset of a page is the first page, as SQLite reads it.
\<close>

text \<open>\<open>hc_column\<close> is an attribute of a chat with its order, as in the lists of \<^theory_text>\<open>Chats\<close>.\<close>

record 'k chat_site =
  hc_builtin :: dict
  hc_permissions :: dict
  hc_groups :: group_db
  hc_folders :: folder_db
  hc_esc :: "char option"
  hc_column :: "string \<Rightarrow> (chat \<Rightarrow> 'k) option"
  hc_admin_access :: bool
  hc_admin_export :: bool
  hc_depth :: nat
  hc_in_messages :: "dict \<Rightarrow> string \<Rightarrow> bool"
  hc_readable :: "chat \<Rightarrow> bool"

type_synonym 'a chat_answer = "(http_error + 'a) \<times> chat_db"

definition permitted :: "('k, 'm) chat_site_scheme \<Rightarrow> user \<Rightarrow> string \<Rightarrow> http_error + bool" where
  "permitted e caller key =
     raising ServerError (fst (has_permission (hc_builtin e) (u_id caller) key (hc_permissions e) (hc_groups e)))"

definition if_permitted :: "http_error + bool \<Rightarrow> chat_db \<Rightarrow> 'a chat_answer \<Rightarrow> 'a chat_answer" where
  "if_permitted check db r = (case check of Inl h \<Rightarrow> (Inl h, db) | Inr False \<Rightarrow> (Inl Unauthorized, db) | Inr True \<Rightarrow> r)"

text \<open>A handler that looks for the caller's chat first.\<close>

definition with_own_chat :: "user \<Rightarrow> id \<Rightarrow> chat_db \<Rightarrow> (chat \<Rightarrow> 'a chat_answer) \<Rightarrow> 'a chat_answer" where
  "with_own_chat caller cid db f =
     verified caller db (case get_chat_by_id_and_user_id cid (u_id caller) db of None \<Rightarrow> (Inl Unauthorized, db) | Some c \<Rightarrow> f c)"

text \<open>\<open>ChatResponse(**chat.model_dump())\<close> of what may be no chat.\<close>

definition answer_chat :: "chat option \<times> chat_db \<Rightarrow> chat chat_answer" where
  "answer_chat r = (case r of (None, db) \<Rightarrow> (Inl ServerError, db) | (Some c, db) \<Rightarrow> (Inr c, db))"

definition page_skip :: "nat \<Rightarrow> int \<Rightarrow> nat" where
  "page_skip per p = nat ((p - 1) * int per)"

definition chat_query :: "string option \<Rightarrow> string option \<Rightarrow> string option \<Rightarrow> chat_filter option" where
  "chat_query query order_by direction =
     (let q = (\<lambda>v. if v = Some [] then None else v)
      in if q query = None \<and> q order_by = None \<and> q direction = None then None
         else Some \<lparr>fl_query = q query, fl_order_by = q order_by, fl_direction = q direction\<rparr>)"

section \<open>Search\<close>

definition tag_words :: "string list \<Rightarrow> id list" where
  "tag_words ws = map (\<lambda>w. tag_id_of (py_replace ''tag:'' [] w)) (filter (\<lambda>w. startswith w ''tag:'') ws)"

definition folder_words :: "string list \<Rightarrow> string list" where
  "folder_words ws = map (py_replace ''folder:'' []) (filter (\<lambda>w. startswith w ''folder:'') ws)"

definition switch_word :: "string \<Rightarrow> string list \<Rightarrow> bool option" where
  "switch_word name ws =
     (if name @ '':true'' \<in> set ws then Some True else if name @ '':false'' \<in> set ws then Some False else None)"

definition text_words :: "string list \<Rightarrow> string list" where
  "text_words ws = filter (\<lambda>w. \<not> list_ex (startswith w) [''tag:'', ''folder:'', ''pinned:'', ''archived:'', ''shared:'']) ws"

definition untagged :: "chat \<Rightarrow> bool" where
  "untagged c = (case dget (cht_meta c) ''tags'' of None \<Rightarrow> True | Some (JList xs) \<Rightarrow> xs = [] | _ \<Rightarrow> False)"

definition tags_match :: "id list \<Rightarrow> chat \<Rightarrow> bool" where
  "tags_match ts c \<longleftrightarrow> (if ''none'' \<in> set ts then untagged c else list_all (\<lambda>t. has_tag t c) ts)"

definition search_match :: "('k, 'm) chat_site_scheme \<Rightarrow> id \<Rightarrow> bool \<Rightarrow> string list \<Rightarrow> id list \<Rightarrow> chat \<Rightarrow> bool" where
  "search_match e user_id include_archived ws folder_ids c \<longleftrightarrow>
     (let t = join '' '' (text_words ws)
      in cht_user_id c = user_id \<and>
         (case switch_word ''archived'' ws of Some b \<Rightarrow> cht_archived c = b | None \<Rightarrow> include_archived \<or> \<not> cht_archived c) \<and>
         (case switch_word ''pinned'' ws of Some b \<Rightarrow> cht_pinned c = Some b | None \<Rightarrow> True) \<and>
         (case switch_word ''shared'' ws of Some b \<Rightarrow> (cht_share_id c \<noteq> None) = b | None \<Rightarrow> True) \<and>
         (folder_ids \<noteq> [] \<longrightarrow> (case cht_folder_id c of None \<Rightarrow> False | Some f \<Rightarrow> f \<in> set folder_ids)) \<and>
         hc_readable e c \<and>
         (title_matches (hc_esc e) t c \<or> hc_in_messages e (cht_chat c) t) \<and> tags_match (tag_words ws) c)"

definition get_chats_by_user_id_and_search_text ::
  "('k :: linorder, 'm) chat_site_scheme \<Rightarrow> id \<Rightarrow> string \<Rightarrow> bool \<Rightarrow> nat \<Rightarrow> nat \<Rightarrow> chat_db \<Rightarrow> py_error + chat list" where
  "get_chats_by_user_id_and_search_text e user_id search_text include_archived skip lm db =
     (let s = strip (lower (clean_text search_text))
      in if s = [] then get_chat_list_by_user_id (hc_esc e) (hc_column e) user_id include_archived None skip lm db
         else let ws = split_on CHR '' '' s
              in and_then (search_folders_by_names (hc_depth e) user_id (folder_words ws) (hc_folders e)) (\<lambda>fs.
                 each chat_model (page skip lm (order_desc cht_updated_at
                   (all_rows (search_match e user_id include_archived ws (map fld_id fs)) (chats db))))))"

section \<open>Lists\<close>

definition get_session_user_chat_list ::
  "user \<Rightarrow> int option \<Rightarrow> bool \<Rightarrow> bool \<Rightarrow> chat_db \<Rightarrow> chat_title_id list chat_answer" where
  "get_session_user_chat_list caller p include_pinned include_folders db =
     verified caller db (raising BadRequest
       (get_chat_title_id_list_by_user_id (u_id caller) False include_folders include_pinned
          (case p of None \<Rightarrow> 0 | Some n \<Rightarrow> page_skip 60 n) (case p of None \<Rightarrow> 0 | Some n \<Rightarrow> 60) db), db)"

definition delete_all_user_chats :: "('k, 'm) chat_site_scheme \<Rightarrow> user \<Rightarrow> chat_db \<Rightarrow> bool chat_answer" where
  "delete_all_user_chats e caller db =
     verified caller db
       (if_permitted (if u_role caller = ''user'' then permitted e caller ''chat.delete'' else Inr True) db
          (let (b, db') = delete_chats_by_user_id (u_id caller) db in (Inr b, db')))"

definition get_user_chat_list_by_user_id ::
  "('k :: linorder, 'm) chat_site_scheme \<Rightarrow> user \<Rightarrow> id \<Rightarrow> int option \<Rightarrow> chat_filter option \<Rightarrow> chat_db \<Rightarrow> chat list chat_answer" where
  "get_user_chat_list_by_user_id e caller user_id p f db =
     admin_only caller db
       (if \<not> hc_admin_access e then (Inl Unauthorized, db)
        else (raising ServerError (get_chat_list_by_user_id (hc_esc e) (hc_column e) user_id True f
                (page_skip 60 (case p of None \<Rightarrow> 1 | Some n \<Rightarrow> n)) 60 db), db))"

definition search_user_chats ::
  "('k :: linorder, 'm) chat_site_scheme \<Rightarrow> user \<Rightarrow> string \<Rightarrow> int option \<Rightarrow> chat_db \<Rightarrow> chat list chat_answer" where
  "search_user_chats e caller query p db =
     verified caller db
       (let n = (case p of None \<Rightarrow> 1 | Some n \<Rightarrow> n)
        in case get_chats_by_user_id_and_search_text e (u_id caller) query False (page_skip 60 n) 60 db of
             Inl x \<Rightarrow> (Inl ServerError, db)
           | Inr cs \<Rightarrow>
               (let ws = split_on CHR '' '' (strip query); t = py_replace ''tag:'' [] (hd ws)
                in (Inr cs,
                    if n = 1 \<and> length ws = 1 \<and> startswith (hd ws) ''tag:'' \<and> cs = [] \<and>
                       get_tag_by_name_and_user_id t (u_id caller) db \<noteq> None
                    then snd (delete_tag_by_name_and_user_id t (u_id caller) db) else db)))"

definition get_chats_by_folder_id :: "('k, 'm) chat_site_scheme \<Rightarrow> user \<Rightarrow> id \<Rightarrow> chat_db \<Rightarrow> chat list chat_answer" where
  "get_chats_by_folder_id e caller fid db =
     verified caller db
       (raising ServerError (get_chats_by_folder_ids_and_user_id
          (fid # (case get_children_folders_by_id_and_user_id (hc_depth e) fid (u_id caller) (hc_folders e) of
                    None \<Rightarrow> [] | Some fs \<Rightarrow> map fld_id fs)) (u_id caller) db), db)"

definition get_chat_list_by_folder_id :: "user \<Rightarrow> id \<Rightarrow> int option \<Rightarrow> chat_db \<Rightarrow> (string option \<times> id \<times> time) list chat_answer" where
  "get_chat_list_by_folder_id caller fid p db =
     verified caller db
       (case p of
          None \<Rightarrow> (Inl BadRequest, db)
        | Some n \<Rightarrow>
            (raising BadRequest (and_then (get_chats_by_folder_id_and_user_id fid (u_id caller) (page_skip 10 n) 10 db)
               (\<lambda>cs. Inr (map (\<lambda>c. (cht_title c, cht_id c, cht_updated_at c)) cs))), db))"

definition get_user_pinned_chats :: "user \<Rightarrow> chat_db \<Rightarrow> chat list chat_answer" where
  "get_user_pinned_chats caller db = verified caller db (raising ServerError (get_pinned_chats_by_user_id (u_id caller) db), db)"

definition get_user_chats :: "user \<Rightarrow> chat_db \<Rightarrow> chat list chat_answer" where
  "get_user_chats caller db = verified caller db (raising ServerError (get_chats_by_user_id (u_id caller) db), db)"

definition get_user_archived_chats :: "user \<Rightarrow> chat_db \<Rightarrow> chat list chat_answer" where
  "get_user_archived_chats caller db = verified caller db (raising ServerError (get_archived_chats_by_user_id (u_id caller) db), db)"

definition get_all_user_tags :: "user \<Rightarrow> chat_db \<Rightarrow> tag list chat_answer" where
  "get_all_user_tags caller db = verified caller db (Inr (get_tags_by_user_id (u_id caller) db), db)"

definition get_all_user_chats_in_db :: "('k, 'm) chat_site_scheme \<Rightarrow> user \<Rightarrow> chat_db \<Rightarrow> chat list chat_answer" where
  "get_all_user_chats_in_db e caller db =
     admin_only caller db (if \<not> hc_admin_export e then (Inl Unauthorized, db) else (raising ServerError (get_chats db), db))"

definition get_archived_session_user_chat_list ::
  "('k :: linorder, 'm) chat_site_scheme \<Rightarrow> user \<Rightarrow> int option \<Rightarrow> chat_filter option \<Rightarrow> chat_db \<Rightarrow> chat list chat_answer" where
  "get_archived_session_user_chat_list e caller p f db =
     verified caller db
       (raising ServerError (get_archived_chat_list_by_user_id (hc_esc e) (hc_column e) (u_id caller) f
          (page_skip 60 (case p of None \<Rightarrow> 1 | Some n \<Rightarrow> n)) 60 db), db)"

definition archive_all_chats :: "user \<Rightarrow> chat_db \<Rightarrow> bool chat_answer" where
  "archive_all_chats caller db = verified caller db (let (b, db') = archive_all_chats_by_user_id (u_id caller) db in (Inr b, db'))"

definition unarchive_all_chats :: "user \<Rightarrow> chat_db \<Rightarrow> bool chat_answer" where
  "unarchive_all_chats caller db = verified caller db (let (b, db') = unarchive_all_chats_by_user_id (u_id caller) db in (Inr b, db'))"

definition get_user_chat_list_by_tag_name :: "user \<Rightarrow> string \<Rightarrow> chat_db \<Rightarrow> chat list chat_answer" where
  "get_user_chat_list_by_tag_name caller name db =
     verified caller db
       (case get_chat_list_by_user_id_and_tag_name (u_id caller) name db of
          Inl x \<Rightarrow> (Inl ServerError, db)
        | Inr cs \<Rightarrow> (Inr cs, if cs = [] then snd (delete_tag_by_name_and_user_id name (u_id caller) db) else db))"

section \<open>Creating, reading and changing a chat\<close>

definition create_new_chat :: "id \<Rightarrow> time \<Rightarrow> time \<Rightarrow> user \<Rightarrow> chat_form \<Rightarrow> chat_db \<Rightarrow> chat chat_answer" where
  "create_new_chat uid t1 t2 caller form db =
     verified caller db (apfst (raising BadRequest) (insert_new_chat uid t1 t2 (u_id caller) form db))"

definition import_chats_handler :: "user \<Rightarrow> (id \<times> time \<times> chat_import_form) list \<Rightarrow> chat_db \<Rightarrow> chat list chat_answer" where
  "import_chats_handler caller forms db =
     verified caller db (apfst (raising BadRequest) (import_chats (u_id caller) forms db))"

definition get_shared_chat_by_id :: "('k, 'm) chat_site_scheme \<Rightarrow> user \<Rightarrow> id \<Rightarrow> chat_db \<Rightarrow> chat chat_answer" where
  "get_shared_chat_by_id e caller sid db =
     verified caller db
       (case (if u_role caller = ''user'' \<or> \<not> hc_admin_access e then get_chat_by_share_id sid db else get_chat_by_id sid db) of
          (None, db') \<Rightarrow> (Inl Unauthorized, db') | (Some c, db') \<Rightarrow> (Inr c, db'))"

definition get_own_chat :: "user \<Rightarrow> id \<Rightarrow> chat_db \<Rightarrow> chat chat_answer" where
  "get_own_chat caller cid db = with_own_chat caller cid db (\<lambda>c. (Inr c, db))"

definition update_own_chat :: "time \<Rightarrow> user \<Rightarrow> id \<Rightarrow> dict \<Rightarrow> chat_db \<Rightarrow> chat chat_answer" where
  "update_own_chat now caller cid d db =
     with_own_chat caller cid db (\<lambda>c. answer_chat (update_chat_by_id now cid (dmerge (cht_chat c) d) db))"

text \<open>A chat whose messages the caller may change: its own, or any for an administrator.\<close>

definition with_writable_chat :: "user \<Rightarrow> id \<Rightarrow> chat_db \<Rightarrow> (chat_db \<Rightarrow> effect list \<times> 'a chat_answer) \<Rightarrow> effect list \<times> 'a chat_answer" where
  "with_writable_chat caller cid db f =
     (if \<not> is_verified caller then ([], Inl Unauthorized, db)
      else case get_chat_by_id cid db of
        (None, db') \<Rightarrow> ([], Inl Unauthorized, db')
      | (Some c, db') \<Rightarrow>
          if cht_user_id c \<noteq> u_id caller \<and> u_role caller \<noteq> ''admin'' then ([], Inl Unauthorized, db') else f db')"

text \<open>The emitter of this handler does not write to the table; the events go to the caller.\<close>

definition update_chat_message_by_id ::
  "time \<Rightarrow> user \<Rightarrow> id \<Rightarrow> id \<Rightarrow> string \<Rightarrow> chat_db \<Rightarrow> effect list \<times> chat chat_answer" where
  "update_chat_message_by_id now caller cid mid content db =
     with_writable_chat caller cid db (\<lambda>db1.
       case upsert_message_to_chat_by_id_and_message_id now cid mid [(''content'', JStr content)] db1 of
         (Inl x, db2) \<Rightarrow> ([], Inl ServerError, db2)
       | (Inr r, db2) \<Rightarrow>
           (fst (event_emitter False now \<lparr>ri_user_id = u_id caller, ri_chat_id = cid, ri_message_id = mid\<rparr>
              [(''type'', JStr ''chat:message''),
               (''data'', JDict [(''chat_id'', JStr cid), (''message_id'', JStr mid), (''content'', JStr content)])] db2),
            answer_chat (r, db2)))"

definition send_chat_message_event_by_id ::
  "time \<Rightarrow> user \<Rightarrow> id \<Rightarrow> id \<Rightarrow> string \<Rightarrow> dict \<Rightarrow> chat_db \<Rightarrow> effect list \<times> bool chat_answer" where
  "send_chat_message_event_by_id now caller cid mid type data db =
     with_writable_chat caller cid db (\<lambda>db1.
       case event_emitter True now \<lparr>ri_user_id = u_id caller, ri_chat_id = cid, ri_message_id = mid\<rparr>
              [(''type'', JStr type), (''data'', JDict data)] db1 of
         (sent, Inl x, db2) \<Rightarrow> (sent, Inr False, db2)
       | (sent, Inr _, db2) \<Rightarrow> (sent, Inr True, db2))"

section \<open>Tags of a chat\<close>

text \<open>Iterating over \<open>chat.meta.get("tags", [])\<close>; what is no text raises in the body of the loop.\<close>

definition tag_items :: "chat \<Rightarrow> json list option" where
  "tag_items c = (case dget_or (cht_meta c) ''tags'' (JList []) of
     JList xs \<Rightarrow> Some xs
   | JStr s \<Rightarrow> Some (map (\<lambda>x. JStr [x]) s)
   | JDict d \<Rightarrow> Some (map (\<lambda>(k, v). JStr k) d)
   | _ \<Rightarrow> None)"

fun over_tags :: "(string \<Rightarrow> chat_db \<Rightarrow> chat_db) \<Rightarrow> json list \<Rightarrow> chat_db \<Rightarrow> bool \<times> chat_db" where
  "over_tags f [] db = (True, db)"
| "over_tags f (JStr t # xs) db = over_tags f xs (f t db)"
| "over_tags f (x # xs) db = (False, db)"

definition for_tags :: "(string \<Rightarrow> chat_db \<Rightarrow> chat_db) \<Rightarrow> chat \<Rightarrow> (chat_db \<Rightarrow> 'a chat_answer) \<Rightarrow> chat_db \<Rightarrow> 'a chat_answer" where
  "for_tags f c r db = (case tag_items c of
     None \<Rightarrow> (Inl ServerError, db)
   | Some xs \<Rightarrow> (case over_tags f xs db of (False, db') \<Rightarrow> (Inl ServerError, db') | (True, db') \<Rightarrow> r db'))"

definition drop_tag_used :: "nat \<Rightarrow> id \<Rightarrow> string \<Rightarrow> chat_db \<Rightarrow> chat_db" where
  "drop_tag_used n user_id t db =
     (if count_chats_by_tag_name_and_user_id t user_id db = n then snd (delete_tag_by_name_and_user_id t user_id db) else db)"

definition restore_tag :: "id \<Rightarrow> string \<Rightarrow> chat_db \<Rightarrow> chat_db" where
  "restore_tag user_id t db =
     (if get_tag_by_name_and_user_id t user_id db = None then snd (insert_new_tag t user_id db) else db)"

definition delete_chat_handler :: "('k, 'm) chat_site_scheme \<Rightarrow> user \<Rightarrow> id \<Rightarrow> chat_db \<Rightarrow> bool chat_answer" where
  "delete_chat_handler e caller cid db =
     verified caller db
       (if_permitted (if u_role caller = ''admin'' then Inr True else permitted e caller ''chat.delete'') db
          (case get_chat_by_id cid db of
             (None, db1) \<Rightarrow> (Inl ServerError, db1)
           | (Some c, db1) \<Rightarrow>
               for_tags (drop_tag_used 1 (u_id caller)) c
                 (\<lambda>db2. let (b, db3) = (if u_role caller = ''admin'' then delete_chat_by_id cid db2
                                        else delete_chat_by_id_and_user_id cid (u_id caller) db2)
                        in (Inr b, db3)) db1))"

definition stored_tags :: "id \<Rightarrow> id \<Rightarrow> chat_db \<Rightarrow> tag list chat_answer" where
  "stored_tags cid user_id db =
     (case get_chat_by_id_and_user_id cid user_id db of
        None \<Rightarrow> (Inl ServerError, db)
      | Some c \<Rightarrow>
          (case chat_tag_ids c of None \<Rightarrow> (Inl ServerError, db) | Some ts \<Rightarrow> (Inr (get_tags_by_ids_and_user_id ts user_id db), db)))"

definition get_chat_tags_handler :: "user \<Rightarrow> id \<Rightarrow> chat_db \<Rightarrow> tag list chat_answer" where
  "get_chat_tags_handler caller cid db = with_own_chat caller cid db (\<lambda>c. stored_tags cid (u_id caller) db)"

definition add_tag_handler :: "user \<Rightarrow> id \<Rightarrow> string \<Rightarrow> chat_db \<Rightarrow> tag list chat_answer" where
  "add_tag_handler caller cid name db =
     with_own_chat caller cid db (\<lambda>c.
       if tag_id_of name = ''none'' then (Inl BadRequest, db)
       else case py_in (tag_id_of name) (dget_or (cht_meta c) ''tags'' (JList [])) of
         Inl x \<Rightarrow> (Inl ServerError, db)
       | Inr present \<Rightarrow>
           stored_tags cid (u_id caller)
             (if present then db else snd (add_chat_tag_by_id_and_user_id_and_tag_name cid (u_id caller) name db)))"

definition delete_tag_handler :: "user \<Rightarrow> id \<Rightarrow> string \<Rightarrow> chat_db \<Rightarrow> tag list chat_answer" where
  "delete_tag_handler caller cid name db =
     with_own_chat caller cid db (\<lambda>c.
       stored_tags cid (u_id caller) (drop_tag_used 0 (u_id caller) name
         (snd (delete_tag_by_id_and_user_id_and_tag_name cid (u_id caller) name db))))"

definition delete_all_tags_handler :: "user \<Rightarrow> id \<Rightarrow> chat_db \<Rightarrow> bool chat_answer" where
  "delete_all_tags_handler caller cid db =
     with_own_chat caller cid db (\<lambda>c.
       for_tags (drop_tag_used 0 (u_id caller)) c (\<lambda>db2. (Inr True, db2))
         (snd (delete_all_tags_by_id_and_user_id cid (u_id caller) db)))"

section \<open>Pinning, archiving, moving\<close>

definition get_pinned_status_by_id :: "user \<Rightarrow> id \<Rightarrow> chat_db \<Rightarrow> bool option chat_answer" where
  "get_pinned_status_by_id caller cid db = with_own_chat caller cid db (\<lambda>c. (Inr (cht_pinned c), db))"

definition pin_chat_by_id :: "time \<Rightarrow> user \<Rightarrow> id \<Rightarrow> chat_db \<Rightarrow> chat option chat_answer" where
  "pin_chat_by_id now caller cid db =
     with_own_chat caller cid db (\<lambda>c. let (r, db') = toggle_chat_pinned_by_id now cid db in (Inr r, db'))"

definition archive_chat_by_id :: "time \<Rightarrow> user \<Rightarrow> id \<Rightarrow> chat_db \<Rightarrow> chat chat_answer" where
  "archive_chat_by_id now caller cid db =
     with_own_chat caller cid db (\<lambda>c0.
       case toggle_chat_archive_by_id now cid db of
         (None, db1) \<Rightarrow> (Inl ServerError, db1)
       | (Some c, db1) \<Rightarrow>
           for_tags (if cht_archived c then drop_tag_used 0 (u_id caller) else restore_tag (u_id caller)) c
             (\<lambda>db2. (Inr c, db2)) db1)"

definition update_chat_folder_id_by_id :: "time \<Rightarrow> user \<Rightarrow> id \<Rightarrow> id option \<Rightarrow> chat_db \<Rightarrow> chat chat_answer" where
  "update_chat_folder_id_by_id now caller cid fid db =
     with_own_chat caller cid db (\<lambda>c. answer_chat (update_chat_folder_id_by_id_and_user_id now cid fid db))"

section \<open>Cloning and sharing\<close>

text \<open>\<open>chat["history"]["currentId"]\<close>\<close>

definition current_message :: "dict \<Rightarrow> py_error + json" where
  "current_message d = (case dget d ''history'' of
     Some (JDict h) \<Rightarrow> (case dget h ''currentId'' of None \<Rightarrow> Inl KeyError | Some v \<Rightarrow> Inr v)
   | Some _ \<Rightarrow> Inl TypeError
   | None \<Rightarrow> Inl KeyError)"

definition clone_form :: "chat \<Rightarrow> json \<Rightarrow> string \<Rightarrow> chat_import_form" where
  "clone_form c current title =
     \<lparr>chf_chat = dmerge (cht_chat c)
        [(''originalChatId'', JStr (cht_id c)), (''branchPointMessageId'', current), (''title'', JStr title)],
      chf_folder_id = cht_folder_id c, chf_meta = Some (cht_meta c), chf_pinned = cht_pinned c,
      chf_created_at = None, chf_updated_at = None\<rparr>"

definition clone_of :: "id \<Rightarrow> time \<Rightarrow> user \<Rightarrow> chat \<Rightarrow> string option \<Rightarrow> chat_db \<Rightarrow> chat chat_answer" where
  "clone_of uid now caller c title db =
     (case current_message (cht_chat c) of
        Inl x \<Rightarrow> (Inl ServerError, db)
      | Inr current \<Rightarrow>
          (let t = (case title of Some (x # xs) \<Rightarrow> x # xs | _ \<Rightarrow> ''Clone of '' @ (case cht_title c of None \<Rightarrow> ''None'' | Some s \<Rightarrow> s))
           in case import_chats (u_id caller) [(uid, now, clone_form c current t)] db of
                (Inl x, db') \<Rightarrow> (Inl ServerError, db')
              | (Inr [], db') \<Rightarrow> (Inl ServerError, db')
              | (Inr (n # ns), db') \<Rightarrow> (Inr n, db')))"

definition clone_chat_by_id :: "id \<Rightarrow> time \<Rightarrow> user \<Rightarrow> id \<Rightarrow> string option \<Rightarrow> chat_db \<Rightarrow> chat chat_answer" where
  "clone_chat_by_id uid now caller cid title db = with_own_chat caller cid db (\<lambda>c. clone_of uid now caller c title db)"

definition clone_shared_chat_by_id :: "id \<Rightarrow> time \<Rightarrow> user \<Rightarrow> id \<Rightarrow> chat_db \<Rightarrow> chat chat_answer" where
  "clone_shared_chat_by_id uid now caller cid db =
     verified caller db
       (case (if u_role caller = ''admin'' then get_chat_by_id cid db else get_chat_by_share_id cid db) of
          (None, db1) \<Rightarrow> (Inl Unauthorized, db1) | (Some c, db1) \<Rightarrow> clone_of uid now caller c None db1)"

definition share_chat_by_id :: "('k, 'm) chat_site_scheme \<Rightarrow> id \<Rightarrow> time \<Rightarrow> user \<Rightarrow> id \<Rightarrow> chat_db \<Rightarrow> chat chat_answer" where
  "share_chat_by_id e uid now caller cid db =
     verified caller db
       (if_permitted (if u_role caller = ''admin'' then Inr True else permitted e caller ''chat.share'') db
          (with_own_chat caller cid db (\<lambda>c.
             if cht_share_id c \<noteq> None \<and> cht_share_id c \<noteq> Some [] then answer_chat (update_shared_chat_by_chat_id uid now cid db)
             else case insert_shared_chat_by_chat_id uid now cid db of
               (Inl x, db') \<Rightarrow> (Inl ServerError, db') | (Inr r, db') \<Rightarrow> answer_chat (r, db'))))"

definition delete_shared_chat_by_id :: "user \<Rightarrow> id \<Rightarrow> chat_db \<Rightarrow> bool chat_answer" where
  "delete_shared_chat_by_id caller cid db =
     with_own_chat caller cid db (\<lambda>c.
       if cht_share_id c = None \<or> cht_share_id c = Some [] then (Inr False, db)
       else let (b, db1) = delete_shared_chat_by_chat_id cid db; (r, db2) = update_chat_share_id_by_id cid None db1
            in (Inr (b \<and> r \<noteq> None), db2))"

end
