(* ===== verification/Chat_Privacy.thy ===== *)
theory Chat_Privacy
  imports Chat_Handlers
begin

text \<open>
  What requests of \<^theory_text>\<open>Chat_Handlers\<close> do to the chats of other users: nothing, as long as the caller is no
  administrator and the chat is no shared copy. A chat is compared up to the removal of null characters, which any
  reading does. The examples are the cases where a request reaches further than it should.
\<close>

section \<open>What a user has\<close>

definition chats_of :: "id \<Rightarrow> chat_db \<Rightarrow> chat list" where
  "chats_of v db = map sanitize_chat_row (filter (\<lambda>c. cht_user_id c = v) (chats db))"

definition tags_of :: "id \<Rightarrow> chat_db \<Rightarrow> tag list" where
  "tags_of v db = filter (\<lambda>t. tag_user_id t = v) (chat_tags db)"

definition ids_of :: "id \<Rightarrow> chat_db \<Rightarrow> id set" where
  "ids_of v db = cht_id ` set (chats_of v db)"

definition spares :: "id \<Rightarrow> chat_db \<Rightarrow> chat_db \<Rightarrow> bool" where
  "spares v db db' \<longleftrightarrow> chats_of v db' = chats_of v db \<and> tags_of v db' = tags_of v db \<and>
     (unique_key cht_id (chats db) \<longrightarrow> unique_key cht_id (chats db'))"

named_theorems kept \<open>what leaves the chats of another user alone\<close>

lemma spares_refl [kept, simp]: "spares v db db"
  by (simp add: spares_def)

lemma spares_trans: "spares v db db' \<Longrightarrow> spares v db' db'' \<Longrightarrow> spares v db db''"
  by (simp add: spares_def)

lemma spares_ids: "spares v db db' \<Longrightarrow> ids_of v db' = ids_of v db"
  by (simp add: spares_def ids_of_def)

lemma spares_unique: "spares v db db' \<Longrightarrow> unique_key cht_id (chats db) \<Longrightarrow> unique_key cht_id (chats db')"
  by (simp add: spares_def)

lemma ids_of_iff: "i \<in> ids_of v db \<longleftrightarrow> (\<exists>c \<in> set (chats db). cht_id c = i \<and> cht_user_id c = v)"
  by (force simp: ids_of_def chats_of_def image_iff)

lemma sanitize_owner [simp]: "cht_user_id (sanitize_chat_row c) = cht_user_id c"
  by (simp add: sanitize_chat_row_def)

lemma spares_map:
  assumes "\<And>c. c \<in> set (chats db) \<Longrightarrow> cht_id (g c) = cht_id c \<and>
    (sanitize_chat_row (g c) = sanitize_chat_row c \<and> cht_user_id (g c) = cht_user_id c \<or> cht_user_id c \<noteq> v \<and> cht_user_id (g c) \<noteq> v)"
  shows "spares v db (db\<lparr>chats := map g (chats db)\<rparr>)"
proof -
  have "map sanitize_chat_row (filter (\<lambda>c. cht_user_id c = v) (map g cs)) = map sanitize_chat_row (filter (\<lambda>c. cht_user_id c = v) cs) \<and>
      map cht_id (map g cs) = map cht_id cs" if "set cs \<subseteq> set (chats db)" for cs
    using that
  proof (induction cs)
    case (Cons a cs)
    then show ?case using assms[of a] by auto
  qed simp
  from this[of "chats db"] show ?thesis
    by (simp add: spares_def chats_of_def tags_of_def unique_key_def del: map_map)
qed

lemma spares_set_chat:
  assumes "cid \<notin> ids_of v db"
    and "\<And>c. cht_id c = cid \<Longrightarrow> cht_user_id c \<noteq> v \<Longrightarrow> cht_id (f c) = cid \<and> cht_user_id (f c) \<noteq> v"
  shows "spares v db (set_chat cid f db)"
  unfolding set_chat_def upd_rows_def by (rule spares_map) (use assms in \<open>auto simp: ids_of_iff\<close>)

lemma spares_clean [kept]: "spares v db (set_chat cid sanitize_chat_row db)"
  unfolding set_chat_def upd_rows_def by (rule spares_map) simp

lemma spares_upd_rows: "(\<And>c. p c \<Longrightarrow> cht_user_id c \<noteq> v) \<Longrightarrow> (\<And>c. cht_id (f c) = cht_id c \<and> cht_user_id (f c) = cht_user_id c) \<Longrightarrow>
    spares v db (db\<lparr>chats := upd_rows p f (chats db)\<rparr>)"
  unfolding upd_rows_def by (rule spares_map) auto

lemma spares_del_rows: "(\<And>c. p c \<Longrightarrow> cht_user_id c \<noteq> v) \<Longrightarrow> spares v db (db\<lparr>chats := del_rows p (chats db)\<rparr>)"
  by (auto simp: spares_def chats_of_def tags_of_def unique_key_def del_rows_def distinct_map_filter
      intro!: arg_cong[of _ _ "map sanitize_chat_row"] filter_cong)

lemma spares_add_row:
  "add_row cht_id c (chats db) = Some cs \<Longrightarrow> cht_user_id c \<noteq> v \<Longrightarrow> spares v db (db\<lparr>chats := cs\<rparr>)"
  by (auto simp: spares_def chats_of_def tags_of_def unique_key_def add_row_def split: if_splits)

lemma spares_tags: "filter (\<lambda>t. tag_user_id t = v) ts = tags_of v db \<Longrightarrow> spares v db (db\<lparr>chat_tags := ts\<rparr>)"
  by (simp add: spares_def chats_of_def tags_of_def)

lemma row_not_theirs: "chat_row cid db = Some c \<Longrightarrow> cid \<notin> ids_of v db \<Longrightarrow> cht_id c = cid \<and> cht_user_id c \<noteq> v"
  by (auto simp: ids_of_iff dest: chat_row_SomeD)

section \<open>Operations\<close>

lemma spares_read [kept]: "spares v db (snd (get_chat_by_id cid db))"
  by (simp add: get_chat_by_id_def kept split: option.splits)

lemma spares_update [kept]: "cid \<notin> ids_of v db \<Longrightarrow> spares v db (snd (update_chat_by_id now cid d db))"
  by (auto simp: update_chat_by_id_def Let_def split: option.splits json.splits
      intro!: spares_set_chat dest: row_not_theirs)

lemma read_then:
  assumes "cid \<notin> ids_of v db" "get_chat_by_id cid db = (r, db1)"
  shows "spares v db db1" "cid \<notin> ids_of v db1"
  using spares_read[of v db cid] assms spares_ids[of v db db1] by simp_all

lemma spares_upsert [kept]:
  assumes "cid \<notin> ids_of v db"
  shows "spares v db (snd (upsert_message_to_chat_by_id_and_message_id now cid mid m db))"
proof -
  obtain r db1 where g: "get_chat_by_id cid db = (r, db1)" by (cases "get_chat_by_id cid db")
  note k = read_then[OF assms g]
  show ?thesis
    using k spares_trans[OF k(1) spares_update[OF k(2)]]
    by (auto simp: upsert_message_to_chat_by_id_and_message_id_def g Let_def case_prod_unfold split: option.splits json.splits sum.splits)
qed

lemma spares_row_update [kept]:
  "cid \<notin> ids_of v db \<Longrightarrow> (\<And>c. cht_id (f c) = cht_id c \<and> cht_user_id (f c) = cht_user_id c) \<Longrightarrow>
     spares v db (snd (update_chat_row cid f db))"
  by (auto simp: update_chat_row_def split: option.splits intro!: spares_set_chat)

lemma spares_delete_tag [kept]: "u \<noteq> v \<Longrightarrow> spares v db (snd (delete_tag_by_name_and_user_id t u db))"
  by (auto simp: delete_tag_by_name_and_user_id_def tags_of_def del_rows_def intro!: spares_tags filter_cong)

lemma spares_insert_tag [kept]: "u \<noteq> v \<Longrightarrow> spares v db (snd (insert_new_tag t u db))"
  by (auto simp: insert_new_tag_def tags_of_def add_row_def Let_def split: option.splits if_splits intro!: spares_tags)

lemma spares_drop_tag [kept]: "u \<noteq> v \<Longrightarrow> spares v db (drop_tag_used n u t db)"
  by (simp add: drop_tag_used_def kept)

lemma spares_restore_tag [kept]: "u \<noteq> v \<Longrightarrow> spares v db (restore_tag u t db)"
  by (simp add: restore_tag_def kept)

lemma with_tags_owner [simp]: "cht_user_id (with_tags ts c) = cht_user_id c"
  by (simp add: with_tags_def)

lemma spares_add_tag [kept]:
  assumes "cid \<notin> ids_of v db" "u \<noteq> v"
  shows "spares v db (snd (add_chat_tag_by_id_and_user_id_and_tag_name cid u name db))"
proof -
  obtain t db1 where p: "(case get_tag_by_name_and_user_id name u db of None \<Rightarrow> insert_new_tag name u db | Some t \<Rightarrow> (Some t, db)) = (t, db1)"
    by (cases "case get_tag_by_name_and_user_id name u db of None \<Rightarrow> insert_new_tag name u db | Some t \<Rightarrow> (Some t, db)")
  have k: "spares v db db1" using p spares_insert_tag[OF assms(2), of db name] by (auto split: option.splits)
  have "cid \<notin> ids_of v db1" using spares_ids[OF k] assms(1) by simp
  then have "spares v db1 (snd (add_chat_tag_by_id_and_user_id_and_tag_name cid u name db))"
    by (auto simp: add_chat_tag_by_id_and_user_id_and_tag_name_def p Let_def split: option.splits
        intro!: spares_set_chat dest: row_not_theirs)
  then show ?thesis by (rule spares_trans[OF k])
qed

lemma spares_untag [kept]:
  "cid \<notin> ids_of v db \<Longrightarrow> spares v db (snd (delete_tag_by_id_and_user_id_and_tag_name cid u name db))"
  "cid \<notin> ids_of v db \<Longrightarrow> spares v db (snd (delete_all_tags_by_id_and_user_id cid u db))"
  by (auto simp: delete_tag_by_id_and_user_id_and_tag_name_def delete_all_tags_by_id_and_user_id_def
      split: option.splits intro!: spares_set_chat)

lemma spares_over_tags: "(\<And>t db. spares v db (f t db)) \<Longrightarrow> spares v db (snd (over_tags f xs db))"
  by (induction f xs db rule: over_tags.induct) (auto intro: spares_trans)

lemma spares_for_tags [kept]:
  assumes "\<And>t db. spares v db (f t db)" "\<And>db1. spares v db db1 \<Longrightarrow> spares v db1 (snd (r db1))"
  shows "spares v db (snd (for_tags f c r db))"
proof (cases "tag_items c")
  case (Some xs)
  obtain b db1 where o: "over_tags f xs db = (b, db1)" by (cases "over_tags f xs db")
  have k: "spares v db db1" using spares_over_tags[of v f db xs, OF assms(1)] o by simp
  show ?thesis using k spares_trans[OF k assms(2)[OF k]] by (cases b) (simp_all add: for_tags_def Some o)
qed (simp add: for_tags_def)

lemma spares_delete [kept]:
  "u \<noteq> v \<Longrightarrow> \<not> startswith v ''shared-'' \<Longrightarrow> spares v db (snd (delete_chat_by_id_and_user_id cid u db))"
  "\<not> startswith v ''shared-'' \<Longrightarrow> spares v db (snd (delete_shared_chat_by_chat_id cid db))"
  "u \<noteq> v \<Longrightarrow> \<not> startswith v ''shared-'' \<Longrightarrow> spares v db (snd (delete_chats_by_user_id u db))"
  by (auto simp: delete_chat_by_id_and_user_id_def delete_shared_chat_by_chat_id_def delete_chats_where_def shared_owner_def
      delete_chats_by_user_id_def delete_shared_chats_by_user_id_def Let_def startswith_def
      intro!: spares_trans[OF spares_del_rows spares_del_rows, simplified] spares_del_rows)

lemma spares_archive_all [kept]:
  "u \<noteq> v \<Longrightarrow> spares v db (snd (archive_all_chats_by_user_id u db))"
  "u \<noteq> v \<Longrightarrow> spares v db (snd (unarchive_all_chats_by_user_id u db))"
  by (auto simp: archive_all_chats_by_user_id_def unarchive_all_chats_by_user_id_def update_chats_where_def intro!: spares_upd_rows)

lemma spares_insert [kept]: "u \<noteq> v \<Longrightarrow> spares v db (snd (insert_new_chat uid t1 t2 u form db))"
  by (auto simp: insert_new_chat_def Let_def split: json.splits option.splits intro!: spares_add_row)

lemma spares_add_all:
  "add_all_chats ns (chats db) = Some cs \<Longrightarrow> list_all (\<lambda>c. cht_user_id c \<noteq> v) ns \<Longrightarrow> spares v db (db\<lparr>chats := cs\<rparr>)"
proof (induction ns arbitrary: db)
  case (Cons n ns)
  obtain cs1 where a: "add_row cht_id n (chats db) = Some cs1" "add_all_chats ns cs1 = Some cs"
    using Cons.prems(1) by (auto split: option.splits)
  have "spares v (db\<lparr>chats := cs1\<rparr>) (db\<lparr>chats := cs1\<rparr>\<lparr>chats := cs\<rparr>)"
    by (rule Cons.IH) (use a Cons.prems(2) in simp_all)
  then show ?case using spares_trans[OF spares_add_row[OF a(1)]] Cons.prems(2) by simp
qed auto

lemma imported_owner:
  "each (\<lambda>(uid, now, form). chat_import_form_to_chat_model uid now u form) forms = Inr ns \<Longrightarrow> list_all (\<lambda>c. cht_user_id c = u) ns"
  by (induction forms arbitrary: ns)
    (auto simp: and_then_Inr_iff chat_import_form_to_chat_model_def split: json.splits option.splits)

lemma spares_import [kept]:
  assumes "u \<noteq> v"
  shows "spares v db (snd (import_chats u forms db))"
proof (cases "each (\<lambda>(uid, now, form). chat_import_form_to_chat_model uid now u form) forms")
  case (Inr ns)
  then have "list_all (\<lambda>c. cht_user_id c \<noteq> v) ns" using imported_owner[OF Inr] assms by (auto simp: list_all_iff)
  then show ?thesis using spares_add_all[of ns db] by (auto simp: import_chats_def Inr split: option.splits)
qed (simp add: import_chats_def)

lemma spares_share_id:
  "cid \<notin> ids_of v db \<Longrightarrow> set_share_id cid sid db = Some db' \<Longrightarrow> spares v db db'"
  by (auto simp: set_share_id_def split: if_splits intro!: spares_set_chat)

lemma spares_unshare [kept]: "cid \<notin> ids_of v db \<Longrightarrow> spares v db (snd (update_chat_share_id_by_id cid sid db))"
  by (auto simp: update_chat_share_id_by_id_def split: option.splits intro: spares_share_id)

lemma spares_share [kept]:
  assumes "cid \<notin> ids_of v db" "\<not> startswith v ''shared-''"
  shows "spares v db (snd (insert_shared_chat_by_chat_id uid now cid db))"
proof -
  have "spares v db db2"
    if s: "chat_model (shared_copy uid now cid c) = Inr s" "add_row cht_id s (chats db) = Some cs"
      and db2: "db2 = db\<lparr>chats := cs\<rparr> \<or> set_share_id cid (Some uid) (db\<lparr>chats := cs\<rparr>) = Some db2" for s c cs db2
  proof -
    have k: "spares v db (db\<lparr>chats := cs\<rparr>)"
      using s assms(2) by (intro spares_add_row) (auto simp: chat_model_def shared_copy_def shared_owner_def startswith_def split: if_splits)
    have "cid \<notin> ids_of v (db\<lparr>chats := cs\<rparr>)" using spares_ids[OF k] assms(1) by simp
    then show ?thesis using db2 k spares_trans[OF k spares_share_id] by blast
  qed
  then show ?thesis by (auto simp: insert_shared_chat_by_chat_id_def split: option.splits sum.splits if_splits)
qed

lemma spares_reshare [kept]:
  assumes "cid \<notin> ids_of v db" "\<not> startswith v ''shared-''" "unique_key cht_id (chats db)"
  shows "spares v db (snd (update_shared_chat_by_chat_id uid now cid db))"
proof (cases "first_row (\<lambda>c. cht_user_id c = shared_owner cid) (chats db)")
  case None
  then show ?thesis using spares_share[OF assms(1,2), of uid now] by (auto simp: update_shared_chat_by_chat_id_def split: prod.splits sum.splits)
next
  case (Some s)
  have s: "s \<in> set (chats db)" "cht_user_id s = shared_owner cid" using first_row_SomeD[OF Some] by simp_all
  then have "cht_user_id s \<noteq> v" using assms(2) by (auto simp: shared_owner_def startswith_def)
  then have "cht_id s \<notin> ids_of v db"
    using s(1) unique_keyD[OF assms(3)] by (auto simp: ids_of_iff)
  then show ?thesis using \<open>cht_user_id s \<noteq> v\<close>
    by (auto simp: update_shared_chat_by_chat_id_def Some Let_def split: option.splits intro!: spares_set_chat)
qed

section \<open>Events\<close>

lemma spares_status [kept]:
  assumes "cid \<notin> ids_of v db"
  shows "spares v db (snd (add_message_status_to_chat_by_id_and_message_id now cid mid st db))"
proof -
  obtain r db1 where g: "get_chat_by_id cid db = (r, db1)" by (cases "get_chat_by_id cid db")
  note k = read_then[OF assms g]
  show ?thesis
    using k spares_trans[OF k(1) spares_update[OF k(2)]]
    by (auto simp: add_message_status_to_chat_by_id_and_message_id_def g Let_def case_prod_unfold split: option.splits json.splits sum.splits)
qed

lemma spares_merge [kept]: "ri_chat_id ri \<notin> ids_of v db \<Longrightarrow> spares v db (snd (merge_message now ri m db))"
  using spares_upsert[of "ri_chat_id ri" v db now "ri_message_id ri" m] by (auto simp: merge_message_def split: prod.splits sum.splits)

lemma spares_write_item [kept]: "ri_chat_id ri \<notin> ids_of v db \<Longrightarrow> spares v db (snd (write_item now ri k r db))"
  by (simp add: write_item_def kept split: sum.splits)

lemma spares_stored [kept]:
  assumes "\<And>r db1. spares v db db1 \<Longrightarrow> spares v db1 (snd (f r db1))"
  shows "spares v db (snd (with_stored_message ri db f))"
proof -
  obtain r db1 where g: "get_message_by_id_and_message_id (ri_chat_id ri) (ri_message_id ri) db = (r, db1)"
    by (cases "get_message_by_id_and_message_id (ri_chat_id ri) (ri_message_id ri) db")
  have "snd (get_message_by_id_and_message_id (ri_chat_id ri) (ri_message_id ri) db) = snd (get_chat_by_id (ri_chat_id ri) db)"
    by (auto simp: get_message_by_id_and_message_id_def split: prod.splits option.splits)
  then have k: "spares v db db1" using spares_read[of v db "ri_chat_id ri"] g by simp
  show ?thesis using k spares_trans[OF k assms[OF k]] by (auto simp: with_stored_message_def g split: sum.splits)
qed

lemma spares_emitter [kept]:
  assumes "ri_chat_id ri \<notin> ids_of v db"
  shows "spares v db (snd (snd (event_emitter b now ri ev db)))"
proof -
  have "ri_chat_id ri \<notin> ids_of v db1" if "spares v db db1" for db1 using spares_ids[OF that] assms by simp
  then have "spares v db (snd (append_content now ri ev db))" "spares v db (snd (extend_item now ri k ev db))"
      "spares v db (snd (add_source now ri ev db))" for k
    unfolding append_content_def extend_item_def add_source_def Let_def
    by (auto split: option.splits sum.splits intro!: spares_stored spares_write_item)
  then have "spares v db (snd (write_event now ri ev db))"
    using assms spares_status[OF assms, of now "ri_message_id ri" "dget_or ev ''data'' (JDict [])"]
    by (auto simp: write_event_def Let_def spares_write_item split: prod.splits sum.splits)
  then show ?thesis by (simp add: event_emitter_def)
qed

section \<open>Requests\<close>

datatype chat_request =
    Remove_all
  | Search string "int option"
  | By_tag string
  | New id time time chat_form
  | Import "(id \<times> time \<times> chat_import_form) list"
  | Archive_all
  | Unarchive_all
  | Read_shared id
  | Update time id dict
  | Edit_message time id id string
  | Send_event time id id string dict
  | Remove id
  | Add_tag id string
  | Remove_tag id string
  | Remove_tags id
  | Pin time id
  | Archive time id
  | Move time id "id option"
  | Clone id time id "string option"
  | Clone_shared id time id
  | Share id time id
  | Unshare id

fun perform_chat :: "('k :: linorder, 'm) chat_site_scheme \<Rightarrow> user \<Rightarrow> chat_request \<Rightarrow> chat_db \<Rightarrow> chat_db" where
  "perform_chat e caller Remove_all db = snd (delete_all_user_chats e caller db)"
| "perform_chat e caller (Search q p) db = snd (search_user_chats e caller q p db)"
| "perform_chat e caller (By_tag name) db = snd (get_user_chat_list_by_tag_name caller name db)"
| "perform_chat e caller (New i t1 t2 form) db = snd (create_new_chat i t1 t2 caller form db)"
| "perform_chat e caller (Import forms) db = snd (import_chats_handler caller forms db)"
| "perform_chat e caller Archive_all db = snd (archive_all_chats caller db)"
| "perform_chat e caller Unarchive_all db = snd (unarchive_all_chats caller db)"
| "perform_chat e caller (Read_shared i) db = snd (get_shared_chat_by_id e caller i db)"
| "perform_chat e caller (Update now i d) db = snd (update_own_chat now caller i d db)"
| "perform_chat e caller (Edit_message now i m t) db = snd (snd (update_chat_message_by_id now caller i m t db))"
| "perform_chat e caller (Send_event now i m t d) db = snd (snd (send_chat_message_event_by_id now caller i m t d db))"
| "perform_chat e caller (Remove i) db = snd (delete_chat_handler e caller i db)"
| "perform_chat e caller (Add_tag i t) db = snd (add_tag_handler caller i t db)"
| "perform_chat e caller (Remove_tag i t) db = snd (delete_tag_handler caller i t db)"
| "perform_chat e caller (Remove_tags i) db = snd (delete_all_tags_handler caller i db)"
| "perform_chat e caller (Pin now i) db = snd (pin_chat_by_id now caller i db)"
| "perform_chat e caller (Archive now i) db = snd (archive_chat_by_id now caller i db)"
| "perform_chat e caller (Move now i f) db = snd (update_chat_folder_id_by_id now caller i f db)"
| "perform_chat e caller (Clone n now i t) db = snd (clone_chat_by_id n now caller i t db)"
| "perform_chat e caller (Clone_shared n now i) db = snd (clone_shared_chat_by_id n now caller i db)"
| "perform_chat e caller (Share n now i) db = snd (share_chat_by_id e n now caller i db)"
| "perform_chat e caller (Unshare i) db = snd (delete_shared_chat_by_id caller i db)"

lemma own_not_theirs:
  assumes "get_chat_by_id_and_user_id cid u db = Some c" "unique_key cht_id (chats db)" "u \<noteq> v"
  shows "cid \<notin> ids_of v db"
proof -
  obtain c0 where "first_row (\<lambda>c. cht_id c = cid \<and> cht_user_id c = u) (chats db) = Some c0"
    using assms(1) by (auto simp: get_chat_by_id_and_user_id_def split: option.splits)
  from first_row_SomeD[OF this] have "c0 \<in> set (chats db)" "cht_id c0 = cid" "cht_user_id c0 = u" by simp_all
  then show ?thesis using unique_keyD[OF assms(2)] assms(3) by (auto simp: ids_of_iff)
qed

lemma spares_own [kept]:
  assumes "unique_key cht_id (chats db)" "u_id caller \<noteq> v"
    and "\<And>c. cid \<notin> ids_of v db \<Longrightarrow> spares v db (snd (f c))"
  shows "spares v db (snd (with_own_chat caller cid db f))"
  using own_not_theirs[OF _ assms(1,2)] assms(3)
  by (auto simp: with_own_chat_def verified_def split: option.splits)

lemma spares_verified [kept]: "spares v db (snd r) \<Longrightarrow> spares v db (snd (verified caller db r))"
  by (simp add: verified_def)

lemma spares_permitted [kept]: "spares v db (snd r) \<Longrightarrow> spares v db (snd (if_permitted check db r))"
  by (simp add: if_permitted_def split: sum.splits bool.splits)

lemma spares_answer [kept]: "spares v db (snd r) \<Longrightarrow> spares v db (snd (answer_chat r))"
  by (auto simp: answer_chat_def split: prod.splits option.splits)

lemma spares_writable [kept]:
  assumes "unique_key cht_id (chats db)" "u_id caller \<noteq> v" "u_role caller \<noteq> ''admin''"
    and "\<And>db1. spares v db db1 \<Longrightarrow> cid \<notin> ids_of v db1 \<Longrightarrow> spares v db1 (snd (snd (f db1)))"
  shows "spares v db (snd (snd (with_writable_chat caller cid db f)))"
proof (cases "get_chat_by_id cid db")
  case (Pair r db1)
  have k: "spares v db db1" using spares_read[of v db cid] Pair by simp
  have "cid \<notin> ids_of v db1" if r: "r = Some c" "cht_user_id c = u_id caller" for c
  proof -
    obtain c0 where "chat_row cid db = Some c0" "cht_user_id c0 = u_id caller"
      using Pair r by (auto simp: get_chat_by_id_def chat_model_def split: option.splits if_splits)
    then have c0: "c0 \<in> set (chats db)" "cht_id c0 = cid" "cht_user_id c0 \<noteq> v"
      using chat_row_SomeD[of cid db c0] assms(2) by auto
    have "cht_user_id x \<noteq> v" if "x \<in> set (chats db)" "cht_id x = cid" for x
      using unique_keyD[OF assms(1) that(1) c0(1)] that(2) c0(2,3) by simp
    then show ?thesis by (auto simp: spares_ids[OF k] ids_of_iff)
  qed
  then show ?thesis using k spares_trans[OF k assms(4)[OF k]] assms(3)
    by (auto simp: with_writable_chat_def Pair split: option.splits)
qed

lemma spares_clone [kept]: "u_id caller \<noteq> v \<Longrightarrow> spares v db (snd (clone_of n now caller c t db))"
  using spares_import[of "u_id caller" v]
  by (auto simp: clone_of_def Let_def split: sum.splits prod.splits list.splits) (metis snd_conv)+


lemmas spares_steps = spares_refl spares_verified spares_permitted spares_own spares_answer spares_clone spares_for_tags

lemma spares_listing:
  assumes "u_id caller \<noteq> v"
  shows "spares v db (snd (search_user_chats e caller q p db))" "spares v db (snd (get_user_chat_list_by_tag_name caller name db))"
  using spares_delete_tag[OF assms]
  by (auto simp: search_user_chats_def get_user_chat_list_by_tag_name_def Let_def intro!: spares_verified split: sum.splits)

lemma spares_whole:
  assumes "u_id caller \<noteq> v" "\<not> startswith v ''shared-''"
  shows "spares v db (snd (delete_all_user_chats e caller db))" "spares v db (snd (archive_all_chats caller db))"
    "spares v db (snd (unarchive_all_chats caller db))" "spares v db (snd (create_new_chat uid t1 t2 caller form db))"
    "spares v db (snd (import_chats_handler caller forms db))"
  using spares_delete(3)[OF assms] spares_archive_all[OF assms(1)] spares_insert[OF assms(1)] spares_import[OF assms(1)]
  by (auto simp: delete_all_user_chats_def archive_all_chats_def unarchive_all_chats_def create_new_chat_def import_chats_handler_def
      case_prod_unfold Let_def intro!: spares_verified spares_permitted)

lemma spares_read_shared: "spares v db (snd (get_chat_by_share_id sid db))"
  by (simp add: get_chat_by_share_id_def spares_read split: option.splits)

lemma spares_shared:
  assumes "u_id caller \<noteq> v"
  shows "spares v db (snd (get_shared_chat_by_id e caller sid db))" "spares v db (snd (clone_shared_chat_by_id n now caller cid db))"
proof -
  let ?r = "if u_role caller = ''user'' \<or> \<not> hc_admin_access e then get_chat_by_share_id sid db else get_chat_by_id sid db"
  let ?q = "if u_role caller = ''admin'' then get_chat_by_id cid db else get_chat_by_share_id cid db"
  have k: "spares v db (snd ?r)" "spares v db (snd ?q)" by (simp_all add: spares_read spares_read_shared)
  show "spares v db (snd (get_shared_chat_by_id e caller sid db))"
    unfolding get_shared_chat_by_id_def using k(1) by (intro spares_verified) (cases ?r; auto split: option.splits)
  show "spares v db (snd (clone_shared_chat_by_id n now caller cid db))"
    unfolding clone_shared_chat_by_id_def using k(2)
    by (intro spares_verified) (cases ?q; auto split: option.splits intro: spares_trans spares_clone[OF assms])
qed

lemma spares_marks:
  assumes "unique_key cht_id (chats db)" "u_id caller \<noteq> v"
  shows "spares v db (snd (update_own_chat now caller cid d db))" "spares v db (snd (pin_chat_by_id now caller cid db))"
    "spares v db (snd (update_chat_folder_id_by_id now caller cid fid db))" "spares v db (snd (clone_chat_by_id n now caller cid t db))"
  by (auto simp: update_own_chat_def pin_chat_by_id_def update_chat_folder_id_by_id_def clone_chat_by_id_def case_prod_unfold Let_def
      toggle_chat_pinned_by_id_def update_chat_folder_id_by_id_and_user_id_def
      intro!: spares_own[OF assms] spares_answer spares_update spares_row_update spares_clone[OF assms(2)])

lemma spares_stored_tags [simp]: "snd (stored_tags cid u db) = db"
  by (simp add: stored_tags_def split: option.splits)

lemma spares_tagging:
  assumes "unique_key cht_id (chats db)" "u_id caller \<noteq> v"
  shows "spares v db (snd (add_tag_handler caller cid t db))" "spares v db (snd (delete_tag_handler caller cid t db))"
    "spares v db (snd (delete_all_tags_handler caller cid db))" "spares v db (snd (archive_chat_by_id now caller cid db))"
proof -
  show "spares v db (snd (add_tag_handler caller cid t db))"
    unfolding add_tag_handler_def using assms(2)
    by (intro spares_own[OF assms]) (auto split: sum.splits intro: spares_add_tag)
  show "spares v db (snd (delete_tag_handler caller cid t db))"
    unfolding delete_tag_handler_def
    by (intro spares_own[OF assms]) (auto intro: spares_trans[OF spares_untag(1) spares_drop_tag[OF assms(2)]])
  show "spares v db (snd (delete_all_tags_handler caller cid db))"
    unfolding delete_all_tags_handler_def
    by (intro spares_own[OF assms], rule spares_trans[OF spares_untag(2)])
      (auto intro: spares_for_tags spares_drop_tag[OF assms(2)])
  have "spares v db (snd (case toggle_chat_archive_by_id now cid db of
         (None, db1) \<Rightarrow> (Inl ServerError, db1)
       | (Some c, db1) \<Rightarrow>
           for_tags (if cht_archived c then drop_tag_used 0 (u_id caller) else restore_tag (u_id caller)) c
             (\<lambda>db2. (Inr c, db2)) db1))" if "cid \<notin> ids_of v db"
  proof (cases "toggle_chat_archive_by_id now cid db")
    case (Pair r db1)
    have k: "spares v db db1"
      using spares_row_update[OF that, of "\<lambda>c. c\<lparr>cht_archived := \<not> cht_archived c, cht_folder_id := None, cht_updated_at := now\<rparr>"] Pair
      by (simp add: toggle_chat_archive_by_id_def)
    show ?thesis unfolding Pair
      by (auto split: option.splits intro!: spares_trans[OF k] spares_for_tags spares_drop_tag[OF assms(2)] spares_restore_tag[OF assms(2)] k)
  qed
  then show "spares v db (snd (archive_chat_by_id now caller cid db))"
    unfolding archive_chat_by_id_def by (intro spares_own[OF assms])
qed

lemma spares_message:
  assumes "unique_key cht_id (chats db)" "u_id caller \<noteq> v" "u_role caller \<noteq> ''admin''"
  shows "spares v db (snd (snd (update_chat_message_by_id now caller cid m t db)))"
    "spares v db (snd (snd (send_chat_message_event_by_id now caller cid m k d db)))"
proof -
  have "spares v db1 (snd (snd (case upsert_message_to_chat_by_id_and_message_id now cid m [(''content'', JStr t)] db1 of
         (Inl x, db2) \<Rightarrow> ([], Inl ServerError, db2) | (Inr r, db2) \<Rightarrow> (g db2, answer_chat (r, db2)))))"
    if "cid \<notin> ids_of v db1" for db1 and g :: "chat_db \<Rightarrow> effect list"
    using spares_upsert[OF that, of now m "[(''content'', JStr t)]"]
    by (auto split: prod.splits sum.splits intro!: spares_answer)
  then show "spares v db (snd (snd (update_chat_message_by_id now caller cid m t db)))"
    unfolding update_chat_message_by_id_def by (intro spares_writable[OF assms])
  have "spares v db1 (snd (snd (case event_emitter True now ri ev db1 of
         (sent, Inl x, db2) \<Rightarrow> (sent, Inr False, db2) | (sent, Inr _, db2) \<Rightarrow> (sent, (Inr True :: http_error + bool), db2))))"
    if "ri_chat_id ri \<notin> ids_of v db1" for db1 ri ev
    using spares_emitter[OF that, of True now ev] by (auto split: prod.splits sum.splits)
  then show "spares v db (snd (snd (send_chat_message_event_by_id now caller cid m k d db)))"
    unfolding send_chat_message_event_by_id_def by (intro spares_writable[OF assms]) simp
qed

lemma spares_sharing:
  assumes "unique_key cht_id (chats db)" "u_id caller \<noteq> v" "\<not> startswith v ''shared-''"
  shows "spares v db (snd (share_chat_by_id e uid now caller cid db))" "spares v db (snd (delete_shared_chat_by_id caller cid db))"
proof -
  have "spares v db (snd (case insert_shared_chat_by_chat_id uid now cid db of
      (Inl x, db') \<Rightarrow> (Inl ServerError, db') | (Inr r, db') \<Rightarrow> answer_chat (r, db')))" if "cid \<notin> ids_of v db"
    using spares_share[OF that assms(3), of uid now] by (auto split: prod.splits sum.splits intro!: spares_answer)
  then show "spares v db (snd (share_chat_by_id e uid now caller cid db))"
    unfolding share_chat_by_id_def
    by (intro spares_verified spares_permitted spares_own[OF assms(1,2)])
      (auto intro!: spares_answer spares_reshare assms(3,1))
  show "spares v db (snd (delete_shared_chat_by_id caller cid db))"
    unfolding delete_shared_chat_by_id_def
  proof (intro spares_own[OF assms(1,2)])
    fix c assume i: "cid \<notin> ids_of v db"
    note k = spares_delete(2)[OF assms(3), of db cid]
    have "cid \<notin> ids_of v (snd (delete_shared_chat_by_chat_id cid db))" using spares_ids[OF k] i by simp
    then show "spares v db (snd (if cht_share_id c = None \<or> cht_share_id c = Some [] then (Inr False, db)
       else let (b, db1) = delete_shared_chat_by_chat_id cid db; (r, db2) = update_chat_share_id_by_id cid None db1
            in ((Inr (b \<and> r \<noteq> None) :: http_error + bool), db2)))"
      using spares_trans[OF k spares_unshare] by (simp add: Let_def case_prod_unfold)
  qed
qed

lemma spares_removal:
  assumes "u_id caller \<noteq> v" "u_role caller \<noteq> ''admin''" "\<not> startswith v ''shared-''"
  shows "spares v db (snd (delete_chat_handler e caller cid db))"
proof -
  obtain r db1 where g: "get_chat_by_id cid db = (r, db1)" by (cases "get_chat_by_id cid db")
  have "spares v db db1" using spares_read[of v db cid] g by simp
  then show ?thesis
    unfolding delete_chat_handler_def g
    by (intro spares_verified spares_permitted)
      (auto split: option.splits simp: assms(2) Let_def case_prod_unfold
        intro!: spares_for_tags spares_drop_tag[OF assms(1)] spares_delete(1)[OF assms(1,3)] elim!: spares_trans)
qed

lemma spares_request:
  assumes "unique_key cht_id (chats db)" "u_id caller \<noteq> v" "u_role caller \<noteq> ''admin''" "\<not> startswith v ''shared-''"
  shows "spares v db (perform_chat e caller r db)"
  by (cases r) (simp_all add: assms spares_listing spares_whole spares_shared spares_marks spares_tagging spares_message
      spares_sharing spares_removal)

definition perform_chats :: "('k :: linorder, 'm) chat_site_scheme \<Rightarrow> (user \<times> chat_request) list \<Rightarrow> chat_db \<Rightarrow> chat_db" where
  "perform_chats e rs db = fold (\<lambda>(caller, r). perform_chat e caller r) rs db"

text \<open>
  C3: Whatever users who are no administrators ask for, the chats and the tags of another user stay as they are, up
  to null characters removed by reading them.
\<close>

theorem chats_private:
  assumes "list_all (\<lambda>(caller, r). u_id caller \<noteq> v \<and> u_role caller \<noteq> ''admin'') rs"
    and "unique_key cht_id (chats db)" "\<not> startswith v ''shared-''"
  shows "chats_of v (perform_chats e rs db) = chats_of v db \<and> tags_of v (perform_chats e rs db) = tags_of v db"
proof -
  have "spares v db (perform_chats e rs db)" using assms(1,2)
  proof (induction rs arbitrary: db)
    case (Cons r rs)
    obtain caller q where r: "r = (caller, q)" by (cases r)
    have k: "spares v db (perform_chat e caller q db)" using spares_request[of db caller v] Cons.prems assms(3) r by simp
    then show ?case using Cons.IH[of "perform_chat e caller q db"] Cons.prems r spares_unique[OF k] spares_trans[OF k]
      by (simp add: perform_chats_def)
  qed (simp add: perform_chats_def)
  then show ?thesis by (simp add: spares_def)
qed

definition demo_chat_site :: "int chat_site" where
  "demo_chat_site = \<lparr>hc_builtin = [(''chat'', JDict [(''delete'', JBool True), (''share'', JBool True)])], hc_permissions = [],
     hc_groups = \<lparr>groups = [], group_members = []\<rparr>, hc_folders = [], hc_esc = None, hc_column = (\<lambda>_. None),
     hc_admin_access = True, hc_admin_export = True, hc_depth = 9, hc_in_messages = (\<lambda>_ _. False), hc_readable = (\<lambda>_. True)\<rparr>"

lemma chats_private_witness:
  "chats_of ''kim'' (perform_chats demo_chat_site [(lee, Remove ''k1''), (lee, Update 5 ''k2'' []), (lee, Remove_all)] sample_chats) =
     [sanitize_chat_row memo_chat] \<and>
   perform_chats demo_chat_site [(lee, Remove ''k1''), (lee, Update 5 ''k2'' []), (lee, Remove_all)] sample_chats \<noteq> sample_chats"
proof -
  let ?rs = "[(lee, Remove ''k1''), (lee, Update 5 ''k2'' []), (lee, Remove_all)]"
  have h: "list_all (\<lambda>(caller, r). u_id caller \<noteq> ''kim'' \<and> u_role caller \<noteq> ''admin'') ?rs"
      "unique_key cht_id (chats sample_chats)" "\<not> startswith ''kim'' ''shared-''"
      "perform_chats demo_chat_site ?rs sample_chats \<noteq> sample_chats"
    by code_simp+
  have "chats_of ''kim'' sample_chats = [sanitize_chat_row memo_chat]" by code_simp
  then show ?thesis using chats_private[OF h(1-3), of demo_chat_site] h(4) by simp
qed

section \<open>Where requests reach too far\<close>

text \<open>
  The copy under which a chat is shared belongs to nobody, and deleting a chat does not stop at a chat of another
  user: the chat stays, the answer is \<open>True\<close>, and its shared copy is gone.
\<close>

lemma stranger_unshares:
  assumes "u_role caller = ''user''" "permitted e caller ''chat.delete'' = Inr True"
    and "get_chat_by_id cid db = (Some c, db1)" "tag_items c = Some []" "cht_user_id c \<noteq> u_id caller" "unique_key cht_id (chats db)"
  shows "fst (delete_chat_handler e caller cid db) = Inr True"
    and "chat_row cid (snd (delete_chat_handler e caller cid db)) =
      (if cht_user_id c = shared_owner cid then None else Some c)"
    and "list_all (\<lambda>x. cht_user_id x \<noteq> shared_owner cid) (chats (snd (delete_chat_handler e caller cid db)))"
proof -
  let ?gone = "\<lambda>x. cht_id x = cid \<and> cht_user_id x = u_id caller"
  have r: "delete_chat_handler e caller cid db = (Inr True, snd (delete_chat_by_id_and_user_id cid (u_id caller) db1))"
    using assms by (simp add: delete_chat_handler_def verified_def is_verified_def if_permitted_def for_tags_def
        delete_chat_by_id_and_user_id_def delete_shared_chat_by_chat_id_def delete_chats_where_def)
  note row = read_clean[OF assms(3)]
  have u: "unique_key cht_id (chats db1)" using spares_read[of "[]" db cid] assms(3,6) spares_unique by force
  show "fst (delete_chat_handler e caller cid db) = Inr True" by (simp add: r)
  show "list_all (\<lambda>x. cht_user_id x \<noteq> shared_owner cid) (chats (snd (delete_chat_handler e caller cid db)))"
    by (auto simp: r delete_chat_by_id_and_user_id_def delete_shared_chat_by_chat_id_def delete_chats_where_def list_all_iff)
  have c: "c \<in> set (chats db1)" "cht_id c = cid" using chat_row_SomeD row by blast+
  have only: "x = c" if "x \<in> set (chats db1)" "cht_id x = cid" for x using unique_keyD[OF u that(1) c(1)] that(2) c(2) by simp
  have "find (\<lambda>x. cht_id x = cid) (filter p cs) = (if c \<in> set cs \<and> p c then Some c else None)" if "set cs \<subseteq> set (chats db1)" for p cs
    using that only c(2) by (induction cs) auto
  from this[of "chats db1" "\<lambda>x. \<not> ?gone x \<and> cht_user_id x \<noteq> shared_owner cid"]
  show "chat_row cid (snd (delete_chat_handler e caller cid db)) = (if cht_user_id c = shared_owner cid then None else Some c)"
    using c assms(5)
    by (simp add: r delete_chat_by_id_and_user_id_def delete_shared_chat_by_chat_id_def delete_chats_where_def del_rows_def
        chat_row_def row_get_def first_row_def conj_commute)
qed

text \<open>
  The tags of the chat to be deleted are dropped when one chat of the caller that is not archived has them. When the
  chat is archived, or of somebody else, that one chat is another one, which keeps a tag without a row.
\<close>

definition tagged_chats :: chat_db where
  "tagged_chats =
     \<lparr>chats = [with_tags [''work''] (memo_chat\<lparr>cht_archived := True\<rparr>), with_tags [''work''] (memo_chat\<lparr>cht_id := ''k2''\<rparr>),
        with_tags [''work''] (memo_chat\<lparr>cht_id := ''k3'', cht_user_id := ''lee''\<rparr>)],
      chat_tags = [\<lparr>tag_id = ''work'', tag_name = ''Work'', tag_user_id = ''kim'', tag_meta = None\<rparr>]\<rparr>"

lemma archived_chat_takes_tag:
  "get_chat_tags_handler kim ''k2'' (snd (delete_chat_handler demo_chat_site kim ''k1'' tagged_chats)) =
     (Inr [], snd (delete_chat_handler demo_chat_site kim ''k1'' tagged_chats))"
  "get_chat_tags_handler kim ''k2'' (snd (delete_chat_handler demo_chat_site kim ''k3'' tagged_chats)) =
     (Inr [], snd (delete_chat_handler demo_chat_site kim ''k3'' tagged_chats))"
  "get_chat_tags_handler kim ''k2'' tagged_chats =
     (Inr [\<lparr>tag_id = ''work'', tag_name = ''Work'', tag_user_id = ''kim'', tag_meta = None\<rparr>], tagged_chats)"
  by code_simp+

text \<open>A search for chats in folders none of which exists is a search in all folders.\<close>

lemma unknown_folder_ignored:
  "search_match e u ia ws [] c = search_match e u ia (filter (\<lambda>w. \<not> startswith w ''folder:'') ws) [] c"
proof -
  have t: "text_words (filter (\<lambda>w. \<not> startswith w ''folder:'') ws) = text_words ws"
    by (auto simp: text_words_def intro!: filter_cong)
  have g: "tag_words (filter (\<lambda>w. \<not> startswith w ''folder:'') ws) = tag_words ws"
    by (auto simp: tag_words_def startswith_def prefix_def intro!: arg_cong[of _ _ "map _"] filter_cong)
  have s: "switch_word k (filter (\<lambda>w. \<not> startswith w ''folder:'') ws) = switch_word k ws"
    if "k \<in> {''archived'', ''pinned'', ''shared''}" for k
    using that by (auto simp: switch_word_def startswith_def prefix_def)
  show ?thesis by (simp add: search_match_def t g s)
qed

text \<open>A chat without a history cannot be cloned; the request fails as an error of the server.\<close>

lemma clone_needs_history:
  "get_chat_by_id_and_user_id cid (u_id caller) db = Some c \<Longrightarrow> dget (cht_chat c) ''history'' = None \<Longrightarrow> is_verified caller \<Longrightarrow>
     clone_chat_by_id n now caller cid t db = (Inl ServerError, db)"
  by (simp add: clone_chat_by_id_def with_own_chat_def verified_def clone_of_def current_message_def)

text \<open>A clone is a new chat of the caller, shared with nobody, whatever the chat it was made from.\<close>

lemma clone_is_own:
  assumes "clone_of n now caller c t db = (Inr x, db')"
  shows "cht_id x = n" "cht_user_id x = u_id caller" "cht_share_id x = None" "\<not> cht_archived x"
    "chats db' = chats db @ [x]" "chat_tags db' = chat_tags db" "n \<notin> cht_id ` set (chats db)"
  using assms
  by (auto simp: clone_of_def Let_def import_chats_def clone_form_def chat_import_form_to_chat_model_def add_row_def
      split: sum.splits list.splits option.splits json.splits if_splits prod.splits)

end
