(* ===== verification/Feedbacks.thy ===== *)
theory Feedbacks
  imports Account_Handlers
begin

text \<open>
  \<^verbatim>\<open>models/feedbacks.py\<close> and \<^verbatim>\<open>routers/evaluations.py\<close>: the ratings users give to answers. The order the database
  gives to a member of a JSON column and the way pydantic reads a number are arguments. A form keeps the members it
  does not declare, in \<open>fe_extra\<close>; \<open>fe_data\<close> and \<open>fe_snapshot\<close> are the dictionaries of the parts of the form.
\<close>

record feedback =
  fb_id :: id
  fb_user_id :: id
  fb_version :: int
  fb_type :: string
  fb_data :: "dict option"
  fb_meta :: "dict option"
  fb_snapshot :: "dict option"
  fb_created_at :: time
  fb_updated_at :: time

type_synonym feedback_db = "feedback list"

record feedback_form =
  fe_type :: string
  fe_data :: "dict option"
  fe_meta :: "dict option"
  fe_snapshot :: "dict option"
  fe_extra :: dict

section \<open>The table\<close>

text \<open>\<open>{"id": id, "user_id": user_id, "version": 0, **form}\<close>: what the form brings along comes after.\<close>

definition given_text :: "dict \<Rightarrow> string \<Rightarrow> string \<Rightarrow> py_error + string" where
  "given_text d k v = (case dget d k of None \<Rightarrow> Inr v | Some (JStr s) \<Rightarrow> Inr s | Some _ \<Rightarrow> Inl ValueError)"

definition given_number :: "(json \<Rightarrow> int option) \<Rightarrow> dict \<Rightarrow> string \<Rightarrow> int \<Rightarrow> py_error + int" where
  "given_number read d k v = (case dget d k of
     None \<Rightarrow> Inr v | Some x \<Rightarrow> (case read x of None \<Rightarrow> Inl ValueError | Some n \<Rightarrow> Inr n))"

definition feedback_model ::
  "(json \<Rightarrow> int option) \<Rightarrow> id \<Rightarrow> time \<Rightarrow> time \<Rightarrow> id \<Rightarrow> feedback_form \<Rightarrow> py_error + feedback" where
  "feedback_model read uid t1 t2 user_id form =
     and_then (given_text (fe_extra form) ''id'' uid) (\<lambda>i.
     and_then (given_text (fe_extra form) ''user_id'' user_id) (\<lambda>u.
     and_then (given_number read (fe_extra form) ''version'' 0) (\<lambda>v.
       Inr \<lparr>fb_id = i, fb_user_id = u, fb_version = v, fb_type = fe_type form, fb_data = fe_data form,
            fb_meta = fe_meta form, fb_snapshot = fe_snapshot form, fb_created_at = t1, fb_updated_at = t2\<rparr>)))"

definition insert_new_feedback ::
  "(json \<Rightarrow> int option) \<Rightarrow> id \<Rightarrow> time \<Rightarrow> time \<Rightarrow> id \<Rightarrow> feedback_form \<Rightarrow> feedback_db \<Rightarrow> (py_error + feedback option) \<times> feedback_db" where
  "insert_new_feedback read uid t1 t2 user_id form db =
     (case feedback_model read uid t1 t2 user_id form of
        Inl e \<Rightarrow> (Inl e, db)
      | Inr f \<Rightarrow> (case add_row fb_id f db of None \<Rightarrow> (Inr None, db) | Some db' \<Rightarrow> (Inr (Some f), db')))"

definition find_feedback :: "id \<Rightarrow> feedback_db \<Rightarrow> feedback option" where
  "find_feedback i db = first_row (\<lambda>f. fb_id f = i) db"

definition find_feedback_of :: "id \<Rightarrow> id \<Rightarrow> feedback_db \<Rightarrow> feedback option" where
  "find_feedback_of i u db = first_row (\<lambda>f. fb_id f = i \<and> fb_user_id f = u) db"

text \<open>A feedback is listed with its author; one whose author is gone is not.\<close>

definition with_authors :: "user_db \<Rightarrow> feedback_db \<Rightarrow> (feedback \<times> user) list" where
  "with_authors udb db = concat (map (\<lambda>f. map (Pair f) (all_rows (\<lambda>u. fb_user_id f = u_id u) (users udb))) db)"

definition order_items ::
  "(json option \<Rightarrow> 'k :: linorder) \<Rightarrow> string option \<Rightarrow> string option \<Rightarrow> (feedback \<times> user) list \<Rightarrow> (feedback \<times> user) list" where
  "order_items key order_by direction rs =
     (let up = (direction = Some ''asc''); part = (\<lambda>k (f, u). key (case fb_data f of None \<Rightarrow> None | Some d \<Rightarrow> dget d k))
      in if order_by = None \<and> direction = None then order_desc (\<lambda>(f, u). fb_created_at f) rs
         else if order_by = Some ''username'' then order_rows up (\<lambda>(f, u). u_name u) rs
         else if order_by = Some ''model_id'' then order_rows up (part ''model_id'') rs
         else if order_by = Some ''rating'' then order_rows up (part ''rating'') rs
         else if order_by = Some ''updated_at'' then order_rows up (\<lambda>(f, u). fb_updated_at f) rs
         else rs)"

definition get_feedback_items ::
  "(json option \<Rightarrow> 'k :: linorder) \<Rightarrow> string option \<Rightarrow> string option \<Rightarrow> nat \<Rightarrow> nat \<Rightarrow> user_db \<Rightarrow> feedback_db \<Rightarrow>
     (feedback \<times> user) list \<times> nat" where
  "get_feedback_items key order_by direction skip per udb db =
     (let rs = order_items key order_by direction (with_authors udb db) in (some_page skip per rs, length rs))"

definition all_feedbacks :: "feedback_db \<Rightarrow> feedback list" where
  "all_feedbacks db = order_desc fb_updated_at db"

definition get_feedbacks_by_type :: "string \<Rightarrow> feedback_db \<Rightarrow> feedback list" where
  "get_feedbacks_by_type t db = order_desc fb_updated_at (all_rows (\<lambda>f. fb_type f = t) db)"

definition get_feedbacks_by_user_id :: "id \<Rightarrow> feedback_db \<Rightarrow> feedback list" where
  "get_feedbacks_by_user_id u db = order_desc fb_updated_at (all_rows (\<lambda>f. fb_user_id f = u) db)"

text \<open>An empty \<open>meta\<close> does not replace the stored one, empty data do.\<close>

definition revised :: "time \<Rightarrow> feedback_form \<Rightarrow> feedback \<Rightarrow> feedback" where
  "revised now form f =
     f\<lparr>fb_data := (case fe_data form of None \<Rightarrow> fb_data f | d \<Rightarrow> d),
       fb_meta := (case fe_meta form of None \<Rightarrow> fb_meta f | Some d \<Rightarrow> if d = [] then fb_meta f else Some d),
       fb_snapshot := (case fe_snapshot form of None \<Rightarrow> fb_snapshot f | d \<Rightarrow> d), fb_updated_at := now\<rparr>"

definition revise :: "time \<Rightarrow> feedback_form \<Rightarrow> feedback option \<Rightarrow> feedback_db \<Rightarrow> feedback option \<times> feedback_db" where
  "revise now form found db = (case found of
     None \<Rightarrow> (None, db)
   | Some f \<Rightarrow> (Some (revised now form f), upd_rows (\<lambda>r. fb_id r = fb_id f) (\<lambda>_. revised now form f) db))"

definition update_feedback :: "time \<Rightarrow> id \<Rightarrow> feedback_form \<Rightarrow> feedback_db \<Rightarrow> feedback option \<times> feedback_db" where
  "update_feedback now i form db = revise now form (find_feedback i db) db"

definition update_feedback_of :: "time \<Rightarrow> id \<Rightarrow> id \<Rightarrow> feedback_form \<Rightarrow> feedback_db \<Rightarrow> feedback option \<times> feedback_db" where
  "update_feedback_of now i u form db = revise now form (find_feedback_of i u db) db"

definition drop_found :: "feedback option \<Rightarrow> feedback_db \<Rightarrow> bool \<times> feedback_db" where
  "drop_found found db = (case found of None \<Rightarrow> (False, db) | Some f \<Rightarrow> (True, row_del fb_id (fb_id f) db))"

definition delete_feedback :: "id \<Rightarrow> feedback_db \<Rightarrow> bool \<times> feedback_db" where
  "delete_feedback i db = drop_found (find_feedback i db) db"

definition delete_feedback_of :: "id \<Rightarrow> id \<Rightarrow> feedback_db \<Rightarrow> bool \<times> feedback_db" where
  "delete_feedback_of i u db = drop_found (find_feedback_of i u db) db"

definition delete_feedbacks_by_user_id :: "id \<Rightarrow> feedback_db \<Rightarrow> bool \<times> feedback_db" where
  "delete_feedbacks_by_user_id u db =
     (all_rows (\<lambda>f. fb_user_id f = u) db \<noteq> [], del_rows (\<lambda>f. fb_user_id f = u) db)"

definition delete_every_feedback :: "feedback_db \<Rightarrow> bool \<times> feedback_db" where
  "delete_every_feedback db = (db \<noteq> [], [])"

section \<open>Handlers\<close>

text \<open>The models users may compare blindly.\<close>

record arena_config =
  ec_enabled :: bool
  ec_models :: "dict list"

type_synonym 'a feedback_answer = "(http_error + 'a) \<times> feedback_db"

definition get_arena_config :: "user \<Rightarrow> arena_config \<Rightarrow> (http_error + arena_config) \<times> arena_config" where
  "get_arena_config caller c = admin_only caller c (Inr c, c)"

definition update_arena_config ::
  "user \<Rightarrow> bool option \<Rightarrow> dict list option \<Rightarrow> arena_config \<Rightarrow> (http_error + arena_config) \<times> arena_config" where
  "update_arena_config caller enabled ms c =
     admin_only caller c
       (let c1 = (case enabled of None \<Rightarrow> c | Some b \<Rightarrow> c\<lparr>ec_enabled := b\<rparr>);
            c2 = (case ms of None \<Rightarrow> c1 | Some l \<Rightarrow> c1\<lparr>ec_models := l\<rparr>)
        in (Inr c2, c2))"

definition get_all_feedbacks :: "user \<Rightarrow> feedback_db \<Rightarrow> feedback list feedback_answer" where
  "get_all_feedbacks caller db = admin_only caller db (Inr (all_feedbacks db), db)"

definition export_all_feedbacks :: "user \<Rightarrow> feedback_db \<Rightarrow> feedback list feedback_answer" where
  "export_all_feedbacks caller db = admin_only caller db (Inr (all_feedbacks db), db)"

definition delete_all_feedbacks :: "user \<Rightarrow> feedback_db \<Rightarrow> bool feedback_answer" where
  "delete_all_feedbacks caller db = admin_only caller db (apfst Inr (delete_every_feedback db))"

definition get_own_feedbacks :: "user \<Rightarrow> feedback_db \<Rightarrow> feedback list feedback_answer" where
  "get_own_feedbacks caller db = verified caller db (Inr (get_feedbacks_by_user_id (u_id caller) db), db)"

definition delete_own_feedbacks :: "user \<Rightarrow> feedback_db \<Rightarrow> bool feedback_answer" where
  "delete_own_feedbacks caller db = verified caller db (apfst Inr (delete_feedbacks_by_user_id (u_id caller) db))"

definition get_feedback_page ::
  "(json option \<Rightarrow> 'k :: linorder) \<Rightarrow> user \<Rightarrow> string option \<Rightarrow> string option \<Rightarrow> int option \<Rightarrow> user_db \<Rightarrow> feedback_db \<Rightarrow>
     ((feedback \<times> user) list \<times> nat) feedback_answer" where
  "get_feedback_page key caller order_by direction p udb db =
     admin_only caller db
       (let given = (\<lambda>v. if v = Some [] then None else v)
        in case p of
             None \<Rightarrow> (Inl ServerError, db)
           | Some n \<Rightarrow> (Inr (get_feedback_items key (given order_by) (given direction) (nat (max 1 n - 1) * 30) 30 udb db), db))"

definition create_feedback ::
  "(json \<Rightarrow> int option) \<Rightarrow> id \<Rightarrow> time \<Rightarrow> time \<Rightarrow> user \<Rightarrow> feedback_form \<Rightarrow> feedback_db \<Rightarrow> feedback feedback_answer" where
  "create_feedback read uid t1 t2 caller form db =
     verified caller db
       (case insert_new_feedback read uid t1 t2 (u_id caller) form db of
          (Inl e, db') \<Rightarrow> (Inl ServerError, db')
        | (Inr None, db') \<Rightarrow> (Inl BadRequest, db')
        | (Inr (Some f), db') \<Rightarrow> (Inr f, db'))"

definition get_feedback_by_id :: "user \<Rightarrow> id \<Rightarrow> feedback_db \<Rightarrow> feedback feedback_answer" where
  "get_feedback_by_id caller i db =
     verified caller db
       (case (if u_role caller = ''admin'' then find_feedback i db else find_feedback_of i (u_id caller) db) of
          None \<Rightarrow> (Inl NotFound, db) | Some f \<Rightarrow> (Inr f, db))"

definition update_feedback_by_id :: "time \<Rightarrow> user \<Rightarrow> id \<Rightarrow> feedback_form \<Rightarrow> feedback_db \<Rightarrow> feedback feedback_answer" where
  "update_feedback_by_id now caller i form db =
     verified caller db
       (case (if u_role caller = ''admin'' then update_feedback now i form db else update_feedback_of now i (u_id caller) form db) of
          (None, db') \<Rightarrow> (Inl NotFound, db') | (Some f, db') \<Rightarrow> (Inr f, db'))"

definition delete_feedback_by_id :: "user \<Rightarrow> id \<Rightarrow> feedback_db \<Rightarrow> bool feedback_answer" where
  "delete_feedback_by_id caller i db =
     verified caller db
       (case (if u_role caller = ''admin'' then delete_feedback i db else delete_feedback_of i (u_id caller) db) of
          (False, db') \<Rightarrow> (Inl NotFound, db') | (True, db') \<Rightarrow> (Inr True, db'))"

section \<open>Who changes which feedback\<close>

datatype feedback_request =
    Give id time time feedback_form
  | Revise time id feedback_form
  | Withdraw id
  | Withdraw_all
  | Clear

fun feedback_request_run :: "(json \<Rightarrow> int option) \<Rightarrow> user \<Rightarrow> feedback_request \<Rightarrow> feedback_db \<Rightarrow> feedback_db" where
  "feedback_request_run read caller (Give uid t1 t2 form) db = snd (create_feedback read uid t1 t2 caller form db)"
| "feedback_request_run read caller (Revise now i form) db = snd (update_feedback_by_id now caller i form db)"
| "feedback_request_run read caller (Withdraw i) db = snd (delete_feedback_by_id caller i db)"
| "feedback_request_run read caller Withdraw_all db = snd (delete_own_feedbacks caller db)"
| "feedback_request_run read caller Clear db = snd (delete_all_feedbacks caller db)"

lemma find_feedback_SomeD: "find_feedback i db = Some f \<Longrightarrow> f \<in> set db \<and> fb_id f = i"
  unfolding find_feedback_def using first_row_SomeD by fastforce

lemma revised_key [simp]: "fb_id (revised now form f) = fb_id f" "fb_user_id (revised now form f) = fb_user_id f"
  by (simp_all add: revised_def)

text \<open>The two ways to a row agree when the ids are unique: the second adds a test of the author.\<close>

lemma find_feedback_of_iff:
  assumes "unique_key fb_id db"
  shows "find_feedback_of i u db = (case find_feedback i db of None \<Rightarrow> None | Some f \<Rightarrow> if fb_user_id f = u then Some f else None)"
  using assms
proof (induction db)
  case (Cons a db)
  have "fb_id r \<noteq> fb_id a" if "r \<in> set db" for r
  proof
    assume "fb_id r = fb_id a"
    then have "fb_id a \<in> fb_id ` set db" using that by (metis image_eqI)
    then show False using Cons.prems by (simp add: unique_key_def)
  qed
  then have "find_feedback (fb_id a) db = None" "find_feedback_of (fb_id a) u db = None"
    by (simp_all add: find_feedback_def find_feedback_of_def first_row_None_iff)
  then show ?case using Cons by (auto simp: find_feedback_of_def find_feedback_def unique_key_def)
qed (simp add: find_feedback_of_def find_feedback_def)

lemma feedback_ids_unique:
  assumes "unique_key fb_id db"
  shows "unique_key fb_id (feedback_request_run read caller q db)"
proof -
  have up: "unique_key fb_id (upd_rows (\<lambda>r. fb_id r = fb_id f) (\<lambda>_. revised now form f) db)" for f now form
  proof -
    have "map fb_id (upd_rows (\<lambda>r. fb_id r = fb_id f) (\<lambda>_. revised now form f) db) = map fb_id db"
      by (induction db) simp_all
    then show ?thesis using assms by (simp add: unique_key_def)
  qed
  show ?thesis
    using assms up
    by (cases q) (auto simp: create_feedback_def insert_new_feedback_def update_feedback_by_id_def update_feedback_def update_feedback_of_def
        revise_def delete_feedback_by_id_def delete_feedback_def delete_feedback_of_def drop_found_def delete_own_feedbacks_def
        delete_feedbacks_by_user_id_def delete_all_feedbacks_def delete_every_feedback_def verified_def admin_only_def row_del_def
        unique_key_def add_row_def del_rows_def distinct_map_filter split: option.splits sum.splits if_splits)
qed

text \<open>A request of another user who is no administrator leaves a feedback as it is.\<close>

lemma feedback_stays:
  assumes "unique_key fb_id db" "find_feedback i db = Some f" "fb_user_id f \<noteq> u_id caller" "u_role caller \<noteq> ''admin''"
  shows "find_feedback i (feedback_request_run read caller q db) = Some f"
proof -
  note own = find_feedback_of_iff[OF assms(1)]
  have there: "f \<in> set db" "fb_id f = i" using find_feedback_SomeD[OF assms(2)] by simp_all
  have upd: "find_feedback i (upd_rows (\<lambda>r. fb_id r = fb_id g) (\<lambda>_. revised now form g) db) = Some f"
    if "find_feedback j db = Some g" "fb_user_id g = u_id caller" for j g now form
  proof -
    have "fb_id g \<noteq> i" using that assms(2,3) find_feedback_SomeD[OF that(1)] by (metis option.inject)
    then have "find_feedback i (upd_rows (\<lambda>r. fb_id r = fb_id g) (\<lambda>_. revised now form g) rs) = find_feedback i rs" for rs
      by (induction rs) (auto simp: find_feedback_def)
    then show ?thesis using assms(2) by simp
  qed
  have del: "find_feedback i (row_del fb_id (fb_id g) db) = Some f"
    if "find_feedback j db = Some g" "fb_user_id g = u_id caller" for j g
  proof -
    have "fb_id g \<noteq> i" using that assms(2,3) find_feedback_SomeD[OF that(1)] by (metis option.inject)
    then have "find_feedback i (row_del fb_id (fb_id g) rs) = find_feedback i rs" for rs
      by (induction rs) (auto simp: find_feedback_def row_del_def)
    then show ?thesis using assms(2) by simp
  qed
  have "find_feedback i (del_rows (\<lambda>r. fb_user_id r = u_id caller) db) = Some f"
    using assms(1-3) there
    by (induction db) (auto simp: find_feedback_def split: if_splits dest: first_row_SomeD)
  then show ?thesis
    using assms(2,4) upd del
    by (cases q) (auto simp: create_feedback_def insert_new_feedback_def update_feedback_by_id_def update_feedback_of_def
        revise_def delete_feedback_by_id_def delete_feedback_of_def drop_found_def delete_own_feedbacks_def
        delete_feedbacks_by_user_id_def delete_all_feedbacks_def verified_def admin_only_def add_row_def own
        find_feedback_def first_row_append split: option.splits sum.splits if_splits)
qed

text \<open>
  A feedback stays as its author left it under every sequence of requests of other users who are no
  administrators.
\<close>

lemma feedback_kept:
  assumes "unique_key fb_id db" "find_feedback i db = Some f"
    and "list_all (\<lambda>(caller, q). u_id caller \<noteq> fb_user_id f \<and> u_role caller \<noteq> ''admin'') xs"
  shows "find_feedback i (run_requests (feedback_request_run read) xs db) = Some f"
  using assms
proof (induction xs arbitrary: db)
  case (Cons x xs)
  obtain caller q where x: "x = (caller, q)" by (cases x)
  have "find_feedback i (feedback_request_run read caller q db) = Some f"
    using Cons.prems x feedback_stays[of db i f caller read q] by auto
  then show ?case using Cons x feedback_ids_unique[of db read caller q] by simp
qed simp

definition kims_feedback :: feedback where
  "kims_feedback = \<lparr>fb_id = ''f1'', fb_user_id = ''kim'', fb_version = 0, fb_type = ''rating'',
     fb_data = Some [(''rating'', JInt 1)], fb_meta = None, fb_snapshot = None, fb_created_at = 1, fb_updated_at = 1\<rparr>"

definition low_rating :: feedback_form where
  "low_rating = \<lparr>fe_type = ''rating'', fe_data = Some [(''rating'', JInt (- 1))], fe_meta = None, fe_snapshot = None, fe_extra = []\<rparr>"

lemma feedback_kept_witness:
  "find_feedback ''f1'' (run_requests (feedback_request_run (\<lambda>_. None))
     [(lee, Revise 2 ''f1'' low_rating), (lee, Withdraw ''f1''), (lee, Give ''f2'' 3 3 low_rating), (lee, Withdraw_all)]
     [kims_feedback]) = Some kims_feedback"
  by (rule feedback_kept) (simp_all add: find_feedback_def kims_feedback_def lee_def new_user_def)

text \<open>
  The author of a feedback is what the form says when it has a member \<open>user_id\<close>: a user gives feedback in the name
  of another.
\<close>

lemma feedback_in_other_name:
  assumes "is_verified caller" "fe_extra form = [(''user_id'', JStr v)]" "uid \<notin> fb_id ` set db"
  shows "\<exists>f db'. create_feedback read uid t1 t2 caller form db = (Inr f, db') \<and> fb_user_id f = v \<and> db' = db @ [f]"
  using assms by (simp add: create_feedback_def verified_def insert_new_feedback_def feedback_model_def given_text_def given_number_def add_row_def)

text \<open>A form without such members: the feedback is of the caller and has the fresh id.\<close>

lemma feedback_given:
  assumes "is_verified caller" "fe_extra form = []" "uid \<notin> fb_id ` set db"
  shows "\<exists>f. create_feedback read uid t1 t2 caller form db = (Inr f, db @ [f]) \<and> fb_user_id f = u_id caller \<and> fb_id f = uid \<and>
    fb_data f = fe_data form \<and> get_feedback_by_id caller uid (db @ [f]) = (Inr f, db @ [f])"
  using assms
  by (auto simp: create_feedback_def verified_def insert_new_feedback_def feedback_model_def given_text_def given_number_def add_row_def
      get_feedback_by_id_def find_feedback_def find_feedback_of_def first_row_append first_row_None_iff image_iff split: option.splits
      dest: first_row_SomeD)

text \<open>The list leaves out exactly the feedback of authors who are gone, whatever its order.\<close>

lemma set_order_items: "set (order_items key order_by direction rs) = set rs"
  by (simp add: order_items_def Let_def order_rows_def order_desc_def)

lemma listed_without_author:
  "(f, u) \<in> set (fst (get_feedback_items key order_by direction 0 0 udb db)) \<longleftrightarrow> f \<in> set db \<and> u \<in> set (users udb) \<and> fb_user_id f = u_id u"
  by (auto simp: get_feedback_items_def some_page_def Let_def set_order_items with_authors_def)

end
