(* ===== verification/Scim.thy ===== *)
theory Scim
  imports Account_Handlers
begin

text \<open>
  \<^verbatim>\<open>routers/scim.py\<close>: provisioning of accounts and groups by an external directory (SCIM). What is left out is the
  description of the service, which is constant. The address of the server, the text of a time, the dialect, fresh
  ids and clocks stand in \<open>scim_env\<close>; \<open>sx_now i\<close> and \<open>sx_row i\<close> are the clock and the ids of new memberships at the
  \<open>i\<close>-th operation of a request. The text values of a patch are JSON; a value that is no text counts as refused by
  its column.
\<close>

datatype scim_refusal = Scim_unauthorized | Scim_forbidden | Scim_not_found | Scim_conflict | Scim_failed

type_synonym 'a scim_answer = "(scim_refusal + 'a) \<times> server_db"

record scim_env =
  sx_enabled :: bool
  sx_token :: "string option"
  sx_base :: string
  sx_iso :: "time \<Rightarrow> string"
  sx_esc :: "char option"
  sx_fk :: foreign_keys
  sx_id :: id
  sx_now :: "nat \<Rightarrow> time"
  sx_row :: "nat \<Rightarrow> id \<Rightarrow> id"

section \<open>Authentication\<close>

text \<open>\<open>s.split()\<close>\<close>

fun split_space :: "string \<Rightarrow> string \<Rightarrow> string list" where
  "split_space w [] = (if w = [] then [] else [w])"
| "split_space w (c # cs) =
     (if is_space c then (if w = [] then split_space [] cs else w # split_space [] cs) else split_space (w @ [c]) cs)"

definition get_scim_auth :: "scim_env \<Rightarrow> string option \<Rightarrow> scim_refusal + unit" where
  "get_scim_auth e authorization = (case authorization of
     None \<Rightarrow> Inl Scim_unauthorized
   | Some h \<Rightarrow>
       if h = [] then Inl Scim_unauthorized
       else (case split_space [] h of
         [scheme, token] \<Rightarrow>
           if lower scheme \<noteq> ''bearer'' then Inl Scim_unauthorized
           else if \<not> sx_enabled e then Inl Scim_forbidden
           else (case sx_token e of
             None \<Rightarrow> Inl Scim_unauthorized
           | Some t \<Rightarrow> if t = [] \<or> token \<noteq> t then Inl Scim_unauthorized else Inr ())
       | _ \<Rightarrow> Inl Scim_unauthorized))"

definition scim_guard :: "scim_env \<Rightarrow> string option \<Rightarrow> server_db \<Rightarrow> 'a scim_answer \<Rightarrow> 'a scim_answer" where
  "scim_guard e h s r = (case get_scim_auth e h of Inl x \<Rightarrow> (Inl x, s) | Inr _ \<Rightarrow> r)"

section \<open>Resources\<close>

record scim_ref =
  sr_value :: id
  sr_display :: string
  sr_ref :: string

record scim_user =
  sc_id :: id
  sc_user_name :: string
  sc_formatted :: string
  sc_given_name :: string
  sc_family_name :: string
  sc_display_name :: string
  sc_emails :: "string list"
  sc_active :: bool
  sc_photos :: "string list option"
  sc_groups :: "scim_ref list option"
  sc_created :: string
  sc_last_modified :: string
  sc_location :: string

record scim_group =
  sg_id :: id
  sg_display_name :: string
  sg_members :: "scim_ref list"
  sg_created :: string
  sg_last_modified :: string
  sg_location :: string

definition user_location :: "scim_env \<Rightarrow> id \<Rightarrow> string" where
  "user_location e i = sx_base e @ ''api/v1/scim/v2/Users/'' @ i"

definition group_location :: "scim_env \<Rightarrow> id \<Rightarrow> string" where
  "group_location e i = sx_base e @ ''api/v1/scim/v2/Groups/'' @ i"

text \<open>\<open>name.split(" ", 1)\<close>\<close>

definition given_name :: "string \<Rightarrow> string" where
  "given_name n = takeWhile (\<lambda>c. c \<noteq> CHR '' '') n"

definition family_name :: "string \<Rightarrow> string" where
  "family_name n = drop 1 (dropWhile (\<lambda>c. c \<noteq> CHR '' '') n)"

definition user_to_scim :: "scim_env \<Rightarrow> user \<Rightarrow> group_db \<Rightarrow> scim_user" where
  "user_to_scim e u gdb =
     (let gs = map (\<lambda>g. \<lparr>sr_value = grp_id g, sr_display = grp_name g, sr_ref = group_location e (grp_id g)\<rparr>)
                 (get_groups_by_member_id (u_id u) gdb)
      in \<lparr>sc_id = u_id u, sc_user_name = u_email u, sc_formatted = u_name u, sc_given_name = given_name (u_name u),
          sc_family_name = family_name (u_name u), sc_display_name = u_name u, sc_emails = [u_email u],
          sc_active = (u_role u \<noteq> ''pending''),
          sc_photos = (if u_profile_image_url u = [] then None else Some [u_profile_image_url u]),
          sc_groups = (if gs = [] then None else Some gs), sc_created = sx_iso e (u_created_at u),
          sc_last_modified = sx_iso e (u_updated_at u), sc_location = user_location e (u_id u)\<rparr>)"

text \<open>For a group without members there is no list to go through.\<close>

definition group_to_scim :: "scim_env \<Rightarrow> group \<Rightarrow> server_db \<Rightarrow> py_error + scim_group" where
  "group_to_scim e g s = (case get_group_user_ids_by_id (grp_id g) (s_groups s) of
     None \<Rightarrow> Inl TypeError
   | Some ids \<Rightarrow>
       Inr \<lparr>sg_id = grp_id g, sg_display_name = grp_name g,
            sg_members = List.map_filter (\<lambda>i. map_option (\<lambda>u. \<lparr>sr_value = u_id u, sr_display = u_name u, sr_ref = user_location e (u_id u)\<rparr>)
              (get_user_by_id i (s_users s))) ids,
            sg_created = sx_iso e (grp_created_at g), sg_last_modified = sx_iso e (grp_updated_at g),
            sg_location = group_location e (grp_id g)\<rparr>)"

definition as_scim :: "py_error + 'a \<Rightarrow> server_db \<Rightarrow> 'a scim_answer" where
  "as_scim r s = (case r of Inl e \<Rightarrow> (Inl Scim_failed, s) | Inr x \<Rightarrow> (Inr x, s))"

section \<open>Accounts\<close>

record scim_name =
  sn_formatted :: "string option"
  sn_family_name :: "string option"
  sn_given_name :: "string option"

definition text_or_empty :: "string option \<Rightarrow> string" where
  "text_or_empty v = (case v of None \<Rightarrow> [] | Some s \<Rightarrow> s)"

definition name_text :: "scim_name \<Rightarrow> string option" where
  "name_text n =
     (if text_or_empty (sn_formatted n) \<noteq> [] then sn_formatted n
      else if text_or_empty (sn_given_name n) \<noteq> [] \<or> text_or_empty (sn_family_name n) \<noteq> []
        then Some (strip (text_or_empty (sn_given_name n) @ '' '' @ text_or_empty (sn_family_name n)))
      else None)"

definition scim_role :: "bool \<Rightarrow> string" where
  "scim_role active = (if active then ''user'' else ''pending'')"

record scim_user_create =
  uc_user_name :: string
  uc_name :: "scim_name option"
  uc_display_name :: string
  uc_emails :: "string list"
  uc_active :: bool
  uc_photos :: "string list option"

record scim_user_update =
  up_user_name :: "string option"
  up_name :: "scim_name option"
  up_display_name :: "string option"
  up_emails :: "string list option"
  up_active :: "bool option"
  up_photos :: "string list option"

record patch_operation =
  po_op :: string
  po_path :: "string option"
  po_value :: json

text \<open>The page of accounts: \<open>startIndex\<close> and \<open>count\<close> are positive, which the route checks.\<close>

definition get_scim_users ::
  "scim_env \<Rightarrow> string option \<Rightarrow> nat \<Rightarrow> nat \<Rightarrow> string option \<Rightarrow> channel_db \<Rightarrow> server_db \<Rightarrow> (nat \<times> scim_user list) scim_answer" where
  "get_scim_users e h start cnt flt cdb s =
     scim_guard e h s
       (let listed = Users.get_users (sx_esc e) None (Some (start - 1)) (Some cnt) (s_groups s) cdb (s_users s);
            present = (\<lambda>us. map (\<lambda>u. user_to_scim e u (s_groups s)) us);
            f = text_or_empty flt
        in if sublist ''userName eq'' f then
             (case split_on (CHR 0x22) f of
                x # email # xs \<Rightarrow>
                  (case get_user_by_email email (s_users s) of
                     None \<Rightarrow> (Inr (0, []), s) | Some u \<Rightarrow> (Inr (1, present [u]), s))
              | _ \<Rightarrow> (Inl Scim_failed, s))
           else (Inr (snd listed, present (fst listed)), s))"

definition with_scim_user :: "scim_env \<Rightarrow> string option \<Rightarrow> id \<Rightarrow> server_db \<Rightarrow> (user \<Rightarrow> 'a scim_answer) \<Rightarrow> 'a scim_answer" where
  "with_scim_user e h uid s f =
     scim_guard e h s (case get_user_by_id uid (s_users s) of None \<Rightarrow> (Inl Scim_not_found, s) | Some u \<Rightarrow> f u)"

definition get_scim_user :: "scim_env \<Rightarrow> string option \<Rightarrow> id \<Rightarrow> server_db \<Rightarrow> scim_user scim_answer" where
  "get_scim_user e h uid s = with_scim_user e h uid s (\<lambda>u. (Inr (user_to_scim e u (s_groups s)), s))"

definition create_scim_user :: "scim_env \<Rightarrow> string option \<Rightarrow> scim_user_create \<Rightarrow> server_db \<Rightarrow> scim_user scim_answer" where
  "create_scim_user e h d s =
     scim_guard e h s
       (if get_user_by_email (uc_user_name d) (s_users s) \<noteq> None then (Inl Scim_conflict, s)
        else
          (let email = (case uc_emails d of [] \<Rightarrow> uc_user_name d | x # xs \<Rightarrow> x);
               name = (case uc_name d of None \<Rightarrow> uc_display_name d
                       | Some n \<Rightarrow> (case name_text n of None \<Rightarrow> uc_display_name d | Some t \<Rightarrow> t));
               picture = (case uc_photos d of Some (x # xs) \<Rightarrow> x | _ \<Rightarrow> ''/user.png'')
           in case insert_new_user (sx_id e) name email picture (scim_role (uc_active d)) None
                  (sx_now e 0) (sx_now e 0) (sx_now e 0) (s_users s) of
                (Inl x, udb) \<Rightarrow> (Inl Scim_failed, on_users udb s)
              | (Inr u, udb) \<Rightarrow> (Inr (user_to_scim e u (s_groups s)), on_users udb s)))"

definition write_scim_user :: "scim_env \<Rightarrow> id \<Rightarrow> user_change list \<Rightarrow> server_db \<Rightarrow> scim_user scim_answer" where
  "write_scim_user e uid changes s =
     (case update_user_by_id uid changes (s_users s) of
        (None, udb) \<Rightarrow> (Inl Scim_failed, on_users udb s)
      | (Some u, udb) \<Rightarrow> (Inr (user_to_scim e u (s_groups s)), on_users udb s))"

text \<open>The entries of \<open>update_data\<close> in the order they are set; a later entry of a column wins.\<close>

definition user_changes :: "scim_user_update \<Rightarrow> user_change list" where
  "user_changes d =
     (if text_or_empty (up_user_name d) \<noteq> [] then [SetEmail (text_or_empty (up_user_name d))] else []) @
     (if text_or_empty (up_display_name d) \<noteq> [] then [SetName (text_or_empty (up_display_name d))]
      else case up_name d of None \<Rightarrow> [] | Some n \<Rightarrow> (case name_text n of None \<Rightarrow> [] | Some t \<Rightarrow> [SetName t])) @
     (case up_emails d of Some (x # xs) \<Rightarrow> [SetEmail x] | _ \<Rightarrow> []) @
     (case up_active d of None \<Rightarrow> [] | Some b \<Rightarrow> [SetRole (scim_role b)]) @
     (case up_photos d of Some (x # xs) \<Rightarrow> [SetProfileImageUrl x] | _ \<Rightarrow> [])"

definition update_scim_user :: "scim_env \<Rightarrow> string option \<Rightarrow> id \<Rightarrow> scim_user_update \<Rightarrow> server_db \<Rightarrow> scim_user scim_answer" where
  "update_scim_user e h uid d s = with_scim_user e h uid s (\<lambda>u. write_scim_user e uid (user_changes d) s)"

definition patch_text :: "(string \<Rightarrow> user_change) \<Rightarrow> json \<Rightarrow> py_error + user_change list" where
  "patch_text f v = (case v of JStr s \<Rightarrow> Inr [f s] | _ \<Rightarrow> Inl TypeError)"

definition patch_change :: "patch_operation \<Rightarrow> py_error + user_change list" where
  "patch_change p =
     (if lower (po_op p) \<noteq> ''replace'' then Inr []
      else if po_path p = Some ''active'' then Inr [SetRole (scim_role (truthy (po_value p)))]
      else if po_path p = Some ''userName'' then patch_text SetEmail (po_value p)
      else if po_path p = Some ''displayName'' then patch_text SetName (po_value p)
      else if po_path p = Some ''emails[primary eq true].value'' then patch_text SetEmail (po_value p)
      else if po_path p = Some ''name.formatted'' then patch_text SetName (po_value p)
      else Inr [])"

definition patch_scim_user :: "scim_env \<Rightarrow> string option \<Rightarrow> id \<Rightarrow> patch_operation list \<Rightarrow> server_db \<Rightarrow> scim_user scim_answer" where
  "patch_scim_user e h uid ps s =
     with_scim_user e h uid s (\<lambda>u.
       case each patch_change ps of
         Inl x \<Rightarrow> (Inl Scim_failed, s)
       | Inr cs \<Rightarrow>
           if concat cs = [] then (Inr (user_to_scim e u (s_groups s)), s) else write_scim_user e uid (concat cs) s)"

definition delete_scim_user :: "scim_env \<Rightarrow> string option \<Rightarrow> id \<Rightarrow> server_db \<Rightarrow> unit scim_answer" where
  "delete_scim_user e h uid s =
     with_scim_user e h uid s (\<lambda>u.
       case delete_user_by_id (sx_fk e) (\<lambda>_. sx_now e 0) uid s of (ok, s1) \<Rightarrow> (if ok then Inr () else Inl Scim_failed, s1))"

section \<open>Groups\<close>

definition on_groups :: "group_db \<Rightarrow> server_db \<Rightarrow> server_db" where
  "on_groups gdb s = s\<lparr>s_groups := gdb\<rparr>"

definition get_scim_groups :: "scim_env \<Rightarrow> string option \<Rightarrow> nat \<Rightarrow> nat \<Rightarrow> server_db \<Rightarrow> (nat \<times> scim_group list) scim_answer" where
  "get_scim_groups e h start cnt s =
     scim_guard e h s
       (let gs = get_all_groups (s_groups s)
        in as_scim (and_then (each (\<lambda>g. group_to_scim e g s) (page (start - 1) cnt gs)) (\<lambda>rs. Inr (length gs, rs))) s)"

definition with_scim_group :: "scim_env \<Rightarrow> string option \<Rightarrow> id \<Rightarrow> server_db \<Rightarrow> (group \<Rightarrow> 'a scim_answer) \<Rightarrow> 'a scim_answer" where
  "with_scim_group e h gid s f =
     scim_guard e h s (case get_group_by_id gid (s_groups s) of None \<Rightarrow> (Inl Scim_not_found, s) | Some g \<Rightarrow> f g)"

definition get_scim_group :: "scim_env \<Rightarrow> string option \<Rightarrow> id \<Rightarrow> server_db \<Rightarrow> scim_group scim_answer" where
  "get_scim_group e h gid s = with_scim_group e h gid s (\<lambda>g. as_scim (group_to_scim e g s) s)"

definition named_form :: "string \<Rightarrow> string \<Rightarrow> group_form" where
  "named_form n d = \<lparr>gf_name = n, gf_description = d, gf_permissions = None, gf_data = None\<rparr>"

definition set_scim_members :: "scim_env \<Rightarrow> nat \<Rightarrow> id \<Rightarrow> id list \<Rightarrow> group_db \<Rightarrow> (py_error + unit) \<times> group_db" where
  "set_scim_members e i gid us gdb = set_group_user_ids_by_id (sx_fk e) (sx_now e i) gid (map (\<lambda>u. (sx_row e i u, u)) us) gdb"

definition create_scim_group :: "scim_env \<Rightarrow> string option \<Rightarrow> string \<Rightarrow> id list \<Rightarrow> server_db \<Rightarrow> scim_group scim_answer" where
  "create_scim_group e h name us s =
     scim_guard e h s
       (case get_super_admin_user (s_users s) of
          None \<Rightarrow> (Inl Scim_failed, s)
        | Some a \<Rightarrow>
            (case insert_new_group (sx_id e) (sx_now e 0) (sx_now e 0) (u_id a) (named_form name []) (s_groups s) of
               (None, gdb) \<Rightarrow> (Inl Scim_failed, on_groups gdb s)
             | (Some g, gdb) \<Rightarrow>
                 if us = [] then as_scim (group_to_scim e g (on_groups gdb s)) (on_groups gdb s)
                 else
                   (let gdb1 = snd (update_group_by_id (sx_now e 1) (grp_id g) (named_form (grp_name g) (grp_description g)) gdb)
                    in case set_scim_members e 2 (grp_id g) us gdb1 of
                         (Inl x, gdb2) \<Rightarrow> (Inl Scim_failed, on_groups gdb2 s)
                       | (Inr _, gdb2) \<Rightarrow>
                           (case get_group_by_id (grp_id g) gdb2 of
                              None \<Rightarrow> (Inl Scim_failed, on_groups gdb2 s)
                            | Some g2 \<Rightarrow> as_scim (group_to_scim e g2 (on_groups gdb2 s)) (on_groups gdb2 s)))))"

definition write_scim_group :: "scim_env \<Rightarrow> nat \<Rightarrow> id \<Rightarrow> string \<Rightarrow> string \<Rightarrow> server_db \<Rightarrow> scim_group scim_answer" where
  "write_scim_group e i gid name description s =
     (case update_group_by_id (sx_now e i) gid (named_form name description) (s_groups s) of
        (None, gdb) \<Rightarrow> (Inl Scim_failed, on_groups gdb s)
      | (Some g, gdb) \<Rightarrow> as_scim (group_to_scim e g (on_groups gdb s)) (on_groups gdb s))"

definition update_scim_group ::
  "scim_env \<Rightarrow> string option \<Rightarrow> id \<Rightarrow> string option \<Rightarrow> id list option \<Rightarrow> server_db \<Rightarrow> scim_group scim_answer" where
  "update_scim_group e h gid name us s =
     with_scim_group e h gid s (\<lambda>g.
       let n = (if text_or_empty name \<noteq> [] then text_or_empty name else grp_name g)
       in case (case us of None \<Rightarrow> (Inr (), s_groups s) | Some ids \<Rightarrow> set_scim_members e 0 gid ids (s_groups s)) of
            (Inl x, gdb) \<Rightarrow> (Inl Scim_failed, on_groups gdb s)
          | (Inr _, gdb) \<Rightarrow> write_scim_group e 1 gid n (grp_description g) (on_groups gdb s))"

text \<open>\<open>[member["value"] for member in value]\<close>\<close>

definition member_value :: "json \<Rightarrow> py_error + id" where
  "member_value m = (case m of
     JDict d \<Rightarrow> (case dget d ''value'' of None \<Rightarrow> Inl KeyError | Some (JStr s) \<Rightarrow> Inr s | Some _ \<Rightarrow> Inl TypeError)
   | _ \<Rightarrow> Inl TypeError)"

definition member_values :: "json \<Rightarrow> py_error + id list" where
  "member_values v = (case v of
     JList ms \<Rightarrow> each member_value ms | JStr [] \<Rightarrow> Inr [] | JDict [] \<Rightarrow> Inr [] | _ \<Rightarrow> Inl TypeError)"

text \<open>Adding goes member by member and skips what is no member.\<close>

fun add_scim_members :: "scim_env \<Rightarrow> nat \<Rightarrow> id \<Rightarrow> json list \<Rightarrow> group_db \<Rightarrow> (py_error + unit) \<times> group_db" where
  "add_scim_members e i gid [] gdb = (Inr (), gdb)"
| "add_scim_members e i gid (JDict d # ms) gdb =
     (case dget d ''value'' of
        None \<Rightarrow> add_scim_members e i gid ms gdb
      | Some (JStr u) \<Rightarrow> add_scim_members e i gid ms (snd (add_users_to_group (sx_fk e) (sx_now e i) gid (Some [(sx_row e i u, u)]) gdb))
      | Some _ \<Rightarrow> (Inl TypeError, gdb))"
| "add_scim_members e i gid (m # ms) gdb = add_scim_members e i gid ms gdb"

definition patch_step ::
  "scim_env \<Rightarrow> nat \<Rightarrow> id \<Rightarrow> patch_operation \<Rightarrow> json \<times> group_db \<Rightarrow> (py_error + unit) \<times> json \<times> group_db" where
  "patch_step e i gid p st =
     (case st of (name, gdb) \<Rightarrow>
        if lower (po_op p) = ''replace'' then
          (if po_path p = Some ''displayName'' then (Inr (), po_value p, gdb)
           else if po_path p = Some ''members'' then
             (case member_values (po_value p) of
                Inl x \<Rightarrow> (Inl x, name, gdb)
              | Inr us \<Rightarrow> (let (r, gdb') = set_scim_members e i gid us gdb in (r, name, gdb')))
           else (Inr (), name, gdb))
        else if lower (po_op p) = ''add'' then
          (case (po_path p, po_value p) of
             (Some path, JList ms) \<Rightarrow>
               if path = ''members'' then (let (r, gdb') = add_scim_members e i gid ms gdb in (r, name, gdb')) else (Inr (), name, gdb)
           | _ \<Rightarrow> (Inr (), name, gdb))
        else if lower (po_op p) = ''remove'' then
          (case po_path p of
             None \<Rightarrow> (Inr (), name, gdb)
           | Some path \<Rightarrow>
               if startswith path ''members[value eq'' then
                 (case split_on (CHR 0x22) path of
                    x # u # xs \<Rightarrow> (Inr (), name, snd (remove_users_from_group (sx_now e i) gid (Some [u]) gdb))
                  | _ \<Rightarrow> (Inl IndexError, name, gdb))
               else (Inr (), name, gdb))
        else (Inr (), name, gdb))"

fun patch_steps ::
  "scim_env \<Rightarrow> nat \<Rightarrow> id \<Rightarrow> patch_operation list \<Rightarrow> json \<times> group_db \<Rightarrow> (py_error + unit) \<times> json \<times> group_db" where
  "patch_steps e i gid [] st = (Inr (), st)"
| "patch_steps e i gid (p # ps) st = (case patch_step e i gid p st of
     (Inl x, st') \<Rightarrow> (Inl x, st') | (Inr _, st') \<Rightarrow> patch_steps e (Suc i) gid ps st')"

definition patch_scim_group :: "scim_env \<Rightarrow> string option \<Rightarrow> id \<Rightarrow> patch_operation list \<Rightarrow> server_db \<Rightarrow> scim_group scim_answer" where
  "patch_scim_group e h gid ps s =
     with_scim_group e h gid s (\<lambda>g.
       case patch_steps e 0 gid ps (JStr (grp_name g), s_groups s) of
         (Inl x, name, gdb) \<Rightarrow> (Inl Scim_failed, on_groups gdb s)
       | (Inr _, name, gdb) \<Rightarrow>
           (case name of
              JStr n \<Rightarrow> write_scim_group e (length ps) gid n (grp_description g) (on_groups gdb s)
            | _ \<Rightarrow> (Inl Scim_failed, on_groups gdb s)))"

definition delete_scim_group :: "scim_env \<Rightarrow> string option \<Rightarrow> id \<Rightarrow> server_db \<Rightarrow> unit scim_answer" where
  "delete_scim_group e h gid s =
     with_scim_group e h gid s (\<lambda>g.
       case delete_group_by_id (sx_fk e) gid (s_groups s) of
         (ok, gdb) \<Rightarrow> (if ok then Inr () else Inl Scim_failed, on_groups gdb s))"

section \<open>Who may provision\<close>

datatype scim_request =
    Scim_create scim_user_create
  | Scim_update id scim_user_update
  | Scim_patch id "patch_operation list"
  | Scim_delete id
  | Scim_create_group string "id list"
  | Scim_update_group id "string option" "id list option"
  | Scim_patch_group id "patch_operation list"
  | Scim_delete_group id

fun scim_run :: "scim_env \<Rightarrow> string option \<Rightarrow> scim_request \<Rightarrow> server_db \<Rightarrow> server_db" where
  "scim_run e h (Scim_create d) s = snd (create_scim_user e h d s)"
| "scim_run e h (Scim_update i d) s = snd (update_scim_user e h i d s)"
| "scim_run e h (Scim_patch i ps) s = snd (patch_scim_user e h i ps s)"
| "scim_run e h (Scim_delete i) s = snd (delete_scim_user e h i s)"
| "scim_run e h (Scim_create_group n us) s = snd (create_scim_group e h n us s)"
| "scim_run e h (Scim_update_group i n us) s = snd (update_scim_group e h i n us s)"
| "scim_run e h (Scim_patch_group i ps) s = snd (patch_scim_group e h i ps s)"
| "scim_run e h (Scim_delete_group i) s = snd (delete_scim_group e h i s)"

lemma split_space_word: "list_all (\<lambda>c. \<not> is_space c) t \<Longrightarrow> w @ t \<noteq> [] \<Longrightarrow> split_space w t = [w @ t]"
  by (induction t arbitrary: w) auto

lemma bearer_accepted:
  assumes "t \<noteq> []" "list_all (\<lambda>c. \<not> is_space c) t"
  shows "get_scim_auth e (Some (''Bearer '' @ t)) = Inr () \<longleftrightarrow> sx_enabled e \<and> sx_token e = Some t"
proof -
  have "split_space [] (''Bearer '' @ t) = [''Bearer'', t]"
    using split_space_word[OF assms(2), of "[]"] assms(1) by (simp add: is_space_def)
  moreover have "lower ''Bearer'' = ''bearer''" by code_simp
  ultimately show ?thesis using assms(1) by (simp add: get_scim_auth_def split: option.splits)
qed

text \<open>Without the token of the directory no request changes anything.\<close>

lemma scim_closed: "get_scim_auth e h = Inl x \<Longrightarrow> scim_run e h q s = s"
  by (cases q) (simp_all add: create_scim_user_def update_scim_user_def patch_scim_user_def delete_scim_user_def
      create_scim_group_def update_scim_group_def patch_scim_group_def delete_scim_group_def with_scim_user_def
      with_scim_group_def scim_guard_def)

section \<open>Members of a group\<close>

lemma add_members_all:
  assumes "distinct us" "inj row" "range row \<inter> gm_id ` set (group_members db) = {}" "has_group gid db"
    and "list_all (\<lambda>u. \<not> is_member db gid u) us" "case fk of None \<Rightarrow> True | Some known \<Rightarrow> list_all known us"
  shows "add_members fk gid now (map (\<lambda>u. (row u, u)) us) db =
    Some (db\<lparr>group_members := group_members db @ map (\<lambda>u. new_member (row u) gid u now) us\<rparr>)"
proof -
  have "add_members fk gid now (map (\<lambda>u. (row u, u)) vs) (db\<lparr>group_members := group_members db @ map (\<lambda>u. new_member (row u) gid u now) ws\<rparr>) =
      Some (db\<lparr>group_members := group_members db @ map (\<lambda>u. new_member (row u) gid u now) (ws @ vs)\<rparr>)"
    if "us = ws @ vs" for ws vs
    using that
  proof (induction vs arbitrary: ws)
    case (Cons v vs)
    let ?db = "db\<lparr>group_members := group_members db @ map (\<lambda>u. new_member (row u) gid u now) ws\<rparr>"
    have v: "v \<notin> set ws" "\<not> is_member db gid v" using assms(1,5) Cons.prems by (auto simp: list_all_iff)
    have "row v \<notin> gm_id ` set (group_members ?db)"
      using assms(2,3) v(1) by (auto simp: new_member_def inj_eq image_iff)
    moreover have "(gid, v) \<notin> member_key ` set (group_members ?db)"
    proof -
      have "member_key ` set (group_members ?db) = member_key ` set (group_members db) \<union> Pair gid ` set ws"
        by (simp add: image_Un image_image member_key_def new_member_def)
      then show ?thesis using v by (auto simp: member_key_def is_member_def list_ex_iff)
    qed
    moreover have "has_group gid ?db" using assms(4) by (simp add: has_group_def)
    ultimately have "add_member fk (new_member (row v) gid v now) ?db =
        Some (db\<lparr>group_members := group_members db @ map (\<lambda>u. new_member (row u) gid u now) (ws @ [v])\<rparr>)"
      using assms(6) Cons.prems by (auto simp: add_member_def member_key_def new_member_def split: option.splits)
    then show ?case using Cons.IH[of "ws @ [v]"] Cons.prems by simp
  qed simp
  from this[of "[]" us] show ?thesis by simp
qed

text \<open>
  C28: A directory that puts a group with a list of members gets exactly these members: whoever is on the list is a
  member afterwards and nobody else, and no other group changes its members.
\<close>

theorem scim_members_exact:
  assumes "get_scim_auth e h = Inr ()" "get_group_by_id gid (s_groups s) = Some g"
    and "distinct us" "us \<noteq> []" "inj (sx_row e 0)" "range (sx_row e 0) \<inter> gm_id ` set (group_members (s_groups s)) = {}"
    and "case sx_fk e of None \<Rightarrow> True | Some known \<Rightarrow> list_all known us"
  shows "\<exists>r s'. update_scim_group e h gid name (Some us) s = (Inr r, s') \<and>
    is_member (s_groups s') k v = (if k = gid then v \<in> set us else is_member (s_groups s) k v) \<and>
    map sr_value (sg_members r) = filter (\<lambda>u. get_user_by_id u (s_users s) \<noteq> None) us"
proof -
  let ?gdb = "s_groups s"
  let ?db1 = "?gdb\<lparr>group_members := del_rows (\<lambda>m. gm_group_id m = gid) (group_members ?gdb)\<rparr>"
  let ?ms = "map (\<lambda>u. new_member (sx_row e 0 u) gid u (sx_now e 0)) us"
  let ?db2 = "?gdb\<lparr>group_members := del_rows (\<lambda>m. gm_group_id m = gid) (group_members ?gdb) @ ?ms\<rparr>"
  have g: "g \<in> set (groups ?gdb)" "grp_id g = gid" using assms(2) row_get_SomeD by (fastforce simp: get_group_by_id_def)+
  then have hg: "has_group gid ?db1" by (force simp: has_group_def)
  have m: "set_scim_members e 0 gid us ?gdb = (Inr (), ?db2)"
  proof -
    have "add_members (sx_fk e) gid (sx_now e 0) (map (\<lambda>u. (sx_row e 0 u, u)) us) ?db1 = Some ?db2"
      by (subst add_members_all[OF assms(3,5) _ hg _ assms(7)])
        (use assms(6) in \<open>auto simp: is_member_def list_all_iff list_ex_iff\<close>)
    then show ?thesis by (simp add: set_scim_members_def set_group_user_ids_by_id_def Let_def)
  qed
  define n where "n = (if text_or_empty name \<noteq> [] then text_or_empty name else grp_name g)"
  obtain g' db3 where u: "update_group_by_id (sx_now e 1) gid (named_form n (grp_description g)) ?db2 = (Some g', db3)"
      "grp_id g' = gid" "group_members db3 = group_members ?db2"
  proof -
    let ?f = "\<lambda>g0. g0\<lparr>grp_name := n, grp_description := grp_description g, grp_updated_at := sx_now e 1\<rparr>"
    have "update_group_by_id (sx_now e 1) gid (named_form n (grp_description g)) ?db2 =
        (map_option ?f (get_group_by_id gid ?db2), ?db2\<lparr>groups := upd_rows (\<lambda>g. grp_id g = gid) ?f (groups ?db2)\<rparr>)"
      using assms(2) g(2) by (simp add: update_group_by_id_def named_form_def Let_def get_group_by_id_def row_get_upd)
    then show thesis using that assms(2) g(2) by (simp add: get_group_by_id_def)
  qed
  have ids: "get_group_user_ids_by_id gid db3 = Some us"
  proof -
    have "all_rows (\<lambda>m. gm_group_id m = gid) (group_members db3) = ?ms"
      by (simp add: u(3) all_rows_def del_rows_def filter_map comp_def new_member_def)
    then show ?thesis using assms(4) by (simp add: get_group_user_ids_by_id_def Let_def new_member_def comp_def)
  qed
  have v: "map sr_value (List.map_filter (\<lambda>i. map_option (\<lambda>u. \<lparr>sr_value = u_id u, sr_display = u_name u, sr_ref = user_location e (u_id u)\<rparr>)
      (get_user_by_id i (s_users s))) us) = filter (\<lambda>u. get_user_by_id u (s_users s) \<noteq> None) us"
    by (induction us) (auto simp: get_user_by_id_def dest: row_get_SomeD split: option.splits)
  have "is_member db3 k v = (if k = gid then v \<in> set us else is_member ?gdb k v)"
  proof -
    have "member_key ` set (group_members db3) =
        {p \<in> member_key ` set (group_members ?gdb). fst p \<noteq> gid} \<union> Pair gid ` set us"
      unfolding u(3) by (auto simp: image_Un image_image member_key_def new_member_def image_iff)
    then show ?thesis by (auto simp: is_member_iff)
  qed
  then show ?thesis
    using assms(1,2) v
    by (simp add: update_scim_group_def with_scim_group_def scim_guard_def n_def[symmetric] m write_scim_group_def on_groups_def u(2,3) u(1)[unfolded One_nat_def] ids group_to_scim_def as_scim_def)
qed

definition demo_scim :: scim_env where
  "demo_scim = \<lparr>sx_enabled = True, sx_token = Some ''tok'', sx_base = ''http://x/'', sx_iso = int_str, sx_esc = None, sx_fk = None,
     sx_id = ''new'', sx_now = (\<lambda>_. 50), sx_row = (\<lambda>_ u. ''m-'' @ u)\<rparr>"

definition demo_server :: server_db where
  "demo_server = \<lparr>s_users = sample_users, s_groups = sample_groups, s_chats = sample_chats\<rparr>"

lemma scim_members_exact_witness:
  "\<exists>r s'. update_scim_group demo_scim (Some ''Bearer tok'') (grp_id staff) None (Some [''lee'']) demo_server = (Inr r, s') \<and>
     is_member (s_groups s') (grp_id staff) ''lee'' \<and> map sr_value (sg_members r) = [''lee'']"
proof -
  have h: "get_scim_auth demo_scim (Some ''Bearer tok'') = Inr ()"
      "get_group_by_id (grp_id staff) (s_groups demo_server) = Some staff"
      "get_user_by_id ''lee'' (s_users demo_server) \<noteq> None"
      "distinct [''lee'']" "[''lee''] \<noteq> []"
      "case sx_fk demo_scim of None \<Rightarrow> True | Some known \<Rightarrow> list_all known [''lee'']"
    by code_simp+
  have i: "inj (sx_row demo_scim 0)" by (simp add: demo_scim_def inj_def)
  have f: "range (sx_row demo_scim 0) \<inter> gm_id ` set (group_members (s_groups demo_server)) = {}"
    by (auto simp: demo_scim_def demo_server_def sample_groups_def new_member_def)
  show ?thesis using scim_members_exact[OF h(1,2,4,5) i f h(6), of None "grp_id staff" "''lee''"] h(3) by simp
qed

section \<open>Where provisioning goes wrong\<close>

lemma set_column_key: "u_id (set_column c x) = u_id x"
  by (cases c) simp_all

text \<open>An account the directory reports as active becomes an ordinary user, an administrator too.\<close>

lemma active_demotes_admin:
  assumes "get_scim_auth e h = Inr ()" "get_user_by_id uid (s_users s) = Some u" "up_active d = Some True"
  shows "\<exists>u'. get_user_by_id uid (s_users (snd (update_scim_user e h uid d s))) = Some u' \<and> u_role u' = ''user''"
proof -
  have role: "u_role (fold set_column (cs @ [SetRole r] @ ps) x) = r" if "\<forall>c \<in> set ps. \<exists>p. c = SetProfileImageUrl p" for cs r ps x
    using that by (induction ps arbitrary: r rule: rev_induct) auto
  define ps where "ps = (case up_photos d of Some (x # xs) \<Rightarrow> [SetProfileImageUrl x] | _ \<Rightarrow> [])"
  obtain cs where "user_changes d = cs @ [SetRole ''user''] @ ps"
    using that by (simp add: user_changes_def assms(3) scim_role_def ps_def)
  moreover have "\<forall>c \<in> set ps. \<exists>p. c = SetProfileImageUrl p" by (auto simp: ps_def split: option.splits list.splits)
  ultimately have c: "user_changes d = cs @ [SetRole ''user''] @ ps" "\<forall>c \<in> set ps. \<exists>p. c = SetProfileImageUrl p" by blast+
  have key: "u_id (fold set_column xs x) = u_id x" for xs x
    by (induction xs arbitrary: x) (simp_all add: set_column_key)
  have "get_user_by_id uid (snd (update_user_by_id uid (user_changes d) (s_users s))) = Some (fold set_column (user_changes d) u)"
    using assms(2) c(1) row_get_SomeD[of u_id uid "users (s_users s)" u]
    by (simp add: update_user_by_id_def update_user_where_def Let_def get_user_by_id_def row_get_upd key)
  then show ?thesis
    using assms(1,2) role[OF c(2)] c(1)
    by (auto simp: update_scim_user_def with_scim_user_def scim_guard_def write_scim_user_def split: prod.splits option.splits)
qed

text \<open>A patch with the text \<open>False\<close>, which directories send, activates the account.\<close>

lemma text_false_activates:
  "lower op = ''replace'' \<Longrightarrow>
     patch_change \<lparr>po_op = op, po_path = Some ''active'', po_value = JStr ''False''\<rparr> = Inr [SetRole ''user'']"
  by (simp add: patch_change_def scim_role_def)

text \<open>A group without members cannot be presented: creating one fails after it is stored, and every page with it fails.\<close>

lemma empty_group_fails:
  assumes "get_scim_auth e h = Inr ()" "get_super_admin_user (s_users s) = Some a" "\<not> has_group (sx_id e) (s_groups s)"
    and "list_all (\<lambda>m. gm_group_id m \<noteq> sx_id e) (group_members (s_groups s))"
  shows "fst (create_scim_group e h name [] s) = Inl Scim_failed"
    and "has_group (sx_id e) (s_groups (snd (create_scim_group e h name [] s)))"
  using assms
  by (auto simp: create_scim_group_def scim_guard_def insert_new_group_def add_row_def has_group_def Let_def group_to_scim_def
      get_group_user_ids_by_id_def on_groups_def as_scim_def list_all_iff all_rows_def)

lemma page_with_empty_group_fails:
  assumes "g \<in> set (page (start - 1) cnt (get_all_groups (s_groups s)))" "get_group_user_ids_by_id (grp_id g) (s_groups s) = None"
    "get_scim_auth e h = Inr ()"
  shows "get_scim_groups e h start cnt s = (Inl Scim_failed, s)"
proof -
  have "\<exists>x. each (\<lambda>g. group_to_scim e g s) gs = Inl x" if "g \<in> set gs" for gs
    using that assms(2) by (induction gs) (auto simp: group_to_scim_def and_then_Inl_iff split: option.splits)
  from this[OF assms(1)] show ?thesis using assms(3) by (auto simp: get_scim_groups_def scim_guard_def as_scim_def)
qed

text \<open>Whether an address is taken is asked of the user name, but the first address of the list is stored.\<close>

lemma address_taken_twice:
  assumes "get_scim_auth e h = Inr ()" "get_user_by_email (uc_user_name d) (s_users s) = None" "uc_emails d = x # xs"
    "get_user_by_email x (s_users s) = Some u" "sx_id e \<notin> u_id ` set (users (s_users s))"
  shows "\<exists>v s'. create_scim_user e h d s = (Inr v, s') \<and> sc_user_name v = u_email u \<and> users (s_users s') \<noteq> users (s_users s)"
  using assms first_row_SomeD[of "\<lambda>u. u_email u = x" "users (s_users s)" u]
  by (simp add: create_scim_user_def scim_guard_def Let_def insert_new_user_def add_row_def user_to_scim_def new_user_def get_user_by_email_def)

text \<open>An account removed by the directory leaves its password behind.\<close>

lemma credentials_outlive_account:
  "auths (s_users (snd (delete_scim_user e h uid s))) = auths (s_users s)"
  by (auto simp: delete_scim_user_def with_scim_user_def scim_guard_def delete_user_by_id_def drop_user_row_def Let_def split: sum.splits option.splits prod.splits)

end
