(* ===== verification/Model_List.thy ===== *)
theory Model_List
  imports Model_Handlers Plugins
begin

text \<open>
  \<^verbatim>\<open>utils/models.py\<close>: the list of models a server offers, put together from what the connected services and the
  functions report and the rows of the workspace, and who may use which. A model is a dictionary. What the services
  report, the modules of functions and the order Python lists a set in are arguments.
\<close>

text \<open>What the list takes from a module: its actions, its icons, whether it is toggled and has valves of users.\<close>

record module_info =
  ml_actions :: "dict list option"
  ml_icon_url :: json
  ml_icon :: json
  ml_toggle :: bool
  ml_user_valves :: bool

record model_sources =
  ms_functions :: "dict list"
  ms_openai :: "py_error + dict list"
  ms_ollama :: "py_error + dict list"
  ms_now :: time
  ms_module :: "id \<Rightarrow> py_error + module_info"
  ms_listed :: "id list \<Rightarrow> id list"

record model_config =
  mc_openai :: bool
  mc_ollama :: bool
  mc_cache :: bool
  mc_arena :: bool
  mc_arena_models :: "dict list"
  mc_default_arena :: dict

record model_cache =
  mh_models :: "(json \<times> dict) list"
  mh_base :: "dict list"

section \<open>Base models\<close>

text \<open>\<open>d[k]\<close>\<close>

definition item :: "dict \<Rightarrow> string \<Rightarrow> py_error + json" where
  "item d k = (case dget d k of None \<Rightarrow> Inl KeyError | Some v \<Rightarrow> Inr v)"

definition ollama_entry :: "time \<Rightarrow> dict \<Rightarrow> py_error + dict" where
  "ollama_entry now m =
     and_then (item m ''model'') (\<lambda>i. and_then (item m ''name'') (\<lambda>n.
       Inr [(''id'', i), (''name'', n), (''object'', JStr ''model''), (''created'', JInt now), (''owned_by'', JStr ''ollama''),
            (''ollama'', JDict m), (''connection_type'', dget_or m ''connection_type'' (JStr ''local'')),
            (''tags'', dget_or m ''tags'' (JList []))]))"

definition get_all_base_models :: "model_sources \<Rightarrow> model_config \<Rightarrow> py_error + dict list" where
  "get_all_base_models e c =
     and_then (if mc_openai c then ms_openai e else Inr []) (\<lambda>openai.
     and_then (if mc_ollama c then and_then (ms_ollama e) (each (ollama_entry (ms_now e))) else Inr []) (\<lambda>ollama.
       Inr (ms_functions e @ openai @ ollama)))"

definition arena_entry :: "time \<Rightarrow> dict \<Rightarrow> py_error + dict" where
  "arena_entry now m =
     and_then (item m ''id'') (\<lambda>i. and_then (item m ''name'') (\<lambda>n. and_then (item m ''meta'') (\<lambda>meta.
       Inr [(''id'', i), (''name'', n), (''info'', JDict [(''meta'', meta)]), (''object'', JStr ''model''),
            (''created'', JInt now), (''owned_by'', JStr ''arena''), (''arena'', JBool True)])))"

definition arena_entries :: "time \<Rightarrow> model_config \<Rightarrow> py_error + dict list" where
  "arena_entries now c =
     (if \<not> mc_arena c then Inr []
      else each (arena_entry now) (if mc_arena_models c = [] then [mc_default_arena c] else mc_arena_models c))"

section \<open>Rows of the workspace\<close>

text \<open>\<open>[].extend(meta.get(k, []))\<close>: a text gives its characters, a dictionary its keys.\<close>

definition ids_in :: "dict \<Rightarrow> string \<Rightarrow> py_error + json list" where
  "ids_in meta k = (case dget_or meta k (JList []) of
     JList xs \<Rightarrow> Inr xs
   | JStr s \<Rightarrow> Inr (map (\<lambda>c. JStr [c]) s)
   | JDict d \<Rightarrow> Inr (map (\<lambda>(k, v). JStr k) d)
   | _ \<Rightarrow> Inl TypeError)"

text \<open>The row as it is put into a model: without its parameters.\<close>

definition row_info :: "model_row \<Rightarrow> dict" where
  "row_info x = dpop ''params'' (model_dict x)"

definition before_colon :: "json \<Rightarrow> py_error + json" where
  "before_colon i = (case i of JStr s \<Rightarrow> Inr (JStr (hd (split_on CHR '':'' s))) | _ \<Rightarrow> Inl AttributeError)"

text \<open>A row names a model by its id, one of Ollama also by the part of the id before the colon.\<close>

definition names_model :: "model_row \<Rightarrow> dict \<Rightarrow> py_error + bool" where
  "names_model x m =
     and_then (item m ''id'') (\<lambda>i.
       if JStr (md_id x) = i then Inr True
       else if dget m ''owned_by'' = Some (JStr ''ollama'') then and_then (before_colon i) (\<lambda>b. Inr (JStr (md_id x) = b))
       else Inr False)"

definition overlaid :: "model_row \<Rightarrow> dict \<Rightarrow> py_error + dict" where
  "overlaid x m =
     and_then (ids_in (md_meta x) ''actionIds'') (\<lambda>as. and_then (ids_in (md_meta x) ''filterIds'') (\<lambda>fs.
       Inr (dset ''filter_ids'' (JList fs) (dset ''action_ids'' (JList as)
         (dset ''info'' (JDict (row_info x)) (dset ''name'' (JStr (md_name x)) m))))))"

text \<open>
  The loop runs over the positions of the list it changes: removing a model moves the next one to the position that
  is done.
\<close>

function overlay :: "model_row \<Rightarrow> nat \<Rightarrow> dict list \<Rightarrow> py_error + dict list" where
  "overlay x i ms =
     (if i \<ge> length ms then Inr ms
      else and_then (names_model x (ms ! i)) (\<lambda>b.
        if \<not> b then overlay x (Suc i) ms
        else if md_is_active x then and_then (overlaid x (ms ! i)) (\<lambda>m. overlay x (Suc i) (ms[i := m]))
        else overlay x (Suc i) (remove1 (ms ! i) ms)))"
  by pat_completeness auto
termination
  by (relation "measure (\<lambda>(x, i, ms). length ms - i)") (auto simp: length_remove1)

declare overlay.simps [simp del]

text \<open>The first model a row is based on.\<close>

fun base_of :: "id \<Rightarrow> dict list \<Rightarrow> py_error + dict option" where
  "base_of b [] = Inr None"
| "base_of b (m # ms) =
     and_then (item m ''id'') (\<lambda>i.
       if JStr b = i then Inr (Some m)
       else and_then (before_colon i) (\<lambda>p. if JStr b = p then Inr (Some m) else base_of b ms))"

definition preset_model :: "model_row \<Rightarrow> dict option \<Rightarrow> py_error + dict" where
  "preset_model x base =
     and_then (ids_in (md_meta x) ''actionIds'') (\<lambda>as. and_then (ids_in (md_meta x) ''filterIds'') (\<lambda>fs.
       Inr ([(''id'', JStr (md_id x)), (''name'', JStr (md_name x)), (''object'', JStr ''model''), (''created'', JInt (md_created_at x)),
             (''owned_by'', case base of None \<Rightarrow> JStr ''openai'' | Some m \<Rightarrow> dget_or m ''owned_by'' (JStr ''unknown'')),
             (''connection_type'', case base of None \<Rightarrow> JNull | Some m \<Rightarrow> dget_or m ''connection_type'' JNull),
             (''preset'', JBool True)] @
            (case base of None \<Rightarrow> []
             | Some m \<Rightarrow> (case dget m ''pipe'' of None \<Rightarrow> [] | Some JNull \<Rightarrow> [] | Some p \<Rightarrow> [(''pipe'', p)])) @
            [(''info'', JDict (row_info x)), (''action_ids'', JList as), (''filter_ids'', JList fs)])))"

definition add_row_model :: "model_row \<Rightarrow> dict list \<Rightarrow> py_error + dict list" where
  "add_row_model x ms = (case md_base_model_id x of
     None \<Rightarrow> overlay x 0 ms
   | Some b \<Rightarrow>
       if \<not> md_is_active x then Inr ms
       else and_then (each (\<lambda>m. item m ''id'') ms) (\<lambda>is.
         if JStr (md_id x) \<in> set is then Inr ms
         else and_then (base_of b ms) (\<lambda>base. and_then (preset_model x base) (\<lambda>m. Inr (ms @ [m])))))"

fun add_row_models :: "model_row list \<Rightarrow> dict list \<Rightarrow> py_error + dict list" where
  "add_row_models [] ms = Inr ms"
| "add_row_models (x # xs) ms = and_then (add_row_model x ms) (add_row_models xs)"

section \<open>Actions and filters\<close>

text \<open>\<open>a or b or c\<close>\<close>

definition first_truthy :: "json \<Rightarrow> json \<Rightarrow> json \<Rightarrow> json" where
  "first_truthy a b c = (if truthy a then a else if truthy b then b else c)"

definition manifest_icon :: "func \<Rightarrow> module_info \<Rightarrow> py_error + json" where
  "manifest_icon f m = (case dget_or (fn_meta f) ''manifest'' (JDict []) of
     JDict d \<Rightarrow> Inr (first_truthy (dget_or d ''icon_url'' JNull) (ml_icon_url m) (ml_icon m))
   | _ \<Rightarrow> Inl AttributeError)"

definition get_action_items_from_module :: "func \<Rightarrow> module_info \<Rightarrow> py_error + json list" where
  "get_action_items_from_module f m = (case ml_actions m of
     Some acts \<Rightarrow>
       each (\<lambda>a. and_then (item a ''id'') (\<lambda>i. and_then (manifest_icon f m) (\<lambda>icon.
         Inr (JDict [(''id'', JStr (fn_id f @ ''.'' @ py_str i)),
           (''name'', dget_or a ''name'' (JStr (fn_name f @ '' ('' @ py_str i @ '')''))),
           (''description'', dget_or (fn_meta f) ''description'' JNull), (''icon'', dget_or a ''icon_url'' icon)])))) acts
   | None \<Rightarrow>
       and_then (manifest_icon f m) (\<lambda>icon.
         Inr [JDict [(''id'', JStr (fn_id f)), (''name'', JStr (fn_name f)),
           (''description'', dget_or (fn_meta f) ''description'' JNull), (''icon'', icon)]]))"

definition get_filter_items_from_module :: "func \<Rightarrow> module_info \<Rightarrow> py_error + json list" where
  "get_filter_items_from_module f m =
     and_then (manifest_icon f m) (\<lambda>icon.
       Inr [JDict [(''id'', JStr (fn_id f)), (''name'', JStr (fn_name f)),
         (''description'', dget_or (fn_meta f) ''description'' JNull), (''icon'', icon), (''has_user_valves'', JBool (ml_user_valves m))]])"

text \<open>\<open>list(set(model.pop(k, []) + ids))\<close>, as far as enabled: values that are no texts are never enabled, lists and
  dictionaries no members of a set.\<close>

definition can_be_member :: "json \<Rightarrow> bool" where
  "can_be_member v = (case v of JList _ \<Rightarrow> False | JDict _ \<Rightarrow> False | _ \<Rightarrow> True)"

definition text_of :: "json \<Rightarrow> string option" where
  "text_of v = (case v of JStr s \<Rightarrow> Some s | _ \<Rightarrow> None)"

definition enabled_ids :: "model_sources \<Rightarrow> string \<Rightarrow> id list \<Rightarrow> id list \<Rightarrow> dict \<Rightarrow> py_error + id list" where
  "enabled_ids e k globals enabled m = (case dget_or m k (JList []) of
     JList vs \<Rightarrow>
       if list_all can_be_member vs
       then Inr (filter (\<lambda>i. i \<in> set enabled) (ms_listed e (List.map_filter text_of vs @ globals)))
       else Inl TypeError
   | _ \<Rightarrow> Inl TypeError)"

definition items_of ::
  "model_sources \<Rightarrow> func list \<Rightarrow> (func \<Rightarrow> module_info \<Rightarrow> py_error + json list) \<Rightarrow> id list \<Rightarrow> py_error + json list" where
  "items_of e fs present is =
     and_then (each (\<lambda>i. case get_function_by_id i fs of
         None \<Rightarrow> Inl ValueError
       | Some f \<Rightarrow> and_then (ms_module e i) (present f)) is) (\<lambda>xss. Inr (concat xss))"

definition toggled_items :: "func \<Rightarrow> module_info \<Rightarrow> py_error + json list" where
  "toggled_items f m = (if ml_toggle m then get_filter_items_from_module f m else Inr [])"

definition with_plugins :: "model_sources \<Rightarrow> func list \<Rightarrow> dict \<Rightarrow> py_error + dict" where
  "with_plugins e fs m =
     and_then (enabled_ids e ''action_ids'' (map fn_id (get_global_action_functions fs))
         (map fn_id (get_functions_by_type ''action'' True fs)) m) (\<lambda>as.
     and_then (enabled_ids e ''filter_ids'' (map fn_id (get_global_filter_functions fs))
         (map fn_id (get_functions_by_type ''filter'' True fs)) m) (\<lambda>gs.
     and_then (items_of e fs get_action_items_from_module as) (\<lambda>actions.
     and_then (items_of e fs toggled_items gs) (\<lambda>flts.
       Inr (dset ''filters'' (JList flts) (dset ''actions'' (JList actions) (dpop ''filter_ids'' (dpop ''action_ids'' m))))))))"

section \<open>The list\<close>

definition model_list ::
  "model_sources \<Rightarrow> model_config \<Rightarrow> func list \<Rightarrow> model_row list \<Rightarrow> dict list \<Rightarrow> py_error + dict list" where
  "model_list e c fs rows base =
     and_then (arena_entries (ms_now e) c) (\<lambda>arena.
     and_then (add_row_models (Model_Handlers.get_all_models rows) (base @ arena)) (each (with_plugins e fs)))"

definition keyed_models :: "dict list \<Rightarrow> py_error + (json \<times> dict) list" where
  "keyed_models ms = and_then (each (\<lambda>m. item m ''id'') ms) (\<lambda>is. Inr (foldl (\<lambda>d (i, m). AList.update i m d) [] (zip is ms)))"

definition get_all_models ::
  "model_sources \<Rightarrow> model_config \<Rightarrow> func list \<Rightarrow> model_row list \<Rightarrow> bool \<Rightarrow> model_cache \<Rightarrow> (py_error + dict list) \<times> model_cache" where
  "get_all_models e c fs rows refresh s =
     (case (if mh_models s \<noteq> [] \<and> mh_base s \<noteq> [] \<and> mc_cache c \<and> \<not> refresh then Inr (mh_base s) else get_all_base_models e c) of
        Inl x \<Rightarrow> (Inl x, s)
      | Inr base \<Rightarrow>
          (let s1 = s\<lparr>mh_base := base\<rparr>
           in if base = [] then (Inr [], s1)
              else case and_then (model_list e c fs rows base) (\<lambda>ms. and_then (keyed_models ms) (\<lambda>k. Inr (ms, k))) of
                Inl x \<Rightarrow> (Inl x, s1)
              | Inr (ms, k) \<Rightarrow> (Inr ms, s1\<lparr>mh_models := k\<rparr>)))"

section \<open>Who may use a model\<close>

text \<open>\<open>model.get("info", {}).get("meta", {}).get("access_control", {})\<close>\<close>

definition arena_access :: "dict \<Rightarrow> py_error + dict option" where
  "arena_access m =
     and_then (jget (dget_or m ''info'' (JDict [])) ''meta'' (JDict [])) (\<lambda>meta.
     and_then (jget meta ''access_control'' (JDict [])) (\<lambda>v.
       case v of JNull \<Rightarrow> Inr None | JDict d \<Rightarrow> Inr (Some d) | _ \<Rightarrow> Inl AttributeError))"

text \<open>An unusable model is an exception, here \<open>ValueError\<close>.\<close>

definition check_model_access :: "user \<Rightarrow> dict \<Rightarrow> group_db \<Rightarrow> model_row list \<Rightarrow> py_error + unit" where
  "check_model_access caller m gdb rows =
     (if truthy (dget_or m ''arena'' JNull)
      then and_then (arena_access m) (\<lambda>ac. and_then (has_access (u_id caller) ''read'' ac None False gdb)
             (\<lambda>b. if b then Inr () else Inl ValueError))
      else case (case dget m ''id'' of Some (JStr i) \<Rightarrow> get_model_by_id i rows | _ \<Rightarrow> None) of
        None \<Rightarrow> Inl ValueError
      | Some x \<Rightarrow>
          if u_id caller = md_user_id x then Inr ()
          else and_then (has_access (u_id caller) ''read'' (md_access_control x) None False gdb)
                 (\<lambda>b. if b then Inr () else Inl ValueError))"

definition model_offered :: "bool \<Rightarrow> user \<Rightarrow> id list \<Rightarrow> group_db \<Rightarrow> model_row list \<Rightarrow> dict \<Rightarrow> py_error + bool" where
  "model_offered bypass caller gids gdb rows m =
     (if truthy (dget_or m ''arena'' JNull)
      then and_then (arena_access m) (\<lambda>ac. has_access (u_id caller) ''read'' ac (Some gids) False gdb)
      else and_then (item m ''id'') (\<lambda>i.
        case (case i of JStr s \<Rightarrow> get_model_by_id s rows | _ \<Rightarrow> None) of
          None \<Rightarrow> Inr False
        | Some x \<Rightarrow>
            if u_role caller = ''admin'' \<and> bypass \<or> u_id caller = md_user_id x then Inr True
            else has_access (u_id caller) ''read'' (md_access_control x) (Some gids) False gdb))"

fun filter_each :: "('a \<Rightarrow> 'e + bool) \<Rightarrow> 'a list \<Rightarrow> 'e + 'a list" where
  "filter_each p [] = Inr []"
| "filter_each p (x # xs) = and_then (p x) (\<lambda>b. and_then (filter_each p xs) (\<lambda>ys. Inr (if b then x # ys else ys)))"

definition get_filtered_models ::
  "bool \<Rightarrow> bool \<Rightarrow> user \<Rightarrow> group_db \<Rightarrow> model_row list \<Rightarrow> dict list \<Rightarrow> py_error + dict list" where
  "get_filtered_models bypass_admin bypass_all caller gdb rows ms =
     (if (u_role caller = ''user'' \<or> u_role caller = ''admin'' \<and> \<not> bypass_admin) \<and> \<not> bypass_all
      then filter_each (model_offered bypass_admin caller (map grp_id (get_groups_by_member_id (u_id caller) gdb)) gdb rows) ms
      else Inr ms)"

section \<open>What is offered can be used\<close>

lemma filter_each_set:
  "filter_each p xs = Inr ys \<Longrightarrow> x \<in> set xs \<Longrightarrow> (x \<in> set ys \<longleftrightarrow> p x = Inr True) \<and> (\<exists>b. p x = Inr b)"
proof (induction xs arbitrary: ys)
  case (Cons a xs)
  obtain b zs where b: "p a = Inr b" "filter_each p xs = Inr zs" "ys = (if b then a # zs else zs)"
    using Cons.prems(1) by (auto simp: and_then_Inr_iff)
  show ?case
  proof (cases "x \<in> set xs")
    case True
    then show ?thesis using Cons.IH[OF b(2) True] b by auto
  next
    case False
    have "set zs \<subseteq> set xs" using b(2) by (induction xs arbitrary: zs) (auto simp: and_then_Inr_iff split: if_splits)
    then show ?thesis using False Cons.prems(2) b by auto
  qed
qed simp

text \<open>The groups of the user, given or looked up.\<close>

lemma access_by_groups:
  "has_access u k ac (Some (map grp_id (get_groups_by_member_id u gdb))) strict gdb = has_access u k ac None strict gdb"
  by (cases ac) (simp_all add: has_access_def Let_def)

text \<open>
  C7: The list of models a user gets and the check in front of a model agree: a model of the server is in the user's
  list exactly when the check lets the user use it.
\<close>

theorem offered_models_usable:
  assumes "get_filtered_models bypass_admin False caller gdb rows ms = Inr out" "u_role caller = ''user''" "m \<in> set ms"
  shows "m \<in> set out \<longleftrightarrow> check_model_access caller m gdb rows = Inr ()"
proof -
  let ?p = "model_offered bypass_admin caller (map grp_id (get_groups_by_member_id (u_id caller) gdb)) gdb rows"
  have "filter_each ?p ms = Inr out" using assms(1,2) by (simp add: get_filtered_models_def)
  from filter_each_set[OF this assms(3)] obtain b where b: "m \<in> set out \<longleftrightarrow> b" "?p m = Inr b" by auto
  have "check_model_access caller m gdb rows = Inr () \<longleftrightarrow> ?p m = Inr True"
  proof (cases "truthy (dget_or m ''arena'' JNull)")
    case True
    then obtain ac where "arena_access m = Inr ac" "has_access (u_id caller) ''read'' ac None False gdb = Inr b"
      using b(2) by (auto simp: model_offered_def access_by_groups and_then_Inr_iff)
    then show ?thesis using True b(2) by (simp add: check_model_access_def)
  next
    case False
    then obtain i where i: "dget m ''id'' = Some i"
      using b(2) by (auto simp: model_offered_def item_def and_then_Inr_iff split: option.splits)
    show ?thesis
    proof (cases "case i of JStr s \<Rightarrow> get_model_by_id s rows | _ \<Rightarrow> None")
      case None
      then show ?thesis using False i by (simp add: check_model_access_def model_offered_def item_def)
    next
      case (Some x)
      show ?thesis
      proof (cases "u_id caller = md_user_id x")
        case True
        then show ?thesis using False i Some by (simp add: check_model_access_def model_offered_def item_def)
      next
        case own: False
        then have "has_access (u_id caller) ''read'' (md_access_control x) None False gdb = Inr b"
          using b(2) False i Some assms(2) by (simp add: model_offered_def item_def access_by_groups)
        then show ?thesis using own b(2) False i Some by (simp add: check_model_access_def)
      qed
    qed
  qed
  then show ?thesis using b by simp
qed

definition house_rows :: "model_row list" where
  "house_rows =
     [\<lparr>md_id = ''m1'', md_user_id = ''lee'', md_base_model_id = None, md_name = ''One'', md_params = [(''system'', JStr ''secret'')],
        md_meta = [], md_access_control = Some [], md_is_active = True, md_updated_at = 1, md_created_at = 1\<rparr>,
      \<lparr>md_id = ''llama3'', md_user_id = ''lee'', md_base_model_id = None, md_name = ''Llama'', md_params = [],
        md_meta = [], md_access_control = None, md_is_active = False, md_updated_at = 1, md_created_at = 1\<rparr>]"

definition house_models :: "dict list" where
  "house_models =
     [[(''id'', JStr ''m1'')], [(''id'', JStr ''llama3:7b''), (''owned_by'', JStr ''ollama'')],
      [(''id'', JStr ''llama3:8b''), (''owned_by'', JStr ''ollama'')], [(''id'', JStr ''llama3'')]]"

lemma offered_models_usable_witness:
  "check_model_access lee [(''id'', JStr ''m1'')] sample_groups house_rows = Inr () \<and>
   check_model_access kim [(''id'', JStr ''m1'')] sample_groups house_rows \<noteq> Inr ()"
proof -
  have h: "get_filtered_models False False lee sample_groups house_rows house_models =
        Inr [[(''id'', JStr ''m1'')], [(''id'', JStr ''llama3'')]]"
      "get_filtered_models False False kim sample_groups house_rows house_models = Inr [[(''id'', JStr ''llama3'')]]"
      "u_role lee = ''user''" "u_role kim = ''user''"
    by code_simp+
  have m: "[(''id'', JStr ''m1'')] \<in> set house_models" by (simp add: house_models_def)
  show ?thesis using offered_models_usable[OF h(1,3) m] offered_models_usable[OF h(2,4) m] by simp
qed

section \<open>The parameters of a row stay on the server\<close>

definition no_params :: "dict \<Rightarrow> bool" where
  "no_params m \<longleftrightarrow> (case dget m ''info'' of Some (JDict d) \<Rightarrow> dget d ''params'' = None | _ \<Rightarrow> True)"

lemma no_params_dset: "k \<noteq> ''info'' \<Longrightarrow> no_params (dset k v m) = no_params m"
  by (simp add: no_params_def)

lemma no_params_row [simp]: "no_params (dset ''info'' (JDict (row_info x)) m)"
  by (simp add: no_params_def row_info_def)

lemma overlay_no_params:
  "overlay x i ms = Inr out \<Longrightarrow> list_all no_params ms \<Longrightarrow> list_all no_params out"
proof (induction x i ms arbitrary: out rule: overlay.induct)
  case (1 x i ms)
  show ?case
  proof (cases "i \<ge> length ms")
    case True
    then show ?thesis using "1.prems" by (subst (asm) overlay.simps) simp
  next
    case False
    then obtain b where b: "names_model x (ms ! i) = Inr b"
      using "1.prems"(1) by (subst (asm) overlay.simps) (auto simp: and_then_Inr_iff)
    consider "\<not> b" "overlay x (Suc i) ms = Inr out"
      | m where "b" "md_is_active x" "overlaid x (ms ! i) = Inr m" "overlay x (Suc i) (ms[i := m]) = Inr out"
      | "b" "\<not> md_is_active x" "overlay x (Suc i) (remove1 (ms ! i) ms) = Inr out"
      using "1.prems"(1) False b by (subst (asm) overlay.simps) (auto simp: and_then_Inr_iff split: if_splits)
    then show ?thesis
    proof cases
      case 1
      then show ?thesis using "1.IH"(1)[OF False 1] "1.prems"(2) by simp
    next
      case (2 m)
      have "no_params m" using 2(3) by (auto simp: overlaid_def and_then_Inr_iff no_params_dset)
      then have "list_all no_params (ms[i := m])"
        using "1.prems"(2) by (auto simp: list_all_iff dest: set_update_subset_insert[THEN subsetD])
      then show ?thesis using "1.IH"(2)[OF False, of b m] 2 by simp
    next
      case 3
      have "list_all no_params (remove1 (ms ! i) ms)"
        using "1.prems"(2) set_remove1_subset by (fastforce simp: list_all_iff)
      then show ?thesis using "1.IH"(3)[OF False, of b] 3 by simp
    qed
  qed
qed

lemma preset_no_params: "preset_model x base = Inr m \<Longrightarrow> no_params m"
  by (auto simp: preset_model_def and_then_Inr_iff no_params_def row_info_def split: option.splits json.splits)

lemma rows_no_params:
  "add_row_models xs ms = Inr out \<Longrightarrow> list_all no_params ms \<Longrightarrow> list_all no_params out"
proof (induction xs arbitrary: ms)
  case (Cons x xs)
  then obtain ms1 where m: "add_row_model x ms = Inr ms1" "add_row_models xs ms1 = Inr out" by (auto simp: and_then_Inr_iff)
  have "list_all no_params ms1"
    using m(1) Cons.prems(2) overlay_no_params preset_no_params
    by (auto simp: add_row_model_def and_then_Inr_iff split: option.splits if_splits)
  then show ?case using Cons.IH m(2) by simp
qed simp

lemma each_all: "each f xs = Inr ys \<Longrightarrow> (\<And>x y. x \<in> set xs \<Longrightarrow> f x = Inr y \<Longrightarrow> p y) \<Longrightarrow> list_all p ys"
proof (induction xs arbitrary: ys)
  case (Cons a xs)
  obtain y zs where y: "f a = Inr y" "each f xs = Inr zs" "ys = y # zs" using Cons.prems(1) by (auto simp: and_then_Inr_iff)
  have "p y" using Cons.prems(2)[of a y] y(1) by simp
  moreover have "list_all p zs" by (rule Cons.IH[OF y(2)]) (use Cons.prems(2) in auto)
  ultimately show ?case by (simp add: y(3))
qed simp

lemma plugins_no_params: "with_plugins e fs m = Inr m' \<Longrightarrow> no_params m' = no_params m"
  by (auto simp: with_plugins_def and_then_Inr_iff no_params_dset) (simp_all add: no_params_def)

text \<open>
  C14: The parameters a workspace model is stored with, its system prompt among them, are in no model of the list:
  when the models the services report have none, no model of the list has any.
\<close>

theorem params_not_exposed:
  assumes "get_all_models e c fs rows refresh s = (Inr ms, s')" "list_all no_params (mh_base s')"
  shows "list_all no_params ms"
proof (cases "mh_base s' = []")
  case True
  then show ?thesis using assms(1)
    by (auto simp: get_all_models_def Let_def split: sum.splits if_splits)
next
  case False
  obtain arena out where a: "arena_entries (ms_now e) c = Inr arena" "add_row_models rows (mh_base s' @ arena) = Inr out"
      "each (with_plugins e fs) out = Inr ms"
    using assms(1) False
    by (auto simp: get_all_models_def Let_def model_list_def and_then_Inr_iff Model_Handlers.get_all_models_def split: sum.splits if_splits)
  have "list_all no_params arena"
    using a(1) by (auto simp: arena_entries_def arena_entry_def and_then_Inr_iff no_params_def split: if_splits elim!: each_all)
  then have "list_all no_params out" using rows_no_params[OF a(2)] assms(2) by simp
  then show ?thesis by (intro each_all[OF a(3)]) (auto simp: plugins_no_params list_all_iff)
qed

definition house_sources :: model_sources where
  "house_sources = \<lparr>ms_functions = house_models, ms_openai = Inr [], ms_ollama = Inr [], ms_now = 7,
     ms_module = (\<lambda>_. Inl ValueError), ms_listed = remdups\<rparr>"

definition house_config :: model_config where
  "house_config = \<lparr>mc_openai = True, mc_ollama = True, mc_cache = False, mc_arena = False, mc_arena_models = [], mc_default_arena = []\<rparr>"

lemma params_not_exposed_witness:
  "list_all no_params (projr (fst (get_all_models house_sources house_config [] house_rows False \<lparr>mh_models = [], mh_base = []\<rparr>))) \<and>
   md_params (hd house_rows) = [(''system'', JStr ''secret'')]"
proof -
  let ?r = "get_all_models house_sources house_config [] house_rows False \<lparr>mh_models = [], mh_base = []\<rparr>"
  have r: "\<not> isl (fst ?r)" "list_all no_params (mh_base (snd ?r))" by code_simp+
  then obtain ms where ms: "fst ?r = Inr ms" by (cases "fst ?r") simp_all
  then have "?r = (Inr ms, snd ?r)" by (metis prod.collapse)
  from params_not_exposed[OF this r(2)] show ?thesis using ms by (simp add: house_rows_def)
qed

text \<open>
  Switching a model of Ollama off by its name without a tag takes out every second of its versions only: the model
  after a removed one is passed over.
\<close>

lemma versions_skipped:
  "overlay (last house_rows) 0 house_models = Inr [[(''id'', JStr ''m1'')], [(''id'', JStr ''llama3:8b''), (''owned_by'', JStr ''ollama'')]]"
  by code_simp

end
