(* ===== verification/Group_Runs.thy ===== *)
theory Group_Runs
  imports User_Groups
begin

text \<open>
  What the operations of \<^verbatim>\<open>models/groups.py\<close> promise, said of two facts only: which groups
  exist under which name, and which user belongs to which group. \<open>membership\<close> is that state,
  \<open>spec_step\<close> the promised effect of each operation, and the theorem shows that runs of the
  operations on the two tables compute it and that the queries read it.
\<close>

record membership =
  known :: "id \<Rightarrow> string option"
  belongs :: "(id \<times> id) set"

definition abs_groups :: "group_db \<Rightarrow> membership" where
  "abs_groups db = \<lparr>known = (\<lambda>g. map_option grp_name (get_group_by_id g db)),
     belongs = member_key ` set (group_members db)\<rparr>"

section \<open>The promised effects\<close>

text \<open>A membership the database takes: any, or only of a group and a user that exist.\<close>

definition link_taken :: "foreign_keys \<Rightarrow> membership \<Rightarrow> id \<Rightarrow> id \<Rightarrow> bool" where
  "link_taken fk st gid u =
     (case fk of None \<Rightarrow> True | Some user_exists \<Rightarrow> known st gid \<noteq> None \<and> user_exists u)"

text \<open>
  The users a batch leaves in a group: a user who cannot be added, or is in it already,
  resets the group to the users it had before the batch.
\<close>

fun batch :: "(id \<Rightarrow> bool) \<Rightarrow> id set \<Rightarrow> id list \<Rightarrow> id set \<Rightarrow> id set" where
  "batch taken start [] cur = cur"
| "batch taken start (u # us) cur =
     (if u \<in> cur \<or> \<not> taken u then batch taken start us start
      else batch taken start us (insert u cur))"

definition in_group :: "id \<Rightarrow> id set \<Rightarrow> (id \<times> id) set" where
  "in_group gid us = {gid} \<times> us"

definition users_in :: "membership \<Rightarrow> id \<Rightarrow> id set" where
  "users_in st gid = {u. (gid, u) \<in> belongs st}"

definition named_groups :: "membership \<Rightarrow> string list \<Rightarrow> id set" where
  "named_groups st names = {g. \<exists>n \<in> set names. known st g = Some n}"

fun create_spec :: "string set \<Rightarrow> (id \<times> time \<times> time \<times> string) list \<Rightarrow> (id \<Rightarrow> string option) \<Rightarrow> id \<Rightarrow> string option" where
  "create_spec existing [] kn = kn"
| "create_spec existing ((uid, _, _, name) # ns) kn =
     create_spec existing ns (if name \<in> existing then kn else kn(uid \<mapsto> name))"

fun spec_step :: "foreign_keys \<Rightarrow> group_op \<Rightarrow> membership \<Rightarrow> membership" where
  "spec_step fk (InsertGroup uid _ _ _ form) st = st\<lparr>known := (known st)(uid \<mapsto> gf_name form)\<rparr>"
| "spec_step fk (SetUsers _ gid us) st =
     (if distinct (map snd us) \<and> (\<forall>u \<in> snd ` set us. link_taken fk st gid u)
      then st\<lparr>belongs := belongs st - in_group gid UNIV \<union> in_group gid (snd ` set us)\<rparr> else st)"
| "spec_step fk (UpdateGroup _ gid form) st =
     st\<lparr>known := (\<lambda>g. if g = gid then map_option (\<lambda>_. gf_name form) (known st g) else known st g)\<rparr>"
| "spec_step fk (DeleteGroup gid) st =
     st\<lparr>known := (known st)(gid := None),
        belongs := (if fk = None then belongs st else belongs st - in_group gid UNIV)\<rparr>"
| "spec_step fk DeleteAll st =
     st\<lparr>known := (\<lambda>_. None), belongs := (if fk = None then belongs st else {})\<rparr>"
| "spec_step fk (RemoveUserEverywhere _ u) st =
     st\<lparr>belongs := belongs st - {(g, u) | g. known st g \<noteq> None}\<rparr>"
| "spec_step fk (CreateNamed _ ns) st =
     st\<lparr>known := create_spec (ran (known st)) ns (known st)\<rparr>"
| "spec_step fk (SyncNames _ _ u names) st =
     (if \<forall>g \<in> named_groups st names. (g, u) \<in> belongs st \<or> link_taken fk st g u
      then st\<lparr>belongs := belongs st - {(g, u) | g. known st g \<noteq> None}
                          \<union> {(g, u) | g. g \<in> named_groups st names}\<rparr>
      else st)"
| "spec_step fk (AddUsers _ gid us) st =
     (if known st gid = None then st
      else st\<lparr>belongs := belongs st - in_group gid UNIV
                \<union> in_group gid (batch (link_taken fk st gid) (users_in st gid)
                    (map snd (case us of None \<Rightarrow> [] | Some xs \<Rightarrow> xs)) (users_in st gid))\<rparr>)"
| "spec_step fk (RemoveUsers _ gid us) st =
     (if known st gid = None then st
      else st\<lparr>belongs := belongs st - in_group gid (set (case us of None \<Rightarrow> [] | Some xs \<Rightarrow> xs))\<rparr>)"

text \<open>The UUIDs an operation draws are drawn once and are not in use.\<close>

fun fresh_op :: "group_op \<Rightarrow> group_db \<Rightarrow> bool" where
  "fresh_op (InsertGroup uid _ _ _ _) db = (uid \<notin> grp_id ` set (groups db))"
| "fresh_op (SetUsers _ _ us) db =
     (distinct (map fst us) \<and> set (map fst us) \<inter> gm_id ` set (group_members db) = {})"
| "fresh_op (CreateNamed _ ns) db =
     (distinct (map fst ns) \<and> set (map fst ns) \<inter> grp_id ` set (groups db) = {})"
| "fresh_op (SyncNames uid _ _ _) db =
     (inj_on uid (grp_id ` set (groups db)) \<and> uid ` grp_id ` set (groups db) \<inter> gm_id ` set (group_members db) = {})"
| "fresh_op (AddUsers _ _ us) db =
     (let us = (case us of None \<Rightarrow> [] | Some xs \<Rightarrow> xs)
      in distinct (map fst us) \<and> set (map fst us) \<inter> gm_id ` set (group_members db) = {})"
| "fresh_op _ db = True"

fun fresh_run :: "foreign_keys \<Rightarrow> group_op list \<Rightarrow> group_db \<Rightarrow> bool" where
  "fresh_run fk [] db = True"
| "fresh_run fk (x # xs) db = (fresh_op x db \<and> fresh_run fk xs (group_step fk x db))"

section \<open>Each operation has its promised effect\<close>

lemma known_abs [simp]: "known (abs_groups db) g = map_option grp_name (get_group_by_id g db)"
  by (simp add: abs_groups_def)

lemma belongs_abs [simp]: "belongs (abs_groups db) = member_key ` set (group_members db)"
  by (simp add: abs_groups_def)

lemma belongs_is_member: "(g, u) \<in> belongs (abs_groups db) \<longleftrightarrow> is_member db g u"
  by (simp add: is_member_iff)

lemma known_iff: "known (abs_groups db) g = None \<longleftrightarrow> \<not> has_group g db"
  by (simp add: get_group_by_id_def row_get_None_iff has_group_def)

lemma abs_eqI:
  assumes "\<And>g. map_option grp_name (get_group_by_id g db) = known st g"
    and "\<And>g u. is_member db g u \<longleftrightarrow> (g, u) \<in> belongs st"
  shows "abs_groups db = st"
proof -
  have "known (abs_groups db) = known st" using assms(1) by (intro ext) simp
  moreover have "belongs (abs_groups db) = belongs st"
    using assms(2) by (auto simp: is_member_iff simp del: belongs_abs simp flip: belongs_abs)
  ultimately show ?thesis by simp
qed

lemma get_group_members [simp]: "get_group_by_id g (db\<lparr>group_members := ms\<rparr>) = get_group_by_id g db"
  by (simp add: get_group_by_id_def)

lemma name_touch [simp]:
  "map_option grp_name (row_get grp_id g (touch p now gs)) = map_option grp_name (row_get grp_id g gs)"
  unfolding touch_def by (subst row_get_upd; cases "row_get grp_id g gs") simp_all

lemma is_member_del:
  "is_member (db\<lparr>group_members := del_rows p ms\<rparr>) g u \<longleftrightarrow>
     (\<exists>m \<in> set ms. gm_group_id m = g \<and> gm_user_id m = u \<and> \<not> p m)"
  by (auto simp: is_member_def list_ex_iff)

lemma is_member_ex: "is_member db g u \<longleftrightarrow> (\<exists>m \<in> set (group_members db). gm_group_id m = g \<and> gm_user_id m = u)"
  by (auto simp: is_member_def list_ex_iff)

text \<open>When a single insertion goes through.\<close>

lemma add_member_None_iff:
  assumes "gm_id m \<notin> gm_id ` set (group_members db)"
  shows "add_member fk m db = None \<longleftrightarrow>
    is_member db (gm_group_id m) (gm_user_id m) \<or> \<not> link_taken fk (abs_groups db) (gm_group_id m) (gm_user_id m)"
  using assms
  by (auto simp: add_member_def is_member_iff member_key_def link_taken_def known_iff
      get_group_by_id_def row_get_None_iff has_group_def split: option.splits)

lemma add_member_frame:
  "add_member fk m db = Some db' \<Longrightarrow> groups db' = groups db \<and> group_members db' = group_members db @ [m]"
  by (drule add_member_SomeD) auto

lemma link_taken_groups:
  "groups db' = groups db \<Longrightarrow> link_taken fk (abs_groups db') = link_taken fk (abs_groups db)"
  by (intro ext) (auto simp: link_taken_def get_group_by_id_def split: option.splits)

lemma insert_spec:
  assumes "uid \<notin> grp_id ` set (groups db)"
  shows "abs_groups (snd (insert_new_group uid t1 t2 o1 form db)) =
    (abs_groups db)\<lparr>known := (known (abs_groups db))(uid \<mapsto> gf_name form)\<rparr>"
  using assms
  by (intro abs_eqI)
     (auto simp: insert_new_group_def Let_def add_row_def get_group_by_id_def row_get_append row_get_None_iff
        row_get_single is_member_iff dest: row_get_SomeD split: option.splits)

lemma create_spec_step:
  assumes "distinct (map fst ns)" "set (map fst ns) \<inter> grp_id ` set (groups db) = {}"
  shows "abs_groups (snd (create_named_groups o1 existing ns db)) =
    (abs_groups db)\<lparr>known := create_spec existing ns (known (abs_groups db))\<rparr>"
  using assms
proof (induction o1 existing ns db rule: create_named_groups.induct)
  case (2 o1 ex uid t1 t2 name ns db)
  show ?case
  proof (cases "name \<in> ex")
    case True
    then show ?thesis using 2 by simp
  next
    case False
    let ?form = "\<lparr>gf_name = name, gf_description = [], gf_permissions = None, gf_data = None\<rparr>"
    obtain g db1 where i: "insert_new_group uid t1 t2 o1 ?form db = (g, db1)"
      by (cases "insert_new_group uid t1 t2 o1 ?form db")
    have s: "abs_groups db1 = (abs_groups db)\<lparr>known := (known (abs_groups db))(uid \<mapsto> name)\<rparr>"
      using insert_spec[of uid db t1 t2 o1 ?form] i "2.prems" by simp
    have "grp_id ` set (groups db1) \<subseteq> insert uid (grp_id ` set (groups db))"
      using i by (auto simp: insert_new_group_def Let_def add_row_def split: option.splits if_splits)
    moreover have "set (map fst ns) \<inter> insert uid (grp_id ` set (groups db)) = {}" using "2.prems" by auto
    ultimately have "set (map fst ns) \<inter> grp_id ` set (groups db1) = {}" by blast
    then have "abs_groups (snd (create_named_groups o1 ex ns db1)) =
        (abs_groups db1)\<lparr>known := create_spec ex ns (known (abs_groups db1))\<rparr>"
      using "2.IH"(2)[OF False refl i[symmetric] refl] "2.prems" by (simp del: known_abs)
    then show ?thesis using False i s
      by (cases "create_named_groups o1 ex ns db1") (simp add: Let_def del: known_abs)
  qed
qed simp

lemma add_members_None:
  assumes "distinct (map fst us)" "set (map fst us) \<inter> gm_id ` set (group_members db) = {}"
  shows "add_members fk gid now us db = None \<longleftrightarrow>
    \<not> distinct (map snd us) \<or> (\<exists>u \<in> snd ` set us. is_member db gid u \<or> \<not> link_taken fk (abs_groups db) gid u)"
  using assms
proof (induction us arbitrary: db)
  case (Cons p us)
  obtain uid u where p: "p = (uid, u)" by (cases p)
  let ?m = "new_member uid gid u now"
  have n: "add_member fk ?m db = None \<longleftrightarrow> is_member db gid u \<or> \<not> link_taken fk (abs_groups db) gid u"
    using Cons.prems p add_member_None_iff[of ?m db fk] by (simp add: new_member_def)
  show ?case
  proof (cases "add_member fk ?m db")
    case None
    then show ?thesis using n p by auto
  next
    case (Some d)
    note f = add_member_frame[OF Some]
    have m: "is_member d gid v \<longleftrightarrow> is_member db gid v \<or> v = u" for v
      using is_member_add[OF Some] by (simp add: new_member_def)
    have "add_members fk gid now us d = None \<longleftrightarrow>
        \<not> distinct (map snd us) \<or> (\<exists>u \<in> snd ` set us. is_member d gid u \<or> \<not> link_taken fk (abs_groups d) gid u)"
      using Cons.prems p f by (intro Cons.IH) (auto simp: new_member_def)
    then show ?thesis using Some n p m link_taken_groups[of d db fk] f by auto
  qed
qed simp

lemma add_members_Some:
  "add_members fk gid now us db = Some db' \<Longrightarrow>
     groups db' = groups db \<and> (is_member db' g u \<longleftrightarrow> is_member db g u \<or> g = gid \<and> u \<in> snd ` set us)"
proof (induction us arbitrary: db)
  case (Cons p us)
  obtain uid v where p: "p = (uid, v)" by (cases p)
  obtain d where d: "add_member fk (new_member uid gid v now) db = Some d"
    using Cons.prems p by (auto split: option.splits)
  show ?case using Cons.IH[of d] Cons.prems p d add_member_frame[OF d] is_member_add[OF d, of g u]
    by (auto simp: new_member_def)
qed simp

lemma set_users_spec:
  assumes "distinct (map fst us)" "set (map fst us) \<inter> gm_id ` set (group_members db) = {}"
  shows "abs_groups (snd (set_group_user_ids_by_id fk now gid us db)) = spec_step fk (SetUsers now gid us) (abs_groups db)"
proof -
  define db1 where "db1 = db\<lparr>group_members := del_rows (\<lambda>m. gm_group_id m = gid) (group_members db)\<rparr>"
  have m1: "is_member db1 g u \<longleftrightarrow> is_member db g u \<and> g \<noteq> gid" for g u
    by (auto simp: db1_def is_member_del is_member_ex)
  have n: "add_members fk gid now us db1 = None \<longleftrightarrow>
      \<not> distinct (map snd us) \<or> (\<exists>u \<in> snd ` set us. \<not> link_taken fk (abs_groups db) gid u)"
    using add_members_None[of us db1 fk gid now] assms link_taken_groups[of db1 db fk] m1
    by (auto simp: db1_def)
  show ?thesis
  proof (cases "add_members fk gid now us db1")
    case None
    then show ?thesis using n by (auto simp: set_group_user_ids_by_id_def Let_def simp flip: db1_def)
  next
    case (Some db2)
    note a = add_members_Some[OF Some]
    have "abs_groups db2 = (abs_groups db)\<lparr>belongs := belongs (abs_groups db) - in_group gid UNIV \<union> in_group gid (snd ` set us)\<rparr>"
      using a by (intro abs_eqI) (auto simp: db1_def get_group_by_id_def in_group_def m1[unfolded db1_def] simp flip: is_member_iff)
    moreover have "distinct (map snd us) \<and> (\<forall>u \<in> snd ` set us. link_taken fk (abs_groups db) gid u)"
      using n Some by auto
    ultimately show ?thesis using Some
      by (simp add: set_group_user_ids_by_id_def Let_def db1_def[symmetric])
  qed
qed

lemma update_spec:
  "abs_groups (snd (update_group_by_id now gid form db)) = spec_step fk (UpdateGroup now gid form) (abs_groups db)"
  unfolding update_group_by_id_def Let_def snd_conv
  by (intro abs_eqI)
     (auto simp: get_group_by_id_def row_get_upd_key option.map_comp comp_def simp flip: is_member_iff)

lemma delete_spec:
  "abs_groups (snd (delete_group_by_id fk gid db)) = spec_step fk (DeleteGroup gid) (abs_groups db)"
  by (intro abs_eqI; cases fk)
     (auto simp: delete_group_by_id_def cascade_def get_group_by_id_def row_get_del is_member_del in_group_def
       is_member_ex simp flip: is_member_iff)

lemma delete_all_spec:
  assumes "groups_inv fk db"
  shows "abs_groups (snd (delete_all_groups fk db)) = spec_step fk DeleteAll (abs_groups db)"
  using assms
  by (intro abs_eqI; cases fk)
     (auto simp: delete_all_groups_def cascade_def get_group_by_id_def is_member_del groups_inv_def no_orphans_def
       list_all_iff is_member_ex simp flip: is_member_iff)

lemma remove_fold:
  fixes now :: "id \<Rightarrow> time" and db :: group_db and gids :: "id list" and u :: id
  defines "last_db \<equiv> foldl (\<lambda>db gid.
            db\<lparr>group_members := del_rows (\<lambda>m. gm_group_id m = gid \<and> gm_user_id m = u) (group_members db),
               groups := touch (\<lambda>g. g = gid) (now gid) (groups db)\<rparr>) db gids"
  shows "map_option grp_name (get_group_by_id g last_db) = map_option grp_name (get_group_by_id g db)"
    and "is_member last_db g v \<longleftrightarrow> is_member db g v \<and> \<not> (v = u \<and> g \<in> set gids)"
  unfolding last_db_def
  by (induction gids arbitrary: db) (auto simp: get_group_by_id_def is_member_ex)

lemma remove_user_spec:
  "abs_groups (snd (remove_user_from_all_groups now u db)) = spec_step fk (RemoveUserEverywhere now u) (abs_groups db)"
proof (intro abs_eqI)
  fix g v
  have "g \<in> set (map grp_id (all_rows (\<lambda>g. is_member db (grp_id g) u) (groups db))) \<longleftrightarrow>
      known (abs_groups db) g \<noteq> None \<and> is_member db g u"
    by (auto simp: get_group_by_id_def row_get_None_iff simp flip: not_None_eq)
  then show "is_member (snd (remove_user_from_all_groups now u db)) g v \<longleftrightarrow>
      (g, v) \<in> belongs (spec_step fk (RemoveUserEverywhere now u) (abs_groups db))"
    unfolding remove_user_from_all_groups_def Let_def snd_conv remove_fold(2)
    by (auto simp flip: is_member_iff)
qed (simp add: remove_user_from_all_groups_def Let_def remove_fold(1))

lemma create_groups_spec:
  assumes "fresh_op (CreateNamed o1 ns) db" "groups_inv fk db"
  shows "abs_groups (snd (create_groups_by_group_names o1 ns db)) = spec_step fk (CreateNamed o1 ns) (abs_groups db)"
proof -
  have "unique_key grp_id (groups db)" using assms(2) by (simp add: groups_inv_def groups_ok_def)
  then have "grp_name ` set (get_all_groups db) = ran (known (abs_groups db))"
    by (force simp: get_all_groups_def ran_def get_group_by_id_def row_get_def first_row_key_iff)
  then show ?thesis
    using assms(1) create_spec_step[of ns db o1] by (simp add: create_groups_by_group_names_def)
qed

lemma remove_users_spec:
  "abs_groups (snd (remove_users_from_group now gid us db)) = spec_step fk (RemoveUsers now gid us) (abs_groups db)"
  by (intro abs_eqI; cases us)
     (auto simp: remove_users_from_group_def Let_def get_group_by_id_def is_member_ex in_group_def
       simp flip: is_member_iff split: option.splits)

lemma fold_add_None [simp]:
  "foldl (\<lambda>r gid. case r of None \<Rightarrow> None | Some d \<Rightarrow> f gid d) None xs = None"
  by (induction xs) auto

lemma fold_add_None_iff:
  assumes "distinct gids" "inj_on uid (set gids)" "uid ` set gids \<inter> gm_id ` set (group_members db) = {}"
  shows "foldl (\<lambda>r gid. case r of None \<Rightarrow> None
      | Some d \<Rightarrow> add_member fk (new_member (uid gid) gid u now) d) (Some db) gids = None \<longleftrightarrow>
    (\<exists>g \<in> set gids. is_member db g u \<or> \<not> link_taken fk (abs_groups db) g u)"
  using assms
proof (induction gids arbitrary: db)
  case (Cons g gids)
  let ?m = "new_member (uid g) g u now"
  have n: "add_member fk ?m db = None \<longleftrightarrow> is_member db g u \<or> \<not> link_taken fk (abs_groups db) g u"
    using Cons.prems add_member_None_iff[of ?m db fk] by (simp add: new_member_def)
  show ?case
  proof (cases "add_member fk ?m db")
    case None
    then show ?thesis using n by auto
  next
    case (Some d)
    note f = add_member_frame[OF Some]
    have m: "is_member d h u \<longleftrightarrow> is_member db h u \<or> h = g" for h
      using is_member_add[OF Some] by (auto simp: new_member_def)
    have "foldl (\<lambda>r gid. case r of None \<Rightarrow> None
        | Some d \<Rightarrow> add_member fk (new_member (uid gid) gid u now) d) (Some d) gids = None \<longleftrightarrow>
      (\<exists>g \<in> set gids. is_member d g u \<or> \<not> link_taken fk (abs_groups d) g u)"
      using Cons.prems f by (intro Cons.IH) (auto simp: new_member_def)
    then show ?thesis using Some n m Cons.prems(1) link_taken_groups[of d db fk] f by auto
  qed
qed simp

lemma fold_add_groups:
  "foldl (\<lambda>r gid. case r of None \<Rightarrow> None
      | Some d \<Rightarrow> add_member fk (new_member (uid gid) gid u now) d) (Some db) gids = Some db' \<Longrightarrow>
     groups db' = groups db"
proof (induction gids arbitrary: db)
  case (Cons g gids)
  then obtain d where "add_member fk (new_member (uid g) g u now) db = Some d"
    by (cases "add_member fk (new_member (uid g) g u now) db") auto
  then show ?case using Cons add_member_frame by fastforce
qed simp

lemma sync_spec:
  assumes "fresh_op (SyncNames uid now u names) db" "groups_inv fk db"
  shows "abs_groups (snd (sync_groups_by_group_names fk uid now u names db)) =
    spec_step fk (SyncNames uid now u names) (abs_groups db)"
proof -
  define target where "target = map grp_id (all_rows (\<lambda>g. grp_name g \<in> set names) (groups db))"
  define existing where "existing = map grp_id (all_rows (\<lambda>g. is_member db (grp_id g) u) (groups db))"
  define rem where "rem = filter (\<lambda>g. g \<notin> set target) existing"
  define new where "new = filter (\<lambda>g. g \<notin> set existing) target"
  define db1 where "db1 = db\<lparr>group_members := del_rows (\<lambda>m. gm_user_id m = u \<and> gm_group_id m \<in> set rem)
      (group_members db), groups := touch (\<lambda>g. g \<in> set rem) now (groups db)\<rparr>"
  have uk: "unique_key grp_id (groups db)" using assms(2) by (simp add: groups_inv_def groups_ok_def)
  have t: "g \<in> set target \<longleftrightarrow> g \<in> named_groups (abs_groups db) names" for g
    using uk by (auto simp: target_def named_groups_def get_group_by_id_def row_get_def first_row_key_iff)
  have e: "g \<in> set existing \<longleftrightarrow> known (abs_groups db) g \<noteq> None \<and> is_member db g u" for g
    by (auto simp: existing_def get_group_by_id_def row_get_None_iff simp flip: not_None_eq)
  have k: "g \<in> set target \<Longrightarrow> known (abs_groups db) g \<noteq> None" for g
    unfolding t by (auto simp: named_groups_def)
  have k': "get_group_by_id g db = None \<Longrightarrow> g \<notin> named_groups (abs_groups db) names" for g
    by (auto simp: named_groups_def)
  have ms: "is_member db1 g v \<longleftrightarrow> is_member db g v \<and> \<not> (v = u \<and> g \<in> set rem)" for g v
    by (auto simp: db1_def is_member_ex)
  have dn: "distinct new"
    using uk by (auto simp: new_def target_def unique_key_def all_rows_def distinct_map_filter)
  have sub: "set new \<subseteq> grp_id ` set (groups db)" by (auto simp: new_def target_def)
  have "inj_on uid (set new)" using assms(1) sub by (auto intro: inj_on_subset)
  moreover have "uid ` set new \<inter> gm_id ` set (group_members db1) = {}"
    using assms(1) sub by (auto simp: db1_def disjoint_iff image_iff)
  ultimately have n: "foldl (\<lambda>r gid. case r of None \<Rightarrow> None
      | Some d \<Rightarrow> add_member fk (new_member (uid gid) gid u now) d) (Some db1) new = None \<longleftrightarrow>
    (\<exists>g \<in> set new. is_member db1 g u \<or> \<not> link_taken fk (abs_groups db1) g u)"
    using fold_add_None_iff dn by blast
  have lt: "link_taken fk (abs_groups db1) g u = link_taken fk (abs_groups db) g u" for g
    by (auto simp: link_taken_def known_iff db1_def has_group_def split: option.splits simp del: known_abs)
  have guard: "(\<exists>g \<in> set new. is_member db1 g u \<or> \<not> link_taken fk (abs_groups db1) g u) \<longleftrightarrow>
      \<not> (\<forall>g \<in> named_groups (abs_groups db) names. is_member db g u \<or> link_taken fk (abs_groups db) g u)"
  proof -
    have "g \<in> set new \<longleftrightarrow> g \<in> named_groups (abs_groups db) names \<and> \<not> is_member db g u" for g
      using k[of g] by (auto simp: new_def e t simp del: known_abs)
    then show ?thesis by (auto simp: lt ms)
  qed
  have r: "sync_groups_by_group_names fk uid now u names db =
      (case foldl (\<lambda>r gid. case r of None \<Rightarrow> None
         | Some d \<Rightarrow> add_member fk (new_member (uid gid) gid u now) d) (Some db1) new of
         None \<Rightarrow> (False, db)
       | Some db2 \<Rightarrow> (True, db2\<lparr>groups := touch (\<lambda>g. g \<in> set new) now (groups db2)\<rparr>))"
    by (simp only: sync_groups_by_group_names_def Let_def db1_def rem_def new_def existing_def target_def)
  show ?thesis
  proof (cases "foldl (\<lambda>r gid. case r of None \<Rightarrow> None
      | Some d \<Rightarrow> add_member fk (new_member (uid gid) gid u now) d) (Some db1) new")
    case None
    then show ?thesis using n guard r by (auto simp: belongs_is_member simp del: belongs_abs known_abs)
  next
    case (Some db2)
    define db3 where "db3 = db2\<lparr>groups := touch (\<lambda>g. g \<in> set new) now (groups db2)\<rparr>"
    have r: "snd (sync_groups_by_group_names fk uid now u names db) = db3"
      using Some r by (simp add: db3_def)
    have names_kept: "map_option grp_name (get_group_by_id g db3) = map_option grp_name (get_group_by_id g db)" for g
      using fold_add_groups[OF Some] by (simp add: db3_def db1_def get_group_by_id_def)
    have "is_member db3 g v \<longleftrightarrow>
        (if v = u \<and> known (abs_groups db) g \<noteq> None then g \<in> set target else is_member db g v)" for g v
      using fold_add_members[OF Some, of g v] k[of g] e[of g]
      by (auto simp: db3_def ms rem_def new_def)
    then have "abs_groups db3 = (abs_groups db)\<lparr>belongs := belongs (abs_groups db) - {(g, u) | g. known (abs_groups db) g \<noteq> None}
                          \<union> {(g, u) | g. g \<in> named_groups (abs_groups db) names}\<rparr>"
      using names_kept k' by (intro abs_eqI) (auto simp: belongs_is_member t simp del: belongs_abs)
    moreover have "\<forall>g \<in> named_groups (abs_groups db) names. is_member db g u \<or> link_taken fk (abs_groups db) g u"
      using Some n guard by simp
    ultimately show ?thesis using r by (simp add: belongs_is_member del: belongs_abs known_abs)
  qed
qed

lemma add_users_loop_spec:
  assumes "distinct (map fst us)" "set (map fst us) \<inter> gm_id ` set (group_members cur) = {}"
    and "set (map fst us) \<inter> gm_id ` set (group_members start) = {}" "groups cur = groups start"
    and "\<And>g u. g \<noteq> gid \<Longrightarrow> is_member cur g u \<longleftrightarrow> is_member start g u"
  shows "groups (add_users_loop fk gid now start us cur) = groups start \<and>
    (is_member (add_users_loop fk gid now start us cur) g u \<longleftrightarrow>
      (if g = gid then u \<in> batch (link_taken fk (abs_groups start) gid) {u. is_member start gid u}
                          (map snd us) {u. is_member cur gid u}
       else is_member start g u))"
  using assms
proof (induction us arbitrary: cur)
  case (Cons p us)
  obtain uid v where p: "p = (uid, v)" by (cases p)
  let ?m = "new_member uid gid v now"
  have n: "add_member fk ?m cur = None \<longleftrightarrow> is_member cur gid v \<or> \<not> link_taken fk (abs_groups start) gid v"
    using Cons.prems p add_member_None_iff[of ?m cur fk] link_taken_groups[of cur start fk]
    by (simp add: new_member_def)
  show ?case
  proof (cases "add_member fk ?m cur")
    case None
    then show ?thesis using Cons.IH[of start] Cons.prems p n by simp
  next
    case (Some d)
    note f = add_member_frame[OF Some]
    have m: "is_member d g u \<longleftrightarrow> is_member cur g u \<or> (g = gid \<and> u = v)" for g u
      using is_member_add[OF Some] by (auto simp: new_member_def)
    have "Collect (is_member d gid) = insert v (Collect (is_member cur gid))" by (auto simp: m)
    moreover have "set (map fst us) \<inter> gm_id ` set (group_members d) = {}"
      using Cons.prems(1,2) p f by (auto simp: new_member_def)
    ultimately show ?thesis using Cons.IH[of d] Cons.prems p n Some f m by simp
  qed
qed simp

lemma add_users_spec:
  assumes "fresh_op (AddUsers now gid us) db"
  shows "abs_groups (snd (add_users_to_group fk now gid us db)) = spec_step fk (AddUsers now gid us) (abs_groups db)"
proof (cases "get_group_by_id gid db")
  case None
  then show ?thesis by (simp add: add_users_to_group_def)
next
  case (Some gr)
  define xs where "xs = (case us of None \<Rightarrow> [] | Some xs \<Rightarrow> xs)"
  define db1 where "db1 = add_users_loop fk gid now db xs db"
  have "distinct (map fst xs)" "set (map fst xs) \<inter> gm_id ` set (group_members db) = {}"
    using assms by (simp_all add: xs_def Let_def)
  then have l: "groups db1 = groups db"
      "is_member db1 g u \<longleftrightarrow> (if g = gid then u \<in> batch (link_taken fk (abs_groups db) gid) {u. is_member db gid u}
                          (map snd xs) {u. is_member db gid u} else is_member db g u)" for g u
    using add_users_loop_spec[of xs db db gid fk now] by (auto simp: db1_def)
  have u: "users_in (abs_groups db) gid = {u. is_member db gid u}"
    by (simp add: users_in_def belongs_is_member del: belongs_abs)
  have "snd (add_users_to_group fk now gid us db) = db1\<lparr>groups := touch (\<lambda>g. g = gid) now (groups db1)\<rparr>"
    using Some by (simp add: add_users_to_group_def Let_def db1_def xs_def)
  moreover have "abs_groups (db1\<lparr>groups := touch (\<lambda>g. g = gid) now (groups db1)\<rparr>) = spec_step fk (AddUsers now gid us) (abs_groups db)"
    using Some
    by (intro abs_eqI)
       (auto simp: l u in_group_def belongs_is_member get_group_by_id_def simp flip: xs_def simp del: belongs_abs)
  ultimately show ?thesis by simp
qed

theorem group_step_spec:
  assumes "groups_inv fk db" "fresh_op x db"
  shows "abs_groups (group_step fk x db) = spec_step fk x (abs_groups db)"
proof (cases x)
  case (InsertGroup uid t1 t2 o1 form)
  then show ?thesis using assms(2) by (simp add: insert_spec del: known_abs)
next
  case (SetUsers now gid us)
  then show ?thesis using assms(2) by (simp add: set_users_spec del: spec_step.simps)
next
  case (UpdateGroup now gid form)
  then show ?thesis by (simp add: update_spec[of now gid form db fk] del: spec_step.simps)
next
  case (DeleteGroup gid)
  then show ?thesis by (simp add: delete_spec del: spec_step.simps)
next
  case DeleteAll
  then show ?thesis using assms(1) by (simp add: delete_all_spec del: spec_step.simps)
next
  case (RemoveUserEverywhere now u)
  then show ?thesis by (simp add: remove_user_spec[of now u db fk] del: spec_step.simps)
next
  case (CreateNamed o1 ns)
  then show ?thesis using assms create_groups_spec[of o1 ns db fk] by (simp del: spec_step.simps fresh_op.simps)
next
  case (SyncNames uid now u names)
  then show ?thesis using assms sync_spec by (simp del: spec_step.simps fresh_op.simps)
next
  case (AddUsers now gid us)
  then show ?thesis using assms add_users_spec by (simp del: spec_step.simps fresh_op.simps)
next
  case (RemoveUsers now gid us)
  then show ?thesis by (simp add: remove_users_spec[of now gid us db fk] del: spec_step.simps)
qed

lemma run_spec:
  "groups_inv fk db \<Longrightarrow> fresh_run fk xs db \<Longrightarrow>
     abs_groups (fold (group_step fk) xs db) = fold (spec_step fk) xs (abs_groups db)"
  by (induction xs arbitrary: db) (simp_all add: group_step_spec group_step_inv del: group_step.simps spec_step.simps fresh_op.simps)

text \<open>
  C4: every run of group operations has exactly the promised effect on which groups exist,
  under which names, and on who belongs to which: setting the users of a group replaces them,
  or fails as a whole and changes nothing; deleting a group takes its memberships with it
  exactly where foreign keys are enforced; a synchronisation by names leaves the user in the
  named groups that exist and in no other group that exists; adding a batch keeps the users added
  after the last one refused; removal removes the listed users only. The groups the queries
  then return for a user, and the users for a group, are those of that state. The rows of
  the tables keep their constraints and the UUIDs drawn are fresh.
\<close>
theorem group_runs_refine_membership:
  assumes "groups_inv fk db" "fresh_run fk xs db"
  defines "after \<equiv> fold (group_step fk) xs db" and "st \<equiv> fold (spec_step fk) xs (abs_groups db)"
  shows "(\<forall>g. map_option grp_name (get_group_by_id g after) = known st g) \<and>
    (\<forall>u. grp_id ` set (get_groups_by_member_id u after) = {g. known st g \<noteq> None \<and> (g, u) \<in> belongs st}) \<and>
    (\<forall>g. set (case get_group_user_ids_by_id g after of None \<Rightarrow> [] | Some us \<Rightarrow> us) = {u. (g, u) \<in> belongs st})"
proof -
  have st: "st = abs_groups after" using run_spec[OF assms(1,2)] by (simp add: after_def st_def)
  have "grp_id ` set (get_groups_by_member_id u after) = {g. known st g \<noteq> None \<and> (g, u) \<in> belongs st}" for u
    by (auto simp: st get_groups_by_member_id_def known_iff has_group_def belongs_is_member simp del: known_abs belongs_abs)
  moreover have "set (case get_group_user_ids_by_id g after of None \<Rightarrow> [] | Some us \<Rightarrow> us) = {u. (g, u) \<in> belongs st}" for g
    by (auto simp: st get_group_user_ids_by_id_def Let_def belongs_is_member is_member_ex all_rows_def filter_empty_conv
        simp del: belongs_abs)
  ultimately show ?thesis by (simp add: st)
qed

lemma group_runs_refine_membership_witness:
  "let xs = [AddUsers 5 ''g2'' (Some [(''m2'', ''lee''), (''m3'', ''kim'')]), DeleteGroup ''g1''];
       after = fold (group_step (Some (\<lambda>u. True))) xs sample_groups;
       st = fold (spec_step (Some (\<lambda>u. True))) xs (abs_groups sample_groups)
   in (\<forall>g. map_option grp_name (get_group_by_id g after) = known st g) \<and>
    (\<forall>u. grp_id ` set (get_groups_by_member_id u after) = {g. known st g \<noteq> None \<and> (g, u) \<in> belongs st}) \<and>
    (\<forall>g. set (case get_group_user_ids_by_id g after of None \<Rightarrow> [] | Some us \<Rightarrow> us) = {u. (g, u) \<in> belongs st})"
  unfolding Let_def
  by (rule group_runs_refine_membership[OF sample_groups_inv]) (simp add: sample_group_defs)

end
