(* ===== verification/Library_Runs.thy ===== *)
theory Library_Runs
  imports Files
begin

text \<open>
  What the operations of \<^verbatim>\<open>models/files.py\<close> and \<^verbatim>\<open>models/knowledge.py\<close> promise: which files
  and bases exist, and which file belongs to which base. \<open>shelf\<close> is that state, \<open>shelf_step\<close> the
  promised effect of each operation; the theorem shows that runs of the operations on the tables have it and that
  both queries over the links read it.
\<close>

record shelf =
  shelf_files :: "id set"
  shelf_bases :: "id set"
  shelf_links :: "(id \<times> id) set"

definition shelf_of :: "library \<Rightarrow> shelf" where
  "shelf_of s = \<lparr>shelf_files = fl_id ` set (lb_files s), shelf_bases = kn_id ` set (lb_knowledge s),
     shelf_links = link_key ` set (lb_links s)\<rparr>"

text \<open>With foreign keys a link goes with its file and its base, and needs both.\<close>

fun shelf_step :: "bool \<Rightarrow> library_op \<Rightarrow> shelf \<Rightarrow> shelf" where
  "shelf_step fk (Insert_File _ _ _ form) st = st\<lparr>shelf_files := insert (ff_id form) (shelf_files st)\<rparr>"
| "shelf_step fk (Delete_File fid) st =
     st\<lparr>shelf_files := shelf_files st - {fid},
        shelf_links := (if fk then {(k, f) \<in> shelf_links st. f \<noteq> fid} else shelf_links st)\<rparr>"
| "shelf_step fk Delete_All_Files st =
     st\<lparr>shelf_files := {}, shelf_links := (if fk then {} else shelf_links st)\<rparr>"
| "shelf_step fk (Insert_Base kid _ _ _ _) st = st\<lparr>shelf_bases := insert kid (shelf_bases st)\<rparr>"
| "shelf_step fk (Reset_Base _ kid) st = st\<lparr>shelf_links := {(k, f) \<in> shelf_links st. k \<noteq> kid}\<rparr>"
| "shelf_step fk (Delete_Base kid) st =
     st\<lparr>shelf_bases := shelf_bases st - {kid},
        shelf_links := (if fk then {(k, f) \<in> shelf_links st. k \<noteq> kid} else shelf_links st)\<rparr>"
| "shelf_step fk Delete_All_Bases st =
     st\<lparr>shelf_bases := {}, shelf_links := (if fk then {} else shelf_links st)\<rparr>"
| "shelf_step fk (Link _ _ _ kid fid _) st =
     (if fk \<longrightarrow> kid \<in> shelf_bases st \<and> fid \<in> shelf_files st
      then st\<lparr>shelf_links := insert (kid, fid) (shelf_links st)\<rparr> else st)"
| "shelf_step fk (Unlink kid fid) st = st\<lparr>shelf_links := shelf_links st - {(kid, fid)}\<rparr>"
| "shelf_step fk _ st = st"

text \<open>The UUID of a new link is not in use.\<close>

fun link_fresh :: "library_op \<Rightarrow> library \<Rightarrow> bool" where
  "link_fresh (Link lid _ _ _ _ _) s = (lid \<notin> kf_id ` set (lb_links s))"
| "link_fresh _ s = True"

fun links_fresh :: "bool \<Rightarrow> library_op list \<Rightarrow> library \<Rightarrow> bool" where
  "links_fresh fk [] s = True"
| "links_fresh fk (x # xs) s = (link_fresh x s \<and> links_fresh fk xs (library_step fk x s))"

section \<open>Each operation has its promised effect\<close>

lemma shelf_simps [simp]:
  "shelf_files (shelf_of s) = fl_id ` set (lb_files s)" "shelf_bases (shelf_of s) = kn_id ` set (lb_knowledge s)"
  "shelf_links (shelf_of s) = link_key ` set (lb_links s)"
  by (simp_all add: shelf_of_def)

lemma shelf_eqI:
  "fl_id ` set (lb_files s) = shelf_files st \<Longrightarrow> kn_id ` set (lb_knowledge s) = shelf_bases st \<Longrightarrow>
     link_key ` set (lb_links s) = shelf_links st \<Longrightarrow> shelf_of s = st"
  by (simp add: shelf_of_def)

lemma shelf_update_file:
  "(\<And>f. fl_id (g f) = fl_id f) \<Longrightarrow> shelf_of (snd (update_file_where fid g s)) = shelf_of s"
  by (simp add: shelf_of_def update_file_where_def key_set_upd split: option.split)

lemma insert_base_shelf:
  "shelf_of (snd (insert_new_knowledge kid t1 t2 u form s)) = (shelf_of s)\<lparr>shelf_bases := insert kid (shelf_bases (shelf_of s))\<rparr>"
  by (intro shelf_eqI) (auto simp: insert_new_knowledge_def Let_def new_knowledge_def add_row_def)

lemma insert_file_shelf:
  "shelf_of (snd (insert_new_file t1 t2 u form s)) = (shelf_of s)\<lparr>shelf_files := insert (ff_id form) (shelf_files (shelf_of s))\<rparr>"
  by (intro shelf_eqI) (auto simp: insert_new_file_def Let_def new_file_def add_row_def)

lemma cascade_shelf:
  "lb_files (cascade_links fk s) = lb_files s" "lb_knowledge (cascade_links fk s) = lb_knowledge s"
  "link_key ` set (lb_links (cascade_links fk s)) =
     (if fk then {(k, f) \<in> link_key ` set (lb_links s). k \<in> kn_id ` set (lb_knowledge s) \<and> f \<in> fl_id ` set (lb_files s)}
      else link_key ` set (lb_links s))"
proof -
  have "link_key ` {l \<in> S. kf_file_id l \<in> F \<and> kf_knowledge_id l \<in> K} = {(k, f) \<in> link_key ` S. k \<in> K \<and> f \<in> F}" for S F K
    unfolding link_key_def by (auto intro!: image_eqI)
  then show "lb_files (cascade_links fk s) = lb_files s" "lb_knowledge (cascade_links fk s) = lb_knowledge s"
    "link_key ` set (lb_links (cascade_links fk s)) =
     (if fk then {(k, f) \<in> link_key ` set (lb_links s). k \<in> kn_id ` set (lb_knowledge s) \<and> f \<in> fl_id ` set (lb_files s)}
      else link_key ` set (lb_links s))"
    by (simp_all add: cascade_links_def)
qed

lemma all_linked:
  "library_ok True s \<Longrightarrow> link_key ` set (lb_links s) \<subseteq> kn_id ` set (lb_knowledge s) \<times> fl_id ` set (lb_files s)"
  by (auto simp: library_ok_def list_all_iff link_key_def)

lemma cut_links:
  "L \<subseteq> K \<times> F \<Longrightarrow> {(k, f) \<in> L. k \<in> K \<and> f \<in> F - {x}} = {(k, f) \<in> L. f \<noteq> x}"
  "L \<subseteq> K \<times> F \<Longrightarrow> {(k, f) \<in> L. k \<in> K - {x} \<and> f \<in> F} = {(k, f) \<in> L. k \<noteq> x}"
  by auto

lemma row_del_keys: "key ` set (row_del key k rs) = key ` set rs - {k}"
  by (auto simp: row_del_def)

lemma cascade_file:
  assumes "library_ok fk s"
  shows "link_key ` set (lb_links (cascade_links fk (s\<lparr>lb_files := row_del fl_id fid (lb_files s)\<rparr>))) =
    (if fk then {(k, f) \<in> link_key ` set (lb_links s). f \<noteq> fid} else link_key ` set (lb_links s))"
proof (cases fk)
  case True
  have e: "lb_links (s\<lparr>lb_files := fs\<rparr>) = lb_links s" "lb_knowledge (s\<lparr>lb_files := fs\<rparr>) = lb_knowledge s" "lb_files (s\<lparr>lb_files := fs\<rparr>) = fs"
    for fs by simp_all
  have ok: "library_ok True s" using assms True by simp
  then show ?thesis unfolding cascade_shelf e row_del_keys cut_links(1)[OF all_linked[OF ok]] using True by simp
qed (simp add: cascade_shelf)

lemma cascade_base:
  assumes "library_ok fk s"
  shows "link_key ` set (lb_links (cascade_links fk (s\<lparr>lb_knowledge := row_del kn_id kid (lb_knowledge s)\<rparr>))) =
    (if fk then {(k, f) \<in> link_key ` set (lb_links s). k \<noteq> kid} else link_key ` set (lb_links s))"
proof (cases fk)
  case True
  have e: "lb_links (s\<lparr>lb_knowledge := ks\<rparr>) = lb_links s" "lb_knowledge (s\<lparr>lb_knowledge := ks\<rparr>) = ks" "lb_files (s\<lparr>lb_knowledge := ks\<rparr>) = lb_files s"
    for ks by simp_all
  have ok: "library_ok True s" using assms True by simp
  then show ?thesis unfolding cascade_shelf e row_del_keys cut_links(2)[OF all_linked[OF ok]] using True by simp
qed (simp add: cascade_shelf)

lemma library_step_spec:
  assumes "library_ok fk s" "link_fresh x s"
  shows "shelf_of (library_step fk x s) = shelf_step fk x (shelf_of s)"
proof (cases x)
  case (Delete_File fid)
  then show ?thesis
    by (intro shelf_eqI) (simp_all add: delete_file_by_id_def cascade_file[OF assms(1)] cascade_shelf(1,2) row_del_keys)
next
  case Delete_All_Files
  then show ?thesis by (intro shelf_eqI) (auto simp: delete_all_files_def cascade_links_def)
next
  case (Delete_Base kid)
  then show ?thesis
    by (intro shelf_eqI) (simp_all add: delete_knowledge_by_id_def cascade_base[OF assms(1)] cascade_shelf(1,2) row_del_keys)
next
  case Delete_All_Bases
  then show ?thesis by (intro shelf_eqI) (auto simp: delete_all_knowledge_def cascade_links_def)
next
  case (Reset_Base now kid)
  then show ?thesis by (intro shelf_eqI) (auto simp: reset_knowledge_by_id_def Let_def key_set_upd link_key_def)
next
  case (Update_Base now kid form)
  then show ?thesis by (simp add: update_knowledge_by_id_def Let_def shelf_of_def key_set_upd apply_knowledge_form_def)
next
  case (Link lid t1 t2 kid fid u)
  then show ?thesis
    using assms(2)
    by (intro shelf_eqI) (auto simp: add_file_to_knowledge_by_id_def add_link_def new_link_def link_key_def Let_def)
next
  case (Unlink kid fid)
  then show ?thesis by (intro shelf_eqI) (auto simp: remove_file_from_knowledge_by_id_def link_key_def)
qed (simp_all add: insert_file_shelf insert_base_shelf update_file_by_id_def update_file_hash_by_id_def update_file_data_by_id_def
    update_file_metadata_by_id_def shelf_update_file apply_file_update_def)

lemma library_run_spec:
  "library_ok fk s \<Longrightarrow> links_fresh fk xs s \<Longrightarrow> shelf_of (fold (library_step fk) xs s) = fold (shelf_step fk) xs (shelf_of s)"
  by (induction xs arbitrary: s)
     (simp_all add: library_step_spec library_ok_step del: library_step.simps shelf_step.simps link_fresh.simps)

lemma listed_files: "set (get_files_by_id kid s) = {f \<in> set (lb_files s). (kid, fl_id f) \<in> link_key ` set (lb_links s)}"
  by (force simp: get_files_by_id_def link_key_def)

lemma listed_bases: "set (get_knowledges_by_file_id fid s) = {k \<in> set (lb_knowledge s). (kn_id k, fid) \<in> link_key ` set (lb_links s)}"
  by (force simp: get_knowledges_by_file_id_def link_key_def)

text \<open>
  C29: Every run of operations on files, knowledge bases and their links has exactly the promised effect: a reset
  takes every file out of its base and an unlinking one file out of one; a deleted file or base takes its links with
  it exactly where foreign keys are enforced; linking puts the file into the base unless the database misses one of
  them; and nothing else changes what exists or what is linked. Afterwards a base lists exactly its existing
  files, each once, and through a file exactly its existing bases are found.
\<close>

theorem library_runs_refine_shelf:
  assumes "library_ok fk s" "links_fresh fk xs s"
  defines "after \<equiv> fold (library_step fk) xs s" and "st \<equiv> fold (shelf_step fk) xs (shelf_of s)"
  shows "fl_id ` set (lb_files after) = shelf_files st \<and> kn_id ` set (lb_knowledge after) = shelf_bases st \<and>
    (\<forall>k. distinct (get_files_by_id k after) \<and>
      fl_id ` set (get_files_by_id k after) = {f \<in> shelf_files st. (k, f) \<in> shelf_links st}) \<and>
    (\<forall>f. kn_id ` set (get_knowledges_by_file_id f after) = {k \<in> shelf_bases st. (k, f) \<in> shelf_links st})"
proof -
  have st: "st = shelf_of after" using library_run_spec[OF assms(1,2)] by (simp add: after_def st_def)
  have "library_ok fk after" unfolding after_def by (rule library_ok_run[OF assms(1)])
  then have "distinct (get_files_by_id k after)" for k using linked_once by blast
  then show ?thesis by (auto simp: st listed_files listed_bases)
qed

lemma library_runs_refine_shelf_witness:
  "let xs = [Link ''l1'' 3 3 ''k1'' ''f1'' ''kim'', Link ''l2'' 4 4 ''k1'' ''f2'' ''lee'', Reset_Base 5 ''k1'', Link ''l3'' 6 6 ''k1'' ''f1'' ''kim''];
       after = fold (library_step True) xs sample_library; st = fold (shelf_step True) xs (shelf_of sample_library)
   in fl_id ` set (lb_files after) = shelf_files st \<and> kn_id ` set (lb_knowledge after) = shelf_bases st \<and>
    (\<forall>k. distinct (get_files_by_id k after) \<and>
      fl_id ` set (get_files_by_id k after) = {f \<in> shelf_files st. (k, f) \<in> shelf_links st}) \<and>
    (\<forall>f. kn_id ` set (get_knowledges_by_file_id f after) = {k \<in> shelf_bases st. (k, f) \<in> shelf_links st})"
  unfolding Let_def
  by (rule library_runs_refine_shelf[OF sample_library_ok])
     (simp add: library_samples add_file_to_knowledge_by_id_def add_link_def new_link_def link_key_def Let_def reset_knowledge_by_id_def)

end
