(* ===== verification/Memory_Index.thy ===== *)
theory Memory_Index
  imports Memories
begin

text \<open>
  The vector collections of memories under the adapters of the repository. The class of
  \<^verbatim>\<open>retrieval/vector/dbs/chroma.py\<close> (the default database) is modelled over the client of the Chroma library,
  whose calls are the record \<open>chroma_client\<close>; with it the collections of memories follow the table. The points and
  the filters of \<^verbatim>\<open>retrieval/vector/dbs/qdrant.py\<close> show that with Qdrant they do not.
\<close>

section \<open>Metadata\<close>

definition keys_to_exclude :: "string list" where
  "keys_to_exclude = [''content'', ''pages'', ''tables'', ''paragraphs'', ''sections'', ''figures'']"

text \<open>
  \<^verbatim>\<open>process_metadata\<close> of \<^verbatim>\<open>retrieval/vector/utils.py\<close> deletes from the dictionary it iterates over: with one of the
  excluded keys the loop ends with an exception (a \<^verbatim>\<open>RuntimeError\<close>, here \<open>ValueError\<close>: no caller tells them apart).
  Lists and dictionaries become their texts; a value of JSON is no datetime.
\<close>

fun metadata_value :: "json \<Rightarrow> json" where
  "metadata_value (JList vs) = JStr (py_str (JList vs))"
| "metadata_value (JDict d) = JStr (py_str (JDict d))"
| "metadata_value v = v"

definition process_metadata :: "dict \<Rightarrow> py_error + dict" where
  "process_metadata d =
     (if \<exists>k \<in> set (map fst d). k \<in> set keys_to_exclude then Inl ValueError
      else Inr (map (\<lambda>(k, v). (k, metadata_value v)) d))"

section \<open>The adapter of Chroma\<close>

text \<open>
  The calls of the client's library: get or create a collection, get a collection, its \<^verbatim>\<open>upsert\<close> and \<^verbatim>\<open>delete\<close> (by
  ids, by a filter), and \<^verbatim>\<open>delete_collection\<close>.
\<close>

record ('v, 'x) chroma_client =
  cl_open :: "string \<Rightarrow> 'x \<Rightarrow> (py_error + unit) \<times> 'x"
  cl_get :: "string \<Rightarrow> 'x \<Rightarrow> py_error + unit"
  cl_upsert :: "string \<Rightarrow> 'v entry list \<Rightarrow> 'x \<Rightarrow> (py_error + unit) \<times> 'x"
  cl_delete :: "string \<Rightarrow> id list \<Rightarrow> 'x \<Rightarrow> (py_error + unit) \<times> 'x"
  cl_delete_where :: "string \<Rightarrow> dict \<Rightarrow> 'x \<Rightarrow> (py_error + unit) \<times> 'x"
  cl_drop :: "string \<Rightarrow> 'x \<Rightarrow> (py_error + unit) \<times> 'x"

definition chroma_delete_collection :: "('v, 'x) chroma_client \<Rightarrow> string \<Rightarrow> 'x \<Rightarrow> (py_error + unit) \<times> 'x" where
  "chroma_delete_collection cl c x = cl_drop cl c x"

definition processed_entry :: "'v entry \<Rightarrow> py_error + 'v entry" where
  "processed_entry e = (case e of (i, t, v, d) \<Rightarrow> and_then (process_metadata d) (\<lambda>d'. Inr (i, t, v, d')))"

text \<open>The collection is made before the metadata of the entries is looked at.\<close>

definition chroma_upsert :: "('v, 'x) chroma_client \<Rightarrow> string \<Rightarrow> 'v entry list \<Rightarrow> 'x \<Rightarrow> (py_error + unit) \<times> 'x" where
  "chroma_upsert cl c es x =
     (case cl_open cl c x of
        (Inl e, x1) \<Rightarrow> (Inl e, x1)
      | (Inr _, x1) \<Rightarrow> (case each processed_entry es of Inl e \<Rightarrow> (Inl e, x1) | Inr es' \<Rightarrow> cl_upsert cl c es' x1))"

text \<open>Every exception of a deletion is swallowed.\<close>

definition chroma_delete :: "('v, 'x) chroma_client \<Rightarrow> string \<Rightarrow> id list \<Rightarrow> dict \<Rightarrow> 'x \<Rightarrow> (py_error + unit) \<times> 'x" where
  "chroma_delete cl c ids filt x =
     (case cl_get cl c x of
        Inl _ \<Rightarrow> (Inr (), x)
      | Inr _ \<Rightarrow>
          if ids \<noteq> [] then (Inr (), snd (cl_delete cl c ids x))
          else if filt \<noteq> [] then (Inr (), snd (cl_delete_where cl c filt x))
          else (Inr (), x))"

text \<open>
  The environment of the memory handlers with this adapter; embedding and searching stay parameters. A deletion is
  asked for with the id of the memory and no filter.
\<close>

definition chroma_env :: "('v, 'x) chroma_client \<Rightarrow> (string \<Rightarrow> py_error + 'v) \<Rightarrow>
    (string \<Rightarrow> 'v \<Rightarrow> int \<Rightarrow> 'x \<Rightarrow> py_error + 'r) \<Rightarrow> ('v, 'x, 'r) memory_env" where
  "chroma_env cl emb search =
     \<lparr>mv_embed = emb, mv_upsert = chroma_upsert cl, mv_delete = (\<lambda>c i. chroma_delete cl c [i] []),
      mv_drop = chroma_delete_collection cl, mv_search = search\<rparr>"

text \<open>
  What is documented of the client, seen through \<open>look\<close>, the text under an id of a collection: opening changes no
  entry; an upsert with distinct ids replaces those and no others; getting and dropping fail for a collection that
  does not exist; a deletion from an existing collection succeeds and removes the ids it is given, those that are
  not there ignored; a dropped collection is empty. It is assumed of the service that it fails for no other reason.
\<close>

definition chroma_ok :: "('v, 'x) chroma_client \<Rightarrow> (string \<Rightarrow> id \<Rightarrow> 'x \<Rightarrow> string option) \<Rightarrow> bool" where
  "chroma_ok cl look \<longleftrightarrow>
     (\<forall>c x r x' d i. cl_open cl c x = (r, x') \<longrightarrow> look d i x' = look d i x) \<and>
     (\<forall>c es x x' d i. distinct (map fst es) \<longrightarrow> cl_upsert cl c es x = (Inr (), x') \<longrightarrow>
        look d i x' = (if d = c then (case map_of es i of Some (t, _) \<Rightarrow> Some t | None \<Rightarrow> look d i x) else look d i x)) \<and>
     (\<forall>c x e i. cl_get cl c x = Inl e \<longrightarrow> look c i x = None) \<and>
     (\<forall>c js x d i. cl_get cl c x = Inr () \<longrightarrow>
        fst (cl_delete cl c js x) = Inr () \<and>
        look d i (snd (cl_delete cl c js x)) = (if d = c \<and> i \<in> set js then None else look d i x)) \<and>
     (\<forall>c x x' d i. cl_drop cl c x = (Inr (), x') \<longrightarrow> look d i x' = (if d = c then None else look d i x)) \<and>
     (\<forall>c x x' e d i. cl_drop cl c x = (Inl e, x') \<longrightarrow> look d i x' = look d i x \<and> look c i x = None)"

text \<open>Processing the metadata leaves ids and texts.\<close>

lemma processed_entry_Inr:
  "processed_entry e = Inr e' \<longleftrightarrow> (\<exists>i t v d d'. e = (i, t, v, d) \<and> process_metadata d = Inr d' \<and> e' = (i, t, v, d'))"
  by (cases e) (auto simp: processed_entry_def and_then_Inr_iff)

lemma processed_entries:
  "each processed_entry es = Inr es' \<Longrightarrow>
     map fst es' = map fst es \<and> map_option fst (map_of es' i) = map_option fst (map_of es i)"
  by (induction es arbitrary: es') (auto simp: and_then_Inr_iff processed_entry_Inr)

lemma entry_text: "map_option fst (map_of es i) = map_option fst (map_of es' i) \<Longrightarrow>
  (case map_of es i of Some (t, _) \<Rightarrow> Some t | None \<Rightarrow> y) = (case map_of es' i of Some (t, _) \<Rightarrow> Some t | None \<Rightarrow> y)"
  by (auto split: option.splits)

lemma chroma_upsert_look:
  assumes ok: "chroma_ok cl look" and d: "distinct (map fst es)" and u: "chroma_upsert cl c es x = (Inr (), x')"
  shows "look d i x' = (if d = c then (case map_of es i of Some (t, _) \<Rightarrow> Some t | None \<Rightarrow> look d i x) else look d i x)"
proof -
  obtain q x1 es' where o: "cl_open cl c x = (q, x1)" and e: "each processed_entry es = Inr es'"
    and w: "cl_upsert cl c es' x1 = (Inr (), x')"
    using u by (auto simp: chroma_upsert_def split: prod.splits sum.splits)
  have "look d i x' = (if d = c then (case map_of es' i of Some (t, _) \<Rightarrow> Some t | None \<Rightarrow> look d i x1) else look d i x1)"
    using ok w d processed_entries[OF e] unfolding chroma_ok_def by metis
  moreover have "look d i x1 = look d i x" using ok o unfolding chroma_ok_def by metis
  ultimately show ?thesis using entry_text processed_entries[OF e] by metis
qed

lemma chroma_delete_look:
  assumes ok: "chroma_ok cl look" and u: "chroma_delete cl c [j] [] x = (Inr (), x')"
  shows "look d i x' = (if d = c \<and> i = j then None else look d i x)"
proof (cases "cl_get cl c x")
  case (Inl e)
  then have "look c k x = None" for k using ok unfolding chroma_ok_def by blast
  then show ?thesis using u Inl by (auto simp: chroma_delete_def)
next
  case (Inr y)
  have "cl_get cl c x = Inr () \<Longrightarrow> look d i (snd (cl_delete cl c [j] x)) = (if d = c \<and> i \<in> set [j] then None else look d i x)"
    using ok unfolding chroma_ok_def by blast
  then show ?thesis using u Inr by (auto simp: chroma_delete_def)
qed

text \<open>The adapter keeps the contract of the handlers.\<close>

lemma chroma_env_laws:
  assumes ok: "chroma_ok cl look"
  shows "vector_db_laws (chroma_env cl emb search) look"
  unfolding vector_db_laws_def chroma_env_def memory_env.simps
proof (intro conjI allI impI)
  show "distinct (map fst es) \<Longrightarrow> chroma_upsert cl c es x = (Inr (), x') \<Longrightarrow> look d i x' =
      (if d = c then (case map_of es i of Some (t, _) \<Rightarrow> Some t | None \<Rightarrow> look d i x) else look d i x)" for c es x x' d i
    by (rule chroma_upsert_look[OF ok])
  show "chroma_delete cl c [j] [] x = (Inr (), x') \<Longrightarrow> look d i x' = (if d = c \<and> i = j then None else look d i x)"
    for c j x x' d i by (rule chroma_delete_look[OF ok])
  show "chroma_delete_collection cl c x = (Inr (), x') \<Longrightarrow> look d i x' = (if d = c then None else look d i x)" for c x x' d i
    using ok by (simp add: chroma_ok_def chroma_delete_collection_def)
  show "chroma_delete_collection cl c x = (Inl e, x') \<Longrightarrow> look d i x' = look d i x" for c x x' e d i
    using ok unfolding chroma_ok_def chroma_delete_collection_def by blast
  show "chroma_delete_collection cl c x = (Inl e, x') \<Longrightarrow> look c i x = None" for c x x' e i
    using ok unfolding chroma_ok_def chroma_delete_collection_def by blast
qed

text \<open>
  C36: With the Chroma adapter, while the requests of users about their memories are answered without an error, the
  collection of every user holds exactly the texts of the user's rows, each under the id of its row. It is assumed
  that the Chroma service itself fails only for collections that do not exist: the adapter and the handler of the
  deletion of all memories swallow whatever else goes wrong.
\<close>

theorem chroma_memories_follow_table:
  assumes "chroma_ok cl look" "indexed look s" "run_memories (chroma_env cl emb search) qs s = Some s'"
  shows "indexed look s'"
  by (rule memory_index_follows_table[OF chroma_env_laws[OF assms(1)] assms(2,3)])

text \<open>A client whose collections are maps from ids to texts, and that refuses collections that do not exist.\<close>

definition map_client :: "(unit, string \<Rightarrow> (id \<Rightarrow> string option) option) chroma_client" where
  "map_client =
     \<lparr>cl_open = (\<lambda>c x. (Inr (), case x c of None \<Rightarrow> x(c := Some Map.empty) | Some _ \<Rightarrow> x)),
      cl_get = (\<lambda>c x. case x c of None \<Rightarrow> Inl ValueError | Some _ \<Rightarrow> Inr ()),
      cl_upsert = (\<lambda>c es x. if es = [] then (Inl ValueError, x) else case x c of
         None \<Rightarrow> (Inl ValueError, x)
       | Some m \<Rightarrow> (Inr (), x(c := Some (\<lambda>i. case map_of es i of Some (t, _) \<Rightarrow> Some t | None \<Rightarrow> m i)))),
      cl_delete = (\<lambda>c js x. case x c of
         None \<Rightarrow> (Inl ValueError, x) | Some m \<Rightarrow> (Inr (), x(c := Some (\<lambda>i. if i \<in> set js then None else m i)))),
      cl_delete_where = (\<lambda>c d x. (Inr (), x)),
      cl_drop = (\<lambda>c x. case x c of None \<Rightarrow> (Inl ValueError, x) | Some _ \<Rightarrow> (Inr (), x(c := None)))\<rparr>"

definition map_look :: "string \<Rightarrow> id \<Rightarrow> (string \<Rightarrow> (id \<Rightarrow> string option) option) \<Rightarrow> string option" where
  "map_look c i x = (case x c of None \<Rightarrow> None | Some m \<Rightarrow> m i)"

lemma map_client_ok: "chroma_ok map_client map_look"
  by (auto simp: chroma_ok_def map_client_def map_look_def split: option.splits if_splits)

theorem chroma_memories_follow_table_witness:
  "\<exists>s. run_memories (chroma_env map_client (\<lambda>_. Inr ()) (\<lambda>_ _ _ _. Inr ()))
        [(''bob'', Remove_All), (''ann'', Add_Memory ''m1'' 5 ''likes tea''), (''bob'', Add_Memory ''m2'' 6 ''lives in Jeonju''),
         (''bob'', Remove_Memory ''m1''), (''ann'', Update_Memory 9 ''m1'' (Some ''likes coffee'')), (''bob'', Remove_Memory ''m2''),
         (''ann'', Reset_Index)]
        \<lparr>mt_rows = [], mt_index = \<lambda>_. None\<rparr> = Some s \<and>
     length (mt_rows s) = 1 \<and> indexed map_look s"
proof -
  let ?s = "\<lparr>mt_rows = [], mt_index = \<lambda>_. None\<rparr>"
  let ?env = "chroma_env map_client (\<lambda>_. Inr ()) (\<lambda>_ _ _ _. Inr ())"
  let ?qs = "[(''bob'', Remove_All), (''ann'', Add_Memory ''m1'' 5 ''likes tea''), (''bob'', Add_Memory ''m2'' 6 ''lives in Jeonju''),
         (''bob'', Remove_Memory ''m1''), (''ann'', Update_Memory 9 ''m1'' (Some ''likes coffee'')), (''bob'', Remove_Memory ''m2''),
         (''ann'', Reset_Index)]"
  have "map_option (length \<circ> mt_rows) (run_memories ?env ?qs ?s) = Some 1" by code_simp
  then obtain s where s: "run_memories ?env ?qs ?s = Some s" "length (mt_rows s) = 1" by auto
  moreover have "indexed map_look s"
    by (rule chroma_memories_follow_table[OF map_client_ok _ s(1)]) (simp add: indexed_def remembered_def map_look_def)
  ultimately show ?thesis by blast
qed

text \<open>An entry whose metadata has an excluded key is not stored without it: the whole upsert fails.\<close>

lemma excluded_key_ends_upsert:
  assumes "(i, t, v, d) \<in> set es" "k \<in> set (map fst d)" "k \<in> set keys_to_exclude"
  shows "\<exists>e. fst (chroma_upsert cl c es x) = Inl e"
proof -
  have p: "processed_entry (i, t, v, d) = Inl ValueError"
    using assms(2,3) by (auto simp: processed_entry_def process_metadata_def)
  have "\<exists>e. each processed_entry es = Inl e"
    using assms(1) p by (induction es) (auto simp: and_then_def split: sum.splits)
  then show ?thesis by (auto simp: chroma_upsert_def split: prod.splits sum.splits)
qed

text \<open>The metadata of memories has none, and goes to the database as it is.\<close>

lemma memory_metadata_kept: "process_metadata (dated m) = Inr (dated m)"
  by (simp add: process_metadata_def keys_to_exclude_def dated_def)

section \<open>Failures that are swallowed\<close>

text \<open>A drop that fails, for whatever reason, is answered as done: the rows are gone, the texts in the collection stay.\<close>

lemma failed_drop_answered:
  assumes "mv_drop env (collection_of u) (mt_index s) = (Inl e, mt_index s)"
  shows "delete_memory_by_user_id env u s = (Inr True, s\<lparr>mt_rows := del_rows (\<lambda>m. my_user_id m = u) (mt_rows s)\<rparr>)"
  using assms by (simp add: delete_memory_by_user_id_def next_rows delete_memories_by_user_id_def next_do_def trying_def on_index_def)

text \<open>So is a deletion whose client fails.\<close>

lemma failed_delete_answered:
  "cl_delete cl c [i] x = (Inl e, x) \<Longrightarrow> chroma_delete cl c [i] [] x = (Inr (), x)"
  by (simp add: chroma_delete_def split: sum.splits)

section \<open>Points and filters of Qdrant\<close>

text \<open>A point: its id, its vector and its payload. A condition: a path into the payload and the value found there.\<close>

definition qdrant_points :: "'v entry list \<Rightarrow> (id \<times> 'v \<times> dict) list" where
  "qdrant_points es = map (\<lambda>(i, t, v, d). (i, v, [(''text'', JStr t), (''metadata'', JDict d)])) es"

definition qdrant_conditions :: "id list \<Rightarrow> dict \<Rightarrow> (string list \<times> json) list" where
  "qdrant_conditions ids filt =
     (if ids \<noteq> [] then map (\<lambda>i. ([''metadata'', ''id''], JStr i)) ids
      else map (\<lambda>(k, v). ([''metadata'', k], v)) filt)"

text \<open>A condition is met by a payload in which the path leads to the value; a filter, by those that meet all of it.\<close>

fun value_at :: "string list \<Rightarrow> json \<Rightarrow> json option" where
  "value_at [] v = Some v"
| "value_at (k # ks) (JDict d) = Option.bind (map_of d k) (value_at ks)"
| "value_at (k # ks) v = None"

definition point_meets :: "(string list \<times> json) list \<Rightarrow> id \<times> 'v \<times> dict \<Rightarrow> bool" where
  "point_meets cs p = (case p of (i, v, d) \<Rightarrow> list_all (\<lambda>(ks, w). value_at ks (JDict d) = Some w) cs)"

text \<open>
  The filter that deletes a memory asks for the id in the metadata, where the handlers never put it: no point of a
  memory meets it, whichever memory is deleted, and all texts stay in the collection.
\<close>

lemma qdrant_keeps_memories:
  assumes "each (memory_entry env) ms = Inr es" "p \<in> set (qdrant_points es)"
  shows "\<not> point_meets (qdrant_conditions [i] []) p"
proof -
  have "\<forall>i t v d. (i, t, v, d) \<in> set es \<longrightarrow> map_of d ''id'' = None"
    using assms(1)
    by (induction ms arbitrary: es) (auto simp: and_then_Inr_iff memory_entry_def dated_def split: option.splits)
  then show ?thesis using assms(2) by (fastforce simp: qdrant_points_def point_meets_def qdrant_conditions_def)
qed

lemma qdrant_keeps_new_memory:
  "p \<in> set (qdrant_points [(j, t, v, [(''created_at'', JInt n)])]) \<Longrightarrow> \<not> point_meets (qdrant_conditions [i] []) p"
  by (auto simp: point_meets_def qdrant_conditions_def qdrant_points_def)

end
