(* ===== verification/Function_Models.thy ===== *)
theory Function_Models
  imports Plugins Responses Model_Handlers
begin

text \<open>
  Models that are functions (\<^verbatim>\<open>functions.py\<close>): the models the active pipe functions offer, and a chat request
  answered by one of them. What a module says about its pipes and what its pipe returns are the record \<open>pipe_module\<close>,
  found by the id of the function.
\<close>

section \<open>What a pipe gives\<close>

text \<open>
  A piece of an answer: a pydantic object (its JSON text), a dictionary, bytes (None where they are not UTF-8), a
  text, something else.
\<close>

datatype line =
    Line_object string
  | Line_dict dict
  | Line_bytes "string option"
  | Line_text string
  | Line_other

text \<open>
  A response of its own, a dictionary, a pydantic object (its JSON text and its dictionary), a text, or pieces one
  after the other, which may end in an exception: from a generator, another iterator, an asynchronous generator.
\<close>

datatype pipe_result =
    Gives_response "string list" "py_error option"
  | Gives_dict dict
  | Gives_object dict
  | Gives_text string
  | Gives_generator "line list" "py_error option"
  | Gives_iterator "line list" "py_error option"
  | Gives_async "line list" "py_error option"
  | Gives_other

record pipe_module =
  pm_name :: "string option"
  pm_pipes :: "(py_error + json) option"
  pm_signature :: "string list"
  pm_pipe :: "dict option \<Rightarrow> dict \<Rightarrow> py_error + pipe_result"

record pipe_env =
  pv_plugin :: plugin_env
  pv_module :: "id \<Rightarrow> pipe_module"
  pv_floats :: floats
  pv_clock :: "datetime \<times> datetime"
  pv_uid :: "nat \<Rightarrow> string"
  pv_time :: "nat \<Rightarrow> int"
  pv_said :: "py_error \<Rightarrow> string"
  pv_text :: "line \<Rightarrow> string"
  pv_tools :: "json \<Rightarrow> py_error + unit"

section \<open>The models\<close>

text \<open>The valves of the function without empty values; the module gets them whenever it is used.\<close>

definition pipe_valves :: "module \<Rightarrow> dict option \<Rightarrow> py_error + dict option" where
  "pipe_valves m stored = (case mo_valves m of
     None \<Rightarrow> Inr None
   | Some check \<Rightarrow>
       if \<not> mo_has_valves m then Inr None
       else (case check (filter (\<lambda>(k, v). v \<noteq> JNull) (case stored of None \<Rightarrow> [] | Some d \<Rightarrow> d)) of
           None \<Rightarrow> Inl ValueError | Some v \<Rightarrow> Inr (Some v)))"

definition get_function_module_by_id :: "pipe_env \<Rightarrow> time \<Rightarrow> id \<Rightarrow> (module \<times> dict option) plugin_action" where
  "get_function_module_by_id env now i =
     next_do (get_function_module_from_cache (pv_plugin env) now i True) (\<lambda>m.
     reading (\<lambda>s. lifted (and_then (pipe_valves m (get_function_valves_by_id i (ps_funcs s))) (\<lambda>v. Inr (m, v)))))"

definition pipe_model :: "func \<Rightarrow> bool \<Rightarrow> string \<Rightarrow> json \<Rightarrow> string \<Rightarrow> dict" where
  "pipe_model f has_user_valves i name kind =
     [(''id'', JStr i), (''name'', name), (''object'', JStr ''model''), (''created'', JInt (fn_created_at f)),
      (''owned_by'', JStr ''openai''), (''pipe'', JDict [(''type'', JStr kind)]), (''has_user_valves'', JBool has_user_valves)]"

text \<open>A pipe without id or name ends the list of its function; the ones before it stay.\<close>

fun sub_pipe_models :: "func \<Rightarrow> string option \<Rightarrow> bool \<Rightarrow> json list \<Rightarrow> dict list" where
  "sub_pipe_models f pre huv [] = []"
| "sub_pipe_models f pre huv (p # ps) =
     (case and_then (item_get p ''id'') (\<lambda>i. and_then (item_get p ''name'') (\<lambda>n. Inr (i, n))) of
        Inl e \<Rightarrow> []
      | Inr (i, n) \<Rightarrow>
          pipe_model f huv (fn_id f @ ''.'' @ py_str i) (case pre of None \<Rightarrow> n | Some t \<Rightarrow> JStr (t @ py_str n)) (fn_type f) #
          sub_pipe_models f pre huv ps)"

definition models_of_function :: "func \<Rightarrow> pipe_module \<Rightarrow> bool \<Rightarrow> dict list" where
  "models_of_function f pm huv = (case pm_pipes pm of
     None \<Rightarrow> [pipe_model f huv (fn_id f) (JStr (fn_name f)) ''pipe'']
   | Some (Inl e) \<Rightarrow> []
   | Some (Inr v) \<Rightarrow> (case iterate v of Inl e \<Rightarrow> [] | Inr ps \<Rightarrow> sub_pipe_models f (pm_name pm) huv ps))"

text \<open>A function that cannot be loaded offers nothing.\<close>

fun models_of_functions :: "pipe_env \<Rightarrow> time \<Rightarrow> func list \<Rightarrow> dict list plugin_action" where
  "models_of_functions env now [] = pure []"
| "models_of_functions env now (f # fs) =
     next_do (trying (next_do (get_function_module_by_id env now (fn_id f)) (\<lambda>(m, v).
         pure (models_of_function f (pv_module env (fn_id f)) (mo_user_valves m \<noteq> None)))) (pure [])) (\<lambda>a.
     next_do (models_of_functions env now fs) (\<lambda>b. pure (a @ b)))"

definition get_function_models :: "pipe_env \<Rightarrow> time \<Rightarrow> dict list plugin_action" where
  "get_function_models env now =
     reading (\<lambda>s. models_of_functions env now (get_functions_by_type ''pipe'' True (ps_funcs s)))"

section \<open>The answer of a pipe\<close>

definition chunk_of :: "pipe_env \<Rightarrow> string \<Rightarrow> nat \<Rightarrow> string \<Rightarrow> dict" where
  "chunk_of env model n t = openai_chat_chunk_message_template model (pv_uid env n) (pv_time env n) (JStr t) JNull JNull JNull"

definition line_text :: "line \<Rightarrow> py_error + string" where
  "line_text l = (case l of
     Line_object t \<Rightarrow> Inr (''data: '' @ t)
   | Line_dict d \<Rightarrow> Inr (''data: '' @ dumps (JDict d))
   | Line_bytes (Some t) \<Rightarrow> Inr t
   | Line_bytes None \<Rightarrow> Inl TypeError
   | Line_text t \<Rightarrow> Inr t
   | Line_other \<Rightarrow> Inl AttributeError)"

definition process_line :: "pipe_env \<Rightarrow> string \<Rightarrow> nat \<Rightarrow> line \<Rightarrow> py_error + string" where
  "process_line env model n l =
     and_then (line_text l) (\<lambda>t.
       Inr (if startswith t ''data:'' then t @ nl @ nl else data_line (chunk_of env model n t)))"

text \<open>The lines sent and how the stream ends: with an exception outside every handler it breaks off.\<close>

fun process_lines :: "pipe_env \<Rightarrow> string \<Rightarrow> nat \<Rightarrow> line list \<Rightarrow> py_error option \<Rightarrow> string list \<times> (py_error + unit)" where
  "process_lines env model n [] e = ([], case e of None \<Rightarrow> Inr () | Some x \<Rightarrow> Inl x)"
| "process_lines env model n (l # ls) e = (case process_line env model n l of
     Inl x \<Rightarrow> ([], Inl x)
   | Inr t \<Rightarrow> (let (ts, r) = process_lines env model (Suc n) ls e in (t # ts, r)))"

definition finish_message :: "pipe_env \<Rightarrow> string \<Rightarrow> nat \<Rightarrow> dict" where
  "finish_message env model n =
     (let d = chunk_of env model n [] in
      case dget d ''choices'' of
        Some (JList (JDict c # cs)) \<Rightarrow> dset ''choices'' (JList (JDict (dset ''finish_reason'' (JStr ''stop'') c) # cs)) d
      | _ \<Rightarrow> d)"

definition closing :: "pipe_env \<Rightarrow> string \<Rightarrow> nat \<Rightarrow> string list" where
  "closing env model n = [data_line (finish_message env model n), ''data: [DONE]'']"

definition error_line :: "pipe_env \<Rightarrow> py_error \<Rightarrow> string" where
  "error_line env e = data_line [(''error'', JDict [(''detail'', JStr (pv_said env e))])]"

definition stream_content :: "pipe_env \<Rightarrow> string \<Rightarrow> py_error + pipe_result \<Rightarrow> string list \<times> (py_error + unit)" where
  "stream_content env model r = (case r of
     Inl e \<Rightarrow> ([error_line env e], Inr ())
   | Inr (Gives_response ts None) \<Rightarrow> (ts, Inr ())
   | Inr (Gives_response ts (Some e)) \<Rightarrow> (ts @ [error_line env e], Inr ())
   | Inr (Gives_dict d) \<Rightarrow> ([data_line d], Inr ())
   | Inr (Gives_text t) \<Rightarrow> (data_line (chunk_of env model 0 t) # closing env model 1, Inr ())
   | Inr (Gives_generator ls e) \<Rightarrow>
       (let (ts, x) = process_lines env model 0 ls e
        in (case x of Inl _ \<Rightarrow> (ts, x) | Inr _ \<Rightarrow> (ts @ closing env model (length ls), x)))
   | Inr (Gives_iterator ls e) \<Rightarrow> process_lines env model 0 ls e
   | Inr (Gives_async ls e) \<Rightarrow> process_lines env model 0 ls e
   | Inr _ \<Rightarrow> ([], Inr ()))"

text \<open>What a request is answered with: a value, or lines and how they end.\<close>

datatype model_answer =
    Answer_value json
  | Answer_lines "string list" "py_error + unit"

definition joined_text :: "pipe_env \<Rightarrow> line list \<Rightarrow> py_error option \<Rightarrow> py_error + json" where
  "joined_text env ls e = (case e of None \<Rightarrow> Inr (JStr (concat (map (pv_text env) ls))) | Some x \<Rightarrow> Inl x)"

definition get_message_content :: "pipe_env \<Rightarrow> pipe_result \<Rightarrow> py_error + json" where
  "get_message_content env r = (case r of
     Gives_text t \<Rightarrow> Inr (JStr t)
   | Gives_generator ls e \<Rightarrow> joined_text env ls e
   | Gives_async ls e \<Rightarrow> joined_text env ls e
   | _ \<Rightarrow> Inr JNull)"

definition whole_answer :: "pipe_env \<Rightarrow> string \<Rightarrow> py_error + pipe_result \<Rightarrow> py_error + model_answer" where
  "whole_answer env model r = (case r of
     Inl e \<Rightarrow> Inr (Answer_value (JDict [(''error'', JDict [(''detail'', JStr (pv_said env e))])]))
   | Inr (Gives_response ts e) \<Rightarrow> Inr (Answer_lines ts (case e of None \<Rightarrow> Inr () | Some x \<Rightarrow> Inl x))
   | Inr (Gives_dict d) \<Rightarrow> Inr (Answer_value (JDict d))
   | Inr (Gives_object d) \<Rightarrow> Inr (Answer_value (JDict d))
   | Inr x \<Rightarrow>
       and_then (get_message_content env x) (\<lambda>m.
         Inr (Answer_value (JDict (openai_chat_completion_message_template model (pv_uid env 0) (pv_time env 0) m JNull JNull JNull)))))"

section \<open>A request\<close>

definition get_pipe_id :: "string \<Rightarrow> id" where
  "get_pipe_id model = takeWhile (\<lambda>c. c \<noteq> CHR ''.'') model"

text \<open>
  The row of the workspace redirects the request to its base model and adds its parameters and its system prompt.
\<close>

definition with_model_row :: "pipe_env \<Rightarrow> user \<Rightarrow> dict \<Rightarrow> model_row option \<Rightarrow> dict \<Rightarrow> py_error + dict" where
  "with_model_row env u metadata row form = (case row of
     None \<Rightarrow> Inr form
   | Some x \<Rightarrow>
       (let form1 = (case md_base_model_id x of None \<Rightarrow> form | Some b \<Rightarrow> if b = [] then form else dset ''model'' (JStr b) form) in
        if md_params x = [] then Inr form1
        else
          and_then (apply_model_params_to_body_openai (pv_floats env) (dpop ''system'' (md_params x)) form1) (\<lambda>form2.
          case dget_or (md_params x) ''system'' JNull of
            JStr s \<Rightarrow> apply_system_prompt_to_body (pv_clock env) (Some s) form2 (Some metadata) (Some u) False
          | v \<Rightarrow> if truthy v then Inl TypeError else Inr form2)))"

text \<open>\<open>user.model_dump()\<close>\<close>

definition opt_text :: "string option \<Rightarrow> json" where
  "opt_text v = (case v of None \<Rightarrow> JNull | Some t \<Rightarrow> JStr t)"

definition opt_dict :: "dict option \<Rightarrow> json" where
  "opt_dict v = (case v of None \<Rightarrow> JNull | Some d \<Rightarrow> JDict d)"

definition user_dict :: "user \<Rightarrow> dict" where
  "user_dict u =
     [(''id'', JStr (u_id u)), (''email'', JStr (u_email u)), (''username'', opt_text (u_username u)), (''role'', JStr (u_role u)),
      (''name'', JStr (u_name u)), (''profile_image_url'', JStr (u_profile_image_url u)),
      (''profile_banner_image_url'', opt_text (u_profile_banner_image_url u)), (''bio'', opt_text (u_bio u)),
      (''gender'', opt_text (u_gender u)), (''date_of_birth'', opt_text (u_date_of_birth u)), (''timezone'', opt_text (u_timezone u)),
      (''presence_state'', opt_text (u_presence_state u)), (''status_emoji'', opt_text (u_status_emoji u)),
      (''status_message'', opt_text (u_status_message u)),
      (''status_expires_at'', case u_status_expires_at u of None \<Rightarrow> JNull | Some n \<Rightarrow> JInt n),
      (''info'', opt_dict (u_info u)),
      (''settings'', case u_settings u of None \<Rightarrow> JNull | Some d \<Rightarrow> JDict (settings_dump (Some d))),
      (''oauth'', opt_dict (u_oauth u)), (''last_active_at'', JInt (u_last_active_at u)),
      (''updated_at'', JInt (u_updated_at u)), (''created_at'', JInt (u_created_at u))]"

text \<open>The arguments of the pipe: the request, and of the rest what its signature names (here the data, not the callbacks).\<close>

definition extra_params :: "user \<Rightarrow> dict \<Rightarrow> dict" where
  "extra_params u metadata =
     [(''__chat_id__'', dget_or metadata ''chat_id'' JNull), (''__session_id__'', dget_or metadata ''session_id'' JNull),
      (''__message_id__'', dget_or metadata ''message_id'' JNull), (''__task__'', dget_or metadata ''task'' JNull),
      (''__task_body__'', dget_or metadata ''task_body'' JNull), (''__files__'', dget_or metadata ''files'' (JList [])),
      (''__user__'', JDict (user_dict u)), (''__metadata__'', JDict metadata)]"

text \<open>The user's own valves; where the stored ones are refused, the module's defaults.\<close>

definition user_valves :: "module \<Rightarrow> json option \<Rightarrow> py_error + dict option" where
  "user_valves m stored = (case mo_user_valves m of
     None \<Rightarrow> Inr None
   | Some check \<Rightarrow>
       (case (case stored of Some (JDict d) \<Rightarrow> check d | _ \<Rightarrow> None) of
          Some v \<Rightarrow> Inr (Some v)
        | None \<Rightarrow> (case check [] of None \<Rightarrow> Inl ValueError | Some v \<Rightarrow> Inr (Some v))))"

definition get_function_params :: "module \<Rightarrow> pipe_module \<Rightarrow> user \<Rightarrow> user_db \<Rightarrow> id \<Rightarrow> dict \<Rightarrow> dict \<Rightarrow> py_error + dict" where
  "get_function_params m pm u udb pipe_id metadata form =
     (let params = (''body'', JDict form) # filter (\<lambda>(k, v). k \<in> set (pm_signature pm)) (extra_params u metadata) in
      if ''__user__'' \<notin> set (pm_signature pm) then Inr params
      else and_then (user_valves m (get_user_valves ''functions'' pipe_id (u_id u) udb)) (\<lambda>v. case v of
          None \<Rightarrow> Inr params
        | Some d \<Rightarrow> Inr (dset ''__user__'' (JDict (dset ''valves'' (JDict d) (user_dict u))) params)))"

definition generate_function_chat_completion ::
  "pipe_env \<Rightarrow> time \<Rightarrow> user \<Rightarrow> user_db \<Rightarrow> model_row list \<Rightarrow> dict \<Rightarrow> model_answer plugin_action" where
  "generate_function_chat_completion env now u udb rows form0 =
     (let form1 = dpop ''metadata'' form0;
          row = (case dget form0 ''model'' of Some (JStr i) \<Rightarrow> get_model_by_id i rows | _ \<Rightarrow> None) in
      next_do (lifted (case dget_or form0 ''metadata'' (JDict []) of JDict d \<Rightarrow> Inr d | _ \<Rightarrow> Inl AttributeError)) (\<lambda>metadata.
      next_do (lifted (and_then (item_get (JDict form1) ''model'') (\<lambda>_. item_get (JDict form1) ''messages''))) (\<lambda>_.
      next_do (lifted (pv_tools env (case dget_or metadata ''tool_ids'' (JList []) of JNull \<Rightarrow> JList [] | v \<Rightarrow> v))) (\<lambda>_.
      next_do (lifted (with_model_row env u metadata row form1)) (\<lambda>form2.
      next_do (lifted (case dget form2 ''model'' of Some (JStr i) \<Rightarrow> Inr i | _ \<Rightarrow> Inl TypeError)) (\<lambda>model.
      next_do (get_function_module_by_id env now (get_pipe_id model)) (\<lambda>(m, valves).
      let pm = pv_module env (get_pipe_id model) in
      next_do (lifted (get_function_params m pm u udb (get_pipe_id model) metadata form2)) (\<lambda>params.
        if truthy (dget_or form2 ''stream'' (JBool False))
        then (case stream_content env model (pm_pipe pm valves params) of (ts, x) \<Rightarrow> pure (Answer_lines ts x))
        else lifted (whole_answer env model (pm_pipe pm valves params))))))))))"

section \<open>The models of a function go to that function\<close>

lemma sub_pipe_ids:
  "m \<in> set (sub_pipe_models f pre huv ps) \<Longrightarrow> \<exists>r. dget m ''id'' = Some (JStr (fn_id f @ ''.'' @ r))"
  by (induction ps) (auto simp: pipe_model_def split: sum.splits)

lemma model_of_function:
  "m \<in> set (models_of_function f pm huv) \<Longrightarrow> \<exists>r. dget m ''id'' = Some (JStr (fn_id f @ r)) \<and> (r = [] \<or> hd r = CHR ''.'')"
  by (force simp: models_of_function_def pipe_model_def split: option.splits sum.splits dest: sub_pipe_ids)

lemma pipe_of_id: "CHR ''.'' \<notin> set i \<Longrightarrow> r = [] \<or> hd r = CHR ''.'' \<Longrightarrow> get_pipe_id (i @ r) = i"
  by (cases r; induction i) (auto simp: get_pipe_id_def)

lemma models_of_functions_from:
  "models_of_functions env now fs s = (Inr ms, s') \<Longrightarrow> m \<in> set ms \<Longrightarrow>
     \<exists>f \<in> set fs. \<exists>pm huv. m \<in> set (models_of_function f pm huv)"
proof (induction fs arbitrary: s ms)
  case (Cons f fs)
  obtain a b s1 where a: "trying (next_do (get_function_module_by_id env now (fn_id f)) (\<lambda>(m, v).
         pure (models_of_function f (pv_module env (fn_id f)) (mo_user_valves m \<noteq> None)))) (pure []) s = (Inr a, s1)"
      "models_of_functions env now fs s1 = (Inr b, s')" "ms = a @ b"
    using Cons.prems(1) by (auto simp: action_Inr)
  show ?case
  proof (cases "m \<in> set a")
    case True
    then show ?thesis using a(1)
      by (auto simp: trying_def action_Inr split: prod.splits sum.splits)
  next
    case False
    then show ?thesis using Cons.IH[OF a(2)] Cons.prems(2) a(3) by auto
  qed
qed simp

text \<open>
  A model the list has from a function is answered by that function: the id of the model leads back to an
  active pipe function of the table, when the ids of functions have no dot.
\<close>

lemma function_model_reaches_function:
  assumes "get_function_models env now s = (Inr ms, s')" "m \<in> set ms" "\<forall>f \<in> set (ps_funcs s). CHR ''.'' \<notin> set (fn_id f)"
  shows "\<exists>f \<in> set (ps_funcs s). \<exists>i. fn_type f = ''pipe'' \<and> fn_is_active f \<and> dget m ''id'' = Some (JStr i) \<and> get_pipe_id i = fn_id f"
proof -
  have "models_of_functions env now (get_functions_by_type ''pipe'' True (ps_funcs s)) s = (Inr ms, s')"
    using assms(1) by (simp add: get_function_models_def)
  from models_of_functions_from[OF this assms(2)] obtain f pm huv where f:
    "f \<in> set (get_functions_by_type ''pipe'' True (ps_funcs s))" "m \<in> set (models_of_function f pm huv)" by blast
  then show ?thesis
    using model_of_function[OF f(2)] pipe_of_id assms(3) by (fastforce simp: get_functions_by_type_def all_rows_def)
qed

definition echo_module :: module where
  "echo_module = \<lparr>mo_kind = ''pipe'', mo_toggle = False, mo_has_valves = False, mo_valves = None, mo_user_valves = None,
     mo_file_handler = None, mo_handlers = []\<rparr>"

definition echo_clock :: "datetime \<times> datetime" where
  "echo_clock = (let d = \<lparr>dt_year = 2025, dt_month = 1, dt_day = 2, dt_hour = 3, dt_minute = 4, dt_second = 5\<rparr> in (d, d))"

text \<open>A function with two models, whose pipe yields two texts.\<close>

definition echo_env :: pipe_env where
  "echo_env =
     \<lparr>pv_plugin = \<lparr>pe_exec = (\<lambda>c. Inr echo_module), pe_install = (\<lambda>r. Inr ())\<rparr>,
      pv_module = (\<lambda>i. \<lparr>pm_name = Some ''Echo '',
        pm_pipes = Some (Inr (JList [JDict [(''id'', JStr ''v1.5''), (''name'', JStr ''1.5'')], JDict [(''id'', JStr ''v2''), (''name'', JStr ''2'')]])), pm_signature = [],
        pm_pipe = (\<lambda>v p. Inr (Gives_generator [Line_text ''Hel'', Line_text ''lo''] None))\<rparr>),
      pv_floats = \<lparr>fl_read = (\<lambda>t. None), fl_json = (\<lambda>t. t), fl_int = (\<lambda>i. None), fl_trunc = (\<lambda>t. None)\<rparr>,
      pv_clock = echo_clock, pv_uid = (\<lambda>n. ''u''), pv_time = (\<lambda>n. 7), pv_said = (\<lambda>e. ''failed''), pv_text = (\<lambda>l. []), pv_tools = (\<lambda>v. Inr ())\<rparr>"

definition echo_state :: plugin_state where
  "echo_state =
     \<lparr>ps_funcs = [\<lparr>fn_id = ''echo'', fn_user_id = ''a'', fn_name = ''Echo'', fn_type = ''pipe'', fn_content = ''x'', fn_meta = [],
        fn_valves = None, fn_is_active = True, fn_is_global = False, fn_updated_at = 0, fn_created_at = 3\<rparr>],
      ps_modules = [], ps_contents = []\<rparr>"

lemma function_model_reaches_function_witness:
  "map (\<lambda>m. dget m ''id'') (projr (fst (get_function_models echo_env 5 echo_state))) = [Some (JStr ''echo.v1.5''), Some (JStr ''echo.v2'')] \<and>
   (\<forall>m \<in> set (projr (fst (get_function_models echo_env 5 echo_state))). \<exists>f \<in> set (ps_funcs echo_state). \<exists>i.
     fn_type f = ''pipe'' \<and> fn_is_active f \<and> dget m ''id'' = Some (JStr i) \<and> get_pipe_id i = fn_id f)"
proof
  let ?r = "get_function_models echo_env 5 echo_state"
  show ids: "map (\<lambda>m. dget m ''id'') (projr (fst ?r)) = [Some (JStr ''echo.v1.5''), Some (JStr ''echo.v2'')]" by code_simp
  have "\<not> isl (fst ?r)" by code_simp
  then have r: "?r = (Inr (projr (fst ?r)), snd ?r)" by (cases "fst ?r") (simp_all add: prod_eq_iff)
  have d: "\<forall>f \<in> set (ps_funcs echo_state). CHR ''.'' \<notin> set (fn_id f)" by (simp add: echo_state_def)
  show "\<forall>m \<in> set (projr (fst ?r)). \<exists>f \<in> set (ps_funcs echo_state). \<exists>i.
     fn_type f = ''pipe'' \<and> fn_is_active f \<and> dget m ''id'' = Some (JStr i) \<and> get_pipe_id i = fn_id f"
    using function_model_reaches_function[OF r _ d] by blast
qed

section \<open>What a stream carries\<close>

definition first_choice :: "dict \<Rightarrow> dict" where
  "first_choice d = (case dget d ''choices'' of Some (JList (JDict c # cs)) \<Rightarrow> c | _ \<Rightarrow> [])"

definition chunk_text :: "dict \<Rightarrow> string" where
  "chunk_text d = (case dget (first_choice d) ''delta'' of
     Some (JDict x) \<Rightarrow> (case dget x ''content'' of Some (JStr t) \<Rightarrow> t | _ \<Rightarrow> []) | _ \<Rightarrow> [])"

lemma chunk_of_text [simp]:
  "chunk_text (chunk_of env model n t) = t"
  "dget (first_choice (chunk_of env model n t)) ''finish_reason'' = Some (if t = [] then JStr ''stop'' else JNull)"
  by (auto simp: chunk_text_def first_choice_def chunk_of_def openai_chat_chunk_message_template_def
      openai_chat_message_template_def base_choice_def opt_entry_def Let_def)

lemma finish_message_stops [simp]:
  "chunk_text (finish_message env model n) = []" "dget (first_choice (finish_message env model n)) ''finish_reason'' = Some (JStr ''stop'')"
  by (auto simp: finish_message_def chunk_text_def first_choice_def chunk_of_def openai_chat_chunk_message_template_def
      openai_chat_message_template_def base_choice_def opt_entry_def Let_def)

lemma text_lines:
  "\<forall>t \<in> set ts. \<not> startswith t ''data:'' \<Longrightarrow>
     process_lines env model n (map Line_text ts) None = (map (\<lambda>(k, t). data_line (chunk_of env model k t)) (enumerate n ts), Inr ())"
  by (induction ts arbitrary: n) (auto simp: process_line_def line_text_def)

lemma enumerated_texts: "map (\<lambda>(k, t). chunk_text (chunk_of env model k t)) (enumerate n ts) = ts"
  by (induction ts arbitrary: n) auto

text \<open>
  The texts a function yields one after the other are streamed as chunks with these texts, none of which ends
  the message; a chunk that ends it and the end marker follow.
\<close>

lemma yielded_texts_streamed:
  assumes "\<forall>t \<in> set ts. t \<noteq> [] \<and> \<not> startswith t ''data:''"
  shows "\<exists>chunks final. stream_content env model (Inr (Gives_generator (map Line_text ts) None)) =
      (map data_line chunks @ [data_line final, ''data: [DONE]''], Inr ()) \<and>
    map chunk_text chunks = ts \<and> (\<forall>c \<in> set chunks. dget (first_choice c) ''finish_reason'' = Some JNull) \<and>
    chunk_text final = [] \<and> dget (first_choice final) ''finish_reason'' = Some (JStr ''stop'')"
proof (intro exI conjI)
  let ?chunks = "map (\<lambda>(k, t). chunk_of env model k t) (enumerate 0 ts)"
  let ?final = "finish_message env model (length ts)"
  show "stream_content env model (Inr (Gives_generator (map Line_text ts) None)) =
      (map data_line ?chunks @ [data_line ?final, ''data: [DONE]''], Inr ())"
    using assms by (simp add: stream_content_def text_lines closing_def Let_def case_prod_unfold)
  show "map chunk_text ?chunks = ts" using enumerated_texts[of env model 0 ts] by (simp add: case_prod_unfold comp_def)
  show "\<forall>c \<in> set ?chunks. dget (first_choice c) ''finish_reason'' = Some JNull"
    using assms by (auto simp: in_set_enumerate_eq)
qed simp_all

lemma yielded_texts_streamed_witness:
  "\<exists>chunks final. stream_content echo_env ''echo.v2'' (pm_pipe (pv_module echo_env ''echo'') None []) =
      (map data_line chunks @ [data_line final, ''data: [DONE]''], Inr ()) \<and>
    map chunk_text chunks = [''Hel'', ''lo''] \<and> (\<forall>c \<in> set chunks. dget (first_choice c) ''finish_reason'' = Some JNull) \<and>
    chunk_text final = [] \<and> dget (first_choice final) ''finish_reason'' = Some (JStr ''stop'')"
proof -
  have p: "pm_pipe (pv_module echo_env ''echo'') None [] = Inr (Gives_generator (map Line_text [''Hel'', ''lo'']) None)"
    by (simp add: echo_env_def)
  show ?thesis unfolding p by (rule yielded_texts_streamed) (simp add: startswith_def)
qed

text \<open>An asynchronous generator yields the same chunks, but nothing ends the message.\<close>

lemma async_not_ended:
  "\<forall>t \<in> set ts. \<not> startswith t ''data:'' \<Longrightarrow>
     stream_content env model (Inr (Gives_async (map Line_text ts) None)) =
       (map (\<lambda>(k, t). data_line (chunk_of env model k t)) (enumerate 0 ts), Inr ())"
  by (simp add: stream_content_def text_lines)

text \<open>A pydantic object, which a request without a stream answers with, is lost in a stream.\<close>

lemma object_lost_in_stream:
  "stream_content env model (Inr (Gives_object d)) = ([], Inr ())"
  "whole_answer env model (Inr (Gives_object d)) = Inr (Answer_value (JDict d))"
  by (simp_all add: stream_content_def whole_answer_def)

text \<open>An empty text among the pieces is sent as the end of the message.\<close>

lemma empty_piece_ends_message:
  "process_line env model n (Line_text []) = Inr (data_line (chunk_of env model n [])) \<and>
   dget (first_choice (chunk_of env model n [])) ''finish_reason'' = Some (JStr ''stop'')"
  by (simp add: process_line_def line_text_def startswith_def)

end
