(* ===== verification/Chat_Dispatch.thy ===== *)
theory Chat_Dispatch
  imports Function_Models Model_List Chat_Payload Chat_Privacy
begin

text \<open>
  From the request of a client to a model and back (\<^verbatim>\<open>utils/chat.py\<close>, the chat endpoint of \<^verbatim>\<open>main.py\<close>): admitting a
  request, choosing the model behind an arena, handing the request to the service, the function or the client
  that has the model, the filters and actions after an answer. What the services and the client answer is an
  argument; the state logs what they were asked.
\<close>

section \<open>State and services\<close>

text \<open>Requests to OpenAI and to Ollama with the flag that skips their check of access, to a function, to the client.\<close>

datatype model_call =
    Call_openai bool dict
  | Call_ollama bool dict
  | Call_function dict
  | Call_client dict

record dispatch_state =
  ds_plugins :: plugin_state
  ds_calls :: "model_call list"
  ds_listeners :: "string list"

record dispatch_env =
  de_pipe :: pipe_env
  de_now :: time
  de_users :: user_db
  de_rows :: "model_row list"
  de_groups :: group_db
  de_models :: "(id \<times> dict) list"
  de_bypass :: bool
  de_metadata :: "dict option"
  de_direct :: bool
  de_model :: "dict option"
  de_choose :: "json list \<Rightarrow> nat"
  de_openai :: "bool \<Rightarrow> dict \<Rightarrow> py_error + model_answer"
  de_ollama :: "bool \<Rightarrow> dict \<Rightarrow> py_error + model_answer"
  de_client :: "dict \<Rightarrow> py_error + json"
  de_queue :: "string \<Rightarrow> json list"
  de_request_id :: string
  de_rate :: "int \<Rightarrow> int \<Rightarrow> string"
  de_call_id :: "nat \<Rightarrow> nat \<Rightarrow> string"

type_synonym 'a dispatch = "(dispatch_state, 'a) action"

definition calling :: "model_call \<Rightarrow> 'a dispatch \<Rightarrow> 'a dispatch" where
  "calling c m = next_do (changing (\<lambda>s. s\<lparr>ds_calls := ds_calls s @ [c]\<rparr>)) (\<lambda>_. m)"

definition with_plugin_state :: "'a plugin_action \<Rightarrow> 'a dispatch" where
  "with_plugin_state m s = (case m (ds_plugins s) of (r, p) \<Rightarrow> (r, s\<lparr>ds_plugins := p\<rparr>))"

section \<open>Models of the client\<close>

text \<open>The messages the client sends on the channel of the request, until one of them is the last.\<close>

fun direct_lines :: "json list \<Rightarrow> string list" where
  "direct_lines [] = []"
| "direct_lines (v # vs) = (case v of
     JDict d \<Rightarrow> if truthy (dget_or d ''done'' (JBool False)) then [] else data_line d # direct_lines vs
   | JStr t \<Rightarrow> (if has_text ''data:'' t then t @ nl @ nl else ''data: '' @ t @ nl @ nl) # direct_lines vs
   | _ \<Rightarrow> direct_lines vs)"

definition client_event :: "dict \<Rightarrow> json \<Rightarrow> string \<Rightarrow> json \<Rightarrow> dict" where
  "client_event form model channel session_id =
     [(''type'', JStr ''request:chat:completion''),
      (''data'', JDict [(''form_data'', JDict form), (''model'', model), (''channel'', JStr channel), (''session_id'', session_id)])]"

definition ask_client :: "dispatch_env \<Rightarrow> dict \<Rightarrow> dict \<Rightarrow> json dispatch" where
  "ask_client env metadata event =
     (if dget metadata ''session_id'' \<noteq> None \<and> dget metadata ''chat_id'' \<noteq> None \<and> dget metadata ''message_id'' \<noteq> None
      then calling (Call_client event) (lifted (de_client env event)) else lifted (Inl TypeError))"

definition client_refused :: "json \<Rightarrow> py_error + bool" where
  "client_refused r = and_then (has_key r ''error'') (\<lambda>b. if b then and_then (item_get r ''error'') (\<lambda>v. Inr (truthy v)) else Inr False)"

text \<open>The listener of a stream is taken away when the stream is over; the result says which.\<close>

definition generate_direct_chat_completion ::
  "dispatch_env \<Rightarrow> (id \<times> dict) list \<Rightarrow> dict \<Rightarrow> (model_answer \<times> string option) dispatch" where
  "generate_direct_chat_completion env models form0 =
     (let form = dpop ''metadata'' form0 in
      next_do (lifted (as_dict (dget_or form0 ''metadata'' (JDict [])))) (\<lambda>metadata.
      let session_id = dget_or metadata ''session_id'' JNull;
          channel = py_str (dget_or metadata ''user_id'' JNull) @ '':'' @ py_str session_id @ '':'' @ de_request_id env in
      next_do (lifted (case dget form ''model'' of
          Some (JStr i) \<Rightarrow> (case map_of models i of None \<Rightarrow> Inl KeyError | Some m \<Rightarrow> Inr (JDict m)) | _ \<Rightarrow> Inl KeyError)) (\<lambda>model.
      let event = client_event form model channel session_id in
      if truthy (dget_or form ''stream'' JNull)
      then
        next_do (changing (\<lambda>s. s\<lparr>ds_listeners := channel # ds_listeners s\<rparr>)) (\<lambda>_.
        next_do (ask_client env metadata event) (\<lambda>r.
        next_do (lifted (jget r ''status'' (JBool False))) (\<lambda>status.
          if truthy status then pure (Answer_lines (direct_lines (de_queue env channel)) (Inr ()), Some channel)
          else lifted (Inl ValueError))))
      else
        next_do (ask_client env metadata event) (\<lambda>r.
        next_do (lifted (client_refused r)) (\<lambda>refused. if refused then lifted (Inl ValueError) else pure (Answer_value r, None))))))"

definition stream_over :: "string \<Rightarrow> dispatch_state \<Rightarrow> dispatch_state" where
  "stream_over channel s = s\<lparr>ds_listeners := filter (\<lambda>c. c \<noteq> channel) (ds_listeners s)\<rparr>"

section \<open>Arena\<close>

definition is_arena :: "dict \<Rightarrow> bool" where "is_arena m \<longleftrightarrow> dget m ''owned_by'' = Some (JStr ''arena'')"

definition arena_setting :: "dict \<Rightarrow> string \<Rightarrow> py_error + json" where
  "arena_setting m k =
     and_then (jget (dget_or m ''info'' (JDict [])) ''meta'' (JDict [])) (\<lambda>meta. jget meta k JNull)"

text \<open>\<open>x in v\<close>\<close>

definition value_in :: "json \<Rightarrow> json \<Rightarrow> py_error + bool" where
  "value_in x v = (case v of
     JList xs \<Rightarrow> Inr (x \<in> set xs)
   | _ \<Rightarrow> (case x of JStr k \<Rightarrow> has_key v k | _ \<Rightarrow> Inl TypeError))"

definition ids_without :: "(dict \<Rightarrow> py_error + bool) \<Rightarrow> (id \<times> dict) list \<Rightarrow> py_error + json list" where
  "ids_without out models =
     and_then (filter_raising (\<lambda>m. if is_arena m then Inr False else and_then (out m) (\<lambda>b. Inr (\<not> b))) (map snd models))
       (each (\<lambda>m. item_get (JDict m) ''id''))"

text \<open>The models an arena chooses from: its list or the others, and all of them where that is none.\<close>

definition arena_pool :: "(id \<times> dict) list \<Rightarrow> dict \<Rightarrow> py_error + json list" where
  "arena_pool models m =
     and_then (arena_setting m ''model_ids'') (\<lambda>listed.
     and_then (arena_setting m ''filter_mode'') (\<lambda>mode.
     and_then
       (if truthy listed \<and> mode = JStr ''exclude''
        then and_then (ids_without (\<lambda>m. and_then (item_get (JDict m) ''id'') (\<lambda>i. value_in i listed)) models) (\<lambda>is. Inr (JList is))
        else Inr listed) (\<lambda>pool. case pool of
       JList (i # is) \<Rightarrow> Inr (i # is)
     | _ \<Rightarrow> ids_without (\<lambda>m. Inr False) models)))"

definition random_choice :: "dispatch_env \<Rightarrow> json list \<Rightarrow> py_error + json" where
  "random_choice env is = (if is = [] then Inl IndexError else Inr (is ! (de_choose env is mod length is)))"

text \<open>\<open>v == True\<close>\<close>

definition equals_true :: "json \<Rightarrow> bool" where
  "equals_true v \<longleftrightarrow> v = JBool True \<or> v = JInt 1 \<or> v = JFloat ''1.0''"

definition name_selected :: "dict \<Rightarrow> json \<Rightarrow> model_answer \<Rightarrow> py_error + model_answer" where
  "name_selected form selected a = (case a of
     Answer_lines ls r \<Rightarrow>
       if equals_true (dget_or form ''stream'' JNull) then Inr (Answer_lines (data_line [(''selected_model_id'', selected)] # ls) r)
       else Inl TypeError
   | Answer_value v \<Rightarrow>
       if equals_true (dget_or form ''stream'' JNull) then Inl AttributeError
       else (case v of JDict d \<Rightarrow> Inr (Answer_value (JDict (dset ''selected_model_id'' selected d))) | _ \<Rightarrow> Inl TypeError))"

section \<open>Dispatch\<close>

definition with_request_metadata :: "dispatch_env \<Rightarrow> dict \<Rightarrow> py_error + dict" where
  "with_request_metadata env form = (case de_metadata env of
     None \<Rightarrow> Inr form
   | Some md \<Rightarrow> (case dget form ''metadata'' of
         None \<Rightarrow> Inr (dset ''metadata'' (JDict md) form)
       | Some (JDict d) \<Rightarrow> Inr (dset ''metadata'' (JDict (dmerge d md)) form)
       | Some _ \<Rightarrow> Inl TypeError))"

text \<open>A direct request knows the client's model only. Ids are texts.\<close>

definition known_models :: "dispatch_env \<Rightarrow> py_error + (id \<times> dict) list" where
  "known_models env = (case (de_direct env, de_model env) of
     (True, Some m) \<Rightarrow> (case dget m ''id'' of None \<Rightarrow> Inl KeyError | Some (JStr i) \<Rightarrow> Inr [(i, m)] | Some _ \<Rightarrow> Inl ValueError)
   | _ \<Rightarrow> Inr (de_models env))"

definition requested_model :: "(id \<times> dict) list \<Rightarrow> dict \<Rightarrow> py_error + dict" where
  "requested_model models form = (case dget form ''model'' of
     None \<Rightarrow> Inl KeyError
   | Some (JStr i) \<Rightarrow> (case map_of models i of None \<Rightarrow> Inl ValueError | Some m \<Rightarrow> Inr m)
   | Some _ \<Rightarrow> Inl ValueError)"

definition ollama_answer :: "dispatch_env \<Rightarrow> dict \<Rightarrow> model_answer \<Rightarrow> py_error + model_answer" where
  "ollama_answer env form a =
     (if truthy (dget_or form ''stream'' JNull)
      then (case a of
          Answer_lines cs r \<Rightarrow>
            (case convert_stream (pv_floats (de_pipe env)) (de_rate env) (de_call_id env) (pv_uid (de_pipe env)) (pv_time (de_pipe env)) 0 cs of
               (ls, Inl e) \<Rightarrow> Inr (Answer_lines ls (Inl e))
             | (ls, Inr _) \<Rightarrow> Inr (case r of Inl e \<Rightarrow> Answer_lines (butlast ls) (Inl e) | Inr _ \<Rightarrow> Answer_lines ls r))
        | Answer_value v \<Rightarrow> Inl AttributeError)
      else (case a of
          Answer_value (JDict d) \<Rightarrow>
            and_then (convert_response_ollama_to_openai (de_rate env) (de_call_id env 0) (pv_uid (de_pipe env) 0) (pv_time (de_pipe env) 0) d)
              (\<lambda>x. Inr (Answer_value (JDict x)))
        | _ \<Rightarrow> Inl AttributeError))"

definition ask_service :: "dispatch_env \<Rightarrow> user \<Rightarrow> bool \<Rightarrow> dict \<Rightarrow> dict \<Rightarrow> model_answer dispatch" where
  "ask_service env caller bypass model form =
     (if truthy (dget_or model ''pipe'' JNull)
      then calling (Call_function form)
             (with_plugin_state (generate_function_chat_completion (de_pipe env) (de_now env) caller (de_users env) (de_rows env) form))
      else if dget model ''owned_by'' = Some (JStr ''ollama'')
      then next_do (lifted (convert_payload_openai_to_ollama (pv_floats (de_pipe env)) form)) (\<lambda>f.
           next_do (calling (Call_ollama bypass f) (lifted (de_ollama env bypass f))) (\<lambda>a. lifted (ollama_answer env f a)))
      else calling (Call_openai bypass form) (lifted (de_openai env bypass form)))"

text \<open>
  The choice of an arena is dispatched in turn, without the check of access. A choice that is an arena again goes one
  call deeper; the argument is the depth that is left.
\<close>

fun generate_chat_completion :: "dispatch_env \<Rightarrow> user \<Rightarrow> nat \<Rightarrow> bool \<Rightarrow> dict \<Rightarrow> (model_answer \<times> string option) dispatch" where
  "generate_chat_completion env caller 0 bypass0 form0 = lifted (Inl RecursionError)"
| "generate_chat_completion env caller (Suc n) bypass0 form0 =
     (let bypass = bypass0 \<or> de_bypass env in
      next_do (lifted (with_request_metadata env form0)) (\<lambda>form.
      next_do (lifted (known_models env)) (\<lambda>models.
      next_do (lifted (requested_model models form)) (\<lambda>model.
        if de_direct env then generate_direct_chat_completion env models form
        else
          next_do (lifted (if \<not> bypass \<and> u_role caller = ''user'' then check_model_access caller model (de_groups env) (de_rows env) else Inr ())) (\<lambda>_.
            if is_arena model
            then
              next_do (lifted (and_then (arena_pool (de_models env) model) (random_choice env))) (\<lambda>selected.
              next_do (generate_chat_completion env caller n True (dset ''model'' selected form)) (\<lambda>(a, l).
              next_do (lifted (name_selected form selected a)) (\<lambda>a'. pure (a', l))))
            else next_do (ask_service env caller bypass model form) (\<lambda>a. pure (a, None)))))))"

section \<open>After the answer\<close>

text \<open>Errors of filters and actions are returned as values, not raised.\<close>

datatype reply = Replied json | Returned_error py_error

definition returning_errors :: "('s, json) action \<Rightarrow> ('s, reply) action" where
  "returning_errors m s = (case m s of (Inl e, s') \<Rightarrow> (Inr (Returned_error e), s') | (Inr v, s') \<Rightarrow> (Inr (Replied v), s'))"

definition answer_metadata :: "user \<Rightarrow> dict \<Rightarrow> py_error + dict" where
  "answer_metadata u d =
     and_then (item_get (JDict d) ''chat_id'') (\<lambda>c. and_then (item_get (JDict d) ''id'') (\<lambda>m. and_then (item_get (JDict d) ''session_id'') (\<lambda>s.
       Inr [(''chat_id'', c), (''message_id'', m), (''filter_ids'', dget_or d ''filter_ids'' (JList [])), (''session_id'', s), (''user_id'', JStr (u_id u))])))"

definition outlet_filters :: "plugin_env \<Rightarrow> time \<Rightarrow> (id list \<Rightarrow> id list) \<Rightarrow> dict \<Rightarrow> dict \<Rightarrow> json \<Rightarrow> json plugin_action" where
  "outlet_filters pe now listed model metadata v =
     next_do (get_sorted_filter_ids pe now listed model (enabled_filters metadata)) (\<lambda>is.
     reading (\<lambda>s. process_filter_functions pe now ''outlet'' (List.map_filter (\<lambda>i. get_function_by_id i (ps_funcs s)) is) v))"

definition chat_completed :: "dispatch_env \<Rightarrow> pipeline_env \<Rightarrow> (id list \<Rightarrow> id list) \<Rightarrow> user \<Rightarrow> dict \<Rightarrow> reply plugin_action" where
  "chat_completed env pe listed u form =
     next_do (lifted (known_models env)) (\<lambda>models.
     next_do (lifted (requested_model models form)) (\<lambda>model.
     case process_pipeline_outlet_filter pe u models form of
       Inl e \<Rightarrow> pure (Returned_error e)
     | Inr v \<Rightarrow>
         next_do (lifted (and_then (case v of JDict d \<Rightarrow> Inr d | _ \<Rightarrow> Inl TypeError) (answer_metadata u))) (\<lambda>metadata.
           returning_errors (outlet_filters (pv_plugin (de_pipe env)) (de_now env) listed model metadata v))))"

definition action_and_sub :: "string \<Rightarrow> py_error + id \<times> id option" where
  "action_and_sub i =
     (if CHR ''.'' \<notin> set i then Inr (i, None)
      else (case split_on CHR ''.'' i of [a, b] \<Rightarrow> Inr (a, Some b) | _ \<Rightarrow> Inl ValueError))"

definition action_valves :: "module \<Rightarrow> dict option \<Rightarrow> py_error + dict option" where
  "action_valves m stored = (case mo_valves m of
     None \<Rightarrow> Inr None
   | Some check \<Rightarrow>
       if \<not> mo_has_valves m then Inr None
       else (case check (case stored of None \<Rightarrow> [] | Some d \<Rightarrow> d) of None \<Rightarrow> Inl ValueError | Some v \<Rightarrow> Inr (Some v)))"

definition action_user :: "module \<Rightarrow> user \<Rightarrow> json option \<Rightarrow> dict" where
  "action_user m u stored = (case (mo_user_valves m, stored) of
     (Some check, Some (JDict d)) \<Rightarrow> (case check d of None \<Rightarrow> user_dict u | Some v \<Rightarrow> dset ''valves'' (JDict v) (user_dict u))
   | _ \<Rightarrow> user_dict u)"

text \<open>The action gets a dictionary of what it may name: the data, the model, its id and the user.\<close>

definition chat_action :: "dispatch_env \<Rightarrow> user \<Rightarrow> string \<Rightarrow> dict \<Rightarrow> reply plugin_action" where
  "chat_action env u i form =
     next_do (lifted (action_and_sub i)) (\<lambda>(aid, sub).
     reading (\<lambda>s.
     next_do (lifted (case get_function_by_id aid (ps_funcs s) of None \<Rightarrow> Inl ValueError | Some f \<Rightarrow> Inr f)) (\<lambda>f.
     next_do (lifted (known_models env)) (\<lambda>models.
     next_do (lifted (requested_model models form)) (\<lambda>model.
     next_do (lifted (answer_metadata u form)) (\<lambda>_.
     next_do (get_function_module_from_cache (pv_plugin (de_pipe env)) (de_now env) aid True) (\<lambda>m.
     reading (\<lambda>s1.
     next_do (lifted (action_valves m (get_function_valves_by_id aid (ps_funcs s1)))) (\<lambda>valves.
       case map_of (mo_handlers m) ''action'' of
         None \<Rightarrow> pure (Replied (JDict form))
       | Some handler \<Rightarrow>
           returning_errors (lifted (handler valves (JDict
             [(''body'', JDict form), (''__model__'', JDict model), (''__id__'', JStr (case sub of None \<Rightarrow> aid | Some b \<Rightarrow> b)),
              (''__user__'', JDict (action_user m u (get_user_valves ''functions'' aid (u_id u) (de_users env))))]))))))))))))"

section \<open>Admitting a request\<close>

record admission =
  ad_form :: dict
  ad_metadata :: dict
  ad_model :: dict
  ad_direct :: bool

definition chat_metadata :: "user \<Rightarrow> dict \<Rightarrow> dict \<Rightarrow> json \<Rightarrow> dict \<Rightarrow> dict \<Rightarrow> dict" where
  "chat_metadata u form model direct params row_params =
     [(''user_id'', JStr (u_id u)), (''chat_id'', dget_or form ''chat_id'' JNull), (''message_id'', dget_or form ''id'' JNull),
      (''parent_message_id'', dget_or form ''parent_id'' JNull), (''session_id'', dget_or form ''session_id'' JNull),
      (''filter_ids'', dget_or form ''filter_ids'' (JList [])), (''tool_ids'', dget_or form ''tool_ids'' JNull),
      (''tool_servers'', dget_or form ''tool_servers'' JNull), (''files'', dget_or form ''files'' JNull),
      (''features'', dget_or form ''features'' (JDict [])), (''variables'', dget_or form ''variables'' (JDict [])),
      (''model'', JDict model), (''direct'', direct),
      (''params'', JDict
        [(''stream_delta_chunk_size'',
            if truthy (dget_or row_params ''stream_delta_chunk_size'' JNull) then dget_or row_params ''stream_delta_chunk_size'' JNull
            else dget_or params ''stream_delta_chunk_size'' JNull),
         (''reasoning_tags'',
            if dget_or row_params ''reasoning_tags'' JNull \<noteq> JNull then dget_or row_params ''reasoning_tags'' JNull
            else dget_or params ''reasoning_tags'' JNull),
         (''function_calling'',
            if dget_or params ''function_calling'' JNull = JStr ''native'' \<or> dget_or row_params ''function_calling'' JNull = JStr ''native''
            then JStr ''native'' else JStr ''default'')])]"

text \<open>A chat the request names is the user's own, unless it is a local one or the user an administrator.\<close>

definition chat_admitted :: "user \<Rightarrow> chat_db \<Rightarrow> json \<Rightarrow> py_error + unit" where
  "chat_admitted u db chat_id =
     (if \<not> truthy chat_id \<or> u_role u = ''admin'' then Inr ()
      else (case chat_id of
          JStr i \<Rightarrow>
            if startswith i ''local:'' then Inr ()
            else (case get_chat_by_id_and_user_id i (u_id u) db of None \<Rightarrow> Inl ValueError | Some c \<Rightarrow> Inr ())
        | _ \<Rightarrow> Inl AttributeError))"

definition dpops :: "string list \<Rightarrow> dict \<Rightarrow> dict" where "dpops ks d = foldl (\<lambda>d k. dpop k d) d ks"

text \<open>The client's own model, or one of the list that the user may use, with its row.\<close>

definition admit_model ::
  "dispatch_env \<Rightarrow> bool \<Rightarrow> user \<Rightarrow> json \<Rightarrow> json \<Rightarrow> dict \<Rightarrow> py_error + dict \<times> model_row option" where
  "admit_model env bypass_admin u chosen direct form =
     (if truthy direct then and_then (as_dict chosen) (\<lambda>m. Inr (m, None))
      else
        and_then (case dget form ''model'' of
            Some (JStr i) \<Rightarrow> (case map_of (de_models env) i of None \<Rightarrow> Inl ValueError | Some m \<Rightarrow> Inr (m, get_model_by_id i (de_rows env)))
          | _ \<Rightarrow> Inl ValueError) (\<lambda>(m, row).
        and_then
          (if \<not> de_bypass env \<and> (u_role u \<noteq> ''admin'' \<or> \<not> bypass_admin)
           then check_model_access u m (de_groups env) (de_rows env) else Inr ()) (\<lambda>_. Inr (m, row))))"

definition admit_chat ::
  "dispatch_env \<Rightarrow> bool \<Rightarrow> user \<Rightarrow> chat_db \<Rightarrow> dict \<Rightarrow> http_error + admission" where
  "admit_chat env bypass_admin u db form0 = raising BadRequest
     (let form1 = dpops [''model_item'', ''background_tasks''] form0; chosen = dget_or form0 ''model_item'' (JDict []) in
      and_then (jget chosen ''direct'' (JBool False)) (\<lambda>direct.
      and_then (admit_model env bypass_admin u chosen direct form1) (\<lambda>(model, row).
      and_then (as_dict (dget_or form1 ''params'' (JDict []))) (\<lambda>params.
      let row_params = (case row of None \<Rightarrow> [] | Some x \<Rightarrow> md_params x);
          form2 = (if dget_or row_params ''stream_response'' JNull \<noteq> JNull then dset ''stream'' (dget_or row_params ''stream_response'' JNull) form1 else form1);
          md = chat_metadata u form2 model direct params row_params in
      and_then (chat_admitted u db (dget_or md ''chat_id'' JNull)) (\<lambda>_.
        Inr \<lparr>ad_form = dset ''metadata'' (JDict md) (dpops [''chat_id'', ''id'', ''parent_id'', ''session_id'', ''filter_ids'', ''tool_servers''] form2),
             ad_metadata = md, ad_model = model, ad_direct = truthy direct\<rparr>)))))"

text \<open>The message of a chat that is not local gets its model, or the error that ended its request. Ids are texts.\<close>

definition write_message :: "time \<Rightarrow> dict \<Rightarrow> dict \<Rightarrow> chat_db \<Rightarrow> chat_db" where
  "write_message now md d db = (case (dget_or md ''chat_id'' JNull, dget_or md ''message_id'' JNull) of
     (JStr c, JStr m) \<Rightarrow>
       if c = [] \<or> m = [] \<or> startswith c ''local:'' then db
       else snd (upsert_message_to_chat_by_id_and_message_id now c m ((''parentId'', dget_or md ''parent_message_id'' JNull) # d) db)
   | _ \<Rightarrow> db)"

text \<open>
  The request is prepared and sent (\<open>work\<close>), then its answer is stored (\<open>respond\<close>); an error of either is written to
  the message.
\<close>

definition process_chat ::
  "time \<Rightarrow> (py_error \<Rightarrow> string) \<Rightarrow> dict \<Rightarrow> json \<Rightarrow> (chat_db, 'a) action \<Rightarrow> ('a \<Rightarrow> (chat_db, 'b) action) \<Rightarrow> chat_db \<Rightarrow> 'b option \<times> chat_db" where
  "process_chat now said md model_id work respond db =
     (case next_do work (\<lambda>x. next_do (changing (write_message now md [(''model'', model_id)])) (\<lambda>_. respond x)) db of
        (Inr y, db') \<Rightarrow> (Some y, db')
      | (Inl e, db') \<Rightarrow> (None, write_message now md [(''error'', JDict [(''content'', JStr (said e))])] db'))"

section \<open>An admitted request stays with its user\<close>

lemma admitted_own_chat:
  assumes "chat_admitted u db chat_id = Inr ()" "u_role u \<noteq> ''admin''" "chat_id = JStr c" "c \<noteq> []" "\<not> startswith c ''local:''"
  shows "\<exists>x \<in> set (chats db). cht_id x = c \<and> cht_user_id x = u_id u"
  using assms by (auto simp: chat_admitted_def get_chat_by_id_and_user_id_def split: option.splits dest: first_row_SomeD)

lemma admitted_not_theirs:
  assumes "chat_admitted u db (JStr c) = Inr ()" "u_role u \<noteq> ''admin''" "c \<noteq> []" "\<not> startswith c ''local:''"
    and "unique_key cht_id (chats db)" "v \<noteq> u_id u"
  shows "c \<notin> ids_of v db"
proof
  assume "c \<in> ids_of v db"
  then obtain y where y: "y \<in> set (chats db)" "cht_id y = c" "cht_user_id y = v" by (auto simp: ids_of_iff)
  obtain x where x: "x \<in> set (chats db)" "cht_id x = c" "cht_user_id x = u_id u"
    using admitted_own_chat[OF assms(1,2) refl assms(3,4)] by blast
  then have "x = y" using y assms(5) by (auto simp: unique_key_def distinct_map inj_on_def)
  then show False using x y assms(6) by simp
qed

definition stored_chat :: "dict \<Rightarrow> id option" where
  "stored_chat md = (case dget_or md ''chat_id'' JNull of JStr c \<Rightarrow> if c = [] \<or> startswith c ''local:'' then None else Some c | _ \<Rightarrow> None)"

lemma spares_write [kept]:
  "(\<And>c. stored_chat md = Some c \<Longrightarrow> c \<notin> ids_of v db) \<Longrightarrow> spares v db (write_message now md d db)"
  by (auto simp: write_message_def stored_chat_def split: json.splits intro!: kept)

lemma process_chat_spares:
  assumes "\<And>c. stored_chat md = Some c \<Longrightarrow> c \<notin> ids_of v db"
    and "\<And>d. spares v d (snd (work d))" "\<And>x d. spares v d (snd (respond x d))"
  shows "spares v db (snd (process_chat now said md model_id work respond db))"
proof -
  have w: "spares v db d \<Longrightarrow> spares v d (write_message now md m d)" for d m
    using assms(1) by (intro kept) (simp add: spares_ids)
  have chain: "spares v db d \<Longrightarrow> spares v db (write_message now md m d)" for d m by (blast intro: spares_trans w)
  let ?m = "next_do work (\<lambda>x. next_do (changing (write_message now md [(''model'', model_id)])) (\<lambda>_. respond x))"
  have "keeps (spares v db) ?m"
    using assms(2,3) chain by (intro keeping) (auto simp: keeps_def intro: spares_trans)
  then have "spares v db (snd (?m db))" by (rule keepsD) simp
  then show ?thesis by (auto simp: process_chat_def split: prod.splits sum.splits intro: chain)
qed

lemma admit_model_Inr:
  assumes "admit_model env bypass_admin u chosen direct form = Inr (m, row)"
  shows "truthy direct \<or> (\<exists>i. dget form ''model'' = Some (JStr i) \<and> map_of (de_models env) i = Some m) \<and>
      (de_bypass env \<or> u_role u = ''admin'' \<and> bypass_admin \<or> check_model_access u m (de_groups env) (de_rows env) = Inr ())"
  using assms by (auto simp: admit_model_def and_then_Inr_iff split: if_splits option.splits json.splits)

lemma admit_chat_Inr:
  assumes "admit_chat env bypass_admin u db form = Inr a"
  shows "ad_direct a \<or> (\<exists>i. dget form ''model'' = Some (JStr i) \<and> map_of (de_models env) i = Some (ad_model a)) \<and>
      (de_bypass env \<or> u_role u = ''admin'' \<and> bypass_admin \<or> check_model_access u (ad_model a) (de_groups env) (de_rows env) = Inr ())"
    and "chat_admitted u db (dget_or (ad_metadata a) ''chat_id'' JNull) = Inr ()"
proof -
  let ?form = "dpops [''model_item'', ''background_tasks''] form"
  obtain chosen direct m row where m: "admit_model env bypass_admin u chosen direct ?form = Inr (m, row)"
      "chat_admitted u db (dget_or (ad_metadata a) ''chat_id'' JNull) = Inr ()" "ad_model a = m" "ad_direct a = truthy direct"
    using assms by (auto simp: admit_chat_def raising_def and_then_Inr_iff Let_def split: sum.splits)
  then show "ad_direct a \<or> (\<exists>i. dget form ''model'' = Some (JStr i) \<and> map_of (de_models env) i = Some (ad_model a)) \<and>
      (de_bypass env \<or> u_role u = ''admin'' \<and> bypass_admin \<or> check_model_access u (ad_model a) (de_groups env) (de_rows env) = Inr ())"
    using admit_model_Inr[OF m(1)] by (simp add: dpops_def)
  show "chat_admitted u db (dget_or (ad_metadata a) ''chat_id'' JNull) = Inr ()" by (rule m(2))
qed

text \<open>
  A chat request the server admits names a model the user may use (or one of the client's own), and whatever it
  comes to, the messages and errors written for it leave the chats of every other user as they were, when the
  answering itself does.
\<close>

lemma admitted_request_confined:
  assumes "admit_chat env bypass_admin u db form = Inr a" "u_role u \<noteq> ''admin''" "\<not> de_bypass env"
    and "unique_key cht_id (chats db)" "v \<noteq> u_id u"
    and "\<And>d. spares v d (snd (work d))" "\<And>x d. spares v d (snd (respond x d))"
  shows "(ad_direct a \<or> check_model_access u (ad_model a) (de_groups env) (de_rows env) = Inr ()) \<and>
    spares v db (snd (process_chat now said (ad_metadata a) model_id work respond db))"
proof
  note ad = admit_chat_Inr[OF assms(1)]
  show "ad_direct a \<or> check_model_access u (ad_model a) (de_groups env) (de_rows env) = Inr ()" using ad(1) assms(2,3) by blast
  have "c \<notin> ids_of v db" if "stored_chat (ad_metadata a) = Some c" for c
  proof -
    have c: "dget_or (ad_metadata a) ''chat_id'' JNull = JStr c" "c \<noteq> []" "\<not> startswith c ''local:''"
      using that by (auto simp: stored_chat_def split: json.splits if_splits)
    then have "chat_admitted u db (JStr c) = Inr ()" using ad(2) by simp
    from admitted_not_theirs[OF this assms(2) c(2,3) assms(4,5)] show ?thesis .
  qed
  then show "spares v db (snd (process_chat now said (ad_metadata a) model_id work respond db))"
    using assms(6,7) by (rule process_chat_spares)
qed

section \<open>Who is asked\<close>

definition asked_form :: "floats \<Rightarrow> model_call \<Rightarrow> dict \<Rightarrow> bool" where
  "asked_form fl c form \<longleftrightarrow> (case c of
     Call_openai b f \<Rightarrow> f = form | Call_ollama b f \<Rightarrow> convert_payload_openai_to_ollama fl form = Inr f | Call_function f \<Rightarrow> f = form
   | Call_client e \<Rightarrow> False)"

text \<open>A call for a model of the list that is no arena, or of the client for its own.\<close>

definition proper_call :: "dispatch_env \<Rightarrow> model_call \<Rightarrow> bool" where
  "proper_call env c \<longleftrightarrow>
     (if de_direct env then \<exists>e. c = Call_client e
      else \<exists>form m. asked_form (pv_floats (de_pipe env)) c form \<and> requested_model (de_models env) form = Inr m \<and> \<not> is_arena m)"

lemma calling_Inr: "calling c m s = (Inr x, s') \<longleftrightarrow> m (s\<lparr>ds_calls := ds_calls s @ [c]\<rparr>) = (Inr x, s')"
  by (simp add: calling_def)

lemma plugin_state_calls: "with_plugin_state m s = (r, s') \<Longrightarrow> ds_calls s' = ds_calls s"
  by (auto simp: with_plugin_state_def split: prod.splits)

lemma service_asked:
  assumes "ask_service env caller bypass model form s = (Inr a, s')"
  shows "\<exists>c. ds_calls s' = ds_calls s @ [c] \<and> asked_form (pv_floats (de_pipe env)) c form"
  using assms
  by (auto simp: ask_service_def action_Inr calling_Inr asked_form_def split: if_splits dest!: plugin_state_calls)

lemma client_asked:
  assumes "generate_direct_chat_completion env models form s = (Inr a, s')"
  shows "\<exists>e. ds_calls s' = ds_calls s @ [Call_client e]"
  using assms
  by (auto simp: generate_direct_chat_completion_def ask_client_def action_Inr calling_Inr Let_def split: if_splits)

text \<open>
  A request that is answered was handed to exactly one service, function or client, whatever arenas are in
  between, with the id of a model that is on the list and no arena; only the client of a direct request is asked.
\<close>

lemma answered_by_one_model:
  assumes "generate_chat_completion env caller n bypass form s = (Inr a, s')"
  shows "\<exists>c. ds_calls s' = ds_calls s @ [c] \<and> proper_call env c"
  using assms
proof (induction n arbitrary: bypass form a s)
  case (Suc n)
  obtain f models m where f: "known_models env = Inr models" "requested_model models f = Inr m"
      "(if de_direct env then generate_direct_chat_completion env models f
        else if is_arena m
        then next_do (lifted (and_then (arena_pool (de_models env) m) (random_choice env))) (\<lambda>selected.
              next_do (generate_chat_completion env caller n True (dset ''model'' selected f)) (\<lambda>(a, l).
              next_do (lifted (name_selected f selected a)) (\<lambda>a'. pure (a', l))))
        else next_do (ask_service env caller (bypass \<or> de_bypass env) m f) (\<lambda>a. pure (a, None))) s = (Inr a, s')"
    using Suc.prems by (auto simp: action_Inr Let_def split: if_splits)
  show ?case
  proof (cases "de_direct env")
    case True
    then show ?thesis using client_asked[of env models f s a s'] f(3) by (auto simp: proper_call_def)
  next
    case False
    then have models: "models = de_models env" using f(1) by (simp add: known_models_def)
    show ?thesis
    proof (cases "is_arena m")
      case True
      then show ?thesis using f(3) False Suc.IH by (auto simp: action_Inr)
    next
      case no: False
      then obtain b where "ask_service env caller (bypass \<or> de_bypass env) m f s = (Inr b, s')" using f(3) False by (auto simp: action_Inr)
      from service_asked[OF this] show ?thesis using False no f(2) models by (auto simp: proper_call_def)
    qed
  qed
qed simp

text \<open>A user who may not use the model gets an exception, and nobody is asked.\<close>

lemma refused_model_not_asked:
  assumes "u_role caller = ''user''" "\<not> de_bypass env" "\<not> de_direct env" "with_request_metadata env form = Inr f"
    and "requested_model (de_models env) f = Inr m" "check_model_access caller m (de_groups env) (de_rows env) = Inl e"
  shows "generate_chat_completion env caller (Suc n) False form s = (Inl e, s)"
  using assms by (simp add: known_models_def)

section \<open>Arenas\<close>

definition ids_fit :: "(id \<times> dict) list \<Rightarrow> bool" where
  "ids_fit models \<longleftrightarrow> (\<forall>(i, m) \<in> set models. dget m ''id'' = Some (JStr i))"

definition other_ids :: "(id \<times> dict) list \<Rightarrow> id list" where
  "other_ids models = map fst (filter (\<lambda>(i, m). \<not> is_arena m) models)"

lemma ids_without_run:
  assumes "ids_fit models" "\<And>i m. (i, m) \<in> set models \<Longrightarrow> out m = Inr (drop_id i)"
  shows "ids_without out models = Inr (map JStr (filter (\<lambda>i. \<not> drop_id i) (other_ids models)))"
proof -
  have "and_then (filter_raising (\<lambda>m. if is_arena m then Inr False else and_then (out m) (\<lambda>b. Inr (\<not> b))) (map snd ms))
      (each (\<lambda>m. item_get (JDict m) ''id'')) = Inr (map JStr (filter (\<lambda>i. \<not> drop_id i) (other_ids ms)))"
    if "set ms \<subseteq> set models" for ms
    using that
  proof (induction ms)
    case (Cons x ms)
    obtain i m where x: "x = (i, m)" by (cases x)
    then have "dget m ''id'' = Some (JStr i)" "out m = Inr (drop_id i)" using Cons.prems assms by (auto simp: ids_fit_def)
    then show ?case using Cons x by (auto simp: other_ids_def item_get_def and_then_Inr_iff)
  qed (simp add: other_ids_def)
  then show ?thesis by (simp add: ids_without_def)
qed

text \<open>
  An arena chooses from the models it lists, or, when it excludes its list, from the models that are no arenas
  and not on it; where none is left, from all models that are no arenas.
\<close>

lemma arena_choices_exact:
  assumes "ids_fit models" "arena_setting m ''model_ids'' = Inr (JList xs)" "arena_setting m ''filter_mode'' = Inr mode"
  shows "arena_pool models m = Inr
    (let left = filter (\<lambda>i. JStr i \<notin> set xs) (other_ids models) in
     if xs = [] \<or> mode = JStr ''exclude'' \<and> left = [] then map JStr (other_ids models)
     else if mode = JStr ''exclude'' then map JStr left else xs)"
proof -
  have all: "ids_without (\<lambda>m. Inr False) models = Inr (map JStr (other_ids models))"
    using ids_without_run[OF assms(1), of "\<lambda>m. Inr False" "\<lambda>i. False"] by simp
  have left: "ids_without (\<lambda>m. and_then (item_get (JDict m) ''id'') (\<lambda>i. value_in i (JList xs))) models =
      Inr (map JStr (filter (\<lambda>i. JStr i \<notin> set xs) (other_ids models)))"
    by (rule ids_without_run[OF assms(1)]) (use assms(1) in \<open>auto simp: ids_fit_def item_get_def value_in_def\<close>)
  show ?thesis
    using assms(2,3) all left by (auto simp: arena_pool_def Let_def split: list.splits)
qed

text \<open>Where no arena offers an arena, a depth of two is enough: more never changes a result.\<close>

lemma random_choice_in: "random_choice env is = Inr v \<Longrightarrow> v \<in> set is"
  by (auto simp: random_choice_def split: if_splits)

lemma one_step_enough:
  assumes "\<not> de_direct env" "\<And>j m. dget f ''model'' = Some (JStr j) \<Longrightarrow> map_of (de_models env) j = Some m \<Longrightarrow> \<not> is_arena m"
  shows "generate_chat_completion env caller (Suc k) True f s = generate_chat_completion env caller (Suc 0) True f s"
proof (cases "with_request_metadata env f")
  case (Inr g)
  have g: "dget g ''model'' = dget f ''model''" using Inr by (auto simp: with_request_metadata_def split: option.splits json.splits)
  have "\<not> is_arena m" if "requested_model (de_models env) g = Inr m" for m
    using that g assms(2) by (auto simp: requested_model_def split: option.splits json.splits)
  then show ?thesis using Inr assms(1)
    by (cases "requested_model (de_models env) g") (simp_all add: known_models_def Let_def)
qed simp

lemma depth_two_enough:
  assumes "\<not> de_direct env"
    and "\<And>i m is j. map_of (de_models env) i = Some m \<Longrightarrow> is_arena m \<Longrightarrow> arena_pool (de_models env) m = Inr is \<Longrightarrow>
      JStr j \<in> set is \<Longrightarrow> \<forall>m'. map_of (de_models env) j = Some m' \<longrightarrow> \<not> is_arena m'"
  shows "generate_chat_completion env caller (Suc (Suc n)) bypass form s = generate_chat_completion env caller (Suc (Suc 0)) bypass form s"
proof (cases "with_request_metadata env form")
  case f: (Inr f)
  show ?thesis
  proof (cases "requested_model (de_models env) f")
    case m: (Inr m)
    show ?thesis
    proof (cases "and_then (arena_pool (de_models env) m) (random_choice env)")
      case v: (Inr v)
      have "generate_chat_completion env caller (Suc n) True (dset ''model'' v f) s =
          generate_chat_completion env caller (Suc 0) True (dset ''model'' v f) s" if a: "is_arena m"
      proof (rule one_step_enough[OF assms(1)])
        fix j m' assume j: "dget (dset ''model'' v f) ''model'' = Some (JStr j)" "map_of (de_models env) j = Some m'"
        obtain "is" where "is": "arena_pool (de_models env) m = Inr is" "random_choice env is = Inr v"
          using v by (auto simp: and_then_Inr_iff)
        obtain i where "map_of (de_models env) i = Some m"
          using m by (auto simp: requested_model_def split: option.splits json.splits)
        then show "\<not> is_arena m'" using assms(2)[OF _ a "is"(1), of i j] random_choice_in[OF "is"(2)] j by simp
      qed
      then show ?thesis using f m v assms(1)
        by (simp only: generate_chat_completion.simps(2)[of env caller "Suc n"] generate_chat_completion.simps(2)[of env caller "Suc 0"])
          (auto simp: known_models_def Let_def next_do_def simp del: generate_chat_completion.simps split: sum.splits)
    next
      case (Inl e)
      then show ?thesis using f m assms(1)
        by (simp only: generate_chat_completion.simps(2)[of env caller "Suc n"] generate_chat_completion.simps(2)[of env caller "Suc 0"])
          (auto simp: known_models_def Let_def next_do_def simp del: generate_chat_completion.simps split: sum.splits)
    qed
  next
    case (Inl e)
    then show ?thesis using f assms(1) by (simp add: known_models_def Let_def)
  qed
qed (simp add: Let_def)

text \<open>An arena that lists nothing but itself is never answered, at any depth.\<close>

lemma arena_of_itself:
  assumes "\<not> de_direct env" "de_metadata env = None" "map_of (de_models env) i = Some m" "is_arena m"
    "arena_pool (de_models env) m = Inr [JStr i]" "dget form ''model'' = Some (JStr i)"
  shows "generate_chat_completion env caller n True form s = (Inl RecursionError, s)"
  using assms(6)
proof (induction n arbitrary: form)
  case (Suc n)
  have "random_choice env [JStr i] = Inr (JStr i)" by (simp add: random_choice_def)
  then show ?case using Suc assms(1-5)
    by (simp add: with_request_metadata_def known_models_def requested_model_def Let_def next_do_raised next_do_run(2))
qed simp

section \<open>What goes wrong\<close>

text \<open>A stream the client refuses leaves its listener behind.\<close>

lemma refused_stream_keeps_listener:
  assumes "de_client env (client_event (dpop ''metadata'' form) (JDict m) channel (JStr sid)) = Inr (JDict [(''status'', JBool False)])"
    and "dget form ''metadata'' = Some (JDict [(''user_id'', JStr uid), (''session_id'', JStr sid), (''chat_id'', c), (''message_id'', mid)])"
    and "dget form ''model'' = Some (JStr i)" "map_of models i = Some m" "dget form ''stream'' = Some (JBool True)"
    and "channel = uid @ '':'' @ sid @ '':'' @ de_request_id env"
  shows "\<exists>s'. generate_direct_chat_completion env models form s = (Inl ValueError, s') \<and> channel \<in> set (ds_listeners s')"
  using assms by (simp add: generate_direct_chat_completion_def as_dict_def dget_or_def Let_def ask_client_def calling_def jget_def next_do_def)

text \<open>The error of a pipeline is returned to the endpoint as a value, which answers it as if the request had succeeded.\<close>

lemma outlet_error_returned:
  assumes "known_models env = Inr models" "requested_model models form = Inr m" "process_pipeline_outlet_filter pe u models form = Inl e"
  shows "chat_completed env pe listed u form s = (Inr (Returned_error e), s)"
  using assms by (simp add: chat_completed_def)

lemma each_member: "each f xs = Inr ys \<Longrightarrow> x \<in> set xs \<Longrightarrow> \<exists>y \<in> set ys. f x = Inr y"
  by (induction xs arbitrary: ys) (auto simp: and_then_Inr_iff)

text \<open>The list of models names the actions of a module by the id of the function and their own; with a dot in it they cannot be run.\<close>

lemma dotted_action_refused:
  assumes "get_action_items_from_module f m = Inr items" "ml_actions m = Some acts" "a \<in> set acts"
    "dget a ''id'' = Some (JStr (b @ ''.'' @ d))" "CHR ''.'' \<notin> set (fn_id f)" "CHR ''.'' \<notin> set b"
  shows "(\<exists>x. JDict x \<in> set items \<and> dget x ''id'' = Some (JStr (fn_id f @ ''.'' @ b @ ''.'' @ d))) \<and>
    chat_action env u (fn_id f @ ''.'' @ b @ ''.'' @ d) form s = (Inl ValueError, s)"
proof
  show "\<exists>x. JDict x \<in> set items \<and> dget x ''id'' = Some (JStr (fn_id f @ ''.'' @ b @ ''.'' @ d))"
  proof -
    have "\<exists>y \<in> set items. \<exists>icon. manifest_icon f m = Inr icon \<and> y = JDict [(''id'', JStr (fn_id f @ ''.'' @ b @ ''.'' @ d)),
           (''name'', dget_or a ''name'' (JStr (fn_name f @ '' ('' @ (b @ ''.'' @ d) @ '')''))),
           (''description'', dget_or (fn_meta f) ''description'' JNull), (''icon'', dget_or a ''icon_url'' icon)]"
      using each_member[OF assms(1)[unfolded get_action_items_from_module_def assms(2) option.case] assms(3)] assms(4)
      by (auto simp: item_def and_then_Inr_iff)
    then show ?thesis by auto
  qed
  have "split_on CHR ''.'' (fn_id f @ ''.'' @ b @ ''.'' @ d) = fn_id f # b # split_on CHR ''.'' d"
    using split_on_append_free[OF assms(5)] split_on_append_free[OF assms(6)] by simp
  moreover obtain x xs where "split_on CHR ''.'' d = x # xs" by (cases "split_on CHR ''.'' d") simp_all
  ultimately show "chat_action env u (fn_id f @ ''.'' @ b @ ''.'' @ d) form s = (Inl ValueError, s)"
    by (simp add: chat_action_def action_and_sub_def)
qed

text \<open>Naming a chat of somebody else raises a 404 inside the block that turns every exception into a 400.\<close>

lemma foreign_chat_bad_request:
  "u_role u \<noteq> ''admin'' \<Longrightarrow> c \<noteq> [] \<Longrightarrow> \<not> startswith c ''local:'' \<Longrightarrow> get_chat_by_id_and_user_id c (u_id u) db = None \<Longrightarrow>
     chat_admitted u db (JStr c) = Inl ValueError"
  "admit_chat env bypass_admin u db form = Inl h \<Longrightarrow> h = BadRequest"
  by (simp_all add: chat_admitted_def admit_chat_def raising_def split: sum.splits)

end
