(* ===== verification/Spec2Isabelle.thy ===== *)
theory Spec2Isabelle
  imports Keyed_Store Misc_Text Misc_Messages Stream_Chunks Throttle Rate_Limit Access_Control Folders Channels Chats
    Folder_Deletion Users Channel_Handlers Resources Prompts Notes Tasks Model_Handlers Task_Requests Sessions Chat_Events Responses Tool_Rounds
    Toolkits Chat_Payload Answer_Tasks Accounts OAuth_Accounts Chat_Privacy Feedbacks Scim Model_List Group_Runs Library_Runs
    Memory_Index Function_Models Chat_Dispatch
begin

text \<open>
  A verification development for the Python server of Open WebUI (\<^verbatim>\<open>src/backend/open_webui\<close>).

  The server keeps its state in the tables of a relational database. A module of \<^verbatim>\<open>models/\<close> holds
  one or two tables and a class of operations on them; a module of \<^verbatim>\<open>routers/\<close> holds the HTTP handlers
  that check who asks and call these operations; \<^verbatim>\<open>utils/\<close> holds what both share. The development
  follows that order: tables and their operations first, then the checks across tables, then handlers.

  \<^bold>\<open>How the code is read.\<close> A table is the list of its rows in insertion order, a row a \<open>record\<close> with
  the columns of its class. \<open>filter(p).first()\<close>, \<open>.all()\<close>, \<open>.update()\<close>, \<open>.delete()\<close> and the insert
  that fails on a taken primary key are \<open>first_row\<close>, \<open>all_rows\<close>, \<open>upd_rows\<close>, \<open>del_rows\<close> and
  \<open>add_row\<close> of \<^theory_text>\<open>Prelude\<close>. An operation maps the tables it touches to a result and new tables; where the
  code commits twice, the first commit stays when the second step fails. Exceptions are values of
  \<open>py_error\<close>, the answers of a handler in place of a result values of \<open>http_error\<close>, both in a sum type. JSON
  values are the datatype \<open>json\<close> of \<^theory_text>\<open>Python\<close>, dictionaries association lists in insertion order. Clocks,
  UUIDs, the password check, the database's JSON operators and its default \<open>LIKE\<close> escape are arguments.

  \<^bold>\<open>The theories.\<close>
  \<^item> \<^theory_text>\<open>Prelude\<close>, \<^theory_text>\<open>Python\<close>: rows, results, strings, integers as text, JSON values, exceptions.
  \<^item> \<^theory_text>\<open>Keyed_Store\<close>: the locale \<open>keyed_store\<close> of a table addressed by its key; every run of inserts and
    deletes refines the same run on a partial map. The channel table is an instance.
  \<^item> \<^theory_text>\<open>User_Groups\<close> (\<^verbatim>\<open>models/groups.py\<close>, \<^verbatim>\<open>utils/groups.py\<close>): groups and memberships under their
    constraints, with foreign keys enforced or not; synchronising the groups of a user. \<^theory_text>\<open>Group_Runs\<close>: every run
    of the operations against a specification that keeps the names of the groups and a relation of membership.
  \<^item> \<^theory_text>\<open>Access_Control\<close> (\<^verbatim>\<open>utils/access_control.py\<close>): permission trees and access lists. The locale
    \<open>group_directory\<close> states what the access check needs of the group tables and is interpreted on them.
  \<^item> \<^theory_text>\<open>Folders\<close> (\<^verbatim>\<open>models/folders.py\<close>, the handlers of \<^verbatim>\<open>routers/folders.py\<close>): the tree of chat
    folders; deleting and listing a tree, cycles, unique names of siblings.
  \<^item> \<^theory_text>\<open>Chats\<close> (\<^verbatim>\<open>models/chats.py\<close>, \<^verbatim>\<open>models/tags.py\<close>): chats, the messages kept inside them, shared copies,
    tags. \<^theory_text>\<open>Folder_Deletion\<close>: the handler that deletes a folder together with chats.
  \<^item> \<^theory_text>\<open>Channels\<close> (\<^verbatim>\<open>models/channels.py\<close>): channels and memberships.
  \<^item> \<^theory_text>\<open>Users\<close> (\<^verbatim>\<open>models/users.py\<close>, \<^verbatim>\<open>models/auths.py\<close>): accounts, API keys and credentials; the users
    with access to a resource, compared with the access check; deleting an account over groups, chats,
    credentials and keys, with foreign keys enforced (\<open>fk\<close>) or not.
  \<^item> \<^theory_text>\<open>Messages\<close> (\<^verbatim>\<open>models/messages.py\<close>, \<^verbatim>\<open>utils/channels.py\<close>): channel messages, threads, reactions.
  \<^item> \<^theory_text>\<open>Channel_Handlers\<close> (\<^verbatim>\<open>routers/channels.py\<close>): the handlers over channels, messages, users and
    groups; confinement of requests to their channel, refusals, the list of channels against the check of
    access, and the inputs that block a channel.
  \<^item> \<^theory_text>\<open>Resources\<close>: what the modules of user-owned resources share: the answer with the owner, the access
    check of a row, the check in front of a handler. The locale \<open>guarded_resource\<close> states that a request
    changes no row but the one it addresses, and that one only for who may write; runs of requests follow.
  \<^item> \<^theory_text>\<open>Prompts\<close>, \<^theory_text>\<open>Notes\<close> (\<^verbatim>\<open>models/prompts.py\<close>, \<^verbatim>\<open>models/notes.py\<close> and their routers): instances of it,
    with the paging of the note lists against the filtered list.
  \<^item> \<^theory_text>\<open>Files\<close> (\<^verbatim>\<open>models/files.py\<close>, \<^verbatim>\<open>models/knowledge.py\<close>): files, knowledge bases and the links
    between them under the constraints of the tables. \<^theory_text>\<open>Library_Handlers\<close> (\<^verbatim>\<open>routers/files.py\<close>,
    \<^verbatim>\<open>routers/knowledge.py\<close>, \<open>process_file\<close> of \<^verbatim>\<open>routers/retrieval.py\<close>): the handlers over them; the vector
    database, the loaders and the digest are the record \<open>rt\<close> of functions. \<^theory_text>\<open>Library_Runs\<close>: every run of the
    operations against a specification of existing files, existing bases and a relation between them.
  \<^item> \<^theory_text>\<open>Model_Handlers\<close> (\<^verbatim>\<open>models/models.py\<close>, \<^verbatim>\<open>routers/models.py\<close>): workspace models, import and
    synchronisation, and the deletion of a knowledge base, which rewrites the models that refer to it.
  \<^item> \<^theory_text>\<open>Tasks\<close> (\<^verbatim>\<open>tasks.py\<close>): the registry of running tasks; it refines the list of the tasks that were
    started and not yet cleaned up.
  \<^item> \<^theory_text>\<open>Task_Templates\<close>, \<^theory_text>\<open>Task_Requests\<close> (\<^verbatim>\<open>utils/task.py\<close>, \<^verbatim>\<open>routers/tasks.py\<close>): the templates of the
    prompts for background tasks and the requests for titles, tags, queries and the like built from them: which
    are admitted, which model they ask, what their payload holds.
  \<^item> \<^theory_text>\<open>Documents\<close>, \<^theory_text>\<open>Sessions\<close>, \<^theory_text>\<open>Chat_Events\<close> (\<^verbatim>\<open>socket/utils.py\<close>, \<^verbatim>\<open>socket/main.py\<close>): documents edited
    together, with the check in front of the documents of notes; the sessions of users, their rooms and the
    models in use; the events of a running chat and what they write into its message.
  \<^item> \<^theory_text>\<open>Json_Text\<close>: JSON values written and read as text, with the round trip \<open>json_roundtrip\<close>.
    \<^theory_text>\<open>Payload\<close>, \<^theory_text>\<open>Responses\<close> (\<^verbatim>\<open>utils/payload.py\<close>, \<^verbatim>\<open>utils/response.py\<close>): the parameters of a model put into a
    request; requests and answers converted between the formats of OpenAI and Ollama.
  \<^item> \<^theory_text>\<open>Actions\<close>: steps that change a state and may raise, for the code where an exception in the middle
    keeps what was done before it.
  \<^item> \<^theory_text>\<open>Content_Blocks\<close>, \<^theory_text>\<open>Chat_Stream\<close>, \<^theory_text>\<open>Tool_Rounds\<close> (\<open>response_handler\<close> in \<^verbatim>\<open>utils/middleware.py\<close>): the
    streamed answer of a model. The blocks of an answer and the tags found in it; the lines of the stream, the
    fragments of tool calls put together; running the tools and the code, asking the model again, saving. Tools,
    code engine and the further answers of the model are arguments, as are the clock readings.
  \<^item> \<^theory_text>\<open>Plugins\<close>, \<^theory_text>\<open>Function_Handlers\<close>, \<^theory_text>\<open>Toolkits\<close> (\<^verbatim>\<open>models/functions.py\<close>, \<^verbatim>\<open>models/tools.py\<close>,
    \<^verbatim>\<open>utils/plugin.py\<close>, \<^verbatim>\<open>utils/filter.py\<close>, \<^verbatim>\<open>routers/functions.py\<close>, \<^verbatim>\<open>routers/tools.py\<close>): the Python texts users
    add as functions and tools, their modules and the cache of them, the filters of a request, the valves. What
    executing a text gives is an argument; tools are another instance of \<open>guarded_resource\<close>. \<^theory_text>\<open>Priorities\<close>: the
    numbers filters are sorted by. \<^theory_text>\<open>Function_Models\<close> (\<^verbatim>\<open>functions.py\<close>): the models functions offer, and a chat
    request answered by a function.
  \<^item> \<^theory_text>\<open>Retrieval\<close> (\<^verbatim>\<open>retrieval/utils.py\<close>): the sources of the items attached to a request, which
    of them the code checks (\<open>readable_item\<close>) and which it gives to everybody, and the merging of query results; the
    vector database and the models behind it are functions.
  \<^item> \<^theory_text>\<open>Memories\<close> (\<^verbatim>\<open>models/memories.py\<close>, \<^verbatim>\<open>routers/memories.py\<close>): what the model is to remember of a user,
    in the table and in the user's collection of the vector database. The contract \<open>vector_db_laws\<close> says when the
    collection follows the table. \<^theory_text>\<open>Memory_Index\<close> (\<^verbatim>\<open>retrieval/vector/dbs/chroma.py\<close>, \<^verbatim>\<open>qdrant.py\<close>): the Chroma adapter
    over its client, which keeps the contract while the service fails only for missing collections, and the deletion
    of Qdrant, which never removes a memory.
  \<^item> \<^theory_text>\<open>Chat_Context\<close>, \<^theory_text>\<open>Chat_Services\<close>, \<^theory_text>\<open>Chat_Payload\<close> (the request side of \<^verbatim>\<open>utils/middleware.py\<close>),
    \<^theory_text>\<open>Pipelines\<close> (\<^verbatim>\<open>routers/pipelines.py\<close>): a chat request on its way to the model: parameters, prompts, filters,
    memories, web search, images, files, tools, and the context with its citations. An action that may loop for
    ever (a conversation with a cycle) has no result; the lemmas on sources speak of the requests that return.
    \<^theory_text>\<open>Answer_Tasks\<close>: the answer that is no stream, and the title, tags and follow-ups asked for after an answer.
    \<^theory_text>\<open>Chat_Dispatch\<close> (\<^verbatim>\<open>utils/chat.py\<close>, the chat endpoint of \<^verbatim>\<open>main.py\<close>): admitting a request, the model behind an
    arena, the service, function or client that answers, filters and actions after the answer.
  \<^item> \<^theory_text>\<open>Account_Handlers\<close> (\<^verbatim>\<open>routers/users.py\<close>, \<^verbatim>\<open>routers/groups.py\<close>), \<^theory_text>\<open>Auth_Tokens\<close> (\<^verbatim>\<open>utils/auth.py\<close>, the
    restriction of API keys in \<^verbatim>\<open>main.py\<close>), \<^theory_text>\<open>Sign_In\<close> (\<^verbatim>\<open>routers/auths.py\<close>): the administration of accounts, the
    tokens that name a user, signing up, in and out. \<^theory_text>\<open>Session_Life\<close> and \<^theory_text>\<open>Accounts\<close> hold what follows across
    them: the life of a token, and that no run of requests takes the first account's rights.
  \<^item> \<^theory_text>\<open>Chat_Handlers\<close> (\<^verbatim>\<open>routers/chats.py\<close>, the search of \<^verbatim>\<open>models/chats.py\<close>): the handlers of users over
    their chats. \<^theory_text>\<open>Chat_Privacy\<close>: runs of their requests leave the chats of other users alone, by a
    relation \<open>spares\<close> that every operation keeps; and the requests that reach further than they should.
  \<^item> \<^theory_text>\<open>Feedbacks\<close> (\<^verbatim>\<open>models/feedbacks.py\<close>, \<^verbatim>\<open>routers/evaluations.py\<close>): the ratings of answers, and
    who changes which. \<^theory_text>\<open>Scim\<close> (\<^verbatim>\<open>routers/scim.py\<close>): accounts and groups written by an external directory, with
    what such requests get wrong.
  \<^item> \<^theory_text>\<open>Model_List\<close> (\<^verbatim>\<open>utils/models.py\<close>): the list of models, put together from the services, the functions and the
    rows of the workspace; who may use a model, in the list and in front of a chat.
  \<^item> \<^theory_text>\<open>OAuth_Sessions\<close> (\<^verbatim>\<open>models/oauth_sessions.py\<close>, the clients and refreshing of \<^verbatim>\<open>utils/oauth.py\<close>),
    \<^theory_text>\<open>OAuth_Accounts\<close> (the callback of \<open>OAuthManager\<close>): tokens of identity providers kept for users; roles,
    groups (among all that exist after the sign-in) and pictures taken from their claims. Encryption, signatures and the providers are arguments.
  \<^item> \<^theory_text>\<open>Misc_Text\<close>, \<^theory_text>\<open>Misc_Messages\<close>, \<^theory_text>\<open>Stream_Chunks\<close>, \<^theory_text>\<open>Throttle\<close> (\<^verbatim>\<open>utils/misc.py\<close>): text and
    dictionary helpers, chat message lists, the handler of oversized stream lines, the call throttle under
    every interleaving of threads.
  \<^item> \<^theory_text>\<open>Rate_Limit\<close> (\<^verbatim>\<open>utils/rate_limit.py\<close>): the bucketed limiter against a count over the window.

  \<^bold>\<open>Recursion and loops.\<close> Python functions that recurse over stored links (folders, messages) take the
  recursion depth that is left as an argument and raise \<open>RecursionError\<close> at zero, as Python does. The
  lemmas say how much is enough: for folders a depth above the height of the tree below a folder, for
  messages some depth exists exactly when the chain of quotes ends (\<open>message_lookup_returns_iff\<close>), and more depth
  never changes a result. The choice of an arena is dispatched with the depth that is left; two is enough when no
  arena offers an arena (\<open>depth_two_enough\<close>). The loop over parent links in \<open>get_message_list\<close> has no such limit: it is a
  partial function, and \<open>get_message_list_returns_iff\<close> says when it returns. The loops that collect a page of
  notes and that stop the tasks of an item end by a measure. The rounds of tool calls and of code are bounded
  by the retries the code allows.

  \<^bold>\<open>Not modelled.\<close> HTTP transport, sockets and the events sent over them, calls of language models, the bytes
  of files, the insides of vector databases and external identity providers: their effects are outside the tables.
  Of signing out the branch for a session of an identity provider is left out. Only integers, truth values and
  finite floats are priorities. The order of rows a query leaves open is insertion order.
  Characters are code points below 256. Concurrent transactions are not interleaved, except in \<^theory_text>\<open>Throttle\<close>.
  Of the task registry and of the socket server the parts on Redis, of files the upload and the search by file pattern, of models the
  profile images. The proxies of model servers, audio and images, the loaders and search engines, the start-up and
  the persisted configuration are calls of other systems with little state of their own.
\<close>

end
